(* ===== verification/Runtime_Prelude.thy ===== *)
theory Runtime_Prelude
  imports Complex_Main "HOL-Library.AList" "HOL-Library.Char_ord" "HOL-Library.List_Lexorder"
begin

section \<open>What every component shares\<close>

text \<open>
  This theory holds the Python the components have in common: strings and the formatting the
  code does with them (decimal integers, zero padding, \<open>str.join\<close>, \<open>str.strip\<close>, \<open>repr\<close>),
  dictionaries as association lists that keep their insertion order, lists that are kept
  sorted and free of duplicates, and fallible computations.  A Python \<open>str\<close> is a list of
  characters with code points below 256; a Python \<open>int\<close> is an \<open>int\<close>; a dictionary is an
  association list whose keys are distinct, read by \<open>map_of\<close> and written by \<open>AList.update\<close>,
  which replaces a key in place and appends a new one at the end, as \<open>d[k] = v\<close> does.

  It also holds the development's named collections and the generic lemmas that the
  component theories rely on.
\<close>

named_theorems enum_values \<open>the string values of the runtime's enumerations\<close>
named_theorems frame \<open>which fields an operation leaves alone\<close>

subsection \<open>Fallible computations\<close>

text \<open>An exception is the left value of a sum; \<open>res_bind\<close> runs the rest only after a normal return.\<close>

definition res_bind :: "'e + 'a \<Rightarrow> ('a \<Rightarrow> 'e + 'b) \<Rightarrow> 'e + 'b" where
  "res_bind r f = (case r of Inl e \<Rightarrow> Inl e | Inr x \<Rightarrow> f x)"

lemma res_bind_simps [simp]:
  "res_bind (Inl e) f = Inl e"
  "res_bind (Inr x) f = f x"
  by (simp_all add: res_bind_def)

lemma res_bind_Inr_iff: "res_bind r f = Inr y \<longleftrightarrow> (\<exists>x. r = Inr x \<and> f x = Inr y)"
  by (cases r) simp_all

lemma res_bind_Inl_iff:
  "res_bind r f = Inl e \<longleftrightarrow> r = Inl e \<or> (\<exists>x. r = Inr x \<and> f x = Inl e)"
  by (cases r) simp_all

lemma res_bind_cong [fundef_cong]:
  "r = r' \<Longrightarrow> (\<And>x. r' = Inr x \<Longrightarrow> f x = g x) \<Longrightarrow> res_bind r f = res_bind r' g"
  by (cases r) auto

definition is_ok :: "'e + 'a \<Rightarrow> bool" where
  "is_ok r = (case r of Inl _ \<Rightarrow> False | Inr _ \<Rightarrow> True)"

lemma is_ok_simps [simp]: "\<not> is_ok (Inl e)" "is_ok (Inr x)"
  by (simp_all add: is_ok_def)

lemma is_ok_iff: "is_ok r \<longleftrightarrow> (\<exists>x. r = Inr x)"
  by (cases r) simp_all

subsection \<open>Strings\<close>

text \<open>\<open>str(i)\<close> of an integer, and \<open>f"{i:0wd}"\<close>, whose padding goes between sign and digits.\<close>

fun nat_digits :: "nat \<Rightarrow> string" where
  "nat_digits n =
     (if n < 10 then [''0123456789'' ! n] else nat_digits (n div 10) @ [''0123456789'' ! (n mod 10)])"

declare nat_digits.simps [simp del]

definition py_int_str :: "int \<Rightarrow> string" where
  "py_int_str i = (if i < 0 then ''-'' @ nat_digits (nat (- i)) else nat_digits (nat i))"

definition py_int_pad :: "nat \<Rightarrow> int \<Rightarrow> string" where
  "py_int_pad w i =
     (let ds = nat_digits (nat \<bar>i\<bar>); sgn = (if i < 0 then ''-'' else '''')
      in sgn @ replicate (w - length sgn - length ds) (CHR ''0'') @ ds)"

text \<open>\<open>sep.join(xs)\<close>.\<close>

fun py_join :: "string \<Rightarrow> string list \<Rightarrow> string" where
  "py_join sep [] = ''''"
| "py_join sep [x] = x"
| "py_join sep (x # y # xs) = x @ sep @ py_join sep (y # xs)"

text \<open>\<open>str.isspace\<close> on the code points below 256, and \<open>str.strip()\<close>.\<close>

definition py_space :: "char \<Rightarrow> bool" where
  "py_space c = (let n = (of_char c :: nat)
     in (9 \<le> n \<and> n \<le> 13) \<or> (28 \<le> n \<and> n \<le> 32) \<or> n = 133 \<or> n = 160)"

definition py_lstrip :: "string \<Rightarrow> string" where
  "py_lstrip s = dropWhile py_space s"

definition py_rstrip :: "string \<Rightarrow> string" where
  "py_rstrip s = rev (dropWhile py_space (rev s))"

definition py_strip :: "string \<Rightarrow> string" where
  "py_strip s = py_rstrip (py_lstrip s)"

definition starts_with :: "string \<Rightarrow> string \<Rightarrow> bool" where
  "starts_with p s = (take (length p) s = p)"

lemma starts_with_append [simp]: "starts_with p (p @ s)"
  by (simp add: starts_with_def)

lemma starts_withE: "starts_with p s \<Longrightarrow> (\<And>r. s = p @ r \<Longrightarrow> P) \<Longrightarrow> P"
  by (metis append_take_drop_id starts_with_def)

text \<open>\<open>repr(s)\<close> of a string: single quotes unless the text has a single and no double one.\<close>

definition hex_digit :: "nat \<Rightarrow> char" where
  "hex_digit n = ''0123456789abcdef'' ! n"

definition py_repr_char :: "char \<Rightarrow> char \<Rightarrow> string" where
  "py_repr_char q c = (let n = (of_char c :: nat) in
     if c = q \<or> c = CHR 0x5C then [CHR 0x5C, c]
     else if n = 9 then [CHR 0x5C, CHR ''t'']
     else if n = 10 then [CHR 0x5C, CHR ''n'']
     else if n = 13 then [CHR 0x5C, CHR ''r'']
     else if n < 32 \<or> (127 \<le> n \<and> n \<le> 160) \<or> n = 173
       then [CHR 0x5C, CHR ''x'', hex_digit (n div 16), hex_digit (n mod 16)]
     else [c])"

definition py_repr_str :: "string \<Rightarrow> string" where
  "py_repr_str s =
     (let q = (if CHR 0x27 \<in> set s \<and> CHR 0x22 \<notin> set s then CHR 0x22 else CHR 0x27)
      in [q] @ concat (map (py_repr_char q) s) @ [q])"

text \<open>\<open>repr\<close> of a list of strings, as an f-string prints it.\<close>

definition py_repr_strs :: "string list \<Rightarrow> string" where
  "py_repr_strs xs = ''['' @ py_join '', '' (map py_repr_str xs) @ '']''"

text \<open>\<open>a or b\<close> for an optional string \<open>a\<close>: the empty string counts as absent.\<close>

definition str_or :: "string option \<Rightarrow> string \<Rightarrow> string" where
  "str_or a b = (case a of None \<Rightarrow> b | Some s \<Rightarrow> if s = '''' then b else s)"

lemma str_or_simps [simp]:
  "str_or None b = b"
  "str_or (Some '''') b = b"
  "s \<noteq> '''' \<Longrightarrow> str_or (Some s) b = s"
  by (simp_all add: str_or_def)

subsection \<open>Dictionaries\<close>

lemma map_of_update [simp]: "map_of (AList.update k v d) = (map_of d)(k \<mapsto> v)"
  by (rule update_conv')

definition dict_update :: "('k \<times> 'v) list \<Rightarrow> ('k \<times> 'v) list \<Rightarrow> ('k \<times> 'v) list" where
  "dict_update d e = fold (\<lambda>(k, v) acc. AList.update k v acc) e d"

lemma distinct_dict_update: "distinct (map fst d) \<Longrightarrow> distinct (map fst (dict_update d e))"
  unfolding dict_update_def
  by (induction e arbitrary: d) (auto simp: distinct_update)

text \<open>\<open>counts[k] = counts.get(k, 0) + 1\<close>, the counting idiom of the runtime.\<close>

definition dict_count :: "'k \<Rightarrow> ('k \<times> int) list \<Rightarrow> ('k \<times> int) list" where
  "dict_count k d = AList.update k ((case map_of d k of None \<Rightarrow> 0 | Some n \<Rightarrow> n) + 1) d"

lemma sum_list_update:
  "distinct (map fst d) \<Longrightarrow>
   sum_list (map snd (AList.update k v d)) =
     sum_list (map snd d) - (case map_of d k of None \<Rightarrow> 0 | Some n \<Rightarrow> n) + (v :: int)"
  by (induction d) (auto simp: image_iff split: option.split dest: map_of_SomeD)

lemma sum_dict_count:
  "distinct (map fst d) \<Longrightarrow> sum_list (map snd (dict_count k d)) = sum_list (map snd d) + 1"
  by (simp add: dict_count_def sum_list_update)

lemma distinct_dict_count [intro]:
  "distinct (map fst d) \<Longrightarrow> distinct (map fst (dict_count k d))"
  by (simp add: dict_count_def distinct_update)

subsection \<open>Lists kept sorted and free of duplicates\<close>

text \<open>\<open>if x not in xs: xs.append(x); xs.sort()\<close>.\<close>

definition add_sorted :: "'a::linorder \<Rightarrow> 'a list \<Rightarrow> 'a list" where
  "add_sorted x xs = (if x \<in> set xs then xs else sort (xs @ [x]))"

lemma set_add_sorted [simp]: "set (add_sorted x xs) = insert x (set xs)"
  by (auto simp: add_sorted_def)

lemma distinct_add_sorted [intro]: "distinct xs \<Longrightarrow> distinct (add_sorted x xs)"
  by (simp add: add_sorted_def)

lemma sorted_add_sorted [intro]: "sorted xs \<Longrightarrow> sorted (add_sorted x xs)"
  by (simp add: add_sorted_def)

text \<open>\<open>enumerate(xs)\<close> as pairs of index and value.\<close>

lemma filter_index_sorted: "sorted (filter P [0..<n])" and
  filter_index_distinct: "distinct (filter P [0..<n])"
  by (simp_all add: sorted_wrt_filter)

lemma sorted_distinct_upt_eq:
  assumes "sorted xs" "distinct xs" "set xs = {..<n}"
  shows "xs = [0..<n]"
  using assms by (metis atLeast_upt distinct_upt sorted_distinct_set_unique sorted_upt)

end
