(* ===== verification/Py_Value.thy ===== *)
theory Py_Value
  imports Runtime_Prelude
begin

section \<open>The values of tool arguments and metadata\<close>

text \<open>
  Tool arguments, JSON schemas and result metadata are Python values built from \<open>None\<close>,
  booleans, integers, floats, strings, lists and dictionaries with string keys.  A float is
  its (finite) value together with the text \<open>repr\<close> prints for it; \<open>NaN\<close> and the infinities
  are not modelled.  This theory defines the operations of the language on these values that
  the components use: truth, \<open>==\<close>, \<open>str\<close>, \<open>repr\<close> and \<open>json.dumps\<close> with sorted keys.
\<close>

datatype json =
    JNull
  | JBool bool
  | JInt int
  | JFloat rat string
  | JStr string
  | JList "json list"
  | JObj "(string \<times> json) list"

type_synonym pydict = "(string \<times> json) list"

subsection \<open>Well-formed values: every dictionary has distinct keys\<close>

fun json_wf :: "json \<Rightarrow> bool" where
  "json_wf (JList xs) = list_all json_wf xs"
| "json_wf (JObj kvs) = (distinct (map fst kvs) \<and> list_all (\<lambda>kv. json_wf (snd kv)) kvs)"
| "json_wf _ = True"

text \<open>Structural size, for the recursions that walk a value along a path or a schema.\<close>

lemma size_list_snd_mem [termination_simp]:
  "(k, v) \<in> set kvs \<Longrightarrow> size v < Suc (size_list (\<lambda>x. Suc (size (snd x))) kvs)"
  by (induction kvs) auto

lemma size_list_snd_map_of [termination_simp]:
  "map_of kvs k = Some v \<Longrightarrow> size v < Suc (size_list (\<lambda>x. Suc (size (snd x))) kvs)"
  by (rule size_list_snd_mem) (rule map_of_SomeD)

lemma size_list_zip_mem [termination_simp]:
  "(x, y) \<in> set (zip xs ys) \<Longrightarrow> size x < Suc (size_list size xs)"
  by (drule set_zip_leftD, induction xs) auto

lemma size_json_map_of: "map_of kvs k = Some v \<Longrightarrow> size v < size (JObj kvs)"
  using size_list_snd_map_of [of kvs k v] by (simp add: size_prod_simp comp_def)

lemma json_wf_map_of: "json_wf (JObj kvs) \<Longrightarrow> map_of kvs k = Some v \<Longrightarrow> json_wf v"
  by (auto simp: list_all_iff dest: map_of_SomeD)

subsection \<open>Truth and equality\<close>

fun py_truthy :: "json \<Rightarrow> bool" where
  "py_truthy JNull = False"
| "py_truthy (JBool b) = b"
| "py_truthy (JInt i) = (i \<noteq> 0)"
| "py_truthy (JFloat r _) = (r \<noteq> 0)"
| "py_truthy (JStr s) = (s \<noteq> '''')"
| "py_truthy (JList xs) = (xs \<noteq> [])"
| "py_truthy (JObj kvs) = (kvs \<noteq> [])"

text \<open>\<open>bool\<close> is a subclass of \<open>int\<close>, and numbers of different types compare by value.\<close>

fun py_number :: "json \<Rightarrow> rat option" where
  "py_number (JBool b) = Some (if b then 1 else 0)"
| "py_number (JInt i) = Some (of_int i)"
| "py_number (JFloat r _) = Some r"
| "py_number _ = None"

fun py_eq :: "json \<Rightarrow> json \<Rightarrow> bool" where
  "py_eq JNull JNull = True"
| "py_eq (JStr s) (JStr t) = (s = t)"
| "py_eq (JList xs) (JList ys) =
     (length xs = length ys \<and> list_all (\<lambda>(x, y). py_eq x y) (zip xs ys))"
| "py_eq (JObj xs) (JObj ys) =
     (length xs = length ys \<and>
      list_all (\<lambda>(k, v). case map_of ys k of None \<Rightarrow> False | Some w \<Rightarrow> py_eq v w) xs)"
| "py_eq x y =
     (case (py_number x, py_number y) of (Some a, Some b) \<Rightarrow> a = b | _ \<Rightarrow> False)"

text \<open>\<open>value in values\<close> for a list of values.\<close>

definition py_in :: "json \<Rightarrow> json list \<Rightarrow> bool" where
  "py_in v vs = list_ex (\<lambda>w. py_eq w v) vs"

subsection \<open>\<open>repr\<close>, \<open>str\<close> and \<open>json.dumps\<close>\<close>

fun py_repr :: "json \<Rightarrow> string" where
  "py_repr JNull = ''None''"
| "py_repr (JBool b) = (if b then ''True'' else ''False'')"
| "py_repr (JInt i) = py_int_str i"
| "py_repr (JFloat _ t) = t"
| "py_repr (JStr s) = py_repr_str s"
| "py_repr (JList xs) = ''['' @ py_join '', '' (map py_repr xs) @ '']''"
| "py_repr (JObj kvs) =
     ''{'' @ py_join '', '' (map (\<lambda>(k, v). py_repr_str k @ '': '' @ py_repr v) kvs) @ ''}''"

definition py_str :: "json \<Rightarrow> string" where
  "py_str v = (case v of JStr s \<Rightarrow> s | _ \<Rightarrow> py_repr v)"

text \<open>\<open>json.dumps(s, ensure_ascii=False)\<close> of a string, and of a value with \<open>sort_keys=True\<close>.\<close>

definition json_escape_char :: "char \<Rightarrow> string" where
  "json_escape_char c = (let n = (of_char c :: nat) in
     if c = CHR 0x22 \<or> c = CHR 0x5C then [CHR 0x5C, c]
     else if n = 8 then [CHR 0x5C, CHR ''b'']
     else if n = 9 then [CHR 0x5C, CHR ''t'']
     else if n = 10 then [CHR 0x5C, CHR ''n'']
     else if n = 12 then [CHR 0x5C, CHR ''f'']
     else if n = 13 then [CHR 0x5C, CHR ''r'']
     else if n < 32 then [CHR 0x5C, CHR ''u'', CHR ''0'', CHR ''0'',
                          hex_digit (n div 16), hex_digit (n mod 16)]
     else [c])"

definition json_str :: "string \<Rightarrow> string" where
  "json_str s = [CHR 0x22] @ concat (map json_escape_char s) @ [CHR 0x22]"

fun json_dumps :: "json \<Rightarrow> string" where
  "json_dumps JNull = ''null''"
| "json_dumps (JBool b) = (if b then ''true'' else ''false'')"
| "json_dumps (JInt i) = py_int_str i"
| "json_dumps (JFloat _ t) = t"
| "json_dumps (JStr s) = json_str s"
| "json_dumps (JList xs) = ''['' @ py_join '', '' (map json_dumps xs) @ '']''"
| "json_dumps (JObj kvs) =
     ''{'' @ py_join '', ''
        (map (\<lambda>(k, t). json_str k @ '': '' @ t)
          (sort_key fst (map (\<lambda>(k, v). (k, json_dumps v)) kvs))) @ ''}''"

text \<open>\<open>json.dumps(value, ensure_ascii=False)\<close>, with the keys of an object in their order.\<close>

fun json_dumps_unsorted :: "json \<Rightarrow> string" where
  "json_dumps_unsorted JNull = ''null''"
| "json_dumps_unsorted (JBool b) = (if b then ''true'' else ''false'')"
| "json_dumps_unsorted (JInt i) = py_int_str i"
| "json_dumps_unsorted (JFloat _ t) = t"
| "json_dumps_unsorted (JStr s) = json_str s"
| "json_dumps_unsorted (JList xs) = ''['' @ py_join '', '' (map json_dumps_unsorted xs) @ '']''"
| "json_dumps_unsorted (JObj kvs) =
     ''{'' @ py_join '', '' (map (\<lambda>(k, v). json_str k @ '': '' @ json_dumps_unsorted v) kvs) @ ''}''"

text \<open>\<open>len(s.encode("utf-8"))\<close>: a code point from 128 to 255 takes two bytes.\<close>

definition utf8_length :: "string \<Rightarrow> nat" where
  "utf8_length s = sum_list (map (\<lambda>c. if (of_char c :: nat) < 128 then 1 else 2) s)"

lemma utf8_length_append [simp]: "utf8_length (s @ t) = utf8_length s + utf8_length t"
  by (simp add: utf8_length_def)

text \<open>\<open>str(d.get(k) or "")\<close>, the runtime's way of reading a text field of a metadata dictionary.\<close>

definition dict_text :: "pydict \<Rightarrow> string \<Rightarrow> string" where
  "dict_text d k = (case map_of d k of None \<Rightarrow> ''''
     | Some v \<Rightarrow> if py_truthy v then py_str v else '''')"

end
