(* ===== verification/Step_System.thy ===== *)
theory Step_System
  imports Runtime_Prelude
begin

section \<open>Event-driven components\<close>

text \<open>
  The recovery state, the turn state and the trajectory are all driven the same way: the runner
  calls one operation after another on them.  \<open>run_events\<close> is that loop for a list of events,
  \<open>guarded\<close> says that each event is allowed in the state it meets.  The locale
  \<open>step_system\<close> is the contract such a component offers: its operations keep an invariant.
  \<open>ordered_system\<close> adds that every operation moves the state up in a preorder (counters only
  grow, histories are only extended).  What holds of one operation then holds of every run.
\<close>

primrec run_events :: "('e \<Rightarrow> 's \<Rightarrow> 's) \<Rightarrow> 'e list \<Rightarrow> 's \<Rightarrow> 's" where
  "run_events step [] s = s"
| "run_events step (e # es) s = run_events step es (step e s)"

primrec guarded :: "('e \<Rightarrow> 's \<Rightarrow> 's) \<Rightarrow> ('e \<Rightarrow> 's \<Rightarrow> bool) \<Rightarrow> 'e list \<Rightarrow> 's \<Rightarrow> bool" where
  "guarded step ok [] s = True"
| "guarded step ok (e # es) s = (ok e s \<and> guarded step ok es (step e s))"

lemma run_events_append [simp]:
  "run_events step (es @ fs) s = run_events step fs (run_events step es s)"
  by (induction es arbitrary: s) auto

lemma guarded_append [simp]:
  "guarded step ok (es @ fs) s =
     (guarded step ok es s \<and> guarded step ok fs (run_events step es s))"
  by (induction es arbitrary: s) auto

lemma guarded_True [simp]: "guarded step (\<lambda>e s. True) es s"
  by (induction es arbitrary: s) auto

locale step_system =
  fixes step :: "'e \<Rightarrow> 's \<Rightarrow> 's"
    and ok :: "'e \<Rightarrow> 's \<Rightarrow> bool"
    and inv :: "'s \<Rightarrow> bool"
  assumes step_inv: "inv s \<Longrightarrow> ok e s \<Longrightarrow> inv (step e s)"
begin

lemma run_inv: "inv s \<Longrightarrow> guarded step ok es s \<Longrightarrow> inv (run_events step es s)"
  by (induction es arbitrary: s) (auto intro: step_inv)

lemma run_property:
  assumes "\<And>s. inv s \<Longrightarrow> P s" and "inv s" and "guarded step ok es s"
  shows "P (run_events step es s)"
  using assms run_inv by blast

end

locale ordered_system = step_system +
  fixes le :: "'s \<Rightarrow> 's \<Rightarrow> bool"
  assumes le_refl: "le s s"
    and le_trans: "le s t \<Longrightarrow> le t u \<Longrightarrow> le s u"
    and step_le: "inv s \<Longrightarrow> ok e s \<Longrightarrow> le s (step e s)"
begin

lemma run_le: "inv s \<Longrightarrow> guarded step ok es s \<Longrightarrow> le s (run_events step es s)"
proof (induction es arbitrary: s)
  case Nil
  then show ?case by (simp add: le_refl)
next
  case (Cons e es)
  then have "le s (step e s)" "le (step e s) (run_events step es (step e s))"
    by (auto intro: step_le step_inv)
  then show ?case by (auto intro: le_trans)
qed

lemma run_le_split:
  assumes "inv s" and "guarded step ok (es @ fs) s"
  shows "le (run_events step es s) (run_events step (es @ fs) s)"
  using assms run_le [of "run_events step es s" fs] run_inv [of s es] by simp

end

end
