(* ===== verification/Trajectory_Schema.thy ===== *)
theory Trajectory_Schema
  imports Py_Value Step_System
begin

section \<open>Tool calls, messages and trajectories\<close>

text \<open>
  The data of \<open>pycodeagent/trajectory/schema.py\<close> and the two contract enumerations of
  \<open>pycodeagent/tools/contracts.py\<close>: a tool call and the check of its payload, a tool result,
  a conversation message, and the trajectory with the operations that append to it.  Fields
  carry a prefix per record (\<open>tc_\<close>, \<open>tr_\<close>, \<open>msg_\<close>, \<open>ob_\<close>, \<open>tj_\<close>), since a record's
  selectors are global.  \<open>traj_inv\<close> is the consistency a trajectory keeps between its message
  history and the tool calls and observations recorded beside it.
\<close>

subsection \<open>Contract enumerations\<close>

datatype ToolContractKind = FUNCTION | FREEFORM

fun ToolContractKind_value :: "ToolContractKind \<Rightarrow> string" where
  "ToolContractKind_value FUNCTION = ''function''"
| "ToolContractKind_value FREEFORM = ''freeform''"

datatype ToolPayloadKind = ARGUMENTS_OBJECT | INPUT_TEXT

fun ToolPayloadKind_value :: "ToolPayloadKind \<Rightarrow> string" where
  "ToolPayloadKind_value ARGUMENTS_OBJECT = ''arguments_object''"
| "ToolPayloadKind_value INPUT_TEXT = ''input_text''"

subsection \<open>Tool calls\<close>

record ToolCall =
  tc_id :: string
  tc_name :: string
  tc_arguments :: pydict
  tc_input_text :: "string option"
  tc_canonical_name :: "string option"

definition payload_kind :: "ToolCall \<Rightarrow> ToolPayloadKind" where
  "payload_kind c = (if tc_input_text c \<noteq> None then INPUT_TEXT else ARGUMENTS_OBJECT)"

text \<open>Constructing a call runs the validator, whose \<open>ValueError\<close> is the left value.\<close>

definition validate_payload_shape :: "ToolCall \<Rightarrow> string + ToolCall" where
  "validate_payload_shape c =
     (if tc_input_text c \<noteq> None \<and> tc_arguments c \<noteq> []
      then Inl ''ToolCall cannot contain both input_text and object arguments''
      else Inr c)"

definition opt_str :: "string option \<Rightarrow> json" where
  "opt_str x = (case x of None \<Rightarrow> JNull | Some s \<Rightarrow> JStr s)"

definition ToolCall_model_dump :: "ToolCall \<Rightarrow> pydict" where
  "ToolCall_model_dump c =
     [(''id'', JStr (tc_id c)), (''name'', JStr (tc_name c))]
     @ (if tc_input_text c \<noteq> None \<and> tc_arguments c = [] then []
        else [(''arguments'', JObj (tc_arguments c))])
     @ (case tc_input_text c of None \<Rightarrow> [] | Some t \<Rightarrow> [(''input_text'', JStr t)])
     @ [(''canonical_name'', opt_str (tc_canonical_name c))]
     @ (if tc_input_text c \<noteq> None \<and> tc_arguments c = []
        then [(''payload_kind'', JStr (ToolPayloadKind_value (payload_kind c)))] else [])"

subsection \<open>Tool results and observations\<close>

record ToolResult =
  tr_ok :: bool
  tr_content :: string
  tr_metadata :: pydict
  tr_is_error :: bool

text \<open>The runtime's reading of a result: a success is \<open>result.ok and not result.is_error\<close>.\<close>

abbreviation tool_succeeded :: "ToolResult \<Rightarrow> bool" where
  "tool_succeeded r \<equiv> tr_ok r \<and> \<not> tr_is_error r"

record ToolObservation =
  ob_call :: ToolCall
  ob_result :: ToolResult
  ob_tool_name :: string
  ob_canonical_name :: "string option"
  ob_tool_version :: "string option"

subsection \<open>Messages\<close>

datatype Role = SYSTEM | USER | ASSISTANT | TOOL

fun Role_value :: "Role \<Rightarrow> string" where
  "Role_value SYSTEM = ''system''"
| "Role_value USER = ''user''"
| "Role_value ASSISTANT = ''assistant''"
| "Role_value TOOL = ''tool''"

record Message =
  msg_role :: Role
  msg_content :: string
  msg_tool_calls :: "ToolCall list"
  msg_tool_call_id :: "string option"
  msg_tool_name :: "string option"
  msg_canonical_name :: "string option"
  msg_tool_version :: "string option"
  msg_metadata :: pydict

text \<open>\<open>Message(role=..., content=...)\<close> with every other field at its default.\<close>

definition plain_message :: "Role \<Rightarrow> string \<Rightarrow> Message" where
  "plain_message r c = \<lparr>msg_role = r, msg_content = c, msg_tool_calls = [],
     msg_tool_call_id = None, msg_tool_name = None, msg_canonical_name = None,
     msg_tool_version = None, msg_metadata = []\<rparr>"

subsection \<open>Trajectories\<close>

record VerifyResult =
  vr_passed :: bool
  vr_score :: rat
  vr_stdout :: string
  vr_stderr :: string

datatype RunStatus = RUN_COMPLETED | RUN_FAILED | RUN_TIMEOUT | RUN_ERROR

fun RunStatus_value :: "RunStatus \<Rightarrow> string" where
  "RunStatus_value RUN_COMPLETED = ''completed''"
| "RunStatus_value RUN_FAILED = ''failed''"
| "RunStatus_value RUN_TIMEOUT = ''timeout''"
| "RunStatus_value RUN_ERROR = ''error''"

record Trajectory =
  tj_task_id :: string
  tj_repo :: string
  tj_tool_profile_id :: string
  tj_tool_versions :: "(string \<times> (string \<times> string) list) list"
  tj_messages :: "Message list"
  tj_tool_calls :: "ToolCall list"
  tj_observations :: "ToolObservation list"
  tj_final_diff :: string
  tj_verifier :: "VerifyResult option"
  tj_reward :: rat
  tj_status :: RunStatus
  tj_metadata :: pydict

definition new_trajectory :: "string \<Rightarrow> string \<Rightarrow> string \<Rightarrow> Trajectory" where
  "new_trajectory task repo profile = \<lparr>tj_task_id = task, tj_repo = repo,
     tj_tool_profile_id = profile, tj_tool_versions = [], tj_messages = [], tj_tool_calls = [],
     tj_observations = [], tj_final_diff = '''', tj_verifier = None, tj_reward = 0,
     tj_status = RUN_COMPLETED, tj_metadata = []\<rparr>"

definition add_system :: "string \<Rightarrow> Trajectory \<Rightarrow> Trajectory" where
  "add_system content t = t\<lparr>tj_messages := tj_messages t @ [plain_message SYSTEM content]\<rparr>"

definition add_user :: "string \<Rightarrow> pydict option \<Rightarrow> Trajectory \<Rightarrow> Trajectory" where
  "add_user content metadata t = t\<lparr>tj_messages := tj_messages t @
     [(plain_message USER content)\<lparr>msg_metadata :=
        (case metadata of None \<Rightarrow> [] | Some m \<Rightarrow> m)\<rparr>]\<rparr>"

definition add_assistant :: "string \<Rightarrow> ToolCall list option \<Rightarrow> Trajectory \<Rightarrow> Trajectory" where
  "add_assistant content calls t =
     (let cs = (case calls of None \<Rightarrow> [] | Some xs \<Rightarrow> xs) in
      t\<lparr>tj_messages := tj_messages t @
           [(plain_message ASSISTANT content)\<lparr>msg_tool_calls := cs\<rparr>],
        tj_tool_calls := tj_tool_calls t @ cs\<rparr>)"

definition register_tool_versions ::
  "(string \<times> (string \<times> string) list) list \<Rightarrow> Trajectory \<Rightarrow> Trajectory" where
  "register_tool_versions vs t = t\<lparr>tj_tool_versions := dict_update (tj_tool_versions t) vs\<rparr>"

definition add_tool_observation ::
  "ToolCall \<Rightarrow> ToolResult \<Rightarrow> string option \<Rightarrow> pydict option \<Rightarrow> Trajectory \<Rightarrow> Trajectory" where
  "add_tool_observation call result version metadata t =
     (let obs = \<lparr>ob_call = call, ob_result = result, ob_tool_name = tc_name call,
                 ob_canonical_name = tc_canonical_name call, ob_tool_version = version\<rparr>;
          msg = \<lparr>msg_role = TOOL, msg_content = tr_content result, msg_tool_calls = [],
                 msg_tool_call_id = Some (tc_id call), msg_tool_name = Some (tc_name call),
                 msg_canonical_name = tc_canonical_name call, msg_tool_version = version,
                 msg_metadata = (case metadata of None \<Rightarrow> [] | Some m \<Rightarrow> m)\<rparr>
      in t\<lparr>tj_observations := tj_observations t @ [obs], tj_messages := tj_messages t @ [msg]\<rparr>)"

subsection \<open>The history and the records beside it agree\<close>

text \<open>What a tool message says of an observation, and the agreement of a whole trajectory.\<close>

definition obs_key :: "ToolObservation \<Rightarrow> string \<times> string \<times> string \<times> string option" where
  "obs_key o' = (tc_id (ob_call o'), ob_tool_name o', tr_content (ob_result o'), ob_tool_version o')"

definition msg_key :: "Message \<Rightarrow> string \<times> string \<times> string \<times> string option" where
  "msg_key m = (case (msg_tool_call_id m, msg_tool_name m) of
     (Some i, Some n) \<Rightarrow> (i, n, msg_content m, msg_tool_version m)
   | _ \<Rightarrow> ('''', '''', msg_content m, msg_tool_version m))"

definition traj_inv :: "Trajectory \<Rightarrow> bool" where
  "traj_inv t \<longleftrightarrow>
     tj_tool_calls t = concat (map msg_tool_calls (tj_messages t)) \<and>
     map obs_key (tj_observations t) = map msg_key (filter (\<lambda>m. msg_role m = TOOL) (tj_messages t)) \<and>
     distinct (map fst (tj_tool_versions t))"

datatype traj_op =
    OpSystem string
  | OpUser string "pydict option"
  | OpAssistant string "ToolCall list option"
  | OpVersions "(string \<times> (string \<times> string) list) list"
  | OpObservation ToolCall ToolResult "string option" "pydict option"

fun traj_step :: "traj_op \<Rightarrow> Trajectory \<Rightarrow> Trajectory" where
  "traj_step (OpSystem c) t = add_system c t"
| "traj_step (OpUser c m) t = add_user c m t"
| "traj_step (OpAssistant c cs) t = add_assistant c cs t"
| "traj_step (OpVersions vs) t = register_tool_versions vs t"
| "traj_step (OpObservation c r v m) t = add_tool_observation c r v m t"

lemmas traj_defs = add_system_def add_user_def add_assistant_def register_tool_versions_def
  add_tool_observation_def plain_message_def Let_def

text \<open>
  Every operation keeps the agreement and extends the message history: a trajectory is an
  ordered system, with the extension of histories for its order.
\<close>

lemma traj_step_inv: "traj_inv t \<Longrightarrow> traj_inv (traj_step op t)"
  by (cases op) (auto simp: traj_defs traj_inv_def obs_key_def msg_key_def
      intro: distinct_dict_update split: option.splits)

lemma traj_step_prefix: "\<exists>ms. tj_messages (traj_step op t) = tj_messages t @ ms"
  by (cases op) (auto simp: traj_defs)

interpretation traj: ordered_system traj_step "\<lambda>_ _. True" traj_inv
    "\<lambda>t u. \<exists>ms. tj_messages u = tj_messages t @ ms"
  by unfold_locales (auto intro: traj_step_inv traj_step_prefix)

lemma new_trajectory_inv [intro, simp]: "traj_inv (new_trajectory task repo profile)"
  by (simp add: traj_inv_def new_trajectory_def)

end
