(* ===== verification/Response_Parser.thy ===== *)
theory Response_Parser
  imports Trajectory_Schema
begin

section \<open>Interpreting a provider response\<close>

text \<open>
  \<open>pycodeagent/agent/parser.py\<close> on the response envelope of
  \<open>pycodeagent/agent/llm_client.py\<close>.  A response is rejected as a whole when its transport
  or the client's capabilities are not native tool calling, when one candidate call is
  malformed, or when it promises tool calls and has none; the lemmas show that this is
  fail-closed (an error leaves no tool call) and that nothing else is ever rejected.
  Candidate arguments are typed \<open>dict | None\<close> by the envelope, so the parser's test that
  present arguments are a dictionary cannot fail here and has no branch of its own.
\<close>

record ToolCallCandidate =
  cand_call_id :: "string option"
  cand_name :: string
  cand_arguments_raw :: "string option"
  cand_arguments_obj :: "pydict option"
  cand_input_text :: "string option"
  cand_arguments_parse_error :: "string option"
  cand_source :: string

definition cand_payload_kind :: "ToolCallCandidate \<Rightarrow> ToolPayloadKind option" where
  "cand_payload_kind c =
     (if cand_input_text c \<noteq> None then Some INPUT_TEXT
      else if cand_arguments_obj c \<noteq> None then Some ARGUMENTS_OBJECT
      else None)"

definition cand_validate_payload_shape :: "ToolCallCandidate \<Rightarrow> string + ToolCallCandidate" where
  "cand_validate_payload_shape c =
     (if cand_input_text c \<noteq> None \<and> cand_arguments_obj c \<noteq> None
      then Inl ''ToolCallCandidate cannot contain both input_text and arguments_obj''
      else Inr c)"

record RuntimeClientCapabilities =
  cap_protocol_mode :: string
  cap_supports_native_tools :: bool
  cap_text_fallback_allowed :: bool
  cap_structured_finish_mode :: string
  cap_supports_structured_output :: bool
  cap_supports_model_backed_compaction :: bool
  cap_provider_family :: string
  cap_provider_name :: string

record GenerateResponse =
  gr_transport_mode :: string
  gr_text :: string
  gr_assistant_text :: string
  gr_reasoning_content :: "string option"
  gr_tool_calls :: "ToolCallCandidate list"
  gr_finish_reason :: "string option"
  gr_response_id :: "string option"
  gr_raw_text :: "string option"
  gr_raw_provider_payload :: "pydict option"
  gr_provider_metadata :: pydict
  gr_request_kind :: string
  gr_structured_output :: "pydict option"
  gr_structured_output_parse_error :: "string option"

definition sync_text_fields :: "GenerateResponse \<Rightarrow> GenerateResponse" where
  "sync_text_fields r =
     (let r1 = (if gr_assistant_text r = '''' \<and> gr_text r \<noteq> ''''
                then r\<lparr>gr_assistant_text := gr_text r\<rparr> else r)
      in if gr_text r1 = '''' \<and> gr_assistant_text r1 \<noteq> ''''
         then r1\<lparr>gr_text := gr_assistant_text r1\<rparr> else r1)"

record ParseResult =
  pr_ok :: bool
  pr_assistant_content :: string
  pr_tool_calls :: "ToolCall list"
  pr_parse_errors :: "string list"
  pr_parse_status :: string
  pr_format_family :: string
  pr_fatal_errors :: "string list"
  pr_recovery_warnings :: "string list"
  pr_normalization_actions :: "string list"
  pr_normalized_text :: string
  pr_transport_mode :: string
  pr_finish_reason :: "string option"
  pr_provider_response_id :: "string option"
  pr_protocol_errors :: "string list"
  pr_protocol_error_kind :: "string option"
  pr_fallback_parser_used :: bool
  pr_protocol_decision :: string
  pr_text_fallback_used :: bool
  pr_fallback_reason :: "string option"
  pr_fallback_allowed :: bool
  pr_tool_call_candidate_count :: int
  pr_accepted_tool_call_count :: int
  pr_rejected_tool_call_candidate_count :: int
  pr_raw_provider_payload :: "pydict option"

abbreviation has_tool_calls :: "ParseResult \<Rightarrow> bool" where
  "has_tool_calls p \<equiv> pr_tool_calls p \<noteq> []"

abbreviation has_parse_errors :: "ParseResult \<Rightarrow> bool" where
  "has_parse_errors p \<equiv> pr_parse_errors p \<noteq> []"

subsection \<open>One candidate call\<close>

definition interpret_candidate :: "int \<Rightarrow> ToolCallCandidate \<Rightarrow> string + ToolCall" where
  "interpret_candidate index c =
     (let call_id = str_or (cand_call_id c) (''native_call_'' @ py_int_str index);
          name = py_strip (cand_name c)
      in if name = '''' then Inl (''Native tool call '' @ call_id @ '' missing name'')
         else case cand_arguments_parse_error c of
           Some err \<Rightarrow> Inl (''Native tool call '' @ call_id @ '' arguments parse error: '' @ err)
         | None \<Rightarrow>
             if cand_payload_kind c = Some INPUT_TEXT then
               (case cand_input_text c of
                  None \<Rightarrow> Inl (''Native tool call '' @ call_id @ '' missing freeform input text'')
                | Some t \<Rightarrow> Inr \<lparr>tc_id = call_id, tc_name = name, tc_arguments = [],
                     tc_input_text = Some t, tc_canonical_name = None\<rparr>)
             else
               (case cand_arguments_obj c of
                  None \<Rightarrow> Inl (''Native tool call '' @ call_id @ '' missing parsed arguments object'')
                | Some d \<Rightarrow> Inr \<lparr>tc_id = call_id, tc_name = name, tc_arguments = d,
                     tc_input_text = None, tc_canonical_name = None\<rparr>))"

text \<open>The loop, with its four accumulators.\<close>

fun interpret_candidates ::
  "int \<Rightarrow> ToolCallCandidate list \<Rightarrow> ToolCall list \<times> string list \<times> int \<times> int
    \<Rightarrow> ToolCall list \<times> string list \<times> int \<times> int" where
  "interpret_candidates index [] acc = acc"
| "interpret_candidates index (c # cs) (calls, errs, acc, rej) =
     (case interpret_candidate index c of
        Inl e \<Rightarrow> interpret_candidates (index + 1) cs (calls, errs @ [e], acc, rej + 1)
      | Inr call \<Rightarrow> interpret_candidates (index + 1) cs (calls @ [call], errs, acc + 1, rej))"

definition interpret_native :: "GenerateResponse \<Rightarrow> ParseResult" where
  "interpret_native r =
     (case interpret_candidates 1 (gr_tool_calls r) ([], [], 0, 0) of
        (calls0, errs0, accepted, rejected) \<Rightarrow>
      let (calls, errs, kind) =
            (if errs0 \<noteq> [] then ([], errs0, Some ''candidate_validation_error'')
             else if gr_finish_reason r = Some ''tool_calls'' \<and> calls0 = [] then
               (calls0, [''Native response declared tool_calls finish_reason but provided no usable native tool calls''],
                Some ''finish_reason_contract_error'')
             else (calls0, errs0, None))
      in \<lparr>pr_ok = (errs = []), pr_assistant_content = gr_assistant_text r,
          pr_tool_calls = calls, pr_parse_errors = errs,
          pr_parse_status = (if errs \<noteq> [] then ''fatal'' else ''ok''),
          pr_format_family = ''native_tool_calling'', pr_fatal_errors = errs,
          pr_recovery_warnings = [], pr_normalization_actions = [],
          pr_normalized_text = gr_assistant_text r, pr_transport_mode = gr_transport_mode r,
          pr_finish_reason = gr_finish_reason r, pr_provider_response_id = gr_response_id r,
          pr_protocol_errors = errs, pr_protocol_error_kind = kind,
          pr_fallback_parser_used = False,
          pr_protocol_decision = (if errs \<noteq> [] then ''protocol_error'' else ''accept_native''),
          pr_text_fallback_used = False, pr_fallback_reason = None, pr_fallback_allowed = False,
          pr_tool_call_candidate_count = int (length (gr_tool_calls r)),
          pr_accepted_tool_call_count = accepted,
          pr_rejected_tool_call_candidate_count = rejected,
          pr_raw_provider_payload = gr_raw_provider_payload r\<rparr>)"

text \<open>The two early returns share their shape and differ in the message.\<close>

definition unsupported_transport :: "string \<Rightarrow> GenerateResponse \<Rightarrow> ParseResult" where
  "unsupported_transport msg r =
     \<lparr>pr_ok = False, pr_assistant_content = gr_assistant_text r, pr_tool_calls = [],
      pr_parse_errors = [msg], pr_parse_status = ''fatal'',
      pr_format_family = ''native_tool_calling'', pr_fatal_errors = [msg],
      pr_recovery_warnings = [], pr_normalization_actions = [],
      pr_normalized_text = gr_assistant_text r, pr_transport_mode = gr_transport_mode r,
      pr_finish_reason = gr_finish_reason r, pr_provider_response_id = gr_response_id r,
      pr_protocol_errors = [msg], pr_protocol_error_kind = Some ''unsupported_transport_contract'',
      pr_fallback_parser_used = False, pr_protocol_decision = ''protocol_error'',
      pr_text_fallback_used = False, pr_fallback_reason = None, pr_fallback_allowed = False,
      pr_tool_call_candidate_count = int (length (gr_tool_calls r)),
      pr_accepted_tool_call_count = 0,
      pr_rejected_tool_call_candidate_count = int (length (gr_tool_calls r)),
      pr_raw_provider_payload = gr_raw_provider_payload r\<rparr>"

definition interpret_model_response ::
  "GenerateResponse \<Rightarrow> RuntimeClientCapabilities option \<Rightarrow> ParseResult" where
  "interpret_model_response r caps =
     (if gr_transport_mode r \<noteq> ''native_tool_calling'' then
        unsupported_transport
          (''Unsupported transport mode for runtime mainline: '' @ gr_transport_mode r) r
      else case caps of
        Some c \<Rightarrow>
          if cap_protocol_mode c \<noteq> ''native_tool_calling'' \<or> \<not> cap_supports_native_tools c
          then unsupported_transport
            ''Native provider response received under non-native runtime capabilities'' r
          else interpret_native r
      | None \<Rightarrow> interpret_native r)"

subsection \<open>What the loop computes\<close>

fun candidate_results :: "int \<Rightarrow> ToolCallCandidate list \<Rightarrow> (string + ToolCall) list" where
  "candidate_results index [] = []"
| "candidate_results index (c # cs) =
     interpret_candidate index c # candidate_results (index + 1) cs"

lemma length_candidate_results [simp]: "length (candidate_results index cs) = length cs"
  by (induction cs arbitrary: index) auto

fun lefts :: "('a + 'b) list \<Rightarrow> 'a list" where
  "lefts [] = []"
| "lefts (Inl a # xs) = a # lefts xs"
| "lefts (Inr b # xs) = lefts xs"

fun rights :: "('a + 'b) list \<Rightarrow> 'b list" where
  "rights [] = []"
| "rights (Inl a # xs) = rights xs"
| "rights (Inr b # xs) = b # rights xs"

lemma length_lefts_rights: "length (lefts xs) + length (rights xs) = length xs"
  by (induction xs rule: lefts.induct) auto

lemma lefts_Nil_iff: "lefts xs = [] \<longleftrightarrow> xs = map Inr (rights xs)"
  by (induction xs rule: lefts.induct) auto

lemma interpret_candidates_eq:
  "interpret_candidates index cs (calls, errs, acc, rej) =
     (let rs = candidate_results index cs in
      (calls @ rights rs, errs @ lefts rs, acc + int (length (rights rs)),
       rej + int (length (lefts rs))))"
proof (induction cs arbitrary: index calls errs acc rej)
  case (Cons c cs)
  then show ?case
    by (cases "interpret_candidate index c") (simp_all add: Let_def)
qed (simp add: Let_def)

lemma interpret_native_counts:
  "pr_accepted_tool_call_count (interpret_native r) +
     pr_rejected_tool_call_candidate_count (interpret_native r) =
   pr_tool_call_candidate_count (interpret_native r)"
  using length_lefts_rights [of "candidate_results 1 (gr_tool_calls r)"]
  by (auto simp: interpret_native_def interpret_candidates_eq Let_def)

lemma interpret_native_errors_iff:
  "pr_parse_errors (interpret_native r) = [] \<longleftrightarrow>
     lefts (candidate_results 1 (gr_tool_calls r)) = [] \<and>
     \<not> (gr_finish_reason r = Some ''tool_calls'' \<and> gr_tool_calls r = [])"
  using length_lefts_rights [of "candidate_results 1 (gr_tool_calls r)"]
  by (auto simp: interpret_native_def interpret_candidates_eq Let_def split: if_splits)

lemma interpret_native_fail_closed:
  "pr_parse_errors (interpret_native r) \<noteq> [] \<Longrightarrow> pr_tool_calls (interpret_native r) = []"
  by (auto simp: interpret_native_def interpret_candidates_eq Let_def split: if_splits)

lemma interpret_native_calls:
  "pr_parse_errors (interpret_native r) = [] \<Longrightarrow>
   map Inr (pr_tool_calls (interpret_native r)) = candidate_results 1 (gr_tool_calls r)"
  by (auto simp: interpret_native_def interpret_candidates_eq Let_def lefts_Nil_iff split: if_splits)

lemma interpret_candidate_call:
  "interpret_candidate i c = Inr call \<Longrightarrow>
     tc_name call = py_strip (cand_name c) \<and> tc_name call \<noteq> '''' \<and> tc_canonical_name call = None \<and>
     validate_payload_shape call = Inr call"
  by (auto simp: interpret_candidate_def Let_def validate_payload_shape_def
      split: if_splits option.splits)

subsection \<open>The contract of a parse result\<close>

text \<open>
  Every result the parser returns is consistent: it is fine exactly when it has no error, its
  status and decision say so, and a result with an error carries no tool call.
\<close>

definition parse_result_ok :: "ParseResult \<Rightarrow> bool" where
  "parse_result_ok p \<longleftrightarrow>
     pr_ok p = (pr_parse_errors p = []) \<and>
     pr_parse_status p = (if pr_parse_errors p = [] then ''ok'' else ''fatal'') \<and>
     pr_fatal_errors p = pr_parse_errors p \<and> pr_protocol_errors p = pr_parse_errors p \<and>
     (pr_protocol_error_kind p = None) = (pr_parse_errors p = []) \<and>
     (pr_parse_errors p \<noteq> [] \<longrightarrow> pr_tool_calls p = []) \<and>
     pr_accepted_tool_call_count p + pr_rejected_tool_call_candidate_count p =
       pr_tool_call_candidate_count p"

lemma interpret_native_ok: "parse_result_ok (interpret_native r)"
proof -
  note counts = interpret_native_counts [of r] and closed = interpret_native_fail_closed [of r]
  moreover have "(pr_protocol_error_kind (interpret_native r) = None) =
      (pr_parse_errors (interpret_native r) = []) \<and>
    pr_ok (interpret_native r) = (pr_parse_errors (interpret_native r) = []) \<and>
    pr_parse_status (interpret_native r) =
      (if pr_parse_errors (interpret_native r) = [] then ''ok'' else ''fatal'') \<and>
    pr_fatal_errors (interpret_native r) = pr_parse_errors (interpret_native r) \<and>
    pr_protocol_errors (interpret_native r) = pr_parse_errors (interpret_native r)"
    by (auto simp: interpret_native_def interpret_candidates_eq Let_def)
  ultimately show ?thesis
    by (simp add: parse_result_ok_def)
qed

lemma unsupported_transport_ok: "parse_result_ok (unsupported_transport msg r)"
  by (simp add: parse_result_ok_def unsupported_transport_def)

lemma interpret_model_response_ok: "parse_result_ok (interpret_model_response r caps)"
  by (simp add: interpret_model_response_def interpret_native_ok unsupported_transport_ok
      split: option.split)

lemma interpret_model_response_native:
  "pr_parse_errors (interpret_model_response r caps) = [] \<Longrightarrow>
   interpret_model_response r caps = interpret_native r"
  by (auto simp: interpret_model_response_def unsupported_transport_def split: if_splits option.splits)

end
