(* ===== verification/Recovery_Types.thy ===== *)
theory Recovery_Types
  imports Response_Parser
begin

section \<open>Recovery and validation policy: the types\<close>

text \<open>
  The enumerations and records of \<open>pycodeagent/agent/recovery.py\<close>.  An enumeration member
  carries a prefix (\<open>PIK_\<close>, \<open>SDC_\<close>, ...) because Python's members live in their class; its
  \<open>_value\<close> function gives the string the runtime stores and compares.  Fields of the recovery
  state are prefixed \<open>rs_\<close>, those of a validation issue \<open>vi_\<close>, those of an assessment \<open>ca_\<close>,
  those of an update \<open>ru_\<close> and those of the stop-policy snapshot \<open>sp_\<close>.
\<close>

subsection \<open>Enumerations\<close>

datatype PendingIssueKind = PIK_PARSE_ERROR | PIK_TOOL_FAILURE | PIK_VALIDATION_FAILURE

fun PendingIssueKind_value :: "PendingIssueKind \<Rightarrow> string" where
  "PendingIssueKind_value PIK_PARSE_ERROR = ''parse_error''"
| "PendingIssueKind_value PIK_TOOL_FAILURE = ''tool_failure''"
| "PendingIssueKind_value PIK_VALIDATION_FAILURE = ''validation_failure''"

datatype ContinueReason =
    CR_TOOL_CALLS_PRESENT
  | CR_RECOVERABLE_PARSE_ERROR
  | CR_RECOVERABLE_TOOL_FAILURE
  | CR_RECOVERABLE_VALIDATION_FAILURE
  | CR_AWAITING_REVISION_AFTER_VALIDATION_FAILURE
  | CR_AWAITING_REVALIDATION_AFTER_REVISION
  | CR_DEFER_COMPLETION_PENDING_ISSUE
  | CR_DEFER_COMPLETION_MISSING_COMPLETION_EVIDENCE

fun ContinueReason_value :: "ContinueReason \<Rightarrow> string" where
  "ContinueReason_value CR_TOOL_CALLS_PRESENT = ''tool_calls_present''"
| "ContinueReason_value CR_RECOVERABLE_PARSE_ERROR = ''recoverable_parse_error''"
| "ContinueReason_value CR_RECOVERABLE_TOOL_FAILURE = ''recoverable_tool_failure''"
| "ContinueReason_value CR_RECOVERABLE_VALIDATION_FAILURE = ''recoverable_validation_failure''"
| "ContinueReason_value CR_AWAITING_REVISION_AFTER_VALIDATION_FAILURE =
     ''awaiting_revision_after_validation_failure''"
| "ContinueReason_value CR_AWAITING_REVALIDATION_AFTER_REVISION =
     ''awaiting_revalidation_after_revision''"
| "ContinueReason_value CR_DEFER_COMPLETION_PENDING_ISSUE = ''defer_completion_pending_issue''"
| "ContinueReason_value CR_DEFER_COMPLETION_MISSING_COMPLETION_EVIDENCE =
     ''defer_completion_missing_completion_evidence''"

datatype ExpectedNextStep =
  ENS_NONE | ENS_VALIDATE | ENS_REVISE | ENS_REVALIDATE | ENS_RETRY_PARSE_OR_TOOL | ENS_FINISH_ALLOWED

fun ExpectedNextStep_value :: "ExpectedNextStep \<Rightarrow> string" where
  "ExpectedNextStep_value ENS_NONE = ''none''"
| "ExpectedNextStep_value ENS_VALIDATE = ''validate''"
| "ExpectedNextStep_value ENS_REVISE = ''revise''"
| "ExpectedNextStep_value ENS_REVALIDATE = ''revalidate''"
| "ExpectedNextStep_value ENS_RETRY_PARSE_OR_TOOL = ''retry_parse_or_tool''"
| "ExpectedNextStep_value ENS_FINISH_ALLOWED = ''finish_allowed''"

datatype CompletionGateStatus = CGS_OPEN | CGS_BLOCKED_MISSING_VALIDATION | CGS_BLOCKED_PENDING_ISSUE

fun CompletionGateStatus_value :: "CompletionGateStatus \<Rightarrow> string" where
  "CompletionGateStatus_value CGS_OPEN = ''open''"
| "CompletionGateStatus_value CGS_BLOCKED_MISSING_VALIDATION = ''blocked_missing_validation''"
| "CompletionGateStatus_value CGS_BLOCKED_PENDING_ISSUE = ''blocked_pending_issue''"

datatype CompletionBlockFamily = CBF_NONE | CBF_PENDING_ISSUE | CBF_VALIDATION_EVIDENCE | CBF_PROGRESS_GATE

fun CompletionBlockFamily_value :: "CompletionBlockFamily \<Rightarrow> string" where
  "CompletionBlockFamily_value CBF_NONE = ''none''"
| "CompletionBlockFamily_value CBF_PENDING_ISSUE = ''pending_issue''"
| "CompletionBlockFamily_value CBF_VALIDATION_EVIDENCE = ''validation_evidence''"
| "CompletionBlockFamily_value CBF_PROGRESS_GATE = ''progress_gate''"

datatype ValidationPhase = VP_IDLE | VP_MUTATED_UNVALIDATED | VP_VALIDATION_FAILED | VP_VALIDATED

fun ValidationPhase_value :: "ValidationPhase \<Rightarrow> string" where
  "ValidationPhase_value VP_IDLE = ''idle''"
| "ValidationPhase_value VP_MUTATED_UNVALIDATED = ''mutated_unvalidated''"
| "ValidationPhase_value VP_VALIDATION_FAILED = ''validation_failed''"
| "ValidationPhase_value VP_VALIDATED = ''validated''"

datatype ValidationIssueKind =
    VIK_VALIDATION_COMMAND_FAILED
  | VIK_VALIDATION_COMMAND_NONZERO_EXIT
  | VIK_VALIDATION_TIMEOUT
  | VIK_STALE_VALIDATION_EVIDENCE
  | VIK_FINISH_WITHOUT_REQUIRED_VALIDATION

fun ValidationIssueKind_value :: "ValidationIssueKind \<Rightarrow> string" where
  "ValidationIssueKind_value VIK_VALIDATION_COMMAND_FAILED = ''validation_command_failed''"
| "ValidationIssueKind_value VIK_VALIDATION_COMMAND_NONZERO_EXIT = ''validation_command_nonzero_exit''"
| "ValidationIssueKind_value VIK_VALIDATION_TIMEOUT = ''validation_timeout''"
| "ValidationIssueKind_value VIK_STALE_VALIDATION_EVIDENCE = ''stale_validation_evidence''"
| "ValidationIssueKind_value VIK_FINISH_WITHOUT_REQUIRED_VALIDATION =
     ''finish_without_required_validation''"

datatype TurnAction =
    TA_NONE | TA_INSPECT | TA_MUTATE | TA_VALIDATE | TA_REVISE | TA_REVALIDATE
  | TA_REVISION_AND_REVALIDATION | TA_FINISH_ATTEMPT | TA_FINISH_BLOCKED | TA_MIXED

fun TurnAction_value :: "TurnAction \<Rightarrow> string" where
  "TurnAction_value TA_NONE = ''none''"
| "TurnAction_value TA_INSPECT = ''inspect''"
| "TurnAction_value TA_MUTATE = ''mutate''"
| "TurnAction_value TA_VALIDATE = ''validate''"
| "TurnAction_value TA_REVISE = ''revise''"
| "TurnAction_value TA_REVALIDATE = ''revalidate''"
| "TurnAction_value TA_REVISION_AND_REVALIDATION = ''revision_and_revalidation''"
| "TurnAction_value TA_FINISH_ATTEMPT = ''finish_attempt''"
| "TurnAction_value TA_FINISH_BLOCKED = ''finish_blocked''"
| "TurnAction_value TA_MIXED = ''mixed''"

datatype TurnOutcome =
    TO_NONE | TO_AWAITING_VALIDATION | TO_VALIDATION_PASSED | TO_VALIDATION_FAILED
  | TO_VALIDATION_RETRY_SCHEDULED | TO_REVISION_REQUIRED | TO_REVISION_APPLIED
  | TO_FINISH_DEFERRED | TO_FINISH_BLOCKED_BY_VALIDATION | TO_FINISH_ACCEPTED
  | TO_VALIDATION_BUDGET_EXHAUSTED | TO_REVISION_BUDGET_EXHAUSTED
  | TO_FINISH_DEFERRAL_BUDGET_EXHAUSTED

fun TurnOutcome_value :: "TurnOutcome \<Rightarrow> string" where
  "TurnOutcome_value TO_NONE = ''none''"
| "TurnOutcome_value TO_AWAITING_VALIDATION = ''awaiting_validation''"
| "TurnOutcome_value TO_VALIDATION_PASSED = ''validation_passed''"
| "TurnOutcome_value TO_VALIDATION_FAILED = ''validation_failed''"
| "TurnOutcome_value TO_VALIDATION_RETRY_SCHEDULED = ''validation_retry_scheduled''"
| "TurnOutcome_value TO_REVISION_REQUIRED = ''revision_required''"
| "TurnOutcome_value TO_REVISION_APPLIED = ''revision_applied''"
| "TurnOutcome_value TO_FINISH_DEFERRED = ''finish_deferred''"
| "TurnOutcome_value TO_FINISH_BLOCKED_BY_VALIDATION = ''finish_blocked_by_validation''"
| "TurnOutcome_value TO_FINISH_ACCEPTED = ''finish_accepted''"
| "TurnOutcome_value TO_VALIDATION_BUDGET_EXHAUSTED = ''validation_budget_exhausted''"
| "TurnOutcome_value TO_REVISION_BUDGET_EXHAUSTED = ''revision_budget_exhausted''"
| "TurnOutcome_value TO_FINISH_DEFERRAL_BUDGET_EXHAUSTED = ''finish_deferral_budget_exhausted''"

datatype StopDecisionCode =
    SDC_FINISH | SDC_NO_TOOL_CALLS | SDC_MAX_TURNS | SDC_PARSE_ERROR | SDC_LLM_ERROR
  | SDC_CONTINUE_WITH_TOOL_CALLS | SDC_RECOVERABLE_PARSE_ERROR
  | SDC_DEFER_FINISH_PENDING_ISSUE | SDC_DEFER_NO_TOOL_CALLS_PENDING_ISSUE
  | SDC_DEFER_FINISH_MISSING_COMPLETION_EVIDENCE
  | SDC_DEFER_NO_TOOL_CALLS_MISSING_COMPLETION_EVIDENCE
  | SDC_VALIDATION_BUDGET_EXHAUSTED | SDC_REVISION_BUDGET_EXHAUSTED
  | SDC_FINISH_DEFERRAL_BUDGET_EXHAUSTED

fun StopDecisionCode_value :: "StopDecisionCode \<Rightarrow> string" where
  "StopDecisionCode_value SDC_FINISH = ''finish''"
| "StopDecisionCode_value SDC_NO_TOOL_CALLS = ''no_tool_calls''"
| "StopDecisionCode_value SDC_MAX_TURNS = ''max_turns''"
| "StopDecisionCode_value SDC_PARSE_ERROR = ''parse_error''"
| "StopDecisionCode_value SDC_LLM_ERROR = ''llm_error''"
| "StopDecisionCode_value SDC_CONTINUE_WITH_TOOL_CALLS = ''continue_with_tool_calls''"
| "StopDecisionCode_value SDC_RECOVERABLE_PARSE_ERROR = ''recoverable_parse_error''"
| "StopDecisionCode_value SDC_DEFER_FINISH_PENDING_ISSUE = ''defer_finish_pending_issue''"
| "StopDecisionCode_value SDC_DEFER_NO_TOOL_CALLS_PENDING_ISSUE = ''defer_no_tool_calls_pending_issue''"
| "StopDecisionCode_value SDC_DEFER_FINISH_MISSING_COMPLETION_EVIDENCE =
     ''defer_finish_missing_completion_evidence''"
| "StopDecisionCode_value SDC_DEFER_NO_TOOL_CALLS_MISSING_COMPLETION_EVIDENCE =
     ''defer_no_tool_calls_missing_completion_evidence''"
| "StopDecisionCode_value SDC_VALIDATION_BUDGET_EXHAUSTED = ''validation_budget_exhausted''"
| "StopDecisionCode_value SDC_REVISION_BUDGET_EXHAUSTED = ''revision_budget_exhausted''"
| "StopDecisionCode_value SDC_FINISH_DEFERRAL_BUDGET_EXHAUSTED = ''finish_deferral_budget_exhausted''"

datatype CompletionEvidenceStatus = CES_NOT_REQUIRED | CES_MISSING | CES_STALE | CES_VALIDATED

fun CompletionEvidenceStatus_value :: "CompletionEvidenceStatus \<Rightarrow> string" where
  "CompletionEvidenceStatus_value CES_NOT_REQUIRED = ''not_required''"
| "CompletionEvidenceStatus_value CES_MISSING = ''missing''"
| "CompletionEvidenceStatus_value CES_STALE = ''stale''"
| "CompletionEvidenceStatus_value CES_VALIDATED = ''validated''"

subsection \<open>Records\<close>

record RecoveryUpdate =
  ru_recoverable :: bool
  ru_pending_issue_kind :: "PendingIssueKind option"
  ru_pending_issue_detail :: string
  ru_continue_reason :: "ContinueReason option"
  ru_pending_issue_cleared :: bool

definition no_update :: RecoveryUpdate where
  "no_update = \<lparr>ru_recoverable = False, ru_pending_issue_kind = None, ru_pending_issue_detail = '''',
     ru_continue_reason = None, ru_pending_issue_cleared = False\<rparr>"

record CompletionBlockAssessment =
  ca_blocked :: bool
  ca_completion_block_family :: CompletionBlockFamily
  ca_block_reason :: "string option"
  ca_detail :: string
  ca_expected_next_step :: "ExpectedNextStep option"
  ca_recent_failure_kind :: "string option"
  ca_active_failure_kind :: "string option"
  ca_corrective_progress_after_failure :: bool
  ca_post_mutation_validation_pending :: bool
  ca_validation_evidence_fresh :: bool
  ca_completion_allowed :: bool

record ValidationPolicyConfig =
  max_validation_attempts_per_issue :: int
  max_revision_attempts_per_issue :: int
  max_finish_deferrals_per_issue :: int
  require_successful_validation_after_mutation :: bool

definition default_policy :: ValidationPolicyConfig where
  "default_policy = \<lparr>max_validation_attempts_per_issue = 2, max_revision_attempts_per_issue = 2,
     max_finish_deferrals_per_issue = 2, require_successful_validation_after_mutation = True\<rparr>"

record StopPolicyInputSnapshot =
  sp_meaningful_progress_observed :: bool
  sp_progress_gate_applicable :: bool
  sp_recent_failure_kind :: "string option"
  sp_validation_required_for_completion :: bool
  sp_completion_block_family_hint :: CompletionBlockFamily

record ValidationIssueRecord =
  vi_issue_id :: string
  vi_kind :: ValidationIssueKind
  vi_detail :: string
  vi_opened_at_turn :: int
  vi_last_observed_turn :: int
  vi_last_failure_tool_name :: "string option"
  vi_last_failure_tool_call_id :: "string option"
  vi_validation_attempt_count :: int
  vi_revision_attempt_count :: int
  vi_finish_deferral_count :: int
  vi_resolved_at_turn :: "int option"
  vi_resolution_reason :: "string option"

record RuntimeRecoveryState =
  rs_parse_error_count :: int
  rs_consecutive_parse_error_turns :: int
  rs_pending_issue_kind :: "PendingIssueKind option"
  rs_pending_issue_detail :: string
  rs_pending_issue_cleared :: bool
  rs_last_cleared_issue_kind :: "PendingIssueKind option"
  rs_requires_validation_evidence :: bool
  rs_completion_evidence_status :: CompletionEvidenceStatus
  rs_validation_phase :: ValidationPhase
  rs_last_successful_validation_turn :: "int option"
  rs_last_validation_attempt_turn :: "int option"
  rs_last_validation_failure_turn :: "int option"
  rs_last_mutation_turn :: "int option"
  rs_validation_failure_count :: int
  rs_active_validation_issue :: "ValidationIssueRecord option"
  rs_last_resolved_validation_issue :: "ValidationIssueRecord option"
  rs_validation_policy_config :: ValidationPolicyConfig
  rs_last_revision_attempt_turn :: "int option"
  rs_last_finish_deferral_turn :: "int option"
  rs_active_failure_kind :: "string option"
  rs_active_failure_turn :: "int option"
  rs_corrective_progress_after_failure :: bool
  rs_post_mutation_validation_pending :: bool
  rs_validation_required_for_completion :: bool
  rs_finish_gate_reason :: "string option"

type_synonym rstate = RuntimeRecoveryState

end
