(* ===== verification/Recovery.thy ===== *)
theory Recovery
  imports Recovery_Types
begin

section \<open>Recovery and validation policy: the operations\<close>

text \<open>
  The operations of \<open>pycodeagent/agent/recovery.py\<close> on the recovery state, in the order of the
  source.  Most queries of the Python class refresh cached fields, so here they return their
  answer together with the next state.  The theory \<open>Recovery_Facts\<close> says what the refreshes
  compute from the turns recorded in the state and proves the laws of the operations.
\<close>

subsection \<open>Methods of the recovery state\<close>

definition has_pending_issue :: "rstate \<Rightarrow> bool" where
  "has_pending_issue s = (rs_pending_issue_kind s \<noteq> None)"

definition clear_pending_issue :: "rstate \<Rightarrow> bool \<times> rstate" where
  "clear_pending_issue s =
     (if rs_pending_issue_kind s = None then (False, s)
      else (True, s\<lparr>rs_last_cleared_issue_kind := rs_pending_issue_kind s,
                    rs_pending_issue_kind := None,
                    rs_pending_issue_detail := '''',
                    rs_pending_issue_cleared := True\<rparr>))"

definition set_pending_issue :: "PendingIssueKind \<Rightarrow> string \<Rightarrow> rstate \<Rightarrow> rstate" where
  "set_pending_issue kind detail s =
     s\<lparr>rs_pending_issue_kind := Some kind, rs_pending_issue_detail := detail\<rparr>"

definition active_validation_issue_kind :: "rstate \<Rightarrow> string option" where
  "active_validation_issue_kind s =
     map_option (\<lambda>i. ValidationIssueKind_value (vi_kind i)) (rs_active_validation_issue s)"

definition active_issue_id :: "rstate \<Rightarrow> string option" where
  "active_issue_id s = map_option vi_issue_id (rs_active_validation_issue s)"

definition current_or_last_validation_issue :: "rstate \<Rightarrow> ValidationIssueRecord option" where
  "current_or_last_validation_issue s =
     (if rs_active_validation_issue s \<noteq> None then rs_active_validation_issue s
      else rs_last_resolved_validation_issue s)"

definition refresh_completion_evidence_status :: "rstate \<Rightarrow> CompletionEvidenceStatus \<times> rstate" where
  "refresh_completion_evidence_status s =
     (if \<not> rs_requires_validation_evidence s then
        (CES_NOT_REQUIRED, s\<lparr>rs_completion_evidence_status := CES_NOT_REQUIRED,
                             rs_post_mutation_validation_pending := False\<rparr>)
      else case rs_last_successful_validation_turn s of
        None \<Rightarrow>
          (CES_MISSING, s\<lparr>rs_completion_evidence_status := CES_MISSING,
             rs_post_mutation_validation_pending := (rs_last_mutation_turn s \<noteq> None)\<rparr>)
      | Some v \<Rightarrow>
          (if (case rs_last_mutation_turn s of None \<Rightarrow> False | Some m \<Rightarrow> m > v) then
             (CES_STALE, s\<lparr>rs_completion_evidence_status := CES_STALE,
                           rs_post_mutation_validation_pending := True\<rparr>)
           else
             (CES_VALIDATED, s\<lparr>rs_completion_evidence_status := CES_VALIDATED,
                               rs_post_mutation_validation_pending := False\<rparr>)))"

definition refresh_validation_phase :: "rstate \<Rightarrow> ValidationPhase \<times> rstate" where
  "refresh_validation_phase s =
     (let ph =
        (if rs_pending_issue_kind s = Some PIK_VALIDATION_FAILURE then VP_VALIDATION_FAILED
         else if rs_last_mutation_turn s = None \<and> rs_last_successful_validation_turn s = None
         then VP_IDLE
         else case rs_last_successful_validation_turn s of
           None \<Rightarrow> VP_MUTATED_UNVALIDATED
         | Some v \<Rightarrow> (case rs_last_mutation_turn s of
               None \<Rightarrow> VP_VALIDATED
             | Some m \<Rightarrow> if v \<ge> m then VP_VALIDATED else VP_MUTATED_UNVALIDATED))
      in (ph, s\<lparr>rs_validation_phase := ph\<rparr>))"

text \<open>\<open>RuntimeRecoveryState(...)\<close>: the defaults, and \<open>__post_init__\<close> on any field values.\<close>

definition recovery_defaults :: "bool \<Rightarrow> ValidationPolicyConfig \<Rightarrow> rstate" where
  "recovery_defaults requires config =
     \<lparr>rs_parse_error_count = 0, rs_consecutive_parse_error_turns = 0,
      rs_pending_issue_kind = None, rs_pending_issue_detail = '''',
      rs_pending_issue_cleared = False, rs_last_cleared_issue_kind = None,
      rs_requires_validation_evidence = requires,
      rs_completion_evidence_status = CES_NOT_REQUIRED, rs_validation_phase = VP_IDLE,
      rs_last_successful_validation_turn = None, rs_last_validation_attempt_turn = None,
      rs_last_validation_failure_turn = None, rs_last_mutation_turn = None,
      rs_validation_failure_count = 0, rs_active_validation_issue = None,
      rs_last_resolved_validation_issue = None, rs_validation_policy_config = config,
      rs_last_revision_attempt_turn = None, rs_last_finish_deferral_turn = None,
      rs_active_failure_kind = None, rs_active_failure_turn = None,
      rs_corrective_progress_after_failure = False,
      rs_post_mutation_validation_pending = False,
      rs_validation_required_for_completion = False, rs_finish_gate_reason = None\<rparr>"

definition post_init :: "rstate \<Rightarrow> rstate" where
  "post_init s = snd (refresh_validation_phase
     (s\<lparr>rs_validation_required_for_completion := rs_requires_validation_evidence s\<rparr>))"

definition new_recovery_state :: "bool \<Rightarrow> ValidationPolicyConfig \<Rightarrow> rstate" where
  "new_recovery_state requires config = post_init (recovery_defaults requires config)"

definition open_or_update_validation_issue ::
  "ValidationIssueKind \<Rightarrow> string \<Rightarrow> int \<Rightarrow> string option \<Rightarrow> string option \<Rightarrow> bool \<Rightarrow> rstate
    \<Rightarrow> ValidationIssueRecord \<times> rstate" where
  "open_or_update_validation_issue kind detail turn_index tool_name tool_call_id incr s =
     (let fresh = \<lparr>vi_issue_id = ''validation_issue_'' @ py_int_pad 3 turn_index, vi_kind = kind,
            vi_detail = detail, vi_opened_at_turn = turn_index, vi_last_observed_turn = turn_index,
            vi_last_failure_tool_name = tool_name, vi_last_failure_tool_call_id = tool_call_id,
            vi_validation_attempt_count = (if incr then 1 else 0), vi_revision_attempt_count = 0,
            vi_finish_deferral_count = 0, vi_resolved_at_turn = None, vi_resolution_reason = None\<rparr>;
          issue = (case rs_active_validation_issue s of
              None \<Rightarrow> fresh
            | Some a \<Rightarrow>
                if vi_kind a \<noteq> kind then fresh
                else a\<lparr>vi_detail := detail, vi_last_observed_turn := turn_index,
                       vi_last_failure_tool_name :=
                         (if tool_name \<noteq> None then tool_name else vi_last_failure_tool_name a),
                       vi_last_failure_tool_call_id :=
                         (if tool_call_id \<noteq> None then tool_call_id else vi_last_failure_tool_call_id a),
                       vi_validation_attempt_count :=
                         vi_validation_attempt_count a + (if incr then 1 else 0)\<rparr>)
      in (issue, s\<lparr>rs_active_validation_issue := Some issue\<rparr>))"

definition resolve_active_validation_issue ::
  "int \<Rightarrow> string \<Rightarrow> rstate \<Rightarrow> ValidationIssueRecord option \<times> rstate" where
  "resolve_active_validation_issue turn_index reason s =
     (case rs_active_validation_issue s of
        None \<Rightarrow> (None, s)
      | Some a \<Rightarrow>
          let resolved = a\<lparr>vi_last_observed_turn := turn_index,
                           vi_resolved_at_turn := Some turn_index,
                           vi_resolution_reason := Some reason\<rparr>
          in (Some resolved, s\<lparr>rs_last_resolved_validation_issue := Some resolved,
                               rs_active_validation_issue := None\<rparr>))"

definition note_revision_attempt :: "int \<Rightarrow> rstate \<Rightarrow> rstate" where
  "note_revision_attempt turn_index s =
     (case rs_active_validation_issue s of
        None \<Rightarrow> s
      | Some a \<Rightarrow>
          if rs_last_revision_attempt_turn s = Some turn_index then s
          else s\<lparr>rs_active_validation_issue := Some (a\<lparr>
                   vi_revision_attempt_count := vi_revision_attempt_count a + 1,
                   vi_last_observed_turn := turn_index\<rparr>),
                 rs_last_revision_attempt_turn := Some turn_index\<rparr>)"

definition note_finish_deferral :: "int \<Rightarrow> rstate \<Rightarrow> rstate" where
  "note_finish_deferral turn_index s =
     (case rs_active_validation_issue s of
        None \<Rightarrow> s
      | Some a \<Rightarrow>
          if rs_last_finish_deferral_turn s = Some turn_index then s
          else s\<lparr>rs_active_validation_issue := Some (a\<lparr>
                   vi_finish_deferral_count := vi_finish_deferral_count a + 1,
                   vi_last_observed_turn := turn_index\<rparr>),
                 rs_last_finish_deferral_turn := Some turn_index\<rparr>)"

definition note_active_failure :: "string \<Rightarrow> int \<Rightarrow> rstate \<Rightarrow> rstate" where
  "note_active_failure kind turn_index s =
     s\<lparr>rs_active_failure_kind := Some kind, rs_active_failure_turn := Some turn_index,
       rs_corrective_progress_after_failure := False\<rparr>"

definition note_corrective_progress :: "int \<Rightarrow> rstate \<Rightarrow> rstate" where
  "note_corrective_progress turn_index s =
     (if rs_active_failure_kind s = None then s
      else case rs_active_failure_turn s of
        None \<Rightarrow> s\<lparr>rs_corrective_progress_after_failure := True\<rparr>
      | Some t \<Rightarrow> if turn_index \<ge> t then s\<lparr>rs_corrective_progress_after_failure := True\<rparr> else s)"

definition clear_active_failure :: "rstate \<Rightarrow> rstate" where
  "clear_active_failure s =
     s\<lparr>rs_active_failure_kind := None, rs_active_failure_turn := None,
       rs_corrective_progress_after_failure := False\<rparr>"

definition validation_evidence_fresh :: "rstate \<Rightarrow> bool \<times> rstate" where
  "validation_evidence_fresh s =
     (let (st, s') = refresh_completion_evidence_status s
      in (st \<in> {CES_NOT_REQUIRED, CES_VALIDATED}, s'))"

definition completion_gate_status :: "rstate \<Rightarrow> CompletionGateStatus \<times> rstate" where
  "completion_gate_status s =
     (if has_pending_issue s then (CGS_BLOCKED_PENDING_ISSUE, s)
      else let (st, s') = refresh_completion_evidence_status s
           in (if st \<in> {CES_MISSING, CES_STALE} then CGS_BLOCKED_MISSING_VALIDATION else CGS_OPEN, s'))"

definition expected_next_step :: "rstate \<Rightarrow> ExpectedNextStep \<times> rstate" where
  "expected_next_step s =
     (if rs_pending_issue_kind s \<in> {Some PIK_PARSE_ERROR, Some PIK_TOOL_FAILURE}
      then (ENS_RETRY_PARSE_OR_TOOL, s)
      else
        let (open1, s1) =
              (if \<not> rs_requires_validation_evidence s
               then (let (g, s') = completion_gate_status s in (g = CGS_OPEN, s'))
               else (False, s))
        in if open1 then (ENS_FINISH_ALLOWED, s1)
           else let (ph, s2) = refresh_validation_phase s1
           in if ph = VP_MUTATED_UNVALIDATED then (ENS_VALIDATE, s2)
              else if ph = VP_VALIDATION_FAILED then
                (case (rs_last_revision_attempt_turn s2, rs_last_validation_failure_turn s2) of
                   (Some r, Some f) \<Rightarrow> (if r \<le> f then ENS_REVISE else ENS_REVALIDATE, s2)
                 | _ \<Rightarrow> (ENS_REVISE, s2))
              else let (g, s3) = completion_gate_status s2
                   in (if g = CGS_OPEN then ENS_FINISH_ALLOWED else ENS_NONE, s3))"

subsection \<open>Tools and their results\<close>

definition validation_tools :: "string set" where
  "validation_tools = {''python_run''}"

definition mutation_tools :: "string set" where
  "mutation_tools = {''write_file'', ''create_file'', ''apply_patch''}"

definition recoverable_error_types :: "string set" where
  "recoverable_error_types =
     {''unknown_tool'', ''schema_validation'', ''argument_mapping'', ''argument_mapping_unexpected'',
      ''execution'', ''timeout'', ''invalid_query'', ''empty_diff'', ''invalid_line_range'',
      ''patch_apply'', ''patch_unexpected'', ''invalid_module'', ''invalid_target'',
      ''already_exists'', ''not_found''}"

definition recoverable_stages :: "string set" where
  "recoverable_stages = {''resolve_exposed_call'', ''validate_exposed_arguments'', ''map_arguments''}"

definition max_consecutive_parse_error_turns :: int where
  "max_consecutive_parse_error_turns = 2"

definition policy_error_types :: "string set" where
  "policy_error_types =
     {''command_policy'', ''protected_path'', ''missing_context'', ''canonical_tool_lookup'',
      ''missing_canonical_tool''}"

definition canonical_tool_name :: "ToolCall \<Rightarrow> string" where
  "canonical_tool_name call = str_or (tc_canonical_name call) (tc_name call)"

definition is_validation_tool :: "ToolCall \<Rightarrow> bool" where
  "is_validation_tool call = (canonical_tool_name call \<in> validation_tools)"

definition is_mutation_tool :: "ToolCall \<Rightarrow> bool" where
  "is_mutation_tool call = (canonical_tool_name call \<in> mutation_tools)"

definition has_exit_code :: "ToolResult \<Rightarrow> bool" where
  "has_exit_code r = (map_of (tr_metadata r) ''exit_code'' \<noteq> None)"

definition is_recoverable_tool_result :: "ToolCall \<Rightarrow> ToolResult \<Rightarrow> bool" where
  "is_recoverable_tool_result call result =
     (if tool_succeeded result then False
      else let error_type = dict_text (tr_metadata result) ''error_type'';
               stage = dict_text (tr_metadata result) ''stage''
      in if error_type \<in> policy_error_types then False
         else if is_validation_tool call \<and> has_exit_code result then True
         else if error_type \<in> recoverable_error_types then True
         else if stage \<in> recoverable_stages then True
         else False)"

definition classify_validation_issue :: "ToolResult \<Rightarrow> ValidationIssueKind" where
  "classify_validation_issue result =
     (if dict_text (tr_metadata result) ''error_type'' = ''timeout'' then VIK_VALIDATION_TIMEOUT
      else if has_exit_code result then VIK_VALIDATION_COMMAND_NONZERO_EXIT
      else VIK_VALIDATION_COMMAND_FAILED)"

definition describe_pending_tool_issue :: "ToolCall \<Rightarrow> ToolResult \<Rightarrow> string" where
  "describe_pending_tool_issue call result =
     (let tool_name = canonical_tool_name call;
          error_type = dict_text (tr_metadata result) ''error_type''
      in if is_validation_tool call \<and> has_exit_code result then
           ''Completion deferred: validation tool '' @ py_repr_str tool_name
             @ '' did not succeed (exit_code=''
             @ py_str (the (map_of (tr_metadata result) ''exit_code'')) @ '')''
         else if error_type \<noteq> '''' then
           ''Completion deferred: recoverable tool issue in '' @ py_repr_str tool_name
             @ '' ('' @ error_type @ '')''
         else ''Completion deferred: recoverable tool issue in '' @ py_repr_str tool_name)"

subsection \<open>Recording a parse result and a tool result\<close>

definition parse_error_is_recoverable :: "rstate \<Rightarrow> bool" where
  "parse_error_is_recoverable s =
     (rs_consecutive_parse_error_turns s < max_consecutive_parse_error_turns)"

definition record_parse_result :: "ParseResult \<Rightarrow> int option \<Rightarrow> rstate \<Rightarrow> RecoveryUpdate \<times> rstate" where
  "record_parse_result parsed turn_index s =
     (let s1 = s\<lparr>rs_parse_error_count :=
                   rs_parse_error_count s + int (length (pr_parse_errors parsed))\<rparr>
      in if pr_parse_errors parsed \<noteq> [] \<and> pr_tool_calls parsed = [] then
           let s2 = s1\<lparr>rs_consecutive_parse_error_turns := rs_consecutive_parse_error_turns s1 + 1\<rparr>;
               s3 = (case turn_index of
                   None \<Rightarrow> s2
                 | Some t \<Rightarrow> note_active_failure (PendingIssueKind_value PIK_PARSE_ERROR) t s2);
               detail = ''Completion deferred: parse errors need recovery (''
                 @ py_join ''; '' (pr_parse_errors parsed) @ '')'';
               s4 = set_pending_issue PIK_PARSE_ERROR detail s3;
               recoverable =
                 rs_consecutive_parse_error_turns s4 < max_consecutive_parse_error_turns
           in (\<lparr>ru_recoverable = recoverable, ru_pending_issue_kind = Some PIK_PARSE_ERROR,
                ru_pending_issue_detail = detail,
                ru_continue_reason = (if recoverable then Some CR_RECOVERABLE_PARSE_ERROR else None),
                ru_pending_issue_cleared = False\<rparr>, s4)
         else
           let s2 = s1\<lparr>rs_consecutive_parse_error_turns := 0\<rparr>
           in if pr_parse_errors parsed = [] \<and> rs_pending_issue_kind s2 = Some PIK_PARSE_ERROR then
                let (cleared, s3) = clear_pending_issue s2
                in (no_update\<lparr>ru_pending_issue_cleared := cleared\<rparr>, s3)
              else (no_update, s2))"

text \<open>The mutation prologue of \<open>record_tool_result\<close>.\<close>

definition record_mutation :: "ToolCall \<Rightarrow> int \<Rightarrow> rstate \<Rightarrow> rstate" where
  "record_mutation call turn_index s =
     (let s1 = (if is_mutation_tool call \<and> rs_active_validation_issue s \<noteq> None
                then note_revision_attempt turn_index s else s)
      in if is_mutation_tool call then
           let s2 = s1\<lparr>rs_last_mutation_turn := Some turn_index,
                       rs_post_mutation_validation_pending := rs_requires_validation_evidence s1\<rparr>
           in if rs_active_failure_kind s2 \<noteq> None then note_corrective_progress turn_index s2 else s2
         else s1)"

definition record_tool_success :: "ToolCall \<Rightarrow> int \<Rightarrow> rstate \<Rightarrow> RecoveryUpdate \<times> rstate" where
  "record_tool_success call turn_index s =
     (let s1 =
        (if is_validation_tool call then
           let a1 = s\<lparr>rs_active_validation_issue := map_option (\<lambda>i. i\<lparr>
                          vi_validation_attempt_count := vi_validation_attempt_count i + 1,
                          vi_last_observed_turn := turn_index\<rparr>) (rs_active_validation_issue s)\<rparr>;
               a2 = a1\<lparr>rs_last_validation_attempt_turn := Some turn_index,
                       rs_last_successful_validation_turn := Some turn_index,
                       rs_post_mutation_validation_pending := False\<rparr>;
               (_, a3) = resolve_active_validation_issue turn_index ''validation_passed'' a2
           in clear_active_failure a3
         else if rs_pending_issue_kind s \<in> {Some PIK_PARSE_ERROR, Some PIK_TOOL_FAILURE}
         then clear_active_failure s
         else if rs_active_failure_kind s \<noteq> None then note_corrective_progress turn_index s
         else s);
          s2 = snd (refresh_completion_evidence_status s1);
          s3 = snd (refresh_validation_phase s2)
      in if is_validation_tool call \<or>
            rs_pending_issue_kind s3 \<in> {Some PIK_PARSE_ERROR, Some PIK_TOOL_FAILURE}
         then let (cleared, s4) = clear_pending_issue s3
              in (no_update\<lparr>ru_pending_issue_cleared := cleared\<rparr>, snd (refresh_validation_phase s4))
         else (no_update, s3))"

definition record_tool_failure ::
  "ToolCall \<Rightarrow> ToolResult \<Rightarrow> int \<Rightarrow> rstate \<Rightarrow> RecoveryUpdate \<times> rstate" where
  "record_tool_failure call result turn_index s =
     (let detail = describe_pending_tool_issue call result;
          (kind, reason, s1) =
            (if is_validation_tool call then
               let a1 = s\<lparr>rs_last_validation_attempt_turn := Some turn_index,
                          rs_last_validation_failure_turn := Some turn_index,
                          rs_validation_failure_count := rs_validation_failure_count s + 1\<rparr>;
                   a2 = note_active_failure (PendingIssueKind_value PIK_VALIDATION_FAILURE) turn_index a1;
                   a3 = set_pending_issue PIK_VALIDATION_FAILURE detail a2;
                   a4 = snd (open_or_update_validation_issue (classify_validation_issue result) detail
                          turn_index (Some (canonical_tool_name call)) (Some (tc_id call)) True a3)
               in (PIK_VALIDATION_FAILURE, CR_RECOVERABLE_VALIDATION_FAILURE, a4)
             else
               (PIK_TOOL_FAILURE, CR_RECOVERABLE_TOOL_FAILURE,
                set_pending_issue PIK_TOOL_FAILURE detail
                  (note_active_failure (PendingIssueKind_value PIK_TOOL_FAILURE) turn_index s)));
          s2 = snd (refresh_completion_evidence_status s1);
          s3 = snd (refresh_validation_phase s2)
      in (\<lparr>ru_recoverable = True, ru_pending_issue_kind = Some kind, ru_pending_issue_detail = detail,
           ru_continue_reason = Some reason, ru_pending_issue_cleared = False\<rparr>, s3))"

definition record_tool_result ::
  "ToolCall \<Rightarrow> ToolResult \<Rightarrow> int \<Rightarrow> rstate \<Rightarrow> RecoveryUpdate \<times> rstate" where
  "record_tool_result call result turn_index s =
     (if canonical_tool_name call = ''finish'' then (no_update, s)
      else let s1 = record_mutation call turn_index s
      in if tool_succeeded result then record_tool_success call turn_index s1
         else if \<not> is_recoverable_tool_result call result then (no_update, s1)
         else record_tool_failure call result turn_index s1)"

subsection \<open>Completion: the issue it opens, the budgets, the assessment\<close>

definition ensure_validation_issue_for_completion_block ::
  "int \<Rightarrow> rstate \<Rightarrow> ValidationIssueRecord option \<times> rstate" where
  "ensure_validation_issue_for_completion_block turn_index s =
     (case rs_active_validation_issue s of
        Some a \<Rightarrow>
          let a' = a\<lparr>vi_last_observed_turn := turn_index\<rparr>
          in (Some a', s\<lparr>rs_active_validation_issue := Some a'\<rparr>)
      | None \<Rightarrow>
          let (st, s1) = refresh_completion_evidence_status s
          in if st = CES_NOT_REQUIRED then (None, s1)
             else if st = CES_VALIDATED then (rs_active_validation_issue s1, s1)
             else if st = CES_STALE then
               (let (i, s2) = open_or_update_validation_issue VIK_STALE_VALIDATION_EVIDENCE
                      ''Completion deferred: validation evidence is stale because the workspace changed after the last successful validation''
                      turn_index None None False s1
                in (Some i, s2))
             else
               (let (i, s2) = open_or_update_validation_issue VIK_FINISH_WITHOUT_REQUIRED_VALIDATION
                      ''Completion deferred: validation has not succeeded yet for a task that requires runtime validation evidence''
                      turn_index None None False s1
                in (Some i, s2)))"

definition validation_budget_exhaustion :: "rstate \<Rightarrow> (StopDecisionCode \<times> string) option" where
  "validation_budget_exhaustion s =
     (case rs_active_validation_issue s of
        None \<Rightarrow> None
      | Some i \<Rightarrow>
          let config = rs_validation_policy_config s;
              kind = ValidationIssueKind_value (vi_kind i)
          in if vi_validation_attempt_count i > max_validation_attempts_per_issue config then
               Some (SDC_VALIDATION_BUDGET_EXHAUSTED,
                 ''Validation budget exhausted for '' @ kind @ '' after ''
                 @ py_int_str (vi_validation_attempt_count i)
                 @ '' validation attempts (last_failure_tool=''
                 @ str_or (vi_last_failure_tool_name i) ''unknown'' @ '')'')
             else if vi_revision_attempt_count i > max_revision_attempts_per_issue config then
               Some (SDC_REVISION_BUDGET_EXHAUSTED,
                 ''Revision budget exhausted for '' @ kind @ '' after ''
                 @ py_int_str (vi_revision_attempt_count i) @ '' revision attempts'')
             else if vi_finish_deferral_count i > max_finish_deferrals_per_issue config then
               Some (SDC_FINISH_DEFERRAL_BUDGET_EXHAUSTED,
                 ''Finish deferral budget exhausted for '' @ kind @ '' after ''
                 @ py_int_str (vi_finish_deferral_count i) @ '' blocked completion attempts'')
             else None)"

definition detail_or :: "string \<Rightarrow> string \<Rightarrow> string" where
  "detail_or d e = (if d = '''' then e else d)"

text \<open>The fields every assessment copies from the locals captured before the branches.\<close>

definition assessment ::
  "bool \<Rightarrow> CompletionBlockFamily \<Rightarrow> string option \<Rightarrow> string \<Rightarrow> ExpectedNextStep option
    \<Rightarrow> string option \<Rightarrow> string option \<Rightarrow> bool \<Rightarrow> bool \<Rightarrow> bool \<Rightarrow> CompletionBlockAssessment" where
  "assessment blocked family reason detail step recent active corrective pending fresh =
     \<lparr>ca_blocked = blocked, ca_completion_block_family = family, ca_block_reason = reason,
      ca_detail = detail, ca_expected_next_step = step, ca_recent_failure_kind = recent,
      ca_active_failure_kind = active, ca_corrective_progress_after_failure = corrective,
      ca_post_mutation_validation_pending = pending, ca_validation_evidence_fresh = fresh,
      ca_completion_allowed = (\<not> blocked)\<rparr>"

definition assess_completion_block ::
  "rstate \<Rightarrow> bool \<Rightarrow> bool \<Rightarrow> string option \<Rightarrow> CompletionBlockAssessment \<times> rstate" where
  "assess_completion_block s meaningful gate recent =
     (let (status, s1) = refresh_completion_evidence_status s;
          (fresh, s2) = validation_evidence_fresh s1;
          active = (case rs_active_failure_kind s2 of
                      None \<Rightarrow> recent | Some k \<Rightarrow> if k = '''' then recent else Some k);
          pending = rs_post_mutation_validation_pending s2;
          corrective = rs_corrective_progress_after_failure s2;
          gated = (\<lambda>reason st. st\<lparr>rs_finish_gate_reason := reason\<rparr>)
      in if rs_pending_issue_kind s2 = Some PIK_VALIDATION_FAILURE then
           let s3 = gated (Some ''unresolved_validation_failure'') s2;
               (step, s4) = expected_next_step s3
           in (assessment True CBF_PENDING_ISSUE (Some ''unresolved_validation_failure'')
                 (detail_or (rs_pending_issue_detail s3)
                    ''Completion deferred: validation failed and has not been recovered yet'')
                 (Some step) recent active corrective pending fresh, s4)
         else if rs_pending_issue_kind s2 \<in> {Some PIK_PARSE_ERROR, Some PIK_TOOL_FAILURE} then
           let s3 = gated (Some ''recent_recoverable_failure'') s2;
               (step, s4) = expected_next_step s3
           in (assessment True CBF_PENDING_ISSUE (Some ''recent_recoverable_failure'')
                 (detail_or (rs_pending_issue_detail s3)
                    ''Completion deferred: a recoverable issue is still pending'')
                 (Some step) recent active corrective pending fresh, s4)
         else if pending \<and> status \<in> {CES_MISSING, CES_STALE} then
           (assessment True CBF_VALIDATION_EVIDENCE (Some ''post_mutation_validation_pending'')
              ''Completion deferred: workspace changes still need fresh validation before finish is allowed''
              (Some ENS_VALIDATE) recent active corrective pending fresh,
            gated (Some ''post_mutation_validation_pending'') s2)
         else if active \<noteq> None \<and> \<not> corrective \<and> status = CES_VALIDATED then
           let s3 = gated (Some ''no_corrective_progress_after_failure'') s2;
               (step, s4) = expected_next_step s3
           in (assessment True CBF_PROGRESS_GATE (Some ''no_corrective_progress_after_failure'')
                 ''Completion deferred: a recent failure has not been followed by a corrective revision or successful retry yet''
                 (Some step) recent active corrective pending fresh, s4)
         else if status = CES_MISSING then
           (assessment True CBF_VALIDATION_EVIDENCE (Some ''missing_validation_evidence'')
              ''Completion deferred: validation has not succeeded yet for a task that requires runtime validation evidence''
              (Some ENS_VALIDATE) recent active corrective pending fresh,
            gated (Some ''missing_validation_evidence'') s2)
         else if status = CES_STALE then
           (assessment True CBF_VALIDATION_EVIDENCE (Some ''post_mutation_validation_pending'')
              ''Completion deferred: validation evidence is stale because the workspace changed after the last successful validation''
              (Some ENS_VALIDATE) recent active corrective pending fresh,
            gated (Some ''post_mutation_validation_pending'') s2)
         else if gate \<and> \<not> meaningful then
           (assessment True CBF_PROGRESS_GATE (Some ''no_meaningful_progress'')
              (''Completion deferred: runtime has not observed meaningful non-finish progress yet''
                @ (case recent of None \<Rightarrow> '''' | Some k \<Rightarrow> '' after recent '' @ k))
              (Some ENS_RETRY_PARSE_OR_TOOL) recent active corrective pending fresh,
            gated (Some ''no_meaningful_progress'') s2)
         else
           (assessment False CBF_NONE None '''' None recent active corrective pending fresh,
            gated None s2))"

definition completion_block_reason ::
  "rstate \<Rightarrow> bool \<Rightarrow> bool \<Rightarrow> string option \<Rightarrow> string option \<times> rstate" where
  "completion_block_reason s meaningful gate recent =
     (let (a, s') = assess_completion_block s meaningful gate recent
      in (if \<not> ca_blocked a then None else Some (ca_detail a), s'))"

definition completion_block_family_for_reason :: "string option \<Rightarrow> CompletionBlockFamily" where
  "completion_block_family_for_reason reason =
     (if reason \<in> {Some ''unresolved_validation_failure'', Some ''recent_recoverable_failure''}
      then CBF_PENDING_ISSUE
      else if reason \<in> {Some ''post_mutation_validation_pending'', Some ''missing_validation_evidence''}
      then CBF_VALIDATION_EVIDENCE
      else if reason \<in> {Some ''no_corrective_progress_after_failure'', Some ''no_meaningful_progress''}
      then CBF_PROGRESS_GATE
      else CBF_NONE)"

definition stop_hook_reason_code_for_block_reason :: "string option \<Rightarrow> string" where
  "stop_hook_reason_code_for_block_reason reason =
     (case completion_block_family_for_reason reason of
        CBF_PENDING_ISSUE \<Rightarrow> ''pending_issue''
      | CBF_VALIDATION_EVIDENCE \<Rightarrow> ''validation_required''
      | CBF_PROGRESS_GATE \<Rightarrow> ''no_progress''
      | CBF_NONE \<Rightarrow> ''none'')"

text \<open>
  What \<open>derive_stop_policy_input_snapshot\<close> reads of a session by \<open>getattr\<close>;
  \<open>no_session\<close> holds the defaults, which a plain \<open>object()\<close> yields.
\<close>

record SessionProgress =
  pg_non_finish_tool_call_count :: int
  pg_saw_mutation_progress :: bool
  pg_saw_validation_progress :: bool
  pg_distinct_non_finish_tool_names :: "string list"
  pg_successful_non_finish_tool_call_count :: int
  pg_recent_failure_kind :: "string option"
  pg_recent_failure_turn :: "int option"

definition no_session :: SessionProgress where
  "no_session = \<lparr>pg_non_finish_tool_call_count = 0, pg_saw_mutation_progress = False,
     pg_saw_validation_progress = False, pg_distinct_non_finish_tool_names = [],
     pg_successful_non_finish_tool_call_count = 0, pg_recent_failure_kind = None,
     pg_recent_failure_turn = None\<rparr>"

definition derive_stop_policy_input_snapshot ::
  "SessionProgress \<Rightarrow> int \<Rightarrow> rstate \<Rightarrow> StopPolicyInputSnapshot \<times> rstate" where
  "derive_stop_policy_input_snapshot g current_turn s =
     (let meaningful = (pg_non_finish_tool_call_count g > 0 \<and>
            (pg_saw_mutation_progress g \<or> pg_saw_validation_progress g \<or>
             length (pg_distinct_non_finish_tool_names g) > 1));
          gate = (pg_successful_non_finish_tool_call_count g > 1 \<and> \<not> meaningful);
          recent = (case (pg_recent_failure_kind g, pg_recent_failure_turn g) of
              (Some k, Some t) \<Rightarrow> if current_turn - t \<le> 2 then Some k else None
            | _ \<Rightarrow> None);
          (a, s') = assess_completion_block s meaningful gate recent
      in (\<lparr>sp_meaningful_progress_observed = meaningful, sp_progress_gate_applicable = gate,
           sp_recent_failure_kind = recent,
           sp_validation_required_for_completion = rs_validation_required_for_completion s',
           sp_completion_block_family_hint = ca_completion_block_family a\<rparr>, s'))"

subsection \<open>Continuation reasons and the taxonomy of turns\<close>

definition continue_reason_for_turn ::
  "rstate \<Rightarrow> bool \<Rightarrow> string list \<Rightarrow> bool \<Rightarrow> ContinueReason option" where
  "continue_reason_for_turn s tool_calls_present parse_errors completion_blocked =
     (if parse_errors \<noteq> [] \<and> \<not> tool_calls_present \<and> parse_error_is_recoverable s
      then Some CR_RECOVERABLE_PARSE_ERROR
      else if completion_blocked then
        (if rs_pending_issue_kind s \<noteq> None then Some CR_DEFER_COMPLETION_PENDING_ISSUE
         else Some CR_DEFER_COMPLETION_MISSING_COMPLETION_EVIDENCE)
      else if rs_pending_issue_kind s = Some PIK_VALIDATION_FAILURE then
        (case (rs_last_mutation_turn s, rs_last_validation_failure_turn s) of
           (Some m, Some f) \<Rightarrow>
             if m > f then Some CR_AWAITING_REVALIDATION_AFTER_REVISION
             else Some CR_AWAITING_REVISION_AFTER_VALIDATION_FAILURE
         | _ \<Rightarrow> Some CR_AWAITING_REVISION_AFTER_VALIDATION_FAILURE)
      else if rs_pending_issue_kind s = Some PIK_TOOL_FAILURE then Some CR_RECOVERABLE_TOOL_FAILURE
      else if tool_calls_present then Some CR_TOOL_CALLS_PRESENT
      else None)"

text \<open>
  The taxonomy functions take a phase or an action either as an enumeration member or as a
  string.  \<open>str()\<close> of a member of a \<open>(str, Enum)\<close> class is its qualified name, not its value,
  so looking that text up again raises \<open>ValueError\<close>.
\<close>

datatype 'a enum_arg = Member 'a | Text string

definition ValidationPhase_of_str :: "string \<Rightarrow> string + ValidationPhase" where
  "ValidationPhase_of_str t =
     (if t = ''idle'' then Inr VP_IDLE
      else if t = ''mutated_unvalidated'' then Inr VP_MUTATED_UNVALIDATED
      else if t = ''validation_failed'' then Inr VP_VALIDATION_FAILED
      else if t = ''validated'' then Inr VP_VALIDATED
      else Inl (py_repr_str t @ '' is not a valid ValidationPhase''))"

fun ValidationPhase_name :: "ValidationPhase \<Rightarrow> string" where
  "ValidationPhase_name VP_IDLE = ''ValidationPhase.IDLE''"
| "ValidationPhase_name VP_MUTATED_UNVALIDATED = ''ValidationPhase.MUTATED_UNVALIDATED''"
| "ValidationPhase_name VP_VALIDATION_FAILED = ''ValidationPhase.VALIDATION_FAILED''"
| "ValidationPhase_name VP_VALIDATED = ''ValidationPhase.VALIDATED''"

definition TurnAction_of_str :: "string \<Rightarrow> string + TurnAction" where
  "TurnAction_of_str t =
     (case find (\<lambda>a. TurnAction_value a = t)
        [TA_NONE, TA_INSPECT, TA_MUTATE, TA_VALIDATE, TA_REVISE, TA_REVALIDATE,
         TA_REVISION_AND_REVALIDATION, TA_FINISH_ATTEMPT, TA_FINISH_BLOCKED, TA_MIXED] of
        Some a \<Rightarrow> Inr a
      | None \<Rightarrow> Inl (py_repr_str t @ '' is not a valid TurnAction''))"

definition classify_turn_action ::
  "ToolCall list \<Rightarrow> ValidationPhase enum_arg \<Rightarrow> string + TurnAction" where
  "classify_turn_action tool_calls phase_before =
     res_bind (ValidationPhase_of_str
         (case phase_before of Member p \<Rightarrow> ValidationPhase_name p | Text t \<Rightarrow> t))
       (\<lambda>phase.
          if tool_calls = [] then Inr TA_NONE
          else
            let has_finish = list_ex (\<lambda>c. canonical_tool_name c = ''finish'') tool_calls;
                has_validation = list_ex is_validation_tool tool_calls;
                has_mutation = list_ex is_mutation_tool tool_calls
            in if has_finish \<and> length tool_calls = 1 \<and> \<not> has_validation \<and> \<not> has_mutation
               then Inr TA_FINISH_ATTEMPT
               else if has_mutation \<and> has_validation then
                 Inr (if phase = VP_VALIDATION_FAILED then TA_REVISION_AND_REVALIDATION else TA_MIXED)
               else if has_validation then
                 Inr (if phase = VP_VALIDATION_FAILED then TA_REVALIDATE else TA_VALIDATE)
               else if has_mutation then
                 Inr (if phase = VP_VALIDATION_FAILED then TA_REVISE else TA_MUTATE)
               else if has_finish then Inr TA_MIXED
               else Inr TA_INSPECT)"

definition classify_turn_outcome ::
  "ValidationPhase enum_arg \<Rightarrow> TurnAction enum_arg \<Rightarrow> (ToolCall \<times> ToolResult) list
    \<Rightarrow> string \<Rightarrow> string option \<Rightarrow> string + TurnOutcome" where
  "classify_turn_outcome phase_after action tool_results stop_decision_code stop_reason =
     res_bind (case action of Member a \<Rightarrow> Inr a | Text t \<Rightarrow> TurnAction_of_str t) (\<lambda>act.
     res_bind (case phase_after of Member p \<Rightarrow> Inr p | Text t \<Rightarrow> ValidationPhase_of_str t) (\<lambda>phase.
       Inr
        (if stop_reason = Some (StopDecisionCode_value SDC_FINISH) then TO_FINISH_ACCEPTED
         else if stop_decision_code = StopDecisionCode_value SDC_VALIDATION_BUDGET_EXHAUSTED
         then TO_VALIDATION_BUDGET_EXHAUSTED
         else if stop_decision_code = StopDecisionCode_value SDC_REVISION_BUDGET_EXHAUSTED
         then TO_REVISION_BUDGET_EXHAUSTED
         else if stop_decision_code = StopDecisionCode_value SDC_FINISH_DEFERRAL_BUDGET_EXHAUSTED
         then TO_FINISH_DEFERRAL_BUDGET_EXHAUSTED
         else if starts_with ''defer_finish'' stop_decision_code \<or>
                 starts_with ''defer_no_tool_calls'' stop_decision_code
         then (if act = TA_FINISH_ATTEMPT then TO_FINISH_BLOCKED_BY_VALIDATION else TO_FINISH_DEFERRED)
         else
           let validation_results =
                 map snd (filter (\<lambda>(call, result). is_validation_tool call) tool_results)
           in if list_ex (\<lambda>r. tool_succeeded r) validation_results then TO_VALIDATION_PASSED
              else if list_ex (\<lambda>r. \<not> tr_ok r \<or> tr_is_error r) validation_results
              then TO_VALIDATION_FAILED
              else if act \<in> {TA_REVISE, TA_REVISION_AND_REVALIDATION} then TO_REVISION_APPLIED
              else if phase = VP_MUTATED_UNVALIDATED then TO_AWAITING_VALIDATION
              else TO_NONE)))"

end
