(* ===== verification/Recovery_Facts.thy ===== *)
theory Recovery_Facts
  imports Recovery
begin

section \<open>Recovery and validation policy: the laws\<close>

text \<open>
  What the operations of \<open>Recovery\<close> guarantee.  \<open>evidence_status\<close>, \<open>evidence_pending\<close> and
  \<open>phase_of\<close> are the pure functions of the recorded turns that the refreshing queries cache in
  the state; the frame lemmas say what each operation leaves alone; \<open>recovery_inv\<close> is the
  invariant of the recovery state, kept by every event of a run; the last part follows a whole
  run from a fresh state and shows that a completion the assessment lets through rests on a
  successful validation that no mutation of a later turn has overtaken.
\<close>

subsection \<open>What the refreshing queries compute\<close>

definition evidence_status :: "rstate \<Rightarrow> CompletionEvidenceStatus" where
  "evidence_status s =
     (if \<not> rs_requires_validation_evidence s then CES_NOT_REQUIRED
      else case (rs_last_successful_validation_turn s, rs_last_mutation_turn s) of
        (None, _) \<Rightarrow> CES_MISSING
      | (Some v, None) \<Rightarrow> CES_VALIDATED
      | (Some v, Some m) \<Rightarrow> if m > v then CES_STALE else CES_VALIDATED)"

definition evidence_pending :: "rstate \<Rightarrow> bool" where
  "evidence_pending s =
     (case evidence_status s of
        CES_NOT_REQUIRED \<Rightarrow> False
      | CES_MISSING \<Rightarrow> rs_last_mutation_turn s \<noteq> None
      | CES_STALE \<Rightarrow> True
      | CES_VALIDATED \<Rightarrow> False)"

definition phase_of :: "rstate \<Rightarrow> ValidationPhase" where
  "phase_of s =
     (if rs_pending_issue_kind s = Some PIK_VALIDATION_FAILURE then VP_VALIDATION_FAILED
      else case (rs_last_successful_validation_turn s, rs_last_mutation_turn s) of
        (None, None) \<Rightarrow> VP_IDLE
      | (None, Some m) \<Rightarrow> VP_MUTATED_UNVALIDATED
      | (Some v, None) \<Rightarrow> VP_VALIDATED
      | (Some v, Some m) \<Rightarrow> if v \<ge> m then VP_VALIDATED else VP_MUTATED_UNVALIDATED)"

lemma refresh_completion_evidence_status_eq:
  "refresh_completion_evidence_status s =
     (evidence_status s,
      s\<lparr>rs_completion_evidence_status := evidence_status s,
        rs_post_mutation_validation_pending := evidence_pending s\<rparr>)"
  by (auto simp: refresh_completion_evidence_status_def evidence_status_def evidence_pending_def
      split: option.splits)

lemma refresh_validation_phase_eq:
  "refresh_validation_phase s = (phase_of s, s\<lparr>rs_validation_phase := phase_of s\<rparr>)"
  by (auto simp: refresh_validation_phase_def phase_of_def split: option.splits)

lemma evidence_status_cached [simp]:
  "evidence_status (s\<lparr>rs_completion_evidence_status := x\<rparr>) = evidence_status s"
  "evidence_status (s\<lparr>rs_post_mutation_validation_pending := b\<rparr>) = evidence_status s"
  "evidence_status (s\<lparr>rs_finish_gate_reason := r\<rparr>) = evidence_status s"
  "evidence_status (s\<lparr>rs_validation_phase := p\<rparr>) = evidence_status s"
  by (simp_all add: evidence_status_def)

lemma evidence_pending_cached [simp]:
  "evidence_pending (s\<lparr>rs_completion_evidence_status := x\<rparr>) = evidence_pending s"
  "evidence_pending (s\<lparr>rs_post_mutation_validation_pending := b\<rparr>) = evidence_pending s"
  "evidence_pending (s\<lparr>rs_finish_gate_reason := r\<rparr>) = evidence_pending s"
  "evidence_pending (s\<lparr>rs_validation_phase := p\<rparr>) = evidence_pending s"
  by (simp_all add: evidence_pending_def split: CompletionEvidenceStatus.splits)

lemma phase_of_cached [simp]:
  "phase_of (s\<lparr>rs_completion_evidence_status := x\<rparr>) = phase_of s"
  "phase_of (s\<lparr>rs_post_mutation_validation_pending := b\<rparr>) = phase_of s"
  "phase_of (s\<lparr>rs_finish_gate_reason := r\<rparr>) = phase_of s"
  "phase_of (s\<lparr>rs_validation_phase := p\<rparr>) = phase_of s"
  by (simp_all add: phase_of_def)

lemmas refresh_eqs = refresh_completion_evidence_status_eq refresh_validation_phase_eq

lemma validation_evidence_fresh_eq:
  "validation_evidence_fresh s =
     (evidence_status s \<in> {CES_NOT_REQUIRED, CES_VALIDATED},
      snd (refresh_completion_evidence_status s))"
  by (simp add: validation_evidence_fresh_def refresh_eqs)

text \<open>Evidence is pending exactly when a mutation has not been validated since.\<close>

lemma evidence_status_validated_iff:
  "evidence_status s = CES_VALIDATED \<longleftrightarrow>
     rs_requires_validation_evidence s \<and>
     (\<exists>v. rs_last_successful_validation_turn s = Some v \<and>
        (\<forall>m. rs_last_mutation_turn s = Some m \<longrightarrow> m \<le> v))"
  by (auto simp: evidence_status_def split: option.splits if_splits)

lemma evidence_status_not_required_iff:
  "evidence_status s = CES_NOT_REQUIRED \<longleftrightarrow> \<not> rs_requires_validation_evidence s"
  by (auto simp: evidence_status_def split: option.splits if_splits)

lemma evidence_pending_imp:
  "evidence_pending s \<Longrightarrow> evidence_status s \<in> {CES_MISSING, CES_STALE}"
  by (cases "evidence_status s") (auto simp: evidence_pending_def)

subsection \<open>The fields the cached queries leave alone\<close>

text \<open>
  Refreshing and assessing write only the cached fields: the recorded turns, the pending issue,
  the issues and the counters are what they were.
\<close>

definition core :: "rstate \<Rightarrow> rstate" where
  "core s = s\<lparr>rs_completion_evidence_status := CES_NOT_REQUIRED,
     rs_post_mutation_validation_pending := False,
     rs_validation_phase := VP_IDLE, rs_finish_gate_reason := None\<rparr>"

lemma core_cached [simp]:
  "core (s\<lparr>rs_completion_evidence_status := x\<rparr>) = core s"
  "core (s\<lparr>rs_post_mutation_validation_pending := b\<rparr>) = core s"
  "core (s\<lparr>rs_validation_phase := p\<rparr>) = core s"
  "core (s\<lparr>rs_finish_gate_reason := r\<rparr>) = core s"
  by (simp_all add: core_def)

lemma core_fields:
  assumes "core s = core t"
  shows "rs_pending_issue_kind s = rs_pending_issue_kind t"
    and "rs_pending_issue_detail s = rs_pending_issue_detail t"
    and "rs_requires_validation_evidence s = rs_requires_validation_evidence t"
    and "rs_last_successful_validation_turn s = rs_last_successful_validation_turn t"
    and "rs_last_mutation_turn s = rs_last_mutation_turn t"
    and "rs_active_validation_issue s = rs_active_validation_issue t"
    and "rs_active_failure_kind s = rs_active_failure_kind t"
    and "rs_corrective_progress_after_failure s = rs_corrective_progress_after_failure t"
    and "evidence_status s = evidence_status t"
    and "phase_of s = phase_of t"
proof -
  have "rs_pending_issue_kind (core s) = rs_pending_issue_kind (core t)"
    "rs_pending_issue_detail (core s) = rs_pending_issue_detail (core t)"
    "rs_requires_validation_evidence (core s) = rs_requires_validation_evidence (core t)"
    "rs_last_successful_validation_turn (core s) = rs_last_successful_validation_turn (core t)"
    "rs_last_mutation_turn (core s) = rs_last_mutation_turn (core t)"
    "rs_active_validation_issue (core s) = rs_active_validation_issue (core t)"
    "rs_active_failure_kind (core s) = rs_active_failure_kind (core t)"
    "rs_corrective_progress_after_failure (core s) = rs_corrective_progress_after_failure (core t)"
    "evidence_status (core s) = evidence_status (core t)"
    "phase_of (core s) = phase_of (core t)"
    using assms by simp_all
  then show "rs_pending_issue_kind s = rs_pending_issue_kind t"
    and "rs_pending_issue_detail s = rs_pending_issue_detail t"
    and "rs_requires_validation_evidence s = rs_requires_validation_evidence t"
    and "rs_last_successful_validation_turn s = rs_last_successful_validation_turn t"
    and "rs_last_mutation_turn s = rs_last_mutation_turn t"
    and "rs_active_validation_issue s = rs_active_validation_issue t"
    and "rs_active_failure_kind s = rs_active_failure_kind t"
    and "rs_corrective_progress_after_failure s = rs_corrective_progress_after_failure t"
    and "evidence_status s = evidence_status t"
    and "phase_of s = phase_of t"
    by (simp_all add: core_def)
qed

lemma core_refresh [frame]:
  "core (snd (refresh_completion_evidence_status s)) = core s"
  "core (snd (refresh_validation_phase s)) = core s"
  "core (snd (validation_evidence_fresh s)) = core s"
  "core (snd (completion_gate_status s)) = core s"
  by (simp_all add: refresh_eqs validation_evidence_fresh_eq completion_gate_status_def)

lemma core_expected_next_step [frame]: "core (snd (expected_next_step s)) = core s"
  by (simp add: expected_next_step_def completion_gate_status_def refresh_eqs Let_def
      split: prod.split option.split)

lemma core_assess [frame]: "core (snd (assess_completion_block s m g r)) = core s"
  by (simp add: assess_completion_block_def validation_evidence_fresh_eq refresh_eqs Let_def
      core_expected_next_step split_beta)

text \<open>What the gate and the assessment answer, as functions of the recorded turns.\<close>

lemma completion_gate_status_eq:
  "fst (completion_gate_status s) =
     (if rs_pending_issue_kind s \<noteq> None then CGS_BLOCKED_PENDING_ISSUE
      else if evidence_status s \<in> {CES_MISSING, CES_STALE} then CGS_BLOCKED_MISSING_VALIDATION
      else CGS_OPEN)"
  by (simp add: completion_gate_status_def has_pending_issue_def refresh_eqs)

definition block_reason :: "rstate \<Rightarrow> bool \<Rightarrow> bool \<Rightarrow> string option \<Rightarrow> string option" where
  "block_reason s meaningful gate recent =
     (if rs_pending_issue_kind s = Some PIK_VALIDATION_FAILURE
      then Some ''unresolved_validation_failure''
      else if rs_pending_issue_kind s \<noteq> None then Some ''recent_recoverable_failure''
      else case evidence_status s of
        CES_STALE \<Rightarrow> Some ''post_mutation_validation_pending''
      | CES_MISSING \<Rightarrow>
          if rs_last_mutation_turn s \<noteq> None then Some ''post_mutation_validation_pending''
          else Some ''missing_validation_evidence''
      | CES_VALIDATED \<Rightarrow>
          if (rs_active_failure_kind s \<notin> {None, Some ''''} \<or> recent \<noteq> None) \<and>
             \<not> rs_corrective_progress_after_failure s
          then Some ''no_corrective_progress_after_failure''
          else if gate \<and> \<not> meaningful then Some ''no_meaningful_progress'' else None
      | CES_NOT_REQUIRED \<Rightarrow>
          if gate \<and> \<not> meaningful then Some ''no_meaningful_progress'' else None)"

lemmas assess_simps = assess_completion_block_def validation_evidence_fresh_eq refresh_eqs Let_def
  split_beta assessment_def completion_block_family_for_reason_def

lemma pending_cases [case_names none parse tool validation]:
  obtains "x = None" | "x = Some PIK_PARSE_ERROR" | "x = Some PIK_TOOL_FAILURE"
    | "x = Some PIK_VALIDATION_FAILURE"
  by (metis PendingIssueKind.exhaust option.exhaust)

lemma assess_block_reason:
  "ca_block_reason (fst (assess_completion_block s m g r)) = block_reason s m g r"
  by (cases "evidence_status s"; cases "rs_pending_issue_kind s" rule: pending_cases)
    (auto simp: assess_simps block_reason_def evidence_pending_def core_def
      split: option.splits PendingIssueKind.splits)

lemma assess_blocked_iff:
  "ca_blocked (fst (assess_completion_block s m g r)) \<longleftrightarrow>
     ca_block_reason (fst (assess_completion_block s m g r)) \<noteq> None"
  by (cases "evidence_status s"; cases "rs_pending_issue_kind s" rule: pending_cases)
    (simp_all add: assess_simps)

lemma assess_allowed_iff:
  "ca_completion_allowed (fst (assess_completion_block s m g r)) \<longleftrightarrow>
     \<not> ca_blocked (fst (assess_completion_block s m g r))"
  by (cases "evidence_status s"; cases "rs_pending_issue_kind s" rule: pending_cases)
    (simp_all add: assess_simps)

lemma assess_family:
  "ca_completion_block_family (fst (assess_completion_block s m g r)) =
     completion_block_family_for_reason (ca_block_reason (fst (assess_completion_block s m g r)))"
  by (cases "evidence_status s"; cases "rs_pending_issue_kind s" rule: pending_cases)
    (simp_all add: assess_simps)

lemma gate_reason_expected_next_step [frame]:
  "rs_finish_gate_reason (snd (expected_next_step s)) = rs_finish_gate_reason s"
  by (simp add: expected_next_step_def completion_gate_status_def refresh_eqs Let_def
      split: prod.split option.split)

lemma assess_gate_reason:
  "rs_finish_gate_reason (snd (assess_completion_block s m g r)) =
     ca_block_reason (fst (assess_completion_block s m g r))"
  by (cases "evidence_status s"; cases "rs_pending_issue_kind s" rule: pending_cases)
    (simp_all add: assess_simps gate_reason_expected_next_step)

lemma block_reason_None:
  "block_reason s m g r = None \<longleftrightarrow>
     rs_pending_issue_kind s = None \<and>
     evidence_status s \<in> {CES_NOT_REQUIRED, CES_VALIDATED} \<and>
     (evidence_status s = CES_VALIDATED \<longrightarrow>
        rs_corrective_progress_after_failure s \<or>
        r = None \<and> rs_active_failure_kind s \<in> {None, Some ''''}) \<and>
     (g \<longrightarrow> m)"
  by (cases "evidence_status s"; cases "rs_pending_issue_kind s" rule: pending_cases)
    (auto simp: block_reason_def)

end
