(* ===== verification/Recovery_Runs.thy ===== *)
theory Recovery_Runs
  imports Recovery_Facts
begin

section \<open>Recovery and validation policy: runs\<close>

text \<open>
  The events the runner feeds the recovery state, the invariant they keep, and what a whole run
  from a fresh state guarantees.
\<close>

datatype recovery_event =
    RParse ParseResult "int option"
  | RTool ToolCall ToolResult int
  | REnsure int
  | RRevision int
  | RProgress int
  | RDeferral int
  | RAssess bool bool "string option"
  | RNextStep

fun recovery_step :: "recovery_event \<Rightarrow> rstate \<Rightarrow> rstate" where
  "recovery_step (RParse p t) s = snd (record_parse_result p t s)"
| "recovery_step (RTool c r t) s = snd (record_tool_result c r t s)"
| "recovery_step (REnsure t) s = snd (ensure_validation_issue_for_completion_block t s)"
| "recovery_step (RRevision t) s = note_revision_attempt t s"
| "recovery_step (RProgress t) s = note_corrective_progress t s"
| "recovery_step (RDeferral t) s = note_finish_deferral t s"
| "recovery_step (RAssess m g r) s = snd (assess_completion_block s m g r)"
| "recovery_step RNextStep s = snd (expected_next_step s)"

subsection \<open>The invariant\<close>

definition issue_open :: "ValidationIssueRecord \<Rightarrow> bool" where
  "issue_open i \<longleftrightarrow> vi_resolved_at_turn i = None \<and> vi_resolution_reason i = None \<and>
     0 \<le> vi_validation_attempt_count i \<and> 0 \<le> vi_revision_attempt_count i \<and>
     0 \<le> vi_finish_deferral_count i"

definition issue_closed :: "ValidationIssueRecord \<Rightarrow> bool" where
  "issue_closed i \<longleftrightarrow> vi_resolved_at_turn i \<noteq> None \<and> vi_resolution_reason i = Some ''validation_passed''"

definition counters_inv :: "rstate \<Rightarrow> bool" where
  "counters_inv s \<longleftrightarrow>
     0 \<le> rs_consecutive_parse_error_turns s \<and>
     rs_consecutive_parse_error_turns s \<le> rs_parse_error_count s \<and>
     0 \<le> rs_validation_failure_count s \<and>
     (rs_validation_failure_count s = 0 \<longleftrightarrow> rs_last_validation_failure_turn s = None) \<and>
     (rs_last_validation_attempt_turn s = None \<longrightarrow>
        rs_last_successful_validation_turn s = None \<and> rs_last_validation_failure_turn s = None)"

definition failure_inv :: "rstate \<Rightarrow> bool" where
  "failure_inv s \<longleftrightarrow>
     (rs_active_failure_kind s = None \<longleftrightarrow> rs_active_failure_turn s = None) \<and>
     (rs_corrective_progress_after_failure s \<longrightarrow> rs_active_failure_kind s \<noteq> None) \<and>
     (case rs_active_failure_kind s of None \<Rightarrow> True | Some k \<Rightarrow> k \<in> range PendingIssueKind_value)"

definition issues_inv :: "rstate \<Rightarrow> bool" where
  "issues_inv s \<longleftrightarrow>
     (rs_pending_issue_kind s = Some PIK_VALIDATION_FAILURE \<longrightarrow>
        rs_active_validation_issue s \<noteq> None \<and> rs_last_validation_failure_turn s \<noteq> None) \<and>
     (rs_pending_issue_kind s \<noteq> None \<longrightarrow> rs_pending_issue_detail s \<noteq> '''') \<and>
     pred_option issue_open (rs_active_validation_issue s) \<and>
     pred_option issue_closed (rs_last_resolved_validation_issue s) \<and>
     rs_validation_required_for_completion s = rs_requires_validation_evidence s"

definition recovery_inv :: "rstate \<Rightarrow> bool" where
  "recovery_inv s \<longleftrightarrow> counters_inv s \<and> failure_inv s \<and> issues_inv s"

lemmas recovery_inv_defs = recovery_inv_def counters_inv_def failure_inv_def issues_inv_def

text \<open>Each part of the invariant looks at a few fields only; the others may change freely.\<close>

lemma counters_inv_frame [frame]:
  "counters_inv (s\<lparr>rs_pending_issue_kind := k\<rparr>) = counters_inv s"
  "counters_inv (s\<lparr>rs_pending_issue_detail := d\<rparr>) = counters_inv s"
  "counters_inv (s\<lparr>rs_pending_issue_cleared := b\<rparr>) = counters_inv s"
  "counters_inv (s\<lparr>rs_last_cleared_issue_kind := k\<rparr>) = counters_inv s"
  "counters_inv (s\<lparr>rs_completion_evidence_status := x\<rparr>) = counters_inv s"
  "counters_inv (s\<lparr>rs_validation_phase := p\<rparr>) = counters_inv s"
  "counters_inv (s\<lparr>rs_last_mutation_turn := t\<rparr>) = counters_inv s"
  "counters_inv (s\<lparr>rs_active_validation_issue := i\<rparr>) = counters_inv s"
  "counters_inv (s\<lparr>rs_last_resolved_validation_issue := i\<rparr>) = counters_inv s"
  "counters_inv (s\<lparr>rs_last_revision_attempt_turn := t\<rparr>) = counters_inv s"
  "counters_inv (s\<lparr>rs_last_finish_deferral_turn := t\<rparr>) = counters_inv s"
  "counters_inv (s\<lparr>rs_active_failure_kind := f\<rparr>) = counters_inv s"
  "counters_inv (s\<lparr>rs_active_failure_turn := t\<rparr>) = counters_inv s"
  "counters_inv (s\<lparr>rs_corrective_progress_after_failure := b\<rparr>) = counters_inv s"
  "counters_inv (s\<lparr>rs_post_mutation_validation_pending := b\<rparr>) = counters_inv s"
  "counters_inv (s\<lparr>rs_finish_gate_reason := r\<rparr>) = counters_inv s"
  by (simp_all add: counters_inv_def)

lemma failure_inv_frame [frame]:
  "failure_inv (s\<lparr>rs_parse_error_count := n\<rparr>) = failure_inv s"
  "failure_inv (s\<lparr>rs_consecutive_parse_error_turns := n\<rparr>) = failure_inv s"
  "failure_inv (s\<lparr>rs_pending_issue_kind := k\<rparr>) = failure_inv s"
  "failure_inv (s\<lparr>rs_pending_issue_detail := d\<rparr>) = failure_inv s"
  "failure_inv (s\<lparr>rs_pending_issue_cleared := b\<rparr>) = failure_inv s"
  "failure_inv (s\<lparr>rs_last_cleared_issue_kind := k\<rparr>) = failure_inv s"
  "failure_inv (s\<lparr>rs_completion_evidence_status := x\<rparr>) = failure_inv s"
  "failure_inv (s\<lparr>rs_validation_phase := p\<rparr>) = failure_inv s"
  "failure_inv (s\<lparr>rs_last_successful_validation_turn := t\<rparr>) = failure_inv s"
  "failure_inv (s\<lparr>rs_last_validation_attempt_turn := t\<rparr>) = failure_inv s"
  "failure_inv (s\<lparr>rs_last_validation_failure_turn := t\<rparr>) = failure_inv s"
  "failure_inv (s\<lparr>rs_last_mutation_turn := t\<rparr>) = failure_inv s"
  "failure_inv (s\<lparr>rs_validation_failure_count := n\<rparr>) = failure_inv s"
  "failure_inv (s\<lparr>rs_active_validation_issue := i\<rparr>) = failure_inv s"
  "failure_inv (s\<lparr>rs_last_resolved_validation_issue := i\<rparr>) = failure_inv s"
  "failure_inv (s\<lparr>rs_last_revision_attempt_turn := t\<rparr>) = failure_inv s"
  "failure_inv (s\<lparr>rs_last_finish_deferral_turn := t\<rparr>) = failure_inv s"
  "failure_inv (s\<lparr>rs_post_mutation_validation_pending := b\<rparr>) = failure_inv s"
  "failure_inv (s\<lparr>rs_finish_gate_reason := r\<rparr>) = failure_inv s"
  by (simp_all add: failure_inv_def)

lemma issues_inv_frame [frame]:
  "issues_inv (s\<lparr>rs_parse_error_count := n\<rparr>) = issues_inv s"
  "issues_inv (s\<lparr>rs_consecutive_parse_error_turns := n\<rparr>) = issues_inv s"
  "issues_inv (s\<lparr>rs_pending_issue_cleared := b\<rparr>) = issues_inv s"
  "issues_inv (s\<lparr>rs_last_cleared_issue_kind := k\<rparr>) = issues_inv s"
  "issues_inv (s\<lparr>rs_completion_evidence_status := x\<rparr>) = issues_inv s"
  "issues_inv (s\<lparr>rs_validation_phase := p\<rparr>) = issues_inv s"
  "issues_inv (s\<lparr>rs_last_successful_validation_turn := t\<rparr>) = issues_inv s"
  "issues_inv (s\<lparr>rs_last_validation_attempt_turn := t\<rparr>) = issues_inv s"
  "issues_inv (s\<lparr>rs_last_mutation_turn := t\<rparr>) = issues_inv s"
  "issues_inv (s\<lparr>rs_validation_failure_count := n\<rparr>) = issues_inv s"
  "issues_inv (s\<lparr>rs_last_revision_attempt_turn := t\<rparr>) = issues_inv s"
  "issues_inv (s\<lparr>rs_last_finish_deferral_turn := t\<rparr>) = issues_inv s"
  "issues_inv (s\<lparr>rs_active_failure_kind := f\<rparr>) = issues_inv s"
  "issues_inv (s\<lparr>rs_active_failure_turn := t\<rparr>) = issues_inv s"
  "issues_inv (s\<lparr>rs_corrective_progress_after_failure := b\<rparr>) = issues_inv s"
  "issues_inv (s\<lparr>rs_post_mutation_validation_pending := b\<rparr>) = issues_inv s"
  "issues_inv (s\<lparr>rs_finish_gate_reason := r\<rparr>) = issues_inv s"
  by (simp_all add: issues_inv_def)

lemma recovery_inv_frame [frame]:
  "recovery_inv (s\<lparr>rs_completion_evidence_status := x\<rparr>) = recovery_inv s"
  "recovery_inv (s\<lparr>rs_post_mutation_validation_pending := b\<rparr>) = recovery_inv s"
  "recovery_inv (s\<lparr>rs_validation_phase := p\<rparr>) = recovery_inv s"
  "recovery_inv (s\<lparr>rs_finish_gate_reason := r\<rparr>) = recovery_inv s"
  "recovery_inv (s\<lparr>rs_last_mutation_turn := t\<rparr>) = recovery_inv s"
  by (simp_all add: recovery_inv_def frame)

lemma core_eq_inv: "core s = core t \<Longrightarrow> recovery_inv s = recovery_inv t"
  by (metis core_def recovery_inv_frame)

lemma new_recovery_state_inv [intro, simp]: "recovery_inv (new_recovery_state req config)"
  by (simp add: new_recovery_state_def post_init_def refresh_eqs recovery_defaults_def
      recovery_inv_defs)

lemma describe_pending_tool_issue_nonempty: "describe_pending_tool_issue c r \<noteq> ''''"
  by (simp add: describe_pending_tool_issue_def Let_def)

subsection \<open>Every event keeps the invariant\<close>

lemma issue_open_update [simp]:
  "issue_open (i\<lparr>vi_last_observed_turn := t\<rparr>) = issue_open i"
  "issue_open (i\<lparr>vi_detail := d\<rparr>) = issue_open i"
  "issue_open (i\<lparr>vi_last_failure_tool_name := x\<rparr>) = issue_open i"
  "issue_open (i\<lparr>vi_last_failure_tool_call_id := x\<rparr>) = issue_open i"
  "issue_open i \<Longrightarrow> 0 \<le> n \<Longrightarrow> issue_open (i\<lparr>vi_validation_attempt_count := n\<rparr>)"
  "issue_open i \<Longrightarrow> 0 \<le> n \<Longrightarrow> issue_open (i\<lparr>vi_revision_attempt_count := n\<rparr>)"
  "issue_open i \<Longrightarrow> 0 \<le> n \<Longrightarrow> issue_open (i\<lparr>vi_finish_deferral_count := n\<rparr>)"
  by (simp_all add: issue_open_def)

lemma issue_open_counts [dest]:
  "issue_open i \<Longrightarrow> 0 \<le> vi_validation_attempt_count i"
  "issue_open i \<Longrightarrow> 0 \<le> vi_revision_attempt_count i"
  "issue_open i \<Longrightarrow> 0 \<le> vi_finish_deferral_count i"
  by (simp_all add: issue_open_def)

lemma issues_inv_active:
  assumes "issues_inv s" and "issue_open i"
  shows "issues_inv (s\<lparr>rs_active_validation_issue := Some i\<rparr>)"
  using assms by (simp add: issues_inv_def)

lemma issues_inv_issue: "issues_inv s \<Longrightarrow> rs_active_validation_issue s = Some i \<Longrightarrow> issue_open i"
  by (simp add: issues_inv_def)

lemma note_revision_attempt_inv:
  assumes "recovery_inv s"
  shows "recovery_inv (note_revision_attempt t s)"
proof (cases "rs_active_validation_issue s")
  case (Some i)
  with assms have "issue_open i" "0 \<le> vi_revision_attempt_count i + 1"
    using issues_inv_issue issue_open_counts(2) by (auto simp: recovery_inv_def)
  with Some assms show ?thesis
    by (simp add: note_revision_attempt_def recovery_inv_def frame issues_inv_active)
qed (simp add: note_revision_attempt_def assms)

lemma note_finish_deferral_inv:
  assumes "recovery_inv s"
  shows "recovery_inv (note_finish_deferral t s)"
proof (cases "rs_active_validation_issue s")
  case (Some i)
  with assms have "issue_open i" "0 \<le> vi_finish_deferral_count i + 1"
    using issues_inv_issue issue_open_counts(3) by (auto simp: recovery_inv_def)
  with Some assms show ?thesis
    by (simp add: note_finish_deferral_def recovery_inv_def frame issues_inv_active)
qed (simp add: note_finish_deferral_def assms)

lemma note_corrective_progress_inv: "recovery_inv s \<Longrightarrow> recovery_inv (note_corrective_progress t s)"
  by (cases "rs_active_failure_kind s")
    (simp_all add: note_corrective_progress_def recovery_inv_def frame failure_inv_def
      split: option.split)

lemma clear_active_failure_inv: "recovery_inv s \<Longrightarrow> recovery_inv (clear_active_failure s)"
  by (simp add: clear_active_failure_def recovery_inv_def frame) (simp add: failure_inv_def)

lemma PendingIssueKind_values [simp]:
  "''parse_error'' \<in> range PendingIssueKind_value"
  "''tool_failure'' \<in> range PendingIssueKind_value"
  "''validation_failure'' \<in> range PendingIssueKind_value"
  by (metis PendingIssueKind_value.simps rangeI)+

lemma note_active_failure_inv:
  "recovery_inv s \<Longrightarrow> k \<in> range PendingIssueKind_value \<Longrightarrow> recovery_inv (note_active_failure k t s)"
  by (simp add: note_active_failure_def recovery_inv_def frame) (simp add: failure_inv_def)

lemma set_pending_issue_inv:
  assumes "recovery_inv s" and "d \<noteq> ''''"
    and "k = PIK_VALIDATION_FAILURE \<Longrightarrow>
      rs_active_validation_issue s \<noteq> None \<and> rs_last_validation_failure_turn s \<noteq> None"
  shows "recovery_inv (set_pending_issue k d s)"
  using assms by (simp add: set_pending_issue_def recovery_inv_def frame) (simp add: issues_inv_def)

lemma clear_pending_issue_inv: "recovery_inv s \<Longrightarrow> recovery_inv (snd (clear_pending_issue s))"
  by (simp add: clear_pending_issue_def recovery_inv_def frame) (simp add: issues_inv_def)

lemma record_parse_result_inv:
  assumes "recovery_inv s"
  shows "recovery_inv (snd (record_parse_result p t s))"
proof -
  let ?n = "rs_parse_error_count s + int (length (pr_parse_errors p))"
  have reset: "recovery_inv (s\<lparr>rs_parse_error_count := ?n, rs_consecutive_parse_error_turns := 0\<rparr>)"
    using assms by (simp add: recovery_inv_def frame) (simp add: counters_inv_def)
  have count: "recovery_inv (s\<lparr>rs_parse_error_count := ?n,
      rs_consecutive_parse_error_turns := rs_consecutive_parse_error_turns s + 1\<rparr>)"
    if "pr_parse_errors p \<noteq> []"
  proof -
    from that have "1 \<le> int (length (pr_parse_errors p))" by (cases "pr_parse_errors p") auto
    with assms show ?thesis by (simp add: recovery_inv_def frame) (simp add: counters_inv_def)
  qed
  show ?thesis
    using reset count by (auto simp: record_parse_result_def Let_def split_beta
        intro!: set_pending_issue_inv clear_pending_issue_inv note_active_failure_inv
        split: option.split)
qed

lemma record_mutation_inv: "recovery_inv s \<Longrightarrow> recovery_inv (record_mutation c t s)"
  by (simp add: record_mutation_def Let_def frame note_corrective_progress_inv
      note_revision_attempt_inv)

text \<open>
  A passing validation resolves the active issue before the pending issue is cleared; in between
  a pending validation failure has no active issue.  The invariant holds again at the end.
\<close>

lemma record_validation_success_inv:
  assumes "recovery_inv s" and "is_validation_tool c"
  shows "recovery_inv (snd (record_tool_success c t s))"
proof (cases "rs_active_validation_issue s")
  case None
  with assms show ?thesis
    by (simp add: record_tool_success_def Let_def split_beta refresh_eqs
        clear_pending_issue_def resolve_active_validation_issue_def clear_active_failure_def
        recovery_inv_def frame)
      (simp add: counters_inv_def failure_inv_def issues_inv_def)
next
  case (Some i)
  with assms show ?thesis
    by (simp add: record_tool_success_def Let_def split_beta refresh_eqs
        clear_pending_issue_def resolve_active_validation_issue_def clear_active_failure_def
        recovery_inv_def frame)
      (simp add: counters_inv_def failure_inv_def issues_inv_def issue_closed_def)
qed

lemma record_other_success_inv:
  assumes "recovery_inv s" and "\<not> is_validation_tool c"
  shows "recovery_inv (snd (record_tool_success c t s))"
  using assms by (simp add: record_tool_success_def Let_def split_beta refresh_eqs frame
      clear_pending_issue_inv clear_active_failure_inv note_corrective_progress_inv)

lemma record_tool_failure_inv:
  assumes "recovery_inv s"
  shows "recovery_inv (snd (record_tool_failure c r t s))"
  using assms
  by (cases "is_validation_tool c"; cases "rs_active_validation_issue s")
    (auto simp: record_tool_failure_def Let_def refresh_eqs set_pending_issue_def
      note_active_failure_def open_or_update_validation_issue_def recovery_inv_defs
      issue_open_def describe_pending_tool_issue_nonempty)

lemma record_tool_result_inv:
  assumes "recovery_inv s"
  shows "recovery_inv (snd (record_tool_result c r t s))"
  using record_mutation_inv [OF assms]
  by (cases "is_validation_tool c")
    (simp_all add: record_tool_result_def Let_def record_tool_failure_inv
      record_validation_success_inv record_other_success_inv assms)

lemma ensure_validation_issue_inv:
  assumes "recovery_inv s"
  shows "recovery_inv (snd (ensure_validation_issue_for_completion_block t s))"
proof (cases "rs_active_validation_issue s")
  case None
  with assms show ?thesis
    by (simp add: ensure_validation_issue_for_completion_block_def Let_def refresh_eqs
        open_or_update_validation_issue_def recovery_inv_def frame issues_inv_active)
      (simp add: issues_inv_def issue_open_def)
next
  case (Some i)
  with assms show ?thesis
    by (simp add: ensure_validation_issue_for_completion_block_def Let_def recovery_inv_def frame)
      (simp add: issues_inv_def)
qed

lemma recovery_step_inv: "recovery_inv s \<Longrightarrow> recovery_inv (recovery_step e s)"
  by (cases e) (simp_all add: record_parse_result_inv record_tool_result_inv
      ensure_validation_issue_inv note_revision_attempt_inv note_finish_deferral_inv
      note_corrective_progress_inv core_eq_inv [OF core_assess] core_eq_inv [OF core_expected_next_step])

subsection \<open>What only ever grows\<close>

text \<open>
  The policy of a run is fixed, its counters only grow, and a turn that was recorded is
  overwritten but never forgotten.
\<close>

definition recorded :: "'a option \<Rightarrow> 'a option \<Rightarrow> bool" where
  "recorded x y = (x \<noteq> None \<longrightarrow> y \<noteq> None)"

lemma recorded_simps [simp]:
  "recorded x x" "recorded None y" "recorded x (Some b)" "recorded (Some a) None = False"
  by (simp_all add: recorded_def)

definition recovery_le :: "rstate \<Rightarrow> rstate \<Rightarrow> bool" where
  "recovery_le s t \<longleftrightarrow>
     rs_requires_validation_evidence t = rs_requires_validation_evidence s \<and>
     rs_validation_policy_config t = rs_validation_policy_config s \<and>
     rs_parse_error_count s \<le> rs_parse_error_count t \<and>
     rs_validation_failure_count s \<le> rs_validation_failure_count t \<and>
     recorded (rs_last_mutation_turn s) (rs_last_mutation_turn t) \<and>
     recorded (rs_last_successful_validation_turn s) (rs_last_successful_validation_turn t) \<and>
     recorded (rs_last_validation_attempt_turn s) (rs_last_validation_attempt_turn t) \<and>
     recorded (rs_last_validation_failure_turn s) (rs_last_validation_failure_turn t) \<and>
     recorded (rs_last_resolved_validation_issue s) (rs_last_resolved_validation_issue t)"

lemma recovery_le_refl: "recovery_le s s"
  by (simp add: recovery_le_def)

lemma recovery_le_trans: "recovery_le s t \<Longrightarrow> recovery_le t u \<Longrightarrow> recovery_le s u"
  by (simp add: recovery_le_def recorded_def)

lemma recovery_le_core: "core s = core t \<Longrightarrow> recovery_le s t"
proof -
  assume "core s = core t"
  moreover have "recovery_le (core s) (core s)" "recovery_le s u = recovery_le (core s) (core u)" for u
    by (simp_all add: recovery_le_def core_def)
  ultimately show ?thesis by metis
qed

lemmas recovery_le_simps = recovery_le_def refresh_eqs clear_pending_issue_def set_pending_issue_def
  note_active_failure_def clear_active_failure_def note_corrective_progress_def

lemma record_parse_result_le: "recovery_le s (snd (record_parse_result p t s))"
  by (simp add: record_parse_result_def recovery_le_simps Let_def split: option.split)

lemma note_revision_attempt_le: "recovery_le s (note_revision_attempt t s)"
  by (simp add: note_revision_attempt_def recovery_le_def split: option.split)

lemma note_finish_deferral_le: "recovery_le s (note_finish_deferral t s)"
  by (simp add: note_finish_deferral_def recovery_le_def split: option.split)

lemma note_corrective_progress_le: "recovery_le s (note_corrective_progress t s)"
  by (simp add: note_corrective_progress_def recovery_le_def split: option.split)

lemma recovery_le_mutation:
  "recovery_le s u \<Longrightarrow> recovery_le s
     (u\<lparr>rs_last_mutation_turn := Some t, rs_post_mutation_validation_pending := b\<rparr>)"
  by (simp add: recovery_le_def)

lemma record_mutation_le: "recovery_le s (record_mutation c t s)"
proof -
  let ?s1 = "if is_mutation_tool c \<and> rs_active_validation_issue s \<noteq> None
    then note_revision_attempt t s else s"
  let ?s2 = "?s1\<lparr>rs_last_mutation_turn := Some t,
    rs_post_mutation_validation_pending := rs_requires_validation_evidence ?s1\<rparr>"
  have "recovery_le s ?s1"
    by (simp add: note_revision_attempt_le recovery_le_refl)
  moreover from this have "recovery_le s ?s2" by (rule recovery_le_mutation)
  moreover from this have "recovery_le s (note_corrective_progress t ?s2)"
    by (rule recovery_le_trans [OF _ note_corrective_progress_le])
  ultimately show ?thesis unfolding record_mutation_def Let_def by presburger
qed

lemma record_tool_success_le: "recovery_le s (snd (record_tool_success c t s))"
  by (cases "rs_active_validation_issue s")
    (simp_all add: record_tool_success_def Let_def split_beta recovery_le_simps
      resolve_active_validation_issue_def split: option.split)

lemma record_tool_failure_le: "recovery_le s (snd (record_tool_failure c r t s))"
  by (simp add: record_tool_failure_def Let_def split_beta recovery_le_simps
      open_or_update_validation_issue_def)

lemma record_tool_result_le: "recovery_le s (snd (record_tool_result c r t s))"
  by (auto simp: record_tool_result_def Let_def
      intro: recovery_le_refl record_mutation_le record_tool_success_le record_tool_failure_le
        recovery_le_trans [OF record_mutation_le])

lemma ensure_validation_issue_le:
  "recovery_le s (snd (ensure_validation_issue_for_completion_block t s))"
  by (simp add: ensure_validation_issue_for_completion_block_def Let_def refresh_eqs
      open_or_update_validation_issue_def recovery_le_def split: option.split)

lemma recovery_step_le: "recovery_le s (recovery_step e s)"
  by (cases e) (simp_all add: record_parse_result_le record_tool_result_le
      ensure_validation_issue_le note_revision_attempt_le note_finish_deferral_le
      note_corrective_progress_le recovery_le_core core_assess core_expected_next_step)

interpretation recovery: ordered_system recovery_step "\<lambda>_ _. True" recovery_inv recovery_le
  by unfold_locales
    (auto intro: recovery_step_inv recovery_le_refl recovery_le_trans recovery_step_le)

subsection \<open>The evidence behind an allowed completion\<close>

text \<open>
  Seen from the run, the two turns the evidence status compares are those of the last mutation
  call and of the last passing validation call.
\<close>

fun mutation_turn :: "recovery_event \<Rightarrow> int option" where
  "mutation_turn (RTool c r t) = (if is_mutation_tool c then Some t else None)"
| "mutation_turn e = None"

fun validation_turn :: "recovery_event \<Rightarrow> int option" where
  "validation_turn (RTool c r t) =
     (if is_validation_tool c \<and> tool_succeeded r then Some t else None)"
| "validation_turn e = None"

lemma mutation_not_finish:
  "is_mutation_tool c \<Longrightarrow> canonical_tool_name c \<noteq> ''finish''"
  "is_validation_tool c \<Longrightarrow> canonical_tool_name c \<noteq> ''finish''"
  "is_validation_tool c \<Longrightarrow> \<not> is_mutation_tool c"
  by (auto simp: is_mutation_tool_def is_validation_tool_def mutation_tools_def validation_tools_def)

lemma turns_record_mutation:
  "rs_last_mutation_turn (record_mutation c t s) =
     (if is_mutation_tool c then Some t else rs_last_mutation_turn s)"
  "rs_last_successful_validation_turn (record_mutation c t s) =
     rs_last_successful_validation_turn s"
  by (simp_all add: record_mutation_def Let_def note_revision_attempt_def
      note_corrective_progress_def split: option.split)

lemma turns_record_success:
  "rs_last_mutation_turn (snd (record_tool_success c t s)) = rs_last_mutation_turn s"
  "rs_last_successful_validation_turn (snd (record_tool_success c t s)) =
     (if is_validation_tool c then Some t else rs_last_successful_validation_turn s)"
  by (simp_all add: record_tool_success_def Let_def split_beta recovery_le_simps
      resolve_active_validation_issue_def split: option.split)

lemma turns_record_failure:
  "rs_last_mutation_turn (snd (record_tool_failure c r t s)) = rs_last_mutation_turn s"
  "rs_last_successful_validation_turn (snd (record_tool_failure c r t s)) =
     rs_last_successful_validation_turn s"
  by (simp_all add: record_tool_failure_def Let_def split_beta recovery_le_simps
      open_or_update_validation_issue_def)

lemma turns_record_parse:
  "rs_last_mutation_turn (snd (record_parse_result p t s)) = rs_last_mutation_turn s"
  "rs_last_successful_validation_turn (snd (record_parse_result p t s)) =
     rs_last_successful_validation_turn s"
  by (simp_all add: record_parse_result_def recovery_le_simps Let_def split: option.split)

lemma turns_ensure:
  "rs_last_mutation_turn (snd (ensure_validation_issue_for_completion_block t s)) =
     rs_last_mutation_turn s"
  "rs_last_successful_validation_turn (snd (ensure_validation_issue_for_completion_block t s)) =
     rs_last_successful_validation_turn s"
  by (simp_all add: ensure_validation_issue_for_completion_block_def Let_def refresh_eqs
      open_or_update_validation_issue_def split: option.split)

lemma turns_notes:
  "rs_last_mutation_turn (note_revision_attempt t s) = rs_last_mutation_turn s"
  "rs_last_successful_validation_turn (note_revision_attempt t s) =
     rs_last_successful_validation_turn s"
  "rs_last_mutation_turn (note_finish_deferral t s) = rs_last_mutation_turn s"
  "rs_last_successful_validation_turn (note_finish_deferral t s) =
     rs_last_successful_validation_turn s"
  "rs_last_mutation_turn (note_corrective_progress t s) = rs_last_mutation_turn s"
  "rs_last_successful_validation_turn (note_corrective_progress t s) =
     rs_last_successful_validation_turn s"
  by (simp_all add: note_revision_attempt_def note_finish_deferral_def note_corrective_progress_def
      split: option.split)

lemma step_turns:
  "rs_last_mutation_turn (recovery_step e s) =
     (case mutation_turn e of None \<Rightarrow> rs_last_mutation_turn s | Some t \<Rightarrow> Some t)"
  "rs_last_successful_validation_turn (recovery_step e s) =
     (case validation_turn e of None \<Rightarrow> rs_last_successful_validation_turn s | Some t \<Rightarrow> Some t)"
  by (cases e; simp add: turns_record_parse turns_ensure turns_notes record_tool_result_def Let_def
      turns_record_mutation turns_record_success turns_record_failure mutation_not_finish
      core_fields [OF core_assess] core_fields [OF core_expected_next_step])+

primrec last_turn :: "('e \<Rightarrow> int option) \<Rightarrow> 'e list \<Rightarrow> int option \<Rightarrow> int option" where
  "last_turn f [] d = d"
| "last_turn f (e # es) d = last_turn f es (case f e of None \<Rightarrow> d | Some t \<Rightarrow> Some t)"

lemma run_turns:
  "rs_last_mutation_turn (run_events recovery_step es s) =
     last_turn mutation_turn es (rs_last_mutation_turn s)"
  "rs_last_successful_validation_turn (run_events recovery_step es s) =
     last_turn validation_turn es (rs_last_successful_validation_turn s)"
  by (induction es arbitrary: s) (simp_all add: step_turns)

lemma last_turn_append [simp]: "last_turn f (es @ fs) d = last_turn f fs (last_turn f es d)"
  by (induction es arbitrary: d) auto

lemma last_turn_Some:
  assumes "last_turn f es None = Some t"
  shows "\<exists>pre e post. es = pre @ e # post \<and> f e = Some t \<and> (\<forall>x\<in>set post. f x = None)"
  using assms
proof (induction es rule: rev_induct)
  case (snoc e es)
  show ?case
  proof (cases "f e")
    case None
    with snoc obtain pre x post where "es = pre @ x # post" "f x = Some t" "\<forall>y\<in>set post. f y = None"
      by auto
    with None have "es @ [e] = pre @ x # (post @ [e]) \<and> f x = Some t \<and> (\<forall>y\<in>set (post @ [e]). f y = None)"
      by simp
    then show ?thesis by blast
  next
    case (Some u)
    with snoc show ?thesis by (intro exI [of _ es] exI [of _ e] exI [of _ "[]"]) simp
  qed
qed simp

lemma last_turn_ne:
  "x \<in> set es \<Longrightarrow> f x \<noteq> None \<Longrightarrow> \<exists>y\<in>set es. last_turn f es d = f y \<and> f y \<noteq> None"
proof (induction es arbitrary: d rule: rev_induct)
  case (snoc e es)
  show ?case
  proof (cases "f e")
    case None
    with snoc have "x \<in> set es" by auto
    with snoc None show ?thesis by auto
  next
    case (Some t)
    then show ?thesis by auto
  qed
qed simp

text \<open>The turns of the tool events, in the order of the run.\<close>

fun event_turns :: "recovery_event \<Rightarrow> int list" where
  "event_turns (RTool c r t) = [t]"
| "event_turns e = []"

definition turn_ordered :: "recovery_event list \<Rightarrow> bool" where
  "turn_ordered es = sorted (concat (map event_turns es))"

lemma last_turn_upper:
  assumes "turn_ordered es" and "\<And>e t. f e = Some t \<Longrightarrow> event_turns e = [t]"
    and "e \<in> set es" and "f e = Some t"
  shows "\<exists>u. last_turn f es d = Some u \<and> t \<le> u"
  using assms
proof (induction es arbitrary: d rule: rev_induct)
  case (snoc x xs)
  from snoc.prems(1) have ord: "turn_ordered xs"
    and le: "\<And>y a b. y \<in> set xs \<Longrightarrow> a \<in> set (event_turns y) \<Longrightarrow> b \<in> set (event_turns x) \<Longrightarrow> a \<le> b"
    by (auto simp: turn_ordered_def sorted_append)
  show ?case
  proof (cases "f x")
    case None
    with snoc have "e \<in> set xs" by auto
    with snoc None ord show ?thesis by auto
  next
    case (Some u)
    have "t \<le> u"
      using snoc.prems(3,4) le [of e t u] snoc.prems(2) [OF Some] snoc.prems(2) [OF snoc.prems(4)] Some
      by auto
    with Some show ?thesis by auto
  qed
qed simp

lemma mutation_event_turns: "mutation_turn e = Some t \<Longrightarrow> event_turns e = [t]"
  by (cases e) (auto split: if_splits)

lemma completion_rests_on_validation:
  assumes "turn_ordered es"
    and "\<not> ca_blocked (fst (assess_completion_block
           (run_events recovery_step es (new_recovery_state True config)) meaningful gate recent))"
  shows "\<exists>pre call result t post.
    es = pre @ RTool call result t # post \<and> is_validation_tool call \<and> tool_succeeded result \<and>
    (\<forall>c r u. RTool c r u \<in> set post \<longrightarrow> is_mutation_tool c \<longrightarrow> u = t)"
proof -
  let ?init = "new_recovery_state True config"
  let ?s = "run_events recovery_step es ?init"
  have init: "rs_last_mutation_turn ?init = None" "rs_last_successful_validation_turn ?init = None"
    "rs_requires_validation_evidence ?init"
    by (simp_all add: new_recovery_state_def post_init_def refresh_eqs recovery_defaults_def)
  have req: "rs_requires_validation_evidence ?s"
    using recovery.run_le [of ?init es] init(3) by (auto simp: recovery_le_def)
  have "block_reason ?s meaningful gate recent = None"
    using assms(2) by (simp add: assess_blocked_iff assess_block_reason)
  then have "evidence_status ?s \<in> {CES_NOT_REQUIRED, CES_VALIDATED}" by (simp add: block_reason_None)
  with req have "evidence_status ?s = CES_VALIDATED"
    using evidence_status_not_required_iff [of ?s] by auto
  then obtain v where v: "rs_last_successful_validation_turn ?s = Some v"
    and fresh: "\<And>m. rs_last_mutation_turn ?s = Some m \<Longrightarrow> m \<le> v"
    by (auto simp: evidence_status_validated_iff)
  have "last_turn validation_turn es None = Some v"
    using v init by (simp add: run_turns)
  then obtain pre e post where es: "es = pre @ e # post" and e: "validation_turn e = Some v"
    using last_turn_Some by meson
  obtain call result where tool: "e = RTool call result v"
    and val: "is_validation_tool call" "tool_succeeded result"
    using e by (cases e) (auto split: if_splits)
  have "u = v" if later: "RTool c r u \<in> set post" and mut: "is_mutation_tool c" for c r u
  proof -
    have in_es: "RTool c r u \<in> set es" using later es by simp
    obtain m where m: "last_turn mutation_turn es None = Some m" "u \<le> m"
      using last_turn_upper [OF assms(1), of mutation_turn "RTool c r u" u None] mutation_event_turns
        in_es mut by auto
    have "v \<le> u"
      using assms(1) later es tool by (force simp: turn_ordered_def sorted_append)
    moreover have "m \<le> v" using fresh [of m] m(1) init by (simp add: run_turns)
    ultimately show "u = v" using m(2) by simp
  qed
  with es tool val show ?thesis by blast
qed

end
