(* ===== verification/Recovery_Properties.thy ===== *)
theory Recovery_Properties
  imports Recovery_Runs
begin

section \<open>Recovery and validation policy: the properties\<close>

text \<open>
  The claims about \<open>pycodeagent/agent/recovery.py\<close>, each with the witness that applies it to a
  concrete run.  The witnesses use calls built by \<open>sample_call\<close> and results built by
  \<open>sample_result\<close>.
\<close>

definition sample_call :: "string \<Rightarrow> string \<Rightarrow> ToolCall" where
  "sample_call i name = \<lparr>tc_id = i, tc_name = name, tc_arguments = [], tc_input_text = None,
     tc_canonical_name = None\<rparr>"

definition sample_result :: "bool \<Rightarrow> pydict \<Rightarrow> ToolResult" where
  "sample_result success metadata = \<lparr>tr_ok = success, tr_content = '''', tr_metadata = metadata,
     tr_is_error = \<not> success\<rparr>"

lemmas sample_defs = sample_call_def sample_result_def

subsection \<open>Completion\<close>

abbreviation sample_run :: "recovery_event list" where
  "sample_run \<equiv> [RTool (sample_call ''a'' ''apply_patch'') (sample_result True []) 1,
                 RTool (sample_call ''b'' ''python_run'') (sample_result True []) 2]"

text \<open>C8: the assessment of a completion is the function \<open>block_reason\<close> of the pending issue, the
  evidence status and the progress flags; the block flag, the allowed flag and the family follow
  from the reason, the reason is cached as the finish gate reason, and nothing but cached fields
  of the state is written.\<close>

theorem assess_completion_block_spec:
  "let (a, s') = assess_completion_block s meaningful gate recent;
       reason = block_reason s meaningful gate recent
   in ca_block_reason a = reason \<and> ca_blocked a = (reason \<noteq> None) \<and>
      ca_completion_allowed a = (reason = None) \<and>
      ca_completion_block_family a = completion_block_family_for_reason reason \<and>
      ca_validation_evidence_fresh a = (evidence_status s \<in> {CES_NOT_REQUIRED, CES_VALIDATED}) \<and>
      rs_finish_gate_reason s' = reason \<and> core s' = core s"
proof -
  have "ca_validation_evidence_fresh (fst (assess_completion_block s meaningful gate recent)) =
      (evidence_status s \<in> {CES_NOT_REQUIRED, CES_VALIDATED})"
    by (cases "evidence_status s"; cases "rs_pending_issue_kind s" rule: pending_cases)
      (simp_all add: assess_simps)
  then show ?thesis
    using assess_block_reason [of s meaningful gate recent] assess_blocked_iff [of s meaningful gate recent]
      assess_allowed_iff [of s meaningful gate recent] assess_family [of s meaningful gate recent]
      assess_gate_reason [of s meaningful gate recent] core_assess [of s meaningful gate recent]
    by (simp add: Let_def split_beta)
qed

text \<open>C9: whatever sequence of parse results, tool results, assessments and deferrals the runner
  feeds a fresh recovery state, the state is well formed: counters agree with the recorded turns,
  an active failure has its turn, a pending validation failure has its open issue, and resolved
  issues are closed.\<close>

theorem recovery_run_invariant:
  "recovery_inv (run_events recovery_step es (new_recovery_state requires config))"
  by (rule recovery.run_inv) simp_all

text \<open>Along a run the policy is fixed, the error counters only grow, and recorded mutation,
  validation and resolution turns are never forgotten.\<close>

theorem recovery_run_monotone:
  "recovery_le (run_events recovery_step es (new_recovery_state requires config))
     (run_events recovery_step (es @ fs) (new_recovery_state requires config))"
  by (rule recovery.run_le_split) simp_all

subsection \<open>Tool results\<close>

lemma pending_record_mutation:
  "rs_pending_issue_kind (record_mutation c t s) = rs_pending_issue_kind s"
  by (simp add: record_mutation_def Let_def note_revision_attempt_def note_corrective_progress_def
      split: option.split)

lemma record_tool_success_pending:
  "rs_pending_issue_kind (snd (record_tool_success c t s)) =
     (if is_validation_tool c \<or> rs_pending_issue_kind s \<noteq> Some PIK_VALIDATION_FAILURE
      then None else Some PIK_VALIDATION_FAILURE)"
  "fst (record_tool_success c t s) = no_update\<lparr>ru_pending_issue_cleared :=
     (rs_pending_issue_kind s \<noteq> None \<and>
      (is_validation_tool c \<or> rs_pending_issue_kind s \<noteq> Some PIK_VALIDATION_FAILURE))\<rparr>"
  by (cases "rs_pending_issue_kind s" rule: pending_cases;
      cases "rs_active_validation_issue s";
      simp add: record_tool_success_def Let_def split_beta recovery_le_simps no_update_def
        resolve_active_validation_issue_def split: option.split)+

lemma record_tool_failure_pending:
  "rs_pending_issue_kind (snd (record_tool_failure c r t s)) =
     Some (if is_validation_tool c then PIK_VALIDATION_FAILURE else PIK_TOOL_FAILURE)"
  "ru_recoverable (fst (record_tool_failure c r t s))"
  "ru_pending_issue_kind (fst (record_tool_failure c r t s)) =
     Some (if is_validation_tool c then PIK_VALIDATION_FAILURE else PIK_TOOL_FAILURE)"
  "\<not> ru_pending_issue_cleared (fst (record_tool_failure c r t s))"
  by (simp_all add: record_tool_failure_def Let_def split_beta recovery_le_simps
      open_or_update_validation_issue_def)

lemma recoverable_not_succeeded: "is_recoverable_tool_result c r \<Longrightarrow> \<not> tool_succeeded r"
  by (auto simp: is_recoverable_tool_result_def Let_def split: if_splits)

text \<open>What recording a tool result does to the pending issue, on every branch: a recoverable
  failure opens the issue of its kind, a success clears what it can clear (a validation clears
  anything, another tool everything but a validation failure), and a finish call, a failure that
  is not recoverable and a success that cannot clear leave it alone.\<close>

theorem record_tool_result_pending:
  "let (u, s') = record_tool_result call result t s;
       live = (canonical_tool_name call \<noteq> ''finish'');
       opens = (live \<and> is_recoverable_tool_result call result);
       kind = (if is_validation_tool call then PIK_VALIDATION_FAILURE else PIK_TOOL_FAILURE);
       clearable = (if is_validation_tool call then rs_pending_issue_kind s \<noteq> None
         else rs_pending_issue_kind s \<in> {Some PIK_PARSE_ERROR, Some PIK_TOOL_FAILURE});
       clears = (live \<and> tool_succeeded result \<and> clearable)
   in ru_recoverable u = opens \<and>
      ru_pending_issue_kind u = (if opens then Some kind else None) \<and>
      ru_pending_issue_cleared u = clears \<and>
      rs_pending_issue_kind s' =
        (if opens then Some kind else if clears then None else rs_pending_issue_kind s)"
  by (cases "rs_pending_issue_kind s" rule: pending_cases)
    (auto simp: record_tool_result_def Let_def split_beta no_update_def
      record_tool_success_pending record_tool_failure_pending pending_record_mutation
      dest: recoverable_not_succeeded)

text \<open>The error types of the runtime's own policies are never recoverable: a failure of such
  a type opens no issue and records no active failure, whatever the tool and whatever else its
  metadata says.\<close>

theorem policy_failure_not_recoverable:
  assumes "dict_text (tr_metadata result) ''error_type'' \<in> policy_error_types"
    and "\<not> tool_succeeded result"
  shows "fst (record_tool_result call result t s) = no_update \<and>
    rs_pending_issue_kind (snd (record_tool_result call result t s)) = rs_pending_issue_kind s \<and>
    rs_active_failure_kind (snd (record_tool_result call result t s)) = rs_active_failure_kind s"
proof -
  have "\<not> is_recoverable_tool_result call result"
    using assms(1) by (simp add: is_recoverable_tool_result_def Let_def)
  moreover have "rs_active_failure_kind (record_mutation call t s) = rs_active_failure_kind s"
    by (simp add: record_mutation_def Let_def note_revision_attempt_def note_corrective_progress_def
        split: option.split)
  ultimately show ?thesis
    using assms(2) by (auto simp: record_tool_result_def Let_def pending_record_mutation)
qed

abbreviation denied_result :: ToolResult where
  "denied_result \<equiv> sample_result False
     [(''error_type'', JStr ''command_policy''), (''exit_code'', JInt 1)]"

theorem policy_failure_not_recoverable_witness:
  "fst (record_tool_result (sample_call ''a'' ''python_run'') denied_result 3
      (new_recovery_state True default_policy)) = no_update"
proof -
  have "dict_text (tr_metadata denied_result) ''error_type'' \<in> policy_error_types"
    by code_simp
  moreover have "\<not> tool_succeeded denied_result" by (simp add: sample_result_def)
  ultimately show ?thesis using policy_failure_not_recoverable by blast
qed

subsection \<open>Budgets\<close>

text \<open>An active issue is exhausted exactly when one of its three counts is above the
  configured maximum; the code names the first of validation attempts, revision attempts and
  finish deferrals that is.\<close>

theorem validation_budget_exhaustion_code:
  "map_option fst (validation_budget_exhaustion s) =
     (case rs_active_validation_issue s of None \<Rightarrow> None
      | Some i \<Rightarrow>
          map_option snd (find fst
            [(vi_validation_attempt_count i >
                max_validation_attempts_per_issue (rs_validation_policy_config s),
              SDC_VALIDATION_BUDGET_EXHAUSTED),
             (vi_revision_attempt_count i >
                max_revision_attempts_per_issue (rs_validation_policy_config s),
              SDC_REVISION_BUDGET_EXHAUSTED),
             (vi_finish_deferral_count i >
                max_finish_deferrals_per_issue (rs_validation_policy_config s),
              SDC_FINISH_DEFERRAL_BUDGET_EXHAUSTED)]))"
  by (simp add: validation_budget_exhaustion_def Let_def split: option.split)

lemma deferral_step:
  assumes "rs_active_validation_issue s = Some i" and "rs_last_finish_deferral_turn s \<noteq> Some t"
  shows "\<exists>j. rs_active_validation_issue (note_finish_deferral t s) = Some j \<and>
     vi_finish_deferral_count j = vi_finish_deferral_count i + 1 \<and>
     rs_last_finish_deferral_turn (note_finish_deferral t s) = Some t \<and>
     rs_validation_policy_config (note_finish_deferral t s) = rs_validation_policy_config s"
  using assms by (simp add: note_finish_deferral_def)

lemma deferral_count:
  assumes "rs_active_validation_issue s = Some i" and "rs_last_finish_deferral_turn s \<notin> Some ` set ts"
    and "distinct ts"
  shows "\<exists>j. rs_active_validation_issue (run_events recovery_step (map RDeferral ts) s) = Some j \<and>
     vi_finish_deferral_count j = vi_finish_deferral_count i + int (length ts) \<and>
     rs_validation_policy_config (run_events recovery_step (map RDeferral ts) s) =
       rs_validation_policy_config s"
  using assms
proof (induction ts arbitrary: s i)
  case (Cons t ts)
  obtain j where j: "rs_active_validation_issue (note_finish_deferral t s) = Some j"
    "vi_finish_deferral_count j = vi_finish_deferral_count i + 1"
    "rs_last_finish_deferral_turn (note_finish_deferral t s) = Some t"
    "rs_validation_policy_config (note_finish_deferral t s) = rs_validation_policy_config s"
    using deferral_step [OF Cons.prems(1), of t] Cons.prems(2) by auto
  have "rs_last_finish_deferral_turn (note_finish_deferral t s) \<notin> Some ` set ts" "distinct ts"
    using j(3) Cons.prems(3) by auto
  from Cons.IH [OF j(1) this] j(2,4) show ?case by auto
qed simp

text \<open>Blocked completions cannot go on for ever: while an issue is active, deferrals noted in
  more different turns than the policy allows exhaust a budget.\<close>

theorem deferrals_exhaust_budget:
  assumes "rs_active_validation_issue s = Some i" and "0 \<le> vi_finish_deferral_count i"
    and "distinct ts" and "rs_last_finish_deferral_turn s \<notin> Some ` set ts"
    and "int (length ts) > max_finish_deferrals_per_issue (rs_validation_policy_config s)"
  shows "validation_budget_exhaustion (run_events recovery_step (map RDeferral ts) s) \<noteq> None"
proof -
  obtain j where "rs_active_validation_issue (run_events recovery_step (map RDeferral ts) s) = Some j"
    "vi_finish_deferral_count j = vi_finish_deferral_count i + int (length ts)"
    "rs_validation_policy_config (run_events recovery_step (map RDeferral ts) s) =
       rs_validation_policy_config s"
    using deferral_count [OF assms(1,4,3)] by blast
  with assms(2,5) show ?thesis by (simp add: validation_budget_exhaustion_def Let_def)
qed

abbreviation blocked_state :: rstate where
  "blocked_state \<equiv> recovery_step (REnsure 4) (new_recovery_state True default_policy)"

theorem deferrals_exhaust_budget_witness:
  "validation_budget_exhaustion (run_events recovery_step (map RDeferral [4, 5, 6]) blocked_state) \<noteq> None"
proof (rule deferrals_exhaust_budget)
  show "rs_active_validation_issue blocked_state = Some (the (rs_active_validation_issue blocked_state))"
    by code_simp
  show "0 \<le> vi_finish_deferral_count (the (rs_active_validation_issue blocked_state))"
    by code_simp
  show "distinct [4, 5, 6 :: int]" by simp
  show "rs_last_finish_deferral_turn blocked_state \<notin> Some ` set [4, 5, 6]" by code_simp
  show "int (length [4, 5, 6 :: int]) > max_finish_deferrals_per_issue
      (rs_validation_policy_config blocked_state)"
    by code_simp
qed

subsection \<open>The granularity of the checks\<close>

text \<open>C10: evidence goes stale by turns: after a passing validation in turn t and a mutation in
  turn u, completion of a run that requires evidence is blocked exactly when u is later than t;
  a mutation in the validating turn itself, after the validation, does not make the evidence
  stale.\<close>

theorem stale_only_across_turns:
  assumes "rs_requires_validation_evidence s"
    and "is_validation_tool v" and "tool_succeeded rv"
    and "is_mutation_tool m" and "tool_succeeded rm"
  shows "ca_blocked (fst (assess_completion_block
      (run_events recovery_step [RTool v rv t, RTool m rm u] s) True gate None)) \<longleftrightarrow> u > t"
proof -
  let ?s1 = "recovery_step (RTool v rv t) s"
  let ?s2 = "recovery_step (RTool m rm u) ?s1"
  have "rs_pending_issue_kind ?s1 = None" "rs_active_failure_kind ?s1 = None"
    "rs_active_validation_issue ?s1 = None"
    using assms(2,3) by (simp_all add: record_tool_result_def Let_def mutation_not_finish
        record_tool_success_def split_beta recovery_le_simps resolve_active_validation_issue_def
        record_mutation_def split: option.split)
  then have "rs_pending_issue_kind ?s2 = None" "rs_active_failure_kind ?s2 = None"
    using assms(4,5) mutation_not_finish(3) by (auto simp: record_tool_result_def Let_def
        mutation_not_finish record_tool_success_def split_beta recovery_le_simps record_mutation_def)
  moreover have "rs_requires_validation_evidence ?s2"
    using assms(1) recovery_step_le [of s "RTool v rv t"] recovery_step_le [of ?s1 "RTool m rm u"]
    by (simp add: recovery_le_def)
  moreover have "rs_last_successful_validation_turn ?s2 = Some t" "rs_last_mutation_turn ?s2 = Some u"
    unfolding step_turns using assms mutation_not_finish(3) by auto
  ultimately have "block_reason ?s2 True gate None = None \<longleftrightarrow> \<not> u > t"
    by (auto simp: block_reason_None evidence_status_def)
  then show ?thesis by (simp add: assess_blocked_iff assess_block_reason del: recovery_step.simps)
qed

theorem stale_only_across_turns_witness:
  "\<not> ca_blocked (fst (assess_completion_block
      (run_events recovery_step
        [RTool (sample_call ''a'' ''python_run'') (sample_result True []) 3,
         RTool (sample_call ''b'' ''write_file'') (sample_result True []) 3]
        (new_recovery_state True default_policy)) True False None))"
proof -
  have "rs_requires_validation_evidence (new_recovery_state True default_policy)"
    "is_validation_tool (sample_call ''a'' ''python_run'')"
    "is_mutation_tool (sample_call ''b'' ''write_file'')"
    by code_simp+
  then show ?thesis
    using stale_only_across_turns [of "new_recovery_state True default_policy"
        "sample_call ''a'' ''python_run''" "sample_result True []"
        "sample_call ''b'' ''write_file''" "sample_result True []" 3 3 False]
    by (simp add: sample_result_def del: run_events.simps)
qed

text \<open>There is one pending issue, so a later recoverable failure of another tool replaces a
  pending validation failure, and the next success of such a tool clears it: the run then has no
  pending issue although the failed validation was never repeated and its issue is still open.\<close>

theorem validation_failure_masked:
  assumes "rs_pending_issue_kind s = Some PIK_VALIDATION_FAILURE"
    and "rs_active_validation_issue s \<noteq> None"
    and "canonical_tool_name c \<noteq> ''finish''" and "\<not> is_validation_tool c"
    and "is_recoverable_tool_result c r" and "tool_succeeded r'"
  shows "let s' = run_events recovery_step [RTool c r t, RTool c r' u] s
    in rs_pending_issue_kind s' = None \<and> rs_active_validation_issue s' \<noteq> None \<and>
       rs_last_successful_validation_turn s' = rs_last_successful_validation_turn s"
proof -
  have active: "rs_active_validation_issue (record_mutation c t s) \<noteq> None"
    if "rs_active_validation_issue s \<noteq> None" for t s
    using that by (auto simp: record_mutation_def Let_def note_revision_attempt_def
        note_corrective_progress_def split: option.split)
  have kept: "rs_active_validation_issue (snd (record_tool_failure c r t s)) = rs_active_validation_issue s"
    "rs_active_validation_issue (snd (record_tool_success c u s)) = rs_active_validation_issue s" for s
    using assms(4) by (simp_all add: record_tool_failure_def record_tool_success_def Let_def
        split_beta recovery_le_simps split: option.split)
  let ?s1 = "recovery_step (RTool c r t) s"
  have s1: "rs_pending_issue_kind ?s1 = Some PIK_TOOL_FAILURE" "rs_active_validation_issue ?s1 \<noteq> None"
    using assms recoverable_not_succeeded [of c r] active [of s t] kept(1)
    by (auto simp: record_tool_result_def Let_def record_tool_failure_pending)
  have "rs_pending_issue_kind (recovery_step (RTool c r' u) ?s1) = None"
    "rs_active_validation_issue (recovery_step (RTool c r' u) ?s1) \<noteq> None"
    using assms s1 active [of ?s1 u] kept(2)
    by (simp_all add: record_tool_result_def [of c r'] Let_def record_tool_success_pending
        pending_record_mutation)
  moreover have "rs_last_successful_validation_turn (recovery_step (RTool c r' u) ?s1) =
      rs_last_successful_validation_turn s"
    unfolding step_turns using assms(4) by simp
  ultimately show ?thesis by (simp add: Let_def del: recovery_step.simps)
qed

abbreviation failing_validation :: rstate where
  "failing_validation \<equiv> recovery_step (RTool (sample_call ''a'' ''python_run'')
     (sample_result False [(''exit_code'', JInt 1)]) 1) (new_recovery_state False default_policy)"

abbreviation unknown_tool_result :: ToolResult where
  "unknown_tool_result \<equiv> sample_result False [(''error_type'', JStr ''unknown_tool'')]"

theorem validation_failure_masked_witness:
  "let s' = run_events recovery_step
      [RTool (sample_call ''b'' ''read_file'') unknown_tool_result 2,
       RTool (sample_call ''b'' ''read_file'') (sample_result True []) 3] failing_validation
   in rs_pending_issue_kind s' = None \<and> rs_active_validation_issue s' \<noteq> None \<and>
      rs_last_successful_validation_turn s' = rs_last_successful_validation_turn failing_validation"
proof (rule validation_failure_masked)
  show "rs_pending_issue_kind failing_validation = Some PIK_VALIDATION_FAILURE" by code_simp
  show "rs_active_validation_issue failing_validation \<noteq> None" by code_simp
  show "canonical_tool_name (sample_call ''b'' ''read_file'') \<noteq> ''finish''" by code_simp
  show "\<not> is_validation_tool (sample_call ''b'' ''read_file'')" by code_simp
  show "is_recoverable_tool_result (sample_call ''b'' ''read_file'') unknown_tool_result" by code_simp
  show "tool_succeeded (sample_result True [])" by (simp add: sample_result_def)
qed

subsection \<open>The taxonomy of turns\<close>

lemma ValidationPhase_of_str_value: "ValidationPhase_of_str (ValidationPhase_value p) = Inr p"
  by (cases p) (simp_all add: ValidationPhase_of_str_def)

lemma ValidationPhase_of_str_name: "\<exists>e. ValidationPhase_of_str (ValidationPhase_name p) = Inl e"
  by (cases p) (simp_all add: ValidationPhase_of_str_def)

text \<open>With the phase given as its value, the action of a turn is always classified, and a
  revision is claimed exactly when a mutation is requested while a validation failure is pending;
  with the phase given as an enumeration member the classification always raises.\<close>

theorem classify_turn_action_total:
  "(\<exists>a. classify_turn_action calls (Text (ValidationPhase_value p)) = Inr a \<and>
      (a \<in> {TA_REVISE, TA_REVISION_AND_REVALIDATION}) =
        (p = VP_VALIDATION_FAILED \<and> list_ex is_mutation_tool calls) \<and>
      (a = TA_NONE) = (calls = [])) \<and>
   (\<exists>e. classify_turn_action calls (Member p) = Inl e)"
proof
  have none: "list_ex is_mutation_tool calls \<Longrightarrow> calls \<noteq> []" by auto
  show "\<exists>a. classify_turn_action calls (Text (ValidationPhase_value p)) = Inr a \<and>
      (a \<in> {TA_REVISE, TA_REVISION_AND_REVALIDATION}) =
        (p = VP_VALIDATION_FAILED \<and> list_ex is_mutation_tool calls) \<and>
      (a = TA_NONE) = (calls = [])"
    using none by (auto simp: classify_turn_action_def ValidationPhase_of_str_value Let_def res_bind_def)
  show "\<exists>e. classify_turn_action calls (Member p) = Inl e"
    using ValidationPhase_of_str_name [of p]
    by (auto simp: classify_turn_action_def res_bind_def)
qed

end
