(* ===== verification/Stopping.thy ===== *)
theory Stopping
  imports Recovery_Runs
begin

section \<open>Stopping conditions\<close>

text \<open>
  \<open>pycodeagent/agent/stopping.py\<close>: the facts a turn ends with (fields \<open>tf_\<close>), the decision
  taken on them (fields \<open>sd_\<close>) and the decision procedure itself.  As in the source the
  decision stores enumeration members as their string values.  Every query of the recovery
  state may refresh it, so the procedure threads it through and returns it.  A Python function
  that runs past its last statement returns \<open>None\<close>; the procedure here returns an option.
\<close>

datatype StopReason =
    SR_FINISH | SR_NO_TOOL_CALLS | SR_MAX_TURNS | SR_PARSE_ERROR
  | SR_VALIDATION_BUDGET_EXHAUSTED | SR_REVISION_BUDGET_EXHAUSTED
  | SR_FINISH_DEFERRAL_BUDGET_EXHAUSTED

fun StopReason_value :: "StopReason \<Rightarrow> string" where
  "StopReason_value SR_FINISH = ''finish''"
| "StopReason_value SR_NO_TOOL_CALLS = ''no_tool_calls''"
| "StopReason_value SR_MAX_TURNS = ''max_turns''"
| "StopReason_value SR_PARSE_ERROR = ''parse_error''"
| "StopReason_value SR_VALIDATION_BUDGET_EXHAUSTED = ''validation_budget_exhausted''"
| "StopReason_value SR_REVISION_BUDGET_EXHAUSTED = ''revision_budget_exhausted''"
| "StopReason_value SR_FINISH_DEFERRAL_BUDGET_EXHAUSTED = ''finish_deferral_budget_exhausted''"

datatype StopPolicyMode = NATIVE_TOOLS_LIGHT_STOP_HOOK

fun StopPolicyMode_value :: "StopPolicyMode \<Rightarrow> string" where
  "StopPolicyMode_value NATIVE_TOOLS_LIGHT_STOP_HOOK = ''native_tools_light_stop_hook''"

record TurnPolicyFacts =
  tf_policy_mode :: string
  tf_model_needs_follow_up :: bool
  tf_runtime_needs_follow_up :: bool
  tf_finish_attempted :: bool
  tf_assistant_content_present :: bool
  tf_tool_call_count :: int
  tf_pending_issue_kind :: "string option"
  tf_active_validation_issue_kind :: "string option"
  tf_completion_evidence_status :: "string option"
  tf_completion_block_family :: string
  tf_validation_phase :: "string option"
  tf_recent_failure_kind :: "string option"
  tf_meaningful_progress_observed :: bool
  tf_max_turn_reached :: bool
  tf_parse_error_present :: bool
  tf_llm_error_present :: bool
  tf_stop_hook_evaluated :: bool
  tf_stop_hook_blocked :: bool
  tf_stop_hook_reason :: "string option"
  tf_stop_hook_reason_code :: string

record StopDecision =
  sd_should_stop :: bool
  sd_reason :: "StopReason option"
  sd_detail :: string
  sd_decision_code :: string
  sd_continue_reason :: "string option"
  sd_pending_issue_kind :: "string option"
  sd_active_validation_issue_kind :: "string option"
  sd_validation_attempt_count :: "int option"
  sd_revision_attempt_count :: "int option"
  sd_finish_deferral_count :: "int option"
  sd_completion_evidence_status :: "string option"
  sd_completion_block_family :: string
  sd_validation_phase :: "string option"
  sd_expected_next_step :: "string option"
  sd_completion_gate_status :: "string option"
  sd_active_validation_issue_id :: "string option"
  sd_finish_blocked_by_policy :: bool
  sd_finish_block_reason :: "string option"
  sd_finish_attempted :: bool
  sd_meaningful_progress_observed :: bool
  sd_recent_failure_kind :: "string option"
  sd_completion_allowed :: bool
  sd_validation_evidence_fresh :: bool
  sd_active_failure_kind :: "string option"
  sd_corrective_progress_after_failure :: bool
  sd_post_mutation_validation_pending :: bool
  sd_finish_gate_reason :: "string option"
  sd_last_successful_validation_turn :: "int option"
  sd_last_validation_attempt_turn :: "int option"
  sd_last_validation_failure_turn :: "int option"
  sd_last_mutation_turn :: "int option"
  sd_policy_mode :: string
  sd_model_needs_follow_up :: bool
  sd_runtime_needs_follow_up :: bool
  sd_stop_hook_evaluated :: bool
  sd_stop_hook_blocked :: bool
  sd_stop_hook_reason :: "string option"
  sd_stop_hook_reason_code :: string

definition check_finish_tool_called :: "ToolCall list \<Rightarrow> bool" where
  "check_finish_tool_called calls = list_ex (\<lambda>c. canonical_tool_name c = ''finish'') calls"

definition check_non_finish_tool_calls :: "ToolCall list \<Rightarrow> bool" where
  "check_non_finish_tool_calls calls = list_ex (\<lambda>c. canonical_tool_name c \<noteq> ''finish'') calls"

definition derive_turn_policy_facts ::
  "ToolCall list \<Rightarrow> string list \<Rightarrow> int \<Rightarrow> int \<Rightarrow> string \<Rightarrow> StopPolicyInputSnapshot \<Rightarrow> rstate
    \<Rightarrow> TurnPolicyFacts \<times> rstate" where
  "derive_turn_policy_facts calls parse_errors current_turn max_turns content policy_input s =
     (let content_present = (py_strip content \<noteq> '''');
          (status, s1) = refresh_completion_evidence_status s;
          (phase, s2) = refresh_validation_phase s1
      in (\<lparr>tf_policy_mode = StopPolicyMode_value NATIVE_TOOLS_LIGHT_STOP_HOOK,
           tf_model_needs_follow_up = check_non_finish_tool_calls calls,
           tf_runtime_needs_follow_up = False,
           tf_finish_attempted = (check_finish_tool_called calls \<or> (calls = [] \<and> content_present)),
           tf_assistant_content_present = content_present,
           tf_tool_call_count = int (length calls),
           tf_pending_issue_kind = map_option PendingIssueKind_value (rs_pending_issue_kind s),
           tf_active_validation_issue_kind = active_validation_issue_kind s,
           tf_completion_evidence_status = Some (CompletionEvidenceStatus_value status),
           tf_completion_block_family =
             CompletionBlockFamily_value (sp_completion_block_family_hint policy_input),
           tf_validation_phase = Some (ValidationPhase_value phase),
           tf_recent_failure_kind = sp_recent_failure_kind policy_input,
           tf_meaningful_progress_observed = sp_meaningful_progress_observed policy_input,
           tf_max_turn_reached = (current_turn \<ge> max_turns),
           tf_parse_error_present = (parse_errors \<noteq> []), tf_llm_error_present = False,
           tf_stop_hook_evaluated = False, tf_stop_hook_blocked = False,
           tf_stop_hook_reason = None, tf_stop_hook_reason_code = ''none''\<rparr>, s2))"

definition stop_reason_for_budget :: "StopDecisionCode \<Rightarrow> StopReason" where
  "stop_reason_for_budget code =
     (if code = SDC_VALIDATION_BUDGET_EXHAUSTED then SR_VALIDATION_BUDGET_EXHAUSTED
      else if code = SDC_REVISION_BUDGET_EXHAUSTED then SR_REVISION_BUDGET_EXHAUSTED
      else SR_FINISH_DEFERRAL_BUDGET_EXHAUSTED)"

definition stop_decision_from_state ::
  "rstate \<Rightarrow> bool \<Rightarrow> StopReason option \<Rightarrow> string \<Rightarrow> string \<Rightarrow> TurnPolicyFacts \<Rightarrow> string option
    \<Rightarrow> bool \<Rightarrow> string option \<Rightarrow> string option \<Rightarrow> CompletionBlockAssessment option
    \<Rightarrow> StopDecision \<times> rstate" where
  "stop_decision_from_state s stops reason detail code facts continue_reason
       blocked why step_override assessed =
     (let issue = current_or_last_validation_issue s;
          (step, s1) = (case step_override of
               Some x \<Rightarrow> (x, s)
             | None \<Rightarrow> let (e, s') = expected_next_step s in (ExpectedNextStep_value e, s'));
          (gate, s2) = completion_gate_status s1;
          (fresh, s3) = validation_evidence_fresh s2
      in (\<lparr>sd_should_stop = stops, sd_reason = reason, sd_detail = detail, sd_decision_code = code,
           sd_continue_reason = continue_reason,
           sd_pending_issue_kind = map_option PendingIssueKind_value (rs_pending_issue_kind s3),
           sd_active_validation_issue_kind =
             map_option (\<lambda>i. ValidationIssueKind_value (vi_kind i)) issue,
           sd_validation_attempt_count = map_option vi_validation_attempt_count issue,
           sd_revision_attempt_count = map_option vi_revision_attempt_count issue,
           sd_finish_deferral_count = map_option vi_finish_deferral_count issue,
           sd_completion_evidence_status = tf_completion_evidence_status facts,
           sd_completion_block_family = tf_completion_block_family facts,
           sd_validation_phase = tf_validation_phase facts,
           sd_expected_next_step = Some step,
           sd_completion_gate_status = Some (CompletionGateStatus_value gate),
           sd_active_validation_issue_id = active_issue_id s3,
           sd_finish_blocked_by_policy = blocked, sd_finish_block_reason = why,
           sd_finish_attempted = tf_finish_attempted facts,
           sd_meaningful_progress_observed = tf_meaningful_progress_observed facts,
           sd_recent_failure_kind = tf_recent_failure_kind facts,
           sd_completion_allowed = (case assessed of
               Some a \<Rightarrow> ca_completion_allowed a | None \<Rightarrow> \<not> blocked),
           sd_validation_evidence_fresh = (case assessed of
               Some a \<Rightarrow> ca_validation_evidence_fresh a | None \<Rightarrow> fresh),
           sd_active_failure_kind = (case assessed of
               Some a \<Rightarrow> ca_active_failure_kind a | None \<Rightarrow> rs_active_failure_kind s2),
           sd_corrective_progress_after_failure = (case assessed of
               Some a \<Rightarrow> ca_corrective_progress_after_failure a
             | None \<Rightarrow> rs_corrective_progress_after_failure s2),
           sd_post_mutation_validation_pending = (case assessed of
               Some a \<Rightarrow> ca_post_mutation_validation_pending a
             | None \<Rightarrow> rs_post_mutation_validation_pending s2),
           sd_finish_gate_reason = (case assessed of
               Some a \<Rightarrow> ca_block_reason a | None \<Rightarrow> if blocked then why else None),
           sd_last_successful_validation_turn = rs_last_successful_validation_turn s3,
           sd_last_validation_attempt_turn = rs_last_validation_attempt_turn s3,
           sd_last_validation_failure_turn = rs_last_validation_failure_turn s3,
           sd_last_mutation_turn = rs_last_mutation_turn s3,
           sd_policy_mode = tf_policy_mode facts,
           sd_model_needs_follow_up = tf_model_needs_follow_up facts,
           sd_runtime_needs_follow_up = tf_runtime_needs_follow_up facts,
           sd_stop_hook_evaluated = tf_stop_hook_evaluated facts,
           sd_stop_hook_blocked = tf_stop_hook_blocked facts,
           sd_stop_hook_reason = tf_stop_hook_reason facts,
           sd_stop_hook_reason_code = tf_stop_hook_reason_code facts\<rparr>, s3))"

text \<open>A decision with the keyword arguments after \<open>policy_facts\<close> at their defaults.\<close>

definition plain_decision ::
  "rstate \<Rightarrow> bool \<Rightarrow> StopReason option \<Rightarrow> string \<Rightarrow> string \<Rightarrow> TurnPolicyFacts
    \<Rightarrow> StopDecision \<times> rstate" where
  "plain_decision s stops reason detail code facts =
     stop_decision_from_state s stops reason detail code facts None False None None None"

definition deferral_pending_reasons :: "string set" where
  "deferral_pending_reasons =
     {''recent_recoverable_failure'', ''unresolved_validation_failure'',
      ''no_corrective_progress_after_failure'', ''no_meaningful_progress''}"

text \<open>
  The branch of a blocked completion.  The source has it twice, for an explicit \<open>finish\<close> call and
  for a turn without tool calls, with the two decision codes given here as arguments.
\<close>

definition blocked_completion ::
  "rstate \<Rightarrow> CompletionBlockAssessment \<Rightarrow> string \<Rightarrow> TurnPolicyFacts \<Rightarrow> int
    \<Rightarrow> StopDecisionCode \<Rightarrow> StopDecisionCode \<Rightarrow> StopDecision \<times> rstate" where
  "blocked_completion s a detail facts current_turn pending_code evidence_code =
     (let facts1 = facts\<lparr>tf_runtime_needs_follow_up := True, tf_stop_hook_blocked := True,
            tf_stop_hook_reason := ca_block_reason a,
            tf_stop_hook_reason_code := stop_hook_reason_code_for_block_reason (ca_block_reason a)\<rparr>;
          s1 = snd (ensure_validation_issue_for_completion_block current_turn s);
          s2 = note_finish_deferral current_turn s1
      in case validation_budget_exhaustion s2 of
           Some (code, exhausted) \<Rightarrow>
             plain_decision s2 True (Some (stop_reason_for_budget code)) exhausted
               (StopDecisionCode_value code) facts1
         | None \<Rightarrow>
             let (code, reason) =
                   (if ca_block_reason a \<in> Some ` deferral_pending_reasons
                    then (pending_code, CR_DEFER_COMPLETION_PENDING_ISSUE)
                    else (evidence_code, CR_DEFER_COMPLETION_MISSING_COMPLETION_EVIDENCE))
             in stop_decision_from_state s2 False None detail (StopDecisionCode_value code) facts1
                  (Some (ContinueReason_value reason)) True (ca_block_reason a)
                  (map_option ExpectedNextStep_value (ca_expected_next_step a)) (Some a))"

text \<open>
  \<open>should_stop\<close> from its first test on, with the resolved policy input, the facts and the
  recovery state the facts were taken from.
\<close>

definition stop_on_facts ::
  "ToolCall list \<Rightarrow> string list \<Rightarrow> int \<Rightarrow> int \<Rightarrow> string \<Rightarrow> StopPolicyInputSnapshot
    \<Rightarrow> TurnPolicyFacts \<Rightarrow> rstate \<Rightarrow> StopDecision option \<times> rstate" where
  "stop_on_facts calls parse_errors current_turn max_turns content inp facts s2 =
     (let ret = (\<lambda>(d, s). (Some d, s))
      in case validation_budget_exhaustion s2 of
           Some (code, detail) \<Rightarrow>
             ret (plain_decision s2 True (Some (stop_reason_for_budget code)) detail
                    (StopDecisionCode_value code) facts)
         | None \<Rightarrow>
         if tf_max_turn_reached facts then
           ret (plain_decision s2 True (Some SR_MAX_TURNS)
                  (''Reached max_turns='' @ py_int_str max_turns)
                  (StopDecisionCode_value SDC_MAX_TURNS) facts)
         else if parse_errors \<noteq> [] \<and> calls = [] then
           if parse_error_is_recoverable s2 then
             ret (stop_decision_from_state s2 False None
                    (''Recoverable parse errors: '' @ py_repr_strs parse_errors)
                    (StopDecisionCode_value SDC_RECOVERABLE_PARSE_ERROR)
                    (facts\<lparr>tf_runtime_needs_follow_up := True\<rparr>)
                    (Some (ContinueReason_value CR_RECOVERABLE_PARSE_ERROR)) False None None None)
           else
             ret (plain_decision s2 True (Some SR_PARSE_ERROR)
                    (''Parse errors: '' @ py_repr_strs parse_errors)
                    (StopDecisionCode_value SDC_PARSE_ERROR) facts)
         else if tf_model_needs_follow_up facts then
           ret (stop_decision_from_state s2 False None ''''
                  (StopDecisionCode_value SDC_CONTINUE_WITH_TOOL_CALLS) facts
                  (map_option ContinueReason_value
                     (continue_reason_for_turn s2 (calls \<noteq> []) parse_errors False))
                  False None None None)
         else
           let (a, s3) = assess_completion_block s2 (sp_meaningful_progress_observed inp)
                           (sp_progress_gate_applicable inp) (sp_recent_failure_kind inp);
               blocked_detail = (if ca_blocked a then ca_detail a else '''');
               facts1 = facts\<lparr>tf_completion_block_family :=
                 CompletionBlockFamily_value (ca_completion_block_family a)\<rparr>;
               facts2 = (if tf_finish_attempted facts1 \<or> calls = []
                         then facts1\<lparr>tf_stop_hook_evaluated := True\<rparr> else facts1)
           in if check_finish_tool_called calls then
                if blocked_detail \<noteq> '''' then
                  ret (blocked_completion s3 a blocked_detail facts2 current_turn
                         SDC_DEFER_FINISH_PENDING_ISSUE
                         SDC_DEFER_FINISH_MISSING_COMPLETION_EVIDENCE)
                else
                  ret (plain_decision s3 True (Some SR_FINISH) ''Agent called finish tool''
                         (StopDecisionCode_value SDC_FINISH) facts2)
              else if calls = [] then
                if blocked_detail \<noteq> '''' then
                  ret (blocked_completion s3 a blocked_detail facts2 current_turn
                         SDC_DEFER_NO_TOOL_CALLS_PENDING_ISSUE
                         SDC_DEFER_NO_TOOL_CALLS_MISSING_COMPLETION_EVIDENCE)
                else
                  ret (plain_decision s3 True (Some SR_NO_TOOL_CALLS)
                         (if py_strip content \<noteq> ''''
                          then ''Agent provided final answer without tool calls''
                          else ''Assistant produced no tool calls'')
                         (StopDecisionCode_value SDC_NO_TOOL_CALLS) facts2)
              else (None, s3))"

definition should_stop ::
  "ToolCall list \<Rightarrow> string list \<Rightarrow> int \<Rightarrow> int \<Rightarrow> string \<Rightarrow> rstate option
    \<Rightarrow> StopPolicyInputSnapshot option \<Rightarrow> StopDecision option \<times> rstate" where
  "should_stop calls parse_errors current_turn max_turns content recovery_state policy_input =
     (let s0 = (case recovery_state of
            Some s \<Rightarrow> s | None \<Rightarrow> new_recovery_state False default_policy);
          (inp, s1) = (case policy_input of
            Some p \<Rightarrow> (p, s0)
          | None \<Rightarrow> derive_stop_policy_input_snapshot no_session current_turn s0);
          (facts, s2) =
            derive_turn_policy_facts calls parse_errors current_turn max_turns content inp s1
      in stop_on_facts calls parse_errors current_turn max_turns content inp facts s2)"

end
