(* ===== verification/Stopping_Properties.thy ===== *)
theory Stopping_Properties
  imports Stopping Recovery_Properties
begin

section \<open>Stopping conditions: the laws\<close>

text \<open>
  \<open>stop_code\<close> is the decision procedure without its refreshes: a table on the pending issue, the
  evidence status, the budgets and the shape of the turn.  \<open>should_stop\<close> refines it, never
  falls off its end, gives a reason exactly when it stops, and changes the recovery state only
  as the deferral events of \<open>Recovery_Runs\<close> do.
\<close>

subsection \<open>Answers depend on the core of the recovery state only\<close>

lemma core_idem [simp]: "core (core s) = core s"
  by (simp add: core_def)

lemma core_answers:
  "validation_budget_exhaustion (core s) = validation_budget_exhaustion s"
  "parse_error_is_recoverable (core s) = parse_error_is_recoverable s"
  by (simp_all add: core_def validation_budget_exhaustion_def parse_error_is_recoverable_def
      cong: option.case_cong)

lemma core_deferral:
  "core (note_finish_deferral t (core s)) = core (note_finish_deferral t s)"
  by (simp add: note_finish_deferral_def core_def split: option.split)

lemma core_set_issue:
  "core (u\<lparr>rs_active_validation_issue := i\<rparr>) = (core u)\<lparr>rs_active_validation_issue := i\<rparr>"
  by (simp add: core_def)

lemma core_active: "rs_active_validation_issue (core s) = rs_active_validation_issue s"
  by (simp add: core_def)

lemma core_evidence: "evidence_status (core s) = evidence_status s"
  by (rule core_fields(9)) simp

lemma core_ensure:
  "core (snd (ensure_validation_issue_for_completion_block t (core s))) =
     core (snd (ensure_validation_issue_for_completion_block t s))"
  by (simp add: ensure_validation_issue_for_completion_block_def Let_def refresh_eqs
      core_active core_evidence open_or_update_validation_issue_def core_set_issue
      split: option.split)

lemma core_congs:
  assumes "core s = core t"
  shows "validation_budget_exhaustion s = validation_budget_exhaustion t"
    and "parse_error_is_recoverable s = parse_error_is_recoverable t"
    and "block_reason s m g r = block_reason t m g r"
    and "core (note_finish_deferral u s) = core (note_finish_deferral u t)"
    and "core (snd (ensure_validation_issue_for_completion_block u s)) =
           core (snd (ensure_validation_issue_for_completion_block u t))"
  subgoal using assms by (metis core_answers(1))
  subgoal using assms by (metis core_answers(2))
  subgoal by (simp only: block_reason_def core_fields [OF assms])
  subgoal using assms by (metis core_deferral)
  subgoal using assms by (metis core_ensure)
  done

subsection \<open>The decision table\<close>

definition deferred_state :: "int \<Rightarrow> rstate \<Rightarrow> rstate" where
  "deferred_state t s =
     note_finish_deferral t (snd (ensure_validation_issue_for_completion_block t s))"

definition stop_code ::
  "ToolCall list \<Rightarrow> string list \<Rightarrow> int \<Rightarrow> int \<Rightarrow> StopPolicyInputSnapshot \<Rightarrow> rstate \<Rightarrow> StopDecisionCode" where
  "stop_code calls parse_errors current_turn max_turns inp s =
     (case validation_budget_exhaustion s of
        Some (code, _) \<Rightarrow> code
      | None \<Rightarrow>
          if current_turn \<ge> max_turns then SDC_MAX_TURNS
          else if parse_errors \<noteq> [] \<and> calls = [] then
            (if parse_error_is_recoverable s then SDC_RECOVERABLE_PARSE_ERROR else SDC_PARSE_ERROR)
          else if check_non_finish_tool_calls calls then SDC_CONTINUE_WITH_TOOL_CALLS
          else case block_reason s (sp_meaningful_progress_observed inp)
                      (sp_progress_gate_applicable inp) (sp_recent_failure_kind inp) of
              None \<Rightarrow> if calls = [] then SDC_NO_TOOL_CALLS else SDC_FINISH
            | Some reason \<Rightarrow>
                (case validation_budget_exhaustion (deferred_state current_turn s) of
                   Some (code, _) \<Rightarrow> code
                 | None \<Rightarrow>
                     if reason \<in> deferral_pending_reasons
                     then (if calls = [] then SDC_DEFER_NO_TOOL_CALLS_PENDING_ISSUE
                           else SDC_DEFER_FINISH_PENDING_ISSUE)
                     else (if calls = [] then SDC_DEFER_NO_TOOL_CALLS_MISSING_COMPLETION_EVIDENCE
                           else SDC_DEFER_FINISH_MISSING_COMPLETION_EVIDENCE)))"

definition stop_events ::
  "ToolCall list \<Rightarrow> string list \<Rightarrow> int \<Rightarrow> int \<Rightarrow> StopPolicyInputSnapshot \<Rightarrow> rstate \<Rightarrow> recovery_event list" where
  "stop_events calls parse_errors current_turn max_turns inp s =
     (if validation_budget_exhaustion s = None \<and> current_turn < max_turns \<and>
         \<not> (parse_errors \<noteq> [] \<and> calls = []) \<and> \<not> check_non_finish_tool_calls calls \<and>
         block_reason s (sp_meaningful_progress_observed inp) (sp_progress_gate_applicable inp)
           (sp_recent_failure_kind inp) \<noteq> None
      then [REnsure current_turn, RDeferral current_turn] else [])"

lemma finish_or_not:
  "calls \<noteq> [] \<Longrightarrow> \<not> check_non_finish_tool_calls calls \<Longrightarrow> check_finish_tool_called calls"
  by (cases calls) (auto simp: check_non_finish_tool_calls_def check_finish_tool_called_def)

lemma not_finish_Nil [simp]: "\<not> check_finish_tool_called []" "\<not> check_non_finish_tool_calls []"
  by (simp_all add: check_finish_tool_called_def check_non_finish_tool_calls_def)

lemma assess_detail_nonempty:
  "ca_blocked (fst (assess_completion_block s m g r)) \<Longrightarrow>
     ca_detail (fst (assess_completion_block s m g r)) \<noteq> ''''"
  by (cases "evidence_status s"; cases "rs_pending_issue_kind s" rule: pending_cases)
    (simp_all add: assess_simps detail_or_def split: if_splits)

text \<open>A decision only reads the recovery state: what it returns has the same core.\<close>

lemma stop_decision_core:
  "core (snd (stop_decision_from_state s st re d c f cr b w ov a)) = core s"
  by (simp add: stop_decision_from_state_def Let_def split_beta core_expected_next_step core_refresh
      split: option.split)

lemma stop_decision_fields:
  "sd_should_stop (fst (stop_decision_from_state s st re d c f cr b w ov a)) = st"
  "sd_reason (fst (stop_decision_from_state s st re d c f cr b w ov a)) = re"
  "sd_decision_code (fst (stop_decision_from_state s st re d c f cr b w ov a)) = c"
  "sd_detail (fst (stop_decision_from_state s st re d c f cr b w ov a)) = d"
  "sd_finish_blocked_by_policy (fst (stop_decision_from_state s st re d c f cr b w ov a)) = b"
  "sd_finish_block_reason (fst (stop_decision_from_state s st re d c f cr b w ov a)) = w"
  "sd_stop_hook_blocked (fst (stop_decision_from_state s st re d c f cr b w ov a)) =
     tf_stop_hook_blocked f"
  "sd_stop_hook_evaluated (fst (stop_decision_from_state s st re d c f cr b w ov a)) =
     tf_stop_hook_evaluated f"
  by (simp_all add: stop_decision_from_state_def Let_def split_beta)

lemma derive_turn_policy_facts_core:
  "core (snd (derive_turn_policy_facts c p t m x i s)) = core s"
  by (simp add: derive_turn_policy_facts_def Let_def refresh_eqs)

lemma derive_turn_policy_facts_fields:
  "tf_max_turn_reached (fst (derive_turn_policy_facts c p t m x i s)) = (t \<ge> m)"
  "tf_model_needs_follow_up (fst (derive_turn_policy_facts c p t m x i s)) =
     check_non_finish_tool_calls c"
  "tf_stop_hook_blocked (fst (derive_turn_policy_facts c p t m x i s)) = False"
  "tf_stop_hook_evaluated (fst (derive_turn_policy_facts c p t m x i s)) = False"
  "tf_finish_attempted (fst (derive_turn_policy_facts c p t m x i s)) =
     (check_finish_tool_called c \<or> c = [] \<and> py_strip x \<noteq> '''')"
  by (simp_all add: derive_turn_policy_facts_def Let_def refresh_eqs)

fun code_stops :: "StopDecisionCode \<Rightarrow> bool" where
  "code_stops SDC_FINISH = True"
| "code_stops SDC_NO_TOOL_CALLS = True"
| "code_stops SDC_MAX_TURNS = True"
| "code_stops SDC_PARSE_ERROR = True"
| "code_stops SDC_LLM_ERROR = True"
| "code_stops SDC_VALIDATION_BUDGET_EXHAUSTED = True"
| "code_stops SDC_REVISION_BUDGET_EXHAUSTED = True"
| "code_stops SDC_FINISH_DEFERRAL_BUDGET_EXHAUSTED = True"
| "code_stops code = False"

lemma StopDecisionCode_value_inject [simp]:
  "StopDecisionCode_value a = StopDecisionCode_value b \<longleftrightarrow> a = b"
  by (cases a; cases b) simp_all

lemma budget_code:
  "validation_budget_exhaustion s = Some (k, d) \<Longrightarrow>
     k \<in> {SDC_VALIDATION_BUDGET_EXHAUSTED, SDC_REVISION_BUDGET_EXHAUSTED,
          SDC_FINISH_DEFERRAL_BUDGET_EXHAUSTED}"
  by (auto simp: validation_budget_exhaustion_def Let_def split: option.splits if_splits)

lemma budget_stops:
  "validation_budget_exhaustion s = Some (k, d) \<Longrightarrow>
     code_stops k \<and> StopReason_value (stop_reason_for_budget k) = StopDecisionCode_value k"
  by (auto simp: stop_reason_for_budget_def dest!: budget_code)

lemma deferred_state_core:
  "core s = core t \<Longrightarrow> core (deferred_state u s) = core (deferred_state u t)"
  unfolding deferred_state_def by (intro core_congs(4) core_congs(5))

lemma blocked_completion_core:
  "core (snd (blocked_completion s a d f t pc ec)) = core (deferred_state t s)"
  by (simp add: blocked_completion_def Let_def split_beta plain_decision_def stop_decision_core
      deferred_state_def split: option.split)

lemma blocked_completion_code:
  "sd_decision_code (fst (blocked_completion s a d f t pc ec)) =
     StopDecisionCode_value (case validation_budget_exhaustion (deferred_state t s) of
        Some (code, _) \<Rightarrow> code
      | None \<Rightarrow> if ca_block_reason a \<in> Some ` deferral_pending_reasons then pc else ec)"
  by (simp add: blocked_completion_def Let_def split_beta plain_decision_def stop_decision_fields
      deferred_state_def split: option.split)

lemma blocked_completion_stops:
  assumes "\<not> code_stops pc" and "\<not> code_stops ec"
    and "d = fst (blocked_completion s a txt f t pc ec)"
    and "code = (case validation_budget_exhaustion (deferred_state t s) of
        Some (code, _) \<Rightarrow> code
      | None \<Rightarrow> if ca_block_reason a \<in> Some ` deferral_pending_reasons then pc else ec)"
  shows "sd_should_stop d = code_stops code"
    and "map_option StopReason_value (sd_reason d) =
      (if code_stops code then Some (StopDecisionCode_value code) else None)"
  using assms(1,2) unfolding assms(3,4)
  by (auto simp: blocked_completion_def Let_def split_beta plain_decision_def stop_decision_fields
      deferred_state_def budget_stops dest: budget_stops split: option.split)

lemma assess_reason_of:
  "block_reason s m g r = None \<longleftrightarrow> \<not> ca_blocked (fst (assess_completion_block s m g r))"
  by (simp add: assess_blocked_iff assess_block_reason)

lemma stop_on_facts_branch:
  assumes "tf_max_turn_reached f = (t \<ge> m)" and "tf_model_needs_follow_up f = check_non_finish_tool_calls c"
  shows "\<exists>d s'. stop_on_facts c p t m x i f s = (Some d, s') \<and>
    sd_decision_code d = StopDecisionCode_value (stop_code c p t m i s) \<and>
    sd_should_stop d = code_stops (stop_code c p t m i s) \<and>
    map_option StopReason_value (sd_reason d) =
      (if code_stops (stop_code c p t m i s)
       then Some (StopDecisionCode_value (stop_code c p t m i s)) else None) \<and>
    core s' = core (run_events recovery_step (stop_events c p t m i s) s)"
proof -
  let ?a = "assess_completion_block s (sp_meaningful_progress_observed i)
    (sp_progress_gate_applicable i) (sp_recent_failure_kind i)"
  have core_a: "core (snd ?a) = core s" by (rule core_assess)
  then have def_a: "core (deferred_state t (snd ?a)) = core (deferred_state t s)"
    by (rule deferred_state_core)
  have budget: "validation_budget_exhaustion (deferred_state t (snd ?a)) =
      validation_budget_exhaustion (deferred_state t s)"
    by (rule core_congs(1) [OF def_a])
  have blk: "ca_blocked (fst ?a) = (block_reason s (sp_meaningful_progress_observed i)
      (sp_progress_gate_applicable i) (sp_recent_failure_kind i) \<noteq> None)"
    by (simp add: assess_blocked_iff assess_block_reason)
  have det: "ca_blocked (fst ?a) \<Longrightarrow> ca_detail (fst ?a) \<noteq> ''''"
    by (rule assess_detail_nonempty)
  consider (budget) k d where "validation_budget_exhaustion s = Some (k, d)"
    | (max) "validation_budget_exhaustion s = None" "m \<le> t"
    | (parse) "validation_budget_exhaustion s = None" "t < m" "p \<noteq> []" "c = []"
    | (tools) "validation_budget_exhaustion s = None" "t < m" "\<not> (p \<noteq> [] \<and> c = [])"
        "check_non_finish_tool_calls c"
    | (end_turn) "validation_budget_exhaustion s = None" "t < m" "\<not> (p \<noteq> [] \<and> c = [])"
        "\<not> check_non_finish_tool_calls c"
    by (cases "validation_budget_exhaustion s") force+
  then show ?thesis
  proof cases
    case end_turn
    show ?thesis
    proof (cases "c = []")
      case True
      with end_turn assms(1,2) core_a def_a budget blk det show ?thesis
        by (cases "block_reason s (sp_meaningful_progress_observed i)
            (sp_progress_gate_applicable i) (sp_recent_failure_kind i)")
          (simp_all add: stop_on_facts_def stop_code_def stop_events_def Let_def
            split_beta assess_block_reason blocked_completion_core
            blocked_completion_code blocked_completion_stops [OF _ _ refl refl] plain_decision_def deferred_state_def [symmetric]
            stop_decision_core stop_decision_fields image_iff
            del: not_None_eq split: option.split)
    next
      case False
      with end_turn have "check_finish_tool_called c" by (simp add: finish_or_not)
      with False end_turn assms(1,2) core_a def_a budget blk det show ?thesis
        by (cases "block_reason s (sp_meaningful_progress_observed i)
            (sp_progress_gate_applicable i) (sp_recent_failure_kind i)")
          (simp_all add: stop_on_facts_def stop_code_def stop_events_def Let_def
            split_beta assess_block_reason blocked_completion_core
            blocked_completion_code blocked_completion_stops [OF _ _ refl refl] plain_decision_def deferred_state_def [symmetric]
            stop_decision_core stop_decision_fields image_iff
            del: not_None_eq split: option.split)
    qed
  qed (use assms(1,2) in \<open>simp_all add: stop_on_facts_def stop_code_def
      stop_events_def Let_def split_beta plain_decision_def stop_decision_core stop_decision_fields
      budget_stops\<close>)
qed

text \<open>The state and the policy input that the optional arguments of \<open>should_stop\<close> stand for.\<close>

definition stop_state :: "rstate option \<Rightarrow> rstate" where
  "stop_state recovery_state =
     (case recovery_state of Some s \<Rightarrow> s | None \<Rightarrow> new_recovery_state False default_policy)"

definition stop_input ::
  "StopPolicyInputSnapshot option \<Rightarrow> int \<Rightarrow> rstate \<Rightarrow> StopPolicyInputSnapshot" where
  "stop_input policy_input current_turn s =
     (case policy_input of Some p \<Rightarrow> p
      | None \<Rightarrow> fst (derive_stop_policy_input_snapshot no_session current_turn s))"

lemma derive_stop_policy_input_core:
  "core (snd (derive_stop_policy_input_snapshot g t s)) = core s"
  by (simp add: derive_stop_policy_input_snapshot_def Let_def split_beta core_assess)

lemma stop_code_core:
  assumes "core s = core u"
  shows "stop_code c p t m i s = stop_code c p t m i u"
    and "stop_events c p t m i s = stop_events c p t m i u"
proof -
  have "core (deferred_state t s) = core (deferred_state t u)"
    by (rule deferred_state_core [OF assms])
  note eqs = core_congs(1) [OF this] core_congs(1,2,3) [OF assms]
  show "stop_code c p t m i s = stop_code c p t m i u"
    unfolding stop_code_def eqs ..
  show "stop_events c p t m i s = stop_events c p t m i u"
    unfolding stop_events_def eqs ..
qed

lemma run_deferral_core:
  "core s = core u \<Longrightarrow> core (run_events recovery_step (stop_events c p t m i v) s) =
     core (run_events recovery_step (stop_events c p t m i v) u)"
  unfolding stop_events_def by (auto intro: core_congs(4) core_congs(5))

lemma should_stop_refines:
  assumes "s = stop_state r" and "i = stop_input pin t s"
  shows "\<exists>d s'. should_stop c p t m x r pin = (Some d, s') \<and>
    sd_decision_code d = StopDecisionCode_value (stop_code c p t m i s) \<and>
    sd_should_stop d = code_stops (stop_code c p t m i s) \<and>
    map_option StopReason_value (sd_reason d) =
      (if code_stops (stop_code c p t m i s)
       then Some (StopDecisionCode_value (stop_code c p t m i s)) else None) \<and>
    core s' = core (run_events recovery_step (stop_events c p t m i s) s)"
proof -
  let ?s1 = "case pin of Some q \<Rightarrow> s
    | None \<Rightarrow> snd (derive_stop_policy_input_snapshot no_session t s)"
  let ?f = "derive_turn_policy_facts c p t m x i ?s1"
  have eq: "should_stop c p t m x r pin = stop_on_facts c p t m x i (fst ?f) (snd ?f)"
    by (simp add: should_stop_def assms stop_state_def stop_input_def Let_def split_beta
        split: option.split)
  have core: "core (snd ?f) = core s"
    by (simp add: derive_turn_policy_facts_core derive_stop_policy_input_core split: option.split)
  show ?thesis
    using stop_on_facts_branch [where f = "fst ?f" and t = t and m = m and c = c and p = p
        and x = x and i = i and s = "snd ?f"] stop_code_core [OF core, of c p t m i]
      run_deferral_core [OF core, of c p t m i s]
    unfolding eq by (auto simp: derive_turn_policy_facts_fields)
qed

subsection \<open>The properties\<close>

text \<open>C6: the stop decision refines the table \<open>stop_code\<close>: \<open>should_stop\<close> always returns a decision,
  its code is the one of the table on the pending issue, the evidence and the budgets, it stops
  exactly on the stopping codes and then gives the reason of that code, and apart from cached fields it changes the recovery state only
  by opening an issue for and counting a deferred completion.\<close>

theorem should_stop_refines_table:
  "let s = stop_state recovery_state; inp = stop_input policy_input t s;
       code = stop_code calls parse_errors t max_turns inp s;
       (d, s') = should_stop calls parse_errors t max_turns content recovery_state policy_input
   in map_option sd_decision_code d = Some (StopDecisionCode_value code) \<and>
      map_option sd_should_stop d = Some (code_stops code) \<and>
      map_option (map_option StopReason_value \<circ> sd_reason) d =
        Some (if code_stops code then Some (StopDecisionCode_value code) else None) \<and>
      core s' = core (run_events recovery_step (stop_events calls parse_errors t max_turns inp s) s)"
  using should_stop_refines [OF refl refl, of calls parse_errors t max_turns content recovery_state
      policy_input]
  by (auto simp: Let_def)

lemma stop_code_finish:
  "stop_code c p t m i s \<in> {SDC_FINISH, SDC_NO_TOOL_CALLS} \<Longrightarrow>
     block_reason s (sp_meaningful_progress_observed i) (sp_progress_gate_applicable i)
       (sp_recent_failure_kind i) = None"
  by (auto simp: stop_code_def dest: budget_code split: option.splits if_splits)

text \<open>C5: a run that requires validation evidence is let go, by a finish call or by a turn without
  tool calls, only on the strength of a passing validation call of the run, and every mutation
  call after that validation belongs to the same turn.\<close>

theorem accepted_finish_requires_validation:
  assumes "turn_ordered es"
    and "fst (should_stop calls parse_errors t max_turns content
           (Some (run_events recovery_step es (new_recovery_state True config))) policy_input) = Some d"
    and "sd_decision_code d \<in> {''finish'', ''no_tool_calls''}"
  shows "\<exists>pre call result v post.
    es = pre @ RTool call result v # post \<and> is_validation_tool call \<and> tool_succeeded result \<and>
    (\<forall>c r u. RTool c r u \<in> set post \<longrightarrow> is_mutation_tool c \<longrightarrow> u = v)"
proof -
  let ?s = "run_events recovery_step es (new_recovery_state True config)"
  let ?i = "stop_input policy_input t ?s"
  have "sd_decision_code d = StopDecisionCode_value (stop_code calls parse_errors t max_turns ?i ?s)"
    using should_stop_refines [of ?s "Some ?s" ?i policy_input t calls parse_errors max_turns content]
      assms(2) by (auto simp: stop_state_def)
  with assms(3) have "stop_code calls parse_errors t max_turns ?i ?s \<in> {SDC_FINISH, SDC_NO_TOOL_CALLS}"
    by (cases "stop_code calls parse_errors t max_turns ?i ?s") auto
  then have "\<not> ca_blocked (fst (assess_completion_block ?s (sp_meaningful_progress_observed ?i)
      (sp_progress_gate_applicable ?i) (sp_recent_failure_kind ?i)))"
    by (simp add: assess_reason_of [symmetric] stop_code_finish)
  then show ?thesis by (rule completion_rests_on_validation [OF assms(1)])
qed

theorem accepted_finish_requires_validation_witness:
  "\<exists>pre call result v post.
    sample_run = pre @ RTool call result v # post \<and> is_validation_tool call \<and> tool_succeeded result \<and>
    (\<forall>c r u. RTool c r u \<in> set post \<longrightarrow> is_mutation_tool c \<longrightarrow> u = v)"
proof (rule accepted_finish_requires_validation [where calls = "[sample_call ''f'' ''finish'']"
      and parse_errors = "[]" and t = 3 and max_turns = 10 and content = "''''"
      and config = default_policy and policy_input = None])
  let ?d = "fst (should_stop [sample_call ''f'' ''finish''] [] 3 10 ''''
    (Some (run_events recovery_step sample_run (new_recovery_state True default_policy))) None)"
  show "turn_ordered sample_run" by (simp add: turn_ordered_def)
  show "?d = Some (the ?d)" by code_simp
  show "sd_decision_code (the ?d) \<in> {''finish'', ''no_tool_calls''}" by code_simp
qed

primrec finish_turns ::
  "ToolCall \<Rightarrow> int \<Rightarrow> StopPolicyInputSnapshot \<Rightarrow> int list \<Rightarrow> rstate \<Rightarrow> StopDecision option list" where
  "finish_turns call max_turns inp [] s = []"
| "finish_turns call max_turns inp (t # ts) s =
     (let (d, s') = should_stop [call] [] t max_turns '''' (Some s) (Some inp)
      in d # finish_turns call max_turns inp ts s')"

definition deferral_total :: "rstate \<Rightarrow> int" where
  "deferral_total s = (case rs_active_validation_issue s of None \<Rightarrow> 0
     | Some i \<Rightarrow> vi_finish_deferral_count i)"

definition deferrable :: "rstate \<Rightarrow> bool" where
  "deferrable s \<longleftrightarrow>
     rs_active_validation_issue s \<noteq> None \<or> evidence_status s \<in> {CES_MISSING, CES_STALE}"

lemma deferred_state_counts:
  assumes "deferrable s" and "rs_last_finish_deferral_turn s \<noteq> Some t"
  shows "deferrable (deferred_state t s)"
    and "deferral_total (deferred_state t s) = deferral_total s + 1"
    and "rs_last_finish_deferral_turn (deferred_state t s) = Some t"
    and "rs_validation_policy_config (deferred_state t s) = rs_validation_policy_config s"
  using assms
  by (auto simp: deferred_state_def deferrable_def deferral_total_def note_finish_deferral_def
      ensure_validation_issue_for_completion_block_def refresh_eqs Let_def
      open_or_update_validation_issue_def split: option.split)

lemma deferral_reads_core:
  assumes "core s = core u"
  shows "deferrable s = deferrable u" and "deferral_total s = deferral_total u"
    and "rs_last_finish_deferral_turn s = rs_last_finish_deferral_turn u"
    and "rs_validation_policy_config s = rs_validation_policy_config u"
proof -
  have "rs_last_finish_deferral_turn (core s) = rs_last_finish_deferral_turn s"
    "rs_validation_policy_config (core s) = rs_validation_policy_config s" for s
    by (simp_all add: core_def)
  with assms show "rs_last_finish_deferral_turn s = rs_last_finish_deferral_turn u"
    "rs_validation_policy_config s = rs_validation_policy_config u" by metis+
qed (simp_all add: deferrable_def deferral_total_def core_fields [OF assms])

lemma stop_code_continues:
  assumes "stop_code [c] [] t m i s \<notin> {SDC_FINISH, SDC_MAX_TURNS, SDC_VALIDATION_BUDGET_EXHAUSTED,
      SDC_REVISION_BUDGET_EXHAUSTED, SDC_FINISH_DEFERRAL_BUDGET_EXHAUSTED}"
    and "canonical_tool_name c = ''finish''"
  shows "stop_events [c] [] t m i s = [REnsure t, RDeferral t]"
    and "validation_budget_exhaustion (deferred_state t s) = None"
  using assms by (auto simp: stop_code_def stop_events_def check_non_finish_tool_calls_def
      dest: budget_code split: option.splits if_splits)

lemma no_exhaustion_bound:
  "validation_budget_exhaustion s = None \<Longrightarrow> rs_active_validation_issue s \<noteq> None \<Longrightarrow>
     deferral_total s \<le> max_finish_deferrals_per_issue (rs_validation_policy_config s)"
  by (auto simp: validation_budget_exhaustion_def Let_def deferral_total_def split: if_splits)
lemma finish_turn_step:
  assumes "canonical_tool_name c = ''finish''"
    and "should_stop [c] [] t m '''' (Some s) (Some i) = (Some d, s')" and "\<not> sd_should_stop d"
  shows "core s' = core (deferred_state t s) \<and> validation_budget_exhaustion (deferred_state t s) = None"
proof -
  let ?code = "stop_code [c] [] t m i s"
  have "sd_should_stop d = code_stops ?code"
    and core: "core s' = core (run_events recovery_step (stop_events [c] [] t m i s) s)"
    using should_stop_refines [of s "Some s" i "Some i" t "[c]" "[]" m "''''"] assms(2)
    by (auto simp: stop_state_def stop_input_def)
  with assms(3) have "?code \<notin> {SDC_FINISH, SDC_MAX_TURNS, SDC_VALIDATION_BUDGET_EXHAUSTED,
      SDC_REVISION_BUDGET_EXHAUSTED, SDC_FINISH_DEFERRAL_BUDGET_EXHAUSTED}"
    by (cases ?code) simp_all
  note facts = stop_code_continues [OF this assms(1)]
  have "core s' = core (deferred_state t s)"
    using core facts(1) by (simp add: deferred_state_def)
  with facts(2) show ?thesis by simp
qed

lemma finish_turns_count:
  assumes "canonical_tool_name c = ''finish''" and "distinct ts"
    and "deferrable s" and "rs_last_finish_deferral_turn s \<notin> Some ` set ts" and "ts \<noteq> []"
    and "\<forall>d\<in>set (finish_turns c m i ts s). \<exists>e. d = Some e \<and> \<not> sd_should_stop e"
  shows "deferral_total s + int (length ts) \<le> max_finish_deferrals_per_issue (rs_validation_policy_config s)"
  using assms(2-6)
proof (induction ts arbitrary: s)
  case (Cons t ts)
  obtain d s' where step: "should_stop [c] [] t m '''' (Some s) (Some i) = (Some d, s')"
    using Cons.prems(5) by (cases "should_stop [c] [] t m '''' (Some s) (Some i)") (auto simp: split_beta)
  then have "\<not> sd_should_stop d" using Cons.prems(5) by auto
  note turn = finish_turn_step [OF assms(1) step this]
  have fresh: "rs_last_finish_deferral_turn s \<noteq> Some t" using Cons.prems(3) by auto
  note counts = deferred_state_counts [OF Cons.prems(2) fresh]
  note reads = deferral_reads_core [OF conjunct1 [OF turn]]
  show ?case
  proof (cases "ts = []")
    case True
    have "rs_active_validation_issue (deferred_state t s) \<noteq> None"
      using Cons.prems(2) fresh
      by (auto simp: deferred_state_def deferrable_def note_finish_deferral_def
          ensure_validation_issue_for_completion_block_def refresh_eqs Let_def
          open_or_update_validation_issue_def split: option.split)
    with turn no_exhaustion_bound [of "deferred_state t s"] counts True show ?thesis by simp
  next
    case False
    have "deferral_total s' + int (length ts) \<le>
        max_finish_deferrals_per_issue (rs_validation_policy_config s')"
      using Cons.prems False step reads counts by (intro Cons.IH) (auto simp: split_beta)
    with reads counts show ?thesis by simp
  qed
qed simp

text \<open>C7: an agent that keeps asking to finish is not deferred for ever while its validation is open.
  Take a state with an active validation issue, or with required evidence that is missing or stale,
  whose count of deferrals is not negative, and turns that are all different and none the turn of the
  last deferral: if each of them is a finish call and they are more than the policy allows deferrals,
  one of the decisions stops the run.  Without such an issue, as for a pending tool failure where no
  evidence is required, a blocked finish is not counted and the claim is not made.\<close>

theorem repeated_finish_stops:
  assumes "canonical_tool_name call = ''finish''" and "distinct ts"
    and "deferrable s" and "0 \<le> deferral_total s"
    and "rs_last_finish_deferral_turn s \<notin> Some ` set ts"
    and "int (length ts) > max_finish_deferrals_per_issue (rs_validation_policy_config s)"
    and "ts \<noteq> []"
  shows "\<exists>d. Some d \<in> set (finish_turns call max_turns inp ts s) \<and> sd_should_stop d"
proof (rule ccontr)
  assume none: "\<not> ?thesis"
  have "\<exists>e. d = Some e" if "d \<in> set (finish_turns call max_turns inp ts s)" for d
    using that
  proof (induction ts arbitrary: s)
    case (Cons t ts)
    then show ?case
      using should_stop_refines [of s "Some s" inp "Some inp" t "[call]" "[]" max_turns "''''"]
      by (auto simp: stop_state_def stop_input_def split_beta)
  qed simp
  with none have "\<forall>d\<in>set (finish_turns call max_turns inp ts s). \<exists>e. d = Some e \<and> \<not> sd_should_stop e"
    by blast
  from finish_turns_count [OF assms(1,2,3,5,7) this] assms(4,6) show False by simp
qed
theorem repeated_finish_stops_witness:
  "\<exists>d. Some d \<in> set (finish_turns (sample_call ''f'' ''finish'') 10
     (fst (derive_stop_policy_input_snapshot no_session 1 (new_recovery_state True default_policy)))
     [1, 2, 3] (new_recovery_state True default_policy)) \<and> sd_should_stop d"
proof (rule repeated_finish_stops)
  show "canonical_tool_name (sample_call ''f'' ''finish'') = ''finish''" by code_simp
  show "distinct [1, 2, 3 :: int]" by simp
  show "deferrable (new_recovery_state True default_policy)" by code_simp
  show "0 \<le> deferral_total (new_recovery_state True default_policy)" by code_simp
  show "rs_last_finish_deferral_turn (new_recovery_state True default_policy) \<notin> Some ` set [1, 2, 3]"
    by code_simp
  show "int (length [1, 2, 3 :: int]) > max_finish_deferrals_per_issue
      (rs_validation_policy_config (new_recovery_state True default_policy))"
    by code_simp
  show "[1, 2, 3 :: int] \<noteq> []" by simp
qed

text \<open>At turn \<open>max_turns\<close> and after it every decision stops the run, and the only reasons given
  there are an exhausted budget and the turn limit: a finish call in the last turn is reported as
  \<open>max_turns\<close>, never as \<open>finish\<close>.\<close>

theorem last_turn_stops:
  assumes "max_turns \<le> t"
  shows "\<exists>d. fst (should_stop calls parse_errors t max_turns content recovery_state policy_input) = Some d \<and>
    sd_should_stop d \<and>
    sd_reason d \<in> {Some SR_MAX_TURNS, Some SR_VALIDATION_BUDGET_EXHAUSTED,
      Some SR_REVISION_BUDGET_EXHAUSTED, Some SR_FINISH_DEFERRAL_BUDGET_EXHAUSTED}"
proof -
  let ?s = "stop_state recovery_state"
  let ?code = "stop_code calls parse_errors t max_turns (stop_input policy_input t ?s) ?s"
  obtain d where d: "fst (should_stop calls parse_errors t max_turns content recovery_state policy_input) = Some d"
    "sd_should_stop d = code_stops ?code"
    "map_option StopReason_value (sd_reason d) =
      (if code_stops ?code then Some (StopDecisionCode_value ?code) else None)"
    using should_stop_refines [OF refl refl, of calls parse_errors t max_turns content
        recovery_state policy_input] by auto
  have "?code \<in> {SDC_MAX_TURNS, SDC_VALIDATION_BUDGET_EXHAUSTED, SDC_REVISION_BUDGET_EXHAUSTED,
      SDC_FINISH_DEFERRAL_BUDGET_EXHAUSTED}"
    using assms by (auto simp: stop_code_def dest: budget_code split: option.split)
  then have code: "code_stops ?code" "StopDecisionCode_value ?code \<in> {''max_turns'',
      ''validation_budget_exhausted'', ''revision_budget_exhausted'',
      ''finish_deferral_budget_exhausted''}"
    by auto
  with d(3) obtain r where "sd_reason d = Some r" "StopReason_value r = StopDecisionCode_value ?code"
    by auto
  moreover from this(2) code(2) have "r \<in> {SR_MAX_TURNS, SR_VALIDATION_BUDGET_EXHAUSTED,
      SR_REVISION_BUDGET_EXHAUSTED, SR_FINISH_DEFERRAL_BUDGET_EXHAUSTED}"
    by (cases r) auto
  ultimately show ?thesis using d(1,2) code(1) by auto
qed

theorem last_turn_stops_witness:
  "\<exists>d. fst (should_stop [sample_call ''f'' ''finish''] [] 5 5 '''' None None) = Some d \<and>
    sd_should_stop d \<and>
    sd_reason d \<in> {Some SR_MAX_TURNS, Some SR_VALIDATION_BUDGET_EXHAUSTED,
      Some SR_REVISION_BUDGET_EXHAUSTED, Some SR_FINISH_DEFERRAL_BUDGET_EXHAUSTED}"
  by (rule last_turn_stops) simp

text \<open>Taking a stop decision keeps the recovery state well formed, in any run from a fresh state.\<close>

theorem should_stop_keeps_invariant:
  "recovery_inv (snd (should_stop calls parse_errors t max_turns content
     (Some (run_events recovery_step es (new_recovery_state requires config))) policy_input))"
proof -
  let ?s = "run_events recovery_step es (new_recovery_state requires config)"
  let ?es = "stop_events calls parse_errors t max_turns (stop_input policy_input t ?s) ?s"
  have "core (snd (should_stop calls parse_errors t max_turns content (Some ?s) policy_input)) =
      core (run_events recovery_step ?es ?s)"
    using should_stop_refines [of ?s "Some ?s" _ policy_input t calls parse_errors max_turns content]
    by (auto simp: stop_state_def)
  moreover have "recovery_inv (run_events recovery_step ?es ?s)"
    by (intro recovery.run_inv) simp_all
  ultimately show ?thesis using core_eq_inv by blast
qed

end
