(* ===== verification/Turn_State_Types.thy ===== *)
theory Turn_State_Types
  imports Stopping
begin

section \<open>Turn and session state: the types\<close>

text \<open>
  The enumerations and records of \<open>pycodeagent/agent/turn_state.py\<close>: what a request selected
  (\<open>cs_\<close>), one pending issue (\<open>pi_\<close>), the outcome, budgets and continuation of a session
  (\<open>so_\<close>, \<open>sb_\<close>, \<open>tcr_\<close>), the facts a compaction carries forward (\<open>ss_\<close>, \<open>cf_\<close>, \<open>trs_\<close>,
  \<open>art_\<close>, \<open>pm_\<close>), one turn (\<open>ts_\<close>) and the whole session (\<open>st_\<close>, which owns the recovery
  state).  As in the source, enumeration members are stored as their string values.
\<close>

subsection \<open>Enumerations\<close>

datatype ContextPolicyMode =
    CPM_FULL_HISTORY
  | CPM_TAIL_WINDOW
  | CPM_DETERMINISTIC_COMPACTION
  | CPM_MODEL_BACKED_COMPACTION

fun ContextPolicyMode_value :: "ContextPolicyMode \<Rightarrow> string" where
  "ContextPolicyMode_value CPM_FULL_HISTORY = ''full_history''"
| "ContextPolicyMode_value CPM_TAIL_WINDOW = ''tail_window''"
| "ContextPolicyMode_value CPM_DETERMINISTIC_COMPACTION = ''deterministic_compaction''"
| "ContextPolicyMode_value CPM_MODEL_BACKED_COMPACTION = ''model_backed_compaction''"

datatype TurnLifecyclePhase =
    TLP_TURN_STARTED
  | TLP_REQUEST_BUILT
  | TLP_PROVIDER_RESPONSE_RECEIVED
  | TLP_RESPONSE_INTERPRETED
  | TLP_ASSISTANT_PARSED
  | TLP_TOOL_DISPATCH
  | TLP_POST_TOOL_OBSERVATION
  | TLP_STOP_DECIDED
  | TLP_TURN_COMPLETED

fun TurnLifecyclePhase_value :: "TurnLifecyclePhase \<Rightarrow> string" where
  "TurnLifecyclePhase_value TLP_TURN_STARTED = ''turn_started''"
| "TurnLifecyclePhase_value TLP_REQUEST_BUILT = ''request_built''"
| "TurnLifecyclePhase_value TLP_PROVIDER_RESPONSE_RECEIVED = ''provider_response_received''"
| "TurnLifecyclePhase_value TLP_RESPONSE_INTERPRETED = ''response_interpreted''"
| "TurnLifecyclePhase_value TLP_ASSISTANT_PARSED = ''assistant_parsed''"
| "TurnLifecyclePhase_value TLP_TOOL_DISPATCH = ''tool_dispatch''"
| "TurnLifecyclePhase_value TLP_POST_TOOL_OBSERVATION = ''post_tool_observation''"
| "TurnLifecyclePhase_value TLP_STOP_DECIDED = ''stop_decided''"
| "TurnLifecyclePhase_value TLP_TURN_COMPLETED = ''turn_completed''"

datatype ContinuationDecisionKind =
    CDK_CONTINUE_WITH_TOOL_CALLS
  | CDK_CONTINUE_AFTER_RECOVERABLE_FAILURE
  | CDK_CONTINUE_AFTER_BLOCKED_FINISH
  | CDK_STOP_FINISH
  | CDK_STOP_NO_TOOL_CALLS
  | CDK_STOP_MAX_TURNS
  | CDK_STOP_PARSE_ERROR
  | CDK_STOP_LLM_ERROR
  | CDK_STOP_VALIDATION_BUDGET_EXHAUSTED
  | CDK_STOP_REVISION_BUDGET_EXHAUSTED
  | CDK_STOP_FINISH_DEFERRAL_BUDGET_EXHAUSTED

fun ContinuationDecisionKind_value :: "ContinuationDecisionKind \<Rightarrow> string" where
  "ContinuationDecisionKind_value CDK_CONTINUE_WITH_TOOL_CALLS = ''continue_with_tool_calls''"
| "ContinuationDecisionKind_value CDK_CONTINUE_AFTER_RECOVERABLE_FAILURE = ''continue_after_recoverable_failure''"
| "ContinuationDecisionKind_value CDK_CONTINUE_AFTER_BLOCKED_FINISH = ''continue_after_blocked_finish''"
| "ContinuationDecisionKind_value CDK_STOP_FINISH = ''stop_finish''"
| "ContinuationDecisionKind_value CDK_STOP_NO_TOOL_CALLS = ''stop_no_tool_calls''"
| "ContinuationDecisionKind_value CDK_STOP_MAX_TURNS = ''stop_max_turns''"
| "ContinuationDecisionKind_value CDK_STOP_PARSE_ERROR = ''stop_parse_error''"
| "ContinuationDecisionKind_value CDK_STOP_LLM_ERROR = ''stop_llm_error''"
| "ContinuationDecisionKind_value CDK_STOP_VALIDATION_BUDGET_EXHAUSTED = ''stop_validation_budget_exhausted''"
| "ContinuationDecisionKind_value CDK_STOP_REVISION_BUDGET_EXHAUSTED = ''stop_revision_budget_exhausted''"
| "ContinuationDecisionKind_value CDK_STOP_FINISH_DEFERRAL_BUDGET_EXHAUSTED = ''stop_finish_deferral_budget_exhausted''"

datatype SessionTerminationKind =
    STK_RUNNING
  | STK_COMPLETED
  | STK_MAX_TURNS
  | STK_NO_TOOL_CALLS
  | STK_PARSE_ERROR
  | STK_LLM_ERROR
  | STK_VALIDATION_BUDGET_EXHAUSTED
  | STK_REVISION_BUDGET_EXHAUSTED
  | STK_FINISH_DEFERRAL_BUDGET_EXHAUSTED

fun SessionTerminationKind_value :: "SessionTerminationKind \<Rightarrow> string" where
  "SessionTerminationKind_value STK_RUNNING = ''running''"
| "SessionTerminationKind_value STK_COMPLETED = ''completed''"
| "SessionTerminationKind_value STK_MAX_TURNS = ''max_turns''"
| "SessionTerminationKind_value STK_NO_TOOL_CALLS = ''no_tool_calls''"
| "SessionTerminationKind_value STK_PARSE_ERROR = ''parse_error''"
| "SessionTerminationKind_value STK_LLM_ERROR = ''llm_error''"
| "SessionTerminationKind_value STK_VALIDATION_BUDGET_EXHAUSTED = ''validation_budget_exhausted''"
| "SessionTerminationKind_value STK_REVISION_BUDGET_EXHAUSTED = ''revision_budget_exhausted''"
| "SessionTerminationKind_value STK_FINISH_DEFERRAL_BUDGET_EXHAUSTED = ''finish_deferral_budget_exhausted''"

datatype SessionStopStatus =
    SSS_RUNNING
  | SSS_COMPLETED
  | SSS_FAILED
  | SSS_ERROR

fun SessionStopStatus_value :: "SessionStopStatus \<Rightarrow> string" where
  "SessionStopStatus_value SSS_RUNNING = ''running''"
| "SessionStopStatus_value SSS_COMPLETED = ''completed''"
| "SessionStopStatus_value SSS_FAILED = ''failed''"
| "SessionStopStatus_value SSS_ERROR = ''error''"

subsection \<open>Records\<close>

record ContextSelection =
  cs_policy_mode :: string
  cs_max_messages :: "int option"
  cs_context_max_tokens :: "int option"
  cs_included_message_indices :: "int list"
  cs_omitted_message_count :: int
  cs_compacted_message_count :: int
  cs_first_included_index :: "int option"
  cs_last_included_index :: "int option"
  cs_included_role_counts :: "(string \<times> int) list"
  cs_compaction_applied :: bool
  cs_compaction_reason :: "string option"
  cs_estimated_selected_tokens :: int
  cs_estimated_omitted_tokens :: int
  cs_tool_token_reserve :: int
  cs_response_token_reserve :: int
  cs_token_budget_satisfied :: bool
  cs_token_overflow :: int

record PendingIssueRecord =
  pi_issue_id :: "string option"
  pi_kind :: string
  pi_detail :: string
  pi_opened_at_turn :: int
  pi_last_observed_turn :: int
  pi_cleared_at_turn :: "int option"
  pi_resolution_trigger :: "string option"

record SessionOutcomeRecord =
  so_total_turns :: int
  so_final_status :: "string option"
  so_session_stop_status :: string
  so_session_termination_kind :: string
  so_stop_reason :: string
  so_stop_detail :: string
  so_stop_decision_code :: string

record SessionBudgetSnapshot =
  sb_validation_budget_total :: "int option"
  sb_validation_budget_remaining :: "int option"
  sb_validation_budget_used :: int
  sb_revision_budget_total :: "int option"
  sb_revision_budget_remaining :: "int option"
  sb_revision_budget_used :: int
  sb_finish_deferral_budget_total :: "int option"
  sb_finish_deferral_budget_remaining :: "int option"
  sb_finish_deferral_budget_used :: int

record TurnContinuationRecord =
  tcr_turn_index :: int
  tcr_decision_code :: string
  tcr_continuation_decision_kind :: "string option"
  tcr_termination_kind :: "string option"
  tcr_continue_reason :: "string option"
  tcr_blocked_reason :: "string option"
  tcr_pending_issue_id :: "string option"
  tcr_pending_issue_kind :: "string option"
  tcr_active_validation_issue_id :: "string option"
  tcr_active_validation_issue_kind :: "string option"
  tcr_completion_block_family :: "string option"
  tcr_completion_gate_status :: "string option"
  tcr_expected_next_step :: "string option"
  tcr_completion_evidence_status :: "string option"
  tcr_validation_phase :: "string option"
  tcr_meaningful_progress_observed :: bool
  tcr_recent_failure_kind :: "string option"
  tcr_active_failure_kind :: "string option"
  tcr_corrective_progress_after_failure :: bool
  tcr_post_mutation_validation_pending :: bool
  tcr_finish_blocked_by_policy :: bool
  tcr_finish_gate_reason :: "string option"
  tcr_completion_allowed :: bool
  tcr_model_needs_follow_up :: bool
  tcr_runtime_needs_follow_up :: bool
  tcr_stop_hook_evaluated :: bool
  tcr_stop_hook_blocked :: bool
  tcr_stop_hook_reason :: "string option"
  tcr_stop_hook_reason_code :: string
  tcr_policy_mode :: "string option"

record SummarySlot =
  ss_slot_id :: string
  ss_status :: string
  ss_source_message_indices :: "int list"
  ss_rendered_text :: string
  ss_opened_at_turn :: int
  ss_last_refreshed_turn :: int
  ss_summary_kind :: string

record CarriedForwardState =
  cf_pending_issue_kind :: "string option"
  cf_pending_issue_detail :: string
  cf_completion_evidence_status :: "string option"
  cf_validation_phase :: "string option"
  cf_last_successful_validation_turn :: "int option"
  cf_last_validation_attempt_turn :: "int option"
  cf_last_validation_failure_turn :: "int option"
  cf_last_mutation_turn :: "int option"
  cf_recent_compacted_tool_outcomes :: "pydict list"
  cf_carried_notes :: "string list"

record TurnRangeSummary =
  trs_turn_index :: int
  trs_message_indices :: "int list"
  trs_start_index :: int
  trs_end_index :: int
  trs_tool_names :: "string list"
  trs_tool_call_ids :: "string list"

record CompactionArtifact =
  art_artifact_version :: int
  art_policy_mode :: string
  art_turn_index :: int
  art_pinned_message_indices :: "int list"
  art_compacted_message_indices :: "int list"
  art_retained_message_indices :: "int list"
  art_candidate_turn_ranges :: "TurnRangeSummary list"
  art_summary_slot :: "SummarySlot option"
  art_carried_forward_state :: "CarriedForwardState option"
  art_reason :: string
  art_estimated_tokens_before :: int
  art_estimated_tokens_after :: int
  art_token_budget_target :: "int option"
  art_token_budget_satisfied :: bool
  art_overflow_reason :: "string option"

record CompactionPlanningMetadata =
  pm_compaction_considered :: bool
  pm_consideration_reason :: "string option"
  pm_skip_reason :: "string option"
  pm_trigger_message_overflow :: bool
  pm_trigger_token_overflow :: bool
  pm_pinned_message_indices :: "int list"
  pm_preserved_from_turn :: "int option"
  pm_candidate_turn_indices :: "int list"
  pm_compacted_turn_indices :: "int list"

record RuntimeTurnState =
  ts_turn_index :: int
  ts_message_count_before_turn :: int
  ts_lifecycle_phase :: string
  ts_phases_reached :: "string list"
  ts_request_history_item_count_before_turn :: int
  ts_request_history_item_count_after_snapshot :: int
  ts_context_selection :: ContextSelection
  ts_pending_issue_id_before_turn :: "string option"
  ts_pending_issue_kind_before_turn :: "string option"
  ts_pending_issue_id_after_turn :: "string option"
  ts_pending_issue_kind_after_turn :: "string option"
  ts_active_validation_issue_kind_before_turn :: "string option"
  ts_active_validation_issue_kind_after_turn :: "string option"
  ts_completion_evidence_status_before_turn :: "string option"
  ts_completion_evidence_status_after_turn :: "string option"
  ts_completion_block_family_after_turn :: "string option"
  ts_validation_phase_before_turn :: "string option"
  ts_validation_phase_after_turn :: "string option"
  ts_expected_next_step_before_turn :: "string option"
  ts_expected_next_step_after_turn :: "string option"
  ts_completion_gate_status_before_turn :: "string option"
  ts_completion_gate_status_after_turn :: "string option"
  ts_active_validation_issue_id_before_turn :: "string option"
  ts_active_validation_issue_id_after_turn :: "string option"
  ts_parse_errors :: "string list"
  ts_tool_call_ids :: "string list"
  ts_request_history_item_ids :: "string list"
  ts_request_history_item_kinds :: "string list"
  ts_request_history_source_indices :: "int list"
  ts_requested_tool_call_count :: int
  ts_executed_tool_call_count :: int
  ts_successful_tool_call_count :: int
  ts_turn_action :: "string option"
  ts_turn_outcome :: "string option"
  ts_stop_decision_code :: string
  ts_continuation_decision_kind :: "string option"
  ts_termination_kind :: "string option"
  ts_continue_reason :: "string option"
  ts_model_needs_follow_up :: bool
  ts_runtime_needs_follow_up :: bool
  ts_stop_hook_evaluated :: bool
  ts_stop_hook_blocked :: bool
  ts_stop_hook_reason :: "string option"
  ts_stop_hook_reason_code :: string
  ts_policy_mode :: "string option"
  ts_recent_failure_kind_after_turn :: "string option"
  ts_summary_slot_status_before_turn :: "string option"
  ts_summary_slot_status_after_turn :: "string option"
  ts_carried_forward_state_present_before_turn :: bool
  ts_carried_forward_state_present_after_turn :: bool
  ts_replacement_history_active_before_turn :: bool
  ts_replacement_history_active_after_turn :: bool
  ts_replacement_history_record_id :: "string option"
  ts_compaction_artifact_ref :: "string option"
  ts_validation_attempt_count_after_turn :: int
  ts_revision_attempt_count_after_turn :: int
  ts_finish_deferral_count_after_turn :: int
  ts_context_token_budget :: "int option"
  ts_selected_context_tokens :: int
  ts_token_budget_satisfied :: bool
  ts_token_overflow_reason :: "string option"
  ts_request_built :: bool
  ts_provider_response_received :: bool
  ts_response_interpreted :: bool
  ts_assistant_parse_completed :: bool
  ts_tool_dispatch_entered :: bool
  ts_tool_observation_completed :: bool
  ts_stop_decision_frozen :: bool
  ts_turn_completed :: bool

record RuntimeSessionState =
  st_recovery_state :: rstate
  st_context_policy_mode :: string
  st_context_max_messages :: "int option"
  st_context_max_tokens :: "int option"
  st_tool_token_reserve :: int
  st_response_token_reserve :: int
  st_turn_states :: "RuntimeTurnState list"
  st_active_pending_issue :: "PendingIssueRecord option"
  st_last_cleared_pending_issue :: "PendingIssueRecord option"
  st_resolved_pending_issues :: "PendingIssueRecord list"
  st_summary_slot :: "SummarySlot option"
  st_carried_forward_state :: "CarriedForwardState option"
  st_last_compaction_artifact :: "CompactionArtifact option"
  st_compaction_count :: int
  st_session_stop_status :: string
  st_session_termination_kind :: string
  st_total_turns_started :: int
  st_total_turns_completed :: int
  st_parse_recovery_warning_count :: int
  st_recovered_parse_turn_count :: int
  st_finish_attempt_count :: int
  st_finish_blocked_count :: int
  st_finish_block_reason :: "string option"
  st_finish_gate_reason :: "string option"
  st_blocked_finish_pending_issue_count :: int
  st_blocked_finish_validation_evidence_count :: int
  st_blocked_finish_progress_gate_count :: int
  st_finish_block_reason_counts :: "(string \<times> int) list"
  st_finish_without_progress_count :: int
  st_finish_after_recent_failure_count :: int
  st_unrecovered_failure_turn_count :: int
  st_empty_turn_no_tool_no_content_count :: int
  st_non_finish_tool_call_count :: int
  st_successful_non_finish_tool_call_count :: int
  st_distinct_non_finish_tool_names :: "string list"
  st_saw_mutation_progress :: bool
  st_saw_validation_progress :: bool
  st_recent_failure_kind :: "string option"
  st_recent_failure_turn :: "int option"
  st_observed_failure_buckets :: "string list"
  st_consecutive_no_progress_turns :: int
  st_consecutive_parse_failure_turns :: int
  st_validation_budget_total :: "int option"
  st_validation_budget_remaining :: "int option"
  st_revision_budget_total :: "int option"
  st_revision_budget_remaining :: "int option"
  st_finish_deferral_budget_total :: "int option"
  st_finish_deferral_budget_remaining :: "int option"
  st_budget_snapshot :: "SessionBudgetSnapshot option"
  st_final_status :: "string option"
  st_stop_reason :: string
  st_stop_detail :: string
  st_stop_decision_code :: string
  st_finish_blocked_by_policy :: bool
  st_last_continue_reason :: "string option"
  st_blocked_reason :: "string option"
  st_last_turn_continuation :: "TurnContinuationRecord option"
  st_continuation_ledger :: "TurnContinuationRecord list"
  st_session_outcome :: "SessionOutcomeRecord option"

record ContextSelectionResult =
  sel_selected_messages :: "Message list"
  sel_context_selection :: ContextSelection
  sel_compaction_artifact :: "CompactionArtifact option"
  sel_synthetic_summary_message :: "Message option"
  sel_planning_metadata :: CompactionPlanningMetadata

text \<open>A turn and a session as the runner creates them: every optional field at its default.\<close>

definition new_turn_state :: "int \<Rightarrow> int \<Rightarrow> ContextSelection \<Rightarrow> RuntimeTurnState" where
  "new_turn_state turn_index message_count selection = \<lparr>
     ts_turn_index = turn_index, ts_message_count_before_turn = message_count,
     ts_lifecycle_phase = TurnLifecyclePhase_value TLP_TURN_STARTED, ts_phases_reached = [],
     ts_request_history_item_count_before_turn = 0, ts_request_history_item_count_after_snapshot
     = 0, ts_context_selection = selection, ts_pending_issue_id_before_turn = None,
     ts_pending_issue_kind_before_turn = None, ts_pending_issue_id_after_turn = None,
     ts_pending_issue_kind_after_turn = None, ts_active_validation_issue_kind_before_turn =
     None, ts_active_validation_issue_kind_after_turn = None,
     ts_completion_evidence_status_before_turn = None, ts_completion_evidence_status_after_turn
     = None, ts_completion_block_family_after_turn = None, ts_validation_phase_before_turn =
     None, ts_validation_phase_after_turn = None, ts_expected_next_step_before_turn = None,
     ts_expected_next_step_after_turn = None, ts_completion_gate_status_before_turn = None,
     ts_completion_gate_status_after_turn = None, ts_active_validation_issue_id_before_turn =
     None, ts_active_validation_issue_id_after_turn = None, ts_parse_errors = [],
     ts_tool_call_ids = [], ts_request_history_item_ids = [], ts_request_history_item_kinds =
     [], ts_request_history_source_indices = [], ts_requested_tool_call_count = 0,
     ts_executed_tool_call_count = 0, ts_successful_tool_call_count = 0, ts_turn_action = None,
     ts_turn_outcome = None, ts_stop_decision_code = '''', ts_continuation_decision_kind = None,
     ts_termination_kind = None, ts_continue_reason = None, ts_model_needs_follow_up = False,
     ts_runtime_needs_follow_up = False, ts_stop_hook_evaluated = False, ts_stop_hook_blocked =
     False, ts_stop_hook_reason = None, ts_stop_hook_reason_code = ''none'', ts_policy_mode =
     None, ts_recent_failure_kind_after_turn = None, ts_summary_slot_status_before_turn = None,
     ts_summary_slot_status_after_turn = None, ts_carried_forward_state_present_before_turn =
     False, ts_carried_forward_state_present_after_turn = False,
     ts_replacement_history_active_before_turn = False, ts_replacement_history_active_after_turn
     = False, ts_replacement_history_record_id = None, ts_compaction_artifact_ref = None,
     ts_validation_attempt_count_after_turn = 0, ts_revision_attempt_count_after_turn = 0,
     ts_finish_deferral_count_after_turn = 0, ts_context_token_budget = None,
     ts_selected_context_tokens = 0, ts_token_budget_satisfied = True, ts_token_overflow_reason
     = None, ts_request_built = False, ts_provider_response_received = False,
     ts_response_interpreted = False, ts_assistant_parse_completed = False,
     ts_tool_dispatch_entered = False, ts_tool_observation_completed = False,
     ts_stop_decision_frozen = False, ts_turn_completed = False\<rparr>"

definition new_session_state :: "rstate \<Rightarrow> RuntimeSessionState" where
  "new_session_state recovery = \<lparr>
     st_recovery_state = recovery, st_context_policy_mode = ContextPolicyMode_value
     CPM_FULL_HISTORY, st_context_max_messages = None, st_context_max_tokens = None,
     st_tool_token_reserve = 0, st_response_token_reserve = 0, st_turn_states = [],
     st_active_pending_issue = None, st_last_cleared_pending_issue = None,
     st_resolved_pending_issues = [], st_summary_slot = None, st_carried_forward_state = None,
     st_last_compaction_artifact = None, st_compaction_count = 0, st_session_stop_status =
     SessionStopStatus_value SSS_RUNNING, st_session_termination_kind =
     SessionTerminationKind_value STK_RUNNING, st_total_turns_started = 0,
     st_total_turns_completed = 0, st_parse_recovery_warning_count = 0,
     st_recovered_parse_turn_count = 0, st_finish_attempt_count = 0, st_finish_blocked_count =
     0, st_finish_block_reason = None, st_finish_gate_reason = None,
     st_blocked_finish_pending_issue_count = 0, st_blocked_finish_validation_evidence_count = 0,
     st_blocked_finish_progress_gate_count = 0, st_finish_block_reason_counts = [],
     st_finish_without_progress_count = 0, st_finish_after_recent_failure_count = 0,
     st_unrecovered_failure_turn_count = 0, st_empty_turn_no_tool_no_content_count = 0,
     st_non_finish_tool_call_count = 0, st_successful_non_finish_tool_call_count = 0,
     st_distinct_non_finish_tool_names = [], st_saw_mutation_progress = False,
     st_saw_validation_progress = False, st_recent_failure_kind = None, st_recent_failure_turn =
     None, st_observed_failure_buckets = [], st_consecutive_no_progress_turns = 0,
     st_consecutive_parse_failure_turns = 0, st_validation_budget_total = None,
     st_validation_budget_remaining = None, st_revision_budget_total = None,
     st_revision_budget_remaining = None, st_finish_deferral_budget_total = None,
     st_finish_deferral_budget_remaining = None, st_budget_snapshot = None, st_final_status =
     None, st_stop_reason = '''', st_stop_detail = '''', st_stop_decision_code = '''',
     st_finish_blocked_by_policy = False, st_last_continue_reason = None, st_blocked_reason =
     None, st_last_turn_continuation = None, st_continuation_ledger = [], st_session_outcome =
     None\<rparr>"

end
