(* ===== verification/Turn_State.thy ===== *)
theory Turn_State
  imports Turn_State_Types
begin

section \<open>Turn and session state: the operations\<close>

text \<open>
  The operations of \<open>pycodeagent/agent/turn_state.py\<close> on the turn and the session.  A session
  owns its recovery state; an operation that queries it returns the refreshed one inside the
  session.
\<close>

subsection \<open>Budgets\<close>

abbreviation session_issue :: "RuntimeSessionState \<Rightarrow> ValidationIssueRecord option" where
  "session_issue s \<equiv> current_or_last_validation_issue (st_recovery_state s)"

definition issue_count :: "(ValidationIssueRecord \<Rightarrow> int) \<Rightarrow> RuntimeSessionState \<Rightarrow> int" where
  "issue_count count s = (case session_issue s of None \<Rightarrow> 0 | Some i \<Rightarrow> count i)"

definition build_budget_snapshot :: "RuntimeSessionState \<Rightarrow> SessionBudgetSnapshot" where
  "build_budget_snapshot s =
     \<lparr>sb_validation_budget_total = st_validation_budget_total s,
      sb_validation_budget_remaining = st_validation_budget_remaining s,
      sb_validation_budget_used = issue_count vi_validation_attempt_count s,
      sb_revision_budget_total = st_revision_budget_total s,
      sb_revision_budget_remaining = st_revision_budget_remaining s,
      sb_revision_budget_used = issue_count vi_revision_attempt_count s,
      sb_finish_deferral_budget_total = st_finish_deferral_budget_total s,
      sb_finish_deferral_budget_remaining = st_finish_deferral_budget_remaining s,
      sb_finish_deferral_budget_used = issue_count vi_finish_deferral_count s\<rparr>"

definition remaining_budget :: "int option \<Rightarrow> int \<Rightarrow> int option \<Rightarrow> int option" where
  "remaining_budget cap used old = (case cap of None \<Rightarrow> old | Some n \<Rightarrow> Some (max (n - used) 0))"

definition refresh_budget_snapshots :: "RuntimeSessionState \<Rightarrow> RuntimeSessionState" where
  "refresh_budget_snapshots s =
     (let s1 = s\<lparr>st_validation_budget_remaining :=
                   remaining_budget (st_validation_budget_total s)
                     (issue_count vi_validation_attempt_count s) (st_validation_budget_remaining s)\<rparr>;
          s2 = s1\<lparr>st_revision_budget_remaining :=
                   remaining_budget (st_revision_budget_total s)
                     (issue_count vi_revision_attempt_count s) (st_revision_budget_remaining s)\<rparr>;
          s3 = s2\<lparr>st_finish_deferral_budget_remaining :=
                   remaining_budget (st_finish_deferral_budget_total s)
                     (issue_count vi_finish_deferral_count s) (st_finish_deferral_budget_remaining s)\<rparr>
      in s3\<lparr>st_budget_snapshot := Some (build_budget_snapshot s3)\<rparr>)"

definition initialize_session_budgets :: "RuntimeSessionState \<Rightarrow> RuntimeSessionState" where
  "initialize_session_budgets s =
     (let config = rs_validation_policy_config (st_recovery_state s)
      in refresh_budget_snapshots
           (s\<lparr>st_validation_budget_total := Some (max_validation_attempts_per_issue config),
              st_validation_budget_remaining := Some (max_validation_attempts_per_issue config),
              st_revision_budget_total := Some (max_revision_attempts_per_issue config),
              st_revision_budget_remaining := Some (max_revision_attempts_per_issue config),
              st_finish_deferral_budget_total := Some (max_finish_deferrals_per_issue config),
              st_finish_deferral_budget_remaining := Some (max_finish_deferrals_per_issue config)\<rparr>))"

subsection \<open>Lifecycle of a turn\<close>

definition mark_turn_phase :: "TurnLifecyclePhase enum_arg \<Rightarrow> RuntimeTurnState \<Rightarrow> RuntimeTurnState" where
  "mark_turn_phase phase t =
     (let v = (case phase of Member p \<Rightarrow> TurnLifecyclePhase_value p | Text x \<Rightarrow> x);
          t1 = t\<lparr>ts_lifecycle_phase := v,
                 ts_phases_reached := (if v \<in> set (ts_phases_reached t) then ts_phases_reached t
                                       else ts_phases_reached t @ [v])\<rparr>
      in if v = TurnLifecyclePhase_value TLP_REQUEST_BUILT then t1\<lparr>ts_request_built := True\<rparr>
         else if v = TurnLifecyclePhase_value TLP_PROVIDER_RESPONSE_RECEIVED
         then t1\<lparr>ts_provider_response_received := True\<rparr>
         else if v = TurnLifecyclePhase_value TLP_RESPONSE_INTERPRETED
         then t1\<lparr>ts_response_interpreted := True\<rparr>
         else if v = TurnLifecyclePhase_value TLP_ASSISTANT_PARSED
         then t1\<lparr>ts_assistant_parse_completed := True\<rparr>
         else if v = TurnLifecyclePhase_value TLP_TOOL_DISPATCH
         then t1\<lparr>ts_tool_dispatch_entered := True\<rparr>
         else if v = TurnLifecyclePhase_value TLP_POST_TOOL_OBSERVATION
         then t1\<lparr>ts_tool_observation_completed := True\<rparr>
         else if v = TurnLifecyclePhase_value TLP_STOP_DECIDED
         then t1\<lparr>ts_stop_decision_frozen := True\<rparr>
         else if v = TurnLifecyclePhase_value TLP_TURN_COMPLETED
         then t1\<lparr>ts_turn_completed := True\<rparr>
         else t1)"

definition begin_turn ::
  "RuntimeSessionState \<Rightarrow> RuntimeTurnState \<Rightarrow> RuntimeSessionState \<times> RuntimeTurnState" where
  "begin_turn s t = (s\<lparr>st_total_turns_started := st_total_turns_started s + 1\<rparr>,
     mark_turn_phase (Member TLP_TURN_STARTED) t)"

subsection \<open>Facts about parsing and tools\<close>

definition add_failure_bucket :: "string \<Rightarrow> RuntimeSessionState \<Rightarrow> RuntimeSessionState" where
  "add_failure_bucket bucket s =
     s\<lparr>st_observed_failure_buckets := add_sorted bucket (st_observed_failure_buckets s)\<rparr>"

definition note_parse_diagnostics ::
  "int \<Rightarrow> string \<Rightarrow> int \<Rightarrow> bool \<Rightarrow> RuntimeSessionState \<Rightarrow> RuntimeSessionState" where
  "note_parse_diagnostics warnings status calls content s =
     (let s1 = s\<lparr>st_parse_recovery_warning_count := st_parse_recovery_warning_count s + warnings\<rparr>;
          s2 = (if status = ''recovered''
                then s1\<lparr>st_recovered_parse_turn_count := st_recovered_parse_turn_count s1 + 1\<rparr> else s1);
          s3 = (if calls = 0 \<and> \<not> content
                then add_failure_bucket ''empty_turn_no_tool_no_content''
                  (s2\<lparr>st_empty_turn_no_tool_no_content_count :=
                        st_empty_turn_no_tool_no_content_count s2 + 1\<rparr>)
                else s2)
      in s3\<lparr>st_consecutive_parse_failure_turns :=
              (if status = ''fatal'' then st_consecutive_parse_failure_turns s3 + 1 else 0)\<rparr>)"

definition note_protocol_or_parse_failure ::
  "string \<Rightarrow> int \<Rightarrow> RuntimeSessionState \<Rightarrow> RuntimeSessionState" where
  "note_protocol_or_parse_failure kind turn_index s =
     add_failure_bucket ''protocol_malformed_turn''
       (s\<lparr>st_recent_failure_kind := Some kind, st_recent_failure_turn := Some turn_index\<rparr>)"

definition clearable_failures :: "string set" where
  "clearable_failures = {''parse_error'', ''protocol_error'', ''tool_failure''}"

definition note_tool_execution ::
  "string \<Rightarrow> bool \<Rightarrow> bool \<Rightarrow> string option \<Rightarrow> int \<Rightarrow> RuntimeSessionState \<Rightarrow> RuntimeSessionState" where
  "note_tool_execution canonical_name result_ok is_error error_type turn_index s =
     (if canonical_name = ''finish'' then s
      else let s1 = s\<lparr>st_non_finish_tool_call_count := st_non_finish_tool_call_count s + 1,
                      st_distinct_non_finish_tool_names :=
                        add_sorted canonical_name (st_distinct_non_finish_tool_names s)\<rparr>
      in if result_ok \<and> \<not> is_error then
           let s2 = s1\<lparr>st_successful_non_finish_tool_call_count :=
                         st_successful_non_finish_tool_call_count s1 + 1\<rparr>;
               s3 = (if canonical_name \<in> mutation_tools then s2\<lparr>st_saw_mutation_progress := True\<rparr> else s2);
               s4 = (if canonical_name \<in> validation_tools then s3\<lparr>st_saw_validation_progress := True\<rparr> else s3)
           in if st_recent_failure_kind s4 = Some ''validation_failure'' then
                s4\<lparr>st_recent_failure_kind := None, st_recent_failure_turn := None\<rparr>
              else if st_recent_failure_kind s4 \<in> Some ` clearable_failures then
                s4\<lparr>st_recent_failure_kind := None, st_recent_failure_turn := None\<rparr>
              else s4
         else if error_type = Some ''completion_blocked'' then s1
         else s1\<lparr>st_recent_failure_kind := Some (if canonical_name \<in> validation_tools
                    then ''validation_failure'' else ''tool_failure''),
                 st_recent_failure_turn := Some turn_index\<rparr>)"

definition meaningful_progress_observed :: "RuntimeSessionState \<Rightarrow> bool" where
  "meaningful_progress_observed s =
     (st_non_finish_tool_call_count s > 0 \<and>
      (st_saw_mutation_progress s \<or> st_saw_validation_progress s \<or>
       length (st_distinct_non_finish_tool_names s) > 1))"

definition active_recent_failure_kind :: "int \<Rightarrow> RuntimeSessionState \<Rightarrow> string option" where
  "active_recent_failure_kind current_turn s =
     (case (st_recent_failure_kind s, st_recent_failure_turn s) of
        (Some k, Some t) \<Rightarrow> if current_turn - t > 2 then None else Some k
      | _ \<Rightarrow> None)"

subsection \<open>The pending issue, mirrored into session records\<close>

definition close_pending_issue :: "int \<Rightarrow> string \<Rightarrow> PendingIssueRecord \<Rightarrow> PendingIssueRecord" where
  "close_pending_issue turn_index trigger p =
     p\<lparr>pi_last_observed_turn := turn_index, pi_cleared_at_turn := Some turn_index,
       pi_resolution_trigger := Some trigger\<rparr>"

definition sync_pending_issue_record ::
  "int \<Rightarrow> string \<Rightarrow> RuntimeSessionState \<Rightarrow> RuntimeSessionState" where
  "sync_pending_issue_record turn_index trigger s =
     (let r = st_recovery_state s;
          detail = rs_pending_issue_detail r;
          issue_id = str_or (active_issue_id r) '''';
          active = st_active_pending_issue s;
          resolve = (\<lambda>p why s. let closed = close_pending_issue turn_index why p
             in s\<lparr>st_last_cleared_pending_issue := Some closed,
                  st_resolved_pending_issues := st_resolved_pending_issues s @ [closed]\<rparr>);
          open_new = (\<lambda>kind s. s\<lparr>st_active_pending_issue := Some
             \<lparr>pi_issue_id = (if issue_id = '''' then None else Some issue_id), pi_kind = kind,
              pi_detail = detail, pi_opened_at_turn = turn_index, pi_last_observed_turn = turn_index,
              pi_cleared_at_turn = None, pi_resolution_trigger = None\<rparr>\<rparr>)
      in case map_option PendingIssueKind_value (rs_pending_issue_kind r) of
           None \<Rightarrow>
             (case active of None \<Rightarrow> s
              | Some p \<Rightarrow> (resolve p trigger s)\<lparr>st_active_pending_issue := None\<rparr>)
         | Some kind \<Rightarrow>
             (case active of
                None \<Rightarrow> open_new kind s
              | Some p \<Rightarrow>
                  if pi_kind p = kind then
                    s\<lparr>st_active_pending_issue := Some (p\<lparr>pi_detail := detail,
                       pi_last_observed_turn := turn_index,
                       pi_issue_id := (if issue_id = '''' then pi_issue_id p else Some issue_id)\<rparr>)\<rparr>
                  else open_new kind (resolve p ''replaced_by_pending_issue'' s)))"

subsection \<open>Continuation and termination\<close>

definition derive_continuation_decision_kind :: "StopDecision \<Rightarrow> string" where
  "derive_continuation_decision_kind d =
     (let code = sd_decision_code d in
      if sd_should_stop d then
        if code = ''finish'' then ContinuationDecisionKind_value CDK_STOP_FINISH
        else if code = ''max_turns'' then ContinuationDecisionKind_value CDK_STOP_MAX_TURNS
        else if code = ''no_tool_calls'' then ContinuationDecisionKind_value CDK_STOP_NO_TOOL_CALLS
        else if code = ''parse_error'' then ContinuationDecisionKind_value CDK_STOP_PARSE_ERROR
        else if code = ''llm_error'' then ContinuationDecisionKind_value CDK_STOP_LLM_ERROR
        else if code = ''validation_budget_exhausted''
        then ContinuationDecisionKind_value CDK_STOP_VALIDATION_BUDGET_EXHAUSTED
        else if code = ''revision_budget_exhausted''
        then ContinuationDecisionKind_value CDK_STOP_REVISION_BUDGET_EXHAUSTED
        else if code = ''finish_deferral_budget_exhausted''
        then ContinuationDecisionKind_value CDK_STOP_FINISH_DEFERRAL_BUDGET_EXHAUSTED
        else ''stop_'' @ code
      else if sd_finish_blocked_by_policy d
      then ContinuationDecisionKind_value CDK_CONTINUE_AFTER_BLOCKED_FINISH
      else if code = ''continue_with_tool_calls''
      then ContinuationDecisionKind_value CDK_CONTINUE_WITH_TOOL_CALLS
      else ContinuationDecisionKind_value CDK_CONTINUE_AFTER_RECOVERABLE_FAILURE)"

definition termination_kind_of :: "string \<Rightarrow> SessionTerminationKind option" where
  "termination_kind_of reason =
     (if reason = ''finish'' then Some STK_COMPLETED
      else if reason = ''max_turns'' then Some STK_MAX_TURNS
      else if reason = ''no_tool_calls'' then Some STK_NO_TOOL_CALLS
      else if reason = ''parse_error'' then Some STK_PARSE_ERROR
      else if reason = ''llm_error'' then Some STK_LLM_ERROR
      else if reason = ''validation_budget_exhausted'' then Some STK_VALIDATION_BUDGET_EXHAUSTED
      else if reason = ''revision_budget_exhausted'' then Some STK_REVISION_BUDGET_EXHAUSTED
      else if reason = ''finish_deferral_budget_exhausted''
      then Some STK_FINISH_DEFERRAL_BUDGET_EXHAUSTED
      else None)"

definition derive_termination_kind :: "StopDecision \<Rightarrow> string option" where
  "derive_termination_kind d =
     (if \<not> sd_should_stop d then None
      else Some (case termination_kind_of (sd_decision_code d) of
        Some k \<Rightarrow> SessionTerminationKind_value k
      | None \<Rightarrow> SessionTerminationKind_value STK_RUNNING))"

definition termination_kind_from_stop_reason :: "string \<Rightarrow> string \<Rightarrow> string" where
  "termination_kind_from_stop_reason stop_reason stop_decision_code =
     (case termination_kind_of stop_reason of
        Some k \<Rightarrow> SessionTerminationKind_value k
      | None \<Rightarrow>
          if stop_decision_code = ''llm_error'' then SessionTerminationKind_value STK_LLM_ERROR
          else SessionTerminationKind_value STK_RUNNING)"

definition session_stop_status_from_final_status :: "string option \<Rightarrow> string" where
  "session_stop_status_from_final_status final_status =
     (if final_status = Some ''completed'' then SessionStopStatus_value SSS_COMPLETED
      else if final_status = Some ''error'' then SessionStopStatus_value SSS_ERROR
      else if str_or final_status '''' \<noteq> '''' then SessionStopStatus_value SSS_FAILED
      else SessionStopStatus_value SSS_RUNNING)"

definition build_turn_continuation_record ::
  "StopDecision \<Rightarrow> int \<Rightarrow> RuntimeSessionState \<Rightarrow> TurnContinuationRecord" where
  "build_turn_continuation_record d turn_index s =
     \<lparr>tcr_turn_index = turn_index, tcr_decision_code = sd_decision_code d,
      tcr_continuation_decision_kind = Some (derive_continuation_decision_kind d),
      tcr_termination_kind = derive_termination_kind d,
      tcr_continue_reason = sd_continue_reason d, tcr_blocked_reason = sd_finish_block_reason d,
      tcr_pending_issue_id = Option.bind (st_active_pending_issue s) pi_issue_id,
      tcr_pending_issue_kind = sd_pending_issue_kind d,
      tcr_active_validation_issue_id = sd_active_validation_issue_id d,
      tcr_active_validation_issue_kind = sd_active_validation_issue_kind d,
      tcr_completion_block_family = Some (sd_completion_block_family d),
      tcr_completion_gate_status = sd_completion_gate_status d,
      tcr_expected_next_step = sd_expected_next_step d,
      tcr_completion_evidence_status = sd_completion_evidence_status d,
      tcr_validation_phase = sd_validation_phase d,
      tcr_meaningful_progress_observed = sd_meaningful_progress_observed d,
      tcr_recent_failure_kind = sd_recent_failure_kind d,
      tcr_active_failure_kind = sd_active_failure_kind d,
      tcr_corrective_progress_after_failure = sd_corrective_progress_after_failure d,
      tcr_post_mutation_validation_pending = sd_post_mutation_validation_pending d,
      tcr_finish_blocked_by_policy = sd_finish_blocked_by_policy d,
      tcr_finish_gate_reason = sd_finish_gate_reason d,
      tcr_completion_allowed = sd_completion_allowed d,
      tcr_model_needs_follow_up = sd_model_needs_follow_up d,
      tcr_runtime_needs_follow_up = sd_runtime_needs_follow_up d,
      tcr_stop_hook_evaluated = sd_stop_hook_evaluated d,
      tcr_stop_hook_blocked = sd_stop_hook_blocked d,
      tcr_stop_hook_reason = sd_stop_hook_reason d,
      tcr_stop_hook_reason_code = str_or (Some (sd_stop_hook_reason_code d)) ''none'',
      tcr_policy_mode = Some (sd_policy_mode d)\<rparr>"

text \<open>The parts of \<open>note_stop_decision\<close>: a finish the policy blocked, and what an attempt shows.\<close>

definition note_blocked_finish :: "StopDecision \<Rightarrow> RuntimeSessionState \<Rightarrow> RuntimeSessionState" where
  "note_blocked_finish d s =
     (let family = str_or (Some (sd_completion_block_family d)) ''none'';
          reason = str_or (sd_finish_block_reason d) '''';
          u = s\<lparr>st_finish_blocked_count := st_finish_blocked_count s + 1,
                st_finish_block_reason := sd_finish_block_reason d,
                st_finish_gate_reason := sd_finish_gate_reason d\<rparr>;
          v = (if reason = '''' then u
               else add_failure_bucket reason
                 (u\<lparr>st_finish_block_reason_counts :=
                      dict_count reason (st_finish_block_reason_counts u)\<rparr>))
      in if family = ''pending_issue'' then
           v\<lparr>st_blocked_finish_pending_issue_count := st_blocked_finish_pending_issue_count v + 1\<rparr>
         else if family = ''validation_evidence'' then
           v\<lparr>st_blocked_finish_validation_evidence_count :=
               st_blocked_finish_validation_evidence_count v + 1\<rparr>
         else if family = ''progress_gate'' then
           v\<lparr>st_blocked_finish_progress_gate_count := st_blocked_finish_progress_gate_count v + 1\<rparr>
         else v)"

definition note_finish_attempt :: "StopDecision \<Rightarrow> RuntimeSessionState \<Rightarrow> RuntimeSessionState" where
  "note_finish_attempt d s =
     (let s1 = (if \<not> sd_meaningful_progress_observed d
                then add_failure_bucket ''finish_without_progress''
                  (s\<lparr>st_finish_without_progress_count := st_finish_without_progress_count s + 1\<rparr>)
                else s)
      in if sd_recent_failure_kind d \<noteq> None
         then add_failure_bucket ''finish_after_recent_failure''
           (s1\<lparr>st_finish_after_recent_failure_count := st_finish_after_recent_failure_count s1 + 1\<rparr>)
         else s1)"

definition append_continuation :: "StopDecision \<Rightarrow> int \<Rightarrow> RuntimeSessionState \<Rightarrow> RuntimeSessionState" where
  "append_continuation d turn_index s =
     (let rec = build_turn_continuation_record d turn_index s
      in s\<lparr>st_last_turn_continuation := Some rec,
           st_continuation_ledger := st_continuation_ledger s @ [rec],
           st_last_continue_reason := sd_continue_reason d,
           st_finish_blocked_by_policy := sd_finish_blocked_by_policy d,
           st_blocked_reason := tcr_blocked_reason rec\<rparr>)"

definition note_decision_counters :: "StopDecision \<Rightarrow> RuntimeSessionState \<Rightarrow> RuntimeSessionState" where
  "note_decision_counters d s =
     s\<lparr>st_consecutive_no_progress_turns :=
         (if sd_meaningful_progress_observed d then 0 else st_consecutive_no_progress_turns s + 1),
       st_unrecovered_failure_turn_count :=
         (if str_or (Some (sd_completion_block_family d)) ''none''
               \<in> {''pending_issue'', ''progress_gate''} \<and>
             (sd_active_failure_kind d \<noteq> None \<or> sd_pending_issue_kind d \<noteq> None)
          then st_unrecovered_failure_turn_count s + 1
          else st_unrecovered_failure_turn_count s)\<rparr>"

definition note_stop_decision :: "StopDecision \<Rightarrow> int \<Rightarrow> RuntimeSessionState \<Rightarrow> RuntimeSessionState" where
  "note_stop_decision d turn_index s =
     (let s1 = append_continuation d turn_index s;
          s2 = (if sd_finish_attempted d
                then s1\<lparr>st_finish_attempt_count := st_finish_attempt_count s1 + 1\<rparr> else s1);
          s3 = (if sd_finish_blocked_by_policy d then note_blocked_finish d s2 else s2);
          s4 = (if sd_finish_attempted d then note_finish_attempt d s3 else s3)
      in refresh_budget_snapshots (note_decision_counters d s4))"

subsection \<open>Closing a turn and a session\<close>

definition finalize_turn :: "RuntimeTurnState \<Rightarrow> RuntimeSessionState \<Rightarrow> RuntimeSessionState" where
  "finalize_turn t s =
     (let s1 = s\<lparr>st_turn_states := st_turn_states s @ [mark_turn_phase (Member TLP_TURN_COMPLETED) t]\<rparr>
      in s1\<lparr>st_total_turns_completed := int (length (st_turn_states s1))\<rparr>)"

definition finalize_session ::
  "int \<Rightarrow> string option \<Rightarrow> string \<Rightarrow> string \<Rightarrow> string \<Rightarrow> RuntimeSessionState \<Rightarrow> RuntimeSessionState" where
  "finalize_session total_turns final_status stop_reason stop_detail stop_decision_code s =
     (let s1 = refresh_budget_snapshots
           (s\<lparr>st_total_turns_completed := max (st_total_turns_completed s) total_turns,
              st_final_status := final_status, st_stop_reason := stop_reason,
              st_stop_detail := stop_detail, st_stop_decision_code := stop_decision_code,
              st_session_termination_kind :=
                termination_kind_from_stop_reason stop_reason stop_decision_code,
              st_session_stop_status := session_stop_status_from_final_status final_status\<rparr>)
      in s1\<lparr>st_session_outcome := Some
           \<lparr>so_total_turns = st_total_turns_completed s1, so_final_status = st_final_status s1,
            so_session_stop_status = st_session_stop_status s1,
            so_session_termination_kind = st_session_termination_kind s1,
            so_stop_reason = st_stop_reason s1, so_stop_detail = st_stop_detail s1,
            so_stop_decision_code = st_stop_decision_code s1\<rparr>\<rparr>)"

subsection \<open>The summary of a session\<close>

definition count_nonempty_values :: "string option list \<Rightarrow> (string \<times> int) list" where
  "count_nonempty_values xs =
     sort_key fst (fold (\<lambda>x counts. let v = py_strip (str_or x '''')
       in if v = '''' then counts else dict_count v counts) xs [])"

definition json_counts :: "(string \<times> int) list \<Rightarrow> json" where
  "json_counts counts = JObj (map (\<lambda>(k, n). (k, JInt n)) counts)"

definition opt_int :: "int option \<Rightarrow> json" where
  "opt_int x = (case x of None \<Rightarrow> JNull | Some n \<Rightarrow> JInt n)"

definition SessionOutcomeRecord_dump :: "SessionOutcomeRecord \<Rightarrow> json" where
  "SessionOutcomeRecord_dump o' = JObj
     [(''total_turns'', JInt (so_total_turns o')), (''final_status'', opt_str (so_final_status o')),
      (''session_stop_status'', JStr (so_session_stop_status o')),
      (''session_termination_kind'', JStr (so_session_termination_kind o')),
      (''stop_reason'', JStr (so_stop_reason o')), (''stop_detail'', JStr (so_stop_detail o')),
      (''stop_decision_code'', JStr (so_stop_decision_code o'))]"

definition SessionBudgetSnapshot_dump :: "SessionBudgetSnapshot \<Rightarrow> json" where
  "SessionBudgetSnapshot_dump b = JObj
     [(''validation_budget_total'', opt_int (sb_validation_budget_total b)),
      (''validation_budget_remaining'', opt_int (sb_validation_budget_remaining b)),
      (''validation_budget_used'', JInt (sb_validation_budget_used b)),
      (''revision_budget_total'', opt_int (sb_revision_budget_total b)),
      (''revision_budget_remaining'', opt_int (sb_revision_budget_remaining b)),
      (''revision_budget_used'', JInt (sb_revision_budget_used b)),
      (''finish_deferral_budget_total'', opt_int (sb_finish_deferral_budget_total b)),
      (''finish_deferral_budget_remaining'', opt_int (sb_finish_deferral_budget_remaining b)),
      (''finish_deferral_budget_used'', JInt (sb_finish_deferral_budget_used b))]"

definition TurnContinuationRecord_dump :: "TurnContinuationRecord \<Rightarrow> json" where
  "TurnContinuationRecord_dump c = JObj
     [(''turn_index'', JInt (tcr_turn_index c)),
      (''decision_code'', JStr (tcr_decision_code c)),
      (''continuation_decision_kind'', opt_str (tcr_continuation_decision_kind c)),
      (''termination_kind'', opt_str (tcr_termination_kind c)),
      (''continue_reason'', opt_str (tcr_continue_reason c)),
      (''blocked_reason'', opt_str (tcr_blocked_reason c)),
      (''pending_issue_id'', opt_str (tcr_pending_issue_id c)),
      (''pending_issue_kind'', opt_str (tcr_pending_issue_kind c)),
      (''active_validation_issue_id'', opt_str (tcr_active_validation_issue_id c)),
      (''active_validation_issue_kind'', opt_str (tcr_active_validation_issue_kind c)),
      (''completion_block_family'', opt_str (tcr_completion_block_family c)),
      (''completion_gate_status'', opt_str (tcr_completion_gate_status c)),
      (''expected_next_step'', opt_str (tcr_expected_next_step c)),
      (''completion_evidence_status'', opt_str (tcr_completion_evidence_status c)),
      (''validation_phase'', opt_str (tcr_validation_phase c)),
      (''meaningful_progress_observed'', JBool (tcr_meaningful_progress_observed c)),
      (''recent_failure_kind'', opt_str (tcr_recent_failure_kind c)),
      (''active_failure_kind'', opt_str (tcr_active_failure_kind c)),
      (''corrective_progress_after_failure'', JBool (tcr_corrective_progress_after_failure c)),
      (''post_mutation_validation_pending'', JBool (tcr_post_mutation_validation_pending c)),
      (''finish_blocked_by_policy'', JBool (tcr_finish_blocked_by_policy c)),
      (''finish_gate_reason'', opt_str (tcr_finish_gate_reason c)),
      (''completion_allowed'', JBool (tcr_completion_allowed c)),
      (''model_needs_follow_up'', JBool (tcr_model_needs_follow_up c)),
      (''runtime_needs_follow_up'', JBool (tcr_runtime_needs_follow_up c)),
      (''stop_hook_evaluated'', JBool (tcr_stop_hook_evaluated c)),
      (''stop_hook_blocked'', JBool (tcr_stop_hook_blocked c)),
      (''stop_hook_reason'', opt_str (tcr_stop_hook_reason c)),
      (''stop_hook_reason_code'', JStr (tcr_stop_hook_reason_code c)),
      (''policy_mode'', opt_str (tcr_policy_mode c))]"

definition extract_runtime_session_summary ::
  "int \<Rightarrow> RuntimeSessionState \<Rightarrow> pydict \<times> RuntimeSessionState" where
  "extract_runtime_session_summary total_turns s =
     (let r = st_recovery_state s;
          issue = session_issue s;
          (phase, r1) = refresh_validation_phase r;
          (step, r2) = expected_next_step r1;
          (gate, r3) = completion_gate_status r2;
          count = (\<lambda>f. JInt (case issue of None \<Rightarrow> 0 | Some i \<Rightarrow> f i))
      in ([(''total_turns'', JInt total_turns), (''final_status'', opt_str (st_final_status s)),
           (''session_stop_status'', JStr (st_session_stop_status s)),
           (''session_termination_kind'', JStr (st_session_termination_kind s)),
           (''stop_detail'', JStr (st_stop_detail s)), (''stop_reason'', JStr (st_stop_reason s)),
           (''stop_decision_code'', JStr (str_or (Some (st_stop_decision_code s)) ''max_turns'')),
           (''parse_errors'', JInt (rs_parse_error_count r)),
           (''parse_recovery_warnings'', JInt (st_parse_recovery_warning_count s)),
           (''recovered_parse_turns'', JInt (st_recovered_parse_turn_count s)),
           (''pending_issue_kind'', opt_str (map_option PendingIssueKind_value (rs_pending_issue_kind r))),
           (''pending_issue_cleared'', JBool (rs_pending_issue_cleared r)),
           (''last_cleared_issue_kind'',
              opt_str (map_option PendingIssueKind_value (rs_last_cleared_issue_kind r))),
           (''completion_evidence_status'',
              JStr (CompletionEvidenceStatus_value (rs_completion_evidence_status r))),
           (''completion_block_family'', case st_last_turn_continuation s of None \<Rightarrow> JStr ''none''
              | Some c \<Rightarrow> opt_str (tcr_completion_block_family c)),
           (''validation_phase'', JStr (ValidationPhase_value phase)),
           (''expected_next_step'', JStr (ExpectedNextStep_value step)),
           (''completion_gate_status'', JStr (CompletionGateStatus_value gate)),
           (''active_validation_issue_kind'', opt_str (active_validation_issue_kind r3)),
           (''active_validation_issue_id'', opt_str (active_issue_id r3)),
           (''active_failure_kind'', opt_str (rs_active_failure_kind r3)),
           (''active_failure_turn'', opt_int (rs_active_failure_turn r3)),
           (''corrective_progress_after_failure'', JBool (rs_corrective_progress_after_failure r3)),
           (''post_mutation_validation_pending'', JBool (rs_post_mutation_validation_pending r3)),
           (''validation_required_for_completion'', JBool (rs_validation_required_for_completion r3)),
           (''finish_blocked_by_policy'', JBool (st_finish_blocked_by_policy s)),
           (''finish_attempt_count'', JInt (st_finish_attempt_count s)),
           (''finish_blocked_count'', JInt (st_finish_blocked_count s)),
           (''finish_block_reason'', opt_str (st_finish_block_reason s)),
           (''finish_gate_reason'', opt_str (st_finish_gate_reason s)),
           (''blocked_finish_pending_issue_count'', JInt (st_blocked_finish_pending_issue_count s)),
           (''blocked_finish_validation_evidence_count'',
              JInt (st_blocked_finish_validation_evidence_count s)),
           (''blocked_finish_progress_gate_count'', JInt (st_blocked_finish_progress_gate_count s)),
           (''finish_block_reason_counts'', json_counts (sort_key fst (st_finish_block_reason_counts s))),
           (''finish_without_progress_count'', JInt (st_finish_without_progress_count s)),
           (''finish_after_recent_failure_count'', JInt (st_finish_after_recent_failure_count s)),
           (''unrecovered_failure_turn_count'', JInt (st_unrecovered_failure_turn_count s)),
           (''empty_turn_no_tool_no_content_count'', JInt (st_empty_turn_no_tool_no_content_count s)),
           (''meaningful_progress_observed'', JBool (meaningful_progress_observed s)),
           (''observed_failure_buckets'', JList (map JStr (sort (st_observed_failure_buckets s)))),
           (''last_successful_validation_turn'', opt_int (rs_last_successful_validation_turn r3)),
           (''last_validation_attempt_turn'', opt_int (rs_last_validation_attempt_turn r3)),
           (''last_validation_failure_turn'', opt_int (rs_last_validation_failure_turn r3)),
           (''last_mutation_turn'', opt_int (rs_last_mutation_turn r3)),
           (''validation_failure_count'', JInt (rs_validation_failure_count r3)),
           (''validation_attempt_count'', count vi_validation_attempt_count),
           (''revision_attempt_count'', count vi_revision_attempt_count),
           (''finish_deferral_count'', count vi_finish_deferral_count),
           (''validation_budget_remaining'', opt_int (st_validation_budget_remaining s)),
           (''revision_budget_remaining'', opt_int (st_revision_budget_remaining s)),
           (''finish_deferral_budget_remaining'', opt_int (st_finish_deferral_budget_remaining s)),
           (''resolved_pending_issue_count'', JInt (int (length (st_resolved_pending_issues s)))),
           (''continuation_decision_counts'', json_counts
              (count_nonempty_values (map ts_continuation_decision_kind (st_turn_states s)))),
           (''turn_action_counts'', json_counts (count_nonempty_values (map ts_turn_action (st_turn_states s)))),
           (''turn_outcome_counts'', json_counts (count_nonempty_values (map ts_turn_outcome (st_turn_states s)))),
           (''session_outcome'', case st_session_outcome s of None \<Rightarrow> JNull
              | Some o' \<Rightarrow> SessionOutcomeRecord_dump o'),
           (''budget_snapshot'', case st_budget_snapshot s of None \<Rightarrow> JNull
              | Some b \<Rightarrow> SessionBudgetSnapshot_dump b),
           (''last_turn_continuation'', case st_last_turn_continuation s of None \<Rightarrow> JNull
              | Some c \<Rightarrow> TurnContinuationRecord_dump c)],
          s\<lparr>st_recovery_state := r3\<rparr>))"

definition build_session_metadata ::
  "int \<Rightarrow> RuntimeSessionState \<Rightarrow> pydict \<times> RuntimeSessionState" where
  "build_session_metadata total_turns s = extract_runtime_session_summary total_turns s"

subsection \<open>Token estimates\<close>

definition estimate_message_tokens :: "Message \<Rightarrow> int" where
  "estimate_message_tokens m =
     (let parts = [Role_value (msg_role m), msg_content m]
            @ (if msg_tool_calls m = [] then []
               else [json_dumps (JList (map (JObj \<circ> ToolCall_model_dump) (msg_tool_calls m)))])
            @ (case msg_tool_call_id m of Some i \<Rightarrow> if i = '''' then [] else [i] | None \<Rightarrow> [])
            @ (case msg_tool_name m of Some n \<Rightarrow> if n = '''' then [] else [n] | None \<Rightarrow> [])
      in max 1 (\<lceil>of_nat (utf8_length (py_join '' '' parts)) / (4 :: rat)\<rceil>))"

definition estimate_messages_tokens :: "Message list \<Rightarrow> int" where
  "estimate_messages_tokens ms = sum_list (map estimate_message_tokens ms)"

end
