(* ===== verification/Turn_State_Properties.thy ===== *)
theory Turn_State_Properties
  imports Turn_State Stopping_Properties
begin

section \<open>Turn and session state: the laws\<close>

text \<open>
  The phases of a turn, the mirrored pending issue, the progress counters, the budgets and the
  ledger of a session: an invariant for each, kept by every operation the runner calls, and the
  agreement of the turn taxonomy, the session taxonomy and the decisions of \<open>should_stop\<close>.
\<close>

subsection \<open>The phases of a turn\<close>

fun phase_flag :: "TurnLifecyclePhase \<Rightarrow> RuntimeTurnState \<Rightarrow> bool option" where
  "phase_flag TLP_TURN_STARTED t = None"
| "phase_flag TLP_REQUEST_BUILT t = Some (ts_request_built t)"
| "phase_flag TLP_PROVIDER_RESPONSE_RECEIVED t = Some (ts_provider_response_received t)"
| "phase_flag TLP_RESPONSE_INTERPRETED t = Some (ts_response_interpreted t)"
| "phase_flag TLP_ASSISTANT_PARSED t = Some (ts_assistant_parse_completed t)"
| "phase_flag TLP_TOOL_DISPATCH t = Some (ts_tool_dispatch_entered t)"
| "phase_flag TLP_POST_TOOL_OBSERVATION t = Some (ts_tool_observation_completed t)"
| "phase_flag TLP_STOP_DECIDED t = Some (ts_stop_decision_frozen t)"
| "phase_flag TLP_TURN_COMPLETED t = Some (ts_turn_completed t)"

text \<open>The order in which values first occur.\<close>

definition first_occurrences :: "'a list \<Rightarrow> 'a list" where
  "first_occurrences xs = rev (remdups (rev xs))"

lemma first_occurrences_snoc [simp]:
  "first_occurrences (xs @ [x]) =
     (if x \<in> set xs then first_occurrences xs else first_occurrences xs @ [x])"
  by (simp add: first_occurrences_def)

lemma set_first_occurrences [simp]: "set (first_occurrences xs) = set xs"
  by (simp add: first_occurrences_def)

lemma first_occurrences_Nil [simp]: "first_occurrences [] = []"
  by (simp add: first_occurrences_def)

definition phase_text :: "TurnLifecyclePhase enum_arg \<Rightarrow> string" where
  "phase_text p = (case p of Member q \<Rightarrow> TurnLifecyclePhase_value q | Text x \<Rightarrow> x)"

lemma mark_turn_phase_phases:
  "ts_phases_reached (mark_turn_phase p t) =
     (if phase_text p \<in> set (ts_phases_reached t) then ts_phases_reached t
      else ts_phases_reached t @ [phase_text p])"
  "ts_lifecycle_phase (mark_turn_phase p t) = phase_text p"
  by (simp_all add: mark_turn_phase_def Let_def phase_text_def)

lemma mark_turn_phase_flag:
  "phase_flag q (mark_turn_phase p t) =
     map_option (\<lambda>b. b \<or> TurnLifecyclePhase_value q = phase_text p) (phase_flag q t)"
  by (cases q) (auto simp: mark_turn_phase_def Let_def phase_text_def)

lemmas mark_flags =
  mark_turn_phase_flag [where q = TLP_REQUEST_BUILT, simplified]
  mark_turn_phase_flag [where q = TLP_PROVIDER_RESPONSE_RECEIVED, simplified]
  mark_turn_phase_flag [where q = TLP_RESPONSE_INTERPRETED, simplified]
  mark_turn_phase_flag [where q = TLP_ASSISTANT_PARSED, simplified]
  mark_turn_phase_flag [where q = TLP_TOOL_DISPATCH, simplified]
  mark_turn_phase_flag [where q = TLP_POST_TOOL_OBSERVATION, simplified]
  mark_turn_phase_flag [where q = TLP_STOP_DECIDED, simplified]
  mark_turn_phase_flag [where q = TLP_TURN_COMPLETED, simplified]

text \<open>However the phases of a turn are marked, the phases it lists are the marked ones in the
  order of their first mark, its current phase is the last mark, and each phase flag is set
  exactly when its phase was marked.\<close>

theorem turn_phases_run:
  "let t = run_events mark_turn_phase ps (new_turn_state i n sel); marks = map phase_text ps
   in ts_phases_reached t = first_occurrences marks \<and>
      ts_lifecycle_phase t = (if ps = [] then ''turn_started'' else last marks) \<and>
      map (\<lambda>q. phase_flag q t) [TLP_REQUEST_BUILT, TLP_PROVIDER_RESPONSE_RECEIVED,
          TLP_RESPONSE_INTERPRETED, TLP_ASSISTANT_PARSED, TLP_TOOL_DISPATCH,
          TLP_POST_TOOL_OBSERVATION, TLP_STOP_DECIDED, TLP_TURN_COMPLETED] =
        map (\<lambda>v. Some (v \<in> set marks))
          [''request_built'', ''provider_response_received'', ''response_interpreted'',
           ''assistant_parsed'', ''tool_dispatch'', ''post_tool_observation'', ''stop_decided'',
           ''turn_completed'']"
proof (induction ps rule: rev_induct)
  case Nil
  show ?case by (simp add: new_turn_state_def)
next
  case (snoc p ps)
  then show ?case
    by (simp add: Let_def mark_turn_phase_phases mark_flags disj_commute)
qed

subsection \<open>The events of a session\<close>

datatype session_event =
    SRecovery recovery_event
  | SBeginTurn RuntimeTurnState
  | SParse int string int bool
  | SProtocolFailure string int
  | STool string bool bool "string option" int
  | SSync int string
  | SDecision StopDecision int
  | SFinalizeTurn RuntimeTurnState
  | SFinalize int "string option" string string string

fun session_step :: "session_event \<Rightarrow> RuntimeSessionState \<Rightarrow> RuntimeSessionState" where
  "session_step (SRecovery e) s = s\<lparr>st_recovery_state := recovery_step e (st_recovery_state s)\<rparr>"
| "session_step (SBeginTurn t) s = fst (begin_turn s t)"
| "session_step (SParse w st n b) s = note_parse_diagnostics w st n b s"
| "session_step (SProtocolFailure k t) s = note_protocol_or_parse_failure k t s"
| "session_step (STool c r e x t) s = note_tool_execution c r e x t s"
| "session_step (SSync t w) s = sync_pending_issue_record t w s"
| "session_step (SDecision d t) s = note_stop_decision d t s"
| "session_step (SFinalizeTurn t) s = finalize_turn t s"
| "session_step (SFinalize n f r x c) s = finalize_session n f r x c s"

text \<open>Updates that an invariant part does not look at, by the fields each operation writes.\<close>

lemma refresh_budget_frame [simp]:
  "st_recovery_state (refresh_budget_snapshots s) = st_recovery_state s"
  "st_turn_states (refresh_budget_snapshots s) = st_turn_states s"
  "st_active_pending_issue (refresh_budget_snapshots s) = st_active_pending_issue s"
  "st_last_cleared_pending_issue (refresh_budget_snapshots s) = st_last_cleared_pending_issue s"
  "st_resolved_pending_issues (refresh_budget_snapshots s) = st_resolved_pending_issues s"
  "st_non_finish_tool_call_count (refresh_budget_snapshots s) = st_non_finish_tool_call_count s"
  "st_successful_non_finish_tool_call_count (refresh_budget_snapshots s) =
     st_successful_non_finish_tool_call_count s"
  "st_distinct_non_finish_tool_names (refresh_budget_snapshots s) =
     st_distinct_non_finish_tool_names s"
  "st_saw_mutation_progress (refresh_budget_snapshots s) = st_saw_mutation_progress s"
  "st_saw_validation_progress (refresh_budget_snapshots s) = st_saw_validation_progress s"
  "st_recent_failure_kind (refresh_budget_snapshots s) = st_recent_failure_kind s"
  "st_recent_failure_turn (refresh_budget_snapshots s) = st_recent_failure_turn s"
  "st_observed_failure_buckets (refresh_budget_snapshots s) = st_observed_failure_buckets s"
  "st_continuation_ledger (refresh_budget_snapshots s) = st_continuation_ledger s"
  "st_last_turn_continuation (refresh_budget_snapshots s) = st_last_turn_continuation s"
  "st_finish_blocked_count (refresh_budget_snapshots s) = st_finish_blocked_count s"
  "st_finish_block_reason_counts (refresh_budget_snapshots s) = st_finish_block_reason_counts s"
  "st_blocked_finish_pending_issue_count (refresh_budget_snapshots s) =
     st_blocked_finish_pending_issue_count s"
  "st_blocked_finish_validation_evidence_count (refresh_budget_snapshots s) =
     st_blocked_finish_validation_evidence_count s"
  "st_blocked_finish_progress_gate_count (refresh_budget_snapshots s) =
     st_blocked_finish_progress_gate_count s"
  by (simp_all add: refresh_budget_snapshots_def Let_def)

subsection \<open>Progress\<close>

definition progress_inv :: "RuntimeSessionState \<Rightarrow> bool" where
  "progress_inv s \<longleftrightarrow>
     0 \<le> st_successful_non_finish_tool_call_count s \<and>
     st_successful_non_finish_tool_call_count s \<le> st_non_finish_tool_call_count s \<and>
     sorted (st_distinct_non_finish_tool_names s) \<and> distinct (st_distinct_non_finish_tool_names s) \<and>
     ''finish'' \<notin> set (st_distinct_non_finish_tool_names s) \<and>
     int (length (st_distinct_non_finish_tool_names s)) \<le> st_non_finish_tool_call_count s \<and>
     (st_non_finish_tool_call_count s = 0 \<longleftrightarrow> st_distinct_non_finish_tool_names s = []) \<and>
     (st_saw_mutation_progress s \<longrightarrow> set (st_distinct_non_finish_tool_names s) \<inter> mutation_tools \<noteq> {}) \<and>
     (st_saw_validation_progress s \<longrightarrow>
        set (st_distinct_non_finish_tool_names s) \<inter> validation_tools \<noteq> {}) \<and>
     (st_recent_failure_kind s = None \<longleftrightarrow> st_recent_failure_turn s = None) \<and>
     sorted (st_observed_failure_buckets s) \<and> distinct (st_observed_failure_buckets s)"

lemma length_add_sorted:
  "length (add_sorted x xs) = (if x \<in> set xs then length xs else Suc (length xs))"
  by (simp add: add_sorted_def)

lemma add_sorted_ne [simp]: "add_sorted x xs \<noteq> []"
  by (metis set_add_sorted insert_not_empty list.set(1))

lemma progress_inv_bucket [simp]: "progress_inv s \<Longrightarrow> progress_inv (add_failure_bucket b s)"
  by (simp add: progress_inv_def add_failure_bucket_def distinct_add_sorted sorted_add_sorted)

lemma note_tool_execution_progress:
  assumes "progress_inv s"
  shows "progress_inv (note_tool_execution c r e x t s)"
proof (cases "c = ''finish''")
  case False
  with assms show ?thesis
    by (auto simp: note_tool_execution_def Let_def progress_inv_def length_add_sorted)
qed (use assms in \<open>simp add: note_tool_execution_def\<close>)

subsection \<open>The pending issue\<close>

text \<open>
  The active record is open, every resolved record is closed, the last cleared record is the
  last resolved one, and every record has the kind of a pending issue.
\<close>

definition record_open :: "PendingIssueRecord \<Rightarrow> bool" where
  "record_open p \<longleftrightarrow> pi_cleared_at_turn p = None \<and> pi_resolution_trigger p = None \<and>
     pi_kind p \<in> range PendingIssueKind_value"

definition record_closed :: "PendingIssueRecord \<Rightarrow> bool" where
  "record_closed p \<longleftrightarrow> pi_cleared_at_turn p = Some (pi_last_observed_turn p) \<and>
     pi_resolution_trigger p \<noteq> None \<and> pi_kind p \<in> range PendingIssueKind_value"

definition pending_records_inv :: "RuntimeSessionState \<Rightarrow> bool" where
  "pending_records_inv s \<longleftrightarrow>
     pred_option record_open (st_active_pending_issue s) \<and>
     list_all record_closed (st_resolved_pending_issues s) \<and>
     st_last_cleared_pending_issue s =
       (if st_resolved_pending_issues s = [] then None else Some (last (st_resolved_pending_issues s)))"

lemma record_closed_close:
  "record_open p \<Longrightarrow> record_closed (close_pending_issue t w p)"
  by (simp add: record_open_def record_closed_def close_pending_issue_def)

lemma sync_pending_issue_inv:
  assumes "pending_records_inv s"
  shows "pending_records_inv (sync_pending_issue_record t w s)"
  using assms
  by (cases "st_active_pending_issue s"; cases "rs_pending_issue_kind (st_recovery_state s)")
    (auto simp: sync_pending_issue_record_def Let_def pending_records_inv_def record_closed_close
      record_open_def)

lemma sync_mirrors:
  "map_option pi_kind (st_active_pending_issue (sync_pending_issue_record t w s)) =
     map_option PendingIssueKind_value (rs_pending_issue_kind (st_recovery_state s))"
  "pred_option (\<lambda>p. pi_detail p = rs_pending_issue_detail (st_recovery_state s) \<and>
       pi_last_observed_turn p = t) (st_active_pending_issue (sync_pending_issue_record t w s))"
  by (auto simp: sync_pending_issue_record_def Let_def split: option.split)

text \<open>No issue is lost: a record that stops being active is the one that is appended.\<close>

lemma sync_conserves:
  "st_resolved_pending_issues (sync_pending_issue_record t w s) =
     st_resolved_pending_issues s @
       (case st_active_pending_issue s of
          None \<Rightarrow> []
        | Some p \<Rightarrow>
            (case rs_pending_issue_kind (st_recovery_state s) of
               None \<Rightarrow> [close_pending_issue t w p]
             | Some k \<Rightarrow> if PendingIssueKind_value k = pi_kind p then []
                 else [close_pending_issue t ''replaced_by_pending_issue'' p]))"
  by (auto simp: sync_pending_issue_record_def Let_def split: option.split)

subsection \<open>The ledger and the budgets\<close>

definition ledger_inv :: "RuntimeSessionState \<Rightarrow> bool" where
  "ledger_inv s \<longleftrightarrow>
     st_last_turn_continuation s =
       (if st_continuation_ledger s = [] then None else Some (last (st_continuation_ledger s))) \<and>
     int (length (st_turn_states s)) \<le> st_total_turns_completed s \<and>
     list_all ts_turn_completed (st_turn_states s)"

lemma add_failure_bucket_frame:
  "add_failure_bucket b s = s\<lparr>st_observed_failure_buckets := add_sorted b (st_observed_failure_buckets s)\<rparr>"
  by (simp add: add_failure_bucket_def)

definition decision_frame :: "RuntimeSessionState \<Rightarrow> RuntimeSessionState \<Rightarrow> bool" where
  "decision_frame s u \<longleftrightarrow>
     st_recovery_state u = st_recovery_state s \<and> st_turn_states u = st_turn_states s \<and>
     st_total_turns_completed u = st_total_turns_completed s \<and>
     st_active_pending_issue u = st_active_pending_issue s \<and>
     st_resolved_pending_issues u = st_resolved_pending_issues s \<and>
     st_last_cleared_pending_issue u = st_last_cleared_pending_issue s \<and>
     st_continuation_ledger u = st_continuation_ledger s \<and>
     st_last_turn_continuation u = st_last_turn_continuation s \<and>
     (progress_inv s \<longrightarrow> progress_inv u)"

lemma decision_frame_refl: "decision_frame s s"
  by (simp add: decision_frame_def)

lemma decision_frame_trans: "decision_frame s t \<Longrightarrow> decision_frame t u \<Longrightarrow> decision_frame s u"
  by (simp add: decision_frame_def)

lemma note_blocked_finish_frame: "decision_frame s (note_blocked_finish d s)"
  by (simp add: note_blocked_finish_def Let_def decision_frame_def progress_inv_def
      add_failure_bucket_def distinct_add_sorted sorted_add_sorted)

lemma note_finish_attempt_frame: "decision_frame s (note_finish_attempt d s)"
  by (simp add: note_finish_attempt_def Let_def decision_frame_def progress_inv_def
      add_failure_bucket_def distinct_add_sorted sorted_add_sorted)

lemma attempt_count_frame: "decision_frame s (s\<lparr>st_finish_attempt_count := n\<rparr>)"
  by (simp add: decision_frame_def progress_inv_def)

lemma note_decision_counters_frame: "decision_frame s (note_decision_counters d s)"
  by (simp add: note_decision_counters_def decision_frame_def progress_inv_def)

lemma refresh_budget_decision_frame: "decision_frame s (refresh_budget_snapshots s)"
  by (simp add: refresh_budget_snapshots_def Let_def decision_frame_def progress_inv_def)

lemma decision_frame_if:
  "decision_frame s t \<Longrightarrow> decision_frame t u \<Longrightarrow> decision_frame s (if b then u else t)"
  by (auto intro: decision_frame_trans)

text \<open>All a decision does to the fields of the frame is to append its record to the ledger.\<close>

lemma note_stop_decision_frame:
  "decision_frame (append_continuation d t s) (note_stop_decision d t s)"
  unfolding note_stop_decision_def Let_def
  by (rule decision_frame_trans [OF decision_frame_trans [OF _ note_decision_counters_frame]
      refresh_budget_decision_frame])
    (intro decision_frame_if decision_frame_refl attempt_count_frame note_blocked_finish_frame
      note_finish_attempt_frame)

subsection \<open>Every operation keeps the session well formed\<close>

definition session_inv :: "RuntimeSessionState \<Rightarrow> bool" where
  "session_inv s \<longleftrightarrow> recovery_inv (st_recovery_state s) \<and> progress_inv s \<and>
     pending_records_inv s \<and> ledger_inv s"

lemmas session_parts = session_inv_def pending_records_inv_def ledger_inv_def

lemma append_continuation_inv:
  "session_inv s \<Longrightarrow> session_inv (append_continuation d t s)"
  by (simp add: session_parts append_continuation_def Let_def progress_inv_def)

lemma decision_frame_inv: "decision_frame s u \<Longrightarrow> session_inv s \<Longrightarrow> session_inv u"
  by (simp add: decision_frame_def session_parts)

lemma note_stop_decision_inv: "session_inv s \<Longrightarrow> session_inv (note_stop_decision d t s)"
  by (rule decision_frame_inv [OF note_stop_decision_frame append_continuation_inv])

lemma sync_session_inv:
  assumes "session_inv s"
  shows "session_inv (sync_pending_issue_record t w s)"
proof -
  have "st_recovery_state (sync_pending_issue_record t w s) = st_recovery_state s"
    "st_continuation_ledger (sync_pending_issue_record t w s) = st_continuation_ledger s"
    "st_last_turn_continuation (sync_pending_issue_record t w s) = st_last_turn_continuation s"
    "st_turn_states (sync_pending_issue_record t w s) = st_turn_states s"
    "st_total_turns_completed (sync_pending_issue_record t w s) = st_total_turns_completed s"
    "progress_inv (sync_pending_issue_record t w s) = progress_inv s"
    by (simp_all add: sync_pending_issue_record_def Let_def progress_inv_def split: option.split)
  with assms show ?thesis
    using sync_pending_issue_inv [of s t w] by (simp add: session_inv_def ledger_inv_def)
qed

lemma finalize_session_inv:
  assumes "session_inv s"
  shows "session_inv (finalize_session n f r x c s)"
proof -
  let ?s1 = "s\<lparr>st_total_turns_completed := max (st_total_turns_completed s) n,
    st_final_status := f, st_stop_reason := r, st_stop_detail := x, st_stop_decision_code := c,
    st_session_termination_kind := termination_kind_from_stop_reason r c,
    st_session_stop_status := session_stop_status_from_final_status f\<rparr>"
  have "session_inv ?s1"
    using assms by (simp add: session_parts progress_inv_def le_max_iff_disj)
  then have "session_inv (refresh_budget_snapshots ?s1)"
    by (rule decision_frame_inv [OF refresh_budget_decision_frame])
  then show ?thesis
    by (simp add: finalize_session_def Let_def session_parts progress_inv_def)
qed

lemma finalize_turn_inv: "session_inv s \<Longrightarrow> session_inv (finalize_turn t s)"
  using mark_turn_phase_flag [of TLP_TURN_COMPLETED "Member TLP_TURN_COMPLETED" t]
  by (simp add: finalize_turn_def Let_def session_parts progress_inv_def phase_text_def)

lemma note_tool_execution_inv:
  assumes "session_inv s"
  shows "session_inv (note_tool_execution c r e x t s)"
proof -
  have "st_recovery_state (note_tool_execution c r e x t s) = st_recovery_state s"
    "st_continuation_ledger (note_tool_execution c r e x t s) = st_continuation_ledger s"
    "st_last_turn_continuation (note_tool_execution c r e x t s) = st_last_turn_continuation s"
    "st_turn_states (note_tool_execution c r e x t s) = st_turn_states s"
    "st_total_turns_completed (note_tool_execution c r e x t s) = st_total_turns_completed s"
    "pending_records_inv (note_tool_execution c r e x t s) = pending_records_inv s"
    by (simp_all add: note_tool_execution_def Let_def pending_records_inv_def)
  with assms show ?thesis
    using note_tool_execution_progress by (simp add: session_inv_def ledger_inv_def)
qed

lemma note_parse_diagnostics_inv: "session_inv s \<Longrightarrow> session_inv (note_parse_diagnostics w st n b s)"
  by (simp add: note_parse_diagnostics_def Let_def add_failure_bucket_def session_parts
      progress_inv_def distinct_add_sorted sorted_add_sorted)

lemma note_protocol_failure_inv:
  "session_inv s \<Longrightarrow> session_inv (note_protocol_or_parse_failure k t s)"
  by (simp add: note_protocol_or_parse_failure_def add_failure_bucket_def session_parts
      progress_inv_def distinct_add_sorted sorted_add_sorted)

lemma session_step_inv: "session_inv s \<Longrightarrow> session_inv (session_step e s)"
proof (cases e)
  case (SRecovery x1)
  moreover assume "session_inv s"
  ultimately show ?thesis
    by (simp add: session_parts progress_inv_def recovery_step_inv)
next
  case (SBeginTurn x2)
  moreover assume "session_inv s"
  ultimately show ?thesis by (simp add: begin_turn_def session_parts progress_inv_def)
qed (auto intro: note_parse_diagnostics_inv note_protocol_failure_inv note_tool_execution_inv
    sync_session_inv note_stop_decision_inv finalize_turn_inv finalize_session_inv)

text \<open>Along a run the histories of a session are only extended and its counters only grow.\<close>

definition extends :: "'a list \<Rightarrow> 'a list \<Rightarrow> bool" where
  "extends xs ys = (take (length xs) ys = xs)"

lemma extends_append [simp]: "extends xs (xs @ ys)"
  by (simp add: extends_def)

lemma extends_refl [simp]: "extends xs xs"
  by (simp add: extends_def)

lemma extends_iff: "extends xs ys \<longleftrightarrow> (\<exists>zs. ys = xs @ zs)"
  by (metis append_take_drop_id extends_append extends_def)

lemma extends_trans: "extends xs ys \<Longrightarrow> extends ys zs \<Longrightarrow> extends xs zs"
  by (auto simp: extends_iff)

definition session_le :: "RuntimeSessionState \<Rightarrow> RuntimeSessionState \<Rightarrow> bool" where
  "session_le s u \<longleftrightarrow> recovery_le (st_recovery_state s) (st_recovery_state u) \<and>
     extends (st_continuation_ledger s) (st_continuation_ledger u) \<and>
     extends (st_resolved_pending_issues s) (st_resolved_pending_issues u) \<and>
     extends (st_turn_states s) (st_turn_states u) \<and>
     st_non_finish_tool_call_count s \<le> st_non_finish_tool_call_count u \<and>
     set (st_distinct_non_finish_tool_names s) \<subseteq> set (st_distinct_non_finish_tool_names u)"

lemma session_le_refl: "session_le s s"
  by (simp add: session_le_def recovery_le_refl)

lemma session_le_trans: "session_le s t \<Longrightarrow> session_le t u \<Longrightarrow> session_le s u"
  unfolding session_le_def by (auto intro: recovery_le_trans extends_trans order_trans)

lemma note_stop_decision_le: "session_le s (note_stop_decision d t s)"
proof -
  have "st_non_finish_tool_call_count (note_stop_decision d t s) = st_non_finish_tool_call_count s"
    "st_distinct_non_finish_tool_names (note_stop_decision d t s) = st_distinct_non_finish_tool_names s"
    by (simp_all add: note_stop_decision_def Let_def note_decision_counters_def note_finish_attempt_def
        note_blocked_finish_def append_continuation_def add_failure_bucket_def)
  then show ?thesis
    using note_stop_decision_frame [of d t s]
    by (simp add: session_le_def decision_frame_def append_continuation_def Let_def recovery_le_refl)
qed

lemma sync_session_le: "session_le s (sync_pending_issue_record t w s)"
  by (simp add: session_le_def sync_conserves recovery_le_refl)
    (simp add: sync_pending_issue_record_def Let_def recovery_le_refl split: option.split)

lemma session_step_le: "session_le s (session_step e s)"
proof (cases e)
  case (SSync t w)
  then show ?thesis by (simp add: sync_session_le)
next
  case (SDecision d t)
  then show ?thesis by (simp add: note_stop_decision_le)
qed (auto simp: session_le_def recovery_step_le recovery_le_refl begin_turn_def
    note_parse_diagnostics_def note_protocol_or_parse_failure_def note_tool_execution_def
    finalize_turn_def finalize_session_def add_failure_bucket_def Let_def)

interpretation session: ordered_system session_step "\<lambda>_ _. True" session_inv session_le
  by unfold_locales (auto intro: session_step_inv session_le_refl session_le_trans session_step_le)

subsection \<open>Properties of sessions\<close>

abbreviation fresh_session :: "bool \<Rightarrow> ValidationPolicyConfig \<Rightarrow> RuntimeSessionState" where
  "fresh_session requires config \<equiv>
     initialize_session_budgets (new_session_state (new_recovery_state requires config))"

lemma fresh_session_inv [simp]: "session_inv (fresh_session requires config)"
  unfolding initialize_session_budgets_def Let_def
  by (rule decision_frame_inv [OF refresh_budget_decision_frame])
    (simp add: session_parts progress_inv_def new_session_state_def)

text \<open>Whatever the runner records in a session, its parts stay well formed: the recovery state,
  the progress counters with their sorted sets of names, the pending-issue records and the
  ledger of decisions.\<close>

theorem session_run_invariant:
  "session_inv (run_events session_step es (fresh_session requires config))"
  by (rule session.run_inv) simp_all

text \<open>A session never rewrites its past: continuing a run extends the decision ledger, the
  resolved issues and the finished turns, and loses no recorded recovery turn and no tool name.\<close>

theorem session_run_extends:
  "session_le (run_events session_step es (fresh_session requires config))
     (run_events session_step (es @ fs) (fresh_session requires config))"
  by (rule session.run_le_split) simp_all

text \<open>Mirroring the pending issue is exact and loses nothing: afterwards there is an active
  record exactly when the recovery state has a pending issue, with its kind, and a record that
  stopped being active is the one record added to the resolved ones, closed in this turn.\<close>

theorem sync_pending_issue_exact:
  "let u = sync_pending_issue_record t trigger s
   in map_option pi_kind (st_active_pending_issue u) =
        map_option PendingIssueKind_value (rs_pending_issue_kind (st_recovery_state s)) \<and>
      st_resolved_pending_issues u = st_resolved_pending_issues s @
        (case st_active_pending_issue s of
           None \<Rightarrow> []
         | Some p \<Rightarrow>
             (case rs_pending_issue_kind (st_recovery_state s) of
                None \<Rightarrow> [close_pending_issue t trigger p]
              | Some k \<Rightarrow> if PendingIssueKind_value k = pi_kind p then []
                  else [close_pending_issue t ''replaced_by_pending_issue'' p]))"
  by (simp add: Let_def sync_mirrors sync_conserves)

definition budget_totals :: "RuntimeSessionState \<Rightarrow> int option \<times> int option \<times> int option" where
  "budget_totals s = (st_validation_budget_total s, st_revision_budget_total s,
     st_finish_deferral_budget_total s)"

lemma session_step_totals: "budget_totals (session_step e s) = budget_totals s"
  by (cases e) (simp_all add: budget_totals_def begin_turn_def note_parse_diagnostics_def
      note_protocol_or_parse_failure_def note_tool_execution_def sync_pending_issue_record_def
      note_stop_decision_def append_continuation_def note_blocked_finish_def note_finish_attempt_def
      note_decision_counters_def finalize_turn_def finalize_session_def refresh_budget_snapshots_def
      add_failure_bucket_def Let_def split: option.split)

lemma run_totals: "budget_totals (run_events session_step es s) = budget_totals s"
  by (induction es arbitrary: s) (simp_all add: session_step_totals)

lemma budgets_refreshed:
  assumes "budget_totals s = (Some a, Some b, Some c)"
  defines "u \<equiv> refresh_budget_snapshots s"
  shows "st_validation_budget_remaining u = Some (max (a - issue_count vi_validation_attempt_count s) 0)"
    and "st_revision_budget_remaining u = Some (max (b - issue_count vi_revision_attempt_count s) 0)"
    and "st_finish_deferral_budget_remaining u = Some (max (c - issue_count vi_finish_deferral_count s) 0)"
    and "st_budget_snapshot u = Some (build_budget_snapshot u)"
    and "issue_count f u = issue_count f s"
  using assms(1) by (simp_all add: u_def refresh_budget_snapshots_def Let_def remaining_budget_def
      budget_totals_def build_budget_snapshot_def issue_count_def)
text \<open>After a decision is noted the remaining budgets of a session are the configured maxima
  less what the current or last validation issue has used, never below zero, and the snapshot
  says the same.\<close>

theorem budgets_after_decision:
  "let s = note_stop_decision d t (run_events session_step es (fresh_session requires config))
   in st_validation_budget_remaining s = Some (max
        (max_validation_attempts_per_issue config - issue_count vi_validation_attempt_count s) 0) \<and>
      st_revision_budget_remaining s = Some (max
        (max_revision_attempts_per_issue config - issue_count vi_revision_attempt_count s) 0) \<and>
      st_finish_deferral_budget_remaining s = Some (max
        (max_finish_deferrals_per_issue config - issue_count vi_finish_deferral_count s) 0) \<and>
      st_budget_snapshot s = Some (build_budget_snapshot s)"
proof -
  let ?r = "run_events session_step es (fresh_session requires config)"
  obtain u where u: "note_stop_decision d t ?r = refresh_budget_snapshots u"
    unfolding note_stop_decision_def Let_def by blast
  have "budget_totals (note_stop_decision d t ?r) = budget_totals (fresh_session requires config)"
    using session_step_totals [of "SDecision d t" ?r] by (simp add: run_totals)
  also have "\<dots> = (Some (max_validation_attempts_per_issue config),
      Some (max_revision_attempts_per_issue config), Some (max_finish_deferrals_per_issue config))"
    by (simp add: initialize_session_budgets_def Let_def refresh_budget_snapshots_def budget_totals_def
        new_session_state_def new_recovery_state_def post_init_def refresh_eqs recovery_defaults_def)
  finally have "budget_totals u = (Some (max_validation_attempts_per_issue config),
      Some (max_revision_attempts_per_issue config), Some (max_finish_deferrals_per_issue config))"
    unfolding u by (simp add: refresh_budget_snapshots_def budget_totals_def Let_def)
  note refreshed = budgets_refreshed [OF this]
  show ?thesis unfolding u Let_def refreshed(5) using refreshed(1-4) by simp
qed

subsection \<open>Blocked completions are accounted for\<close>

definition block_reasons :: "string set" where
  "block_reasons = {''unresolved_validation_failure'', ''recent_recoverable_failure'',
     ''post_mutation_validation_pending'', ''missing_validation_evidence'',
     ''no_corrective_progress_after_failure'', ''no_meaningful_progress''}"

lemma block_reason_cases: "block_reason s m g r = Some w \<Longrightarrow> w \<in> block_reasons"
  by (auto simp: block_reason_def block_reasons_def split: if_splits CompletionEvidenceStatus.splits)

definition accountable :: "StopDecision \<Rightarrow> bool" where
  "accountable d \<longleftrightarrow> (sd_finish_blocked_by_policy d \<longrightarrow>
     (\<exists>w\<in>block_reasons. sd_finish_block_reason d = Some w \<and>
        sd_completion_block_family d =
          CompletionBlockFamily_value (completion_block_family_for_reason (Some w))))"

lemma plain_decision_accountable: "accountable (fst (plain_decision s st re x c f))"
  by (simp add: accountable_def plain_decision_def stop_decision_fields)

lemma unblocked_accountable:
  "accountable (fst (stop_decision_from_state s st re x c f cr False w ov a))"
  by (simp add: accountable_def stop_decision_fields)

lemma stop_decision_family:
  "sd_completion_block_family (fst (stop_decision_from_state s st re x c f cr b w ov a)) =
     tf_completion_block_family f"
  by (simp add: stop_decision_from_state_def Let_def split_beta)

lemma blocked_completion_accountable:
  assumes "ca_block_reason a = Some w" and "w \<in> block_reasons"
    and "tf_completion_block_family f =
      CompletionBlockFamily_value (completion_block_family_for_reason (Some w))"
  shows "accountable (fst (blocked_completion s a x f t pc ec))"
  using assms by (auto simp: blocked_completion_def Let_def split_beta plain_decision_def
      accountable_def stop_decision_fields stop_decision_family split: option.split)

lemma stop_on_facts_accountable:
  "pred_option accountable (fst (stop_on_facts c p t m x i f s))"
proof -
  let ?a = "fst (assess_completion_block s (sp_meaningful_progress_observed i)
    (sp_progress_gate_applicable i) (sp_recent_failure_kind i))"
  have blocked: "accountable (fst (blocked_completion s' ?a y g t pc ec))"
    if blk: "ca_blocked ?a" and family: "tf_completion_block_family g =
      CompletionBlockFamily_value (ca_completion_block_family ?a)" for s' y g pc ec
  proof -
    obtain w where "ca_block_reason ?a = Some w"
      using blk by (auto simp: assess_blocked_iff)
    moreover from this have "w \<in> block_reasons"
      by (auto simp: assess_block_reason intro: block_reason_cases)
    ultimately show ?thesis
      using family by (intro blocked_completion_accountable) (auto simp: assess_family)
  qed
  show ?thesis
    by (auto simp: stop_on_facts_def Let_def split_beta plain_decision_accountable
        unblocked_accountable blocked split: option.split)
qed

lemma should_stop_accountable: "pred_option accountable (fst (should_stop c p t m x r i))"
  unfolding should_stop_def Let_def split_beta by (rule stop_on_facts_accountable)

definition blocked_balance :: "RuntimeSessionState \<Rightarrow> bool" where
  "blocked_balance s \<longleftrightarrow>
     st_finish_blocked_count s = st_blocked_finish_pending_issue_count s +
       st_blocked_finish_validation_evidence_count s + st_blocked_finish_progress_gate_count s \<and>
     st_finish_blocked_count s = sum_list (map snd (st_finish_block_reason_counts s)) \<and>
     distinct (map fst (st_finish_block_reason_counts s)) \<and>
     st_blocked_finish_pending_issue_count s =
       (\<Sum>(w, n)\<leftarrow>st_finish_block_reason_counts s.
          if completion_block_family_for_reason (Some w) = CBF_PENDING_ISSUE then n else 0)"

lemma sum_family_count:
  assumes "distinct (map fst d)"
  shows "(\<Sum>(w, n)\<leftarrow>dict_count k d. if P w then n else 0) =
    (\<Sum>(w, n)\<leftarrow>d. if P w then n else 0) + (if P k then 1 else (0::int))"
  using assms
proof (induction d)
  case (Cons x d)
  obtain w n where x: "x = (w, n)" by (cases x)
  have "map_of d k = None" if "k = w"
    using Cons.prems that x by (auto simp: map_of_eq_None_iff)
  with Cons x show ?case by (auto simp: dict_count_def)
qed (simp add: dict_count_def)

lemma family_of_block_reasons:
  "w \<in> block_reasons \<Longrightarrow> w \<noteq> '''' \<and>
     completion_block_family_for_reason (Some w) \<in>
       {CBF_PENDING_ISSUE, CBF_VALIDATION_EVIDENCE, CBF_PROGRESS_GATE}"
  by (auto simp: block_reasons_def completion_block_family_for_reason_def)

lemma note_blocked_finish_balance:
  assumes "blocked_balance s" and "accountable d" and "sd_finish_blocked_by_policy d"
  shows "blocked_balance (note_blocked_finish d s)"
proof -
  obtain w where w: "w \<in> block_reasons" "sd_finish_block_reason d = Some w"
    "sd_completion_block_family d =
       CompletionBlockFamily_value (completion_block_family_for_reason (Some w))"
    using assms(2,3) by (auto simp: accountable_def)
  have ne: "w \<noteq> ''''" using family_of_block_reasons [OF w(1)] by simp
  consider "completion_block_family_for_reason (Some w) = CBF_PENDING_ISSUE"
    | "completion_block_family_for_reason (Some w) = CBF_VALIDATION_EVIDENCE"
    | "completion_block_family_for_reason (Some w) = CBF_PROGRESS_GATE"
    using family_of_block_reasons [OF w(1)] by auto
  then show ?thesis
    by cases (use assms(1) w(2,3) ne in \<open>simp_all add: blocked_balance_def note_blocked_finish_def
      Let_def add_failure_bucket_def sum_dict_count sum_family_count distinct_dict_count\<close>)
qed

lemma balance_frame:
  "blocked_balance (append_continuation d t s) = blocked_balance s"
  "blocked_balance (s\<lparr>st_finish_attempt_count := n\<rparr>) = blocked_balance s"
  "blocked_balance (note_finish_attempt d s) = blocked_balance s"
  "blocked_balance (note_decision_counters d s) = blocked_balance s"
  "blocked_balance (refresh_budget_snapshots s) = blocked_balance s"
  by (simp_all add: blocked_balance_def append_continuation_def note_finish_attempt_def
      note_decision_counters_def add_failure_bucket_def Let_def refresh_budget_snapshots_def)

lemma note_stop_decision_balance:
  "blocked_balance s \<Longrightarrow> accountable d \<Longrightarrow> blocked_balance (note_stop_decision d t s)"
  by (simp add: note_stop_decision_def Let_def balance_frame note_blocked_finish_balance)

fun decided :: "session_event \<Rightarrow> bool" where
  "decided (SDecision d t) = (\<exists>c p u m x r i. fst (should_stop c p u m x r i) = Some d)"
| "decided e = True"

lemma session_step_balance:
  assumes "blocked_balance s" and "decided e"
  shows "blocked_balance (session_step e s)"
proof (cases e)
  case (SDecision d t)
  then have "accountable d"
    using assms(2) should_stop_accountable by (metis decided.simps(1) option.pred_inject(2))
  with SDecision assms(1) show ?thesis by (simp add: note_stop_decision_balance)
qed (use assms(1) in \<open>simp_all add: blocked_balance_def begin_turn_def note_parse_diagnostics_def
    note_protocol_or_parse_failure_def note_tool_execution_def sync_pending_issue_record_def
    finalize_turn_def finalize_session_def refresh_budget_snapshots_def add_failure_bucket_def
    Let_def split: option.split\<close>)

text \<open>When every decision a session notes comes from \<open>should_stop\<close>, the blocked completions add
  up: their number is the sum over the block reasons and the sum over the three families, and the
  pending-issue family counts exactly the reasons of that family.\<close>

theorem blocked_completions_balance:
  assumes "list_all decided es"
  shows "blocked_balance (run_events session_step es (fresh_session requires config))"
proof -
  have "blocked_balance (fresh_session requires config)"
    by (simp add: initialize_session_budgets_def Let_def balance_frame)
      (simp add: blocked_balance_def new_session_state_def)
  moreover have "blocked_balance s \<Longrightarrow> list_all decided es \<Longrightarrow> blocked_balance (run_events session_step es s)"
    for s by (induction es arbitrary: s) (simp_all add: session_step_balance)
  ultimately show ?thesis using assms by blast
qed
abbreviation blocked_decision :: StopDecision where
  "blocked_decision \<equiv> the (fst (should_stop [sample_call ''f'' ''finish''] [] 1 10 ''''
     (Some (new_recovery_state True default_policy)) None))"

theorem blocked_completions_balance_witness:
  "blocked_balance (run_events session_step [SDecision blocked_decision 1, SSync 1 ''turn'']
     (fresh_session True default_policy)) \<and> sd_finish_blocked_by_policy blocked_decision"
proof -
  have "fst (should_stop [sample_call ''f'' ''finish''] [] 1 10 ''''
     (Some (new_recovery_state True default_policy)) None) = Some blocked_decision"
    by code_simp
  then have "list_all decided [SDecision blocked_decision 1, SSync 1 ''turn'']"
    by (simp only: list.pred_inject decided.simps) blast
  moreover have "sd_finish_blocked_by_policy blocked_decision" by code_simp
  ultimately show ?thesis using blocked_completions_balance by blast
qed

subsection \<open>The taxonomies agree\<close>

lemma termination_kind_of_code:
  "code_stops c \<Longrightarrow> termination_kind_of (StopDecisionCode_value c) \<noteq> None"
  by (cases c) (simp_all add: termination_kind_of_def)

lemma stop_code_not_llm: "stop_code c p t m i s \<noteq> SDC_LLM_ERROR"
  by (auto simp: stop_code_def dest: budget_code split: option.split)

text \<open>On the decisions of \<open>should_stop\<close> the three taxonomies agree: the continuation kind is a
  member of its enumeration, the termination kind of the turn is absent when the run goes on, and
  otherwise it is the termination kind the session derives from the stop reason and never
  \<open>running\<close>.\<close>

theorem decision_taxonomies_agree:
  assumes "fst (should_stop c p t m x r i) = Some d"
  shows "derive_continuation_decision_kind d \<in> range ContinuationDecisionKind_value \<and>
    derive_termination_kind d =
      map_option (\<lambda>w. termination_kind_from_stop_reason (StopReason_value w) (sd_decision_code d))
        (sd_reason d) \<and>
    derive_termination_kind d \<noteq> Some ''running''"
proof -
  let ?code = "stop_code c p t m (stop_input i t (stop_state r)) (stop_state r)"
  have d: "sd_decision_code d = StopDecisionCode_value ?code" "sd_should_stop d = code_stops ?code"
    "map_option StopReason_value (sd_reason d) =
      (if code_stops ?code then Some (StopDecisionCode_value ?code) else None)"
    using should_stop_refines [OF refl refl, of c p t m x r i] assms by auto
  have "derive_continuation_decision_kind d \<in> range ContinuationDecisionKind_value"
    using stop_code_not_llm [of c p t m "stop_input i t (stop_state r)" "stop_state r"]
    unfolding derive_continuation_decision_kind_def d(1,2)
    by (cases ?code) (simp_all del: ContinuationDecisionKind_value.simps)
  moreover have "derive_termination_kind d = map_option (\<lambda>w. termination_kind_from_stop_reason
      (StopReason_value w) (sd_decision_code d)) (sd_reason d) \<and>
    derive_termination_kind d \<noteq> Some ''running''"
  proof (cases "code_stops ?code")
    case True
    then obtain w where w: "sd_reason d = Some w" "StopReason_value w = StopDecisionCode_value ?code"
      using d(3) by auto
    obtain k where k: "termination_kind_of (StopDecisionCode_value ?code) = Some k"
      using termination_kind_of_code [OF True] by auto
    have "SessionTerminationKind_value k \<noteq> ''running''"
      using k by (auto simp: termination_kind_of_def split: if_splits)
    with True d(1,2) w k show ?thesis
      by (simp add: derive_termination_kind_def termination_kind_from_stop_reason_def)
  qed (use d in \<open>simp add: derive_termination_kind_def\<close>)
  ultimately show ?thesis by blast
qed

theorem decision_taxonomies_agree_witness:
  "derive_termination_kind (the (fst (should_stop [] [] 9 9 '''' None None))) = Some ''max_turns'' \<and>
   derive_continuation_decision_kind (the (fst (should_stop [] [] 9 9 '''' None None)))
     \<in> range ContinuationDecisionKind_value"
proof -
  let ?d = "the (fst (should_stop [] [] 9 9 '''' None None))"
  have "fst (should_stop [] [] 9 9 '''' None None) = Some ?d" by code_simp
  note agree = decision_taxonomies_agree [OF this]
  have "sd_reason ?d = Some SR_MAX_TURNS" by code_simp
  with agree show ?thesis
    by (simp add: termination_kind_from_stop_reason_def termination_kind_of_def)
qed

subsection \<open>Counting values, and token estimates\<close>

lemma map_of_dict_count:
  "map_of (dict_count k d) = (map_of d)(k \<mapsto> (case map_of d k of None \<Rightarrow> 0 | Some n \<Rightarrow> n) + 1)"
  by (simp add: dict_count_def)

lemma count_fold:
  fixes vs :: "string list"
  defines "step \<equiv> (\<lambda>v counts. if v = '''' then counts else dict_count v counts)"
  assumes "distinct (map fst d)" and "\<forall>k n. map_of d k = Some n \<longrightarrow> 0 < n"
  shows "distinct (map fst (fold step vs d)) \<and>
    (\<forall>k. map_of (fold step vs d) k =
      (let n = (case map_of d k of None \<Rightarrow> 0 | Some n \<Rightarrow> n)
             + (if k = '''' then 0 else int (count_list vs k))
       in if n = 0 then None else Some n))"
  using assms(2,3)
proof (induction vs arbitrary: d)
  case Nil
  have "0 < n" if "map_of d k = Some n" for k n using Nil that by blast
  then show ?case using Nil by (force split: option.split)
next
  case (Cons v vs)
  show ?case
  proof (cases "v = ''''")
    case True
    with Cons show ?thesis by (auto simp: step_def Let_def)
  next
    case False
    have pos: "\<forall>k n. map_of (dict_count v d) k = Some n \<longrightarrow> 0 < n"
      using Cons.prems(2) by (force simp: map_of_dict_count split: option.splits if_splits)
    have "distinct (map fst (dict_count v d))" using Cons.prems(1) by blast
    from Cons.IH [OF this pos] False show ?thesis
      by (auto simp: step_def Let_def map_of_dict_count split: option.split)
  qed
qed
definition normalized :: "string option \<Rightarrow> string" where
  "normalized x = py_strip (str_or x '''')"

lemma count_nonempty_values_fold:
  "count_nonempty_values xs = sort_key fst
     (fold (\<lambda>v counts. if v = '''' then counts else dict_count v counts) (map normalized xs) [])"
  by (simp add: count_nonempty_values_def fold_map comp_def normalized_def [abs_def] Let_def)

lemma map_of_sort_key:
  assumes "distinct (map fst d)"
  shows "map_of (sort_key fst d) = map_of d"
proof -
  have "distinct (map fst (sort_key fst d))"
    using assms by (simp add: distinct_map)
  with assms show ?thesis by (intro map_of_eqI) (auto simp: map_of_eq_Some_iff)
qed

text \<open>The summary counts of turn actions, outcomes and decisions are exact: the keys are sorted
  and distinct, a key's count is the number of turns whose value is that text after trimming, and
  absent or blank values are not counted.\<close>

theorem count_nonempty_values_exact:
  "sorted (map fst (count_nonempty_values xs)) \<and> distinct (map fst (count_nonempty_values xs)) \<and>
   map_of (count_nonempty_values xs) k =
     (if k \<noteq> '''' \<and> k \<in> set (map normalized xs) then Some (int (count_list (map normalized xs) k))
      else None)"
proof -
  let ?d = "fold (\<lambda>v counts. if v = '''' then counts else dict_count v counts) (map normalized xs) []"
  note fold = count_fold [of "[]" "map normalized xs"]
  have dist: "distinct (map fst ?d)" using fold by simp
  have "map_of ?d k = (let n = if k = '''' then 0 else int (count_list (map normalized xs) k)
      in if n = 0 then None else Some n)"
    using fold by (simp add: Let_def)
  then have "map_of ?d k = (if k \<noteq> '''' \<and> k \<in> set (map normalized xs) then Some (int (count_list (map normalized xs) k))
      else None)"
    by (auto simp: Let_def count_list_0_iff)
  with dist show ?thesis
    by (simp add: count_nonempty_values_fold map_of_sort_key sorted_sort_key distinct_map)
qed

definition message_text :: "Message \<Rightarrow> string" where
  "message_text m = py_join '' '' ([Role_value (msg_role m), msg_content m]
     @ (if msg_tool_calls m = [] then []
        else [json_dumps (JList (map (JObj \<circ> ToolCall_model_dump) (msg_tool_calls m)))])
     @ (case msg_tool_call_id m of Some i \<Rightarrow> if i = '''' then [] else [i] | None \<Rightarrow> [])
     @ (case msg_tool_name m of Some n \<Rightarrow> if n = '''' then [] else [n] | None \<Rightarrow> []))"

lemma estimate_message_tokens_text:
  "estimate_message_tokens m = max 1 \<lceil>of_nat (utf8_length (message_text m)) / (4 :: rat)\<rceil>"
  by (simp add: estimate_message_tokens_def message_text_def Let_def)

text \<open>A token estimate is positive, covers the encoded message at four bytes a token, and
  exceeds that by less than one token; the estimate of a request is the sum over its messages, so
  it splits over concatenation.\<close>

theorem estimate_message_tokens_bounds:
  "1 \<le> estimate_message_tokens m \<and>
   int (utf8_length (message_text m)) \<le> 4 * estimate_message_tokens m \<and>
   4 * (estimate_message_tokens m - 1) < max 1 (int (utf8_length (message_text m))) \<and>
   estimate_messages_tokens (ms @ m # ns) =
     estimate_messages_tokens ms + estimate_message_tokens m + estimate_messages_tokens ns"
proof -
  let ?n = "utf8_length (message_text m)"
  define c where "c = \<lceil>of_nat ?n / (4 :: rat)\<rceil>"
  have bounds: "of_nat ?n / (4 :: rat) \<le> of_int c" "of_int c - 1 < (of_nat ?n / (4 :: rat))"
    unfolding c_def by linarith+
  from bounds(1) have "(of_int (int ?n) :: rat) \<le> of_int (4 * c)" by (simp add: field_simps)
  then have up: "int ?n \<le> 4 * c" by (simp only: of_int_le_iff)
  from bounds(2) have "(of_int (4 * (c - 1)) :: rat) < of_int (int ?n)" by (simp add: field_simps)
  then have low: "4 * (c - 1) < int ?n" by (simp only: of_int_less_iff)
  have "estimate_messages_tokens (ms @ m # ns) =
     estimate_messages_tokens ms + estimate_message_tokens m + estimate_messages_tokens ns"
    by (simp add: estimate_messages_tokens_def)
  with up low show ?thesis unfolding estimate_message_tokens_text c_def [symmetric]
    by (auto simp: max_def)
qed

end
