(* ===== verification/Compaction.thy ===== *)
theory Compaction
  imports Turn_State
begin

section \<open>Context selection and compaction\<close>

text \<open>
  \<open>pycodeagent/agent/compaction.py\<close>: which messages of the request history enter a request.
  The policies keep the whole history, a tail window, or replace a prefix of completed turns by
  one synthetic summary message.  Message indices are natural numbers here and become integers
  where the source stores them in a record.  The plan has the fields \<open>cp_\<close>, the output of the
  compaction backend \<open>mbo_\<close> and \<open>mcs_\<close>.
\<close>

subsection \<open>Records and constants\<close>

record ContextSelectionPlan =
  cp_turn_index :: int
  cp_policy_mode :: string
  cp_compaction_considered :: bool
  cp_compaction_considered_reason :: "string option"
  cp_compaction_skip_reason :: "string option"
  cp_trigger_message_overflow :: bool
  cp_trigger_token_overflow :: bool
  cp_request_history_item_count_before_snapshot :: int
  cp_selected_request_item_indices :: "int list"
  cp_selected_message_count_after_selection :: int
  cp_compaction_decision :: string
  cp_pinned_message_indices :: "int list"
  cp_preserved_from_turn :: "int option"
  cp_candidate_turn_indices :: "int list"
  cp_compacted_turn_indices :: "int list"
  cp_replacement_summary_planned :: bool
  cp_carried_forward_state_planned :: bool
  cp_context_selection :: ContextSelection
  cp_selected_messages :: "Message list"
  cp_compaction_artifact :: "CompactionArtifact option"
  cp_synthetic_summary_message :: "Message option"
  cp_model_backed_requested :: bool
  cp_model_backed_used :: bool
  cp_compaction_backend_mode :: "string option"
  cp_fallback_policy :: "string option"
  cp_fallback_applied :: bool
  cp_fallback_reason :: "string option"
  cp_compaction_backend_failure_kind :: "string option"

record ModelCompactedSpan =
  mcs_source_message_indices :: "int list"
  mcs_source_turn_indices :: "int list"
  mcs_pinned_message_indices :: "int list"
  mcs_replacement_summary_kind :: string

record ModelBackedCompactionOutput =
  mbo_summary_text :: string
  mbo_carried_forward_state :: CarriedForwardState
  mbo_compacted_span :: ModelCompactedSpan

definition model_backed_backend :: string where
  "model_backed_backend = ''inline_model''"

definition model_backed_fallback_policy :: string where
  "model_backed_fallback_policy = ''deterministic_compaction''"

definition model_backed_failure_kinds :: "string list" where
  "model_backed_failure_kinds =
     [''capability_unavailable'', ''provider_error'', ''structured_output_parse_error'',
      ''schema_validation_error'', ''compacted_span_mismatch'']"

subsection \<open>Limits\<close>

definition message_count_allows :: "Message list \<Rightarrow> int option \<Rightarrow> bool" where
  "message_count_allows messages max_messages =
     (case max_messages of None \<Rightarrow> True | Some n \<Rightarrow> int (length messages) \<le> n)"

definition message_token_budget :: "int option \<Rightarrow> int \<Rightarrow> int \<Rightarrow> int option" where
  "message_token_budget context_max tool_reserve response_reserve =
     (case context_max of None \<Rightarrow> None | Some n \<Rightarrow> Some (max (n - tool_reserve - response_reserve) 0))"

definition token_budget_allows :: "Message list \<Rightarrow> int option \<Rightarrow> int \<Rightarrow> int \<Rightarrow> bool" where
  "token_budget_allows messages context_max tool_reserve response_reserve =
     (case context_max of None \<Rightarrow> True
      | Some n \<Rightarrow> estimate_messages_tokens messages + tool_reserve + response_reserve \<le> n)"

definition token_overflow :: "Message list \<Rightarrow> int option \<Rightarrow> int \<Rightarrow> int \<Rightarrow> int" where
  "token_overflow messages context_max tool_reserve response_reserve =
     (case context_max of None \<Rightarrow> 0
      | Some n \<Rightarrow> max (estimate_messages_tokens messages + tool_reserve + response_reserve - n) 0)"

text \<open>The limits every selection function is called with.\<close>

record selection_limits =
  lim_max_messages :: "int option"
  lim_context_max_tokens :: "int option"
  lim_tool_token_reserve :: int
  lim_response_token_reserve :: int

abbreviation tokens_allow :: "selection_limits \<Rightarrow> Message list \<Rightarrow> bool" where
  "tokens_allow l ms \<equiv> token_budget_allows ms (lim_context_max_tokens l)
     (lim_tool_token_reserve l) (lim_response_token_reserve l)"

abbreviation within_limits :: "selection_limits \<Rightarrow> Message list \<Rightarrow> bool" where
  "within_limits l ms \<equiv> message_count_allows ms (lim_max_messages l) \<and> tokens_allow l ms"

definition messages_overflow :: "selection_limits \<Rightarrow> Message list \<Rightarrow> bool" where
  "messages_overflow l messages =
     (case lim_max_messages l of None \<Rightarrow> False | Some n \<Rightarrow> int (length messages) > n)"

definition tokens_overflow :: "selection_limits \<Rightarrow> Message list \<Rightarrow> bool" where
  "tokens_overflow l messages =
     (lim_context_max_tokens l \<noteq> None \<and> \<not> tokens_allow l messages)"

subsection \<open>The audit record of a selection\<close>

definition build_context_selection ::
  "Message list \<Rightarrow> Message list \<Rightarrow> string \<Rightarrow> selection_limits \<Rightarrow> nat list \<Rightarrow> bool
    \<Rightarrow> string option \<Rightarrow> int \<Rightarrow> ContextSelection" where
  "build_context_selection messages selected policy l included applied reason compacted_count =
     (let omitted = filter (\<lambda>i. i \<notin> set included) [0..<length messages];
          overflow = token_overflow selected (lim_context_max_tokens l)
            (lim_tool_token_reserve l) (lim_response_token_reserve l)
      in \<lparr>cs_policy_mode = policy, cs_max_messages = lim_max_messages l,
          cs_context_max_tokens = lim_context_max_tokens l,
          cs_included_message_indices = map int included,
          cs_omitted_message_count = max (int (length messages) - int (length included)) 0,
          cs_compacted_message_count = compacted_count,
          cs_first_included_index = (if included = [] then None else Some (int (hd included))),
          cs_last_included_index = (if included = [] then None else Some (int (last included))),
          cs_included_role_counts =
            fold (\<lambda>i counts. dict_count (Role_value (msg_role (messages ! i))) counts) included [],
          cs_compaction_applied = applied, cs_compaction_reason = reason,
          cs_estimated_selected_tokens = estimate_messages_tokens selected,
          cs_estimated_omitted_tokens =
            sum_list (map (\<lambda>i. estimate_message_tokens (messages ! i)) omitted),
          cs_tool_token_reserve = lim_tool_token_reserve l,
          cs_response_token_reserve = lim_response_token_reserve l,
          cs_token_budget_satisfied = (overflow = 0), cs_token_overflow = overflow\<rparr>)"

definition default_planning :: CompactionPlanningMetadata where
  "default_planning = \<lparr>pm_compaction_considered = False, pm_consideration_reason = None,
     pm_skip_reason = None, pm_trigger_message_overflow = False, pm_trigger_token_overflow = False,
     pm_pinned_message_indices = [], pm_preserved_from_turn = None, pm_candidate_turn_indices = [],
     pm_compacted_turn_indices = []\<rparr>"

text \<open>A result that keeps every message.\<close>

definition keep_all ::
  "Message list \<Rightarrow> ContextPolicyMode \<Rightarrow> selection_limits \<Rightarrow> CompactionPlanningMetadata
    \<Rightarrow> ContextSelectionResult" where
  "keep_all messages mode l planning =
     \<lparr>sel_selected_messages = messages,
      sel_context_selection = build_context_selection messages messages (ContextPolicyMode_value mode) l
        [0..<length messages] False None 0,
      sel_compaction_artifact = None, sel_synthetic_summary_message = None,
      sel_planning_metadata = planning\<rparr>"

definition select_full_history :: "Message list \<Rightarrow> selection_limits \<Rightarrow> ContextSelectionResult" where
  "select_full_history messages l = keep_all messages CPM_FULL_HISTORY l
     (default_planning\<lparr>pm_consideration_reason := Some ''full_history_policy''\<rparr>)"

definition pinned :: "Message \<Rightarrow> bool" where
  "pinned m = (msg_role m \<in> {SYSTEM, USER})"

definition pinned_indices :: "Message list \<Rightarrow> nat list" where
  "pinned_indices messages = filter (\<lambda>i. pinned (messages ! i)) [0..<length messages]"

definition non_pinned_indices :: "Message list \<Rightarrow> nat list" where
  "non_pinned_indices messages = filter (\<lambda>i. \<not> pinned (messages ! i)) [0..<length messages]"

text \<open>\<open>sorted(set(a) | set(b))\<close>.\<close>

definition union_sorted :: "nat list \<Rightarrow> nat list \<Rightarrow> nat list" where
  "union_sorted a b = sort (remdups (a @ b))"

subsection \<open>The tail window\<close>

text \<open>
  The loop over \<open>reversed(non_pinned_indices)\<close>.  Both \<open>continue\<close> statements keep what was
  selected so far, so an index that does not fit is skipped and older ones are still tried.
\<close>

fun tail_loop ::
  "Message list \<Rightarrow> selection_limits \<Rightarrow> int option \<Rightarrow> nat list \<Rightarrow> nat list \<Rightarrow> nat list" where
  "tail_loop messages l capacity [] selected = selected"
| "tail_loop messages l capacity (i # rest) selected =
     (let candidate = i # selected
      in if (case capacity of None \<Rightarrow> False | Some c \<Rightarrow> int (length candidate) > c)
         then tail_loop messages l capacity rest selected
         else if \<not> tokens_allow l (map (\<lambda>j. messages ! j)
                     (union_sorted (pinned_indices messages) candidate))
         then tail_loop messages l capacity rest selected
         else tail_loop messages l capacity rest candidate)"

definition select_tail_window :: "Message list \<Rightarrow> selection_limits \<Rightarrow> ContextSelectionResult" where
  "select_tail_window messages l =
     (let pins = pinned_indices messages in
      if lim_max_messages l = None \<and> lim_context_max_tokens l = None then
        keep_all messages CPM_TAIL_WINDOW l
          (default_planning\<lparr>pm_consideration_reason := Some ''tail_window_without_limits'',
             pm_pinned_message_indices := map int pins\<rparr>)
      else
        let capacity = map_option (\<lambda>n. max (n - int (length pins)) 0) (lim_max_messages l);
            chosen = tail_loop messages l capacity (rev (non_pinned_indices messages)) [];
            included = union_sorted pins chosen;
            selected = map (\<lambda>i. messages ! i) included;
            truncated = (length included < length messages);
            sel = build_context_selection messages selected (ContextPolicyMode_value CPM_TAIL_WINDOW) l
              included truncated (if truncated then Some ''tail_window_truncation'' else None)
              (max (int (length messages) - int (length included)) 0);
            sel' = (if lim_context_max_tokens l \<noteq> None \<and> \<not> cs_token_budget_satisfied sel \<and>
                       length included = length pins
                    then sel\<lparr>cs_compaction_reason := Some ''pinned_token_overflow''\<rparr> else sel)
        in \<lparr>sel_selected_messages = selected, sel_context_selection = sel',
            sel_compaction_artifact = None, sel_synthetic_summary_message = None,
            sel_planning_metadata = default_planning\<lparr>pm_compaction_considered := True,
              pm_consideration_reason := Some (if truncated then ''tail_window_limit_exceeded''
                else ''tail_window_limit_not_triggered''),
              pm_skip_reason := (if truncated then None else Some ''all_messages_retained''),
              pm_trigger_message_overflow := messages_overflow l messages,
              pm_trigger_token_overflow := tokens_overflow l messages,
              pm_pinned_message_indices := map int pins\<rparr>\<rparr>)"

subsection \<open>Turn ranges\<close>

record turn_data =
  td_turn_index :: nat
  td_message_indices :: "nat list"
  td_tool_names :: "string list"
  td_tool_call_ids :: "string list"

definition finalize_turn_range :: "turn_data \<Rightarrow> TurnRangeSummary" where
  "finalize_turn_range d =
     \<lparr>trs_turn_index = int (td_turn_index d), trs_message_indices = map int (td_message_indices d),
      trs_start_index = int (hd (td_message_indices d)),
      trs_end_index = int (last (td_message_indices d)),
      trs_tool_names = td_tool_names d, trs_tool_call_ids = td_tool_call_ids d\<rparr>"

fun turn_loop :: "nat \<Rightarrow> nat \<Rightarrow> turn_data option \<Rightarrow> Message list \<Rightarrow> turn_data list" where
  "turn_loop index turn current [] = (case current of None \<Rightarrow> [] | Some d \<Rightarrow> [d])"
| "turn_loop index turn current (m # ms) =
     (if msg_role m = ASSISTANT then
        (case current of None \<Rightarrow> [] | Some d \<Rightarrow> [d])
        @ turn_loop (index + 1) (turn + 1)
            (Some \<lparr>td_turn_index = turn + 1, td_message_indices = [index],
                   td_tool_names = map tc_name (msg_tool_calls m),
                   td_tool_call_ids = map tc_id (msg_tool_calls m)\<rparr>) ms
      else if current \<noteq> None \<and> msg_role m = TOOL then
        turn_loop (index + 1) turn
          (map_option (\<lambda>d. d\<lparr>td_message_indices := td_message_indices d @ [index]\<rparr>) current) ms
      else turn_loop (index + 1) turn current ms)"

definition build_turn_ranges :: "Message list \<Rightarrow> TurnRangeSummary list" where
  "build_turn_ranges messages = map finalize_turn_range (turn_loop 0 0 None messages)"

definition preserve_from_turn :: "RuntimeSessionState \<Rightarrow> int option" where
  "preserve_from_turn s =
     (let candidates =
            (case st_active_pending_issue s of None \<Rightarrow> [] | Some p \<Rightarrow> [pi_opened_at_turn p])
            @ (case rs_last_successful_validation_turn (st_recovery_state s) of
                 None \<Rightarrow> [] | Some t \<Rightarrow> [t])
      in if candidates = [] then None else Some (foldr min (tl candidates) (hd candidates)))"

subsection \<open>What a compaction carries forward\<close>

definition compacted_outcome :: "RuntimeSessionState \<Rightarrow> TurnRangeSummary \<Rightarrow> pydict" where
  "compacted_outcome s r =
     (let prior = map_of (rev (map (\<lambda>t. (ts_turn_index t, t)) (st_turn_states s))) (trs_turn_index r)
      in [(''turn_index'', JInt (trs_turn_index r)),
          (''tool_names'', JList (map JStr (trs_tool_names r))),
          (''tool_call_ids'', JList (map JStr (trs_tool_call_ids r))),
          (''stop_decision_code'', JStr (case prior of None \<Rightarrow> '''' | Some t \<Rightarrow> ts_stop_decision_code t))])"

definition build_carried_forward_state ::
  "RuntimeSessionState \<Rightarrow> TurnRangeSummary list \<Rightarrow> CarriedForwardState" where
  "build_carried_forward_state s ranges =
     (let r = st_recovery_state s;
          notes = [''Compacted turns '' @ py_int_str (trs_turn_index (hd ranges)) @ ''-''
                     @ py_int_str (trs_turn_index (last ranges))]
            @ (if st_active_pending_issue s \<noteq> None
               then [''Pending issue remains active and was preserved outside the compacted range'']
               else [])
            @ (if rs_last_successful_validation_turn r \<noteq> None
               then [''Recent validated context was retained without compacting post-validation turns'']
               else [])
      in \<lparr>cf_pending_issue_kind = map_option pi_kind (st_active_pending_issue s),
          cf_pending_issue_detail =
            (case st_active_pending_issue s of None \<Rightarrow> '''' | Some p \<Rightarrow> pi_detail p),
          cf_completion_evidence_status =
            Some (CompletionEvidenceStatus_value (rs_completion_evidence_status r)),
          cf_validation_phase = Some (ValidationPhase_value (rs_validation_phase r)),
          cf_last_successful_validation_turn = rs_last_successful_validation_turn r,
          cf_last_validation_attempt_turn = rs_last_validation_attempt_turn r,
          cf_last_validation_failure_turn = rs_last_validation_failure_turn r,
          cf_last_mutation_turn = rs_last_mutation_turn r,
          cf_recent_compacted_tool_outcomes = map (compacted_outcome s) ranges,
          cf_carried_notes = notes\<rparr>)"

definition outcome_strings :: "pydict \<Rightarrow> string \<Rightarrow> string list" where
  "outcome_strings d k = (case map_of d k of
     Some (JList xs) \<Rightarrow> map py_str xs | _ \<Rightarrow> [])"

definition outcome_line :: "pydict \<Rightarrow> string" where
  "outcome_line d =
     ''turn='' @ (case map_of d ''turn_index'' of Some v \<Rightarrow> py_str v | None \<Rightarrow> '''')
     @ '':tools='' @ str_or (Some (py_join '','' (outcome_strings d ''tool_names''))) ''none''
     @ '':stop='' @ (case map_of d ''stop_decision_code'' of Some v \<Rightarrow> py_str v | None \<Rightarrow> '''')"

definition render_deterministic_summary ::
  "TurnRangeSummary list \<Rightarrow> CarriedForwardState \<Rightarrow> string" where
  "render_deterministic_summary ranges c =
     (let turn_line = (\<lambda>name t. case t of None \<Rightarrow> [] | Some n \<Rightarrow> [name @ py_int_str n])
      in py_join [CHR 0x0A]
       ([''[compacted runtime context]'',
         ''covered_turns='' @ py_int_str (trs_turn_index (hd ranges)) @ ''-''
           @ py_int_str (trs_turn_index (last ranges)),
         ''completion_evidence_status='' @ str_or (cf_completion_evidence_status c) ''unknown'',
         ''validation_phase='' @ str_or (cf_validation_phase c) ''unknown'',
         ''pending_issue='' @ str_or (cf_pending_issue_kind c) ''none'']
        @ turn_line ''last_successful_validation_turn='' (cf_last_successful_validation_turn c)
        @ turn_line ''last_validation_failure_turn='' (cf_last_validation_failure_turn c)
        @ turn_line ''last_mutation_turn='' (cf_last_mutation_turn c)
        @ map outcome_line (cf_recent_compacted_tool_outcomes c)
        @ map (\<lambda>n. ''note='' @ n) (cf_carried_notes c)))"

subsection \<open>Deterministic compaction\<close>

text \<open>
  The state of the candidate loop after some candidates is a function of those candidates:
  \<open>compaction_attempt\<close> computes it, \<open>compaction_prefix\<close> is the loop with its \<open>break\<close>.
\<close>

definition compacted_indices :: "TurnRangeSummary list \<Rightarrow> int list" where
  "compacted_indices ranges = concat (map trs_message_indices ranges)"

definition summary_message :: "string \<Rightarrow> SummarySlot \<Rightarrow> Message" where
  "summary_message txt slot =
     (plain_message SYSTEM txt)\<lparr>msg_metadata :=
        [(''synthetic'', JBool True), (''summary_kind'', JStr (ss_summary_kind slot)),
         (''summary_slot_id'', JStr (ss_slot_id slot)),
         (''source_message_indices'', JList (map JInt (ss_source_message_indices slot)))]\<rparr>"

fun splice_summary :: "int list \<Rightarrow> Message \<Rightarrow> bool \<Rightarrow> nat \<Rightarrow> Message list \<Rightarrow> Message list" where
  "splice_summary compacted summary inserted index [] = []"
| "splice_summary compacted summary inserted index (m # ms) =
     (if int index \<in> set compacted then
        (if inserted then [] else [summary]) @ splice_summary compacted summary True (index + 1) ms
      else m # splice_summary compacted summary inserted (index + 1) ms)"

record attempt =
  att_carried :: CarriedForwardState
  att_slot :: SummarySlot
  att_summary :: Message
  att_selected :: "Message list"

definition compaction_attempt ::
  "RuntimeSessionState \<Rightarrow> int \<Rightarrow> Message list \<Rightarrow> TurnRangeSummary list \<Rightarrow> attempt" where
  "compaction_attempt s turn_index messages ranges =
     (let carried = build_carried_forward_state s ranges;
          txt = render_deterministic_summary ranges carried;
          slot = \<lparr>ss_slot_id = ''summary_slot_turn_'' @ py_int_pad 3 turn_index,
                  ss_status = ''materialized'',
                  ss_source_message_indices = sort (remdups (compacted_indices ranges)),
                  ss_rendered_text = txt, ss_opened_at_turn = trs_turn_index (hd ranges),
                  ss_last_refreshed_turn = turn_index,
                  ss_summary_kind = ''deterministic_turn_compaction''\<rparr>;
          summary = summary_message txt slot
      in \<lparr>att_carried = carried, att_slot = slot, att_summary = summary,
          att_selected = splice_summary (compacted_indices ranges) summary False 0 messages\<rparr>)"

fun compaction_prefix ::
  "RuntimeSessionState \<Rightarrow> int \<Rightarrow> Message list \<Rightarrow> selection_limits \<Rightarrow> TurnRangeSummary list
    \<Rightarrow> TurnRangeSummary list \<Rightarrow> TurnRangeSummary list" where
  "compaction_prefix s turn_index messages l ranges [] = ranges"
| "compaction_prefix s turn_index messages l ranges (c # cs) =
     (let ranges' = ranges @ [c]
      in if within_limits l (att_selected (compaction_attempt s turn_index messages ranges'))
         then ranges'
         else compaction_prefix s turn_index messages l ranges' cs)"

definition compaction_result ::
  "RuntimeSessionState \<Rightarrow> int \<Rightarrow> Message list \<Rightarrow> selection_limits \<Rightarrow> TurnRangeSummary list
    \<Rightarrow> TurnRangeSummary list \<Rightarrow> ContextSelectionResult" where
  "compaction_result s turn_index messages l candidates ranges =
     (let pins = pinned_indices messages;
          a = compaction_attempt s turn_index messages ranges;
          selected = att_selected a;
          compacted = sort (remdups (compacted_indices ranges));
          retained = filter (\<lambda>i. int i \<notin> set compacted) [0..<length messages];
          over_messages = messages_overflow l messages;
          over_tokens = tokens_overflow l messages;
          satisfied = tokens_allow l selected;
          overflow_reason = (if satisfied then None
            else if length selected \<le> length pins then Some ''pinned_token_overflow''
            else Some ''token_budget_unsatisfied_after_compaction'');
          artifact_reason = (if over_messages \<and> over_tokens then ''message_and_token_limit_exceeded''
            else if over_tokens then ''token_budget_exceeded'' else ''message_limit_exceeded'');
          artifact = \<lparr>art_artifact_version = 1,
            art_policy_mode = ContextPolicyMode_value CPM_DETERMINISTIC_COMPACTION,
            art_turn_index = turn_index, art_pinned_message_indices = map int pins,
            art_compacted_message_indices = compacted,
            art_retained_message_indices = map int retained, art_candidate_turn_ranges = ranges,
            art_summary_slot = Some (att_slot a), art_carried_forward_state = Some (att_carried a),
            art_reason = artifact_reason, art_estimated_tokens_before = estimate_messages_tokens messages,
            art_estimated_tokens_after = estimate_messages_tokens selected,
            art_token_budget_target = message_token_budget (lim_context_max_tokens l)
              (lim_tool_token_reserve l) (lim_response_token_reserve l),
            art_token_budget_satisfied = satisfied, art_overflow_reason = overflow_reason\<rparr>;
          sel = build_context_selection messages selected
            (ContextPolicyMode_value CPM_DETERMINISTIC_COMPACTION) l retained True
            (Some ''deterministic_turn_compaction'') (int (length compacted));
          sel' = (if overflow_reason \<noteq> None then sel\<lparr>cs_compaction_reason := overflow_reason\<rparr> else sel)
      in \<lparr>sel_selected_messages = selected, sel_context_selection = sel',
          sel_compaction_artifact = Some artifact,
          sel_synthetic_summary_message = Some (att_summary a),
          sel_planning_metadata = default_planning\<lparr>pm_compaction_considered := True,
            pm_consideration_reason := Some artifact_reason,
            pm_trigger_message_overflow := over_messages, pm_trigger_token_overflow := over_tokens,
            pm_pinned_message_indices := map int pins,
            pm_preserved_from_turn := preserve_from_turn s,
            pm_candidate_turn_indices := map trs_turn_index candidates,
            pm_compacted_turn_indices := map trs_turn_index ranges\<rparr>\<rparr>)"

definition candidate_ranges :: "RuntimeSessionState \<Rightarrow> Message list \<Rightarrow> TurnRangeSummary list" where
  "candidate_ranges s messages =
     filter (\<lambda>r. case preserve_from_turn s of None \<Rightarrow> True | Some p \<Rightarrow> trs_turn_index r < p)
       (build_turn_ranges messages)"

definition select_deterministic_compaction ::
  "Message list \<Rightarrow> selection_limits \<Rightarrow> RuntimeSessionState option \<Rightarrow> int option
    \<Rightarrow> ContextSelectionResult" where
  "select_deterministic_compaction messages l session turn_index =
     (let fit = within_limits l messages;
          searched = default_planning\<lparr>pm_compaction_considered := True,
            pm_consideration_reason := Some ''deterministic_compaction_candidate_search'',
            pm_trigger_message_overflow := messages_overflow l messages,
            pm_trigger_token_overflow := tokens_overflow l messages,
            pm_pinned_message_indices := map int (pinned_indices messages)\<rparr>;
          keep = keep_all messages CPM_DETERMINISTIC_COMPACTION l
      in case (session, turn_index, fit) of
           (Some s, Some t, False) \<Rightarrow>
             if build_turn_ranges messages = [] then
               keep (searched\<lparr>pm_skip_reason := Some ''no_turn_ranges_available''\<rparr>)
             else if candidate_ranges s messages = [] then
               keep (searched\<lparr>pm_skip_reason := Some ''candidate_turns_preserved'',
                              pm_preserved_from_turn := preserve_from_turn s\<rparr>)
             else
               let candidates = candidate_ranges s messages;
                   ranges = compaction_prefix s t messages l [] candidates
               in if compacted_indices ranges = [] then
                    keep (searched\<lparr>pm_skip_reason := Some ''unable_to_materialize_compaction_artifact'',
                            pm_preserved_from_turn := preserve_from_turn s,
                            pm_candidate_turn_indices := map trs_turn_index candidates\<rparr>)
                  else compaction_result s t messages l candidates ranges
         | _ \<Rightarrow>
             keep (default_planning\<lparr>pm_compaction_considered := \<not> fit,
               pm_consideration_reason := Some (if fit then ''within_limits''
                 else ''missing_session_state_for_compaction''),
               pm_skip_reason := (if fit then None else Some ''missing_session_state_or_turn_index''),
               pm_trigger_message_overflow := messages_overflow l messages,
               pm_trigger_token_overflow := tokens_overflow l messages\<rparr>))"

subsection \<open>Entry points\<close>

definition ContextPolicyMode_of_str :: "string \<Rightarrow> string + ContextPolicyMode" where
  "ContextPolicyMode_of_str t =
     (case find (\<lambda>m. ContextPolicyMode_value m = t)
        [CPM_FULL_HISTORY, CPM_TAIL_WINDOW, CPM_DETERMINISTIC_COMPACTION, CPM_MODEL_BACKED_COMPACTION] of
        Some m \<Rightarrow> Inr m
      | None \<Rightarrow> Inl (py_repr_str t @ '' is not a valid ContextPolicyMode''))"

definition normalize_policy_mode :: "ContextPolicyMode enum_arg \<Rightarrow> string + ContextPolicyMode" where
  "normalize_policy_mode policy =
     (case policy of Member m \<Rightarrow> Inr m | Text t \<Rightarrow> ContextPolicyMode_of_str t)"

definition select_request_messages ::
  "Message list \<Rightarrow> ContextPolicyMode enum_arg \<Rightarrow> selection_limits \<Rightarrow> RuntimeSessionState option
    \<Rightarrow> int option \<Rightarrow> string + ContextSelectionResult" where
  "select_request_messages messages policy l session turn_index =
     res_bind (normalize_policy_mode policy) (\<lambda>mode. Inr (case mode of
       CPM_FULL_HISTORY \<Rightarrow> select_full_history messages l
     | CPM_TAIL_WINDOW \<Rightarrow> select_tail_window messages l
     | CPM_DETERMINISTIC_COMPACTION \<Rightarrow> select_deterministic_compaction messages l session turn_index
     | CPM_MODEL_BACKED_COMPACTION \<Rightarrow>
         let r = select_deterministic_compaction messages l session turn_index;
             v = ContextPolicyMode_value CPM_MODEL_BACKED_COMPACTION
         in r\<lparr>sel_context_selection := (sel_context_selection r)\<lparr>cs_policy_mode := v\<rparr>,
              sel_compaction_artifact := map_option (\<lambda>a. a\<lparr>art_policy_mode := v\<rparr>)
                (sel_compaction_artifact r)\<rparr>))"

definition plan_request_context ::
  "Message list \<Rightarrow> ContextPolicyMode enum_arg \<Rightarrow> selection_limits \<Rightarrow> RuntimeSessionState \<Rightarrow> int
    \<Rightarrow> string + ContextSelectionPlan" where
  "plan_request_context messages policy l session turn_index =
     res_bind (normalize_policy_mode policy) (\<lambda>mode.
     let model_backed = (mode = CPM_MODEL_BACKED_COMPACTION);
         effective = (if model_backed then Member CPM_DETERMINISTIC_COMPACTION else policy)
     in res_bind (select_request_messages messages effective l (Some session) (Some turn_index))
       (\<lambda>r. let sel = (sel_context_selection r)\<lparr>cs_policy_mode := ContextPolicyMode_value mode\<rparr>;
                planning = sel_planning_metadata r
        in Inr \<lparr>cp_turn_index = turn_index, cp_policy_mode = ContextPolicyMode_value mode,
            cp_compaction_considered = pm_compaction_considered planning,
            cp_compaction_considered_reason = pm_consideration_reason planning,
            cp_compaction_skip_reason = pm_skip_reason planning,
            cp_trigger_message_overflow = pm_trigger_message_overflow planning,
            cp_trigger_token_overflow = pm_trigger_token_overflow planning,
            cp_request_history_item_count_before_snapshot = int (length messages),
            cp_selected_request_item_indices = cs_included_message_indices sel,
            cp_selected_message_count_after_selection = int (length (sel_selected_messages r)),
            cp_compaction_decision = (if cs_compaction_applied sel then ''applied'' else ''skipped''),
            cp_pinned_message_indices = pm_pinned_message_indices planning,
            cp_preserved_from_turn = pm_preserved_from_turn planning,
            cp_candidate_turn_indices = pm_candidate_turn_indices planning,
            cp_compacted_turn_indices = pm_compacted_turn_indices planning,
            cp_replacement_summary_planned = (sel_synthetic_summary_message r \<noteq> None),
            cp_carried_forward_state_planned =
              (Option.bind (sel_compaction_artifact r) art_carried_forward_state \<noteq> None),
            cp_context_selection = sel, cp_selected_messages = sel_selected_messages r,
            cp_compaction_artifact = sel_compaction_artifact r,
            cp_synthetic_summary_message = sel_synthetic_summary_message r,
            cp_model_backed_requested = model_backed, cp_model_backed_used = False,
            cp_compaction_backend_mode = None,
            cp_fallback_policy = (if model_backed then Some ''deterministic_compaction'' else None),
            cp_fallback_applied = False, cp_fallback_reason = None,
            cp_compaction_backend_failure_kind = None\<rparr>))"

definition compacted_messages_for_plan :: "Message list \<Rightarrow> ContextSelectionPlan \<Rightarrow> Message list" where
  "compacted_messages_for_plan messages plan =
     (case cp_compaction_artifact plan of
        None \<Rightarrow> []
      | Some a \<Rightarrow> map (\<lambda>i. messages ! i)
          (filter (\<lambda>i. int i \<in> set (art_compacted_message_indices a)) [0..<length messages]))"

definition apply_model_backed_compaction_output ::
  "ContextSelectionPlan \<Rightarrow> ModelBackedCompactionOutput \<Rightarrow> string \<Rightarrow> ContextSelectionPlan" where
  "apply_model_backed_compaction_output plan out backend_mode =
     (case cp_compaction_artifact plan of
        None \<Rightarrow> plan
      | Some artifact \<Rightarrow>
          let kind = ''model_backed_compaction'';
              slot = (case art_summary_slot artifact of
                  None \<Rightarrow> \<lparr>ss_slot_id = ''summary_slot_turn_'' @ py_int_pad 3 (cp_turn_index plan),
                     ss_status = ''materialized'',
                     ss_source_message_indices = art_compacted_message_indices artifact,
                     ss_rendered_text = mbo_summary_text out,
                     ss_opened_at_turn = cp_turn_index plan,
                     ss_last_refreshed_turn = cp_turn_index plan, ss_summary_kind = kind\<rparr>
                | Some slot \<Rightarrow> slot\<lparr>ss_rendered_text := mbo_summary_text out,
                     ss_last_refreshed_turn := cp_turn_index plan, ss_summary_kind := kind\<rparr>);
              mode = ContextPolicyMode_value CPM_MODEL_BACKED_COMPACTION;
              artifact' = artifact\<lparr>art_policy_mode := mode, art_summary_slot := Some slot,
                art_carried_forward_state := Some (mbo_carried_forward_state out)\<rparr>;
              summary = (plain_message SYSTEM (mbo_summary_text out))\<lparr>msg_metadata :=
                [(''synthetic'', JBool True), (''summary_kind'', JStr kind),
                 (''summary_slot_id'', JStr (ss_slot_id slot)),
                 (''source_message_indices'', JList (map JInt (ss_source_message_indices slot)))]\<rparr>
          in plan\<lparr>cp_policy_mode := mode,
                  cp_context_selection := (cp_context_selection plan)\<lparr>cs_policy_mode := mode\<rparr>,
                  cp_compaction_artifact := Some artifact',
                  cp_synthetic_summary_message := Some summary,
                  cp_model_backed_requested := True, cp_model_backed_used := True,
                  cp_compaction_backend_mode := Some backend_mode,
                  cp_fallback_applied := False, cp_fallback_reason := None,
                  cp_compaction_backend_failure_kind := None\<rparr>)"

definition apply_model_backed_fallback ::
  "ContextSelectionPlan \<Rightarrow> string \<Rightarrow> string \<Rightarrow> string \<Rightarrow> string \<Rightarrow> string + ContextSelectionPlan" where
  "apply_model_backed_fallback plan backend_mode fallback_policy fallback_reason failure_kind =
     (if backend_mode \<noteq> model_backed_backend then
        Inl (''Unsupported model-backed compaction backend: '' @ backend_mode)
      else if fallback_policy \<noteq> model_backed_fallback_policy then
        Inl (''Unsupported compaction fallback policy: '' @ fallback_policy)
      else if failure_kind \<notin> set model_backed_failure_kinds then
        Inl (''Unsupported compaction failure kind: '' @ failure_kind)
      else Inr (plan\<lparr>cp_model_backed_requested := True, cp_model_backed_used := False,
             cp_compaction_backend_mode := Some backend_mode,
             cp_fallback_policy := Some fallback_policy, cp_fallback_applied := True,
             cp_fallback_reason := Some fallback_reason,
             cp_compaction_backend_failure_kind := Some failure_kind\<rparr>))"

definition span_fields :: "string list" where
  "span_fields = [''source_message_indices'', ''source_turn_indices'', ''pinned_message_indices'',
     ''replacement_summary_kind'']"

definition dict_get :: "pydict \<Rightarrow> string \<Rightarrow> json" where
  "dict_get d k = (case map_of d k of None \<Rightarrow> JNull | Some v \<Rightarrow> v)"

definition normalize_model_backed_compaction_output_payload :: "pydict option \<Rightarrow> pydict option" where
  "normalize_model_backed_compaction_output_payload payload =
     map_option (\<lambda>d.
       let span = (case map_of d ''compacted_span'' of Some (JObj s) \<Rightarrow> s | _ \<Rightarrow> []);
           span1 = fold (\<lambda>name s.
             if dict_get d name \<noteq> JNull \<and> dict_get s name \<in> {JNull, JList [], JStr ''''}
             then AList.update name (dict_get d name) s else s) span_fields span;
           span2 = (if dict_get span1 ''replacement_summary_kind''
                         \<notin> {JNull, JStr '''', JStr ''model_backed_compaction''}
                    then AList.update ''replacement_summary_kind'' (JStr ''model_backed_compaction'') span1
                    else span1)
       in AList.update ''compacted_span'' (JObj span2) d) payload"

end
