(* ===== verification/Compaction_Properties.thy ===== *)
theory Compaction_Properties
  imports Compaction Turn_State_Properties "HOL-Library.Multiset"
begin

section \<open>Context selection and compaction: the laws\<close>

text \<open>
  Turn ranges cut the history from the first assistant message on into whole turns; a compaction
  replaces the shortest prefix of candidate turns that makes the request fit by one summary,
  never touches a system or user message, and accounts for every message; a tail window keeps
  the pinned messages and stays within the limits.
\<close>

subsection \<open>Turn ranges\<close>

definition turn_message :: "Message \<Rightarrow> bool" where
  "turn_message m = (msg_role m \<in> {ASSISTANT, TOOL})"

definition td_ok :: "Message list \<Rightarrow> nat \<Rightarrow> turn_data \<Rightarrow> bool" where
  "td_ok ms i d \<longleftrightarrow> td_message_indices d \<noteq> [] \<and>
     msg_role (ms ! hd (td_message_indices d)) = ASSISTANT \<and>
     (\<forall>j\<in>set (tl (td_message_indices d)). msg_role (ms ! j) = TOOL) \<and>
     (\<forall>j\<in>set (td_message_indices d). j < i)"

lemma turn_loop_Some_indices:
  "concat (map td_message_indices (turn_loop i t (Some d) ms)) =
     td_message_indices d @ map fst (filter (turn_message \<circ> snd) (enumerate i ms))"
  by (induction i t "Some d" ms arbitrary: d rule: turn_loop.induct)
    (auto simp: turn_message_def)

lemma turn_loop_None_indices:
  "concat (map td_message_indices (turn_loop i t None ms)) =
     map fst (filter (turn_message \<circ> snd) (dropWhile (\<lambda>x. msg_role (snd x) \<noteq> ASSISTANT) (enumerate i ms)))"
  by (induction ms arbitrary: i)
    (auto simp: turn_loop_Some_indices turn_message_def)

definition assistants :: "Message list \<Rightarrow> nat" where
  "assistants ms = length (filter (\<lambda>m. msg_role m = ASSISTANT) ms)"

lemma assistants_simps [simp]:
  "assistants [] = 0"
  "assistants (m # ms) = (if msg_role m = ASSISTANT then Suc (assistants ms) else assistants ms)"
  by (simp_all add: assistants_def)

lemma turn_loop_Some_turns:
  "map td_turn_index (turn_loop i t (Some d) ms) = td_turn_index d # [t + 1..<t + 1 + assistants ms]"
  by (induction ms arbitrary: i t d) (simp_all add: upt_conv_Cons del: upt_Suc)

lemma turn_loop_None_turns:
  "map td_turn_index (turn_loop i t None ms) = [t + 1..<t + 1 + assistants ms]"
proof (induction ms arbitrary: i)
  case (Cons m ms)
  show ?case
  proof (cases "msg_role m = ASSISTANT")
    case False
    then have "turn_loop i t None (m # ms) = turn_loop (Suc i) t None ms" by simp
    with Cons [of "Suc i"] False show ?thesis by simp
  qed (simp add: turn_loop_Some_turns upt_conv_Cons del: upt_Suc)
qed simp

lemma turn_loop_ok:
  "(case cur of None \<Rightarrow> True | Some d \<Rightarrow> td_ok (pre @ ms) (length pre) d) \<Longrightarrow>
   list_all (td_ok (pre @ ms) (length (pre @ ms))) (turn_loop (length pre) t cur ms)"
proof (induction ms arbitrary: pre t cur)
  case Nil
  then show ?case by (auto simp: td_ok_def split: option.splits)
next
  case (Cons m ms)
  have eq: "(pre @ [m]) @ ms = pre @ m # ms" "length (pre @ [m]) = Suc (length pre)" by simp_all
  show ?case
  proof (cases "msg_role m = ASSISTANT")
    case True
    let ?new = "\<lparr>td_turn_index = t + 1, td_message_indices = [length pre],
      td_tool_names = map tc_name (msg_tool_calls m), td_tool_call_ids = map tc_id (msg_tool_calls m)\<rparr>"
    have "td_ok (pre @ m # ms) (Suc (length pre)) ?new"
      using True by (simp add: td_ok_def nth_append)
    then have "list_all (td_ok (pre @ m # ms) (length (pre @ m # ms)))
        (turn_loop (Suc (length pre)) (t + 1) (Some ?new) ms)"
      using Cons.IH [where cur = "Some ?new" and pre = "pre @ [m]" and t = "t + 1"] by (simp add: eq)
    moreover have "list_all (td_ok (pre @ m # ms) (length (pre @ m # ms)))
        (case cur of None \<Rightarrow> [] | Some d \<Rightarrow> [d])"
      using Cons.prems by (fastforce simp: td_ok_def split: option.splits)
    ultimately show ?thesis using True by simp
  next
    case False
    show ?thesis
    proof (cases "cur \<noteq> None \<and> msg_role m = TOOL")
      case True
      then obtain d where d: "cur = Some d" by auto
      have "td_ok (pre @ m # ms) (Suc (length pre))
          (d\<lparr>td_message_indices := td_message_indices d @ [length pre]\<rparr>)"
        using Cons.prems True d by (auto simp: td_ok_def nth_append)
      with True False d Cons.IH [where pre = "pre @ [m]" and t = t
          and cur = "Some (d\<lparr>td_message_indices := td_message_indices d @ [length pre]\<rparr>)"] show ?thesis by (simp add: eq)
    next
      case no: False
      have "case cur of None \<Rightarrow> True | Some d \<Rightarrow> td_ok (pre @ m # ms) (Suc (length pre)) d"
        using Cons.prems by (fastforce simp: td_ok_def split: option.splits)
      then have "list_all (td_ok (pre @ m # ms) (length (pre @ m # ms)))
          (turn_loop (Suc (length pre)) t cur ms)"
        using Cons.IH [where cur = cur and pre = "pre @ [m]" and t = t, unfolded eq] by blast
      moreover have "turn_loop (length pre) t cur (m # ms) = turn_loop (Suc (length pre)) t cur ms"
        using no False by auto
      ultimately show ?thesis by simp
    qed
  qed
qed

text \<open>The indices of the assistant and tool messages from the first assistant message on.\<close>

definition turn_message_indices :: "Message list \<Rightarrow> nat list" where
  "turn_message_indices ms = map fst (filter (turn_message \<circ> snd)
     (dropWhile (\<lambda>x. msg_role (snd x) \<noteq> ASSISTANT) (enumerate 0 ms)))"

lemma build_turn_ranges_indices:
  "concat (map trs_message_indices (build_turn_ranges ms)) = map int (turn_message_indices ms)"
proof -
  have "concat (map trs_message_indices (map finalize_turn_range ds)) =
      map int (concat (map td_message_indices ds))" for ds
    by (induction ds) (simp_all add: finalize_turn_range_def)
  then show ?thesis
    by (simp only: build_turn_ranges_def turn_loop_None_indices turn_message_indices_def)
qed

lemma build_turn_ranges_turns:
  "map trs_turn_index (build_turn_ranges ms) = map int [1..<assistants ms + 1]"
proof -
  have "map trs_turn_index (build_turn_ranges ms) = map int (map td_turn_index (turn_loop 0 0 None ms))"
    by (simp add: build_turn_ranges_def finalize_turn_range_def)
  then show ?thesis by (simp only: turn_loop_None_turns) simp
qed

lemma sorted_filter_enumerate:
  "sorted (map fst (filter P (dropWhile Q (enumerate i ms))))"
  "distinct (map fst (filter P (dropWhile Q (enumerate i ms))))"
proof -
  have "sorted_wrt (<) (map fst (enumerate i ms))" by (simp add: sorted_wrt_upt)
  moreover have "dropWhile Q (enumerate i ms) = drop (length (takeWhile Q (enumerate i ms))) (enumerate i ms)"
    by (rule dropWhile_eq_drop)
  ultimately have "sorted_wrt (<) (map fst (dropWhile Q (enumerate i ms)))"
    by (simp add: drop_map [symmetric] sorted_wrt_drop)
  then have "sorted_wrt (<) (map fst (filter P (dropWhile Q (enumerate i ms))))"
    by (simp add: sorted_wrt_map sorted_wrt_filter)
  then show "sorted (map fst (filter P (dropWhile Q (enumerate i ms))))"
    "distinct (map fst (filter P (dropWhile Q (enumerate i ms))))"
    by (simp_all add: strict_sorted_iff)
qed

lemma turn_message_indices_sorted:
  "sorted (turn_message_indices ms)" "distinct (turn_message_indices ms)"
  unfolding turn_message_indices_def by (rule sorted_filter_enumerate)+

lemma turn_message_indices_bound:
  "i \<in> set (turn_message_indices ms) \<Longrightarrow> i < length ms \<and> turn_message (ms ! i)"
proof -
  assume "i \<in> set (turn_message_indices ms)"
  then obtain m where "(i, m) \<in> set (dropWhile (\<lambda>x. msg_role (snd x) \<noteq> ASSISTANT) (enumerate 0 ms))"
    and m: "turn_message m"
    by (auto simp: turn_message_indices_def)
  then have "(i, m) \<in> set (enumerate 0 ms)" by (meson set_dropWhileD)
  with m show ?thesis by (auto simp: in_set_enumerate_eq)
qed

text \<open>The turn ranges of a history cut it into whole turns: together they hold exactly the
  assistant and tool messages from the first assistant message on, in order and without overlap;
  they are numbered 1, 2, ... by position; and each starts with its one assistant message, the
  rest being tool messages.\<close>

theorem build_turn_ranges_partition:
  "let rs = build_turn_ranges ms
   in concat (map trs_message_indices rs) = map int (turn_message_indices ms) \<and>
      sorted_wrt (<) (turn_message_indices ms) \<and>
      map trs_turn_index rs = map int [1..<assistants ms + 1] \<and>
      list_all (\<lambda>r. trs_message_indices r \<noteq> [] \<and> trs_start_index r = hd (trs_message_indices r) \<and>
        trs_end_index r = last (trs_message_indices r) \<and>
        msg_role (ms ! nat (trs_start_index r)) = ASSISTANT \<and>
        list_all (\<lambda>j. msg_role (ms ! nat j) = TOOL) (tl (trs_message_indices r))) rs"
proof -
  have "list_all (\<lambda>r. trs_message_indices r \<noteq> [] \<and> trs_start_index r = hd (trs_message_indices r) \<and>
        trs_end_index r = last (trs_message_indices r) \<and>
        msg_role (ms ! nat (trs_start_index r)) = ASSISTANT \<and>
        list_all (\<lambda>j. msg_role (ms ! nat j) = TOOL) (tl (trs_message_indices r))) (build_turn_ranges ms)"
    using turn_loop_ok [where cur = None and pre = "[]" and ms = ms and t = 0]
    by (auto simp: build_turn_ranges_def list_all_iff finalize_turn_range_def td_ok_def hd_map
        last_map map_tl [symmetric])
  then show ?thesis
    using build_turn_ranges_turns build_turn_ranges_indices turn_message_indices_sorted
    by (simp add: Let_def strict_sorted_iff)
qed

subsection \<open>Replacing turns by a summary\<close>

lemma splice_summary_True:
  "splice_summary c s True i ms = map snd (filter (\<lambda>x. int (fst x) \<notin> set c) (enumerate i ms))"
  by (induction ms arbitrary: i) simp_all

lemma splice_summary_False:
  "splice_summary c s False i ms =
     map snd (takeWhile (\<lambda>x. int (fst x) \<notin> set c) (enumerate i ms)) @
     (case dropWhile (\<lambda>x. int (fst x) \<notin> set c) (enumerate i ms) of
        [] \<Rightarrow> [] | x # xs \<Rightarrow> s # map snd (filter (\<lambda>x. int (fst x) \<notin> set c) xs))"
  by (induction ms arbitrary: i) (simp_all add: splice_summary_True)

lemma enumerate_nth: "enumerate 0 ms = map (\<lambda>i. (i, ms ! i)) [0..<length ms]"
  by (intro nth_equalityI) (simp_all add: nth_enumerate_eq)

lemma splice_at:
  assumes "h < length ms" and "int h \<in> set c" and "\<forall>i<h. int i \<notin> set c"
  shows "splice_summary c s False 0 ms = map (\<lambda>i. ms ! i) [0..<h] @
    s # map (\<lambda>i. ms ! i) (filter (\<lambda>i. int i \<notin> set c) [Suc h..<length ms])"
proof -
  let ?P = "\<lambda>x. int (fst x) \<notin> set c"
  have "[0..<length ms] = [0..<h] @ h # [Suc h..<length ms]"
    using assms(1) by (metis le_eq_less_or_eq less_imp_le upt_add_eq_append upt_conv_Cons zero_le
        le_add_diff_inverse)
  then have e: "enumerate 0 ms = map (\<lambda>i. (i, ms ! i)) [0..<h] @
      (h, ms ! h) # map (\<lambda>i. (i, ms ! i)) [Suc h..<length ms]"
    by (simp add: enumerate_nth)
  have "takeWhile ?P (enumerate 0 ms) = map (\<lambda>i. (i, ms ! i)) [0..<h]"
    "dropWhile ?P (enumerate 0 ms) = (h, ms ! h) # map (\<lambda>i. (i, ms ! i)) [Suc h..<length ms]"
    using assms(2,3) unfolding e by (auto simp: takeWhile_append dropWhile_append)
  then show ?thesis by (simp add: splice_summary_False filter_map comp_def)
qed

definition fits :: "RuntimeSessionState \<Rightarrow> int \<Rightarrow> Message list \<Rightarrow> selection_limits
    \<Rightarrow> TurnRangeSummary list \<Rightarrow> bool" where
  "fits s t ms l ranges = within_limits l (att_selected (compaction_attempt s t ms ranges))"

lemma compaction_prefix_Cons:
  "compaction_prefix s t ms l ranges (c # cs) =
     (if fits s t ms l (ranges @ [c]) then ranges @ [c]
      else compaction_prefix s t ms l (ranges @ [c]) cs)"
  by (simp add: fits_def Let_def)

lemma compaction_prefix_greedy:
  "\<exists>k\<le>length cs. compaction_prefix s t ms l ranges cs = ranges @ take k cs \<and>
     (cs \<noteq> [] \<longrightarrow> 0 < k) \<and>
     (\<forall>j. 0 < j \<longrightarrow> j < k \<longrightarrow> \<not> fits s t ms l (ranges @ take j cs)) \<and>
     (k < length cs \<longrightarrow> fits s t ms l (ranges @ take k cs))"
proof (induction cs arbitrary: ranges)
  case (Cons c cs)
  show ?case
  proof (cases "fits s t ms l (ranges @ [c])")
    case True
    then have "compaction_prefix s t ms l ranges (c # cs) = ranges @ take 1 (c # cs)"
      by (simp add: compaction_prefix_Cons del: compaction_prefix.simps)
    with True show ?thesis by (intro exI [of _ 1]) auto
  next
    case False
    obtain k where k: "k \<le> length cs"
      "compaction_prefix s t ms l (ranges @ [c]) cs = (ranges @ [c]) @ take k cs"
      "cs \<noteq> [] \<longrightarrow> 0 < k"
      "\<forall>j. 0 < j \<longrightarrow> j < k \<longrightarrow> \<not> fits s t ms l ((ranges @ [c]) @ take j cs)"
      "k < length cs \<longrightarrow> fits s t ms l ((ranges @ [c]) @ take k cs)"
      using Cons.IH [of "ranges @ [c]"] by auto
    have least: "\<not> fits s t ms l (ranges @ take j (c # cs))" if "0 < j" "j < Suc k" for j
    proof (cases "j = 1")
      case j: False
      with that obtain i where i: "j = Suc i" "0 < i" "i < k" by (cases j) auto
      then have "\<not> fits s t ms l ((ranges @ [c]) @ take i cs)" using k(4) by blast
      then show ?thesis using i by simp
    qed (use False in simp)
    have "compaction_prefix s t ms l ranges (c # cs) = ranges @ take (Suc k) (c # cs)"
      using False k(2) by (simp only: compaction_prefix_Cons if_False) simp
    moreover have "Suc k < length (c # cs) \<longrightarrow> fits s t ms l (ranges @ take (Suc k) (c # cs))"
      using k(5) by simp
    ultimately show ?thesis using least k(1) by (intro exI [of _ "Suc k"]) simp
  qed
qed simp

lemma filter_sorted_less:
  "sorted (map f xs) \<Longrightarrow> filter (\<lambda>x. f x < (p :: int)) xs = takeWhile (\<lambda>x. f x < p) xs"
proof (induction xs)
  case (Cons a xs)
  show ?case
  proof (cases "f a < p")
    case False
    with Cons.prems have "filter (\<lambda>x. f x < p) xs = []" by (fastforce simp: filter_empty_conv)
    with False show ?thesis by simp
  qed (use Cons in simp)
qed simp

lemma build_turn_ranges_sorted:
  "sorted (map trs_turn_index (build_turn_ranges ms))"
  by (simp only: build_turn_ranges_turns) (simp add: sorted_map del: upt_Suc)

lemma candidate_ranges_take:
  "\<exists>k. candidate_ranges s ms = take k (build_turn_ranges ms)"
proof (cases "preserve_from_turn s")
  case (Some p)
  then have "candidate_ranges s ms = takeWhile (\<lambda>r. trs_turn_index r < p) (build_turn_ranges ms)"
    by (simp add: candidate_ranges_def filter_sorted_less build_turn_ranges_sorted)
  then show ?thesis by (metis takeWhile_eq_take)
next
  case None
  then show ?thesis
    by (auto simp: candidate_ranges_def intro: exI [of _ "length (build_turn_ranges ms)"])
qed

lemma compacted_prefix_of_turns:
  "\<exists>m. compacted_indices (take k (build_turn_ranges ms)) = map int (take m (turn_message_indices ms))"
proof -
  have "map int (turn_message_indices ms) = compacted_indices (take k (build_turn_ranges ms)) @
      concat (map trs_message_indices (drop k (build_turn_ranges ms)))"
    unfolding compacted_indices_def build_turn_ranges_indices [symmetric]
    by (metis append_take_drop_id concat_append map_append)
  then have "compacted_indices (take k (build_turn_ranges ms)) =
      take (length (compacted_indices (take k (build_turn_ranges ms)))) (map int (turn_message_indices ms))"
    by simp
  then show ?thesis by (metis take_map)
qed

lemma compacted_indices_props:
  "sorted_wrt (<) (compacted_indices (take k (build_turn_ranges ms)))"
  "list_all (\<lambda>j. 0 \<le> j \<and> nat j < length ms \<and> turn_message (ms ! nat j))
     (compacted_indices (take k (build_turn_ranges ms)))"
proof -
  obtain m where m: "compacted_indices (take k (build_turn_ranges ms)) = map int (take m (turn_message_indices ms))"
    using compacted_prefix_of_turns by blast
  have "sorted_wrt (<) (take m (turn_message_indices ms))"
    using turn_message_indices_sorted [of ms] by (simp add: strict_sorted_iff sorted_wrt_take)
  then show "sorted_wrt (<) (compacted_indices (take k (build_turn_ranges ms)))"
    by (simp add: m sorted_wrt_map)
  show "list_all (\<lambda>j. 0 \<le> j \<and> nat j < length ms \<and> turn_message (ms ! nat j))
     (compacted_indices (take k (build_turn_ranges ms)))"
    using turn_message_indices_bound by (auto simp: m list_all_iff dest: in_set_takeD)
qed

lemma turn_range_nonempty: "r \<in> set (build_turn_ranges ms) \<Longrightarrow> trs_message_indices r \<noteq> []"
  using turn_loop_ok [where cur = None and pre = "[]" and ms = ms and t = 0]
  by (auto simp: build_turn_ranges_def list_all_iff finalize_turn_range_def td_ok_def)

text \<open>The ranges the loop over the candidates stops with.\<close>

abbreviation chosen_ranges :: "RuntimeSessionState \<Rightarrow> int \<Rightarrow> Message list \<Rightarrow> selection_limits
    \<Rightarrow> TurnRangeSummary list" where
  "chosen_ranges s n ms l \<equiv> compaction_prefix s n ms l [] (candidate_ranges s ms)"

lemma chosen_ranges_take:
  "\<exists>k. chosen_ranges s n ms l = take k (build_turn_ranges ms)"
proof -
  obtain k where "chosen_ranges s n ms l = take k (candidate_ranges s ms)"
    using compaction_prefix_greedy [where ranges = "[]"] by (metis append_Nil)
  then show ?thesis using candidate_ranges_take by (metis take_take)
qed

lemma chosen_ranges_nonempty:
  assumes "candidate_ranges s ms \<noteq> []"
  shows "chosen_ranges s n ms l \<noteq> []" "compacted_indices (chosen_ranges s n ms l) \<noteq> []"
proof -
  show ne: "chosen_ranges s n ms l \<noteq> []"
    using compaction_prefix_greedy [where ranges = "[]" and cs = "candidate_ranges s ms" and s = s
        and t = n and ms = ms and l = l] assms by auto
  have "set (chosen_ranges s n ms l) \<subseteq> set (build_turn_ranges ms)"
    using chosen_ranges_take by (metis set_take_subset)
  with ne show "compacted_indices (chosen_ranges s n ms l) \<noteq> []"
    using turn_range_nonempty by (cases "chosen_ranges s n ms l") (auto simp: compacted_indices_def)
qed

lemma select_deterministic_compacts:
  "sel_compaction_artifact (select_deterministic_compaction ms l session t) \<noteq> None \<longleftrightarrow>
     (\<exists>s n. session = Some s \<and> t = Some n \<and> \<not> within_limits l ms \<and> candidate_ranges s ms \<noteq> [])"
  using chosen_ranges_nonempty
  by (auto simp: select_deterministic_compaction_def Let_def keep_all_def compaction_result_def
      candidate_ranges_def split: option.splits)

lemma select_deterministic_result:
  assumes "candidate_ranges s ms \<noteq> []" and "\<not> within_limits l ms"
  shows "select_deterministic_compaction ms l (Some s) (Some n) =
    compaction_result s n ms l (candidate_ranges s ms) (chosen_ranges s n ms l)"
proof -
  have "build_turn_ranges ms \<noteq> []" using assms by (auto simp: candidate_ranges_def)
  moreover have "(message_count_allows ms (lim_max_messages l) \<and> tokens_allow l ms) = False" using assms(2) by simp
  ultimately show ?thesis
    using assms chosen_ranges_nonempty [OF assms(1)]
    by (simp only: select_deterministic_compaction_def Let_def option.case prod.case bool.case if_False)
qed

lemma compaction_attempt_selected:
  "att_selected (compaction_attempt s n ms rs) =
     splice_summary (compacted_indices rs) (att_summary (compaction_attempt s n ms rs)) False 0 ms"
  by (simp add: compaction_attempt_def Let_def)

lemma compaction_result_artifact:
  assumes "rs = take k (build_turn_ranges ms)"
  shows "sel_compaction_artifact (compaction_result s n ms l cs rs) = Some a \<Longrightarrow>
     art_candidate_turn_ranges a = rs \<and> art_compacted_message_indices a = compacted_indices rs \<and>
     art_pinned_message_indices a = map int (pinned_indices ms) \<and>
     art_retained_message_indices a =
       map int (filter (\<lambda>i. int i \<notin> set (compacted_indices rs)) [0..<length ms]) \<and>
     sel_synthetic_summary_message (compaction_result s n ms l cs rs) =
       Some (att_summary (compaction_attempt s n ms rs)) \<and>
     sel_selected_messages (compaction_result s n ms l cs rs) =
       splice_summary (compacted_indices rs) (att_summary (compaction_attempt s n ms rs)) False 0 ms \<and>
     art_estimated_tokens_after a =
       estimate_messages_tokens (sel_selected_messages (compaction_result s n ms l cs rs)) \<and>
     (art_overflow_reason a = None \<longleftrightarrow> tokens_allow l (sel_selected_messages (compaction_result s n ms l cs rs)))"
proof -
  have "sorted (compacted_indices rs)" "distinct (compacted_indices rs)"
    using compacted_indices_props(1) by (auto simp: assms strict_sorted_iff)
  then have "sort (remdups (compacted_indices rs)) = compacted_indices rs"
    by (simp add: sorted_sort_id distinct_remdups_id)
  moreover assume "sel_compaction_artifact (compaction_result s n ms l cs rs) = Some a"
  ultimately show ?thesis
    by (auto simp: compaction_result_def compaction_attempt_selected Let_def split: if_splits)
qed

lemma compaction_result_context:
  assumes "rs = take k (build_turn_ranges ms)"
  shows "cs_included_message_indices (sel_context_selection (compaction_result s n ms l cs rs)) =
      map int (filter (\<lambda>i. int i \<notin> set (compacted_indices rs)) [0..<length ms])"
    "cs_compacted_message_count (sel_context_selection (compaction_result s n ms l cs rs)) =
      int (length (compacted_indices rs))"
proof -
  have "sorted (compacted_indices rs)" "distinct (compacted_indices rs)"
    using compacted_indices_props(1) by (auto simp: assms strict_sorted_iff)
  then have "sort (remdups (compacted_indices rs)) = compacted_indices rs"
    by (simp add: sorted_sort_id distinct_remdups_id)
  then show "cs_included_message_indices (sel_context_selection (compaction_result s n ms l cs rs)) =
      map int (filter (\<lambda>i. int i \<notin> set (compacted_indices rs)) [0..<length ms])"
    "cs_compacted_message_count (sel_context_selection (compaction_result s n ms l cs rs)) =
      int (length (compacted_indices rs))"
    by (simp_all add: compaction_result_def build_context_selection_def Let_def)
qed

lemma summary_role [simp]: "msg_role (att_summary (compaction_attempt s n ms rs)) = SYSTEM"
  by (simp add: compaction_attempt_def summary_message_def plain_message_def Let_def)

lemma pinned_not_turn: "pinned m \<longleftrightarrow> \<not> turn_message m"
  by (cases "msg_role m") (auto simp: pinned_def turn_message_def)

text \<open>C11: whenever the deterministic policy compacts, what it removes is safe to remove: the
  compacted indices are a strictly increasing list of positions of assistant and tool messages,
  never of a system or user message; the retained indices are all the others; and the selected
  messages are the retained ones in their order with one system message, the summary, standing
  where the first compacted message stood.\<close>

theorem compaction_keeps_pinned_messages:
  assumes "sel_compaction_artifact (select_deterministic_compaction ms l session t) = Some a"
  shows "let r = select_deterministic_compaction ms l session t;
             c = art_compacted_message_indices a; h = nat (hd c)
         in c \<noteq> [] \<and> sorted_wrt (<) c \<and>
            list_all (\<lambda>j. 0 \<le> j \<and> nat j < length ms \<and> msg_role (ms ! nat j) \<in> {ASSISTANT, TOOL}) c \<and>
            art_retained_message_indices a = map int (filter (\<lambda>i. int i \<notin> set c) [0..<length ms]) \<and>
            set (map int (pinned_indices ms)) \<subseteq> set (art_retained_message_indices a) \<and>
            cs_included_message_indices (sel_context_selection r) = art_retained_message_indices a \<and>
            (\<exists>m. sel_synthetic_summary_message r = Some m \<and> msg_role m = SYSTEM \<and>
               sel_selected_messages r = map (\<lambda>i. ms ! i) [0..<h] @ m #
                 map (\<lambda>i. ms ! i) (filter (\<lambda>i. int i \<notin> set c) [Suc h..<length ms]))"
proof -
  obtain s n where sn: "session = Some s" "t = Some n" "\<not> within_limits l ms" "candidate_ranges s ms \<noteq> []"
    using assms select_deterministic_compacts [of ms l session t] by auto
  let ?rs = "chosen_ranges s n ms l"
  let ?c = "compacted_indices ?rs"
  let ?m = "att_summary (compaction_attempt s n ms ?rs)"
  obtain k where k: "?rs = take k (build_turn_ranges ms)" using chosen_ranges_take by blast
  have r: "select_deterministic_compaction ms l session t =
      compaction_result s n ms l (candidate_ranges s ms) ?rs"
    using select_deterministic_result sn by simp
  have c: "?c \<noteq> []" "sorted_wrt (<) ?c"
    "list_all (\<lambda>j. 0 \<le> j \<and> nat j < length ms \<and> turn_message (ms ! nat j)) ?c"
    using chosen_ranges_nonempty(2) [OF sn(4)] compacted_indices_props [where k = k and ms = ms, folded k] by blast+
  let ?h = "nat (hd ?c)"
  have h: "int ?h = hd ?c" "?h < length ms" "hd ?c \<in> set ?c"
    using c(1,3) by (simp_all add: list_all_iff)
  have "\<forall>i<?h. int i \<notin> set ?c"
  proof (intro allI impI notI)
    fix i assume "i < ?h" "int i \<in> set ?c"
    moreover have "\<forall>x\<in>set ?c. hd ?c \<le> x" using c(1,2) by (cases ?c) auto
    ultimately show False using h(1) by auto
  qed
  then have sp: "splice_summary ?c ?m False 0 ms = map (\<lambda>i. ms ! i) [0..<?h] @ ?m #
      map (\<lambda>i. ms ! i) (filter (\<lambda>i. int i \<notin> set ?c) [Suc ?h..<length ms])"
    using splice_at [of ?h ms ?c ?m] h by simp
  have pins: "set (map int (pinned_indices ms)) \<subseteq> set (map int (filter (\<lambda>i. int i \<notin> set ?c) [0..<length ms]))"
    using c(3) by (fastforce simp: pinned_indices_def pinned_not_turn list_all_iff)
  have "art_compacted_message_indices a = ?c" and
    "art_retained_message_indices a = map int (filter (\<lambda>i. int i \<notin> set ?c) [0..<length ms])" and
    "sel_synthetic_summary_message (compaction_result s n ms l (candidate_ranges s ms) ?rs) = Some ?m" and
    "sel_selected_messages (compaction_result s n ms l (candidate_ranges s ms) ?rs) = splice_summary ?c ?m False 0 ms"
    using compaction_result_artifact [OF k] assms unfolding r by blast+
  then show ?thesis
    using c pins sp compaction_result_context(1) [OF k]
    by (simp only: r Let_def turn_message_def) simp
qed


text \<open>C12: the deterministic policy compacts whole turns, oldest first and no more than it has to:
  the compacted ranges are the first turns of the history, all of them before the turn in which the
  pending issue was opened or the last successful validation ran; the history did not fit before;
  no shorter prefix of turns would have made the request fit; and the request fits now unless all
  the candidates are compacted.\<close>

theorem compaction_takes_shortest_prefix:
  assumes "sel_compaction_artifact (select_deterministic_compaction ms l (Some s) (Some n)) = Some a"
  shows "let rs = art_candidate_turn_ranges a
         in rs \<noteq> [] \<and> rs = take (length rs) (build_turn_ranges ms) \<and>
            art_compacted_message_indices a = concat (map trs_message_indices rs) \<and>
            list_all (\<lambda>r. case preserve_from_turn s of None \<Rightarrow> True | Some p \<Rightarrow> trs_turn_index r < p) rs \<and>
            \<not> within_limits l ms \<and>
            list_all (\<lambda>j. \<not> within_limits l (att_selected (compaction_attempt s n ms (take j rs))))
              [1..<length rs] \<and>
            (rs = candidate_ranges s ms \<or>
             within_limits l (sel_selected_messages (select_deterministic_compaction ms l (Some s) (Some n))))"
proof -
  have sn: "\<not> within_limits l ms" "candidate_ranges s ms \<noteq> []"
    using assms select_deterministic_compacts [of ms l "Some s" "Some n"] by auto
  let ?rs = "chosen_ranges s n ms l"
  let ?cs = "candidate_ranges s ms"
  obtain k where k: "?rs = take k (build_turn_ranges ms)" using chosen_ranges_take by blast
  obtain j where j: "j \<le> length ?cs" "?rs = take j ?cs" "0 < j"
    "\<forall>i. 0 < i \<longrightarrow> i < j \<longrightarrow> \<not> fits s n ms l (take i ?cs)"
    "j < length ?cs \<longrightarrow> fits s n ms l (take j ?cs)"
    using compaction_prefix_greedy [where ranges = "[]" and cs = ?cs and s = s and t = n and ms = ms
        and l = l] sn(2) by auto
  have r: "select_deterministic_compaction ms l (Some s) (Some n) = compaction_result s n ms l ?cs ?rs"
    using select_deterministic_result sn by simp
  have a: "art_candidate_turn_ranges a = ?rs" "art_compacted_message_indices a = compacted_indices ?rs"
    "sel_selected_messages (compaction_result s n ms l ?cs ?rs) =
      att_selected (compaction_attempt s n ms ?rs)"
    using compaction_result_artifact [OF k] assms unfolding r compaction_attempt_selected by blast+
  have "set ?rs \<subseteq> set ?cs" using j(2) by (metis set_take_subset)
  then have "list_all (\<lambda>r. case preserve_from_turn s of None \<Rightarrow> True | Some p \<Rightarrow> trs_turn_index r < p) ?rs"
    by (auto simp: list_all_iff candidate_ranges_def split: option.splits)
  moreover have "\<not> fits s n ms l (take i ?rs)" if "0 < i" "i < length ?rs" for i
    using that j by simp
  then have "list_all (\<lambda>j. \<not> within_limits l (att_selected (compaction_attempt s n ms (take j ?rs))))
      [1..<length ?rs]"
    by (simp add: list_all_iff fits_def)
  moreover have "?rs = ?cs \<or> within_limits l (att_selected (compaction_attempt s n ms ?rs))"
    using j by (cases "j < length ?cs") (auto simp: fits_def)
  moreover have "?rs = take (length ?rs) (build_turn_ranges ms)"
    using k by (metis length_take min.cobounded1 take_all_iff take_take min_def nle_le)
  moreover have "?rs \<noteq> []" using chosen_ranges_nonempty(1) [OF sn(2)] .
  ultimately show ?thesis
    using sn(1) unfolding Let_def a r by (simp only: compacted_indices_def) blast
qed

definition long_history :: "Message list" where
  "long_history = [plain_message SYSTEM ''rules'', plain_message USER ''task'',
     plain_message ASSISTANT ''one'', plain_message TOOL ''out'', plain_message ASSISTANT ''two'',
     plain_message TOOL ''out'', plain_message ASSISTANT ''three'']"

definition message_limit :: "int \<Rightarrow> selection_limits" where
  "message_limit n = \<lparr>lim_max_messages = Some n, lim_context_max_tokens = None,
     lim_tool_token_reserve = 0, lim_response_token_reserve = 0\<rparr>"

lemma long_history_compacts:
  "\<exists>a. sel_compaction_artifact (select_deterministic_compaction long_history (message_limit 6)
     (Some (fresh_session False default_policy)) (Some 4)) = Some a"
proof -
  have "st_active_pending_issue (fresh_session False default_policy) = None"
    "rs_last_successful_validation_turn (st_recovery_state (fresh_session False default_policy)) = None"
    by code_simp+
  then have "candidate_ranges (fresh_session False default_policy) long_history \<noteq> []"
    by (simp add: long_history_def candidate_ranges_def build_turn_ranges_def plain_message_def
        preserve_from_turn_def)
  moreover have "\<not> within_limits (message_limit 6) long_history"
    by (simp add: long_history_def message_limit_def message_count_allows_def)
  ultimately show ?thesis
    using select_deterministic_compacts [of long_history "message_limit 6" "Some (fresh_session False default_policy)" "Some 4"]
    by blast
qed

theorem compaction_keeps_pinned_messages_witness:
  "\<exists>a. art_compacted_message_indices a \<noteq> [] \<and> sorted_wrt (<) (art_compacted_message_indices a) \<and>
     sel_compaction_artifact (select_deterministic_compaction long_history (message_limit 6)
       (Some (fresh_session False default_policy)) (Some 4)) = Some a"
  using long_history_compacts compaction_keeps_pinned_messages unfolding Let_def by metis

theorem compaction_takes_shortest_prefix_witness:
  "\<exists>a. art_candidate_turn_ranges a \<noteq> [] \<and>
     sel_compaction_artifact (select_deterministic_compaction long_history (message_limit 6)
       (Some (fresh_session False default_policy)) (Some 4)) = Some a"
  using long_history_compacts compaction_takes_shortest_prefix unfolding Let_def by metis

subsection \<open>The tail window\<close>

definition tail_fits :: "Message list \<Rightarrow> selection_limits \<Rightarrow> int option \<Rightarrow> nat list \<Rightarrow> bool" where
  "tail_fits ms l capacity xs \<longleftrightarrow>
     (case capacity of None \<Rightarrow> True | Some c \<Rightarrow> int (length xs) \<le> c) \<and>
     tokens_allow l (map (\<lambda>i. ms ! i) (union_sorted (pinned_indices ms) xs))"

lemma tail_loop_Cons:
  "tail_loop ms l cap (i # xs) sel =
     tail_loop ms l cap xs (if tail_fits ms l cap (i # sel) then i # sel else sel)"
  by (auto simp: tail_fits_def Let_def split: option.splits)

lemma tail_loop_spec:
  assumes "sorted_wrt (>) xs" and "sorted_wrt (<) sel" and "\<forall>i\<in>set xs. \<forall>j\<in>set sel. i < j"
  shows "\<exists>ys. tail_loop ms l cap xs sel = ys @ sel \<and> set ys \<subseteq> set xs \<and> sorted_wrt (<) (ys @ sel) \<and>
     (ys = [] \<or> tail_fits ms l cap (ys @ sel)) \<and>
     (\<forall>i\<in>set xs. i \<notin> set ys \<longrightarrow> \<not> tail_fits ms l cap (i # filter (\<lambda>j. i < j) (ys @ sel)))"
  using assms
proof (induction xs arbitrary: sel)
  case (Cons i xs)
  let ?sel = "if tail_fits ms l cap (i # sel) then i # sel else sel"
  have "sorted_wrt (<) ?sel" "\<forall>i\<in>set xs. \<forall>j\<in>set ?sel. i < j"
    using Cons.prems by auto
  with Cons.IH [of ?sel] Cons.prems(1) obtain ys where ys:
    "tail_loop ms l cap xs ?sel = ys @ ?sel" "set ys \<subseteq> set xs" "sorted_wrt (<) (ys @ ?sel)"
    "ys = [] \<or> tail_fits ms l cap (ys @ ?sel)"
    "\<forall>i\<in>set xs. i \<notin> set ys \<longrightarrow> \<not> tail_fits ms l cap (i # filter (\<lambda>j. i < j) (ys @ ?sel))"
    by auto
  have l: "tail_loop ms l cap (i # xs) sel = ys @ ?sel" using ys(1) by (simp only: tail_loop_Cons)
  show ?case
  proof (cases "tail_fits ms l cap (i # sel)")
    case True
    then show ?thesis using ys(2-5) l Cons.prems(1) by (intro exI [of _ "ys @ [i]"]) auto
  next
    case False
    have "filter (\<lambda>j. i < j) (ys @ sel) = sel"
      using ys(2) Cons.prems by (fastforce simp: filter_empty_conv filter_id_conv)
    then show ?thesis using ys(2-5) l False by (intro exI [of _ ys]) auto
  qed
qed simp

lemma union_sorted_props [simp]:
  "set (union_sorted a b) = set a \<union> set b" "sorted_wrt (<) (union_sorted a b)"
  by (simp_all add: union_sorted_def strict_sorted_iff)

lemma pins_props:
  "set (pinned_indices ms) = {i. i < length ms \<and> pinned (ms ! i)}"
  "set (non_pinned_indices ms) = {i. i < length ms \<and> \<not> pinned (ms ! i)}"
  "sorted_wrt (<) (pinned_indices ms)" "sorted_wrt (>) (rev (non_pinned_indices ms))"
  by (auto simp: pinned_indices_def non_pinned_indices_def sorted_wrt_filter sorted_wrt_rev)

lemma union_sorted_length:
  "distinct a \<Longrightarrow> distinct b \<Longrightarrow> set a \<inter> set b = {} \<Longrightarrow>
   length (union_sorted a b) = length a + length b"
  by (simp add: union_sorted_def distinct_remdups_id)

abbreviation tail_capacity :: "Message list \<Rightarrow> selection_limits \<Rightarrow> int option" where
  "tail_capacity ms l \<equiv> map_option (\<lambda>n. max (n - int (length (pinned_indices ms))) 0) (lim_max_messages l)"

definition tail_chosen :: "Message list \<Rightarrow> selection_limits \<Rightarrow> nat list" where
  "tail_chosen ms l = tail_loop ms l (tail_capacity ms l) (rev (non_pinned_indices ms)) []"

definition tail_included :: "Message list \<Rightarrow> selection_limits \<Rightarrow> nat list" where
  "tail_included ms l =
     (if lim_max_messages l = None \<and> lim_context_max_tokens l = None then [0..<length ms]
      else union_sorted (pinned_indices ms) (tail_chosen ms l))"

lemma select_tail_window_included:
  "cs_included_message_indices (sel_context_selection (select_tail_window ms l)) =
     map int (tail_included ms l)"
  "sel_selected_messages (select_tail_window ms l) = map (\<lambda>i. ms ! i) (tail_included ms l)"
  by (simp_all add: select_tail_window_def tail_included_def tail_chosen_def keep_all_def build_context_selection_def
      Let_def map_nth)

lemma tail_chosen_spec:
  "\<exists>ys. tail_chosen ms l = ys \<and> set ys \<subseteq> set (non_pinned_indices ms) \<and> sorted_wrt (<) ys \<and>
     (ys = [] \<or> tail_fits ms l (tail_capacity ms l) ys) \<and>
     (\<forall>i\<in>set (non_pinned_indices ms). i \<notin> set ys \<longrightarrow>
        \<not> tail_fits ms l (tail_capacity ms l) (i # filter (\<lambda>j. i < j) ys))"
  using tail_loop_spec [where sel = "[]" and xs = "rev (non_pinned_indices ms)"] pins_props(4)
  by (simp add: tail_chosen_def)

lemma tail_included_props:
  "sorted_wrt (<) (tail_included ms l)" "set (tail_included ms l) \<subseteq> {..<length ms}"
  "set (pinned_indices ms) \<subseteq> set (tail_included ms l)"
  using tail_chosen_spec [of ms l] pins_props
  by (auto simp: tail_included_def sorted_wrt_upt)

lemma tail_included_limits:
  "case lim_max_messages l of None \<Rightarrow> True
   | Some n \<Rightarrow> int (length (tail_included ms l)) \<le> max n (int (length (pinned_indices ms)))"
  "tail_included ms l = pinned_indices ms \<or> tokens_allow l (map (\<lambda>i. ms ! i) (tail_included ms l))"
proof -
  obtain ys where ys: "tail_chosen ms l = ys" "set ys \<subseteq> set (non_pinned_indices ms)" "sorted_wrt (<) ys"
    "ys = [] \<or> tail_fits ms l (tail_capacity ms l) ys"
    using tail_chosen_spec [of ms l] by blast
  have "distinct ys" "distinct (pinned_indices ms)" "set (pinned_indices ms) \<inter> set ys = {}"
    using ys(2,3) pins_props [of ms] by (auto simp: strict_sorted_iff)
  then have n: "length (union_sorted (pinned_indices ms) ys) = length (pinned_indices ms) + length ys"
    by (intro union_sorted_length)
  show "case lim_max_messages l of None \<Rightarrow> True
   | Some n \<Rightarrow> int (length (tail_included ms l)) \<le> max n (int (length (pinned_indices ms)))"
  proof (cases "lim_max_messages l")
    case (Some m)
    then have "tail_included ms l = union_sorted (pinned_indices ms) ys"
      by (simp add: tail_included_def ys(1))
    with Some n ys(4) show ?thesis by (auto simp: tail_fits_def)
  qed simp
  have "union_sorted (pinned_indices ms) [] = pinned_indices ms"
    using pins_props(3) [of ms] by (simp add: union_sorted_def sorted_sort_id distinct_remdups_id strict_sorted_iff)
  then show "tail_included ms l = pinned_indices ms \<or> tokens_allow l (map (\<lambda>i. ms ! i) (tail_included ms l))"
  proof (cases "lim_context_max_tokens l = None")
    case False
    then have "tail_included ms l = union_sorted (pinned_indices ms) ys"
      by (simp add: tail_included_def ys(1) del: not_None_eq)
    with \<open>union_sorted (pinned_indices ms) [] = pinned_indices ms\<close> ys(4) show ?thesis
      by (auto simp: tail_fits_def)
  qed (simp add: token_budget_allows_def)
qed

lemma tail_omitted:
  "list_all (\<lambda>i. \<not> tail_fits ms l (tail_capacity ms l)
       (i # filter (\<lambda>j. \<not> pinned (ms ! j) \<and> i < j) (tail_included ms l)))
     (filter (\<lambda>i. i \<notin> set (tail_included ms l)) [0..<length ms])"
proof (cases "lim_max_messages l = None \<and> lim_context_max_tokens l = None")
  case True
  then have "tail_included ms l = [0..<length ms]" by (simp add: tail_included_def)
  then show ?thesis by (simp add: list_all_iff)
next
  case False
  obtain ys where ys: "tail_chosen ms l = ys" "set ys \<subseteq> set (non_pinned_indices ms)" "sorted_wrt (<) ys"
    "\<forall>i\<in>set (non_pinned_indices ms). i \<notin> set ys \<longrightarrow>
        \<not> tail_fits ms l (tail_capacity ms l) (i # filter (\<lambda>j. i < j) ys)"
    using tail_chosen_spec [of ms l] by blast
  have inc: "tail_included ms l = union_sorted (pinned_indices ms) ys"
    unfolding tail_included_def ys(1) using False by auto
  have "sorted_wrt (<) (filter (\<lambda>j. \<not> pinned (ms ! j)) (tail_included ms l))"
    by (intro sorted_wrt_filter tail_included_props)
  moreover have "set (filter (\<lambda>j. \<not> pinned (ms ! j)) (tail_included ms l)) = set ys"
    using ys(2) pins_props(1,2) [of ms] by (auto simp: inc)
  ultimately have "filter (\<lambda>j. \<not> pinned (ms ! j)) (tail_included ms l) = ys"
    using ys(3) by (intro strict_sorted_equal) (auto simp: strict_sorted_iff)
  then have "filter (\<lambda>j. \<not> pinned (ms ! j) \<and> i < j) (tail_included ms l) = filter (\<lambda>j. i < j) ys" for i
    by (metis filter_filter conj_commute)
  then show ?thesis
    using ys(4) pins_props(1,2) [of ms] by (auto simp: list_all_iff inc)
qed

text \<open>C13: the tail window keeps every system and user message and, in order, the non-pinned
  messages it has room for, newest first: the selected messages are those at the included indices,
  their number exceeds the message limit only by pinned messages alone, the token budget holds
  unless nothing but the pinned messages is left, and a message is left out only when it and the
  newer ones that were kept would break a limit.\<close>

theorem tail_window_keeps_pins_within_limits:
  "let r = select_tail_window ms l; inc = tail_included ms l
   in cs_included_message_indices (sel_context_selection r) = map int inc \<and>
      sel_selected_messages r = map (\<lambda>i. ms ! i) inc \<and>
      sorted_wrt (<) inc \<and> set inc \<subseteq> {..<length ms} \<and> set (pinned_indices ms) \<subseteq> set inc \<and>
      (case lim_max_messages l of None \<Rightarrow> True
       | Some n \<Rightarrow> int (length (sel_selected_messages r)) \<le> max n (int (length (pinned_indices ms)))) \<and>
      (inc = pinned_indices ms \<or> tokens_allow l (sel_selected_messages r)) \<and>
      list_all (\<lambda>i. \<not> tail_fits ms l (tail_capacity ms l)
          (i # filter (\<lambda>j. \<not> pinned (ms ! j) \<and> i < j) inc))
        (filter (\<lambda>i. i \<notin> set inc) [0..<length ms])"
  unfolding Let_def select_tail_window_included length_map
  using tail_included_props tail_included_limits tail_omitted by (intro conjI; blast)

subsection \<open>The books of a selection\<close>

abbreviation counted :: "('k \<times> int) list \<Rightarrow> 'k \<Rightarrow> int" where
  "counted counts k \<equiv> (case map_of counts k of None \<Rightarrow> 0 | Some n \<Rightarrow> n)"

lemma counted_fold:
  "counted (fold (\<lambda>i. dict_count (f i)) xs counts) k =
     counted counts k + int (length (filter (\<lambda>i. f i = k) xs))"
proof (induction xs arbitrary: counts)
  case (Cons x xs)
  show ?case using Cons [of "dict_count (f x) counts"] by (simp add: map_of_dict_count)
qed simp

lemma Role_value_inject [simp]: "Role_value a = Role_value b \<longleftrightarrow> a = b"
  by (cases a; cases b) simp_all

definition balanced :: "Message list \<Rightarrow> selection_limits \<Rightarrow> nat list \<Rightarrow> Message list
    \<Rightarrow> ContextSelection \<Rightarrow> bool" where
  "balanced ms l inc selected sel \<longleftrightarrow>
     cs_included_message_indices sel = map int inc \<and>
     sorted_wrt (<) inc \<and> set inc \<subseteq> {..<length ms} \<and>
     int (length inc) + cs_omitted_message_count sel = int (length ms) \<and>
     cs_estimated_selected_tokens sel = estimate_messages_tokens selected \<and>
     cs_estimated_omitted_tokens sel = estimate_messages_tokens
       (map (\<lambda>i. ms ! i) (filter (\<lambda>i. i \<notin> set inc) [0..<length ms])) \<and>
     cs_token_budget_satisfied sel = tokens_allow l selected \<and>
     cs_token_overflow sel = (case lim_context_max_tokens l of None \<Rightarrow> 0
       | Some n \<Rightarrow> max 0 (cs_estimated_selected_tokens sel + lim_tool_token_reserve l
           + lim_response_token_reserve l - n)) \<and>
     (\<forall>r. counted (cs_included_role_counts sel) (Role_value r) =
        int (length (filter (\<lambda>m. msg_role m = r) (map (\<lambda>i. ms ! i) inc))))"

lemma build_context_selection_balanced:
  assumes "sorted_wrt (<) inc" and "set inc \<subseteq> {..<length ms}"
  shows "balanced ms l inc selected (build_context_selection ms selected policy l inc app reason n)"
proof -
  have "length inc \<le> length ms"
    using assms card_mono [of "{..<length ms}" "set inc"] by (simp add: strict_sorted_iff distinct_card)
  moreover have "token_overflow selected (lim_context_max_tokens l) (lim_tool_token_reserve l)
      (lim_response_token_reserve l) = 0 \<longleftrightarrow> tokens_allow l selected"
    by (auto simp: token_overflow_def token_budget_allows_def split: option.splits)
  ultimately show ?thesis using assms
    by (auto simp: balanced_def build_context_selection_def Let_def counted_fold filter_map comp_def
        estimate_messages_tokens_def token_overflow_def split: option.splits)
qed

lemma balanced_reason [simp]:
  "balanced ms l inc selected (sel\<lparr>cs_compaction_reason := x\<rparr>) = balanced ms l inc selected sel"
  "balanced ms l inc selected (sel\<lparr>cs_policy_mode := p\<rparr>) = balanced ms l inc selected sel"
  by (simp_all add: balanced_def split: option.split)

abbreviation books_balance :: "Message list \<Rightarrow> selection_limits \<Rightarrow> ContextSelectionResult \<Rightarrow> bool" where
  "books_balance ms l r \<equiv> balanced ms l (map nat (cs_included_message_indices (sel_context_selection r)))
     (sel_selected_messages r) (sel_context_selection r)"

lemma books_balanceI:
  assumes "balanced ms l inc (sel_selected_messages r) (sel_context_selection r)"
  shows "books_balance ms l r"
proof -
  have "map nat (cs_included_message_indices (sel_context_selection r)) = inc"
    using assms by (simp add: balanced_def comp_def)
  with assms show ?thesis by simp
qed

lemma keep_all_balance: "books_balance ms l (keep_all ms mode l planning)"
  by (intro books_balanceI [where inc = "[0..<length ms]"])
    (simp add: keep_all_def build_context_selection_balanced sorted_wrt_upt subset_eq)

lemma tail_window_balance: "books_balance ms l (select_tail_window ms l)"
proof (cases "lim_max_messages l = None \<and> lim_context_max_tokens l = None")
  case True
  then have "\<exists>p. select_tail_window ms l = keep_all ms CPM_TAIL_WINDOW l p"
    by (auto simp: select_tail_window_def)
  then show ?thesis using keep_all_balance by metis
next
  case False
  then have "tail_included ms l = union_sorted (pinned_indices ms) (tail_chosen ms l)"
    unfolding tail_included_def by (rule if_not_P)
  then have eq: "union_sorted (pinned_indices ms) (tail_chosen ms l) = tail_included ms l" ..
  show ?thesis
    unfolding select_tail_window_def Let_def if_not_P [OF False] tail_chosen_def [symmetric] eq
    by (intro books_balanceI [where inc = "tail_included ms l"])
      (simp add: build_context_selection_balanced tail_included_props)
qed

lemma select_deterministic_balance: "books_balance ms l (select_deterministic_compaction ms l session t)"
proof (cases "sel_compaction_artifact (select_deterministic_compaction ms l session t)")
  case None
  then have "\<exists>p. select_deterministic_compaction ms l session t = keep_all ms CPM_DETERMINISTIC_COMPACTION l p"
    by (auto simp: select_deterministic_compaction_def Let_def keep_all_def compaction_result_def
        split: option.splits if_splits)
  then show ?thesis using keep_all_balance by metis
next
  case (Some a)
  then obtain s n where sn: "session = Some s" "t = Some n" "\<not> within_limits l ms" "candidate_ranges s ms \<noteq> []"
    using select_deterministic_compacts [of ms l session t] by auto
  let ?cs = "candidate_ranges s ms" and ?rs = "chosen_ranges s n ms l"
  have "balanced ms l (filter (\<lambda>i. int i \<notin> set (compacted_indices ?rs)) [0..<length ms])
      (sel_selected_messages (compaction_result s n ms l ?cs ?rs))
      (sel_context_selection (compaction_result s n ms l ?cs ?rs))"
    by (simp add: compaction_result_def Let_def build_context_selection_balanced sorted_wrt_filter
        sorted_wrt_upt subset_eq)
  then show ?thesis
    using select_deterministic_result [OF sn(4,3)] sn by (metis books_balanceI)
qed

subsection \<open>The plan of a request\<close>

fun policy_text :: "ContextPolicyMode enum_arg \<Rightarrow> string" where
  "policy_text (Member m) = ContextPolicyMode_value m"
| "policy_text (Text t) = t"

lemma ContextPolicyMode_of_str_cases:
  "case ContextPolicyMode_of_str t of
     Inl e \<Rightarrow> t \<notin> range ContextPolicyMode_value \<and> e = py_repr_str t @ '' is not a valid ContextPolicyMode''
   | Inr m \<Rightarrow> t = ContextPolicyMode_value m"
proof (cases "find (\<lambda>m. ContextPolicyMode_value m = t)
    [CPM_FULL_HISTORY, CPM_TAIL_WINDOW, CPM_DETERMINISTIC_COMPACTION, CPM_MODEL_BACKED_COMPACTION]")
  case None
  have "t \<noteq> ContextPolicyMode_value m" for m
    using None by (cases m) (auto simp: find_None_iff)
  then show ?thesis using None by (auto simp: ContextPolicyMode_of_str_def)
next
  case (Some m)
  then show ?thesis by (auto simp: ContextPolicyMode_of_str_def split: if_splits)
qed

lemma normalize_policy_mode_cases:
  "case normalize_policy_mode policy of
     Inl e \<Rightarrow> policy_text policy \<notin> range ContextPolicyMode_value \<and>
       e = py_repr_str (policy_text policy) @ '' is not a valid ContextPolicyMode''
   | Inr m \<Rightarrow> policy_text policy = ContextPolicyMode_value m"
proof (cases policy)
  case (Text t)
  show ?thesis
    unfolding Text normalize_policy_mode_def enum_arg.case policy_text.simps
    by (rule ContextPolicyMode_of_str_cases)
qed (simp add: normalize_policy_mode_def)

definition compaction_sound :: "Message list \<Rightarrow> selection_limits \<Rightarrow> ContextSelectionResult \<Rightarrow> bool" where
  "compaction_sound ms l r \<longleftrightarrow> books_balance ms l r \<and>
     (case sel_compaction_artifact r of
        None \<Rightarrow> sel_synthetic_summary_message r = None \<and> sel_selected_messages r =
          map (\<lambda>i. ms ! nat i) (cs_included_message_indices (sel_context_selection r))
      | Some a \<Rightarrow> art_carried_forward_state a \<noteq> None \<and>
          (\<exists>m. sel_synthetic_summary_message r = Some m \<and> msg_role m = SYSTEM \<and>
             sel_selected_messages r = splice_summary (art_compacted_message_indices a) m False 0 ms) \<and>
          art_compacted_message_indices a \<noteq> [] \<and> sorted_wrt (<) (art_compacted_message_indices a) \<and>
          cs_included_message_indices (sel_context_selection r) =
            map int (filter (\<lambda>i. int i \<notin> set (art_compacted_message_indices a)) [0..<length ms]) \<and>
          list_all (\<lambda>j. 0 \<le> j \<and> nat j < length ms \<and> turn_message (ms ! nat j)) (art_compacted_message_indices a))"

lemma keep_all_sound: "compaction_sound ms l (keep_all ms mode l planning)"
  using keep_all_balance by (simp add: compaction_sound_def)
    (simp add: keep_all_def build_context_selection_def Let_def comp_def map_nth)

lemma select_deterministic_sound: "compaction_sound ms l (select_deterministic_compaction ms l session t)"
proof (cases "sel_compaction_artifact (select_deterministic_compaction ms l session t)")
  case None
  then have "\<exists>p. select_deterministic_compaction ms l session t = keep_all ms CPM_DETERMINISTIC_COMPACTION l p"
    by (auto simp: select_deterministic_compaction_def Let_def keep_all_def compaction_result_def
        split: option.splits if_splits)
  then show ?thesis using keep_all_sound by metis
next
  case (Some a)
  then obtain s n where sn: "session = Some s" "t = Some n" "\<not> within_limits l ms" "candidate_ranges s ms \<noteq> []"
    using select_deterministic_compacts [of ms l session t] by auto
  let ?cs = "candidate_ranges s ms" and ?rs = "chosen_ranges s n ms l"
  obtain k where k: "?rs = take k (build_turn_ranges ms)" using chosen_ranges_take by blast
  have r: "select_deterministic_compaction ms l session t = compaction_result s n ms l ?cs ?rs"
    using select_deterministic_result sn by simp
  have "art_compacted_message_indices a = compacted_indices ?rs \<and>
      (\<exists>m. sel_synthetic_summary_message (compaction_result s n ms l ?cs ?rs) = Some m \<and>
        msg_role m = SYSTEM \<and> sel_selected_messages (compaction_result s n ms l ?cs ?rs) =
          splice_summary (compacted_indices ?rs) m False 0 ms)"
    using compaction_result_artifact [OF k] Some unfolding r by (metis summary_role)
  moreover have "art_carried_forward_state a \<noteq> None"
    using Some unfolding r by (auto simp: compaction_result_def Let_def)
  moreover have "list_all (\<lambda>j. 0 \<le> j \<and> nat j < length ms \<and> turn_message (ms ! nat j)) (compacted_indices ?rs)"
    "sorted_wrt (<) (compacted_indices ?rs)"
    unfolding k by (rule compacted_indices_props)+
  moreover have "compacted_indices ?rs \<noteq> []" using chosen_ranges_nonempty(2) [OF sn(4)] .
  ultimately show ?thesis
    using Some compaction_result_context(1) [OF k] select_deterministic_balance [of ms l session t]
    by (simp add: compaction_sound_def r)
qed

lemma tail_window_sound: "compaction_sound ms l (select_tail_window ms l)"
proof -
  have "sel_compaction_artifact (select_tail_window ms l) = None"
    "sel_synthetic_summary_message (select_tail_window ms l) = None"
    by (simp_all add: select_tail_window_def keep_all_def Let_def)
  then show ?thesis
    using tail_window_balance by (simp add: compaction_sound_def select_tail_window_included comp_def)
qed

lemma sound_policy [simp]:
  "compaction_sound ms l (r\<lparr>sel_context_selection := (sel_context_selection r)\<lparr>cs_policy_mode := p\<rparr>\<rparr>) =
     compaction_sound ms l r"
  "compaction_sound ms l (r\<lparr>sel_context_selection := (sel_context_selection r)\<lparr>cs_policy_mode := p\<rparr>,
       sel_compaction_artifact := map_option (\<lambda>a. a\<lparr>art_policy_mode := q\<rparr>) (sel_compaction_artifact r)\<rparr>) =
     compaction_sound ms l r"
  by (auto simp: compaction_sound_def split: option.splits)

lemma select_request_messages_sound:
  "case select_request_messages ms policy l session t of
     Inl e \<Rightarrow> normalize_policy_mode policy = Inl e
   | Inr r \<Rightarrow> is_ok (normalize_policy_mode policy) \<and> compaction_sound ms l r"
proof (cases "normalize_policy_mode policy")
  case (Inr mode)
  then show ?thesis
    by (cases mode) (simp_all add: select_request_messages_def Let_def select_deterministic_sound
        tail_window_sound select_full_history_def keep_all_sound)
qed (simp add: select_request_messages_def)

lemma mset_split_indices:
  assumes "list_all (\<lambda>j. 0 \<le> j \<and> nat j < length ms \<and> P (ms ! nat j)) c"
  shows "mset (map (\<lambda>i. ms ! i) (filter (\<lambda>i. int i \<in> set c) [0..<length ms])) +
     mset (map (\<lambda>i. ms ! i) (filter (\<lambda>i. int i \<notin> set c) [0..<length ms])) = mset ms"
    "list_all P (map (\<lambda>i. ms ! i) (filter (\<lambda>i. int i \<in> set c) [0..<length ms]))"
proof -
  have "mset (map (\<lambda>i. ms ! i) [0..<length ms]) = mset ms" by (simp add: map_nth)
  then show "mset (map (\<lambda>i. ms ! i) (filter (\<lambda>i. int i \<in> set c) [0..<length ms])) +
     mset (map (\<lambda>i. ms ! i) (filter (\<lambda>i. int i \<notin> set c) [0..<length ms])) = mset ms"
    by (simp only: mset_map mset_filter image_mset_union [symmetric] multiset_partition [symmetric])
  show "list_all P (map (\<lambda>i. ms ! i) (filter (\<lambda>i. int i \<in> set c) [0..<length ms]))"
    using assms by (force simp: list_all_iff)
qed

definition plan_books :: "Message list \<Rightarrow> selection_limits \<Rightarrow> ContextSelectionPlan \<Rightarrow> bool" where
  "plan_books ms l p \<longleftrightarrow>
     balanced ms l (map nat (cp_selected_request_item_indices p)) (cp_selected_messages p) (cp_context_selection p) \<and>
     cp_request_history_item_count_before_snapshot p = int (length ms) \<and>
     cp_selected_message_count_after_selection p = int (length (cp_selected_messages p)) \<and>
     cp_compaction_decision p = (if cs_compaction_applied (cp_context_selection p) then ''applied'' else ''skipped'') \<and>
     cp_replacement_summary_planned p = (cp_compaction_artifact p \<noteq> None) \<and>
     cp_carried_forward_state_planned p = (cp_compaction_artifact p \<noteq> None) \<and>
     (cp_synthetic_summary_message p \<noteq> None) = (cp_compaction_artifact p \<noteq> None)"

definition plan_partition :: "Message list \<Rightarrow> ContextSelectionPlan \<Rightarrow> bool" where
  "plan_partition ms p \<longleftrightarrow>
     (if cp_compaction_artifact p = None then compacted_messages_for_plan ms p = []
      else list_all turn_message (compacted_messages_for_plan ms p) \<and>
        mset (compacted_messages_for_plan ms p) +
          mset (map (\<lambda>i. ms ! nat i) (cp_selected_request_item_indices p)) = mset ms)"

lemma plan_of_result:
  assumes "compaction_sound ms l r" and "cp_selected_request_item_indices p =
      cs_included_message_indices (sel_context_selection r)"
    and "cp_compaction_artifact p = sel_compaction_artifact r"
  shows "plan_partition ms p"
proof (cases "sel_compaction_artifact r")
  case (Some a)
  let ?c = "art_compacted_message_indices a"
  have "list_all (\<lambda>j. 0 \<le> j \<and> nat j < length ms \<and> turn_message (ms ! nat j)) ?c"
    "cs_included_message_indices (sel_context_selection r) =
       map int (filter (\<lambda>i. int i \<notin> set ?c) [0..<length ms])"
    using assms(1) Some by (auto simp: compaction_sound_def)
  with mset_split_indices [of ms turn_message ?c] Some show ?thesis
    by (simp add: plan_partition_def compacted_messages_for_plan_def assms(2,3) comp_def)
qed (simp add: plan_partition_def compacted_messages_for_plan_def assms)

text \<open>A plan carries the result of a sound selection.\<close>

definition plan_result :: "Message list \<Rightarrow> selection_limits \<Rightarrow> ContextSelectionPlan \<Rightarrow> ContextSelectionResult \<Rightarrow> bool" where
  "plan_result ms l p r \<longleftrightarrow> compaction_sound ms l r \<and>
     cp_compaction_artifact p = sel_compaction_artifact r \<and>
     cp_synthetic_summary_message p = sel_synthetic_summary_message r \<and>
     cp_selected_messages p = sel_selected_messages r \<and>
     cp_selected_request_item_indices p = cs_included_message_indices (sel_context_selection r) \<and>
     (\<exists>x. cp_context_selection p = (sel_context_selection r)\<lparr>cs_policy_mode := x\<rparr>)"

lemma plan_request_context_result:
  assumes "plan_request_context ms policy l s n = Inr p"
  shows "\<exists>r. plan_result ms l p r"
proof (cases "normalize_policy_mode policy")
  case (Inl e)
  with assms show ?thesis by (simp add: plan_request_context_def)
next
  case (Inr mode)
  let ?policy = "if mode = CPM_MODEL_BACKED_COMPACTION then Member CPM_DETERMINISTIC_COMPACTION else policy"
  obtain r where r: "select_request_messages ms ?policy l (Some s) (Some n) = Inr r"
    using assms by (cases "select_request_messages ms ?policy l (Some s) (Some n)")
      (auto simp: plan_request_context_def Inr Let_def)
  then have "compaction_sound ms l r"
    using select_request_messages_sound [where ms = ms and policy = ?policy and l = l
        and session = "Some s" and t = "Some n"] by simp
  moreover have "cp_compaction_artifact p = sel_compaction_artifact r"
    "cp_synthetic_summary_message p = sel_synthetic_summary_message r"
    "cp_selected_messages p = sel_selected_messages r"
    "cp_selected_request_item_indices p = cs_included_message_indices (sel_context_selection r)"
    "cp_context_selection p = (sel_context_selection r)\<lparr>cs_policy_mode := ContextPolicyMode_value mode\<rparr>"
    using assms r by (auto simp: plan_request_context_def Inr Let_def)
  ultimately show ?thesis unfolding plan_result_def by metis
qed

text \<open>C14: a plan for a request is made exactly for the four policy names, any other text raises
  ValueError; whatever the policy, its books balance: the selected and omitted messages and their
  token estimates add up to the history, the overflow and the satisfied flag agree with the
  budget, roles are counted exactly, summary, carried state and artifact are planned together; and
  the messages handed to the compaction backend are assistant and tool messages which, with the
  retained ones, are the whole history.\<close>

theorem plan_request_context_balanced:
  "case plan_request_context ms policy l s n of
     Inl e \<Rightarrow> policy_text policy \<notin> range ContextPolicyMode_value \<and>
       e = py_repr_str (policy_text policy) @ '' is not a valid ContextPolicyMode''
   | Inr p \<Rightarrow> cp_policy_mode p = policy_text policy \<and> cp_turn_index p = n \<and>
       cs_policy_mode (cp_context_selection p) = policy_text policy \<and>
       plan_books ms l p \<and> plan_partition ms p"
proof (cases "normalize_policy_mode policy")
  case (Inl e)
  then show ?thesis
    using normalize_policy_mode_cases [of policy] by (simp add: plan_request_context_def)
next
  case (Inr mode)
  let ?policy = "if mode = CPM_MODEL_BACKED_COMPACTION then Member CPM_DETERMINISTIC_COMPACTION else policy"
  have "is_ok (normalize_policy_mode ?policy)" using Inr by (simp add: normalize_policy_mode_def is_ok_def)
  then obtain r where r: "select_request_messages ms ?policy l (Some s) (Some n) = Inr r"
    "compaction_sound ms l r"
    using select_request_messages_sound [where ms = ms and policy = ?policy and l = l and session = "Some s" and t = "Some n"]
    by (cases "select_request_messages ms ?policy l (Some s) (Some n)") (auto simp: is_ok_def)
  obtain p where p: "plan_request_context ms policy l s n = Inr p"
    by (simp add: plan_request_context_def Inr r(1) Let_def)
  have "sel_synthetic_summary_message r \<noteq> None \<longleftrightarrow> sel_compaction_artifact r \<noteq> None"
    "Option.bind (sel_compaction_artifact r) art_carried_forward_state \<noteq> None \<longleftrightarrow>
      sel_compaction_artifact r \<noteq> None" "books_balance ms l r"
    using r(2) by (auto simp: compaction_sound_def split: option.splits)
  moreover have "policy_text policy = ContextPolicyMode_value mode"
    using normalize_policy_mode_cases [of policy] by (simp add: Inr)
  moreover have "plan_partition ms p"
    using p by (intro plan_of_result [OF r(2)]) (auto simp: plan_request_context_def Inr r(1) Let_def)
  ultimately show ?thesis
    unfolding p using p
    by (auto simp: plan_request_context_def Inr r(1) Let_def plan_books_def simp del: not_None_eq
        ContextPolicyMode_value.simps)
qed

text \<open>A plan keeps its selection when the compaction backend is asked: falling back is accepted
  exactly for the inline backend, the deterministic policy and the five known failure kinds, every
  other argument raises ValueError, and only the fallback fields change; applying the backend's
  output replaces the rendered summary, the carried state and the synthetic message of a
  compacted plan, and leaves the selected messages, which still hold the deterministic summary,
  and their token estimates as they were.\<close>

theorem model_backed_keeps_selection:
  "(case apply_model_backed_fallback p backend policy reason kind of
      Inl e \<Rightarrow> \<not> (backend = ''inline_model'' \<and> policy = ''deterministic_compaction'' \<and>
        kind \<in> set model_backed_failure_kinds)
    | Inr q \<Rightarrow> backend = ''inline_model'' \<and> policy = ''deterministic_compaction'' \<and>
        kind \<in> set model_backed_failure_kinds \<and>
        q = p\<lparr>cp_model_backed_requested := True, cp_model_backed_used := False,
          cp_compaction_backend_mode := Some backend, cp_fallback_policy := Some policy,
          cp_fallback_applied := True, cp_fallback_reason := Some reason,
          cp_compaction_backend_failure_kind := Some kind\<rparr>) \<and>
   (let q = apply_model_backed_compaction_output p out mode
    in cp_selected_messages q = cp_selected_messages p \<and>
       cp_selected_request_item_indices q = cp_selected_request_item_indices p \<and>
       cs_estimated_selected_tokens (cp_context_selection q) =
         cs_estimated_selected_tokens (cp_context_selection p) \<and>
       cp_model_backed_used q = (if cp_compaction_artifact p = None then cp_model_backed_used p else True) \<and>
       compacted_messages_for_plan ms q = compacted_messages_for_plan ms p \<and>
       (case cp_compaction_artifact p of None \<Rightarrow> q = p | Some a \<Rightarrow>
          map_option msg_content (cp_synthetic_summary_message q) = Some (mbo_summary_text out) \<and>
          map_option ss_rendered_text (Option.bind (cp_compaction_artifact q) art_summary_slot) =
            Some (mbo_summary_text out) \<and>
          Option.bind (cp_compaction_artifact q) art_carried_forward_state = Some (mbo_carried_forward_state out)))"
  by (auto simp: apply_model_backed_fallback_def model_backed_backend_def model_backed_fallback_policy_def
      apply_model_backed_compaction_output_def compacted_messages_for_plan_def plain_message_def Let_def
      split: option.splits)

end
