(* ===== verification/Text_Lines.thy ===== *)
theory Text_Lines
  imports Runtime_Prelude
begin

section \<open>Lines of text\<close>

text \<open>
  What the file tools do with text: \<open>str.splitlines\<close> with and without its line ends, the
  newline translation of \<open>Path.read_text\<close>, \<open>str.rstrip("\n")\<close>, and the decimal numbers of a hunk
  header.  \<open>str.splitlines\<close> breaks at more characters than a newline: line feed, vertical tab,
  form feed, carriage return (alone or before a line feed), the separators 0x1c to 0x1e and
  0x85.  The lemmas say that splitting loses nothing, that joining lines and splitting again
  gives the lines back when no line holds a break, and how this fails otherwise.
\<close>

abbreviation LF :: char where "LF \<equiv> CHR 0x0A"
abbreviation CR :: char where "CR \<equiv> CHR 0x0D"

definition line_break :: "char \<Rightarrow> bool" where
  "line_break c \<longleftrightarrow> (of_char c :: nat) \<in> {10, 11, 12, 13, 28, 29, 30, 133}"

text \<open>\<open>s.splitlines(keepends=True)\<close>.\<close>

fun splitlines_keep :: "string \<Rightarrow> string list" where
  "splitlines_keep [] = []"
| "splitlines_keep (c # s) =
     (if c = CR \<and> starts_with [LF] s then [CR, LF] # splitlines_keep (tl s)
      else if line_break c then [c] # splitlines_keep s
      else case splitlines_keep s of [] \<Rightarrow> [[c]] | l # ls \<Rightarrow> (c # l) # ls)"

text \<open>\<open>s.splitlines()\<close>: the same lines, each without the line end that closes it.\<close>

definition chomp :: "string \<Rightarrow> string" where
  "chomp l = takeWhile (\<lambda>c. \<not> line_break c) l"

definition splitlines :: "string \<Rightarrow> string list" where
  "splitlines s = map chomp (splitlines_keep s)"

text \<open>\<open>Path.read_text\<close> opens the file with universal newlines: \<open>\r\n\<close> and \<open>\r\<close> are read as \<open>\n\<close>.\<close>

fun universal_newlines :: "string \<Rightarrow> string" where
  "universal_newlines [] = []"
| "universal_newlines (c # s) =
     (if c = CR then LF # universal_newlines (if starts_with [LF] s then tl s else s)
      else c # universal_newlines s)"

text \<open>\<open>s.rstrip("\n")\<close> and \<open>s.endswith("\n")\<close>.\<close>

definition rstrip_newlines :: "string \<Rightarrow> string" where
  "rstrip_newlines s = rev (dropWhile (\<lambda>c. c = LF) (rev s))"

definition ends_with_newline :: "string \<Rightarrow> bool" where
  "ends_with_newline s \<longleftrightarrow> s \<noteq> [] \<and> last s = LF"

text \<open>\<open>\d+\<close> of a regular expression and \<open>int\<close> of the digits it matched.\<close>

definition is_digit :: "char \<Rightarrow> bool" where
  "is_digit c \<longleftrightarrow> 48 \<le> (of_char c :: nat) \<and> (of_char c :: nat) \<le> 57"

definition digits_value :: "string \<Rightarrow> nat" where
  "digits_value ds = foldl (\<lambda>n c. 10 * n + (of_char c - 48)) 0 ds"

definition match_digits :: "string \<Rightarrow> (string \<times> string) option" where
  "match_digits s = (case takeWhile is_digit s of [] \<Rightarrow> None
     | ds \<Rightarrow> Some (ds, dropWhile is_digit s))"

subsection \<open>Splitting loses nothing\<close>

lemma line_break_LF [simp]: "line_break LF" "line_break CR"
  by (simp_all add: line_break_def)

lemma starts_with_Cons [simp]: "starts_with [c] s \<longleftrightarrow> s \<noteq> [] \<and> hd s = c"
  by (cases s) (auto simp: starts_with_def)

declare splitlines_keep.simps(2) [simp del]

lemma splitlines_keep_crlf: "splitlines_keep (CR # LF # s) = [CR, LF] # splitlines_keep s"
  by (simp add: splitlines_keep.simps)

lemma splitlines_keep_break:
  "line_break c \<Longrightarrow> \<not> (c = CR \<and> starts_with [LF] s) \<Longrightarrow> splitlines_keep (c # s) = [c] # splitlines_keep s"
  by (auto simp: splitlines_keep.simps(2))

lemma splitlines_keep_other:
  "\<not> line_break c \<Longrightarrow> splitlines_keep (c # s) =
     (case splitlines_keep s of [] \<Rightarrow> [[c]] | l # ls \<Rightarrow> (c # l) # ls)"
  by (auto simp: splitlines_keep.simps(2))

lemma splitlines_keep_cases:
  obtains t where "c = CR" "s = LF # t"
  | "line_break c" "\<not> (c = CR \<and> starts_with [LF] s)"
  | "\<not> line_break c"
  by (cases s) auto

lemma concat_splitlines_keep [simp]: "concat (splitlines_keep s) = s"
proof (induction s rule: length_induct)
  case (1 s)
  show ?case
  proof (cases s)
    case (Cons c r)
    show ?thesis
    proof (cases rule: splitlines_keep_cases [of c r])
      case (1 t)
      then show ?thesis using Cons \<open>\<forall>ys. _ ys\<close> by (simp add: splitlines_keep_crlf)
    next
      case 2
      then show ?thesis using Cons \<open>\<forall>ys. _ ys\<close> by (simp add: splitlines_keep_break)
    next
      case 3
      have "concat (splitlines_keep r) = r" using Cons \<open>\<forall>ys. _ ys\<close> by simp
      then show ?thesis using 3 Cons by (auto simp: splitlines_keep_other split: list.splits)
    qed
  qed simp
qed

lemma splitlines_keep_eq_Nil [simp]: "splitlines_keep s = [] \<longleftrightarrow> s = []"
  by (metis concat.simps(1) concat_splitlines_keep splitlines_keep.simps(1))

lemma splitlines_keep_nonempty [simp]: "[] \<notin> set (splitlines_keep s)"
proof (induction s rule: length_induct)
  case (1 s)
  show ?case
  proof (cases s)
    case (Cons c r)
    show ?thesis
    proof (cases rule: splitlines_keep_cases [of c r])
      case (1 t)
      then show ?thesis using Cons \<open>\<forall>ys. _ ys\<close> by (simp add: splitlines_keep_crlf)
    next
      case 2
      then show ?thesis using Cons \<open>\<forall>ys. _ ys\<close> by (simp add: splitlines_keep_break)
    next
      case 3
      have "[] \<notin> set (splitlines_keep r)" using Cons \<open>\<forall>ys. _ ys\<close> by simp
      then show ?thesis using 3 Cons
        by (cases "splitlines_keep r") (auto simp: splitlines_keep_other)
    qed
  qed simp
qed

lemma splitlines_eq_Nil [simp]: "splitlines s = [] \<longleftrightarrow> s = []"
  by (simp add: splitlines_def)

text \<open>What the lines look like: characters that do not break, then at most one line end.\<close>

definition no_break :: "string \<Rightarrow> bool" where
  "no_break s = list_all (\<lambda>c. \<not> line_break c) s"

definition line_end :: "string \<Rightarrow> bool" where
  "line_end e \<longleftrightarrow> e = [CR, LF] \<or> (\<exists>c. e = [c] \<and> line_break c)"

lemma no_break_simps [simp]:
  "no_break []" "no_break (c # s) \<longleftrightarrow> \<not> line_break c \<and> no_break s"
  "no_break (s @ t) \<longleftrightarrow> no_break s \<and> no_break t"
  by (simp_all add: no_break_def)

lemma chomp_no_break [simp]: "no_break s \<Longrightarrow> chomp s = s"
  by (simp add: no_break_def chomp_def takeWhile_eq_all_conv list_all_iff)

lemma no_break_chomp [simp]: "no_break (chomp l)"
  by (auto simp: no_break_def chomp_def list_all_iff dest: set_takeWhileD)

lemma chomp_append: "no_break s \<Longrightarrow> chomp (s @ t) = s @ chomp t"
  by (induction s) (simp_all add: chomp_def)

lemma chomp_break [simp]: "line_break c \<Longrightarrow> chomp (c # t) = []"
  by (simp add: chomp_def)

lemma splitlines_no_break: "l \<in> set (splitlines s) \<Longrightarrow> no_break l"
  by (auto simp: splitlines_def)

lemma splitlines_keep_head:
  "no_break l \<Longrightarrow> l \<noteq> [] \<Longrightarrow> splitlines_keep l = [l]"
proof (induction l)
  case (Cons c l)
  then show ?case by (cases l) (auto simp: splitlines_keep_other)
qed simp

lemma splitlines_keep_newline:
  "no_break l \<Longrightarrow> splitlines_keep (l @ LF # s) = (l @ [LF]) # splitlines_keep s"
proof (induction l)
  case (Cons c l)
  then show ?case by (auto simp: splitlines_keep_other)
qed (simp add: splitlines_keep_break)

lemma splitlines_newline: "no_break l \<Longrightarrow> splitlines (l @ LF # s) = l # splitlines s"
  by (simp add: splitlines_def splitlines_keep_newline chomp_append)

text \<open>Joining lines with newlines, as the writers do, and splitting again.\<close>

definition join_lines :: "string list \<Rightarrow> string" where
  "join_lines ls = concat (map (\<lambda>l. l @ [LF]) ls)"

lemma join_lines_simps [simp]:
  "join_lines [] = []" "join_lines (l # ls) = l @ LF # join_lines ls"
  "join_lines (ls @ ms) = join_lines ls @ join_lines ms"
  by (simp_all add: join_lines_def)

lemma splitlines_join_lines:
  "list_all no_break ls \<Longrightarrow> splitlines (join_lines ls) = ls"
  by (induction ls) (auto simp: splitlines_newline)

lemma splitlines_keep_join_lines:
  "list_all no_break ls \<Longrightarrow> splitlines_keep (join_lines ls) = map (\<lambda>l. l @ [LF]) ls"
  by (induction ls) (auto simp: splitlines_keep_newline)

lemma splitlines_join_lines_append:
  "list_all no_break ls \<Longrightarrow> splitlines (join_lines ls @ s) = ls @ splitlines s"
  by (induction ls) (auto simp: splitlines_newline)

lemma splitlines_join:
  assumes "list_all no_break ls" "ls = [] \<or> last ls \<noteq> []"
  shows "splitlines (py_join [LF] ls) = ls"
  using assms
proof (induction ls rule: induct_list012)
  case (2 l)
  then show ?case by (simp add: splitlines_def splitlines_keep_head)
next
  case (3 l m ls)
  then show ?case by (auto simp: splitlines_newline)
qed simp

lemma py_join_join_lines: "ls \<noteq> [] \<Longrightarrow> py_join [LF] ls @ [LF] = join_lines ls"
  by (induction ls rule: induct_list012) auto

subsection \<open>Newline translation\<close>

lemma universal_newlines_no_CR: "CR \<notin> set s \<Longrightarrow> universal_newlines s = s"
  by (induction s rule: universal_newlines.induct) auto

lemma CR_notin_universal_newlines [simp]: "CR \<notin> set (universal_newlines s)"
  by (induction s rule: universal_newlines.induct) auto

lemma universal_newlines_idem [simp]:
  "universal_newlines (universal_newlines s) = universal_newlines s"
  by (simp add: universal_newlines_no_CR)

lemma splitlines_keep_mem: "l \<in> set (splitlines_keep s) \<Longrightarrow> set l \<subseteq> set s"
  by (metis Union_upper concat_splitlines_keep image_eqI set_concat)

subsection \<open>Decimal numbers\<close>

text \<open>Printing a natural number and reading it back.\<close>

lemma digits_value_snoc: "digits_value (ds @ [c]) = 10 * digits_value ds + (of_char c - 48)"
  by (simp add: digits_value_def)

lemma digit_char: "n < 10 \<Longrightarrow> of_char (''0123456789'' ! n) - 48 = n"
  by (auto simp: less_Suc_eq numeral_eq_Suc)

lemma digits_value_nat_digits: "digits_value (nat_digits n) = n"
proof (induction n rule: nat_digits.induct)
  case (1 n)
  show ?case
  proof (cases "n < 10")
    case True
    then have "digits_value (nat_digits n) = of_char (''0123456789'' ! n) - 48"
      by (simp add: nat_digits.simps [of n] digits_value_def)
    with True show ?thesis by (simp only: digit_char)
  next
    case False
    then have "digits_value (nat_digits n) =
        10 * digits_value (nat_digits (n div 10)) + (of_char (''0123456789'' ! (n mod 10)) - 48)"
      by (simp only: nat_digits.simps [of n] if_False digits_value_snoc)
    also have "\<dots> = 10 * (n div 10) + n mod 10"
      using 1 [OF False] digit_char [of "n mod 10"] by simp
    finally show ?thesis by simp
  qed
qed

lemma digit_char_is_digit: "n < 10 \<Longrightarrow> is_digit (''0123456789'' ! n)"
  by (auto simp: is_digit_def less_Suc_eq numeral_eq_Suc)

lemma nat_digits_nonempty [simp]: "nat_digits n \<noteq> []"
  by (subst nat_digits.simps) simp

lemma nat_digits_all_digits: "list_all is_digit (nat_digits n)"
proof (induction n rule: nat_digits.induct)
  case (1 n)
  then show ?case
    by (subst nat_digits.simps) (auto simp: digit_char_is_digit)
qed

lemma match_digits_append:
  "ds \<noteq> [] \<Longrightarrow> list_all is_digit ds \<Longrightarrow> (r = [] \<or> \<not> is_digit (hd r)) \<Longrightarrow>
   match_digits (ds @ r) = Some (ds, r)"
  by (cases ds; cases r)
     (auto simp: match_digits_def takeWhile_append dropWhile_append list_all_iff
        split: list.splits)

subsection \<open>Splitting at a separator\<close>

text \<open>\<open>s.split(c)\<close> for a separator of one character.\<close>

fun py_split :: "char \<Rightarrow> string \<Rightarrow> string list" where
  "py_split c [] = [[]]"
| "py_split c (x # s) =
     (if x = c then [] # py_split c s
      else (x # hd (py_split c s)) # tl (py_split c s))"

lemma py_split_nonempty [simp]: "py_split c s \<noteq> []"
  by (cases s) auto

lemma py_split_append: "c \<notin> set a \<Longrightarrow> py_split c (a @ c # s) = a # py_split c s"
  by (induction a) auto

lemma py_split_single: "c \<notin> set a \<Longrightarrow> py_split c a = [a]"
  by (induction a) auto

lemma py_split_join:
  "ps \<noteq> [] \<Longrightarrow> list_all (\<lambda>p. c \<notin> set p) ps \<Longrightarrow> py_split c (py_join [c] ps) = ps"
  by (induction ps rule: induct_list012) (auto simp: py_split_append py_split_single)

lemma py_split_no_sep: "p \<in> set (py_split c s) \<Longrightarrow> c \<notin> set p"
proof (induction s arbitrary: p)
  case (Cons x s)
  then show ?case
    by (cases "py_split c s") (auto split: if_splits)
qed simp

lemma match_digits_nat_digits:
  "r = [] \<or> \<not> is_digit (hd r) \<Longrightarrow> match_digits (nat_digits n @ r) = Some (nat_digits n, r)"
  by (rule match_digits_append) (simp_all add: nat_digits_all_digits)

lemma no_break_nat_digits [simp]: "no_break (nat_digits n)"
  using nat_digits_all_digits [of n]
  by (auto simp: no_break_def list_all_iff is_digit_def line_break_def)

end
