(* ===== verification/Retained_History.thy ===== *)
theory Retained_History
  imports Trajectory_Schema Text_Lines
begin

section \<open>The append-only retained history\<close>

text \<open>
  \<open>pycodeagent/agent/retained_history.py\<close>: the entries of a run's retained history, the manifest
  beside them, the writer and the lookups.  The entry log is a text of JSON lines; parsing a line
  back into an entry (\<open>model_validate_json\<close> of \<open>pydantic\<close>) is the argument \<open>load\<close>, and the manifest,
  which is read whole, is kept as its record.  The clock is an argument: \<open>clock n\<close> is what
  \<open>_unix_time_ms\<close> reads when the entry with ordinal \<open>n\<close> is appended.  Fields carry \<open>re_\<close>, \<open>rm_\<close>, \<open>lk_\<close>, \<open>rw_\<close>.
\<close>

subsection \<open>Entries, manifest and writer\<close>

record RetainedHistoryEntry =
  re_schema_version :: int
  re_entry_id :: string
  re_run_id :: string
  re_turn_index :: int
  re_source_kind :: string
  re_source_trajectory_index :: "int option"
  re_request_item_id :: "string option"
  re_role :: "string option"
  re_text :: string
  re_metadata :: pydict
  re_ts_unix_ms :: int

record RetainedHistoryManifest =
  rm_schema_version :: int
  rm_run_id :: string
  rm_task_id :: string
  rm_workspace_root :: string
  rm_started_at_unix_ms :: int
  rm_ended_at_unix_ms :: "int option"
  rm_entry_log_path :: string
  rm_total_entries :: int
  rm_entry_counts_by_kind :: "(string \<times> int) list"
  rm_last_entry_id :: "string option"

record RetainedHistoryLookupMetadata =
  lk_log_id :: string
  lk_entry_count :: int
  lk_last_entry_id :: "string option"

text \<open>
  The writer with what it keeps on disk: the manifest file as it was last written and the text of
  the log.  \<open>rw_entry_log\<close> collects the entries that \<open>append\<close> returned, to speak about them; nothing
  below reads it.
\<close>

record RetainedHistoryWriter =
  rw_manifest :: RetainedHistoryManifest
  rw_next_entry_ordinal :: nat
  rw_manifest_file :: RetainedHistoryManifest
  rw_entry_log_text :: string
  rw_entry_log :: "RetainedHistoryEntry list"

subsection \<open>Writing\<close>

text \<open>\<open>entry.model_dump(mode="json")\<close>, and the line written for an entry.\<close>

definition entry_model_dump :: "RetainedHistoryEntry \<Rightarrow> pydict" where
  "entry_model_dump e =
     [(''schema_version'', JInt (re_schema_version e)), (''entry_id'', JStr (re_entry_id e)),
      (''run_id'', JStr (re_run_id e)), (''turn_index'', JInt (re_turn_index e)),
      (''source_kind'', JStr (re_source_kind e)),
      (''source_trajectory_index'', case re_source_trajectory_index e of None \<Rightarrow> JNull | Some i \<Rightarrow> JInt i),
      (''request_item_id'', opt_str (re_request_item_id e)), (''role'', opt_str (re_role e)),
      (''text'', JStr (re_text e)), (''metadata'', JObj (re_metadata e)),
      (''ts_unix_ms'', JInt (re_ts_unix_ms e))]"

definition entry_line :: "RetainedHistoryEntry \<Rightarrow> string" where
  "entry_line e = json_dumps_unsorted (JObj (entry_model_dump e))"

definition RetainedHistoryWriter_create :: "int \<Rightarrow> string \<Rightarrow> string \<Rightarrow> string \<Rightarrow> RetainedHistoryWriter" where
  "RetainedHistoryWriter_create now run_id task_id workspace_root =
     (let manifest = \<lparr>rm_schema_version = 1, rm_run_id = run_id, rm_task_id = task_id,
            rm_workspace_root = workspace_root, rm_started_at_unix_ms = now,
            rm_ended_at_unix_ms = None, rm_entry_log_path = ''retained_history.jsonl'',
            rm_total_entries = 0, rm_entry_counts_by_kind = [], rm_last_entry_id = None\<rparr>
      in \<lparr>rw_manifest = manifest, rw_next_entry_ordinal = 1, rw_manifest_file = manifest,
          rw_entry_log_text = '''', rw_entry_log = []\<rparr>)"

definition append_entry ::
  "(nat \<Rightarrow> int) \<Rightarrow> int \<Rightarrow> string \<Rightarrow> string \<Rightarrow> int option \<Rightarrow> string option \<Rightarrow> string option \<Rightarrow> pydict
    \<Rightarrow> RetainedHistoryWriter \<Rightarrow> RetainedHistoryEntry \<times> RetainedHistoryWriter" where
  "append_entry clock turn_index kind txt source_index item_id role metadata w =
     (let ordinal = rw_next_entry_ordinal w; manifest = rw_manifest w;
          entry = \<lparr>re_schema_version = 1,
            re_entry_id = ''retained_entry_'' @ py_int_pad 6 (int ordinal),
            re_run_id = rm_run_id manifest, re_turn_index = turn_index, re_source_kind = kind,
            re_source_trajectory_index = source_index, re_request_item_id = item_id, re_role = role,
            re_text = txt, re_metadata = metadata, re_ts_unix_ms = clock ordinal\<rparr>
      in (entry, w\<lparr>rw_next_entry_ordinal := ordinal + 1, rw_entry_log := rw_entry_log w @ [entry],
            rw_entry_log_text := rw_entry_log_text w @ entry_line entry @ [LF],
            rw_manifest := manifest\<lparr>rm_total_entries := rm_total_entries manifest + 1,
              rm_last_entry_id := Some (re_entry_id entry),
              rm_entry_counts_by_kind := dict_count kind (rm_entry_counts_by_kind manifest)\<rparr>\<rparr>))"

text \<open>
  \<open>message.model_dump(mode="json")\<close> serialises the nested tool calls field by field; the
  overriding \<open>ToolCall.model_dump\<close> is not called for them.
\<close>

definition ToolCall_fields :: "ToolCall \<Rightarrow> pydict" where
  "ToolCall_fields c =
     [(''id'', JStr (tc_id c)), (''name'', JStr (tc_name c)), (''arguments'', JObj (tc_arguments c)),
      (''input_text'', opt_str (tc_input_text c)), (''canonical_name'', opt_str (tc_canonical_name c))]"

definition Message_model_dump :: "Message \<Rightarrow> pydict" where
  "Message_model_dump m =
     [(''role'', JStr (Role_value (msg_role m))), (''content'', JStr (msg_content m)),
      (''tool_calls'', JList (map (JObj \<circ> ToolCall_fields) (msg_tool_calls m))),
      (''tool_call_id'', opt_str (msg_tool_call_id m)), (''tool_name'', opt_str (msg_tool_name m)),
      (''canonical_name'', opt_str (msg_canonical_name m)),
      (''tool_version'', opt_str (msg_tool_version m)), (''metadata'', JObj (msg_metadata m))]"

definition append_source_message ::
  "(nat \<Rightarrow> int) \<Rightarrow> int \<Rightarrow> string \<Rightarrow> int \<Rightarrow> Message \<Rightarrow> RetainedHistoryWriter
    \<Rightarrow> RetainedHistoryEntry \<times> RetainedHistoryWriter" where
  "append_source_message clock turn_index item_id source_index m =
     append_entry clock turn_index ''source_message'' (msg_content m) (Some source_index) (Some item_id)
       (Some (Role_value (msg_role m)))
       [(''tool_call_id'', opt_str (msg_tool_call_id m)), (''tool_name'', opt_str (msg_tool_name m)),
        (''canonical_name'', opt_str (msg_canonical_name m)),
        (''tool_version'', opt_str (msg_tool_version m)),
        (''tool_call_count'', JInt (int (length (msg_tool_calls m)))),
        (''message_metadata'', JObj (msg_metadata m)),
        (''message_payload'', JObj (Message_model_dump m))]"

definition append_replacement_summary ::
  "(nat \<Rightarrow> int) \<Rightarrow> int \<Rightarrow> string \<Rightarrow> Message \<Rightarrow> string \<Rightarrow> string list \<Rightarrow> string list \<Rightarrow> int list
    \<Rightarrow> string option \<Rightarrow> RetainedHistoryWriter \<Rightarrow> RetainedHistoryEntry \<times> RetainedHistoryWriter" where
  "append_replacement_summary clock turn_index item_id m record_id item_ids entry_ids indices slot_id =
     append_entry clock turn_index ''replacement_summary'' (msg_content m) None (Some item_id)
       (Some (Role_value (msg_role m)))
       [(''replacement_record_id'', JStr record_id), (''source_item_ids'', JList (map JStr item_ids)),
        (''source_retained_entry_ids'', JList (map JStr entry_ids)),
        (''source_trajectory_indices'', JList (map JInt indices)),
        (''summary_slot_id'', opt_str slot_id), (''message_payload'', JObj (Message_model_dump m))]"

definition append_carried_forward_state ::
  "(nat \<Rightarrow> int) \<Rightarrow> int \<Rightarrow> string \<Rightarrow> pydict \<Rightarrow> RetainedHistoryWriter
    \<Rightarrow> RetainedHistoryEntry \<times> RetainedHistoryWriter" where
  "append_carried_forward_state clock turn_index record_id value =
     append_entry clock turn_index ''carry_forward_state'' (json_dumps (JObj value)) None None None
       [(''replacement_record_id'', JStr record_id), (''state'', JObj value)]"

definition append_history_control ::
  "(nat \<Rightarrow> int) \<Rightarrow> int \<Rightarrow> string \<Rightarrow> pydict \<Rightarrow> RetainedHistoryWriter
    \<Rightarrow> RetainedHistoryEntry \<times> RetainedHistoryWriter" where
  "append_history_control clock turn_index control_kind value =
     append_entry clock turn_index ''history_control'' (json_dumps (JObj value)) None None None
       [(''control_kind'', JStr control_kind), (''control_payload'', JObj value)]"

definition finalize_writer :: "int \<Rightarrow> RetainedHistoryWriter \<Rightarrow> RetainedHistoryWriter" where
  "finalize_writer now w =
     (let manifest = (rw_manifest w)\<lparr>rm_ended_at_unix_ms := Some now\<rparr>
      in w\<lparr>rw_manifest := manifest, rw_manifest_file := manifest\<rparr>)"

subsection \<open>Reading\<close>

definition retained_history_log_id :: "RetainedHistoryManifest \<Rightarrow> string" where
  "retained_history_log_id manifest =
     rm_run_id manifest @ '':'' @ py_int_str (rm_started_at_unix_ms manifest)"

definition entry_belongs_to_manifest :: "RetainedHistoryEntry \<Rightarrow> RetainedHistoryManifest \<Rightarrow> bool" where
  "entry_belongs_to_manifest entry manifest =
     (if re_run_id entry \<noteq> rm_run_id manifest then False
      else if re_ts_unix_ms entry < rm_started_at_unix_ms manifest then False
      else case rm_ended_at_unix_ms manifest of
             None \<Rightarrow> True
           | Some ended \<Rightarrow> \<not> re_ts_unix_ms entry > ended)"

text \<open>A stored history is the manifest and the text of the log beside it.\<close>

type_synonym stored_history = "RetainedHistoryManifest \<times> string"

definition stored :: "RetainedHistoryWriter \<Rightarrow> stored_history" where
  "stored w = (rw_manifest_file w, rw_entry_log_text w)"

text \<open>The loop over the lines; a line that does not load raises.\<close>

fun load_entries ::
  "(string \<Rightarrow> string + RetainedHistoryEntry) \<Rightarrow> RetainedHistoryManifest \<Rightarrow> string list
    \<Rightarrow> string + RetainedHistoryEntry list" where
  "load_entries load manifest [] = Inr []"
| "load_entries load manifest (line # lines) =
     (if py_strip line = '''' then load_entries load manifest lines
      else res_bind (load line) (\<lambda>entry.
           res_bind (load_entries load manifest lines) (\<lambda>entries.
             Inr (if entry_belongs_to_manifest entry manifest then entry # entries else entries))))"

definition iter_retained_history_entries ::
  "(string \<Rightarrow> string + RetainedHistoryEntry) \<Rightarrow> stored_history \<Rightarrow> string + RetainedHistoryEntry list" where
  "iter_retained_history_entries load h =
     load_entries load (fst h) (splitlines (universal_newlines (snd h)))"

definition retained_history_metadata ::
  "(string \<Rightarrow> string + RetainedHistoryEntry) \<Rightarrow> stored_history \<Rightarrow> string + RetainedHistoryLookupMetadata" where
  "retained_history_metadata load h =
     res_bind (iter_retained_history_entries load h) (\<lambda>entries.
       let (count, last_id) = fold (\<lambda>entry (n, _). (n + 1, Some (re_entry_id entry))) entries (0, None)
       in Inr \<lparr>lk_log_id = retained_history_log_id (fst h), lk_entry_count = count,
          lk_last_entry_id = last_id\<rparr>)"

fun entry_at :: "int \<Rightarrow> int \<Rightarrow> RetainedHistoryEntry list \<Rightarrow> RetainedHistoryEntry option" where
  "entry_at offset current [] = None"
| "entry_at offset current (entry # entries) =
     (if current = offset then Some entry else entry_at offset (current + 1) entries)"

definition lookup_retained_history_entry ::
  "(string \<Rightarrow> string + RetainedHistoryEntry) \<Rightarrow> stored_history \<Rightarrow> string \<Rightarrow> int
    \<Rightarrow> string + RetainedHistoryEntry option" where
  "lookup_retained_history_entry load h log_id offset =
     (if offset < 0 then Inr None
      else res_bind (retained_history_metadata load h) (\<lambda>current_metadata.
        if lk_log_id current_metadata \<noteq> log_id then Inr None
        else res_bind (iter_retained_history_entries load h) (\<lambda>entries. Inr (entry_at offset 0 entries))))"

definition lookup_retained_history_entry_by_id ::
  "(string \<Rightarrow> string + RetainedHistoryEntry) \<Rightarrow> stored_history \<Rightarrow> string
    \<Rightarrow> string + RetainedHistoryEntry option" where
  "lookup_retained_history_entry_by_id load h entry_id =
     res_bind (iter_retained_history_entries load h) (\<lambda>entries.
       Inr (find (\<lambda>entry. re_entry_id entry = entry_id) entries))"

end
