(* ===== verification/History_Manager.thy ===== *)
theory History_Manager
  imports Compaction Retained_History
begin

section \<open>The request history of a run\<close>

text \<open>
  \<open>pycodeagent/agent/history_manager.py\<close>: the manager owns the source history (every message of
  the trajectory) and the request history (what a model call may see), in which a compaction
  replaces items by one replacement item; each replacement leaves a record, and every step goes
  into the retained history when a writer is present.  Fields carry \<open>hi_\<close>, \<open>rc_\<close>, \<open>rr_\<close>, \<open>sn_\<close>,
  \<open>hm_\<close>.  What the manager needs from outside is one argument: the clock, and pydantic's
  \<open>model_dump\<close> of plans, artifacts and carried states.
\<close>

record history_env =
  env_clock :: "nat \<Rightarrow> int"
  env_dump_plan :: "ContextSelectionPlan \<Rightarrow> pydict"
  env_dump_artifact :: "CompactionArtifact \<Rightarrow> pydict"
  env_dump_state :: "CarriedForwardState \<Rightarrow> pydict"

subsection \<open>Records\<close>

record RuntimeHistoryItem =
  hi_item_id :: string
  hi_item_kind :: string
  hi_message :: Message
  hi_source_trajectory_index :: "int option"
  hi_replacement_record_id :: "string option"
  hi_retained_entry_id :: "string option"

record ReferenceContextState =
  rc_pinned_item_ids :: "string list"
  rc_pinned_source_indices :: "int list"

record ReplacementHistoryRecord =
  rr_record_id :: string
  rr_turn_index :: int
  rr_reason :: string
  rr_source_item_ids :: "string list"
  rr_source_retained_entry_ids :: "string list"
  rr_source_trajectory_indices :: "int list"
  rr_replacement_item_id :: string
  rr_replacement_retained_entry_id :: "string option"
  rr_compaction_artifact_entry_id :: "string option"
  rr_carried_forward_state_entry_id :: "string option"
  rr_summary_slot_id :: "string option"
  rr_carried_forward_state :: "CarriedForwardState option"
  rr_rendered_message :: Message

record RuntimeHistorySnapshot =
  sn_selected_messages :: "Message list"
  sn_context_selection :: ContextSelection
  sn_context_selection_plan :: ContextSelectionPlan
  sn_compaction_artifact :: "CompactionArtifact option"
  sn_synthetic_summary_message :: "Message option"
  sn_replacement_history_record :: "ReplacementHistoryRecord option"
  sn_request_history_item_ids :: "string list"
  sn_request_history_item_kinds :: "string list"
  sn_request_history_source_indices :: "int list"
  sn_context_selection_retained_entry_id :: "string option"
  sn_selected_retained_entry_ids :: "string list"
  sn_omitted_retained_entry_ids :: "string list"
  sn_summary_retained_entry_id :: "string option"
  sn_carried_forward_state_entry_id :: "string option"
  sn_retained_history_last_entry_id :: "string option"
  sn_retained_entry_count_before_snapshot :: int
  sn_retained_entry_count_after_snapshot :: int
  sn_request_history_item_count_before_snapshot :: int
  sn_request_history_item_count_after_snapshot :: int
  sn_replacement_history_active :: bool
  sn_replacement_history_record_id :: "string option"

record RuntimeHistoryManager =
  hm_source_items :: "RuntimeHistoryItem list"
  hm_request_items :: "RuntimeHistoryItem list"
  hm_replacement_history :: "ReplacementHistoryRecord list"
  hm_reference_context :: ReferenceContextState
  hm_writer :: "RetainedHistoryWriter option"
  hm_retained_entry_ids :: "string list"

definition new_history_manager :: RuntimeHistoryManager where
  "new_history_manager = \<lparr>hm_source_items = [], hm_request_items = [], hm_replacement_history = [],
     hm_reference_context = \<lparr>rc_pinned_item_ids = [], rc_pinned_source_indices = []\<rparr>,
     hm_writer = None, hm_retained_entry_ids = []\<rparr>"

subsection \<open>Recording in the retained history\<close>

text \<open>
  Append with one of the writer's operations and remember the entry id, when there is a writer.
\<close>

definition retain ::
  "(RetainedHistoryWriter \<Rightarrow> RetainedHistoryEntry \<times> RetainedHistoryWriter)
    \<Rightarrow> RuntimeHistoryManager \<Rightarrow> string option \<times> RuntimeHistoryManager" where
  "retain app m =
     (case hm_writer m of
        None \<Rightarrow> (None, m)
      | Some w \<Rightarrow> (let (entry, w') = app w
          in (Some (re_entry_id entry), m\<lparr>hm_writer := Some w',
                hm_retained_entry_ids := hm_retained_entry_ids m @ [re_entry_id entry]\<rparr>)))"

definition retained_history_entry_count :: "RuntimeHistoryManager \<Rightarrow> int" where
  "retained_history_entry_count m = int (length (hm_retained_entry_ids m))"

definition retained_history_last_entry_id :: "RuntimeHistoryManager \<Rightarrow> string option" where
  "retained_history_last_entry_id m =
     (if hm_retained_entry_ids m = [] then None else Some (last (hm_retained_entry_ids m)))"

record retained_summary =
  rsum_retained_entry_count :: int
  rsum_last_entry_id :: "string option"
  rsum_entry_counts_by_kind :: "(string \<times> int) list"
  rsum_replacement_history_count :: int

definition retained_history_summary :: "RuntimeHistoryManager \<Rightarrow> retained_summary" where
  "retained_history_summary m = \<lparr>rsum_retained_entry_count = retained_history_entry_count m,
     rsum_last_entry_id = retained_history_last_entry_id m,
     rsum_entry_counts_by_kind = (case hm_writer m of None \<Rightarrow> []
        | Some w \<Rightarrow> rm_entry_counts_by_kind (rw_manifest w)),
     rsum_replacement_history_count = int (length (hm_replacement_history m))\<rparr>"

definition append_source_retained_entry ::
  "history_env \<Rightarrow> RuntimeHistoryItem \<Rightarrow> int \<Rightarrow> RuntimeHistoryManager
    \<Rightarrow> string option \<times> RuntimeHistoryManager" where
  "append_source_retained_entry env item turn_index m =
     (case hi_source_trajectory_index item of
        None \<Rightarrow> (None, m)
      | Some source_index \<Rightarrow>
          retain (append_source_message (env_clock env) turn_index (hi_item_id item) source_index
            (hi_message item)) m)"

subsection \<open>Source messages\<close>

definition sync_next ::
  "history_env \<Rightarrow> int \<Rightarrow> Message \<Rightarrow> RuntimeHistoryManager \<Rightarrow> RuntimeHistoryManager" where
  "sync_next env turn_index msg m =
     (let source_index = int (length (hm_source_items m));
          item = \<lparr>hi_item_id = ''history_item_'' @ py_int_pad 6 source_index,
            hi_item_kind = ''source'', hi_message = msg,
            hi_source_trajectory_index = Some source_index, hi_replacement_record_id = None,
            hi_retained_entry_id = None\<rparr>;
          (entry_id, m') = append_source_retained_entry env item turn_index m;
          item' = item\<lparr>hi_retained_entry_id := entry_id\<rparr>
      in m'\<lparr>hm_source_items := hm_source_items m' @ [item'],
            hm_request_items := hm_request_items m' @ [item']\<rparr>)"

lemma retain_frame [simp]:
  "hm_source_items (snd (retain app m)) = hm_source_items m"
  "hm_request_items (snd (retain app m)) = hm_request_items m"
  "hm_replacement_history (snd (retain app m)) = hm_replacement_history m"
  "hm_reference_context (snd (retain app m)) = hm_reference_context m"
  by (simp_all add: retain_def split_beta Let_def split: option.split)

lemma append_source_retained_entry_frame [simp]:
  "hm_source_items (snd (append_source_retained_entry env item t m)) = hm_source_items m"
  "hm_request_items (snd (append_source_retained_entry env item t m)) = hm_request_items m"
  "hm_replacement_history (snd (append_source_retained_entry env item t m)) = hm_replacement_history m"
  "hm_reference_context (snd (append_source_retained_entry env item t m)) = hm_reference_context m"
  by (simp_all add: append_source_retained_entry_def split: option.split)

lemma length_sync_next [simp]:
  "length (hm_source_items (sync_next env t msg m)) = Suc (length (hm_source_items m))"
  by (simp add: sync_next_def Let_def split_beta)

function sync_source_messages ::
  "history_env \<Rightarrow> Message list \<Rightarrow> int option \<Rightarrow> RuntimeHistoryManager \<Rightarrow> RuntimeHistoryManager" where
  "sync_source_messages env messages turn_index m =
     (if length (hm_source_items m) < length messages
      then sync_source_messages env messages turn_index
             (sync_next env (case turn_index of None \<Rightarrow> 0 | Some t \<Rightarrow> t)
                (messages ! length (hm_source_items m)) m)
      else m)"
  by pat_completeness auto

termination
  by (relation "measure (\<lambda>(env, messages, turn_index, m). length messages - length (hm_source_items m))")
    auto

declare sync_source_messages.simps [simp del]

definition from_trajectory_messages ::
  "history_env \<Rightarrow> Message list \<Rightarrow> RetainedHistoryWriter option \<Rightarrow> RuntimeHistoryManager" where
  "from_trajectory_messages env messages writer =
     (let m = sync_source_messages env messages (Some 0) (new_history_manager\<lparr>hm_writer := writer\<rparr>);
          pinned_items = filter (\<lambda>item. Role_value (msg_role (hi_message item)) \<in> {''system'', ''user''})
            (hm_request_items m)
      in m\<lparr>hm_reference_context := \<lparr>rc_pinned_item_ids = map hi_item_id pinned_items,
            rc_pinned_source_indices = List.map_filter hi_source_trajectory_index pinned_items\<rparr>\<rparr>)"

subsection \<open>Planning\<close>

definition build_context_plan ::
  "RuntimeHistoryManager \<Rightarrow> ContextPolicyMode enum_arg \<Rightarrow> selection_limits \<Rightarrow> RuntimeSessionState
    \<Rightarrow> int \<Rightarrow> string + ContextSelectionPlan" where
  "build_context_plan m policy l session turn_index =
     plan_request_context (map hi_message (hm_request_items m)) policy l session turn_index"

subsection \<open>Replacing compacted items\<close>

definition request_items_at :: "RuntimeHistoryManager \<Rightarrow> int list \<Rightarrow> RuntimeHistoryItem list" where
  "request_items_at m indices =
     map (\<lambda>i. hm_request_items m ! nat i)
       (filter (\<lambda>i. 0 \<le> i \<and> i < int (length (hm_request_items m))) indices)"

fun replace_compacted ::
  "int list \<Rightarrow> RuntimeHistoryItem \<Rightarrow> bool \<Rightarrow> nat \<Rightarrow> RuntimeHistoryItem list
    \<Rightarrow> RuntimeHistoryItem list" where
  "replace_compacted compacted replacement inserted index [] = []"
| "replace_compacted compacted replacement inserted index (item # items) =
     (if int index \<in> set compacted then
        (if inserted then [] else [replacement])
        @ replace_compacted compacted replacement True (index + 1) items
      else item # replace_compacted compacted replacement inserted (index + 1) items)"

text \<open>
  The three entries a replacement leaves in the retained history: the summary, the carried state
  when the artifact has one, and the artifact.
\<close>

definition retain_replacement ::
  "history_env \<Rightarrow> CompactionArtifact \<Rightarrow> Message \<Rightarrow> int \<Rightarrow> string \<Rightarrow> string \<Rightarrow> RuntimeHistoryItem list
    \<Rightarrow> RuntimeHistoryManager
    \<Rightarrow> (string option \<times> string option \<times> string option) \<times> RuntimeHistoryManager" where
  "retain_replacement env artifact summary turn_index record_id item_id items m =
     (let (summary_id, m1) = retain (append_replacement_summary (env_clock env) turn_index item_id summary
            record_id (map hi_item_id items) (List.map_filter hi_retained_entry_id items)
            (List.map_filter hi_source_trajectory_index items)
            (map_option ss_slot_id (art_summary_slot artifact))) m;
          (state_id, m2) = (case art_carried_forward_state artifact of
              None \<Rightarrow> (None, m1)
            | Some state \<Rightarrow> retain (append_carried_forward_state (env_clock env) turn_index record_id
                (env_dump_state env state)) m1);
          (artifact_id, m3) = retain (append_history_control (env_clock env) turn_index
            ''compaction_artifact'' (env_dump_artifact env artifact)) m2
      in ((summary_id, state_id, artifact_id), m3))"

definition replacement_record_id :: "RuntimeHistoryManager \<Rightarrow> string" where
  "replacement_record_id m =
     ''replacement_history_'' @ py_int_pad 6 (int (length (hm_replacement_history m)) + 1)"

definition replacement_item_id :: "RuntimeHistoryManager \<Rightarrow> string" where
  "replacement_item_id m =
     ''replacement_item_'' @ py_int_pad 6 (int (length (hm_replacement_history m)) + 1)"

definition apply_compaction_replacement ::
  "history_env \<Rightarrow> CompactionArtifact \<Rightarrow> Message \<Rightarrow> int \<Rightarrow> RuntimeHistoryManager
    \<Rightarrow> ReplacementHistoryRecord \<times> RuntimeHistoryManager" where
  "apply_compaction_replacement env artifact summary turn_index m =
     (let compacted = art_compacted_message_indices artifact;
          items = request_items_at m compacted;
          record_id = replacement_record_id m; item_id = replacement_item_id m;
          ((summary_id, state_id, artifact_id), m') =
            retain_replacement env artifact summary turn_index record_id item_id items m;
          replacement = \<lparr>hi_item_id = item_id, hi_item_kind = ''replacement'', hi_message = summary,
            hi_source_trajectory_index = None, hi_replacement_record_id = Some record_id,
            hi_retained_entry_id = summary_id\<rparr>;
          r = \<lparr>rr_record_id = record_id, rr_turn_index = turn_index, rr_reason = art_reason artifact,
            rr_source_item_ids = map hi_item_id items,
            rr_source_retained_entry_ids = List.map_filter hi_retained_entry_id items,
            rr_source_trajectory_indices = List.map_filter hi_source_trajectory_index items,
            rr_replacement_item_id = item_id, rr_replacement_retained_entry_id = summary_id,
            rr_compaction_artifact_entry_id = artifact_id,
            rr_carried_forward_state_entry_id = state_id,
            rr_summary_slot_id = map_option ss_slot_id (art_summary_slot artifact),
            rr_carried_forward_state = art_carried_forward_state artifact,
            rr_rendered_message = summary\<rparr>
      in (r, m'\<lparr>hm_request_items := replace_compacted compacted replacement False 0 (hm_request_items m'),
                hm_replacement_history := hm_replacement_history m' @ [r]\<rparr>))"

subsection \<open>Snapshots\<close>

definition build_snapshot_context_selection ::
  "ContextSelectionPlan \<Rightarrow> RuntimeHistoryItem list \<Rightarrow> selection_limits \<Rightarrow> RuntimeHistoryManager
    \<Rightarrow> ContextSelection" where
  "build_snapshot_context_selection plan items l m =
     (let source_indices = List.map_filter hi_source_trajectory_index items;
          by_index = map_of (rev (List.map_filter (\<lambda>item. map_option (\<lambda>i. (i, item))
            (hi_source_trajectory_index item)) (hm_source_items m)));
          counts = fold (\<lambda>i counts. case by_index i of None \<Rightarrow> counts
            | Some item \<Rightarrow> dict_count (Role_value (msg_role (hi_message item))) counts) source_indices [];
          omitted = filter (\<lambda>item. hi_source_trajectory_index item \<notin> Some ` set source_indices)
            (hm_source_items m);
          low = cp_context_selection plan
      in \<lparr>cs_policy_mode = cs_policy_mode low, cs_max_messages = lim_max_messages l,
          cs_context_max_tokens = lim_context_max_tokens l,
          cs_included_message_indices = source_indices,
          cs_omitted_message_count = max (int (length (hm_source_items m)) - int (length source_indices)) 0,
          cs_compacted_message_count = cs_compacted_message_count low,
          cs_first_included_index = (if source_indices = [] then None else Some (hd source_indices)),
          cs_last_included_index = (if source_indices = [] then None else Some (last source_indices)),
          cs_included_role_counts = counts,
          cs_compaction_applied = cs_compaction_applied low,
          cs_compaction_reason = cs_compaction_reason low,
          cs_estimated_selected_tokens = estimate_messages_tokens (map hi_message items),
          cs_estimated_omitted_tokens = estimate_messages_tokens (map hi_message omitted),
          cs_tool_token_reserve = lim_tool_token_reserve l,
          cs_response_token_reserve = lim_response_token_reserve l,
          cs_token_budget_satisfied = cs_token_budget_satisfied low,
          cs_token_overflow = cs_token_overflow low\<rparr>)"

text \<open>
  The selected items of a plan and the state after its replacement.
\<close>

definition materialize_plan ::
  "history_env \<Rightarrow> ContextSelectionPlan \<Rightarrow> int \<Rightarrow> RuntimeHistoryManager
    \<Rightarrow> RuntimeHistoryItem list \<times> ReplacementHistoryRecord option \<times> RuntimeHistoryManager" where
  "materialize_plan env plan turn_index m =
     (case (cp_compaction_artifact plan, cp_synthetic_summary_message plan) of
        (Some artifact, Some summary) \<Rightarrow>
          (let (r, m') = apply_compaction_replacement env artifact summary turn_index m
           in (hm_request_items m', Some r, m'))
      | _ \<Rightarrow> (request_items_at m (cp_selected_request_item_indices plan), None, m))"

definition snapshot_from_plan ::
  "history_env \<Rightarrow> ContextSelectionPlan \<Rightarrow> selection_limits \<Rightarrow> int \<Rightarrow> RuntimeHistoryManager
    \<Rightarrow> RuntimeHistorySnapshot \<times> RuntimeHistoryManager" where
  "snapshot_from_plan env plan l turn_index m =
     (let (items, r, m1) = materialize_plan env plan turn_index m;
          (plan_entry_id, m2) = retain (append_history_control (env_clock env) turn_index
            ''context_selection_plan'' (env_dump_plan env plan)) m1;
          source_indices = List.map_filter hi_source_trajectory_index items
      in (\<lparr>sn_selected_messages = map hi_message items,
           sn_context_selection = build_snapshot_context_selection plan items l m2,
           sn_context_selection_plan = plan,
           sn_compaction_artifact = cp_compaction_artifact plan,
           sn_synthetic_summary_message = cp_synthetic_summary_message plan,
           sn_replacement_history_record = r,
           sn_request_history_item_ids = map hi_item_id items,
           sn_request_history_item_kinds = map hi_item_kind items,
           sn_request_history_source_indices = source_indices,
           sn_context_selection_retained_entry_id = plan_entry_id,
           sn_selected_retained_entry_ids = List.map_filter hi_retained_entry_id items,
           sn_omitted_retained_entry_ids = List.map_filter hi_retained_entry_id
             (filter (\<lambda>item. hi_source_trajectory_index item \<notin> Some ` set source_indices)
               (hm_source_items m2)),
           sn_summary_retained_entry_id = Option.bind r rr_replacement_retained_entry_id,
           sn_carried_forward_state_entry_id = Option.bind r rr_carried_forward_state_entry_id,
           sn_retained_history_last_entry_id = retained_history_last_entry_id m2,
           sn_retained_entry_count_before_snapshot = retained_history_entry_count m,
           sn_retained_entry_count_after_snapshot = retained_history_entry_count m2,
           sn_request_history_item_count_before_snapshot = int (length (hm_request_items m)),
           sn_request_history_item_count_after_snapshot = int (length items),
           sn_replacement_history_active = list_ex (\<lambda>item. hi_item_kind item = ''replacement'') items,
           sn_replacement_history_record_id = map_option rr_record_id r\<rparr>, m2))"

definition snapshot_for_request ::
  "history_env \<Rightarrow> ContextPolicyMode enum_arg \<Rightarrow> selection_limits \<Rightarrow> RuntimeSessionState \<Rightarrow> int
    \<Rightarrow> RuntimeHistoryManager \<Rightarrow> string + RuntimeHistorySnapshot \<times> RuntimeHistoryManager" where
  "snapshot_for_request env policy l session turn_index m =
     res_bind (build_context_plan m policy l session turn_index)
       (\<lambda>plan. Inr (snapshot_from_plan env plan l turn_index m))"

end
