(* ===== verification/Context_Runner.thy ===== *)
theory Context_Runner
  imports History_Manager Response_Parser
begin

section \<open>How the runner prepares the context of a request\<close>

text \<open>
  The part of \<open>pycodeagent/agent/runner.py\<close> between the start of a turn and the request: ask the
  history manager for a plan, let a capable client compact by model, and take the snapshot.  The
  client and pydantic's \<open>ModelBackedCompactionOutput.model_validate\<close> are arguments: the reply of
  the client to the compaction request, and the parsed output or None when validation raises.
  Trace events are not modelled.
\<close>

datatype client_reply = ClientRaised | ClientReplied GenerateResponse

definition validate_model_backed_compaction_span ::
  "ModelBackedCompactionOutput \<Rightarrow> ContextSelectionPlan \<Rightarrow> string option" where
  "validate_model_backed_compaction_span out plan =
     (case cp_compaction_artifact plan of
        None \<Rightarrow> Some ''missing_compaction_artifact''
      | Some artifact \<Rightarrow>
          let span = mbo_compacted_span out;
              ints = (\<lambda>xs. py_repr (JList (map JInt xs)));
              mismatch = (\<lambda>name expected actual. name @ ''_mismatch: expected='' @ ints expected
                @ '' actual='' @ ints actual)
          in if mcs_source_message_indices span \<noteq> art_compacted_message_indices artifact then
               Some (mismatch ''source_message_indices'' (art_compacted_message_indices artifact)
                 (mcs_source_message_indices span))
             else if mcs_pinned_message_indices span \<noteq> art_pinned_message_indices artifact then
               Some (mismatch ''pinned_message_indices'' (art_pinned_message_indices artifact)
                 (mcs_pinned_message_indices span))
             else if mcs_replacement_summary_kind span \<noteq> ''model_backed_compaction'' then
               Some (''replacement_summary_kind_mismatch: actual='' @ mcs_replacement_summary_kind span)
             else if mcs_source_turn_indices span \<noteq> cp_compacted_turn_indices plan then
               Some (mismatch ''source_turn_indices'' (cp_compacted_turn_indices plan)
                 (mcs_source_turn_indices span))
             else None)"

text \<open>Every failure falls back with the failure kind as its reason.\<close>

definition compaction_fallback :: "string \<Rightarrow> ContextSelectionPlan \<Rightarrow> string + ContextSelectionPlan" where
  "compaction_fallback kind plan =
     apply_model_backed_fallback plan model_backed_backend model_backed_fallback_policy kind kind"

definition maybe_run_model_backed_compaction ::
  "(pydict \<Rightarrow> ModelBackedCompactionOutput option) \<Rightarrow> RuntimeClientCapabilities \<Rightarrow> string \<Rightarrow> client_reply
    \<Rightarrow> ContextSelectionPlan \<Rightarrow> string + ContextSelectionPlan" where
  "maybe_run_model_backed_compaction validate caps policy_mode reply plan =
     (if policy_mode \<noteq> ContextPolicyMode_value CPM_MODEL_BACKED_COMPACTION then Inr plan
      else if cp_compaction_artifact plan = None then Inr plan
      else if \<not> (cap_supports_structured_output caps \<and> cap_supports_model_backed_compaction caps) then
        compaction_fallback ''capability_unavailable'' plan
      else case reply of
        ClientRaised \<Rightarrow> compaction_fallback ''provider_error'' plan
      | ClientReplied response \<Rightarrow>
         (case normalize_model_backed_compaction_output_payload (gr_structured_output response) of
            None \<Rightarrow> compaction_fallback ''structured_output_parse_error'' plan
          | Some payload \<Rightarrow>
             (case validate payload of
                None \<Rightarrow> compaction_fallback ''schema_validation_error'' plan
              | Some out \<Rightarrow>
                  if validate_model_backed_compaction_span out plan \<noteq> None
                  then compaction_fallback ''compacted_span_mismatch'' plan
                  else Inr (apply_model_backed_compaction_output plan out model_backed_backend))))"

definition apply_context_selection_result ::
  "RuntimeHistorySnapshot \<Rightarrow> RuntimeSessionState \<Rightarrow> RuntimeSessionState" where
  "apply_context_selection_result snap s =
     (case sn_compaction_artifact snap of
        None \<Rightarrow> s
      | Some artifact \<Rightarrow> s\<lparr>st_summary_slot := art_summary_slot artifact,
          st_carried_forward_state := art_carried_forward_state artifact,
          st_last_compaction_artifact := Some artifact,
          st_compaction_count := st_compaction_count s + 1\<rparr>)"

definition note_context_result ::
  "RuntimeHistorySnapshot \<Rightarrow> int option \<Rightarrow> RuntimeTurnState \<Rightarrow> RuntimeTurnState" where
  "note_context_result snap budget t =
     (let sel = sn_context_selection snap;
          t' = t\<lparr>ts_context_selection := sel,
            ts_request_history_item_ids := sn_request_history_item_ids snap,
            ts_request_history_item_kinds := sn_request_history_item_kinds snap,
            ts_request_history_source_indices := sn_request_history_source_indices snap,
            ts_request_history_item_count_after_snapshot := sn_request_history_item_count_after_snapshot snap,
            ts_replacement_history_active_after_turn := sn_replacement_history_active snap,
            ts_replacement_history_record_id := sn_replacement_history_record_id snap,
            ts_context_token_budget := budget,
            ts_selected_context_tokens := cs_estimated_selected_tokens sel,
            ts_token_budget_satisfied := cs_token_budget_satisfied sel\<rparr>
      in if \<not> cs_token_budget_satisfied sel
         then t'\<lparr>ts_token_overflow_reason := cs_compaction_reason sel\<rparr> else t')"

text \<open>The step of one turn, from the plan to the session state after its snapshot.\<close>

definition prepare_request_context ::
  "history_env \<Rightarrow> (pydict \<Rightarrow> ModelBackedCompactionOutput option) \<Rightarrow> RuntimeClientCapabilities
    \<Rightarrow> ContextPolicyMode \<Rightarrow> selection_limits \<Rightarrow> client_reply \<Rightarrow> int
    \<Rightarrow> RuntimeTurnState \<times> RuntimeSessionState \<times> RuntimeHistoryManager
    \<Rightarrow> string + RuntimeHistorySnapshot \<times> RuntimeTurnState \<times> RuntimeSessionState \<times> RuntimeHistoryManager" where
  "prepare_request_context env validate caps policy l reply turn_index state =
     (case state of (t, s, m) \<Rightarrow>
        res_bind (build_context_plan m (Text (ContextPolicyMode_value policy)) l s turn_index) (\<lambda>plan.
        res_bind (maybe_run_model_backed_compaction validate caps (ContextPolicyMode_value policy) reply plan)
          (\<lambda>plan'.
             let (snap, m') = snapshot_from_plan env plan' l turn_index m
             in Inr (snap, note_context_result snap (lim_context_max_tokens l) t,
                  apply_context_selection_result snap s, m'))))"

end
