(* ===== verification/Retained_History_Properties.thy ===== *)
theory Retained_History_Properties
  imports Retained_History "HOL-Library.Sublist"
begin

section \<open>The retained history: the laws\<close>

text \<open>
  The contract of an append-only log, what a client may conclude from it, and the writer as an
  instance: entries are numbered by position, and the manifest counts what is in the log.  When no
  line of the log holds a character that \<open>str.splitlines\<close> breaks at, nothing written is lost or changed
  and an entry is found again by its id; a text with U+0085 is such a character, and is not escaped.
\<close>

subsection \<open>Numbered identifiers\<close>

lemma digits_value_pad: "digits_value (replicate k (CHR ''0'') @ ds) = digits_value ds"
  by (induction k) (simp_all add: digits_value_def)

lemma py_int_pad_value: "digits_value (py_int_pad w (int n)) = n"
  by (simp add: py_int_pad_def Let_def digits_value_pad digits_value_nat_digits)

lemma py_int_pad_inject [simp]: "py_int_pad w (int n) = py_int_pad w (int k) \<longleftrightarrow> n = k"
  using py_int_pad_value by metis

definition numbered :: "string \<Rightarrow> nat \<Rightarrow> string" where
  "numbered name n = name @ py_int_pad 6 (int n)"

lemma numbered_inject [simp]: "numbered name n = numbered name k \<longleftrightarrow> n = k"
  by (simp add: numbered_def)

lemma distinct_numbered [simp]: "distinct (map (numbered name) ns) \<longleftrightarrow> distinct ns"
  by (simp add: distinct_map inj_on_def)

subsection \<open>Append-only logs\<close>

locale append_log =
  fixes app :: "'a \<Rightarrow> 'w \<Rightarrow> 'e \<times> 'w"
    and entries :: "'w \<Rightarrow> 'e list"
    and ident :: "'e \<Rightarrow> string"
    and log_inv :: "'w \<Rightarrow> bool"
  assumes app_inv: "log_inv w \<Longrightarrow> log_inv (snd (app x w))"
    and app_entries: "log_inv w \<Longrightarrow> entries (snd (app x w)) = entries w @ [fst (app x w)]"
    and ident_distinct: "log_inv w \<Longrightarrow> distinct (map ident (entries w))"
begin

definition app_all :: "'a list \<Rightarrow> 'w \<Rightarrow> 'w" where
  "app_all xs w = fold (\<lambda>x w. snd (app x w)) xs w"

lemma app_all_inv: "log_inv w \<Longrightarrow> log_inv (app_all xs w)"
  unfolding app_all_def by (induction xs arbitrary: w) (simp_all add: app_inv)

lemma app_all_prefix: "log_inv w \<Longrightarrow> prefix (entries w) (entries (app_all xs w))"
proof (induction xs arbitrary: w)
  case (Cons x xs)
  then have "prefix (entries (snd (app x w))) (entries (app_all (x # xs) w))"
    by (simp add: app_all_def app_inv)
  with Cons.prems show ?case by (auto simp: app_entries dest: append_prefixD)
qed (simp add: app_all_def)

lemma app_all_length: "log_inv w \<Longrightarrow> length (entries (app_all xs w)) = length (entries w) + length xs"
  by (induction xs arbitrary: w) (simp_all add: app_all_def app_inv app_entries)

lemma found_by_ident:
  assumes "log_inv w" and "e \<in> set (entries w)"
  shows "find (\<lambda>e'. ident e' = ident e) (entries w) = Some e"
proof -
  have "e' = e" if "e' \<in> set (entries w)" "ident e' = ident e" for e'
    using ident_distinct [OF assms(1)] assms(2) that by (auto simp: distinct_map dest: inj_onD)
  moreover have "find (\<lambda>e'. ident e' = ident e) (entries w) \<noteq> None"
    using assms(2) by (auto simp: find_None_iff)
  ultimately show ?thesis
    by (auto simp: find_Some_iff) (metis nth_mem)
qed

lemma found_after:
  assumes "log_inv w" and "e \<in> set (entries w)"
  shows "find (\<lambda>e'. ident e' = ident e) (entries (app_all xs w)) = Some e"
  using assms app_all_prefix [OF assms(1)] set_mono_prefix
  by (intro found_by_ident app_all_inv) blast+

end

subsection \<open>The writer\<close>

definition writer_inv :: "RetainedHistoryWriter \<Rightarrow> bool" where
  "writer_inv w \<longleftrightarrow> rw_entry_log_text w = join_lines (map entry_line (rw_entry_log w)) \<and>
     rw_next_entry_ordinal w = Suc (length (rw_entry_log w)) \<and>
     map re_entry_id (rw_entry_log w) = map (numbered ''retained_entry_'') [1..<Suc (length (rw_entry_log w))] \<and>
     rm_total_entries (rw_manifest w) = int (length (rw_entry_log w)) \<and>
     rm_last_entry_id (rw_manifest w) =
       (if rw_entry_log w = [] then None else Some (re_entry_id (last (rw_entry_log w)))) \<and>
     list_all (\<lambda>e. re_run_id e = rm_run_id (rw_manifest w)) (rw_entry_log w) \<and>
     (\<forall>kind. (case map_of (rm_entry_counts_by_kind (rw_manifest w)) kind of None \<Rightarrow> 0 | Some n \<Rightarrow> n) =
        int (length (filter (\<lambda>e. re_source_kind e = kind) (rw_entry_log w))))"

lemma writer_create_inv [simp]: "writer_inv (RetainedHistoryWriter_create now run_id task ws_root)"
  by (simp add: writer_inv_def RetainedHistoryWriter_create_def Let_def)

record append_request =
  aq_clock :: "nat \<Rightarrow> int"
  aq_turn_index :: int
  aq_kind :: string
  aq_text :: string
  aq_source_index :: "int option"
  aq_item_id :: "string option"
  aq_role :: "string option"
  aq_metadata :: pydict

definition append_of :: "append_request \<Rightarrow> RetainedHistoryWriter \<Rightarrow> RetainedHistoryEntry \<times> RetainedHistoryWriter" where
  "append_of q = append_entry (aq_clock q) (aq_turn_index q) (aq_kind q) (aq_text q) (aq_source_index q)
     (aq_item_id q) (aq_role q) (aq_metadata q)"

lemma append_entry_log:
  "rw_entry_log (snd (append_entry clock t k x si ii r md w)) =
     rw_entry_log w @ [fst (append_entry clock t k x si ii r md w)]"
  by (simp add: append_entry_def Let_def)

lemma append_entry_inv:
  assumes "writer_inv w"
  shows "writer_inv (snd (append_entry clock t k x si ii r md w))"
  using assms unfolding writer_inv_def append_entry_def
  by (auto simp: Let_def numbered_def dict_count_def update_conv')

interpretation writer_log: append_log append_of rw_entry_log re_entry_id writer_inv
proof unfold_locales
  show "writer_inv w \<Longrightarrow> writer_inv (snd (append_of q w))" for q w
    by (simp add: append_of_def append_entry_inv)
  show "writer_inv w \<Longrightarrow> rw_entry_log (snd (append_of q w)) = rw_entry_log w @ [fst (append_of q w)]" for q w
    by (simp add: append_of_def append_entry_log)
  show "writer_inv w \<Longrightarrow> distinct (map re_entry_id (rw_entry_log w))" for w
    by (simp add: writer_inv_def del: upt_Suc)
qed

subsection \<open>Reading back what was written\<close>

definition append_requests :: "append_request list \<Rightarrow> RetainedHistoryWriter \<Rightarrow> RetainedHistoryWriter" where
  "append_requests qs w = fold (\<lambda>q w. snd (append_of q w)) qs w"

lemma append_requests_app_all: "append_requests qs w = writer_log.app_all qs w"
  by (simp add: append_requests_def writer_log.app_all_def)

lemma append_requests_log:
  "rw_entry_log (append_requests qs w) = rw_entry_log w @
     map (\<lambda>(i, q). fst (append_of q (w\<lparr>rw_next_entry_ordinal := rw_next_entry_ordinal w + i\<rparr>))) (enumerate 0 qs)"
proof (induction qs arbitrary: w rule: rev_induct)
  case (snoc q qs)
  have "rw_next_entry_ordinal (append_requests qs w) = rw_next_entry_ordinal w + length qs" for qs
    unfolding append_requests_def
    by (induction qs arbitrary: w) (simp_all add: append_of_def append_entry_def Let_def)
  moreover have "rm_run_id (rw_manifest (append_requests qs w)) = rm_run_id (rw_manifest w)" for qs
    unfolding append_requests_def
    by (induction qs arbitrary: w) (simp_all add: append_of_def append_entry_def Let_def)
  moreover have "append_requests (qs @ [q]) w = snd (append_of q (append_requests qs w))"
    by (simp add: append_requests_def)
  ultimately show ?case using snoc.IH
    by (simp add: append_of_def append_entry_def Let_def enumerate_append_eq)
qed (simp add: append_requests_def)

lemma append_requests_manifest:
  "rm_started_at_unix_ms (rw_manifest (append_requests qs w)) = rm_started_at_unix_ms (rw_manifest w)"
  "rm_run_id (rw_manifest (append_requests qs w)) = rm_run_id (rw_manifest w)"
  unfolding append_requests_def
  by (induction qs arbitrary: w) (simp_all add: append_of_def append_entry_def Let_def)

lemma entry_at_nth: "entry_at (int n + c) c es = (if n < length es then Some (es ! n) else None)"
proof (induction es arbitrary: n c)
  case (Cons e es)
  show ?case
  proof (cases n)
    case (Suc k)
    then show ?thesis using Cons.IH [of k "c + 1"] by (simp add: add.commute add.left_commute)
  qed simp
qed simp

lemma metadata_fold:
  "fold (\<lambda>entry (n, _). (n + 1, Some (re_entry_id entry))) es (n, x) =
     (n + int (length es), if es = [] then x else Some (re_entry_id (last es)))"
  by (induction es arbitrary: n x) auto

lemma retained_history_metadata_eq:
  "iter_retained_history_entries load h = Inr es \<Longrightarrow>
   retained_history_metadata load h = Inr \<lparr>lk_log_id = retained_history_log_id (fst h),
     lk_entry_count = int (length es),
     lk_last_entry_id = (if es = [] then None else Some (re_entry_id (last es)))\<rparr>"
  by (simp add: retained_history_metadata_def metadata_fold)

lemma metadata_log_id:
  "retained_history_metadata load h = Inr meta \<Longrightarrow> lk_log_id meta = retained_history_log_id (fst h)"
  by (auto simp: retained_history_metadata_def res_bind_Inr_iff split_beta)

text \<open>A line of JSON: a text that loads, without a character that splits lines.\<close>

definition line_readable :: "(string \<Rightarrow> string + RetainedHistoryEntry) \<Rightarrow> RetainedHistoryEntry \<Rightarrow> bool" where
  "line_readable load e \<longleftrightarrow> load (entry_line e) = Inr e \<and> no_break (entry_line e)"

lemma entry_line_starts: "\<exists>t. entry_line e = CHR ''{'' # t"
  by (simp add: entry_line_def)

lemma strip_entry_line: "py_strip (entry_line e) \<noteq> ''''"
proof -
  obtain t where t: "entry_line e = CHR ''{'' # t" using entry_line_starts by blast
  show ?thesis unfolding t
    by (simp add: py_strip_def py_lstrip_def py_rstrip_def py_space_def dropWhile_eq_Nil_conv)
qed

lemma load_lines:
  "list_all (line_readable load) es \<Longrightarrow>
   load_entries load m (map entry_line es) = Inr (filter (\<lambda>e. entry_belongs_to_manifest e m) es)"
  by (induction es) (simp_all add: strip_entry_line line_readable_def)

lemma log_text_lines:
  assumes "list_all (line_readable load) es"
  shows "splitlines (universal_newlines (join_lines (map entry_line es))) = map entry_line es"
proof -
  have nb: "list_all no_break (map entry_line es)"
    using assms by (auto simp: list_all_iff line_readable_def)
  then have "CR \<notin> set (join_lines (map entry_line es))"
    by (induction es) (auto simp: no_break_def list_all_iff)
  then show ?thesis using nb by (simp add: universal_newlines_no_CR splitlines_join_lines)
qed

definition in_time :: "int \<Rightarrow> int \<Rightarrow> append_request list \<Rightarrow> bool" where
  "in_time started ended qs = list_all (\<lambda>(n, q). started \<le> aq_clock q n \<and> aq_clock q n \<le> ended)
     (enumerate 1 qs)"

abbreviation new_writer :: "int \<Rightarrow> string \<Rightarrow> string \<Rightarrow> string \<Rightarrow> RetainedHistoryWriter" where
  "new_writer \<equiv> RetainedHistoryWriter_create"

lemma append_requests_inv: "writer_inv (append_requests qs (new_writer started run_id task_id ws_root))"
  unfolding append_requests_app_all by (rule writer_log.app_all_inv) simp

lemma finalized_iter:
  assumes "in_time started ended qs"
    and "list_all (line_readable load) (rw_entry_log (append_requests qs (new_writer started run_id task_id ws_root)))"
  shows "iter_retained_history_entries load
      (stored (finalize_writer ended (append_requests qs (new_writer started run_id task_id ws_root)))) =
    Inr (rw_entry_log (append_requests qs (new_writer started run_id task_id ws_root)))"
proof -
  let ?w0 = "new_writer started run_id task_id ws_root"
  have "list_all (\<lambda>e. re_run_id e = run_id \<and> started \<le> re_ts_unix_ms e \<and> re_ts_unix_ms e \<le> ended)
      (rw_entry_log (append_requests qs ?w0))"
    using assms(1) unfolding append_requests_log in_time_def
    by (auto simp: list_all_iff RetainedHistoryWriter_create_def Let_def append_of_def append_entry_def
        in_set_enumerate_eq Ball_def)
  moreover have "rm_run_id (rw_manifest (append_requests qs ?w0)) = run_id"
    "rm_started_at_unix_ms (rw_manifest (append_requests qs ?w0)) = started"
    by (simp_all add: append_requests_manifest) (simp_all add: RetainedHistoryWriter_create_def Let_def)
  moreover have "rw_entry_log_text (append_requests qs ?w0) =
      join_lines (map entry_line (rw_entry_log (append_requests qs ?w0)))"
    using append_requests_inv by (simp add: writer_inv_def)
  ultimately show ?thesis
    by (auto simp: iter_retained_history_entries_def stored_def finalize_writer_def Let_def
        log_text_lines [OF assms(2)] load_lines [OF assms(2)]
        entry_belongs_to_manifest_def filter_id_conv list_all_iff)
qed

text \<open>C16: the retained history reads back as it was written: for every sequence of appends stamped
  between the start and the end of the run, when no JSON line of the log holds a character that
  \<open>splitlines\<close> breaks at and the loader undoes the dump of the entries, the finished files yield
  exactly the entries written, in order, with their texts and kinds; the k-th is found by the log id
  and its offset and each one by its entry id; offsets outside the log find nothing; and the counts
  of the manifest and of the lookup metadata are those of the log.\<close>

theorem retained_history_roundtrip:
  assumes "in_time started ended qs"
    and "list_all (line_readable load) (rw_entry_log (append_requests qs (RetainedHistoryWriter_create started run_id task_id ws_root)))"
  shows "let w = finalize_writer ended
               (append_requests qs (RetainedHistoryWriter_create started run_id task_id ws_root));
             h = stored w; log = rw_entry_log w
         in iter_retained_history_entries load h = Inr log \<and>
            map re_text log = map aq_text qs \<and> map re_source_kind log = map aq_kind qs \<and>
            rm_total_entries (rw_manifest w) = int (length qs) \<and>
            (\<exists>meta. retained_history_metadata load h = Inr meta \<and> lk_entry_count meta = int (length qs) \<and>
               lk_last_entry_id meta = rm_last_entry_id (rw_manifest w) \<and>
               map (\<lambda>k. lookup_retained_history_entry load h (lk_log_id meta) (int k)) [0..<length qs] =
                 map (Inr \<circ> Some) log \<and>
               lookup_retained_history_entry load h (lk_log_id meta) (int (length qs) + int d) = Inr None) \<and>
            map (\<lambda>e. lookup_retained_history_entry_by_id load h (re_entry_id e)) log = map (Inr \<circ> Some) log"
proof -
  let ?w1 = "append_requests qs (new_writer started run_id task_id ws_root)"
  let ?w = "finalize_writer ended ?w1"
  have log: "rw_entry_log ?w = rw_entry_log ?w1"
    "rm_total_entries (rw_manifest ?w) = rm_total_entries (rw_manifest ?w1)"
    "rm_last_entry_id (rw_manifest ?w) = rm_last_entry_id (rw_manifest ?w1)"
    by (simp_all add: finalize_writer_def Let_def)
  note inv = append_requests_inv [of qs started run_id task_id ws_root]
  have len: "length (rw_entry_log ?w1) = length qs"
    by (simp add: append_requests_log RetainedHistoryWriter_create_def Let_def)
  have iter: "iter_retained_history_entries load (stored ?w) = Inr (rw_entry_log ?w1)"
    using finalized_iter [OF assms] .
  note meta = retained_history_metadata_eq [OF iter]
  have texts: "map re_text (rw_entry_log ?w1) = map aq_text qs"
    "map re_source_kind (rw_entry_log ?w1) = map aq_kind qs"
    by (intro nth_equalityI; simp add: len; simp add: append_requests_log nth_enumerate_eq
        RetainedHistoryWriter_create_def Let_def append_of_def append_entry_def)+
  have at: "entry_at (int n) 0 es = (if n < length es then Some (es ! n) else None)" for n and es
    using entry_at_nth [of n 0 es] by simp
  let ?id = "retained_history_log_id (fst (stored ?w))"
  have found: "map (\<lambda>k. lookup_retained_history_entry load (stored ?w) ?id (int k)) [0..<length qs] =
      map (Inr \<circ> Some) (rw_entry_log ?w1)"
    by (rule nth_equalityI) (simp_all add: lookup_retained_history_entry_def meta iter at len)
  have missing: "lookup_retained_history_entry load (stored ?w) ?id (int (length qs) + int d) = Inr None"
    using at [of "length qs + d"] by (simp add: lookup_retained_history_entry_def meta iter len)
  have by_id: "map (\<lambda>e. lookup_retained_history_entry_by_id load (stored ?w) (re_entry_id e)) (rw_entry_log ?w1) =
      map (Inr \<circ> Some) (rw_entry_log ?w1)"
    using writer_log.found_by_ident [OF inv] by (simp add: lookup_retained_history_entry_by_id_def iter)
  show ?thesis
    using iter texts found missing by_id len inv
    by (simp add: Let_def log meta writer_inv_def)
qed

definition sample_requests :: "append_request list" where
  "sample_requests = [
     \<lparr>aq_clock = (\<lambda>n. 100 + int n), aq_turn_index = 0, aq_kind = ''source_message'', aq_text = ''rules'',
      aq_source_index = Some 0, aq_item_id = Some ''history_item_000000'', aq_role = Some ''system'', aq_metadata = []\<rparr>,
     \<lparr>aq_clock = (\<lambda>n. 100 + int n), aq_turn_index = 1, aq_kind = ''history_control'', aq_text = ''{}'',
      aq_source_index = None, aq_item_id = None, aq_role = None, aq_metadata = []\<rparr>]"

definition sample_entry :: "nat \<Rightarrow> string \<Rightarrow> append_request \<Rightarrow> RetainedHistoryEntry" where
  "sample_entry n entry_id q = \<lparr>re_schema_version = 1, re_entry_id = entry_id, re_run_id = ''r'',
     re_turn_index = aq_turn_index q, re_source_kind = aq_kind q, re_source_trajectory_index = aq_source_index q,
     re_request_item_id = aq_item_id q, re_role = aq_role q, re_text = aq_text q, re_metadata = aq_metadata q,
     re_ts_unix_ms = aq_clock q n\<rparr>"

definition sample_log :: "RetainedHistoryEntry list" where
  "sample_log = [sample_entry 1 ''retained_entry_000001'' (sample_requests ! 0),
     sample_entry 2 ''retained_entry_000002'' (sample_requests ! 1)]"

definition sample_load :: "string \<Rightarrow> string + RetainedHistoryEntry" where
  "sample_load line = (case map_of (map (\<lambda>e. (entry_line e, e)) sample_log) line of
     None \<Rightarrow> Inl ''invalid'' | Some e \<Rightarrow> Inr e)"

lemma sample_log_written:
  "rw_entry_log (append_requests sample_requests (RetainedHistoryWriter_create 100 ''r'' ''t'' ''/w'')) = sample_log"
proof -
  have "py_int_pad 6 (int 1) = ''000001''" "py_int_pad 6 (int 2) = ''000002''" by code_simp+
  then show ?thesis
    by (simp add: append_requests_def append_of_def append_entry_def RetainedHistoryWriter_create_def
        sample_requests_def sample_log_def sample_entry_def Let_def eval_nat_numeral)
qed

lemma sample_lines:
  "no_break (entry_line (sample_log ! 0))" "no_break (entry_line (sample_log ! 1))"
  "length (entry_line (sample_log ! 0)) \<noteq> length (entry_line (sample_log ! 1))"
  by code_simp+

lemma sample_log_readable: "list_all (line_readable sample_load) sample_log"
proof -
  have "entry_line (sample_log ! 0) \<noteq> entry_line (sample_log ! 1)" using sample_lines(3) by auto
  then show ?thesis using sample_lines(1,2)
    by (simp add: line_readable_def sample_load_def sample_log_def)
qed

theorem retained_history_roundtrip_witness:
  "let w = finalize_writer 200 (append_requests sample_requests (RetainedHistoryWriter_create 100 ''r'' ''t'' ''/w''))
   in iter_retained_history_entries sample_load (stored w) = Inr (rw_entry_log w) \<and>
      map re_text (rw_entry_log w) = [''rules'', ''{}''] \<and>
      lookup_retained_history_entry sample_load (stored w) ''r:100'' 2 = Inr None"
proof -
  have "in_time 100 200 sample_requests" by (simp add: in_time_def sample_requests_def)
  moreover have "list_all (line_readable sample_load)
      (rw_entry_log (append_requests sample_requests (RetainedHistoryWriter_create 100 ''r'' ''t'' ''/w'')))"
    unfolding sample_log_written by (rule sample_log_readable)
  ultimately have "let w = finalize_writer 200 (append_requests sample_requests (RetainedHistoryWriter_create 100 ''r'' ''t'' ''/w''));
      h = stored w; log = rw_entry_log w
    in iter_retained_history_entries sample_load h = Inr log \<and> map re_text log = map aq_text sample_requests \<and>
      (\<exists>meta. retained_history_metadata sample_load h = Inr meta \<and>
        lookup_retained_history_entry sample_load h (lk_log_id meta) (int (length sample_requests) + int 0) = Inr None)"
    using retained_history_roundtrip [of 100 200 sample_requests sample_load "''r''" "''t''" "''/w''" 0]
    unfolding Let_def by blast
  moreover have "lk_log_id meta = ''r:100''" if "retained_history_metadata sample_load
      (stored (finalize_writer 200 (append_requests sample_requests (RetainedHistoryWriter_create 100 ''r'' ''t'' ''/w'')))) = Inr meta" for meta
  proof -
    have "retained_history_log_id (rw_manifest_file (finalize_writer 200
        (append_requests sample_requests (RetainedHistoryWriter_create 100 ''r'' ''t'' ''/w'')))) = ''r:100''" by code_simp
    then show ?thesis using metadata_log_id [OF that] by (simp add: stored_def)
  qed
  ultimately show ?thesis by (auto simp: Let_def sample_requests_def)
qed

text \<open>A text with U+0085: its line is read as two pieces, neither of which is the line, so a loader that
  accepts complete entries only refuses the whole log.\<close>

lemma next_line_splits_the_log:
  "let w = snd (append_entry (\<lambda>_. 100) 0 ''source_message'' (''a'' @ [CHR 0x85] @ ''b'') None None None []
         (RetainedHistoryWriter_create 100 ''r'' ''t'' ''/w''));
       lines = splitlines (rw_entry_log_text w)
   in length lines = 2 \<and> list_all (\<lambda>line. line \<noteq> entry_line (hd (rw_entry_log w))) lines"
  by code_simp

end
