(* ===== verification/History_Properties.thy ===== *)
theory History_Properties
  imports Context_Runner Retained_History_Properties Compaction_Properties
begin

section \<open>The request history: the laws\<close>

text \<open>
  Whatever the runner does with the history manager, the source history mirrors the trajectory,
  every source message is either still in the request history or named by exactly one replacement
  record, only assistant and tool messages are ever replaced, and everything that was recorded
  stays recorded.
\<close>

subsection \<open>Replacing items\<close>

abbreviation source_indices :: "RuntimeHistoryItem list \<Rightarrow> int list" where
  "source_indices items \<equiv> List.map_filter hi_source_trajectory_index items"

abbreviation outside :: "int list \<Rightarrow> nat \<Rightarrow> RuntimeHistoryItem list \<Rightarrow> RuntimeHistoryItem list" where
  "outside c i items \<equiv> map snd (filter (\<lambda>x. int (fst x) \<notin> set c) (enumerate i items))"

abbreviation inside :: "int list \<Rightarrow> nat \<Rightarrow> RuntimeHistoryItem list \<Rightarrow> RuntimeHistoryItem list" where
  "inside c i items \<equiv> map snd (filter (\<lambda>x. int (fst x) \<in> set c) (enumerate i items))"

lemma map_filter_Nil [simp]: "List.map_filter f [] = []"
  by (simp add: List.map_filter_def)

lemma map_filter_Cons [simp]:
  "List.map_filter f (x # xs) = (case f x of None \<Rightarrow> List.map_filter f xs | Some y \<Rightarrow> y # List.map_filter f xs)"
  by (simp add: List.map_filter_def split: option.split)

lemma map_filter_append [simp]:
  "List.map_filter f (xs @ ys) = List.map_filter f xs @ List.map_filter f ys"
  by (simp add: List.map_filter_def)

lemma set_map_filter_eq: "set (List.map_filter f xs) = {y. \<exists>x\<in>set xs. f x = Some y}"
  by (force simp: List.map_filter_def)

lemma replace_compacted_map_filter:
  assumes "f r = None"
  shows "List.map_filter f (replace_compacted c r b i items) = List.map_filter f (outside c i items)"
  using assms by (induction items arbitrary: b i) (auto split: option.split)

lemma replace_compacted_messages:
  "map hi_message (replace_compacted c r b i items) =
     splice_summary c (hi_message r) b i (map hi_message items)"
  by (induction items arbitrary: b i) simp_all

lemma replace_compacted_mset_True:
  "mset (replace_compacted c r True i items) = mset (outside c i items)"
  by (induction items arbitrary: i) simp_all

lemma replace_compacted_mset:
  assumes "\<exists>j<length items. int (i + j) \<in> set c"
  shows "mset (replace_compacted c r False i items) = add_mset r (mset (outside c i items))"
  using assms
proof (induction items arbitrary: i)
  case (Cons item items)
  show ?case
  proof (cases "int i \<in> set c")
    case False
    from Cons.prems obtain j where "j < length (item # items)" "int (i + j) \<in> set c" by blast
    with False have "\<exists>j<length items. int (Suc i + j) \<in> set c" by (cases j) auto
    with Cons.IH [of "Suc i"] False show ?thesis by simp
  qed (simp add: replace_compacted_mset_True)
qed simp

lemma map_filter_partition:
  "mset (List.map_filter f (inside c i items)) + mset (List.map_filter f (outside c i items)) =
     mset (List.map_filter f items)"
  by (induction items arbitrary: i) (auto split: option.split)

lemma sorted_outside:
  "sorted_wrt R (List.map_filter f items) \<Longrightarrow> sorted_wrt R (List.map_filter f (outside c i items))"
proof (induction items arbitrary: i)
  case (Cons item items)
  have "set (List.map_filter f (outside c j items)) \<subseteq> set (List.map_filter f items)" for j
  proof -
    have "set (outside c j items) \<subseteq> set items" by (auto simp: in_set_enumerate_eq)
    then show ?thesis unfolding set_map_filter_eq by blast
  qed
  with Cons show ?case by (auto split: option.splits)
qed simp

text \<open>Under a strictly increasing list of positions, the items asked for are the items inside it.\<close>

lemma items_at_inside:
  assumes "sorted_wrt (<) c" and "list_all (\<lambda>j. 0 \<le> j \<and> nat j < length (hm_request_items m)) c"
  shows "request_items_at m c = inside c 0 (hm_request_items m)"
proof -
  let ?n = "length (hm_request_items m)"
  have sc: "sorted_wrt (<) (map nat c)"
    unfolding sorted_wrt_map
    by (rule sorted_wrt_mono_rel [OF _ assms(1)]) (use assms(2) in \<open>auto simp: list_all_iff\<close>)
  have "set (map nat c) = set (filter (\<lambda>i. int i \<in> set c) [0..<?n])"
  proof (intro set_eqI iffI)
    fix i assume "i \<in> set (map nat c)"
    then show "i \<in> set (filter (\<lambda>i. int i \<in> set c) [0..<?n])"
      using assms(2) by (auto simp: list_all_iff)
  next
    fix i assume "i \<in> set (filter (\<lambda>i. int i \<in> set c) [0..<?n])"
    then show "i \<in> set (map nat c)" by (auto intro: image_eqI [where x = "int i"])
  qed
  then have "map nat c = filter (\<lambda>i. int i \<in> set c) [0..<?n]"
    using sc by (intro strict_sorted_equal)
      (auto simp: sorted_wrt_filter sorted_wrt_upt)
  moreover have "filter (\<lambda>i. 0 \<le> i \<and> i < int ?n) c = c"
    using assms(2) by (auto simp: filter_id_conv list_all_iff)
  moreover have "map (\<lambda>i. hm_request_items m ! nat i) c = map ((!) (hm_request_items m)) (map nat c)"
    by simp
  ultimately show ?thesis
    by (simp only: request_items_at_def enumerate_nth filter_map comp_def fst_conv map_map snd_conv)
qed

subsection \<open>The invariant\<close>

definition source_ok :: "nat \<Rightarrow> RuntimeHistoryItem \<Rightarrow> bool" where
  "source_ok i item \<longleftrightarrow> hi_item_kind item = ''source'' \<and>
     hi_item_id item = numbered ''history_item_'' i \<and>
     hi_source_trajectory_index item = Some (int i) \<and> hi_replacement_record_id item = None"

definition replacement_ok :: "RuntimeHistoryItem \<Rightarrow> bool" where
  "replacement_ok item \<longleftrightarrow> hi_item_kind item = ''replacement'' \<and>
     hi_source_trajectory_index item = None \<and> hi_replacement_record_id item \<noteq> None \<and>
     msg_role (hi_message item) = SYSTEM"

definition replaced_indices :: "RuntimeHistoryManager \<Rightarrow> int list" where
  "replaced_indices m = concat (map rr_source_trajectory_indices (hm_replacement_history m))"

definition sources_inv :: "RuntimeHistoryManager \<Rightarrow> bool" where
  "sources_inv m \<longleftrightarrow> (\<forall>i<length (hm_source_items m). source_ok i (hm_source_items m ! i)) \<and>
     (\<forall>item\<in>set (hm_request_items m). item \<in> set (hm_source_items m) \<or> replacement_ok item)"

definition partition_inv :: "RuntimeHistoryManager \<Rightarrow> bool" where
  "partition_inv m \<longleftrightarrow> sorted_wrt (<) (source_indices (hm_request_items m)) \<and>
     mset (source_indices (hm_request_items m)) + mset (replaced_indices m) =
       mset (map int [0..<length (hm_source_items m)]) \<and>
     (\<forall>i\<in>set (replaced_indices m). turn_message (hi_message (hm_source_items m ! nat i)))"

definition records_inv :: "RuntimeHistoryManager \<Rightarrow> bool" where
  "records_inv m \<longleftrightarrow>
     mset (List.map_filter hi_replacement_record_id (hm_request_items m)) =
       mset (map rr_record_id (hm_replacement_history m)) \<and>
     map rr_record_id (hm_replacement_history m) =
       map (\<lambda>k. numbered ''replacement_history_'' (Suc k)) [0..<length (hm_replacement_history m)]"

definition retained_inv :: "RuntimeHistoryManager \<Rightarrow> bool" where
  "retained_inv m \<longleftrightarrow> (case hm_writer m of None \<Rightarrow> hm_retained_entry_ids m = []
     | Some w \<Rightarrow> writer_inv w \<and> hm_retained_entry_ids m = map re_entry_id (rw_entry_log w))"

definition history_inv :: "RuntimeHistoryManager \<Rightarrow> bool" where
  "history_inv m \<longleftrightarrow> sources_inv m \<and> partition_inv m \<and> records_inv m \<and> retained_inv m"

lemmas history_inv_defs = sources_inv_def partition_inv_def records_inv_def

subsection \<open>Recording\<close>

lemma append_entry_of: "\<exists>q. append_entry clock t k x si ii r md = append_of q"
  by (rule exI [of _ "\<lparr>aq_clock = clock, aq_turn_index = t, aq_kind = k, aq_text = x, aq_source_index = si,
      aq_item_id = ii, aq_role = r, aq_metadata = md\<rparr>"]) (simp add: append_of_def)

lemma append_ofs:
  "\<exists>q. append_source_message clock t item_id i msg = append_of q"
  "\<exists>q. append_replacement_summary clock t item_id msg rid ids es ns slot = append_of q"
  "\<exists>q. append_carried_forward_state clock t rid v = append_of q"
  "\<exists>q. append_history_control clock t kind v = append_of q"
  by (simp_all only: append_source_message_def append_replacement_summary_def
      append_carried_forward_state_def append_history_control_def append_entry_of)

lemma retain_inv:
  assumes "\<exists>q. app = append_of q" and "retained_inv m"
  shows "retained_inv (snd (retain app m))"
proof (cases "hm_writer m")
  case (Some w)
  obtain q where "app = append_of q" using assms(1) by blast
  moreover have "writer_inv w" "hm_retained_entry_ids m = map re_entry_id (rw_entry_log w)"
    using assms(2) Some by (simp_all add: retained_inv_def)
  ultimately show ?thesis
    using writer_log.app_inv [of w q] writer_log.app_entries [of w q] Some
    by (simp add: retain_def retained_inv_def Let_def split_beta)
qed (use assms(2) in \<open>simp add: retain_def retained_inv_def\<close>)

lemma retain_ids: "prefix (hm_retained_entry_ids m) (hm_retained_entry_ids (snd (retain app m)))"
  by (simp add: retain_def Let_def split_beta split: option.split)

text \<open>Recording touches nothing of the histories.\<close>

definition same_history :: "RuntimeHistoryManager \<Rightarrow> RuntimeHistoryManager \<Rightarrow> bool" where
  "same_history m m' \<longleftrightarrow> hm_source_items m' = hm_source_items m \<and>
     hm_request_items m' = hm_request_items m \<and> hm_replacement_history m' = hm_replacement_history m \<and>
     hm_reference_context m' = hm_reference_context m \<and>
     prefix (hm_retained_entry_ids m) (hm_retained_entry_ids m') \<and>
     (retained_inv m \<longrightarrow> retained_inv m')"

lemma same_history_refl [simp]: "same_history m m"
  by (simp add: same_history_def)

lemma same_history_trans: "same_history a b \<Longrightarrow> same_history b c \<Longrightarrow> same_history a c"
  by (auto simp: same_history_def)

lemma retain_same: "\<exists>q. app = append_of q \<Longrightarrow> same_history m (snd (retain app m))"
  by (simp add: same_history_def retain_inv retain_ids)

lemma append_source_retained_entry_same: "same_history m (snd (append_source_retained_entry env item t m))"
  by (simp add: append_source_retained_entry_def retain_same append_ofs split: option.split)

lemma retain_replacement_same:
  "same_history m (snd (retain_replacement env artifact summary t rid iid items m))"
  unfolding retain_replacement_def Let_def split_beta
  by (auto intro!: same_history_trans [OF retain_same] same_history_trans [OF _ retain_same]
      append_ofs retain_same split: option.split)

subsection \<open>Taking in source messages\<close>

lemma retained_inv_items [simp]:
  "retained_inv (m\<lparr>hm_source_items := s, hm_request_items := r\<rparr>) = retained_inv m"
  "retained_inv (m\<lparr>hm_request_items := r, hm_replacement_history := h\<rparr>) = retained_inv m"
  "retained_inv (m\<lparr>hm_reference_context := c\<rparr>) = retained_inv m"
  by (simp_all add: retained_inv_def split: option.split)

lemma sync_next_items:
  "\<exists>item. source_ok (length (hm_source_items m)) item \<and> hi_message item = msg \<and>
     hm_source_items (sync_next env t msg m) = hm_source_items m @ [item] \<and>
     hm_request_items (sync_next env t msg m) = hm_request_items m @ [item] \<and>
     hm_replacement_history (sync_next env t msg m) = hm_replacement_history m \<and>
     prefix (hm_retained_entry_ids m) (hm_retained_entry_ids (sync_next env t msg m)) \<and>
     (retained_inv m \<longrightarrow> retained_inv (sync_next env t msg m))"
  using append_source_retained_entry_same
  by (auto simp: sync_next_def Let_def split_beta source_ok_def numbered_def same_history_def)

lemma partition_bound:
  assumes "partition_inv m" and "i \<in> set (source_indices (hm_request_items m)) \<or> i \<in> set (replaced_indices m)"
  shows "0 \<le> i" "i < int (length (hm_source_items m))"
proof -
  have "i \<in># mset (map int [0..<length (hm_source_items m)])"
    using assms by (metis partition_inv_def set_mset_mset union_iff)
  then show "0 \<le> i" "i < int (length (hm_source_items m))" by auto
qed

lemma sync_next_inv:
  assumes "history_inv m"
  shows "history_inv (sync_next env t msg m)"
proof -
  let ?n = "length (hm_source_items m)" and ?m = "sync_next env t msg m"
  obtain item where item: "source_ok ?n item"
    "hm_source_items ?m = hm_source_items m @ [item]" "hm_request_items ?m = hm_request_items m @ [item]"
    "hm_replacement_history ?m = hm_replacement_history m" "retained_inv ?m"
    using sync_next_items [of m msg env t] assms by (auto simp: history_inv_def)
  have m: "sources_inv m" "partition_inv m" "records_inv m" using assms by (simp_all add: history_inv_def)
  have src: "hi_source_trajectory_index item = Some (int ?n)" "hi_replacement_record_id item = None"
    using item(1) by (simp_all add: source_ok_def)
  have "\<forall>i\<in>set (source_indices (hm_request_items m)). i < int ?n"
    "\<forall>i\<in>set (replaced_indices m). 0 \<le> i \<and> i < int ?n"
    using partition_bound [OF m(2)] by blast+
  moreover have "replaced_indices ?m = replaced_indices m" by (simp add: replaced_indices_def item(4))
  ultimately have "partition_inv ?m"
    using m(2) by (auto simp: partition_inv_def item(2,3) src sorted_wrt_append nth_append)
  moreover have "sources_inv ?m"
    using m(1) item(1) by (auto simp: sources_inv_def item(2,3) nth_append less_Suc_eq)
  moreover have "records_inv ?m"
    using m(3) by (simp add: records_inv_def item(3,4) src del: upt_Suc mset_map)
  ultimately show ?thesis using item(5) by (simp add: history_inv_def)
qed

lemma sync_source_messages_induct:
  assumes "P m" and "\<And>m t. P m \<Longrightarrow> length (hm_source_items m) < length msgs \<Longrightarrow>
      P (sync_next env t (msgs ! length (hm_source_items m)) m)"
  shows "P (sync_source_messages env msgs turn m)"
  using assms
proof (induction env msgs turn m rule: sync_source_messages.induct)
  case (1 env msgs turn m)
  show ?case
  proof (cases "length (hm_source_items m) < length msgs")
    case True
    then show ?thesis
      using 1 by (simp add: sync_source_messages.simps [of env msgs turn m])
  next
    case False
    then show ?thesis using 1 by (simp add: sync_source_messages.simps [of env msgs turn m])
  qed
qed

lemma sync_source_messages_inv: "history_inv m \<Longrightarrow> history_inv (sync_source_messages env msgs turn m)"
  by (rule sync_source_messages_induct) (simp_all add: sync_next_inv)

lemma sync_source_messages_length:
  "length (hm_source_items (sync_source_messages env msgs turn m)) =
     max (length (hm_source_items m)) (length msgs)"
proof (induction env msgs turn m rule: sync_source_messages.induct)
  case (1 env msgs turn m)
  then show ?case by (cases "length (hm_source_items m) < length msgs")
      (simp_all add: sync_source_messages.simps [of env msgs turn m])
qed

text \<open>The source messages are a prefix of the trajectory whenever they were before.\<close>

lemma sync_source_messages_messages:
  assumes "map hi_message (hm_source_items m) = take (length (hm_source_items m)) msgs"
  shows "map hi_message (hm_source_items (sync_source_messages env msgs turn m)) =
    take (length (hm_source_items (sync_source_messages env msgs turn m))) msgs"
proof (rule sync_source_messages_induct
    [where P = "\<lambda>m. map hi_message (hm_source_items m) = take (length (hm_source_items m)) msgs"])
  fix m :: RuntimeHistoryManager and t
  assume "map hi_message (hm_source_items m) = take (length (hm_source_items m)) msgs"
    "length (hm_source_items m) < length msgs"
  then show "map hi_message (hm_source_items (sync_next env t (msgs ! length (hm_source_items m)) m)) =
      take (length (hm_source_items (sync_next env t (msgs ! length (hm_source_items m)) m))) msgs"
    using sync_next_items [of m "msgs ! length (hm_source_items m)" env t]
    by (auto simp: take_Suc_conv_app_nth)
qed (rule assms)

subsection \<open>Replacing a compacted span\<close>

lemma replacement_record_id_numbered:
  "replacement_record_id m = numbered ''replacement_history_'' (Suc (length (hm_replacement_history m)))"
  by (simp add: replacement_record_id_def numbered_def add.commute)

lemma apply_compaction_replacement_items:
  assumes "msg_role summary = SYSTEM"
  shows "\<exists>item. replacement_ok item \<and> hi_message item = summary \<and>
      hi_replacement_record_id item = Some (replacement_record_id m) \<and>
      rr_record_id (fst (apply_compaction_replacement env a summary t m)) = replacement_record_id m \<and>
      rr_source_trajectory_indices (fst (apply_compaction_replacement env a summary t m)) =
        source_indices (request_items_at m (art_compacted_message_indices a)) \<and>
      hm_source_items (snd (apply_compaction_replacement env a summary t m)) = hm_source_items m \<and>
      hm_request_items (snd (apply_compaction_replacement env a summary t m)) =
        replace_compacted (art_compacted_message_indices a) item False 0 (hm_request_items m) \<and>
      hm_replacement_history (snd (apply_compaction_replacement env a summary t m)) =
        hm_replacement_history m @ [fst (apply_compaction_replacement env a summary t m)] \<and>
      prefix (hm_retained_entry_ids m)
        (hm_retained_entry_ids (snd (apply_compaction_replacement env a summary t m))) \<and>
      (retained_inv m \<longrightarrow> retained_inv (snd (apply_compaction_replacement env a summary t m)))"
proof -
  have "same_history m (snd (retain_replacement env a summary t (replacement_record_id m)
      (replacement_item_id m) (request_items_at m (art_compacted_message_indices a)) m))"
    by (rule retain_replacement_same)
  then show ?thesis
    using assms unfolding apply_compaction_replacement_def Let_def split_beta same_history_def
    by (intro exI [of _ "\<lparr>hi_item_id = replacement_item_id m, hi_item_kind = ''replacement'',
        hi_message = summary, hi_source_trajectory_index = None,
        hi_replacement_record_id = Some (replacement_record_id m),
        hi_retained_entry_id = fst (fst (retain_replacement env a summary t (replacement_record_id m)
          (replacement_item_id m) (request_items_at m (art_compacted_message_indices a)) m))\<rparr>"])
      (simp add: replacement_ok_def)
qed

definition replaceable :: "RuntimeHistoryManager \<Rightarrow> ContextSelectionPlan \<Rightarrow> bool" where
  "replaceable m p \<longleftrightarrow> (case cp_compaction_artifact p of
       None \<Rightarrow> True
     | Some a \<Rightarrow> map_option msg_role (cp_synthetic_summary_message p) = Some SYSTEM \<and>
         art_compacted_message_indices a \<noteq> [] \<and> sorted_wrt (<) (art_compacted_message_indices a) \<and>
         list_all (\<lambda>j. 0 \<le> j \<and> nat j < length (hm_request_items m) \<and>
             turn_message (hi_message (hm_request_items m ! nat j))) (art_compacted_message_indices a))"

lemma mset_map_filter: "mset xs = mset ys \<Longrightarrow> mset (List.map_filter f xs) = mset (List.map_filter f ys)"
  by (metis List.map_filter_def mset_filter mset_map)

text \<open>An assistant or tool message in the request history is still the source item it was.\<close>

lemma source_item:
  assumes "sources_inv m" and "it \<in> set (hm_request_items m)" and "turn_message (hi_message it)"
  shows "it \<in> set (hm_source_items m)" "hi_replacement_record_id it = None"
proof -
  show *: "it \<in> set (hm_source_items m)"
    using assms by (auto simp: sources_inv_def replacement_ok_def turn_message_def)
  then obtain k where "k < length (hm_source_items m)" "it = hm_source_items m ! k"
    by (auto simp: in_set_conv_nth)
  then show "hi_replacement_record_id it = None"
    using assms(1) by (auto simp: sources_inv_def source_ok_def)
qed

lemma replacement_inv:
  assumes inv: "history_inv m" and p: "replaceable m p" and a: "cp_compaction_artifact p = Some a"
    "cp_synthetic_summary_message p = Some summary"
  shows "history_inv (snd (apply_compaction_replacement env a summary t m))"
proof -
  let ?c = "art_compacted_message_indices a" and ?req = "hm_request_items m" and ?src = "hm_source_items m"
  let ?m = "snd (apply_compaction_replacement env a summary t m)"
  have c: "?c \<noteq> []" "sorted_wrt (<) ?c" "msg_role summary = SYSTEM"
    "list_all (\<lambda>j. 0 \<le> j \<and> nat j < length ?req \<and> turn_message (hi_message (?req ! nat j))) ?c"
    using p a by (simp_all add: replaceable_def)
  let ?r = "fst (apply_compaction_replacement env a summary t m)"
  obtain item where x: "replacement_ok item" "hi_replacement_record_id item = Some (replacement_record_id m)"
    "rr_record_id ?r = replacement_record_id m"
    "rr_source_trajectory_indices ?r = source_indices (request_items_at m ?c)"
    "hm_source_items ?m = ?src" "hm_request_items ?m = replace_compacted ?c item False 0 ?req"
    "hm_replacement_history ?m = hm_replacement_history m @ [?r]" "retained_inv ?m"
    using apply_compaction_replacement_items [OF c(3), where env = env and a = a and t = t and m = m] inv by (auto simp: history_inv_def)
  have at: "request_items_at m ?c = inside ?c 0 ?req"
    using c(4) by (intro items_at_inside [OF c(2)]) (auto simp: list_all_iff)
  have inside: "set (inside ?c 0 ?req) \<subseteq> {it \<in> set ?req. turn_message (hi_message it)}"
    using c(4) by (auto simp: in_set_enumerate_eq list_all_iff)
  have m: "sources_inv m" "partition_inv m" "records_inv m" using inv by (simp_all add: history_inv_def)
  have item: "hi_source_trajectory_index item = None" using x(1) by (simp add: replacement_ok_def)
  have idx: "source_indices (hm_request_items ?m) = source_indices (outside ?c 0 ?req)"
    by (simp only: x(6) replace_compacted_map_filter [where f = hi_source_trajectory_index and r = item, OF item])
  have "\<exists>j<length ?req. int (0 + j) \<in> set ?c"
    using c(1,4) by (cases ?c) (auto simp: list_all_iff intro: exI [of _ "nat (hd ?c)"])
  note new = replace_compacted_mset [OF this, of item]
  have rep: "replaced_indices ?m = replaced_indices m @ source_indices (inside ?c 0 ?req)"
    by (simp add: replaced_indices_def x(4,7) at)
  have turn: "turn_message (hi_message (?src ! nat i))" if mem: "i \<in> set (source_indices (inside ?c 0 ?req))" for i
  proof -
    obtain it where it: "it \<in> set ?req" "turn_message (hi_message it)" "hi_source_trajectory_index it = Some i"
      using mem inside unfolding set_map_filter_eq by blast
    then have "it \<in> set ?src" using source_item(1) [OF m(1)] by blast
    then obtain k where "k < length ?src" "it = ?src ! k" by (auto simp: in_set_conv_nth)
    moreover from this have "int k = i" using m(1) it(3) by (auto simp: sources_inv_def source_ok_def)
    ultimately show ?thesis using it(2) by auto
  qed
  have "partition_inv ?m"
    using m(2) map_filter_partition [of hi_source_trajectory_index ?c 0 ?req] turn
    unfolding partition_inv_def idx rep x(5)
    by (auto simp: sorted_outside ac_simps)
  moreover have "sources_inv ?m"
  proof -
    have "set (replace_compacted ?c item False 0 ?req) \<subseteq> insert item (set ?req)"
    proof -
      have "set (replace_compacted ?c item False 0 ?req) = insert item (set (outside ?c 0 ?req))"
        using new by (metis set_mset_add_mset_insert set_mset_mset)
      then show ?thesis by (auto simp: in_set_enumerate_eq)
    qed
    then show ?thesis using m(1) x(1) by (auto simp: sources_inv_def x(5,6))
  qed
  moreover have "records_inv ?m"
  proof -
    have "List.map_filter hi_replacement_record_id (inside ?c 0 ?req) = []"
    proof -
      have "hi_replacement_record_id it = None" if "it \<in> set (inside ?c 0 ?req)" for it
        using that inside source_item(2) [OF m(1)] by blast
      then show ?thesis by (simp add: List.map_filter_def filter_empty_conv)
    qed
    then have "mset (List.map_filter hi_replacement_record_id (hm_request_items ?m)) =
        add_mset (replacement_record_id m) (mset (List.map_filter hi_replacement_record_id ?req))"
      using map_filter_partition [of hi_replacement_record_id ?c 0 ?req]
        mset_map_filter [OF new [folded mset.simps(2)], of hi_replacement_record_id]
      by (simp add: x(2,6))
    with m(3) show ?thesis
      by (simp add: records_inv_def x(3,7) replacement_record_id_numbered del: mset_map)
  qed
  ultimately show ?thesis using x(8) by (simp add: history_inv_def)
qed

subsection \<open>The runner's step\<close>

lemma build_context_plan_replaceable:
  assumes "build_context_plan m policy l s n = Inr p"
  shows "replaceable m p"
proof -
  obtain r where r: "plan_result (map hi_message (hm_request_items m)) l p r"
    using assms plan_request_context_result unfolding build_context_plan_def by blast
  show ?thesis
  proof (cases "sel_compaction_artifact r")
    case (Some a)
    then have "map_option msg_role (sel_synthetic_summary_message r) = Some SYSTEM"
      "art_compacted_message_indices a \<noteq> []" "sorted_wrt (<) (art_compacted_message_indices a)"
      "list_all (\<lambda>j. 0 \<le> j \<and> nat j < length (hm_request_items m) \<and>
         turn_message (map hi_message (hm_request_items m) ! nat j)) (art_compacted_message_indices a)"
      using r by (auto simp: plan_result_def compaction_sound_def)
    then show ?thesis using r Some by (auto simp: replaceable_def plan_result_def list_all_iff)
  qed (use r in \<open>simp add: replaceable_def plan_result_def\<close>)
qed

lemma compaction_fallback_ok:
  assumes "kind \<in> set model_backed_failure_kinds"
  shows "compaction_fallback kind plan = Inr (plan\<lparr>cp_model_backed_requested := True,
     cp_model_backed_used := False, cp_compaction_backend_mode := Some ''inline_model'',
     cp_fallback_policy := Some ''deterministic_compaction'', cp_fallback_applied := True,
     cp_fallback_reason := Some kind, cp_compaction_backend_failure_kind := Some kind\<rparr>)"
  using assms by (simp add: compaction_fallback_def apply_model_backed_fallback_def
      model_backed_backend_def model_backed_fallback_policy_def)

text \<open>The failure kind of a model-backed compaction, or None when its output is used.\<close>

definition compaction_failure ::
  "(pydict \<Rightarrow> ModelBackedCompactionOutput option) \<Rightarrow> RuntimeClientCapabilities \<Rightarrow> client_reply
    \<Rightarrow> ContextSelectionPlan \<Rightarrow> string + ModelBackedCompactionOutput" where
  "compaction_failure validate caps reply plan =
     (if \<not> (cap_supports_structured_output caps \<and> cap_supports_model_backed_compaction caps)
      then Inl ''capability_unavailable''
      else case reply of ClientRaised \<Rightarrow> Inl ''provider_error''
      | ClientReplied response \<Rightarrow>
         (case gr_structured_output response of None \<Rightarrow> Inl ''structured_output_parse_error''
          | Some _ \<Rightarrow> (case Option.bind (normalize_model_backed_compaction_output_payload
               (gr_structured_output response)) validate of
              None \<Rightarrow> Inl ''schema_validation_error''
            | Some out \<Rightarrow> if validate_model_backed_compaction_span out plan = None then Inr out
                else Inl ''compacted_span_mismatch'')))"

lemma compaction_failure_kind:
  "compaction_failure validate caps reply plan = Inl kind \<Longrightarrow> kind \<in> set model_backed_failure_kinds"
  by (auto simp: compaction_failure_def model_backed_failure_kinds_def
      split: if_splits client_reply.splits option.splits)

lemma maybe_run_model_backed_compaction_eq:
  "maybe_run_model_backed_compaction validate caps mode reply plan =
     (if mode \<noteq> ''model_backed_compaction'' then Inr plan
      else if cp_compaction_artifact plan = None then Inr plan
      else case compaction_failure validate caps reply plan of
             Inl kind \<Rightarrow> compaction_fallback kind plan
           | Inr out \<Rightarrow> Inr (apply_model_backed_compaction_output plan out ''inline_model''))"
  by (auto simp: maybe_run_model_backed_compaction_def compaction_failure_def
      normalize_model_backed_compaction_output_payload_def model_backed_backend_def
      split: client_reply.split option.splits)

lemma maybe_run_Inr: "is_ok (maybe_run_model_backed_compaction validate caps mode reply plan)"
  by (auto simp: maybe_run_model_backed_compaction_eq is_ok_def compaction_fallback_ok
      dest!: compaction_failure_kind split: sum.split)

lemma maybe_run_replaceable:
  assumes "replaceable m p" and "maybe_run_model_backed_compaction validate caps mode reply p = Inr q"
  shows "replaceable m q"
proof -
  have "replaceable m (apply_model_backed_compaction_output p out b)" for out b
    using assms(1) by (auto simp: replaceable_def apply_model_backed_compaction_output_def
        plain_message_def Let_def split: option.splits)
  moreover have "replaceable m q" if "compaction_fallback kind p = Inr q"
    "kind \<in> set model_backed_failure_kinds" for kind
    using assms(1) that by (auto simp: compaction_fallback_ok replaceable_def split: option.splits)
  ultimately show ?thesis
    using assms by (auto simp: maybe_run_model_backed_compaction_eq dest: compaction_failure_kind
        split: if_splits sum.splits)
qed

lemma snapshot_from_plan_manager:
  "same_history (snd (snd (materialize_plan env p t m))) (snd (snapshot_from_plan env p l t m))"
  by (simp add: snapshot_from_plan_def Let_def split_beta retain_same append_ofs)

lemma history_inv_same: "same_history m m' \<Longrightarrow> history_inv m \<Longrightarrow> history_inv m'"
  by (simp add: same_history_def history_inv_def history_inv_defs replaced_indices_def del: mset_map)

lemma snapshot_from_plan_inv:
  assumes "history_inv m" and "replaceable m p"
  shows "history_inv (snd (snapshot_from_plan env p l t m))"
proof (rule history_inv_same [OF snapshot_from_plan_manager])
  show "history_inv (snd (snd (materialize_plan env p t m)))"
    using assms replacement_inv [OF assms]
    by (auto simp: materialize_plan_def Let_def split_beta split: option.split)
qed

lemma normalize_value: "normalize_policy_mode (Text (ContextPolicyMode_value mode)) = Inr mode"
  by (cases mode) (simp_all add: normalize_policy_mode_def ContextPolicyMode_of_str_def)

lemma build_context_plan_Inr: "\<exists>p. build_context_plan m (Text (ContextPolicyMode_value mode)) l s n = Inr p"
proof -
  let ?policy = "if mode = CPM_MODEL_BACKED_COMPACTION then Member CPM_DETERMINISTIC_COMPACTION
    else Text (ContextPolicyMode_value mode)"
  have "\<exists>x. normalize_policy_mode ?policy = Inr x"
    using normalize_value by (auto simp: normalize_policy_mode_def)
  then have "\<exists>r. select_request_messages (map hi_message (hm_request_items m)) ?policy l (Some s) (Some n) = Inr r"
    by (auto simp: select_request_messages_def)
  then show ?thesis
    by (auto simp: build_context_plan_def plan_request_context_def normalize_value Let_def)
qed

lemma prepare_request_context_ok:
  "\<exists>p q. build_context_plan m (Text (ContextPolicyMode_value mode)) l s n = Inr p \<and>
     maybe_run_model_backed_compaction validate caps (ContextPolicyMode_value mode) reply p = Inr q \<and>
     prepare_request_context env validate caps mode l reply n (t, s, m) =
       Inr (fst (snapshot_from_plan env q l n m),
            note_context_result (fst (snapshot_from_plan env q l n m)) (lim_context_max_tokens l) t,
            apply_context_selection_result (fst (snapshot_from_plan env q l n m)) s,
            snd (snapshot_from_plan env q l n m))"
proof -
  obtain p where p: "build_context_plan m (Text (ContextPolicyMode_value mode)) l s n = Inr p"
    using build_context_plan_Inr by blast
  obtain q where "maybe_run_model_backed_compaction validate caps (ContextPolicyMode_value mode) reply p = Inr q"
    using maybe_run_Inr [of validate caps "ContextPolicyMode_value mode" reply p]
    by (auto simp: is_ok_def split: sum.splits)
  with p show ?thesis by (auto simp: prepare_request_context_def Let_def split_beta)
qed

subsection \<open>Runs\<close>

datatype history_event =
    HSync "Message list" "int option"
  | HRequest ContextPolicyMode selection_limits RuntimeClientCapabilities client_reply int
      RuntimeTurnState RuntimeSessionState

fun history_step ::
  "history_env \<Rightarrow> (pydict \<Rightarrow> ModelBackedCompactionOutput option) \<Rightarrow> history_event
    \<Rightarrow> RuntimeHistoryManager \<Rightarrow> RuntimeHistoryManager" where
  "history_step env validate (HSync msgs turn) m = sync_source_messages env msgs turn m"
| "history_step env validate (HRequest mode l caps reply n t s) m =
     (case prepare_request_context env validate caps mode l reply n (t, s, m) of
        Inl _ \<Rightarrow> m | Inr (_, _, _, m') \<Rightarrow> m')"

definition history_le :: "RuntimeHistoryManager \<Rightarrow> RuntimeHistoryManager \<Rightarrow> bool" where
  "history_le m m' \<longleftrightarrow> prefix (hm_source_items m) (hm_source_items m') \<and>
     prefix (hm_replacement_history m) (hm_replacement_history m') \<and>
     prefix (hm_retained_entry_ids m) (hm_retained_entry_ids m')"

lemma history_step_inv: "history_inv m \<Longrightarrow> history_inv (history_step env validate e m)"
proof (cases e)
  case (HRequest mode l caps reply n t s)
  assume inv: "history_inv m"
  obtain p q where pq: "build_context_plan m (Text (ContextPolicyMode_value mode)) l s n = Inr p"
    "maybe_run_model_backed_compaction validate caps (ContextPolicyMode_value mode) reply p = Inr q"
    "history_step env validate e m = snd (snapshot_from_plan env q l n m)"
    using prepare_request_context_ok [of m mode l s n validate caps reply env t] by (auto simp: HRequest)
  then show ?thesis
    using snapshot_from_plan_inv [OF inv maybe_run_replaceable [OF build_context_plan_replaceable]] by metis
qed (simp add: sync_source_messages_inv)

lemma history_le_refl [simp]: "history_le m m"
  by (simp add: history_le_def)

lemma history_le_trans: "history_le a b \<Longrightarrow> history_le b c \<Longrightarrow> history_le a c"
  by (auto simp: history_le_def intro: prefix_order.trans)

lemma sync_next_le: "history_le m (sync_next env t msg m)"
  using sync_next_items [of m msg env t] by (auto simp: history_le_def)

lemma same_history_le: "same_history m m' \<Longrightarrow> history_le m m'"
  by (simp add: same_history_def history_le_def)

lemma materialize_plan_le:
  assumes "replaceable m p"
  shows "history_le m (snd (snd (materialize_plan env p t m)))"
proof (cases "cp_compaction_artifact p")
  case (Some a)
  then obtain summary where s: "cp_synthetic_summary_message p = Some summary" "msg_role summary = SYSTEM"
    using assms by (auto simp: replaceable_def)
  then show ?thesis
    using apply_compaction_replacement_items [OF s(2), where env = env and a = a and t = t and m = m] Some
    by (auto simp: materialize_plan_def Let_def split_beta history_le_def)
qed (simp add: materialize_plan_def)

lemma history_step_le: "history_inv m \<Longrightarrow> history_le m (history_step env validate e m)"
proof (cases e)
  case (HSync msgs turn)
  show ?thesis unfolding HSync history_step.simps
    by (rule sync_source_messages_induct) (auto intro: history_le_trans sync_next_le)
next
  case (HRequest mode l caps reply n t s)
  obtain p q where pq: "build_context_plan m (Text (ContextPolicyMode_value mode)) l s n = Inr p"
    "maybe_run_model_backed_compaction validate caps (ContextPolicyMode_value mode) reply p = Inr q"
    "history_step env validate e m = snd (snapshot_from_plan env q l n m)"
    using prepare_request_context_ok [of m mode l s n validate caps reply env t] by (auto simp: HRequest)
  have "replaceable m q" using maybe_run_replaceable [OF build_context_plan_replaceable] pq by blast
  then show ?thesis
    unfolding pq(3)
    by (rule history_le_trans [OF materialize_plan_le same_history_le [OF snapshot_from_plan_manager]])
qed

interpretation history: ordered_system "history_step env validate" "\<lambda>e m. True" history_inv history_le
  by unfold_locales (auto intro: history_step_inv history_step_le history_le_trans)

abbreviation start_history ::
  "history_env \<Rightarrow> Message list \<Rightarrow> (int \<times> string \<times> string \<times> string) option \<Rightarrow> RuntimeHistoryManager" where
  "start_history env msgs files \<equiv> from_trajectory_messages env msgs
     (map_option (\<lambda>(now, run, task, root). RetainedHistoryWriter_create now run task root) files)"

lemma start_history_inv: "history_inv (start_history env msgs files)"
proof -
  have "history_inv (new_history_manager\<lparr>hm_writer := map_option (\<lambda>(now, run, task, root).
      RetainedHistoryWriter_create now run task root) files\<rparr>)"
    by (cases files) (auto simp: history_inv_def history_inv_defs retained_inv_def replaced_indices_def
        new_history_manager_def RetainedHistoryWriter_create_def Let_def writer_inv_def)
  from sync_source_messages_inv [OF this] show ?thesis
    by (simp add: from_trajectory_messages_def Let_def history_inv_def history_inv_defs replaced_indices_def
        del: mset_map)
qed

subsection \<open>Properties\<close>

lemma visible_sources:
  assumes "history_inv m"
  shows "set (filter (\<lambda>i. pinned (hi_message (hm_source_items m ! i))) [0..<length (hm_source_items m)])
    \<subseteq> set (map nat (source_indices (hm_request_items m)))"
proof
  fix i assume "i \<in> set (filter (\<lambda>i. pinned (hi_message (hm_source_items m ! i))) [0..<length (hm_source_items m)])"
  then have i: "i < length (hm_source_items m)" "\<not> turn_message (hi_message (hm_source_items m ! i))"
    by (simp_all add: pinned_not_turn)
  then have "int i \<in># mset (source_indices (hm_request_items m)) + mset (replaced_indices m)"
    using assms by (simp add: history_inv_def partition_inv_def)
  moreover have "int i \<notin> set (replaced_indices m)"
    using i assms by (auto simp: history_inv_def partition_inv_def)
  ultimately show "i \<in> set (map nat (source_indices (hm_request_items m)))"
    by (auto intro: image_eqI [where x = "int i"])
qed

lemma writer_counts:
  assumes "writer_inv w"
  shows "distinct (map re_entry_id (rw_entry_log w))"
    "rm_total_entries (rw_manifest w) = int (length (rw_entry_log w))"
    "rm_last_entry_id (rw_manifest w) =
       (if rw_entry_log w = [] then None else Some (re_entry_id (last (rw_entry_log w))))"
  using assms writer_log.ident_distinct by (simp_all only: writer_inv_def)

text \<open>C15: no message is ever lost from the history of a run: after every sequence of new messages and
  request preparations, each source message is either still in the request history, where the
  sources stand in their original order, or named by exactly one replacement record; every system
  and user message is still there; and the request history holds exactly one summary for each of
  the consecutively numbered replacement records.\<close>

theorem history_run_partition:
  "let m = run_events (history_step env validate) es (start_history env msgs files);
       n = length (hm_source_items m)
   in mset (source_indices (hm_request_items m)) +
        mset (concat (map rr_source_trajectory_indices (hm_replacement_history m))) = mset (map int [0..<n]) \<and>
      sorted_wrt (<) (source_indices (hm_request_items m)) \<and>
      set (filter (\<lambda>i. pinned (hi_message (hm_source_items m ! i))) [0..<n])
        \<subseteq> set (map nat (source_indices (hm_request_items m))) \<and>
      mset (List.map_filter hi_replacement_record_id (hm_request_items m)) =
        mset (map rr_record_id (hm_replacement_history m)) \<and>
      map rr_record_id (hm_replacement_history m) =
        map (\<lambda>k. ''replacement_history_'' @ py_int_pad 6 (int k + 1)) [0..<length (hm_replacement_history m)]"
proof -
  let ?m = "run_events (history_step env validate) es (start_history env msgs files)"
  have inv: "history_inv ?m"
    by (rule history.run_inv [OF start_history_inv]) simp
  have "numbered ''replacement_history_'' (Suc k) = ''replacement_history_'' @ py_int_pad 6 (int k + 1)" for k
    by (simp add: numbered_def add.commute)
  then show ?thesis
    using inv visible_sources [OF inv]
    by (simp add: Let_def history_inv_def partition_inv_def records_inv_def replaced_indices_def
        del: mset_map set_filter set_upt)
qed

text \<open>The record of a run only grows: whatever comes later, the source items, the replacement
  records and the retained entry ids of an earlier moment are a prefix of the later ones; with a
  writer the remembered ids are exactly those of the entries in the log, all different, and as many
  as its manifest counts; without one nothing is retained.\<close>

theorem history_run_extends:
  "let m = run_events (history_step env validate) es (start_history env msgs files);
       m' = run_events (history_step env validate) fs m
   in prefix (hm_source_items m) (hm_source_items m') \<and>
      prefix (hm_replacement_history m) (hm_replacement_history m') \<and>
      prefix (hm_retained_entry_ids m) (hm_retained_entry_ids m') \<and>
      (case hm_writer m of
         None \<Rightarrow> hm_retained_entry_ids m = [] \<and> retained_history_last_entry_id m = None
       | Some w \<Rightarrow> hm_retained_entry_ids m = map re_entry_id (rw_entry_log w) \<and>
           distinct (hm_retained_entry_ids m) \<and>
           retained_history_entry_count m = rm_total_entries (rw_manifest w) \<and>
           retained_history_last_entry_id m = rm_last_entry_id (rw_manifest w))"
proof -
  let ?m = "run_events (history_step env validate) es (start_history env msgs files)"
  have inv: "history_inv ?m"
    by (rule history.run_inv [OF start_history_inv]) simp
  have "history_le ?m (run_events (history_step env validate) fs ?m)"
    by (rule history.run_le [OF inv]) simp
  moreover have "case hm_writer ?m of
         None \<Rightarrow> hm_retained_entry_ids ?m = [] \<and> retained_history_last_entry_id ?m = None
       | Some w \<Rightarrow> hm_retained_entry_ids ?m = map re_entry_id (rw_entry_log w) \<and>
           distinct (hm_retained_entry_ids ?m) \<and>
           retained_history_entry_count ?m = rm_total_entries (rw_manifest w) \<and>
           retained_history_last_entry_id ?m = rm_last_entry_id (rw_manifest w)"
  proof (cases "hm_writer ?m")
    case (Some w)
    then have "writer_inv w" "hm_retained_entry_ids ?m = map re_entry_id (rw_entry_log w)"
      using inv by (simp_all add: history_inv_def retained_inv_def)
    then show ?thesis
      using Some writer_counts [of w]
      by (simp add: retained_history_entry_count_def retained_history_last_entry_id_def last_map)
  qed (use inv in \<open>simp add: history_inv_def retained_inv_def retained_history_last_entry_id_def\<close>)
  ultimately show ?thesis by (simp add: Let_def history_le_def)
qed

lemma balanced_indices:
  "balanced ms l inc selected sel \<Longrightarrow>
   cs_included_message_indices sel = map int inc \<and> set inc \<subseteq> {..<length ms}"
  by (simp add: balanced_def)

text \<open>The manager and the planner compute the same request: the snapshot taken from a plan shows
  exactly the messages the plan selected, under every policy; afterwards the request history holds
  those messages if the plan compacted and is unchanged if it did not; and the source history is
  unchanged in either case.\<close>

theorem snapshot_shows_plan:
  "case build_context_plan m policy l s n of
     Inl e \<Rightarrow> snapshot_for_request env policy l s n m = Inl e
   | Inr p \<Rightarrow>
       (case snapshot_for_request env policy l s n m of Inl e \<Rightarrow> False | Inr (snap, m') \<Rightarrow>
          sn_selected_messages snap = cp_selected_messages p \<and>
          map hi_message (hm_request_items m') =
            (if cp_compaction_artifact p = None then map hi_message (hm_request_items m)
             else cp_selected_messages p) \<and>
          hm_source_items m' = hm_source_items m)"
proof (cases "build_context_plan m policy l s n")
  case (Inl e)
  then show ?thesis by (simp add: snapshot_for_request_def)
next
  case (Inr p)
  let ?ms = "map hi_message (hm_request_items m)"
  obtain r where r: "plan_result ?ms l p r"
    using Inr plan_request_context_result unfolding build_context_plan_def by blast
  let ?m1 = "snd (snd (materialize_plan env p n m))"
  have same: "same_history ?m1 (snd (snapshot_from_plan env p l n m))"
    by (rule snapshot_from_plan_manager)
  have sel: "sn_selected_messages (fst (snapshot_from_plan env p l n m)) =
      map hi_message (fst (materialize_plan env p n m))"
    by (simp add: snapshot_from_plan_def Let_def split_beta)
  have "map hi_message (fst (materialize_plan env p n m)) = cp_selected_messages p \<and>
      map hi_message (hm_request_items ?m1) =
        (if cp_compaction_artifact p = None then ?ms else cp_selected_messages p) \<and>
      hm_source_items ?m1 = hm_source_items m"
  proof (cases "cp_compaction_artifact p")
    case None
    let ?inc = "cs_included_message_indices (sel_context_selection r)"
    have "cp_selected_request_item_indices p = ?inc" "books_balance ?ms l r"
      "cp_selected_messages p = map (\<lambda>i. ?ms ! nat i) ?inc"
      using r None by (auto simp: plan_result_def compaction_sound_def)
    moreover from this(2) obtain ns where "?inc = map int ns" "set ns \<subseteq> {..<length ?ms}"
      using balanced_indices by blast
    ultimately have "map hi_message (request_items_at m (cp_selected_request_item_indices p)) = cp_selected_messages p"
      by (auto simp: request_items_at_def subset_eq filter_id_conv)
    with None show ?thesis by (simp add: materialize_plan_def)
  next
    case (Some a)
    have ra: "sel_compaction_artifact r = Some a" using r Some by (simp add: plan_result_def)
    then obtain x where x: "cp_synthetic_summary_message p = Some x" "msg_role x = SYSTEM"
      "cp_selected_messages p = splice_summary (art_compacted_message_indices a) x False 0 ?ms"
      using r by (auto simp: plan_result_def compaction_sound_def ra)
    then show ?thesis
      using apply_compaction_replacement_items [OF x(2), where env = env and a = a and t = n and m = m] Some
      by (auto simp: materialize_plan_def Let_def split_beta replace_compacted_messages)
  qed
  then show ?thesis
    using sel same by (simp add: Inr snapshot_for_request_def split_beta same_history_def)
qed

lemma deterministic_plan:
  "\<exists>p. build_context_plan m (Text ''deterministic_compaction'') l s n = Inr p \<and>
     cp_compaction_artifact p = sel_compaction_artifact
       (select_deterministic_compaction (map hi_message (hm_request_items m)) l (Some s) (Some n)) \<and>
     cp_synthetic_summary_message p = sel_synthetic_summary_message
       (select_deterministic_compaction (map hi_message (hm_request_items m)) l (Some s) (Some n))"
  using normalize_value [of CPM_DETERMINISTIC_COMPACTION]
  by (simp add: build_context_plan_def plan_request_context_def select_request_messages_def Let_def)

lemma deterministic_step:
  fixes m s l n
  assumes "candidate_ranges s (map hi_message (hm_request_items m)) \<noteq> []"
    and "\<not> within_limits l (map hi_message (hm_request_items m))"
  shows "\<exists>item. replacement_ok item \<and>
     hm_request_items (history_step env validate (HRequest CPM_DETERMINISTIC_COMPACTION l caps reply n t s) m) =
       replace_compacted (compacted_indices (chosen_ranges s n (map hi_message (hm_request_items m)) l))
         item False 0 (hm_request_items m) \<and>
     replaced_indices (history_step env validate (HRequest CPM_DETERMINISTIC_COMPACTION l caps reply n t s) m) =
       replaced_indices m @ source_indices (request_items_at m
         (compacted_indices (chosen_ranges s n (map hi_message (hm_request_items m)) l))) \<and>
     hm_source_items (history_step env validate (HRequest CPM_DETERMINISTIC_COMPACTION l caps reply n t s) m) =
       hm_source_items m"
proof -
  let ?ms = "map hi_message (hm_request_items m)"
  let ?rs = "chosen_ranges s n ?ms l"
  obtain p where p: "build_context_plan m (Text ''deterministic_compaction'') l s n = Inr p"
    "cp_compaction_artifact p = sel_compaction_artifact (compaction_result s n ?ms l (candidate_ranges s ?ms) ?rs)"
    "cp_synthetic_summary_message p = sel_synthetic_summary_message (compaction_result s n ?ms l (candidate_ranges s ?ms) ?rs)"
    using deterministic_plan [of m l s n] select_deterministic_result [OF assms] by auto
  obtain a where a: "sel_compaction_artifact (compaction_result s n ?ms l (candidate_ranges s ?ms) ?rs) = Some a"
    by (simp add: compaction_result_def Let_def)
  obtain k where k: "?rs = take k (build_turn_ranges ?ms)" using chosen_ranges_take by blast
  have c: "art_compacted_message_indices a = compacted_indices ?rs"
    "cp_synthetic_summary_message p = Some (att_summary (compaction_attempt s n ?ms ?rs))"
    using compaction_result_artifact [OF k a] p(3) by simp_all
  let ?m1 = "snd (apply_compaction_replacement env a (att_summary (compaction_attempt s n ?ms ?rs)) n m)"
  have "same_history ?m1 (snd (snapshot_from_plan env p l n m))"
    using snapshot_from_plan_manager [of env p n m l] p(2) a c(2)
    by (simp add: materialize_plan_def Let_def split_beta)
  moreover have "maybe_run_model_backed_compaction validate caps ''deterministic_compaction'' reply p = Inr p"
    by (simp add: maybe_run_model_backed_compaction_def)
  then have "history_step env validate (HRequest CPM_DETERMINISTIC_COMPACTION l caps reply n t s) m =
      snd (snapshot_from_plan env p l n m)"
    using p(1) by (simp add: prepare_request_context_def Let_def split_beta)
  ultimately show ?thesis
    using apply_compaction_replacement_items [OF summary_role [where s = s and n = n and ms = ?ms and rs = ?rs],
        where env = env and a = a and t = n and m = m]
    by (auto simp: same_history_def replaced_indices_def c)
qed

definition issue_session :: RuntimeSessionState where
  "issue_session = (fresh_session False default_policy)\<lparr>st_active_pending_issue :=
     Some \<lparr>pi_issue_id = None, pi_kind = ''tool_error'', pi_detail = ''boom'', pi_opened_at_turn = 3,
       pi_last_observed_turn = 4, pi_cleared_at_turn = None, pi_resolution_trigger = None\<rparr>\<rparr>"

lemma issue_session_preserves: "preserve_from_turn issue_session = Some 3"
proof -
  have "rs_last_successful_validation_turn (st_recovery_state (fresh_session False default_policy)) = None"
    by code_simp
  then have "rs_last_successful_validation_turn (st_recovery_state issue_session) = None"
    by (simp add: issue_session_def)
  then show ?thesis by (simp add: preserve_from_turn_def issue_session_def)
qed

definition turns_history :: "nat \<Rightarrow> Message list" where
  "turns_history k = [plain_message SYSTEM ''rules'', plain_message USER ''task''] @
     concat (replicate k [plain_message ASSISTANT ''act'', plain_message TOOL ''out''])"

lemma turns_history_4:
  "turns_history 4 = [plain_message SYSTEM ''rules'', plain_message USER ''task'',
     plain_message ASSISTANT ''act'', plain_message TOOL ''out'',
     plain_message ASSISTANT ''act'', plain_message TOOL ''out'',
     plain_message ASSISTANT ''act'', plain_message TOOL ''out'',
     plain_message ASSISTANT ''act'', plain_message TOOL ''out'']"
  by (simp add: turns_history_def numeral_eq_Suc)

lemma turns_history_5:
  "turns_history 5 = turns_history 4 @ [plain_message ASSISTANT ''act'', plain_message TOOL ''out'']"
  by (simp add: turns_history_def numeral_eq_Suc)

lemma first_compaction:
  "compacted_indices (chosen_ranges issue_session 5 (turns_history 4) (message_limit 8)) = [2, 3, 4, 5]"
  by (simp add: turns_history_4 candidate_ranges_def issue_session_preserves
      build_turn_ranges_def finalize_turn_range_def plain_message_def compacted_indices_def
      message_limit_def message_count_allows_def token_budget_allows_def compaction_attempt_selected Let_def)

lemma second_compaction:
  assumes "msg_role x = SYSTEM"
  shows "compacted_indices (chosen_ranges issue_session 6
      ([plain_message SYSTEM ''rules'', plain_message USER ''task'', x] @ drop 6 (turns_history 5)) (message_limit 8)) = [3, 4]"
  using assms by (simp add: turns_history_4 turns_history_5 candidate_ranges_def issue_session_preserves
      build_turn_ranges_def finalize_turn_range_def plain_message_def compacted_indices_def
      message_limit_def message_count_allows_def token_budget_allows_def compaction_attempt_selected Let_def)

lemma second_needed:
  assumes "msg_role x = SYSTEM"
  shows "candidate_ranges issue_session
      ([plain_message SYSTEM ''rules'', plain_message USER ''task'', x] @ drop 6 (turns_history 5)) \<noteq> []"
    "\<not> within_limits (message_limit 8)
      ([plain_message SYSTEM ''rules'', plain_message USER ''task'', x] @ drop 6 (turns_history 5))"
  using assms by (simp_all add: turns_history_4 turns_history_5 candidate_ranges_def issue_session_preserves
      build_turn_ranges_def finalize_turn_range_def plain_message_def message_limit_def message_count_allows_def)

lemma first_needed:
  "candidate_ranges issue_session (turns_history 4) \<noteq> []"
  "\<not> within_limits (message_limit 8) (turns_history 4)"
  by (simp_all add: turns_history_4 candidate_ranges_def issue_session_preserves
      build_turn_ranges_def finalize_turn_range_def plain_message_def message_limit_def message_count_allows_def)

lemma start_history_items:
  "hm_request_items (start_history env msgs files) = hm_source_items (start_history env msgs files)"
  "map hi_message (hm_source_items (start_history env msgs files)) = msgs"
  "replaced_indices (start_history env msgs files) = []"
proof -
  let ?m0 = "new_history_manager\<lparr>hm_writer := map_option (\<lambda>(now, run, task, root).
      RetainedHistoryWriter_create now run task root) files\<rparr>"
  let ?m = "sync_source_messages env msgs (Some 0) ?m0"
  have "hm_request_items ?m = hm_source_items ?m \<and> hm_replacement_history ?m = []"
  proof (rule sync_source_messages_induct [where P = "\<lambda>m. hm_request_items m = hm_source_items m \<and>
      hm_replacement_history m = []"])
    fix m :: RuntimeHistoryManager and t
    assume "hm_request_items m = hm_source_items m \<and> hm_replacement_history m = []"
    then show "hm_request_items (sync_next env t (msgs ! length (hm_source_items m)) m) =
        hm_source_items (sync_next env t (msgs ! length (hm_source_items m)) m) \<and>
        hm_replacement_history (sync_next env t (msgs ! length (hm_source_items m)) m) = []"
      using sync_next_items [of m "msgs ! length (hm_source_items m)" env t] by auto
  qed (simp add: new_history_manager_def)
  moreover have "map hi_message (hm_source_items ?m) = take (length (hm_source_items ?m)) msgs"
    by (rule sync_source_messages_messages) (simp add: new_history_manager_def)
  moreover have "length (hm_source_items ?m) = length msgs"
    by (simp add: sync_source_messages_length new_history_manager_def)
  ultimately show "hm_request_items (start_history env msgs files) = hm_source_items (start_history env msgs files)"
    "map hi_message (hm_source_items (start_history env msgs files)) = msgs"
    "replaced_indices (start_history env msgs files) = []"
    by (simp_all add: from_trajectory_messages_def Let_def replaced_indices_def)
qed

lemma source_index: "sources_inv m \<Longrightarrow> i < length (hm_source_items m) \<Longrightarrow>
   hi_source_trajectory_index (hm_source_items m ! i) = Some (int i)"
  by (simp add: sources_inv_def source_ok_def)

lemma sync_two:
  assumes "length (hm_source_items m) = length msgs" and "history_inv m"
  shows "\<exists>i j. hi_message i = x \<and> hi_message j = y \<and>
     hi_source_trajectory_index i = Some (int (length msgs)) \<and>
     hi_source_trajectory_index j = Some (int (length msgs) + 1) \<and>
     hm_source_items (sync_source_messages env (msgs @ [x, y]) t m) = hm_source_items m @ [i, j] \<and>
     hm_request_items (sync_source_messages env (msgs @ [x, y]) t m) = hm_request_items m @ [i, j] \<and>
     replaced_indices (sync_source_messages env (msgs @ [x, y]) t m) = replaced_indices m"
proof -
  let ?t = "case t of None \<Rightarrow> 0 | Some t \<Rightarrow> t"
  let ?m1 = "sync_next env ?t x m"
  obtain i where i: "source_ok (length msgs) i" "hi_message i = x" "hm_source_items ?m1 = hm_source_items m @ [i]"
    "hm_request_items ?m1 = hm_request_items m @ [i]" "hm_replacement_history ?m1 = hm_replacement_history m"
    using sync_next_items [of m x env ?t] assms(1) by auto
  obtain j where j: "source_ok (Suc (length msgs)) j" "hi_message j = y"
    "hm_source_items (sync_next env ?t y ?m1) = hm_source_items ?m1 @ [j]"
    "hm_request_items (sync_next env ?t y ?m1) = hm_request_items ?m1 @ [j]"
    "hm_replacement_history (sync_next env ?t y ?m1) = hm_replacement_history ?m1"
    using sync_next_items [of ?m1 y env ?t] assms(1) by (auto simp: i)
  have "sync_source_messages env (msgs @ [x, y]) t m = sync_next env ?t y ?m1"
    using assms(1) by (simp add: sync_source_messages.simps [of env "msgs @ [x, y]"] nth_append i(3) j(3))
  then show ?thesis using i j by (auto simp: source_ok_def replaced_indices_def)
qed

text \<open>A compaction after an earlier one can replace turns it means to preserve: turn ranges are
  numbered by position in the request history, from which the replaced turns are gone, while the
  turn to preserve from is counted from the start of the run.  Here an issue opened in turn 3 is
  pending throughout; the request of turn 5 rightly replaces turns 1 and 2 only, and the request
  of turn 6 then replaces source messages 6 and 7, which are turn 3.\<close>

theorem later_compaction_replaces_preserved_turn:
  "let step = history_step env validate;
       request = (\<lambda>n. HRequest CPM_DETERMINISTIC_COMPACTION (message_limit 8) caps reply n t issue_session);
       m1 = step (request 5) (start_history env (turns_history 4) files);
       m2 = step (request 6) (step (HSync (turns_history 5) (Some 5)) m1)
   in preserve_from_turn issue_session = Some 3 \<and>
      replaced_indices m1 = [2, 3, 4, 5] \<and> replaced_indices m2 = [2, 3, 4, 5, 6, 7] \<and>
      assistants (take 6 (map hi_message (hm_source_items m2))) = 2 \<and>
      assistants (take 7 (map hi_message (hm_source_items m2))) = 3"
proof -
  let ?step = "history_step env validate"
  let ?request = "\<lambda>n. HRequest CPM_DETERMINISTIC_COMPACTION (message_limit 8) caps reply n t issue_session"
  let ?m0 = "start_history env (turns_history 4) files"
  let ?m1 = "?step (?request 5) ?m0" and ?m2 = "?step (HSync (turns_history 5) (Some 5)) (?step (?request 5) ?m0)"
  have inv: "history_inv ?m0" "history_inv ?m1" "history_inv ?m2"
    by (intro history_step_inv start_history_inv)+
  obtain i0 i1 i2 i3 i4 i5 i6 i7 i8 i9 where m0:
    "hm_source_items ?m0 = [i0, i1, i2, i3, i4, i5, i6, i7, i8, i9]"
    "map hi_message [i0, i1, i2, i3, i4, i5, i6, i7, i8, i9] = turns_history 4"
    "hm_request_items ?m0 = hm_source_items ?m0"
    using start_history_items(1,2) [of env "turns_history 4" files]
    by (auto simp: turns_history_4 map_eq_Cons_conv)
  have idx: "hi_source_trajectory_index i2 = Some 2" "hi_source_trajectory_index i3 = Some 3"
    "hi_source_trajectory_index i4 = Some 4" "hi_source_trajectory_index i5 = Some 5"
    "hi_source_trajectory_index i6 = Some 6" "hi_source_trajectory_index i7 = Some 7"
    using inv(1) source_index [of ?m0 2] source_index [of ?m0 3] source_index [of ?m0 4] source_index [of ?m0 5]
      source_index [of ?m0 6] source_index [of ?m0 7]
    by (simp_all add: history_inv_def m0(1))
  have ms0: "map hi_message (hm_request_items ?m0) = turns_history 4" by (simp only: m0)
  obtain item where m1: "replacement_ok item"
    "hm_request_items ?m1 = [i0, i1, item, i6, i7, i8, i9]"
    "replaced_indices ?m1 = [2, 3, 4, 5]" "hm_source_items ?m1 = hm_source_items ?m0"
    using deterministic_step [of issue_session ?m0 "message_limit 8" env validate caps reply 5 t]
      first_needed first_compaction start_history_items(3) [of env "turns_history 4" files]
    unfolding ms0 by (auto simp: m0(1,3) request_items_at_def idx)
  obtain j0 j1 where m2: "hi_message j0 = plain_message ASSISTANT ''act''" "hi_message j1 = plain_message TOOL ''out''"
    "hm_source_items ?m2 = hm_source_items ?m0 @ [j0, j1]" "hm_request_items ?m2 = [i0, i1, item, i6, i7, i8, i9, j0, j1]"
    "replaced_indices ?m2 = [2, 3, 4, 5]"
    using sync_two [of ?m1 "turns_history 4" "plain_message ASSISTANT ''act''" "plain_message TOOL ''out''" env "Some 5"]
      inv(2) m1 m0 unfolding turns_history_5 by (auto simp: turns_history_4)
  have ms2: "map hi_message (hm_request_items ?m2) =
      [plain_message SYSTEM ''rules'', plain_message USER ''task'', hi_message item] @ drop 6 (turns_history 5)"
    unfolding m2(4) using m0(2) m2(1,2) by (simp add: turns_history_4 turns_history_5)
  have x: "msg_role (hi_message item) = SYSTEM" using m1(1) by (simp add: replacement_ok_def)
  have at: "source_indices (request_items_at ?m2 [3, 4]) = [6, 7]"
    unfolding request_items_at_def m2(4) by (simp add: idx)
  obtain item2 where "replaced_indices (?step (?request 6) ?m2) =
      replaced_indices ?m2 @ source_indices (request_items_at ?m2 [3, 4])"
    "hm_source_items (?step (?request 6) ?m2) = hm_source_items ?m2"
    using deterministic_step [of issue_session ?m2 "message_limit 8" env validate caps reply 6 t]
      second_needed [OF x] second_compaction [OF x] unfolding ms2 by metis
  then have replaced: "replaced_indices (?step (?request 6) ?m2) = [2, 3, 4, 5, 6, 7]"
    "hm_source_items (?step (?request 6) ?m2) = hm_source_items ?m2"
    by (simp_all only: m2(5) at append.simps)
  have "map hi_message (hm_source_items ?m2) = turns_history 5"
    unfolding m2(3) m0(1) using m0(2) m2(1,2) by (simp add: turns_history_5)
  then have "assistants (take 6 (map hi_message (hm_source_items (?step (?request 6) ?m2)))) = 2"
    "assistants (take 7 (map hi_message (hm_source_items (?step (?request 6) ?m2)))) = 3"
    unfolding replaced(2) by (simp_all add: turns_history_5 turns_history_4 plain_message_def)
  then show ?thesis
    unfolding Let_def using m1(3) issue_session_preserves replaced(1) by (intro conjI)
qed

subsection \<open>Compaction by model\<close>

text \<open>The model-backed step never raises and follows one table: outside its policy, or when nothing
  is to be compacted, the plan is returned as it is; otherwise a missing capability, a failing
  client, a missing or invalid structured output and a span that differs from the planned one each
  fall back to the deterministic plan under their own failure kind; and an output is used only if
  its span names exactly the planned messages, turns and pinned messages.\<close>

theorem model_backed_step_table:
  "maybe_run_model_backed_compaction validate caps mode reply p =
     Inr (if mode = ''model_backed_compaction'' \<and> cp_compaction_artifact p \<noteq> None
          then (case compaction_failure validate caps reply p of
              Inl kind \<Rightarrow> p\<lparr>cp_model_backed_requested := True, cp_model_backed_used := False,
                cp_compaction_backend_mode := Some ''inline_model'',
                cp_fallback_policy := Some ''deterministic_compaction'', cp_fallback_applied := True,
                cp_fallback_reason := Some kind, cp_compaction_backend_failure_kind := Some kind\<rparr>
            | Inr out \<Rightarrow> apply_model_backed_compaction_output p out ''inline_model'')
          else p) \<and>
   (case compaction_failure validate caps reply p of
      Inl kind \<Rightarrow> kind \<in> set model_backed_failure_kinds
    | Inr out \<Rightarrow> cap_supports_structured_output caps \<and> cap_supports_model_backed_compaction caps \<and>
        map_option art_compacted_message_indices (cp_compaction_artifact p) =
          Some (mcs_source_message_indices (mbo_compacted_span out)) \<and>
        map_option art_pinned_message_indices (cp_compaction_artifact p) =
          Some (mcs_pinned_message_indices (mbo_compacted_span out)) \<and>
        cp_compacted_turn_indices p = mcs_source_turn_indices (mbo_compacted_span out))"
proof -
  have "maybe_run_model_backed_compaction validate caps mode reply p =
     Inr (if mode = ''model_backed_compaction'' \<and> cp_compaction_artifact p \<noteq> None
          then (case compaction_failure validate caps reply p of
              Inl kind \<Rightarrow> p\<lparr>cp_model_backed_requested := True, cp_model_backed_used := False,
                cp_compaction_backend_mode := Some ''inline_model'',
                cp_fallback_policy := Some ''deterministic_compaction'', cp_fallback_applied := True,
                cp_fallback_reason := Some kind, cp_compaction_backend_failure_kind := Some kind\<rparr>
            | Inr out \<Rightarrow> apply_model_backed_compaction_output p out ''inline_model'')
          else p)"
    using compaction_failure_kind [of validate caps reply p]
    by (simp add: maybe_run_model_backed_compaction_eq compaction_fallback_ok split: sum.split)
  moreover have "cap_supports_structured_output caps \<and> cap_supports_model_backed_compaction caps \<and>
        map_option art_compacted_message_indices (cp_compaction_artifact p) =
          Some (mcs_source_message_indices (mbo_compacted_span out)) \<and>
        map_option art_pinned_message_indices (cp_compaction_artifact p) =
          Some (mcs_pinned_message_indices (mbo_compacted_span out)) \<and>
        cp_compacted_turn_indices p = mcs_source_turn_indices (mbo_compacted_span out)"
    if "compaction_failure validate caps reply p = Inr out" for out
    using that by (auto simp: compaction_failure_def validate_model_backed_compaction_span_def Let_def
        split: if_splits client_reply.splits option.splits)
  ultimately show ?thesis
    using compaction_failure_kind [of validate caps reply p] by (simp split: sum.split)
qed

lemma length_py_join: "x \<in> set xs \<Longrightarrow> length x \<le> length (py_join sep xs)"
  by (induction sep xs rule: py_join.induct) auto

lemma utf8_length_bound: "length s \<le> utf8_length s"
  by (induction s) (auto simp: utf8_length_def)

lemma estimate_message_tokens_lower:
  "int (length (msg_content m)) \<le> 4 * estimate_message_tokens m" "1 \<le> estimate_message_tokens m"
proof -
  have "length (msg_content m) \<le> length (message_text m)"
    unfolding message_text_def by (intro length_py_join) simp
  also have "\<dots> \<le> utf8_length (message_text m)" by (rule utf8_length_bound)
  finally have l: "length (msg_content m) \<le> utf8_length (message_text m)" .
  define c where "c = \<lceil>of_nat (utf8_length (message_text m)) / (4 :: rat)\<rceil>"
  have "of_nat (utf8_length (message_text m)) / (4 :: rat) \<le> of_int c" unfolding c_def by linarith
  then have "(of_int (int (utf8_length (message_text m))) :: rat) \<le> of_int (4 * c)" by (simp add: field_simps)
  then have "int (utf8_length (message_text m)) \<le> 4 * c" by (simp only: of_int_le_iff)
  also have "c \<le> estimate_message_tokens m" by (simp add: estimate_message_tokens_text c_def)
  finally have "int (utf8_length (message_text m)) \<le> 4 * estimate_message_tokens m" by simp
  with l show "int (length (msg_content m)) \<le> 4 * estimate_message_tokens m" by linarith
  show "1 \<le> estimate_message_tokens m" by (simp add: estimate_message_tokens_text)
qed

lemma estimate_messages_member:
  "m \<in> set ms \<Longrightarrow> estimate_message_tokens m \<le> estimate_messages_tokens ms"
proof (induction ms)
  case (Cons x xs)
  have "0 \<le> estimate_messages_tokens xs"
    unfolding estimate_messages_tokens_def
    by (intro sum_list_nonneg) (auto intro: order.trans [OF _ estimate_message_tokens_lower(2)])
  with Cons estimate_message_tokens_lower(2) [of x] show ?case
    by (fastforce simp: estimate_messages_tokens_def)
qed simp

text \<open>The token budget is not checked again after a compaction by model: for every plan that
  compacts under that policy and every number, an output with exactly the planned span is accepted
  and recorded as satisfying the budget just as the deterministic summary did, with the same
  overflow, although the request it leads to is estimated above that number.\<close>

theorem model_backed_budget_not_rechecked:
  assumes "build_context_plan m (Text ''model_backed_compaction'') l s n = Inr p"
    and "cp_compaction_artifact p = Some a"
    and "cap_supports_structured_output caps" and "cap_supports_model_backed_compaction caps"
    and "gr_structured_output response = Some payload"
  shows "\<exists>out. case prepare_request_context env (\<lambda>_. Some out) caps CPM_MODEL_BACKED_COMPACTION l
           (ClientReplied response) n (t, s, m) of
         Inl e \<Rightarrow> False
       | Inr (snap, t', s', m') \<Rightarrow>
           bound < cs_estimated_selected_tokens (sn_context_selection snap) \<and>
           cs_estimated_selected_tokens (sn_context_selection snap) =
             estimate_messages_tokens (sn_selected_messages snap) \<and>
           cs_token_budget_satisfied (sn_context_selection snap) =
             cs_token_budget_satisfied (cp_context_selection p) \<and>
           cs_token_overflow (sn_context_selection snap) = cs_token_overflow (cp_context_selection p) \<and>
           ts_token_budget_satisfied t' = cs_token_budget_satisfied (cp_context_selection p)"
proof -
  let ?txt = "replicate (nat (4 * bound + 4)) CHR ''x''"
  let ?span = "\<lparr>mcs_source_message_indices = art_compacted_message_indices a,
    mcs_source_turn_indices = cp_compacted_turn_indices p,
    mcs_pinned_message_indices = art_pinned_message_indices a,
    mcs_replacement_summary_kind = ''model_backed_compaction''\<rparr>"
  obtain out :: ModelBackedCompactionOutput where out: "mbo_summary_text out = ?txt" "mbo_compacted_span out = ?span"
    by (metis ModelBackedCompactionOutput.select_convs(1,3))
  let ?q = "apply_model_backed_compaction_output p out ''inline_model''"
  let ?reply = "ClientReplied response"
  have rep: "replaceable m p" by (rule build_context_plan_replaceable [OF assms(1)])
  have "validate_model_backed_compaction_span out p = None"
    by (simp add: validate_model_backed_compaction_span_def assms(2) out(2))
  then have "compaction_failure (\<lambda>_. Some out) caps ?reply p = Inr out"
    using assms(3-5) by (simp add: compaction_failure_def normalize_model_backed_compaction_output_payload_def)
  then have run: "maybe_run_model_backed_compaction (\<lambda>_. Some out) caps ''model_backed_compaction'' ?reply p = Inr ?q"
    by (simp add: maybe_run_model_backed_compaction_eq assms(2))
  have "prepare_request_context env (\<lambda>_. Some out) caps CPM_MODEL_BACKED_COMPACTION l ?reply n (t, s, m) =
      Inr (fst (snapshot_from_plan env ?q l n m),
        note_context_result (fst (snapshot_from_plan env ?q l n m)) (lim_context_max_tokens l) t,
        apply_context_selection_result (fst (snapshot_from_plan env ?q l n m)) s,
        snd (snapshot_from_plan env ?q l n m))"
    using assms(1) run by (simp add: prepare_request_context_def Let_def split_beta)
  moreover obtain a' x where q: "cp_compaction_artifact ?q = Some a'" "cp_synthetic_summary_message ?q = Some x"
    "msg_content x = ?txt" "msg_role x = SYSTEM" "art_compacted_message_indices a' = art_compacted_message_indices a"
    by (auto simp: apply_model_backed_compaction_output_def assms(2) out(1) plain_message_def Let_def)
  have sel: "cs_token_budget_satisfied (cp_context_selection ?q) = cs_token_budget_satisfied (cp_context_selection p)"
    "cs_token_overflow (cp_context_selection ?q) = cs_token_overflow (cp_context_selection p)"
    by (simp_all add: apply_model_backed_compaction_output_def assms(2) Let_def)
  have snap: "cs_token_budget_satisfied (sn_context_selection (fst (snapshot_from_plan env ?q l n m))) =
      cs_token_budget_satisfied (cp_context_selection ?q)"
    "cs_token_overflow (sn_context_selection (fst (snapshot_from_plan env ?q l n m))) =
      cs_token_overflow (cp_context_selection ?q)"
    "cs_estimated_selected_tokens (sn_context_selection (fst (snapshot_from_plan env ?q l n m))) =
      estimate_messages_tokens (sn_selected_messages (fst (snapshot_from_plan env ?q l n m)))"
    by (simp_all add: snapshot_from_plan_def build_snapshot_context_selection_def Let_def split_beta)
  have "x \<in> set (sn_selected_messages (fst (snapshot_from_plan env ?q l n m)))"
  proof -
    obtain item where item: "hi_message item = x" "hm_request_items (snd (apply_compaction_replacement env a' x n m)) =
        replace_compacted (art_compacted_message_indices a') item False 0 (hm_request_items m)"
      using apply_compaction_replacement_items [OF q(4), where env = env and a = a' and t = n and m = m] by blast
    have "\<exists>j<length (hm_request_items m). int (0 + j) \<in> set (art_compacted_message_indices a')"
      using rep by (cases "art_compacted_message_indices a")
        (auto simp: replaceable_def assms(2) q(5) intro: exI [of _ "nat (hd (art_compacted_message_indices a))"])
    then have "item \<in> set (replace_compacted (art_compacted_message_indices a') item False 0 (hm_request_items m))"
      using replace_compacted_mset by (metis set_mset_mset union_single_eq_member)
    then show ?thesis
      using item q(1,2) by (auto simp: snapshot_from_plan_def materialize_plan_def Let_def split_beta)
  qed
  then have "estimate_message_tokens x \<le> estimate_messages_tokens (sn_selected_messages (fst (snapshot_from_plan env ?q l n m)))"
    by (rule estimate_messages_member)
  moreover have "bound < estimate_message_tokens x"
    using estimate_message_tokens_lower [of x] by (auto simp: q(3) split: if_splits)
  moreover have "ts_token_budget_satisfied (note_context_result snap b t) =
      cs_token_budget_satisfied (sn_context_selection snap)" for snap b
    by (simp add: note_context_result_def Let_def)
  ultimately show ?thesis using sel snap by (intro exI [of _ out]) simp
qed

definition able_client :: RuntimeClientCapabilities where
  "able_client = \<lparr>cap_protocol_mode = ''native_tool_calling'', cap_supports_native_tools = True,
     cap_text_fallback_allowed = False, cap_structured_finish_mode = ''finish_tool_call'',
     cap_supports_structured_output = True, cap_supports_model_backed_compaction = True,
     cap_provider_family = ''fake'', cap_provider_name = ''fake_native''\<rparr>"

definition compaction_reply :: GenerateResponse where
  "compaction_reply = \<lparr>gr_transport_mode = ''native_tool_calling'', gr_text = [], gr_assistant_text = [],
     gr_reasoning_content = None, gr_tool_calls = [], gr_finish_reason = None, gr_response_id = None,
     gr_raw_text = None, gr_raw_provider_payload = None, gr_provider_metadata = [],
     gr_request_kind = ''context_compaction'', gr_structured_output = Some [],
     gr_structured_output_parse_error = None\<rparr>"

definition plain_env :: history_env where
  "plain_env = \<lparr>env_clock = (\<lambda>n. int n), env_dump_plan = (\<lambda>_. []), env_dump_artifact = (\<lambda>_. []),
     env_dump_state = (\<lambda>_. [])\<rparr>"

theorem model_backed_budget_not_rechecked_witness:
  "\<exists>p out. build_context_plan (start_history plain_env (turns_history 4) None)
       (Text ''model_backed_compaction'') (message_limit 8) issue_session 5 = Inr p \<and>
     is_ok (prepare_request_context plain_env (\<lambda>_. Some out) able_client CPM_MODEL_BACKED_COMPACTION
       (message_limit 8) (ClientReplied compaction_reply) 5
       (new_turn_state 5 10 (build_context_selection [] [] [] (message_limit 8) [] False None 0), issue_session, start_history plain_env (turns_history 4) None))"
proof -
  let ?m = "start_history plain_env (turns_history 4) None"
  have ms: "map hi_message (hm_request_items ?m) = turns_history 4"
    by (simp only: start_history_items)
  then have ms': "map hi_message (hm_request_items (from_trajectory_messages plain_env (turns_history 4) None)) = turns_history 4"
    by simp
  obtain p where p: "build_context_plan ?m (Text ''model_backed_compaction'') (message_limit 8) issue_session 5 = Inr p"
    "cp_compaction_artifact p = sel_compaction_artifact (select_deterministic_compaction (turns_history 4)
       (message_limit 8) (Some issue_session) (Some 5))"
    using normalize_value [of CPM_MODEL_BACKED_COMPACTION]
    by (auto simp: build_context_plan_def plan_request_context_def select_request_messages_def
        normalize_policy_mode_def ms' Let_def)
  then obtain a where a: "cp_compaction_artifact p = Some a"
    using select_deterministic_compacts [of "turns_history 4" "message_limit 8" "Some issue_session" "Some 5"]
      first_needed by fastforce
  have "cap_supports_structured_output able_client" "cap_supports_model_backed_compaction able_client"
    "gr_structured_output compaction_reply = Some []"
    by (simp_all add: able_client_def compaction_reply_def)
  from model_backed_budget_not_rechecked [OF p(1) a this, of 0 plain_env "new_turn_state 5 10 (build_context_selection [] [] [] (message_limit 8) [] False None 0)"]
  show ?thesis using p(1) by (auto simp: is_ok_def split: sum.splits)
qed

end
