(* ===== verification/Py_Path.thy ===== *)
theory Py_Path
  imports Text_Lines Py_Value "HOL-Library.Sublist"
begin

section \<open>Paths and the file system\<close>

text \<open>
  The part of \<open>pathlib\<close> the file tools use.  An absolute path is the list of its \<open>parts\<close>, the
  root first (\<open>['/', 'w', 'a.py']\<close>); \<open>Path(raw)\<close> keeps the root of the text and drops empty and
  \<open>.\<close> components, never \<open>..\<close>.  \<open>Path.resolve\<close> depends on the symbolic links of the machine and
  is an argument of the definitions that use it; \<open>normalize_parts\<close> is what it computes on a
  machine without links.

  The file system maps an absolute path without links to a directory or to a file with its
  text.  The text of a file is what \<open>decode("utf-8", errors="replace")\<close> gives, before newline
  translation.  Operations return a result or an exception, with the file system as they leave
  it.  Permissions, full disks and concurrent writers are not modelled.
\<close>

subsection \<open>Paths\<close>

type_synonym path = "string list"

abbreviation SLASH :: char where "SLASH \<equiv> CHR 0x2F"

text \<open>The root that \<open>pathlib\<close> gives to a text on POSIX: two leading slashes are a root of their own.\<close>

definition path_root :: "string \<Rightarrow> string" where
  "path_root raw =
     (if \<not> starts_with [SLASH] raw then []
      else if starts_with [SLASH, SLASH] raw \<and> \<not> starts_with [SLASH, SLASH, SLASH] raw
      then [SLASH, SLASH] else [SLASH])"

definition path_components :: "string \<Rightarrow> string list" where
  "path_components raw = filter (\<lambda>p. p \<noteq> [] \<and> p \<noteq> ''.'') (py_split SLASH raw)"

definition path_is_absolute :: "string \<Rightarrow> bool" where
  "path_is_absolute raw = starts_with [SLASH] raw"

text \<open>\<open>Path(raw).parts\<close>.\<close>

definition path_parts :: "string \<Rightarrow> string list" where
  "path_parts raw =
     (if path_is_absolute raw then path_root raw # path_components raw else path_components raw)"

text \<open>\<open>base / raw\<close> for an absolute base: an absolute \<open>raw\<close> replaces it.\<close>

definition path_join :: "path \<Rightarrow> string \<Rightarrow> path" where
  "path_join base raw = (if path_is_absolute raw then path_parts raw else base @ path_parts raw)"

text \<open>\<open>path.relative_to(base)\<close>; \<open>None\<close> is its \<open>ValueError\<close>.\<close>

fun relative_to :: "path \<Rightarrow> path \<Rightarrow> string list option" where
  "relative_to p [] = Some p"
| "relative_to [] (b # bs) = None"
| "relative_to (x # p) (b # bs) = (if x = b then relative_to p bs else None)"

text \<open>\<open>str\<close> of an absolute path, and \<open>str(PurePosixPath(*parts))\<close> of relative parts.\<close>

definition path_str :: "path \<Rightarrow> string" where
  "path_str p = (case p of [] \<Rightarrow> ''.'' | r # ps \<Rightarrow> r @ py_join [SLASH] ps)"

definition posix_str :: "string list \<Rightarrow> string" where
  "posix_str ps = (if ps = [] then ''.'' else py_join [SLASH] ps)"

definition path_parent :: "path \<Rightarrow> path" where
  "path_parent p = (if length p \<le> 1 then p else butlast p)"

text \<open>Removing \<open>..\<close> lexically, as \<open>resolve\<close> does where there are no links; the root absorbs it.\<close>

definition normalize_step :: "path \<Rightarrow> string \<Rightarrow> path" where
  "normalize_step acc p =
     (if p = ''..'' then path_parent acc else acc @ [p])"

definition normalize_parts :: "path \<Rightarrow> path" where
  "normalize_parts p = (case p of [] \<Rightarrow> [] | r # ps \<Rightarrow> foldl normalize_step [r] ps)"

lemma relative_to_Some_iff: "relative_to p b = Some r \<longleftrightarrow> p = b @ r"
  by (induction p b rule: relative_to.induct) auto

lemma relative_to_None_iff: "relative_to p b = None \<longleftrightarrow> \<not> prefix b p"
  by (metis not_None_eq prefix_def relative_to_Some_iff)

lemma relative_to_append [simp]: "relative_to (b @ r) b = Some r"
  by (simp add: relative_to_Some_iff)

lemma path_components_relative: "p \<in> set (path_components raw) \<Longrightarrow> p \<noteq> [] \<and> p \<noteq> ''.''  \<and> SLASH \<notin> set p"
  by (auto simp: path_components_def dest: py_split_no_sep)

text \<open>The text of relative parts is parsed back to them.\<close>

lemma path_components_posix_str:
  assumes "list_all (\<lambda>p. p \<noteq> [] \<and> p \<noteq> ''.'' \<and> SLASH \<notin> set p) ps"
  shows "path_components (posix_str ps) = ps"
proof (cases "ps = []")
  case True
  then show ?thesis by (simp add: posix_str_def path_components_def)
next
  case False
  have "list_all (\<lambda>p. SLASH \<notin> set p) ps" using assms by (auto simp: list_all_iff)
  then show ?thesis using False assms
    by (auto simp: posix_str_def path_components_def py_split_join list_all_iff)
qed

lemma prefix_path_parent: "prefix (path_parent p) p"
  by (simp add: path_parent_def prefixeq_butlast)

subsection \<open>Exceptions\<close>

text \<open>
  What the file tools raise: the two exceptions of their own, and the ones of the standard
  library by their class name.
\<close>

datatype py_exn =
    PathPolicyError (exn_message: string) (exn_error_type: string)
      (exn_metadata: pydict)
  | PatchApplyError string
  | StdError string

subsection \<open>The file system\<close>

datatype fs_entry = Dir | File string

type_synonym fs = "path \<Rightarrow> fs_entry option"

definition path_exists :: "fs \<Rightarrow> path \<Rightarrow> bool" where
  "path_exists f p \<longleftrightarrow> f p \<noteq> None"

definition path_is_file :: "fs \<Rightarrow> path \<Rightarrow> bool" where
  "path_is_file f p = (case f p of Some (File _) \<Rightarrow> True | _ \<Rightarrow> False)"

definition path_is_dir :: "fs \<Rightarrow> path \<Rightarrow> bool" where
  "path_is_dir f p \<longleftrightarrow> f p = Some Dir"

text \<open>An operation that may raise and may change the file system.\<close>

type_synonym 'a fsop = "fs \<Rightarrow> (py_exn + 'a) \<times> fs"

definition fs_return :: "'a \<Rightarrow> 'a fsop" where
  "fs_return x = (\<lambda>f. (Inr x, f))"

definition fs_raise :: "py_exn \<Rightarrow> 'a fsop" where
  "fs_raise e = (\<lambda>f. (Inl e, f))"

definition fs_bind :: "'a fsop \<Rightarrow> ('a \<Rightarrow> 'b fsop) \<Rightarrow> 'b fsop" where
  "fs_bind m k = (\<lambda>f. case m f of (Inl e, f') \<Rightarrow> (Inl e, f') | (Inr x, f') \<Rightarrow> k x f')"

text \<open>A computation that reads the file system only.\<close>

definition fs_pure :: "(fs \<Rightarrow> py_exn + 'a) \<Rightarrow> 'a fsop" where
  "fs_pure r = (\<lambda>f. (r f, f))"

text \<open>\<open>path.read_text(encoding="utf-8", errors="replace")\<close>.\<close>

definition read_text :: "path \<Rightarrow> string fsop" where
  "read_text p = (\<lambda>f. case f p of
       None \<Rightarrow> (Inl (StdError ''FileNotFoundError''), f)
     | Some Dir \<Rightarrow> (Inl (StdError ''IsADirectoryError''), f)
     | Some (File t) \<Rightarrow> (Inr (universal_newlines t), f))"

text \<open>\<open>path.write_text(text, encoding="utf-8")\<close>: the directory must be there.\<close>

definition write_text :: "path \<Rightarrow> string \<Rightarrow> unit fsop" where
  "write_text p t = (\<lambda>f.
     if f p = Some Dir then (Inl (StdError ''IsADirectoryError''), f)
     else if f p = None \<and> f (path_parent p) = None
     then (Inl (StdError ''FileNotFoundError''), f)
     else if f p = None \<and> f (path_parent p) \<noteq> Some Dir
     then (Inl (StdError ''NotADirectoryError''), f)
     else (Inr (), f(p \<mapsto> File t)))"

text \<open>\<open>path.mkdir(parents=True, exist_ok=True)\<close>: no prefix may be a file, missing ones are made.\<close>

definition mkdir_parents :: "path \<Rightarrow> unit fsop" where
  "mkdir_parents p = (\<lambda>f.
     if path_is_file f p then (Inl (StdError ''FileExistsError''), f)
     else if list_ex (path_is_file f) (prefixes p)
     then (Inl (StdError ''NotADirectoryError''), f)
     else (Inr (), \<lambda>q. if q \<noteq> [] \<and> prefix q p then Some Dir else f q))"

text \<open>\<open>path.unlink()\<close>.\<close>

definition unlink :: "path \<Rightarrow> unit fsop" where
  "unlink p = (\<lambda>f. case f p of
       None \<Rightarrow> (Inl (StdError ''FileNotFoundError''), f)
     | Some Dir \<Rightarrow> (Inl (StdError ''IsADirectoryError''), f)
     | Some (File _) \<Rightarrow> (Inr (), f(p := None)))"

subsection \<open>Laws of the operations\<close>

lemma fs_bind_simps [simp]:
  "m f = (Inl e, f') \<Longrightarrow> fs_bind m k f = (Inl e, f')"
  "m f = (Inr x, f') \<Longrightarrow> fs_bind m k f = k x f'"
  by (simp_all add: fs_bind_def)

lemma fs_return_bind [simp]: "fs_bind (fs_return x) k = k x"
  by (simp add: fs_bind_def fs_return_def)

lemma fs_raise_bind [simp]: "fs_bind (fs_raise e) k = fs_raise e"
  by (simp add: fs_bind_def fs_raise_def)

lemma fs_bind_assoc: "fs_bind (fs_bind m k) h = fs_bind m (\<lambda>x. fs_bind (k x) h)"
  by (rule ext) (simp add: fs_bind_def split: prod.splits sum.splits)

lemma fs_bind_Inr: "fs_bind m k f = (Inr y, f') \<longleftrightarrow>
    (\<exists>x g. m f = (Inr x, g) \<and> k x g = (Inr y, f'))"
  by (auto simp: fs_bind_def split: prod.splits sum.splits)

lemma fs_bind_cases:
  assumes "fs_bind m k f = (r, f')"
  obtains e where "m f = (Inl e, f')" "r = Inl e"
  | x g where "m f = (Inr x, g)" "k x g = (r, f')"
  using assms by (auto simp: fs_bind_def split: prod.splits sum.splits)

text \<open>
  A contract of an operation: whatever it does to the file system stays within the relation \<open>R\<close>,
  and a result it returns satisfies \<open>Q\<close>.  Contracts compose along \<open>fs_bind\<close>.
\<close>

definition fs_spec :: "(fs \<Rightarrow> fs \<Rightarrow> bool) \<Rightarrow> 'a fsop \<Rightarrow> ('a \<Rightarrow> bool) \<Rightarrow> bool" where
  "fs_spec R m Q \<longleftrightarrow> (\<forall>f. R f (snd (m f)) \<and> (\<forall>x. fst (m f) = Inr x \<longrightarrow> Q x))"

lemma fs_specI:
  "(\<And>f r g. m f = (r, g) \<Longrightarrow> R f g) \<Longrightarrow> (\<And>f x g. m f = (Inr x, g) \<Longrightarrow> Q x) \<Longrightarrow> fs_spec R m Q"
  unfolding fs_spec_def by (metis prod.collapse)

lemma fs_specD: "fs_spec R m Q \<Longrightarrow> m f = (r, g) \<Longrightarrow> R f g"
  "fs_spec R m Q \<Longrightarrow> m f = (Inr x, g) \<Longrightarrow> Q x"
  unfolding fs_spec_def by (metis snd_conv, metis fst_conv)

lemma fs_spec_bind:
  assumes "transp R" and m: "fs_spec R m Q" and k: "\<And>x. Q x \<Longrightarrow> fs_spec R (k x) Q'"
  shows "fs_spec R (fs_bind m k) Q'"
proof (rule fs_specI)
  fix f r g assume run: "fs_bind m k f = (r, g)"
  then show "R f g"
  proof (cases rule: fs_bind_cases)
    case (1 e)
    then show ?thesis using fs_specD(1) [OF m] by blast
  next
    case (2 x h)
    then have "Q x" "R f h" using fs_specD [OF m] by blast+
    then have "R h g" using 2 fs_specD(1) [OF k] by blast
    then show ?thesis using \<open>R f h\<close> transpD [OF \<open>transp R\<close>] by blast
  qed
next
  fix f x g assume "fs_bind m k f = (Inr x, g)"
  then obtain y h where "m f = (Inr y, h)" "k y h = (Inr x, g)" by (auto simp: fs_bind_Inr)
  then show "Q' x" using fs_specD(2) [OF m] fs_specD(2) [OF k] by blast
qed

lemma fs_spec_weaken: "fs_spec R m Q \<Longrightarrow> (\<And>x. Q x \<Longrightarrow> Q' x) \<Longrightarrow> fs_spec R m Q'"
  by (auto simp: fs_spec_def)

lemma fs_spec_pure:
  "reflp R \<Longrightarrow> (\<And>f x. r f = Inr x \<Longrightarrow> Q x) \<Longrightarrow> fs_spec R (fs_pure r) Q"
  and fs_spec_return: "reflp R \<Longrightarrow> Q x \<Longrightarrow> fs_spec R (fs_return x) Q"
  and fs_spec_raise: "reflp R \<Longrightarrow> fs_spec R (fs_raise e) Q"
  by (auto simp: fs_spec_def fs_pure_def fs_return_def fs_raise_def reflpD)

lemma fs_spec_read:
  "reflp R \<Longrightarrow> (\<And>t. CR \<notin> set t \<Longrightarrow> Q t) \<Longrightarrow> fs_spec R (read_text p) Q"
  by (auto simp: fs_spec_def read_text_def reflpD split: option.splits fs_entry.splits)

lemma fs_spec_if:
  "(b \<Longrightarrow> fs_spec R m Q) \<Longrightarrow> (\<not> b \<Longrightarrow> fs_spec R m' Q) \<Longrightarrow> fs_spec R (if b then m else m') Q"
  by simp

lemma fs_read_only [simp]:
  "snd (fs_pure r f) = f" "snd (fs_return x f) = f" "snd (fs_raise e f) = f" "snd (read_text p f) = f"
  by (auto simp: fs_pure_def fs_return_def fs_raise_def read_text_def
      split: option.splits fs_entry.splits)

text \<open>The files outside a set of paths stay as they are.\<close>

definition files_within :: "(path \<Rightarrow> bool) \<Rightarrow> fs \<Rightarrow> fs \<Rightarrow> bool" where
  "files_within ok f g \<longleftrightarrow>
     (\<forall>p. \<not> ok p \<longrightarrow> (\<forall>t. g p = Some (File t) \<longleftrightarrow> f p = Some (File t)))"

lemma files_within_refl [simp]: "reflp (files_within ok)"
  and files_within_trans [simp]: "transp (files_within ok)"
  by (auto simp: files_within_def reflp_def transp_def)

lemma files_within_same [simp]: "files_within ok f f"
  by (simp add: files_within_def)

lemma files_within_write: "ok p \<Longrightarrow> fs_spec (files_within ok) (write_text p t) (\<lambda>_. True)"
  by (auto simp: files_within_def fs_spec_def write_text_def)

lemma files_within_unlink: "ok p \<Longrightarrow> fs_spec (files_within ok) (unlink p) (\<lambda>_. True)"
  by (auto simp: files_within_def fs_spec_def unlink_def split: option.splits fs_entry.splits)

lemma files_within_mkdir: "fs_spec (files_within ok) (mkdir_parents p) (\<lambda>_. True)"
  by (auto simp: files_within_def fs_spec_def mkdir_parents_def path_is_file_def list_ex_iff
      split: option.splits fs_entry.splits)

lemmas files_within_specs = files_within_write files_within_unlink files_within_mkdir

end
