(* ===== verification/Coding_Task.thy ===== *)
theory Coding_Task
  imports Py_Path
begin

section \<open>The coding task\<close>

text \<open>
  \<open>env/task.py\<close>: which files of the repository a task lets the agent touch, and the checks of
  the task's metadata.  The patterns are those of \<open>fnmatch\<close>: \<open>*\<close> matches any text, slashes
  included, \<open>?\<close> one character, \<open>[...]\<close> one character of a set of characters and ranges,
  \<open>[!...]\<close> one outside it, and a \<open>[\<close> without its \<open>]\<close> stands for itself.  The validation of
  the metadata contract by pydantic is an argument.
\<close>

subsection \<open>fnmatch\<close>

datatype pat_item = PStar | PAny | PChar char | PSet bool "(char \<times> char) list"

text \<open>The ranges of a set; a dash at either end of the set stands for itself.\<close>

fun set_ranges :: "string \<Rightarrow> (char \<times> char) list" where
  "set_ranges (a # d # b # s) =
     (if d = CHR ''-'' then (a, b) # set_ranges s else (a, a) # set_ranges (d # b # s))"
| "set_ranges (a # s) = (a, a) # set_ranges s"
| "set_ranges [] = []"

definition pat_set :: "string \<Rightarrow> pat_item" where
  "pat_set body =
     (if starts_with ''!'' body then PSet True (set_ranges (tl body))
      else PSet False (set_ranges body))"

text \<open>
  The length of the body of a set that opens before \<open>s\<close>: a \<open>!\<close> and then a \<open>]\<close> at its start
  belong to the body.  \<open>None\<close> when no \<open>]\<close> closes it.
\<close>

definition set_body_length :: "string \<Rightarrow> nat option" where
  "set_body_length s =
     (let j0 = (if starts_with ''!'' s then 1 else 0);
          j1 = (if starts_with '']'' (drop j0 s) then j0 + 1 else j0);
          j2 = j1 + length (takeWhile (\<lambda>c. c \<noteq> CHR '']'') (drop j1 s))
      in if j2 < length s then Some j2 else None)"

function (sequential) fn_translate :: "string \<Rightarrow> pat_item list" where
  "fn_translate [] = []"
| "fn_translate (c # s) =
     (if c = CHR ''*'' then PStar # fn_translate s
      else if c = CHR ''?'' then PAny # fn_translate s
      else if c = CHR ''['' then
        (case set_body_length s of
           None \<Rightarrow> PChar c # fn_translate s
         | Some j \<Rightarrow> pat_set (take j s) # fn_translate (drop (Suc j) s))
      else PChar c # fn_translate s)"
  by pat_completeness auto
termination by (relation "measure length") auto

fun fn_match :: "pat_item list \<Rightarrow> string \<Rightarrow> bool" where
  "fn_match [] s \<longleftrightarrow> s = []"
| "fn_match (PStar # ps) [] \<longleftrightarrow> fn_match ps []"
| "fn_match (PStar # ps) (c # s) \<longleftrightarrow> fn_match ps (c # s) \<or> fn_match (PStar # ps) s"
| "fn_match (p # ps) [] \<longleftrightarrow> False"
| "fn_match (PAny # ps) (c # s) \<longleftrightarrow> fn_match ps s"
| "fn_match (PChar x # ps) (c # s) \<longleftrightarrow> c = x \<and> fn_match ps s"
| "fn_match (PSet neg rs # ps) (c # s) \<longleftrightarrow>
     list_ex (\<lambda>(a, b). (of_char a :: nat) \<le> of_char c \<and> (of_char c :: nat) \<le> of_char b) rs \<noteq> neg
     \<and> fn_match ps s"

definition fnmatch :: "string \<Rightarrow> string \<Rightarrow> bool" where
  "fnmatch name pat = fn_match (fn_translate pat) name"

text \<open>A star matches by splitting the text; a pattern without special characters only itself.\<close>

lemma fn_match_star: "fn_match (PStar # ps) s \<longleftrightarrow> (\<exists>a b. s = a @ b \<and> fn_match ps b)"
proof (induction s)
  case (Cons c s)
  have "(\<exists>a b. c # s = a @ b \<and> fn_match ps b) \<longleftrightarrow>
      fn_match ps (c # s) \<or> (\<exists>a b. s = a @ b \<and> fn_match ps b)"
    by (auto simp: Cons_eq_append_conv)
  then show ?case using Cons by simp
qed simp

lemma fn_match_literal: "fn_match (map PChar p) s \<longleftrightarrow> s = p"
proof (induction p arbitrary: s)
  case (Cons c p)
  then show ?case by (cases s) auto
qed simp

lemma fn_translate_literal:
  "list_all (\<lambda>c. c \<notin> set ''*?['') p \<Longrightarrow> fn_translate (p @ s) = map PChar p @ fn_translate s"
  by (induction p) auto

lemma fnmatch_literal: "list_all (\<lambda>c. c \<notin> set ''*?['') p \<Longrightarrow> fnmatch s p \<longleftrightarrow> s = p"
  using fn_translate_literal [of p "[]"] by (simp add: fnmatch_def fn_match_literal)

lemma fnmatch_star: "fnmatch s ''*''"
  unfolding fnmatch_def by (simp add: fn_match_star)

lemma fn_match_append_literal: "fn_match (map PChar p @ ps) s \<longleftrightarrow> (\<exists>r. s = p @ r \<and> fn_match ps r)"
proof (induction p arbitrary: s)
  case (Cons c p)
  then show ?case by (cases s) auto
qed simp

text \<open>A directory pattern \<open>d/*\<close> matches everything below \<open>d\<close>, at any depth.\<close>

lemma fnmatch_below:
  assumes "list_all (\<lambda>c. c \<notin> set ''*?['') d"
  shows "fnmatch s (d @ ''/*'') \<longleftrightarrow> (\<exists>r. s = d @ ''/'' @ r)"
proof -
  have "list_all (\<lambda>c. c \<notin> set ''*?['') (d @ ''/'')" using assms by simp
  then have "fn_translate ((d @ ''/'') @ ''*'') = map PChar (d @ ''/'') @ [PStar]"
    by (subst fn_translate_literal) auto
  then show ?thesis
    by (simp add: fnmatch_def fn_match_append_literal fn_match_star del: map_append)
qed

subsection \<open>Which files a task allows\<close>

record CodingTask =
  ct_allowed_files :: "string list"
  ct_forbidden_files :: "string list"
  ct_metadata :: pydict

definition windows_absolute :: "string \<Rightarrow> bool" where
  "windows_absolute raw \<longleftrightarrow>
     (case raw of c # d # e # _ \<Rightarrow> (d = CHR '':'' \<and> (e = SLASH \<or> e = CHR 0x5C)) | _ \<Rightarrow> False)
     \<or> (case raw of c # d # _ \<Rightarrow> (c = SLASH \<or> c = CHR 0x5C) \<and> (d = SLASH \<or> d = CHR 0x5C) | _ \<Rightarrow> False)"

definition normalize_repo_relative_path :: "string \<Rightarrow> string option" where
  "normalize_repo_relative_path raw =
     (let normalized_text = map (\<lambda>c. if c = CHR 0x5C then SLASH else c) raw
      in if path_is_absolute normalized_text \<or> windows_absolute raw then None
         else if list_ex (\<lambda>p. p = ''..'') (path_parts normalized_text) then None
         else Some (posix_str (path_parts normalized_text)))"

definition is_file_allowed :: "CodingTask \<Rightarrow> string \<Rightarrow> bool" where
  "is_file_allowed t file_path =
     (case normalize_repo_relative_path file_path of
        None \<Rightarrow> False
      | Some name \<Rightarrow>
          if list_ex (fnmatch name) (ct_forbidden_files t) then False
          else if ct_allowed_files t = [] then True
          else list_ex (fnmatch name) (ct_allowed_files t))"

subsection \<open>Metadata checks\<close>

record TaskMetadataContractV1 =
  tmc_required_capabilities :: "string list"
  tmc_behavioral_requirements :: "string list"
  tmc_require_runtime_validation_evidence :: bool

definition validate_unique_capabilities :: "string list \<Rightarrow> string + string list" where
  "validate_unique_capabilities v =
     (if distinct v then Inr v
      else Inl ''required_capabilities must not contain duplicates'')"

definition validate_behavioral_requirements :: "string list \<Rightarrow> string + string list" where
  "validate_behavioral_requirements v =
     (let normalized = map py_strip v
      in if list_ex (\<lambda>x. x = []) normalized
         then Inl ''behavioral_requirements must contain non-empty strings''
         else if \<not> distinct normalized
         then Inl ''behavioral_requirements must not contain duplicates''
         else Inr normalized)"

definition runtime_selection_metadata_keys :: "string list" where
  "runtime_selection_metadata_keys =
     [''adapter'', ''adapter_name'', ''family'', ''native_profile_kind'', ''profile'',
      ''profile_mode'', ''profile_seed'', ''provider'', ''provider_family'', ''tool_profile_id'',
      ''tool_stack_kind'']"

definition legacy_tool_hint_keys :: "string list" where
  "legacy_tool_hint_keys = [''expected_pattern'', ''primary_tools'']"

text \<open>\<open>sorted(keys & metadata.keys())\<close>: the tables above are sorted already.\<close>

definition keys_present :: "string list \<Rightarrow> pydict \<Rightarrow> string list" where
  "keys_present ks d = filter (\<lambda>k. map_of d k \<noteq> None) ks"

definition validate_family_neutral_metadata ::
  "(pydict \<Rightarrow> string + TaskMetadataContractV1) \<Rightarrow> CodingTask \<Rightarrow> string + CodingTask" where
  "validate_family_neutral_metadata model_validate t =
     (let d = ct_metadata t;
          runtime_keys = keys_present runtime_selection_metadata_keys d;
          legacy_keys = keys_present legacy_tool_hint_keys d
      in if runtime_keys \<noteq> []
         then Inl (''task metadata cannot select runtime family/profile/adapter/provider; ''
                   @ ''pass runtime selection at invocation time instead: ''
                   @ py_repr_strs runtime_keys)
         else case map_of d ''task_contract'' of
                None \<Rightarrow> Inr t
              | Some JNull \<Rightarrow> Inr t
              | Some (JObj payload) \<Rightarrow>
                  if legacy_keys \<noteq> []
                  then Inl (''versioned task_contract cannot be combined with legacy tool-name ''
                            @ ''metadata: '' @ py_repr_strs legacy_keys)
                  else res_bind (model_validate payload) (\<lambda>_. Inr t)
              | Some _ \<Rightarrow> Inl ''metadata.task_contract must be an object'')"

definition requires_runtime_validation_evidence ::
  "(pydict \<Rightarrow> string + TaskMetadataContractV1) \<Rightarrow> CodingTask \<Rightarrow> string + bool" where
  "requires_runtime_validation_evidence model_validate t =
     (let legacy = Inr (case map_of (ct_metadata t) ''require_runtime_validation_evidence'' of
                          None \<Rightarrow> False | Some v \<Rightarrow> py_truthy v)
      in case map_of (ct_metadata t) ''task_contract'' of
           None \<Rightarrow> legacy
         | Some JNull \<Rightarrow> legacy
         | Some (JObj payload) \<Rightarrow>
             res_bind (model_validate payload) (\<lambda>c. Inr (tmc_require_runtime_validation_evidence c))
         | Some _ \<Rightarrow> Inl ''ValidationError'')"

subsection \<open>The path check\<close>

text \<open>
  A relative text without traversal is checked under its normal form, so a path below the
  workspace, written as the runtime writes it, is checked as it stands.
\<close>

lemma normalize_posix_str:
  assumes "list_all (\<lambda>p. p \<noteq> [] \<and> p \<noteq> ''.'' \<and> p \<noteq> ''..'' \<and> SLASH \<notin> set p \<and> CHR 0x5C \<notin> set p) ps"
    and "\<not> windows_absolute (posix_str ps)"
  shows "normalize_repo_relative_path (posix_str ps) = Some (posix_str ps)"
proof -
  have join: "CHR 0x5C \<notin> set (py_join [SLASH] ps)"
    using assms(1) by (induction ps rule: induct_list012) auto
  then have "CHR 0x5C \<notin> set (posix_str ps)" by (simp add: posix_str_def)
  then have same: "map (\<lambda>c. if c = CHR 0x5C then SLASH else c) (posix_str ps) = posix_str ps"
    by (intro map_idI) auto
  have rel: "\<not> path_is_absolute (posix_str ps)"
    using assms(1) by (cases ps rule: remdups_adj.cases) (auto simp: path_is_absolute_def posix_str_def hd_append dest: hd_in_set)
  have "list_all (\<lambda>p. p \<noteq> [] \<and> p \<noteq> ''.'' \<and> SLASH \<notin> set p) ps"
    using assms(1) by (auto simp: list_all_iff)
  then have parts: "path_parts (posix_str ps) = ps"
    using rel by (simp add: path_parts_def path_components_posix_str)
  have "\<not> list_ex (\<lambda>p. p = ''..'') ps"
    using assms(1) by (auto simp: list_all_iff list_ex_iff)
  then show ?thesis
    using assms(2) rel parts unfolding normalize_repo_relative_path_def Let_def same by simp
qed

lemma is_file_allowed_forbidden:
  "normalize_repo_relative_path p = Some name \<Longrightarrow> pat \<in> set (ct_forbidden_files t) \<Longrightarrow>
   fnmatch name pat \<Longrightarrow> \<not> is_file_allowed t p"
  by (auto simp: is_file_allowed_def list_ex_iff)

end
