(* ===== verification/Path_Policy.thy ===== *)
theory Path_Policy
  imports Coding_Task Trajectory_Schema
begin

section \<open>The path policy\<close>

text \<open>
  \<open>env/path_policy.py\<close>: every path a tool names is resolved and checked before the tool touches
  it.  The checks are in the order of the code, since the first one that fails decides the error
  type.  \<open>tools/context.py\<close>, the context the tools get, is here too.

  What the machine does with a path is an argument: where \<open>Path.resolve\<close> leads, by its symbolic links,
  and the name of the exception it raises instead (a \<open>ValueError\<close> for a null character, a
  \<open>RuntimeError\<close> for a loop of links); and the exception \<open>Path.exists\<close> raises for a resolved path (an
  \<open>OSError\<close> for a name that is too long or a directory that may not be searched).
\<close>

record path_os =
  os_resolve :: "path \<Rightarrow> path"
  os_resolve_error :: "path \<Rightarrow> string option"
  os_stat_error :: "path \<Rightarrow> string option"

definition path_resolve :: "path_os \<Rightarrow> path \<Rightarrow> py_exn + path" where
  "path_resolve os p =
     (case os_resolve_error os p of None \<Rightarrow> Inr (os_resolve os p) | Some name \<Rightarrow> Inl (StdError name))"

definition path_stat :: "path_os \<Rightarrow> path \<Rightarrow> py_exn + unit" where
  "path_stat os p = (case os_stat_error os p of None \<Rightarrow> Inr () | Some name \<Rightarrow> Inl (StdError name))"

text \<open>A machine where nothing fails.\<close>

definition plain_os :: "(path \<Rightarrow> path) \<Rightarrow> path_os" where
  "plain_os resolve = \<lparr>os_resolve = resolve, os_resolve_error = (\<lambda>_. None), os_stat_error = (\<lambda>_. None)\<rparr>"

lemma path_resolve_Inr [simp]:
  "path_resolve os p = Inr q \<longleftrightarrow> os_resolve_error os p = None \<and> q = os_resolve os p"
  by (auto simp: path_resolve_def split: option.splits)

lemma path_stat_Inr [simp]: "path_stat os p = Inr u \<longleftrightarrow> os_stat_error os p = None"
  by (auto simp: path_stat_def split: option.splits)

lemma path_resolve_plain [simp]: "path_resolve (plain_os r) p = Inr (r p)" "path_stat (plain_os r) p = Inr ()"
  by (simp_all add: plain_os_def)

definition policy_error :: "string \<Rightarrow> string \<Rightarrow> py_exn + 'a" where
  "policy_error message error_type = Inl (PathPolicyError message error_type [])"

definition PROTECTED_WRITE_PATH_PARTS :: "string list" where
  "PROTECTED_WRITE_PATH_PARTS =
     [''.git'', ''node_modules'', ''__pycache__'', ''.mypy_cache'', ''.ruff_cache'']"

text \<open>The loop of \<open>_attempts_workspace_escape\<close> over the parts, with the depth it has reached.\<close>

fun escape_loop :: "nat \<Rightarrow> string list \<Rightarrow> bool" where
  "escape_loop depth [] = False"
| "escape_loop depth (part # parts) =
     (if part = '''' \<or> part = ''.'' then escape_loop depth parts
      else if part = ''..'' then (if depth = 0 then True else escape_loop (depth - 1) parts)
      else escape_loop (depth + 1) parts)"

definition attempts_workspace_escape :: "string \<Rightarrow> bool" where
  "attempts_workspace_escape raw = escape_loop 0 (path_parts raw)"

text \<open>The keyword arguments of \<open>resolve_and_validate_path\<close>.\<close>

record path_checks =
  allow_absolute :: bool
  must_exist :: bool
  must_be_file :: bool
  must_be_dir :: bool
  check_allowed_fn :: "(string \<Rightarrow> bool) option"

definition default_checks :: path_checks where
  "default_checks = \<lparr>allow_absolute = False, must_exist = False, must_be_file = False,
     must_be_dir = False, check_allowed_fn = None\<rparr>"

definition resolve_and_validate_path ::
  "path_os \<Rightarrow> fs \<Rightarrow> path_checks \<Rightarrow> string \<Rightarrow> path \<Rightarrow> py_exn + path" where
  "resolve_and_validate_path os f k raw_path workspace_root =
     res_bind (path_resolve os workspace_root) (\<lambda>root.
       if path_is_absolute raw_path \<and> \<not> allow_absolute k
       then policy_error (''Absolute paths are not allowed: '' @ raw_path) ''absolute_path''
       else if attempts_workspace_escape raw_path
       then policy_error (''Path traversal is not allowed: '' @ raw_path) ''workspace_escape''
       else
         res_bind (path_resolve os (path_join root raw_path)) (\<lambda>resolved.
           case relative_to resolved root of
             None \<Rightarrow> policy_error (''Path escapes workspace: '' @ raw_path @ '' resolves to ''
                       @ path_str resolved) ''workspace_escape''
           | Some rel \<Rightarrow>
               if (case check_allowed_fn k of None \<Rightarrow> False | Some allowed \<Rightarrow> \<not> allowed (posix_str rel))
               then policy_error (''Path is not allowed by task constraints: '' @ posix_str rel)
                      ''forbidden_file''
               else
                 res_bind (if must_exist k \<or> must_be_file k \<or> must_be_dir k then path_stat os resolved else Inr ())
                   (\<lambda>_.
                    if must_exist k \<and> \<not> path_exists f resolved
                    then policy_error (''Path does not exist: '' @ raw_path) ''not_found''
                    else if must_be_file k \<and> path_exists f resolved \<and> \<not> path_is_file f resolved
                    then policy_error (''Not a file: '' @ raw_path) ''not_file''
                    else if must_be_dir k \<and> path_exists f resolved \<and> \<not> path_is_dir f resolved
                    then policy_error (''Not a directory: '' @ raw_path) ''not_directory''
                    else Inr resolved)))"

definition validate_cwd ::
  "path_os \<Rightarrow> fs \<Rightarrow> string option \<Rightarrow> path \<Rightarrow> py_exn + path" where
  "validate_cwd os f raw_cwd workspace_root =
     res_bind (path_resolve os workspace_root) (\<lambda>root.
       case raw_cwd of
         None \<Rightarrow> Inr root
       | Some raw \<Rightarrow> resolve_and_validate_path os f
           (default_checks\<lparr>must_exist := True, must_be_dir := True\<rparr>) raw root)"

definition get_protected_write_component ::
  "path_os \<Rightarrow> path \<Rightarrow> path \<Rightarrow> py_exn + string option" where
  "get_protected_write_component os resolved workspace_root =
     res_bind (path_resolve os workspace_root) (\<lambda>root. Inr
       (case relative_to resolved root of
          None \<Rightarrow> None
        | Some rel \<Rightarrow> List.find (\<lambda>part. part \<in> set PROTECTED_WRITE_PATH_PARTS) rel))"

definition to_workspace_relative_str ::
  "path_os \<Rightarrow> path \<Rightarrow> path \<Rightarrow> py_exn + string" where
  "to_workspace_relative_str os resolved workspace_root =
     res_bind (path_resolve os workspace_root) (\<lambda>root.
       case relative_to resolved root of
         None \<Rightarrow> Inl (StdError ''ValueError'')
       | Some rel \<Rightarrow> Inr (posix_str rel))"

definition ensure_not_protected_write_path ::
  "path_os \<Rightarrow> path \<Rightarrow> path \<Rightarrow> py_exn + unit" where
  "ensure_not_protected_write_path os resolved workspace_root =
     res_bind (get_protected_write_component os resolved workspace_root) (\<lambda>found.
       case found of
         None \<Rightarrow> Inr ()
       | Some component \<Rightarrow>
           res_bind (to_workspace_relative_str os resolved workspace_root) (\<lambda>rel_str.
             Inl (PathPolicyError (''Protected path is not writable: '' @ rel_str) ''protected_path''
               [(''stage'', JStr ''resolve_write_path''),
                (''policy_domain'', JStr ''write_path''),
                (''policy_decision'', JStr ''deny''),
                (''policy_reason'', JStr ''writes to protected paths are not allowed''),
                (''policy_reason_code'', JStr ''protected_path''),
                (''dangerous'', JBool True),
                (''protected_component'', JStr component),
                (''workspace_relative_path'', JStr rel_str)])))"

definition resolve_and_validate_writable_path ::
  "path_os \<Rightarrow> fs \<Rightarrow> path_checks \<Rightarrow> string \<Rightarrow> path \<Rightarrow> py_exn + path" where
  "resolve_and_validate_writable_path os f k raw_path workspace_root =
     res_bind (resolve_and_validate_path os f (k\<lparr>check_allowed_fn := None\<rparr>) raw_path workspace_root)
       (\<lambda>resolved.
     res_bind (ensure_not_protected_write_path os resolved workspace_root) (\<lambda>_.
       case check_allowed_fn k of
         None \<Rightarrow> Inr resolved
       | Some allowed \<Rightarrow>
           res_bind (to_workspace_relative_str os resolved workspace_root) (\<lambda>rel_str.
             if \<not> allowed rel_str
             then policy_error (''Path is not allowed by task constraints: '' @ rel_str)
                    ''forbidden_file''
             else Inr resolved)))"

subsection \<open>The result a denied path turns into\<close>

definition setdefault :: "string \<Rightarrow> json \<Rightarrow> pydict \<Rightarrow> pydict" where
  "setdefault k v d = (if map_of d k = None then d @ [(k, v)] else d)"

definition make_error_result :: "string \<Rightarrow> string \<Rightarrow> pydict \<Rightarrow> pydict option \<Rightarrow> ToolResult" where
  "make_error_result message error_type error_metadata extra =
     (let m0 = [(''error_type'', JStr error_type)];
          m1 = (case extra of None \<Rightarrow> m0 | Some e \<Rightarrow> dict_update m0 e);
          m2 = dict_update m1 error_metadata;
          m3 = setdefault ''policy_domain'' (JStr ''filesystem'') m2;
          m4 = setdefault ''policy_decision'' (JStr ''deny'') m3;
          m5 = setdefault ''policy_reason'' (JStr message) m4;
          m6 = setdefault ''policy_reason_code'' (JStr error_type) m5;
          m7 = setdefault ''dangerous'' (JBool (error_type \<in> set [''absolute_path'',
                 ''workspace_escape'', ''protected_path''])) m6
      in \<lparr>tr_ok = False, tr_content = message, tr_metadata = m7, tr_is_error = True\<rparr>)"

subsection \<open>The tool context\<close>

text \<open>Of a context, the workspace root as it was given, the task, and the machine.\<close>

record ToolContext =
  ctx_workspace_root :: path
  ctx_task :: "CodingTask option"
  ctx_os :: path_os

abbreviation ctx_resolve :: "'a ToolContext_scheme \<Rightarrow> path \<Rightarrow> path" where
  "ctx_resolve c \<equiv> os_resolve (ctx_os c)"

definition context_file_allowed :: "ToolContext \<Rightarrow> string \<Rightarrow> bool" where
  "context_file_allowed c rel_path =
     (case ctx_task c of None \<Rightarrow> True | Some t \<Rightarrow> is_file_allowed t rel_path)"

subsection \<open>What the checks guarantee\<close>

text \<open>A relative text that passes the lexical check stays below where it starts.\<close>

lemma escape_loop_normalize:
  "\<not> escape_loop depth ps \<Longrightarrow> length acc = depth + k \<Longrightarrow> k \<ge> 1 \<Longrightarrow>
   list_all (\<lambda>p. p \<noteq> '''' \<and> p \<noteq> ''.'') ps \<Longrightarrow>
   \<exists>acc'. foldl normalize_step acc ps = acc' \<and> take k acc' = take k acc \<and> length acc' \<ge> k"
proof (induction depth ps arbitrary: acc rule: escape_loop.induct)
  case (2 depth part parts)
  show ?case
  proof (cases "part = ''..''")
    case True
    then have depth: "depth \<noteq> 0" "\<not> escape_loop (depth - 1) parts" using 2 by (auto split: if_splits)
    have step: "normalize_step acc part = butlast acc"
      using True 2 depth by (auto simp: normalize_step_def path_parent_def)
    have "length (butlast acc) = depth - 1 + k" using 2 depth by simp
    moreover have "take k (butlast acc) = take k acc"
      using 2 depth by (simp add: take_butlast)
    ultimately show ?thesis using 2 True depth step by simp
  next
    case False
    then have "\<not> escape_loop (depth + 1) parts" using 2 by (auto split: if_splits)
    then show ?thesis using 2 False by (auto simp: normalize_step_def)
  qed
qed simp

definition within_workspace :: "ToolContext \<Rightarrow> path \<Rightarrow> bool" where
  "within_workspace c p \<longleftrightarrow> prefix (ctx_resolve c (ctx_workspace_root c)) p"

text \<open>Paths the context lets a tool write: inside the root, unprotected, allowed by the task.\<close>

definition writable :: "ToolContext \<Rightarrow> path \<Rightarrow> bool" where
  "writable c p \<longleftrightarrow>
     (case relative_to p (ctx_resolve c (ctx_workspace_root c)) of
        None \<Rightarrow> False
      | Some rel \<Rightarrow> \<not> list_ex (\<lambda>part. part \<in> set PROTECTED_WRITE_PATH_PARTS) rel
          \<and> context_file_allowed c (posix_str rel))"

lemma resolve_and_validate_path_ok:
  assumes "resolve_and_validate_path os f k raw ws = Inr p"
  shows "p = os_resolve os (path_join (os_resolve os ws) raw)"
    and "\<exists>rel. p = os_resolve os ws @ rel
      \<and> (case check_allowed_fn k of None \<Rightarrow> True | Some allowed \<Rightarrow> allowed (posix_str rel))"
    and "must_exist k \<Longrightarrow> path_exists f p"
    and "must_be_file k \<Longrightarrow> path_exists f p \<Longrightarrow> path_is_file f p"
    and "must_be_dir k \<Longrightarrow> path_exists f p \<Longrightarrow> path_is_dir f p"
    and "os_resolve_error os ws = None" and "os_resolve_error os (path_join (os_resolve os ws) raw) = None"
proof -
  let ?p = "os_resolve os (path_join (os_resolve os ws) raw)"
  show root: "os_resolve_error os ws = None" and joined: "os_resolve_error os (path_join (os_resolve os ws) raw) = None"
    using assms by (auto simp: resolve_and_validate_path_def res_bind_Inr_iff policy_error_def split: if_splits)
  then have found: "path_resolve os ws = Inr (os_resolve os ws)"
    "path_resolve os (path_join (os_resolve os ws) raw) = Inr ?p" by simp_all
  obtain rel where rel: "relative_to ?p (os_resolve os ws) = Some rel"
    using assms unfolding resolve_and_validate_path_def
    by (auto simp: res_bind_Inr_iff policy_error_def split: if_splits option.splits)
  note run = assms [unfolded resolve_and_validate_path_def policy_error_def found res_bind_simps rel option.case]
  show eq: "p = ?p" using run by (auto simp: res_bind_Inr_iff split: if_splits)
  have "case check_allowed_fn k of None \<Rightarrow> True | Some allowed \<Rightarrow> allowed (posix_str rel)"
    using run by (simp split: if_splits option.splits)
  then show "\<exists>rel. p = os_resolve os ws @ rel
      \<and> (case check_allowed_fn k of None \<Rightarrow> True | Some allowed \<Rightarrow> allowed (posix_str rel))"
    using eq rel unfolding relative_to_Some_iff by blast
  show "must_exist k \<Longrightarrow> path_exists f p" using run eq by (auto simp: res_bind_Inr_iff split: if_splits)
  show "must_be_file k \<Longrightarrow> path_exists f p \<Longrightarrow> path_is_file f p"
    using run eq by (auto simp: res_bind_Inr_iff split: if_splits)
  show "must_be_dir k \<Longrightarrow> path_exists f p \<Longrightarrow> path_is_dir f p"
    using run eq by (auto simp: res_bind_Inr_iff split: if_splits)
qed

lemma find_None_list_ex: "List.find P xs = None \<longleftrightarrow> \<not> list_ex P xs"
  by (auto simp: find_None_iff list_ex_iff)

lemma writable_path_ok:
  assumes "resolve_and_validate_writable_path os f k raw ws = Inr p"
  shows "\<exists>rel. p = os_resolve os ws @ rel
      \<and> \<not> list_ex (\<lambda>part. part \<in> set PROTECTED_WRITE_PATH_PARTS) rel
      \<and> (case check_allowed_fn k of None \<Rightarrow> True | Some allowed \<Rightarrow> allowed (posix_str rel))"
    and "p = os_resolve os (path_join (os_resolve os ws) raw)"
    and "must_exist k \<Longrightarrow> path_exists f p"
    and "must_be_file k \<Longrightarrow> path_exists f p \<Longrightarrow> path_is_file f p"
    and "os_resolve_error os ws = None" and "os_resolve_error os (path_join (os_resolve os ws) raw) = None"
proof -
  obtain q where q: "resolve_and_validate_path os f (k\<lparr>check_allowed_fn := None\<rparr>) raw ws = Inr q"
    using assms by (auto simp: resolve_and_validate_writable_path_def res_bind_Inr_iff)
  note ok = resolve_and_validate_path_ok [OF q]
  obtain rel where rel: "q = os_resolve os ws @ rel" using ok(2) by blast
  have prot: "ensure_not_protected_write_path os q ws = Inr ()"
    using assms q by (auto simp: resolve_and_validate_writable_path_def res_bind_Inr_iff)
  then have np: "\<not> list_ex (\<lambda>part. part \<in> set PROTECTED_WRITE_PATH_PARTS) rel"
    using rel by (auto simp: ensure_not_protected_write_path_def get_protected_write_component_def
        res_bind_Inr_iff find_None_list_ex split: option.splits)
  have last: "p = q \<and> (case check_allowed_fn k of None \<Rightarrow> True | Some allowed \<Rightarrow> allowed (posix_str rel))"
    using assms q rel prot
    by (auto simp: resolve_and_validate_writable_path_def to_workspace_relative_str_def
        policy_error_def res_bind_Inr_iff split: option.splits if_splits)
  show "\<exists>rel. p = os_resolve os ws @ rel
      \<and> \<not> list_ex (\<lambda>part. part \<in> set PROTECTED_WRITE_PATH_PARTS) rel
      \<and> (case check_allowed_fn k of None \<Rightarrow> True | Some allowed \<Rightarrow> allowed (posix_str rel))"
    using last rel np by blast
  show "p = os_resolve os (path_join (os_resolve os ws) raw)" "must_exist k \<Longrightarrow> path_exists f p"
    "must_be_file k \<Longrightarrow> path_exists f p \<Longrightarrow> path_is_file f p"
    "os_resolve_error os ws = None" "os_resolve_error os (path_join (os_resolve os ws) raw) = None"
    using ok last by auto
qed

lemma writable_path_is_writable:
  assumes "check_allowed_fn k = Some (context_file_allowed c)"
    and "resolve_and_validate_writable_path (ctx_os c) f k raw (ctx_workspace_root c) = Inr p"
  shows "writable c p"
  using writable_path_ok(1) [OF assms(2)] assms(1) by (auto simp: writable_def)

text \<open>A path check raises nothing but the policy's own exception, with one of seven types, and what the
  machine raises for one of the three paths it is asked about: the root, the path below it, and where
  that leads.\<close>

definition path_error_types :: "string set" where
  "path_error_types = set [''absolute_path'', ''workspace_escape'', ''not_found'', ''not_file'',
     ''not_directory'', ''protected_path'', ''forbidden_file'']"

definition os_refuses :: "path_os \<Rightarrow> path \<Rightarrow> string \<Rightarrow> string \<Rightarrow> bool" where
  "os_refuses os ws raw name \<longleftrightarrow>
     (let below = path_join (os_resolve os ws) raw
      in os_resolve_error os ws = Some name \<or> os_resolve_error os below = Some name
         \<or> os_stat_error os (os_resolve os below) = Some name)"

definition policy_result :: "(string \<Rightarrow> bool) \<Rightarrow> py_exn + 'a \<Rightarrow> bool" where
  "policy_result refuses r = (case r of Inr _ \<Rightarrow> True
     | Inl e \<Rightarrow> (case e of PathPolicyError _ t _ \<Rightarrow> t \<in> path_error_types
         | StdError name \<Rightarrow> refuses name | _ \<Rightarrow> False))"

lemma policy_result_simps [simp]:
  "policy_result n (Inr x)"
  "policy_result n (policy_error m t) \<longleftrightarrow> t \<in> path_error_types"
  "policy_result n (Inl (PathPolicyError m t d)) \<longleftrightarrow> t \<in> path_error_types"
  "policy_result n (Inl (StdError name)) \<longleftrightarrow> n name"
  by (simp_all add: policy_result_def policy_error_def)

lemma policy_result_bind:
  "policy_result n r \<Longrightarrow> (\<And>x. r = Inr x \<Longrightarrow> policy_result n (k x)) \<Longrightarrow> policy_result n (res_bind r k)"
  by (cases r) (simp_all add: policy_result_def)

lemma policy_result_machine:
  "policy_result n (path_resolve os p) \<longleftrightarrow> (case os_resolve_error os p of None \<Rightarrow> True | Some name \<Rightarrow> n name)"
  "policy_result n (path_stat os p) \<longleftrightarrow> (case os_stat_error os p of None \<Rightarrow> True | Some name \<Rightarrow> n name)"
  by (simp_all add: path_resolve_def path_stat_def split: option.split)

lemma path_error_types_mem [simp]:
  "''absolute_path'' \<in> path_error_types" "''workspace_escape'' \<in> path_error_types"
  "''not_found'' \<in> path_error_types" "''not_file'' \<in> path_error_types"
  "''not_directory'' \<in> path_error_types" "''protected_path'' \<in> path_error_types"
  "''forbidden_file'' \<in> path_error_types"
  by (simp_all add: path_error_types_def)

lemma resolve_and_validate_path_policy:
  "policy_result (os_refuses os ws raw) (resolve_and_validate_path os f k raw ws)"
  unfolding resolve_and_validate_path_def
  by (intro policy_result_bind)
     (auto simp: policy_result_machine os_refuses_def Let_def intro!: policy_result_bind split: option.split)

lemma ensure_not_protected_policy:
  "os_resolve_error os ws = None \<Longrightarrow> prefix (os_resolve os ws) q \<Longrightarrow>
   policy_result n (ensure_not_protected_write_path os q ws)"
  by (auto simp: ensure_not_protected_write_path_def get_protected_write_component_def path_resolve_def
      to_workspace_relative_str_def prefix_def split: option.splits)

lemma resolve_and_validate_writable_path_policy:
  "policy_result (os_refuses os ws raw) (resolve_and_validate_writable_path os f k raw ws)"
  unfolding resolve_and_validate_writable_path_def
proof (rule policy_result_bind [OF resolve_and_validate_path_policy], rule policy_result_bind)
  fix q assume v: "resolve_and_validate_path os f (k\<lparr>check_allowed_fn := None\<rparr>) raw ws = Inr q"
  then have inside: "prefix (os_resolve os ws) q"
    using resolve_and_validate_path_ok(2) by (metis prefixI)
  have root: "os_resolve_error os ws = None" by (rule resolve_and_validate_path_ok(6) [OF v])
  show "policy_result (os_refuses os ws raw) (ensure_not_protected_write_path os q ws)"
    by (rule ensure_not_protected_policy [OF root inside])
  show "policy_result (os_refuses os ws raw) (case check_allowed_fn k of None \<Rightarrow> Inr q
     | Some allowed \<Rightarrow> res_bind (to_workspace_relative_str os q ws) (\<lambda>rel_str.
         if \<not> allowed rel_str
         then policy_error (''Path is not allowed by task constraints: '' @ rel_str) ''forbidden_file''
         else Inr q))"
    using inside root
    by (auto simp: to_workspace_relative_str_def prefix_def path_resolve_def split: option.split)
qed

end
