(* ===== verification/Path_Properties.thy ===== *)
theory Path_Properties
  imports Path_Policy
begin

section \<open>What the path policy guarantees\<close>

text \<open>
  The lexical check against the boundary check, the exact condition under which a path may be
  written, and the task's patterns.
\<close>

subsection \<open>The lexical check\<close>

text \<open>
  Walking through the parts of a relative path, removing \<open>..\<close> as the walk meets it, ends a prefix
  of the walk outside the workspace exactly when the lexical check says so.
\<close>

definition walk :: "path \<Rightarrow> string list \<Rightarrow> path" where
  "walk ws ps = foldl normalize_step ws ps"

lemma walk_simps [simp]: "walk ws [] = ws" "walk ws (p # ps) = walk (normalize_step ws p) ps"
  by (simp_all add: walk_def)

lemma list_ex_split: "list_ex P (x # map f xs) \<longleftrightarrow> P x \<or> list_ex (P \<circ> f) xs"
  by (auto simp: list_ex_iff)

lemma escape_loop_iff:
  assumes "list_all (\<lambda>p. p \<noteq> '''' \<and> p \<noteq> ''.'') ps" "prefix ws acc" "length acc = length ws + depth"
    "length ws \<ge> 2"
  shows "escape_loop depth ps \<longleftrightarrow> list_ex (\<lambda>n. \<not> prefix ws (walk acc (take n ps))) [0..<Suc (length ps)]"
  using assms
proof (induction ps arbitrary: depth acc)
  case Nil
  then show ?case by simp
next
  case (Cons p ps)
  have upt: "[0..<Suc (length (p # ps))] = 0 # map Suc [0..<Suc (length ps)]"
    by (simp add: upt_conv_Cons map_Suc_upt del: upt_Suc)
  have shift: "list_ex (\<lambda>n. \<not> prefix ws (walk acc (take n (p # ps)))) [0..<Suc (length (p # ps))] \<longleftrightarrow>
      list_ex (\<lambda>n. \<not> prefix ws (walk (normalize_step acc p) (take n ps))) [0..<Suc (length ps)]"
    unfolding upt list_ex_split using Cons.prems(2) by (simp add: comp_def del: upt_Suc)
  show ?case
  proof (cases "p = ''..''")
    case False
    have "escape_loop depth (p # ps) = escape_loop (depth + 1) ps" using False Cons.prems(1) by simp
    also have "\<dots> = list_ex (\<lambda>n. \<not> prefix ws (walk (normalize_step acc p) (take n ps))) [0..<Suc (length ps)]"
      using Cons.prems False by (intro Cons.IH) (auto simp: normalize_step_def)
    finally show ?thesis unfolding shift .
  next
    case dots: True
    show ?thesis
    proof (cases "depth = 0")
      case True
      then have "acc = ws" using Cons.prems by (auto simp: prefix_def)
      then have "\<not> prefix ws (normalize_step acc p)"
        using dots Cons.prems(4) by (auto simp: normalize_step_def path_parent_def dest: prefix_length_le)
      then have "list_ex (\<lambda>n. \<not> prefix ws (walk (normalize_step acc p) (take n ps))) [0..<Suc (length ps)]"
        by (auto simp: list_ex_iff intro!: bexI [of _ 0])
      then show ?thesis unfolding shift using dots True by simp
    next
      case False
      have "prefix ws (butlast acc)" using Cons.prems False
        by (auto simp: prefix_def butlast_append)
      then have "escape_loop (depth - 1) ps =
          list_ex (\<lambda>n. \<not> prefix ws (walk (normalize_step acc p) (take n ps))) [0..<Suc (length ps)]"
        using Cons.prems False dots
        by (intro Cons.IH) (auto simp: normalize_step_def path_parent_def)
      then show ?thesis unfolding shift using dots False by simp
    qed
  qed
qed

lemma path_parts_relative:
  "\<not> path_is_absolute raw \<Longrightarrow> list_all (\<lambda>p. p \<noteq> '''' \<and> p \<noteq> ''.'') (path_parts raw)"
  by (auto simp: path_parts_def list_all_iff dest: path_components_relative)

lemma attempts_workspace_escape_iff:
  assumes "\<not> path_is_absolute raw" "length ws \<ge> 2"
  shows "attempts_workspace_escape raw \<longleftrightarrow>
     list_ex (\<lambda>n. \<not> prefix ws (walk ws (take n (path_parts raw)))) [0..<Suc (length (path_parts raw))]"
  unfolding attempts_workspace_escape_def
  using path_parts_relative [OF assms(1)] assms(2) by (intro escape_loop_iff) simp_all

lemma normalize_join:
  assumes "\<not> path_is_absolute raw" "ws \<noteq> []" "normalize_parts ws = ws"
  shows "normalize_parts (path_join ws raw) = walk ws (path_parts raw)"
  using assms by (cases ws) (simp_all add: normalize_parts_def path_join_def walk_def)

text \<open>The lexical check is exact for a path walked part by part: it rejects a relative path if and
  only if some prefix of the walk has left the workspace.  On a machine without links a path that
  passes it therefore resolves inside the workspace, and the boundary check behind it accepts.\<close>

theorem lexical_check_exact:
  assumes "\<not> path_is_absolute raw" and "length ws \<ge> 2" and "normalize_parts ws = ws"
  shows "(attempts_workspace_escape raw \<longleftrightarrow>
           list_ex (\<lambda>n. \<not> prefix ws (walk ws (take n (path_parts raw)))) [0..<Suc (length (path_parts raw))])
    \<and> (if attempts_workspace_escape raw then True
       else relative_to (normalize_parts (path_join ws raw)) ws \<noteq> None)"
proof -
  have "relative_to (normalize_parts (path_join ws raw)) ws \<noteq> None" if ok: "\<not> attempts_workspace_escape raw"
  proof -
    have "ws \<noteq> []" using assms(2) by auto
    have "prefix ws (walk ws (take (length (path_parts raw)) (path_parts raw)))"
      using ok attempts_workspace_escape_iff [OF assms(1,2)] by (auto simp: list_ex_iff)
    then show ?thesis
      using normalize_join [OF assms(1) \<open>ws \<noteq> []\<close> assms(3)] by (simp add: relative_to_None_iff)
  qed
  then show ?thesis using attempts_workspace_escape_iff [OF assms(1,2)] by simp
qed

lemma lexical_check_exact_witness:
  "\<not> attempts_workspace_escape ''a/../b.txt'' \<and> attempts_workspace_escape ''a/../../w/b.txt''
   \<and> relative_to (normalize_parts (path_join [''/'', ''w''] ''a/../b.txt'')) [''/'', ''w''] \<noteq> None"
proof -
  have ok: "\<not> attempts_workspace_escape ''a/../b.txt''" by code_simp
  have "relative_to (normalize_parts (path_join [''/'', ''w''] ''a/../b.txt'')) [''/'', ''w''] \<noteq> None"
    using lexical_check_exact [of "''a/../b.txt''" "[''/'', ''w'']"] ok
    by (simp add: path_is_absolute_def normalize_parts_def normalize_step_def)
  moreover have "attempts_workspace_escape ''a/../../w/b.txt''" by code_simp
  ultimately show ?thesis using ok by simp
qed

subsection \<open>Forbidden directories\<close>

text \<open>A pattern for the files of a directory forbids everything below it, at any depth.\<close>

lemma forbidden_directory:
  assumes "list_all (\<lambda>c. c \<notin> set ''*?['') d" "d @ ''/*'' \<in> set (ct_forbidden_files t)"
    and "normalize_repo_relative_path p = Some (d @ ''/'' @ r)"
  shows "\<not> is_file_allowed t p"
  using assms(3,2) by (rule is_file_allowed_forbidden) (auto simp: fnmatch_below [OF assms(1)])

end
