(* ===== verification/Patch_Apply.thy ===== *)
theory Patch_Apply
  imports Path_Policy
begin

section \<open>Patch application\<close>

text \<open>
  \<open>tools/patch_apply.py\<close>: unified diffs and freeform \<open>*** Begin Patch\<close> bodies, parsed and
  applied to the files of the workspace.  A loop over \<open>lines[index]\<close> is a recursion over the
  lines from \<open>index\<close> on.  An exception leaves the file system as the operations before it made
  it, so applying is a \<open>fsop\<close>.
\<close>

definition patch_error :: "string \<Rightarrow> py_exn + 'a" where
  "patch_error message = Inl (PatchApplyError message)"

record FilePatch =
  fp_operation :: string
  fp_old_path :: "string option"
  fp_new_path :: "string option"
  fp_target_path :: string

record AppliedFileOperation =
  af_path :: string
  af_operation :: string
  af_hunks_applied :: nat

record StrictPatchChunk =
  ch_change_context :: "string option"
  ch_old_lines :: "string list"
  ch_new_lines :: "string list"
  ch_is_end_of_file :: bool

record StrictPatchOperation =
  sp_operation :: string
  sp_path :: string
  sp_move_path :: "string option"
  sp_add_lines :: "string list"
  sp_chunks :: "StrictPatchChunk list"

abbreviation STRICT_PATCH_BEGIN :: string where "STRICT_PATCH_BEGIN \<equiv> ''*** Begin Patch''"
abbreviation STRICT_PATCH_END :: string where "STRICT_PATCH_END \<equiv> ''*** End Patch''"
abbreviation STRICT_ENVIRONMENT_PREFIX :: string where
  "STRICT_ENVIRONMENT_PREFIX \<equiv> ''*** Environment ID: ''"
abbreviation STRICT_ADD_FILE_PREFIX :: string where "STRICT_ADD_FILE_PREFIX \<equiv> ''*** Add File: ''"
abbreviation STRICT_DELETE_FILE_PREFIX :: string where
  "STRICT_DELETE_FILE_PREFIX \<equiv> ''*** Delete File: ''"
abbreviation STRICT_UPDATE_FILE_PREFIX :: string where
  "STRICT_UPDATE_FILE_PREFIX \<equiv> ''*** Update File: ''"
abbreviation STRICT_MOVE_TO_PREFIX :: string where "STRICT_MOVE_TO_PREFIX \<equiv> ''*** Move to: ''"
abbreviation STRICT_END_OF_FILE :: string where "STRICT_END_OF_FILE \<equiv> ''*** End of File''"

definition hunk_fuzz_window :: int where
  "hunk_fuzz_window = 3"

text \<open>\<open>line[len(prefix):]\<close>.\<close>

definition after_prefix :: "string \<Rightarrow> string \<Rightarrow> string" where
  "after_prefix p s = drop (length p) s"

subsection \<open>File headers\<close>

text \<open>
  \<open>header_line.split(None, 1)\<close> has a second part when something other than white space follows
  the first word; \<open>raw.split(tab, 1)[0]\<close> is the text before the first tab.
\<close>

definition second_field :: "string \<Rightarrow> string option" where
  "second_field s =
     (let r = py_lstrip (dropWhile (\<lambda>c. \<not> py_space c) (py_lstrip s))
      in if r = [] then None else Some r)"

definition extract_path :: "string \<Rightarrow> string option" where
  "extract_path header_line =
     map_option (\<lambda>r.
       let raw = py_strip (takeWhile (\<lambda>c. c \<noteq> CHR 0x09) r)
       in if starts_with ''a/'' raw \<or> starts_with ''b/'' raw then drop 2 raw else raw)
       (second_field header_line)"

definition parse_file_headers :: "string \<Rightarrow> string \<Rightarrow> py_exn + FilePatch" where
  "parse_file_headers old_header new_header =
     (case (extract_path old_header, extract_path new_header) of
        (Some old_path, Some new_path) \<Rightarrow>
          if old_path = ''/dev/null'' \<and> new_path = ''/dev/null''
          then patch_error ''Patch cannot use /dev/null for both old and new paths''
          else if old_path = ''/dev/null''
          then Inr \<lparr>fp_operation = ''create'', fp_old_path = None, fp_new_path = Some new_path,
                 fp_target_path = new_path\<rparr>
          else if new_path = ''/dev/null''
          then Inr \<lparr>fp_operation = ''delete'', fp_old_path = Some old_path, fp_new_path = None,
                 fp_target_path = old_path\<rparr>
          else if old_path \<noteq> new_path
          then patch_error (''File rename patches are not supported: '' @ py_repr_str old_path
                 @ '' -> '' @ py_repr_str new_path)
          else Inr \<lparr>fp_operation = ''modify'', fp_old_path = Some old_path,
                 fp_new_path = Some new_path, fp_target_path = new_path\<rparr>
      | _ \<Rightarrow> patch_error (''Malformed file headers: '' @ py_repr_str old_header @ '', ''
               @ py_repr_str new_header))"

text \<open>The \<open>+++\<close> line that must follow a \<open>---\<close> line, and what the two name.\<close>

definition header_pair :: "string \<Rightarrow> string list \<Rightarrow> py_exn + FilePatch" where
  "header_pair old_line rest =
     (let old_header = rstrip_newlines old_line
      in if rest = [] \<or> \<not> starts_with ''+++ '' (hd rest)
         then patch_error (''Expected +++ header after '' @ py_repr_str old_header)
         else parse_file_headers old_header (rstrip_newlines (hd rest)))"

function (sequential) collect_file_patches_loop :: "string list \<Rightarrow> py_exn + FilePatch list" where
  "collect_file_patches_loop [] = Inr []"
| "collect_file_patches_loop (line # rest) =
     (if \<not> starts_with ''--- '' line then collect_file_patches_loop rest
      else res_bind (header_pair line rest) (\<lambda>fp.
           res_bind (collect_file_patches_loop (tl rest)) (\<lambda>fps. Inr (fp # fps))))"
  by pat_completeness auto
termination by (relation "measure length") auto

definition collect_file_patches :: "string \<Rightarrow> py_exn + FilePatch list" where
  "collect_file_patches diff = collect_file_patches_loop (splitlines_keep diff)"

fun collect_target_loop :: "string list \<Rightarrow> string list" where
  "collect_target_loop (line # new_line # rest) =
     (if \<not> starts_with ''--- '' line then collect_target_loop (new_line # rest)
      else if \<not> starts_with ''+++ '' new_line then []
      else
        let old_path = extract_path line; new_path = extract_path new_line;
            candidate = (if new_path \<notin> {None, Some ''/dev/null''} then new_path else old_path)
        in (if candidate \<notin> {None, Some ''/dev/null''} then [the candidate] else [])
           @ collect_target_loop rest)"
| "collect_target_loop _ = []"

definition collect_target_file_candidates :: "string \<Rightarrow> string list" where
  "collect_target_file_candidates diff = collect_target_loop (splitlines diff)"

fun dedupe_loop :: "string list \<Rightarrow> string list \<Rightarrow> string list" where
  "dedupe_loop seen [] = []"
| "dedupe_loop seen (v # vs) =
     (if v \<in> set seen then dedupe_loop seen vs else v # dedupe_loop (v # seen) vs)"

definition dedupe_preserve_order :: "string list \<Rightarrow> string list" where
  "dedupe_preserve_order values = dedupe_loop [] values"

definition strict_target :: "string \<Rightarrow> string list" where
  "strict_target raw_line =
     (let line = py_strip raw_line
      in if starts_with STRICT_ADD_FILE_PREFIX line then [after_prefix STRICT_ADD_FILE_PREFIX line]
         else if starts_with STRICT_DELETE_FILE_PREFIX line
         then [after_prefix STRICT_DELETE_FILE_PREFIX line]
         else if starts_with STRICT_UPDATE_FILE_PREFIX line
         then [after_prefix STRICT_UPDATE_FILE_PREFIX line]
         else if starts_with STRICT_MOVE_TO_PREFIX line
         then [after_prefix STRICT_MOVE_TO_PREFIX line] else [])"

definition collect_strict_target_file_candidates :: "string \<Rightarrow> string list" where
  "collect_strict_target_file_candidates patch =
     dedupe_preserve_order (concat (map strict_target (splitlines patch)))"

subsection \<open>Hunks of a unified diff\<close>

text \<open>\<open>(\d+)(?:,(\d+))?\<close>: a start, a count that may be left out, and the text behind them.\<close>

definition match_range :: "string \<Rightarrow> (string \<times> string option \<times> string) option" where
  "match_range s =
     (case match_digits s of
        None \<Rightarrow> None
      | Some (d, r) \<Rightarrow>
          if starts_with '','' r then
            (case match_digits (tl r) of
               None \<Rightarrow> Some (d, None, r)
             | Some (c, r') \<Rightarrow> Some (d, Some c, r'))
          else Some (d, None, r))"

definition match_literal :: "string \<Rightarrow> string \<Rightarrow> string option" where
  "match_literal p s = (if starts_with p s then Some (drop (length p) s) else None)"

definition count_value :: "string option \<Rightarrow> nat" where
  "count_value c = (case c of None \<Rightarrow> 1 | Some ds \<Rightarrow> digits_value ds)"

text \<open>The hunk header: the start in the old file and the two counts.\<close>

definition hunk_header :: "string \<Rightarrow> (nat \<times> nat \<times> nat) option" where
  "hunk_header header =
     Option.bind (match_literal ''@@ -'' header) (\<lambda>r1.
     Option.bind (match_range r1) (\<lambda>(old_start, old_count, r2).
     Option.bind (match_literal '' +'' r2) (\<lambda>r3.
     Option.bind (match_range r3) (\<lambda>(_, new_count, r4).
     Option.bind (match_literal '' @@'' r4) (\<lambda>_.
       Some (digits_value old_start, count_value old_count, count_value new_count))))))"

text \<open>What the loop over a hunk's lines has gathered.\<close>

record hunk_lines =
  hl_old_segment :: "string list"
  hl_new_segment :: "string list"
  hl_consumed_old :: nat
  hl_consumed_new :: nat
  hl_last_kind :: "char option"

definition empty_hunk :: hunk_lines where
  "empty_hunk = \<lparr>hl_old_segment = [], hl_new_segment = [], hl_consumed_old = 0,
     hl_consumed_new = 0, hl_last_kind = None\<rparr>"

text \<open>\<open>segment[-1] = segment[-1].rstrip("\n")\<close>.\<close>

definition strip_last :: "string list \<Rightarrow> string list" where
  "strip_last xs = (if xs = [] then xs else butlast xs @ [rstrip_newlines (last xs)])"

definition no_newline_marker :: "hunk_lines \<Rightarrow> hunk_lines" where
  "no_newline_marker h =
     (let h1 = (if hl_last_kind h \<in> {Some CHR '' '', Some CHR ''-''}
                then h\<lparr>hl_old_segment := strip_last (hl_old_segment h)\<rparr> else h)
      in if hl_last_kind h \<in> {Some CHR '' '', Some CHR ''+''}
         then h1\<lparr>hl_new_segment := strip_last (hl_new_segment h)\<rparr> else h1)"

definition take_hunk_line :: "char \<Rightarrow> string \<Rightarrow> hunk_lines \<Rightarrow> hunk_lines" where
  "take_hunk_line kind payload h =
     (if kind = CHR '' '' then
        h\<lparr>hl_old_segment := hl_old_segment h @ [payload],
          hl_new_segment := hl_new_segment h @ [payload],
          hl_consumed_old := hl_consumed_old h + 1, hl_consumed_new := hl_consumed_new h + 1,
          hl_last_kind := Some kind\<rparr>
      else if kind = CHR ''-'' then
        h\<lparr>hl_old_segment := hl_old_segment h @ [payload],
          hl_consumed_old := hl_consumed_old h + 1, hl_last_kind := Some kind\<rparr>
      else
        h\<lparr>hl_new_segment := hl_new_segment h @ [payload],
          hl_consumed_new := hl_consumed_new h + 1, hl_last_kind := Some kind\<rparr>)"

definition no_newline_text :: string where
  "no_newline_text = CHR 0x5C # '' No newline at end of file''"

fun hunk_loop :: "hunk_lines \<Rightarrow> string list \<Rightarrow> py_exn + (hunk_lines \<times> string list)" where
  "hunk_loop h [] = Inr (h, [])"
| "hunk_loop h (line # rest) =
     (if starts_with ''@@'' line \<or> starts_with ''--- '' line then Inr (h, line # rest)
      else if starts_with [CHR 0x5C] line then
        (if rstrip_newlines line = no_newline_text
         then hunk_loop (no_newline_marker h) rest
         else patch_error (''Unsupported patch marker: '' @ py_repr_str (py_rstrip line)))
      else if line = [] \<or> hd line \<notin> set '' +-'' then Inr (h, line # rest)
      else hunk_loop (take_hunk_line (hd line) (tl line) h) rest)"

definition segment_matches :: "string list \<Rightarrow> int \<Rightarrow> string list \<Rightarrow> bool" where
  "segment_matches file_lines start expected_old =
     (let end_index = start + int (length expected_old)
      in if start < 0 \<or> end_index > int (length file_lines) then False
         else take (length expected_old) (drop (nat start) file_lines) = expected_old)"

text \<open>
  Where a hunk goes: at the suggested index, else at the nearest match within the window; two
  nearest matches at the same distance are ambiguous.  \<open>sorted\<close> with a key is \<open>sort_key\<close>,
  stable in both.
\<close>

definition find_hunk_position :: "string list \<Rightarrow> string list \<Rightarrow> int \<Rightarrow> py_exn + int" where
  "find_hunk_position file_lines expected_old suggested_index =
     (if segment_matches file_lines suggested_index expected_old then Inr suggested_index
      else
        let max_index = int (length file_lines) - int (length expected_old)
        in if max_index < 0 then patch_error ''Hunk context extends beyond end of file''
           else
             let first = max 0 (suggested_index - hunk_fuzz_window);
                 last = min max_index (suggested_index + hunk_fuzz_window);
                 candidates = filter (\<lambda>i. segment_matches file_lines i expected_old) [first..last]
             in if candidates = []
                then patch_error (''Hunk context mismatch near line '' @ py_int_str (suggested_index + 1))
                else if length candidates = 1 then Inr (candidates ! 0)
                else
                  let ranked = sort_key (\<lambda>i. \<bar>i - suggested_index\<bar>) candidates
                  in if \<bar>ranked ! 0 - suggested_index\<bar> = \<bar>ranked ! 1 - suggested_index\<bar>
                     then patch_error (''Ambiguous hunk location near line ''
                            @ py_int_str (suggested_index + 1))
                     else Inr (ranked ! 0))"

text \<open>\<open>file_lines[:i] + new + file_lines[i + len(old):]\<close> for an index that is not negative.\<close>

definition splice :: "'a list \<Rightarrow> nat \<Rightarrow> nat \<Rightarrow> 'a list \<Rightarrow> 'a list" where
  "splice xs i n ys = take i xs @ ys @ drop (i + n) xs"

definition apply_hunk ::
  "string \<Rightarrow> string list \<Rightarrow> string list \<Rightarrow> int \<Rightarrow> py_exn + (string list \<times> string list \<times> int)" where
  "apply_hunk header_line rest file_lines line_offset =
     (let header = rstrip_newlines header_line
      in case hunk_header header of
           None \<Rightarrow> patch_error (''Malformed hunk header: '' @ py_repr_str header)
         | Some (old_start, old_count, new_count) \<Rightarrow>
             res_bind (hunk_loop empty_hunk rest) (\<lambda>(h, rest').
               let old_segment = hl_old_segment h; new_segment = hl_new_segment h
               in if hl_consumed_old h \<noteq> old_count \<or> hl_consumed_new h \<noteq> new_count
                  then patch_error (''Hunk line count mismatch: expected -''
                         @ py_int_str (int old_count) @ ''/+'' @ py_int_str (int new_count)
                         @ '', got -'' @ py_int_str (int (hl_consumed_old h))
                         @ ''/+'' @ py_int_str (int (hl_consumed_new h)))
                  else
                    let suggested_index = max 0 (int old_start - 1 + line_offset)
                    in res_bind (if old_segment \<noteq> []
                                 then find_hunk_position file_lines old_segment suggested_index
                                 else Inr (min suggested_index (int (length file_lines))))
                         (\<lambda>apply_index. Inr
                           (splice file_lines (nat apply_index) (length old_segment) new_segment,
                            rest',
                            line_offset + (apply_index - suggested_index)
                              + (int (length new_segment) - int (length old_segment))))))"

lemma hunk_loop_length: "hunk_loop h ls = Inr (h', rest) \<Longrightarrow> length rest \<le> length ls"
proof (induction ls arbitrary: h)
  case (Cons line ls)
  from Cons.prems show ?case
    by (auto simp: patch_error_def split: if_splits dest!: Cons.IH)
qed simp

lemma apply_hunk_length:
  "apply_hunk l rest fl off = Inr (fl', rest', off') \<Longrightarrow> length rest' \<le> length rest"
  by (auto simp: apply_hunk_def Let_def patch_error_def res_bind_Inr_iff
      split: option.splits if_splits dest: hunk_loop_length)

subsection \<open>Applying a unified diff\<close>

text \<open>The loop over the hunks of one file, with the lines, the offset and the hunks so far.\<close>

function (sequential) hunks_loop ::
  "string list \<Rightarrow> int \<Rightarrow> nat \<Rightarrow> string list \<Rightarrow> py_exn + (string list \<times> string list \<times> nat)" where
  "hunks_loop current_lines line_offset hunk_count [] = Inr (current_lines, [], hunk_count)"
| "hunks_loop current_lines line_offset hunk_count (line # rest) =
     (if \<not> starts_with ''@@'' line then Inr (current_lines, line # rest, hunk_count)
      else res_bind (apply_hunk line rest current_lines line_offset)
             (\<lambda>(current_lines', rest', line_offset').
               hunks_loop current_lines' line_offset' (hunk_count + 1) rest'))"
  by pat_completeness auto
termination
  by (relation "measure (\<lambda>(c, l, n, ls). length ls)") (auto dest: apply_hunk_length)

definition resolve_patch_target :: "ToolContext \<Rightarrow> fs \<Rightarrow> FilePatch \<Rightarrow> py_exn + path" where
  "resolve_patch_target c f file_patch =
     (let k = default_checks\<lparr>check_allowed_fn := Some (context_file_allowed c)\<rparr>
      in resolve_and_validate_writable_path (ctx_os c) f
           (if fp_operation file_patch = ''create'' then k
            else k\<lparr>must_exist := True, must_be_file := True\<rparr>)
           (fp_target_path file_patch) (ctx_workspace_root c))"

text \<open>An \<open>OSError\<close> of \<open>unlink\<close> becomes a patch error; its text is named by the class.\<close>

definition delete_file :: "path \<Rightarrow> unit fsop" where
  "delete_file target = (\<lambda>f. case unlink target f of
       (Inl (StdError n), g) \<Rightarrow>
         (patch_error (''Unable to delete file '' @ path_str target @ '': '' @ n), g)
     | r \<Rightarrow> r)"

definition workspace_relative_path :: "path \<Rightarrow> ToolContext \<Rightarrow> py_exn + string" where
  "workspace_relative_path target c =
     (case relative_to target (ctx_workspace_root c) of
        None \<Rightarrow> Inl (StdError ''ValueError'')
      | Some rel \<Rightarrow> Inr (posix_str rel))"

text \<open>The effect of one file patch on its target, once the new lines are known.\<close>

definition store_file_patch :: "FilePatch \<Rightarrow> path \<Rightarrow> string list \<Rightarrow> nat \<Rightarrow> unit fsop" where
  "store_file_patch file_patch target current_lines hunk_count =
     (if fp_operation file_patch = ''modify'' \<and> hunk_count = 0
      then fs_raise (PatchApplyError (''No hunks found for file patch: '' @ fp_target_path file_patch))
      else if fp_operation file_patch = ''delete''
      then (if current_lines \<noteq> []
            then fs_raise (PatchApplyError (''Deletion patch for ''
                   @ py_repr_str (fp_target_path file_patch) @ '' did not remove all content''))
            else delete_file target)
      else fs_bind (if fp_operation file_patch = ''create'' then mkdir_parents (path_parent target)
                    else fs_return ())
             (\<lambda>_. write_text target (concat current_lines)))"

definition unified_file ::
  "ToolContext \<Rightarrow> string \<Rightarrow> string list \<Rightarrow> (AppliedFileOperation \<times> string list) fsop" where
  "unified_file c old_line rest =
     fs_bind (fs_pure (\<lambda>f. header_pair old_line rest)) (\<lambda>file_patch.
     fs_bind (fs_pure (\<lambda>f. resolve_patch_target c f file_patch)) (\<lambda>target.
     fs_bind (if fp_operation file_patch = ''create'' then fs_return []
              else fs_bind (read_text target) (\<lambda>t. fs_return (splitlines_keep t))) (\<lambda>original.
     fs_bind (fs_pure (\<lambda>f. hunks_loop original 0 0 (tl rest))) (\<lambda>(current_lines, rest', hunk_count).
     fs_bind (store_file_patch file_patch target current_lines hunk_count) (\<lambda>_.
     fs_bind (fs_pure (\<lambda>f. workspace_relative_path target c)) (\<lambda>rel_path.
       fs_return (\<lparr>af_path = rel_path, af_operation = fp_operation file_patch,
                   af_hunks_applied = hunk_count\<rparr>, rest')))))))"

lemma hunks_loop_length:
  "hunks_loop cur off n ls = Inr (cur', rest, m) \<Longrightarrow> length rest \<le> length ls"
proof (induction cur off n ls arbitrary: cur' rest m rule: hunks_loop.induct)
  case (2 cur off n line ls)
  then show ?case
    by (auto simp: res_bind_Inr_iff split: if_splits) (meson apply_hunk_length le_SucI le_trans)
qed simp

lemma unified_file_length:
  assumes "unified_file c line rest f = (Inr (op', rest'), g)"
  shows "length rest' \<le> length rest"
proof -
  obtain original cur n where "hunks_loop original 0 0 (tl rest) = Inr (cur, rest', n)"
    using assms
    by (auto simp: unified_file_def fs_bind_Inr fs_pure_def fs_return_def split: prod.splits)
  from hunks_loop_length [OF this] show ?thesis by simp
qed

function (sequential) unified_loop ::
  "ToolContext \<Rightarrow> AppliedFileOperation list \<Rightarrow> nat \<Rightarrow> string list
    \<Rightarrow> fs \<Rightarrow> (py_exn + AppliedFileOperation list \<times> nat) \<times> fs" where
  "unified_loop c applied_ops total_hunks [] f = (Inr (applied_ops, total_hunks), f)"
| "unified_loop c applied_ops total_hunks (line # rest) f =
     (if \<not> starts_with ''--- '' line then unified_loop c applied_ops total_hunks rest f
      else case unified_file c line rest f of
             (Inl e, g) \<Rightarrow> (Inl e, g)
           | (Inr (op', rest'), g) \<Rightarrow>
               unified_loop c (applied_ops @ [op']) (total_hunks + af_hunks_applied op') rest' g)"
  by pat_completeness auto
termination
  by (relation "measure (\<lambda>(c, ops, n, ls, f). length ls)")
     (auto simp: less_Suc_eq_le intro: unified_file_length [OF sym])

definition apply_unified_diff :: "string \<Rightarrow> ToolContext \<Rightarrow> (AppliedFileOperation list \<times> nat) fsop" where
  "apply_unified_diff diff c =
     fs_bind (unified_loop c [] 0 (splitlines_keep diff)) (\<lambda>(applied_ops, total_hunks).
       if applied_ops = [] then fs_raise (PatchApplyError ''No valid file patches found in diff'')
       else fs_return (applied_ops, total_hunks))"

subsection \<open>Parsing a freeform patch\<close>

fun strict_add_lines :: "string \<Rightarrow> string list \<Rightarrow> py_exn + string list" where
  "strict_add_lines path [] = Inr []"
| "strict_add_lines path (line # rest) =
     (if starts_with ''*** '' line then Inr []
      else if \<not> starts_with ''+'' line
      then patch_error (''Add File patch for '' @ py_repr_str path
             @ '' contains a non-add line: '' @ py_repr_str line)
      else res_bind (strict_add_lines path rest) (\<lambda>ls. Inr (tl line # ls)))"

definition parse_strict_add_operation :: "string \<Rightarrow> string list \<Rightarrow> py_exn + StrictPatchOperation" where
  "parse_strict_add_operation header rest =
     (let path = after_prefix STRICT_ADD_FILE_PREFIX header
      in res_bind (strict_add_lines path rest) (\<lambda>add_lines.
           if add_lines = []
           then patch_error (''Add File patch for '' @ py_repr_str path @ '' is missing content'')
           else Inr \<lparr>sp_operation = ''add'', sp_path = path, sp_move_path = None,
                  sp_add_lines = add_lines, sp_chunks = []\<rparr>))"

definition advance_strict_add :: "string list \<Rightarrow> string list" where
  "advance_strict_add rest = dropWhile (\<lambda>l. \<not> starts_with ''*** '' l) rest"

text \<open>The header of a chunk, if it has one, with the lines behind it.\<close>

definition strict_chunk_header :: "string list \<Rightarrow> py_exn + string option \<times> string list" where
  "strict_chunk_header lines =
     (case lines of
        header # rest \<Rightarrow>
          if starts_with ''@@'' header then
            (if header = ''@@'' then Inr (None, rest)
             else if starts_with ''@@ '' header then Inr (Some (drop 3 header), rest)
             else patch_error (''Malformed strict patch chunk header: '' @ py_repr_str header))
          else Inr (None, lines)
      | [] \<Rightarrow> Inr (None, []))"

text \<open>The loop over a chunk's lines: the chunk so far, whether a change line was seen, the rest.\<close>

fun strict_chunk_loop ::
  "string \<Rightarrow> StrictPatchChunk \<Rightarrow> bool \<Rightarrow> string list
    \<Rightarrow> py_exn + (StrictPatchChunk \<times> bool \<times> string list)" where
  "strict_chunk_loop path ch saw [] = Inr (ch, saw, [])"
| "strict_chunk_loop path ch saw (line # rest) =
     (if line = STRICT_END_OF_FILE then Inr (ch\<lparr>ch_is_end_of_file := True\<rparr>, saw, rest)
      else if starts_with ''@@'' line \<or> starts_with ''*** '' line then Inr (ch, saw, line # rest)
      else if line = [] \<or> hd line \<notin> set '' +-''
      then patch_error (''Update File patch for '' @ py_repr_str path
             @ '' contains an invalid line: '' @ py_repr_str line)
      else
        let ch1 = (if hd line \<in> set '' -'' then ch\<lparr>ch_old_lines := ch_old_lines ch @ [tl line]\<rparr> else ch);
            ch2 = (if hd line \<in> set '' +'' then ch1\<lparr>ch_new_lines := ch_new_lines ch1 @ [tl line]\<rparr> else ch1)
        in strict_chunk_loop path ch2 True rest)"

definition parse_strict_update_chunk ::
  "string \<Rightarrow> string list \<Rightarrow> py_exn + (StrictPatchChunk \<times> string list)" where
  "parse_strict_update_chunk path lines =
     res_bind (strict_chunk_header lines) (\<lambda>(change_context, rest).
     res_bind (strict_chunk_loop path \<lparr>ch_change_context = change_context, ch_old_lines = [],
                 ch_new_lines = [], ch_is_end_of_file = False\<rparr> False rest) (\<lambda>(ch, saw, rest').
       if \<not> saw \<and> \<not> ch_is_end_of_file ch
       then patch_error (''Update File patch for '' @ py_repr_str path @ '' is missing change lines'')
       else Inr (ch, rest')))"

text \<open>Every chunk takes at least one line, so the loops over chunks and operations end.\<close>

lemma strict_chunk_loop_length:
  "strict_chunk_loop path ch saw ls = Inr (ch', saw', rest) \<Longrightarrow>
   length rest \<le> length ls \<and> (length rest = length ls \<longrightarrow> saw' = saw \<and> ch' = ch)"
proof (induction ls arbitrary: ch saw)
  case (Cons line ls)
  from Cons.prems show ?case
    by (auto simp: patch_error_def Let_def split: if_splits dest!: Cons.IH)
qed simp

lemma parse_strict_update_chunk_length:
  assumes "parse_strict_update_chunk path ls = Inr (ch, rest)" "ls \<noteq> []"
  shows "length rest < length ls"
proof -
  obtain cc mid saw where
    header: "strict_chunk_header ls = Inr (cc, mid)" and
    loop: "strict_chunk_loop path \<lparr>ch_change_context = cc, ch_old_lines = [],
             ch_new_lines = [], ch_is_end_of_file = False\<rparr> False mid = Inr (ch, saw, rest)" and
    some: "saw \<or> ch_is_end_of_file ch"
    using assms by (auto simp: parse_strict_update_chunk_def res_bind_Inr_iff patch_error_def
        split: if_splits)
  have "length mid \<le> length ls"
    using header by (auto simp: strict_chunk_header_def patch_error_def split: list.splits if_splits)
  then show ?thesis using strict_chunk_loop_length [OF loop] some by (cases "length rest = length mid") auto
qed

function (sequential) strict_chunks :: "string \<Rightarrow> string list \<Rightarrow> py_exn + (StrictPatchChunk list \<times> string list)" where
  "strict_chunks path [] = Inr ([], [])"
| "strict_chunks path (line # rest) =
     (if starts_with ''*** '' line then Inr ([], line # rest)
      else res_bind (parse_strict_update_chunk path (line # rest)) (\<lambda>(ch, rest').
           res_bind (strict_chunks path rest') (\<lambda>(chs, rest''). Inr (ch # chs, rest''))))"
  by pat_completeness auto
termination
  by (relation "measure (\<lambda>(p, ls). length ls)") (auto dest: parse_strict_update_chunk_length)

definition strict_move :: "string list \<Rightarrow> string option \<times> string list" where
  "strict_move lines =
     (case lines of
        line # rest \<Rightarrow>
          if starts_with STRICT_MOVE_TO_PREFIX line
          then (Some (after_prefix STRICT_MOVE_TO_PREFIX line), rest) else (None, lines)
      | [] \<Rightarrow> (None, []))"

definition parse_strict_update_operation ::
  "string \<Rightarrow> string list \<Rightarrow> py_exn + (StrictPatchOperation \<times> string list)" where
  "parse_strict_update_operation header rest =
     (let path = after_prefix STRICT_UPDATE_FILE_PREFIX header;
          (move_path, rest1) = strict_move rest
      in res_bind (strict_chunks path rest1) (\<lambda>(chunks, rest2).
           if chunks = [] \<and> move_path = None
           then patch_error (''Update File patch for '' @ py_repr_str path @ '' is missing changes'')
           else Inr (\<lparr>sp_operation = ''update'', sp_path = path, sp_move_path = move_path,
                       sp_add_lines = [], sp_chunks = chunks\<rparr>, rest2)))"

lemma strict_chunks_length: "strict_chunks path ls = Inr (chs, rest) \<Longrightarrow> length rest \<le> length ls"
proof (induction path ls arbitrary: chs rest rule: strict_chunks.induct)
  case (2 path line ls)
  show ?case
  proof (cases "starts_with ''*** '' line")
    case False
    then obtain ch mid chs' where chunk: "parse_strict_update_chunk path (line # ls) = Inr (ch, mid)"
      and more: "strict_chunks path mid = Inr (chs', rest)"
      using "2.prems" by (auto simp: res_bind_Inr_iff)
    have "length mid < length (line # ls)"
      using chunk by (rule parse_strict_update_chunk_length) simp
    then show ?thesis using "2.IH" [OF False chunk refl more] by simp
  qed (use "2.prems" in simp)
qed simp

lemma strict_move_length: "length (snd (strict_move ls)) \<le> length ls"
  by (simp add: strict_move_def split: list.splits)

lemma parse_strict_update_operation_length:
  assumes "parse_strict_update_operation header ls = Inr (op', rest)"
  shows "length rest \<le> length ls"
proof -
  obtain m r where move: "strict_move ls = (m, r)" by (cases "strict_move ls")
  then obtain chs where "strict_chunks (after_prefix STRICT_UPDATE_FILE_PREFIX header) r = Inr (chs, rest)"
    using assms by (auto simp: parse_strict_update_operation_def Let_def patch_error_def res_bind_Inr_iff
        simp del: strict_chunks.simps split: if_splits)
  then show ?thesis using strict_chunks_length strict_move_length [of ls] move by fastforce
qed

function (sequential) parse_strict_loop ::
  "StrictPatchOperation list \<Rightarrow> string list \<Rightarrow> py_exn + StrictPatchOperation list" where
  "parse_strict_loop operations [] = patch_error ''Patch is missing *** End Patch''"
| "parse_strict_loop operations (line # rest) =
     (if line = STRICT_PATCH_END then
        (if operations = [] then patch_error ''No valid file patches found in diff''
         else if list_ex (\<lambda>extra. py_strip extra \<noteq> '''') rest
         then patch_error ''Unexpected content after *** End Patch''
         else Inr operations)
      else if starts_with STRICT_ADD_FILE_PREFIX line then
        res_bind (parse_strict_add_operation line rest) (\<lambda>op'.
          parse_strict_loop (operations @ [op']) (advance_strict_add rest))
      else if starts_with STRICT_DELETE_FILE_PREFIX line then
        parse_strict_loop (operations @ [\<lparr>sp_operation = ''delete'',
            sp_path = after_prefix STRICT_DELETE_FILE_PREFIX line, sp_move_path = None,
            sp_add_lines = [], sp_chunks = []\<rparr>]) rest
      else if starts_with STRICT_UPDATE_FILE_PREFIX line then
        res_bind (parse_strict_update_operation line rest) (\<lambda>(op', rest').
          parse_strict_loop (operations @ [op']) rest')
      else patch_error (''Unexpected patch directive: '' @ py_repr_str line))"
  by pat_completeness auto
termination
  by (relation "measure (\<lambda>(ops, ls). length ls)")
     (auto simp: less_Suc_eq_le advance_strict_add_def length_dropWhile_le
        intro: parse_strict_update_operation_length)

definition parse_strict_patch :: "string \<Rightarrow> py_exn + StrictPatchOperation list" where
  "parse_strict_patch patch =
     (let lines = splitlines patch
      in if lines = [] \<or> hd lines \<noteq> STRICT_PATCH_BEGIN
         then patch_error ''Patch must start with *** Begin Patch''
         else
           let rest = tl lines
           in parse_strict_loop []
                (if rest \<noteq> [] \<and> starts_with STRICT_ENVIRONMENT_PREFIX (hd rest) then tl rest else rest))"

subsection \<open>Applying a freeform patch\<close>

definition render_strict_text :: "string list \<Rightarrow> bool \<Rightarrow> string" where
  "render_strict_text lines trailing_newline =
     (if lines = [] then ''''
      else py_join [LF] lines @ (if trailing_newline then [LF] else []))"

definition context_suffix :: "string option \<Rightarrow> string" where
  "context_suffix change_context =
     (case change_context of None \<Rightarrow> ''''
      | Some x \<Rightarrow> if x = '''' then '''' else '' ('' @ x @ '')'')"

definition find_unique_segment_position ::
  "string list \<Rightarrow> string list \<Rightarrow> string \<Rightarrow> string option \<Rightarrow> py_exn + int" where
  "find_unique_segment_position file_lines expected_old path change_context =
     (let max_index = int (length file_lines) - int (length expected_old)
      in if max_index < 0
         then patch_error (''Patch context extends beyond end of file for '' @ py_repr_str path)
         else
           let matches = filter (\<lambda>i. segment_matches file_lines i expected_old) [0..max_index]
           in if matches = []
              then patch_error (''Patch context mismatch in '' @ py_repr_str path
                     @ context_suffix change_context)
              else if length matches > 1
              then patch_error (''Patch context is ambiguous in '' @ py_repr_str path
                     @ context_suffix change_context)
              else Inr (matches ! 0))"

text \<open>One chunk: the new lines and whether it touched the end of the file.\<close>

definition apply_strict_chunk ::
  "string \<Rightarrow> string list \<Rightarrow> StrictPatchChunk \<Rightarrow> py_exn + (string list \<times> bool)" where
  "apply_strict_chunk path file_lines ch =
     (let old_segment = ch_old_lines ch; new_segment = ch_new_lines ch
      in if old_segment = [] then Inr (splice file_lines (length file_lines) 0 new_segment, True)
         else res_bind (find_unique_segment_position file_lines old_segment path (ch_change_context ch))
           (\<lambda>apply_index. Inr
              (splice file_lines (nat apply_index) (length old_segment) new_segment,
               apply_index + int (length old_segment) = int (length file_lines))))"

text \<open>The loop over the chunks, with the lines and the trailing newline so far.\<close>

fun strict_chunks_apply ::
  "string \<Rightarrow> string list \<Rightarrow> bool \<Rightarrow> StrictPatchChunk list \<Rightarrow> py_exn + (string list \<times> bool)" where
  "strict_chunks_apply path current_lines trailing_newline [] = Inr (current_lines, trailing_newline)"
| "strict_chunks_apply path current_lines trailing_newline (ch # chs) =
     res_bind (apply_strict_chunk path current_lines ch) (\<lambda>(current_lines', touched_eof).
       strict_chunks_apply path current_lines'
         (if ch_is_end_of_file ch then False
          else if current_lines' = [] then False
          else if touched_eof then True
          else trailing_newline) chs)"

definition validate_write :: "ToolContext \<Rightarrow> bool \<Rightarrow> string \<Rightarrow> path fsop" where
  "validate_write c existing raw = fs_pure (\<lambda>f.
     resolve_and_validate_writable_path (ctx_os c) f
       (default_checks\<lparr>must_exist := existing, must_be_file := existing,
          check_allowed_fn := Some (context_file_allowed c)\<rparr>) raw (ctx_workspace_root c))"

definition strict_report :: "ToolContext \<Rightarrow> path \<Rightarrow> string \<Rightarrow> nat \<Rightarrow> (AppliedFileOperation \<times> nat) fsop" where
  "strict_report c target operation hunks =
     fs_bind (fs_pure (\<lambda>f. workspace_relative_path target c)) (\<lambda>rel_path.
       fs_return (\<lparr>af_path = rel_path, af_operation = operation, af_hunks_applied = hunks\<rparr>, hunks))"

definition apply_strict_add_file ::
  "StrictPatchOperation \<Rightarrow> ToolContext \<Rightarrow> (AppliedFileOperation \<times> nat) fsop" where
  "apply_strict_add_file operation c =
     fs_bind (validate_write c False (sp_path operation)) (\<lambda>target.
     fs_bind (fs_pure (\<lambda>f. res_bind (path_stat (ctx_os c) target) (\<lambda>_.
         if path_exists f target \<and> \<not> path_is_file f target
         then patch_error (''Target path is not a file: '' @ py_repr_str (sp_path operation))
         else Inr (if path_exists f target then ''modify'' else ''create'')))) (\<lambda>file_operation.
     fs_bind (mkdir_parents (path_parent target)) (\<lambda>_.
     fs_bind (write_text target (render_strict_text (sp_add_lines operation) True)) (\<lambda>_.
       strict_report c target file_operation 1))))"

text \<open>A deletion computes the relative path before it deletes, the other operations after.\<close>

definition apply_strict_delete_file ::
  "StrictPatchOperation \<Rightarrow> ToolContext \<Rightarrow> (AppliedFileOperation \<times> nat) fsop" where
  "apply_strict_delete_file operation c =
     fs_bind (validate_write c True (sp_path operation)) (\<lambda>target.
     fs_bind (fs_pure (\<lambda>f. workspace_relative_path target c)) (\<lambda>rel_path.
     fs_bind (delete_file target) (\<lambda>_.
       fs_return (\<lparr>af_path = rel_path, af_operation = ''delete'', af_hunks_applied = 1\<rparr>, 1))))"

text \<open>What was resolved once resolves again without an exception.\<close>

definition strict_destination :: "StrictPatchOperation \<Rightarrow> ToolContext \<Rightarrow> path \<Rightarrow> path fsop" where
  "strict_destination operation c source =
     (case sp_move_path operation of
        None \<Rightarrow> fs_return source
      | Some move_path \<Rightarrow>
          fs_bind (validate_write c False move_path) (\<lambda>destination.
            fs_pure (\<lambda>f. res_bind (path_stat (ctx_os c) destination) (\<lambda>_.
              if path_exists f destination \<and> ctx_resolve c destination \<noteq> ctx_resolve c source
              then patch_error (''Move destination already exists: '' @ py_repr_str move_path)
              else Inr destination))))"

definition apply_strict_update_file ::
  "StrictPatchOperation \<Rightarrow> ToolContext \<Rightarrow> (AppliedFileOperation \<times> nat) fsop" where
  "apply_strict_update_file operation c =
     fs_bind (validate_write c True (sp_path operation)) (\<lambda>source.
     fs_bind (strict_destination operation c source) (\<lambda>destination.
     fs_bind (read_text source) (\<lambda>original_text.
     fs_bind (fs_pure (\<lambda>f. strict_chunks_apply (sp_path operation) (splitlines original_text)
                (ends_with_newline original_text) (sp_chunks operation)))
       (\<lambda>(current_lines, trailing_newline).
     fs_bind (mkdir_parents (path_parent destination)) (\<lambda>_.
     fs_bind (write_text destination (render_strict_text current_lines trailing_newline)) (\<lambda>_.
     fs_bind (if ctx_resolve c destination \<noteq> ctx_resolve c source then delete_file source
              else fs_return ()) (\<lambda>_.
       strict_report c destination ''modify'' (length (sp_chunks operation)))))))))"

definition apply_strict_operation ::
  "StrictPatchOperation \<Rightarrow> ToolContext \<Rightarrow> (AppliedFileOperation \<times> nat) fsop" where
  "apply_strict_operation operation c =
     (if sp_operation operation = ''add'' then apply_strict_add_file operation c
      else if sp_operation operation = ''delete'' then apply_strict_delete_file operation c
      else if sp_operation operation = ''update'' then apply_strict_update_file operation c
      else fs_raise (PatchApplyError (''Unsupported strict patch operation: ''
             @ py_repr_str (sp_operation operation))))"

fun strict_operations_loop ::
  "ToolContext \<Rightarrow> AppliedFileOperation list \<Rightarrow> nat \<Rightarrow> StrictPatchOperation list
    \<Rightarrow> (AppliedFileOperation list \<times> nat) fsop" where
  "strict_operations_loop c applied_ops total_hunks [] = fs_return (applied_ops, total_hunks)"
| "strict_operations_loop c applied_ops total_hunks (operation # operations) =
     fs_bind (apply_strict_operation operation c) (\<lambda>(applied_op, hunks_applied).
       strict_operations_loop c (applied_ops @ [applied_op]) (total_hunks + hunks_applied) operations)"

definition apply_strict_patch :: "string \<Rightarrow> ToolContext \<Rightarrow> (AppliedFileOperation list \<times> nat) fsop" where
  "apply_strict_patch patch c =
     fs_bind (fs_pure (\<lambda>f. parse_strict_patch patch)) (\<lambda>operations.
     fs_bind (strict_operations_loop c [] 0 operations) (\<lambda>(applied_ops, total_hunks).
       if applied_ops = [] then fs_raise (PatchApplyError ''No valid file patches found in diff'')
       else fs_return (applied_ops, total_hunks)))"

subsection \<open>What a patch reports\<close>

definition op_count :: "string \<Rightarrow> AppliedFileOperation list \<Rightarrow> json" where
  "op_count operation ops = JInt (int (length (filter (\<lambda>o'. af_operation o' = operation) ops)))"

definition build_patch_result_metadata :: "AppliedFileOperation list \<Rightarrow> nat \<Rightarrow> pydict" where
  "build_patch_result_metadata applied_ops total_hunks =
     (let target_files = JList (map (\<lambda>o'. JStr (af_path o')) applied_ops)
      in [(''files_modified'', target_files),
          (''target_files'', target_files),
          (''file_operations'', JList (map (\<lambda>o'. JObj
             [(''path'', JStr (af_path o')), (''operation'', JStr (af_operation o')),
              (''hunks_applied'', JInt (int (af_hunks_applied o')))]) applied_ops)),
          (''patch_applied'', JBool True),
          (''change_applied'', JBool True),
          (''change_summary_present'', JBool True),
          (''content_delta_kind'', JStr ''patch''),
          (''operation_count'', JInt (int (length applied_ops))),
          (''hunks_applied'', JInt (int total_hunks)),
          (''created_count'', op_count ''create'' applied_ops),
          (''modified_count'', op_count ''modify'' applied_ops),
          (''deleted_count'', op_count ''delete'' applied_ops)])"

end
