(* ===== verification/Patch_Runtime.thy ===== *)
theory Patch_Runtime
  imports Patch_Apply
begin

section \<open>The patch tool\<close>

text \<open>
  \<open>tools/patch_runtime.py\<close> with the metadata envelope of \<open>tools/execution_contract.py\<close>: the
  tool takes the text of the model's patch and always returns a tool result, whatever is raised
  below it.  The text of an exception of the standard library is its class name.
\<close>

subsection \<open>The metadata envelope\<close>

record execution_facts =
  ef_operation :: string
  ef_kind :: string
  ef_stage :: string
  ef_policy_decision :: "string option"
  ef_policy_reason :: "string option"
  ef_policy_reason_code :: "string option"
  ef_policy_domain :: "string option"
  ef_dangerous :: "bool option"
  ef_command_family :: "string option"
  ef_workspace_root :: "string option"
  ef_resolved_target_paths :: "string list option"
  ef_resolved_cwd :: "string option"
  ef_extra :: pydict

definition opt_entry :: "string \<Rightarrow> ('a \<Rightarrow> json) \<Rightarrow> 'a option \<Rightarrow> pydict" where
  "opt_entry k f x = (case x of None \<Rightarrow> [] | Some v \<Rightarrow> [(k, f v)])"

definition build_execution_metadata :: "execution_facts \<Rightarrow> pydict" where
  "build_execution_metadata e =
     dict_update
       ([(''operation'', JStr (ef_operation e)), (''execution_kind'', JStr (ef_kind e)),
         (''stage'', JStr (ef_stage e)), (''execution_stage'', JStr (ef_stage e))]
        @ opt_entry ''policy_decision'' JStr (ef_policy_decision e)
        @ opt_entry ''policy_reason'' JStr (ef_policy_reason e)
        @ opt_entry ''policy_reason_code'' JStr (ef_policy_reason_code e)
        @ opt_entry ''policy_domain'' JStr (ef_policy_domain e)
        @ opt_entry ''dangerous'' JBool (ef_dangerous e)
        @ opt_entry ''command_family'' JStr (ef_command_family e)
        @ opt_entry ''workspace_root'' JStr (ef_workspace_root e)
        @ (case ef_resolved_target_paths e of None \<Rightarrow> []
           | Some ps \<Rightarrow> [(''resolved_target_paths'', JList (map JStr ps)),
                         (''target_file_count'', JInt (int (length ps)))])
        @ opt_entry ''resolved_cwd'' JStr (ef_resolved_cwd e))
       (ef_extra e)"

subsection \<open>Results\<close>

text \<open>What every result of the tool has in common.\<close>

definition patch_facts :: "string \<Rightarrow> string \<Rightarrow> execution_facts" where
  "patch_facts stage decision = \<lparr>ef_operation = ''codex_apply_patch'', ef_kind = ''patch_apply'',
     ef_stage = stage, ef_policy_decision = Some decision, ef_policy_reason = None,
     ef_policy_reason_code = None, ef_policy_domain = Some ''filesystem'', ef_dangerous = Some False,
     ef_command_family = Some ''codex_apply_patch'', ef_workspace_root = None,
     ef_resolved_target_paths = Some [], ef_resolved_cwd = None, ef_extra = []\<rparr>"

definition tool_failure :: "string \<Rightarrow> execution_facts \<Rightarrow> ToolResult" where
  "tool_failure content e = \<lparr>tr_ok = False, tr_content = content,
     tr_metadata = build_execution_metadata e, tr_is_error = True\<rparr>"

definition missing_context_error :: ToolResult where
  "missing_context_error =
     (let message = ''ToolContext is required for workspace enforcement''
      in tool_failure message ((patch_facts ''context_check'' ''deny'')\<lparr>
           ef_policy_reason := Some message, ef_policy_reason_code := Some ''missing_context'',
           ef_extra := [(''error_type'', JStr ''missing_context'')]\<rparr>))"

definition empty_patch_error :: ToolResult where
  "empty_patch_error =
     tool_failure ''Empty diff'' ((patch_facts ''validate_input'' ''deny'')\<lparr>
       ef_policy_reason := Some ''Empty diff'', ef_policy_reason_code := Some ''empty_diff'',
       ef_extra := [(''error_type'', JStr ''empty_diff''), (''target_files'', JList [])]\<rparr>)"

text \<open>\<open>error.metadata.get(k, default)\<close> for a text and for a truth value.\<close>

definition meta_str :: "pydict \<Rightarrow> string \<Rightarrow> string \<Rightarrow> string" where
  "meta_str d k def = (case map_of d k of Some (JStr s) \<Rightarrow> s | _ \<Rightarrow> def)"

definition meta_bool :: "pydict \<Rightarrow> string \<Rightarrow> bool \<Rightarrow> bool" where
  "meta_bool d k def = (case map_of d k of Some (JBool b) \<Rightarrow> b | _ \<Rightarrow> def)"

definition path_policy_error_result ::
  "string \<Rightarrow> string \<Rightarrow> pydict \<Rightarrow> path \<Rightarrow> string list \<Rightarrow> ToolResult" where
  "path_policy_error_result message error_type metadata workspace_root target_files =
     (let base = build_execution_metadata ((patch_facts ''validate_target''
            (meta_str metadata ''policy_decision'' ''deny''))\<lparr>
            ef_policy_domain := Some (meta_str metadata ''policy_domain'' ''filesystem''),
            ef_policy_reason := Some (meta_str metadata ''policy_reason'' message),
            ef_policy_reason_code := Some (meta_str metadata ''policy_reason_code'' error_type),
            ef_dangerous := Some (meta_bool metadata ''dangerous''
              (error_type \<in> set [''absolute_path'', ''workspace_escape'', ''protected_path''])),
            ef_workspace_root := Some (path_str workspace_root),
            ef_resolved_target_paths := Some target_files,
            ef_extra := [(''error_type'', JStr error_type),
                         (''target_files'', JList (map JStr target_files))]\<rparr>)
      in \<lparr>tr_ok = False, tr_content = message,
          tr_metadata = fold (\<lambda>(k, v) d. setdefault k v d) metadata base, tr_is_error = True\<rparr>)"

definition patch_error_result :: "string \<Rightarrow> string \<Rightarrow> path \<Rightarrow> string list \<Rightarrow> ToolResult" where
  "patch_error_result content error_type workspace_root target_files =
     tool_failure content ((patch_facts ''handler_execution'' ''allow'')\<lparr>
       ef_workspace_root := Some (path_str workspace_root),
       ef_resolved_target_paths := Some target_files,
       ef_extra := [(''error_type'', JStr error_type),
                    (''target_files'', JList (map JStr target_files))]\<rparr>)"

definition patch_success_result :: "path \<Rightarrow> AppliedFileOperation list \<Rightarrow> nat \<Rightarrow> ToolResult" where
  "patch_success_result workspace_root applied_ops hunks_applied =
     \<lparr>tr_ok = True,
      tr_content = ''Patch applied successfully. Modified files:'' @ [LF]
        @ py_join [LF] (map (\<lambda>o'. ''  - '' @ af_path o') applied_ops),
      tr_metadata = build_execution_metadata ((patch_facts ''result_finalize'' ''allow'')\<lparr>
        ef_workspace_root := Some (path_str workspace_root),
        ef_resolved_target_paths := Some (map af_path applied_ops),
        ef_extra := build_patch_result_metadata applied_ops hunks_applied\<rparr>),
      tr_is_error = False\<rparr>"

subsection \<open>apply_patch\<close>

definition is_strict_patch :: "string \<Rightarrow> bool" where
  "is_strict_patch patch = starts_with STRICT_PATCH_BEGIN (py_lstrip patch)"

text \<open>The body of the \<open>try\<close>, and the target files it had found when it ended.\<close>

definition patch_attempt ::
  "string \<Rightarrow> ToolContext \<Rightarrow> fs \<Rightarrow> (py_exn + AppliedFileOperation list \<times> nat) \<times> string list \<times> fs" where
  "patch_attempt patch c f =
     (if is_strict_patch patch then
        (let (r, g) = apply_strict_patch patch c f
         in (r, collect_strict_target_file_candidates patch, g))
      else case collect_file_patches patch of
             Inl e \<Rightarrow> (Inl e, [], f)
           | Inr fps \<Rightarrow>
               (let (r, g) = apply_unified_diff patch c f in (r, map fp_target_path fps, g)))"

definition apply_patch :: "string \<Rightarrow> ToolContext option \<Rightarrow> fs \<Rightarrow> ToolResult \<times> fs" where
  "apply_patch patch ctx f =
     (if py_strip patch = '''' then (empty_patch_error, f)
      else case ctx of
        None \<Rightarrow> (missing_context_error, f)
      | Some c \<Rightarrow>
          (let (r, target_files, g) = patch_attempt patch c f;
               ws = ctx_workspace_root c
           in (case r of
                 Inr (applied_ops, hunks_applied) \<Rightarrow> patch_success_result ws applied_ops hunks_applied
               | Inl (PatchApplyError message) \<Rightarrow>
                   patch_error_result (''Patch failed: '' @ message) ''patch_apply'' ws
                     (if target_files \<noteq> [] then target_files
                      else if is_strict_patch patch then collect_strict_target_file_candidates patch
                      else collect_target_file_candidates patch)
               | Inl (PathPolicyError message error_type metadata) \<Rightarrow>
                   path_policy_error_result message error_type metadata ws target_files
               | Inl (StdError name) \<Rightarrow>
                   patch_error_result (''Unexpected patch error: '' @ name) ''patch_unexpected''
                     ws target_files, g)))"

end
