(* ===== verification/Patch_Properties.thy ===== *)
theory Patch_Properties
  imports Patch_Runtime
begin

section \<open>What applying a patch guarantees\<close>

text \<open>
  The contracts of the patch tool: which files it can touch, where hunks and chunks land, the
  round trips of the two patch formats, and what a patch that fails half way leaves behind.
\<close>

subsection \<open>Only writable files change\<close>

abbreviation guarded :: "ToolContext \<Rightarrow> 'a fsop \<Rightarrow> ('a \<Rightarrow> bool) \<Rightarrow> bool" where
  "guarded c m Q \<equiv> fs_spec (files_within (writable c)) m Q"

lemmas guarded_bind = fs_spec_bind [OF files_within_trans]
lemmas guarded_pure = fs_spec_pure [OF files_within_refl]
lemmas guarded_return = fs_spec_return [OF files_within_refl]
lemmas guarded_raise = fs_spec_raise [OF files_within_refl]
lemmas guarded_read = fs_spec_read [OF files_within_refl]

lemma guarded_validate_write: "guarded c (validate_write c existing raw) (writable c)"
  unfolding validate_write_def by (rule guarded_pure) (erule writable_path_is_writable [rotated], simp)

lemma guarded_delete: "writable c p \<Longrightarrow> guarded c (delete_file p) (\<lambda>_. True)"
  using files_within_unlink [of "writable c" p]
  by (auto simp: fs_spec_def delete_file_def patch_error_def split: prod.splits sum.splits py_exn.splits)
     (metis snd_conv)+

lemma guarded_report: "guarded c (strict_report c target operation hunks) (\<lambda>_. True)"
  unfolding strict_report_def by (rule guarded_bind [OF guarded_pure guarded_return]) auto

lemma guarded_add: "guarded c (apply_strict_add_file operation c) (\<lambda>_. True)"
  unfolding apply_strict_add_file_def
  by (intro guarded_bind [OF guarded_validate_write] guarded_bind [OF guarded_pure, where Q = "\<lambda>_. True"]
      guarded_bind [OF files_within_mkdir] guarded_bind [OF files_within_write] guarded_report) auto

lemma guarded_delete_file: "guarded c (apply_strict_delete_file operation c) (\<lambda>_. True)"
  unfolding apply_strict_delete_file_def
  by (intro guarded_bind [OF guarded_validate_write] guarded_bind [OF guarded_pure, where Q = "\<lambda>_. True"]
      guarded_bind [OF guarded_delete] guarded_return) auto

lemma guarded_destination:
  assumes "writable c source"
  shows "guarded c (strict_destination operation c source) (writable c)"
proof (cases "sp_move_path operation")
  case None
  then show ?thesis using assms by (simp add: strict_destination_def guarded_return)
next
  case (Some m)
  have "guarded c (fs_bind (validate_write c False m) (\<lambda>destination. fs_pure (\<lambda>f.
      res_bind (path_stat (ctx_os c) destination) (\<lambda>_.
        if path_exists f destination \<and> ctx_resolve c destination \<noteq> ctx_resolve c source
        then patch_error (''Move destination already exists: '' @ py_repr_str m) else Inr destination))))
      (writable c)"
    by (rule guarded_bind [OF guarded_validate_write guarded_pure])
       (auto simp: patch_error_def res_bind_Inr_iff split: if_splits)
  then show ?thesis using Some by (simp add: strict_destination_def)
qed

lemma guarded_update: "guarded c (apply_strict_update_file operation c) (\<lambda>_. True)"
  unfolding apply_strict_update_file_def
proof (rule guarded_bind [OF guarded_validate_write], rule guarded_bind [OF guarded_destination])
  fix source destination assume s: "writable c source" and d: "writable c destination"
  then show "writable c source" by simp
  show "guarded c
     (fs_bind (read_text source) (\<lambda>original_text.
      fs_bind (fs_pure (\<lambda>f. strict_chunks_apply (sp_path operation) (splitlines original_text)
                 (ends_with_newline original_text) (sp_chunks operation))) (\<lambda>(current_lines, trailing_newline).
      fs_bind (mkdir_parents (path_parent destination)) (\<lambda>_.
      fs_bind (write_text destination (render_strict_text current_lines trailing_newline)) (\<lambda>_.
      fs_bind (if ctx_resolve c destination \<noteq> ctx_resolve c source then delete_file source
               else fs_return ()) (\<lambda>_.
        strict_report c destination ''modify'' (length (sp_chunks operation)))))))) (\<lambda>_. True)"
    using s d
    by (intro guarded_bind [OF guarded_read, where Q = "\<lambda>_. True"]
        guarded_bind [OF guarded_pure, where Q = "\<lambda>_. True"]) 
       (auto intro!: guarded_bind [OF files_within_mkdir] guarded_bind [OF files_within_write]
         guarded_bind [OF guarded_delete] guarded_report)
qed

lemma guarded_operation: "guarded c (apply_strict_operation operation c) (\<lambda>_. True)"
  unfolding apply_strict_operation_def
  by (intro fs_spec_if guarded_add guarded_delete_file guarded_update guarded_raise)

lemma guarded_operations: "guarded c (strict_operations_loop c ops n operations) (\<lambda>_. True)"
proof (induction operations arbitrary: ops n)
  case (Cons operation operations)
  then show ?case
    by (auto intro!: guarded_bind [OF guarded_operation] split: prod.splits)
qed (simp add: guarded_return)

lemma guarded_strict_patch: "guarded c (apply_strict_patch patch c) (\<lambda>_. True)"
  unfolding apply_strict_patch_def
  by (auto intro!: guarded_bind [OF guarded_pure, where Q = "\<lambda>_. True"]
      guarded_bind [OF guarded_operations] guarded_raise guarded_return)

lemma guarded_store: "writable c target \<Longrightarrow> guarded c (store_file_patch fp target ls n) (\<lambda>_. True)"
  unfolding store_file_patch_def
  by (auto intro!: fs_spec_if guarded_raise guarded_delete guarded_return files_within_write
      guarded_bind [OF files_within_mkdir] guarded_bind [where Q = "\<lambda>_. True"] files_within_mkdir)

lemma guarded_target: "resolve_patch_target c f fp = Inr p \<Longrightarrow> writable c p"
  unfolding resolve_patch_target_def Let_def by (erule writable_path_is_writable [rotated]) simp

lemma guarded_unified_file: "guarded c (unified_file c line rest) (\<lambda>_. True)"
  unfolding unified_file_def
  by (rule guarded_bind [OF guarded_pure, where Q = "\<lambda>_. True"], simp,
      rule guarded_bind [OF guarded_pure], erule guarded_target,
      rule guarded_bind [where Q = "\<lambda>_. True"])
     (auto intro!: fs_spec_if guarded_return guarded_store
        guarded_bind [OF guarded_read, where Q = "\<lambda>_. True"]
        guarded_bind [OF guarded_pure, where Q = "\<lambda>_. True"] guarded_bind [OF guarded_store])

lemma guarded_unified_loop: "guarded c (unified_loop c ops n ls) (\<lambda>_. True)"
proof (rule fs_specI)
  fix f r g assume "unified_loop c ops n ls f = (r, g)"
  then show "files_within (writable c) f g"
  proof (induction c ops n ls f arbitrary: r g rule: unified_loop.induct)
    case (2 c ops n line rest f)
    show ?case
    proof (cases "starts_with ''--- '' line")
      case False
      then show ?thesis using 2 by simp
    next
      case True
      obtain x h where one: "unified_file c line rest f = (x, h)" by (cases "unified_file c line rest f")
      have fh: "files_within (writable c) f h" using fs_specD(1) [OF guarded_unified_file one] .
      show ?thesis
      proof (cases x)
        case (Inl e)
        then show ?thesis using 2 True one fh by simp
      next
        case (Inr y)
        then have "files_within (writable c) h g"
          using "2.IH"(2) [of x h y "fst y" "snd y" r g] "2.prems" True one by (cases y) simp
        then show ?thesis using fh transpD [OF files_within_trans] by blast
      qed
    qed
  qed simp
qed simp

lemma guarded_unified: "guarded c (apply_unified_diff diff c) (\<lambda>_. True)"
  unfolding apply_unified_diff_def
  by (auto intro!: guarded_bind [OF guarded_unified_loop] guarded_raise guarded_return)

text \<open>C17: Whatever text the model sends as a patch and however it fails, a file whose content the
  patch tool creates, changes or deletes lies inside the resolved workspace root, has no protected
  directory on its path below the root, and is allowed by the task; every other file is as before.\<close>

theorem patch_changes_only_writable_files:
  "files_within (writable c) f (snd (apply_patch patch (Some c) f))"
proof -
  have "files_within (writable c) f (snd (snd (patch_attempt patch c f)))"
    using guarded_strict_patch [of c patch] guarded_unified [of c patch]
    by (auto simp: patch_attempt_def fs_spec_def split: prod.splits sum.splits) (metis snd_conv)+
  then show ?thesis by (auto simp: apply_patch_def Let_def split: prod.splits)
qed

subsection \<open>Where hunks and chunks land\<close>

lemma segment_matches_iff:
  "segment_matches fl i old \<longleftrightarrow> (\<exists>a b. fl = a @ old @ b \<and> int (length a) = i)"
proof
  assume m: "segment_matches fl i old"
  then have i: "0 \<le> i" "i + int (length old) \<le> int (length fl)"
    and eq: "take (length old) (drop (nat i) fl) = old"
    by (auto simp: segment_matches_def Let_def split: if_splits)
  have "fl = take (nat i) fl @ old @ drop (length old) (drop (nat i) fl)"
    by (metis append_take_drop_id eq)
  moreover have "int (length (take (nat i) fl)) = i" using i by simp
  ultimately show "\<exists>a b. fl = a @ old @ b \<and> int (length a) = i" by blast
qed (auto simp: segment_matches_def Let_def)

lemma segment_matches_range:
  "segment_matches fl i old \<Longrightarrow> 0 \<le> i \<and> i \<le> int (length fl) - int (length old)"
  by (auto simp: segment_matches_iff)

lemma splice_match: "splice (a @ old @ b) (length a) (length old) new = a @ new @ b"
  by (simp add: splice_def)

lemma distinct_set_singleton: "distinct xs \<Longrightarrow> set xs = {i} \<longleftrightarrow> xs = [i]"
  by (cases xs; cases "tl xs") auto

lemma filter_upto_unique:
  assumes "filter P [a..b] = xs"
  shows "length xs = 1 \<Longrightarrow> P (xs ! 0) \<and> (\<forall>j. a \<le> j \<and> j \<le> b \<and> P j \<longrightarrow> j = xs ! 0)"
    and "xs = [] \<Longrightarrow> a \<le> j \<Longrightarrow> j \<le> b \<Longrightarrow> \<not> P j"
proof -
  have mem: "set xs = {j. a \<le> j \<and> j \<le> b \<and> P j}" using assms by auto
  show "length xs = 1 \<Longrightarrow> P (xs ! 0) \<and> (\<forall>j. a \<le> j \<and> j \<le> b \<and> P j \<longrightarrow> j = xs ! 0)"
    using mem by (cases xs) auto
  show "xs = [] \<Longrightarrow> a \<le> j \<Longrightarrow> j \<le> b \<Longrightarrow> \<not> P j" using mem by auto
qed

text \<open>The place of a chunk is exact: the search succeeds with index \<open>i\<close> if and only if \<open>i\<close> is
  the one position at which the old lines occur in the file; no occurrence and several occurrences
  are both errors, whatever the chunk's change context says.\<close>

theorem find_unique_segment_position_exact:
  "find_unique_segment_position fl old path ctx = Inr i \<longleftrightarrow> {j. segment_matches fl j old} = {i}"
proof -
  let ?n = "int (length fl) - int (length old)"
  let ?xs = "filter (\<lambda>j. segment_matches fl j old) [0..?n]"
  have set_xs: "set ?xs = {j. segment_matches fl j old}" using segment_matches_range by auto
  have dist: "distinct ?xs" by simp
  show ?thesis
  proof (cases "?n < 0")
    case True
    then show ?thesis using set_xs
      by (auto simp: find_unique_segment_position_def patch_error_def Let_def)
  next
    case False
    then have "find_unique_segment_position fl old path ctx = Inr i \<longleftrightarrow> ?xs = [i]"
      by (cases ?xs) (auto simp: find_unique_segment_position_def patch_error_def Let_def)
    also have "\<dots> \<longleftrightarrow> set ?xs = {i}"
      using distinct_set_singleton [OF dist] by simp
    finally show ?thesis using set_xs by simp
  qed
qed

text \<open>The strictly nearest occurrence within the window of three lines.\<close>

definition nearest_occurrence :: "string list \<Rightarrow> string list \<Rightarrow> int \<Rightarrow> int \<Rightarrow> bool" where
  "nearest_occurrence fl old s i \<longleftrightarrow>
     segment_matches fl i old \<and> \<bar>i - s\<bar> \<le> hunk_fuzz_window \<and>
     (\<forall>j. segment_matches fl j old \<longrightarrow> j \<noteq> i \<longrightarrow> \<bar>i - s\<bar> < \<bar>j - s\<bar>)"

lemma strict_minimum_of_sort:
  fixes k :: "'a \<Rightarrow> 'b::linorder"
  assumes "distinct xs" "length xs > 1" "ys = sort_key k xs"
  shows "ys ! 0 = i \<and> k (ys ! 0) \<noteq> k (ys ! 1) \<longleftrightarrow>
     i \<in> set xs \<and> (\<forall>j\<in>set xs. j \<noteq> i \<longrightarrow> k i < k j)"
proof -
  have ys: "distinct ys" "set ys = set xs" "sorted (map k ys)" "length ys > 1"
    using assms by simp_all
  then obtain a b zs where cons: "ys = a # b # zs" by (cases ys; cases "tl ys") auto
  have first: "k a \<le> k b" "\<forall>j\<in>set zs. k b \<le> k j" using ys(3) cons by auto
  have "a = i \<and> k a \<noteq> k b \<longleftrightarrow> i \<in> set ys \<and> (\<forall>j\<in>set ys. j \<noteq> i \<longrightarrow> k i < k j)"
  proof (intro iffI conjI; (elim conjE)?)
    assume "a = i" "k a \<noteq> k b"
    then have "k i < k b" using first by simp
    then show "\<forall>j\<in>set ys. j \<noteq> i \<longrightarrow> k i < k j" using first cons \<open>a = i\<close> by auto
    show "i \<in> set ys" using \<open>a = i\<close> cons by simp
  next
    assume i: "i \<in> set ys" and least: "\<forall>j\<in>set ys. j \<noteq> i \<longrightarrow> k i < k j"
    have "k a \<le> k i" using i first cons by auto
    then show "a = i" using least cons by auto
    then have "k a < k b" using least cons ys(1) by auto
    then show "k a \<noteq> k b" by simp
  qed
  moreover have "ys ! 0 = a" "ys ! 1 = b" using cons by simp_all
  ultimately show ?thesis unfolding ys(2) by simp
qed

lemma find_hunk_position_nearest_occurrence:
  "find_hunk_position fl old s = Inr i \<longleftrightarrow> nearest_occurrence fl old s i"
proof (cases "segment_matches fl s old")
  case True
  then show ?thesis
    by (auto simp: find_hunk_position_def nearest_occurrence_def hunk_fuzz_window_def)
next
  case False
  define n where "n = int (length fl) - int (length old)"
  define k where "k = (\<lambda>j. \<bar>j - s\<bar>)"
  define xs where "xs = filter (\<lambda>j. segment_matches fl j old)
    [max 0 (s - hunk_fuzz_window)..min n (s + hunk_fuzz_window)]"
  have run: "find_hunk_position fl old s =
     (if n < 0 then patch_error ''Hunk context extends beyond end of file''
      else if xs = [] then patch_error (''Hunk context mismatch near line '' @ py_int_str (s + 1))
      else if length xs = 1 then Inr (xs ! 0)
      else if k (sort_key k xs ! 0) = k (sort_key k xs ! 1)
      then patch_error (''Ambiguous hunk location near line '' @ py_int_str (s + 1))
      else Inr (sort_key k xs ! 0))"
    unfolding find_hunk_position_def Let_def n_def xs_def k_def using False by (simp only: if_False)
  have set_xs: "set xs = {j. segment_matches fl j old \<and> k j \<le> hunk_fuzz_window}"
    using segment_matches_range by (auto simp: xs_def n_def k_def hunk_fuzz_window_def)
  have least: "nearest_occurrence fl old s i \<longleftrightarrow> i \<in> set xs \<and> (\<forall>j\<in>set xs. j \<noteq> i \<longrightarrow> k i < k j)"
    unfolding set_xs nearest_occurrence_def k_def by auto
  have dist: "distinct xs" by (simp add: xs_def)
  have small: "xs = []" if neg: "n < 0"
  proof -
    have "set xs = {}" using neg segment_matches_range unfolding set_xs n_def by fastforce
    then show ?thesis by simp
  qed
  show ?thesis
  proof (cases "length xs > 1")
    case True
    then have "\<not> n < 0" "xs \<noteq> []" "length xs \<noteq> 1" using small by auto
    then have "find_hunk_position fl old s = Inr i \<longleftrightarrow>
        sort_key k xs ! 0 = i \<and> k (sort_key k xs ! 0) \<noteq> k (sort_key k xs ! 1)"
      unfolding run by (simp add: patch_error_def)
    then show ?thesis using strict_minimum_of_sort [OF dist True refl, of k i] least by simp
  next
    case short: False
    show ?thesis
    proof (cases xs)
      case Nil
      then show ?thesis unfolding run least by (simp add: patch_error_def)
    next
      case (Cons x ys)
      then have one: "xs = [x]" using short by (cases ys) auto
      then have "\<not> n < 0" using small by auto
      then show ?thesis unfolding run least using one by auto
    qed
  qed
qed

text \<open>A hunk goes to the strictly nearest occurrence of its old lines, at most three lines from
  where its header and the hunks before it say; in every other case (no occurrence that near, or
  two of them equally near) the search fails.\<close>

theorem find_hunk_position_nearest:
  "find_hunk_position fl old s = Inr i \<longleftrightarrow> nearest_occurrence fl old s i"
  by (rule find_hunk_position_nearest_occurrence)

end
