(* ===== verification/Diff_Roundtrip.thy ===== *)
theory Diff_Roundtrip
  imports Patch_Properties
begin

section \<open>A unified diff turns the old file into the new one\<close>

text \<open>
  A unified diff as \<open>diff -u\<close> and \<open>git diff\<close> print it, and the theorem that applying it to the
  old text gives the new text.  The printer is the specification; the code under test is the
  parser and the applier of \<open>tools/patch_apply.py\<close>.  Two conditions are the limits of the code:
  every hunk has an old line (a hunk that only inserts lands one line early), and no removed line
  starts with \<open>--\<close> and a space (the code takes the printed line for a file header).
\<close>

subsection \<open>Edit scripts and their printed form\<close>

datatype edit = Keep string | Remove string | Insert string

fun edit_old :: "edit \<Rightarrow> string list" where
  "edit_old (Keep l) = [l]" | "edit_old (Remove l) = [l]" | "edit_old (Insert l) = []"

fun edit_new :: "edit \<Rightarrow> string list" where
  "edit_new (Keep l) = [l]" | "edit_new (Remove l) = []" | "edit_new (Insert l) = [l]"

fun edit_kind :: "edit \<Rightarrow> char" where
  "edit_kind (Keep l) = CHR '' ''" | "edit_kind (Remove l) = CHR ''-''"
| "edit_kind (Insert l) = CHR ''+''"

fun edit_text :: "edit \<Rightarrow> string" where
  "edit_text (Keep l) = l" | "edit_text (Remove l) = l" | "edit_text (Insert l) = l"

definition old_segment :: "edit list \<Rightarrow> string list" where
  "old_segment es = concat (map edit_old es)"

definition new_segment :: "edit list \<Rightarrow> string list" where
  "new_segment es = concat (map edit_new es)"

text \<open>A line without its newline is printed with one, and the marker behind it.\<close>

definition print_edit :: "edit \<Rightarrow> string list" where
  "print_edit e =
     (if ends_with_newline (edit_text e) then [edit_kind e # edit_text e]
      else [edit_kind e # edit_text e @ [LF], no_newline_text @ [LF]])"

definition print_header :: "nat \<Rightarrow> nat \<Rightarrow> nat \<Rightarrow> nat \<Rightarrow> string" where
  "print_header old_start old_count new_start new_count =
     ''@@ -'' @ nat_digits old_start @ '','' @ nat_digits old_count @ '' +''
     @ nat_digits new_start @ '','' @ nat_digits new_count @ '' @@'' @ [LF]"

text \<open>A hunk is the unchanged lines before it, which are not printed, and its edits.\<close>

type_synonym hunk = "string list \<times> edit list"

fun print_hunks :: "nat \<Rightarrow> nat \<Rightarrow> hunk list \<Rightarrow> string list" where
  "print_hunks i j [] = []"
| "print_hunks i j ((gap, es) # hs) =
     (let i' = i + length gap; j' = j + length gap;
          m = length (old_segment es); n = length (new_segment es)
      in print_header (i' + 1) m (j' + 1) n # concat (map print_edit es)
         @ print_hunks (i' + m) (j' + n) hs)"

definition old_lines :: "hunk list \<Rightarrow> string list \<Rightarrow> string list" where
  "old_lines hs rest = concat (map (\<lambda>(gap, es). gap @ old_segment es) hs) @ rest"

definition new_lines :: "hunk list \<Rightarrow> string list \<Rightarrow> string list" where
  "new_lines hs rest = concat (map (\<lambda>(gap, es). gap @ new_segment es) hs) @ rest"

definition print_diff :: "string \<Rightarrow> hunk list \<Rightarrow> string" where
  "print_diff path hs =
     concat ((''--- a/'' @ path @ [LF]) # (''+++ b/'' @ path @ [LF]) # print_hunks 0 0 hs)"

text \<open>Lines that hold no line break but the newline at their end, if they have one.\<close>

definition plain_line :: "string \<Rightarrow> bool" where
  "plain_line l = no_break (if ends_with_newline l then butlast l else l)"

definition edit_ok :: "edit \<Rightarrow> bool" where
  "edit_ok e \<longleftrightarrow> plain_line (edit_text e) \<and> \<not> starts_with ''--- '' (edit_kind e # edit_text e)"

definition hunk_ok :: "hunk \<Rightarrow> bool" where
  "hunk_ok h \<longleftrightarrow> old_segment (snd h) \<noteq> [] \<and> list_all edit_ok (snd h)"

text \<open>A path that a header can carry: no tab, no white space at its end, not the null device.\<close>

definition path_ok :: "string \<Rightarrow> bool" where
  "path_ok path \<longleftrightarrow> path \<noteq> [] \<and> \<not> py_space (last path) \<and> no_break path \<and> CHR 0x09 \<notin> set path
     \<and> path \<noteq> ''/dev/null''"

subsection \<open>Reading the printed hunk\<close>

lemma rstrip_newlines_append: "s = [] \<or> last s \<noteq> LF \<Longrightarrow> rstrip_newlines (s @ [LF]) = s"
  by (cases s rule: rev_cases) (auto simp: rstrip_newlines_def)

lemma rstrip_newlines_same: "s = [] \<or> last s \<noteq> LF \<Longrightarrow> rstrip_newlines s = s"
  by (cases s rule: rev_cases) (auto simp: rstrip_newlines_def)

lemma match_literal_append [simp]: "match_literal p (p @ s) = Some s"
  by (simp add: match_literal_def)

lemma match_range_pair:
  assumes "r = [] \<or> \<not> is_digit (hd r)"
  shows "match_range (nat_digits a @ '','' @ nat_digits b @ r) = Some (nat_digits a, Some (nat_digits b), r)"
proof -
  have "match_digits (nat_digits a @ '','' @ nat_digits b @ r) = Some (nat_digits a, '','' @ nat_digits b @ r)"
    by (rule match_digits_nat_digits) (simp add: is_digit_def)
  moreover have "match_digits (nat_digits b @ r) = Some (nat_digits b, r)"
    using assms by (rule match_digits_nat_digits)
  ultimately show ?thesis by (simp add: match_range_def)
qed

lemma hunk_header_print:
  "hunk_header (rstrip_newlines (print_header a m b n)) = Some (a, m, n)"
proof -
  let ?h = "''@@ -'' @ nat_digits a @ '','' @ nat_digits m @ '' +''
     @ nat_digits b @ '','' @ nat_digits n @ '' @@''"
  have "rstrip_newlines (?h @ [LF]) = ?h" by (rule rstrip_newlines_append) simp
  then have h: "rstrip_newlines (print_header a m b n) = ?h" by (simp add: print_header_def)
  have 1: "match_literal ''@@ -'' ?h = Some (nat_digits a @ '','' @ nat_digits m @ '' +''
     @ nat_digits b @ '','' @ nat_digits n @ '' @@'')" by (rule match_literal_append)
  have 2: "match_range (nat_digits a @ '','' @ nat_digits m @ '' +'' @ nat_digits b @ '','' @ nat_digits n @ '' @@'')
     = Some (nat_digits a, Some (nat_digits m), '' +'' @ nat_digits b @ '','' @ nat_digits n @ '' @@'')"
    by (rule match_range_pair) (simp add: is_digit_def)
  have 3: "match_literal '' +'' ('' +'' @ nat_digits b @ '','' @ nat_digits n @ '' @@'')
     = Some (nat_digits b @ '','' @ nat_digits n @ '' @@'')" by (rule match_literal_append)
  have 4: "match_range (nat_digits b @ '','' @ nat_digits n @ '' @@'')
     = Some (nat_digits b, Some (nat_digits n), '' @@'')"
    by (rule match_range_pair) (simp add: is_digit_def)
  have 5: "match_literal '' @@'' '' @@'' = Some ''''" by (simp add: match_literal_def starts_with_def)
  show ?thesis unfolding h hunk_header_def 1 Option.bind.bind_lunit prod.case 2 3 4 5
    by (simp add: digits_value_nat_digits count_value_def)
qed

text \<open>What reading one edit adds to the lines gathered so far.\<close>

definition gather :: "edit list \<Rightarrow> hunk_lines \<Rightarrow> hunk_lines" where
  "gather es h = h\<lparr>hl_old_segment := hl_old_segment h @ old_segment es,
     hl_new_segment := hl_new_segment h @ new_segment es,
     hl_consumed_old := hl_consumed_old h + length (old_segment es),
     hl_consumed_new := hl_consumed_new h + length (new_segment es),
     hl_last_kind := (if es = [] then hl_last_kind h else Some (edit_kind (last es)))\<rparr>"

lemma gather_Nil [simp]: "gather [] h = h"
  by (simp add: gather_def old_segment_def new_segment_def)

lemma gather_Cons: "gather (e # es) h = gather es (gather [e] h)"
  by (simp add: gather_def old_segment_def new_segment_def)

lemma hunk_loop_kind:
  assumes "\<not> starts_with ''--- '' (k # l)" "k \<in> set '' +-''"
  shows "hunk_loop h ((k # l) # R) = hunk_loop (take_hunk_line k l h) R"
  using assms by (auto simp: starts_with_def)

lemma hunk_loop_marker:
  "hunk_loop h ((no_newline_text @ [LF]) # R) = hunk_loop (no_newline_marker h) R"
proof -
  have "rstrip_newlines (no_newline_text @ [LF]) = no_newline_text"
    by (rule rstrip_newlines_append) (simp add: no_newline_text_def)
  moreover have "\<not> starts_with ''@@'' (no_newline_text @ [LF])" "\<not> starts_with ''--- '' (no_newline_text @ [LF])"
    "hd (no_newline_text @ [LF]) = CHR 0x5C" "no_newline_text \<noteq> []"
    by (simp_all add: no_newline_text_def starts_with_def)
  ultimately show ?thesis by simp
qed

lemma strip_last_append:
  "\<not> ends_with_newline l \<Longrightarrow> strip_last (xs @ [l @ [LF]]) = xs @ [l]"
  using rstrip_newlines_append [of l] by (auto simp: strip_last_def ends_with_newline_def)

lemma starts_with_longer: "starts_with p (s @ t) \<Longrightarrow> length p \<le> length s \<Longrightarrow> starts_with p s"
  by (simp add: starts_with_def)

lemma hunk_loop_edit:
  assumes "edit_ok e"
  shows "hunk_loop h (print_edit e @ R) = hunk_loop (gather [e] h) R"
proof (cases "ends_with_newline (edit_text e)")
  case True
  have "hunk_loop h ((edit_kind e # edit_text e) # R) = hunk_loop (take_hunk_line (edit_kind e) (edit_text e) h) R"
    using assms by (intro hunk_loop_kind) (cases e; simp add: edit_ok_def)+
  moreover have "take_hunk_line (edit_kind e) (edit_text e) h = gather [e] h"
    by (cases e) (simp_all add: take_hunk_line_def gather_def old_segment_def new_segment_def)
  ultimately show ?thesis using True by (simp add: print_edit_def del: hunk_loop.simps)
next
  case False
  have "\<not> starts_with ''--- '' (edit_kind e # edit_text e @ [LF])"
  proof
    assume st: "starts_with ''--- '' (edit_kind e # edit_text e @ [LF])"
    then have "starts_with ''--- '' (edit_kind e # edit_text e)"
      by (cases "edit_text e" rule: rev_cases) (auto simp: starts_with_def take_Cons' split: if_splits)
    then show False using assms by (simp add: edit_ok_def)
  qed
  then have "hunk_loop h ((edit_kind e # edit_text e @ [LF]) # (no_newline_text @ [LF]) # R)
      = hunk_loop (no_newline_marker (take_hunk_line (edit_kind e) (edit_text e @ [LF]) h)) R"
    by (subst hunk_loop_kind) (cases e; simp add: hunk_loop_marker del: hunk_loop.simps)+
  moreover have "no_newline_marker (take_hunk_line (edit_kind e) (edit_text e @ [LF]) h) = gather [e] h"
    using False by (cases e) (simp_all add: take_hunk_line_def no_newline_marker_def gather_def
        old_segment_def new_segment_def strip_last_append)
  ultimately show ?thesis using False by (simp add: print_edit_def del: hunk_loop.simps)
qed

definition hunk_stop :: "string list \<Rightarrow> bool" where
  "hunk_stop R \<longleftrightarrow> (R = [] \<or> starts_with ''@@'' (hd R) \<or> starts_with ''--- '' (hd R))"

lemma hunk_loop_stop: "hunk_stop R \<Longrightarrow> hunk_loop h R = Inr (h, R)"
  by (cases R) (auto simp: hunk_stop_def)

lemma hunk_loop_edits:
  "list_all edit_ok es \<Longrightarrow> hunk_stop R \<Longrightarrow>
   hunk_loop h (concat (map print_edit es) @ R) = Inr (gather es h, R)"
proof (induction es arbitrary: h)
  case (Cons e es)
  then show ?case using hunk_loop_edit [of e h "concat (map print_edit es) @ R"]
    by (simp add: gather_Cons [of e es] del: hunk_loop.simps)
qed (simp add: hunk_loop_stop del: hunk_loop.simps)

lemma find_exact:
  "find_hunk_position (P @ old @ S) old (int (length P)) = Inr (int (length P))"
  by (auto simp: find_hunk_position_def segment_matches_iff)

text \<open>One printed hunk, applied where the hunks before it have left its old lines.\<close>

lemma apply_hunk_print:
  assumes ok: "list_all edit_ok es" "old_segment es \<noteq> []" and stop: "hunk_stop R"
    and off: "off = int (length P) - int i"
  shows "apply_hunk (print_header (i + 1) (length (old_segment es)) b (length (new_segment es)))
           (concat (map print_edit es) @ R) (P @ old_segment es @ S) off
       = Inr (P @ new_segment es @ S, R,
           off + (int (length (new_segment es)) - int (length (old_segment es))))"
proof -
  have loop: "hunk_loop empty_hunk (concat (map print_edit es) @ R) = Inr (gather es empty_hunk, R)"
    using ok(1) stop by (rule hunk_loop_edits)
  have at: "max 0 (int (i + 1) - 1 + off) = int (length P)" using off by simp
  show ?thesis
    unfolding apply_hunk_def Let_def hunk_header_print option.case prod.case loop res_bind_simps at
    using ok(2) find_exact [of P "old_segment es" S]
    by (simp add: gather_def empty_hunk_def splice_match)
qed

lemma print_hunks_stop: "hunk_stop R \<Longrightarrow> hunk_stop (print_hunks i j hs @ R)"
  by (cases "(i, j, hs)" rule: print_hunks.cases)
     (auto simp: hunk_stop_def print_header_def starts_with_def Let_def)

lemma hunks_loop_print:
  assumes "list_all hunk_ok hs" "hunk_stop R" "R = [] \<or> \<not> starts_with ''@@'' (hd R)"
    and "off = int (length P) - int i"
  shows "hunks_loop (P @ old_lines hs rest) off k (print_hunks i (length P) hs @ R)
       = Inr (P @ new_lines hs rest, R, k + length hs)"
  using assms
proof (induction hs arbitrary: P i off k)
  case Nil
  then show ?case by (cases R) (auto simp: old_lines_def new_lines_def)
next
  case (Cons h hs)
  obtain gap es where h: "h = (gap, es)" by (cases h)
  have ok: "list_all edit_ok es" "old_segment es \<noteq> []" "list_all hunk_ok hs"
    using Cons.prems(1) h by (auto simp: hunk_ok_def [of "(gap, es)"])
  let ?o = "old_segment es" and ?n = "new_segment es"
  let ?R = "print_hunks (i + length gap + length ?o) (length P + length gap + length ?n) hs @ R"
  have lines: "P @ old_lines (h # hs) rest = (P @ gap) @ ?o @ old_lines hs rest"
    by (simp add: old_lines_def h)
  have off: "off = int (length (P @ gap)) - int (i + length gap)" using Cons.prems by simp
  have one: "apply_hunk (print_header (i + length gap + 1) (length ?o) (length P + length gap + 1) (length ?n))
       (concat (map print_edit es) @ ?R) ((P @ gap) @ ?o @ old_lines hs rest) off
     = Inr ((P @ gap) @ ?n @ old_lines hs rest, ?R, off + (int (length ?n) - int (length ?o)))"
    by (rule apply_hunk_print [OF ok(1,2) print_hunks_stop [OF Cons.prems(2)] off])
  have head: "starts_with ''@@'' (print_header a m b n)" for a m b n
    by (simp add: print_header_def starts_with_def)
  have "hunks_loop (P @ old_lines (h # hs) rest) off k (print_hunks i (length P) (h # hs) @ R)
      = hunks_loop ((P @ gap @ ?n) @ old_lines hs rest) (off + (int (length ?n) - int (length ?o))) (k + 1) ?R"
    using one unfolding lines by (simp add: h Let_def head)
  also have "\<dots> = Inr ((P @ gap @ ?n) @ new_lines hs rest, R, k + 1 + length hs)"
    using Cons.IH [OF ok(3) Cons.prems(2,3), where P = "P @ gap @ ?n" and i = "i + length gap + length ?o"
        and off = "off + (int (length ?n) - int (length ?o))" and k = "k + 1"] Cons.prems(4)
    by (simp add: add.assoc)
  finally show ?case by (simp add: h new_lines_def)
qed

subsection \<open>Reading the printed text\<close>

definition newline_line :: "string \<Rightarrow> bool" where
  "newline_line l \<longleftrightarrow> (\<exists>b. l = b @ [LF] \<and> no_break b)"

lemma splitlines_keep_concat: "list_all newline_line ls \<Longrightarrow> splitlines_keep (concat ls) = ls"
  by (induction ls) (auto simp: newline_line_def splitlines_keep_newline)

lemma newline_line_print_edit: "edit_ok e \<Longrightarrow> list_all newline_line (print_edit e)"
proof -
  have k: "\<not> line_break (edit_kind e)" by (cases e) (simp_all add: line_break_def)
  have m: "no_break no_newline_text" by (simp add: no_newline_text_def line_break_def)
  assume "edit_ok e"
  then have p: "plain_line (edit_text e)" by (simp add: edit_ok_def)
  show ?thesis
  proof (cases "ends_with_newline (edit_text e)")
    case True
    then have "edit_text e = butlast (edit_text e) @ [LF]" "no_break (butlast (edit_text e))"
      using p by (auto simp: ends_with_newline_def plain_line_def) (metis append_butlast_last_id)
    then show ?thesis using True k
      by (auto simp: print_edit_def newline_line_def intro!: exI [of _ "edit_kind e # butlast (edit_text e)"])
  next
    case False
    then show ?thesis using p k m
      by (auto simp: print_edit_def newline_line_def plain_line_def intro!: exI [of _ "edit_kind e # edit_text e"])
  qed
qed

lemma newline_line_header: "newline_line (print_header a m b n)"
  unfolding newline_line_def print_header_def
  by (rule exI [of _ "''@@ -'' @ nat_digits a @ '','' @ nat_digits m @ '' +''
       @ nat_digits b @ '','' @ nat_digits n @ '' @@''"]) (simp add: line_break_def)

lemma newline_line_print_hunks: "list_all hunk_ok hs \<Longrightarrow> list_all newline_line (print_hunks i j hs)"
proof (induction i j hs rule: print_hunks.induct)
  case (2 i j gap es hs)
  then have "list_all edit_ok es" by (simp add: hunk_ok_def)
  then have "list_all newline_line (concat (map print_edit es))"
    by (induction es) (auto simp: newline_line_print_edit)
  then show ?case using 2 by (simp add: Let_def newline_line_header)
qed simp

lemma py_strip_path:
  assumes "s \<noteq> []" "\<not> py_space (hd s)" "\<not> py_space (last s)"
  shows "py_strip s = s"
proof -
  have "py_lstrip s = s" using assms by (cases s) (simp_all add: py_lstrip_def)
  moreover have "py_rstrip s = s" using assms by (cases s rule: rev_cases) (simp_all add: py_rstrip_def)
  ultimately show ?thesis by (simp add: py_strip_def)
qed

lemma extract_path_print:
  assumes "path_ok path" "k = ''---'' \<or> k = ''+++''" "d = CHR ''a'' \<or> d = CHR ''b''"
  shows "extract_path (k @ '' '' @ d # ''/'' @ path) = Some path"
proof -
  let ?p = "d # ''/'' @ path"
  have p: "path \<noteq> []" "\<not> py_space (last path)" "CHR 0x09 \<notin> set path" using assms(1) by (auto simp: path_ok_def)
  have d: "\<not> py_space d" "d \<noteq> CHR 0x09" using assms(3) by (auto simp: py_space_def)
  have k: "list_all (\<lambda>c. \<not> py_space c) k" "k \<noteq> []" using assms(2) by (auto simp: py_space_def)
  have "second_field (k @ '' '' @ ?p) = Some ?p"
    using assms(2) d by (auto simp: second_field_def py_lstrip_def py_space_def)
  moreover have "takeWhile (\<lambda>c. c \<noteq> CHR 0x09) ?p = ?p"
    using p(3) d(2) by (auto simp: takeWhile_eq_all_conv)
  moreover have "py_strip ?p = ?p" using p d by (intro py_strip_path) auto
  ultimately show ?thesis using assms(3) by (auto simp: extract_path_def starts_with_def)
qed

subsection \<open>The round trip\<close>

lemma newline_line_path_header:
  "path_ok path \<Longrightarrow> no_break p \<Longrightarrow> newline_line (p @ path @ [LF])"
  unfolding newline_line_def by (rule exI [of _ "p @ path"]) (simp add: path_ok_def)

lemma header_pair_print:
  assumes "path_ok path"
  shows "header_pair (''--- a/'' @ path @ [LF]) ((''+++ b/'' @ path @ [LF]) # R) =
    Inr \<lparr>fp_operation = ''modify'', fp_old_path = Some path, fp_new_path = Some path,
      fp_target_path = path\<rparr>"
proof -
  have last: "last (p @ path) \<noteq> LF" for p
    using assms by (auto simp: path_ok_def py_space_def last_append)
  have strip: "rstrip_newlines (''--- a/'' @ path @ [LF]) = ''--- a/'' @ path"
    "rstrip_newlines (''+++ b/'' @ path @ [LF]) = ''+++ b/'' @ path"
    using rstrip_newlines_append [of "''--- a/'' @ path"] rstrip_newlines_append [of "''+++ b/'' @ path"]
      last [of "''--- a/''"] last [of "''+++ b/''"] by simp_all
  have "extract_path (''--- a/'' @ path) = Some path" "extract_path (''+++ b/'' @ path) = Some path"
    using extract_path_print [OF assms, of "''---''" "CHR ''a''"]
      extract_path_print [OF assms, of "''+++''" "CHR ''b''"] by simp_all
  moreover have "path \<noteq> ''/dev/null''" using assms by (simp add: path_ok_def)
  ultimately show ?thesis
    unfolding header_pair_def Let_def list.sel strip parse_file_headers_def
    by (simp add: starts_with_def)
qed

text \<open>The check that the tool runs on the target of a modification.\<close>

definition modify_target :: "ToolContext \<Rightarrow> fs \<Rightarrow> string \<Rightarrow> py_exn + path" where
  "modify_target c f path =
     resolve_patch_target c f \<lparr>fp_operation = ''modify'', fp_old_path = Some path,
       fp_new_path = Some path, fp_target_path = path\<rparr>"

lemma unified_file_print:
  assumes path: "path_ok path" and hs: "list_all hunk_ok hs" "hs \<noteq> []"
    and target: "modify_target c f path = Inr p"
    and content: "f p = Some (File t)" "CR \<notin> set t" "splitlines_keep t = old_lines hs rest"
    and rel: "relative_to p (ctx_workspace_root c) = Some r"
  shows "unified_file c (''--- a/'' @ path @ [LF]) ((''+++ b/'' @ path @ [LF]) # print_hunks 0 0 hs) f =
    (Inr (\<lparr>af_path = posix_str r, af_operation = ''modify'', af_hunks_applied = length hs\<rparr>, []),
     f(p \<mapsto> File (concat (new_lines hs rest))))"
proof -
  have loop: "hunks_loop (splitlines_keep t) 0 0 (print_hunks 0 0 hs) = Inr (new_lines hs rest, [], length hs)"
    using hunks_loop_print [OF hs(1), of "[]" 0 "[]" 0 rest 0] content(3) by (simp add: hunk_stop_def)
  have read: "read_text p f = (Inr t, f)"
    using content by (simp add: read_text_def universal_newlines_no_CR)
  have store: "store_file_patch \<lparr>fp_operation = ''modify'', fp_old_path = Some path,
       fp_new_path = Some path, fp_target_path = path\<rparr> p (new_lines hs rest) (length hs) f =
     (Inr (), f(p \<mapsto> File (concat (new_lines hs rest))))"
    using hs(2) content(1) by (simp add: store_file_patch_def write_text_def)
  show ?thesis
    using target header_pair_print [OF path] rel
    unfolding unified_file_def modify_target_def
    by (simp add: fs_pure_def fs_bind_def fs_return_def read loop store workspace_relative_path_def)
qed

text \<open>C18: Take a file without carriage returns and a unified diff of it with at least one hunk, where every hunk has an
  unchanged or removed line, no line holds a line break but the newline at its end, no line of the
  diff looks like a file header (a removed line that starts with two dashes and a space), and the path can be
  written in a header and modified under the policy.  Applying the diff to the file that holds the old
  lines succeeds and leaves the new ones, for any number of hunks with any lines between them, with or
  without a newline at the end; no other file changes, and the report names the file and counts its
  hunks.  Without them it can fail or insert at another place, as
  \<open>Strict_Roundtrip\<close> shows.\<close>

theorem unified_diff_roundtrip:
  assumes "path_ok path" and "list_all hunk_ok hs" and "hs \<noteq> []"
    and "modify_target c f path = Inr p"
    and "f p = Some (File t)" and "CR \<notin> set t" and "splitlines_keep t = old_lines hs rest"
    and "relative_to p (ctx_workspace_root c) = Some r"
  shows "apply_unified_diff (print_diff path hs) c f =
    (Inr ([\<lparr>af_path = posix_str r, af_operation = ''modify'', af_hunks_applied = length hs\<rparr>], length hs),
     f(p \<mapsto> File (concat (new_lines hs rest))))"
proof -
  have "list_all newline_line
      ((''--- a/'' @ path @ [LF]) # (''+++ b/'' @ path @ [LF]) # print_hunks 0 0 hs)"
    using assms newline_line_print_hunks [OF assms(2)] newline_line_path_header [OF assms(1), of "''--- a/''"]
      newline_line_path_header [OF assms(1), of "''+++ b/''"] by (simp add: line_break_def)
  then have lines: "splitlines_keep (print_diff path hs) =
      (''--- a/'' @ path @ [LF]) # (''+++ b/'' @ path @ [LF]) # print_hunks 0 0 hs"
    unfolding print_diff_def by (rule splitlines_keep_concat)
  have "starts_with ''--- '' (''--- a/'' @ path @ [LF])" by (simp add: starts_with_def)
  then have "unified_loop c [] 0 (splitlines_keep (print_diff path hs)) f =
     (Inr ([\<lparr>af_path = posix_str r, af_operation = ''modify'', af_hunks_applied = length hs\<rparr>], length hs),
      f(p \<mapsto> File (concat (new_lines hs rest))))"
    unfolding lines using unified_file_print [OF assms] by simp
  then show ?thesis
    unfolding apply_unified_diff_def by (simp add: fs_bind_def fs_return_def)
qed

text \<open>A file of three lines without a newline at its end, in a workspace on a machine without links.\<close>

definition example_context :: ToolContext where
  "example_context = \<lparr>ctx_workspace_root = [''/'', ''w''], ctx_task = None,
     ctx_os = plain_os normalize_parts\<rparr>"

definition example_fs :: fs where
  "example_fs = [[''/''] \<mapsto> Dir, [''/'', ''w''] \<mapsto> Dir,
     [''/'', ''w'', ''a.txt''] \<mapsto> File (''one'' @ LF # ''two'' @ LF # ''three'')]"

definition example_hunks :: "hunk list" where
  "example_hunks = [([''one'' @ [LF]], [Remove (''two'' @ [LF]), Insert (''2'' @ [LF]), Keep ''three''])]"

lemma unified_diff_roundtrip_witness:
  "apply_unified_diff (print_diff ''a.txt'' example_hunks) example_context example_fs =
    (Inr ([\<lparr>af_path = posix_str [''a.txt''], af_operation = ''modify'', af_hunks_applied = length example_hunks\<rparr>],
       length example_hunks),
     example_fs([''/'', ''w'', ''a.txt''] \<mapsto> File (concat (new_lines example_hunks []))))"
  by (rule unified_diff_roundtrip [where t = "''one'' @ LF # ''two'' @ LF # ''three''"]; code_simp)

end
