(* ===== verification/Strict_Roundtrip.thy ===== *)
theory Strict_Roundtrip
  imports Diff_Roundtrip
begin

section \<open>Freeform patches: parsing, failing half way, and the limits of the code\<close>

text \<open>
  A printer for freeform patches and the round trip of the parser; what a patch leaves behind when
  one of its operations fails; and the cases in which the code does not do what the format says.
\<close>

subsection \<open>Printing a freeform patch\<close>

definition print_chunk :: "StrictPatchChunk \<Rightarrow> string list" where
  "print_chunk ch =
     (case ch_change_context ch of None \<Rightarrow> ''@@'' | Some x \<Rightarrow> ''@@ '' @ x)
     # map (\<lambda>l. CHR ''-'' # l) (ch_old_lines ch) @ map (\<lambda>l. CHR ''+'' # l) (ch_new_lines ch)
     @ (if ch_is_end_of_file ch then [STRICT_END_OF_FILE] else [])"

definition print_operation :: "StrictPatchOperation \<Rightarrow> string list" where
  "print_operation op' =
     (if sp_operation op' = ''add'' then
        (STRICT_ADD_FILE_PREFIX @ sp_path op') # map (\<lambda>l. CHR ''+'' # l) (sp_add_lines op')
      else if sp_operation op' = ''delete'' then [STRICT_DELETE_FILE_PREFIX @ sp_path op']
      else (STRICT_UPDATE_FILE_PREFIX @ sp_path op')
        # (case sp_move_path op' of None \<Rightarrow> [] | Some m \<Rightarrow> [STRICT_MOVE_TO_PREFIX @ m])
        @ concat (map print_chunk (sp_chunks op')))"

definition print_strict :: "StrictPatchOperation list \<Rightarrow> string" where
  "print_strict ops =
     join_lines (STRICT_PATCH_BEGIN # concat (map print_operation ops) @ [STRICT_PATCH_END])"

definition chunk_ok :: "StrictPatchChunk \<Rightarrow> bool" where
  "chunk_ok ch \<longleftrightarrow> list_all no_break (ch_old_lines ch) \<and> list_all no_break (ch_new_lines ch)
     \<and> (case ch_change_context ch of None \<Rightarrow> True | Some x \<Rightarrow> no_break x)
     \<and> (ch_old_lines ch \<noteq> [] \<or> ch_new_lines ch \<noteq> [] \<or> ch_is_end_of_file ch)"

text \<open>The operations the parser can return: the fields that do not belong to one are empty.\<close>

definition operation_ok :: "StrictPatchOperation \<Rightarrow> bool" where
  "operation_ok op' \<longleftrightarrow> no_break (sp_path op') \<and>
     (if sp_operation op' = ''add'' then
        sp_add_lines op' \<noteq> [] \<and> list_all no_break (sp_add_lines op') \<and>
        sp_move_path op' = None \<and> sp_chunks op' = []
      else if sp_operation op' = ''delete'' then
        sp_add_lines op' = [] \<and> sp_move_path op' = None \<and> sp_chunks op' = []
      else sp_operation op' = ''update'' \<and> sp_add_lines op' = [] \<and>
        (sp_chunks op' \<noteq> [] \<or> sp_move_path op' \<noteq> None) \<and>
        (case sp_move_path op' of None \<Rightarrow> True | Some m \<Rightarrow> no_break m) \<and>
        list_all chunk_ok (sp_chunks op'))"

subsection \<open>Parsing it back\<close>

lemma after_prefix_append [simp]: "after_prefix p (p @ s) = s"
  by (simp add: after_prefix_def)

lemma starts_with_prefix: "starts_with p (q @ s) \<longleftrightarrow> (if length p \<le> length q then starts_with p q
    else starts_with q p \<and> starts_with (drop (length q) p) s)"
  by (auto simp: starts_with_def min_def take_append) (metis append_eq_conv_conj append_take_drop_id)+

definition stop_line :: "string list \<Rightarrow> bool" where
  "stop_line R \<longleftrightarrow> R \<noteq> [] \<and> starts_with ''*** '' (hd R)"

lemma strict_add_lines_print:
  "stop_line R \<Longrightarrow> strict_add_lines p (map (\<lambda>l. CHR ''+'' # l) ls @ R) = Inr ls"
proof (induction ls)
  case Nil
  then show ?case by (cases R) (auto simp: stop_line_def)
qed (simp add: starts_with_def)

lemma advance_strict_add_print:
  "stop_line R \<Longrightarrow> advance_strict_add (map (\<lambda>l. CHR ''+'' # l) ls @ R) = R"
proof (induction ls)
  case Nil
  then show ?case by (cases R) (auto simp: stop_line_def advance_strict_add_def)
qed (simp add: starts_with_def advance_strict_add_def)

text \<open>The lines after which a chunk ends: the next chunk's header or a directive.\<close>

definition chunk_stop :: "string list \<Rightarrow> bool" where
  "chunk_stop R \<longleftrightarrow> R \<noteq> [] \<and> hd R \<noteq> STRICT_END_OF_FILE \<and>
     (starts_with ''@@'' (hd R) \<or> starts_with ''*** '' (hd R))"

lemma chunk_loop_stop: "chunk_stop R \<Longrightarrow> strict_chunk_loop p ch saw R = Inr (ch, saw, R)"
  by (cases R) (auto simp: chunk_stop_def)

lemma chunk_loop_new:
  "strict_chunk_loop p ch saw (map (\<lambda>l. CHR ''+'' # l) ls @ R) =
   strict_chunk_loop p (ch\<lparr>ch_new_lines := ch_new_lines ch @ ls\<rparr>) (saw \<or> ls \<noteq> []) R"
  by (induction ls arbitrary: ch saw) (simp_all add: starts_with_def)

lemma chunk_loop_old:
  "strict_chunk_loop p ch saw (map (\<lambda>l. CHR ''-'' # l) ls @ R) =
   strict_chunk_loop p (ch\<lparr>ch_old_lines := ch_old_lines ch @ ls\<rparr>) (saw \<or> ls \<noteq> []) R"
  by (induction ls arbitrary: ch saw) (simp_all add: starts_with_def)

lemma parse_chunk_print:
  assumes "chunk_ok ch" "chunk_stop R"
  shows "parse_strict_update_chunk p (print_chunk ch @ R) = Inr (ch, R)"
proof -
  let ?h = "case ch_change_context ch of None \<Rightarrow> ''@@'' | Some x \<Rightarrow> ''@@ '' @ x"
  let ?new = "map (\<lambda>l. CHR ''+'' # l) (ch_new_lines ch)"
  let ?eof = "if ch_is_end_of_file ch then [STRICT_END_OF_FILE] else []"
  have header: "strict_chunk_header (?h # L) = Inr (ch_change_context ch, L)" for L
    by (auto simp: strict_chunk_header_def starts_with_def split: option.splits)
  have tail: "strict_chunk_loop p c saw (?eof @ R) =
      Inr (if ch_is_end_of_file ch then c\<lparr>ch_is_end_of_file := True\<rparr> else c, saw, R)" for c saw
    using assms(2) by (simp add: chunk_loop_stop del: strict_chunk_loop.simps(2))
       (simp add: strict_chunk_loop.simps(2))
  have "strict_chunk_loop p \<lparr>ch_change_context = ch_change_context ch, ch_old_lines = [],
       ch_new_lines = [], ch_is_end_of_file = False\<rparr> False
       (map (\<lambda>l. CHR ''-'' # l) (ch_old_lines ch) @ ?new @ ?eof @ R)
     = Inr (ch, ch_old_lines ch \<noteq> [] \<or> ch_new_lines ch \<noteq> [], R)"
    unfolding chunk_loop_old chunk_loop_new tail by (cases ch) auto
  then show ?thesis
    using assms(1) header unfolding parse_strict_update_chunk_def print_chunk_def
    by (auto simp: chunk_ok_def)
qed

lemma print_chunk_stop: "chunk_stop (print_chunk ch @ R)"
  by (auto simp: chunk_stop_def print_chunk_def starts_with_def split: option.splits)

lemma chunks_stop:
  assumes "stop_line R" "hd R \<noteq> STRICT_END_OF_FILE"
  shows "chunk_stop (concat (map print_chunk chs) @ R)"
proof (cases chs)
  case Nil
  then show ?thesis using assms by (simp add: chunk_stop_def stop_line_def)
next
  case (Cons ch chs')
  then show ?thesis using print_chunk_stop [of ch "concat (map print_chunk chs') @ R"] by simp
qed

lemma strict_chunks_print:
  assumes "list_all chunk_ok chs" "stop_line R" "hd R \<noteq> STRICT_END_OF_FILE"
  shows "strict_chunks p (concat (map print_chunk chs) @ R) = Inr (chs, R)"
  using assms(1)
proof (induction chs)
  case Nil
  then show ?case using assms(2) by (cases R) (auto simp: stop_line_def)
next
  case (Cons ch chs)
  let ?R = "concat (map print_chunk chs) @ R"
  have chunk: "parse_strict_update_chunk p (print_chunk ch @ ?R) = Inr (ch, ?R)"
    using Cons.prems chunks_stop [OF assms(2,3)] by (intro parse_chunk_print) simp_all
  obtain h body where pc: "print_chunk ch = h # body" "\<not> starts_with ''*** '' h"
    by (auto simp: print_chunk_def starts_with_def split: option.splits)
  have "strict_chunks p (concat (map print_chunk (ch # chs)) @ R) = strict_chunks p (h # body @ ?R)"
    using pc(1) by simp
  also have "\<dots> = res_bind (parse_strict_update_chunk p (print_chunk ch @ ?R)) (\<lambda>(ch, rest').
      res_bind (strict_chunks p rest') (\<lambda>(chs, rest''). Inr (ch # chs, rest'')))"
    using pc by simp
  also have "\<dots> = Inr (ch # chs, R)" using Cons unfolding chunk by simp
  finally show ?case .
qed

lemma print_chunks_no_move:
  "stop_line R \<Longrightarrow> chs \<noteq> [] \<Longrightarrow> strict_move (concat (map print_chunk chs) @ R) = (None, concat (map print_chunk chs) @ R)"
  by (cases chs) (auto simp: strict_move_def print_chunk_def starts_with_def split: option.splits)

lemma parse_update_print:
  assumes "operation_ok op'" "sp_operation op' = ''update''" "stop_line R" "hd R \<noteq> STRICT_END_OF_FILE"
  shows "parse_strict_update_operation (STRICT_UPDATE_FILE_PREFIX @ sp_path op')
      ((case sp_move_path op' of None \<Rightarrow> [] | Some m \<Rightarrow> [STRICT_MOVE_TO_PREFIX @ m])
       @ concat (map print_chunk (sp_chunks op')) @ R) = Inr (op', R)"
proof -
  let ?C = "concat (map print_chunk (sp_chunks op')) @ R"
  have ok: "list_all chunk_ok (sp_chunks op')" "sp_add_lines op' = []"
    "sp_chunks op' \<noteq> [] \<or> sp_move_path op' \<noteq> None"
    using assms(1,2) by (auto simp: operation_ok_def)
  have "strict_move ((case sp_move_path op' of None \<Rightarrow> [] | Some m \<Rightarrow> [STRICT_MOVE_TO_PREFIX @ m]) @ ?C)
      = (sp_move_path op', ?C)"
  proof (cases "sp_move_path op'")
    case None
    then show ?thesis using ok(3) print_chunks_no_move [OF assms(3)] by simp
  qed (simp add: strict_move_def starts_with_def after_prefix_def)
  then show ?thesis
    using strict_chunks_print [OF ok(1) assms(3,4)] ok assms(2)
    by (cases op') (auto simp: parse_strict_update_operation_def after_prefix_def)
qed

lemma operation_ok_kind:
  "operation_ok op' \<Longrightarrow> sp_operation op' \<noteq> ''add'' \<Longrightarrow> sp_operation op' \<noteq> ''delete'' \<Longrightarrow>
   sp_operation op' = ''update''"
  by (simp add: operation_ok_def)

lemma parse_loop_print_operation:
  assumes "operation_ok op'" "stop_line R" "hd R \<noteq> STRICT_END_OF_FILE"
  shows "parse_strict_loop ops (print_operation op' @ R) = parse_strict_loop (ops @ [op']) R"
proof -
  consider (add) "sp_operation op' = ''add''" | (delete) "sp_operation op' = ''delete''"
    | (update) "sp_operation op' = ''update''"
    using operation_ok_kind [OF assms(1)] by blast
  then show ?thesis
  proof cases
    case add
    then have "parse_strict_add_operation (STRICT_ADD_FILE_PREFIX @ sp_path op')
        (map (\<lambda>l. CHR ''+'' # l) (sp_add_lines op') @ R) = Inr op'"
      using assms strict_add_lines_print [OF assms(2)]
      by (cases op') (simp add: parse_strict_add_operation_def Let_def operation_ok_def after_prefix_def)
    then show ?thesis using add advance_strict_add_print [OF assms(2)]
      by (simp add: print_operation_def starts_with_def)
  next
    case delete
    then have "op' = \<lparr>sp_operation = ''delete'', sp_path = sp_path op', sp_move_path = None,
        sp_add_lines = [], sp_chunks = []\<rparr>"
      using assms(1) by (cases op') (simp add: operation_ok_def)
    then show ?thesis using delete by (simp add: print_operation_def starts_with_def after_prefix_def)
  next
    case update
    then show ?thesis using parse_update_print [OF assms(1) update assms(2,3)]
      by (simp add: print_operation_def starts_with_def)
  qed
qed

lemma print_operation_stop: "stop_line (print_operation op' @ R) \<and> hd (print_operation op' @ R) \<noteq> STRICT_END_OF_FILE"
  by (simp add: print_operation_def stop_line_def starts_with_def)

lemma parse_loop_print:
  "list_all operation_ok ops' \<Longrightarrow> ops @ ops' \<noteq> [] \<Longrightarrow>
   parse_strict_loop ops (concat (map print_operation ops') @ [STRICT_PATCH_END]) = Inr (ops @ ops')"
proof (induction ops' arbitrary: ops)
  case (Cons op' ops')
  let ?R = "concat (map print_operation ops') @ [STRICT_PATCH_END]"
  have "stop_line ?R \<and> hd ?R \<noteq> STRICT_END_OF_FILE"
    using print_operation_stop [of "hd ops'" "concat (map print_operation (tl ops')) @ [STRICT_PATCH_END]"]
    by (cases ops') (simp_all add: stop_line_def starts_with_def)
  then show ?case using parse_loop_print_operation [of op' ?R ops] Cons by simp
qed simp

lemma no_break_print_operation:
  "operation_ok op' \<Longrightarrow> list_all no_break (print_operation op')"
proof -
  have dash: "list_all no_break ls \<Longrightarrow> list_all no_break (map (\<lambda>l. CHR ''-'' # l) ls)"
    and plus: "list_all no_break ls \<Longrightarrow> list_all no_break (map (\<lambda>l. CHR ''+'' # l) ls)" for ls
    by (simp_all add: list_all_iff line_break_def)
  have chunk: "chunk_ok ch \<Longrightarrow> list_all no_break (print_chunk ch)" for ch
    by (auto simp: chunk_ok_def print_chunk_def dash plus line_break_def split: option.splits)
  have chunks: "list_all chunk_ok chs \<Longrightarrow> list_all no_break (concat (map print_chunk chs))" for chs
    by (induction chs) (simp_all add: chunk)
  show "operation_ok op' \<Longrightarrow> list_all no_break (print_operation op')"
    by (auto simp: operation_ok_def print_operation_def plus chunks line_break_def
        split: if_splits option.splits)
qed

text \<open>C19: Parsing a printed freeform patch gives its operations back: paths, moves, contexts, the old
  and new lines of every chunk and the end-of-file marks.\<close>

theorem strict_patch_roundtrip:
  assumes "list_all operation_ok ops" and "ops \<noteq> []"
  shows "parse_strict_patch (print_strict ops) = Inr ops"
proof -
  let ?L = "concat (map print_operation ops) @ [STRICT_PATCH_END]"
  have "list_all no_break (concat (map print_operation ops))"
    using assms(1) by (induction ops) (simp_all add: no_break_print_operation)
  then have "list_all no_break (STRICT_PATCH_BEGIN # ?L)" by (simp add: line_break_def)
  then have lines: "splitlines (print_strict ops) = STRICT_PATCH_BEGIN # ?L"
    unfolding print_strict_def by (rule splitlines_join_lines)
  have "\<not> starts_with STRICT_ENVIRONMENT_PREFIX (hd ?L)"
    using assms by (cases ops) (auto simp: print_operation_def starts_with_def)
  then show ?thesis
    using parse_loop_print [OF assms(1), of "[]"] assms(2)
    unfolding parse_strict_patch_def Let_def lines by simp
qed

definition example_operations :: "StrictPatchOperation list" where
  "example_operations =
     [\<lparr>sp_operation = ''add'', sp_path = ''b.txt'', sp_move_path = None, sp_add_lines = [''x'', ''''],
       sp_chunks = []\<rparr>,
      \<lparr>sp_operation = ''update'', sp_path = ''a.txt'', sp_move_path = Some ''c.txt'', sp_add_lines = [],
       sp_chunks = [\<lparr>ch_change_context = Some ''def f'', ch_old_lines = [''two''],
         ch_new_lines = [''2'', ''3''], ch_is_end_of_file = False\<rparr>]\<rparr>]"

lemma strict_patch_roundtrip_witness:
  "parse_strict_patch (print_strict example_operations) = Inr example_operations"
  by (rule strict_patch_roundtrip) code_simp+

subsection \<open>A patch that fails half way\<close>

lemma strict_operations_append:
  "strict_operations_loop c ops n (xs @ ys) =
   fs_bind (strict_operations_loop c ops n xs) (\<lambda>(ops', n'). strict_operations_loop c ops' n' ys)"
proof (induction xs arbitrary: ops n)
  case (Cons x xs)
  show ?case
    by (simp add: fs_bind_assoc Cons.IH case_prod_unfold)
qed simp

text \<open>A freeform patch is not atomic: when an operation fails, the patch fails with that
  operation's error, and the files are as the operations before it left them and the failing one
  left those.\<close>

theorem failed_operation_keeps_earlier_ones:
  assumes "parse_strict_patch patch = Inr (earlier @ operation # later)"
    and "strict_operations_loop c [] 0 earlier f = (Inr (ops, n), g)"
    and "apply_strict_operation operation c g = (Inl e, h)"
  shows "apply_strict_patch patch c f = (Inl e, h)"
  unfolding apply_strict_patch_def
  by (simp add: fs_bind_def fs_pure_def assms strict_operations_append)

definition example_failing_patch :: string where
  "example_failing_patch = print_strict
     [\<lparr>sp_operation = ''add'', sp_path = ''b.txt'', sp_move_path = None, sp_add_lines = [''x''], sp_chunks = []\<rparr>,
      \<lparr>sp_operation = ''delete'', sp_path = ''gone.txt'', sp_move_path = None, sp_add_lines = [], sp_chunks = []\<rparr>]"

lemma failed_operation_keeps_earlier_ones_witness:
  "fst (apply_strict_patch example_failing_patch example_context example_fs)
     = Inl (PathPolicyError ''Path does not exist: gone.txt'' ''not_found'' [])
   \<and> snd (apply_strict_patch example_failing_patch example_context example_fs) [''/'', ''w'', ''b.txt'']
     = Some (File (''x'' @ [LF]))"
proof -
  let ?a = "\<lparr>sp_operation = ''add'', sp_path = ''b.txt'', sp_move_path = None, sp_add_lines = [''x''], sp_chunks = []\<rparr>"
  let ?d = "\<lparr>sp_operation = ''delete'', sp_path = ''gone.txt'', sp_move_path = None, sp_add_lines = [], sp_chunks = []\<rparr>"
  obtain r g where add: "strict_operations_loop example_context [] 0 [?a] example_fs = (r, g)"
    by (cases "strict_operations_loop example_context [] 0 [?a] example_fs")
  have "fst (strict_operations_loop example_context [] 0 [?a] example_fs) =
      Inr ([\<lparr>af_path = ''b.txt'', af_operation = ''create'', af_hunks_applied = 1\<rparr>], 1)"
    by code_simp
  then have r: "r = Inr ([\<lparr>af_path = ''b.txt'', af_operation = ''create'', af_hunks_applied = 1\<rparr>], 1)"
    by (simp add: add del: strict_operations_loop.simps)
  have "snd (strict_operations_loop example_context [] 0 [?a] example_fs) [''/'', ''w'', ''b.txt'']
      = Some (File (''x'' @ [LF]))
    \<and> snd (strict_operations_loop example_context [] 0 [?a] example_fs) [''/'', ''w'', ''gone.txt''] = None"
    by code_simp
  then have g: "g [''/'', ''w'', ''b.txt''] = Some (File (''x'' @ [LF]))" "g [''/'', ''w'', ''gone.txt''] = None"
    by (simp_all add: add del: strict_operations_loop.simps)
  have resolve: "normalize_parts (path_join (normalize_parts [''/'', ''w'']) ''gone.txt'') = [''/'', ''w'', ''gone.txt'']"
    "relative_to [''/'', ''w'', ''gone.txt''] (normalize_parts [''/'', ''w'']) = Some [''gone.txt'']"
    "\<not> path_is_absolute ''gone.txt''" "\<not> attempts_workspace_escape ''gone.txt''"
    by code_simp+
  have delete: "apply_strict_operation ?d example_context g =
      (Inl (PathPolicyError ''Path does not exist: gone.txt'' ''not_found'' []), g)"
    by (simp add: apply_strict_operation_def apply_strict_delete_file_def validate_write_def fs_bind_def
        fs_pure_def resolve_and_validate_writable_path_def resolve_and_validate_path_def Let_def
        example_context_def default_checks_def resolve path_exists_def g policy_error_def)
  have parse: "parse_strict_patch example_failing_patch = Inr ([?a] @ ?d # [])" by code_simp
  have "apply_strict_patch example_failing_patch example_context example_fs =
      (Inl (PathPolicyError ''Path does not exist: gone.txt'' ''not_found'' []), g)"
    by (rule failed_operation_keeps_earlier_ones [OF parse _ delete]) (simp add: add r del: strict_operations_loop.simps)
  then show ?thesis using g by simp
qed

subsection \<open>Limits of the code\<close>

text \<open>
  A hunk without old lines, printed as \<open>diff\<close> prints it: the start in the old file is the line
  after which the new lines go.  The code inserts them before that line.
\<close>

lemma insertion_hunk_lands_early:
  assumes "list_all edit_ok (map Insert ls)" "hunk_stop R" "0 < n" "n \<le> length fl"
  shows "apply_hunk (print_header n 0 b (length ls)) (concat (map print_edit (map Insert ls)) @ R) fl 0
     = Inr (take (n - 1) fl @ ls @ drop (n - 1) fl, R, int (length ls))"
proof -
  have seg: "old_segment (map Insert ls) = []" "new_segment (map Insert ls) = ls"
    by (induction ls) (simp_all add: old_segment_def new_segment_def)
  have loop: "hunk_loop empty_hunk (concat (map print_edit (map Insert ls)) @ R) =
      Inr (gather (map Insert ls) empty_hunk, R)"
    using assms(1,2) by (rule hunk_loop_edits)
  have g: "hl_old_segment (gather (map Insert ls) empty_hunk) = []"
    "hl_new_segment (gather (map Insert ls) empty_hunk) = ls"
    "hl_consumed_old (gather (map Insert ls) empty_hunk) = 0"
    "hl_consumed_new (gather (map Insert ls) empty_hunk) = length ls"
    by (simp_all add: gather_def seg empty_hunk_def)
  have at: "max 0 (int n - 1 + 0) = int (n - 1)" and nat: "nat (int n - 1) = n - 1"
    using assms(3) by auto
  show ?thesis
    unfolding apply_hunk_def Let_def hunk_header_print option.case prod.case loop res_bind_simps g at
    using assms(3,4) by (simp add: splice_def nat)
qed

text \<open>A removed line that starts with two dashes and a space ends the hunk.\<close>

lemma removed_dashes_end_hunk:
  "hunk_loop h ((CHR ''-'' # ''-- '' @ x) # R) = Inr (h, (CHR ''-'' # ''-- '' @ x) # R)"
  by (simp add: starts_with_def)

text \<open>
  The file is read with newline translation and the patch is not: an old line with a carriage
  return, as in the diff of a file with CR LF line ends, is never found.
\<close>

lemma crlf_hunk_never_found:
  assumes "read_text p f = (Inr t, g)" "l \<in> set old" "CR \<in> set l"
  shows "find_hunk_position (splitlines_keep t) old s \<noteq> Inr i"
proof
  assume "find_hunk_position (splitlines_keep t) old s = Inr i"
  then have "segment_matches (splitlines_keep t) i old"
    by (simp only: find_hunk_position_nearest_occurrence nearest_occurrence_def)
  then have "l \<in> set (splitlines_keep t)" using assms(2) by (auto simp: segment_matches_iff)
  then have "CR \<in> set t" using assms(3) splitlines_keep_mem by blast
  moreover have "CR \<notin> set t"
    using assms(1) by (auto simp: read_text_def split: option.splits fs_entry.splits)
  ultimately show False by simp
qed

text \<open>A patch that creates a file replaces one that is there.\<close>

lemma create_replaces_existing_file:
  "snd (apply_unified_diff (concat [''--- /dev/null'' @ [LF], ''+++ b/a.txt'' @ [LF],
       ''@@ -0,0 +1,1 @@'' @ [LF], ''+x'' @ [LF]]) example_context example_fs) [''/'', ''w'', ''a.txt'']
   = Some (File (''x'' @ [LF]))"
  by code_simp

text \<open>An update that leaves a line with a form feed alone still turns the form feed into a newline.\<close>

lemma update_splits_at_form_feed:
  "map_sum id (\<lambda>(ls, eol). render_strict_text ls eol) (strict_chunks_apply ''a.txt''
       (splitlines (''one'' @ CHR 0x0C # ''two'' @ LF # ''three'' @ [LF])) True
       [\<lparr>ch_change_context = None, ch_old_lines = [''three''], ch_new_lines = [''3''],
         ch_is_end_of_file = False\<rparr>])
   = Inr (''one'' @ LF # ''two'' @ LF # ''3'' @ [LF])"
  by code_simp

text \<open>An end-of-file mark drops the newline at the end of the file wherever its chunk was found.\<close>

lemma end_of_file_mark_drops_newline:
  "strict_chunks_apply ''a.txt'' [''one'', ''two''] True
       [\<lparr>ch_change_context = None, ch_old_lines = [''one''], ch_new_lines = [''1''],
         ch_is_end_of_file = True\<rparr>]
   = Inr ([''1'', ''two''], False)"
  by code_simp

end
