(* ===== verification/Tool_Spec.thy ===== *)
theory Tool_Spec
  imports Trajectory_Schema Text_Lines
begin

section \<open>Tool specifications\<close>

text \<open>
  \<open>tools/spec.py\<close> and \<open>tools/registry.py\<close>: the canonical tools, the views a model sees of them,
  the adapters between the two, and the validation of arguments against the subset of JSON schema
  the tools use.  A schema is a JSON object.  Where a schema does not have the shape the validator
  reads (a property schema that is not an object, \<open>required\<close> that is not a list of texts,
  \<open>enum\<close> that is not a list) Python raises some other exception or reads it in another way; the
  model then stops with \<open>MalformedSchema\<close> and says nothing more.
\<close>

datatype spec_error =
    ToolArgumentError string
  | ValidationErr string
  | TypeErr
  | MalformedSchema

definition argument_error :: "string \<Rightarrow> spec_error + 'a" where
  "argument_error message = Inl (ToolArgumentError message)"

subsection \<open>Schema validation\<close>

definition dict_get :: "pydict \<Rightarrow> string \<Rightarrow> json" where
  "dict_get schema key = (case map_of schema key of None \<Rightarrow> JNull | Some v \<Rightarrow> v)"

text \<open>The names of the required entries, the property schemas, and whether others are refused.\<close>

definition required_keys :: "pydict \<Rightarrow> spec_error + string list" where
  "required_keys schema =
     (case map_of schema ''required'' of
        None \<Rightarrow> Inr []
      | Some (JList ks) \<Rightarrow>
          if list_all (\<lambda>k. case k of JStr _ \<Rightarrow> True | _ \<Rightarrow> False) ks
          then Inr (map (\<lambda>k. case k of JStr s \<Rightarrow> s | _ \<Rightarrow> '''') ks)
          else Inl MalformedSchema
      | Some _ \<Rightarrow> Inl MalformedSchema)"

definition property_schemas :: "pydict \<Rightarrow> spec_error + pydict" where
  "property_schemas schema =
     (case map_of schema ''properties'' of
        None \<Rightarrow> Inr [] | Some (JObj ps) \<Rightarrow> Inr ps | Some _ \<Rightarrow> Inl MalformedSchema)"

definition closed_object :: "pydict \<Rightarrow> bool" where
  "closed_object schema \<longleftrightarrow> map_of schema ''additionalProperties'' = Some (JBool False)"

definition violation :: "string \<Rightarrow> string \<Rightarrow> string \<Rightarrow> spec_error + 'a" where
  "violation schema_name path what =
     argument_error (schema_name @ '' schema violation at '' @ path @ '': '' @ what)"

definition missing_key :: "string list \<Rightarrow> pydict \<Rightarrow> string option" where
  "missing_key required entries = List.find (\<lambda>k. map_of entries k = None) required"

text \<open>The scalar types; a type name the validator does not know accepts every value.\<close>

definition scalar_type_ok :: "string \<Rightarrow> json \<Rightarrow> bool" where
  "scalar_type_ok t v =
     (if t = ''string'' then (case v of JStr _ \<Rightarrow> True | _ \<Rightarrow> False)
      else if t = ''integer'' then (case v of JInt _ \<Rightarrow> True | _ \<Rightarrow> False)
      else if t = ''number'' then (case v of JInt _ \<Rightarrow> True | JFloat _ _ \<Rightarrow> True | _ \<Rightarrow> False)
      else if t = ''boolean'' then (case v of JBool _ \<Rightarrow> True | _ \<Rightarrow> False)
      else if t = ''null'' then v = JNull
      else True)"

definition check_scalar :: "string \<Rightarrow> string \<Rightarrow> json \<Rightarrow> pydict \<Rightarrow> string \<Rightarrow> spec_error + unit" where
  "check_scalar schema_name t v schema path =
     (if \<not> scalar_type_ok t v then violation schema_name path (''expected '' @ t)
      else case dict_get schema ''enum'' of
             JNull \<Rightarrow> Inr ()
           | JList vs \<Rightarrow>
               if py_in v vs then Inr ()
               else violation schema_name path (''expected one of '' @ py_repr (JList vs))
           | _ \<Rightarrow> Inl MalformedSchema)"

text \<open>What the validator does with a field: a schema for it, none, or an error.\<close>

definition field_schema ::
  "string \<Rightarrow> pydict \<Rightarrow> bool \<Rightarrow> string \<Rightarrow> string \<Rightarrow> spec_error + pydict option" where
  "field_schema n properties strict key path =
     (case map_of properties key of
        Some (JObj s) \<Rightarrow> Inr (Some s)
      | Some _ \<Rightarrow> Inl MalformedSchema
      | None \<Rightarrow>
          if strict then violation n path (''unexpected field '' @ CHR 0x27 # key @ [CHR 0x27])
          else Inr None)"

text \<open>
  The two structured types: the fields of an object that has all its required ones, with the
  property schemas; the items of an array with their schema, if there is one.
\<close>

definition object_plan ::
  "string \<Rightarrow> json \<Rightarrow> pydict \<Rightarrow> string \<Rightarrow> spec_error + pydict \<times> pydict" where
  "object_plan n v schema path =
     (case v of
        JObj entries \<Rightarrow>
          res_bind (required_keys schema) (\<lambda>required.
            case missing_key required entries of
              Some key \<Rightarrow> violation n path (''missing required field '' @ CHR 0x27 # key @ [CHR 0x27])
            | None \<Rightarrow>
                if entries = [] then Inr ([], [])
                else res_bind (property_schemas schema) (\<lambda>properties. Inr (entries, properties)))
      | _ \<Rightarrow> violation n path ''expected object'')"

definition array_plan ::
  "string \<Rightarrow> json \<Rightarrow> pydict \<Rightarrow> string \<Rightarrow> spec_error + json list \<times> pydict" where
  "array_plan n v schema path =
     (case v of
        JList items \<Rightarrow>
          (case dict_get schema ''items'' of
             JNull \<Rightarrow> Inr ([], [])
           | JObj item_schema \<Rightarrow> Inr (items, item_schema)
           | _ \<Rightarrow> if items = [] then Inr ([], []) else Inl MalformedSchema)
      | _ \<Rightarrow> violation n path ''expected array'')"

text \<open>Sizes of the parts of a value, for the recursion of the validator.\<close>

abbreviation fields_size :: "pydict \<Rightarrow> nat" where
  "fields_size kvs \<equiv> size_list (size_prod (\<lambda>_. 0) size) kvs"

lemma object_plan_size: "object_plan n v schema path = Inr (entries, ps) \<Longrightarrow> fields_size entries < size v"
  by (auto simp: object_plan_def violation_def argument_error_def res_bind_Inr_iff
      split: json.splits option.splits if_splits)

lemma array_plan_size: "array_plan n v schema path = Inr (items, s) \<Longrightarrow> size_list size items < size v"
  by (auto simp: array_plan_def violation_def argument_error_def split: json.splits if_splits)

text \<open>
  \<open>_validate_against_schema\<close>, with the type it goes by as an argument: the type of the schema, or
  the candidate that replaces it in the loop over a list of types.
\<close>

function validate_type ::
  "string \<Rightarrow> json \<Rightarrow> json \<Rightarrow> pydict \<Rightarrow> string \<Rightarrow> spec_error + unit"
and validate_candidates ::
  "string \<Rightarrow> json list \<Rightarrow> spec_error option \<Rightarrow> json \<Rightarrow> pydict \<Rightarrow> string \<Rightarrow> spec_error + unit"
and validate_fields ::
  "string \<Rightarrow> pydict \<Rightarrow> bool \<Rightarrow> pydict \<Rightarrow> string \<Rightarrow> spec_error + unit"
and validate_items ::
  "string \<Rightarrow> nat \<Rightarrow> json list \<Rightarrow> pydict \<Rightarrow> string \<Rightarrow> spec_error + unit"
where
  "validate_type n t v schema path =
     (case t of
        JNull \<Rightarrow> Inr ()
      | JList ts \<Rightarrow> validate_candidates n ts None v schema path
      | JStr name \<Rightarrow>
          if name = ''object'' then
            (case object_plan n v schema path of
               Inl e \<Rightarrow> Inl e
             | Inr (entries, properties) \<Rightarrow>
                 validate_fields n properties (closed_object schema) entries path)
          else if name = ''array'' then
            (case array_plan n v schema path of
               Inl e \<Rightarrow> Inl e
             | Inr (items, item_schema) \<Rightarrow> validate_items n 0 items item_schema path)
          else check_scalar n name v schema path
      | _ \<Rightarrow> check_scalar n [] v schema path)"
| "validate_candidates n [] last_error v schema path =
     (case last_error of None \<Rightarrow> Inr () | Some e \<Rightarrow> Inl e)"
| "validate_candidates n (t # ts) last_error v schema path =
     (case validate_type n t v (AList.update ''type'' t schema) path of
        Inr u \<Rightarrow> Inr u
      | Inl (ToolArgumentError m) \<Rightarrow>
          validate_candidates n ts (Some (ToolArgumentError m)) v schema path
      | Inl e \<Rightarrow> Inl e)"
| "validate_fields n properties strict [] path = Inr ()"
| "validate_fields n properties strict ((key, child) # entries) path =
     (case field_schema n properties strict key path of
        Inl e \<Rightarrow> Inl e
      | Inr None \<Rightarrow> validate_fields n properties strict entries path
      | Inr (Some s) \<Rightarrow>
          (case validate_type n (dict_get s ''type'') child s (path @ ''.'' @ key) of
             Inl e \<Rightarrow> Inl e
           | Inr _ \<Rightarrow> validate_fields n properties strict entries path))"
| "validate_items n i [] s path = Inr ()"
| "validate_items n i (item # items) s path =
     (case validate_type n (dict_get s ''type'') item s (path @ ''['' @ nat_digits i @ '']'') of
        Inl e \<Rightarrow> Inl e
      | Inr _ \<Rightarrow> validate_items n (Suc i) items s path)"
  by pat_completeness auto
termination
  by (relation "measures [
        case_sum (case_sum (\<lambda>(n, t, v, s, p). size v) (\<lambda>(n, ts, e, v, s, p). size v))
                 (case_sum (\<lambda>(n, ps, b, es, p). fields_size es) (\<lambda>(n, i, items, s, p). size_list size items)),
        case_sum (case_sum (\<lambda>(n, t, v, s, p). size t) (\<lambda>(n, ts, e, v, s, p). size_list size ts)) (\<lambda>_. 0)]")
     (auto dest: object_plan_size array_plan_size)

text \<open>\<open>validate_json_schema\<close>.\<close>

definition validate_json_schema :: "json \<Rightarrow> pydict \<Rightarrow> string \<Rightarrow> spec_error + unit" where
  "validate_json_schema v schema schema_name =
     validate_type schema_name (dict_get schema ''type'') v schema ''$''"

definition validate_optional :: "json \<Rightarrow> pydict option \<Rightarrow> string \<Rightarrow> spec_error + unit" where
  "validate_optional v schema schema_name =
     (case schema of None \<Rightarrow> Inr () | Some s \<Rightarrow> validate_json_schema v s schema_name)"

subsection \<open>Nested arguments\<close>

text \<open>
  \<open>_get_nested\<close> gives \<open>None\<close> both for a path that is not there and for a value that is \<open>None\<close>.
  \<open>_set_nested\<close> makes the objects on the way; a value on the way that is not an object is a
  \<open>TypeError\<close>, whatever it is.
\<close>

definition dotted_keys :: "string \<Rightarrow> string list" where
  "dotted_keys dotted_key = py_split (CHR ''.'') dotted_key"

fun get_keys :: "json \<Rightarrow> string list \<Rightarrow> json" where
  "get_keys current [] = current"
| "get_keys current (key # keys) =
     (case current of
        JObj d \<Rightarrow> (case map_of d key of None \<Rightarrow> JNull | Some v \<Rightarrow> get_keys v keys)
      | _ \<Rightarrow> JNull)"

definition get_nested :: "pydict \<Rightarrow> string \<Rightarrow> json" where
  "get_nested obj dotted_key = get_keys (JObj obj) (dotted_keys dotted_key)"

fun set_keys :: "json \<Rightarrow> string list \<Rightarrow> json \<Rightarrow> spec_error + json" where
  "set_keys current [] v = Inl TypeErr"
| "set_keys current [key] v =
     (case current of JObj d \<Rightarrow> Inr (JObj (AList.update key v d)) | _ \<Rightarrow> Inl TypeErr)"
| "set_keys current (key # k # keys) v =
     (case current of
        JObj d \<Rightarrow>
          res_bind (set_keys (case map_of d key of None \<Rightarrow> JObj [] | Some c \<Rightarrow> c) (k # keys) v)
            (\<lambda>c. Inr (JObj (AList.update key c d)))
      | _ \<Rightarrow> Inl TypeErr)"

definition set_nested :: "pydict \<Rightarrow> string \<Rightarrow> json \<Rightarrow> spec_error + pydict" where
  "set_nested obj dotted_key v =
     res_bind (set_keys (JObj obj) (dotted_keys dotted_key) v)
       (\<lambda>j. case j of JObj d \<Rightarrow> Inr d | _ \<Rightarrow> Inl TypeErr)"

fun copy_nested :: "json \<Rightarrow> json" where
  "copy_nested (JObj d) = JObj (map (\<lambda>(k, v). (k, copy_nested v)) d)"
| "copy_nested (JList vs) = JList (map copy_nested vs)"
| "copy_nested v = v"

fun iter_leaf_paths :: "json \<Rightarrow> string \<Rightarrow> string list" where
  "iter_leaf_paths (JObj d) prefix =
     concat (map (\<lambda>(key, child). iter_leaf_paths child
       (if prefix \<noteq> [] then prefix @ ''.'' @ key else key)) d)"
| "iter_leaf_paths v prefix = (if prefix \<noteq> [] then [prefix] else [])"

definition invert_step ::
  "spec_error + (string \<times> string) list \<Rightarrow> string \<times> string \<Rightarrow> spec_error + (string \<times> string) list" where
  "invert_step acc m =
     (case m of (exposed_key, canonical_key) \<Rightarrow>
        res_bind acc (\<lambda>inv.
          case map_of inv canonical_key of
            Some existing \<Rightarrow>
              if existing \<noteq> exposed_key
              then argument_error (''Adapter has ambiguous reverse mappings for canonical field ''
                     @ py_repr_str canonical_key @ '': '' @ py_repr_str existing @ '', ''
                     @ py_repr_str exposed_key)
              else Inr (AList.update canonical_key exposed_key inv)
          | None \<Rightarrow> Inr (AList.update canonical_key exposed_key inv)))"

definition invert_mapping :: "(string \<times> string) list \<Rightarrow> spec_error + (string \<times> string) list" where
  "invert_mapping mapping = foldl invert_step (Inr []) mapping"

subsection \<open>Adapters\<close>

record ToolAdapter =
  ta_exposed_to_canonical :: "(string \<times> string) list"
  ta_defaults :: pydict

definition empty_adapter :: ToolAdapter where
  "empty_adapter = \<lparr>ta_exposed_to_canonical = [], ta_defaults = []\<rparr>"

text \<open>Moving every value that is there along a mapping, into what has been built so far.\<close>

definition project_step ::
  "pydict \<Rightarrow> spec_error + pydict \<Rightarrow> string \<times> string \<Rightarrow> spec_error + pydict" where
  "project_step source acc m =
     (case m of (source_key, target_key) \<Rightarrow>
        res_bind acc (\<lambda>target.
          let value = get_nested source source_key
          in if value \<noteq> JNull then set_nested target target_key value else Inr target))"

definition default_step :: "spec_error + pydict \<Rightarrow> string \<times> json \<Rightarrow> spec_error + pydict" where
  "default_step acc d =
     (case d of (key, value) \<Rightarrow>
        res_bind acc (\<lambda>target.
          if get_nested target key = JNull then set_nested target key value else Inr target))"

definition unmapped_leaf_paths :: "pydict \<Rightarrow> (string \<times> string) list \<Rightarrow> string list" where
  "unmapped_leaf_paths args mapping =
     sort (filter (\<lambda>p. map_of mapping p = None) (iter_leaf_paths (JObj args) ''''))"

definition copy_dict :: "pydict \<Rightarrow> pydict" where
  "copy_dict d = map (\<lambda>(k, v). (k, copy_nested v)) d"

definition map_arguments ::
  "ToolAdapter \<Rightarrow> pydict \<Rightarrow> pydict option \<Rightarrow> pydict option \<Rightarrow> spec_error + pydict" where
  "map_arguments a exposed_args exposed_schema canonical_schema =
     res_bind (validate_optional (JObj exposed_args) exposed_schema ''exposed'') (\<lambda>_.
     res_bind
       (let mapping = ta_exposed_to_canonical a
        in if mapping = [] then Inr (copy_dict exposed_args)
           else
             let unmapped = unmapped_leaf_paths exposed_args mapping
             in if unmapped \<noteq> []
                then argument_error (''Adapter is missing mappings for exposed fields: ''
                       @ py_join '', '' unmapped)
                else foldl (project_step exposed_args) (Inr []) mapping) (\<lambda>mapped.
     res_bind (foldl default_step (Inr mapped) (ta_defaults a)) (\<lambda>canonical.
     res_bind (validate_optional (JObj canonical) canonical_schema ''canonical'') (\<lambda>_.
       Inr canonical))))"

definition to_exposed_args ::
  "ToolAdapter \<Rightarrow> pydict \<Rightarrow> pydict option \<Rightarrow> pydict option \<Rightarrow> spec_error + pydict" where
  "to_exposed_args a canonical_args exposed_schema canonical_schema =
     res_bind (validate_optional (JObj canonical_args) canonical_schema ''canonical'') (\<lambda>_.
     res_bind
       (if ta_exposed_to_canonical a = [] then Inr (copy_dict canonical_args)
        else res_bind (invert_mapping (ta_exposed_to_canonical a)) (\<lambda>mapping.
          let unmapped = unmapped_leaf_paths canonical_args mapping
          in if unmapped \<noteq> []
             then argument_error (''Adapter is missing reverse mappings for canonical fields: ''
                    @ py_join '', '' unmapped)
             else foldl (project_step (copy_dict canonical_args)) (Inr []) mapping)) (\<lambda>exposed.
     res_bind (validate_optional (JObj exposed) exposed_schema ''exposed'') (\<lambda>_.
       Inr exposed)))"

subsection \<open>Tools, views and profiles\<close>

text \<open>A canonical tool without its handler, which the runtime adds.\<close>

record CanonicalTool =
  cn_canonical_name :: string
  cn_description :: string
  cn_canonical_schema :: pydict
  cn_contract_kind :: ToolContractKind
  cn_input_format :: "pydict option"
  cn_version :: string
  cn_metadata :: pydict

record ToolView =
  tv_canonical_name :: string
  tv_exposed_name :: string
  tv_description :: string
  tv_input_schema :: pydict
  tv_contract_kind :: ToolContractKind
  tv_input_format :: "pydict option"
  tv_version :: string
  tv_metadata :: pydict

record ToolProfile =
  tp_profile_id :: string
  tp_tools :: "ToolView list"
  tp_adapters :: "(string \<times> ToolAdapter) list"
  tp_metadata :: pydict

datatype payload = Arguments pydict | InputText string

definition adapter_for :: "ToolProfile \<Rightarrow> string \<Rightarrow> ToolAdapter" where
  "adapter_for p exposed_name =
     (case map_of (tp_adapters p) exposed_name of None \<Rightarrow> empty_adapter | Some a \<Rightarrow> a)"

definition get_tool :: "ToolProfile \<Rightarrow> string \<Rightarrow> (ToolView \<times> ToolAdapter) option" where
  "get_tool p exposed_name =
     map_option (\<lambda>tv. (tv, adapter_for p (tv_exposed_name tv)))
       (List.find (\<lambda>tv. tv_exposed_name tv = exposed_name) (tp_tools p))"

definition view_to_exposed_spec :: "ToolView \<Rightarrow> pydict" where
  "view_to_exposed_spec v =
     [(''name'', JStr (tv_exposed_name v)), (''description'', JStr (tv_description v))]
     @ (if tv_contract_kind v = FREEFORM then
          (''kind'', JStr (ToolContractKind_value (tv_contract_kind v)))
          # (case tv_input_format v of None \<Rightarrow> [] | Some f \<Rightarrow> [(''input_format'', JObj f)])
        else [(''input_schema'', JObj (tv_input_schema v))])"

definition get_exposed_specs :: "ToolProfile \<Rightarrow> pydict list" where
  "get_exposed_specs p = map view_to_exposed_spec (tp_tools p)"

definition get_tool_versions :: "ToolProfile \<Rightarrow> (string \<times> (string \<times> string) list) list" where
  "get_tool_versions p =
     fold (\<lambda>tv d. AList.update (tv_exposed_name tv)
       [(''canonical_name'', tv_canonical_name tv), (''version'', tv_version tv)] d) (tp_tools p) []"

definition canonical_kind_is :: "('a CanonicalTool_scheme) option \<Rightarrow> ToolContractKind \<Rightarrow> bool" where
  "canonical_kind_is t k = (case t of None \<Rightarrow> True | Some c \<Rightarrow> cn_contract_kind c = k)"

definition canonical_name_of :: "('a CanonicalTool_scheme) option \<Rightarrow> string" where
  "canonical_name_of t = (case t of None \<Rightarrow> '''' | Some c \<Rightarrow> cn_canonical_name c)"

text \<open>\<open>exposed_args or {}\<close>.\<close>

definition args_or_empty :: "pydict option \<Rightarrow> pydict" where
  "args_or_empty a = (case a of None \<Rightarrow> [] | Some d \<Rightarrow> d)"

definition map_call_payload ::
  "ToolProfile \<Rightarrow> string \<Rightarrow> pydict option \<Rightarrow> string option \<Rightarrow> ('a CanonicalTool_scheme) option
    \<Rightarrow> spec_error + (ToolView \<times> payload)" where
  "map_call_payload p exposed_name exposed_args input_text canonical_tool =
     (case get_tool p exposed_name of
        None \<Rightarrow> argument_error (''Unknown tool: '' @ exposed_name)
      | Some (view, adapter) \<Rightarrow>
          let shown = py_repr_str (tv_exposed_name view); args = args_or_empty exposed_args
          in if input_text \<noteq> None \<and> args \<noteq> []
             then argument_error ''Tool payload cannot contain both input_text and object arguments''
             else if tv_contract_kind view = FREEFORM then
               (if \<not> canonical_kind_is canonical_tool FREEFORM
                then argument_error (''Canonical tool '' @ py_repr_str (canonical_name_of canonical_tool)
                       @ '' uses function arguments and cannot be mapped from freeform input_text'')
                else case input_text of
                       None \<Rightarrow> argument_error (''Tool '' @ shown @ '' requires freeform input_text'')
                     | Some txt \<Rightarrow>
                         if args \<noteq> []
                         then argument_error (''Tool '' @ shown @ '' must not receive object arguments'')
                         else Inr (view, InputText txt))
             else if input_text \<noteq> None
             then argument_error (''Tool '' @ shown
                    @ '' uses object arguments and must not receive input_text'')
             else if \<not> canonical_kind_is canonical_tool FUNCTION
             then argument_error (''Canonical tool '' @ py_repr_str (canonical_name_of canonical_tool)
                    @ '' uses freeform payloads and cannot be mapped through ToolAdapter.map_arguments()'')
             else res_bind (map_arguments adapter args (Some (tv_input_schema view))
                      (map_option cn_canonical_schema canonical_tool))
                    (\<lambda>canonical_args. Inr (view, Arguments canonical_args)))"

definition map_call_arguments ::
  "ToolProfile \<Rightarrow> string \<Rightarrow> pydict \<Rightarrow> ('a CanonicalTool_scheme) option \<Rightarrow> spec_error + (ToolView \<times> pydict)" where
  "map_call_arguments p exposed_name exposed_args canonical_tool =
     res_bind (map_call_payload p exposed_name (Some exposed_args) None canonical_tool) (\<lambda>(view, mapped).
       case mapped of
         Arguments d \<Rightarrow> Inr (view, d)
       | InputText _ \<Rightarrow> argument_error (''Tool '' @ py_repr_str (tv_exposed_name view)
           @ '' resolved to freeform input_text, not object arguments''))"

text \<open>A call as the model would write it; its payload is one of the two kinds.\<close>

record ExposedToolCallTarget =
  et_call_id :: string
  et_name :: string
  et_payload :: payload

text \<open>Constructing one checks that id and name are not blank.\<close>

definition exposed_target :: "string \<Rightarrow> string \<Rightarrow> payload \<Rightarrow> spec_error + ExposedToolCallTarget" where
  "exposed_target call_id name payload =
     (if py_strip call_id = [] then Inl (ValidationErr ''call_id'')
      else if py_strip name = [] then Inl (ValidationErr ''name'')
      else Inr \<lparr>et_call_id = call_id, et_name = name, et_payload = payload\<rparr>)"

definition project_canonical_payload ::
  "ToolProfile \<Rightarrow> string \<Rightarrow> pydict option \<Rightarrow> string option \<Rightarrow> string \<Rightarrow> ('a CanonicalTool_scheme) option
    \<Rightarrow> spec_error + ExposedToolCallTarget" where
  "project_canonical_payload p canonical_name canonical_args canonical_input_text call_id canonical_tool =
     (case filter (\<lambda>tv. tv_canonical_name tv = canonical_name) (tp_tools p) of
        [] \<Rightarrow> argument_error (''Unknown canonical tool: '' @ canonical_name)
      | view # others \<Rightarrow>
          let shown = py_repr_str (tv_exposed_name view); args = args_or_empty canonical_args
          in if others \<noteq> []
             then argument_error (''Ambiguous canonical tool projection for ''
                    @ py_repr_str canonical_name @ '': '' @ nat_digits (Suc (length others))
                    @ '' ToolViews found'')
             else if canonical_input_text \<noteq> None \<and> args \<noteq> []
             then argument_error ''Canonical payload cannot contain both input_text and object arguments''
             else if tv_contract_kind view = FREEFORM then
               (if \<not> canonical_kind_is canonical_tool FREEFORM
                then argument_error (''Canonical tool '' @ py_repr_str (canonical_name_of canonical_tool)
                       @ '' uses function arguments and cannot be projected through freeform input_text'')
                else case canonical_input_text of
                       None \<Rightarrow> argument_error (''Tool '' @ shown @ '' requires canonical input_text'')
                     | Some txt \<Rightarrow> exposed_target call_id (tv_exposed_name view) (InputText txt))
             else if canonical_input_text \<noteq> None
             then argument_error (''Tool '' @ shown
                    @ '' uses object arguments and cannot be projected from input_text'')
             else if \<not> canonical_kind_is canonical_tool FUNCTION
             then argument_error (''Canonical tool '' @ py_repr_str (canonical_name_of canonical_tool)
                    @ '' uses freeform payloads and cannot be projected through object arguments'')
             else res_bind (to_exposed_args (adapter_for p (tv_exposed_name view)) args
                      (Some (tv_input_schema view)) (map_option cn_canonical_schema canonical_tool))
                    (\<lambda>exposed_args. exposed_target call_id (tv_exposed_name view) (Arguments exposed_args)))"

subsection \<open>The registry\<close>

text \<open>A dictionary of tools by canonical name; its two errors carry the message.\<close>

type_synonym 'a registry = "(string \<times> 'a CanonicalTool_scheme) list"

definition register :: "'a CanonicalTool_scheme \<Rightarrow> 'a registry \<Rightarrow> string + 'a registry" where
  "register tool r =
     (if map_of r (cn_canonical_name tool) \<noteq> None
      then Inl (''Duplicate canonical tool: '' @ py_repr_str (cn_canonical_name tool))
      else Inr (AList.update (cn_canonical_name tool) tool r))"

definition registry_get :: "'a registry \<Rightarrow> string \<Rightarrow> string + 'a CanonicalTool_scheme" where
  "registry_get r canonical_name =
     (case map_of r canonical_name of
        None \<Rightarrow> Inl (''Unknown canonical tool: '' @ py_repr_str canonical_name)
      | Some t \<Rightarrow> Inr t)"

definition registry_list :: "'a registry \<Rightarrow> 'a CanonicalTool_scheme list" where
  "registry_list r = map snd r"

definition registry_has :: "'a registry \<Rightarrow> string \<Rightarrow> bool" where
  "registry_has r canonical_name \<longleftrightarrow> map_of r canonical_name \<noteq> None"

end
