(* ===== verification/Tool_Runtime.thy ===== *)
theory Tool_Runtime
  imports Tool_Spec
begin

section \<open>The tool runtime\<close>

text \<open>
  \<open>tools/runtime.py\<close>: a tool call of the model is resolved in the profile, validated against the
  exposed schema, resolved in the registry, mapped to canonical arguments, and only then handed to
  the handler.  A handler is a function of its keyword arguments, of whether it is given the
  context, and of the world it acts on; what it returns or raises is one of four outcomes.  The
  text of an exception that is not a \<open>ToolArgumentError\<close> is the argument \<open>exc_text\<close>.
\<close>

datatype handler_outcome =
    Returned ToolResult
  | ReturnedText string
  | ReturnedOther string
  | Raised string string

record 'w BoundTool = CanonicalTool +
  bt_accepts_ctx :: bool
  bt_handler :: "pydict \<Rightarrow> bool \<Rightarrow> 'w \<Rightarrow> handler_outcome \<times> 'w"

type_synonym 'w tool_registry = "(string \<times> 'w BoundTool) list"

definition runtime_error_result :: "string \<Rightarrow> string \<Rightarrow> string \<Rightarrow> pydict \<Rightarrow> ToolResult" where
  "runtime_error_result error_type stage content extra_metadata =
     \<lparr>tr_ok = False, tr_content = content,
      tr_metadata = dict_update [(''error_type'', JStr error_type), (''stage'', JStr stage)] extra_metadata,
      tr_is_error = True\<rparr>"

record 'w ToolExecutionInspection =
  in_call :: ToolCall
  in_view :: "ToolView option"
  in_adapter :: "ToolAdapter option"
  in_canonical_tool :: "'w BoundTool option"
  in_canonical_args :: "pydict option"
  in_canonical_input_text :: "string option"
  in_schema_valid :: bool
  in_mapping_valid :: bool
  in_error_type :: "string option"
  in_error_message :: "string option"
  in_error_result :: "ToolResult option"

text \<open>\<open>str(result.metadata.get("error_type") or "")\<close>.\<close>

definition result_error_type :: "ToolResult \<Rightarrow> string" where
  "result_error_type r =
     (case map_of (tr_metadata r) ''error_type'' of
        None \<Rightarrow> '''' | Some v \<Rightarrow> if py_truthy v then py_str v else '''')"

text \<open>An inspection that ends with an error, with what was resolved before it.\<close>

definition failed_inspection ::
  "ToolCall \<Rightarrow> (ToolView \<times> ToolAdapter) option \<Rightarrow> 'w BoundTool option \<Rightarrow> bool \<Rightarrow> ToolResult
    \<Rightarrow> 'w ToolExecutionInspection" where
  "failed_inspection call resolved tool schema_valid r =
     \<lparr>in_call = call, in_view = map_option fst resolved, in_adapter = map_option snd resolved,
      in_canonical_tool = tool, in_canonical_args = None, in_canonical_input_text = None,
      in_schema_valid = schema_valid, in_mapping_valid = False,
      in_error_type = Some (result_error_type r), in_error_message = Some (tr_content r),
      in_error_result = Some r\<rparr>"

definition resolve_exposed_call :: "ToolCall \<Rightarrow> ToolProfile \<Rightarrow> ToolResult + (ToolView \<times> ToolAdapter)" where
  "resolve_exposed_call call profile =
     (case get_tool profile (tc_name call) of
        None \<Rightarrow> Inl (runtime_error_result ''unknown_tool'' ''resolve_exposed_call''
                  (''Tool not found in profile: '' @ py_repr_str (tc_name call)) [])
      | Some resolved \<Rightarrow> Inr resolved)"

text \<open>\<open>Inl\<close> is an exception that the method lets through, \<open>Inr (Some r)\<close> an error it reports.\<close>

definition validate_exposed_payload :: "ToolCall \<Rightarrow> ToolView \<Rightarrow> spec_error + ToolResult option" where
  "validate_exposed_payload call view =
     (let err = (\<lambda>content. Inr (Some (runtime_error_result ''schema_validation''
                   ''validate_exposed_payload'' content [])))
      in if tv_contract_kind view = FREEFORM then
           (if tc_input_text call = None
            then err ''Exposed freeform tool payload is missing input_text''
            else if tc_arguments call \<noteq> []
            then err ''Exposed freeform tool payload must not contain object arguments''
            else Inr None)
         else if tc_input_text call \<noteq> None
         then err ''Function tool payload must not include input_text''
         else case validate_json_schema (JObj (tc_arguments call)) (tv_input_schema view) ''exposed'' of
                Inr _ \<Rightarrow> Inr None
              | Inl (ToolArgumentError m) \<Rightarrow> err (''Exposed schema validation failed: '' @ m)
              | Inl e \<Rightarrow> Inl e)"

definition resolve_canonical_tool :: "'w tool_registry \<Rightarrow> ToolView \<Rightarrow> ToolResult + 'w BoundTool" where
  "resolve_canonical_tool registry view =
     (case registry_get registry (tv_canonical_name view) of
        Inr t \<Rightarrow> Inr t
      | Inl m \<Rightarrow> Inl (runtime_error_result ''canonical_tool_lookup'' ''resolve_canonical_tool'' m []))"

definition map_payload ::
  "(spec_error \<Rightarrow> string) \<Rightarrow> ToolCall \<Rightarrow> ToolView \<Rightarrow> ToolAdapter \<Rightarrow> 'w BoundTool \<Rightarrow> ToolResult + payload" where
  "map_payload exc_text call view adapter tool =
     (if tv_contract_kind view \<noteq> cn_contract_kind tool
      then Inl (runtime_error_result ''contract_kind_mismatch'' ''map_arguments''
             (''Exposed and canonical tool contract kinds do not match: ''
              @ ToolContractKind_value (tv_contract_kind view) @ '' vs ''
              @ ToolContractKind_value (cn_contract_kind tool)) [])
      else if tv_contract_kind view = FREEFORM then
        (case tc_input_text call of
           None \<Rightarrow> Inl (runtime_error_result ''argument_mapping'' ''map_arguments''
                     ''Freeform tool call is missing input_text'' [])
         | Some t \<Rightarrow> Inr (InputText t))
      else case map_arguments adapter (tc_arguments call) (Some (tv_input_schema view))
                  (Some (cn_canonical_schema tool)) of
             Inr args \<Rightarrow> Inr (Arguments args)
           | Inl (ToolArgumentError m) \<Rightarrow> Inl (runtime_error_result ''argument_mapping'' ''map_arguments''
               (''Argument mapping failed: '' @ m) [])
           | Inl e \<Rightarrow> Inl (runtime_error_result ''argument_mapping_unexpected'' ''map_arguments''
               (''Unexpected argument mapping error: '' @ exc_text e) []))"

definition inspect_call ::
  "(spec_error \<Rightarrow> string) \<Rightarrow> 'w tool_registry \<Rightarrow> ToolCall \<Rightarrow> ToolProfile
    \<Rightarrow> spec_error + 'w ToolExecutionInspection" where
  "inspect_call exc_text registry call0 profile =
     (case resolve_exposed_call call0 profile of
        Inl r \<Rightarrow> Inr (failed_inspection call0 None None False r)
      | Inr (view, adapter) \<Rightarrow>
          let call = call0\<lparr>tc_canonical_name := Some (tv_canonical_name view)\<rparr>;
              resolved = Some (view, adapter)
          in res_bind (validate_exposed_payload call view) (\<lambda>schema_error.
               case schema_error of
                 Some r \<Rightarrow> Inr (failed_inspection call resolved None False r)
               | None \<Rightarrow>
                   case resolve_canonical_tool registry view of
                     Inl r \<Rightarrow> Inr (failed_inspection call resolved None True r)
                   | Inr tool \<Rightarrow>
                       case map_payload exc_text call view adapter tool of
                         Inl r \<Rightarrow> Inr (failed_inspection call resolved (Some tool) True r)
                       | Inr mapped \<Rightarrow> Inr
                           \<lparr>in_call = call, in_view = Some view, in_adapter = Some adapter,
                            in_canonical_tool = Some tool,
                            in_canonical_args = (case mapped of Arguments d \<Rightarrow> Some d | _ \<Rightarrow> None),
                            in_canonical_input_text = (case mapped of InputText t \<Rightarrow> Some t | _ \<Rightarrow> None),
                            in_schema_valid = True, in_mapping_valid = True, in_error_type = None,
                            in_error_message = None, in_error_result = None\<rparr>))"

text \<open>What a handler returns or raises, as a tool result.\<close>

definition outcome_result :: "handler_outcome \<Rightarrow> ToolResult" where
  "outcome_result out =
     (let ok = (\<lambda>content. \<lparr>tr_ok = True, tr_content = content, tr_metadata = [], tr_is_error = False\<rparr>)
      in case out of
           Returned r \<Rightarrow> r
         | ReturnedText t \<Rightarrow> ok t
         | ReturnedOther t \<Rightarrow> ok t
         | Raised exception_type message \<Rightarrow>
             runtime_error_result ''handler_exception'' ''invoke_handler''
               (''Handler raised '' @ exception_type @ (if message = '''' then '''' else '': '' @ message))
               [(''exception_type'', JStr exception_type)])"

definition invoke_handler ::
  "'w BoundTool option \<Rightarrow> pydict \<Rightarrow> string option \<Rightarrow> bool \<Rightarrow> 'w \<Rightarrow> ToolResult \<times> 'w" where
  "invoke_handler canonical_tool canonical_args canonical_input_text has_ctx w =
     (case canonical_tool of
        None \<Rightarrow> (runtime_error_result ''missing_canonical_tool'' ''invoke_handler''
                   ''Canonical tool is required for handler invocation'' [], w)
      | Some tool \<Rightarrow>
          if cn_contract_kind tool = FREEFORM \<and> canonical_input_text = None
          then (runtime_error_result ''missing_freeform_input'' ''invoke_handler''
                  ''Freeform tool handler invocation requires input_text'' [], w)
          else
            let kwargs = (if cn_contract_kind tool = FREEFORM
                          then [(''input_text'', JStr (the canonical_input_text))] else canonical_args);
                with_ctx = (has_ctx \<and> bt_accepts_ctx tool);
                (out, w') = bt_handler tool (if with_ctx then AList.delete ''ctx'' kwargs else kwargs) with_ctx w
            in (outcome_result out, w'))"

definition execute ::
  "(spec_error \<Rightarrow> string) \<Rightarrow> 'w tool_registry \<Rightarrow> ToolCall \<Rightarrow> ToolProfile \<Rightarrow> bool \<Rightarrow> 'w
    \<Rightarrow> spec_error + (ToolResult \<times> 'w)" where
  "execute exc_text registry call profile has_ctx w =
     res_bind (inspect_call exc_text registry call profile) (\<lambda>inspection.
       if \<not> in_mapping_valid inspection
       then Inr (case in_error_result inspection of
                   Some r \<Rightarrow> r
                 | None \<Rightarrow> runtime_error_result ''inspection_failed'' ''map_arguments''
                     ''Tool execution inspection failed'' [], w)
       else Inr (invoke_handler (in_canonical_tool inspection)
                   (args_or_empty (in_canonical_args inspection)) (in_canonical_input_text inspection)
                   has_ctx w))"

end
