(* ===== verification/Tool_Properties.thy ===== *)
theory Tool_Properties
  imports Tool_Runtime
begin

section \<open>Tool arguments: types, adapters and the runtime\<close>

text \<open>
  A typing relation between values and schemas, and the validator against it; the round trip of an
  adapter; what the runtime may hand to a handler.
\<close>

declare validate_type.simps [simp del]

subsection \<open>When a value conforms to a schema\<close>

definition enum_ok :: "json \<Rightarrow> pydict \<Rightarrow> bool" where
  "enum_ok v s \<longleftrightarrow>
     (case dict_get s ''enum'' of JNull \<Rightarrow> True | JList vs \<Rightarrow> py_in v vs | _ \<Rightarrow> False)"

text \<open>The value \<open>v\<close> conforms to the schema \<open>s\<close> taken at the type \<open>t\<close>.\<close>

inductive conforms_as :: "json \<Rightarrow> json \<Rightarrow> pydict \<Rightarrow> bool" where
  untyped: "conforms_as JNull v s"
| no_type: "conforms_as (JList []) v s"
| union: "t \<in> set ts \<Longrightarrow> conforms_as t v (AList.update ''type'' t s) \<Longrightarrow> conforms_as (JList ts) v s"
| object: "required_keys s = Inr req \<Longrightarrow> missing_key req entries = None \<Longrightarrow>
    entries = [] \<or> property_schemas s = Inr ps \<Longrightarrow>
    \<forall>e\<in>set entries.
      (\<exists>p. map_of ps (fst e) = Some (JObj p) \<and> conforms_as (dict_get p ''type'') (snd e) p) \<or>
      (map_of ps (fst e) = None \<and> \<not> closed_object s) \<Longrightarrow>
    conforms_as (JStr ''object'') (JObj entries) s"
| array: "items = [] \<or> dict_get s ''items'' = JNull \<or>
      (\<exists>p. dict_get s ''items'' = JObj p \<and> (\<forall>x\<in>set items. conforms_as (dict_get p ''type'') x p)) \<Longrightarrow>
    conforms_as (JStr ''array'') (JList items) s"
| scalar: "t \<noteq> ''object'' \<Longrightarrow> t \<noteq> ''array'' \<Longrightarrow> scalar_type_ok t v \<Longrightarrow> enum_ok v s \<Longrightarrow>
    conforms_as (JStr t) v s"
| unnamed: "(case t of JNull \<Rightarrow> False | JStr _ \<Rightarrow> False | JList _ \<Rightarrow> False | _ \<Rightarrow> True) \<Longrightarrow> enum_ok v s \<Longrightarrow>
    conforms_as t v s"

definition conforms :: "json \<Rightarrow> pydict \<Rightarrow> bool" where
  "conforms v s \<longleftrightarrow> conforms_as (dict_get s ''type'') v s"

inductive_cases conforms_union: "conforms_as (JList ts) v s"
inductive_cases conforms_object: "conforms_as (JStr ''object'') v s"
inductive_cases conforms_array: "conforms_as (JStr ''array'') v s"
inductive_simps conforms_name: "conforms_as (JStr t) v s"
inductive_simps conforms_none: "conforms_as JNull v s"

subsection \<open>The validator decides conformance\<close>

text \<open>A verdict agrees with a predicate: acceptance with truth, an argument error with falsity.\<close>

definition agrees :: "spec_error + unit \<Rightarrow> bool \<Rightarrow> bool" where
  "agrees r b = (case r of Inr _ \<Rightarrow> b | Inl (ToolArgumentError _) \<Rightarrow> \<not> b | Inl _ \<Rightarrow> True)"

lemma agrees_simps [simp]:
  "agrees (Inr u) b \<longleftrightarrow> b" "agrees (Inl (ToolArgumentError m)) b \<longleftrightarrow> \<not> b"
  "agrees (Inl MalformedSchema) b" "agrees (Inl TypeErr) b" "agrees (Inl (ValidationErr m)) b"
  "agrees (violation n p w) b \<longleftrightarrow> \<not> b"
  by (simp_all add: agrees_def violation_def argument_error_def)

definition field_ok :: "pydict \<Rightarrow> bool \<Rightarrow> string \<times> json \<Rightarrow> bool" where
  "field_ok ps strict e \<longleftrightarrow>
     (\<exists>p. map_of ps (fst e) = Some (JObj p) \<and> conforms_as (dict_get p ''type'') (snd e) p) \<or>
     (map_of ps (fst e) = None \<and> \<not> strict)"

lemma check_scalar_agrees: "agrees (check_scalar n t v s path) (scalar_type_ok t v \<and> enum_ok v s)"
  by (auto simp: check_scalar_def enum_ok_def split: json.splits)

lemma conforms_unnamed:
  "(case t of JNull \<Rightarrow> False | JStr _ \<Rightarrow> False | JList _ \<Rightarrow> False | _ \<Rightarrow> True) \<Longrightarrow>
   conforms_as t v s \<longleftrightarrow> enum_ok v s"
  by (cases t) (auto elim: conforms_as.cases intro: conforms_as.unnamed)

lemma scalar_type_ok_empty: "scalar_type_ok [] v"
  by (simp add: scalar_type_ok_def)

lemma conforms_object_iff:
  "conforms_as (JStr ''object'') (JObj entries) s \<longleftrightarrow>
   (\<exists>req ps. required_keys s = Inr req \<and> missing_key req entries = None \<and>
      (entries = [] \<or> property_schemas s = Inr ps) \<and> list_all (field_ok ps (closed_object s)) entries)"
  unfolding list_all_iff field_ok_def
  by (rule iffI, erule conforms_object, blast, simp, simp) (blast intro: conforms_as.object)

lemma conforms_object_JObj: "conforms_as (JStr ''object'') v s \<Longrightarrow> \<exists>entries. v = JObj entries"
  by (erule conforms_object) simp_all

lemma schema_shape_errors:
  "required_keys s = Inl e \<Longrightarrow> e = MalformedSchema"
  "property_schemas s = Inl e \<Longrightarrow> e = MalformedSchema"
  by (auto simp: required_keys_def property_schemas_def split: option.splits json.splits if_splits)

lemma conforms_object_plan:
  "case object_plan n v s path of
      Inl e \<Rightarrow> agrees (Inl e) (conforms_as (JStr ''object'') v s)
    | Inr (entries, ps) \<Rightarrow>
        conforms_as (JStr ''object'') v s \<longleftrightarrow> list_all (field_ok ps (closed_object s)) entries"
proof (cases "\<exists>entries. v = JObj entries")
  case False
  then have "\<not> conforms_as (JStr ''object'') v s" using conforms_object_JObj by blast
  moreover have "object_plan n v s path = violation n path ''expected object''"
    using False by (cases v) (simp_all add: object_plan_def)
  ultimately show ?thesis by (simp add: violation_def argument_error_def)
next
  case True
  then obtain entries where v: "v = JObj entries" by blast
  show ?thesis
  proof (cases "required_keys s")
    case (Inl e)
    then show ?thesis using schema_shape_errors(1) [OF Inl] by (simp add: object_plan_def v)
  next
    case (Inr req)
    show ?thesis
    proof (cases "missing_key req entries")
      case (Some key)
      then show ?thesis using Inr unfolding v conforms_object_iff
        by (simp add: object_plan_def violation_def argument_error_def)
    next
      case None
      show ?thesis
      proof (cases "entries = []")
        case True
        then show ?thesis using Inr None unfolding v conforms_object_iff by (simp add: object_plan_def)
      next
        case False
        then show ?thesis using Inr None schema_shape_errors(2) [of s] unfolding v conforms_object_iff
          by (cases "property_schemas s") (auto simp: object_plan_def)
      qed
    qed
  qed
qed

lemma conforms_array_plan:
  "case array_plan n v s path of
      Inl e \<Rightarrow> agrees (Inl e) (conforms_as (JStr ''array'') v s)
    | Inr (items, p) \<Rightarrow>
        conforms_as (JStr ''array'') v s \<longleftrightarrow> (\<forall>x\<in>set items. conforms_as (dict_get p ''type'') x p)"
proof (cases "\<exists>items. v = JList items")
  case False
  then have "\<not> conforms_as (JStr ''array'') v s" by (auto elim: conforms_array)
  moreover have "array_plan n v s path = violation n path ''expected array''"
    using False by (cases v) (simp_all add: array_plan_def)
  ultimately show ?thesis by (simp add: violation_def argument_error_def)
next
  case True
  then obtain items where v: "v = JList items" by blast
  have "conforms_as (JStr ''array'') (JList items) s \<longleftrightarrow> items = [] \<or> dict_get s ''items'' = JNull \<or>
      (\<exists>p. dict_get s ''items'' = JObj p \<and> (\<forall>x\<in>set items. conforms_as (dict_get p ''type'') x p))"
    by (rule iffI, erule conforms_array, simp, simp, blast intro: conforms_as.array)
  then show ?thesis unfolding v by (auto simp: array_plan_def split: json.splits)
qed

lemma validate_agrees:
  "agrees (validate_type n t v s path) (conforms_as t v s)"
  "(case e of None \<Rightarrow> True | Some (ToolArgumentError _) \<Rightarrow> True | _ \<Rightarrow> False) \<Longrightarrow>
   agrees (validate_candidates n ts e v s path)
     ((ts = [] \<and> e = None) \<or> (\<exists>t\<in>set ts. conforms_as t v (AList.update ''type'' t s)))"
  "agrees (validate_fields n ps strict entries path) (list_all (field_ok ps strict) entries)"
  "agrees (validate_items n i items s path) (\<forall>x\<in>set items. conforms_as (dict_get s ''type'') x s)"
proof (induction n t v s path and n ts e v s path and n ps strict entries path and n i items s path
    rule: validate_type_validate_candidates_validate_fields_validate_items.induct)
  case (1 n t v s path)
  consider (null) "t = JNull" | (list) ts where "t = JList ts" | (object) "t = JStr ''object''"
    | (array) "t = JStr ''array''" | (scalar) name where "t = JStr name" "name \<noteq> ''object''" "name \<noteq> ''array''"
    | (other) "case t of JNull \<Rightarrow> False | JStr _ \<Rightarrow> False | JList _ \<Rightarrow> False | _ \<Rightarrow> True"
    by (cases t) auto
  then show ?case
  proof cases
    case null
    then show ?thesis by (simp add: conforms_as.untyped validate_type.simps)
  next
    case (list ts)
    have "conforms_as (JList ts) v s \<longleftrightarrow> ts = [] \<or> (\<exists>t\<in>set ts. conforms_as t v (AList.update ''type'' t s))"
      by (auto elim: conforms_union intro: conforms_as.no_type conforms_as.union)
    then show ?thesis using 1(3) [OF list] list by (simp add: validate_type.simps)
  next
    case object
    show ?thesis
    proof (cases "object_plan n v s path")
      case (Inl e)
      then show ?thesis using conforms_object_plan [where n = n and v = v and s = s and path = path] object by (simp add: validate_type.simps)
    next
      case (Inr a)
      then show ?thesis using conforms_object_plan [where n = n and v = v and s = s and path = path] object 1(1) [OF object refl Inr surjective_pairing [symmetric]] by (cases a) (simp add: validate_type.simps)
    qed
  next
    case array
    show ?thesis
    proof (cases "array_plan n v s path")
      case (Inl e)
      then show ?thesis using conforms_array_plan [where n = n and v = v and s = s and path = path] array by (simp add: validate_type.simps)
    next
      case (Inr a)
      then show ?thesis using conforms_array_plan [where n = n and v = v and s = s and path = path] array 1(2) [OF array _ refl Inr surjective_pairing [symmetric]] by (cases a) (simp add: validate_type.simps)
    qed
  next
    case (scalar name)
    then have "conforms_as t v s \<longleftrightarrow> scalar_type_ok name v \<and> enum_ok v s"
      by (auto simp: conforms_name)
    then show ?thesis using check_scalar_agrees [of n name v s path] scalar by (simp add: validate_type.simps)
  next
    case other
    then have "validate_type n t v s path = check_scalar n [] v s path" by (cases t) (simp_all add: validate_type.simps)
    then show ?thesis using check_scalar_agrees [of n "[]" v s path] conforms_unnamed [OF other]
      by (simp add: scalar_type_ok_empty)
  qed
next
  case (3 n t ts e v s path)
  show ?case
  proof (cases "validate_type n t v (AList.update ''type'' t s) path")
    case (Inr u)
    then show ?thesis using 3(1) by simp
  next
    case (Inl x)
    then show ?thesis using 3(1) 3(2) [OF Inl] by (cases x) simp_all
  qed
next
  case (5 n ps strict key child entries path)
  show ?case
  proof (cases "map_of ps key")
    case None
    then show ?thesis using 5(1) [of None]
      by (cases strict) (simp_all add: field_schema_def field_ok_def violation_def argument_error_def)
  next
    case (Some j)
    show ?thesis
    proof (cases "\<exists>q. j = JObj q")
      case False
      then have "field_schema n ps strict key path = Inl MalformedSchema"
        using Some by (cases j) (simp_all add: field_schema_def)
      then show ?thesis by simp
    next
      case True
      then obtain q where q: "j = JObj q" by blast
      then have fs: "field_schema n ps strict key path = Inr (Some q)" using Some by (simp add: field_schema_def)
      have here: "field_ok ps strict (key, child) \<longleftrightarrow> conforms_as (dict_get q ''type'') child q"
        using Some q by (simp add: field_ok_def)
      show ?thesis
      proof (cases "validate_type n (dict_get q ''type'') child q (path @ ''.'' @ key)")
        case (Inl x)
        then show ?thesis using 5(2) [OF fs refl] fs here by (cases x) simp_all
      next
        case (Inr u)
        then show ?thesis using 5(2) [OF fs refl] 5(3) [OF fs refl Inr] fs here by simp
      qed
    qed
  qed
next
  case (7 n i item items s path)
  show ?case
  proof (cases "validate_type n (dict_get s ''type'') item s (path @ ''['' @ nat_digits i @ '']'')")
    case (Inl x)
    then show ?thesis using 7(1) by (cases x) simp_all
  next
    case (Inr u)
    then show ?thesis using 7(1) 7(2) [OF Inr] by simp
  qed
qed (auto split: option.splits spec_error.splits)

text \<open>C20: Validation decides a typing relation between arguments and schemas: arguments that pass
  conform to the schema, arguments that are refused with an argument error do not.\<close>

theorem validate_json_schema_decides_conformance:
  "case validate_json_schema v schema schema_name of
     Inr _ \<Rightarrow> conforms v schema
   | Inl (ToolArgumentError _) \<Rightarrow> \<not> conforms v schema
   | Inl _ \<Rightarrow> True"
  using validate_agrees(1) [of schema_name "dict_get schema ''type''" v schema "''$''"]
  by (auto simp: validate_json_schema_def conforms_def agrees_def split: sum.splits spec_error.splits)

subsection \<open>What reaches a handler\<close>

lemma validated_conforms:
  "validate_json_schema v schema n = Inr u \<Longrightarrow> conforms v schema"
  using validate_agrees(1) [of n "dict_get schema ''type''" v schema "''$''"]
  by (simp add: validate_json_schema_def conforms_def)

lemma map_arguments_conforms:
  assumes "map_arguments a args es cs = Inr canonical"
  shows "case es of None \<Rightarrow> True | Some s \<Rightarrow> conforms (JObj args) s"
    and "case cs of None \<Rightarrow> True | Some s \<Rightarrow> conforms (JObj canonical) s"
  using assms
  by (auto simp: map_arguments_def res_bind_Inr_iff validate_optional_def split: option.splits
      dest: validated_conforms)

text \<open>
  The handler of the tool that the called view names was run once on the world: with the text of a
  freeform call, or with arguments that conform to the canonical schema, made from arguments that
  conform to the exposed one.  The keyword \<open>ctx\<close> is the context when the handler takes it.
\<close>

definition kwargs_of :: "bool \<Rightarrow> pydict \<Rightarrow> pydict" where
  "kwargs_of with_ctx args = (if with_ctx then AList.delete ''ctx'' args else args)"

definition dispatched ::
  "'w tool_registry \<Rightarrow> ToolProfile \<Rightarrow> ToolCall \<Rightarrow> 'w \<Rightarrow> ToolResult \<Rightarrow> 'w \<Rightarrow> bool" where
  "dispatched registry profile call w r w' \<longleftrightarrow>
     (\<exists>view adapter tool args with_ctx out.
        get_tool profile (tc_name call) = Some (view, adapter) \<and>
        map_of registry (tv_canonical_name view) = Some tool \<and>
        tv_contract_kind view = cn_contract_kind tool \<and>
        bt_handler tool (kwargs_of with_ctx args) with_ctx w = (out, w') \<and> r = outcome_result out \<and>
        (if cn_contract_kind tool = FREEFORM
         then tc_arguments call = [] \<and> (\<exists>t. tc_input_text call = Some t \<and> args = [(''input_text'', JStr t)])
         else tc_input_text call = None \<and> conforms (JObj (tc_arguments call)) (tv_input_schema view)
           \<and> conforms (JObj args) (cn_canonical_schema tool)))"

lemma invoke_handler_dispatch:
  "cn_contract_kind tool = FREEFORM \<longrightarrow> txt \<noteq> None \<Longrightarrow>
   \<exists>with_ctx out. bt_handler tool
       (kwargs_of with_ctx (if cn_contract_kind tool = FREEFORM then [(''input_text'', JStr (the txt))] else args))
       with_ctx w = (out, snd (invoke_handler (Some tool) args txt has_ctx w)) \<and>
     fst (invoke_handler (Some tool) args txt has_ctx w) = outcome_result out"
proof -
  assume free: "cn_contract_kind tool = FREEFORM \<longrightarrow> txt \<noteq> None"
  let ?kw = "if cn_contract_kind tool = FREEFORM then [(''input_text'', JStr (the txt))] else args"
  let ?c = "has_ctx \<and> bt_accepts_ctx tool"
  obtain out w' where run: "bt_handler tool (kwargs_of ?c ?kw) ?c w = (out, w')"
    by (cases "bt_handler tool (kwargs_of ?c ?kw) ?c w")
  have "invoke_handler (Some tool) args txt has_ctx w = (outcome_result out, w')"
    using free run unfolding invoke_handler_def kwargs_of_def by (simp only: option.case Let_def) auto
  then show ?thesis using run by (intro exI [of _ ?c] exI [of _ out]) simp
qed

lemma map_payload_result:
  assumes "map_payload exc_text call view adapter tool = Inr p"
  shows "tv_contract_kind view = cn_contract_kind tool"
    and "case p of InputText t \<Rightarrow> cn_contract_kind tool = FREEFORM \<and> tc_input_text call = Some t
       | Arguments args \<Rightarrow> cn_contract_kind tool = FUNCTION
           \<and> conforms (JObj (tc_arguments call)) (tv_input_schema view)
           \<and> conforms (JObj args) (cn_canonical_schema tool)"
proof -
  show kind: "tv_contract_kind view = cn_contract_kind tool"
    using assms by (auto simp: map_payload_def split: if_splits)
  show "case p of InputText t \<Rightarrow> cn_contract_kind tool = FREEFORM \<and> tc_input_text call = Some t
       | Arguments args \<Rightarrow> cn_contract_kind tool = FUNCTION
           \<and> conforms (JObj (tc_arguments call)) (tv_input_schema view)
           \<and> conforms (JObj args) (cn_canonical_schema tool)"
  proof (cases "cn_contract_kind tool")
    case FREEFORM
    then show ?thesis using assms kind by (auto simp: map_payload_def split: option.splits)
  next
    case FUNCTION
    then obtain args where "p = Arguments args"
      "map_arguments adapter (tc_arguments call) (Some (tv_input_schema view)) (Some (cn_canonical_schema tool)) = Inr args"
      using assms kind by (auto simp: map_payload_def split: sum.splits spec_error.splits)
    then show ?thesis using FUNCTION map_arguments_conforms by fastforce
  qed
qed

lemma validate_exposed_payload_ok:
  "validate_exposed_payload call view = Inr None \<Longrightarrow>
   if tv_contract_kind view = FREEFORM then tc_arguments call = [] else tc_input_text call = None"
  by (auto simp: validate_exposed_payload_def Let_def split: if_splits)

lemma inspect_call_cases:
  assumes "inspect_call exc_text registry call profile = Inr i"
  obtains (failed) r where "\<not> in_mapping_valid i" "in_error_result i = Some r" "tr_is_error r" "\<not> tr_ok r"
  | (ready) view adapter tool p where "in_mapping_valid i" "in_canonical_tool i = Some tool"
      "get_tool profile (tc_name call) = Some (view, adapter)"
      "map_of registry (tv_canonical_name view) = Some tool"
      "validate_exposed_payload (call\<lparr>tc_canonical_name := Some (tv_canonical_name view)\<rparr>) view = Inr None"
      "map_payload exc_text (call\<lparr>tc_canonical_name := Some (tv_canonical_name view)\<rparr>) view adapter tool = Inr p"
      "in_canonical_args i = (case p of Arguments d \<Rightarrow> Some d | _ \<Rightarrow> None)"
      "in_canonical_input_text i = (case p of InputText t \<Rightarrow> Some t | _ \<Rightarrow> None)"
proof -
  have err: "tr_is_error (runtime_error_result a b c d) \<and> \<not> tr_ok (runtime_error_result a b c d)" for a b c d
    by (simp add: runtime_error_result_def)
  have shape: "validate_exposed_payload c v = Inr (Some r) \<Longrightarrow> tr_is_error r \<and> \<not> tr_ok r" for c v r
    by (auto simp: validate_exposed_payload_def Let_def err split: if_splits sum.splits spec_error.splits)
  have lookup: "resolve_canonical_tool registry v = Inl r \<Longrightarrow> tr_is_error r \<and> \<not> tr_ok r" for v r
    by (auto simp: resolve_canonical_tool_def err split: sum.splits)
  have found: "resolve_canonical_tool registry v = Inr t \<Longrightarrow> map_of registry (tv_canonical_name v) = Some t" for v t
    by (auto simp: resolve_canonical_tool_def registry_get_def split: option.splits)
  have mapping: "map_payload exc_text c v a t = Inl r \<Longrightarrow> tr_is_error r \<and> \<not> tr_ok r" for c v a t r
    by (auto simp: map_payload_def err split: if_splits option.splits sum.splits spec_error.splits)
  show thesis
  proof (cases "get_tool profile (tc_name call)")
    case None
    then show thesis using assms failed err
      by (auto simp: inspect_call_def resolve_exposed_call_def failed_inspection_def)
  next
    case (Some va)
    obtain view adapter where va: "va = (view, adapter)" by (cases va)
    let ?c = "call\<lparr>tc_canonical_name := Some (tv_canonical_name view)\<rparr>"
    have run: "inspect_call exc_text registry call profile =
       res_bind (validate_exposed_payload ?c view) (\<lambda>schema_error.
         case schema_error of
           Some r \<Rightarrow> Inr (failed_inspection ?c (Some (view, adapter)) None False r)
         | None \<Rightarrow>
             case resolve_canonical_tool registry view of
               Inl r \<Rightarrow> Inr (failed_inspection ?c (Some (view, adapter)) None True r)
             | Inr tool \<Rightarrow>
                 case map_payload exc_text ?c view adapter tool of
                   Inl r \<Rightarrow> Inr (failed_inspection ?c (Some (view, adapter)) (Some tool) True r)
                 | Inr mapped \<Rightarrow> Inr
                     \<lparr>in_call = ?c, in_view = Some view, in_adapter = Some adapter,
                      in_canonical_tool = Some tool,
                      in_canonical_args = (case mapped of Arguments d \<Rightarrow> Some d | _ \<Rightarrow> None),
                      in_canonical_input_text = (case mapped of InputText t \<Rightarrow> Some t | _ \<Rightarrow> None),
                      in_schema_valid = True, in_mapping_valid = True, in_error_type = None,
                      in_error_message = None, in_error_result = None\<rparr>)"
      using Some va by (simp add: inspect_call_def resolve_exposed_call_def Let_def)
    obtain ve where ve: "validate_exposed_payload ?c view = Inr ve"
      using assms unfolding run by (auto simp: res_bind_Inr_iff)
    note run2 = run [unfolded ve res_bind_simps]
    show thesis
    proof (cases ve)
      case (Some r)
      then show thesis using assms run2 failed shape ve by (auto simp: failed_inspection_def)
    next
      case None
      show thesis
      proof (cases "resolve_canonical_tool registry view")
        case (Inl r)
        then show thesis using assms run2 failed lookup None by (auto simp: failed_inspection_def)
      next
        case (Inr tool)
        show thesis
        proof (cases "map_payload exc_text ?c view adapter tool")
          case (Inl r)
          then show thesis using assms run2 failed mapping [OF Inl] None Inr by (auto simp: failed_inspection_def)
        next
          case (Inr p)
          then show thesis using assms run2 ready None \<open>resolve_canonical_tool registry view = Inr tool\<close>
              found ve Some va by auto
        qed
      qed
    qed
  qed
qed

text \<open>C21: A tool call either ends with an error result and leaves the world as it was, or runs the
  handler of the tool its view names exactly once, on a payload of the kind both contracts ask for
  and, for a function tool, on arguments that conform to the canonical schema.\<close>

theorem execute_hands_over_conforming_arguments:
  "case execute exc_text registry call profile has_ctx w of
     Inl _ \<Rightarrow> True
   | Inr (r, w') \<Rightarrow> (tr_is_error r \<and> \<not> tr_ok r \<and> w' = w) \<or> dispatched registry profile call w r w'"
proof (cases "inspect_call exc_text registry call profile")
  case (Inl e)
  then show ?thesis by (simp add: execute_def)
next
  case (Inr i)
  then show ?thesis
  proof (cases rule: inspect_call_cases)
    case (failed r)
    then show ?thesis using Inr by (simp add: execute_def)
  next
    case (ready view adapter tool p)
    let ?txt = "in_canonical_input_text i" and ?args = "args_or_empty (in_canonical_args i)"
    let ?res = "invoke_handler (Some tool) ?args ?txt has_ctx w"
    have exec: "execute exc_text registry call profile has_ctx w = Inr (fst ?res, snd ?res)"
      using Inr ready(1,2) by (simp add: execute_def)
    note kind = map_payload_result(1) [OF ready(6)] and conf = map_payload_result(2) [OF ready(6)]
    have free: "cn_contract_kind tool = FREEFORM \<longrightarrow> ?txt \<noteq> None"
      using conf ready(8) by (cases p) auto
    obtain with_ctx out where run: "bt_handler tool
        (kwargs_of with_ctx (if cn_contract_kind tool = FREEFORM then [(''input_text'', JStr (the ?txt))] else ?args))
        with_ctx w = (out, snd ?res)" "fst ?res = outcome_result out"
      using invoke_handler_dispatch [OF free] by blast
    have "dispatched registry profile call w (fst ?res) (snd ?res)"
    proof (cases p)
      case (Arguments args)
      then show ?thesis using run conf kind ready validate_exposed_payload_ok [OF ready(5)]
        unfolding dispatched_def by (auto simp: args_or_empty_def)
    next
      case (InputText t)
      then show ?thesis using run conf kind ready validate_exposed_payload_ok [OF ready(5)]
        unfolding dispatched_def by auto
    qed
    then show ?thesis using exec by (simp add: case_prod_beta)
  qed
qed

end
