(* ===== verification/Adapter_Roundtrip.thy ===== *)
theory Adapter_Roundtrip
  imports Tool_Properties "HOL-Library.Sublist"
begin

section \<open>An adapter is undone by its inverse\<close>

text \<open>
  Nested arguments as trees: what a write changes and what it leaves alone, and the round trip of
  \<open>to_exposed_args\<close> and \<open>map_arguments\<close>.  Two dotted paths can be written independently when
  neither is a prefix of the other.
\<close>

subsection \<open>Reading after writing\<close>

definition incomparable :: "'a list \<Rightarrow> 'a list \<Rightarrow> bool" where
  "incomparable a b \<longleftrightarrow> \<not> prefix a b \<and> \<not> prefix b a"

lemma incomparable_sym: "incomparable a b \<longleftrightarrow> incomparable b a"
  by (auto simp: incomparable_def)

lemma incomparable_Cons [simp]: "incomparable (x # a) (y # b) \<longleftrightarrow> (if x = y then incomparable a b else True)"
  by (auto simp: incomparable_def)

lemma incomparable_Nil [simp]: "\<not> incomparable [] b" "\<not> incomparable a []"
  by (auto simp: incomparable_def)

text \<open>The child an update descends into: an object is made where there is none.\<close>

definition child_of :: "pydict \<Rightarrow> string \<Rightarrow> json" where
  "child_of d key = (case map_of d key of None \<Rightarrow> JObj [] | Some c \<Rightarrow> c)"

fun settable :: "json \<Rightarrow> string list \<Rightarrow> bool" where
  "settable j [] = False"
| "settable (JObj d) [key] = True"
| "settable (JObj d) (key # k # keys) = settable (child_of d key) (k # keys)"
| "settable j (key # keys) = False"

lemma settable_empty: "keys \<noteq> [] \<Longrightarrow> settable (JObj []) keys"
proof (induction keys)
  case (Cons k keys)
  then show ?case by (cases keys) (simp_all add: child_of_def)
qed simp

lemma set_keys_settable:
  "settable j keys \<Longrightarrow> \<exists>d. set_keys j keys v = Inr (JObj d)"
proof (induction j keys rule: settable.induct)
  case (3 d key k keys)
  then show ?case by (auto simp: child_of_def)
qed auto

lemma set_keys_obj: "set_keys j keys v = Inr j' \<Longrightarrow> \<exists>d d'. j = JObj d \<and> j' = JObj d'"
  by (cases "(j, keys, v)" rule: set_keys.cases) (auto split: json.splits simp: res_bind_Inr_iff)

lemma get_set_same: "set_keys j keys v = Inr j' \<Longrightarrow> get_keys j' keys = v"
proof (induction j keys v arbitrary: j' rule: set_keys.induct)
  case (3 current key k keys v)
  then show ?case by (auto split: json.splits simp: res_bind_Inr_iff)
qed (auto split: json.splits)

lemma get_keys_empty: "keys \<noteq> [] \<Longrightarrow> get_keys (JObj []) keys = JNull"
  by (cases keys) simp_all

lemma get_keys_child: "keys \<noteq> [] \<Longrightarrow> get_keys (JObj d) (key # keys) = get_keys (child_of d key) keys"
  by (auto simp: child_of_def get_keys_empty split: option.split)

lemma get_set_other:
  "set_keys j keys v = Inr j' \<Longrightarrow> incomparable keys keys' \<Longrightarrow> get_keys j' keys' = get_keys j keys'"
proof (induction j keys v arbitrary: j' keys' rule: set_keys.induct)
  case (2 current key v)
  then show ?case by (cases keys') (auto split: json.splits if_splits)
next
  case (3 current key k keys v)
  then obtain d c where d: "current = JObj d" and c: "set_keys (child_of d key) (k # keys) v = Inr c"
    and j': "j' = JObj (AList.update key c d)"
    by (auto simp: child_of_def res_bind_Inr_iff split: json.splits)
  obtain x xs where keys': "keys' = x # xs" using 3(3) by (cases keys') auto
  show ?case
  proof (cases "x = key")
    case True
    then have inc: "incomparable (k # keys) xs" using 3(3) keys' by simp
    then have "xs \<noteq> []" by auto
    have "get_keys c xs = get_keys (child_of d key) xs"
      using 3(1) [OF d _ inc] c by (simp add: child_of_def)
    then show ?thesis using True keys' d j' \<open>xs \<noteq> []\<close> by (simp add: get_keys_child del: get_keys.simps)
       (simp add: child_of_def)
  next
    case False
    then show ?thesis using keys' d j' by simp
  qed
qed simp

lemma settable_set_other:
  "set_keys j keys v = Inr j' \<Longrightarrow> incomparable keys keys' \<Longrightarrow> settable j keys' \<Longrightarrow> settable j' keys'"
proof (induction j keys v arbitrary: j' keys' rule: set_keys.induct)
  case (2 current key v)
  then obtain d where "current = JObj d" "j' = JObj (AList.update key v d)"
    by (auto split: json.splits)
  then show ?case using 2 by (cases "(current, keys')" rule: settable.cases) (auto simp: child_of_def split: if_splits)
next
  case (3 current key k keys v)
  then obtain d c where d: "current = JObj d" and c: "set_keys (child_of d key) (k # keys) v = Inr c"
    and j': "j' = JObj (AList.update key c d)"
    by (auto simp: child_of_def res_bind_Inr_iff split: json.splits)
  obtain x xs where keys': "keys' = x # xs" using 3(3) by (cases keys') auto
  show ?case
  proof (cases xs)
    case Nil
    then show ?thesis using keys' j' by simp
  next
    case (Cons y ys)
    show ?thesis
    proof (cases "x = key")
      case True
      then have inc: "incomparable (k # keys) xs" using 3(3) keys' by simp
      have "settable (child_of d key) xs" using 3(4) keys' Cons d True by simp
      then have "settable c xs" using 3(1) [OF d _ inc] c by (simp add: child_of_def)
      then show ?thesis using True keys' Cons j' by (simp add: child_of_def)
    next
      case False
      then show ?thesis using 3(4) keys' Cons d j' by (simp add: child_of_def)
    qed
  qed
qed simp

lemma copy_nested_id [simp]: "copy_nested j = j"
  by (induction j rule: copy_nested.induct) (auto intro!: map_idI)

lemma copy_dict_id [simp]: "copy_dict d = d"
  by (auto simp: copy_dict_def intro!: map_idI)

subsection \<open>Leaves\<close>

fun leaf_keys :: "json \<Rightarrow> string list list" where
  "leaf_keys (JObj d) = concat (map (\<lambda>(key, c). map ((#) key) (leaf_keys c)) d)"
| "leaf_keys j = [[]]"

definition path_from :: "string \<Rightarrow> string list \<Rightarrow> string" where
  "path_from p keys = foldl (\<lambda>p k. if p \<noteq> [] then p @ ''.'' @ k else k) p keys"

lemma iter_leaf_paths_keys: "set (iter_leaf_paths j p) \<subseteq> path_from p ` set (leaf_keys j)"
proof (induction j p rule: iter_leaf_paths.induct)
  case (1 d p)
  show ?case
  proof
    fix s assume "s \<in> set (iter_leaf_paths (JObj d) p)"
    then obtain k c where kc: "(k, c) \<in> set d"
      and s: "s \<in> set (iter_leaf_paths c (if p \<noteq> [] then p @ ''.'' @ k else k))" by auto
    then obtain ks where "ks \<in> set (leaf_keys c)" "s = path_from (if p \<noteq> [] then p @ ''.'' @ k else k) ks"
      using 1 [OF kc refl] by blast
    then have "s = path_from p (k # ks)" "k # ks \<in> set (leaf_keys (JObj d))"
      using kc by (auto simp: path_from_def)
    then show "s \<in> path_from p ` set (leaf_keys (JObj d))" by blast
  qed
qed (auto simp: path_from_def)

lemma path_from_join:
  "p \<noteq> [] \<Longrightarrow> path_from p keys = p @ concat (map (\<lambda>k. ''.'' @ k) keys)"
  by (induction keys arbitrary: p) (simp_all add: path_from_def)

lemma py_join_Cons: "py_join ''.'' (k # keys) = k @ concat (map (\<lambda>k. ''.'' @ k) keys)"
  by (induction keys arbitrary: k) simp_all

lemma py_join_split: "py_join [c] (py_split c s) = s"
proof (induction s)
  case (Cons x s)
  obtain a b where "py_split c s = a # b" by (cases "py_split c s") auto
  then show ?case using Cons by (cases b) auto
qed simp

text \<open>A path that is written back as it was: every component has at least one character.\<close>

definition path_simple :: "string \<Rightarrow> bool" where
  "path_simple p \<longleftrightarrow> [] \<notin> set (dotted_keys p)"

lemma path_from_dotted: "path_simple p \<Longrightarrow> path_from [] (dotted_keys p) = p"
proof -
  assume simple: "path_simple p"
  obtain k keys where split: "dotted_keys p = k # keys"
    by (cases "dotted_keys p") (auto simp: dotted_keys_def)
  then have "k \<noteq> []" using simple by (auto simp: path_simple_def)
  have "path_from [] (dotted_keys p) = path_from k keys" by (simp add: split path_from_def)
  also have "\<dots> = py_join ''.'' (dotted_keys p)"
    using path_from_join [OF \<open>k \<noteq> []\<close>] by (simp add: split py_join_Cons)
  finally show ?thesis by (simp add: dotted_keys_def py_join_split)
qed

definition is_leaf :: "json \<Rightarrow> bool" where
  "is_leaf j = (case j of JObj _ \<Rightarrow> False | _ \<Rightarrow> True)"

lemma leaf_keys_leaf [simp]: "is_leaf j \<Longrightarrow> leaf_keys j = [[]]"
  by (cases j) (simp_all add: is_leaf_def)

lemma set_update_subset: "set (AList.update k v d) \<subseteq> insert (k, v) (set d)"
  by (induction d) auto

lemma leaf_keys_child: "(set (leaf_keys (child_of d key))) \<subseteq> {ks. key # ks \<in> set (leaf_keys (JObj d))}"
  by (auto simp: child_of_def split: option.splits dest!: map_of_SomeD)

lemma leaf_keys_set:
  "set_keys j keys v = Inr j' \<Longrightarrow> is_leaf v \<Longrightarrow> set (leaf_keys j') \<subseteq> insert keys (set (leaf_keys j))"
proof (induction j keys v arbitrary: j' rule: set_keys.induct)
  case (2 current key v)
  then obtain d where "current = JObj d" "j' = JObj (AList.update key v d)" by (auto split: json.splits)
  then show ?case using 2 set_update_subset [of key v d] by fastforce
next
  case (3 current key k keys v)
  then obtain d c where d: "current = JObj d" and c: "set_keys (child_of d key) (k # keys) v = Inr c"
    and j': "j' = JObj (AList.update key c d)"
    by (auto simp: child_of_def res_bind_Inr_iff split: json.splits)
  have sub: "set (leaf_keys c) \<subseteq> insert (k # keys) (set (leaf_keys (child_of d key)))"
    using 3(1) [OF d _ 3(3)] c by (simp add: child_of_def)
  show ?case
  proof
    fix ks assume "ks \<in> set (leaf_keys j')"
    then obtain a b r where ab: "(a, b) \<in> set (AList.update key c d)" "r \<in> set (leaf_keys b)" "ks = a # r"
      using j' by auto
    show "ks \<in> insert (key # k # keys) (set (leaf_keys current))"
    proof (cases "(a, b) \<in> set d")
      case True
      then show ?thesis using ab d by auto
    next
      case False
      then have "a = key" "b = c" using ab(1) set_update_subset by fastforce+
      then show ?thesis using ab sub leaf_keys_child [of d key] d by auto
    qed
  qed
qed simp

declare leaf_keys.simps(1) [simp del]

subsection \<open>Projecting along a mapping\<close>

definition apart :: "string \<Rightarrow> string \<Rightarrow> bool" where
  "apart p q \<longleftrightarrow> incomparable (dotted_keys p) (dotted_keys q)"

lemma apart_sym: "apart p q \<longleftrightarrow> apart q p"
  by (auto simp: apart_def incomparable_sym)

lemma not_apart_same [simp]: "\<not> apart p p"
  by (simp add: apart_def incomparable_def)

lemma set_nested_Inr: "set_nested d p v = Inr d' \<longleftrightarrow> set_keys (JObj d) (dotted_keys p) v = Inr (JObj d')"
proof (cases "set_keys (JObj d) (dotted_keys p) v")
  case (Inr j)
  then obtain e where "j = JObj e" using set_keys_obj by blast
  then show ?thesis using Inr by (simp add: set_nested_def)
qed (simp add: set_nested_def)

lemma project_fold:
  assumes "sorted_wrt (\<lambda>m m'. apart (snd m) (snd m')) ms"
    and "\<forall>m\<in>set ms. settable (JObj acc) (dotted_keys (snd m)) \<and> get_nested acc (snd m) = JNull"
  shows "\<exists>target. foldl (project_step source) (Inr acc) ms = Inr target
    \<and> (\<forall>m\<in>set ms. get_nested target (snd m) = get_nested source (fst m))
    \<and> (\<forall>p. (\<forall>m\<in>set ms. apart (snd m) p) \<longrightarrow> get_nested target p = get_nested acc p)
    \<and> ((\<forall>m\<in>set ms. is_leaf (get_nested source (fst m))) \<longrightarrow>
        set (leaf_keys (JObj target)) \<subseteq> (dotted_keys \<circ> snd) ` set ms \<union> set (leaf_keys (JObj acc)))
    \<and> (\<forall>p. settable (JObj acc) (dotted_keys p)
        \<longrightarrow> (\<forall>m\<in>set ms. get_nested source (fst m) = JNull \<or> apart (snd m) p) \<longrightarrow> settable (JObj target) (dotted_keys p))"
  using assms
proof (induction ms arbitrary: acc)
  case (Cons m ms)
  obtain s t where m: "m = (s, t)" by (cases m)
  let ?v = "get_nested source s"
  have apart: "\<forall>m'\<in>set ms. apart t (snd m')" using Cons.prems(1) m by simp
  have settable: "settable (JObj acc) (dotted_keys t)" and null: "get_nested acc t = JNull"
    using Cons.prems(2) m by simp_all
  obtain acc' where step: "project_step source (Inr acc) m = Inr acc'"
    and here: "get_nested acc' t = ?v"
    and keep: "\<forall>p. apart t p \<longrightarrow> get_nested acc' p = get_nested acc p"
    and room: "\<forall>p. ?v = JNull \<or> apart t p \<longrightarrow> settable (JObj acc) (dotted_keys p) \<longrightarrow> settable (JObj acc') (dotted_keys p)"
    and leaves: "is_leaf ?v \<longrightarrow> set (leaf_keys (JObj acc')) \<subseteq> insert (dotted_keys t) (set (leaf_keys (JObj acc)))"
  proof (cases "?v = JNull")
    case True
    then show thesis using that [of acc] null m by (auto simp: project_step_def Let_def)
  next
    case False
    obtain d where d: "set_keys (JObj acc) (dotted_keys t) ?v = Inr (JObj d)"
      using set_keys_settable [OF settable] by blast
    then have "project_step source (Inr acc) m = Inr d"
      using False m by (simp add: project_step_def Let_def set_nested_Inr)
    then show thesis
      using that [of d] False get_set_same [OF d] get_set_other [OF d] settable_set_other [OF d] leaf_keys_set [OF d]
      unfolding get_nested_def apart_def by blast
  qed
  have rest: "\<forall>m'\<in>set ms. settable (JObj acc') (dotted_keys (snd m')) \<and> get_nested acc' (snd m') = JNull"
    using Cons.prems(2) apart keep room by auto
  obtain target where target: "foldl (project_step source) (Inr acc') ms = Inr target"
    and 1: "\<forall>m\<in>set ms. get_nested target (snd m) = get_nested source (fst m)"
    and 2: "\<forall>p. (\<forall>m\<in>set ms. apart (snd m) p) \<longrightarrow> get_nested target p = get_nested acc' p"
    and 3: "(\<forall>m\<in>set ms. is_leaf (get_nested source (fst m))) \<longrightarrow>
        set (leaf_keys (JObj target)) \<subseteq> (dotted_keys \<circ> snd) ` set ms \<union> set (leaf_keys (JObj acc'))"
    and 4: "\<forall>p. settable (JObj acc') (dotted_keys p) \<longrightarrow>
      (\<forall>m\<in>set ms. get_nested source (fst m) = JNull \<or> apart (snd m) p) \<longrightarrow> settable (JObj target) (dotted_keys p)"
    using Cons.IH [OF _ rest] Cons.prems(1) by auto
  have "get_nested target t = ?v" using 2 here apart by (auto simp: apart_sym [of _ t])
  moreover have "\<forall>p. (\<forall>m'\<in>set (m # ms). apart (snd m') p) \<longrightarrow> get_nested target p = get_nested acc p"
    using 2 keep m by simp
  moreover have "(\<forall>m'\<in>set (m # ms). is_leaf (get_nested source (fst m'))) \<longrightarrow>
        set (leaf_keys (JObj target)) \<subseteq> (dotted_keys \<circ> snd) ` set (m # ms) \<union> set (leaf_keys (JObj acc))"
    using 3 leaves m by (auto simp: subset_iff)
  moreover have "\<forall>p. settable (JObj acc) (dotted_keys p) \<longrightarrow>
      (\<forall>m'\<in>set (m # ms). get_nested source (fst m') = JNull \<or> apart (snd m') p) \<longrightarrow>
      settable (JObj target) (dotted_keys p)"
    using 4 room m by auto
  ultimately show ?case using target step 1 m by auto
qed simp

lemma project_fold_empty:
  assumes "sorted_wrt (\<lambda>m m'. apart (snd m) (snd m')) ms"
  shows "\<exists>target. foldl (project_step source) (Inr []) ms = Inr target
    \<and> (\<forall>m\<in>set ms. get_nested target (snd m) = get_nested source (fst m))
    \<and> ((\<forall>m\<in>set ms. is_leaf (get_nested source (fst m))) \<longrightarrow>
        set (leaf_keys (JObj target)) \<subseteq> (dotted_keys \<circ> snd) ` set ms)
    \<and> (\<forall>p. (\<forall>m\<in>set ms. apart (snd m) p) \<longrightarrow> get_nested target p = JNull)
    \<and> (\<forall>p. (\<forall>m\<in>set ms. get_nested source (fst m) = JNull \<or> apart (snd m) p) \<longrightarrow> settable (JObj target) (dotted_keys p))"
proof -
  have ne: "settable (JObj []) (dotted_keys p)" "get_nested [] p = JNull" for p
    by (simp_all add: dotted_keys_def settable_empty get_nested_def get_keys_empty)
  have "\<forall>m\<in>set ms. settable (JObj []) (dotted_keys (snd m)) \<and> get_nested [] (snd m) = JNull"
    using ne by simp
  from project_fold [OF assms this, of source] show ?thesis
    by (simp add: leaf_keys.simps(1) ne) blast
qed

text \<open>A default is written where there is no value, and only there.\<close>

lemma default_fold:
  assumes "sorted_wrt (\<lambda>d d'. apart (fst d) (fst d')) ds"
    and "\<forall>d\<in>set ds. get_nested acc (fst d) = JNull \<longrightarrow> settable (JObj acc) (dotted_keys (fst d))"
  shows "\<exists>target. foldl default_step (Inr acc) ds = Inr target
    \<and> (\<forall>(p, v)\<in>set ds. get_nested target p = (if get_nested acc p = JNull then v else get_nested acc p))
    \<and> (\<forall>p. (\<forall>d\<in>set ds. apart (fst d) p) \<longrightarrow> get_nested target p = get_nested acc p)"
  using assms
proof (induction ds arbitrary: acc)
  case (Cons d ds)
  obtain p v where d: "d = (p, v)" by (cases d)
  have apart: "\<forall>d'\<in>set ds. apart p (fst d')" using Cons.prems(1) d by simp
  obtain acc' where step: "default_step (Inr acc) d = Inr acc'"
    and here: "get_nested acc' p = (if get_nested acc p = JNull then v else get_nested acc p)"
    and keep: "\<forall>q. apart p q \<longrightarrow> get_nested acc' q = get_nested acc q
      \<and> (settable (JObj acc) (dotted_keys q) \<longrightarrow> settable (JObj acc') (dotted_keys q))"
  proof (cases "get_nested acc p = JNull")
    case True
    then have "settable (JObj acc) (dotted_keys p)" using Cons.prems(2) d by simp
    then obtain e where e: "set_keys (JObj acc) (dotted_keys p) v = Inr (JObj e)"
      using set_keys_settable by blast
    then have "default_step (Inr acc) d = Inr e" using True d by (simp add: default_step_def set_nested_Inr)
    then show thesis
      using that [of e] True get_set_same [OF e] get_set_other [OF e] settable_set_other [OF e]
      by (auto simp: get_nested_def apart_def)
  next
    case False
    then show thesis using that [of acc] d by (simp add: default_step_def)
  qed
  have "\<forall>d\<in>set ds. get_nested acc' (fst d) = JNull \<longrightarrow> settable (JObj acc') (dotted_keys (fst d))"
    using Cons.prems(2) apart keep by auto
  then obtain target where target: "foldl default_step (Inr acc') ds = Inr target"
    and 1: "\<forall>(q, w)\<in>set ds. get_nested target q = (if get_nested acc' q = JNull then w else get_nested acc' q)"
    and 2: "\<forall>q. (\<forall>d\<in>set ds. apart (fst d) q) \<longrightarrow> get_nested target q = get_nested acc' q"
    using Cons.IH [of acc'] Cons.prems(1) by auto
  have given: "get_nested target q = (if get_nested acc q = JNull then w else get_nested acc q)"
    if "(q, w) \<in> set (d # ds)" for q w
  proof (cases "(q, w) \<in> set ds")
    case True
    then have "apart p q" using apart by force
    then show ?thesis using True 1 keep by force
  next
    case False
    then have "q = p" "w = v" using that d by auto
    then show ?thesis using 2 apart here by (simp add: apart_sym [of _ p])
  qed
  have "\<forall>(q, w)\<in>set (d # ds). get_nested target q = (if get_nested acc q = JNull then w else get_nested acc q)"
    using given by blast
  moreover have "\<forall>q. (\<forall>d'\<in>set (d # ds). apart (fst d') q) \<longrightarrow> get_nested target q = get_nested acc q"
    using 2 keep d by simp
  ultimately show ?case using target step by (intro exI [of _ target]) simp
qed simp

subsection \<open>Inverting a mapping\<close>

lemma update_new: "k \<notin> fst ` set d \<Longrightarrow> AList.update k v d = d @ [(k, v)]"
  by (induction d) auto

lemma invert_fold:
  "distinct (map snd ms) \<Longrightarrow> snd ` set ms \<inter> fst ` set acc = {} \<Longrightarrow>
   foldl invert_step (Inr acc) ms = Inr (acc @ map (\<lambda>(e, c). (c, e)) ms)"
proof (induction ms arbitrary: acc)
  case (Cons m ms)
  obtain e c where m: "m = (e, c)" by (cases m)
  have new: "c \<notin> fst ` set acc" using Cons.prems m by auto
  then have "map_of acc c = None" by (simp add: map_of_eq_None_iff)
  then have "invert_step (Inr acc) m = Inr (acc @ [(c, e)])"
    using m new by (simp add: invert_step_def update_new)
  then show ?case using Cons m by auto
qed simp

lemma invert_mapping_distinct:
  "distinct (map snd ms) \<Longrightarrow> invert_mapping ms = Inr (map (\<lambda>(e, c). (c, e)) ms)"
  using invert_fold [of ms "[]"] by (simp add: invert_mapping_def)

subsection \<open>The round trip\<close>

text \<open>
  A mapping that can be undone: on both sides no path is a prefix of another, and the exposed paths
  have no empty component.
\<close>

definition mapping_ok :: "(string \<times> string) list \<Rightarrow> bool" where
  "mapping_ok ms \<longleftrightarrow> ms \<noteq> [] \<and> sorted_wrt (\<lambda>m m'. apart (fst m) (fst m')) ms
     \<and> sorted_wrt (\<lambda>m m'. apart (snd m) (snd m')) ms \<and> list_all (\<lambda>m. path_simple (fst m)) ms"

lemma apart_distinct: "sorted_wrt (\<lambda>m m'. apart (f m) (f m')) ms \<Longrightarrow> distinct (map f ms)"
  by (induction ms) auto

lemma no_unmapped_leaf:
  assumes "set (iter_leaf_paths (JObj args) []) \<subseteq> fst ` set ms"
  shows "unmapped_leaf_paths args ms = []"
proof -
  have "\<forall>p\<in>set (iter_leaf_paths (JObj args) []). map_of ms p \<noteq> None"
    using assms by (simp add: map_of_eq_None_iff subset_iff)
  then have "filter (\<lambda>p. map_of ms p = None) (iter_leaf_paths (JObj args) []) = []"
    by (intro filter_False) blast
  then show ?thesis by (simp add: unmapped_leaf_paths_def del: iter_leaf_paths.simps)
qed

text \<open>
  Defaults that do not get in each other's way: none is written above or below another one or a
  mapped field.  One for a mapped field itself is allowed.
\<close>

definition defaults_ok :: "ToolAdapter \<Rightarrow> bool" where
  "defaults_ok a \<longleftrightarrow> sorted_wrt (\<lambda>d d'. apart (fst d) (fst d')) (ta_defaults a)
     \<and> list_all (\<lambda>d. list_all (\<lambda>m. snd m = fst d \<or> apart (snd m) (fst d)) (ta_exposed_to_canonical a)) (ta_defaults a)"

definition or_default :: "pydict \<Rightarrow> string \<Rightarrow> json \<Rightarrow> json" where
  "or_default defaults p v =
     (if v = JNull then case map_of defaults p of None \<Rightarrow> JNull | Some d \<Rightarrow> d else v)"

text \<open>What \<open>map_arguments\<close> gives before the canonical schema is looked at.\<close>

lemma map_projected:
  assumes ok: "mapping_ok (ta_exposed_to_canonical a)" "defaults_ok a"
    and source: "\<forall>m\<in>set (ta_exposed_to_canonical a). get_nested exposed (fst m) = v (snd m)"
  shows "\<exists>c. res_bind (foldl (project_step exposed) (Inr []) (ta_exposed_to_canonical a))
        (\<lambda>mapped. foldl default_step (Inr mapped) (ta_defaults a)) = Inr c
    \<and> list_all (\<lambda>m. get_nested c (snd m) = or_default (ta_defaults a) (snd m) (v (snd m))) (ta_exposed_to_canonical a)
    \<and> list_all (\<lambda>d. list_ex (\<lambda>m. snd m = fst d) (ta_exposed_to_canonical a) \<or> get_nested c (fst d) = snd d) (ta_defaults a)"
proof -
  let ?ms = "ta_exposed_to_canonical a" and ?ds = "ta_defaults a"
  have apart_ms: "sorted_wrt (\<lambda>m m'. apart (snd m) (snd m')) ?ms"
    and apart_ds: "sorted_wrt (\<lambda>d d'. apart (fst d) (fst d')) ?ds"
    and across: "\<forall>d\<in>set ?ds. \<forall>m\<in>set ?ms. snd m = fst d \<or> apart (snd m) (fst d)"
    using ok by (auto simp: mapping_ok_def defaults_ok_def list_all_iff)
  obtain mapped where mapped: "foldl (project_step exposed) (Inr []) ?ms = Inr mapped"
    and fields: "\<forall>m\<in>set ?ms. get_nested mapped (snd m) = v (snd m)"
    and free: "\<forall>p. (\<forall>m\<in>set ?ms. apart (snd m) p) \<longrightarrow> get_nested mapped p = JNull"
    and room: "\<forall>p. (\<forall>m\<in>set ?ms. v (snd m) = JNull \<or> apart (snd m) p) \<longrightarrow> settable (JObj mapped) (dotted_keys p)"
    using project_fold_empty [OF apart_ms, of exposed] source by auto
  have "\<forall>d\<in>set ?ds. get_nested mapped (fst d) = JNull \<longrightarrow> settable (JObj mapped) (dotted_keys (fst d))"
    using across fields room by metis
  from default_fold [OF apart_ds this] obtain c where c: "foldl default_step (Inr mapped) ?ds = Inr c"
    and defaulted: "\<forall>(p, w)\<in>set ?ds. get_nested c p = (if get_nested mapped p = JNull then w else get_nested mapped p)"
    and others: "\<forall>p. (\<forall>d\<in>set ?ds. apart (fst d) p) \<longrightarrow> get_nested c p = get_nested mapped p"
    by blast
  have "get_nested c (snd m) = or_default ?ds (snd m) (v (snd m))" if m: "m \<in> set ?ms" for m
  proof (cases "map_of ?ds (snd m)")
    case None
    then have "\<forall>d\<in>set ?ds. apart (fst d) (snd m)"
      using across m by (force simp: map_of_eq_None_iff apart_sym)
    then show ?thesis using others fields m None by (simp add: or_default_def)
  next
    case (Some w)
    then have "(snd m, w) \<in> set ?ds" by (rule map_of_SomeD)
    then show ?thesis using defaulted fields m Some by (auto simp: or_default_def)
  qed
  moreover have "list_ex (\<lambda>m. snd m = fst d) ?ms \<or> get_nested c (fst d) = snd d" if d: "d \<in> set ?ds" for d
    using across d defaulted free by (force simp: list_ex_iff)
  ultimately show ?thesis using mapped c by (auto simp: list_all_iff)
qed

text \<open>C22: What an adapter projects into the exposed schema it maps back, with the same schemas on both
  ways.  Take a mapping without a path above or below another one, defaults that do not interfere, and
  canonical arguments whose mapped fields are not objects.  If they can be projected, then mapping the
  result back fails only if the canonical schema refuses what comes out; and there every mapped field
  has its value again, or, if it had none, the default of that field, and every default for a field
  that is not mapped is filled in.\<close>

theorem adapter_roundtrip:
  assumes "mapping_ok (ta_exposed_to_canonical a)" and "defaults_ok a"
    and "list_all (\<lambda>m. is_leaf (get_nested canonical (snd m))) (ta_exposed_to_canonical a)"
    and "to_exposed_args a canonical exposed_schema canonical_schema = Inr exposed"
  shows "\<exists>canonical'. map_arguments a exposed exposed_schema canonical_schema
      = res_bind (validate_optional (JObj canonical') canonical_schema ''canonical'') (\<lambda>_. Inr canonical')
    \<and> list_all (\<lambda>m. get_nested canonical' (snd m)
        = or_default (ta_defaults a) (snd m) (get_nested canonical (snd m))) (ta_exposed_to_canonical a)
    \<and> list_all (\<lambda>d. list_ex (\<lambda>m. snd m = fst d) (ta_exposed_to_canonical a)
        \<or> get_nested canonical' (fst d) = snd d) (ta_defaults a)"
proof -
  let ?ms = "ta_exposed_to_canonical a" and ?inv = "map (\<lambda>(e, c). (c, e)) (ta_exposed_to_canonical a)"
  have ok: "?ms \<noteq> []" "sorted_wrt (\<lambda>m m'. apart (fst m) (fst m')) ?ms"
    "sorted_wrt (\<lambda>m m'. apart (snd m) (snd m')) ?ms" "\<forall>m\<in>set ?ms. path_simple (fst m)"
    using assms(1) by (auto simp: mapping_ok_def list_all_iff)
  have inverted: "invert_mapping ?ms = Inr ?inv" by (rule invert_mapping_distinct [OF apart_distinct [OF ok(3)]])
  have "foldl (project_step canonical) (Inr []) ?inv = Inr exposed"
    and schema: "validate_optional (JObj exposed) exposed_schema ''exposed'' = Inr ()"
    using assms(4) ok(1) inverted
    by (auto simp: to_exposed_args_def Let_def argument_error_def res_bind_Inr_iff split: if_splits)
  moreover have "sorted_wrt (\<lambda>m m'. apart (snd m) (snd m')) ?inv"
    using ok(2) by (simp add: sorted_wrt_map case_prod_beta)
  ultimately have ex: "\<forall>m\<in>set ?ms. get_nested exposed (fst m) = get_nested canonical (snd m)"
    and leaves: "set (leaf_keys (JObj exposed)) \<subseteq> (dotted_keys \<circ> fst) ` set ?ms"
    using project_fold_empty [of ?inv canonical] assms(3)
    by (auto simp: list_all_iff case_prod_beta image_image)
  have "set (iter_leaf_paths (JObj exposed) []) \<subseteq> fst ` set ?ms"
  proof
    fix p assume "p \<in> set (iter_leaf_paths (JObj exposed) [])"
    then obtain keys where "keys \<in> set (leaf_keys (JObj exposed))" "p = path_from [] keys"
      using iter_leaf_paths_keys by blast
    then obtain m where "m \<in> set ?ms" "p = path_from [] (dotted_keys (fst m))" using leaves by auto
    then show "p \<in> fst ` set ?ms" using ok(4) path_from_dotted by auto
  qed
  then have "unmapped_leaf_paths exposed ?ms = []" by (rule no_unmapped_leaf)
  then have "map_arguments a exposed exposed_schema canonical_schema =
      res_bind (res_bind (foldl (project_step exposed) (Inr []) ?ms)
        (\<lambda>mapped. foldl default_step (Inr mapped) (ta_defaults a)))
      (\<lambda>c. res_bind (validate_optional (JObj c) canonical_schema ''canonical'') (\<lambda>_. Inr c))"
    using ok(1) schema
    by (cases "foldl (project_step exposed) (Inr []) ?ms") (simp_all add: map_arguments_def Let_def)
  then show ?thesis using map_projected [OF assms(1,2) ex] by auto
qed

definition example_adapter :: ToolAdapter where
  "example_adapter = \<lparr>ta_exposed_to_canonical = [(''where.file'', ''path''), (''where.line'', ''line'')],
     ta_defaults = [(''line'', JInt 1), (''mode'', JStr ''text'')]\<rparr>"

definition example_schema :: pydict where
  "example_schema =
     [(''type'', JStr ''object''), (''required'', JList [JStr ''path'']),
      (''properties'', JObj [(''path'', JObj [(''type'', JStr ''string'')]),
         (''line'', JObj [(''type'', JStr ''integer'')]), (''mode'', JObj [(''type'', JStr ''string'')])])]"

lemma adapter_roundtrip_witness:
  "\<exists>canonical'. map_arguments example_adapter [(''where'', JObj [(''file'', JStr ''a.txt'')])] None (Some example_schema)
      = res_bind (validate_optional (JObj canonical') (Some example_schema) ''canonical'') (\<lambda>_. Inr canonical')
    \<and> list_all (\<lambda>m. get_nested canonical' (snd m) = or_default (ta_defaults example_adapter) (snd m)
          (get_nested [(''path'', JStr ''a.txt'')] (snd m)))
        (ta_exposed_to_canonical example_adapter)
    \<and> list_all (\<lambda>d. list_ex (\<lambda>m. snd m = fst d) (ta_exposed_to_canonical example_adapter)
        \<or> get_nested canonical' (fst d) = snd d) (ta_defaults example_adapter)"
  by (rule adapter_roundtrip; code_simp)

end
