(* ===== verification/Training_Text.thy ===== *)
theory Training_Text
  imports Tool_Spec
begin

section \<open>Training text and loss masks\<close>

text \<open>
  \<open>rl/serializer.py\<close>, \<open>rl/loss_mask.py\<close> and the records of \<open>rl/schema_following.py\<close>: a
  trajectory or a schema-following sample becomes a list of tagged segments, of which only the
  tool calls of the assistant are trained on, and the mask has one entry per character of the
  text.  Rewards and scores are rational numbers.
\<close>

subsection \<open>Segments\<close>

record SerializedSegment =
  seg_kind :: string
  seg_text :: string
  seg_trainable :: bool
  seg_metadata :: pydict

record SerializedTrajectory =
  sz_task_id :: string
  sz_tool_profile_id :: string
  sz_segments :: "SerializedSegment list"
  sz_text :: string
  sz_reward :: rat
  sz_status :: string
  sz_verifier_passed :: bool
  sz_verifier_score :: rat
  sz_metadata :: pydict

definition serialize_tool_call :: "ToolCall \<Rightarrow> string" where
  "serialize_tool_call c =
     json_dumps (JObj ([(''id'', JStr (tc_id c)), (''name'', JStr (tc_name c))]
       @ (case tc_input_text c of
            Some t \<Rightarrow> [(''payload_kind'', JStr (ToolPayloadKind_value INPUT_TEXT)), (''input_text'', JStr t)]
          | None \<Rightarrow> [(''arguments'', JObj (tc_arguments c))])))"

definition wrap_tagged_segment :: "string \<Rightarrow> string \<Rightarrow> string" where
  "wrap_tagged_segment tag content =
     ''<'' @ tag @ ''>'' @ LF # content @ LF # ''</'' @ tag @ ''>'' @ [LF]"

definition render_tool_call_segment :: "ToolCall \<Rightarrow> string" where
  "render_tool_call_segment c = ''<|tool|>'' @ LF # serialize_tool_call c @ LF # ''<|end|>'' @ [LF]"

text \<open>The name is any value of the metadata of a schema-following message, printed as an f-string does.\<close>

definition render_tool_result_segment :: "string \<Rightarrow> json \<Rightarrow> string" where
  "render_tool_result_segment content tool_name =
     ''<tool_result name='' @ [CHR 0x22] @ (if py_truthy tool_name then py_str tool_name else ''tool'')
     @ [CHR 0x22] @ ''>'' @ LF # content @ LF # ''</tool_result>'' @ [LF]"

definition plain_segment :: "string \<Rightarrow> string \<Rightarrow> pydict \<Rightarrow> SerializedSegment" where
  "plain_segment kind t metadata =
     \<lparr>seg_kind = kind, seg_text = t, seg_trainable = False, seg_metadata = metadata\<rparr>"

definition tool_call_segment :: "string \<Rightarrow> pydict \<Rightarrow> SerializedSegment" where
  "tool_call_segment t metadata =
     \<lparr>seg_kind = ''assistant_tool_call'', seg_text = t, seg_trainable = True, seg_metadata = metadata\<rparr>"

text \<open>The segments of one message, and of a trajectory.\<close>

definition message_segments :: "Message \<Rightarrow> SerializedSegment list" where
  "message_segments m =
     (case msg_role m of
        SYSTEM \<Rightarrow> [plain_segment ''system'' (wrap_tagged_segment ''system'' (msg_content m)) []]
      | USER \<Rightarrow> [plain_segment ''user'' (wrap_tagged_segment ''user'' (msg_content m)) []]
      | ASSISTANT \<Rightarrow>
          (if msg_content m \<noteq> ''''
           then [plain_segment ''assistant'' (wrap_tagged_segment ''assistant'' (msg_content m)) []] else [])
          @ map (\<lambda>c. tool_call_segment (render_tool_call_segment c)
               [(''tool_call_id'', JStr (tc_id c)), (''tool_name'', JStr (tc_name c)),
                (''canonical_name'', opt_str (tc_canonical_name c))]) (msg_tool_calls m)
      | TOOL \<Rightarrow>
          [plain_segment ''tool'' (render_tool_result_segment (msg_content m) (opt_str (msg_tool_name m)))
             [(''tool_call_id'', opt_str (msg_tool_call_id m)), (''tool_name'', opt_str (msg_tool_name m)),
              (''canonical_name'', opt_str (msg_canonical_name m))]])"

definition serialize_trajectory :: "Trajectory \<Rightarrow> SerializedTrajectory" where
  "serialize_trajectory t =
     (let segments = concat (map message_segments (tj_messages t)) in
      \<lparr>sz_task_id = tj_task_id t, sz_tool_profile_id = tj_tool_profile_id t, sz_segments = segments,
       sz_text = concat (map seg_text segments), sz_reward = tj_reward t,
       sz_status = RunStatus_value (tj_status t),
       sz_verifier_passed = (case tj_verifier t of None \<Rightarrow> False | Some v \<Rightarrow> vr_passed v),
       sz_verifier_score = (case tj_verifier t of None \<Rightarrow> 0 | Some v \<Rightarrow> vr_score v),
       sz_metadata = [(''repo'', JStr (tj_repo t)), (''final_diff'', JStr (tj_final_diff t)),
         (''tool_versions'', JObj (map (\<lambda>(k, d). (k, JObj (map (\<lambda>(a, b). (a, JStr b)) d)))
            (tj_tool_versions t)))]\<rparr>)"

subsection \<open>Loss masks\<close>

record TrainableSpan =
  sp_start :: int
  sp_end :: int
  sp_trainable :: bool

record LossMask =
  lm_total_length :: nat
  lm_character_mask :: "int list"
  lm_spans :: "TrainableSpan list"
  lm_trainable_char_count :: int
  lm_non_trainable_char_count :: int

definition seg_length :: "SerializedSegment \<Rightarrow> int" where
  "seg_length s = int (length (seg_text s))"

definition segment_mask :: "SerializedSegment \<Rightarrow> int list" where
  "segment_mask s = replicate (length (seg_text s)) (if seg_trainable s then 1 else 0)"

text \<open>The loop over the segments, with the mask and the spans made so far and the offset.\<close>

fun loss_mask_loop ::
  "int list \<Rightarrow> TrainableSpan list \<Rightarrow> int \<Rightarrow> SerializedSegment list \<Rightarrow> int list \<times> TrainableSpan list" where
  "loss_mask_loop bits spans offset [] = (bits, spans)"
| "loss_mask_loop bits spans offset (s # segments) =
     loss_mask_loop (bits @ segment_mask s)
       (spans @ [\<lparr>sp_start = offset, sp_end = offset + seg_length s, sp_trainable = seg_trainable s\<rparr>])
       (offset + seg_length s) segments"

definition build_loss_mask :: "SerializedSegment list \<Rightarrow> LossMask" where
  "build_loss_mask segments =
     (let (mask, spans) = loss_mask_loop [] [] 0 segments; trainable = sum_list mask in
      \<lparr>lm_total_length = length mask, lm_character_mask = mask, lm_spans = spans,
       lm_trainable_char_count = trainable,
       lm_non_trainable_char_count = int (length mask) - trainable\<rparr>)"

text \<open>\<open>get_trainable_segments\<close>: each trainable segment with its place in the text.\<close>

fun trainable_segments_from :: "int \<Rightarrow> SerializedSegment list \<Rightarrow> (SerializedSegment \<times> int \<times> int) list" where
  "trainable_segments_from offset [] = []"
| "trainable_segments_from offset (s # segments) =
     (if seg_trainable s then [(s, offset, offset + seg_length s)] else [])
     @ trainable_segments_from (offset + seg_length s) segments"

definition get_trainable_segments :: "SerializedSegment list \<Rightarrow> (SerializedSegment \<times> int \<times> int) list" where
  "get_trainable_segments segments = trainable_segments_from 0 segments"

subsection \<open>Schema-following samples\<close>

record CanonicalToolIntent =
  ci_tool :: string
  ci_arguments :: pydict
  ci_input_text :: "string option"

text \<open>Constructing one checks the tool name and the shape of the payload.\<close>

definition canonical_tool_intent :: "string \<Rightarrow> pydict \<Rightarrow> string option \<Rightarrow> spec_error + CanonicalToolIntent" where
  "canonical_tool_intent tool args input_text =
     (if py_strip tool = [] then Inl (ValidationErr ''tool'')
      else if input_text \<noteq> None \<and> args \<noteq> [] then Inl (ValidationErr ''CanonicalToolIntent'')
      else Inr \<lparr>ci_tool = tool, ci_arguments = args, ci_input_text = input_text\<rparr>)"

definition CanonicalToolIntent_model_dump :: "CanonicalToolIntent \<Rightarrow> pydict" where
  "CanonicalToolIntent_model_dump i =
     (''tool'', JStr (ci_tool i))
     # (if ci_input_text i \<noteq> None \<and> ci_arguments i = [] then []
        else [(''arguments'', JObj (ci_arguments i))])
     @ (case ci_input_text i of None \<Rightarrow> [] | Some t \<Rightarrow> [(''input_text'', JStr t)])
     @ (if ci_input_text i \<noteq> None \<and> ci_arguments i = []
        then [(''payload_kind'', JStr (ToolPayloadKind_value INPUT_TEXT))] else [])"

definition target_payload :: "ExposedToolCallTarget \<Rightarrow> pydict" where
  "target_payload c =
     [(''id'', JStr (et_call_id c)), (''name'', JStr (et_name c))]
     @ (case et_payload c of
          InputText t \<Rightarrow> [(''payload_kind'', JStr (ToolPayloadKind_value INPUT_TEXT)), (''input_text'', JStr t)]
        | Arguments d \<Rightarrow> [(''arguments'', JObj d)])"

definition render_exposed_tool_call_text :: "ExposedToolCallTarget \<Rightarrow> string" where
  "render_exposed_tool_call_text c =
     ''<|tool|>'' @ LF # json_dumps (JObj (target_payload c)) @ LF # ''<|end|>'' @ [LF]"

record SchemaFollowingMessage =
  sm_role :: Role
  sm_content :: string
  sm_metadata :: pydict

record SchemaFollowingSample =
  sf_sample_id :: string
  sf_source_type :: string
  sf_split :: string
  sf_task_id :: string
  sf_tool_profile_id :: string
  sf_mutation_category :: string
  sf_messages :: "SchemaFollowingMessage list"
  sf_canonical_intent :: CanonicalToolIntent
  sf_target_tool_call :: ExposedToolCallTarget
  sf_target_text :: string
  sf_metadata :: pydict

text \<open>The validators of a sample; the closed sets of names of its literal fields are not repeated.\<close>

definition schema_following_sample :: "SchemaFollowingSample \<Rightarrow> spec_error + SchemaFollowingSample" where
  "schema_following_sample s =
     (case List.find (\<lambda>(name, v). py_strip v = [])
         [(''sample_id'', sf_sample_id s), (''task_id'', sf_task_id s),
          (''tool_profile_id'', sf_tool_profile_id s), (''mutation_category'', sf_mutation_category s),
          (''target_text'', sf_target_text s)] of
        Some (name, v) \<Rightarrow> Inl (ValidationErr name)
      | None \<Rightarrow>
          if sf_messages s = [] then Inl (ValidationErr ''messages'')
          else if sf_target_text s \<noteq> render_exposed_tool_call_text (sf_target_tool_call s)
          then Inl (ValidationErr ''target_text'')
          else Inr s)"

definition schema_following_segment :: "SchemaFollowingMessage \<Rightarrow> SerializedSegment" where
  "schema_following_segment m =
     (let kind = Role_value (sm_role m) in
      plain_segment kind
        (if sm_role m = TOOL then render_tool_result_segment (sm_content m) (dict_get (sm_metadata m) ''tool_name'')
         else wrap_tagged_segment kind (sm_content m))
        (sm_metadata m))"

record SerializedSchemaFollowingSample =
  ss_sample_id :: string
  ss_source_type :: string
  ss_split :: string
  ss_task_id :: string
  ss_tool_profile_id :: string
  ss_mutation_category :: string
  ss_segments :: "SerializedSegment list"
  ss_text :: string
  ss_metadata :: pydict

definition serialize_schema_following_sample :: "SchemaFollowingSample \<Rightarrow> SerializedSchemaFollowingSample" where
  "serialize_schema_following_sample s =
     (let segments = map schema_following_segment (sf_messages s)
            @ [tool_call_segment (sf_target_text s)
                [(''tool_call_id'', JStr (et_call_id (sf_target_tool_call s))),
                 (''tool_name'', JStr (et_name (sf_target_tool_call s))),
                 (''canonical_name'', JStr (ci_tool (sf_canonical_intent s)))]]
      in \<lparr>ss_sample_id = sf_sample_id s, ss_source_type = sf_source_type s, ss_split = sf_split s,
          ss_task_id = sf_task_id s, ss_tool_profile_id = sf_tool_profile_id s,
          ss_mutation_category = sf_mutation_category s, ss_segments = segments,
          ss_text = concat (map seg_text segments),
          ss_metadata = dict_update (sf_metadata s)
            [(''canonical_intent'', JObj (CanonicalToolIntent_model_dump (sf_canonical_intent s))),
             (''target_tool_call'', JObj (target_payload (sf_target_tool_call s)))]\<rparr>)"

subsection \<open>The mask and the spans of a list of segments\<close>

fun segment_spans :: "int \<Rightarrow> SerializedSegment list \<Rightarrow> TrainableSpan list" where
  "segment_spans offset [] = []"
| "segment_spans offset (s # segments) =
     \<lparr>sp_start = offset, sp_end = offset + seg_length s, sp_trainable = seg_trainable s\<rparr>
     # segment_spans (offset + seg_length s) segments"

lemma loss_mask_loop_eq:
  "loss_mask_loop bits spans offset segments =
     (bits @ concat (map segment_mask segments), spans @ segment_spans offset segments)"
  by (induction bits spans offset segments rule: loss_mask_loop.induct) simp_all

lemma build_loss_mask_eq:
  "lm_character_mask (build_loss_mask segments) = concat (map segment_mask segments)"
  "lm_spans (build_loss_mask segments) = segment_spans 0 segments"
  "lm_trainable_char_count (build_loss_mask segments) = sum_list (concat (map segment_mask segments))"
  "lm_total_length (build_loss_mask segments) = length (concat (map seg_text segments))"
  by (simp_all add: build_loss_mask_def loss_mask_loop_eq length_concat segment_mask_def comp_def Let_def)

lemma length_segment_mask [simp]: "length (segment_mask s) = length (seg_text s)"
  by (simp add: segment_mask_def)

lemma length_masks [simp]:
  "length (concat (map segment_mask segments)) = length (concat (map seg_text segments))"
  by (simp add: length_concat comp_def)

lemma length_segment_spans [simp]: "length (segment_spans offset segments) = length segments"
  by (induction segments arbitrary: offset) simp_all

lemma masks_01: "set (concat (map segment_mask segments)) \<subseteq> {0, 1}"
  by (auto simp: segment_mask_def split: if_splits)

text \<open>Only tool calls are trained on.\<close>

definition only_calls_trained :: "SerializedSegment list \<Rightarrow> bool" where
  "only_calls_trained segments =
     list_all (\<lambda>s. seg_kind s \<noteq> [] \<and> (seg_trainable s \<longrightarrow> seg_kind s = ''assistant_tool_call'')) segments"

lemma message_segments_trained: "only_calls_trained (message_segments m)"
  by (auto simp: only_calls_trained_def message_segments_def plain_segment_def tool_call_segment_def
      list_all_iff split: Role.splits)

lemma serialize_trajectory_trained: "only_calls_trained (sz_segments (serialize_trajectory t))"
  using message_segments_trained
  by (fastforce simp: only_calls_trained_def serialize_trajectory_def Let_def list_all_iff)

lemma schema_following_trained:
  "only_calls_trained (ss_segments (serialize_schema_following_sample s))"
proof -
  have "Role_value r \<noteq> []" for r by (cases r) simp_all
  then show ?thesis
    by (simp add: only_calls_trained_def serialize_schema_following_sample_def Let_def list_all_iff
        schema_following_segment_def plain_segment_def tool_call_segment_def)
qed

end
