(* ===== verification/Prepared_Sample.thy ===== *)
theory Prepared_Sample
  imports Training_Text
begin

section \<open>Prepared samples and rollouts\<close>

text \<open>
  \<open>rl/prepared_sample.py\<close>, \<open>rl/sample_builder.py\<close>, \<open>rl/schema_following_training.py\<close>,
  \<open>rl/slime_rollout.py\<close> and the checks of samples and rollouts in \<open>rl/contract.py\<close>.  Segments and
  spans are dictionaries here, since they are read back from files; the checks read them as the
  code does.
\<close>

definition ASSISTANT_TOOL_CALL_ONLY :: string where
  "ASSISTANT_TOOL_CALL_ONLY = ''assistant_tool_call_only''"

record PreparedSample =
  ps_sample_id :: string
  ps_sample_type :: string
  ps_source_type :: string
  ps_split :: string
  ps_task_id :: string
  ps_tool_profile_id :: string
  ps_mutation_category :: "string option"
  ps_text :: string
  ps_segments :: "pydict list"
  ps_character_mask :: "int list"
  ps_spans :: "pydict list"
  ps_trainable_char_count :: int
  ps_reward :: "rat option"
  ps_status :: "string option"
  ps_verifier_passed :: "bool option"
  ps_verifier_score :: "rat option"
  ps_metadata :: pydict

subsection \<open>The contract of a prepared sample\<close>

definition indexed_error :: "string \<Rightarrow> nat \<Rightarrow> string \<Rightarrow> string + 'a" where
  "indexed_error what index problem = Inl (''PreparedSample '' @ what @ '' '' @ nat_digits index @ problem)"

text \<open>One segment with its span, at an offset: its text and whether it is trained on.\<close>

definition check_segment :: "nat \<Rightarrow> int \<Rightarrow> pydict \<Rightarrow> pydict \<Rightarrow> string + string \<times> bool" where
  "check_segment index offset segment sp =
     (case dict_get segment ''kind'' of
        JStr kind \<Rightarrow>
          if kind = [] then indexed_error ''segment'' index '' has invalid kind''
          else (case dict_get segment ''text'' of
            JStr segment_text \<Rightarrow>
              (case dict_get segment ''trainable'' of
                 JBool trainable \<Rightarrow>
                   if trainable \<and> kind \<noteq> ''assistant_tool_call''
                   then Inl ''PreparedSample only permits assistant_tool_call segments to be trainable''
                   else if py_eq (dict_get sp ''start'') (JInt offset)
                     \<and> py_eq (dict_get sp ''end'') (JInt (offset + int (length segment_text)))
                     \<and> py_eq (dict_get sp ''trainable'') (JBool trainable)
                   then Inr (segment_text, trainable)
                   else indexed_error ''span'' index '' does not match its segment''
               | _ \<Rightarrow> indexed_error ''segment'' index '' has invalid trainable flag'')
          | _ \<Rightarrow> indexed_error ''segment'' index '' has invalid text'')
      | _ \<Rightarrow> indexed_error ''segment'' index '' has invalid kind'')"

text \<open>The loop over both lists, of equal length, with what has been rebuilt so far.\<close>

fun check_segments ::
  "nat \<Rightarrow> int \<Rightarrow> string \<Rightarrow> int list \<Rightarrow> pydict list \<Rightarrow> pydict list \<Rightarrow> string + string \<times> int list" where
  "check_segments index offset text_so_far bits (segment # segments) (sp # spans) =
     (case check_segment index offset segment sp of
        Inl e \<Rightarrow> Inl e
      | Inr (t, trainable) \<Rightarrow>
          check_segments (Suc index) (offset + int (length t)) (text_so_far @ t)
            (bits @ replicate (length t) (if trainable then 1 else 0)) segments spans)"
| "check_segments index offset text_so_far bits segments spans = Inr (text_so_far, bits)"

definition outcome_complete :: "PreparedSample \<Rightarrow> bool" where
  "outcome_complete s =
     (let absent = [ps_reward s = None, ps_status s = None, ps_verifier_passed s = None,
                    ps_verifier_score s = None]
      in True \<notin> set absent \<or> False \<notin> set absent)"

definition required_texts :: "PreparedSample \<Rightarrow> (string \<times> string) list" where
  "required_texts s =
     [(''sample_id'', ps_sample_id s), (''sample_type'', ps_sample_type s),
      (''source_type'', ps_source_type s), (''split'', ps_split s), (''task_id'', ps_task_id s),
      (''tool_profile_id'', ps_tool_profile_id s)]"

definition validate_contract :: "PreparedSample \<Rightarrow> string + PreparedSample" where
  "validate_contract s =
     (case List.find (\<lambda>(name, v). py_strip v = []) (required_texts s) of
        Some (name, v) \<Rightarrow> Inl (name @ '' must be a non-empty string'')
      | None \<Rightarrow>
          if length (ps_text s) \<noteq> length (ps_character_mask s)
          then Inl ''PreparedSample character_mask length must match serialized text''
          else if \<not> set (ps_character_mask s) \<subseteq> {0, 1}
          then Inl ''PreparedSample character_mask must contain only 0 or 1''
          else if sum_list (ps_character_mask s) \<noteq> ps_trainable_char_count s
          then Inl ''PreparedSample trainable_char_count must equal character_mask sum''
          else if length (ps_segments s) \<noteq> length (ps_spans s)
          then Inl ''PreparedSample segments and spans must have equal length''
          else res_bind (check_segments 0 0 [] [] (ps_segments s) (ps_spans s)) (\<lambda>(rebuilt, expected).
            if rebuilt \<noteq> ps_text s
            then Inl ''PreparedSample segments must reconstruct serialized text''
            else if expected \<noteq> ps_character_mask s
            then Inl ''PreparedSample character_mask must match segment trainability''
            else if \<not> outcome_complete s
            then Inl ''PreparedSample run outcome fields must be all present or all absent''
            else Inr s))"

subsection \<open>Building samples\<close>

definition segment_dump :: "SerializedSegment \<Rightarrow> pydict" where
  "segment_dump s = [(''kind'', JStr (seg_kind s)), (''text'', JStr (seg_text s)),
     (''trainable'', JBool (seg_trainable s)), (''metadata'', JObj (seg_metadata s))]"

definition span_dump :: "TrainableSpan \<Rightarrow> pydict" where
  "span_dump s = [(''start'', JInt (sp_start s)), (''end'', JInt (sp_end s)),
     (''trainable'', JBool (sp_trainable s))]"

definition merged_metadata :: "pydict \<Rightarrow> pydict option \<Rightarrow> pydict" where
  "merged_metadata metadata extra = (case extra of None \<Rightarrow> metadata | Some e \<Rightarrow> dict_update metadata e)"

text \<open>The sample of a serialized trajectory, before and after its contract is checked.\<close>

definition trajectory_sample :: "SerializedTrajectory \<Rightarrow> pydict option \<Rightarrow> PreparedSample" where
  "trajectory_sample z extra =
     (let mask = build_loss_mask (sz_segments z) in
      \<lparr>ps_sample_id = ''trajectory::'' @ sz_task_id z @ ''::'' @ sz_tool_profile_id z,
       ps_sample_type = ''trajectory'', ps_source_type = ''trajectory'', ps_split = ''train'',
       ps_task_id = sz_task_id z, ps_tool_profile_id = sz_tool_profile_id z,
       ps_mutation_category = None, ps_text = sz_text z,
       ps_segments = map segment_dump (sz_segments z), ps_character_mask = lm_character_mask mask,
       ps_spans = map span_dump (lm_spans mask), ps_trainable_char_count = lm_trainable_char_count mask,
       ps_reward = Some (sz_reward z), ps_status = Some (sz_status z),
       ps_verifier_passed = Some (sz_verifier_passed z), ps_verifier_score = Some (sz_verifier_score z),
       ps_metadata = merged_metadata (sz_metadata z) extra\<rparr>)"

definition build_training_sample_from_serialized ::
  "SerializedTrajectory \<Rightarrow> pydict option \<Rightarrow> string + PreparedSample" where
  "build_training_sample_from_serialized z extra = validate_contract (trajectory_sample z extra)"

definition build_training_sample :: "Trajectory \<Rightarrow> pydict option \<Rightarrow> string + PreparedSample" where
  "build_training_sample t extra = build_training_sample_from_serialized (serialize_trajectory t) extra"

definition schema_following_prepared :: "SchemaFollowingSample \<Rightarrow> pydict option \<Rightarrow> PreparedSample" where
  "schema_following_prepared sample extra =
     (let z = serialize_schema_following_sample sample; mask = build_loss_mask (ss_segments z) in
      \<lparr>ps_sample_id = ss_sample_id z, ps_sample_type = ''schema_following'',
       ps_source_type = ss_source_type z, ps_split = ss_split z, ps_task_id = ss_task_id z,
       ps_tool_profile_id = ss_tool_profile_id z, ps_mutation_category = Some (ss_mutation_category z),
       ps_text = ss_text z, ps_segments = map segment_dump (ss_segments z),
       ps_character_mask = lm_character_mask mask, ps_spans = map span_dump (lm_spans mask),
       ps_trainable_char_count = lm_trainable_char_count mask, ps_reward = None, ps_status = None,
       ps_verifier_passed = None, ps_verifier_score = None,
       ps_metadata = merged_metadata (ss_metadata z) extra\<rparr>)"

definition build_schema_following_prepared_sample ::
  "SchemaFollowingSample \<Rightarrow> pydict option \<Rightarrow> string + PreparedSample" where
  "build_schema_following_prepared_sample sample extra =
     validate_contract (schema_following_prepared sample extra)"

subsection \<open>Rollouts\<close>

record SlimeRolloutRecord =
  ro_task_id :: string
  ro_tool_profile_id :: string
  ro_reward :: rat
  ro_status :: string
  ro_verifier_passed :: bool
  ro_verifier_score :: rat
  ro_text :: string
  ro_character_mask :: "int list"
  ro_spans :: "pydict list"
  ro_segments :: "pydict list"
  ro_trainable_char_count :: int
  ro_total_char_count :: int
  ro_metadata :: pydict

text \<open>A sample without an outcome has no rollout: the fields of the record refuse \<open>None\<close>.\<close>

definition build_slime_rollout :: "PreparedSample \<Rightarrow> pydict option \<Rightarrow> string + SlimeRolloutRecord" where
  "build_slime_rollout s extra =
     (case (ps_reward s, ps_status s, ps_verifier_passed s, ps_verifier_score s) of
        (Some reward, Some status, Some passed, Some score) \<Rightarrow> Inr
          \<lparr>ro_task_id = ps_task_id s, ro_tool_profile_id = ps_tool_profile_id s, ro_reward = reward,
           ro_status = status, ro_verifier_passed = passed, ro_verifier_score = score,
           ro_text = ps_text s, ro_character_mask = ps_character_mask s, ro_spans = ps_spans s,
           ro_segments = ps_segments s, ro_trainable_char_count = ps_trainable_char_count s,
           ro_total_char_count = int (length (ps_text s)),
           ro_metadata = merged_metadata (ps_metadata s) extra\<rparr>
      | _ \<Rightarrow> Inl ''SlimeRolloutRecord'')"

definition trajectory_to_slime_rollout :: "Trajectory \<Rightarrow> pydict option \<Rightarrow> string + SlimeRolloutRecord" where
  "trajectory_to_slime_rollout t extra =
     res_bind (build_training_sample t extra) (\<lambda>s. build_slime_rollout s None)"

text \<open>A text field of a segment; the code indexes, so a segment without it is a \<open>KeyError\<close>.\<close>

definition segment_field :: "pydict \<Rightarrow> string \<Rightarrow> string + string" where
  "segment_field segment key =
     (case map_of segment key of Some (JStr t) \<Rightarrow> Inr t | _ \<Rightarrow> Inl key)"

text \<open>
  \<open>get_trainable_text_segments\<close> and \<open>split_context_and_target\<close>: the trainable segments with their
  place in the text, and the text of the others beside the text of the trainable ones.
\<close>

fun trainable_text_segments_from ::
  "int \<Rightarrow> pydict list \<Rightarrow> string + (string \<times> string \<times> int \<times> int) list" where
  "trainable_text_segments_from offset [] = Inr []"
| "trainable_text_segments_from offset (segment # segments) =
     res_bind (segment_field segment ''text'') (\<lambda>t.
       let end_offset = offset + int (length t) in
       if py_truthy (dict_get segment ''trainable'')
       then res_bind (segment_field segment ''kind'') (\<lambda>kind.
              res_bind (trainable_text_segments_from end_offset segments) (\<lambda>rest.
                Inr ((kind, t, offset, end_offset) # rest)))
       else trainable_text_segments_from end_offset segments)"

definition get_trainable_text_segments ::
  "SlimeRolloutRecord \<Rightarrow> string + (string \<times> string \<times> int \<times> int) list" where
  "get_trainable_text_segments r = trainable_text_segments_from 0 (ro_segments r)"

fun split_segments ::
  "string \<Rightarrow> string \<Rightarrow> (int \<times> int \<times> string) list \<Rightarrow> pydict list
    \<Rightarrow> string + string \<times> string \<times> (int \<times> int \<times> string) list" where
  "split_segments context_text target spans [] = Inr (context_text, target, spans)"
| "split_segments context_text target spans (segment # segments) =
     res_bind (segment_field segment ''text'') (\<lambda>t.
       if py_truthy (dict_get segment ''trainable'')
       then res_bind (segment_field segment ''kind'') (\<lambda>kind.
              split_segments context_text (target @ t)
                (spans @ [(int (length target), int (length target) + int (length t), kind)]) segments)
       else split_segments (context_text @ t) target spans segments)"

definition split_context_and_target ::
  "SlimeRolloutRecord \<Rightarrow> string + string \<times> string \<times> (int \<times> int \<times> string) list" where
  "split_context_and_target r = split_segments [] [] [] (ro_segments r)"

subsection \<open>The checks of a data set\<close>

text \<open>
  \<open>_validate_sample\<close>, \<open>_validate_rollout\<close>, \<open>_validate_pair\<close> and \<open>_validate_spans\<close> append issues to a
  list; the model returns the codes of the issues they append.  \<open>isinstance(x, int)\<close> holds for
  booleans too.
\<close>

definition py_as_int :: "json \<Rightarrow> int option" where
  "py_as_int v = (case v of JInt i \<Rightarrow> Some i | JBool b \<Rightarrow> Some (if b then 1 else 0) | _ \<Rightarrow> None)"

definition issue :: "string \<Rightarrow> string \<Rightarrow> bool \<Rightarrow> string list" where
  "issue prefix code present = (if present then [prefix @ code] else [])"

fun validate_spans_from :: "string \<Rightarrow> int \<Rightarrow> int \<Rightarrow> pydict list \<Rightarrow> string list" where
  "validate_spans_from prefix text_length last_end [] = []"
| "validate_spans_from prefix text_length last_end (sp # spans) =
     (case (py_as_int (dict_get sp ''start''), py_as_int (dict_get sp ''end'')) of
        (Some start, Some e) \<Rightarrow>
          issue prefix ''_span_bounds_error'' (start < 0 \<or> e < start \<or> e > text_length)
          @ issue prefix ''_span_order_error'' (start < last_end)
          @ validate_spans_from prefix text_length (max last_end e) spans
      | _ \<Rightarrow> (prefix @ ''_span_type_error'') # validate_spans_from prefix text_length last_end spans)"

definition validate_spans :: "string \<Rightarrow> int \<Rightarrow> pydict list \<Rightarrow> string list" where
  "validate_spans prefix text_length spans = validate_spans_from prefix text_length 0 spans"

fun joined_texts :: "pydict list \<Rightarrow> string + string" where
  "joined_texts [] = Inr []"
| "joined_texts (s # segments) =
     res_bind (segment_field s ''text'') (\<lambda>t. res_bind (joined_texts segments) (\<lambda>u. Inr (t @ u)))"

definition validate_sample :: "PreparedSample \<Rightarrow> string + string list" where
  "validate_sample s =
     res_bind (joined_texts (ps_segments s)) (\<lambda>segment_text. Inr (
       issue ''sample'' ''_mask_length_mismatch'' (length (ps_text s) \<noteq> length (ps_character_mask s))
       @ issue ''sample'' ''_trainable_char_count_mismatch''
           (sum_list (ps_character_mask s) \<noteq> ps_trainable_char_count s)
       @ issue ''sample'' ''_segment_text_mismatch'' (segment_text \<noteq> ps_text s)
       @ validate_spans ''sample'' (int (length (ps_text s))) (ps_spans s)))"

definition validate_rollout :: "SlimeRolloutRecord \<Rightarrow> string + string list" where
  "validate_rollout r =
     res_bind (joined_texts (ro_segments r)) (\<lambda>segment_text. Inr (
       issue ''rollout'' ''_mask_length_mismatch'' (length (ro_text r) \<noteq> length (ro_character_mask r))
       @ issue ''rollout'' ''_total_char_count_mismatch'' (int (length (ro_text r)) \<noteq> ro_total_char_count r)
       @ issue ''rollout'' ''_trainable_char_count_mismatch''
           (sum_list (ro_character_mask r) \<noteq> ro_trainable_char_count r)
       @ issue ''rollout'' ''_segment_text_mismatch'' (segment_text \<noteq> ro_text r)
       @ validate_spans ''rollout'' (int (length (ro_text r))) (ro_spans r)))"

definition validate_schema_following_prepared_sample :: "PreparedSample \<Rightarrow> string + string list" where
  "validate_schema_following_prepared_sample s =
     res_bind (joined_texts (ps_segments s)) (\<lambda>segment_text.
       let trained = filter (\<lambda>g. dict_get g ''trainable'' = JBool True) (ps_segments s) in Inr (
       issue ''schema_following'' ''_mask_length_mismatch'' (length (ps_text s) \<noteq> length (ps_character_mask s))
       @ issue ''schema_following'' ''_trainable_char_count_mismatch''
           (sum_list (ps_character_mask s) \<noteq> ps_trainable_char_count s)
       @ issue ''schema_following'' ''_segment_text_mismatch'' (segment_text \<noteq> ps_text s)
       @ (case trained of
            [g] \<Rightarrow> issue ''schema_following'' ''_trainable_segment_kind_error''
                     (dict_get g ''kind'' \<noteq> JStr ''assistant_tool_call'')
          | _ \<Rightarrow> [''schema_following_trainable_segment_count_mismatch''])
       @ validate_spans ''schema_following'' (int (length (ps_text s))) (ps_spans s)))"

definition validate_pair :: "PreparedSample \<Rightarrow> SlimeRolloutRecord \<Rightarrow> string list" where
  "validate_pair s r =
     concat (map (issue ''sample_rollout'' ''_field_mismatch'')
       [ps_task_id s \<noteq> ro_task_id r, ps_tool_profile_id s \<noteq> ro_tool_profile_id r,
        ps_reward s \<noteq> Some (ro_reward r), ps_status s \<noteq> Some (ro_status r),
        ps_verifier_passed s \<noteq> Some (ro_verifier_passed r),
        ps_verifier_score s \<noteq> Some (ro_verifier_score r), ps_text s \<noteq> ro_text r,
        ps_character_mask s \<noteq> ro_character_mask r,
        ps_trainable_char_count s \<noteq> ro_trainable_char_count r])"

end
