(* ===== verification/Tokenization.thy ===== *)
theory Tokenization
  imports Prepared_Sample
begin

section \<open>Tokens, labels and training samples\<close>

text \<open>
  \<open>rl/tokenizer.py\<close>, \<open>rl/mask_alignment.py\<close>, \<open>rl/tensorize.py\<close> and \<open>rl/slime_bridge.py\<close>.  A tokenizer
  is a pair of functions, the tokens of a text and the range of characters each token stands for;
  either can raise.  The one that comes with the code cuts a text into chunks and hashes them, with
  the hash of a chunk (the first eight bytes of its SHA-256) as an argument.
\<close>

text \<open>\<open>xs[:n]\<close>, which counts from the end for a negative \<open>n\<close>.\<close>

definition py_take :: "int \<Rightarrow> 'a list \<Rightarrow> 'a list" where
  "py_take n xs = (if 0 \<le> n then take (nat n) xs else take (length xs - nat (- n)) xs)"

definition IGNORE_INDEX :: int where "IGNORE_INDEX = -100"

record TokenizerConfig =
  kc_tokenizer_name :: string
  kc_max_length :: int
  kc_truncation :: bool

record BaseTokenizerAdapter =
  tk_encode :: "string \<Rightarrow> string + int list"
  tk_get_offsets :: "string \<Rightarrow> string + (nat \<times> nat) list"

subsection \<open>The fake tokenizer\<close>

record FakeTokenizerConfig =
  fk_vocab_size :: int
  fk_chars_per_token :: int

definition default_fake_config :: FakeTokenizerConfig where
  "default_fake_config = \<lparr>fk_vocab_size = 1000, fk_chars_per_token = 4\<rparr>"

text \<open>\<open>range(0, n, step)\<close>; a step of zero raises.\<close>

definition py_range_step :: "nat \<Rightarrow> int \<Rightarrow> string + nat list" where
  "py_range_step n step =
     (if step = 0 then Inl ''range() arg 3 must not be zero''
      else if step < 0 then Inr []
      else Inr (map (\<lambda>k. k * nat step) [0..<(n + nat step - 1) div nat step]))"

definition fake_encode :: "(string \<Rightarrow> nat) \<Rightarrow> FakeTokenizerConfig \<Rightarrow> string \<Rightarrow> string + int list" where
  "fake_encode chunk_hash c t =
     (if t = [] then Inr []
      else res_bind (py_range_step (length t) (fk_chars_per_token c)) (\<lambda>starts.
        if starts \<noteq> [] \<and> fk_vocab_size c - 4 = 0 then Inl ''integer modulo by zero''
        else Inr (map (\<lambda>i. int (chunk_hash (take (nat (fk_chars_per_token c)) (drop i t)))
                         mod (fk_vocab_size c - 4) + 4) starts)))"

definition fake_offsets :: "FakeTokenizerConfig \<Rightarrow> string \<Rightarrow> string + (nat \<times> nat) list" where
  "fake_offsets c t =
     (if t = [] then Inr []
      else res_bind (py_range_step (length t) (fk_chars_per_token c)) (\<lambda>starts.
        Inr (map (\<lambda>i. (i, min (i + nat (fk_chars_per_token c)) (length t))) starts)))"

definition fake_decode :: "int list \<Rightarrow> string" where
  "fake_decode ids = (if ids = [] then [] else ''[FAKE:'' @ nat_digits (length ids) @ '' tokens]'')"

definition FakeTokenizerAdapter :: "(string \<Rightarrow> nat) \<Rightarrow> FakeTokenizerConfig \<Rightarrow> BaseTokenizerAdapter" where
  "FakeTokenizerAdapter chunk_hash c =
     \<lparr>tk_encode = fake_encode chunk_hash c, tk_get_offsets = fake_offsets c\<rparr>"

text \<open>
  \<open>resolve_tokenizer_adapter\<close> chooses a tokenizer and checks that it agrees with the configuration.
  An adapter that is not the fake one is known by its class name; loading one from a name may fail.
\<close>

datatype tokenizer_choice = Fake FakeTokenizerConfig | Other string

definition is_fake :: "tokenizer_choice \<Rightarrow> bool" where
  "is_fake t = (case t of Fake _ \<Rightarrow> True | Other _ \<Rightarrow> False)"

definition get_tokenizer ::
  "(string \<Rightarrow> string + tokenizer_choice) \<Rightarrow> TokenizerConfig \<Rightarrow> string + tokenizer_choice" where
  "get_tokenizer load config =
     (if kc_tokenizer_name config = ''fake'' then Inr (Fake default_fake_config)
      else load (kc_tokenizer_name config))"

definition fake_or_default :: "FakeTokenizerConfig option \<Rightarrow> tokenizer_choice" where
  "fake_or_default f = Fake (case f of None \<Rightarrow> default_fake_config | Some c \<Rightarrow> c)"

definition choose_tokenizer ::
  "(string \<Rightarrow> string + tokenizer_choice) \<Rightarrow> tokenizer_choice option \<Rightarrow> TokenizerConfig option
    \<Rightarrow> FakeTokenizerConfig option \<Rightarrow> string + tokenizer_choice" where
  "choose_tokenizer load tokenizer config fake_config =
     (case tokenizer of
        Some t \<Rightarrow> Inr t
      | None \<Rightarrow>
          (case config of
             Some c \<Rightarrow> if kc_tokenizer_name c = ''fake'' then Inr (fake_or_default fake_config)
                       else get_tokenizer load c
           | None \<Rightarrow>
               if fake_config \<noteq> None then Inr (fake_or_default fake_config)
               else Inl ''Explicit tokenizer selection is required. Provide tokenizer, tokenizer_config, or fake_tokenizer_config.''))"

definition config_conflict :: "TokenizerConfig option \<Rightarrow> FakeTokenizerConfig option \<Rightarrow> bool" where
  "config_conflict config fake_config =
     (case config of None \<Rightarrow> False | Some c \<Rightarrow> fake_config \<noteq> None \<and> kc_tokenizer_name c \<noteq> ''fake'')"

definition resolve_tokenizer_adapter ::
  "(string \<Rightarrow> string + tokenizer_choice) \<Rightarrow> tokenizer_choice option \<Rightarrow> TokenizerConfig option
    \<Rightarrow> FakeTokenizerConfig option \<Rightarrow> int \<Rightarrow> string + tokenizer_choice \<times> TokenizerConfig" where
  "resolve_tokenizer_adapter load tokenizer config fake_config default_max_length =
     (if config_conflict config fake_config
      then Inl (''fake_tokenizer_config can only be used with tokenizer_name=''
             @ CHR 0x27 # ''fake'' @ CHR 0x27 # ''.'')
      else res_bind (choose_tokenizer load tokenizer config fake_config) (\<lambda>t.
       let c = (case config of
             Some c \<Rightarrow> c
           | None \<Rightarrow> \<lparr>kc_tokenizer_name = (case t of Fake _ \<Rightarrow> ''fake'' | Other class_name \<Rightarrow> class_name),
                      kc_max_length = default_max_length, kc_truncation = True\<rparr>);
           expects_fake = (kc_tokenizer_name c = ''fake'')
       in if expects_fake \<noteq> is_fake t
          then Inl ''tokenizer and tokenizer_config disagree on fake vs real tokenizer path.''
          else if fake_config \<noteq> None \<and> \<not> expects_fake
          then Inl ''fake_tokenizer_config is only valid for the explicit fake tokenizer path.''
          else Inr (t, c)))"

subsection \<open>Aligning the mask with the tokens\<close>

definition validate_character_mask_length :: "string \<Rightarrow> int list \<Rightarrow> string + unit" where
  "validate_character_mask_length t character_mask =
     (if length character_mask \<noteq> length t
      then Inl (''Character mask length does not match text length: ''
             @ nat_digits (length character_mask) @ '' != '' @ nat_digits (length t))
      else Inr ())"

definition covers_trainable :: "int list \<Rightarrow> nat \<times> nat \<Rightarrow> bool" where
  "covers_trainable character_mask r =
     (case r of (start, e) \<Rightarrow>
        list_ex (\<lambda>i. i < length character_mask \<and> character_mask ! i \<noteq> 0) [start..<e])"

definition align_character_mask_to_tokens :: "int list \<Rightarrow> (nat \<times> nat) list \<Rightarrow> int list" where
  "align_character_mask_to_tokens character_mask offsets =
     map (\<lambda>r. if covers_trainable character_mask r then 1 else 0) offsets"

definition validate_token_alignment_lengths :: "int list \<Rightarrow> int list \<Rightarrow> string + unit" where
  "validate_token_alignment_lengths ids train_mask =
     (if length ids \<noteq> length train_mask
      then Inl (''Token count mismatch: input_ids='' @ nat_digits (length ids)
             @ '', token_train_mask='' @ nat_digits (length train_mask))
      else Inr ())"

subsection \<open>Tokenized examples\<close>

record TokenizedExample =
  te_input_ids :: "int list"
  te_attention_mask :: "int list"
  te_labels :: "int list"
  te_token_train_mask :: "int list"
  te_metadata :: pydict

definition te_length :: "TokenizedExample \<Rightarrow> nat" where
  "te_length e = length (te_input_ids e)"

definition trainable_token_count :: "TokenizedExample \<Rightarrow> int" where
  "trainable_token_count e = sum_list (te_token_train_mask e)"

definition build_labels :: "int list \<Rightarrow> int list \<Rightarrow> int list" where
  "build_labels ids train_mask =
     map (\<lambda>(tid, m). if m = 1 then tid else IGNORE_INDEX) (zip ids train_mask)"

text \<open>Tokens and their train mask, cut to a length.\<close>

definition aligned_tokens ::
  "BaseTokenizerAdapter \<Rightarrow> string \<Rightarrow> int list \<Rightarrow> string + int list \<times> int list" where
  "aligned_tokens tokenizer t character_mask =
     res_bind (tk_encode tokenizer t) (\<lambda>ids.
     res_bind (tk_get_offsets tokenizer t) (\<lambda>offsets.
       let train_mask = align_character_mask_to_tokens character_mask offsets
       in res_bind (validate_token_alignment_lengths ids train_mask) (\<lambda>_. Inr (ids, train_mask))))"

definition truncate_tokens :: "int option \<Rightarrow> int list \<times> int list \<Rightarrow> int list \<times> int list" where
  "truncate_tokens max_length p =
     (case max_length of
        None \<Rightarrow> p
      | Some n \<Rightarrow> if int (length (fst p)) > n then (py_take n (fst p), py_take n (snd p)) else p)"

definition config_limit :: "TokenizerConfig \<Rightarrow> int option" where
  "config_limit config = (if kc_truncation config then Some (kc_max_length config) else None)"

definition tokenized_example :: "TokenizerConfig \<Rightarrow> pydict \<Rightarrow> int list \<times> int list \<Rightarrow> TokenizedExample" where
  "tokenized_example config metadata p =
     (let (ids, train_mask) = truncate_tokens (config_limit config) p in
      \<lparr>te_input_ids = ids, te_attention_mask = replicate (length ids) 1,
       te_labels = build_labels ids train_mask, te_token_train_mask = train_mask,
       te_metadata = metadata\<rparr>)"

definition tensorize_text ::
  "string \<Rightarrow> int list \<Rightarrow> BaseTokenizerAdapter \<Rightarrow> TokenizerConfig \<Rightarrow> pydict option \<Rightarrow> string + TokenizedExample" where
  "tensorize_text t character_mask tokenizer config metadata =
     res_bind (validate_character_mask_length t character_mask) (\<lambda>_.
     res_bind (aligned_tokens tokenizer t character_mask) (\<lambda>p.
       Inr (tokenized_example config (case metadata of None \<Rightarrow> [] | Some m \<Rightarrow> m) p)))"

text \<open>Floats print with their \<open>repr\<close>, which is an argument.\<close>

definition py_float :: "(rat \<Rightarrow> string) \<Rightarrow> rat \<Rightarrow> json" where
  "py_float float_repr x = JFloat x (float_repr x)"

definition present :: "string \<Rightarrow> json option \<Rightarrow> pydict" where
  "present key v = (case v of None \<Rightarrow> [] | Some j \<Rightarrow> [(key, j)])"

definition prepared_metadata :: "(rat \<Rightarrow> string) \<Rightarrow> PreparedSample \<Rightarrow> pydict" where
  "prepared_metadata float_repr s =
     (let base = dict_update (ps_metadata s)
        [(''prepared_sample_schema_version'', JInt 1), (''sample_id'', JStr (ps_sample_id s)),
         (''sample_type'', JStr (ps_sample_type s)), (''source_type'', JStr (ps_source_type s)),
         (''split'', JStr (ps_split s)), (''task_id'', JStr (ps_task_id s)),
         (''tool_profile_id'', JStr (ps_tool_profile_id s)),
         (''mutation_category'', opt_str (ps_mutation_category s)),
         (''trainable_char_count'', JInt (ps_trainable_char_count s)),
         (''loss_mask_policy'', JStr ASSISTANT_TOOL_CALL_ONLY)];
          kept = (if ps_mutation_category s = None then AList.delete ''mutation_category'' base else base)
      in dict_update kept
           (present ''reward'' (map_option (py_float float_repr) (ps_reward s))
            @ present ''status'' (map_option JStr (ps_status s))
            @ present ''verifier_passed'' (map_option JBool (ps_verifier_passed s))
            @ present ''verifier_score'' (map_option (py_float float_repr) (ps_verifier_score s))))"

definition tensorize_prepared_sample ::
  "(rat \<Rightarrow> string) \<Rightarrow> PreparedSample \<Rightarrow> BaseTokenizerAdapter \<Rightarrow> TokenizerConfig \<Rightarrow> string + TokenizedExample" where
  "tensorize_prepared_sample float_repr s tokenizer config =
     tensorize_text (ps_text s) (ps_character_mask s) tokenizer config (Some (prepared_metadata float_repr s))"

definition rollout_metadata :: "(rat \<Rightarrow> string) \<Rightarrow> SlimeRolloutRecord \<Rightarrow> pydict" where
  "rollout_metadata float_repr r =
     [(''task_id'', JStr (ro_task_id r)), (''tool_profile_id'', JStr (ro_tool_profile_id r)),
      (''reward'', py_float float_repr (ro_reward r)), (''status'', JStr (ro_status r)),
      (''verifier_passed'', JBool (ro_verifier_passed r)),
      (''verifier_score'', py_float float_repr (ro_verifier_score r)),
      (''trainable_char_count'', JInt (ro_trainable_char_count r))]"

text \<open>\<open>tensorize_rollout\<close> does not compare the length of the mask with the text.\<close>

definition tensorize_rollout ::
  "(rat \<Rightarrow> string) \<Rightarrow> SlimeRolloutRecord \<Rightarrow> BaseTokenizerAdapter \<Rightarrow> TokenizerConfig \<Rightarrow> string + TokenizedExample" where
  "tensorize_rollout float_repr r tokenizer config =
     res_bind (aligned_tokens tokenizer (ro_text r) (ro_character_mask r)) (\<lambda>p.
       Inr (tokenized_example config (rollout_metadata float_repr r) p))"

subsection \<open>The check of a tokenized example\<close>

text \<open>
  \<open>_validate_tokenized_example\<close>; the codes of the issues.  The count of trainable characters comes
  from the metadata: an integer, a boolean or a float, cut to an integer.  Other values raise or are
  parsed; the model stops at them.
\<close>

definition metadata_count :: "pydict \<Rightarrow> string + int" where
  "metadata_count d =
     (case map_of d ''trainable_char_count'' of
        None \<Rightarrow> Inr 0
      | Some (JInt i) \<Rightarrow> Inr i
      | Some (JBool b) \<Rightarrow> Inr (if b then 1 else 0)
      | Some (JFloat r _) \<Rightarrow> Inr (if r < 0 then - \<lfloor>- r\<rfloor> else \<lfloor>r\<rfloor>)
      | Some _ \<Rightarrow> Inl ''trainable_char_count'')"

definition token_issues :: "string \<Rightarrow> int \<times> int \<times> int \<Rightarrow> string list" where
  "token_issues prefix tok =
     (case tok of (token_id, label, trainable) \<Rightarrow>
        issue prefix ''_train_mask_value_error'' (trainable \<notin> {0, 1})
        @ issue prefix ''_label_mask_mismatch'' (trainable = 0 \<and> label \<noteq> IGNORE_INDEX)
        @ issue prefix ''_label_token_mismatch'' (trainable = 1 \<and> label \<noteq> token_id))"

definition validate_tokenized_example :: "string \<Rightarrow> TokenizedExample \<Rightarrow> string + string list" where
  "validate_tokenized_example prefix e =
     res_bind (metadata_count (te_metadata e)) (\<lambda>trainable_chars. Inr (
       issue prefix ''_length_mismatch''
         (\<not> (length (te_attention_mask e) = te_length e \<and> length (te_labels e) = te_length e
            \<and> length (te_token_train_mask e) = te_length e))
       @ concat (map (token_issues prefix)
           (zip (te_input_ids e) (zip (te_labels e) (te_token_train_mask e))))
       @ issue prefix ''_no_trainable_tokens''
           (prefix = ''tokenized'' \<and> trainable_chars > 0 \<and> trainable_token_count e = 0)))"

subsection \<open>Samples for the trainer\<close>

record SlimeTrainSample =
  ts_task_id :: string
  ts_tool_profile_id :: string
  ts_tokens :: "int list"
  ts_response_length :: int
  ts_loss_mask :: "int list"
  ts_reward :: rat
  ts_status :: string
  ts_metadata :: pydict
  ts_train_metadata :: pydict

definition map_run_status_to_slime_status :: "string \<Rightarrow> string" where
  "map_run_status_to_slime_status status =
     (if status = ''completed'' then ''completed''
      else if status \<in> {''failed'', ''error'', ''timeout''} then ''failed''
      else ''pending'')"

text \<open>The index of the first trained token, if there is one.\<close>

definition first_trainable :: "int list \<Rightarrow> nat option" where
  "first_trainable train_mask = List.find (\<lambda>i. train_mask ! i = 1) [0..<length train_mask]"

definition token_counts :: "int list \<times> int list \<Rightarrow> nat \<Rightarrow> pydict" where
  "token_counts p first =
     [(''trainable_token_count'', JInt (sum_list (snd p))), (''total_token_count'', JInt (int (length (fst p)))),
      (''prompt_token_count'', JInt (int first))]"

definition rollout_to_slime_train_sample ::
  "(rat \<Rightarrow> string) \<Rightarrow> SlimeRolloutRecord \<Rightarrow> BaseTokenizerAdapter \<Rightarrow> int option \<Rightarrow> string + SlimeTrainSample" where
  "rollout_to_slime_train_sample float_repr r tokenizer max_length =
     res_bind (validate_character_mask_length (ro_text r) (ro_character_mask r)) (\<lambda>_.
     res_bind (aligned_tokens tokenizer (ro_text r) (ro_character_mask r)) (\<lambda>full.
       let p = truncate_tokens max_length full; (ids, train_mask) = p
       in if ids = [] then Inl (''Rollout '' @ ro_task_id r @ '' produced no tokens'')
          else case first_trainable train_mask of
                 None \<Rightarrow> Inl (''Rollout '' @ ro_task_id r @ '' has no trainable tokens after tokenization'')
               | Some first \<Rightarrow>
                   let response_length = int (length ids) - int first; loss_mask = drop first train_mask
                   in if response_length \<le> 0 \<or> loss_mask = []
                      then Inl (''Rollout '' @ ro_task_id r @ '' produced invalid response window: response_length=''
                             @ py_int_str response_length)
                      else Inr
                        \<lparr>ts_task_id = ro_task_id r, ts_tool_profile_id = ro_tool_profile_id r, ts_tokens = ids,
                         ts_response_length = response_length, ts_loss_mask = loss_mask,
                         ts_reward = ro_reward r, ts_status = map_run_status_to_slime_status (ro_status r),
                         ts_metadata = dict_update (ro_metadata r)
                           ([(''task_id'', JStr (ro_task_id r)), (''tool_profile_id'', JStr (ro_tool_profile_id r)),
                             (''verifier_passed'', JBool (ro_verifier_passed r)),
                             (''verifier_score'', py_float float_repr (ro_verifier_score r)),
                             (''raw_reward'', py_float float_repr (ro_reward r)),
                             (''trainable_char_count'', JInt (ro_trainable_char_count r)),
                             (''total_char_count'', JInt (ro_total_char_count r))] @ token_counts p first),
                         ts_train_metadata =
                           [(''task_id'', JStr (ro_task_id r)), (''tool_profile_id'', JStr (ro_tool_profile_id r)),
                            (''reward'', py_float float_repr (ro_reward r)), (''status'', JStr (ro_status r)),
                            (''verifier_passed'', JBool (ro_verifier_passed r)),
                            (''verifier_score'', py_float float_repr (ro_verifier_score r)),
                            (''trainable_token_count'', JInt (sum_list train_mask))]\<rparr>))"

definition validate_optional_tokenized_lengths :: "TokenizedExample \<Rightarrow> string + unit" where
  "validate_optional_tokenized_lengths e =
     (if length (te_attention_mask e) \<noteq> te_length e
      then Inl (''Tokenized example attention_mask length does not match input_ids: ''
             @ nat_digits (length (te_attention_mask e)) @ '' != '' @ nat_digits (te_length e))
      else if length (te_labels e) \<noteq> te_length e
      then Inl (''Tokenized example labels length does not match input_ids: ''
             @ nat_digits (length (te_labels e)) @ '' != '' @ nat_digits (te_length e))
      else Inr ())"

text \<open>\<open>d.get(a) or d.get(b) or default\<close>.\<close>

definition dict_or :: "pydict \<Rightarrow> string \<Rightarrow> string \<Rightarrow> string \<Rightarrow> json" where
  "dict_or d a b fallback =
     (if py_truthy (dict_get d a) then dict_get d a
      else if py_truthy (dict_get d b) then dict_get d b else JStr fallback)"

definition tokenized_example_to_slime_train_sample ::
  "(rat \<Rightarrow> string) \<Rightarrow> TokenizedExample \<Rightarrow> string + SlimeTrainSample" where
  "tokenized_example_to_slime_train_sample float_repr e =
     res_bind (validate_token_alignment_lengths (te_input_ids e) (te_token_train_mask e)) (\<lambda>_.
     res_bind (validate_optional_tokenized_lengths e) (\<lambda>_.
       if te_input_ids e = [] then Inl ''Tokenized example produced no tokens''
       else case first_trainable (te_token_train_mask e) of
              None \<Rightarrow> Inl (''Tokenized example ''
                @ py_str (dict_or (te_metadata e) ''sample_id'' ''task_id'' ''<unknown>'')
                @ '' has no trainable tokens'')
            | Some first \<Rightarrow>
                let response_length = int (te_length e) - int first;
                    loss_mask = drop first (te_token_train_mask e);
                    task_id = py_str (dict_or (te_metadata e) ''task_id'' ''sample_id'' '''');
                    profile = py_str (dict_or (te_metadata e) ''tool_profile_id'' ''target_profile_id'' '''');
                    counts = token_counts (te_input_ids e, te_token_train_mask e) first;
                    metadata = dict_update (te_metadata e)
                      ([(''task_id'', JStr task_id), (''tool_profile_id'', JStr profile)] @ counts)
                in if response_length \<le> 0 \<or> loss_mask = []
                   then Inl (''Tokenized example produced invalid response window: response_length=''
                          @ py_int_str response_length)
                   else Inr
                     \<lparr>ts_task_id = task_id, ts_tool_profile_id = profile, ts_tokens = te_input_ids e,
                      ts_response_length = response_length, ts_loss_mask = loss_mask, ts_reward = 0,
                      ts_status = ''completed'', ts_metadata = metadata,
                      ts_train_metadata =
                        [(''task_id'', JStr task_id), (''tool_profile_id'', JStr profile),
                         (''reward'', py_float float_repr 0), (''status'', JStr ''completed''),
                         (''trainable_token_count'', JInt (trainable_token_count e))]
                        @ present ''sample_id'' (map_of metadata ''sample_id'')
                        @ present ''source_type'' (map_of metadata ''source_type'')\<rparr>))"

end
