(* ===== verification/Packing.thy ===== *)
theory Packing
  imports Tokenization "HOL-Library.Multiset"
begin

section \<open>Sequence packing\<close>

text \<open>
  \<open>rl/packing.py\<close>: tokenized examples are put one after the other into sequences of at most
  \<open>max_length\<close> tokens, without splitting one; an example that is longer than that gets a sequence of
  its own and is cut.
\<close>

record SourceSpan =
  so_start :: int
  so_length :: int
  so_metadata :: pydict

record PackedSequence =
  pk_input_ids :: "int list"
  pk_attention_mask :: "int list"
  pk_labels :: "int list"
  pk_token_train_mask :: "int list"
  pk_source_indices :: "int list"
  pk_source_spans :: "SourceSpan list"
  pk_truncated :: "bool option"

definition pk_length :: "PackedSequence \<Rightarrow> nat" where
  "pk_length p = length (pk_input_ids p)"

definition num_sources :: "PackedSequence \<Rightarrow> nat" where
  "num_sources p = length (pk_source_spans p)"

record PackingStats =
  st_num_packed :: int
  st_num_oversized :: int
  st_total_tokens :: "int option"
  st_utilization :: "rat option"

record PackedBatch =
  pb_sequences :: "PackedSequence list"
  pb_max_length :: int
  pb_total_examples :: int
  pb_stats :: PackingStats

definition pack_single :: "TokenizedExample \<Rightarrow> int \<Rightarrow> PackedSequence" where
  "pack_single e max_length =
     (let ids = py_take max_length (te_input_ids e); len = length ids in
      \<lparr>pk_input_ids = ids, pk_attention_mask = py_take max_length (te_attention_mask e),
       pk_labels = py_take max_length (te_labels e),
       pk_token_train_mask = py_take max_length (te_token_train_mask e),
       pk_source_indices = replicate len 0,
       pk_source_spans = [\<lparr>so_start = 0, so_length = int len, so_metadata = te_metadata e\<rparr>],
       pk_truncated = Some (int (te_length e) > max_length)\<rparr>)"

definition empty_sequence :: PackedSequence where
  "empty_sequence = \<lparr>pk_input_ids = [], pk_attention_mask = [], pk_labels = [], pk_token_train_mask = [],
     pk_source_indices = [], pk_source_spans = [], pk_truncated = None\<rparr>"

text \<open>One round of the loop of \<open>_pack_multiple\<close>: the example with index \<open>idx\<close> goes to the end.\<close>

definition append_example :: "int \<Rightarrow> TokenizedExample \<Rightarrow> PackedSequence \<Rightarrow> PackedSequence" where
  "append_example idx e p =
     p\<lparr>pk_input_ids := pk_input_ids p @ te_input_ids e,
       pk_attention_mask := pk_attention_mask p @ te_attention_mask e,
       pk_labels := pk_labels p @ te_labels e,
       pk_token_train_mask := pk_token_train_mask p @ te_token_train_mask e,
       pk_source_indices := pk_source_indices p @ replicate (te_length e) idx,
       pk_source_spans := pk_source_spans p @
         [\<lparr>so_start = int (pk_length p), so_length = int (te_length e), so_metadata = te_metadata e\<rparr>]\<rparr>"

fun pack_from :: "int \<Rightarrow> TokenizedExample list \<Rightarrow> PackedSequence \<Rightarrow> PackedSequence" where
  "pack_from idx [] p = p"
| "pack_from idx (e # es) p = pack_from (idx + 1) es (append_example idx e p)"

definition pack_multiple :: "TokenizedExample list \<Rightarrow> PackedSequence" where
  "pack_multiple es = pack_from 0 es empty_sequence"

text \<open>
  The loop of \<open>pack_examples\<close>, with the sequences made so far, the examples that wait for the current
  sequence, their length, and the two counters.
\<close>

definition flush :: "TokenizedExample list \<Rightarrow> PackedSequence list \<times> int \<Rightarrow> PackedSequence list \<times> int" where
  "flush current acc =
     (if current = [] then acc else (fst acc @ [pack_multiple current], snd acc + int (length current)))"

fun pack_loop ::
  "int \<Rightarrow> TokenizedExample list \<Rightarrow> PackedSequence list \<times> int \<Rightarrow> TokenizedExample list \<Rightarrow> int \<Rightarrow> int
    \<Rightarrow> (PackedSequence list \<times> int) \<times> int" where
  "pack_loop max_length [] acc current current_length oversized = (flush current acc, oversized)"
| "pack_loop max_length (e # es) acc current current_length oversized =
     (if int (te_length e) > max_length
      then pack_loop max_length es (fst acc @ [pack_single e max_length], snd acc) current
             current_length (oversized + 1)
      else if current_length + int (te_length e) \<le> max_length
      then pack_loop max_length es acc (current @ [e]) (current_length + int (te_length e)) oversized
      else pack_loop max_length es (flush current acc) [e] (int (te_length e)) oversized)"

definition total_tokens :: "PackedSequence list \<Rightarrow> int" where
  "total_tokens sequences = sum_list (map (\<lambda>s. int (pk_length s)) sequences)"

text \<open>The share of used tokens divides by the room, which is zero for a limit of zero.\<close>

definition pack_examples :: "TokenizedExample list \<Rightarrow> int \<Rightarrow> string + PackedBatch" where
  "pack_examples examples max_length =
     (if examples = [] then
        Inr \<lparr>pb_sequences = [], pb_max_length = max_length, pb_total_examples = 0,
             pb_stats = \<lparr>st_num_packed = 0, st_num_oversized = 0, st_total_tokens = None, st_utilization = None\<rparr>\<rparr>
      else
        let ((sequences, num_packed), num_oversized) = pack_loop max_length examples ([], 0) [] 0 0;
            room = int (length sequences) * max_length
        in if sequences \<noteq> [] \<and> room = 0 then Inl ''division by zero''
           else Inr \<lparr>pb_sequences = sequences, pb_max_length = max_length,
                     pb_total_examples = int (length examples),
                     pb_stats = \<lparr>st_num_packed = num_packed, st_num_oversized = num_oversized,
                       st_total_tokens = Some (total_tokens sequences),
                       st_utilization = Some (if sequences = [] then 0
                         else of_int (total_tokens sequences) / of_int room)\<rparr>\<rparr>)"

text \<open>\<open>xs[start:start + length]\<close> for the spans of a sequence, whose starts are not negative.\<close>

definition span_slice :: "SourceSpan \<Rightarrow> int list \<Rightarrow> int list" where
  "span_slice s xs = take (nat (so_length s)) (drop (nat (so_start s)) xs)"

definition unpack_span :: "PackedSequence \<Rightarrow> SourceSpan \<Rightarrow> TokenizedExample" where
  "unpack_span p s =
     \<lparr>te_input_ids = span_slice s (pk_input_ids p), te_attention_mask = span_slice s (pk_attention_mask p),
      te_labels = span_slice s (pk_labels p), te_token_train_mask = span_slice s (pk_token_train_mask p),
      te_metadata = so_metadata s\<rparr>"

definition unpack_sequence :: "PackedSequence \<Rightarrow> TokenizedExample list" where
  "unpack_sequence p = map (unpack_span p) (pk_source_spans p)"

end
