(* ===== verification/Packing_Properties.thy ===== *)
theory Packing_Properties
  imports Packing
begin

section \<open>Packing loses nothing, keeps to its limit and fills at least half\<close>

lemma length_py_take: "length xs = length ys \<Longrightarrow> length (py_take n xs) = length (py_take n ys)"
  by (simp add: py_take_def)

lemma length_py_take_nonneg: "0 \<le> n \<Longrightarrow> length (py_take n xs) = min (nat n) (length xs)"
  by (simp add: py_take_def min.commute)

subsection \<open>Well-formed examples and sequences\<close>

definition example_ok :: "TokenizedExample \<Rightarrow> bool" where
  "example_ok e \<longleftrightarrow> length (te_attention_mask e) = te_length e \<and> length (te_labels e) = te_length e
     \<and> length (te_token_train_mask e) = te_length e"

definition sequence_ok :: "PackedSequence \<Rightarrow> bool" where
  "sequence_ok p \<longleftrightarrow> length (pk_attention_mask p) = pk_length p \<and> length (pk_labels p) = pk_length p
     \<and> length (pk_token_train_mask p) = pk_length p
     \<and> list_all (\<lambda>s. 0 \<le> so_start s \<and> 0 \<le> so_length s \<and> so_start s + so_length s \<le> int (pk_length p))
         (pk_source_spans p)"

lemma span_slice_append:
  "0 \<le> so_start s \<Longrightarrow> 0 \<le> so_length s \<Longrightarrow> so_start s + so_length s \<le> int (length xs) \<Longrightarrow>
   span_slice s (xs @ ys) = span_slice s xs"
  by (simp add: span_slice_def nat_diff_distrib)

lemma span_slice_end:
  "so_start s = int (length xs) \<Longrightarrow> so_length s = int (length ys) \<Longrightarrow> span_slice s (xs @ ys) = ys"
  by (simp add: span_slice_def)

lemma append_example_ok:
  "sequence_ok p \<Longrightarrow> example_ok e \<Longrightarrow> sequence_ok (append_example idx e p)"
  by (fastforce simp: sequence_ok_def example_ok_def append_example_def pk_length_def te_length_def list_all_iff)

lemma unpack_append_example:
  assumes "sequence_ok p" and "example_ok e"
  shows "unpack_sequence (append_example idx e p) = unpack_sequence p @ [e]"
proof -
  have "unpack_span (append_example idx e p) s = unpack_span p s" if "s \<in> set (pk_source_spans p)" for s
    using assms that
    by (auto simp: sequence_ok_def list_all_iff unpack_span_def append_example_def pk_length_def
        intro!: span_slice_append)
  moreover have "unpack_span (append_example idx e p)
      \<lparr>so_start = int (pk_length p), so_length = int (te_length e), so_metadata = te_metadata e\<rparr> = e"
    using assms
    by (cases e) (simp add: sequence_ok_def example_ok_def unpack_span_def append_example_def pk_length_def
        te_length_def span_slice_end)
  ultimately show ?thesis by (simp add: unpack_sequence_def append_example_def)
qed

lemma pack_from_unpack:
  "sequence_ok p \<Longrightarrow> list_all example_ok es \<Longrightarrow> unpack_sequence (pack_from idx es p) = unpack_sequence p @ es"
  by (induction idx es p rule: pack_from.induct) (simp_all add: append_example_ok unpack_append_example)

lemma pack_from_fields:
  "pk_length (pack_from idx es p) = pk_length p + sum_list (map te_length es)"
  "pk_truncated (pack_from idx es p) = pk_truncated p"
  by (induction idx es p rule: pack_from.induct) (simp_all add: append_example_def pk_length_def te_length_def)

lemma pack_multiple_unpack: "list_all example_ok es \<Longrightarrow> unpack_sequence (pack_multiple es) = es"
proof -
  assume ok: "list_all example_ok es"
  have "sequence_ok empty_sequence" "unpack_sequence empty_sequence = []"
    by (simp_all add: sequence_ok_def empty_sequence_def pk_length_def unpack_sequence_def)
  then show ?thesis using pack_from_unpack [OF _ ok] by (simp add: pack_multiple_def)
qed

lemma pack_multiple_fields:
  "pk_length (pack_multiple es) = sum_list (map te_length es)"
  "pk_truncated (pack_multiple es) = None"
  by (simp_all add: pack_multiple_def pack_from_fields) (simp_all add: empty_sequence_def pk_length_def)

text \<open>What is left of an example that is too long.\<close>

definition cut :: "int \<Rightarrow> TokenizedExample \<Rightarrow> TokenizedExample" where
  "cut n e = e\<lparr>te_input_ids := py_take n (te_input_ids e), te_attention_mask := py_take n (te_attention_mask e),
     te_labels := py_take n (te_labels e), te_token_train_mask := py_take n (te_token_train_mask e)\<rparr>"

lemma pack_single_unpack: "example_ok e \<Longrightarrow> unpack_sequence (pack_single e n) = [cut n e]"
proof -
  assume ok: "example_ok e"
  let ?k = "length (py_take n (te_input_ids e))"
  have "length (py_take n (te_attention_mask e)) = ?k" "length (py_take n (te_labels e)) = ?k"
    "length (py_take n (te_token_train_mask e)) = ?k"
    using ok by (auto simp: example_ok_def te_length_def intro!: length_py_take)
  then show ?thesis
    by (cases e) (simp add: pack_single_def Let_def unpack_sequence_def unpack_span_def span_slice_def cut_def)
qed

lemma pack_single_fields:
  "int (te_length e) > n \<Longrightarrow> pk_truncated (pack_single e n) = Some True"
  "pk_length (pack_single e n) = length (py_take n (te_input_ids e))"
  by (simp_all add: pack_single_def Let_def pk_length_def)

subsection \<open>The loop\<close>

definition whole :: "PackedSequence \<Rightarrow> bool" where
  "whole p \<longleftrightarrow> pk_truncated p = None"

definition fits :: "int \<Rightarrow> TokenizedExample \<Rightarrow> bool" where
  "fits n e \<longleftrightarrow> int (te_length e) \<le> n"

lemma whole_simps [simp]:
  "whole (pack_multiple es)"
  "int (te_length e) > n \<Longrightarrow> \<not> whole (pack_single e n)"
  by (simp_all add: whole_def pack_multiple_fields pack_single_fields)

lemma flush_whole:
  "list_all example_ok current \<Longrightarrow>
   concat (map unpack_sequence (filter whole (fst (flush current acc)))) =
     concat (map unpack_sequence (filter whole (fst acc))) @ current"
  by (simp add: flush_def pack_multiple_unpack)

lemma flush_cut: "filter (\<lambda>p. \<not> whole p) (fst (flush current acc)) = filter (\<lambda>p. \<not> whole p) (fst acc)"
  by (simp add: flush_def)

lemma flush_count: "snd (flush current acc) = snd acc + int (length current)"
  by (simp add: flush_def)

lemma pack_loop_whole:
  "list_all example_ok current \<Longrightarrow> list_all example_ok es \<Longrightarrow>
   concat (map unpack_sequence (filter whole (fst (fst (pack_loop n es acc current len over))))) =
     concat (map unpack_sequence (filter whole (fst acc))) @ current @ filter (fits n) es"
  by (induction n es acc current len over rule: pack_loop.induct) (auto simp: flush_whole fits_def)

lemma pack_loop_cut:
  "filter (\<lambda>p. \<not> whole p) (fst (fst (pack_loop n es acc current len over))) =
     filter (\<lambda>p. \<not> whole p) (fst acc) @ map (\<lambda>e. pack_single e n) (filter (\<lambda>e. \<not> fits n e) es)"
  by (induction n es acc current len over rule: pack_loop.induct) (auto simp: flush_cut fits_def)

lemma pack_loop_counts:
  "snd (fst (pack_loop n es acc current len over)) + snd (pack_loop n es acc current len over) =
     snd acc + int (length current) + over + int (length es)"
  by (induction n es acc current len over rule: pack_loop.induct) (auto simp: flush_count)

text \<open>No sequence is longer than the limit, and no two neighbours would have fitted into one.\<close>

definition tight :: "int \<Rightarrow> PackedSequence list \<Rightarrow> bool" where
  "tight n ps \<longleftrightarrow> successively (\<lambda>p q. int (pk_length p) + int (pk_length q) > n) ps"

definition waiting_ok :: "int \<Rightarrow> PackedSequence list \<Rightarrow> TokenizedExample list \<Rightarrow> int \<Rightarrow> bool" where
  "waiting_ok n ps current len \<longleftrightarrow> len = int (sum_list (map te_length current)) \<and> len \<le> n
     \<and> (if current = [] then ps = []
        else ps = [] \<or> int (pk_length (last ps)) + int (te_length (hd current)) > n)"

lemma tight_flush:
  assumes "tight n (filter whole (fst acc))" and "waiting_ok n (filter whole (fst acc)) current len"
  shows "tight n (filter whole (fst (flush current acc)))"
proof (cases current)
  case (Cons e es)
  then have "int (te_length e) \<le> int (pk_length (pack_multiple current))" by (simp add: pack_multiple_fields)
  then show ?thesis using assms Cons
    by (auto simp: tight_def waiting_ok_def flush_def successively_append_iff)
qed (use assms in \<open>simp add: flush_def\<close>)

lemma waiting_flush:
  assumes "waiting_ok n ps current len" and "len + int (te_length e) > n" and "int (te_length e) \<le> n"
    and "ps = filter whole (fst acc)"
  shows "waiting_ok n (filter whole (fst (flush current acc))) [e] (int (te_length e))"
  using assms by (auto simp: waiting_ok_def flush_def pack_multiple_fields)

lemma pack_loop_tight:
  "tight n (filter whole (fst acc)) \<Longrightarrow> waiting_ok n (filter whole (fst acc)) current len \<Longrightarrow>
   tight n (filter whole (fst (fst (pack_loop n es acc current len over))))"
proof (induction n es acc current len over rule: pack_loop.induct)
  case (1 n acc current len over)
  then show ?case by (simp add: tight_flush)
next
  case (2 n e es acc current len over)
  show ?case
  proof (cases "int (te_length e) > n")
    case True
    then show ?thesis using "2.IH"(1) "2.prems" by simp
  next
    case small: False
    show ?thesis
    proof (cases "len + int (te_length e) \<le> n")
      case True
      have "waiting_ok n (filter whole (fst acc)) (current @ [e]) (len + int (te_length e))"
        using "2.prems"(2) True by (cases current) (auto simp: waiting_ok_def)
      then show ?thesis using "2.IH"(2) [OF small True] "2.prems"(1) small True by simp
    next
      case False
      have "waiting_ok n (filter whole (fst (flush current acc))) [e] (int (te_length e))"
        by (rule waiting_flush [OF "2.prems"(2)]) (use small False in auto)
      then show ?thesis using "2.IH"(3) [OF small False] tight_flush [OF "2.prems"] small False by simp
    qed
  qed
qed

lemma pack_loop_lengths:
  "0 \<le> n \<Longrightarrow> list_all (\<lambda>p. int (pk_length p) \<le> n) (fst acc) \<Longrightarrow>
   len = int (sum_list (map te_length current)) \<Longrightarrow> len \<le> n \<Longrightarrow>
   list_all (\<lambda>p. int (pk_length p) \<le> n) (fst (fst (pack_loop n es acc current len over)))"
proof (induction n es acc current len over rule: pack_loop.induct)
  case (1 n acc current len over)
  then show ?case by (simp add: flush_def pack_multiple_fields)
next
  case (2 n e es acc current len over)
  have flushed: "list_all (\<lambda>p. int (pk_length p) \<le> n) (fst (flush current acc))"
    using "2.prems" by (simp add: flush_def pack_multiple_fields)
  show ?case
  proof (cases "int (te_length e) > n")
    case True
    have "list_all (\<lambda>p. int (pk_length p) \<le> n) (fst acc @ [pack_single e n])"
      using "2.prems" by (simp add: pack_single_fields length_py_take_nonneg)
    then show ?thesis using "2.IH"(1) [OF True] "2.prems" True by simp
  next
    case small: False
    show ?thesis
    proof (cases "len + int (te_length e) \<le> n")
      case True
      then show ?thesis using "2.IH"(2) [OF small True] "2.prems" small by simp
    next
      case False
      then show ?thesis using "2.IH"(3) [OF small False] "2.prems" small flushed by simp
    qed
  qed
qed

text \<open>Neighbours that do not fit together are at least half full on average.\<close>

lemma tight_half_full:
  "tight n (p # ps) \<Longrightarrow> n * int (length ps) + int (pk_length p) \<le> 2 * total_tokens (p # ps)"
proof (induction ps arbitrary: p)
  case (Cons q ps)
  then have "n * int (length ps) + int (pk_length q) \<le> 2 * total_tokens (q # ps)"
    and "int (pk_length p) + int (pk_length q) > n"
    by (simp_all add: tight_def)
  then show ?case by (simp add: total_tokens_def algebra_simps)
qed (simp add: total_tokens_def)

subsection \<open>The properties\<close>

text \<open>C25: Packing loses nothing: unpacked again, the sequences that were not cut are the examples that
  fit, in their order, and the others are the rest of the examples, each cut at the limit.\<close>

theorem packing_roundtrip:
  assumes "list_all example_ok examples" and "pack_examples examples max_length = Inr batch"
  shows "concat (map unpack_sequence (filter whole (pb_sequences batch))) = filter (fits max_length) examples
    \<and> concat (map unpack_sequence (filter (\<lambda>p. \<not> whole p) (pb_sequences batch))) =
        map (cut max_length) (filter (\<lambda>e. \<not> fits max_length e) examples)"
proof (cases "examples = []")
  case False
  then have seqs: "pb_sequences batch = fst (fst (pack_loop max_length examples ([], 0) [] 0 0))"
    using assms(2) by (auto simp: pack_examples_def Let_def split: prod.splits if_splits)
  have "list_all example_ok es \<Longrightarrow>
      concat (map (unpack_sequence \<circ> (\<lambda>e. pack_single e max_length)) es) = map (cut max_length) es" for es
    by (induction es) (simp_all add: pack_single_unpack)
  moreover have "list_all example_ok (filter (\<lambda>e. \<not> fits max_length e) examples)"
    using assms(1) by (simp add: list_all_iff)
  ultimately show ?thesis
    using pack_loop_whole [of "[]" examples max_length] pack_loop_cut [of max_length examples] assms(1)
    by (simp add: seqs)
qed (use assms in \<open>auto simp: pack_examples_def\<close>)

definition example_tokens :: "int list \<Rightarrow> TokenizedExample" where
  "example_tokens ids = \<lparr>te_input_ids = ids, te_attention_mask = map (\<lambda>_. 1) ids, te_labels = ids,
     te_token_train_mask = map (\<lambda>_. 1) ids, te_metadata = []\<rparr>"

lemma packing_roundtrip_witness:
  "\<exists>batch. pack_examples [example_tokens [5, 6], example_tokens [7, 8, 9, 10], example_tokens [11]] 3 = Inr batch
    \<and> concat (map unpack_sequence (filter whole (pb_sequences batch)))
        = filter (fits 3) [example_tokens [5, 6], example_tokens [7, 8, 9, 10], example_tokens [11]]"
proof -
  let ?es = "[example_tokens [5, 6], example_tokens [7, 8, 9, 10], example_tokens [11]]"
  have "is_ok (pack_examples ?es 3)" by code_simp
  then obtain batch where batch: "pack_examples ?es 3 = Inr batch" by (auto simp: is_ok_iff)
  have "list_all example_ok ?es" by code_simp
  from packing_roundtrip [OF this batch] batch show ?thesis by blast
qed

text \<open>C26: Packing fails only when it has to divide by a limit of zero.  Otherwise it counts every
  example once, and for a limit that is not negative no sequence is longer than the limit and the
  sequences that were not cut are half full: one less than their number, times the limit, is at most
  twice their tokens.\<close>

theorem packing_bounds:
  "case pack_examples examples max_length of
     Inl e \<Rightarrow> max_length = 0 \<and> examples \<noteq> []
   | Inr batch \<Rightarrow>
       pb_total_examples batch = int (length examples)
       \<and> st_num_packed (pb_stats batch) + st_num_oversized (pb_stats batch) = int (length examples)
       \<and> (if 0 \<le> max_length
          then list_all (\<lambda>p. int (pk_length p) \<le> max_length) (pb_sequences batch)
            \<and> (let kept = filter whole (pb_sequences batch)
               in max_length * (int (length kept) - 1) \<le> 2 * total_tokens kept)
          else True)"
proof (cases "examples = []")
  case True
  then show ?thesis by (simp add: pack_examples_def Let_def total_tokens_def)
next
  case False
  let ?loop = "pack_loop max_length examples ([], 0) [] 0 0"
  let ?kept = "filter whole (fst (fst ?loop))"
  have half: "max_length * (int (length ?kept) - 1) \<le> 2 * total_tokens ?kept" if "0 \<le> max_length"
  proof (cases ?kept)
    case Nil
    then show ?thesis using that by (simp add: total_tokens_def)
  next
    case (Cons p ps)
    have "tight max_length ?kept"
      by (rule pack_loop_tight) (use that in \<open>simp_all add: tight_def waiting_ok_def\<close>)
    then show ?thesis using tight_half_full [of max_length p ps] Cons by simp
  qed
  have "list_all (\<lambda>p. int (pk_length p) \<le> max_length) (fst (fst ?loop))" if "0 \<le> max_length"
    by (rule pack_loop_lengths) (use that in simp_all)
  then show ?thesis
    using False half pack_loop_counts [of max_length examples "([], 0)" "[]" 0 0]
    by (auto simp: pack_examples_def Let_def case_prod_beta)
qed

end
