(* ===== verification/Training_Properties.thy ===== *)
theory Training_Properties
  imports Prepared_Sample
begin

section \<open>Built samples meet their contracts\<close>

text \<open>
  The two builders of prepared samples only make samples that pass the contract, and the rollout of
  a sample passes every check of a data set; the mask of the characters and the list of trainable
  segments say the same.
\<close>

subsection \<open>The contract of built samples\<close>

lemma dump_fields [simp]:
  "dict_get (segment_dump s) ''kind'' = JStr (seg_kind s)"
  "dict_get (segment_dump s) ''text'' = JStr (seg_text s)"
  "dict_get (segment_dump s) ''trainable'' = JBool (seg_trainable s)"
  "map_of (segment_dump s) ''text'' = Some (JStr (seg_text s))"
  "map_of (segment_dump s) ''kind'' = Some (JStr (seg_kind s))"
  "dict_get (span_dump sp) ''start'' = JInt (sp_start sp)"
  "dict_get (span_dump sp) ''end'' = JInt (sp_end sp)"
  "dict_get (span_dump sp) ''trainable'' = JBool (sp_trainable sp)"
  by (simp_all add: dict_get_def segment_dump_def span_dump_def)

lemma check_segments_dump:
  "only_calls_trained segments \<Longrightarrow>
   check_segments i offset t bits (map segment_dump segments) (map span_dump (segment_spans offset segments))
     = Inr (t @ concat (map seg_text segments), bits @ concat (map segment_mask segments))"
proof (induction segments arbitrary: i offset t bits)
  case (Cons s segments)
  have kind: "seg_kind s \<noteq> []" "seg_trainable s \<Longrightarrow> seg_kind s = ''assistant_tool_call''"
    and rest: "only_calls_trained segments"
    using Cons.prems by (simp_all add: only_calls_trained_def)
  have "check_segment i offset (segment_dump s)
      (span_dump \<lparr>sp_start = offset, sp_end = offset + seg_length s, sp_trainable = seg_trainable s\<rparr>)
    = Inr (seg_text s, seg_trainable s)"
    using kind by (auto simp: check_segment_def seg_length_def)
  then show ?case using Cons.IH [OF rest] by (simp add: segment_mask_def seg_length_def)
qed simp

text \<open>Any sample made of segments, their mask and their spans meets the contract.\<close>

definition sample_of_segments :: "SerializedSegment list \<Rightarrow> PreparedSample \<Rightarrow> bool" where
  "sample_of_segments segments s \<longleftrightarrow>
     only_calls_trained segments \<and> ps_text s = concat (map seg_text segments)
     \<and> ps_segments s = map segment_dump segments
     \<and> ps_character_mask s = concat (map segment_mask segments)
     \<and> ps_spans s = map span_dump (segment_spans 0 segments)
     \<and> ps_trainable_char_count s = sum_list (concat (map segment_mask segments))"

lemma sample_of_segments_contract:
  assumes "sample_of_segments segments s" and "outcome_complete s"
  shows "validate_contract s =
    (case List.find (\<lambda>(name, v). py_strip v = []) (required_texts s) of
       Some (name, v) \<Rightarrow> Inl (name @ '' must be a non-empty string'') | None \<Rightarrow> Inr s)"
  using assms masks_01 [of segments]
  by (simp add: validate_contract_def sample_of_segments_def check_segments_dump split: option.split)

lemma trajectory_sample_segments:
  "sample_of_segments (sz_segments (serialize_trajectory t)) (trajectory_sample (serialize_trajectory t) extra)"
  using serialize_trajectory_trained [of t]
  by (simp add: sample_of_segments_def trajectory_sample_def Let_def build_loss_mask_eq)
     (simp add: serialize_trajectory_def Let_def)

lemma schema_following_segments:
  "sample_of_segments (ss_segments (serialize_schema_following_sample sample))
     (schema_following_prepared sample extra)"
  using schema_following_trained [of sample]
  by (simp add: sample_of_segments_def schema_following_prepared_def Let_def build_loss_mask_eq)
     (simp add: serialize_schema_following_sample_def Let_def)

lemma trajectory_outcome_complete: "outcome_complete (trajectory_sample z extra)"
  by (simp add: outcome_complete_def trajectory_sample_def Let_def)

lemma schema_following_outcome_complete: "outcome_complete (schema_following_prepared sample extra)"
  by (simp add: outcome_complete_def schema_following_prepared_def Let_def)

lemma py_strip_nonspace: "c \<in> set s \<Longrightarrow> \<not> py_space c \<Longrightarrow> py_strip s \<noteq> []"
proof
  assume c: "c \<in> set s" "\<not> py_space c" and "py_strip s = []"
  then have "\<forall>x\<in>set (py_lstrip s). py_space x"
    by (simp add: py_strip_def py_rstrip_def)
  then have "\<forall>x\<in>set s. py_space x"
    by (metis UnE dropWhile_eq_Nil_conv py_lstrip_def set_append set_takeWhileD takeWhile_dropWhile_id)
  then show False using c by blast
qed

lemma trajectory_required_texts:
  "List.find (\<lambda>(name, v). py_strip v = []) (required_texts (trajectory_sample z extra)) =
     (if py_strip (sz_task_id z) = [] then Some (''task_id'', sz_task_id z)
      else if py_strip (sz_tool_profile_id z) = [] then Some (''tool_profile_id'', sz_tool_profile_id z)
      else None)"
proof -
  have "py_strip (''trajectory::'' @ s) \<noteq> []" for s
    by (rule py_strip_nonspace [of "CHR ''t''"]) (simp_all add: py_space_def)
  then have "py_strip (''trajectory::'' @ sz_task_id z @ ''::'' @ sz_tool_profile_id z) \<noteq> []" by blast
  moreover have "py_strip ''trajectory'' \<noteq> []" "py_strip ''train'' \<noteq> []" by code_simp+
  ultimately show ?thesis by (simp add: required_texts_def trajectory_sample_def Let_def)
qed

subsection \<open>The checks of a data set\<close>

lemma joined_texts_dump: "joined_texts (map segment_dump segments) = Inr (concat (map seg_text segments))"
  by (induction segments) (simp_all add: segment_field_def)

lemma validate_spans_segment_spans:
  "last_end \<le> offset \<Longrightarrow> 0 \<le> offset \<Longrightarrow> offset + int (length (concat (map seg_text segments))) \<le> n \<Longrightarrow>
   validate_spans_from prefix n last_end (map span_dump (segment_spans offset segments)) = []"
proof (induction segments arbitrary: offset last_end)
  case (Cons s segments)
  have "validate_spans_from prefix n (max last_end (offset + seg_length s))
      (map span_dump (segment_spans (offset + seg_length s) segments)) = []"
    by (rule Cons.IH) (use Cons.prems in \<open>simp_all add: seg_length_def\<close>)
  then show ?case using Cons.prems by (simp add: py_as_int_def issue_def seg_length_def)
qed simp

lemma validate_spans_dump:
  "validate_spans prefix (int (length (concat (map seg_text segments))))
     (map span_dump (segment_spans 0 segments)) = []"
  by (simp add: validate_spans_def validate_spans_segment_spans)

lemma validate_sample_of_segments: "sample_of_segments segments s \<Longrightarrow> validate_sample s = Inr []"
  unfolding validate_sample_def sample_of_segments_def
  by (simp only: joined_texts_dump length_masks validate_spans_dump issue_def res_bind_simps) simp

lemma validate_rollout_of_segments:
  "sample_of_segments segments s \<Longrightarrow> build_slime_rollout s extra = Inr r \<Longrightarrow>
   validate_rollout r = Inr [] \<and> validate_pair s r = []"
  unfolding validate_rollout_def validate_pair_def build_slime_rollout_def sample_of_segments_def
  by (auto simp: joined_texts_dump validate_spans_dump issue_def simp del: length_concat split: option.splits)

lemma concat_concat_map: "concat (concat (map f xs)) = concat (map (\<lambda>x. concat (f x)) xs)"
  by (induction xs) simp_all

lemma serialized_ids [simp]:
  "sz_task_id (serialize_trajectory t) = tj_task_id t"
  "sz_tool_profile_id (serialize_trajectory t) = tj_tool_profile_id t"
  by (simp_all add: serialize_trajectory_def Let_def)

lemma trajectory_sample_contract:
  "validate_contract (trajectory_sample (serialize_trajectory t) extra) =
    (if py_strip (tj_task_id t) = [] then Inl ''task_id must be a non-empty string''
     else if py_strip (tj_tool_profile_id t) = [] then Inl ''tool_profile_id must be a non-empty string''
     else Inr (trajectory_sample (serialize_trajectory t) extra))"
  unfolding sample_of_segments_contract [OF trajectory_sample_segments trajectory_outcome_complete]
    trajectory_required_texts by simp

lemma build_training_sample_eq:
  "build_training_sample t extra = validate_contract (trajectory_sample (serialize_trajectory t) extra)"
  by (simp add: build_training_sample_def build_training_sample_from_serialized_def)

lemma trajectory_rollout:
  "\<exists>r. build_slime_rollout (trajectory_sample z extra) None = Inr r
     \<and> ro_text r = sz_text z \<and> ro_character_mask r = concat (map segment_mask (sz_segments z))"
  by (simp add: build_slime_rollout_def trajectory_sample_def Let_def build_loss_mask_eq)

lemma sz_text_segments: "sz_text (serialize_trajectory t) = concat (map seg_text (sz_segments (serialize_trajectory t)))"
  by (simp add: serialize_trajectory_def Let_def)

lemma trajectory_rollout_segments:
  "case trajectory_to_slime_rollout t extra of
     Inl e \<Rightarrow> py_strip (tj_task_id t) = [] \<or> py_strip (tj_tool_profile_id t) = []
   | Inr r \<Rightarrow> ro_text r = concat (map seg_text (sz_segments (serialize_trajectory t)))
       \<and> ro_character_mask r = concat (map segment_mask (sz_segments (serialize_trajectory t)))"
  using trajectory_rollout [of "serialize_trajectory t" extra]
  by (auto simp: trajectory_to_slime_rollout_def build_training_sample_eq trajectory_sample_contract
      sz_text_segments split: sum.split)

text \<open>C23: The rollout of a trajectory always exists when its two identifiers are not blank, and then
  the sample it comes from meets the contract of prepared samples and both pass every check that the
  verification of a data set makes of them.\<close>

theorem trajectory_rollouts_pass_all_checks:
  "case trajectory_to_slime_rollout t extra of
     Inl e \<Rightarrow> py_strip (tj_task_id t) = [] \<or> py_strip (tj_tool_profile_id t) = []
   | Inr r \<Rightarrow> \<exists>s. build_training_sample t extra = Inr s \<and> validate_contract s = Inr s
       \<and> validate_sample s = Inr [] \<and> validate_rollout r = Inr [] \<and> validate_pair s r = []
       \<and> ro_text r = concat (map (\<lambda>m. concat (map seg_text (message_segments m))) (tj_messages t))"
proof -
  let ?s = "trajectory_sample (serialize_trajectory t) extra"
  note of_segments = trajectory_sample_segments [of t extra]
  obtain r where r: "build_slime_rollout ?s None = Inr r" "ro_text r = sz_text (serialize_trajectory t)"
    using trajectory_rollout by blast
  have body: "sz_text (serialize_trajectory t) =
      concat (map (\<lambda>m. concat (map seg_text (message_segments m))) (tj_messages t))"
    by (simp add: serialize_trajectory_def Let_def map_concat comp_def concat_concat_map)
  show ?thesis
    using validate_sample_of_segments [OF of_segments] validate_rollout_of_segments [OF of_segments r(1)] r body
    by (simp add: trajectory_to_slime_rollout_def build_training_sample_eq trajectory_sample_contract)
qed

subsection \<open>Schema-following samples\<close>

lemma find_None_iff_all: "List.find P xs = None \<longleftrightarrow> list_all (\<lambda>x. \<not> P x) xs"
  by (induction xs) auto

lemma schema_following_trained_segments:
  "filter (\<lambda>g. dict_get g ''trainable'' = JBool True)
     (map segment_dump (ss_segments (serialize_schema_following_sample s)))
   = [segment_dump (last (ss_segments (serialize_schema_following_sample s)))]"
  by (simp add: serialize_schema_following_sample_def Let_def filter_map comp_def
      schema_following_segment_def plain_segment_def tool_call_segment_def)

text \<open>C24: A schema-following sample that is valid gives a prepared sample that meets the contract,
  passes the checks of a data set and has its target call as the only text that is trained on.\<close>

theorem schema_following_samples_train_the_target:
  assumes "schema_following_sample sample = Inr sample"
    and "py_strip (sf_source_type sample) \<noteq> []" and "py_strip (sf_split sample) \<noteq> []"
  shows "\<exists>s lead. build_schema_following_prepared_sample sample extra = Inr s
    \<and> validate_schema_following_prepared_sample s = Inr []
    \<and> ps_text s = lead @ sf_target_text sample
    \<and> ps_character_mask s = replicate (length lead) 0 @ replicate (length (sf_target_text sample)) 1"
proof -
  let ?z = "serialize_schema_following_sample sample"
  let ?s = "schema_following_prepared sample extra"
  let ?lead = "concat (map (seg_text \<circ> schema_following_segment) (sf_messages sample))"
  note of_segments = schema_following_segments [of sample extra]
  have "List.find (\<lambda>(name, v). py_strip v = []) (required_texts ?s) = None"
  proof -
    have "py_strip ''schema_following'' \<noteq> []" by code_simp
    then show ?thesis using assms
      by (auto simp: required_texts_def schema_following_prepared_def Let_def schema_following_sample_def
          serialize_schema_following_sample_def split: if_splits option.splits)
  qed
  then have built: "build_schema_following_prepared_sample sample extra = Inr ?s"
    using sample_of_segments_contract [OF of_segments schema_following_outcome_complete]
    by (simp add: build_schema_following_prepared_sample_def)
  have plain: "segment_mask (schema_following_segment m) = replicate (length (seg_text (schema_following_segment m))) 0" for m
    by (simp add: segment_mask_def schema_following_segment_def Let_def plain_segment_def)
  have masked: "concat (map (segment_mask \<circ> schema_following_segment) ms)
      = replicate (length (concat (map (seg_text \<circ> schema_following_segment) ms))) 0" for ms
    by (induction ms) (simp_all add: plain replicate_add)
  have ps: "ps_text ?s = ?lead @ sf_target_text sample"
    "ps_character_mask ?s = replicate (length ?lead) 0 @ replicate (length (sf_target_text sample)) 1"
    using of_segments masked [of "sf_messages sample"]
    by (simp_all add: sample_of_segments_def serialize_schema_following_sample_def Let_def
        tool_call_segment_def segment_mask_def [of "\<lparr>seg_kind = _, seg_text = _, seg_trainable = _, seg_metadata = _\<rparr>"])
  have "validate_schema_following_prepared_sample ?s = Inr []"
    using of_segments
    by (simp add: validate_schema_following_prepared_sample_def sample_of_segments_def joined_texts_dump
        schema_following_trained_segments Let_def issue_def validate_spans_dump del: length_concat)
       (simp add: serialize_schema_following_sample_def tool_call_segment_def Let_def)
  then show ?thesis using built ps by blast
qed

definition example_target :: ExposedToolCallTarget where
  "example_target = \<lparr>et_call_id = ''call_1'', et_name = ''read'', et_payload = Arguments [(''path'', JStr ''a'')]\<rparr>"

definition example_schema_sample :: SchemaFollowingSample where
  "example_schema_sample =
     \<lparr>sf_sample_id = ''s'', sf_source_type = ''synthetic'', sf_split = ''train'', sf_task_id = ''t'',
      sf_tool_profile_id = ''p'', sf_mutation_category = ''base'',
      sf_messages = [\<lparr>sm_role = USER, sm_content = ''go'', sm_metadata = []\<rparr>],
      sf_canonical_intent = \<lparr>ci_tool = ''read_file'', ci_arguments = [], ci_input_text = None\<rparr>,
      sf_target_tool_call = example_target, sf_target_text = render_exposed_tool_call_text example_target,
      sf_metadata = []\<rparr>"

lemma schema_following_samples_train_the_target_witness:
  "\<exists>s lead. build_schema_following_prepared_sample example_schema_sample None = Inr s
    \<and> validate_schema_following_prepared_sample s = Inr []
    \<and> ps_text s = lead @ sf_target_text example_schema_sample
    \<and> ps_character_mask s = replicate (length lead) 0
        @ replicate (length (sf_target_text example_schema_sample)) 1"
proof (rule schema_following_samples_train_the_target)
  have "py_strip (sf_target_text example_schema_sample) \<noteq> []"
    by (rule py_strip_nonspace [of "CHR ''<''"])
       (simp_all add: example_schema_sample_def render_exposed_tool_call_text_def py_space_def)
  moreover have "py_strip ''s'' \<noteq> []" "py_strip ''t'' \<noteq> []" "py_strip ''p'' \<noteq> []" "py_strip ''base'' \<noteq> []"
    by code_simp+
  ultimately show "schema_following_sample example_schema_sample = Inr example_schema_sample"
    by (simp add: schema_following_sample_def example_schema_sample_def)
  show "py_strip (sf_source_type example_schema_sample) \<noteq> []" "py_strip (sf_split example_schema_sample) \<noteq> []"
    by code_simp+
qed

subsection \<open>Mask and segments\<close>

definition inside :: "nat \<Rightarrow> SerializedSegment \<times> int \<times> int \<Rightarrow> bool" where
  "inside i r = (case r of (s, a, b) \<Rightarrow> a \<le> int i \<and> int i < b)"

lemma trainable_segments_range:
  "(s, a, b) \<in> set (trainable_segments_from offset segments) \<Longrightarrow>
   offset \<le> a \<and> b \<le> offset + int (length (concat (map seg_text segments)))"
  by (induction segments arbitrary: offset) (fastforce simp: seg_length_def split: if_splits)+

lemma mask_nth_trainable:
  "i < length (concat (map seg_text segments)) \<Longrightarrow>
   concat (map segment_mask segments) ! i =
     (if list_ex (inside (k + i)) (trainable_segments_from (int k) segments) then 1 else 0)"
proof (induction segments arbitrary: i k)
  case (Cons s segments)
  let ?n = "length (seg_text s)"
  have tail: "list_ex (inside (k + i)) (trainable_segments_from (int k + seg_length s) segments) \<Longrightarrow> ?n \<le> i"
    using trainable_segments_range by (fastforce simp: list_ex_iff inside_def seg_length_def)
  have head: "inside (k + i) (s, int k, int k + seg_length s) \<longleftrightarrow> i < ?n"
    by (simp add: inside_def seg_length_def)
  show ?case
  proof (cases "i < ?n")
    case True
    then show ?thesis using tail head
      by (auto simp: nth_append segment_mask_def)
  next
    case False
    then have "concat (map segment_mask segments) ! (i - ?n) =
        (if list_ex (inside (k + ?n + (i - ?n))) (trainable_segments_from (int (k + ?n)) segments) then 1 else 0)"
      using Cons.prems by (intro Cons.IH) simp
    then show ?thesis using False head by (simp add: nth_append seg_length_def)
  qed
qed simp

text \<open>A character is in the mask exactly if it lies in one of the trainable segments, and the mask
  has as many entries as the text has characters.\<close>

theorem loss_mask_exact:
  "lm_character_mask (build_loss_mask segments) =
     map (\<lambda>i. if list_ex (inside i) (get_trainable_segments segments) then 1 else 0)
       [0..<length (concat (map seg_text segments))]"
  unfolding build_loss_mask_eq
  by (rule nth_equalityI) (simp_all only: length_masks length_map length_upt diff_zero nth_map nth_upt
      add_0 mask_nth_trainable [where k = 0, simplified] get_trainable_segments_def)

end
