(* ===== verification/Token_Properties.thy ===== *)
theory Token_Properties
  imports Packing_Properties Training_Properties
begin

section \<open>Tokens, labels and the response window\<close>

subsection \<open>Aligned tokens\<close>

lemma align_length [simp]: "length (align_character_mask_to_tokens m rs) = length rs"
  by (simp add: align_character_mask_to_tokens_def)

lemma align_01: "set (align_character_mask_to_tokens m rs) \<subseteq> {0, 1}"
  by (auto simp: align_character_mask_to_tokens_def)

definition aligned :: "int list \<times> int list \<Rightarrow> bool" where
  "aligned p \<longleftrightarrow> length (fst p) = length (snd p) \<and> set (snd p) \<subseteq> {0, 1}"

lemma aligned_tokens_aligned: "aligned_tokens tk t m = Inr p \<Longrightarrow> aligned p"
  by (auto simp: aligned_tokens_def aligned_def res_bind_Inr_iff Let_def validate_token_alignment_lengths_def
      align_character_mask_to_tokens_def split: if_splits)

lemma set_py_take: "set (py_take n xs) \<subseteq> set xs"
  by (simp add: py_take_def set_take_subset)

lemma truncate_aligned: "aligned p \<Longrightarrow> aligned (truncate_tokens n p)"
  using set_py_take [of _ "snd p"]
  by (auto simp: aligned_def truncate_tokens_def intro: length_py_take split: option.splits)

lemma length_build_labels [simp]: "length (build_labels ids m) = min (length ids) (length m)"
  by (simp add: build_labels_def)

lemma tokenized_example_ok:
  assumes "aligned p"
  shows "example_ok (tokenized_example config metadata p)"
    and "set (te_token_train_mask (tokenized_example config metadata p)) \<subseteq> {0, 1}"
    and "te_labels (tokenized_example config metadata p)
      = build_labels (te_input_ids (tokenized_example config metadata p))
          (te_token_train_mask (tokenized_example config metadata p))"
  using truncate_aligned [OF assms, of "config_limit config"]
  by (simp_all add: tokenized_example_def aligned_def example_ok_def te_length_def case_prod_beta Let_def)

subsection \<open>The check of tokenized examples\<close>

lemma token_issues_label [simp]:
  "m \<in> {0, 1} \<Longrightarrow> token_issues prefix (i, if m = 1 then i else IGNORE_INDEX, m) = []"
  by (auto simp: token_issues_def issue_def)

lemma token_issues_labels:
  "set m \<subseteq> {0, 1} \<Longrightarrow> concat (map (token_issues prefix) (zip ids (zip (build_labels ids m) m))) = []"
proof (induction ids arbitrary: m)
  case (Cons i ids)
  show ?case
  proof (cases m)
    case (Cons x xs)
    then show ?thesis using Cons.IH [of xs] Cons.prems token_issues_label [of x prefix i]
      by (simp add: build_labels_def del: token_issues_label concat_eq_Nil_conv)
  qed simp
qed simp

lemma sum_list_01: "set m \<subseteq> {0, 1 :: int} \<Longrightarrow> sum_list m = int (count_list m 1)"
  by (induction m) auto

lemma sum_list_01_zero: "set m \<subseteq> {0, 1 :: int} \<Longrightarrow> sum_list m = 0 \<longleftrightarrow> 1 \<notin> set m"
  by (simp add: sum_list_01 count_list_0_iff)

lemma map_of_dict_update: "map_of (dict_update d e) = map_of d ++ map_of (rev e)"
  unfolding dict_update_def
  by (induction e arbitrary: d) (auto simp: map_add_assoc [symmetric] map_add_upd_left fun_eq_iff map_add_def split: option.splits)

lemma dict_update_other: "k \<notin> fst ` set e \<Longrightarrow> map_of (dict_update d e) k = map_of d k"
  by (simp add: map_of_dict_update map_add_def map_of_eq_None_iff [THEN iffD2] split: option.split)

lemma keys_present: "fst ` set (present key v) \<subseteq> {key}"
  by (auto simp: present_def split: option.splits)

lemma metadata_count_prepared: "metadata_count (prepared_metadata float_repr s) = Inr (ps_trainable_char_count s)"
proof -
  let ?k = "''trainable_char_count''"
  have "map_of (prepared_metadata float_repr s) ?k = Some (JInt (ps_trainable_char_count s))"
    unfolding prepared_metadata_def Let_def
    by (subst dict_update_other)
       (use keys_present in \<open>fastforce simp: image_Un\<close>, simp add: delete_conv' map_of_dict_update)
  then show ?thesis by (simp add: metadata_count_def)
qed

text \<open>
  The tokens of a text with the ranges of characters they stand for, if the tokenizer gives as many of
  the one as of the other; how many of \<open>n\<close> tokens the configuration keeps; and whether a range of
  characters holds a trained one.
\<close>

definition ranged_tokens :: "BaseTokenizerAdapter \<Rightarrow> string \<Rightarrow> (int \<times> nat \<times> nat) list option" where
  "ranged_tokens tokenizer t =
     (case (tk_encode tokenizer t, tk_get_offsets tokenizer t) of
        (Inr ids, Inr ranges) \<Rightarrow> if length ids = length ranges then Some (zip ids ranges) else None
      | _ \<Rightarrow> None)"

definition kept_tokens :: "TokenizerConfig \<Rightarrow> nat \<Rightarrow> nat" where
  "kept_tokens config n =
     (if kc_truncation config \<and> kc_max_length config < int n
      then (if kc_max_length config < 0 then n - nat (- kc_max_length config) else nat (kc_max_length config))
      else n)"

definition holds_trained :: "int list \<Rightarrow> nat \<times> nat \<Rightarrow> bool" where
  "holds_trained m r = list_ex (\<lambda>x. x \<noteq> 0) (drop (fst r) (take (snd r) m))"

lemma covers_trainable_iff: "covers_trainable m r = holds_trained m r"
proof -
  obtain a b where r: "r = (a, b)" by fastforce
  have "holds_trained m r \<longleftrightarrow> (\<exists>k. a + k < b \<and> a + k < length m \<and> m ! (a + k) \<noteq> 0)"
    by (auto simp: r holds_trained_def list_ex_length less_diff_conv add.commute)
  also have "\<dots> \<longleftrightarrow> (\<exists>i. a \<le> i \<and> i < b \<and> i < length m \<and> m ! i \<noteq> 0)"
    by (metis le_add1 le_Suc_ex)
  finally show ?thesis by (auto simp: r covers_trainable_def list_ex_iff)
qed

lemma aligned_ranged_tokens:
  "case ranged_tokens tokenizer t of
     None \<Rightarrow> \<not> is_ok (aligned_tokens tokenizer t m)
   | Some tokens \<Rightarrow> aligned_tokens tokenizer t m
       = Inr (map fst tokens, map (\<lambda>tok. if holds_trained m (snd tok) then 1 else 0) tokens)"
proof -
  have flags: "align_character_mask_to_tokens m rs
      = map (\<lambda>tok. if holds_trained m (snd tok) then 1 else 0) (zip (ids :: int list) rs)"
    if "length ids = length rs" for ids rs
  proof -
    have "rs = map snd (zip ids rs)" using that by simp
    then show ?thesis unfolding align_character_mask_to_tokens_def covers_trainable_iff
      by (metis (no_types, lifting) length_map list.map_comp comp_apply map_eq_conv)
  qed
  show ?thesis
    by (auto simp: ranged_tokens_def aligned_tokens_def is_ok_iff Let_def validate_token_alignment_lengths_def
        flags split: sum.splits)
qed

lemma truncate_kept:
  "length ids = length m \<Longrightarrow>
   truncate_tokens (config_limit c) (ids, m) = (take (kept_tokens c (length ids)) ids, take (kept_tokens c (length ids)) m)"
  by (auto simp: truncate_tokens_def config_limit_def kept_tokens_def py_take_def)

lemma build_labels_tokens:
  "build_labels (map fst tokens) (map (\<lambda>tok. if P tok then 1 else 0) tokens)
     = map (\<lambda>tok. if P tok then fst tok else IGNORE_INDEX) tokens"
  by (induction tokens) (auto simp: build_labels_def)

text \<open>C27: A prepared sample is tokenized exactly if its mask is as long as its text and the tokenizer
  gives as many ranges of characters as tokens.  The example holds the tokens that the configured
  length keeps; a token is trained on, and labelled with itself, exactly if its range holds a trained
  character, and labelled -100 otherwise.  The example passes the check of tokenized examples with one
  exception: it is reported without trainable tokens exactly if the sample counts trainable characters
  and no kept token has a trained character in its range.\<close>

theorem tensorized_samples_pass_the_check:
  "case ranged_tokens tokenizer (ps_text s) of
     None \<Rightarrow> \<not> is_ok (tensorize_prepared_sample float_repr s tokenizer config)
   | Some tokens \<Rightarrow>
       (case tensorize_prepared_sample float_repr s tokenizer config of
          Inl e \<Rightarrow> length (ps_character_mask s) \<noteq> length (ps_text s)
        | Inr e \<Rightarrow> length (ps_character_mask s) = length (ps_text s) \<and> example_ok e
            \<and> (let kept = take (kept_tokens config (length tokens)) tokens;
                   trained = (\<lambda>tok. holds_trained (ps_character_mask s) (snd tok))
               in te_input_ids e = map fst kept
                  \<and> te_token_train_mask e = map (\<lambda>tok. if trained tok then 1 else 0) kept
                  \<and> te_labels e = map (\<lambda>tok. if trained tok then fst tok else - 100) kept
                  \<and> validate_tokenized_example ''tokenized'' e = Inr
                      (issue ''tokenized'' ''_no_trainable_tokens''
                        (0 < ps_trainable_char_count s \<and> \<not> list_ex trained kept))))"
proof (cases "ranged_tokens tokenizer (ps_text s)")
  case None
  then show ?thesis
    using aligned_ranged_tokens [of tokenizer "ps_text s" "ps_character_mask s"]
    by (auto simp: tensorize_prepared_sample_def tensorize_text_def is_ok_iff res_bind_Inr_iff)
next
  case (Some tokens)
  let ?trained = "\<lambda>tok :: int \<times> nat \<times> nat. holds_trained (ps_character_mask s) (snd tok)"
  let ?kept = "take (kept_tokens config (length tokens)) tokens"
  let ?p = "(map fst tokens, map (\<lambda>tok. if ?trained tok then 1 else 0) tokens) :: int list \<times> int list"
  have p: "aligned_tokens tokenizer (ps_text s) (ps_character_mask s) = Inr ?p"
    using aligned_ranged_tokens [of tokenizer "ps_text s" "ps_character_mask s"] Some by simp
  show ?thesis
  proof (cases "tensorize_prepared_sample float_repr s tokenizer config")
    case (Inl e)
    then show ?thesis using p Some
      by (auto simp: tensorize_prepared_sample_def tensorize_text_def validate_character_mask_length_def)
  next
    case (Inr e)
    then have len: "length (ps_character_mask s) = length (ps_text s)"
      and e: "e = tokenized_example config (prepared_metadata float_repr s) ?p"
      using p by (auto simp: tensorize_prepared_sample_def tensorize_text_def res_bind_Inr_iff
          validate_character_mask_length_def split: if_splits)
    note ok = tokenized_example_ok [OF aligned_tokens_aligned [OF p], of config "prepared_metadata float_repr s",
        folded e]
    have fields: "te_input_ids e = map fst ?kept" "te_metadata e = prepared_metadata float_repr s"
      "te_token_train_mask e = map (\<lambda>tok. if ?trained tok then 1 else 0) ?kept"
      by (simp_all add: e tokenized_example_def truncate_kept take_map)
    have trained: "1 \<in> set (te_token_train_mask e) \<longleftrightarrow> list_ex ?trained ?kept"
      by (auto simp: fields(3) list_ex_iff)
    have "validate_tokenized_example ''tokenized'' e = Inr
        (issue ''tokenized'' ''_no_trainable_tokens''
          (0 < ps_trainable_char_count s \<and> 1 \<notin> set (te_token_train_mask e)))"
      using ok
      by (simp add: validate_tokenized_example_def metadata_count_prepared fields(2) token_issues_labels
          trainable_token_count_def sum_list_01_zero del: length_build_labels)
         (simp add: issue_def example_ok_def te_length_def)
    note valid = this [unfolded trained]
    have "te_labels e = map (\<lambda>tok. if ?trained tok then fst tok else - 100) ?kept"
      unfolding ok(3) fields(1,3) build_labels_tokens by (simp add: IGNORE_INDEX_def)
    then show ?thesis using valid Inr Some len ok(1) fields(1,3) by (simp add: Let_def)
  qed
qed

subsection \<open>The response window\<close>

lemma find_Some_split:
  "List.find P xs = Some x \<Longrightarrow> \<exists>ys zs. xs = ys @ x # zs \<and> P x \<and> list_all (\<lambda>y. \<not> P y) ys"
proof (induction xs)
  case (Cons a xs)
  show ?case
  proof (cases "P a")
    case True
    then show ?thesis using Cons.prems by (intro exI [of _ "[]"] exI [of _ xs]) simp
  next
    case False
    then obtain ys zs where "xs = ys @ x # zs" "P x" "list_all (\<lambda>y. \<not> P y) ys"
      using Cons by auto
    then show ?thesis using False by (intro exI [of _ "a # ys"] exI [of _ zs]) simp
  qed
qed simp

lemma first_trainable_SomeD:
  assumes "first_trainable m = Some i"
  shows "i < length m" and "m ! i = 1" and "\<forall>j<i. m ! j \<noteq> 1"
proof -
  obtain ys zs where split: "[0..<length m] = ys @ i # zs" and i: "m ! i = 1"
    and before: "list_all (\<lambda>j. m ! j \<noteq> 1) ys"
    using find_Some_split [OF assms [unfolded first_trainable_def]] by auto
  have mem: "i \<in> set [0..<length m]" using split by simp
  then show "i < length m" by simp
  show "m ! i = 1" by (rule i)
  have len: "length ys < length m" using arg_cong [OF split, of length] by simp
  have "i = length ys" using arg_cong [OF split, of "\<lambda>xs. xs ! length ys"] len by simp
  then have "ys = [0..<i]" using arg_cong [OF split, of "take (length ys)"] len by (simp add: take_upt)
  then show "\<forall>j<i. m ! j \<noteq> 1" using before by (simp add: list_all_iff)
qed

lemma first_trainable_split:
  assumes "first_trainable m = Some i" and "set m \<subseteq> {0, 1}"
  shows "m = replicate i 0 @ drop i m" and "drop i m \<noteq> []" and "hd (drop i m) = 1"
proof -
  note D = first_trainable_SomeD [OF assms(1)]
  have "take i m = replicate i 0"
  proof (rule nth_equalityI)
    fix j assume "j < length (take i m)"
    then have "j < i" "j < length m" by simp_all
    then show "take i m ! j = replicate i 0 ! j" using D(3) assms(2) nth_mem [of j m] by fastforce
  qed (use D(1) in simp)
  then show "m = replicate i 0 @ drop i m" by (metis append_take_drop_id)
  show "drop i m \<noteq> []" using D(1) by simp
  show "hd (drop i m) = 1" using D by (simp add: hd_drop_conv_nth)
qed

text \<open>The trainer gets every token of a rollout up to the limit, and the loss mask it gets is the
  train mask without the untrained tokens in front: the first masked token is trained on, and nothing
  that is trained on is left out.\<close>

theorem response_window_exact:
  "case rollout_to_slime_train_sample float_repr r tokenizer max_length of
     Inl e \<Rightarrow> True
   | Inr s \<Rightarrow> \<exists>p. aligned_tokens tokenizer (ro_text r) (ro_character_mask r) = Inr p
       \<and> ts_tokens s = fst (truncate_tokens max_length p)
       \<and> replicate (length (ts_tokens s) - nat (ts_response_length s)) 0 @ ts_loss_mask s
           = snd (truncate_tokens max_length p)
       \<and> ts_response_length s = int (length (ts_loss_mask s))
       \<and> ts_loss_mask s \<noteq> [] \<and> hd (ts_loss_mask s) = 1"
proof (cases "rollout_to_slime_train_sample float_repr r tokenizer max_length")
  case (Inr s)
  obtain p where p: "aligned_tokens tokenizer (ro_text r) (ro_character_mask r) = Inr p"
    using Inr by (auto simp: rollout_to_slime_train_sample_def res_bind_Inr_iff)
  obtain ids m where trunc: "truncate_tokens max_length p = (ids, m)" by fastforce
  have ok: "length ids = length m" "set m \<subseteq> {0, 1}"
    using truncate_aligned [OF aligned_tokens_aligned [OF p], of max_length] trunc by (simp_all add: aligned_def)
  obtain i where i: "first_trainable m = Some i"
    and s: "ts_tokens s = ids" "ts_loss_mask s = drop i m" "ts_response_length s = int (length ids) - int i"
    using Inr p trunc
    by (auto simp: rollout_to_slime_train_sample_def res_bind_Inr_iff Let_def split: if_splits option.splits)
  have "i < length m" by (rule first_trainable_SomeD(1) [OF i])
  then show ?thesis
    using p trunc s ok first_trainable_split [OF i ok(2)]
    by (simp add: Inr nat_diff_distrib)
qed simp

text \<open>C28: A rollout that is tokenized first and then turned into a training sample gives the trainer the
  same tokens, loss mask and response length as one that is converted directly, and fails in the same
  cases; but its reward is always zero and its status always completed.\<close>

theorem both_ways_to_the_trainer_agree:
  assumes "length (ro_character_mask r) = length (ro_text r)"
  shows "case (rollout_to_slime_train_sample float_repr r tokenizer (config_limit config),
      res_bind (tensorize_rollout float_repr r tokenizer config)
        (tokenized_example_to_slime_train_sample float_repr)) of
     (Inr a, Inr b) \<Rightarrow> ts_tokens b = ts_tokens a \<and> ts_loss_mask b = ts_loss_mask a
       \<and> ts_response_length b = ts_response_length a
       \<and> ts_reward a = ro_reward r \<and> ts_reward b = 0 \<and> ts_status b = ''completed''
   | (Inl _, Inl _) \<Rightarrow> True
   | _ \<Rightarrow> False"
proof (cases "aligned_tokens tokenizer (ro_text r) (ro_character_mask r)")
  case (Inl e)
  then show ?thesis using assms
    by (simp add: rollout_to_slime_train_sample_def tensorize_rollout_def validate_character_mask_length_def)
next
  case (Inr p)
  obtain ids m where trunc: "truncate_tokens (config_limit config) p = (ids, m)" by fastforce
  have ok: "length ids = length m"
    using truncate_aligned [OF aligned_tokens_aligned [OF Inr], of "config_limit config"] trunc
    by (simp add: aligned_def)
  show ?thesis using assms Inr trunc ok
    by (auto simp: rollout_to_slime_train_sample_def tensorize_rollout_def validate_character_mask_length_def
        tokenized_example_to_slime_train_sample_def tokenized_example_def te_length_def
        validate_token_alignment_lengths_def validate_optional_tokenized_lengths_def Let_def split: option.split)
qed

definition example_rollout :: SlimeRolloutRecord where
  "example_rollout =
     \<lparr>ro_task_id = ''t'', ro_tool_profile_id = ''p'', ro_reward = 1, ro_status = ''failed'',
      ro_verifier_passed = False, ro_verifier_score = 0, ro_text = ''abcdefgh'',
      ro_character_mask = [0, 0, 0, 0, 0, 1, 1, 1], ro_spans = [], ro_segments = [],
      ro_trainable_char_count = 3, ro_total_char_count = 8, ro_metadata = []\<rparr>"

lemma both_ways_to_the_trainer_agree_witness:
  "case (rollout_to_slime_train_sample (\<lambda>_. ''1.0'') example_rollout
        (FakeTokenizerAdapter length default_fake_config) (Some 10),
      res_bind (tensorize_rollout (\<lambda>_. ''1.0'') example_rollout
          (FakeTokenizerAdapter length default_fake_config)
          \<lparr>kc_tokenizer_name = ''fake'', kc_max_length = 10, kc_truncation = True\<rparr>)
        (tokenized_example_to_slime_train_sample (\<lambda>_. ''1.0''))) of
     (Inr a, Inr b) \<Rightarrow> ts_tokens b = ts_tokens a \<and> ts_loss_mask b = ts_loss_mask a
       \<and> ts_response_length b = ts_response_length a
       \<and> ts_reward a = ro_reward example_rollout \<and> ts_reward b = 0 \<and> ts_status b = ''completed''
   | (Inl _, Inl _) \<Rightarrow> True
   | _ \<Rightarrow> False"
  using both_ways_to_the_trainer_agree [of example_rollout "\<lambda>_. ''1.0''"
      "FakeTokenizerAdapter length default_fake_config"
      "\<lparr>kc_tokenizer_name = ''fake'', kc_max_length = 10, kc_truncation = True\<rparr>"]
  by (simp add: example_rollout_def config_limit_def)

subsection \<open>Tokenizers that cover the text\<close>

text \<open>Ranges of characters that follow each other without gaps, from one position to another.\<close>

fun tiles :: "nat \<Rightarrow> nat \<Rightarrow> (nat \<times> nat) list \<Rightarrow> bool" where
  "tiles a n [] \<longleftrightarrow> a = n"
| "tiles a n ((s, e) # rs) \<longleftrightarrow> s = a \<and> a < e \<and> tiles e n rs"

lemma tiles_cover:
  "tiles a n rs \<Longrightarrow> a \<le> i \<Longrightarrow> i < n \<Longrightarrow> \<exists>j<length rs. fst (rs ! j) \<le> i \<and> i < snd (rs ! j)"
proof (induction a n rs rule: tiles.induct)
  case (2 a n s e rs)
  show ?case
  proof (cases "i < e")
    case True
    then show ?thesis using 2 by (intro exI [of _ 0]) simp
  next
    case False
    then obtain j where "j < length rs" "fst (rs ! j) \<le> i \<and> i < snd (rs ! j)" using 2 by auto
    then show ?thesis by (intro exI [of _ "Suc j"]) simp
  qed
qed simp

locale covering_tokenizer =
  fixes tokenizer :: BaseTokenizerAdapter
  assumes covers: "\<exists>ids rs. tk_encode tokenizer t = Inr ids \<and> tk_get_offsets tokenizer t = Inr rs
    \<and> length ids = length rs \<and> tiles 0 (length t) rs"
begin

lemma aligned_tokens_total: "is_ok (aligned_tokens tokenizer t m)"
  using covers [of t] by (auto simp: aligned_tokens_def Let_def validate_token_alignment_lengths_def)

lemma trained_character_has_trained_token:
  assumes "aligned_tokens tokenizer t m = Inr p" and "i < length t" and "length m = length t" and "m ! i \<noteq> 0"
  shows "1 \<in> set (snd p)"
proof -
  obtain ids rs where tk: "tk_encode tokenizer t = Inr ids" "tk_get_offsets tokenizer t = Inr rs"
    "length ids = length rs" and rs: "tiles 0 (length t) rs"
    using covers [of t] by blast
  have p: "p = (ids, align_character_mask_to_tokens m rs)"
    using assms(1) tk by (simp add: aligned_tokens_def Let_def validate_token_alignment_lengths_def)
  obtain j where j: "j < length rs" "fst (rs ! j) \<le> i" "i < snd (rs ! j)"
    using tiles_cover [OF rs _ assms(2)] by auto
  then have "covers_trainable m (rs ! j)"
    using assms by (auto simp: covers_trainable_def list_ex_iff split: prod.split)
  then have "align_character_mask_to_tokens m rs ! j = 1"
    using j by (simp add: align_character_mask_to_tokens_def)
  then show ?thesis using j(1) p nth_mem [of j "align_character_mask_to_tokens m rs"] by fastforce
qed

text \<open>Without truncation a sample with trained characters keeps a trained token.\<close>

lemma untruncated_rollout_trains:
  assumes "length (ro_character_mask r) = length (ro_text r)" and "set (ro_character_mask r) \<subseteq> {0, 1}"
  shows "is_ok (rollout_to_slime_train_sample float_repr r tokenizer None) \<longleftrightarrow> 1 \<in> set (ro_character_mask r)"
proof -
  obtain ids m where p: "aligned_tokens tokenizer (ro_text r) (ro_character_mask r) = Inr (ids, m)"
    using aligned_tokens_total [of "ro_text r" "ro_character_mask r"] by (auto simp: is_ok_iff)
  then have ok: "length ids = length m" using aligned_tokens_aligned [OF p] by (simp add: aligned_def)
  have trained: "1 \<in> set m \<longleftrightarrow> 1 \<in> set (ro_character_mask r)"
  proof
    assume "1 \<in> set (ro_character_mask r)"
    then obtain i where "i < length (ro_character_mask r)" "ro_character_mask r ! i = 1"
      by (auto simp: in_set_conv_nth)
    then show "1 \<in> set m"
      using trained_character_has_trained_token [OF p, of i] assms(1) by auto
  next
    assume "1 \<in> set m"
    moreover obtain rs where "m = align_character_mask_to_tokens (ro_character_mask r) rs"
      using p by (auto simp: aligned_tokens_def res_bind_Inr_iff Let_def)
    ultimately obtain i where "i < length (ro_character_mask r)" "ro_character_mask r ! i \<noteq> 0"
      by (auto simp: align_character_mask_to_tokens_def covers_trainable_def list_ex_iff split: prod.splits)
    then show "1 \<in> set (ro_character_mask r)" using assms(2) nth_mem by fastforce
  qed
  have first: "first_trainable m = None \<longleftrightarrow> 1 \<notin> set m"
    by (auto simp: first_trainable_def find_None_iff in_set_conv_nth)
  show ?thesis
  proof (cases "first_trainable m")
    case None
    then show ?thesis using p trained first assms(1) ok
      by (simp add: rollout_to_slime_train_sample_def validate_character_mask_length_def truncate_tokens_def Let_def)
  next
    case (Some i)
    have "i < length m" by (rule first_trainable_SomeD(1) [OF Some])
    then show ?thesis using p trained first assms(1) ok Some
      by (auto simp: rollout_to_slime_train_sample_def validate_character_mask_length_def truncate_tokens_def Let_def)
  qed
qed

end

text \<open>The tokenizer that comes with the code cuts the text into such ranges.\<close>

lemma tiles_chunks:
  "0 < c \<Longrightarrow> n \<le> a + k * c \<Longrightarrow> a + (k - 1) * c < n \<Longrightarrow> 0 < k \<Longrightarrow>
   tiles a n (map (\<lambda>i. (a + i * c, min (a + i * c + c) n)) [0..<k])"
proof (induction k arbitrary: a)
  case (Suc k)
  have upt: "[0..<Suc k] = 0 # map Suc [0..<k]" by (simp add: upt_conv_Cons map_Suc_upt)
  have rest: "tiles (min (a + c) n) n (map (\<lambda>i. (a + c + i * c, min (a + c + i * c + c) n)) [0..<k])"
  proof (cases k)
    case 0
    then show ?thesis using Suc.prems by simp
  next
    case (Suc l)
    then have "a + c < n" using Suc.prems by (auto simp: algebra_simps)
    then have "min (a + c) n = a + c" by simp
    then show ?thesis using Suc.IH [of "a + c"] Suc.prems \<open>k = Suc l\<close> by (simp add: algebra_simps)
  qed
  have "a < n" using Suc.prems by simp
  then show ?case using rest Suc.prems(1) unfolding upt by (simp add: comp_def algebra_simps)
qed simp

lemma fake_tokenizer_covers:
  assumes "0 < fk_chars_per_token c" and "fk_vocab_size c \<noteq> 4"
  shows "\<exists>ids rs. fake_encode h c t = Inr ids \<and> fake_offsets c t = Inr rs
    \<and> length ids = length rs \<and> tiles 0 (length t) rs"
proof (cases "t = []")
  case False
  define k where "k = nat (fk_chars_per_token c)"
  have k: "0 < k" using assms by (simp add: k_def)
  define q where "q = (length t + k - 1) div k"
  have "0 < q" "length t \<le> q * k" "(q - 1) * k < length t"
  proof -
    have n: "0 < length t" using False by simp
    have "k \<le> length t + k - 1" using n by linarith
    then show "0 < q" using k by (simp add: q_def div_greater_zero_iff)
    have split: "q * k + (length t + k - 1) mod k = length t + k - 1" by (simp add: q_def)
    have "(length t + k - 1) mod k < k" using k by simp
    then show "length t \<le> q * k" using split k n by linarith
    have "q * k \<le> length t + k - 1" using split by linarith
    then have "q * k - k < length t" using k n by linarith
    then show "(q - 1) * k < length t" by (simp add: diff_mult_distrib)
  qed
  then have "tiles 0 (length t) (map (\<lambda>i. (0 + i * k, min (0 + i * k + k) (length t))) [0..<q])"
    by (intro tiles_chunks) (use k in simp_all)
  then show ?thesis using assms False
    by (simp add: fake_encode_def fake_offsets_def py_range_step_def comp_def k_def [symmetric] q_def)
qed (simp add: fake_encode_def fake_offsets_def)

interpretation fake_tokenizer: covering_tokenizer "FakeTokenizerAdapter h default_fake_config"
  by unfold_locales
     (use fake_tokenizer_covers [of default_fake_config] in \<open>simp add: FakeTokenizerAdapter_def default_fake_config_def\<close>)

lemma trained_segment_mask:
  "1 \<in> set (concat (map segment_mask segments)) \<longleftrightarrow> (\<exists>s\<in>set segments. seg_trainable s \<and> seg_text s \<noteq> [])"
  by (auto simp: segment_mask_def split: if_splits)

lemma trained_message_segment:
  "(\<exists>s\<in>set (message_segments m). seg_trainable s \<and> seg_text s \<noteq> []) \<longleftrightarrow>
     msg_role m = ASSISTANT \<and> msg_tool_calls m \<noteq> []"
proof -
  have "msg_tool_calls m \<noteq> [] \<longleftrightarrow> (\<exists>c. c \<in> set (msg_tool_calls m))" by (cases "msg_tool_calls m") auto
  then show ?thesis
    by (cases "msg_role m") (auto simp: message_segments_def plain_segment_def tool_call_segment_def
        render_tool_call_segment_def bex_Un)
qed

text \<open>With the tokenizer that comes with the code and no limit, the rollout of a trajectory becomes a
  sample for the trainer exactly if the assistant called a tool in it.\<close>

theorem rollouts_with_calls_train:
  "case trajectory_to_slime_rollout t extra of
     Inl _ \<Rightarrow> py_strip (tj_task_id t) = [] \<or> py_strip (tj_tool_profile_id t) = []
   | Inr r \<Rightarrow> is_ok (rollout_to_slime_train_sample float_repr r (FakeTokenizerAdapter h default_fake_config) None)
       \<longleftrightarrow> list_ex (\<lambda>m. msg_role m = ASSISTANT \<and> msg_tool_calls m \<noteq> []) (tj_messages t)"
proof (cases "trajectory_to_slime_rollout t extra")
  case (Inr r)
  let ?segments = "sz_segments (serialize_trajectory t)"
  have r: "ro_text r = concat (map seg_text ?segments)"
    "ro_character_mask r = concat (map segment_mask ?segments)"
    using trajectory_rollout_segments [of t extra] Inr by simp_all
  have "1 \<in> set (ro_character_mask r) \<longleftrightarrow>
      (\<exists>m\<in>set (tj_messages t). \<exists>s\<in>set (message_segments m). seg_trainable s \<and> seg_text s \<noteq> [])"
    unfolding r trained_segment_mask by (simp add: serialize_trajectory_def Let_def)
  then show ?thesis
    using fake_tokenizer.untruncated_rollout_trains [of r float_repr h] masks_01 [of ?segments] Inr
    by (simp add: r trained_message_segment list_ex_iff del: length_concat set_concat)
qed (use trajectory_rollout_segments [of t extra] in simp)

end
