(* ===== verification/Turn_Loop.thy ===== *)
theory Turn_Loop
  imports Context_Runner Tool_Runtime Coding_Task
begin

section \<open>The turn loop of the runner\<close>

text \<open>
  \<open>run_agent_task\<close> of \<open>pycodeagent/agent/runner.py\<close>, with the parts of \<open>prompt.py\<close> and
  \<open>turn_context.py\<close> it uses: the first messages, a turn (context, request, response, dispatch of
  its tool calls, stop decision), what a failing client does, and the loop over turns.  The run has
  four pieces of state: the trajectory, the session (which owns the recovery state), the history
  manager and the world the tool handlers act on.  The client is an argument: a turn makes at
  most one request to generate and one to compact, so its replies are functions of the turn.
  Traces are off: the trace writer and the request context writer are absent.
\<close>

subsection \<open>Errors and arguments\<close>

text \<open>What escapes from a run: a \<open>ValueError\<close>, what the tool layer raises, or a missing decision.\<close>

datatype run_error = RunValueError string | RunToolError spec_error | RunNoDecision

definition lift_value :: "string + 'a \<Rightarrow> run_error + 'a" where
  "lift_value r = (case r of Inl m \<Rightarrow> Inl (RunValueError m) | Inr x \<Rightarrow> Inr x)"

definition lift_tool :: "spec_error + 'a \<Rightarrow> run_error + 'a" where
  "lift_tool r = (case r of Inl e \<Rightarrow> Inl (RunToolError e) | Inr x \<Rightarrow> Inr x)"

record runner_task = CodingTask +
  rt_task_id :: string
  rt_repo_path :: string
  rt_prompt :: string
  rt_max_turns :: int

record GenerateRequest =
  rq_messages :: "pydict list"
  rq_tools :: "pydict list"

datatype llm_reply = LLMRaised string string | LLMReplied GenerateResponse

record 'w run_env =
  rv_task :: runner_task
  rv_generate :: "int \<Rightarrow> GenerateRequest \<Rightarrow> llm_reply"
  rv_compaction_reply :: "int \<Rightarrow> client_reply"
  rv_capabilities :: RuntimeClientCapabilities
  rv_registry :: "'w tool_registry"
  rv_exc_text :: "spec_error \<Rightarrow> string"
  rv_profile :: ToolProfile
  rv_history :: history_env
  rv_validate_output :: "pydict \<Rightarrow> ModelBackedCompactionOutput option"
  rv_validate_task :: "pydict \<Rightarrow> string + TaskMetadataContractV1"
  rv_policy :: ContextPolicyMode
  rv_limits :: selection_limits

record 'w run_state =
  rn_trajectory :: Trajectory
  rn_session :: RuntimeSessionState
  rn_history :: RuntimeHistoryManager
  rn_world :: 'w

subsection \<open>Messages\<close>

definition native_tool_calling_system_prompt :: string where
  "native_tool_calling_system_prompt = py_join [CHR 0x0A]
    [''You are a coding agent working inside a repository workspace.'',
     '''',
     ''The available tools are provided through the runtime'' @ [CHR 0x27] @ ''s native tool-calling interface.'',
     ''Use only the exact tool names and argument shapes from those provided tools.'',
     '''',
     ''Operating rules:'',
     ''1. When you need to inspect files, edit the workspace, run validation, or finish the task, call the appropriate native tool directly.'',
     ''2. Do not emit literal <|tool|>, <|end|>, <tool_call>, or <tool_result> tags in assistant text.'',
     ''3. If a tool call is rejected or malformed, issue a corrected native tool call instead of stopping.'',
     ''4. If a validation or test-running action fails, inspect the returned output, revise the workspace, and rerun validation before signaling completion.'',
     ''5. Do not claim success or completion unless the relevant tool result has already been returned by the environment.'',
     ''6. If a task requires validation evidence, do not call finish until a successful validation result has already been returned.'',
     ''7. If you include normal assistant text, use it only to explain the next concrete action.'',
     '''']"

text \<open>The contents of the two messages \<open>build_initial_messages\<close> returns, which the runner adds.\<close>

definition build_initial_messages :: "string \<Rightarrow> (string \<times> string) list" where
  "build_initial_messages task_prompt =
     [(''system'', native_tool_calling_system_prompt), (''user'', task_prompt)]"

definition build_parse_repair_message_for_transport :: "string list \<Rightarrow> string" where
  "build_parse_repair_message_for_transport parse_errors =
     (let detail = (if parse_errors \<noteq> [] then py_join ''; '' parse_errors
                    else ''previous response was malformed'')
      in py_join [CHR 0x0A]
        [''Your previous response contained an invalid or malformed native tool call.'',
         ''Parse issue: '' @ detail,
         ''Issue a corrected native tool call directly instead of stopping.'',
         ''Do not emit literal <|tool|>, <|end|>, <tool_call>, or <tool_result> tags in assistant text.'',
         ''If you include assistant text, keep it brief and explain only the next concrete action.''])"

definition message_to_dict :: "Message \<Rightarrow> pydict" where
  "message_to_dict msg =
     [(''role'', JStr (Role_value (msg_role msg))), (''content'', JStr (msg_content msg))]
     @ (if msg_tool_calls msg = [] then []
        else [(''tool_calls'', JList (map (\<lambda>tc. JObj
           [(''id'', JStr (tc_id tc)), (''type'', JStr ''function''),
            (''function'', JObj [(''name'', JStr (tc_name tc)),
               (''arguments'', JStr (json_dumps_unsorted (JObj (tc_arguments tc))))])])
           (msg_tool_calls msg)))])
     @ (case msg_tool_call_id msg of None \<Rightarrow> []
        | Some i \<Rightarrow> if i = '''' then [] else [(''tool_call_id'', JStr i)])
     @ (case msg_tool_name msg of None \<Rightarrow> []
        | Some n \<Rightarrow> if n = '''' then [] else [(''name'', JStr n)])"

definition append_runtime_repair_messages :: "ParseResult \<Rightarrow> StopDecision \<Rightarrow> Trajectory \<Rightarrow> Trajectory" where
  "append_runtime_repair_messages parsed d traj =
     (if pr_parse_status parsed = ''fatal'' \<and> pr_tool_calls parsed = [] \<and> \<not> sd_should_stop d
         \<and> sd_decision_code d = ''recoverable_parse_error''
      then add_user (build_parse_repair_message_for_transport (pr_parse_errors parsed))
             (Some [(''message_kind'', JStr ''runtime_repair''), (''repair_kind'', JStr ''parse_error''),
                    (''decision_code'', JStr (sd_decision_code d)),
                    (''tool_call_transport'', JStr ''native_tool_calling'')]) traj
      else traj)"

subsection \<open>Querying the recovery state of a session\<close>

text \<open>A query may refresh the recovery state, which the session owns.\<close>

definition on_recovery :: "(rstate \<Rightarrow> 'a \<times> rstate) \<Rightarrow> RuntimeSessionState \<Rightarrow> 'a \<times> RuntimeSessionState" where
  "on_recovery q s =
     (let (x, r) = q (st_recovery_state s) in (x, s\<lparr>st_recovery_state := r\<rparr>))"

definition session_progress :: "RuntimeSessionState \<Rightarrow> SessionProgress" where
  "session_progress s =
     \<lparr>pg_non_finish_tool_call_count = st_non_finish_tool_call_count s,
      pg_saw_mutation_progress = st_saw_mutation_progress s,
      pg_saw_validation_progress = st_saw_validation_progress s,
      pg_distinct_non_finish_tool_names = st_distinct_non_finish_tool_names s,
      pg_successful_non_finish_tool_call_count = st_successful_non_finish_tool_call_count s,
      pg_recent_failure_kind = st_recent_failure_kind s,
      pg_recent_failure_turn = st_recent_failure_turn s\<rparr>"

definition session_policy_input :: "int \<Rightarrow> RuntimeSessionState \<Rightarrow> StopPolicyInputSnapshot \<times> RuntimeSessionState" where
  "session_policy_input turn_index s =
     on_recovery (derive_stop_policy_input_snapshot (session_progress s) turn_index) s"

text \<open>The five facts the runner reads before a turn, in the order of the source, and after a failure.\<close>

record recovery_view =
  rw_pending_issue_kind :: "string option"
  rw_active_validation_issue_kind :: "string option"
  rw_active_validation_issue_id :: "string option"
  rw_completion_evidence_status :: string
  rw_validation_phase :: string
  rw_expected_next_step :: string
  rw_completion_gate_status :: string

definition pending_issue_kind_value :: "PendingIssueKind option \<Rightarrow> string option" where
  "pending_issue_kind_value k = map_option PendingIssueKind_value k"

definition view_before_turn :: "rstate \<Rightarrow> recovery_view \<times> rstate" where
  "view_before_turn r =
     (let (phase, r1) = refresh_validation_phase r;
          (status, r2) = refresh_completion_evidence_status r1;
          (step, r3) = expected_next_step r2;
          (gate, r4) = completion_gate_status r3
      in (\<lparr>rw_pending_issue_kind = pending_issue_kind_value (rs_pending_issue_kind r1),
           rw_active_validation_issue_kind = active_validation_issue_kind r1,
           rw_active_validation_issue_id = active_issue_id r1,
           rw_completion_evidence_status = CompletionEvidenceStatus_value status,
           rw_validation_phase = ValidationPhase_value phase,
           rw_expected_next_step = ExpectedNextStep_value step,
           rw_completion_gate_status = CompletionGateStatus_value gate\<rparr>, r4))"

subsection \<open>The start of a turn\<close>

definition initial_context_selection :: "'w run_env \<Rightarrow> ContextSelection" where
  "initial_context_selection env =
     \<lparr>cs_policy_mode = ContextPolicyMode_value (rv_policy env),
      cs_max_messages = lim_max_messages (rv_limits env),
      cs_context_max_tokens = lim_context_max_tokens (rv_limits env), cs_included_message_indices = [],
      cs_omitted_message_count = 0, cs_compacted_message_count = 0, cs_first_included_index = None,
      cs_last_included_index = None, cs_included_role_counts = [], cs_compaction_applied = False,
      cs_compaction_reason = None, cs_estimated_selected_tokens = 0, cs_estimated_omitted_tokens = 0,
      cs_tool_token_reserve = 0, cs_response_token_reserve = 0, cs_token_budget_satisfied = True,
      cs_token_overflow = 0\<rparr>"

definition build_runtime_turn_state ::
  "'w run_env \<Rightarrow> RuntimeSessionState \<Rightarrow> Message list \<Rightarrow> int \<Rightarrow> recovery_view \<Rightarrow> RuntimeTurnState" where
  "build_runtime_turn_state env s messages turn_index v =
     (new_turn_state turn_index (int (length messages)) (initial_context_selection env))
     \<lparr>ts_pending_issue_id_before_turn := Option.bind (st_active_pending_issue s) pi_issue_id,
      ts_pending_issue_kind_before_turn := rw_pending_issue_kind v,
      ts_active_validation_issue_kind_before_turn := rw_active_validation_issue_kind v,
      ts_active_validation_issue_id_before_turn := rw_active_validation_issue_id v,
      ts_completion_evidence_status_before_turn := Some (rw_completion_evidence_status v),
      ts_validation_phase_before_turn := Some (rw_validation_phase v),
      ts_expected_next_step_before_turn := Some (rw_expected_next_step v),
      ts_completion_gate_status_before_turn := Some (rw_completion_gate_status v),
      ts_summary_slot_status_before_turn := map_option ss_status (st_summary_slot s),
      ts_carried_forward_state_present_before_turn := (st_carried_forward_state s \<noteq> None)\<rparr>"

text \<open>From the top of the loop body to the marked start of the turn.\<close>

definition start_turn ::
  "'w run_env \<Rightarrow> int \<Rightarrow> 'w run_state \<Rightarrow> recovery_view \<times> RuntimeTurnState \<times> 'w run_state" where
  "start_turn env turn_index st =
     (let messages = tj_messages (rn_trajectory st);
          m = sync_source_messages (rv_history env) messages (Some (max (turn_index - 1) 0)) (rn_history st);
          (v, s1) = on_recovery view_before_turn (rn_session st);
          (s2, t) = begin_turn s1 (build_runtime_turn_state env s1 messages turn_index v);
          t' = t\<lparr>ts_request_history_item_count_before_turn := int (length (hm_request_items m)),
                 ts_replacement_history_active_before_turn := (hm_replacement_history m \<noteq> [])\<rparr>
      in (v, t', st\<lparr>rn_session := s2, rn_history := m\<rparr>))"

text \<open>The context of the request, and the request itself.\<close>

definition build_request ::
  "'w run_env \<Rightarrow> int \<Rightarrow> RuntimeTurnState \<Rightarrow> 'w run_state
    \<Rightarrow> run_error + GenerateRequest \<times> RuntimeTurnState \<times> 'w run_state" where
  "build_request env turn_index t st =
     res_bind (lift_value (prepare_request_context (rv_history env) (rv_validate_output env)
         (rv_capabilities env) (rv_policy env) (rv_limits env) (rv_compaction_reply env turn_index)
         turn_index (t, rn_session st, rn_history st)))
       (\<lambda>(snap, t1, s, m).
          Inr (\<lparr>rq_messages = map message_to_dict (sn_selected_messages snap),
                rq_tools = get_exposed_specs (rv_profile env)\<rparr>,
               mark_turn_phase (Member TLP_REQUEST_BUILT) t1,
               st\<lparr>rn_session := s, rn_history := m\<rparr>))"

subsection \<open>Dispatching the tool calls\<close>

text \<open>
  \<open>inspect_call\<close> sets \<open>canonical_name\<close> on the very call object that the trajectory's assistant
  message and \<open>parsed.tool_calls\<close> hold; the resolved calls are computed first here.
\<close>

definition resolve_call :: "ToolProfile \<Rightarrow> ToolCall \<Rightarrow> ToolCall" where
  "resolve_call profile call =
     (case get_tool profile (tc_name call) of
        None \<Rightarrow> call
      | Some (view, _) \<Rightarrow> call\<lparr>tc_canonical_name := Some (tv_canonical_name view)\<rparr>)"

definition blocked_finish_metadata ::
  "ToolCall \<Rightarrow> CompletionBlockAssessment \<Rightarrow> StopPolicyInputSnapshot \<Rightarrow> string \<Rightarrow> string \<Rightarrow> rstate \<Rightarrow> pydict" where
  "blocked_finish_metadata call a inp step gate r =
     [(''error_type'', JStr ''completion_blocked''), (''stage'', JStr ''runtime_stop_policy''),
      (''execution_stage'', JStr ''runtime_stop_policy''), (''execution_kind'', JStr ''finish_signal''),
      (''operation'', JStr ''finish''), (''policy_domain'', JStr ''runtime''),
      (''policy_decision'', JStr ''deny''), (''policy_reason'', JStr (ca_detail a)),
      (''policy_reason_code'', JStr ''completion_blocked''),
      (''stop_hook_reason_code'', JStr (stop_hook_reason_code_for_block_reason (ca_block_reason a))),
      (''is_finish'', JBool True),
      (''answer_present'', JBool (dict_text (tc_arguments call) ''answer'' \<noteq> '''')),
      (''summary_present'', JBool (dict_text (tc_arguments call) ''summary'' \<noteq> '''')),
      (''finish_blocked_by_policy'', JBool True),
      (''completion_block_family'', JStr (CompletionBlockFamily_value (ca_completion_block_family a))),
      (''finish_block_reason'', opt_str (ca_block_reason a)),
      (''finish_gate_reason'', opt_str (ca_block_reason a)),
      (''completion_gate_status'', JStr gate), (''expected_next_step'', JStr step),
      (''recent_failure_kind'', opt_str (sp_recent_failure_kind inp)),
      (''meaningful_progress_observed'', JBool (sp_meaningful_progress_observed inp)),
      (''completion_allowed'', JBool (ca_completion_allowed a)),
      (''validation_evidence_fresh'', JBool (ca_validation_evidence_fresh a)),
      (''active_failure_kind'', opt_str (ca_active_failure_kind a)),
      (''corrective_progress_after_failure'', JBool (ca_corrective_progress_after_failure a)),
      (''post_mutation_validation_pending'', JBool (ca_post_mutation_validation_pending a)),
      (''active_validation_issue_kind'', opt_str (active_validation_issue_kind r)),
      (''active_validation_issue_id'',
         opt_str (map_option vi_issue_id (current_or_last_validation_issue r))),
      (''pending_issue_kind'', opt_str (pending_issue_kind_value (rs_pending_issue_kind r)))]"

definition make_blocked_finish_result ::
  "ToolCall \<Rightarrow> StopPolicyInputSnapshot \<Rightarrow> rstate \<Rightarrow> ToolResult option \<times> rstate" where
  "make_blocked_finish_result call inp r =
     (let (a, r1) = assess_completion_block r (sp_meaningful_progress_observed inp)
            (sp_progress_gate_applicable inp) (sp_recent_failure_kind inp)
      in if ca_detail a = '''' then (None, r1)
         else
           let (step, r2) = (if ca_block_reason a = Some ''no_meaningful_progress''
                  then (''retry_parse_or_tool'', r1)
                  else let (e, r') = expected_next_step r1 in (ExpectedNextStep_value e, r'));
               (gate, r3) = completion_gate_status r2
           in (Some \<lparr>tr_ok = False,
                 tr_content = ca_detail a @ [CHR 0x0A] @ ''Next step: '' @ step @ ''.'',
                 tr_metadata = blocked_finish_metadata call a inp step (CompletionGateStatus_value gate) r3,
                 tr_is_error = True\<rparr>, r3))"

text \<open>The result of one call: a blocked finish, the handler's result, or the inspection's error.\<close>

definition call_result ::
  "'w run_env \<Rightarrow> int \<Rightarrow> ToolCall \<Rightarrow> 'w ToolExecutionInspection \<Rightarrow> RuntimeSessionState \<Rightarrow> 'w
    \<Rightarrow> ToolResult \<times> RuntimeSessionState \<times> 'w" where
  "call_result env turn_index call ins s w =
     (let handled = (\<lambda>s. let (res, w') = invoke_handler (in_canonical_tool ins)
             (args_or_empty (in_canonical_args ins)) (in_canonical_input_text ins) True w in (res, s, w'))
      in if in_mapping_valid ins then
           (if canonical_tool_name call = ''finish'' then
              let (inp, s1) = session_policy_input turn_index s;
                  (blocked, s2) = on_recovery (make_blocked_finish_result call inp) s1
              in (case blocked of Some res \<Rightarrow> (res, s2, w) | None \<Rightarrow> handled s2)
            else handled s)
         else (case in_error_result ins of
                 Some res \<Rightarrow> (res, s, w)
               | None \<Rightarrow> (\<lparr>tr_ok = False, tr_content = ''Tool execution inspection failed'',
                    tr_metadata = [(''error_type'', JStr ''inspection_failed'')], tr_is_error = True\<rparr>, s, w)))"

text \<open>What the session learns from a result.\<close>

definition note_call_result ::
  "int \<Rightarrow> ToolCall \<Rightarrow> ToolResult \<Rightarrow> RuntimeSessionState \<Rightarrow> RuntimeSessionState" where
  "note_call_result turn_index call res s =
     (let (_, s1) = on_recovery (record_tool_result call res turn_index) s;
          name = canonical_tool_name call; error_type = result_error_type res;
          s2 = note_tool_execution name (tr_ok res) (tr_is_error res)
                 (if error_type = '''' then None else Some error_type) turn_index s1
      in if name \<noteq> ''finish'' \<and> tr_ok res \<and> \<not> tr_is_error res
            \<and> rs_active_failure_kind (st_recovery_state s2) \<noteq> None
         then s2\<lparr>st_recovery_state := note_corrective_progress turn_index (st_recovery_state s2)\<rparr>
         else s2)"

definition dispatch_call ::
  "'w run_env \<Rightarrow> int \<Rightarrow> ToolCall \<Rightarrow> 'w run_state \<Rightarrow> run_error + ToolResult \<times> 'w run_state" where
  "dispatch_call env turn_index call st =
     res_bind (lift_tool (inspect_call (rv_exc_text env) (rv_registry env) call (rv_profile env)))
       (\<lambda>ins.
          let (res, s1, w) = call_result env turn_index call ins (rn_session st) (rn_world st);
              version = map_option (\<lambda>(view, _). tv_version view) (get_tool (rv_profile env) (tc_name call))
          in Inr (res, st\<lparr>rn_trajectory := add_tool_observation call res version None (rn_trajectory st),
               rn_session := note_call_result turn_index call res s1, rn_world := w\<rparr>))"

fun dispatch_calls ::
  "'w run_env \<Rightarrow> int \<Rightarrow> ToolCall list \<Rightarrow> 'w run_state
    \<Rightarrow> run_error + (ToolCall \<times> ToolResult) list \<times> 'w run_state" where
  "dispatch_calls env turn_index [] st = Inr ([], st)"
| "dispatch_calls env turn_index (call # calls) st =
     res_bind (dispatch_call env turn_index call st) (\<lambda>(res, st1).
     res_bind (dispatch_calls env turn_index calls st1) (\<lambda>(rest, st2).
       Inr ((call, res) # rest, st2)))"

subsection \<open>The end of a turn\<close>

text \<open>What a turn records of its stop decision.\<close>

definition record_decision ::
  "StopDecision \<Rightarrow> ParseResult \<Rightarrow> TurnAction \<Rightarrow> string option \<Rightarrow> RuntimeSessionState
    \<Rightarrow> RuntimeHistoryManager \<Rightarrow> RuntimeTurnState \<Rightarrow> RuntimeTurnState" where
  "record_decision d parsed action recent s m t =
     t\<lparr>ts_parse_errors := pr_parse_errors parsed, ts_tool_call_ids := map tc_id (pr_tool_calls parsed),
       ts_pending_issue_id_after_turn := Option.bind (st_active_pending_issue s) pi_issue_id,
       ts_pending_issue_kind_after_turn := sd_pending_issue_kind d,
       ts_active_validation_issue_kind_after_turn := sd_active_validation_issue_kind d,
       ts_completion_evidence_status_after_turn := sd_completion_evidence_status d,
       ts_completion_block_family_after_turn := Some (sd_completion_block_family d),
       ts_validation_phase_after_turn := sd_validation_phase d,
       ts_expected_next_step_after_turn := sd_expected_next_step d,
       ts_completion_gate_status_after_turn := sd_completion_gate_status d,
       ts_active_validation_issue_id_after_turn := sd_active_validation_issue_id d,
       ts_validation_attempt_count_after_turn := (case sd_validation_attempt_count d of None \<Rightarrow> 0 | Some n \<Rightarrow> n),
       ts_revision_attempt_count_after_turn := (case sd_revision_attempt_count d of None \<Rightarrow> 0 | Some n \<Rightarrow> n),
       ts_finish_deferral_count_after_turn := (case sd_finish_deferral_count d of None \<Rightarrow> 0 | Some n \<Rightarrow> n),
       ts_turn_action := Some (TurnAction_value action), ts_stop_decision_code := sd_decision_code d,
       ts_continuation_decision_kind := Some (derive_continuation_decision_kind d),
       ts_termination_kind := derive_termination_kind d, ts_continue_reason := sd_continue_reason d,
       ts_model_needs_follow_up := sd_model_needs_follow_up d,
       ts_runtime_needs_follow_up := sd_runtime_needs_follow_up d,
       ts_stop_hook_evaluated := sd_stop_hook_evaluated d, ts_stop_hook_blocked := sd_stop_hook_blocked d,
       ts_stop_hook_reason := sd_stop_hook_reason d, ts_stop_hook_reason_code := sd_stop_hook_reason_code d,
       ts_policy_mode := Some (sd_policy_mode d), ts_recent_failure_kind_after_turn := recent,
       ts_summary_slot_status_after_turn := map_option ss_status (st_summary_slot s),
       ts_carried_forward_state_present_after_turn := (st_carried_forward_state s \<noteq> None),
       ts_replacement_history_active_after_turn := (hm_replacement_history m \<noteq> [])\<rparr>"

text \<open>The status a stop leaves: \<open>finish\<close> and a turn without tool calls keep it.\<close>

definition status_after_stop :: "StopReason option \<Rightarrow> RunStatus \<Rightarrow> RunStatus" where
  "status_after_stop reason status =
     (if reason = Some SR_PARSE_ERROR then RUN_ERROR
      else if reason = Some SR_MAX_TURNS then RUN_FAILED
      else if reason \<notin> {None, Some SR_FINISH, Some SR_NO_TOOL_CALLS} then RUN_FAILED
      else status)"

text \<open>The stop decision of a turn and what the session keeps of it.\<close>

definition decide_turn ::
  "'w run_env \<Rightarrow> int \<Rightarrow> ParseResult \<Rightarrow> RuntimeSessionState
    \<Rightarrow> (StopPolicyInputSnapshot \<times> StopDecision option) \<times> RuntimeSessionState" where
  "decide_turn env turn_index parsed s =
     (let (inp, s1) = session_policy_input turn_index s;
          (d, s2) = on_recovery (\<lambda>r. should_stop (pr_tool_calls parsed) (pr_parse_errors parsed)
            turn_index (rt_max_turns (rv_task env)) (pr_assistant_content parsed) (Some r) (Some inp)) s1
      in ((inp, d), case d of None \<Rightarrow> s2
            | Some d' \<Rightarrow> sync_pending_issue_record turn_index (sd_decision_code d')
                (note_stop_decision d' turn_index s2)))"

definition stop_session ::
  "int \<Rightarrow> RunStatus \<Rightarrow> StopDecision \<Rightarrow> RuntimeSessionState \<Rightarrow> RuntimeSessionState" where
  "stop_session turn_index status d s =
     finalize_session turn_index (Some (RunStatus_value status))
       (case sd_reason d of None \<Rightarrow> '''' | Some reason \<Rightarrow> StopReason_value reason)
       (sd_detail d) (sd_decision_code d) s"

definition status_of_turn :: "StopDecision \<Rightarrow> RunStatus \<Rightarrow> RunStatus" where
  "status_of_turn d status =
     (if sd_should_stop d then status_after_stop (sd_reason d) status else status)"

text \<open>
  The turn state as it is filed: the counts of the dispatch, the decision (with the session before
  a stop), the outcome, and the termination kind of the session after a stop.
\<close>

definition close_turn_state ::
  "StopDecision \<Rightarrow> ParseResult \<Rightarrow> TurnAction \<Rightarrow> TurnOutcome \<Rightarrow> (ToolCall \<times> ToolResult) list \<Rightarrow> string option
    \<Rightarrow> RuntimeSessionState \<Rightarrow> RuntimeSessionState \<Rightarrow> RuntimeHistoryManager \<Rightarrow> RuntimeTurnState
    \<Rightarrow> RuntimeTurnState" where
  "close_turn_state d parsed action outcome results recent s stopped m t =
     (let t1 = (mark_turn_phase (Member TLP_POST_TOOL_OBSERVATION) t)
            \<lparr>ts_executed_tool_call_count := int (length results),
             ts_successful_tool_call_count := int (length (filter (\<lambda>(_, res). tool_succeeded res) results))\<rparr>;
          t2 = mark_turn_phase (Member TLP_STOP_DECIDED)
            ((record_decision d parsed action recent s m t1)\<lparr>ts_turn_outcome := Some (TurnOutcome_value outcome)\<rparr>)
      in if sd_should_stop d
         then t2\<lparr>ts_termination_kind := Some (st_session_termination_kind stopped)\<rparr> else t2)"

definition finish_turn ::
  "'w run_env \<Rightarrow> int \<Rightarrow> recovery_view \<Rightarrow> ParseResult \<Rightarrow> TurnAction \<Rightarrow> (ToolCall \<times> ToolResult) list
    \<Rightarrow> RuntimeTurnState \<Rightarrow> 'w run_state \<Rightarrow> run_error + bool \<times> 'w run_state" where
  "finish_turn env turn_index v parsed action results t st =
     (let ((inp, dd), s) = decide_turn env turn_index parsed (rn_session st)
      in case dd of None \<Rightarrow> Inl RunNoDecision | Some d \<Rightarrow>
         res_bind (lift_value (classify_turn_outcome
             (Text (str_or (sd_validation_phase d) (rw_validation_phase v))) (Member action) results
             (sd_decision_code d) (map_option StopReason_value (sd_reason d)))) (\<lambda>outcome.
         let status = status_of_turn d (tj_status (rn_trajectory st));
             stopped = (if sd_should_stop d then stop_session turn_index status d s else s);
             closed = close_turn_state d parsed action outcome results (sp_recent_failure_kind inp) s
               stopped (rn_history st) t
         in Inr (sd_should_stop d,
              st\<lparr>rn_session := finalize_turn closed stopped,
                 rn_trajectory := append_runtime_repair_messages parsed d
                   ((rn_trajectory st)\<lparr>tj_status := status\<rparr>)\<rparr>)))"

subsection \<open>A failing client\<close>

definition fail_turn_state ::
  "RuntimeSessionState \<Rightarrow> RuntimeHistoryManager \<Rightarrow> RuntimeTurnState \<Rightarrow> RuntimeTurnState \<times> RuntimeSessionState" where
  "fail_turn_state s m t =
     (let r = st_recovery_state s; issue = current_or_last_validation_issue r;
          (status, r1) = refresh_completion_evidence_status r;
          (phase, r2) = refresh_validation_phase r1;
          (step, r3) = expected_next_step r2;
          (gate, r4) = completion_gate_status r3
      in (mark_turn_phase (Member TLP_STOP_DECIDED) (t
          \<lparr>ts_pending_issue_kind_after_turn := pending_issue_kind_value (rs_pending_issue_kind r),
           ts_pending_issue_id_after_turn := Option.bind (st_active_pending_issue s) pi_issue_id,
           ts_active_validation_issue_kind_after_turn := active_validation_issue_kind r,
           ts_completion_evidence_status_after_turn := Some (CompletionEvidenceStatus_value status),
           ts_validation_phase_after_turn := Some (ValidationPhase_value phase),
           ts_expected_next_step_after_turn := Some (ExpectedNextStep_value step),
           ts_completion_gate_status_after_turn := Some (CompletionGateStatus_value gate),
           ts_active_validation_issue_id_after_turn := active_issue_id r4,
           ts_validation_attempt_count_after_turn :=
             (case issue of None \<Rightarrow> 0 | Some i \<Rightarrow> vi_validation_attempt_count i),
           ts_revision_attempt_count_after_turn :=
             (case issue of None \<Rightarrow> 0 | Some i \<Rightarrow> vi_revision_attempt_count i),
           ts_finish_deferral_count_after_turn :=
             (case (st_finish_deferral_budget_total s, st_finish_deferral_budget_remaining s) of
                (Some cap, Some left) \<Rightarrow> cap - left | _ \<Rightarrow> 0),
           ts_stop_decision_code := ''llm_error'',
           ts_continuation_decision_kind := Some ''stop_llm_error'',
           ts_termination_kind := Some (st_session_termination_kind s),
           ts_summary_slot_status_after_turn := map_option ss_status (st_summary_slot s),
           ts_carried_forward_state_present_after_turn := (st_carried_forward_state s \<noteq> None),
           ts_replacement_history_active_after_turn := (hm_replacement_history m \<noteq> []),
           ts_turn_outcome := Some ''none''\<rparr>),
          s\<lparr>st_recovery_state := r4\<rparr>))"

definition fail_turn ::
  "int \<Rightarrow> string \<Rightarrow> string \<Rightarrow> RuntimeTurnState \<Rightarrow> 'w run_state \<Rightarrow> 'w run_state" where
  "fail_turn turn_index error_type message t st =
     (let s1 = finalize_session turn_index (Some (RunStatus_value RUN_ERROR)) ''llm_error''
            (''LLM error: '' @ error_type @ '': '' @ message) ''llm_error'' (rn_session st);
          (t1, s2) = fail_turn_state s1 (rn_history st) t;
          (metadata, s3) = build_session_metadata turn_index (finalize_turn t1 s2)
      in st\<lparr>rn_session := s3,
            rn_trajectory := (rn_trajectory st)\<lparr>tj_status := RUN_ERROR,
              tj_metadata := AList.update ''llm_error_type'' (JStr error_type)
                (AList.update ''llm_error'' (JStr message) metadata)\<rparr>\<rparr>)"

subsection \<open>The loop\<close>

text \<open>A turn ends the run by returning, breaks the loop, or lets it go on.\<close>

datatype turn_exit = TurnReturned | TurnBroke | TurnContinued

text \<open>From the response to the dispatch: what the parse leaves in the session and the trajectory.\<close>

definition note_response ::
  "int \<Rightarrow> ParseResult \<Rightarrow> RuntimeSessionState \<Rightarrow> RuntimeSessionState" where
  "note_response turn_index parsed s =
     (let s1 = note_parse_diagnostics (int (length (pr_recovery_warnings parsed)))
            (pr_parse_status parsed) (int (length (pr_tool_calls parsed)))
            (py_strip (pr_assistant_content parsed) \<noteq> '''') s;
          s2 = (if pr_protocol_errors parsed \<noteq> []
                then note_protocol_or_parse_failure ''protocol_error'' turn_index s1
                else if pr_parse_errors parsed \<noteq> [] \<and> pr_tool_calls parsed = []
                then note_protocol_or_parse_failure ''parse_error'' turn_index s1
                else s1)
      in snd (on_recovery (record_parse_result parsed (Some turn_index)) s2))"

text \<open>\<open>parsed\<close> as the aliasing leaves it once every call of it has been inspected.\<close>

definition resolved_result :: "ToolProfile \<Rightarrow> ParseResult \<Rightarrow> ParseResult" where
  "resolved_result profile parsed =
     parsed\<lparr>pr_tool_calls := map (resolve_call profile) (pr_tool_calls parsed)\<rparr>"

definition answer_turn ::
  "'w run_env \<Rightarrow> int \<Rightarrow> recovery_view \<Rightarrow> GenerateResponse \<Rightarrow> RuntimeTurnState \<Rightarrow> 'w run_state
    \<Rightarrow> run_error + turn_exit \<times> 'w run_state" where
  "answer_turn env turn_index v response t st =
     (let raw = interpret_model_response response (Some (rv_capabilities env));
          parsed = resolved_result (rv_profile env) raw;
          t1 = fold (\<lambda>p. mark_turn_phase (Member p))
            [TLP_PROVIDER_RESPONSE_RECEIVED, TLP_RESPONSE_INTERPRETED, TLP_ASSISTANT_PARSED] t;
          s = note_response turn_index raw (rn_session st)
      in res_bind (lift_value (classify_turn_action (pr_tool_calls raw) (Text (rw_validation_phase v))))
        (\<lambda>action.
         let t2 = mark_turn_phase (Member TLP_TOOL_DISPATCH)
               (t1\<lparr>ts_requested_tool_call_count := int (length (pr_tool_calls parsed))\<rparr>);
             st1 = st\<lparr>rn_session := s, rn_trajectory := add_assistant (pr_assistant_content parsed)
               (if pr_tool_calls parsed \<noteq> [] then Some (pr_tool_calls parsed) else None) (rn_trajectory st)\<rparr>
         in res_bind (dispatch_calls env turn_index (pr_tool_calls parsed) st1) (\<lambda>(results, st2).
            res_bind (finish_turn env turn_index v parsed action results t2 st2) (\<lambda>(stops, st3).
              Inr (if stops then TurnBroke else TurnContinued, st3)))))"

definition run_turn :: "'w run_env \<Rightarrow> int \<Rightarrow> 'w run_state \<Rightarrow> run_error + turn_exit \<times> 'w run_state" where
  "run_turn env turn_index st =
     (let (v, t, st1) = start_turn env turn_index st
      in res_bind (build_request env turn_index t st1) (\<lambda>(request, t1, st2).
           case rv_generate env turn_index request of
             LLMRaised error_type message \<Rightarrow>
               Inr (TurnReturned, fail_turn turn_index error_type message t1 st2)
           | LLMReplied response \<Rightarrow> answer_turn env turn_index v response t1 st2))"

text \<open>\<open>while current_turn < task.max_turns\<close>, with the turn it ended at; \<open>True\<close> when a turn returned.\<close>

function run_turns :: "'w run_env \<Rightarrow> int \<Rightarrow> 'w run_state \<Rightarrow> run_error + bool \<times> int \<times> 'w run_state" where
  "run_turns env current_turn st =
     (if current_turn < rt_max_turns (rv_task env) then
        res_bind (run_turn env (current_turn + 1) st) (\<lambda>(how, st1).
          case how of
            TurnReturned \<Rightarrow> Inr (True, current_turn + 1, st1)
          | TurnBroke \<Rightarrow> Inr (False, current_turn + 1, st1)
          | TurnContinued \<Rightarrow> run_turns env (current_turn + 1) st1)
      else Inr (False, current_turn, st))"
  by pat_completeness auto

termination
  by (relation "measure (\<lambda>(env, current_turn, st). nat (rt_max_turns (rv_task env) - current_turn))") auto

declare run_turns.simps [simp del]

text \<open>A loop that ends without an outcome gets one, then the history and the metadata are closed.\<close>

definition close_session :: "'w run_env \<Rightarrow> int \<Rightarrow> 'w run_state \<Rightarrow> 'w run_state" where
  "close_session env current_turn st =
     (let s = rn_session st; traj = rn_trajectory st; max_turns = rt_max_turns (rv_task env)
      in if st_session_outcome s \<noteq> None then st
         else if tj_status traj = RUN_COMPLETED \<and> current_turn \<ge> max_turns then
           st\<lparr>rn_trajectory := traj\<lparr>tj_status := RUN_FAILED\<rparr>,
              rn_session := finalize_session current_turn (Some (RunStatus_value RUN_FAILED))
                (StopReason_value SR_MAX_TURNS) (''Reached max_turns='' @ py_int_str max_turns)
                (StopReason_value SR_MAX_TURNS) s\<rparr>
         else st\<lparr>rn_session := finalize_session current_turn (Some (RunStatus_value (tj_status traj)))
                (st_stop_reason s) (st_stop_detail s)
                (str_or (Some (st_stop_decision_code s)) ''max_turns'') s\<rparr>)"

definition close_run :: "'w run_env \<Rightarrow> int \<Rightarrow> 'w run_state \<Rightarrow> 'w run_state" where
  "close_run env current_turn st =
     (let st1 = close_session env current_turn st;
          m = sync_source_messages (rv_history env) (tj_messages (rn_trajectory st1))
                (Some (max current_turn 0)) (rn_history st1);
          (metadata, s) = build_session_metadata current_turn (rn_session st1)
      in st1\<lparr>rn_history := m, rn_session := s,
             rn_trajectory := (rn_trajectory st1)\<lparr>tj_metadata := metadata\<rparr>\<rparr>)"

text \<open>\<open>ContextPolicyMode(str(mode))\<close>: \<open>str\<close> of a member is its qualified name, which is no value.\<close>

fun ContextPolicyMode_name :: "ContextPolicyMode \<Rightarrow> string" where
  "ContextPolicyMode_name CPM_FULL_HISTORY = ''ContextPolicyMode.FULL_HISTORY''"
| "ContextPolicyMode_name CPM_TAIL_WINDOW = ''ContextPolicyMode.TAIL_WINDOW''"
| "ContextPolicyMode_name CPM_DETERMINISTIC_COMPACTION = ''ContextPolicyMode.DETERMINISTIC_COMPACTION''"
| "ContextPolicyMode_name CPM_MODEL_BACKED_COMPACTION = ''ContextPolicyMode.MODEL_BACKED_COMPACTION''"

definition context_policy_of_arg :: "ContextPolicyMode enum_arg \<Rightarrow> string + ContextPolicyMode" where
  "context_policy_of_arg mode =
     ContextPolicyMode_of_str (case mode of Member m \<Rightarrow> ContextPolicyMode_name m | Text t \<Rightarrow> t)"

text \<open>The state before the first turn.\<close>

definition initial_trajectory :: "'w run_env \<Rightarrow> Trajectory" where
  "initial_trajectory env =
     (let task = rv_task env; messages = build_initial_messages (rt_prompt task)
      in add_user (snd (messages ! 1)) None (add_system (snd (messages ! 0))
           (register_tool_versions (get_tool_versions (rv_profile env))
             (new_trajectory (rt_task_id task) (rt_repo_path task) (tp_profile_id (rv_profile env))))))"

definition initial_session :: "'w run_env \<Rightarrow> bool \<Rightarrow> RuntimeSessionState" where
  "initial_session env requires =
     (let l = rv_limits env;
          s = initialize_session_budgets
            ((new_session_state (new_recovery_state requires default_policy))
             \<lparr>st_context_policy_mode := ContextPolicyMode_value (rv_policy env),
              st_context_max_messages := lim_max_messages l,
              st_context_max_tokens := lim_context_max_tokens l,
              st_tool_token_reserve := lim_tool_token_reserve l,
              st_response_token_reserve := lim_response_token_reserve l\<rparr>)
      in snd (on_recovery refresh_validation_phase (snd (on_recovery refresh_completion_evidence_status s))))"

definition initial_state :: "'w run_env \<Rightarrow> RetainedHistoryWriter option \<Rightarrow> bool \<Rightarrow> 'w \<Rightarrow> 'w run_state" where
  "initial_state env writer requires w =
     \<lparr>rn_trajectory = initial_trajectory env, rn_session = initial_session env requires,
      rn_history = from_trajectory_messages (rv_history env) (tj_messages (initial_trajectory env)) writer,
      rn_world = w\<rparr>"

definition run_agent_task ::
  "'w run_env \<Rightarrow> ContextPolicyMode enum_arg \<Rightarrow> RetainedHistoryWriter option \<Rightarrow> 'w
    \<Rightarrow> run_error + 'w run_state" where
  "run_agent_task env0 mode writer w =
     res_bind (lift_value (requires_runtime_validation_evidence (rv_validate_task env0)
         (CodingTask.truncate (rv_task env0)))) (\<lambda>requires.
     res_bind (lift_value (context_policy_of_arg mode)) (\<lambda>policy.
       let env = env0\<lparr>rv_policy := policy\<rparr>
       in res_bind (run_turns env 0 (initial_state env writer requires w)) (\<lambda>(returned, current_turn, st).
            Inr (if returned then st else close_run env current_turn st))))"

end
