(* ===== verification/Turn_Loop_Properties.thy ===== *)
theory Turn_Loop_Properties
  imports Turn_Loop Stopping_Properties History_Properties
begin

section \<open>The turn loop: the laws\<close>

text \<open>
  What a whole run guarantees.  The locale \<open>agent_loop\<close> turns facts about one turn into facts about
  the loop; the sections before it show, stage by stage, what a turn does to the recovery state
  (its queries keep the core, its calls record their turn), to the session and to the trajectory.
\<close>

subsection \<open>Queries only refresh\<close>

text \<open>A query of the recovery state changes neither its core nor any other field of the session.\<close>

definition refreshed :: "RuntimeSessionState \<Rightarrow> RuntimeSessionState \<Rightarrow> bool" where
  "refreshed s u \<longleftrightarrow> (\<exists>r. core r = core (st_recovery_state s) \<and> u = s\<lparr>st_recovery_state := r\<rparr>)"

lemma refreshed_refl [simp]: "refreshed s s"
  by (auto simp: refreshed_def intro!: exI [of _ "st_recovery_state s"])

lemma refreshedI: "core r = core (st_recovery_state s) \<Longrightarrow> refreshed s (s\<lparr>st_recovery_state := r\<rparr>)"
  unfolding refreshed_def by blast

lemma refreshed_trans: "refreshed s t \<Longrightarrow> refreshed t u \<Longrightarrow> refreshed s u"
  by (auto simp: refreshed_def)

lemma on_recovery_refreshed:
  "(\<And>r. core (snd (q r)) = core r) \<Longrightarrow> refreshed s (snd (on_recovery q s))"
  by (auto simp: refreshed_def on_recovery_def split_beta)

lemma session_inv_recovery:
  "session_inv (s\<lparr>st_recovery_state := r\<rparr>) \<longleftrightarrow>
     recovery_inv r \<and> progress_inv s \<and> pending_records_inv s \<and> ledger_inv s"
proof -
  have "progress_inv (s\<lparr>st_recovery_state := r\<rparr>) = progress_inv s"
    "pending_records_inv (s\<lparr>st_recovery_state := r\<rparr>) = pending_records_inv s"
    "ledger_inv (s\<lparr>st_recovery_state := r\<rparr>) = ledger_inv s"
    by (simp_all add: progress_inv_def pending_records_inv_def ledger_inv_def)
  then show ?thesis by (simp add: session_inv_def)
qed

lemma session_inv_update:
  "session_inv s \<Longrightarrow> recovery_inv r \<Longrightarrow> session_inv (s\<lparr>st_recovery_state := r\<rparr>)"
  unfolding session_inv_recovery by (simp add: session_inv_def)

lemma session_recovery_inv: "session_inv s \<Longrightarrow> recovery_inv (st_recovery_state s)"
  by (simp add: session_inv_def)

lemma refreshed_session_inv:
  assumes "refreshed s u"
  shows "session_inv u = session_inv s"
proof -
  obtain r where r: "core r = core (st_recovery_state s)" "u = s\<lparr>st_recovery_state := r\<rparr>"
    using assms unfolding refreshed_def by blast
  show ?thesis
    unfolding r(2) session_inv_recovery core_eq_inv [OF r(1)] by (simp only: session_inv_def)
qed

lemma refreshed_fields:
  assumes "refreshed s u"
  shows "st_turn_states u = st_turn_states s"
    and "st_session_outcome u = st_session_outcome s" and "session_progress u = session_progress s"
    and "st_continuation_ledger u = st_continuation_ledger s"
    and "core (st_recovery_state u) = core (st_recovery_state s)"
    and "st_total_turns_completed u = st_total_turns_completed s"
  using assms by (auto simp: refreshed_def session_progress_def)

lemma core_view_before_turn: "core (snd (view_before_turn r)) = core r"
  by (simp add: view_before_turn_def split_beta Let_def core_refresh core_expected_next_step)

lemma core_make_blocked: "core (snd (make_blocked_finish_result c inp r)) = core r"
  by (simp add: make_blocked_finish_result_def split_beta Let_def core_refresh core_expected_next_step
      core_assess)

lemma session_policy_input_refreshed: "refreshed s (snd (session_policy_input n s))"
  by (simp add: session_policy_input_def on_recovery_refreshed derive_stop_policy_input_core)

lemma call_result_refreshed: "refreshed s (fst (snd (call_result env n c ins s w)))"
proof -
  have "refreshed (snd (session_policy_input n s))
      (snd (on_recovery (make_blocked_finish_result c inp) (snd (session_policy_input n s))))" for inp
    by (rule on_recovery_refreshed) (rule core_make_blocked)
  then have "refreshed s (snd (on_recovery (make_blocked_finish_result c inp) (snd (session_policy_input n s))))" for inp
    using session_policy_input_refreshed refreshed_trans by blast
  then show ?thesis
    by (simp add: call_result_def Let_def split_beta split: option.split)
qed

subsection \<open>What a result leaves in the session\<close>

lemma note_tool_execution_frame:
  "st_recovery_state (note_tool_execution c r e x t s) = st_recovery_state s"
  "st_turn_states (note_tool_execution c r e x t s) = st_turn_states s"
  "st_session_outcome (note_tool_execution c r e x t s) = st_session_outcome s"
  "st_total_turns_completed (note_tool_execution c r e x t s) = st_total_turns_completed s"
  "st_continuation_ledger (note_tool_execution c r e x t s) = st_continuation_ledger s"
  by (simp_all add: note_tool_execution_def Let_def)

text \<open>A result is the \<open>RTool\<close> event of the recovery state, and a success may be an \<open>RProgress\<close>.\<close>

lemma note_call_result_recovery:
  "\<exists>es. set es \<subseteq> {RProgress n} \<and> st_recovery_state (note_call_result n c res s) =
     run_events recovery_step (RTool c res n # es) (st_recovery_state s)"
proof (cases "canonical_tool_name c \<noteq> ''finish'' \<and> tr_ok res \<and> \<not> tr_is_error res
    \<and> rs_active_failure_kind (snd (record_tool_result c res n (st_recovery_state s))) \<noteq> None")
  case True
  then show ?thesis
    by (intro exI [of _ "[RProgress n]"])
      (auto simp: note_call_result_def Let_def on_recovery_def split_beta note_tool_execution_frame)
next
  case False
  then show ?thesis
    by (intro exI [of _ "[]"])
      (auto simp: note_call_result_def Let_def on_recovery_def split_beta note_tool_execution_frame)
qed

lemma progress_turns:
  "set es \<subseteq> {RProgress n} \<Longrightarrow>
     rs_last_mutation_turn (run_events recovery_step es r) = rs_last_mutation_turn r \<and>
     rs_last_successful_validation_turn (run_events recovery_step es r) = rs_last_successful_validation_turn r"
  by (induction es arbitrary: r) (auto simp: turns_notes)

lemma note_call_result_turns:
  "rs_last_mutation_turn (st_recovery_state (note_call_result n c res s)) =
     (if is_mutation_tool c then Some n else rs_last_mutation_turn (st_recovery_state s))"
  "rs_last_successful_validation_turn (st_recovery_state (note_call_result n c res s)) =
     (if is_validation_tool c \<and> tool_succeeded res then Some n
      else rs_last_successful_validation_turn (st_recovery_state s))"
  "rs_requires_validation_evidence (st_recovery_state (note_call_result n c res s)) =
     rs_requires_validation_evidence (st_recovery_state s)"
proof -
  obtain es where es: "set es \<subseteq> {RProgress n}" "st_recovery_state (note_call_result n c res s) =
     run_events recovery_step (RTool c res n # es) (st_recovery_state s)"
    using note_call_result_recovery by blast
  note step = step_turns [of "RTool c res n" "st_recovery_state s"]
  show "rs_last_mutation_turn (st_recovery_state (note_call_result n c res s)) =
     (if is_mutation_tool c then Some n else rs_last_mutation_turn (st_recovery_state s))"
    using step(1) progress_turns [OF es(1)] by (simp add: es(2) del: recovery_step.simps)
  show "rs_last_successful_validation_turn (st_recovery_state (note_call_result n c res s)) =
     (if is_validation_tool c \<and> tool_succeeded res then Some n
      else rs_last_successful_validation_turn (st_recovery_state s))"
    using step(2) progress_turns [OF es(1)] by (simp add: es(2) del: recovery_step.simps)
  have "recovery_le r (run_events recovery_step fs r)" for r fs
    by (induction fs arbitrary: r) (auto intro: recovery_le_refl recovery_le_trans recovery_step_le)
  then show "rs_requires_validation_evidence (st_recovery_state (note_call_result n c res s)) =
     rs_requires_validation_evidence (st_recovery_state s)"
    unfolding es(2) by (simp only: recovery_le_def)
qed

lemma note_call_result_frame:
  "st_turn_states (note_call_result n c res s) = st_turn_states s"
  "st_session_outcome (note_call_result n c res s) = st_session_outcome s"
  "st_total_turns_completed (note_call_result n c res s) = st_total_turns_completed s"
  "st_continuation_ledger (note_call_result n c res s) = st_continuation_ledger s"
  by (simp_all add: note_call_result_def Let_def on_recovery_def split_beta note_tool_execution_frame)

lemma note_call_result_inv:
  assumes "session_inv s"
  shows "session_inv (note_call_result n c res s)"
proof -
  let ?s1 = "snd (on_recovery (record_tool_result c res n) s)"
  have "session_inv ?s1"
    using assms by (simp add: on_recovery_def split_beta session_inv_update record_tool_result_inv
        session_recovery_inv)
  then have "session_inv (note_tool_execution a b d e n ?s1)" for a b d e
    by (rule note_tool_execution_inv)
  moreover have "session_inv (u\<lparr>st_recovery_state := note_corrective_progress n (st_recovery_state u)\<rparr>)"
    if "session_inv u" for u
    using that by (simp add: session_inv_update session_recovery_inv note_corrective_progress_inv)
  ultimately show ?thesis
    by (simp add: note_call_result_def Let_def split_beta)
qed

subsection \<open>The session through a turn\<close>

text \<open>
  Between the dispatches a turn changes of the session only what the operations of
  \<open>Turn_State\<close> change: they keep it well formed, and they leave the recorded turns of the
  recovery state, the finished turns and the outcome alone.
\<close>

definition same_run :: "RuntimeSessionState \<Rightarrow> RuntimeSessionState \<Rightarrow> bool" where
  "same_run s u \<longleftrightarrow> (session_inv s \<longrightarrow> session_inv u) \<and>
     st_turn_states u = st_turn_states s \<and> st_session_outcome u = st_session_outcome s \<and>
     st_total_turns_completed u = st_total_turns_completed s \<and>
     rs_requires_validation_evidence (st_recovery_state u) = rs_requires_validation_evidence (st_recovery_state s) \<and>
     rs_last_mutation_turn (st_recovery_state u) = rs_last_mutation_turn (st_recovery_state s) \<and>
     rs_last_successful_validation_turn (st_recovery_state u) =
       rs_last_successful_validation_turn (st_recovery_state s)"

lemma same_run_refl [simp]: "same_run s s"
  by (simp add: same_run_def)

lemma same_run_trans: "same_run s t \<Longrightarrow> same_run t u \<Longrightarrow> same_run s u"
  by (simp add: same_run_def)

lemma same_run_refreshed: "refreshed s u \<Longrightarrow> same_run s u"
  unfolding same_run_def
  using refreshed_session_inv refreshed_fields(1,2,6) core_fields(3-5) [OF refreshed_fields(5)] by blast

lemma same_run_operation:
  assumes "session_inv s \<Longrightarrow> session_inv u" and "st_recovery_state u = st_recovery_state s"
    and "st_turn_states u = st_turn_states s" and "st_session_outcome u = st_session_outcome s"
    and "st_total_turns_completed u = st_total_turns_completed s"
  shows "same_run s u"
  using assms by (simp add: same_run_def)

lemma same_run_on_recovery:
  assumes "session_inv s \<Longrightarrow> recovery_inv (snd (q (st_recovery_state s)))"
    and "rs_requires_validation_evidence (snd (q (st_recovery_state s))) = rs_requires_validation_evidence (st_recovery_state s)"
    and "rs_last_mutation_turn (snd (q (st_recovery_state s))) = rs_last_mutation_turn (st_recovery_state s)"
    and "rs_last_successful_validation_turn (snd (q (st_recovery_state s))) = rs_last_successful_validation_turn (st_recovery_state s)"
  shows "same_run s (snd (on_recovery q s))"
  using assms by (simp add: same_run_def on_recovery_def split_beta session_inv_update)

lemma note_parse_diagnostics_same: "same_run s (note_parse_diagnostics w st n b s)"
  by (rule same_run_operation [OF note_parse_diagnostics_inv])
    (simp_all add: note_parse_diagnostics_def Let_def add_failure_bucket_def)

lemma note_protocol_failure_same: "same_run s (note_protocol_or_parse_failure k n s)"
  by (rule same_run_operation [OF note_protocol_failure_inv])
    (simp_all add: note_protocol_or_parse_failure_def add_failure_bucket_def)

lemma note_response_same: "same_run s (note_response n p s)"
proof -
  let ?s1 = "note_parse_diagnostics (int (length (pr_recovery_warnings p))) (pr_parse_status p)
    (int (length (pr_tool_calls p))) (py_strip (pr_assistant_content p) \<noteq> '''') s"
  let ?s2 = "if pr_protocol_errors p \<noteq> [] then note_protocol_or_parse_failure ''protocol_error'' n ?s1
    else if pr_parse_errors p \<noteq> [] \<and> pr_tool_calls p = []
    then note_protocol_or_parse_failure ''parse_error'' n ?s1 else ?s1"
  have "same_run s ?s1" by (rule note_parse_diagnostics_same)
  moreover have "same_run ?s1 ?s2" by (simp add: note_protocol_failure_same)
  moreover have "same_run u (snd (on_recovery (record_parse_result p (Some n)) u))" for u
    using record_parse_result_le [of "st_recovery_state u" p "Some n"]
    by (intro same_run_on_recovery)
      (simp_all add: record_parse_result_inv session_recovery_inv recovery_le_def turns_record_parse)
  ultimately show ?thesis
    unfolding note_response_def Let_def by (blast intro: same_run_trans)
qed

lemma note_stop_decision_same: "same_run s (note_stop_decision d n s)"
proof (rule same_run_operation [OF note_stop_decision_inv])
  show "st_recovery_state (note_stop_decision d n s) = st_recovery_state s"
    "st_turn_states (note_stop_decision d n s) = st_turn_states s"
    "st_total_turns_completed (note_stop_decision d n s) = st_total_turns_completed s"
    using note_stop_decision_frame [of d n s] by (simp_all add: decision_frame_def append_continuation_def Let_def)
  show "st_session_outcome (note_stop_decision d n s) = st_session_outcome s"
    by (simp add: note_stop_decision_def Let_def note_decision_counters_def note_finish_attempt_def
        note_blocked_finish_def append_continuation_def add_failure_bucket_def refresh_budget_snapshots_def)
qed

lemma sync_pending_issue_same: "same_run s (sync_pending_issue_record n w s)"
  by (rule same_run_operation [OF sync_session_inv])
    (simp_all add: sync_pending_issue_record_def Let_def split: option.split)

text \<open>The decision of a turn is the one the table gives on the state it meets, and always exists.\<close>

lemma decide_turn_decision:
  "\<exists>inp d u s1. refreshed s s1 \<and> u = st_recovery_state s1 \<and>
     fst (decide_turn env n p s) = (inp, Some d) \<and> same_run s (snd (decide_turn env n p s)) \<and>
     sd_decision_code d = StopDecisionCode_value
       (stop_code (pr_tool_calls p) (pr_parse_errors p) n (rt_max_turns (rv_task env)) inp u) \<and>
     sd_should_stop d = code_stops
       (stop_code (pr_tool_calls p) (pr_parse_errors p) n (rt_max_turns (rv_task env)) inp u) \<and>
     map_option StopReason_value (sd_reason d) =
       (if sd_should_stop d then Some (sd_decision_code d) else None)"
proof -
  let ?i = "fst (session_policy_input n s)" and ?s1 = "snd (session_policy_input n s)"
  let ?m = "rt_max_turns (rv_task env)" and ?c = "pr_tool_calls p" and ?e = "pr_parse_errors p"
  let ?code = "stop_code ?c ?e n ?m ?i (st_recovery_state ?s1)"
  obtain d r where d: "should_stop ?c ?e n ?m (pr_assistant_content p) (Some (st_recovery_state ?s1)) (Some ?i) = (Some d, r)"
    "sd_decision_code d = StopDecisionCode_value ?code" "sd_should_stop d = code_stops ?code"
    "map_option StopReason_value (sd_reason d) = (if code_stops ?code then Some (StopDecisionCode_value ?code) else None)"
    "core r = core (run_events recovery_step (stop_events ?c ?e n ?m ?i (st_recovery_state ?s1)) (st_recovery_state ?s1))"
    using should_stop_refines [OF refl refl, of ?c ?e n ?m "pr_assistant_content p" "Some (st_recovery_state ?s1)" "Some ?i"]
    by (auto simp: stop_state_def stop_input_def)
  let ?es = "stop_events ?c ?e n ?m ?i (st_recovery_state ?s1)"
  let ?r = "run_events recovery_step ?es (st_recovery_state ?s1)"
  have "recovery_inv (st_recovery_state ?s1) \<Longrightarrow> recovery_inv ?r"
    by (rule recovery.run_inv) simp_all
  moreover have "rs_requires_validation_evidence ?r = rs_requires_validation_evidence (st_recovery_state ?s1)"
    "rs_last_mutation_turn ?r = rs_last_mutation_turn (st_recovery_state ?s1)"
    "rs_last_successful_validation_turn ?r = rs_last_successful_validation_turn (st_recovery_state ?s1)"
    by (auto simp: stop_events_def turns_notes turns_ensure
        note_finish_deferral_le [unfolded recovery_le_def] ensure_validation_issue_le [unfolded recovery_le_def])
  ultimately have "same_run ?s1 (?s1\<lparr>st_recovery_state := r\<rparr>)"
    using core_fields(3-5) [OF d(5)] core_eq_inv [OF d(5)]
    by (simp add: same_run_def session_inv_update session_recovery_inv)
  then have "same_run s (sync_pending_issue_record n w (note_stop_decision d n (?s1\<lparr>st_recovery_state := r\<rparr>)))" for w
    using same_run_refreshed [OF session_policy_input_refreshed [of s n]]
    by (blast intro: same_run_trans note_stop_decision_same sync_pending_issue_same)
  moreover have "decide_turn env n p s = ((?i, Some d),
      sync_pending_issue_record n (sd_decision_code d) (note_stop_decision d n (?s1\<lparr>st_recovery_state := r\<rparr>)))"
    by (simp add: decide_turn_def split_beta on_recovery_def [of "\<lambda>r. should_stop a b c e f (Some r) g" for a b c e f g] d(1))
  ultimately show ?thesis
    using session_policy_input_refreshed [of s n] d(2-4) by (intro exI [of _ ?i] exI [of _ d]) auto
qed

subsection \<open>The trajectory through a turn\<close>

text \<open>The turn in which each tool message was added: the number of assistant messages before it.\<close>

fun tool_turns :: "int \<Rightarrow> Message list \<Rightarrow> int list" where
  "tool_turns n [] = []"
| "tool_turns n (m # ms) =
     (if msg_role m = ASSISTANT then tool_turns (n + 1) ms
      else if msg_role m = TOOL then n # tool_turns n ms else tool_turns n ms)"

definition observed :: "Trajectory \<Rightarrow> (int \<times> ToolObservation) list" where
  "observed traj = zip (tool_turns 0 (tj_messages traj)) (tj_observations traj)"

lemma tool_turns_append:
  "tool_turns n (ms @ ns) = tool_turns n ms @ tool_turns (n + int (assistants ms)) ns"
  by (induction ms arbitrary: n) (auto simp: algebra_simps)

lemma length_tool_turns: "length (tool_turns n ms) = length (filter (\<lambda>m. msg_role m = TOOL) ms)"
  by (induction ms arbitrary: n) auto

lemma tool_turns_bounds: "t \<in> set (tool_turns n ms) \<Longrightarrow> n \<le> t"
  by (induction ms arbitrary: n) (force split: if_splits)+

lemma sorted_tool_turns: "sorted (tool_turns n ms)"
  by (induction ms arbitrary: n) (auto dest: tool_turns_bounds)

lemma length_observed:
  "traj_inv traj \<Longrightarrow> length (tool_turns n (tj_messages traj)) = length (tj_observations traj)"
  by (metis length_map length_tool_turns traj_inv_def)

lemma observed_add_observation:
  assumes "traj_inv traj"
  shows "observed (add_tool_observation c r v m traj) = observed traj @
     [(int (assistants (tj_messages traj)), \<lparr>ob_call = c, ob_result = r, ob_tool_name = tc_name c,
        ob_canonical_name = tc_canonical_name c, ob_tool_version = v\<rparr>)]"
  using length_observed [OF assms]
  by (simp add: observed_def add_tool_observation_def Let_def tool_turns_append)

lemma observed_add_message:
  assumes "traj_inv traj" and "msg_role m \<noteq> TOOL"
  shows "observed (traj\<lparr>tj_messages := tj_messages traj @ [m], tj_tool_calls := cs\<rparr>) = observed traj"
    and "observed (traj\<lparr>tj_messages := tj_messages traj @ [m]\<rparr>) = observed traj"
  using assms(2) by (simp_all add: observed_def tool_turns_append)

definition last_observed :: "(ToolObservation \<Rightarrow> bool) \<Rightarrow> (int \<times> ToolObservation) list \<Rightarrow> int option" where
  "last_observed P xs = last_turn (\<lambda>(t, ob). if P ob then Some t else None) xs None"

abbreviation mutates :: "ToolObservation \<Rightarrow> bool" where
  "mutates ob \<equiv> is_mutation_tool (ob_call ob)"

abbreviation validates :: "ToolObservation \<Rightarrow> bool" where
  "validates ob \<equiv> is_validation_tool (ob_call ob) \<and> tool_succeeded (ob_result ob)"

text \<open>The recovery state remembers the turns of the last mutation and of the last validation.\<close>

definition turns_recorded :: "Trajectory \<Rightarrow> rstate \<Rightarrow> bool" where
  "turns_recorded traj r \<longleftrightarrow>
     rs_last_mutation_turn r = last_observed mutates (observed traj) \<and>
     rs_last_successful_validation_turn r = last_observed validates (observed traj)"

text \<open>
  The invariant in the middle of turn \<open>n\<close>, with \<open>k\<close> turns finished and the calls \<open>pending\<close> still to
  be dispatched.
\<close>

definition turn_inv ::
  "bool \<Rightarrow> nat \<Rightarrow> nat \<Rightarrow> ToolCall list \<Rightarrow> 'w run_state \<Rightarrow> bool" where
  "turn_inv requires n k pending st \<longleftrightarrow>
     traj_inv (rn_trajectory st) \<and> session_inv (rn_session st) \<and> history_inv (rn_history st) \<and>
     assistants (tj_messages (rn_trajectory st)) = n \<and>
     map ob_call (tj_observations (rn_trajectory st)) @ pending = tj_tool_calls (rn_trajectory st) \<and>
     turns_recorded (rn_trajectory st) (st_recovery_state (rn_session st)) \<and>
     rs_requires_validation_evidence (st_recovery_state (rn_session st)) = requires \<and>
     tj_status (rn_trajectory st) = RUN_COMPLETED \<and> st_session_outcome (rn_session st) = None \<and>
     map ts_turn_index (st_turn_states (rn_session st)) = map int [1..<k + 1] \<and>
     st_total_turns_completed (rn_session st) = int k \<and>
     map hi_message (hm_source_items (rn_history st)) =
       take (length (hm_source_items (rn_history st))) (tj_messages (rn_trajectory st))"

lemma turn_inv_session:
  assumes "turn_inv requires n k pending st" and "same_run (rn_session st) s"
  shows "turn_inv requires n k pending (st\<lparr>rn_session := s\<rparr>)"
  using assms by (simp add: turn_inv_def same_run_def turns_recorded_def)

lemma turn_inv_history:
  assumes "turn_inv requires n k pending st" and "same_run (rn_session st) s" and "history_inv m"
    and "map hi_message (hm_source_items m) = take (length (hm_source_items m)) (tj_messages (rn_trajectory st))"
  shows "turn_inv requires n k pending (st\<lparr>rn_session := s, rn_history := m\<rparr>)"
  using assms by (simp add: turn_inv_def same_run_def turns_recorded_def)

lemma turn_inv_world: "turn_inv requires n k pending (st\<lparr>rn_world := w\<rparr>) = turn_inv requires n k pending st"
  by (simp add: turn_inv_def)

lemma add_assistant_observed:
  "traj_inv traj \<Longrightarrow> observed (add_assistant content calls traj) = observed traj"
  by (simp add: add_assistant_def plain_message_def Let_def observed_add_message)

lemma turn_inv_assistant:
  assumes "turn_inv requires n k [] st"
  shows "turn_inv requires (Suc n) k calls
    (st\<lparr>rn_trajectory := add_assistant content (if calls \<noteq> [] then Some calls else None) (rn_trajectory st)\<rparr>)"
proof -
  let ?traj = "add_assistant content (if calls \<noteq> [] then Some calls else None) (rn_trajectory st)"
  have "length (hm_source_items (rn_history st)) \<le> length (tj_messages (rn_trajectory st))"
    using assms by (metis length_map length_take min.cobounded2 min.commute turn_inv_def)
  moreover have "traj_inv ?traj"
    using assms traj_step_inv [of "rn_trajectory st" "OpAssistant content (if calls \<noteq> [] then Some calls else None)"]
    by (simp add: turn_inv_def)
  ultimately show ?thesis
    using assms add_assistant_observed [of "rn_trajectory st" content "if calls \<noteq> [] then Some calls else None"]
    by (simp add: turn_inv_def turns_recorded_def)
      (auto simp: add_assistant_def plain_message_def Let_def assistants_def)
qed

subsection \<open>Dispatch\<close>

lemma last_observed_snoc [simp]:
  "last_observed P (xs @ [(t, ob)]) = (if P ob then Some t else last_observed P xs)"
  by (simp add: last_observed_def)

lemma dispatch_call_inv:
  assumes inv: "turn_inv requires n k (c # cs) st"
    and run: "dispatch_call env (int n) c st = Inr (res, st')"
  shows "turn_inv requires n k cs st'"
proof -
  obtain ins where "inspect_call (rv_exc_text env) (rv_registry env) c (rv_profile env) = Inr ins"
    using run by (auto simp: dispatch_call_def lift_tool_def split: sum.splits)
  define s1 where "s1 = fst (snd (call_result env (int n) c ins (rn_session st) (rn_world st)))"
  define v where "v = map_option (\<lambda>(view, _). tv_version view) (get_tool (rv_profile env) (tc_name c))"
  define traj where "traj = add_tool_observation c res v None (rn_trajectory st)"
  obtain w where st': "st' = st\<lparr>rn_trajectory := traj, rn_session := note_call_result (int n) c res s1, rn_world := w\<rparr>"
    using run \<open>inspect_call _ _ _ _ = _\<close>
    by (auto simp: dispatch_call_def lift_tool_def split_beta Let_def s1_def traj_def v_def)
  have same: "same_run (rn_session st) s1"
    unfolding s1_def by (rule same_run_refreshed) (rule call_result_refreshed)
  have traj_inv: "traj_inv (rn_trajectory st)" and as: "assistants (tj_messages (rn_trajectory st)) = n"
    using inv by (simp_all add: turn_inv_def)
  then have inv': "traj_inv traj"
    using traj_step_inv [of "rn_trajectory st" "OpObservation c res v None"] by (simp add: traj_def)
  have obs: "observed traj = observed (rn_trajectory st) @ [(int n, \<lparr>ob_call = c, ob_result = res,
      ob_tool_name = tc_name c, ob_canonical_name = tc_canonical_name c, ob_tool_version = v\<rparr>)]"
    using observed_add_observation [OF traj_inv] by (simp add: traj_def as)
  have "turns_recorded traj (st_recovery_state (note_call_result (int n) c res s1))"
    using inv same by (simp add: turns_recorded_def obs note_call_result_turns turn_inv_def same_run_def)
  moreover have "session_inv (note_call_result (int n) c res s1)"
    using inv same by (intro note_call_result_inv) (simp add: turn_inv_def same_run_def)
  moreover have "length (hm_source_items (rn_history st)) \<le> length (tj_messages (rn_trajectory st))"
    using inv by (metis length_map length_take min.cobounded2 min.commute turn_inv_def)
  ultimately show ?thesis
    using inv same inv' unfolding st'
    by (simp add: turn_inv_def note_call_result_frame note_call_result_turns same_run_def)
      (auto simp: traj_def add_tool_observation_def Let_def assistants_def)
qed

lemma dispatch_calls_inv:
  "turn_inv requires n k cs st \<Longrightarrow> dispatch_calls env (int n) cs st = Inr (rs, st') \<Longrightarrow>
     turn_inv requires n k [] st'"
proof (induction cs arbitrary: st rs)
  case (Cons c cs)
  then obtain res st1 rest where "dispatch_call env (int n) c st = Inr (res, st1)"
    "dispatch_calls env (int n) cs st1 = Inr (rest, st')"
    by (auto simp: res_bind_Inr_iff)
  with Cons dispatch_call_inv show ?case by blast
qed simp

subsection \<open>The end of a turn\<close>

text \<open>What holds of a run that has ended in turn \<open>n\<close>.\<close>

definition validated :: "Trajectory \<Rightarrow> bool" where
  "validated traj \<longleftrightarrow> (\<exists>v. last_observed validates (observed traj) = Some v \<and>
     (\<forall>m. last_observed mutates (observed traj) = Some m \<longrightarrow> m \<le> v))"

definition outcome_agrees :: "nat \<Rightarrow> RunStatus \<Rightarrow> SessionOutcomeRecord option \<Rightarrow> bool" where
  "outcome_agrees n status outcome =
     (case outcome of None \<Rightarrow> False | Some out \<Rightarrow>
        so_final_status out = Some (RunStatus_value status) \<and> so_total_turns out = int n \<and>
        (status = RUN_COMPLETED \<longleftrightarrow> so_stop_decision_code out \<in> {''finish'', ''no_tool_calls''}))"

definition run_ended :: "bool \<Rightarrow> nat \<Rightarrow> 'w run_state \<Rightarrow> bool" where
  "run_ended requires n st \<longleftrightarrow>
     traj_inv (rn_trajectory st) \<and> session_inv (rn_session st) \<and> history_inv (rn_history st) \<and>
     map ob_call (tj_observations (rn_trajectory st)) = tj_tool_calls (rn_trajectory st) \<and>
     map ts_turn_index (st_turn_states (rn_session st)) = map int [1..<n + 1] \<and>
     outcome_agrees n (tj_status (rn_trajectory st)) (st_session_outcome (rn_session st)) \<and>
     (tj_status (rn_trajectory st) = RUN_COMPLETED \<longrightarrow> requires \<longrightarrow> validated (rn_trajectory st)) \<and>
     map hi_message (hm_source_items (rn_history st)) =
       take (length (hm_source_items (rn_history st))) (tj_messages (rn_trajectory st))"

lemma RunStatus_value_inject [simp]: "RunStatus_value a = RunStatus_value b \<longleftrightarrow> a = b"
  by (cases a; cases b) simp_all

lemma finalize_session_fields:
  "st_turn_states (finalize_session n f r x c s) = st_turn_states s"
  "st_recovery_state (finalize_session n f r x c s) = st_recovery_state s"
  "st_total_turns_completed (finalize_session n f r x c s) = max (st_total_turns_completed s) n"
  "st_session_outcome (finalize_session n f r x c s) \<noteq> None"
  "so_final_status (the (st_session_outcome (finalize_session n f r x c s))) = f"
  "so_total_turns (the (st_session_outcome (finalize_session n f r x c s))) = max (st_total_turns_completed s) n"
  "so_stop_decision_code (the (st_session_outcome (finalize_session n f r x c s))) = c"
  by (simp_all add: finalize_session_def Let_def refresh_budget_snapshots_def)

lemma finalize_turn_fields:
  "map ts_turn_index (st_turn_states (finalize_turn t s)) = map ts_turn_index (st_turn_states s) @ [ts_turn_index t]"
  "st_recovery_state (finalize_turn t s) = st_recovery_state s"
  "st_session_outcome (finalize_turn t s) = st_session_outcome s"
  "st_total_turns_completed (finalize_turn t s) = int (length (st_turn_states s)) + 1"
  by (simp_all add: finalize_turn_def Let_def mark_turn_phase_def)

lemma mark_turn_phase_index [simp]: "ts_turn_index (mark_turn_phase p t) = ts_turn_index t"
  by (simp add: mark_turn_phase_def Let_def)

lemma finished_status:
  assumes "map_option StopReason_value reason = Some code"
  shows "status_after_stop reason RUN_COMPLETED = RUN_COMPLETED \<longleftrightarrow> code \<in> {''finish'', ''no_tool_calls''}"
proof -
  obtain r where r: "reason = Some r" "code = StopReason_value r" using assms by auto
  then show ?thesis by (cases r) (simp_all add: status_after_stop_def)
qed

lemma allowed_completion_validated:
  assumes "turn_inv True n k [] st" and "core u = core (st_recovery_state (rn_session st))"
    and "stop_code calls errs t m inp u \<in> {SDC_FINISH, SDC_NO_TOOL_CALLS}"
  shows "validated (rn_trajectory st)"
proof -
  have "evidence_status u \<in> {CES_NOT_REQUIRED, CES_VALIDATED}"
    using stop_code_finish [OF assms(3)] by (simp add: block_reason_None)
  then have "evidence_status (st_recovery_state (rn_session st)) \<in> {CES_NOT_REQUIRED, CES_VALIDATED}"
    using core_fields(9) [OF assms(2)] by simp
  moreover have "rs_requires_validation_evidence (st_recovery_state (rn_session st))"
    using assms(1) by (simp add: turn_inv_def)
  ultimately have "evidence_status (st_recovery_state (rn_session st)) = CES_VALIDATED"
    using evidence_status_not_required_iff by blast
  then show ?thesis
    using assms(1) by (simp add: evidence_status_validated_iff turn_inv_def turns_recorded_def validated_def)
qed

text \<open>The messages a repair adds are the only ones after the observations of a turn.\<close>

lemma append_repair_cases:
  obtains "append_runtime_repair_messages p d traj = traj"
  | content meta where "append_runtime_repair_messages p d traj = add_user content (Some meta) traj"
    "\<not> sd_should_stop d"
  unfolding append_runtime_repair_messages_def by (metis (no_types, lifting))

lemma turn_inv_user:
  assumes "turn_inv requires n k [] st"
  shows "turn_inv requires n k [] (st\<lparr>rn_trajectory := add_user content meta (rn_trajectory st)\<rparr>)"
proof -
  have "length (hm_source_items (rn_history st)) \<le> length (tj_messages (rn_trajectory st))"
    using assms by (metis length_map length_take min.cobounded2 min.commute turn_inv_def)
  moreover have "traj_inv (add_user content meta (rn_trajectory st))"
    using assms traj_step_inv [of "rn_trajectory st" "OpUser content meta"] by (simp add: turn_inv_def)
  moreover have "observed (add_user content meta (rn_trajectory st)) = observed (rn_trajectory st)"
    using assms by (simp add: add_user_def plain_message_def observed_add_message turn_inv_def)
  ultimately show ?thesis
    using assms by (simp add: turn_inv_def turns_recorded_def)
      (auto simp: add_user_def plain_message_def assistants_def)
qed

lemma turn_inv_finalize:
  assumes "turn_inv requires (Suc n) n [] st" and "ts_turn_index t = int (Suc n)"
  shows "turn_inv requires (Suc n) (Suc n) [] (st\<lparr>rn_session := finalize_turn t (rn_session st)\<rparr>)"
proof -
  have "length (st_turn_states (rn_session st)) = n"
    using assms(1) by (metis add_diff_cancel_right' length_map length_upt turn_inv_def)
  then show ?thesis
    using assms by (simp add: turn_inv_def finalize_turn_fields finalize_turn_inv)
qed

lemma validated_status [simp]: "validated (traj\<lparr>tj_status := x\<rparr>) = validated traj"
  "traj_inv (traj\<lparr>tj_status := x\<rparr>) = traj_inv traj"
  "validated (traj\<lparr>tj_metadata := d\<rparr>) = validated traj"
  "traj_inv (traj\<lparr>tj_metadata := d\<rparr>) = traj_inv traj"
  by (simp_all add: validated_def observed_def traj_inv_def)

lemma turn_inv_stopped:
  assumes inv: "turn_inv requires (Suc n) n [] st" and t: "ts_turn_index t = int (Suc n)"
    and "status = RUN_COMPLETED \<longleftrightarrow> code \<in> {''finish'', ''no_tool_calls''}"
    and "status = RUN_COMPLETED \<Longrightarrow> requires \<Longrightarrow> validated (rn_trajectory st)"
  shows "run_ended requires (Suc n) (st\<lparr>rn_session := finalize_turn t (finalize_session (int (Suc n))
      (Some (RunStatus_value status)) reason detail code (rn_session st)),
    rn_trajectory := (rn_trajectory st)\<lparr>tj_status := status\<rparr>\<rparr>)"
proof -
  let ?s = "finalize_session (int (Suc n)) (Some (RunStatus_value status)) reason detail code (rn_session st)"
  have "session_inv (finalize_turn t ?s)"
    using inv by (intro finalize_turn_inv finalize_session_inv) (simp add: turn_inv_def)
  moreover have "st_total_turns_completed (rn_session st) = int n" using inv by (simp add: turn_inv_def)
  moreover obtain out where "st_session_outcome ?s = Some out"
    using finalize_session_fields(4) by blast
  ultimately show ?thesis
    using assms finalize_session_fields(5-7) [of "int (Suc n)" "Some (RunStatus_value status)" reason detail code "rn_session st"]
    by (simp add: run_ended_def outcome_agrees_def turn_inv_def finalize_turn_fields finalize_session_fields(1,2))
qed

lemma finish_turn_inv:
  assumes inv: "turn_inv requires (Suc n) n [] st" and t: "ts_turn_index t = int (Suc n)"
    and run: "finish_turn env (int (Suc n)) v p action rs t st = Inr (stops, st')"
  shows "if stops then run_ended requires (Suc n) st' else turn_inv requires (Suc n) (Suc n) [] st'"
proof -
  let ?s = "rn_session st" and ?n = "int (Suc n)"
  obtain inp d u s1 where d: "refreshed ?s s1" "u = st_recovery_state s1"
    "fst (decide_turn env ?n p ?s) = (inp, Some d)" "same_run ?s (snd (decide_turn env ?n p ?s))"
    "sd_decision_code d = StopDecisionCode_value
       (stop_code (pr_tool_calls p) (pr_parse_errors p) ?n (rt_max_turns (rv_task env)) inp u)"
    "sd_should_stop d = code_stops
       (stop_code (pr_tool_calls p) (pr_parse_errors p) ?n (rt_max_turns (rv_task env)) inp u)"
    "map_option StopReason_value (sd_reason d) = (if sd_should_stop d then Some (sd_decision_code d) else None)"
    using decide_turn_decision [of ?s env ?n p] by blast
  define s where "s = snd (decide_turn env ?n p ?s)"
  let ?traj = "rn_trajectory st"
  define status where "status = status_of_turn d (tj_status ?traj)"
  define s2 where "s2 = (if sd_should_stop d then stop_session ?n status d s else s)"
  have inv': "turn_inv requires (Suc n) n [] (st\<lparr>rn_session := s\<rparr>)"
    using turn_inv_session [OF inv d(4)] by (simp add: s_def)
  have dec: "decide_turn env ?n p ?s = ((inp, Some d), s)"
    using d(3) by (simp add: s_def prod_eq_iff)
  obtain outcome where stops: "stops = sd_should_stop d"
    and st': "st' = st\<lparr>rn_session := finalize_turn
          (close_turn_state d p action outcome rs (sp_recent_failure_kind inp) s s2 (rn_history st) t) s2,
        rn_trajectory := append_runtime_repair_messages p d (?traj\<lparr>tj_status := status\<rparr>)\<rparr>"
    using run unfolding finish_turn_def Let_def dec
    by (auto simp: res_bind_Inr_iff s2_def status_def)
  have filed: "ts_turn_index (close_turn_state d p action outcome rs (sp_recent_failure_kind inp) s s2 (rn_history st) t) = ?n"
    by (simp add: close_turn_state_def Let_def record_decision_def t)
  let ?st = "st\<lparr>rn_session := s\<rparr>"
  show ?thesis
  proof (cases "sd_should_stop d")
    case False
    then have "status = tj_status ?traj" "s2 = s" by (simp_all add: status_def status_of_turn_def s2_def)
    moreover have "turn_inv requires (Suc n) (Suc n) [] (?st\<lparr>rn_session := finalize_turn
        (close_turn_state d p action outcome rs (sp_recent_failure_kind inp) s s2 (rn_history st) t) s\<rparr>)"
      using turn_inv_finalize [OF inv' filed] by simp
    ultimately show ?thesis
      using False turn_inv_user
      by (cases rule: append_repair_cases [of p d ?traj]) (fastforce simp: st' stops)+
  next
    case True
    have comp: "tj_status ?traj = RUN_COMPLETED" using inv by (simp add: turn_inv_def)
    then have st_code: "status = RUN_COMPLETED \<longleftrightarrow> sd_decision_code d \<in> {''finish'', ''no_tool_calls''}"
      using finished_status [of "sd_reason d" "sd_decision_code d"] d(7) True
      by (simp add: status_def status_of_turn_def)
    have valid: "validated ?traj" if "status = RUN_COMPLETED" "requires"
    proof -
      have "sd_decision_code d \<in> StopDecisionCode_value ` {SDC_FINISH, SDC_NO_TOOL_CALLS}"
        using st_code that(1) by auto
      then have "stop_code (pr_tool_calls p) (pr_parse_errors p) ?n (rt_max_turns (rv_task env)) inp u
          \<in> {SDC_FINISH, SDC_NO_TOOL_CALLS}"
        unfolding d(5) by (auto simp del: StopDecisionCode_value.simps)
      moreover have "core u = core (st_recovery_state ?s)"
        using refreshed_fields(5) [OF d(1)] d(2) by simp
      ultimately show ?thesis
        using allowed_completion_validated [of "Suc n" n st] inv that(2) by simp
    qed
    have "append_runtime_repair_messages p d (?traj\<lparr>tj_status := status\<rparr>) = ?traj\<lparr>tj_status := status\<rparr>"
      using True by (simp add: append_runtime_repair_messages_def)
    moreover have "run_ended requires (Suc n) (?st\<lparr>rn_session := finalize_turn
        (close_turn_state d p action outcome rs (sp_recent_failure_kind inp) s s2 (rn_history st) t)
        (finalize_session ?n (Some (RunStatus_value status)) reason detail (sd_decision_code d) (rn_session ?st)),
        rn_trajectory := (rn_trajectory ?st)\<lparr>tj_status := status\<rparr>\<rparr>)" for reason detail
      by (rule turn_inv_stopped [OF inv' filed st_code]) (use valid in simp)
    ultimately show ?thesis
      using True by (simp add: st' stops s2_def stop_session_def)
  qed
qed

subsection \<open>The start of a turn and its request\<close>

lemma start_turn_inv:
  assumes "turn_inv requires n n [] st" and "start_turn env (int (Suc n)) st = (v, t, st')"
  shows "turn_inv requires n n [] st' \<and> ts_turn_index t = int (Suc n)"
proof -
  let ?m = "sync_source_messages (rv_history env) (tj_messages (rn_trajectory st)) (Some (int n)) (rn_history st)"
  have m: "history_inv ?m" "map hi_message (hm_source_items ?m) =
      take (length (hm_source_items ?m)) (tj_messages (rn_trajectory st))"
    using assms(1) sync_source_messages_inv sync_source_messages_messages
    by (auto simp: turn_inv_def)
  have "same_run (rn_session st) (snd (on_recovery view_before_turn (rn_session st)))"
    by (rule same_run_refreshed [OF on_recovery_refreshed]) (rule core_view_before_turn)
  moreover have "same_run u (fst (begin_turn u x))" for u x
    using session_step_inv [of u "SBeginTurn x"]
    by (intro same_run_operation) (simp_all add: begin_turn_def)
  ultimately have "same_run (rn_session st) (fst (begin_turn (snd (on_recovery view_before_turn (rn_session st))) x))" for x
    by (blast intro: same_run_trans)
  note turn_inv_history [OF assms(1) this m]
  then show ?thesis
    using assms(2)
    by (auto simp: start_turn_def Let_def split_beta begin_turn_def build_runtime_turn_state_def
        new_turn_state_def max_def)
qed

lemma apply_context_same: "same_run s (apply_context_selection_result snap s)"
proof (cases "sn_compaction_artifact snap")
  case (Some a)
  have "session_inv (s\<lparr>st_summary_slot := b, st_carried_forward_state := c,
      st_last_compaction_artifact := d, st_compaction_count := e\<rparr>) = session_inv s" for b c d e
    by (simp add: session_inv_def progress_inv_def pending_records_inv_def ledger_inv_def)
  with Some show ?thesis
    by (simp add: apply_context_selection_result_def same_run_def)
qed (simp add: apply_context_selection_result_def)

lemma build_request_inv:
  assumes inv: "turn_inv requires n k [] st" and run: "build_request env i t st = Inr (rq, t', st')"
  shows "turn_inv requires n k [] st' \<and> ts_turn_index t' = ts_turn_index t"
proof -
  obtain p q where pq: "build_context_plan (rn_history st) (Text (ContextPolicyMode_value (rv_policy env)))
      (rv_limits env) (rn_session st) i = Inr p"
    "maybe_run_model_backed_compaction (rv_validate_output env) (rv_capabilities env)
      (ContextPolicyMode_value (rv_policy env)) (rv_compaction_reply env i) p = Inr q"
    "prepare_request_context (rv_history env) (rv_validate_output env) (rv_capabilities env) (rv_policy env)
       (rv_limits env) (rv_compaction_reply env i) i (t, rn_session st, rn_history st) =
     Inr (fst (snapshot_from_plan (rv_history env) q (rv_limits env) i (rn_history st)),
       note_context_result (fst (snapshot_from_plan (rv_history env) q (rv_limits env) i (rn_history st)))
         (lim_context_max_tokens (rv_limits env)) t,
       apply_context_selection_result (fst (snapshot_from_plan (rv_history env) q (rv_limits env) i (rn_history st)))
         (rn_session st),
       snd (snapshot_from_plan (rv_history env) q (rv_limits env) i (rn_history st)))"
    using prepare_request_context_ok by blast
  let ?m = "snd (snapshot_from_plan (rv_history env) q (rv_limits env) i (rn_history st))"
  have "history_inv (rn_history st)" using inv by (simp add: turn_inv_def)
  then have "history_inv ?m"
    using snapshot_from_plan_inv maybe_run_replaceable [OF build_context_plan_replaceable [OF pq(1)] pq(2)]
    by blast
  moreover have "hm_source_items ?m = hm_source_items (rn_history st)"
    by (simp add: snapshot_from_plan_def materialize_plan_def apply_compaction_replacement_def
        retain_replacement_def Let_def split_beta split: option.split)
  moreover have "map hi_message (hm_source_items (rn_history st)) =
      take (length (hm_source_items (rn_history st))) (tj_messages (rn_trajectory st))"
    using inv unfolding turn_inv_def by blast
  ultimately have "turn_inv requires n k [] (st\<lparr>rn_session := apply_context_selection_result
      (fst (snapshot_from_plan (rv_history env) q (rv_limits env) i (rn_history st))) (rn_session st), rn_history := ?m\<rparr>)"
    by (intro turn_inv_history [OF inv apply_context_same]) simp_all
  then show ?thesis
    using run by (auto simp: build_request_def lift_value_def pq(3) note_context_result_def Let_def)
qed

lemma build_request_ok: "\<exists>x. build_request env i t st = Inr x"
  using prepare_request_context_ok [of "rn_history st" "rv_policy env" "rv_limits env" "rn_session st" i
      "rv_validate_output env" "rv_capabilities env" "rv_compaction_reply env i" "rv_history env" t]
  by (auto simp: build_request_def lift_value_def)

subsection \<open>One turn\<close>

lemma build_session_metadata_refreshed: "refreshed s (snd (build_session_metadata n s))"
  unfolding build_session_metadata_def extract_runtime_session_summary_def Let_def split_beta snd_conv
  by (rule refreshedI) (simp add: core_refresh core_expected_next_step)

lemma run_ended_refreshed:
  assumes "run_ended requires n st" and "refreshed (rn_session st) s"
  shows "run_ended requires n (st\<lparr>rn_session := s\<rparr>)"
  using assms(1) refreshed_session_inv [OF assms(2)] refreshed_fields(1,2) [OF assms(2)]
  by (simp add: run_ended_def)

lemma run_ended_metadata:
  "run_ended requires n st \<Longrightarrow>
     run_ended requires n (st\<lparr>rn_trajectory := (rn_trajectory st)\<lparr>tj_metadata := d\<rparr>\<rparr>)"
  by (simp add: run_ended_def)

lemma fail_turn_state_refreshed:
  "refreshed s (snd (fail_turn_state s m t)) \<and> ts_turn_index (fst (fail_turn_state s m t)) = ts_turn_index t"
  unfolding fail_turn_state_def Let_def split_beta snd_conv fst_conv
  by (rule conjI, rule refreshedI) (simp_all add: core_refresh core_expected_next_step)

lemma fail_turn_ended:
  assumes inv: "turn_inv requires n n [] st" and t: "ts_turn_index t = int (Suc n)"
  shows "run_ended requires (Suc n) (fail_turn (int (Suc n)) e msg t st)"
proof -
  let ?s1 = "finalize_session (int (Suc n)) (Some (RunStatus_value RUN_ERROR)) ''llm_error''
      (''LLM error: '' @ e @ '': '' @ msg) ''llm_error'' (rn_session st)"
  define t1 where "t1 = fst (fail_turn_state ?s1 (rn_history st) t)"
  define s2 where "s2 = snd (fail_turn_state ?s1 (rn_history st) t)"
  have ref: "refreshed ?s1 s2" and t1: "ts_turn_index t1 = int (Suc n)"
    using fail_turn_state_refreshed [of ?s1 "rn_history st" t] t by (simp_all add: s2_def t1_def)
  have "session_inv (finalize_turn t1 s2)"
    using inv finalize_session_inv by (intro finalize_turn_inv) (simp add: refreshed_session_inv [OF ref] turn_inv_def)
  moreover have "st_total_turns_completed (rn_session st) = int n" using inv by (simp add: turn_inv_def)
  moreover obtain out where "st_session_outcome ?s1 = Some out" using finalize_session_fields(4) by blast
  ultimately have "run_ended requires (Suc n) (st\<lparr>rn_session := finalize_turn t1 s2,
      rn_trajectory := (rn_trajectory st)\<lparr>tj_status := RUN_ERROR\<rparr>\<rparr>)"
    using inv t1 refreshed_fields(1,2) [OF ref]
      finalize_session_fields(5-7) [of "int (Suc n)" "Some (RunStatus_value RUN_ERROR)" "''llm_error''"
        "''LLM error: '' @ e @ '': '' @ msg" "''llm_error''" "rn_session st"]
    by (simp add: run_ended_def outcome_agrees_def turn_inv_def finalize_turn_fields finalize_session_fields(1,2))
  from run_ended_metadata [OF run_ended_refreshed [OF this build_session_metadata_refreshed]]
  show ?thesis
    by (simp add: fail_turn_def Let_def split_beta t1_def s2_def)
qed

lemma answer_turn_inv:
  assumes inv: "turn_inv requires n n [] st" and t: "ts_turn_index t = int (Suc n)"
    and run: "answer_turn env (int (Suc n)) v response t st = Inr (how, st')"
  shows "case how of TurnContinued \<Rightarrow> turn_inv requires (Suc n) (Suc n) [] st'
    | TurnBroke \<Rightarrow> run_ended requires (Suc n) st' | TurnReturned \<Rightarrow> False"
proof -
  define raw where "raw = interpret_model_response response (Some (rv_capabilities env))"
  define parsed where "parsed = resolved_result (rv_profile env) raw"
  define st1 where "st1 = st\<lparr>rn_session := note_response (int (Suc n)) raw (rn_session st),
    rn_trajectory := add_assistant (pr_assistant_content parsed)
      (if pr_tool_calls parsed \<noteq> [] then Some (pr_tool_calls parsed) else None) (rn_trajectory st)\<rparr>"
  obtain action rs st2 t2 stops where dispatch: "dispatch_calls env (int (Suc n)) (pr_tool_calls parsed) st1 = Inr (rs, st2)"
    and finish: "finish_turn env (int (Suc n)) v parsed action rs t2 st2 = Inr (stops, st')"
    and t2: "ts_turn_index t2 = ts_turn_index t" and how: "how = (if stops then TurnBroke else TurnContinued)"
    using run [unfolded answer_turn_def Let_def, folded raw_def, folded parsed_def, folded st1_def]
    by (auto simp: res_bind_Inr_iff)
  have "turn_inv requires (Suc n) n (pr_tool_calls parsed) st1"
    using turn_inv_assistant [OF turn_inv_session [OF inv note_response_same], of "pr_tool_calls parsed"]
    by (simp add: st1_def)
  from dispatch_calls_inv [OF this dispatch] have "turn_inv requires (Suc n) n [] st2" .
  from finish_turn_inv [OF this _ finish] show ?thesis by (simp add: how t2 t split: if_splits)
qed

lemma run_turn_inv:
  assumes "turn_inv requires n n [] st" and "run_turn env (int (Suc n)) st = Inr (how, st')"
  shows "case how of TurnContinued \<Rightarrow> turn_inv requires (Suc n) (Suc n) [] st'
    | TurnBroke \<Rightarrow> run_ended requires (Suc n) st' | TurnReturned \<Rightarrow> run_ended requires (Suc n) st'"
proof -
  obtain v t st1 where start: "start_turn env (int (Suc n)) st = (v, t, st1)" by (metis prod_cases3)
  note inv1 = start_turn_inv [OF assms(1) start]
  obtain rq t1 st2 where request: "build_request env (int (Suc n)) t st1 = Inr (rq, t1, st2)"
    using build_request_ok [of env "int (Suc n)" t st1] by auto
  have inv2: "turn_inv requires n n [] st2" "ts_turn_index t1 = int (Suc n)"
    using build_request_inv [OF conjunct1 [OF inv1] request] inv1 by simp_all
  show ?thesis
  proof (cases "rv_generate env (int (Suc n)) rq")
    case (LLMRaised e msg)
    then have "how = TurnReturned" "st' = fail_turn (int (Suc n)) e msg t1 st2"
      using assms(2) by (simp_all add: run_turn_def start request del: of_nat_Suc)
    then show ?thesis using fail_turn_ended [OF inv2] by simp
  next
    case (LLMReplied response)
    then have "answer_turn env (int (Suc n)) v response t1 st2 = Inr (how, st')"
      using assms(2) by (simp add: run_turn_def start request del: of_nat_Suc)
    from answer_turn_inv [OF inv2 this] show ?thesis by (cases how) simp_all
  qed
qed

subsection \<open>The loop\<close>

text \<open>
  The contract of a loop of turns: \<open>good n\<close> holds at its head after \<open>n\<close> turns, and a turn keeps it,
  or ends the run with \<open>ended\<close>.  What holds of one turn then holds of every run of the loop.
\<close>

locale agent_loop =
  fixes env :: "'w run_env" and good :: "nat \<Rightarrow> 'w run_state \<Rightarrow> bool" and ended :: "nat \<Rightarrow> 'w run_state \<Rightarrow> bool"
  assumes turn: "good n st \<Longrightarrow> int n < rt_max_turns (rv_task env) \<Longrightarrow>
      run_turn env (int (Suc n)) st = Inr (how, st') \<Longrightarrow>
      (case how of TurnContinued \<Rightarrow> good (Suc n) st' | _ \<Rightarrow> ended (Suc n) st')"
begin

lemma loop:
  assumes "good n st" and "run_turns env (int n) st = Inr (returned, k, st')"
  shows "(\<exists>m. k = int m \<and> n < m \<and> int m \<le> rt_max_turns (rv_task env) \<and> ended m st') \<or>
    (\<exists>m. k = int m \<and> n \<le> m \<and> (n = m \<or> int m \<le> rt_max_turns (rv_task env)) \<and>
       rt_max_turns (rv_task env) \<le> int m \<and> \<not> returned \<and> good m st')"
  using assms
proof (induction "nat (rt_max_turns (rv_task env) - int n)" arbitrary: n st rule: less_induct)
  case less
  show ?case
  proof (cases "int n < rt_max_turns (rv_task env)")
    case True
    have next_turn: "int n + 1 = int (Suc n)" by simp
    obtain how st1 where turn1: "run_turn env (int (Suc n)) st = Inr (how, st1)"
      and rest: "(case how of TurnReturned \<Rightarrow> Inr (True, int (Suc n), st1)
        | TurnBroke \<Rightarrow> Inr (False, int (Suc n), st1)
        | TurnContinued \<Rightarrow> run_turns env (int (Suc n)) st1) = Inr (returned, k, st')"
      using less.prems(2) True
      by (auto simp: run_turns.simps [of env "int n" st, unfolded next_turn] res_bind_Inr_iff
          simp del: of_nat_Suc)
    note step = turn [OF less.prems(1) True turn1]
    show ?thesis
    proof (cases how)
      case TurnContinued
      with step rest less.hyps [of "Suc n" st1] True show ?thesis by fastforce
    qed (use step rest True in \<open>auto intro!: exI [of _ "Suc n"]\<close>)
  next
    case False
    then have "returned = False" "k = int n" "st' = st"
      using less.prems(2) by (simp_all add: run_turns.simps [of env "int n"])
    with False less.prems(1) show ?thesis by auto
  qed
qed

end

interpretation runner: agent_loop env "\<lambda>n. turn_inv requires n n []" "run_ended requires"
  for env :: "'w run_env" and requires
proof
  fix n how and st st' :: "'w run_state"
  assume "turn_inv requires n n [] st" "run_turn env (int (Suc n)) st = Inr (how, st')"
  from run_turn_inv [OF this] show "case how of TurnContinued \<Rightarrow> turn_inv requires (Suc n) (Suc n) [] st'
      | _ \<Rightarrow> run_ended requires (Suc n) st'"
    by (cases how) simp_all
qed

lemma initial_state_inv:
  "turn_inv requires 0 0 [] (initial_state env (map_option (\<lambda>(now, run, task, root).
     RetainedHistoryWriter_create now run task root) files) requires w)"
proof -
  let ?writer = "map_option (\<lambda>(now, run, task, root). RetainedHistoryWriter_create now run task root) files"
  let ?traj = "initial_trajectory env" and ?msgs = "tj_messages (initial_trajectory env)"
  have traj: "traj_inv ?traj" "?msgs = [plain_message SYSTEM native_tool_calling_system_prompt,
      plain_message USER (rt_prompt (rv_task env))]" "tj_tool_calls ?traj = []" "tj_observations ?traj = []"
      "tj_status ?traj = RUN_COMPLETED"
    by (simp_all add: initial_trajectory_def Let_def build_initial_messages_def traj_inv_def add_user_def
        add_system_def register_tool_versions_def new_trajectory_def plain_message_def distinct_dict_update)
  have hist: "history_inv (start_history (rv_history env) ?msgs files)"
    "map hi_message (hm_source_items (start_history (rv_history env) ?msgs files)) = ?msgs"
    by (rule start_history_inv, rule start_history_items)
  let ?s = "initialize_session_budgets
            ((new_session_state (new_recovery_state requires default_policy))
             \<lparr>st_context_policy_mode := ContextPolicyMode_value (rv_policy env),
              st_context_max_messages := lim_max_messages (rv_limits env),
              st_context_max_tokens := lim_context_max_tokens (rv_limits env),
              st_tool_token_reserve := lim_tool_token_reserve (rv_limits env),
              st_response_token_reserve := lim_response_token_reserve (rv_limits env)\<rparr>)"
  have ref: "refreshed ?s (initial_session env requires)"
    unfolding initial_session_def Let_def
    by (rule refreshed_trans [OF on_recovery_refreshed on_recovery_refreshed]) (simp_all add: core_refresh)
  have s: "session_inv ?s" "st_turn_states ?s = []" "st_session_outcome ?s = None" "st_total_turns_completed ?s = 0"
    "st_recovery_state ?s = new_recovery_state requires default_policy"
    by (simp_all add: initialize_session_budgets_def Let_def new_session_state_def session_inv_def
        refresh_budget_snapshots_def progress_inv_def pending_records_inv_def ledger_inv_def)
  have r: "rs_last_mutation_turn (st_recovery_state ?s) = None"
    "rs_last_successful_validation_turn (st_recovery_state ?s) = None"
    "rs_requires_validation_evidence (st_recovery_state ?s) = requires"
    unfolding s(5) by (simp_all add: new_recovery_state_def post_init_def refresh_eqs recovery_defaults_def)
  note fields = refreshed_session_inv [OF ref] refreshed_fields(1,2,6) [OF ref] core_fields(3-5) [OF refreshed_fields(5) [OF ref]]
  have "turns_recorded ?traj (st_recovery_state (initial_session env requires))"
    using fields(5-7) by (simp add: turns_recorded_def observed_def last_observed_def traj r)
  moreover have "map hi_message (hm_source_items (start_history (rv_history env) ?msgs files)) =
      take (length (hm_source_items (start_history (rv_history env) ?msgs files))) ?msgs"
    using hist(2) by (metis length_map take_all order_refl)
  ultimately show ?thesis
    using traj hist(1) fields s r
    by (simp add: turn_inv_def initial_state_def plain_message_def)
qed

end
