(* ===== verification/Agent_Runs.thy ===== *)
theory Agent_Runs
  imports Turn_Loop_Properties
begin

section \<open>Whole runs of the agent\<close>

text \<open>
  What \<open>run_agent_task\<close> guarantees, from the facts about one turn and the interpretation
  \<open>runner\<close> of the loop: a run ends within its turns and with an outcome, a completed run rests on
  validation, every tool call is answered once, and a blocked finish never reaches its handler.
\<close>

subsection \<open>A whole run\<close>

lemma close_run_refreshed:
  assumes "run_ended requires n st"
  shows "run_ended requires n (close_run env (int n) st) \<and>
    tj_messages (rn_trajectory (close_run env (int n) st)) = tj_messages (rn_trajectory st) \<and>
    map hi_message (hm_source_items (rn_history (close_run env (int n) st))) = tj_messages (rn_trajectory st)"
proof -
  have st: "close_session env (int n) st = st"
    using assms by (auto simp: close_session_def Let_def run_ended_def outcome_agrees_def split: option.splits)
  let ?m = "sync_source_messages (rv_history env) (tj_messages (rn_trajectory st)) (Some (max (int n) 0)) (rn_history st)"
  have m: "history_inv ?m" "map hi_message (hm_source_items ?m) =
      take (length (hm_source_items ?m)) (tj_messages (rn_trajectory st))"
    using assms sync_source_messages_inv sync_source_messages_messages by (auto simp: run_ended_def)
  have "length (tj_messages (rn_trajectory st)) \<le> length (hm_source_items ?m)"
    by (simp add: sync_source_messages_length)
  then have all: "map hi_message (hm_source_items ?m) = tj_messages (rn_trajectory st)"
    using m(2) by simp
  have "run_ended requires n (st\<lparr>rn_history := ?m\<rparr>)"
    using assms m by (simp add: run_ended_def)
  from run_ended_metadata [OF run_ended_refreshed [OF this, of "snd (build_session_metadata (int n) (rn_session st))"]]
  show ?thesis
    using build_session_metadata_refreshed [of "rn_session st" "int n"] all
    by (simp add: close_run_def st Let_def split_beta run_ended_def)
qed

lemma close_run_full:
  assumes inv: "turn_inv requires n n [] st" and full: "rt_max_turns (rv_task env) \<le> int n"
  shows "run_ended requires n (close_run env (int n) st) \<and>
    map hi_message (hm_source_items (rn_history (close_run env (int n) st))) =
      tj_messages (rn_trajectory (close_run env (int n) st))"
proof -
  let ?st = "close_session env (int n) st"
  have "tj_status (rn_trajectory st) = RUN_COMPLETED" "st_session_outcome (rn_session st) = None"
    "st_total_turns_completed (rn_session st) = int n"
    using inv by (simp_all add: turn_inv_def)
  moreover obtain out where "st_session_outcome (finalize_session (int n) (Some (RunStatus_value RUN_FAILED))
      (StopReason_value SR_MAX_TURNS) (''Reached max_turns='' @ py_int_str (rt_max_turns (rv_task env)))
      (StopReason_value SR_MAX_TURNS) (rn_session st)) = Some out"
    using finalize_session_fields(4) by blast
  ultimately have ended: "run_ended requires n ?st"
    using inv full finalize_session_inv [of "rn_session st"]
      finalize_session_fields(5-7) [of "int n" "Some (RunStatus_value RUN_FAILED)" "StopReason_value SR_MAX_TURNS"
        "''Reached max_turns='' @ py_int_str (rt_max_turns (rv_task env))" "StopReason_value SR_MAX_TURNS" "rn_session st"]
    by (simp add: close_session_def run_ended_def outcome_agrees_def turn_inv_def finalize_session_fields(1,2))
  have "close_session env (int n) ?st = ?st"
    using ended by (auto simp: close_session_def [of env "int n" ?st] Let_def run_ended_def outcome_agrees_def
        split: option.splits)
  then have "close_run env (int n) st = close_run env (int n) ?st"
    by (simp add: close_run_def)
  with close_run_refreshed [OF ended, of env] show ?thesis by simp
qed

abbreviation retained_writer :: "(int \<times> string \<times> string \<times> string) option \<Rightarrow> RetainedHistoryWriter option" where
  "retained_writer files \<equiv> map_option (\<lambda>(now, run, task, root). RetainedHistoryWriter_create now run task root) files"

abbreviation requires_evidence :: "'w run_env \<Rightarrow> string + bool" where
  "requires_evidence env \<equiv>
     requires_runtime_validation_evidence (rv_validate_task env) (CodingTask.truncate (rv_task env))"

lemma run_agent_task_ended:
  assumes "run_agent_task env mode (retained_writer files) w = Inr st"
  shows "\<exists>requires n. requires_evidence env = Inr requires \<and> run_ended requires n st \<and>
    (n = 0 \<or> int n \<le> rt_max_turns (rv_task env))"
proof -
  obtain requires policy returned k st1 where run: "requires_evidence env = Inr requires"
    "run_turns (env\<lparr>rv_policy := policy\<rparr>) 0 (initial_state (env\<lparr>rv_policy := policy\<rparr>) (retained_writer files) requires w)
       = Inr (returned, k, st1)"
    "st = (if returned then st1 else close_run (env\<lparr>rv_policy := policy\<rparr>) k st1)"
    using assms by (auto simp: run_agent_task_def lift_value_def res_bind_Inr_iff Let_def split: sum.splits)
  let ?env = "env\<lparr>rv_policy := policy\<rparr>"
  have "run_turns ?env (int 0) (initial_state ?env (retained_writer files) requires w) = Inr (returned, k, st1)"
    using run(2) by simp
  from runner.loop [OF initial_state_inv this]
  consider m where "k = int m" "int m \<le> rt_max_turns (rv_task env)" "run_ended requires m st1"
    | m where "k = int m" "m = 0 \<or> int m \<le> rt_max_turns (rv_task env)" "rt_max_turns (rv_task env) \<le> int m"
        "\<not> returned" "turn_inv requires m m [] st1"
    by auto
  then show ?thesis
  proof cases
    case 1
    then show ?thesis using run(1,3) close_run_refreshed [of requires m st1 ?env] by auto
  next
    case 2
    then show ?thesis using run(1,3) close_run_full [of requires m st1 ?env] by auto
  qed
qed

subsection \<open>The evidence behind a completed run\<close>

lemma last_observed_upper:
  "sorted (map fst xs) \<Longrightarrow> (u, ob) \<in> set xs \<Longrightarrow> P ob \<Longrightarrow> \<exists>m. last_observed P xs = Some m \<and> u \<le> m"
proof (induction xs rule: rev_induct)
  case (snoc x xs)
  obtain t o' where x: "x = (t, o')" by fastforce
  show ?case
  proof (cases "P o'")
    case True
    with snoc.prems x show ?thesis by (auto simp: sorted_append)
  next
    case False
    with snoc x show ?thesis by (auto simp: sorted_append)
  qed
qed simp

lemma sorted_observed: "sorted (map fst (observed traj))"
proof -
  have "map fst (zip xs ys) = take (min (length xs) (length ys)) xs" for xs :: "int list" and ys :: "ToolObservation list"
    by (simp add: map_fst_zip_take)
  then show ?thesis by (simp add: observed_def sorted_wrt_take sorted_tool_turns)
qed

lemma validated_run:
  assumes "validated traj"
  shows "\<exists>pre v ob post. observed traj = pre @ (v, ob) # post \<and> validates ob \<and>
    (\<forall>(u, ob')\<in>set post. mutates ob' \<longrightarrow> u = v)"
proof -
  obtain v where v: "last_observed validates (observed traj) = Some v"
    and fresh: "\<And>m. last_observed mutates (observed traj) = Some m \<Longrightarrow> m \<le> v"
    using assms by (auto simp: validated_def)
  obtain pre e post where split: "observed traj = pre @ e # post"
    and e: "(case e of (t, ob) \<Rightarrow> if validates ob then Some t else None) = Some v"
    using last_turn_Some [OF v [unfolded last_observed_def]] by blast
  obtain ob where ob: "e = (v, ob)" "validates ob"
    using e by (cases e) (auto split: if_splits)
  have "u = v" if later: "(u, ob') \<in> set post" and mut: "mutates ob'" for u ob'
  proof -
    have "v \<le> u" using sorted_observed [of traj] later by (auto simp: split ob(1) sorted_append)
    moreover obtain m where "last_observed mutates (observed traj) = Some m" "u \<le> m"
      using last_observed_upper [OF sorted_observed, of u ob' traj mutates] later mut split by auto
    ultimately show ?thesis using fresh [of m] by simp
  qed
  with split ob show ?thesis by blast
qed

subsection \<open>A run returns\<close>

lemma is_ok_bind: "is_ok r \<Longrightarrow> (\<And>x. is_ok (f x)) \<Longrightarrow> is_ok (res_bind r f)"
  by (auto simp: is_ok_iff)

lemma is_ok_lift [simp]: "is_ok (lift_value r) = is_ok r" "is_ok (lift_tool q) = is_ok q"
  by (simp_all add: is_ok_def lift_value_def lift_tool_def split: sum.split)

lemma ValidationPhase_of_value [simp]: "ValidationPhase_of_str (ValidationPhase_value p) = Inr p"
  by (cases p) (simp_all add: ValidationPhase_of_str_def)

lemma stop_decision_phase:
  "sd_validation_phase (fst (stop_decision_from_state s st re d c f cr b w ov a)) = tf_validation_phase f"
  by (simp add: stop_decision_from_state_def split_beta Let_def split: option.split)

lemma blocked_completion_phase:
  "sd_validation_phase (fst (blocked_completion s a d f t pc ec)) = tf_validation_phase f"
  by (simp add: blocked_completion_def plain_decision_def split_beta Let_def stop_decision_phase
      split: option.split)

lemma stop_on_facts_phase:
  "fst (stop_on_facts c p t m x i f s) = Some d \<Longrightarrow> sd_validation_phase d = tf_validation_phase f"
  by (auto simp: stop_on_facts_def plain_decision_def split_beta Let_def stop_decision_phase
      blocked_completion_phase split: option.splits if_splits)

lemma should_stop_phase:
  "fst (should_stop c p t m x r pin) = Some d \<Longrightarrow>
     \<exists>ph. sd_validation_phase d = Some (ValidationPhase_value ph)"
  by (auto simp: should_stop_def split_beta Let_def derive_turn_policy_facts_def dest!: stop_on_facts_phase)

lemma decide_turn_phase:
  "fst (decide_turn env n p s) = (inp, Some d) \<Longrightarrow> \<exists>ph. sd_validation_phase d = Some (ValidationPhase_value ph)"
  by (auto simp: decide_turn_def on_recovery_def split_beta Let_def intro!: should_stop_phase)

lemma finish_turn_ok: "is_ok (finish_turn env n v p action rs t st)"
proof -
  obtain inp d where d: "fst (decide_turn env n p (rn_session st)) = (inp, Some d)"
    using decide_turn_decision [of "rn_session st" env n p] by blast
  then obtain ph where ph: "sd_validation_phase d = Some (ValidationPhase_value ph)"
    using decide_turn_phase by blast
  have "ValidationPhase_value ph \<noteq> ''''" by (cases ph) simp_all
  then have "is_ok (classify_turn_outcome (Text (str_or (sd_validation_phase d) (rw_validation_phase v)))
      (Member action) rs c r)" for c r
    by (simp add: ph classify_turn_outcome_def)
  then have "is_ok (res_bind (lift_value (classify_turn_outcome
      (Text (str_or (sd_validation_phase d) (rw_validation_phase v))) (Member action) rs c r)) (\<lambda>x. Inr (g x)))" for c r g
    by (intro is_ok_bind) simp_all
  then show ?thesis
    using d by (simp only: finish_turn_def Let_def split_beta fst_conv snd_conv option.case)
qed

lemma dispatch_calls_ok:
  assumes "\<And>call. is_ok (inspect_call (rv_exc_text env) (rv_registry env) call (rv_profile env))"
  shows "is_ok (dispatch_calls env n cs st)"
proof (induction cs arbitrary: st)
  case (Cons c cs)
  have "is_ok (dispatch_call env n c st)"
    unfolding dispatch_call_def using assms [of c] by (intro is_ok_bind) (simp_all add: Let_def split_beta)
  with Cons show ?case by (auto intro!: is_ok_bind split: prod.split)
qed simp

lemma answer_turn_ok:
  assumes "\<And>call. is_ok (inspect_call (rv_exc_text env) (rv_registry env) call (rv_profile env))"
    and "rw_validation_phase v = ValidationPhase_value ph"
  shows "is_ok (answer_turn env n v response t st)"
proof -
  have "is_ok (classify_turn_action cs (Text (rw_validation_phase v)))" for cs
    by (simp add: classify_turn_action_def assms(2) Let_def)
  then show ?thesis
    using dispatch_calls_ok [OF assms(1)] finish_turn_ok
    unfolding answer_turn_def Let_def by (auto intro!: is_ok_bind split: prod.split)
qed

lemma run_turn_ok:
  assumes "\<And>call. is_ok (inspect_call (rv_exc_text env) (rv_registry env) call (rv_profile env))"
  shows "is_ok (run_turn env n st)"
proof -
  obtain v t st1 where start: "start_turn env n st = (v, t, st1)" by (metis prod_cases3)
  then obtain ph where ph: "rw_validation_phase v = ValidationPhase_value ph"
    by (auto simp: start_turn_def on_recovery_def view_before_turn_def Let_def split_beta)
  obtain rq t1 st2 where "build_request env n t st1 = Inr (rq, t1, st2)"
    using build_request_ok [of env n t st1] by auto
  with start show ?thesis
    using answer_turn_ok [OF assms ph] by (auto simp: run_turn_def split: llm_reply.split)
qed

lemma run_turns_ok:
  assumes "\<And>call. is_ok (inspect_call (rv_exc_text env) (rv_registry env) call (rv_profile env))"
  shows "is_ok (run_turns env n st)"
proof (induction "nat (rt_max_turns (rv_task env) - n)" arbitrary: n st rule: less_induct)
  case less
  show ?case
  proof (cases "n < rt_max_turns (rv_task env)")
    case True
    obtain how st1 where "run_turn env (n + 1) st = Inr (how, st1)"
      using run_turn_ok [OF assms, of "n + 1" st] by (auto simp: is_ok_iff)
    moreover have "is_ok (run_turns env (n + 1) st1)"
      using less True by (simp add: less.hyps)
    ultimately show ?thesis
      using True by (simp add: run_turns.simps [of env n st] split: turn_exit.split)
  qed (simp add: run_turns.simps [of env n st])
qed

subsection \<open>A failed inspection\<close>

lemma runtime_error_result_fails [simp]: "tr_ok (runtime_error_result a b c d) = False"
  by (simp add: runtime_error_result_def)

lemma failing_results:
  "resolve_exposed_call c profile = Inl r \<Longrightarrow> \<not> tr_ok r"
  "validate_exposed_payload c view = Inr (Some r) \<Longrightarrow> \<not> tr_ok r"
  "resolve_canonical_tool reg view = Inl r \<Longrightarrow> \<not> tr_ok r"
  "map_payload exc c view ad tool = Inl r \<Longrightarrow> \<not> tr_ok r"
  subgoal by (auto simp: resolve_exposed_call_def split: option.splits)
  subgoal by (auto simp: validate_exposed_payload_def Let_def split: sum.splits spec_error.splits if_splits)
  subgoal by (auto simp: resolve_canonical_tool_def split: sum.splits)
  subgoal by (auto simp: map_payload_def split: sum.splits spec_error.splits if_splits option.splits)
  done

lemma inspection_error:
  assumes "inspect_call exc reg c profile = Inr ins" "\<not> in_mapping_valid ins"
  shows "\<exists>res. in_error_result ins = Some res \<and> \<not> tr_ok res"
proof (cases "resolve_exposed_call c profile")
  case (Inl r)
  then show ?thesis
    using assms failing_results(1) [OF Inl] by (auto simp: inspect_call_def failed_inspection_def)
next
  case (Inr resolved)
  obtain view adapter where [simp]: "resolved = (view, adapter)" by fastforce
  let ?c = "c\<lparr>tc_canonical_name := Some (tv_canonical_name view)\<rparr>"
  obtain err where err: "validate_exposed_payload ?c view = Inr err"
    using assms(1) Inr by (auto simp: inspect_call_def Let_def res_bind_Inr_iff)
  note start = assms(1) [unfolded inspect_call_def Inr, simplified, unfolded err Let_def, simplified]
  show ?thesis
  proof (cases err)
    case (Some r)
    then show ?thesis
      using start failing_results(2) [of ?c view r] err by (auto simp: failed_inspection_def)
  next
    case None
    show ?thesis
    proof (cases "resolve_canonical_tool reg view")
      case (Inl r)
      then show ?thesis
        using start None failing_results(3) [OF Inl] by (auto simp: failed_inspection_def)
    next
      case (Inr tool)
      then show ?thesis
        using start None assms(2) failing_results(4) [of exc ?c view adapter tool]
        by (auto simp: failed_inspection_def split: sum.splits)
    qed
  qed
qed

lemma make_blocked_finish_result_blocks:
  assumes "block_reason r (sp_meaningful_progress_observed inp) (sp_progress_gate_applicable inp)
    (sp_recent_failure_kind inp) \<noteq> None"
  shows "\<exists>res. fst (make_blocked_finish_result call inp r) = Some res \<and> \<not> tr_ok res"
proof -
  have "ca_blocked (fst (assess_completion_block r (sp_meaningful_progress_observed inp)
      (sp_progress_gate_applicable inp) (sp_recent_failure_kind inp)))"
    using assms by (simp add: assess_blocked_iff assess_block_reason)
  from assess_detail_nonempty [OF this] show ?thesis
    by (simp add: make_blocked_finish_result_def split_beta Let_def)
qed

lemma blocked_call_result:
  assumes "canonical_tool_name call = ''finish''"
    and "block_reason (st_recovery_state s) (sp_meaningful_progress_observed inp)
      (sp_progress_gate_applicable inp) (sp_recent_failure_kind inp) \<noteq> None"
    and "inp = fst (session_policy_input n s)"
    and "inspect_call exc reg c profile = Inr ins"
  shows "\<exists>res s1. call_result env n call ins s w = (res, s1, w) \<and> \<not> tr_ok res"
proof (cases "in_mapping_valid ins")
  case True
  let ?s = "snd (session_policy_input n s)"
  have "core (st_recovery_state ?s) = core (st_recovery_state s)"
    by (rule refreshed_fields(5) [OF session_policy_input_refreshed])
  from core_congs(3) [OF this] obtain res where
    res: "fst (make_blocked_finish_result call inp (st_recovery_state ?s)) = Some res" "\<not> tr_ok res"
    using make_blocked_finish_result_blocks [of "st_recovery_state ?s" inp call] assms(2) by auto
  show ?thesis
    using assms(1,3) True res by (auto simp: call_result_def Let_def split_beta on_recovery_def)
next
  case False
  with inspection_error [OF assms(4)] show ?thesis
    by (auto simp: call_result_def Let_def)
qed

subsection \<open>Canonical names\<close>

text \<open>Every call whose tool the profile has carries the tool's canonical name, and so do the
  observation and the tool message that answer it.\<close>

definition names_kept :: "ToolProfile \<Rightarrow> Trajectory \<Rightarrow> bool" where
  "names_kept profile traj \<longleftrightarrow>
     list_all (\<lambda>call. tc_canonical_name call = map_option (tv_canonical_name \<circ> fst) (get_tool profile (tc_name call)))
       (tj_tool_calls traj) \<and>
     list_all (\<lambda>ob. ob_canonical_name ob = tc_canonical_name (ob_call ob)) (tj_observations traj) \<and>
     map ob_canonical_name (tj_observations traj) =
       map msg_canonical_name (filter (\<lambda>m. msg_role m = TOOL) (tj_messages traj))"

lemma names_kept_steps:
  "names_kept profile (add_user content meta traj) = names_kept profile traj"
  "names_kept profile (traj\<lparr>tj_status := x\<rparr>) = names_kept profile traj"
  "names_kept profile (traj\<lparr>tj_metadata := d\<rparr>) = names_kept profile traj"
  "names_kept profile traj \<Longrightarrow> names_kept profile (add_tool_observation call res version md traj)"
  by (simp_all add: names_kept_def add_user_def add_tool_observation_def plain_message_def Let_def)

lemma interpreted_calls_unnamed:
  "list_all (\<lambda>call. tc_canonical_name call = None) (pr_tool_calls (interpret_model_response response caps))"
proof -
  have "list_all (\<lambda>call. tc_canonical_name call = None) (rights (candidate_results i cs))" for i cs
    by (induction cs arbitrary: i) (auto simp: interpret_candidate_def Let_def split: sum.splits option.splits if_splits)
  then show ?thesis
    by (auto simp: interpret_model_response_def interpret_native_def unsupported_transport_def interpret_candidates_eq
        Let_def split: option.splits)
qed

lemma names_kept_calls:
  assumes "names_kept profile traj" and "list_all (\<lambda>call. tc_canonical_name call = None) cs"
    and resolved: "cs' = map (resolve_call profile) cs"
  shows "names_kept profile (add_assistant content (if cs' \<noteq> [] then Some cs' else None) traj)"
proof -
  have "tc_canonical_name (resolve_call profile call) =
      map_option (tv_canonical_name \<circ> fst) (get_tool profile (tc_name (resolve_call profile call)))"
    if "call \<in> set cs" for call
    using assms(2) that by (auto simp: list_all_iff resolve_call_def split: option.splits)
  then show ?thesis using assms(1)
    by (auto simp: resolved names_kept_def add_assistant_def plain_message_def Let_def list_all_iff)
qed

lemma dispatch_names:
  "dispatch_calls env n cs st = Inr (rs, st') \<Longrightarrow> names_kept profile (rn_trajectory st) \<Longrightarrow>
    names_kept profile (rn_trajectory st')"
proof (induction cs arbitrary: st rs)
  case (Cons c cs)
  then obtain res st1 rest where one: "dispatch_call env n c st = Inr (res, st1)"
    and more: "dispatch_calls env n cs st1 = Inr (rest, st')"
    by (auto simp: res_bind_Inr_iff)
  have "names_kept profile (rn_trajectory st1)"
    using one Cons.prems(2)
    by (auto simp: dispatch_call_def res_bind_Inr_iff Let_def split_beta intro: names_kept_steps(4))
  with Cons.IH [OF more] show ?case .
qed simp

lemma finish_names:
  assumes "finish_turn env n v parsed action rs t st = Inr (stops, st')" and "names_kept profile (rn_trajectory st)"
  shows "names_kept profile (rn_trajectory st')"
  using assms
  by (auto simp: finish_turn_def Let_def split_beta res_bind_Inr_iff append_runtime_repair_messages_def
      names_kept_steps split: option.splits)

lemma turn_names:
  assumes "run_turn env n st = Inr (how, st')" and "names_kept (rv_profile env) (rn_trajectory st)"
  shows "names_kept (rv_profile env) (rn_trajectory st')"
proof -
  obtain v t st1 where start: "start_turn env n st = (v, t, st1)" by (metis prod_cases3)
  then have "rn_trajectory st1 = rn_trajectory st" by (auto simp: start_turn_def Let_def split_beta)
  moreover obtain rq t1 st2 where request: "build_request env n t st1 = Inr (rq, t1, st2)"
    using build_request_ok [of env n t st1] by auto
  then have "rn_trajectory st2 = rn_trajectory st1" by (auto simp: build_request_def res_bind_Inr_iff)
  ultimately have kept: "names_kept (rv_profile env) (rn_trajectory st2)" using assms(2) by simp
  show ?thesis
  proof (cases "rv_generate env n rq")
    case (LLMRaised e msg)
    then show ?thesis using assms(1) kept
      by (auto simp: run_turn_def start request fail_turn_def Let_def split_beta names_kept_steps)
  next
    case (LLMReplied response)
    have answer: "answer_turn env n v response t1 st2 = Inr (how, st')"
      using assms(1) LLMReplied by (simp add: run_turn_def start request)
    define raw where "raw = interpret_model_response response (Some (rv_capabilities env))"
    define parsed where "parsed = resolved_result (rv_profile env) raw"
    define st3 where "st3 = st2\<lparr>rn_session := note_response n raw (rn_session st2),
      rn_trajectory := add_assistant (pr_assistant_content parsed)
        (if pr_tool_calls parsed \<noteq> [] then Some (pr_tool_calls parsed) else None) (rn_trajectory st2)\<rparr>"
    obtain action rs st4 t3 stops where dispatch: "dispatch_calls env n (pr_tool_calls parsed) st3 = Inr (rs, st4)"
      and finish: "finish_turn env n v parsed action rs t3 st4 = Inr (stops, st')"
      using answer [unfolded answer_turn_def Let_def, folded raw_def, folded parsed_def, folded st3_def]
      by (auto simp: res_bind_Inr_iff)
    have calls: "pr_tool_calls parsed = map (resolve_call (rv_profile env)) (pr_tool_calls raw)"
      by (simp add: parsed_def resolved_result_def)
    have "names_kept (rv_profile env) (rn_trajectory st3)"
      using names_kept_calls [OF kept interpreted_calls_unnamed calls [unfolded raw_def], of "pr_assistant_content parsed"]
      by (simp add: st3_def)
    from finish_names [OF finish dispatch_names [OF dispatch this]] show ?thesis .
  qed
qed

interpretation named: agent_loop env "\<lambda>_ st. names_kept (rv_profile env) (rn_trajectory st)"
    "\<lambda>_ st. names_kept (rv_profile env) (rn_trajectory st)" for env :: "'w run_env"
proof
  fix n how and st st' :: "'w run_state"
  assume "names_kept (rv_profile env) (rn_trajectory st)" "run_turn env (int (Suc n)) st = Inr (how, st')"
  from turn_names [OF this(2,1)] show "case how of TurnContinued \<Rightarrow> names_kept (rv_profile env) (rn_trajectory st')
      | _ \<Rightarrow> names_kept (rv_profile env) (rn_trajectory st')"
    by (cases how) simp_all
qed

lemma run_names:
  assumes "run_agent_task env mode writer w = Inr st"
  shows "names_kept (rv_profile env) (rn_trajectory st)"
proof -
  obtain requires policy returned k st1 where
    run: "run_turns (env\<lparr>rv_policy := policy\<rparr>) 0 (initial_state (env\<lparr>rv_policy := policy\<rparr>) writer requires w)
       = Inr (returned, k, st1)"
    and st: "st = (if returned then st1 else close_run (env\<lparr>rv_policy := policy\<rparr>) k st1)"
    using assms by (auto simp: run_agent_task_def lift_value_def res_bind_Inr_iff Let_def split: sum.splits)
  let ?env = "env\<lparr>rv_policy := policy\<rparr>"
  have "names_kept (rv_profile ?env) (rn_trajectory (initial_state ?env writer requires w))"
    by (simp add: initial_state_def initial_trajectory_def Let_def build_initial_messages_def names_kept_def add_user_def
        add_system_def register_tool_versions_def new_trajectory_def plain_message_def)
  from named.loop [OF this, of 0 returned k st1] run
  have "names_kept (rv_profile env) (rn_trajectory st1)" by auto
  then show ?thesis using st
    by (auto simp: close_run_def close_session_def Let_def split_beta names_kept_steps)
qed

subsection \<open>Properties of whole runs\<close>

text \<open>C1: a run of a task that requires validation evidence and that ends completed, whatever the
  client answers and the tools do, holds a passing validation call in its trajectory, and every
  mutation call after it was made in the same turn, where the turn of a call is the number of
  assistant messages before its result.\<close>

theorem completed_run_was_validated:
  "case run_agent_task env mode (retained_writer files) w of
     Inl e \<Rightarrow> True
   | Inr st \<Rightarrow>
       if requires_evidence env = Inr True \<and> tj_status (rn_trajectory st) = RUN_COMPLETED
       then \<exists>pre v ob post. observed (rn_trajectory st) = pre @ (v, ob) # post \<and> validates ob \<and>
              list_all (\<lambda>(u, later). if mutates later then u = v else True) post
       else True"
proof (cases "run_agent_task env mode (retained_writer files) w")
  case (Inr st)
  from run_agent_task_ended [OF Inr] obtain requires n where
    run: "requires_evidence env = Inr requires" "run_ended requires n st" by blast
  show ?thesis
  proof (cases "requires \<and> tj_status (rn_trajectory st) = RUN_COMPLETED")
    case True
    then have "validated (rn_trajectory st)" using run(2) by (simp add: run_ended_def)
    from validated_run [OF this] show ?thesis
      using Inr by (fastforce simp: list_all_iff)
  qed (use Inr run(1) in auto)
qed simp

text \<open>C2: when inspecting a call raises nothing, every run returns, whatever the client answers and
  the handlers do: within the allowed number of turns, with one filed turn state per turn in their
  order, and with a session outcome that agrees with the trajectory's status; the status is
  completed exactly for the two stops that accept the work.\<close>

theorem run_returns_within_its_turns:
  assumes "\<And>call. is_ok (inspect_call (rv_exc_text env) (rv_registry env) call (rv_profile env))"
    and "is_ok (requires_evidence env)"
  shows "\<exists>st n. run_agent_task env (Text (ContextPolicyMode_value mode)) (retained_writer files) w = Inr st \<and>
    n \<le> nat (rt_max_turns (rv_task env)) \<and>
    map ts_turn_index (st_turn_states (rn_session st)) = map int [1..<n + 1] \<and>
    outcome_agrees n (tj_status (rn_trajectory st)) (st_session_outcome (rn_session st))"
proof -
  obtain requires where req: "requires_evidence env = Inr requires" using assms(2) by (auto simp: is_ok_iff)
  have "context_policy_of_arg (Text (ContextPolicyMode_value mode)) = Inr mode"
    using normalize_value [of mode] by (simp add: context_policy_of_arg_def normalize_policy_mode_def)
  moreover obtain returned k st1 where "run_turns (env\<lparr>rv_policy := mode\<rparr>) 0
      (initial_state (env\<lparr>rv_policy := mode\<rparr>) (retained_writer files) requires w) = Inr (returned, k, st1)"
    using run_turns_ok [of "env\<lparr>rv_policy := mode\<rparr>" 0
        "initial_state (env\<lparr>rv_policy := mode\<rparr>) (retained_writer files) requires w"] assms(1)
    by (auto simp: is_ok_iff)
  ultimately have "is_ok (run_agent_task env (Text (ContextPolicyMode_value mode)) (retained_writer files) w)"
    by (simp add: run_agent_task_def req lift_value_def)
  then obtain st where st: "run_agent_task env (Text (ContextPolicyMode_value mode)) (retained_writer files) w = Inr st"
    by (auto simp: is_ok_iff)
  from run_agent_task_ended [OF st] obtain requires' n where
    n: "run_ended requires' n st" "n = 0 \<or> int n \<le> rt_max_turns (rv_task env)" by blast
  have "n \<le> nat (rt_max_turns (rv_task env))" using n(2) by linarith
  moreover have "map ts_turn_index (st_turn_states (rn_session st)) = map int [1..<n + 1]"
    "outcome_agrees n (tj_status (rn_trajectory st)) (st_session_outcome (rn_session st))"
    using n(1) by (simp_all only: run_ended_def)
  ultimately show ?thesis using st by blast
qed

definition bare_run :: "nat run_env" where
  "bare_run = \<lparr>rv_task = \<lparr>ct_allowed_files = [], ct_forbidden_files = [], ct_metadata = [],
       rt_task_id = ''t'', rt_repo_path = ''r'', rt_prompt = ''fix it'', rt_max_turns = 5\<rparr>,
     rv_generate = (\<lambda>n _. if n < 4 then LLMReplied compaction_reply else LLMRaised ''TimeoutError'' ''late''),
     rv_compaction_reply = (\<lambda>_. ClientRaised), rv_capabilities = able_client, rv_registry = [],
     rv_exc_text = (\<lambda>_. ''''), rv_profile = \<lparr>tp_profile_id = ''p'', tp_tools = [], tp_adapters = [], tp_metadata = []\<rparr>,
     rv_history = plain_env, rv_validate_output = (\<lambda>_. None), rv_validate_task = (\<lambda>_. Inl ''''),
     rv_policy = CPM_FULL_HISTORY, rv_limits = message_limit 8\<rparr>"

theorem run_returns_within_its_turns_witness:
  "\<exists>st n. run_agent_task bare_run (Text ''tail_window'') None 0 = Inr st \<and> n \<le> 5 \<and>
     map ts_turn_index (st_turn_states (rn_session st)) = map int [1..<n + 1] \<and>
     outcome_agrees n (tj_status (rn_trajectory st)) (st_session_outcome (rn_session st))"
proof -
  have "is_ok (inspect_call (rv_exc_text bare_run) (rv_registry bare_run) call (rv_profile bare_run))" for call
    by (simp add: bare_run_def inspect_call_def resolve_exposed_call_def get_tool_def)
  moreover have "is_ok (requires_evidence bare_run)"
    by (simp add: bare_run_def requires_runtime_validation_evidence_def Let_def CodingTask.truncate_def)
  moreover have "nat (rt_max_turns (rv_task bare_run)) = 5"
    by (simp add: bare_run_def)
  ultimately show ?thesis
    using run_returns_within_its_turns [of bare_run CPM_TAIL_WINDOW None 0] by simp
qed

text \<open>C3: the trajectory of a run is complete and consistent: every tool call of the assistant
  messages has exactly one observation, in the order of the calls, and each observation has its tool
  message; a call carries the canonical name of the tool that the profile shows under its name, or
  none if there is no such tool, and so do its observation and its tool message; the session is well formed and the source history is the
  beginning of the messages.\<close>

theorem every_call_is_answered:
  "case run_agent_task env mode (retained_writer files) w of
     Inl e \<Rightarrow> True
   | Inr st \<Rightarrow>
       let traj = rn_trajectory st
       in map ob_call (tj_observations traj) = tj_tool_calls traj \<and>
          tj_tool_calls traj = concat (map msg_tool_calls (tj_messages traj)) \<and>
          map obs_key (tj_observations traj) = map msg_key (filter (\<lambda>m. msg_role m = TOOL) (tj_messages traj)) \<and>
          map tc_canonical_name (tj_tool_calls traj) =
            map (\<lambda>call. map_option (tv_canonical_name \<circ> fst) (get_tool (rv_profile env) (tc_name call)))
              (tj_tool_calls traj) \<and>
          map ob_canonical_name (tj_observations traj) = map tc_canonical_name (tj_tool_calls traj) \<and>
          map msg_canonical_name (filter (\<lambda>m. msg_role m = TOOL) (tj_messages traj)) =
            map tc_canonical_name (tj_tool_calls traj) \<and>
          session_inv (rn_session st) \<and>
          map hi_message (hm_source_items (rn_history st)) =
            take (length (hm_source_items (rn_history st))) (tj_messages traj)"
proof (cases "run_agent_task env mode (retained_writer files) w")
  case (Inr st)
  from run_agent_task_ended [OF Inr] obtain requires n where "run_ended requires n st" by blast
  then have ended: "run_ended requires n st" .
  then have "map ob_call (tj_observations (rn_trajectory st)) = tj_tool_calls (rn_trajectory st)"
    by (simp add: run_ended_def)
  then have calls: "map (tc_canonical_name \<circ> ob_call) (tj_observations (rn_trajectory st)) =
      map tc_canonical_name (tj_tool_calls (rn_trajectory st))"
    by (metis map_map)
  note kept = run_names [OF Inr, unfolded names_kept_def list_all_iff]
  have "map ob_canonical_name (tj_observations (rn_trajectory st)) =
      map (tc_canonical_name \<circ> ob_call) (tj_observations (rn_trajectory st))"
    using kept by (intro map_cong) auto
  with kept calls ended show ?thesis using Inr
    by (simp add: run_ended_def traj_inv_def Let_def)
qed simp

lemma dispatch_calls_calls:
  "dispatch_calls env n cs st = Inr (rs, st') \<Longrightarrow> tj_tool_calls (rn_trajectory st') = tj_tool_calls (rn_trajectory st)"
proof (induction cs arbitrary: st rs)
  case (Cons c cs)
  then obtain res st1 rest where one: "dispatch_call env n c st = Inr (res, st1)"
    and more: "dispatch_calls env n cs st1 = Inr (rest, st')"
    by (auto simp: res_bind_Inr_iff)
  have "tj_tool_calls (rn_trajectory st1) = tj_tool_calls (rn_trajectory st)"
    using one by (auto simp: dispatch_call_def res_bind_Inr_iff Let_def split_beta add_tool_observation_def)
  with Cons.IH [OF more] show ?case by simp
qed simp

lemma mark_turn_phase_action [simp]: "ts_turn_action (mark_turn_phase p t) = ts_turn_action t"
  by (simp add: mark_turn_phase_def Let_def)

lemma finish_turn_files:
  assumes "finish_turn env n v parsed action rs t st = Inr (stops, st')"
  shows "ts_turn_action (last (st_turn_states (rn_session st'))) = Some (TurnAction_value action) \<and>
    tj_tool_calls (rn_trajectory st') = tj_tool_calls (rn_trajectory st)"
  using assms
  by (auto simp: finish_turn_def Let_def split_beta res_bind_Inr_iff append_runtime_repair_messages_def add_user_def
      finalize_turn_def close_turn_state_def record_decision_def split: option.splits)

text \<open>A call resolved to finish that the completion policy blocks never reaches its handler: the
  world is what it was and the result is an error.\<close>

theorem blocked_finish_never_runs:
  "let inp = fst (session_policy_input n (rn_session st));
       blocked = (block_reason (st_recovery_state (rn_session st)) (sp_meaningful_progress_observed inp)
         (sp_progress_gate_applicable inp) (sp_recent_failure_kind inp) \<noteq> None)
   in if canonical_tool_name call = ''finish'' \<and> blocked
      then (case dispatch_call env n call st of
              Inl e \<Rightarrow> True
            | Inr (res, st') \<Rightarrow> rn_world st' = rn_world st \<and> \<not> tr_ok res)
      else True"
proof (cases "inspect_call (rv_exc_text env) (rv_registry env) call (rv_profile env)")
  case (Inl e)
  then show ?thesis by (simp add: dispatch_call_def lift_tool_def Let_def)
next
  case (Inr ins)
  have "case dispatch_call env n call st of
      Inl e \<Rightarrow> True | Inr (res, st') \<Rightarrow> rn_world st' = rn_world st \<and> \<not> tr_ok res"
    if blocked: "canonical_tool_name call = ''finish''"
      "block_reason (st_recovery_state (rn_session st))
         (sp_meaningful_progress_observed (fst (session_policy_input n (rn_session st))))
         (sp_progress_gate_applicable (fst (session_policy_input n (rn_session st))))
         (sp_recent_failure_kind (fst (session_policy_input n (rn_session st)))) \<noteq> None"
    using blocked_call_result [OF blocked refl Inr, of env "rn_world st"] Inr
    by (auto simp: dispatch_call_def lift_tool_def Let_def)
  then show ?thesis by (simp add: Let_def)
qed

text \<open>C29: the runner files a turn whose only call is a validation tool behind a renamed view as an
  inspection, since it classifies the action of the turn before the calls are resolved; the call it
  records in the trajectory is the resolved one, which would have been classified as a validation.\<close>

theorem renamed_validation_is_filed_as_inspection:
  assumes "pr_tool_calls (interpret_model_response response (Some (rv_capabilities env))) = [call]"
    and "is_validation_tool (resolve_call (rv_profile env) call)"
    and "\<not> is_mutation_tool (resolve_call (rv_profile env) call)"
    and "\<not> is_validation_tool call" "\<not> is_mutation_tool call" "canonical_tool_name call \<noteq> ''finish''"
    and "canonical_tool_name (resolve_call (rv_profile env) call) \<noteq> ''finish''"
    and "rw_validation_phase v = ValidationPhase_value phase"
    and "answer_turn env n v response t st = Inr (how, st')"
  shows "ts_turn_action (last (st_turn_states (rn_session st'))) = Some (TurnAction_value TA_INSPECT) \<and>
    tj_tool_calls (rn_trajectory st') = tj_tool_calls (rn_trajectory st) @ [resolve_call (rv_profile env) call] \<and>
    classify_turn_action [resolve_call (rv_profile env) call] (Text (rw_validation_phase v)) =
      Inr (if phase = VP_VALIDATION_FAILED then TA_REVALIDATE else TA_VALIDATE)"
proof -
  define raw where "raw = interpret_model_response response (Some (rv_capabilities env))"
  have before: "classify_turn_action (pr_tool_calls raw) (Text (rw_validation_phase v)) = Inr TA_INSPECT"
    using assms by (simp add: raw_def classify_turn_action_def Let_def)
  have after: "classify_turn_action [resolve_call (rv_profile env) call] (Text (rw_validation_phase v)) =
      Inr (if phase = VP_VALIDATION_FAILED then TA_REVALIDATE else TA_VALIDATE)"
    using assms by (simp add: classify_turn_action_def Let_def)
  let ?st1 = "st\<lparr>rn_session := note_response n raw (rn_session st),
    rn_trajectory := add_assistant (pr_assistant_content (resolved_result (rv_profile env) raw))
      (Some [resolve_call (rv_profile env) call]) (rn_trajectory st)\<rparr>"
  obtain rs st2 t2 stops where dispatch: "dispatch_calls env n [resolve_call (rv_profile env) call] ?st1 = Inr (rs, st2)"
    and finish: "finish_turn env n v (resolved_result (rv_profile env) raw) TA_INSPECT rs t2 st2 = Inr (stops, st')"
    using assms(9) before assms(1) [folded raw_def]
    by (auto simp: answer_turn_def Let_def res_bind_Inr_iff lift_value_def resolved_result_def simp flip: raw_def)
  have "tj_tool_calls (rn_trajectory st2) = tj_tool_calls (rn_trajectory ?st1)"
    using dispatch_calls_calls [OF dispatch] .
  moreover have "tj_tool_calls (rn_trajectory st') = tj_tool_calls (rn_trajectory st2)"
    "ts_turn_action (last (st_turn_states (rn_session st'))) = Some (TurnAction_value TA_INSPECT)"
    using finish_turn_files [OF finish] by simp_all
  ultimately show ?thesis using after by (simp add: add_assistant_def Let_def)
qed

definition renamed_check :: ToolProfile where
  "renamed_check = \<lparr>tp_profile_id = ''renamed'',
     tp_tools = [\<lparr>tv_canonical_name = ''python_run'', tv_exposed_name = ''check'', tv_description = '''',
       tv_input_schema = [], tv_contract_kind = FUNCTION, tv_input_format = None, tv_version = ''1'', tv_metadata = []\<rparr>],
     tp_adapters = [], tp_metadata = []\<rparr>"

definition renamed_run :: "nat run_env" where
  "renamed_run = bare_run\<lparr>rv_profile := renamed_check\<rparr>"

definition check_reply :: GenerateResponse where
  "check_reply = compaction_reply\<lparr>gr_tool_calls := [\<lparr>cand_call_id = Some ''c1'', cand_name = ''check'',
     cand_arguments_raw = None, cand_arguments_obj = Some [], cand_input_text = None,
     cand_arguments_parse_error = None, cand_source = ''native''\<rparr>]\<rparr>"

theorem renamed_validation_is_filed_as_inspection_witness:
  "let (v, t, st) = start_turn renamed_run 1 (initial_state renamed_run None False 0)
   in \<exists>how st'. answer_turn renamed_run 1 v check_reply t st = Inr (how, st') \<and>
        ts_turn_action (last (st_turn_states (rn_session st'))) = Some ''inspect''"
proof -
  obtain v t st where start: "start_turn renamed_run 1 (initial_state renamed_run None False 0) = (v, t, st)"
    by (metis prod_cases3)
  then obtain ph where ph: "rw_validation_phase v = ValidationPhase_value ph"
    by (auto simp: start_turn_def on_recovery_def view_before_turn_def Let_def split_beta)
  have no_schema: "validate_json_schema x [] name = Inr ()" for x name
    by (simp add: validate_json_schema_def dict_get_def)
  have "is_ok (inspect_call (rv_exc_text renamed_run) (rv_registry renamed_run) call (rv_profile renamed_run))" for call
    by (auto simp: renamed_run_def bare_run_def renamed_check_def inspect_call_def resolve_exposed_call_def get_tool_def
        validate_exposed_payload_def resolve_canonical_tool_def registry_get_def Let_def is_ok_def no_schema
        split: sum.splits option.splits)
  from answer_turn_ok [OF this ph, of 1 check_reply t st] obtain how st' where
    run: "answer_turn renamed_run 1 v check_reply t st = Inr (how, st')" by (auto simp: is_ok_iff)
  let ?call = "\<lparr>tc_id = ''c1'', tc_name = ''check'', tc_arguments = [], tc_input_text = None, tc_canonical_name = None\<rparr>"
  have "pr_tool_calls (interpret_model_response check_reply (Some (rv_capabilities renamed_run))) = [?call]"
    by code_simp
  from renamed_validation_is_filed_as_inspection [OF this _ _ _ _ _ _ ph run]
  have "ts_turn_action (last (st_turn_states (rn_session st'))) = Some (TurnAction_value TA_INSPECT)"
    by (simp add: renamed_run_def renamed_check_def get_tool_def resolve_call_def is_validation_tool_def
        is_mutation_tool_def validation_tools_def mutation_tools_def canonical_tool_name_def Let_def)
  then show ?thesis using start run by auto
qed

end
