(* ===== verification/Request_Context.thy ===== *)
theory Request_Context
  imports History_Manager
begin

section \<open>The log of request contexts\<close>

text \<open>
  \<open>pycodeagent/agent/request_context.py\<close>: for every request one entry that says what was selected
  for it and why, the manifest beside the log, the writer and the lookups.  As for the retained
  history the log is the list of its entries, not the JSON lines they are written as, and
  \<open>clock n\<close> is the time read for the entry with ordinal \<open>n\<close>.  Fields carry \<open>qe_\<close>, \<open>qm_\<close>, \<open>ql_\<close>,
  \<open>qw_\<close>.
\<close>

subsection \<open>Entries, manifest and writer\<close>

record RequestContextEntry =
  qe_schema_version :: int
  qe_entry_id :: string
  qe_run_id :: string
  qe_task_id :: string
  qe_turn_index :: int
  qe_policy_mode :: string
  qe_context_max_messages :: "int option"
  qe_context_max_tokens :: "int option"
  qe_request_message_count :: int
  qe_request_history_item_ids :: "string list"
  qe_request_history_item_kinds :: "string list"
  qe_request_history_source_indices :: "int list"
  qe_context_selection_retained_entry_id :: "string option"
  qe_included_message_indices :: "int list"
  qe_omitted_message_count :: int
  qe_compacted_message_count :: int
  qe_compaction_applied :: bool
  qe_compaction_reason :: "string option"
  qe_compaction_considered :: bool
  qe_compaction_considered_reason :: "string option"
  qe_compaction_skip_reason :: "string option"
  qe_trigger_message_overflow :: bool
  qe_trigger_token_overflow :: bool
  qe_pinned_message_indices :: "int list"
  qe_preserved_from_turn :: "int option"
  qe_candidate_turn_indices :: "int list"
  qe_compacted_turn_indices :: "int list"
  qe_model_backed_requested :: bool
  qe_model_backed_used :: bool
  qe_compaction_backend_mode :: "string option"
  qe_fallback_policy :: "string option"
  qe_fallback_applied :: bool
  qe_fallback_reason :: "string option"
  qe_compaction_backend_failure_kind :: "string option"
  qe_selected_retained_entry_ids :: "string list"
  qe_omitted_retained_entry_ids :: "string list"
  qe_summary_retained_entry_id :: "string option"
  qe_carried_forward_state_entry_id :: "string option"
  qe_retained_history_last_entry_id :: "string option"
  qe_retained_entry_count_before_snapshot :: int
  qe_retained_entry_count_after_snapshot :: int
  qe_request_history_item_count_before_snapshot :: int
  qe_request_history_item_count_after_snapshot :: int
  qe_replacement_history_active :: bool
  qe_replacement_history_record_id :: "string option"
  qe_summary_slot_included :: bool
  qe_carried_forward_state_present :: bool
  qe_estimated_selected_tokens :: int
  qe_estimated_omitted_tokens :: int
  qe_tool_token_reserve :: int
  qe_response_token_reserve :: int
  qe_token_budget_satisfied :: bool
  qe_token_overflow :: int
  qe_ts_unix_ms :: int

record RequestContextManifest =
  qm_schema_version :: int
  qm_run_id :: string
  qm_task_id :: string
  qm_workspace_root :: string
  qm_started_at_unix_ms :: int
  qm_ended_at_unix_ms :: "int option"
  qm_entry_log_path :: string
  qm_total_entries :: int
  qm_last_entry_id :: "string option"

record RequestContextLookupMetadata =
  ql_log_id :: string
  ql_entry_count :: int
  ql_last_entry_id :: "string option"

text \<open>The writer with the manifest file as it was last written and the log.\<close>

record RequestContextWriter =
  qw_manifest :: RequestContextManifest
  qw_next_entry_ordinal :: nat
  qw_manifest_file :: RequestContextManifest
  qw_entry_log :: "RequestContextEntry list"

subsection \<open>Writing\<close>

definition RequestContextWriter_create :: "int \<Rightarrow> string \<Rightarrow> string \<Rightarrow> string \<Rightarrow> RequestContextWriter" where
  "RequestContextWriter_create now run_id task_id workspace_root =
     (let manifest = \<lparr>qm_schema_version = 1, qm_run_id = run_id, qm_task_id = task_id,
            qm_workspace_root = workspace_root, qm_started_at_unix_ms = now,
            qm_ended_at_unix_ms = None, qm_entry_log_path = ''request_context.jsonl'',
            qm_total_entries = 0, qm_last_entry_id = None\<rparr>
      in \<lparr>qw_manifest = manifest, qw_next_entry_ordinal = 1, qw_manifest_file = manifest,
          qw_entry_log = []\<rparr>)"

text \<open>The entry of a snapshot; what it says of the selection, of the plan, and of the histories.\<close>

definition context_entry ::
  "int \<Rightarrow> nat \<Rightarrow> string \<Rightarrow> string \<Rightarrow> int \<Rightarrow> RuntimeHistorySnapshot \<Rightarrow> int option \<Rightarrow> RequestContextEntry" where
  "context_entry now ordinal run_id task_id turn_index snapshot context_max_messages =
     (let selection = sn_context_selection snapshot; plan = sn_context_selection_plan snapshot
      in \<lparr>qe_schema_version = 1,
          qe_entry_id = ''request_context_entry_'' @ py_int_pad 6 (int ordinal),
          qe_run_id = run_id, qe_task_id = task_id, qe_turn_index = turn_index,
          qe_policy_mode = cs_policy_mode selection,
          qe_context_max_messages = context_max_messages,
          qe_context_max_tokens = cs_context_max_tokens selection,
          qe_request_message_count = int (length (sn_selected_messages snapshot)),
          qe_request_history_item_ids = sn_request_history_item_ids snapshot,
          qe_request_history_item_kinds = sn_request_history_item_kinds snapshot,
          qe_request_history_source_indices = sn_request_history_source_indices snapshot,
          qe_context_selection_retained_entry_id = sn_context_selection_retained_entry_id snapshot,
          qe_included_message_indices = cs_included_message_indices selection,
          qe_omitted_message_count = cs_omitted_message_count selection,
          qe_compacted_message_count = cs_compacted_message_count selection,
          qe_compaction_applied = cs_compaction_applied selection,
          qe_compaction_reason = cs_compaction_reason selection,
          qe_compaction_considered = cp_compaction_considered plan,
          qe_compaction_considered_reason = cp_compaction_considered_reason plan,
          qe_compaction_skip_reason = cp_compaction_skip_reason plan,
          qe_trigger_message_overflow = cp_trigger_message_overflow plan,
          qe_trigger_token_overflow = cp_trigger_token_overflow plan,
          qe_pinned_message_indices = cp_pinned_message_indices plan,
          qe_preserved_from_turn = cp_preserved_from_turn plan,
          qe_candidate_turn_indices = cp_candidate_turn_indices plan,
          qe_compacted_turn_indices = cp_compacted_turn_indices plan,
          qe_model_backed_requested = cp_model_backed_requested plan,
          qe_model_backed_used = cp_model_backed_used plan,
          qe_compaction_backend_mode = cp_compaction_backend_mode plan,
          qe_fallback_policy = cp_fallback_policy plan,
          qe_fallback_applied = cp_fallback_applied plan,
          qe_fallback_reason = cp_fallback_reason plan,
          qe_compaction_backend_failure_kind = cp_compaction_backend_failure_kind plan,
          qe_selected_retained_entry_ids = sn_selected_retained_entry_ids snapshot,
          qe_omitted_retained_entry_ids = sn_omitted_retained_entry_ids snapshot,
          qe_summary_retained_entry_id = sn_summary_retained_entry_id snapshot,
          qe_carried_forward_state_entry_id = sn_carried_forward_state_entry_id snapshot,
          qe_retained_history_last_entry_id = sn_retained_history_last_entry_id snapshot,
          qe_retained_entry_count_before_snapshot = sn_retained_entry_count_before_snapshot snapshot,
          qe_retained_entry_count_after_snapshot = sn_retained_entry_count_after_snapshot snapshot,
          qe_request_history_item_count_before_snapshot =
            sn_request_history_item_count_before_snapshot snapshot,
          qe_request_history_item_count_after_snapshot =
            sn_request_history_item_count_after_snapshot snapshot,
          qe_replacement_history_active = sn_replacement_history_active snapshot,
          qe_replacement_history_record_id = sn_replacement_history_record_id snapshot,
          qe_summary_slot_included = (sn_synthetic_summary_message snapshot \<noteq> None),
          qe_carried_forward_state_present =
            (case sn_compaction_artifact snapshot of None \<Rightarrow> False
             | Some artifact \<Rightarrow> art_carried_forward_state artifact \<noteq> None),
          qe_estimated_selected_tokens = cs_estimated_selected_tokens selection,
          qe_estimated_omitted_tokens = cs_estimated_omitted_tokens selection,
          qe_tool_token_reserve = cs_tool_token_reserve selection,
          qe_response_token_reserve = cs_response_token_reserve selection,
          qe_token_budget_satisfied = cs_token_budget_satisfied selection,
          qe_token_overflow = cs_token_overflow selection,
          qe_ts_unix_ms = now\<rparr>)"

definition append_snapshot ::
  "(nat \<Rightarrow> int) \<Rightarrow> string \<Rightarrow> int \<Rightarrow> RuntimeHistorySnapshot \<Rightarrow> int option \<Rightarrow> RequestContextWriter
    \<Rightarrow> RequestContextEntry \<times> RequestContextWriter" where
  "append_snapshot clock task_id turn_index snapshot context_max_messages w =
     (let ordinal = qw_next_entry_ordinal w; manifest = qw_manifest w;
          entry = context_entry (clock ordinal) ordinal (qm_run_id manifest) task_id turn_index snapshot
            context_max_messages
      in (entry, w\<lparr>qw_next_entry_ordinal := ordinal + 1, qw_entry_log := qw_entry_log w @ [entry],
            qw_manifest := manifest\<lparr>qm_total_entries := qm_total_entries manifest + 1,
              qm_last_entry_id := Some (qe_entry_id entry)\<rparr>\<rparr>))"

definition finalize_context_writer :: "int \<Rightarrow> RequestContextWriter \<Rightarrow> RequestContextWriter" where
  "finalize_context_writer now w =
     (let manifest = (qw_manifest w)\<lparr>qm_ended_at_unix_ms := Some now\<rparr>
      in w\<lparr>qw_manifest := manifest, qw_manifest_file := manifest\<rparr>)"

subsection \<open>Reading\<close>

definition request_context_log_id :: "RequestContextManifest \<Rightarrow> string" where
  "request_context_log_id manifest =
     qm_run_id manifest @ '':'' @ py_int_str (qm_started_at_unix_ms manifest)"

definition context_belongs_to_manifest :: "RequestContextEntry \<Rightarrow> RequestContextManifest \<Rightarrow> bool" where
  "context_belongs_to_manifest entry manifest =
     (if qe_run_id entry \<noteq> qm_run_id manifest then False
      else if qe_ts_unix_ms entry < qm_started_at_unix_ms manifest then False
      else case qm_ended_at_unix_ms manifest of
             None \<Rightarrow> True
           | Some ended \<Rightarrow> \<not> qe_ts_unix_ms entry > ended)"

text \<open>The files of a log: the manifest and the entries beside it.\<close>

type_synonym stored_contexts = "RequestContextManifest \<times> RequestContextEntry list"

definition iter_request_context_entries :: "stored_contexts \<Rightarrow> RequestContextEntry list" where
  "iter_request_context_entries h =
     filter (\<lambda>entry. context_belongs_to_manifest entry (fst h)) (snd h)"

definition request_context_metadata :: "stored_contexts \<Rightarrow> RequestContextLookupMetadata" where
  "request_context_metadata h =
     (let (count, last_id) = fold (\<lambda>entry (n, _). (n + 1, Some (qe_entry_id entry)))
            (iter_request_context_entries h) (0, None)
      in \<lparr>ql_log_id = request_context_log_id (fst h), ql_entry_count = count,
          ql_last_entry_id = last_id\<rparr>)"

fun context_at :: "int \<Rightarrow> int \<Rightarrow> RequestContextEntry list \<Rightarrow> RequestContextEntry option" where
  "context_at offset current [] = None"
| "context_at offset current (entry # entries) =
     (if current = offset then Some entry else context_at offset (current + 1) entries)"

definition lookup_request_context_entry ::
  "stored_contexts \<Rightarrow> string \<Rightarrow> int \<Rightarrow> RequestContextEntry option" where
  "lookup_request_context_entry h log_id offset =
     (if offset < 0 then None
      else if ql_log_id (request_context_metadata h) \<noteq> log_id then None
      else context_at offset 0 (iter_request_context_entries h))"

definition lookup_request_context_entry_by_id ::
  "stored_contexts \<Rightarrow> string \<Rightarrow> RequestContextEntry option" where
  "lookup_request_context_entry_by_id h entry_id =
     find (\<lambda>entry. qe_entry_id entry = entry_id) (iter_request_context_entries h)"

end
