(* ===== verification/History_Replay.thy ===== *)
theory History_Replay
  imports Request_Context Text_Lines
begin

section \<open>Replaying stored histories\<close>

text \<open>
  \<open>pycodeagent/agent/history_replay.py\<close> and \<open>history_verify.py\<close>: from an entry of the request
  context log and an index of the retained history, the messages of the request, those it had
  before its compaction, and a report whether the two logs agree.  \<open>KeyError\<close> and \<open>ValueError\<close>,
  which the callers catch, carry their text; a \<open>TypeError\<close> goes through.  The text of pydantic's
  \<open>ValidationError\<close>, which is a \<open>ValueError\<close>, is the argument \<open>exc\<close>, a function of the values given.
\<close>

subsection \<open>Errors and JSON fields\<close>

datatype replay_error = ReplayError string | ReplayTypeError

text \<open>\<open>str(KeyError(m))\<close> is the \<open>repr\<close> of \<open>m\<close>.\<close>

definition key_error :: "string \<Rightarrow> replay_error + 'a" where
  "key_error m = Inl (ReplayError (py_repr_str m))"

definition value_error :: "string \<Rightarrow> replay_error + 'a" where
  "value_error m = Inl (ReplayError m)"

text \<open>\<open>except (KeyError, ValueError) as exc\<close>: the text that was caught, or the result.\<close>

definition caught :: "replay_error + 'a \<Rightarrow> replay_error + (string + 'a)" where
  "caught r = (case r of Inr x \<Rightarrow> Inr (Inr x) | Inl (ReplayError m) \<Rightarrow> Inr (Inl m) | Inl e \<Rightarrow> Inl e)"

fun res_list :: "('a \<Rightarrow> 'e + 'b) \<Rightarrow> 'a list \<Rightarrow> 'e + 'b list" where
  "res_list f [] = Inr []"
| "res_list f (x # xs) = res_bind (f x) (\<lambda>y. res_bind (res_list f xs) (\<lambda>ys. Inr (y # ys)))"

text \<open>\<open>list(v or [])\<close>, \<open>dict(v or {})\<close> (a list of pairs, which \<open>dict\<close> also takes, is outside) and
  \<open>int(v)\<close> (without underscores).\<close>

definition list_or_empty :: "json option \<Rightarrow> replay_error + json list" where
  "list_or_empty v =
     (case v of None \<Rightarrow> Inr []
      | Some j \<Rightarrow> if \<not> py_truthy j then Inr [] else
          (case j of JList xs \<Rightarrow> Inr xs | JObj kvs \<Rightarrow> Inr (map (JStr \<circ> fst) kvs)
           | JStr s \<Rightarrow> Inr (map (\<lambda>c. JStr [c]) s) | _ \<Rightarrow> Inl ReplayTypeError))"

definition dict_or_empty :: "json option \<Rightarrow> replay_error + pydict" where
  "dict_or_empty v =
     (case v of None \<Rightarrow> Inr []
      | Some j \<Rightarrow> if \<not> py_truthy j then Inr [] else
          (case j of JObj kvs \<Rightarrow> Inr kvs
           | JStr s \<Rightarrow> value_error ''dictionary update sequence element #0 has length 1; 2 is required''
           | _ \<Rightarrow> Inl ReplayTypeError))"

definition int_of_json :: "json \<Rightarrow> replay_error + int" where
  "int_of_json v =
     (case v of
        JInt i \<Rightarrow> Inr i
      | JBool b \<Rightarrow> Inr (if b then 1 else 0)
      | JFloat q _ \<Rightarrow> Inr (if 0 \<le> q then \<lfloor>q\<rfloor> else \<lceil>q\<rceil>)
      | JStr s \<Rightarrow>
          (let t = py_strip s; ds = (if t \<noteq> [] \<and> hd t \<in> {CHR ''+'', CHR ''-''} then tl t else t)
           in if ds = [] \<or> \<not> list_all is_digit ds
              then value_error (''invalid literal for int() with base 10: '' @ py_repr_str s)
              else Inr (if hd t = CHR ''-'' then - int (digits_value ds) else int (digits_value ds)))
      | _ \<Rightarrow> Inl ReplayTypeError)"

subsection \<open>Messages\<close>

text \<open>\<open>Message.model_validate\<close>: the fields of \<open>Message\<close> and \<open>ToolCall\<close> from a stored dictionary.\<close>

definition required_text :: "pydict \<Rightarrow> string \<Rightarrow> string option" where
  "required_text d k = (case map_of d k of Some (JStr s) \<Rightarrow> Some s | _ \<Rightarrow> None)"

definition optional_text :: "pydict \<Rightarrow> string \<Rightarrow> string option option" where
  "optional_text d k =
     (case map_of d k of None \<Rightarrow> Some None | Some JNull \<Rightarrow> Some None | Some (JStr s) \<Rightarrow> Some (Some s)
      | _ \<Rightarrow> None)"

definition dict_field :: "pydict \<Rightarrow> string \<Rightarrow> pydict option" where
  "dict_field d k = (case map_of d k of None \<Rightarrow> Some [] | Some (JObj kvs) \<Rightarrow> Some kvs | _ \<Rightarrow> None)"

definition Role_of_str :: "string \<Rightarrow> Role option" where
  "Role_of_str s = find (\<lambda>r. Role_value r = s) [SYSTEM, USER, ASSISTANT, TOOL]"

fun ToolCall_of_json :: "json \<Rightarrow> ToolCall option" where
  "ToolCall_of_json (JObj d) =
     Option.bind (required_text d ''id'') (\<lambda>i.
     Option.bind (required_text d ''name'') (\<lambda>n.
     Option.bind (dict_field d ''arguments'') (\<lambda>arguments.
     Option.bind (optional_text d ''input_text'') (\<lambda>input_text.
     Option.bind (optional_text d ''canonical_name'') (\<lambda>canonical_name.
       if input_text \<noteq> None \<and> arguments \<noteq> [] then None
       else Some \<lparr>tc_id = i, tc_name = n, tc_arguments = arguments, tc_input_text = input_text,
              tc_canonical_name = canonical_name\<rparr>)))))"
| "ToolCall_of_json _ = None"

definition tool_calls_field :: "pydict \<Rightarrow> ToolCall list option" where
  "tool_calls_field d =
     (case map_of d ''tool_calls'' of
        None \<Rightarrow> Some []
      | Some (JList xs) \<Rightarrow> those (map ToolCall_of_json xs)
      | _ \<Rightarrow> None)"

definition Message_of_dict :: "pydict \<Rightarrow> Message option" where
  "Message_of_dict d =
     Option.bind (Option.bind (required_text d ''role'') Role_of_str) (\<lambda>r.
     Option.bind (required_text d ''content'') (\<lambda>content.
     Option.bind (tool_calls_field d) (\<lambda>calls.
     Option.bind (optional_text d ''tool_call_id'') (\<lambda>call_id.
     Option.bind (optional_text d ''tool_name'') (\<lambda>tool_name.
     Option.bind (optional_text d ''canonical_name'') (\<lambda>canonical_name.
     Option.bind (optional_text d ''tool_version'') (\<lambda>version.
     Option.bind (dict_field d ''metadata'') (\<lambda>metadata.
       Some \<lparr>msg_role = r, msg_content = content, msg_tool_calls = calls, msg_tool_call_id = call_id,
             msg_tool_name = tool_name, msg_canonical_name = canonical_name,
             msg_tool_version = version, msg_metadata = metadata\<rparr>))))))))"

definition Message_model_validate :: "(pydict \<Rightarrow> string) \<Rightarrow> pydict \<Rightarrow> replay_error + Message" where
  "Message_model_validate exc d =
     (case Message_of_dict d of Some m \<Rightarrow> Inr m | None \<Rightarrow> value_error (exc d))"

subsection \<open>The index of the retained history\<close>

type_synonym entry_index = "(string \<times> RetainedHistoryEntry) list"

definition build_retained_entry_index :: "RetainedHistoryEntry list \<Rightarrow> entry_index" where
  "build_retained_entry_index entries =
     fold (\<lambda>entry. AList.update (re_entry_id entry) entry) entries []"

text \<open>A lookup with a stored value: only texts are keys, and lists and dictionaries are unhashable.\<close>

definition index_get :: "entry_index \<Rightarrow> json \<Rightarrow> replay_error + RetainedHistoryEntry option" where
  "index_get index v =
     (case v of JStr s \<Rightarrow> Inr (map_of index s) | JList _ \<Rightarrow> Inl ReplayTypeError
      | JObj _ \<Rightarrow> Inl ReplayTypeError | _ \<Rightarrow> Inr None)"

definition meta_json :: "pydict \<Rightarrow> string \<Rightarrow> json" where
  "meta_json d k = (case map_of d k of None \<Rightarrow> JNull | Some v \<Rightarrow> v)"

definition retained_entry_to_message ::
  "(pydict \<Rightarrow> string) \<Rightarrow> RetainedHistoryEntry \<Rightarrow> replay_error + Message option" where
  "retained_entry_to_message exc entry =
     (let metadata = re_metadata entry
      in case map_of metadata ''message_payload'' of
           Some (JObj payload) \<Rightarrow> res_bind (Message_model_validate exc payload) (\<lambda>m. Inr (Some m))
         | _ \<Rightarrow>
             (case re_role entry of
                None \<Rightarrow> Inr None
              | Some r \<Rightarrow>
                  if Role_of_str r = None then value_error (py_repr_str r @ '' is not a valid Role'')
                  else res_bind (dict_or_empty (map_of metadata ''message_metadata'')) (\<lambda>kvs.
                    res_bind (Message_model_validate exc
                      ([(''role'', JStr r), (''content'', JStr (re_text entry))]
                       @ map (\<lambda>k. (k, meta_json metadata k))
                           [''tool_call_id'', ''tool_name'', ''canonical_name'', ''tool_version'']
                       @ [(''metadata'', JObj kvs)])) (\<lambda>m. Inr (Some m)))))"

text \<open>An entry that must be there, and a message that must be there.\<close>

definition required_entry ::
  "RetainedHistoryEntry option \<Rightarrow> string \<Rightarrow> replay_error + RetainedHistoryEntry" where
  "required_entry found message =
     (case found of None \<Rightarrow> key_error message | Some entry \<Rightarrow> Inr entry)"

definition required_message ::
  "(pydict \<Rightarrow> string) \<Rightarrow> RetainedHistoryEntry \<Rightarrow> string \<Rightarrow> replay_error + Message" where
  "required_message exc entry message =
     res_bind (retained_entry_to_message exc entry)
       (\<lambda>m. case m of None \<Rightarrow> value_error message | Some x \<Rightarrow> Inr x)"

subsection \<open>Reconstruction\<close>

definition reconstruct_selected_messages ::
  "(pydict \<Rightarrow> string) \<Rightarrow> RequestContextEntry \<Rightarrow> entry_index \<Rightarrow> replay_error + Message list" where
  "reconstruct_selected_messages exc q index =
     res_list (\<lambda>i. res_bind (required_entry (map_of index i)
           (''missing retained entry for selected context: '' @ i))
         (\<lambda>entry. required_message exc entry
           (''retained entry '' @ i @ '' does not contain replayable message payload'')))
       (qe_selected_retained_entry_ids q)"

text \<open>The summary entry of an active replacement.\<close>

definition summary_entry_of :: "RequestContextEntry \<Rightarrow> entry_index \<Rightarrow> replay_error + RetainedHistoryEntry" where
  "summary_entry_of q index =
     (case qe_summary_retained_entry_id q of
        None \<Rightarrow> value_error ''replacement history is active but summary_retained_entry_id is missing''
      | Some i \<Rightarrow> required_entry (map_of index i) (''missing replacement summary entry: '' @ i))"

text \<open>The messages with the index they had in the trajectory: those still selected, those replaced.\<close>

definition selected_pairs ::
  "(pydict \<Rightarrow> string) \<Rightarrow> RequestContextEntry \<Rightarrow> entry_index \<Rightarrow> replay_error + (int \<times> Message) list" where
  "selected_pairs exc q index =
     res_list (\<lambda>i. res_bind (required_entry (map_of index i)
           (''missing selected retained entry for replay: '' @ i))
         (\<lambda>entry. case re_source_trajectory_index entry of
            None \<Rightarrow> value_error (''selected retained entry '' @ i @ '' lacks source_trajectory_index'')
          | Some n \<Rightarrow> res_bind (required_message exc entry
              (''selected retained entry '' @ i @ '' does not contain message payload''))
              (\<lambda>m. Inr (n, m))))
       (filter (\<lambda>i. Some i \<noteq> qe_summary_retained_entry_id q) (qe_selected_retained_entry_ids q))"

definition replaced_pairs ::
  "(pydict \<Rightarrow> string) \<Rightarrow> entry_index \<Rightarrow> (json \<times> json) list \<Rightarrow> replay_error + (int \<times> Message) list" where
  "replaced_pairs exc index sources =
     res_list (\<lambda>(i, n). res_bind (index_get index i) (\<lambda>found.
         res_bind (required_entry found
           (''missing compacted source retained entry for replay: '' @ py_str i)) (\<lambda>entry.
         res_bind (required_message exc entry
           (''compacted retained entry '' @ py_str i @ '' does not contain message payload'')) (\<lambda>m.
         res_bind (int_of_json n) (\<lambda>k. Inr (k, m))))))
       sources"

definition reconstruct_pre_compaction_messages ::
  "(pydict \<Rightarrow> string) \<Rightarrow> RequestContextEntry \<Rightarrow> entry_index \<Rightarrow> replay_error + Message list" where
  "reconstruct_pre_compaction_messages exc q index =
     (if \<not> qe_replacement_history_active q then reconstruct_selected_messages exc q index
      else res_bind (summary_entry_of q index) (\<lambda>summary.
        res_bind (list_or_empty (map_of (re_metadata summary) ''source_retained_entry_ids'')) (\<lambda>ids.
        res_bind (list_or_empty (map_of (re_metadata summary) ''source_trajectory_indices'')) (\<lambda>indices.
          if length ids \<noteq> length indices
          then value_error (''replacement summary source_retained_entry_ids and ''
            @ ''source_trajectory_indices length mismatch'')
          else res_bind (selected_pairs exc q index) (\<lambda>kept.
            res_bind (replaced_pairs exc index (zip ids indices)) (\<lambda>replaced.
              Inr (map snd (sort_key fst (kept @ replaced)))))))))"

text \<open>The indices of the messages before the compaction, from the index of entries.\<close>

definition pre_indices ::
  "RequestContextEntry \<Rightarrow> json list \<Rightarrow> entry_index \<Rightarrow> replay_error + int list" where
  "pre_indices q ids index =
     (if list_ex (\<lambda>v. case v of JList _ \<Rightarrow> True | JObj _ \<Rightarrow> True | _ \<Rightarrow> False) ids
      then Inl ReplayTypeError
      else Inr (sort (List.map_filter re_source_trajectory_index
        (filter (\<lambda>entry. JStr (re_entry_id entry) \<in> set ids \<or>
             re_entry_id entry \<in> set (filter (\<lambda>i. Some i \<noteq> qe_summary_retained_entry_id q)
               (qe_selected_retained_entry_ids q)))
           (map snd index)))))"

fun post_messages :: "Message \<Rightarrow> int list \<Rightarrow> bool \<Rightarrow> (int \<times> Message) list \<Rightarrow> Message list" where
  "post_messages summary compacted inserted [] = []"
| "post_messages summary compacted inserted ((i, m) # rest) =
     (if i \<in> set compacted
      then (if inserted then [] else [summary]) @ post_messages summary compacted True rest
      else m # post_messages summary compacted inserted rest)"

definition reconstruct_post_compaction_messages_from_pre_compaction ::
  "(pydict \<Rightarrow> string) \<Rightarrow> RequestContextEntry \<Rightarrow> entry_index \<Rightarrow> replay_error + Message list" where
  "reconstruct_post_compaction_messages_from_pre_compaction exc q index =
     (if \<not> qe_replacement_history_active q then reconstruct_selected_messages exc q index
      else res_bind (summary_entry_of q index) (\<lambda>entry.
        res_bind (required_message exc entry ''replacement summary entry does not contain message payload'')
          (\<lambda>summary.
        res_bind (list_or_empty (map_of (re_metadata entry) ''source_trajectory_indices'')) (\<lambda>stored.
        res_bind (res_list int_of_json stored) (\<lambda>indices.
          if indices = [] then value_error ''replacement summary does not contain source_trajectory_indices''
          else res_bind (reconstruct_pre_compaction_messages exc q index) (\<lambda>pre.
            res_bind (list_or_empty (map_of (re_metadata entry) ''source_retained_entry_ids'')) (\<lambda>ids.
            res_bind (pre_indices q ids index) (\<lambda>positions.
              if length positions \<noteq> length pre
              then value_error (''unable to align reconstructed pre-compaction messages to source ''
                @ ''indices'')
              else Inr (post_messages summary indices False (zip positions pre))))))))))"

end
