(* ===== verification/History_Reports.thy ===== *)
theory History_Reports
  imports History_Replay "HOL-Library.Product_Lexorder"
begin

section \<open>Reports over stored histories\<close>

text \<open>
  \<open>pycodeagent/agent/history_verify.py\<close> (does an entry of the request context log agree with the
  retained history?) and \<open>history_lineage.py\<close> (are the parts of every replacement there?).  Fields
  carry \<open>hr_\<close>, \<open>hl_\<close> and \<open>lr_\<close>.
\<close>

subsection \<open>One entry against the retained history\<close>

record HistoryConsistencyReport =
  hr_turn_index :: int
  hr_ok :: bool
  hr_reconstructed_message_count :: int
  hr_reconstructed_pre_compaction_message_count :: int
  hr_errors :: "string list"

definition missing_entries :: "entry_index \<Rightarrow> string \<Rightarrow> string list \<Rightarrow> string list" where
  "missing_entries index what ids =
     map (\<lambda>i. ''missing '' @ what @ '' retained entry: '' @ i) (filter (\<lambda>i. map_of index i = None) ids)"

text \<open>The count of the rebuilt request, when nothing is missing, and what is wrong with it.\<close>

definition check_selected ::
  "(pydict \<Rightarrow> string) \<Rightarrow> RequestContextEntry \<Rightarrow> entry_index \<Rightarrow> string list
    \<Rightarrow> replay_error + int \<times> string list" where
  "check_selected exc q index errors =
     (if errors \<noteq> [] then Inr (0, [])
      else res_bind (caught (reconstruct_selected_messages exc q index)) (\<lambda>r. Inr (case r of
          Inl e \<Rightarrow> (0, [e])
        | Inr ms \<Rightarrow> (int (length ms),
            if ms \<noteq> [] \<and> int (length ms) \<noteq> qe_request_message_count q
            then [''request message count mismatch: entry='' @ py_int_str (qe_request_message_count q)
                  @ '' reconstructed='' @ py_int_str (int (length ms))] else []))))"

definition absent_fields :: "RequestContextEntry \<Rightarrow> string list" where
  "absent_fields q =
     map snd (filter fst
       [(qe_summary_retained_entry_id q = None,
         ''replacement history active but summary_retained_entry_id is missing''),
        (qe_carried_forward_state_entry_id q = None,
         ''replacement history active but carried_forward_state_entry_id is missing''),
        (qe_replacement_history_record_id q = None,
         ''replacement history active but replacement_history_record_id is missing'')])"

definition check_summary_entry ::
  "RequestContextEntry \<Rightarrow> entry_index \<Rightarrow> replay_error + string list" where
  "check_summary_entry q index =
     (case qe_summary_retained_entry_id q of
        None \<Rightarrow> Inr []
      | Some i \<Rightarrow>
          (case map_of index i of
             None \<Rightarrow> Inr [''missing replacement summary entry: '' @ i]
           | Some entry \<Rightarrow>
               res_bind (list_or_empty (map_of (re_metadata entry) ''source_retained_entry_ids'')) (\<lambda>ids.
                 Inr (map snd (filter fst
                   [(re_source_kind entry \<noteq> ''replacement_summary'',
                     ''summary retained entry has wrong source kind: '' @ re_source_kind entry),
                    (\<not> py_eq (JList ids) (JList (map JStr (qe_omitted_retained_entry_ids q))),
                     ''omitted retained entries do not match replacement summary sources''),
                    (\<not> py_eq (meta_json (re_metadata entry) ''replacement_record_id'')
                         (opt_str (qe_replacement_history_record_id q)),
                     ''replacement summary record id does not match request context'')])))))"

definition check_carried_entry :: "RequestContextEntry \<Rightarrow> entry_index \<Rightarrow> string list" where
  "check_carried_entry q index =
     (case qe_carried_forward_state_entry_id q of
        None \<Rightarrow> []
      | Some i \<Rightarrow>
          (case map_of index i of
             None \<Rightarrow> [''missing carried forward entry: '' @ i]
           | Some entry \<Rightarrow> map snd (filter fst
               [(re_source_kind entry \<noteq> ''carry_forward_state'',
                 ''carried forward retained entry has wrong source kind: '' @ re_source_kind entry),
                (\<not> py_eq (meta_json (re_metadata entry) ''replacement_record_id'')
                     (opt_str (qe_replacement_history_record_id q)),
                 ''carried forward replacement record id does not match request context'')])))"

definition check_membership :: "RequestContextEntry \<Rightarrow> string list" where
  "check_membership q =
     map snd (filter fst
       [(case qe_summary_retained_entry_id q of None \<Rightarrow> False
           | Some i \<Rightarrow> i \<notin> set (qe_selected_retained_entry_ids q),
         ''selected retained entries do not include the summary entry''),
        (case qe_carried_forward_state_entry_id q of None \<Rightarrow> False
           | Some i \<Rightarrow> i \<in> set (qe_selected_retained_entry_ids q),
         ''selected retained entries should not directly include carried forward state'')])"

text \<open>The last check of an active replacement: undo the compaction, redo it, compare.\<close>

definition messages_equal :: "Message list \<Rightarrow> Message list \<Rightarrow> bool" where
  "messages_equal xs ys \<longleftrightarrow>
     py_eq (JList (map (JObj \<circ> Message_model_dump) xs)) (JList (map (JObj \<circ> Message_model_dump) ys))"

definition check_rebuilding ::
  "(pydict \<Rightarrow> string) \<Rightarrow> RequestContextEntry \<Rightarrow> entry_index \<Rightarrow> replay_error + int \<times> string list" where
  "check_rebuilding exc q index =
     res_bind (caught (reconstruct_pre_compaction_messages exc q index)) (\<lambda>r.
       case r of
         Inl e \<Rightarrow> Inr (0, [e])
       | Inr pre \<Rightarrow>
           let n = int (length pre);
               mismatch = (if n \<noteq> qe_request_history_item_count_before_snapshot q
                 then [''pre-compaction request history count mismatch: entry=''
                       @ py_int_str (qe_request_history_item_count_before_snapshot q)
                       @ '' reconstructed='' @ py_int_str n] else [])
           in res_bind (caught (res_bind (reconstruct_post_compaction_messages_from_pre_compaction exc q index)
                (\<lambda>post. res_bind (reconstruct_selected_messages exc q index) (\<lambda>ms. Inr (post, ms))))) (\<lambda>r'.
                Inr (n, mismatch @ (case r' of
                    Inl e \<Rightarrow> [e]
                  | Inr (post, ms) \<Rightarrow> if messages_equal post ms then []
                      else [''replacement-history reconstruction does not rebuild the selected ''
                            @ ''post-compaction context'']))))"

definition check_inactive :: "RequestContextEntry \<Rightarrow> string list" where
  "check_inactive q =
     map snd (filter fst
       [(qe_summary_retained_entry_id q \<noteq> None,
         ''summary_retained_entry_id should be absent when replacement history is inactive''),
        (qe_carried_forward_state_entry_id q \<noteq> None,
         ''carried_forward_state_entry_id should be absent when replacement history is inactive''),
        (qe_replacement_history_record_id q \<noteq> None,
         ''replacement_history_record_id should be absent when replacement history is inactive'')])"

definition verify_request_context_entry ::
  "(pydict \<Rightarrow> string) \<Rightarrow> RequestContextEntry \<Rightarrow> entry_index
    \<Rightarrow> replay_error + HistoryConsistencyReport" where
  "verify_request_context_entry exc q index =
     (let missing = missing_entries index ''selected'' (qe_selected_retained_entry_ids q)
            @ missing_entries index ''omitted'' (qe_omitted_retained_entry_ids q);
          report = (\<lambda>count pre errors. \<lparr>hr_turn_index = qe_turn_index q, hr_ok = (errors = []),
            hr_reconstructed_message_count = count,
            hr_reconstructed_pre_compaction_message_count = pre, hr_errors = errors\<rparr>)
      in res_bind (check_selected exc q index missing) (\<lambda>(count, selected_errors).
           if \<not> qe_replacement_history_active q
           then Inr (report count 0 (missing @ selected_errors @ check_inactive q))
           else res_bind (check_summary_entry q index) (\<lambda>summary_errors.
             let errors = missing @ selected_errors @ absent_fields q @ summary_errors
                   @ check_carried_entry q index @ check_membership q
             in if errors \<noteq> [] then Inr (report count 0 errors)
                else res_bind (check_rebuilding exc q index) (\<lambda>(pre, rebuilding_errors).
                  Inr (report count pre rebuilding_errors)))))"

definition verify_request_context_log ::
  "(pydict \<Rightarrow> string) \<Rightarrow> RequestContextEntry list \<Rightarrow> RetainedHistoryEntry list
    \<Rightarrow> replay_error + HistoryConsistencyReport list" where
  "verify_request_context_log exc contexts entries =
     (let index = build_retained_entry_index entries
      in res_list (\<lambda>q. verify_request_context_entry exc q index) contexts)"

subsection \<open>The lineage of every replacement\<close>

record ReplacementHistoryLineageRecord =
  hl_record_id :: string
  hl_turn_index :: int
  hl_request_context_entry_id :: string
  hl_request_context_log_id :: string
  hl_retained_history_log_id :: string
  hl_summary_retained_entry_id :: "string option"
  hl_carried_forward_state_entry_id :: "string option"
  hl_compaction_artifact_entry_id :: "string option"
  hl_source_retained_entry_ids :: "string list"
  hl_source_trajectory_indices :: "int list"
  hl_source_item_count :: int
  hl_ok :: bool
  hl_errors :: "string list"

record HistoryLineageReport =
  lr_request_context_log_id :: string
  lr_retained_history_log_id :: string
  lr_replacement_record_count :: int
  lr_ok :: bool
  lr_records :: "ReplacementHistoryLineageRecord list"

text \<open>\<open>index.get(id) if id else None\<close>.\<close>

definition entry_if_named :: "entry_index \<Rightarrow> string option \<Rightarrow> RetainedHistoryEntry option" where
  "entry_if_named index i =
     (case i of None \<Rightarrow> None | Some s \<Rightarrow> if s = '''' then None else map_of index s)"

definition lineage_summary ::
  "string \<Rightarrow> RetainedHistoryEntry option \<Rightarrow> replay_error + string list \<times> json list \<times> json list" where
  "lineage_summary record_id found =
     (case found of
        None \<Rightarrow> Inr ([''missing replacement summary entry''], [], [])
      | Some entry \<Rightarrow>
          res_bind (list_or_empty (map_of (re_metadata entry) ''source_retained_entry_ids'')) (\<lambda>ids.
          res_bind (list_or_empty (map_of (re_metadata entry) ''source_trajectory_indices'')) (\<lambda>indices.
            Inr (map snd (filter fst
              [(re_source_kind entry \<noteq> ''replacement_summary'',
                ''summary entry has unexpected source_kind='' @ re_source_kind entry),
               (\<not> py_eq (meta_json (re_metadata entry) ''replacement_record_id'') (JStr record_id),
                ''summary entry replacement_record_id mismatch'')]), ids, indices))))"

definition lineage_carried :: "string \<Rightarrow> RetainedHistoryEntry option \<Rightarrow> string list" where
  "lineage_carried record_id found =
     (case found of
        None \<Rightarrow> [''missing carried forward state entry'']
      | Some entry \<Rightarrow> map snd (filter fst
          [(re_source_kind entry \<noteq> ''carry_forward_state'',
            ''carried forward entry has unexpected source_kind='' @ re_source_kind entry),
           (\<not> py_eq (meta_json (re_metadata entry) ''replacement_record_id'') (JStr record_id),
            ''carried forward entry replacement_record_id mismatch'')]))"

definition lineage_artifact ::
  "RequestContextEntry \<Rightarrow> RetainedHistoryEntry list \<Rightarrow> string option \<times> string list" where
  "lineage_artifact q entries =
     (case filter (\<lambda>entry. re_turn_index entry = qe_turn_index q \<and> re_source_kind entry = ''history_control''
         \<and> py_eq (meta_json (re_metadata entry) ''control_kind'') (JStr ''compaction_artifact'')) entries of
        [] \<Rightarrow> (None, [''missing compaction artifact entry''])
      | [entry] \<Rightarrow> (Some (re_entry_id entry), [])
      | _ \<Rightarrow> (None, [''ambiguous compaction artifact entry for replacement turn'']))"

definition lineage_sources :: "entry_index \<Rightarrow> json list \<Rightarrow> replay_error + string list" where
  "lineage_sources index ids =
     res_bind (res_list (\<lambda>i. res_bind (index_get index i) (\<lambda>found. Inr (case found of
           None \<Rightarrow> [''missing compacted source retained entry: '' @ py_str i]
         | Some entry \<Rightarrow> if re_source_kind entry = ''source_message'' then []
             else [''compacted source retained entry has unexpected source_kind='' @ re_source_kind entry])))
         ids) (\<lambda>errors. Inr (concat errors))"

definition lineage_membership :: "RequestContextEntry \<Rightarrow> string list" where
  "lineage_membership q =
     map snd (filter fst
       [(qe_summary_retained_entry_id q \<notin> Some ` set (qe_selected_retained_entry_ids q),
         ''selected_retained_entry_ids does not include summary entry''),
        (qe_carried_forward_state_entry_id q \<in> Some ` set (qe_selected_retained_entry_ids q),
         ''selected_retained_entry_ids should not include carried forward entry'')])"

text \<open>
  The record's fields are lists of texts and of integers.  Only a text is a text; an integer is also
  taken from a truth value, a whole float and a text \<open>int\<close> reads (without a decimal point).
\<close>

definition text_fields :: "json list \<Rightarrow> replay_error + string list" where
  "text_fields = res_list (\<lambda>v. case v of JStr s \<Rightarrow> Inr s | _ \<Rightarrow> value_error ''ValidationError'')"

definition int_fields :: "json list \<Rightarrow> replay_error + int list" where
  "int_fields = res_list (\<lambda>v.
     case v of
       JFloat q _ \<Rightarrow> if q = of_int \<lfloor>q\<rfloor> then Inr \<lfloor>q\<rfloor> else value_error ''ValidationError''
     | _ \<Rightarrow> (case int_of_json v of Inr i \<Rightarrow> Inr i | Inl _ \<Rightarrow> value_error ''ValidationError''))"

definition lineage_record ::
  "string \<Rightarrow> string \<Rightarrow> RetainedHistoryEntry list \<Rightarrow> RequestContextEntry \<Rightarrow> string
    \<Rightarrow> replay_error + ReplacementHistoryLineageRecord" where
  "lineage_record context_log retained_log entries q record_id =
     (let index = build_retained_entry_index entries;
          (artifact_id, artifact_errors) = lineage_artifact q entries
      in res_bind (lineage_summary record_id (entry_if_named index (qe_summary_retained_entry_id q)))
        (\<lambda>(summary_errors, ids, indices).
         res_bind (lineage_sources index ids) (\<lambda>source_errors.
         res_bind (text_fields ids) (\<lambda>source_ids.
         res_bind (int_fields indices) (\<lambda>source_indices.
           let errors = summary_errors
                 @ lineage_carried record_id (entry_if_named index (qe_carried_forward_state_entry_id q))
                 @ artifact_errors @ source_errors @ lineage_membership q
           in Inr \<lparr>hl_record_id = record_id, hl_turn_index = qe_turn_index q,
                hl_request_context_entry_id = qe_entry_id q,
                hl_request_context_log_id = context_log, hl_retained_history_log_id = retained_log,
                hl_summary_retained_entry_id = qe_summary_retained_entry_id q,
                hl_carried_forward_state_entry_id = qe_carried_forward_state_entry_id q,
                hl_compaction_artifact_entry_id = artifact_id,
                hl_source_retained_entry_ids = source_ids,
                hl_source_trajectory_indices = source_indices,
                hl_source_item_count = int (length ids), hl_ok = (errors = []),
                hl_errors = errors\<rparr>)))))"

text \<open>The entries that name a replacement record, in the order of their turns.\<close>

definition replacement_contexts :: "RequestContextEntry list \<Rightarrow> (RequestContextEntry \<times> string) list" where
  "replacement_contexts contexts =
     List.map_filter (\<lambda>q. if \<not> qe_replacement_history_active q then None
         else case qe_replacement_history_record_id q of
                None \<Rightarrow> None | Some r \<Rightarrow> if r = '''' then None else Some (q, r))
       (sort_key qe_turn_index contexts)"

definition build_history_lineage_report ::
  "RequestContextEntry list \<Rightarrow> RetainedHistoryEntry list \<Rightarrow> string \<Rightarrow> string
    \<Rightarrow> replay_error + HistoryLineageReport" where
  "build_history_lineage_report contexts entries context_log retained_log =
     res_bind (res_list (\<lambda>(q, r). lineage_record context_log retained_log entries q r)
         (replacement_contexts contexts))
       (\<lambda>records. Inr \<lparr>lr_request_context_log_id = context_log, lr_retained_history_log_id = retained_log,
          lr_replacement_record_count = int (length records), lr_ok = list_all hl_ok records,
          lr_records = records\<rparr>)"

end
