(* ===== verification/History_Reconciliation.thy ===== *)
theory History_Reconciliation
  imports History_Reports
begin

section \<open>Reconciliation and evolution of stored histories\<close>

text \<open>
  \<open>pycodeagent/agent/history_reconciliation.py\<close>: the replacements of a run in order, each with the
  messages it left and those it replaced, as a query bundle, a report and a chain; and
  \<open>history_evolution.py\<close>: from request to request, what was carried over and what was appended.
\<close>

subsection \<open>The bundle\<close>

record ReplacementHistoryReconciliationRecord =
  hc_record_id :: string
  hc_turn_index :: int
  hc_request_context_entry_id :: string
  hc_summary_retained_entry_id :: "string option"
  hc_carried_forward_state_entry_id :: "string option"
  hc_compaction_artifact_entry_id :: "string option"
  hc_source_retained_entry_ids :: "string list"
  hc_source_trajectory_indices :: "int list"
  hc_selected_message_count :: int
  hc_pre_compaction_message_count :: int
  hc_selected_message_roles :: "string list"
  hc_pre_compaction_message_roles :: "string list"
  hc_ok :: bool
  hc_errors :: "string list"

record HistoryReconciliationBundle =
  rb_request_context_log_id :: string
  rb_retained_history_log_id :: string
  rb_lineage_report :: HistoryLineageReport
  rb_records :: "ReplacementHistoryReconciliationRecord list"

record HistoryReconciliationReport =
  rp_request_context_log_id :: string
  rp_retained_history_log_id :: string
  rp_replacement_record_count :: int
  rp_replacement_record_ids :: "string list"
  rp_replacement_turn_indices :: "int list"
  rp_ok :: bool
  rp_records :: "ReplacementHistoryReconciliationRecord list"

definition contexts_by_record :: "RequestContextEntry list \<Rightarrow> (string \<times> RequestContextEntry) list" where
  "contexts_by_record contexts =
     fold (\<lambda>q d. case qe_replacement_history_record_id q of
         None \<Rightarrow> d | Some r \<Rightarrow> if r = '''' then d else AList.update r q d) contexts []"

text \<open>What was caught of a reconstruction: its messages, or none and the error.\<close>

definition rebuilt :: "replay_error + Message list \<Rightarrow> replay_error + Message list \<times> string list" where
  "rebuilt r = res_bind (caught r) (\<lambda>x. Inr (case x of Inl e \<Rightarrow> ([], [e]) | Inr ms \<Rightarrow> (ms, [])))"

definition reconcile_record ::
  "(pydict \<Rightarrow> string) \<Rightarrow> (string \<times> RequestContextEntry) list \<Rightarrow> entry_index
    \<Rightarrow> ReplacementHistoryLineageRecord \<Rightarrow> replay_error + ReplacementHistoryReconciliationRecord" where
  "reconcile_record exc by_record index l =
     res_bind (case map_of by_record (hl_record_id l) of
         None \<Rightarrow> Inr ([], [], [''request context entry not found for replacement_history_record_id''])
       | Some q \<Rightarrow>
           res_bind (rebuilt (reconstruct_selected_messages exc q index)) (\<lambda>(selected, e1).
           res_bind (rebuilt (reconstruct_pre_compaction_messages exc q index)) (\<lambda>(pre, e2).
             Inr (selected, pre, e1 @ e2))))
       (\<lambda>(selected, pre, found).
          let errors = hl_errors l @ found
          in Inr \<lparr>hc_record_id = hl_record_id l, hc_turn_index = hl_turn_index l,
               hc_request_context_entry_id = hl_request_context_entry_id l,
               hc_summary_retained_entry_id = hl_summary_retained_entry_id l,
               hc_carried_forward_state_entry_id = hl_carried_forward_state_entry_id l,
               hc_compaction_artifact_entry_id = hl_compaction_artifact_entry_id l,
               hc_source_retained_entry_ids = hl_source_retained_entry_ids l,
               hc_source_trajectory_indices = hl_source_trajectory_indices l,
               hc_selected_message_count = int (length selected),
               hc_pre_compaction_message_count = int (length pre),
               hc_selected_message_roles = map (Role_value \<circ> msg_role) selected,
               hc_pre_compaction_message_roles = map (Role_value \<circ> msg_role) pre,
               hc_ok = (errors = []), hc_errors = errors\<rparr>)"

definition build_history_reconciliation_bundle ::
  "(pydict \<Rightarrow> string) \<Rightarrow> RequestContextEntry list \<Rightarrow> RetainedHistoryEntry list \<Rightarrow> string \<Rightarrow> string
    \<Rightarrow> replay_error + HistoryReconciliationBundle" where
  "build_history_reconciliation_bundle exc contexts entries context_log retained_log =
     res_bind (build_history_lineage_report contexts entries context_log retained_log) (\<lambda>lineage.
     res_bind (res_list (reconcile_record exc (contexts_by_record contexts)
         (build_retained_entry_index entries)) (lr_records lineage)) (\<lambda>records.
       Inr \<lparr>rb_request_context_log_id = context_log, rb_retained_history_log_id = retained_log,
         rb_lineage_report = lineage, rb_records = records\<rparr>))"

definition ordered_records ::
  "HistoryReconciliationBundle \<Rightarrow> ReplacementHistoryReconciliationRecord list" where
  "ordered_records b = sort_key (\<lambda>r. (hc_turn_index r, hc_record_id r)) (rb_records b)"

definition record_ids :: "HistoryReconciliationBundle \<Rightarrow> string list" where
  "record_ids b = map hc_record_id (ordered_records b)"

definition get_record ::
  "HistoryReconciliationBundle \<Rightarrow> string \<Rightarrow> ReplacementHistoryReconciliationRecord option" where
  "get_record b record_id = find (\<lambda>r. hc_record_id r = record_id) (rb_records b)"

fun before_record ::
  "string \<Rightarrow> ReplacementHistoryReconciliationRecord option
    \<Rightarrow> ReplacementHistoryReconciliationRecord list \<Rightarrow> ReplacementHistoryReconciliationRecord option" where
  "before_record record_id previous [] = None"
| "before_record record_id previous (r # rs) =
     (if hc_record_id r = record_id then previous else before_record record_id (Some r) rs)"

definition get_predecessor ::
  "HistoryReconciliationBundle \<Rightarrow> string \<Rightarrow> ReplacementHistoryReconciliationRecord option" where
  "get_predecessor b record_id = before_record record_id None (ordered_records b)"

fun after_record ::
  "string \<Rightarrow> ReplacementHistoryReconciliationRecord list \<Rightarrow> ReplacementHistoryReconciliationRecord option" where
  "after_record record_id [] = None"
| "after_record record_id (r # rs) =
     (if hc_record_id r = record_id then (case rs of [] \<Rightarrow> None | s # _ \<Rightarrow> Some s)
      else after_record record_id rs)"

definition get_successor ::
  "HistoryReconciliationBundle \<Rightarrow> string \<Rightarrow> ReplacementHistoryReconciliationRecord option" where
  "get_successor b record_id = after_record record_id (ordered_records b)"

definition build_history_reconciliation_report ::
  "HistoryReconciliationBundle \<Rightarrow> HistoryReconciliationReport" where
  "build_history_reconciliation_report b =
     (let rs = ordered_records b
      in \<lparr>rp_request_context_log_id = rb_request_context_log_id b,
          rp_retained_history_log_id = rb_retained_history_log_id b,
          rp_replacement_record_count = int (length rs),
          rp_replacement_record_ids = map hc_record_id rs,
          rp_replacement_turn_indices = map hc_turn_index rs,
          rp_ok = list_all hc_ok rs, rp_records = rs\<rparr>)"

subsection \<open>The chain of compactions\<close>

record CompactionChainNode =
  cn_record_id :: string
  cn_turn_index :: int
  cn_predecessor_record_id :: "string option"
  cn_successor_record_id :: "string option"
  cn_request_context_entry_id :: string
  cn_summary_retained_entry_id :: "string option"
  cn_carried_forward_state_entry_id :: "string option"
  cn_compaction_artifact_entry_id :: "string option"
  cn_source_retained_entry_ids :: "string list"
  cn_source_trajectory_indices :: "int list"
  cn_selected_message_count :: int
  cn_pre_compaction_message_count :: int
  cn_ok :: bool
  cn_errors :: "string list"

record CompactionChainReport =
  cc_request_context_log_id :: string
  cc_retained_history_log_id :: string
  cc_chain_length :: int
  cc_ordered_record_ids :: "string list"
  cc_ordered_turn_indices :: "int list"
  cc_ok :: bool
  cc_nodes :: "CompactionChainNode list"

definition chain_node ::
  "ReplacementHistoryReconciliationRecord list \<Rightarrow> nat \<Rightarrow> CompactionChainNode" where
  "chain_node rs i =
     (let r = rs ! i
      in \<lparr>cn_record_id = hc_record_id r, cn_turn_index = hc_turn_index r,
          cn_predecessor_record_id = (if 0 < i then Some (hc_record_id (rs ! (i - 1))) else None),
          cn_successor_record_id = (if i + 1 < length rs then Some (hc_record_id (rs ! (i + 1))) else None),
          cn_request_context_entry_id = hc_request_context_entry_id r,
          cn_summary_retained_entry_id = hc_summary_retained_entry_id r,
          cn_carried_forward_state_entry_id = hc_carried_forward_state_entry_id r,
          cn_compaction_artifact_entry_id = hc_compaction_artifact_entry_id r,
          cn_source_retained_entry_ids = hc_source_retained_entry_ids r,
          cn_source_trajectory_indices = hc_source_trajectory_indices r,
          cn_selected_message_count = hc_selected_message_count r,
          cn_pre_compaction_message_count = hc_pre_compaction_message_count r,
          cn_ok = hc_ok r, cn_errors = hc_errors r\<rparr>)"

definition build_compaction_chain_report :: "HistoryReconciliationBundle \<Rightarrow> CompactionChainReport" where
  "build_compaction_chain_report b =
     (let rs = ordered_records b; nodes = map (chain_node rs) [0..<length rs]
      in \<lparr>cc_request_context_log_id = rb_request_context_log_id b,
          cc_retained_history_log_id = rb_retained_history_log_id b,
          cc_chain_length = int (length nodes),
          cc_ordered_record_ids = map cn_record_id nodes,
          cc_ordered_turn_indices = map cn_turn_index nodes,
          cc_ok = list_all cn_ok nodes, cc_nodes = nodes\<rparr>)"

subsection \<open>From request to request\<close>

record HistoryEvolutionTransition =
  ht_previous_turn_index :: "int option"
  ht_turn_index :: int
  ht_previous_request_context_entry_id :: "string option"
  ht_request_context_entry_id :: string
  ht_transition_kind :: string
  ht_ok :: bool
  ht_previous_selected_message_count :: int
  ht_pre_compaction_message_count :: int
  ht_selected_message_count :: int
  ht_appended_source_message_count :: int
  ht_appended_source_retained_entry_ids :: "string list"
  ht_appended_source_indices :: "int list"
  ht_snapshot_appended_retained_entry_ids :: "string list"
  ht_snapshot_appended_kinds :: "string list"
  ht_replacement_history_record_id :: "string option"
  ht_summary_retained_entry_id :: "string option"
  ht_carried_forward_state_entry_id :: "string option"
  ht_prefix_carryover_ok :: bool
  ht_appended_suffix_ok :: bool
  ht_errors :: "string list"

record HistoryEvolutionReport =
  he_turn_count :: int
  he_transition_count :: int
  he_ok :: bool
  he_total_appended_source_message_count :: int
  he_total_compaction_transition_count :: int
  he_total_snapshot_artifact_entry_count :: int
  he_transitions :: "HistoryEvolutionTransition list"

text \<open>\<open>xs[i:j]\<close>, with positions below 0 counted from the end.\<close>

definition py_slice :: "int \<Rightarrow> int \<Rightarrow> 'a list \<Rightarrow> 'a list" where
  "py_slice i j xs =
     (let n = int (length xs); pos = (\<lambda>k. if 0 \<le> k then nat (min k n) else nat (max 0 (n + k)))
      in drop (pos i) (take (pos j) xs))"

definition source_entries :: "RetainedHistoryEntry list \<Rightarrow> RetainedHistoryEntry list" where
  "source_entries entries = filter (\<lambda>entry. re_source_kind entry = ''source_message'') entries"

definition source_payloads :: "RetainedHistoryEntry list \<Rightarrow> json list" where
  "source_payloads entries = List.map_filter (\<lambda>entry.
     case map_of (re_metadata entry) ''message_payload'' of Some (JObj d) \<Rightarrow> Some (JObj d) | _ \<Rightarrow> None) entries"

definition payloads_equal :: "Message list \<Rightarrow> json list \<Rightarrow> bool" where
  "payloads_equal ms payloads \<longleftrightarrow> py_eq (JList (map (JObj \<circ> Message_model_dump) ms)) (JList payloads)"

text \<open>What a transition finds: the flags for prefix and suffix, the appended entries, the kind.\<close>

definition initial_transition ::
  "RequestContextEntry \<Rightarrow> Message list \<Rightarrow> RetainedHistoryEntry list
    \<Rightarrow> bool \<times> bool \<times> string list" where
  "initial_transition q pre appended =
     (let payloads = source_payloads appended
      in if length payloads \<noteq> length pre
         then (False, False, [''initial history mismatch: retained_source_count=''
                @ py_int_str (int (length payloads)) @ '' pre_compaction_count=''
                @ py_int_str (int (length pre))])
         else (True, payloads_equal pre payloads, []))"

definition later_transition ::
  "Message list \<Rightarrow> Message list \<Rightarrow> RetainedHistoryEntry list \<Rightarrow> bool \<times> bool \<times> string list" where
  "later_transition previous pre appended =
     (let short = length pre < length previous;
          prefix_ok = (\<not> short \<and> messages_equal (take (length previous) pre) previous);
          suffix_ok = payloads_equal (if short then [] else drop (length previous) pre) (source_payloads appended)
      in (prefix_ok, suffix_ok,
          (if short then [''pre-compaction history is shorter than previous selected context'']
           else if prefix_ok then []
           else [''previous selected context is not preserved as the prefix of current pre-compaction history''])
          @ (if suffix_ok then []
             else [''newly appended source history does not match the suffix added since the previous snapshot''])))"

definition transition_of ::
  "(pydict \<Rightarrow> string) \<Rightarrow> RetainedHistoryEntry list \<Rightarrow> RequestContextEntry option \<Rightarrow> RequestContextEntry
    \<Rightarrow> replay_error + HistoryEvolutionTransition" where
  "transition_of exc entries previous q =
     (let index = build_retained_entry_index entries;
          added = py_slice (qe_retained_entry_count_before_snapshot q)
            (qe_retained_entry_count_after_snapshot q) entries;
          appended = source_entries (py_slice
            (case previous of None \<Rightarrow> 0 | Some p \<Rightarrow> qe_retained_entry_count_after_snapshot p)
            (qe_retained_entry_count_before_snapshot q) entries);
          kind = (case previous of
              None \<Rightarrow> if qe_replacement_history_active q then ''initial_compaction_snapshot''
                      else ''initial_snapshot''
            | Some _ \<Rightarrow> if qe_replacement_history_active q then ''replacement_compaction''
                        else ''append_only'')
      in res_bind (rebuilt (reconstruct_selected_messages exc q index)) (\<lambda>(selected, e1).
         res_bind (rebuilt (reconstruct_pre_compaction_messages exc q index)) (\<lambda>(pre, e2).
         res_bind (case previous of None \<Rightarrow> Inr ([], [])
             | Some p \<Rightarrow> rebuilt (reconstruct_selected_messages exc p index)) (\<lambda>(before, e3).
           let (prefix_ok, suffix_ok, e4) = (case previous of
                   None \<Rightarrow> initial_transition q pre appended
                 | Some _ \<Rightarrow> later_transition before pre appended);
               errors = e1 @ e2 @ e3 @ e4
           in Inr \<lparr>ht_previous_turn_index = map_option qe_turn_index previous, ht_turn_index = qe_turn_index q,
                ht_previous_request_context_entry_id = map_option qe_entry_id previous,
                ht_request_context_entry_id = qe_entry_id q, ht_transition_kind = kind,
                ht_ok = (errors = []), ht_previous_selected_message_count = int (length before),
                ht_pre_compaction_message_count = int (length pre),
                ht_selected_message_count = int (length selected),
                ht_appended_source_message_count = int (length appended),
                ht_appended_source_retained_entry_ids = map re_entry_id appended,
                ht_appended_source_indices = List.map_filter re_source_trajectory_index appended,
                ht_snapshot_appended_retained_entry_ids = map re_entry_id added,
                ht_snapshot_appended_kinds = map re_source_kind added,
                ht_replacement_history_record_id = qe_replacement_history_record_id q,
                ht_summary_retained_entry_id = qe_summary_retained_entry_id q,
                ht_carried_forward_state_entry_id = qe_carried_forward_state_entry_id q,
                ht_prefix_carryover_ok = prefix_ok, ht_appended_suffix_ok = suffix_ok,
                ht_errors = errors\<rparr>))))"

fun transitions_from ::
  "(pydict \<Rightarrow> string) \<Rightarrow> RetainedHistoryEntry list \<Rightarrow> RequestContextEntry option
    \<Rightarrow> RequestContextEntry list \<Rightarrow> replay_error + HistoryEvolutionTransition list" where
  "transitions_from exc entries previous [] = Inr []"
| "transitions_from exc entries previous (q # qs) =
     res_bind (transition_of exc entries previous q) (\<lambda>t.
     res_bind (transitions_from exc entries (Some q) qs) (\<lambda>ts. Inr (t # ts)))"

definition build_history_evolution_report ::
  "(pydict \<Rightarrow> string) \<Rightarrow> RequestContextEntry list \<Rightarrow> RetainedHistoryEntry list
    \<Rightarrow> replay_error + HistoryEvolutionReport" where
  "build_history_evolution_report exc contexts entries =
     (let ordered = sort_key qe_turn_index contexts
      in res_bind (transitions_from exc entries None ordered) (\<lambda>ts.
           Inr \<lparr>he_turn_count = int (length ordered), he_transition_count = int (length ts),
             he_ok = list_all ht_ok ts,
             he_total_appended_source_message_count = sum_list (map ht_appended_source_message_count ts),
             he_total_compaction_transition_count =
               int (length (filter (\<lambda>t. ht_transition_kind t = ''replacement_compaction'') ts)),
             he_total_snapshot_artifact_entry_count =
               sum_list (map (int \<circ> length \<circ> ht_snapshot_appended_retained_entry_ids) ts),
             he_transitions = ts\<rparr>))"

end
