(* ===== verification/History_Replay_Properties.thy ===== *)
theory History_Replay_Properties
  imports History_Reconciliation History_Properties
begin

section \<open>Replaying stored histories: the laws\<close>

text \<open>
  The two logs of a run against the run itself.  Every message of the histories is stored in the
  entry its item names, so a request is rebuilt from the logs exactly as it was sent, and the
  request before its first compaction too.  The verification accepts an entry exactly if no earlier
  request was compacted, although the logs of later requests are written in the same way.
\<close>

subsection \<open>Messages read back\<close>

text \<open>Python dictionaries have distinct keys, and a \<open>ToolCall\<close> has an input text or arguments.\<close>

definition message_wf :: "Message \<Rightarrow> bool" where
  "message_wf m \<longleftrightarrow> json_wf (JObj (Message_model_dump m)) \<and>
     list_all (\<lambda>c. tc_input_text c = None \<or> tc_arguments c = []) (msg_tool_calls m)"

lemma Role_of_value [simp]: "Role_of_str (Role_value r) = Some r"
  by (cases r) (simp_all add: Role_of_str_def)

lemma optional_text_field [simp]:
  "map_of d k = Some (opt_str x) \<Longrightarrow> optional_text d k = Some x"
  by (cases x) (simp_all add: optional_text_def opt_str_def)

lemma ToolCall_roundtrip:
  "tc_input_text c = None \<or> tc_arguments c = [] \<Longrightarrow> ToolCall_of_json (JObj (ToolCall_fields c)) = Some c"
  by (auto simp: ToolCall_fields_def required_text_def dict_field_def)

lemma those_map: "(\<And>x. x \<in> set xs \<Longrightarrow> f x = Some (g x)) \<Longrightarrow> those (map f xs) = Some (map g xs)"
  by (induction xs) simp_all

lemma Message_roundtrip:
  assumes "message_wf m"
  shows "Message_of_dict (Message_model_dump m) = Some m"
proof -
  have "those (map (ToolCall_of_json \<circ> (JObj \<circ> ToolCall_fields)) (msg_tool_calls m)) = Some (map id (msg_tool_calls m))"
    using assms by (intro those_map)
      (simp add: message_wf_def list_all_iff ToolCall_roundtrip del: ToolCall_of_json.simps)
  then have "tool_calls_field (Message_model_dump m) = Some (msg_tool_calls m)"
    by (simp add: tool_calls_field_def Message_model_dump_def)
  moreover have "required_text (Message_model_dump m) ''role'' = Some (Role_value (msg_role m))"
    "required_text (Message_model_dump m) ''content'' = Some (msg_content m)"
    "dict_field (Message_model_dump m) ''metadata'' = Some (msg_metadata m)"
    by (simp_all add: required_text_def dict_field_def Message_model_dump_def)
  moreover have "optional_text (Message_model_dump m) ''tool_call_id'' = Some (msg_tool_call_id m)"
    "optional_text (Message_model_dump m) ''tool_name'' = Some (msg_tool_name m)"
    "optional_text (Message_model_dump m) ''canonical_name'' = Some (msg_canonical_name m)"
    "optional_text (Message_model_dump m) ''tool_version'' = Some (msg_tool_version m)"
    by (simp_all add: Message_model_dump_def)
  ultimately show ?thesis by (simp add: Message_of_dict_def)
qed

lemma py_eq_refl: "json_wf v \<Longrightarrow> py_eq v v"
proof (induction v)
  case (JList xs)
  then show ?case by (auto simp: list_all_iff set_zip in_set_conv_nth)
next
  case (JObj kvs)
  have "case map_of kvs k of None \<Rightarrow> False | Some w \<Rightarrow> py_eq v w" if "(k, v) \<in> set kvs" for k v
    using that JObj.prems JObj.IH [of "(k, v)" v] by (force simp: list_all_iff)
  then show ?case by (auto simp: list_all_iff)
qed simp_all

subsection \<open>What an entry stores\<close>

definition entry_stores :: "RetainedHistoryEntry \<Rightarrow> RuntimeHistoryItem \<Rightarrow> bool" where
  "entry_stores e item \<longleftrightarrow>
     re_source_kind e = (if hi_source_trajectory_index item = None then ''replacement_summary'' else ''source_message'') \<and>
     re_source_trajectory_index e = hi_source_trajectory_index item \<and>
     map_of (re_metadata e) ''message_payload'' = Some (JObj (Message_model_dump (hi_message item))) \<and>
     message_wf (hi_message item) \<and> hi_retained_entry_id item = Some (re_entry_id e)"

lemma entry_stores_message:
  "entry_stores e item \<Longrightarrow> required_message exc e txt = Inr (hi_message item)"
  by (simp add: entry_stores_def required_message_def retained_entry_to_message_def Message_model_validate_def
      Message_roundtrip)

definition log_of :: "RuntimeHistoryManager \<Rightarrow> RetainedHistoryEntry list" where
  "log_of m = (case hm_writer m of None \<Rightarrow> [] | Some w \<Rightarrow> rw_entry_log w)"

definition stored_in :: "RetainedHistoryEntry list \<Rightarrow> RuntimeHistoryItem list \<Rightarrow> bool" where
  "stored_in es items \<longleftrightarrow> (\<forall>item\<in>set items. \<exists>e\<in>set es. entry_stores e item)"

lemma stored_in_mono: "stored_in es items \<Longrightarrow> prefix es es' \<Longrightarrow> stored_in es' items"
  unfolding stored_in_def using set_mono_prefix by blast

lemma stored_in_simps [simp]:
  "stored_in es []" "stored_in es (x # xs) \<longleftrightarrow> (\<exists>e\<in>set es. entry_stores e x) \<and> stored_in es xs"
  "stored_in es (xs @ ys) \<longleftrightarrow> stored_in es xs \<and> stored_in es ys"
  by (auto simp: stored_in_def)

definition logged_inv :: "RuntimeHistoryManager \<Rightarrow> bool" where
  "logged_inv m \<longleftrightarrow> history_inv m \<and> hm_writer m \<noteq> None \<and>
     stored_in (log_of m) (hm_source_items m) \<and> stored_in (log_of m) (hm_request_items m)"

text \<open>What an append leaves: the entry at the end of the es, and its id.\<close>

lemma retain_log:
  assumes "hm_writer m = Some w" and "\<exists>q. app = append_of q"
  shows "fst (retain app m) = Some (re_entry_id (fst (app w)))"
    and "log_of (snd (retain app m)) = log_of m @ [fst (app w)]"
    and "hm_writer (snd (retain app m)) = Some (snd (app w))"
  using assms append_entry_log
  by (auto simp: retain_def log_of_def Let_def split_beta append_of_def)

lemma sync_next_logged:
  assumes "logged_inv m" and "message_wf msg"
  shows "logged_inv (sync_next env t msg m)" and "prefix (log_of m) (log_of (sync_next env t msg m))"
proof -
  obtain w where w: "hm_writer m = Some w" using assms(1) by (auto simp: logged_inv_def)
  let ?i = "int (length (hm_source_items m))"
  define iid where "iid = ''history_item_'' @ py_int_pad 6 ?i"
  let ?app = "append_source_message (env_clock env) t iid ?i msg"
  let ?r = "retain ?app m"
  have app: "\<exists>q. ?app = append_of q" by (rule append_ofs)
  note r = retain_log [OF w app]
  define item where "item = \<lparr>hi_item_id = iid, hi_item_kind = ''source'',
    hi_message = msg, hi_source_trajectory_index = Some ?i, hi_replacement_record_id = None,
    hi_retained_entry_id = fst ?r\<rparr>"
  have m': "sync_next env t msg m = (snd ?r)\<lparr>hm_source_items := hm_source_items m @ [item],
      hm_request_items := hm_request_items m @ [item]\<rparr>"
    by (simp add: sync_next_def append_source_retained_entry_def Let_def split_beta item_def iid_def)
  have "re_source_kind (fst (?app w)) = ''source_message''" "re_source_trajectory_index (fst (?app w)) = Some ?i"
    "map_of (re_metadata (fst (?app w))) ''message_payload'' = Some (JObj (Message_model_dump msg))"
    by (simp_all add: append_source_message_def append_entry_def Let_def)
  then have "entry_stores (fst (?app w)) item"
    using assms(2) by (simp add: entry_stores_def item_def r(1) del: map_of.simps)
  moreover have new: "log_of (sync_next env t msg m) = log_of m @ [fst (?app w)]"
    using r(2) by (simp add: m' log_of_def)
  ultimately show "logged_inv (sync_next env t msg m)"
    using assms(1) r(3) sync_next_inv [of m env t msg] stored_in_mono [of "log_of m" _ "log_of m @ [fst (?app w)]"]
    unfolding logged_inv_def new by (simp add: m')
  show "prefix (log_of m) (log_of (sync_next env t msg m))" by (simp add: new)
qed

lemma sync_source_messages_logged:
  assumes "logged_inv m" and "list_all message_wf msgs"
  shows "logged_inv (sync_source_messages env msgs turn m) \<and>
    prefix (log_of m) (log_of (sync_source_messages env msgs turn m))"
proof (rule sync_source_messages_induct [where P = "\<lambda>m'. logged_inv m' \<and> prefix (log_of m) (log_of m')"])
  fix m' :: RuntimeHistoryManager and t
  assume m': "logged_inv m' \<and> prefix (log_of m) (log_of m')" "length (hm_source_items m') < length msgs"
  then have "message_wf (msgs ! length (hm_source_items m'))"
    using assms(2) by (simp add: list_all_length)
  then show "logged_inv (sync_next env t (msgs ! length (hm_source_items m')) m') \<and>
      prefix (log_of m) (log_of (sync_next env t (msgs ! length (hm_source_items m')) m'))"
    using sync_next_logged m'(1) prefix_order.trans by blast
qed (use assms in simp)

text \<open>A replacement appends its summary, its carried state and its artifact.\<close>

definition summary_stored ::
  "RetainedHistoryEntry \<Rightarrow> string \<Rightarrow> Message \<Rightarrow> RuntimeHistoryItem list \<Rightarrow> bool" where
  "summary_stored e rid summary items \<longleftrightarrow>
     re_source_kind e = ''replacement_summary'' \<and> re_source_trajectory_index e = None \<and>
     map_of (re_metadata e) ''replacement_record_id'' = Some (JStr rid) \<and>
     map_of (re_metadata e) ''source_retained_entry_ids'' =
       Some (JList (map JStr (List.map_filter hi_retained_entry_id items))) \<and>
     map_of (re_metadata e) ''source_trajectory_indices'' =
       Some (JList (map JInt (List.map_filter hi_source_trajectory_index items))) \<and>
     map_of (re_metadata e) ''message_payload'' = Some (JObj (Message_model_dump summary))"

definition carried_stored :: "RetainedHistoryEntry \<Rightarrow> string \<Rightarrow> bool" where
  "carried_stored e rid \<longleftrightarrow> re_source_kind e = ''carry_forward_state'' \<and>
     map_of (re_metadata e) ''replacement_record_id'' = Some (JStr rid)"

lemma retain_replacement_logged:
  assumes "hm_writer m = Some w" and "art_carried_forward_state a = Some state"
  shows "\<exists>e1 e2 e3 m'. retain_replacement env a summary t rid iid items m =
      ((Some (re_entry_id e1), Some (re_entry_id e2), Some (re_entry_id e3)), m') \<and>
    log_of m' = log_of m @ [e1, e2, e3] \<and> hm_writer m' \<noteq> None \<and>
    summary_stored e1 rid summary items \<and> carried_stored e2 rid"
proof -
  define app1 where "app1 = append_replacement_summary (env_clock env) t iid summary rid (map hi_item_id items)
    (List.map_filter hi_retained_entry_id items) (List.map_filter hi_source_trajectory_index items)
    (map_option ss_slot_id (art_summary_slot a))"
  define app2 where "app2 = append_carried_forward_state (env_clock env) t rid (env_dump_state env state)"
  define app3 where "app3 = append_history_control (env_clock env) t ''compaction_artifact'' (env_dump_artifact env a)"
  have apps: "\<exists>q. app1 = append_of q" "\<exists>q. app2 = append_of q" "\<exists>q. app3 = append_of q"
    by (simp_all only: app1_def app2_def app3_def append_ofs)
  note r1 = retain_log [OF assms(1) apps(1)]
  note r2 = retain_log [OF r1(3) apps(2)]
  note r3 = retain_log [OF r2(3) apps(3)]
  have "retain_replacement env a summary t rid iid items m =
      ((fst (retain app1 m), fst (retain app2 (snd (retain app1 m))),
        fst (retain app3 (snd (retain app2 (snd (retain app1 m)))))),
       snd (retain app3 (snd (retain app2 (snd (retain app1 m))))))"
    using assms(2) by (simp add: retain_replacement_def Let_def split_beta app1_def app2_def app3_def)
  moreover have "summary_stored (fst (app1 v)) rid summary items" for v
    by (simp add: summary_stored_def app1_def append_replacement_summary_def append_entry_def Let_def)
  moreover have "carried_stored (fst (app2 v)) rid" for v
    by (simp add: carried_stored_def app2_def append_carried_forward_state_def append_entry_def Let_def)
  ultimately show ?thesis using r1 r2 r3 by auto
qed

subsection \<open>The plan of a request\<close>

text \<open>A plan that compacts has a state to carry forward and a summary that can be stored.\<close>

definition replayable :: "CompactionArtifact option \<Rightarrow> Message option \<Rightarrow> bool" where
  "replayable artifact summary \<longleftrightarrow> (case artifact of None \<Rightarrow> True
     | Some a \<Rightarrow> art_carried_forward_state a \<noteq> None \<and>
         (case summary of None \<Rightarrow> False | Some x \<Rightarrow> message_wf x))"

lemma summary_message_wf: "message_wf (summary_message txt slot)"
  "message_wf ((plain_message SYSTEM txt)\<lparr>msg_metadata :=
     [(''synthetic'', JBool True), (''summary_kind'', JStr k), (''summary_slot_id'', JStr i),
      (''source_message_indices'', JList (map JInt ns))]\<rparr>)"
  by (simp_all add: message_wf_def summary_message_def plain_message_def Message_model_dump_def list_all_iff opt_str_def)

lemma keep_all_replayable: "replayable (sel_compaction_artifact (keep_all ms p l x)) y"
  by (simp add: replayable_def keep_all_def)

lemma compaction_result_replayable:
  "replayable (sel_compaction_artifact (compaction_result s t ms l cs rs))
     (sel_synthetic_summary_message (compaction_result s t ms l cs rs))"
  by (simp add: compaction_result_def Let_def replayable_def compaction_attempt_def summary_message_wf)

lemma select_deterministic_replayable:
  "replayable (sel_compaction_artifact (select_deterministic_compaction ms l s t))
     (sel_synthetic_summary_message (select_deterministic_compaction ms l s t))"
  unfolding select_deterministic_compaction_def Let_def
  by (simp add: keep_all_replayable compaction_result_replayable split: option.split bool.split)

lemma windows_replayable:
  "replayable (sel_compaction_artifact (select_full_history ms l)) x"
  "replayable (sel_compaction_artifact (select_tail_window ms l)) x"
  by (simp_all add: replayable_def select_full_history_def select_tail_window_def keep_all_def Let_def)

lemma replayable_mode:
  "replayable (map_option (\<lambda>a. a\<lparr>art_policy_mode := v\<rparr>) a) x = replayable a x"
  by (simp add: replayable_def split: option.split)

lemma build_context_plan_replayable:
  assumes "build_context_plan m policy l s n = Inr p"
  shows "replayable (cp_compaction_artifact p) (cp_synthetic_summary_message p)"
proof -
  let ?ms = "map hi_message (hm_request_items m)"
  obtain mode where mode: "normalize_policy_mode policy = Inr mode"
    using assms by (auto simp: build_context_plan_def plan_request_context_def res_bind_Inr_iff)
  let ?policy = "if mode = CPM_MODEL_BACKED_COMPACTION then Member CPM_DETERMINISTIC_COMPACTION else policy"
  obtain r where r: "select_request_messages ?ms ?policy l (Some s) (Some n) = Inr r"
    "cp_compaction_artifact p = sel_compaction_artifact r"
    "cp_synthetic_summary_message p = sel_synthetic_summary_message r"
    using assms mode by (auto simp: build_context_plan_def plan_request_context_def res_bind_Inr_iff Let_def)
  obtain mode' where "normalize_policy_mode ?policy = Inr mode'"
    using r(1) by (auto simp: select_request_messages_def res_bind_Inr_iff)
  then have "replayable (sel_compaction_artifact r) (sel_synthetic_summary_message r)"
    using r(1) select_deterministic_replayable [of ?ms l "Some s" "Some n"]
    by (cases mode') (auto simp: select_request_messages_def Let_def windows_replayable replayable_mode)
  with r show ?thesis by simp
qed

lemma maybe_run_replayable:
  assumes "replayable (cp_compaction_artifact p) (cp_synthetic_summary_message p)"
    and "maybe_run_model_backed_compaction validate caps mode reply p = Inr q"
  shows "replayable (cp_compaction_artifact q) (cp_synthetic_summary_message q)"
proof -
  have "replayable (cp_compaction_artifact (apply_model_backed_compaction_output p out b))
      (cp_synthetic_summary_message (apply_model_backed_compaction_output p out b))" for out b
    using assms(1) by (auto simp: replayable_def apply_model_backed_compaction_output_def Let_def
        summary_message_wf split: option.splits)
  moreover have "replayable (cp_compaction_artifact q) (cp_synthetic_summary_message q)"
    if "compaction_fallback kind p = Inr q" "kind \<in> set model_backed_failure_kinds" for kind
    using assms(1) that by (auto simp: compaction_fallback_ok)
  ultimately show ?thesis
    using assms by (auto simp: maybe_run_model_backed_compaction_eq dest: compaction_failure_kind
        split: if_splits sum.splits)
qed

subsection \<open>Requests\<close>

lemma retain_logged:
  assumes "logged_inv m" and "\<exists>q. app = append_of q"
  shows "logged_inv (snd (retain app m)) \<and> prefix (log_of m) (log_of (snd (retain app m)))"
proof -
  obtain w where w: "hm_writer m = Some w" using assms(1) by (auto simp: logged_inv_def)
  note r = retain_log [OF w assms(2)]
  then show ?thesis
    using assms(1) history_inv_same [OF retain_same [OF assms(2)], of m]
      stored_in_mono [of "log_of m" _ "log_of m @ [fst (app w)]"]
    by (simp add: logged_inv_def)
qed

lemma set_replace_compacted:
  "set (replace_compacted c item b i items) \<subseteq> insert item (set items)"
  by (induction items arbitrary: b i) auto

lemma apply_replacement_logged:
  assumes inv: "logged_inv m" and p: "replaceable m p" "cp_compaction_artifact p = Some a"
    "cp_synthetic_summary_message p = Some x" and rep: "replayable (Some a) (Some x)"
  shows "\<exists>e1 e2 e3 item r m'. apply_compaction_replacement env a x t m = (r, m') \<and> logged_inv m' \<and>
    log_of m' = log_of m @ [e1, e2, e3] \<and> entry_stores e1 item \<and> hi_source_trajectory_index item = None \<and>
    hi_item_kind item = ''replacement'' \<and> hi_message item = x \<and> hm_source_items m' = hm_source_items m \<and>
    hm_request_items m' = replace_compacted (art_compacted_message_indices a) item False 0 (hm_request_items m) \<and>
    summary_stored e1 (replacement_record_id m) x (request_items_at m (art_compacted_message_indices a)) \<and>
    carried_stored e2 (replacement_record_id m) \<and>
    rr_record_id r = replacement_record_id m \<and> rr_replacement_retained_entry_id r = Some (re_entry_id e1) \<and>
    rr_carried_forward_state_entry_id r = Some (re_entry_id e2) \<and>
    hm_replacement_history m' = hm_replacement_history m @ [r]"
proof -
  obtain w where w: "hm_writer m = Some w" using inv by (auto simp: logged_inv_def)
  obtain state where state: "art_carried_forward_state a = Some state" and x: "message_wf x"
    using rep by (auto simp: replayable_def)
  let ?c = "art_compacted_message_indices a" and ?rid = "replacement_record_id m" and ?iid = "replacement_item_id m"
  let ?items = "request_items_at m ?c"
  obtain e1 e2 e3 m0 where m0: "retain_replacement env a x t ?rid ?iid ?items m =
      ((Some (re_entry_id e1), Some (re_entry_id e2), Some (re_entry_id e3)), m0)"
    "log_of m0 = log_of m @ [e1, e2, e3]" "hm_writer m0 \<noteq> None"
    "summary_stored e1 ?rid x ?items" "carried_stored e2 ?rid"
    using retain_replacement_logged [OF w state, of env x t ?rid ?iid ?items] by blast
  have same: "hm_source_items m0 = hm_source_items m" "hm_request_items m0 = hm_request_items m"
    "hm_replacement_history m0 = hm_replacement_history m"
    using retain_replacement_same [of m env a x t ?rid ?iid ?items] by (simp_all add: m0(1) same_history_def)
  define item where "item = \<lparr>hi_item_id = ?iid, hi_item_kind = ''replacement'', hi_message = x,
    hi_source_trajectory_index = None, hi_replacement_record_id = Some ?rid,
    hi_retained_entry_id = Some (re_entry_id e1)\<rparr>"
  define r where "r = fst (apply_compaction_replacement env a x t m)"
  define m' where "m' = snd (apply_compaction_replacement env a x t m)"
  have m': "m' = m0\<lparr>hm_request_items := replace_compacted ?c item False 0 (hm_request_items m),
      hm_replacement_history := hm_replacement_history m @ [r]\<rparr>"
    "rr_record_id r = ?rid" "rr_replacement_retained_entry_id r = Some (re_entry_id e1)"
    "rr_carried_forward_state_entry_id r = Some (re_entry_id e2)"
    by (simp_all add: m'_def r_def apply_compaction_replacement_def Let_def m0(1) item_def same)
  have stores: "entry_stores e1 item"
    using m0(4) x by (simp add: entry_stores_def item_def summary_stored_def)
  have log': "log_of m' = log_of m @ [e1, e2, e3]" using m0(2) by (simp add: m' log_of_def)
  have "history_inv m'" unfolding m'_def
    using inv by (intro replacement_inv [OF _ p]) (simp add: logged_inv_def)
  moreover have "prefix (log_of m) (log_of m')" by (simp add: log')
  then have "stored_in (log_of m') (hm_source_items m)" and req: "stored_in (log_of m') (hm_request_items m)"
    using inv stored_in_mono by (auto simp: logged_inv_def)
  then have "stored_in (log_of m') (hm_source_items m')" by (simp add: m'(1) same)
  moreover have "stored_in (log_of m') (hm_request_items m')"
    using req stores set_replace_compacted [of ?c item False 0 "hm_request_items m"]
    by (auto simp: stored_in_def log') (auto simp: m'(1))
  ultimately have "logged_inv m'" using m0(3) by (simp add: logged_inv_def m')
  moreover have "apply_compaction_replacement env a x t m = (r, m')" by (simp add: r_def m'_def)
  moreover have "hi_source_trajectory_index item = None" "hi_item_kind item = ''replacement''" "hi_message item = x"
    by (simp_all add: item_def)
  moreover have "hm_source_items m' = hm_source_items m"
    "hm_request_items m' = replace_compacted ?c item False 0 (hm_request_items m)"
    "hm_replacement_history m' = hm_replacement_history m @ [r]" by (simp_all add: m'(1) same)
  ultimately show ?thesis using m0(4,5) stores log' m'(2-4) by blast
qed

lemma materialize_plan_logged:
  assumes "logged_inv m" and "replaceable m p"
    and "replayable (cp_compaction_artifact p) (cp_synthetic_summary_message p)"
  shows "logged_inv (snd (snd (materialize_plan env p t m))) \<and>
    prefix (log_of m) (log_of (snd (snd (materialize_plan env p t m))))"
proof (cases "cp_compaction_artifact p")
  case (Some a)
  then obtain x where x: "cp_synthetic_summary_message p = Some x"
    using assms(3) by (auto simp: replayable_def split: option.splits)
  have "replayable (Some a) (Some x)" using assms(3) Some x by simp
  from apply_replacement_logged [OF assms(1,2) Some x this, of env t] Some x
  show ?thesis by (auto simp: materialize_plan_def)
qed (use assms(1) in \<open>simp add: materialize_plan_def\<close>)

lemma snapshot_from_plan_logged:
  assumes "logged_inv m" and "replaceable m p"
    and "replayable (cp_compaction_artifact p) (cp_synthetic_summary_message p)"
  shows "logged_inv (snd (snapshot_from_plan env p l t m)) \<and>
    prefix (log_of m) (log_of (snd (snapshot_from_plan env p l t m)))"
proof -
  let ?m1 = "snd (snd (materialize_plan env p t m))"
  let ?app = "append_history_control (env_clock env) t ''context_selection_plan'' (env_dump_plan env p)"
  have "snd (snapshot_from_plan env p l t m) = snd (retain ?app ?m1)"
    by (simp add: snapshot_from_plan_def Let_def split_beta)
  with materialize_plan_logged [OF assms, of env t] retain_logged [of ?m1 ?app] show ?thesis
    using append_ofs(4) prefix_order.trans by metis
qed

text \<open>Every request of the runner gets a plan that can be carried out and stored.\<close>

lemma prepared_plan:
  "\<exists>q. replaceable m q \<and> replayable (cp_compaction_artifact q) (cp_synthetic_summary_message q) \<and>
     prepare_request_context env validate caps mode l reply n (t, s, m) =
       Inr (fst (snapshot_from_plan env q l n m),
            note_context_result (fst (snapshot_from_plan env q l n m)) (lim_context_max_tokens l) t,
            apply_context_selection_result (fst (snapshot_from_plan env q l n m)) s,
            snd (snapshot_from_plan env q l n m))"
proof -
  obtain p q where pq: "build_context_plan m (Text (ContextPolicyMode_value mode)) l s n = Inr p"
    "maybe_run_model_backed_compaction validate caps (ContextPolicyMode_value mode) reply p = Inr q"
    "prepare_request_context env validate caps mode l reply n (t, s, m) =
       Inr (fst (snapshot_from_plan env q l n m),
            note_context_result (fst (snapshot_from_plan env q l n m)) (lim_context_max_tokens l) t,
            apply_context_selection_result (fst (snapshot_from_plan env q l n m)) s,
            snd (snapshot_from_plan env q l n m))"
    using prepare_request_context_ok [of m mode l s n validate caps reply env t] by blast
  show ?thesis
    using pq(3) maybe_run_replaceable [OF build_context_plan_replaceable [OF pq(1)] pq(2)]
      maybe_run_replayable [OF build_context_plan_replayable [OF pq(1)] pq(2)] by blast
qed

definition storable :: "history_event \<Rightarrow> bool" where
  "storable e = (case e of HSync msgs _ \<Rightarrow> list_all message_wf msgs | _ \<Rightarrow> True)"

lemma history_step_logged:
  assumes "logged_inv m" and "storable e"
  shows "logged_inv (history_step env validate e m) \<and>
    prefix (log_of m) (log_of (history_step env validate e m))"
proof (cases e)
  case (HRequest mode l caps reply n t s)
  then show ?thesis
    using prepared_plan [of m env validate caps mode l reply n t s] snapshot_from_plan_logged [OF assms(1)]
    by auto
qed (use assms sync_source_messages_logged in \<open>simp add: storable_def\<close>)

interpretation logged: ordered_system "history_step env validate" "\<lambda>e m. storable e" logged_inv
  "\<lambda>m m'. prefix (log_of m) (log_of m')"
  by unfold_locales (auto dest: history_step_logged intro: prefix_order.trans)

lemma guarded_list_all: "list_all P es \<Longrightarrow> guarded step (\<lambda>e s. P e) es s"
  by (induction es arbitrary: s) simp_all

lemma start_history_logged:
  assumes "list_all message_wf msgs"
  shows "logged_inv (start_history env msgs (Some files))"
proof -
  let ?w = "(\<lambda>(now, run, task, root). RetainedHistoryWriter_create now run task root) files"
  let ?m0 = "new_history_manager\<lparr>hm_writer := Some ?w\<rparr>"
  have "history_inv ?m0"
    by (cases files) (auto simp: history_inv_def history_inv_defs retained_inv_def replaced_indices_def
        new_history_manager_def RetainedHistoryWriter_create_def Let_def writer_inv_def)
  then have "logged_inv ?m0" by (simp add: logged_inv_def new_history_manager_def)
  from sync_source_messages_logged [OF this assms, of env "Some 0"]
  have "logged_inv (sync_source_messages env msgs (Some 0) ?m0)" ..
  moreover have "logged_inv (m\<lparr>hm_reference_context := c\<rparr>) = logged_inv m" for m c
    by (simp add: logged_inv_def log_of_def history_inv_def history_inv_defs replaced_indices_def del: mset_map)
  ultimately show ?thesis by (simp add: from_trajectory_messages_def Let_def)
qed

subsection \<open>The index\<close>

lemma build_index_eq:
  "distinct (map re_entry_id es) \<Longrightarrow> build_retained_entry_index es = map (\<lambda>e. (re_entry_id e, e)) es"
proof (induction es rule: rev_induct)
  case (snoc e es)
  have "AList.update k v xs = xs @ [(k, v)]" if "k \<notin> fst ` set xs" for k v and xs :: "(string \<times> RetainedHistoryEntry) list"
    using that by (induction xs) auto
  moreover have "re_entry_id e \<notin> fst ` set (map (\<lambda>e. (re_entry_id e, e)) es)"
    using snoc.prems by (auto simp: image_image)
  moreover have "build_retained_entry_index (es @ [e]) =
      AList.update (re_entry_id e) e (build_retained_entry_index es)"
    by (simp add: build_retained_entry_index_def)
  ultimately show ?case using snoc by simp
qed (simp add: build_retained_entry_index_def)

lemma index_found:
  assumes "distinct (map re_entry_id es)" and "e \<in> set es"
  shows "map_of (build_retained_entry_index es) (re_entry_id e) = Some e"
  unfolding build_index_eq [OF assms(1)]
  by (rule map_of_is_SomeI) (use assms in \<open>auto simp: comp_def\<close>)

lemma logged_distinct: "logged_inv m \<Longrightarrow> distinct (map re_entry_id (log_of m))"
  by (auto simp: logged_inv_def log_of_def history_inv_def retained_inv_def writer_counts(1) split: option.splits)

lemma res_list_map: "(\<And>x. x \<in> set xs \<Longrightarrow> f x = Inr (g x)) \<Longrightarrow> res_list f xs = Inr (map g xs)"
  by (induction xs) simp_all

lemma res_list_comp: "res_list f (map g xs) = res_list (\<lambda>x. f (g x)) xs"
  by (induction xs) simp_all

text \<open>All items of a stored history have an id; its list is that of their entries.\<close>

lemma stored_ids:
  "stored_in es items \<Longrightarrow> List.map_filter hi_retained_entry_id items = map (\<lambda>it. the (hi_retained_entry_id it)) items"
  by (induction items) (auto simp: entry_stores_def)

lemma stored_entry:
  assumes "distinct (map re_entry_id es)" and "stored_in es items" and "it \<in> set items"
  shows "\<exists>e\<in>set es. entry_stores e it \<and> hi_retained_entry_id it = Some (re_entry_id e) \<and>
    map_of (build_retained_entry_index es) (the (hi_retained_entry_id it)) = Some e"
  using assms index_found [OF assms(1)] by (fastforce simp: stored_in_def entry_stores_def)

lemma selected_replay:
  assumes "distinct (map re_entry_id es)" and "stored_in es items"
    and "qe_selected_retained_entry_ids q = List.map_filter hi_retained_entry_id items"
  shows "reconstruct_selected_messages exc q (build_retained_entry_index es) = Inr (map hi_message items)"
  unfolding reconstruct_selected_messages_def assms(3) stored_ids [OF assms(2)] res_list_comp
proof (rule res_list_map)
  fix it assume "it \<in> set items"
  from stored_entry [OF assms(1,2) this] obtain e where e: "entry_stores e it"
    "map_of (build_retained_entry_index es) (the (hi_retained_entry_id it)) = Some e" by blast
  then show "res_bind (required_entry (map_of (build_retained_entry_index es) (the (hi_retained_entry_id it)))
      (''missing retained entry for selected context: '' @ the (hi_retained_entry_id it)))
      (\<lambda>entry. required_message exc entry (''retained entry '' @ the (hi_retained_entry_id it)
        @ '' does not contain replayable message payload'')) = Inr (hi_message it)"
    using entry_stores_message [OF e(1)] by (simp add: required_entry_def)
qed

subsection \<open>Before the first compaction\<close>

lemma map_filter_the:
  "(\<And>x. x \<in> set xs \<Longrightarrow> f x \<noteq> None) \<Longrightarrow> List.map_filter f xs = map (\<lambda>x. the (f x)) xs"
  unfolding List.map_filter_def by (metis (mono_tags, lifting) comp_apply filter_True map_eq_conv)

lemma uncompacted_items:
  assumes inv: "history_inv m" and none: "hm_replacement_history m = []"
  shows "hm_request_items m = hm_source_items m"
proof -
  let ?R = "hm_request_items m" and ?S = "hm_source_items m"
  have "List.map_filter hi_replacement_record_id ?R = []"
    using inv none by (simp add: history_inv_def records_inv_def)
  then have "\<forall>it\<in>set ?R. hi_replacement_record_id it = None"
    by (simp add: List.map_filter_def filter_empty_conv)
  then have source: "it \<in> set ?S" if "it \<in> set ?R" for it
    using inv that by (auto simp: history_inv_def sources_inv_def replacement_ok_def)
  have ok: "source_ok i (?S ! i)" if "i < length ?S" for i
    using inv that by (simp add: history_inv_def sources_inv_def)
  have "hi_source_trajectory_index it \<noteq> None" if "it \<in> set ?R" for it
    using source [OF that] ok by (auto simp: in_set_conv_nth source_ok_def)
  then have idx: "source_indices ?R = map (\<lambda>it. the (hi_source_trajectory_index it)) ?R"
    by (rule map_filter_the)
  have "mset (source_indices ?R) = mset (map int [0..<length ?S])" "sorted_wrt (<) (source_indices ?R)"
    using inv none by (simp_all add: history_inv_def partition_inv_def replaced_indices_def del: mset_map)
  then have idx': "source_indices ?R = map int [0..<length ?S]"
    using properties_for_sort [of "source_indices ?R" "map int [0..<length ?S]"]
      strict_sorted_imp_sorted [of "source_indices ?R"]
      sorted_sort_id [of "map int [0..<length ?S]"]
    by (simp add: sorted_wrt_map del: mset_map)
  have len: "length ?R = length ?S" using arg_cong [OF idx', of length] by (simp add: idx)
  show ?thesis
  proof (rule nth_equalityI [OF len])
    fix i assume i: "i < length ?R"
    then have "the (hi_source_trajectory_index (?R ! i)) = int i"
      using arg_cong [OF idx', of "\<lambda>xs. xs ! i"] by (simp add: idx len)
    moreover obtain k where k: "k < length ?S" "?R ! i = ?S ! k"
      using source [OF nth_mem [OF i]] by (metis in_set_conv_nth)
    ultimately show "?R ! i = ?S ! i" using ok [OF k(1)] by (simp add: source_ok_def)
  qed
qed

text \<open>The items of a source history are numbered, and sorting by number restores their order.\<close>

abbreviation item_index :: "RuntimeHistoryItem \<Rightarrow> int" where
  "item_index it \<equiv> the (hi_source_trajectory_index it)"

abbreviation item_entry_id :: "RuntimeHistoryItem \<Rightarrow> string" where
  "item_entry_id it \<equiv> the (hi_retained_entry_id it)"

definition numbered_items :: "RuntimeHistoryItem list \<Rightarrow> bool" where
  "numbered_items items \<longleftrightarrow> (\<forall>i<length items. hi_source_trajectory_index (items ! i) = Some (int i))"

lemma numbered_items_map:
  assumes "numbered_items items"
  shows "map item_index items = map int [0..<length items]"
  by (rule nth_equalityI) (use assms in \<open>simp_all add: numbered_items_def\<close>)

lemma numbered_items_index:
  "numbered_items items \<Longrightarrow> it \<in> set items \<Longrightarrow> hi_source_trajectory_index it = Some (item_index it)"
  by (auto simp: numbered_items_def in_set_conv_nth)

lemma sort_key_unique:
  assumes "sorted (map f ys)" and "distinct (map f ys)" and "mset xs = mset ys"
  shows "sort_key f xs = ys"
proof -
  have "mset (map f (sort_key f xs)) = mset (map f ys)" by (simp add: assms(3))
  then have "map f (sort_key f xs) = map f ys"
    using properties_for_sort [of "map f (sort_key f xs)" "map f ys"] assms(1)
    by (metis mset_eq_setD properties_for_sort sorted_sort_key)
  moreover have "set (sort_key f xs) = set ys" using assms(3) by (metis mset_eq_setD set_sort)
  ultimately show ?thesis
    using assms(2) by (metis distinct_map inj_on_map_eq_map Un_absorb)
qed

lemma inside_outside_mset: "mset (outside c i items) + mset (inside c i items) = mset items"
  using map_filter_partition [of Some c i items] by (simp add: List.map_filter_def add.commute)

lemma set_inside: "set (inside c i items) \<subseteq> set items" "set (outside c i items) \<subseteq> set items"
  by (auto simp: in_set_enumerate_eq)

lemma filter_replaced:
  assumes "\<not> P (f item)" and "\<And>it. it \<in> set items \<Longrightarrow> P (f it)"
  shows "filter P (map f (replace_compacted c item b i items)) = map f (outside c i items)"
  using assms by (induction items arbitrary: b i) auto

lemma post_messages_replaced:
  assumes "hi_message item = x"
    and "\<And>k. k < length items \<Longrightarrow> (item_index (items ! k) \<in> set indices) = (int (i + k) \<in> set c)"
  shows "post_messages x indices b (zip (map item_index items) (map hi_message items)) =
    map hi_message (replace_compacted c item b i items)"
  using assms(2)
proof (induction items arbitrary: b i)
  case (Cons it items)
  have "(item_index it \<in> set indices) = (int i \<in> set c)"
    using Cons.prems [of 0] by simp
  moreover have "(item_index (items ! k) \<in> set indices) = (int (Suc i + k) \<in> set c)" if "k < length items" for k
    using Cons.prems [of "Suc k"] that by simp
  note Cons.IH [of "Suc i", OF this]
  ultimately show ?case using assms(1) by simp
qed simp

text \<open>A request whose compaction replaced the items at \<open>c\<close> of an uncompacted history by \<open>item\<close>.\<close>

definition compacted_once ::
  "RetainedHistoryEntry list \<Rightarrow> RuntimeHistoryItem list \<Rightarrow> int list \<Rightarrow> RuntimeHistoryItem \<Rightarrow> string
    \<Rightarrow> RequestContextEntry \<Rightarrow> bool" where
  "compacted_once es items c item rid q \<longleftrightarrow>
     distinct (map re_entry_id es) \<and> numbered_items items \<and> stored_in es items \<and>
     inside c 0 items \<noteq> [] \<and> hi_source_trajectory_index item = None \<and>
     (\<exists>e\<in>set es. entry_stores e item \<and> summary_stored e rid (hi_message item) (inside c 0 items)) \<and>
     qe_replacement_history_active q \<and> qe_summary_retained_entry_id q = hi_retained_entry_id item \<and>
     qe_selected_retained_entry_ids q = map item_entry_id (replace_compacted c item False 0 items)"

lemma compacted_onceD:
  assumes "compacted_once es items c item rid q"
  shows "distinct (map re_entry_id es)" "numbered_items items" "stored_in es items" "inside c 0 items \<noteq> []"
    "hi_source_trajectory_index item = None" "qe_replacement_history_active q"
    "qe_selected_retained_entry_ids q = map item_entry_id (replace_compacted c item False 0 items)"
    "\<exists>e. e \<in> set es \<and> entry_stores e item \<and> summary_stored e rid (hi_message item) (inside c 0 items) \<and>
       qe_summary_retained_entry_id q = Some (re_entry_id e) \<and> hi_retained_entry_id item = Some (re_entry_id e) \<and>
       summary_entry_of q (build_retained_entry_index es) = Inr e"
  using assms index_found [of es]
  by (auto simp: compacted_once_def entry_stores_def summary_entry_of_def required_entry_def)

text \<open>An item with its place in the trajectory, as a pair of the replay.\<close>

abbreviation placed :: "RuntimeHistoryItem \<Rightarrow> int \<times> Message" where
  "placed it \<equiv> (item_index it, hi_message it)"

lemma item_ids_apart:
  assumes "compacted_once es items c item rid q" and "it \<in> set items"
  shows "Some (item_entry_id it) \<noteq> qe_summary_retained_entry_id q"
proof
  assume eq: "Some (item_entry_id it) = qe_summary_retained_entry_id q"
  note D = compacted_onceD [OF assms(1)]
  obtain e where e: "entry_stores e it" "map_of (build_retained_entry_index es) (item_entry_id it) = Some e"
    using stored_entry [OF D(1,3) assms(2)] by blast
  obtain e' where e': "e' \<in> set es" "entry_stores e' item" "qe_summary_retained_entry_id q = Some (re_entry_id e')"
    using D(8) by blast
  then have "e = e'" using eq e(2) index_found [OF D(1) e'(1)] by simp
  then show False
    using e(1) e'(2) D(5) numbered_items_index [OF D(2) assms(2)] by (simp add: entry_stores_def)
qed

lemma kept_ids:
  assumes "compacted_once es items c item rid q"
  shows "filter (\<lambda>i. Some i \<noteq> qe_summary_retained_entry_id q) (qe_selected_retained_entry_ids q) =
    map item_entry_id (outside c 0 items)"
  unfolding compacted_onceD(7) [OF assms]
proof (rule filter_replaced)
  show "\<not> Some (item_entry_id item) \<noteq> qe_summary_retained_entry_id q"
    using compacted_onceD(8) [OF assms] by auto
qed (rule item_ids_apart [OF assms])

lemma selected_pairs_replay:
  assumes "distinct (map re_entry_id es)" and "stored_in es items" and "numbered_items items"
    and "set xs \<subseteq> set items" and "filter (\<lambda>i. Some i \<noteq> qe_summary_retained_entry_id q)
      (qe_selected_retained_entry_ids q) = map item_entry_id xs"
  shows "selected_pairs exc q (build_retained_entry_index es) = Inr (map placed xs)"
  unfolding selected_pairs_def assms(5) res_list_comp
proof (rule res_list_map)
  fix it assume "it \<in> set xs"
  then have it: "it \<in> set items" using assms(4) by blast
  obtain e where e: "entry_stores e it" "map_of (build_retained_entry_index es) (item_entry_id it) = Some e"
    using stored_entry [OF assms(1,2) it] by blast
  moreover obtain n where "hi_source_trajectory_index it = Some n"
    using numbered_items_index [OF assms(3) it] by blast
  ultimately show "res_bind (required_entry (map_of (build_retained_entry_index es) (item_entry_id it))
         (''missing selected retained entry for replay: '' @ item_entry_id it))
       (\<lambda>entry. case re_source_trajectory_index entry of
          None \<Rightarrow> value_error (''selected retained entry '' @ item_entry_id it @ '' lacks source_trajectory_index'')
        | Some n \<Rightarrow> res_bind (required_message exc entry
            (''selected retained entry '' @ item_entry_id it @ '' does not contain message payload''))
            (\<lambda>m. Inr (n, m))) = Inr (placed it)"
    using entry_stores_message [OF e(1)] by (simp add: required_entry_def entry_stores_def)
qed

lemma replaced_pairs_replay:
  assumes "distinct (map re_entry_id es)" and "stored_in es items" and "set xs \<subseteq> set items"
  shows "replaced_pairs exc (build_retained_entry_index es)
      (zip (map JStr (map item_entry_id xs)) (map JInt (map item_index xs))) = Inr (map placed xs)"
  unfolding replaced_pairs_def zip_map_map zip_same_conv_map map_map comp_def res_list_comp
proof (rule res_list_map)
  fix it assume "it \<in> set xs"
  then have it: "it \<in> set items" using assms(3) by blast
  obtain e where e: "entry_stores e it" "map_of (build_retained_entry_index es) (item_entry_id it) = Some e"
    using stored_entry [OF assms(1,2) it] by blast
  then show "(case (case (it, it) of (x, y) \<Rightarrow> (JStr (item_entry_id x), JInt (item_index y))) of (i, n) \<Rightarrow>
      res_bind (index_get (build_retained_entry_index es) i) (\<lambda>found.
      res_bind (required_entry found (''missing compacted source retained entry for replay: '' @ py_str i)) (\<lambda>entry.
      res_bind (required_message exc entry
        (''compacted retained entry '' @ py_str i @ '' does not contain message payload'')) (\<lambda>m.
      res_bind (int_of_json n) (\<lambda>k. Inr (k, m)))))) = Inr (placed it)"
    using entry_stores_message [OF e(1)]
    by (simp add: required_entry_def index_get_def int_of_json_def)
qed

lemma list_or_empty_list [simp]: "list_or_empty (Some (JList xs)) = Inr xs"
  by (cases xs) (simp_all add: list_or_empty_def)

lemma stored_in_subset: "stored_in es items \<Longrightarrow> set xs \<subseteq> set items \<Longrightarrow> stored_in es xs"
  unfolding stored_in_def by blast

lemma stored_sources:
  assumes "compacted_once es items c item rid q" and "summary_stored e rid x (inside c 0 items)"
  shows "list_or_empty (map_of (re_metadata e) ''source_retained_entry_ids'') =
      Inr (map JStr (map item_entry_id (inside c 0 items)))"
    and "list_or_empty (map_of (re_metadata e) ''source_trajectory_indices'') =
      Inr (map JInt (map item_index (inside c 0 items)))"
proof -
  note D = compacted_onceD [OF assms(1)]
  have "source_indices (inside c 0 items) = map item_index (inside c 0 items)"
    using numbered_items_index [OF D(2)] set_inside(1) [of c 0 items] by (intro map_filter_the) blast
  moreover have "List.map_filter hi_retained_entry_id (inside c 0 items) = map item_entry_id (inside c 0 items)"
    using stored_in_subset [OF D(3) set_inside(1)] by (rule stored_ids)
  ultimately show "list_or_empty (map_of (re_metadata e) ''source_retained_entry_ids'') =
      Inr (map JStr (map item_entry_id (inside c 0 items)))"
    "list_or_empty (map_of (re_metadata e) ''source_trajectory_indices'') =
      Inr (map JInt (map item_index (inside c 0 items)))"
    using assms(2) by (simp_all only: summary_stored_def list_or_empty_list)
qed

lemma pre_compaction_replay:
  assumes "compacted_once es items c item rid q"
  shows "reconstruct_pre_compaction_messages exc q (build_retained_entry_index es) = Inr (map hi_message items)"
proof -
  note D = compacted_onceD [OF assms]
  obtain e where e: "summary_stored e rid (hi_message item) (inside c 0 items)"
    "summary_entry_of q (build_retained_entry_index es) = Inr e" using D(8) by blast
  have "sort_key fst (map placed (outside c 0 items) @ map placed (inside c 0 items)) = map placed items"
  proof (rule sort_key_unique)
    have "map fst (map placed items) = map int [0..<length items]"
      using numbered_items_map [OF D(2)] by (simp add: comp_def)
    then show "sorted (map fst (map placed items))" "distinct (map fst (map placed items))"
      by (simp_all only:) (simp_all add: sorted_wrt_map distinct_map)
    show "mset (map placed (outside c 0 items) @ map placed (inside c 0 items)) = mset (map placed items)"
      unfolding mset_append mset_map [where f = placed] image_mset_union [symmetric] inside_outside_mset ..
  qed
  then have sorted: "map snd (sort_key fst (map placed (outside c 0 items) @ map placed (inside c 0 items))) =
      map hi_message items" by (simp only: map_map comp_def snd_conv)
  define ids where "ids = map JStr (map item_entry_id (inside c 0 items))"
  define indices where "indices = map JInt (map item_index (inside c 0 items))"
  have "list_or_empty (map_of (re_metadata e) ''source_retained_entry_ids'') = Inr ids"
    "list_or_empty (map_of (re_metadata e) ''source_trajectory_indices'') = Inr indices"
    "length ids = length indices"
    using stored_sources [OF assms e(1)] by (simp_all only: ids_def indices_def length_map)
  moreover have "selected_pairs exc q (build_retained_entry_index es) = Inr (map placed (outside c 0 items))"
    by (rule selected_pairs_replay [OF D(1,3,2) set_inside(2) kept_ids [OF assms]])
  moreover have "replaced_pairs exc (build_retained_entry_index es) (zip ids indices) = Inr (map placed (inside c 0 items))"
    unfolding ids_def indices_def by (rule replaced_pairs_replay [OF D(1,3) set_inside(1)])
  ultimately show ?thesis
    using D(6) by (simp only: reconstruct_pre_compaction_messages_def e(2) res_bind_simps not_True_eq_False
        if_False sorted simp_thms)
qed


lemma stored_entry_of:
  assumes "distinct (map re_entry_id es)" and "stored_in es items" and "numbered_items items" and "it \<in> set items"
  shows "\<exists>e\<in>set es. re_entry_id e = item_entry_id it \<and> re_source_trajectory_index e = Some (item_index it) \<and>
    map_of (build_retained_entry_index es) (item_entry_id it) = Some e"
proof -
  obtain e where e: "e \<in> set es" "entry_stores e it" "hi_retained_entry_id it = Some (re_entry_id e)"
    "map_of (build_retained_entry_index es) (item_entry_id it) = Some e"
    using stored_entry [OF assms(1,2,4)] by blast
  obtain n where "hi_source_trajectory_index it = Some n" using numbered_items_index [OF assms(3,4)] by blast
  with e show ?thesis by (intro bexI [of _ e]) (simp_all add: entry_stores_def)
qed

text \<open>The entries whose ids are those of the items, in the order of the log: sorted, they are numbered.\<close>

lemma stored_positions:
  assumes "distinct (map re_entry_id es)" and "stored_in es items" and "numbered_items items"
    and P: "\<And>e. P e = (re_entry_id e \<in> item_entry_id ` set items)"
  shows "sort (List.map_filter re_source_trajectory_index (filter P es)) = map item_index items"
proof -
  define ent where "ent it = the (map_of (build_retained_entry_index es) (item_entry_id it))" for it
  have ent: "ent it \<in> set es" "re_entry_id (ent it) = item_entry_id it"
    "re_source_trajectory_index (ent it) = Some (item_index it)" if "it \<in> set items" for it
    using stored_entry_of [OF assms(1-3) that] unfolding ent_def by force+
  have "set (filter P es) = set (map ent items)"
  proof (intro set_eqI iffI)
    fix e assume "e \<in> set (filter P es)"
    then have "e \<in> set es" "P e" by simp_all
    then obtain it where it: "e \<in> set es" "it \<in> set items" "re_entry_id e = item_entry_id it" using P by blast
    then have "e = ent it" using index_found [OF assms(1)] by (metis ent_def option.sel)
    with it(2) show "e \<in> set (map ent items)" by simp
  next
    fix e assume "e \<in> set (map ent items)"
    then obtain it where it: "it \<in> set items" "e = ent it" by auto
    then have "P e" using ent(2) P by blast
    with it ent(1) show "e \<in> set (filter P es)" by simp
  qed
  moreover have "distinct (filter P es)" using assms(1) by (intro distinct_filter) (simp add: distinct_map)
  moreover have "distinct (map ent items)"
  proof -
    have "map re_source_trajectory_index (map ent items) = map Some (map item_index items)"
      using ent(3) by simp
    also have "\<dots> = map Some (map int [0..<length items])" using numbered_items_map [OF assms(3)] by simp
    finally have "distinct (map re_source_trajectory_index (map ent items))"
      by (simp only:) (simp add: distinct_map inj_on_def)
    then show ?thesis by (simp only: distinct_map)
  qed
  ultimately have "mset (filter P es) = mset (map ent items)" by (metis set_eq_iff_mset_eq_distinct)
  then have "mset (List.map_filter re_source_trajectory_index (filter P es)) =
      mset (List.map_filter re_source_trajectory_index (map ent items))"
    by (rule mset_map_filter)
  also have "List.map_filter re_source_trajectory_index (map ent items) = map item_index items"
    using ent(3) by (induction items) auto
  finally show ?thesis
    using numbered_items_map [OF assms(3)] by (intro properties_for_sort) (simp_all add: sorted_wrt_map del: mset_map)
qed

lemma mset_split_set: "mset xs + mset ys = mset zs \<Longrightarrow> set ys \<union> set xs = set zs"
  by (drule arg_cong [of _ _ set_mset]) auto

lemma JStr_member: "(JStr x \<in> set (map JStr (map f xs)) \<or> x \<in> set (map f ys)) = (x \<in> f ` (set xs \<union> set ys))"
  by auto

lemma pre_indices_replay:
  assumes "compacted_once es items c item rid q"
  shows "pre_indices q (map JStr (map item_entry_id (inside c 0 items))) (build_retained_entry_index es) =
    Inr (map item_index items)"
proof -
  note D = compacted_onceD [OF assms]
  have items: "set (inside c 0 items) \<union> set (outside c 0 items) = set items"
    by (rule mset_split_set [OF inside_outside_mset])
  have P: "(JStr (re_entry_id e) \<in> set (map JStr (map item_entry_id (inside c 0 items))) \<or>
      re_entry_id e \<in> set (map item_entry_id (outside c 0 items))) = (re_entry_id e \<in> item_entry_id ` set items)" for e
    unfolding JStr_member items ..
  have ids: "\<not> list_ex (\<lambda>v. case v of JList _ \<Rightarrow> True | JObj _ \<Rightarrow> True | _ \<Rightarrow> False) (map JStr xs)" for xs
    by (simp add: list_ex_iff)
  have "map snd (build_retained_entry_index es) = es" by (simp add: build_index_eq [OF D(1)] comp_def)
  then show ?thesis
    unfolding pre_indices_def kept_ids [OF assms] if_not_P [OF ids]
    by (simp only: stored_positions [OF D(1,3,2) P])
qed

subsection \<open>After the first compaction\<close>

lemma in_numbered_filter:
  "x \<in> set (map snd (filter P (enumerate 0 xs))) \<longleftrightarrow> (\<exists>k<length xs. x = xs ! k \<and> P (k, xs ! k))"
proof
  assume "\<exists>k<length xs. x = xs ! k \<and> P (k, xs ! k)"
  then obtain k where "(k, x) \<in> set (filter P (enumerate 0 xs))" by (auto simp: in_set_enumerate_eq)
  then show "x \<in> set (map snd (filter P (enumerate 0 xs)))" by force
qed (auto simp: in_set_enumerate_eq)

lemma numbered_filter:
  assumes "\<And>k. k < length xs \<Longrightarrow> g (xs ! k) = int k" and "k < length xs"
  shows "g (xs ! k) \<in> set (map g (map snd (filter P (enumerate 0 xs)))) \<longleftrightarrow> P (k, xs ! k)"
proof -
  have "g y = int k \<longleftrightarrow> y = xs ! k" if "\<exists>j<length xs. y = xs ! j \<and> P (j, xs ! j)" for y
    using that assms by (metis of_nat_eq_iff)
  then have "g (xs ! k) \<in> set (map g (map snd (filter P (enumerate 0 xs)))) \<longleftrightarrow>
      xs ! k \<in> set (map snd (filter P (enumerate 0 xs)))"
    unfolding set_map [of g] image_iff using assms in_numbered_filter [of _ P xs] by metis
  moreover have "xs ! j = xs ! k \<longleftrightarrow> j = k" if "j < length xs" for j
    using that assms by (metis of_nat_eq_iff)
  ultimately show ?thesis unfolding in_numbered_filter using assms(2) by metis
qed

lemma inside_indices:
  assumes "numbered_items items" and "k < length items"
  shows "(item_index (items ! k) \<in> set (map item_index (inside c 0 items))) = (int (0 + k) \<in> set c)"
  by (subst numbered_filter [OF _ assms(2)]) (use assms(1) in \<open>simp_all add: numbered_items_def\<close>)

lemma int_of_json_ints: "res_list int_of_json (map JInt xs) = Inr xs"
  by (induction xs) (simp_all add: int_of_json_def)

lemma post_compaction_replay:
  assumes "compacted_once es items c item rid q"
  shows "reconstruct_post_compaction_messages_from_pre_compaction exc q (build_retained_entry_index es) =
    Inr (map hi_message (replace_compacted c item False 0 items))"
proof -
  note D = compacted_onceD [OF assms]
  obtain e where e: "entry_stores e item" "summary_stored e rid (hi_message item) (inside c 0 items)"
    "summary_entry_of q (build_retained_entry_index es) = Inr e" using D(8) by blast
  define ids where "ids = map JStr (map item_entry_id (inside c 0 items))"
  define indices where "indices = map item_index (inside c 0 items)"
  have stored: "list_or_empty (map_of (re_metadata e) ''source_retained_entry_ids'') = Inr ids"
    "list_or_empty (map_of (re_metadata e) ''source_trajectory_indices'') = Inr (map JInt indices)"
    "indices \<noteq> []" "pre_indices q ids (build_retained_entry_index es) = Inr (map item_index items)"
    using stored_sources [OF assms e(2)] pre_indices_replay [OF assms] D(4)
    by (simp_all only: ids_def indices_def map_is_Nil_conv not_False_eq_True)
  have post: "post_messages (hi_message item) indices False (zip (map item_index items) (map hi_message items)) =
      map hi_message (replace_compacted c item False 0 items)"
    by (rule post_messages_replaced [OF refl]) (simp only: indices_def inside_indices [OF D(2)])
  show ?thesis
    unfolding reconstruct_post_compaction_messages_from_pre_compaction_def e(3) res_bind_simps
      entry_stores_message [OF e(1)] stored int_of_json_ints pre_compaction_replay [OF assms]
    using D(6) stored(3) by (simp only: post length_map simp_thms if_True if_False not_True_eq_False)
qed

subsection \<open>The entry of a request\<close>

definition recorded_request ::
  "RetainedHistoryEntry list \<Rightarrow> RuntimeHistoryManager \<Rightarrow> RuntimeHistoryItem list \<Rightarrow> RequestContextEntry \<Rightarrow> bool" where
  "recorded_request es m items q \<longleftrightarrow>
     distinct (map re_entry_id es) \<and> history_inv m \<and> stored_in es (hm_source_items m) \<and>
     stored_in es (hm_request_items m) \<and> stored_in es items \<and>
     qe_selected_retained_entry_ids q = List.map_filter hi_retained_entry_id items \<and>
     qe_omitted_retained_entry_ids q = List.map_filter hi_retained_entry_id
       (filter (\<lambda>item. hi_source_trajectory_index item \<notin> Some ` set (source_indices items)) (hm_source_items m)) \<and>
     qe_request_message_count q = int (length items) \<and>
     qe_request_history_item_count_before_snapshot q = int (length (hm_request_items m)) \<and>
     qe_replacement_history_active q = list_ex (\<lambda>item. hi_item_kind item = ''replacement'') items"

text \<open>A request without a compaction names no replacement; one with a compaction names its entries.\<close>

definition plain_request ::
  "RuntimeHistoryManager \<Rightarrow> RuntimeHistoryItem list \<Rightarrow> RequestContextEntry \<Rightarrow> bool" where
  "plain_request m items q \<longleftrightarrow> set items \<subseteq> set (hm_request_items m) \<and> qe_summary_retained_entry_id q = None \<and>
     qe_carried_forward_state_entry_id q = None \<and> qe_replacement_history_record_id q = None"

definition compacting_request ::
  "RetainedHistoryEntry list \<Rightarrow> RuntimeHistoryManager \<Rightarrow> RuntimeHistoryItem list \<Rightarrow> RequestContextEntry
    \<Rightarrow> int list \<Rightarrow> RuntimeHistoryItem \<Rightarrow> string \<Rightarrow> bool" where
  "compacting_request es m items q c item rid \<longleftrightarrow>
     items = replace_compacted c item False 0 (hm_request_items m) \<and> inside c 0 (hm_request_items m) \<noteq> [] \<and>
     set (inside c 0 (hm_request_items m)) \<subseteq> set (hm_source_items m) \<and>
     hi_source_trajectory_index item = None \<and> hi_item_kind item = ''replacement'' \<and>
     qe_replacement_history_record_id q = Some rid \<and>
     (\<exists>e1\<in>set es. entry_stores e1 item \<and>
        summary_stored e1 rid (hi_message item) (inside c 0 (hm_request_items m)) \<and>
        qe_summary_retained_entry_id q = Some (re_entry_id e1) \<and>
        (\<forall>it\<in>set (hm_request_items m). hi_retained_entry_id it \<noteq> Some (re_entry_id e1))) \<and>
     (\<exists>e2\<in>set es. carried_stored e2 rid \<and> qe_carried_forward_state_entry_id q = Some (re_entry_id e2))"

lemma materialize_plan_cases:
  assumes inv: "logged_inv m" and p: "replaceable m p"
    "replayable (cp_compaction_artifact p) (cp_synthetic_summary_message p)"
  shows "\<exists>items r m1. materialize_plan env p t m = (items, r, m1) \<and> stored_in (log_of m1) items \<and>
    hm_source_items m1 = hm_source_items m \<and>
    (case r of
       None \<Rightarrow> set items \<subseteq> set (hm_request_items m)
     | Some rr \<Rightarrow> \<exists>c item e1 e2 e3. items = replace_compacted c item False 0 (hm_request_items m) \<and>
         inside c 0 (hm_request_items m) \<noteq> [] \<and> set (inside c 0 (hm_request_items m)) \<subseteq> set (hm_source_items m) \<and>
         hi_source_trajectory_index item = None \<and> hi_item_kind item = ''replacement'' \<and>
         log_of m1 = log_of m @ [e1, e2, e3] \<and> entry_stores e1 item \<and>
         summary_stored e1 (rr_record_id rr) (hi_message item) (inside c 0 (hm_request_items m)) \<and>
         carried_stored e2 (rr_record_id rr) \<and> rr_replacement_retained_entry_id rr = Some (re_entry_id e1) \<and>
         rr_carried_forward_state_entry_id rr = Some (re_entry_id e2))"
proof (cases "cp_compaction_artifact p")
  case None
  have "set (request_items_at m (cp_selected_request_item_indices p)) \<subseteq> set (hm_request_items m)"
    by (auto simp: request_items_at_def)
  then show ?thesis using None inv stored_in_subset by (auto simp: materialize_plan_def logged_inv_def)
next
  case (Some a)
  then obtain x where x: "cp_synthetic_summary_message p = Some x"
    using p(2) by (auto simp: replayable_def split: option.splits)
  let ?c = "art_compacted_message_indices a" and ?R = "hm_request_items m"
  have rep: "replayable (Some a) (Some x)" using p(2) Some x by simp
  have c: "?c \<noteq> []" "sorted_wrt (<) ?c"
    "list_all (\<lambda>j. 0 \<le> j \<and> nat j < length ?R \<and> turn_message (hi_message (?R ! nat j))) ?c"
    using p(1) Some by (simp_all add: replaceable_def)
  have items: "request_items_at m ?c = inside ?c 0 ?R"
    using c(3) by (intro items_at_inside [OF c(2)]) (auto simp: list_all_iff)
  have "request_items_at m ?c \<noteq> []"
    using c(1,3) by (cases ?c) (auto simp: request_items_at_def)
  moreover have "set (request_items_at m ?c) \<subseteq> set (hm_source_items m)"
  proof
    fix it assume "it \<in> set (request_items_at m ?c)"
    then have "it \<in> set ?R" "turn_message (hi_message it)"
      using c(3) by (auto simp: request_items_at_def list_all_iff)
    then show "it \<in> set (hm_source_items m)"
      using source_item(1) inv unfolding logged_inv_def history_inv_def by blast
  qed
  moreover obtain e1 e2 e3 item r m' where "apply_compaction_replacement env a x t m = (r, m')" "logged_inv m'"
    "log_of m' = log_of m @ [e1, e2, e3]" "entry_stores e1 item" "hi_source_trajectory_index item = None"
    "hi_item_kind item = ''replacement''" "hi_message item = x" "hm_source_items m' = hm_source_items m"
    "hm_request_items m' = replace_compacted ?c item False 0 ?R"
    "summary_stored e1 (replacement_record_id m) x (request_items_at m ?c)"
    "carried_stored e2 (replacement_record_id m)" "rr_record_id r = replacement_record_id m"
    "rr_replacement_retained_entry_id r = Some (re_entry_id e1)"
    "rr_carried_forward_state_entry_id r = Some (re_entry_id e2)"
    using apply_replacement_logged [OF inv p(1) Some x rep, of env t] by blast
  moreover from this have "materialize_plan env p t m = (hm_request_items m', Some r, m')"
    using Some x by (simp add: materialize_plan_def)
  moreover have "stored_in (log_of m') (hm_request_items m')" using \<open>logged_inv m'\<close> by (simp add: logged_inv_def)
  ultimately show ?thesis unfolding items
    by (intro exI [of _ "hm_request_items m'"] exI [of _ "Some r"] exI [of _ m'] conjI)
      (simp_all only: option.case, blast)
qed

text \<open>What a request leaves in the log, seen in any later log.\<close>

lemma snapshot_recorded:
  assumes inv: "logged_inv m" and p: "replaceable m p"
    "replayable (cp_compaction_artifact p) (cp_synthetic_summary_message p)"
    and later: "prefix (log_of (snd (snapshot_from_plan env p l n m))) es" "distinct (map re_entry_id es)"
    and q: "q = context_entry now k run task n' (fst (snapshot_from_plan env p l n m)) x"
  shows "\<exists>items. sn_selected_messages (fst (snapshot_from_plan env p l n m)) = map hi_message items \<and>
    recorded_request es m items q \<and>
    (plain_request m items q \<or> (\<exists>c item rid. compacting_request es m items q c item rid))"
proof -
  obtain items r m1 where m1: "materialize_plan env p n m = (items, r, m1)" "stored_in (log_of m1) items"
    "hm_source_items m1 = hm_source_items m"
    and r: "case r of
       None \<Rightarrow> set items \<subseteq> set (hm_request_items m)
     | Some rr \<Rightarrow> \<exists>c item e1 e2 e3. items = replace_compacted c item False 0 (hm_request_items m) \<and>
         inside c 0 (hm_request_items m) \<noteq> [] \<and> set (inside c 0 (hm_request_items m)) \<subseteq> set (hm_source_items m) \<and>
         hi_source_trajectory_index item = None \<and> hi_item_kind item = ''replacement'' \<and>
         log_of m1 = log_of m @ [e1, e2, e3] \<and> entry_stores e1 item \<and>
         summary_stored e1 (rr_record_id rr) (hi_message item) (inside c 0 (hm_request_items m)) \<and>
         carried_stored e2 (rr_record_id rr) \<and> rr_replacement_retained_entry_id rr = Some (re_entry_id e1) \<and>
         rr_carried_forward_state_entry_id rr = Some (re_entry_id e2)"
    using materialize_plan_cases [OF inv p, of env n] by blast
  let ?app = "append_history_control (env_clock env) n ''context_selection_plan'' (env_dump_plan env p)"
  define m2 where "m2 = snd (retain ?app m1)"
  define snap where "snap = fst (snapshot_from_plan env p l n m)"
  have m2: "snd (snapshot_from_plan env p l n m) = m2" "hm_source_items m2 = hm_source_items m"
    using retain_same [OF append_ofs(4) [of "env_clock env" n "''context_selection_plan''" "env_dump_plan env p"], of m1] m1(3)
    by (simp_all add: snapshot_from_plan_def m1(1) m2_def split_beta same_history_def Let_def)
  have snap: "sn_selected_messages snap = map hi_message items"
    "sn_selected_retained_entry_ids snap = List.map_filter hi_retained_entry_id items"
    "sn_omitted_retained_entry_ids snap = List.map_filter hi_retained_entry_id
       (filter (\<lambda>item. hi_source_trajectory_index item \<notin> Some ` set (source_indices items)) (hm_source_items m))"
    "sn_request_history_item_count_before_snapshot snap = int (length (hm_request_items m))"
    "sn_replacement_history_active snap = list_ex (\<lambda>item. hi_item_kind item = ''replacement'') items"
    "sn_summary_retained_entry_id snap = Option.bind r rr_replacement_retained_entry_id"
    "sn_carried_forward_state_entry_id snap = Option.bind r rr_carried_forward_state_entry_id"
    "sn_replacement_history_record_id snap = map_option rr_record_id r"
    using m2(2) by (simp_all add: snap_def snapshot_from_plan_def m1(1) m2_def split_beta Let_def)
  have q': "qe_selected_retained_entry_ids q = sn_selected_retained_entry_ids snap"
    "qe_omitted_retained_entry_ids q = sn_omitted_retained_entry_ids snap"
    "qe_request_message_count q = int (length (sn_selected_messages snap))"
    "qe_request_history_item_count_before_snapshot q = sn_request_history_item_count_before_snapshot snap"
    "qe_replacement_history_active q = sn_replacement_history_active snap"
    "qe_summary_retained_entry_id q = sn_summary_retained_entry_id snap"
    "qe_carried_forward_state_entry_id q = sn_carried_forward_state_entry_id snap"
    "qe_replacement_history_record_id q = sn_replacement_history_record_id snap"
    by (simp_all add: q snap_def context_entry_def Let_def)
  have log: "prefix (log_of m) (log_of m2)" "logged_inv m2"
    using snapshot_from_plan_logged [OF inv p, of env l n] by (simp_all add: m2(1))
  have "prefix (log_of m1) (log_of m2)"
  proof (cases "hm_writer m1")
    case None then show ?thesis by (simp add: log_of_def)
  next
    case (Some w) show ?thesis unfolding m2_def retain_log(2) [OF Some append_ofs(4)] by simp
  qed
  then have m1es: "prefix (log_of m1) es" using later(1) prefix_order.trans unfolding m2(1) by blast
  have mes: "prefix (log_of m) es" using log(1) later(1) prefix_order.trans unfolding m2(1) by blast
  have "recorded_request es m items q"
    using inv later(2) stored_in_mono [OF _ mes] stored_in_mono [OF m1(2) m1es]
    unfolding recorded_request_def logged_inv_def q' snap by simp
  moreover have "plain_request m items q \<or> (\<exists>c item rid. compacting_request es m items q c item rid)"
  proof (cases r)
    case None
    then show ?thesis using r by (simp add: plain_request_def q' snap)
  next
    case (Some rr)
    then obtain c item e1 e2 e3 where I: "items = replace_compacted c item False 0 (hm_request_items m)"
      "inside c 0 (hm_request_items m) \<noteq> []" "set (inside c 0 (hm_request_items m)) \<subseteq> set (hm_source_items m)"
      "hi_source_trajectory_index item = None" "hi_item_kind item = ''replacement''"
      "log_of m1 = log_of m @ [e1, e2, e3]" "entry_stores e1 item"
      "summary_stored e1 (rr_record_id rr) (hi_message item) (inside c 0 (hm_request_items m))"
      "carried_stored e2 (rr_record_id rr)" "rr_replacement_retained_entry_id rr = Some (re_entry_id e1)"
      "rr_carried_forward_state_entry_id rr = Some (re_entry_id e2)"
      using r by auto
    have es: "e1 \<in> set es" "e2 \<in> set es" using set_mono_prefix [OF m1es] I(6) by auto
    have "distinct (map re_entry_id (log_of m1))"
      using m1es later(2) by (auto simp: prefix_def)
    then have new: "re_entry_id e1 \<notin> re_entry_id ` set (log_of m)" using I(6) by auto
    have "hi_retained_entry_id it \<noteq> Some (re_entry_id e1)" if it: "it \<in> set (hm_request_items m)" for it
    proof -
      obtain e where "e \<in> set (log_of m)" "hi_retained_entry_id it = Some (re_entry_id e)"
        using inv it by (auto simp: logged_inv_def stored_in_def entry_stores_def)
      then show ?thesis using new by (metis imageI option.inject)
    qed
    then have "compacting_request es m items q c item (rr_record_id rr)"
      using I(1-5,7-11) es unfolding compacting_request_def q' snap Some by auto
    then show ?thesis by blast
  qed
  ultimately show ?thesis using snap(1) unfolding snap_def by blast
qed
lemma item_replaced: "inside c i items \<noteq> [] \<Longrightarrow> item \<in> set (replace_compacted c item False i items)"
  by (induction items arbitrary: i) (auto split: if_splits)

lemma compacted_first:
  assumes q: "recorded_request es m items q" "compacting_request es m items q c item rid"
    and none: "hm_replacement_history m = []"
  shows "compacted_once es (hm_request_items m) c item rid q"
proof -
  have inv: "history_inv m" using q(1) by (simp only: recorded_request_def)
  have "numbered_items (hm_source_items m)"
    using inv by (simp add: numbered_items_def history_inv_def sources_inv_def source_ok_def)
  then have "numbered_items (hm_request_items m)" using uncompacted_items [OF inv none] by simp
  moreover have items: "items = replace_compacted c item False 0 (hm_request_items m)"
    "inside c 0 (hm_request_items m) \<noteq> []" "hi_item_kind item = ''replacement''"
    using q(2) unfolding compacting_request_def by blast+
  moreover have "item \<in> set items" unfolding items(1) by (rule item_replaced [OF items(2)])
  then have "list_ex (\<lambda>item. hi_item_kind item = ''replacement'') items"
    using items(3) by (auto simp: list_ex_iff)
  moreover have "List.map_filter hi_retained_entry_id items = map item_entry_id items"
    using q(1) unfolding recorded_request_def by (blast intro: stored_ids)
  moreover have "hi_retained_entry_id item = Some (re_entry_id e1)" if "entry_stores e1 item" for e1
    using that by (simp add: entry_stores_def)
  ultimately show ?thesis
    using q unfolding compacted_once_def recorded_request_def compacting_request_def by metis
qed

subsection \<open>Verification\<close>

lemma no_missing: 
  assumes "distinct (map re_entry_id es)" and "stored_in es items"
  shows "missing_entries (build_retained_entry_index es) what (List.map_filter hi_retained_entry_id items) = []"
  using stored_entry [OF assms]
  unfolding missing_entries_def stored_ids [OF assms(2)] by (fastforce simp: filter_empty_conv)

lemma recorded_selected:
  assumes "recorded_request es m items q"
  shows "reconstruct_selected_messages exc q (build_retained_entry_index es) = Inr (map hi_message items)"
    and "missing_entries (build_retained_entry_index es) ''selected'' (qe_selected_retained_entry_ids q) = []"
    and "missing_entries (build_retained_entry_index es) ''omitted'' (qe_omitted_retained_entry_ids q) = []"
    and "check_selected exc q (build_retained_entry_index es) [] = Inr (int (length items), [])"
proof -
  have q: "distinct (map re_entry_id es)" "stored_in es items" "stored_in es (hm_source_items m)"
    "qe_selected_retained_entry_ids q = List.map_filter hi_retained_entry_id items"
    "qe_omitted_retained_entry_ids q = List.map_filter hi_retained_entry_id
       (filter (\<lambda>item. hi_source_trajectory_index item \<notin> Some ` set (source_indices items)) (hm_source_items m))"
    "qe_request_message_count q = int (length items)"
    using assms unfolding recorded_request_def by blast+
  show replay: "reconstruct_selected_messages exc q (build_retained_entry_index es) = Inr (map hi_message items)"
    by (rule selected_replay [OF q(1,2,4)])
  show "missing_entries (build_retained_entry_index es) ''selected'' (qe_selected_retained_entry_ids q) = []"
    unfolding q(4) by (rule no_missing [OF q(1,2)])
  show "missing_entries (build_retained_entry_index es) ''omitted'' (qe_omitted_retained_entry_ids q) = []"
    unfolding q(5) by (rule no_missing [OF q(1) stored_in_subset [OF q(3)]]) auto
  show "check_selected exc q (build_retained_entry_index es) [] = Inr (int (length items), [])"
    using q(6) by (simp add: check_selected_def replay caught_def)
qed

lemma verify_inactive:
  assumes "recorded_request es m items q" and "plain_request m items q" and "\<not> qe_replacement_history_active q"
  shows "\<exists>rep. verify_request_context_entry exc q (build_retained_entry_index es) = Inr rep \<and> hr_ok rep"
  using assms(2,3)
  by (simp add: verify_request_context_entry_def Let_def recorded_selected [OF assms(1)] plain_request_def check_inactive_def)

lemma verify_unnamed:
  assumes "recorded_request es m items q" and "plain_request m items q" and "qe_replacement_history_active q"
  shows "\<exists>rep. verify_request_context_entry exc q (build_retained_entry_index es) = Inr rep \<and> \<not> hr_ok rep"
  using assms(2,3)
  by (simp add: verify_request_context_entry_def Let_def recorded_selected [OF assms(1)] plain_request_def
      check_summary_entry_def absent_fields_def)

lemma filter_enumerate:
  "(\<And>k. k < length xs \<Longrightarrow> P (xs ! k) = Q (i + k, xs ! k)) \<Longrightarrow>
    filter P xs = map snd (filter Q (enumerate i xs))"
proof (induction xs arbitrary: i)
  case (Cons x xs)
  have "P x = Q (i, x)" using Cons.prems [of 0] by simp
  moreover have "filter P xs = map snd (filter Q (enumerate (Suc i) xs))"
    using Cons.prems [of "Suc k" for k] by (intro Cons.IH) simp
  ultimately show ?case by simp
qed simp

text \<open>The messages a first compaction leaves out are those it replaced.\<close>

lemma omitted_inside:
  assumes "numbered_items items" and "hi_source_trajectory_index item = None"
  shows "filter (\<lambda>it. hi_source_trajectory_index it \<notin>
      Some ` set (source_indices (replace_compacted c item False 0 items))) items = inside c 0 items"
proof (rule filter_enumerate)
  fix k assume k: "k < length items"
  have ix: "hi_source_trajectory_index (items ! j) = Some (int j)" if "j < length items" for j
    using assms(1) that by (simp add: numbered_items_def)
  have "source_indices (replace_compacted c item False 0 items) = source_indices (outside c 0 items)"
    by (rule replace_compacted_map_filter [where f = hi_source_trajectory_index and r = item, OF assms(2)])
  also have "\<dots> = map item_index (outside c 0 items)"
    using numbered_items_index [OF assms(1)] set_inside(2) [of c 0 items] by (intro map_filter_the) blast
  finally have src: "source_indices (replace_compacted c item False 0 items) = map item_index (outside c 0 items)" .
  have "int k \<in> set (map item_index (outside c 0 items)) \<longleftrightarrow> int k \<notin> set c"
    using numbered_filter [of items item_index k "\<lambda>x. int (fst x) \<notin> set c"] ix k by simp
  then show "(hi_source_trajectory_index (items ! k) \<notin>
      Some ` set (source_indices (replace_compacted c item False 0 items))) = (int (fst (0 + k, items ! k)) \<in> set c)"
    unfolding src ix [OF k] by (simp only: inj_image_mem_iff inj_Some fst_conv add_0 not_not)
qed

lemma messages_equal_refl:
  assumes "list_all message_wf ms"
  shows "messages_equal ms ms"
  unfolding messages_equal_def
  by (rule py_eq_refl) (use assms in \<open>simp add: list_all_iff message_wf_def\<close>)

lemma stored_messages_wf: "stored_in es items \<Longrightarrow> list_all message_wf (map hi_message items)"
  by (induction items) (auto simp: entry_stores_def)

lemma verify_first:
  assumes q: "recorded_request es m items q" "compacting_request es m items q c item rid"
    and none: "hm_replacement_history m = []"
  shows "\<exists>rep. verify_request_context_entry exc q (build_retained_entry_index es) = Inr rep \<and> hr_ok rep"
proof -
  let ?ix = "build_retained_entry_index es" and ?R = "hm_request_items m"
  note first = compacted_first [OF q none]
  note D = compacted_onceD [OF first]
  have inv: "history_inv m" and stored: "stored_in es items"
    and ids: "qe_selected_retained_entry_ids q = List.map_filter hi_retained_entry_id items"
    and omitted: "qe_omitted_retained_entry_ids q = List.map_filter hi_retained_entry_id
       (filter (\<lambda>item. hi_source_trajectory_index item \<notin> Some ` set (source_indices items)) (hm_source_items m))"
    and before: "qe_request_history_item_count_before_snapshot q = int (length ?R)"
    using q(1) unfolding recorded_request_def by blast+
  have items: "items = replace_compacted c item False 0 ?R"
    and rid: "qe_replacement_history_record_id q = Some rid"
    using q(2) unfolding compacting_request_def by blast+
  have omitted': "qe_omitted_retained_entry_ids q = map item_entry_id (inside c 0 ?R)"
    unfolding omitted uncompacted_items [OF inv none, symmetric] items omitted_inside [OF D(2,5)]
    using stored_in_subset [OF D(3) set_inside(1)] by (rule stored_ids)
  obtain e1 where e1: "e1 \<in> set es" "entry_stores e1 item" "summary_stored e1 rid (hi_message item) (inside c 0 ?R)"
    "qe_summary_retained_entry_id q = Some (re_entry_id e1)"
    using D(8) by blast
  obtain e2 where e2: "e2 \<in> set es" "carried_stored e2 rid" "qe_carried_forward_state_entry_id q = Some (re_entry_id e2)"
    using q(2) unfolding compacting_request_def by blast
  have "item_entry_id item = re_entry_id e1" using e1(2) by (simp add: entry_stores_def)
  moreover have "item \<in> set items" unfolding items by (rule item_replaced [OF D(4)])
  ultimately have in1: "re_entry_id e1 \<in> set (qe_selected_retained_entry_ids q)"
    unfolding ids stored_ids [OF stored] by force
  have in2: "re_entry_id e2 \<notin> set (qe_selected_retained_entry_ids q)"
  proof
    assume "re_entry_id e2 \<in> set (qe_selected_retained_entry_ids q)"
    then obtain it where it: "it \<in> set items" "re_entry_id e2 = item_entry_id it"
      unfolding ids stored_ids [OF stored] by auto
    obtain e where "entry_stores e it" "map_of ?ix (item_entry_id it) = Some e"
      using stored_entry [OF D(1) stored it(1)] by blast
    moreover from this have "e = e2" using index_found [OF D(1) e2(1)] it(2) by simp
    ultimately show False using e2(2) by (simp add: entry_stores_def carried_stored_def split: if_splits)
  qed
  have "check_summary_entry q ?ix = Inr []"
    using e1(3) index_found [OF D(1) e1(1)] stored_sources(1) [OF first e1(3)]
    by (simp add: check_summary_entry_def e1(4) omitted' rid summary_stored_def meta_json_def py_eq_refl list_all_iff
        opt_str_def del: map_map py_eq.simps)
  moreover have "check_carried_entry q ?ix = []"
    using e2(2) index_found [OF D(1) e2(1)]
    by (simp add: check_carried_entry_def e2(3) rid carried_stored_def meta_json_def opt_str_def)
  moreover have "absent_fields q = []" by (simp add: absent_fields_def e1(4) e2(3) rid)
  moreover have "check_membership q = []" using in1 in2 by (simp add: check_membership_def e1(4) e2(3))
  moreover have "check_rebuilding exc q ?ix = Inr (int (length ?R), [])"
    using stored_messages_wf [OF stored] before
    by (simp add: check_rebuilding_def pre_compaction_replay [OF first] post_compaction_replay [OF first]
        recorded_selected(1) [OF q(1)] caught_def Let_def messages_equal_refl flip: items)
  ultimately show ?thesis
    using D(6) by (simp add: verify_request_context_entry_def Let_def recorded_selected [OF q(1)])
qed
text \<open>An earlier summary among the messages of a compaction stops the replay of what was before.\<close>

lemma res_list_stops:
  assumes "\<And>x. x \<in> set xs \<Longrightarrow> case f x of Inr _ \<Rightarrow> True | Inl e \<Rightarrow> e \<noteq> ReplayTypeError"
    and "x \<in> set xs" and "f x = Inl e"
  shows "\<exists>m. res_list f xs = Inl (ReplayError m)"
  using assms
proof (induction xs)
  case (Cons y ys)
  show ?case
  proof (cases "f y")
    case (Inl e')
    then show ?thesis using Cons.prems(1) [of y] by (cases e') simp_all
  next
    case (Inr z)
    with Cons.prems(2,3) have "x \<in> set ys" by auto
    then obtain m where "res_list f ys = Inl (ReplayError m)" using Cons.IH Cons.prems(1,3) by auto
    then show ?thesis by (simp add: Inr)
  qed
qed simp

lemma earlier_replacement:
  assumes inv: "history_inv m" and some: "hm_replacement_history m \<noteq> []"
  shows "\<exists>old\<in>set (hm_request_items m). hi_source_trajectory_index old = None \<and> old \<notin> set (hm_source_items m)"
proof -
  have "length (List.map_filter hi_replacement_record_id (hm_request_items m)) = length (hm_replacement_history m)"
    using inv by (simp add: history_inv_def records_inv_def flip: size_mset)
  then have "List.map_filter hi_replacement_record_id (hm_request_items m) \<noteq> []" using some by (metis length_0_conv)
  then obtain rid where "rid \<in> set (List.map_filter hi_replacement_record_id (hm_request_items m))" by (meson last_in_set)
  then obtain old where old: "old \<in> set (hm_request_items m)" "hi_replacement_record_id old \<noteq> None"
    unfolding set_map_filter_eq by auto
  have src: "hi_replacement_record_id it = None" if it: "it \<in> set (hm_source_items m)" for it
  proof -
    obtain k where "k < length (hm_source_items m)" "it = hm_source_items m ! k"
      using it by (auto simp: in_set_conv_nth)
    then have "source_ok k it" using inv unfolding history_inv_def sources_inv_def by blast
    then show ?thesis by (simp add: source_ok_def)
  qed
  have new: "old \<notin> set (hm_source_items m)" 
  proof
    assume "old \<in> set (hm_source_items m)"
    then have "hi_replacement_record_id old = None" by (rule src)
    with old(2) show False ..
  qed
  then have "replacement_ok old" using inv old(1) unfolding history_inv_def sources_inv_def by metis
  then have "hi_source_trajectory_index old = None" by (simp add: replacement_ok_def)
  with old(1) new show ?thesis by (intro bexI conjI)
qed

lemma set_replaced_outside: "set (outside c i items) \<subseteq> set (replace_compacted c item b i items)"
  by (induction items arbitrary: b i) auto

lemma pre_compaction_stops:
  assumes q: "recorded_request es m items q" "compacting_request es m items q c item rid"
    and some: "hm_replacement_history m \<noteq> []" and active: "qe_replacement_history_active q"
  shows "\<exists>msg. reconstruct_pre_compaction_messages exc q (build_retained_entry_index es) = Inl (ReplayError msg)"
proof -
  let ?ix = "build_retained_entry_index es" and ?R = "hm_request_items m"
  have inv: "history_inv m" and es: "distinct (map re_entry_id es)" and stored: "stored_in es items"
    and ids: "qe_selected_retained_entry_ids q = List.map_filter hi_retained_entry_id items"
    using q(1) unfolding recorded_request_def by blast+
  obtain e1 where e1: "e1 \<in> set es" "summary_stored e1 rid (hi_message item) (inside c 0 ?R)"
    "qe_summary_retained_entry_id q = Some (re_entry_id e1)"
    "\<forall>it\<in>set ?R. hi_retained_entry_id it \<noteq> Some (re_entry_id e1)"
    using q(2) unfolding compacting_request_def by blast
  have items: "items = replace_compacted c item False 0 ?R" "set (inside c 0 ?R) \<subseteq> set (hm_source_items m)"
    using q(2) unfolding compacting_request_def by blast+
  obtain old where old: "old \<in> set ?R" "hi_source_trajectory_index old = None" "old \<notin> set (hm_source_items m)"
    using earlier_replacement [OF inv some] by blast
  have "old \<in> set (outside c 0 ?R)"
    using old(1,3) items(2) mset_split_set [OF inside_outside_mset, of c 0 ?R] by blast
  then have "old \<in> set items" using set_replaced_outside unfolding items(1) by blast
  then obtain e0 where e0: "entry_stores e0 old" "hi_retained_entry_id old = Some (re_entry_id e0)"
    "map_of ?ix (re_entry_id e0) = Some e0"
    using stored_entry [OF es stored] by force
  define ids' where "ids' = filter (\<lambda>i. Some i \<noteq> qe_summary_retained_entry_id q) (qe_selected_retained_entry_ids q)"
  have "re_entry_id e0 \<in> set (qe_selected_retained_entry_ids q)"
    using \<open>old \<in> set items\<close> e0(2) unfolding ids stored_ids [OF stored] by force
  then have e0': "re_entry_id e0 \<in> set ids'" using e1(3,4) old(1) e0(2) by (auto simp: ids'_def)
  have found: "\<exists>e it. map_of ?ix i = Some e \<and> entry_stores e it" if "i \<in> set ids'" for i
    using that stored_entry [OF es stored] unfolding ids'_def ids stored_ids [OF stored] by fastforce
  have "\<exists>msg. selected_pairs exc q ?ix = Inl (ReplayError msg)"
    unfolding selected_pairs_def ids'_def [symmetric]
  proof (rule res_list_stops [OF _ e0'])
    fix i assume "i \<in> set ids'"
    then obtain e it where "map_of ?ix i = Some e" "entry_stores e it" using found by blast
    then show "case res_bind (required_entry (map_of ?ix i) (''missing selected retained entry for replay: '' @ i))
        (\<lambda>entry. case re_source_trajectory_index entry of
            None \<Rightarrow> value_error (''selected retained entry '' @ i @ '' lacks source_trajectory_index'')
          | Some n \<Rightarrow> res_bind (required_message exc entry
              (''selected retained entry '' @ i @ '' does not contain message payload''))
              (\<lambda>m. Inr (n, m))) of Inr _ \<Rightarrow> True | Inl e \<Rightarrow> e \<noteq> ReplayTypeError"
      by (simp add: required_entry_def entry_stores_message value_error_def split: option.split)
  qed (use e0 old(2) in \<open>simp add: required_entry_def entry_stores_def value_error_def\<close>)
  moreover have "list_or_empty (map_of (re_metadata e1) ''source_retained_entry_ids'') =
      Inr (map JStr (List.map_filter hi_retained_entry_id (inside c 0 ?R)))"
    "list_or_empty (map_of (re_metadata e1) ''source_trajectory_indices'') =
      Inr (map JInt (List.map_filter hi_source_trajectory_index (inside c 0 ?R)))"
    using e1(2) by (simp_all only: summary_stored_def list_or_empty_list)
  moreover have "summary_entry_of q ?ix = Inr e1"
    by (simp add: summary_entry_of_def e1(3) required_entry_def index_found [OF es e1(1)])
  ultimately show ?thesis
    using active by (auto simp: reconstruct_pre_compaction_messages_def value_error_def)
qed

lemma verify_later:
  assumes q: "recorded_request es m items q" "compacting_request es m items q c item rid"
    and some: "hm_replacement_history m \<noteq> []" and active: "qe_replacement_history_active q"
  shows "\<exists>rep. verify_request_context_entry exc q (build_retained_entry_index es) = Inr rep \<and> \<not> hr_ok rep"
proof -
  let ?ix = "build_retained_entry_index es"
  obtain msg where "reconstruct_pre_compaction_messages exc q ?ix = Inl (ReplayError msg)"
    using pre_compaction_stops [OF assms] by blast
  then have "check_rebuilding exc q ?ix = Inr (0, [msg])" by (simp add: check_rebuilding_def caught_def)
  moreover have "\<exists>errors. check_summary_entry q ?ix = Inr errors"
  proof -
    obtain e1 where "e1 \<in> set es" "summary_stored e1 rid (hi_message item) (inside c 0 (hm_request_items m))"
      "qe_summary_retained_entry_id q = Some (re_entry_id e1)"
      using q(2) unfolding compacting_request_def by blast
    moreover have "distinct (map re_entry_id es)" using q(1) by (simp only: recorded_request_def)
    ultimately show ?thesis
      by (simp add: check_summary_entry_def index_found summary_stored_def)
  qed
  ultimately show ?thesis
    using active by (auto simp: verify_request_context_entry_def Let_def recorded_selected [OF q(1)])
qed
subsection \<open>Runs\<close>

lemma run_recorded:
  assumes "list_all message_wf msgs" and "list_all storable es" and "list_all storable fs"
    and m: "m = run_events (history_step env validate) es (start_history env msgs (Some files))"
  shows "\<exists>snap t' s' m' items.
    prepare_request_context env validate caps mode l reply n (t, s, m) = Inr (snap, t', s', m') \<and>
    sn_selected_messages snap = map hi_message items \<and>
    recorded_request (log_of (run_events (history_step env validate) fs m')) m items
      (fst (append_snapshot clock task n snap x w)) \<and>
    (plain_request m items (fst (append_snapshot clock task n snap x w)) \<or>
     (\<exists>c item rid. compacting_request (log_of (run_events (history_step env validate) fs m')) m items
        (fst (append_snapshot clock task n snap x w)) c item rid))"
proof -
  have inv: "logged_inv m"
    unfolding m by (intro logged.run_inv guarded_list_all start_history_logged assms)
  obtain p where p: "replaceable m p" "replayable (cp_compaction_artifact p) (cp_synthetic_summary_message p)"
    "prepare_request_context env validate caps mode l reply n (t, s, m) =
       Inr (fst (snapshot_from_plan env p l n m),
            note_context_result (fst (snapshot_from_plan env p l n m)) (lim_context_max_tokens l) t,
            apply_context_selection_result (fst (snapshot_from_plan env p l n m)) s,
            snd (snapshot_from_plan env p l n m))"
    using prepared_plan by blast
  have inv': "logged_inv (snd (snapshot_from_plan env p l n m))"
    using snapshot_from_plan_logged [OF inv p(1,2)] by blast
  have inv'': "logged_inv (run_events (history_step env validate) fs (snd (snapshot_from_plan env p l n m)))"
    by (intro logged.run_inv guarded_list_all assms inv')
  have later: "prefix (log_of (snd (snapshot_from_plan env p l n m)))
      (log_of (run_events (history_step env validate) fs (snd (snapshot_from_plan env p l n m))))"
    by (intro logged.run_le guarded_list_all assms inv')
  show ?thesis
    using snapshot_recorded [OF inv p(1,2) later logged_distinct [OF inv''] refl] p(3)
    by (simp add: append_snapshot_def Let_def)
qed
lemma append_snapshot_entry:
  "qe_replacement_history_active (fst (append_snapshot clock task n snap x w)) = sn_replacement_history_active snap"
  "qe_replacement_history_record_id (fst (append_snapshot clock task n snap x w)) = sn_replacement_history_record_id snap"
  by (simp_all add: append_snapshot_def context_entry_def Let_def)

lemma compacting_active:
  assumes "recorded_request es m items q" and "compacting_request es m items q c item rid"
  shows "qe_replacement_history_active q"
proof -
  have "item \<in> set items" "hi_item_kind item = ''replacement''"
    using assms(2) item_replaced unfolding compacting_request_def by blast+
  then show ?thesis using assms(1) unfolding recorded_request_def list_ex_iff by blast
qed

text \<open>What replaying a recorded request gives: the request, and what was before its compaction.\<close>

lemma recorded_replay:
  assumes q: "recorded_request es m items q"
    and kind: "plain_request m items q \<or> (\<exists>c item rid. compacting_request es m items q c item rid)"
  shows "reconstruct_selected_messages exc q (build_retained_entry_index es) = Inr (map hi_message items) \<and>
    (if \<not> qe_replacement_history_active q
     then reconstruct_pre_compaction_messages exc q (build_retained_entry_index es) = Inr (map hi_message items)
     else if qe_replacement_history_record_id q = None
     then reconstruct_pre_compaction_messages exc q (build_retained_entry_index es) =
       value_error ''replacement history is active but summary_retained_entry_id is missing''
     else if hm_replacement_history m = []
     then reconstruct_pre_compaction_messages exc q (build_retained_entry_index es) =
         Inr (map hi_message (hm_request_items m)) \<and>
       reconstruct_post_compaction_messages_from_pre_compaction exc q (build_retained_entry_index es) =
         Inr (map hi_message items)
     else \<exists>msg. reconstruct_pre_compaction_messages exc q (build_retained_entry_index es) = Inl (ReplayError msg))"
  using kind
proof
  assume "plain_request m items q"
  then show ?thesis
    by (simp add: recorded_selected(1) [OF q] plain_request_def reconstruct_pre_compaction_messages_def
        summary_entry_of_def value_error_def)
next
  assume "\<exists>c item rid. compacting_request es m items q c item rid"
  then obtain c item rid where c: "compacting_request es m items q c item rid" by blast
  note active = compacting_active [OF q c]
  have rid: "qe_replacement_history_record_id q = Some rid" "items = replace_compacted c item False 0 (hm_request_items m)"
    using c unfolding compacting_request_def by blast+
  show ?thesis
  proof (cases "hm_replacement_history m = []")
    case True
    note first = compacted_first [OF q c True]
    show ?thesis
      using active True pre_compaction_replay [OF first] post_compaction_replay [OF first]
      by (simp add: recorded_selected(1) [OF q] rid(1) flip: rid(2))
  next
    case False
    from pre_compaction_stops [OF q c False active, of exc] active False show ?thesis
      by (simp add: recorded_selected(1) [OF q] rid(1))
  qed
qed

lemma recorded_verified:
  assumes q: "recorded_request es m items q"
    and kind: "plain_request m items q \<or> (\<exists>c item rid. compacting_request es m items q c item rid)"
  shows "\<exists>rep. verify_request_context_entry exc q (build_retained_entry_index es) = Inr rep \<and>
    hr_ok rep = (if qe_replacement_history_active q
      then qe_replacement_history_record_id q \<noteq> None \<and> hm_replacement_history m = [] else True)"
  using kind
proof
  assume p: "plain_request m items q"
  show ?thesis
  proof (cases "qe_replacement_history_active q")
    case True
    with verify_unnamed [OF q p, of exc] p show ?thesis by (auto simp: plain_request_def)
  next
    case False
    with verify_inactive [OF q p, of exc] show ?thesis by simp
  qed
next
  assume "\<exists>c item rid. compacting_request es m items q c item rid"
  then obtain c item rid where c: "compacting_request es m items q c item rid" by blast
  have rid: "qe_replacement_history_record_id q = Some rid"
    using c unfolding compacting_request_def by blast
  show ?thesis
    using verify_first [OF q c, of exc] verify_later [OF q c _ compacting_active [OF q c], of exc] rid
      compacting_active [OF q c]
    by (cases "hm_replacement_history m = []") auto
qed

lemma turns_storable: "list_all message_wf (turns_history k)" "storable (HSync (turns_history k) n)"
  by (simp_all add: storable_def turns_history_def list_all_iff plain_message_def message_wf_def
      Message_model_dump_def opt_str_def)

text \<open>C30: the two logs of a run hold its requests: after any later events, the entry of a request and
  the index of the retained history give back the messages that were sent and, for the first compaction
  of a run, the messages before it; what came before a later compaction is never found, and a request
  that carries an earlier summary without a compaction of its own is refused.\<close>

theorem stored_requests_replay:
  assumes "list_all message_wf msgs" and "list_all storable es" and "list_all storable fs"
    and m: "m = run_events (history_step env validate) es (start_history env msgs (Some files))"
  shows "case prepare_request_context env validate caps mode l reply n (t, s, m) of Inl e \<Rightarrow> False
    | Inr (snap, t', s', m') \<Rightarrow>
        let q = fst (append_snapshot clock task n snap x w);
            index = build_retained_entry_index (log_of (run_events (history_step env validate) fs m'))
        in reconstruct_selected_messages exc q index = Inr (sn_selected_messages snap) \<and>
           (if \<not> sn_replacement_history_active snap
            then reconstruct_pre_compaction_messages exc q index = Inr (sn_selected_messages snap)
            else if sn_replacement_history_record_id snap = None
            then reconstruct_pre_compaction_messages exc q index =
              value_error ''replacement history is active but summary_retained_entry_id is missing''
            else if hm_replacement_history m = []
            then reconstruct_pre_compaction_messages exc q index = Inr (map hi_message (hm_request_items m)) \<and>
              reconstruct_post_compaction_messages_from_pre_compaction exc q index =
                Inr (sn_selected_messages snap)
            else \<exists>msg. reconstruct_pre_compaction_messages exc q index = Inl (ReplayError msg))"
  using run_recorded [OF assms, of caps mode l reply n t s clock task x w] recorded_replay [of _ m _ _ exc]
  by (fastforce simp: append_snapshot_entry)

theorem stored_requests_replay_witness:
  "let step = history_step plain_env (\<lambda>_. None); fs = [HSync (turns_history 5) (Some 6)];
       m = run_events step [] (start_history plain_env (turns_history 4) (Some (0, ''run'', ''task'', ''/w'')));
       t = new_turn_state 5 10 (build_context_selection [] [] [] (message_limit 8) [] False None 0)
   in list_all message_wf (turns_history 4) \<and> list_all storable fs \<and>
     (case prepare_request_context plain_env (\<lambda>_. None) able_client CPM_DETERMINISTIC_COMPACTION
         (message_limit 8) (ClientReplied compaction_reply) 5 (t, issue_session, m) of Inl e \<Rightarrow> False
      | Inr (snap, t', s', m') \<Rightarrow>
          let q = fst (append_snapshot int ''task'' 5 snap (Some 8) (RequestContextWriter_create 0 ''run'' ''task'' ''/w''));
              index = build_retained_entry_index (log_of (run_events step fs m'))
          in reconstruct_selected_messages (\<lambda>_. ''invalid'') q index = Inr (sn_selected_messages snap) \<and>
           (if \<not> sn_replacement_history_active snap
            then reconstruct_pre_compaction_messages (\<lambda>_. ''invalid'') q index = Inr (sn_selected_messages snap)
            else if sn_replacement_history_record_id snap = None
            then reconstruct_pre_compaction_messages (\<lambda>_. ''invalid'') q index =
              value_error ''replacement history is active but summary_retained_entry_id is missing''
            else if hm_replacement_history m = []
            then reconstruct_pre_compaction_messages (\<lambda>_. ''invalid'') q index = Inr (map hi_message (hm_request_items m)) \<and>
              reconstruct_post_compaction_messages_from_pre_compaction (\<lambda>_. ''invalid'') q index =
                Inr (sn_selected_messages snap)
            else \<exists>msg. reconstruct_pre_compaction_messages (\<lambda>_. ''invalid'') q index = Inl (ReplayError msg)))"
  unfolding Let_def
  by (intro conjI stored_requests_replay [unfolded Let_def, where es = "[]" and msgs = "turns_history 4" and files = "(0, ''run'', ''task'', ''/w'')" and
      fs = "[HSync (turns_history 5) (Some 6)]", OF turns_storable(1) _ _ refl]) (simp_all add: turns_storable)

text \<open>C31: the verification of an entry never fails, and its verdict on the logs of a correct run is known:
  every request is accepted while no summary is in it, a first compaction is accepted, and every
  request that carries the summary of an earlier one is reported as inconsistent.\<close>

theorem verification_verdicts:
  assumes "list_all message_wf msgs" and "list_all storable es" and "list_all storable fs"
    and m: "m = run_events (history_step env validate) es (start_history env msgs (Some files))"
  shows "case prepare_request_context env validate caps mode l reply n (t, s, m) of Inl e \<Rightarrow> False
    | Inr (snap, t', s', m') \<Rightarrow>
        case verify_request_context_entry exc (fst (append_snapshot clock task n snap x w))
          (build_retained_entry_index (log_of (run_events (history_step env validate) fs m'))) of
          Inl e \<Rightarrow> False
        | Inr report \<Rightarrow> hr_ok report =
            (if sn_replacement_history_active snap
             then sn_replacement_history_record_id snap \<noteq> None \<and> hm_replacement_history m = [] else True)"
  using run_recorded [OF assms, of caps mode l reply n t s clock task x w] recorded_verified [of _ m _ _ exc]
  by (fastforce simp: append_snapshot_entry)

theorem verification_verdicts_witness:
  "let step = history_step plain_env (\<lambda>_. None); fs = [HSync (turns_history 5) (Some 6)];
       m = run_events step [] (start_history plain_env (turns_history 4) (Some (0, ''run'', ''task'', ''/w'')));
       t = new_turn_state 5 10 (build_context_selection [] [] [] (message_limit 8) [] False None 0)
   in list_all message_wf (turns_history 4) \<and> list_all storable fs \<and>
     (case prepare_request_context plain_env (\<lambda>_. None) able_client CPM_DETERMINISTIC_COMPACTION
         (message_limit 8) (ClientReplied compaction_reply) 5 (t, issue_session, m) of Inl e \<Rightarrow> False
      | Inr (snap, t', s', m') \<Rightarrow>
          (case verify_request_context_entry (\<lambda>_. ''invalid'')
              (fst (append_snapshot int ''task'' 5 snap (Some 8) (RequestContextWriter_create 0 ''run'' ''task'' ''/w'')))
              (build_retained_entry_index (log_of (run_events step fs m'))) of
             Inl e \<Rightarrow> False
           | Inr report \<Rightarrow> hr_ok report = (if sn_replacement_history_active snap
               then sn_replacement_history_record_id snap \<noteq> None \<and> hm_replacement_history m = [] else True)))"
  unfolding Let_def
  by (intro conjI verification_verdicts [where es = "[]" and msgs = "turns_history 4" and files = "(0, ''run'', ''task'', ''/w'')" and
      fs = "[HSync (turns_history 5) (Some 6)]", OF turns_storable(1) _ _ refl]) (simp_all add: turns_storable)

end
