(* ===== verification/History_Chain_Properties.thy ===== *)
theory History_Chain_Properties
  imports History_Reconciliation "HOL-Library.Multiset"
begin

section \<open>The chain of compactions: the laws\<close>

text \<open>
  The bundle answers questions about its order record by record (\<open>get_predecessor\<close>,
  \<open>get_successor\<close>, each with its own loop); the chain report computes all links at once from
  positions.  Both agree, and both follow the order of turns.
\<close>

lemma before_record_nth:
  assumes "distinct (map hc_record_id rs)" and "i < length rs"
  shows "before_record (hc_record_id (rs ! i)) p rs = (if i = 0 then p else Some (rs ! (i - 1)))"
  using assms
proof (induction rs arbitrary: i p)
  case (Cons r rs)
  show ?case
  proof (cases i)
    case (Suc j)
    with Cons.prems have j: "j < length rs" by simp
    moreover have "hc_record_id r \<noteq> hc_record_id (rs ! j)"
      using Cons.prems(1) imageI [OF nth_mem [OF j], of hc_record_id] by auto
    ultimately have "hc_record_id r \<noteq> hc_record_id (rs ! j)" "j < length rs" by simp_all
    with Suc Cons show ?thesis by (auto simp: nth_Cons')
  qed simp
qed simp

lemma after_record_nth:
  assumes "distinct (map hc_record_id rs)" and "i < length rs"
  shows "after_record (hc_record_id (rs ! i)) rs = (if i + 1 < length rs then Some (rs ! (i + 1)) else None)"
  using assms
proof (induction rs arbitrary: i)
  case (Cons r rs)
  show ?case
  proof (cases i)
    case 0
    then show ?thesis by (cases rs) simp_all
  next
    case (Suc j)
    with Cons.prems have j: "j < length rs" by simp
    moreover have "hc_record_id r \<noteq> hc_record_id (rs ! j)"
      using Cons.prems(1) imageI [OF nth_mem [OF j], of hc_record_id] by auto
    ultimately have "hc_record_id r \<noteq> hc_record_id (rs ! j)" "j < length rs" by simp_all
    with Suc Cons show ?thesis by auto
  qed
qed simp

lemma find_distinct:
  assumes "distinct (map f xs)" and "x \<in> set xs"
  shows "find (\<lambda>y. f y = f x) xs = Some x"
  using assms by (induction xs) (auto simp: rev_image_eqI)

lemma ordered_records_set [simp]: "set (ordered_records b) = set (rb_records b)"
  by (simp add: ordered_records_def)

lemma record_ids_mset: "mset (record_ids b) = mset (map hc_record_id (rb_records b))"
  unfolding record_ids_def ordered_records_def by (simp only: mset_map mset_sort)

lemma record_ids_distinct: "distinct (record_ids b) \<longleftrightarrow> distinct (map hc_record_id (rb_records b))"
  using record_ids_mset by (rule mset_eq_imp_distinct_iff)

definition node_links :: "HistoryReconciliationBundle \<Rightarrow> CompactionChainNode \<Rightarrow> bool" where
  "node_links b node \<longleftrightarrow>
     cn_predecessor_record_id node = map_option hc_record_id (get_predecessor b (cn_record_id node)) \<and>
     cn_successor_record_id node = map_option hc_record_id (get_successor b (cn_record_id node)) \<and>
     map_option hc_turn_index (get_record b (cn_record_id node)) = Some (cn_turn_index node)"

lemma sorted_turns: "sorted (map hc_turn_index (ordered_records b))"
proof -
  have "sorted (map (\<lambda>r. (hc_turn_index r, hc_record_id r)) (ordered_records b))"
    by (simp add: ordered_records_def)
  then show ?thesis by (simp add: sorted_wrt_map less_eq_prod_def) (erule sorted_wrt_mono_rel [rotated], auto)
qed

text \<open>C32: the chain report lists the records of a bundle in the order of their turns, each once, and its
  links are those the bundle gives record by record.\<close>

theorem chain_follows_the_bundle:
  assumes "distinct (record_ids b)"
  shows "let chain = build_compaction_chain_report b
    in cc_ordered_record_ids chain = record_ids b \<and> sorted (cc_ordered_turn_indices chain) \<and>
       mset (cc_ordered_record_ids chain) = mset (map hc_record_id (rb_records b)) \<and>
       cc_ok chain = list_all hc_ok (rb_records b) \<and> list_all (node_links b) (cc_nodes chain)"
proof -
  let ?rs = "ordered_records b"
  have d: "distinct (map hc_record_id ?rs)" "distinct (map hc_record_id (rb_records b))"
    using assms by (simp_all only: record_ids_def [symmetric] record_ids_distinct [symmetric])
  have nodes: "map hc_record_id ?rs = map cn_record_id (map (chain_node ?rs) [0..<length ?rs])"
    "map hc_turn_index ?rs = map cn_turn_index (map (chain_node ?rs) [0..<length ?rs])"
    "map hc_ok ?rs = map cn_ok (map (chain_node ?rs) [0..<length ?rs])"
    by (intro nth_equalityI; simp add: chain_node_def Let_def)+
  have "node_links b (chain_node ?rs i)" if i: "i < length ?rs" for i
  proof -
    have "find (\<lambda>r. hc_record_id r = hc_record_id (?rs ! i)) (rb_records b) = Some (?rs ! i)"
      using find_distinct [OF d(2)] nth_mem [OF i] by simp
    then show ?thesis
      using before_record_nth [OF d(1) i] after_record_nth [OF d(1) i]
      by (simp add: node_links_def chain_node_def Let_def get_predecessor_def get_successor_def get_record_def)
  qed
  then have "list_all (node_links b) (map (chain_node ?rs) [0..<length ?rs])" by (simp add: list_all_length)
  moreover have "list_all cn_ok (map (chain_node ?rs) [0..<length ?rs]) = list_all hc_ok (rb_records b)"
    using arg_cong [OF nodes(3), of "list_all id"] ordered_records_set [of b]
    by (simp add: list_all_iff list.pred_map comp_def)
  moreover have "mset (map hc_record_id ?rs) = mset (map hc_record_id (rb_records b))"
    using record_ids_mset [of b] by (simp only: record_ids_def)
  ultimately show ?thesis
    using sorted_turns [of b]
    by (simp only: build_compaction_chain_report_def Let_def CompactionChainReport.simps nodes(1,2) [symmetric]
        record_ids_def simp_thms)
qed

text \<open>Two records, stored in the order they were not made in.\<close>

definition example_record :: "string \<Rightarrow> int \<Rightarrow> ReplacementHistoryReconciliationRecord" where
  "example_record i t = \<lparr>hc_record_id = i, hc_turn_index = t, hc_request_context_entry_id = ''q'',
     hc_summary_retained_entry_id = None, hc_carried_forward_state_entry_id = None,
     hc_compaction_artifact_entry_id = None, hc_source_retained_entry_ids = [],
     hc_source_trajectory_indices = [], hc_selected_message_count = 0,
     hc_pre_compaction_message_count = 0, hc_selected_message_roles = [],
     hc_pre_compaction_message_roles = [], hc_ok = True, hc_errors = []\<rparr>"

definition example_bundle :: HistoryReconciliationBundle where
  "example_bundle = \<lparr>rb_request_context_log_id = ''r'', rb_retained_history_log_id = ''h'',
     rb_lineage_report = \<lparr>lr_request_context_log_id = ''r'', lr_retained_history_log_id = ''h'',
       lr_replacement_record_count = 2, lr_ok = True, lr_records = []\<rparr>,
     rb_records = [example_record ''b'' 7, example_record ''a'' 3]\<rparr>"

theorem chain_follows_the_bundle_witness:
  "distinct (record_ids example_bundle) \<and>
   (let chain = build_compaction_chain_report example_bundle
    in cc_ordered_record_ids chain = [''a'', ''b''] \<and> cc_ordered_turn_indices chain = [3, 7] \<and>
       map cn_predecessor_record_id (cc_nodes chain) = [None, Some ''a''] \<and>
       list_all (node_links example_bundle) (cc_nodes chain))"
proof -
  have d: "distinct (record_ids example_bundle)" by code_simp
  moreover have "map cn_predecessor_record_id (cc_nodes (build_compaction_chain_report example_bundle)) =
      [None, Some ''a'']" "cc_ordered_turn_indices (build_compaction_chain_report example_bundle) = [3, 7]"
    "record_ids example_bundle = [''a'', ''b'']" by code_simp+
  ultimately show ?thesis using chain_follows_the_bundle [OF d] by (simp only: Let_def simp_thms)
qed

end
