(* ===== verification/Tool_Mutation.thy ===== *)
theory Tool_Mutation
  imports Tool_Spec
begin

section \<open>Mutators of tool views and profile configurations\<close>

text \<open>
  \<open>pycodeagent/mutations\<close>: \<open>name_mutator.py\<close>, \<open>description_mutator.py\<close> and \<open>schema_mutator.py\<close> choose
  one of several candidates by a hash of the seed; \<open>profile_loader.py\<close> builds a profile from a
  configuration and checks the configuration of the mutations.  \<open>SHA-256\<close> is the argument \<open>sha\<close>, from
  a text to the bytes of its digest.  A configuration is what the YAML reader gives: a value of
  \<open>Py_Value\<close>.  The three mutation errors are \<open>ValueError\<close>s and carry their text;
  \<open>InvalidModel\<close> is pydantic's \<open>ValidationError\<close>, \<open>BadAccess\<close> an \<open>AttributeError\<close>, \<open>KeyError\<close> or
  \<open>TypeError\<close> from a value of the wrong type.
\<close>

datatype mutation_error =
    NameMutationError string
  | DescriptionMutationError string
  | SchemaMutationError string
  | ConfigError string
  | InvalidModel
  | BadAccess

subsection \<open>Values of the language\<close>

text \<open>\<open>type(v).__name__\<close>, \<open>len(v) == 0\<close> (numbers have no length), a text in single quotes, and
  \<open>d.get(k, default)\<close>.\<close>

fun py_type_name :: "json \<Rightarrow> string" where
  "py_type_name JNull = ''NoneType''"
| "py_type_name (JBool _) = ''bool''"
| "py_type_name (JInt _) = ''int''"
| "py_type_name (JFloat _ _) = ''float''"
| "py_type_name (JStr _) = ''str''"
| "py_type_name (JList _) = ''list''"
| "py_type_name (JObj _) = ''dict''"

fun py_empty :: "json \<Rightarrow> mutation_error + bool" where
  "py_empty (JStr s) = Inr (s = '''')"
| "py_empty (JList xs) = Inr (xs = [])"
| "py_empty (JObj d) = Inr (d = [])"
| "py_empty _ = Inl BadAccess"

definition quoted :: "string \<Rightarrow> string" where
  "quoted s = CHR 0x27 # s @ [CHR 0x27]"

definition get_default :: "pydict \<Rightarrow> string \<Rightarrow> json \<Rightarrow> json" where
  "get_default d k v = (case map_of d k of None \<Rightarrow> v | Some w \<Rightarrow> w)"

text \<open>\<open>int.from_bytes(b, "big")\<close> and \<open>b.hex()\<close>.\<close>

definition big_endian :: "nat list \<Rightarrow> nat" where
  "big_endian bs = foldl (\<lambda>n b. n * 256 + b) 0 bs"

definition hex_bytes :: "nat list \<Rightarrow> string" where
  "hex_bytes bs = concat (map (\<lambda>b. [hex_digit (b div 16 mod 16), hex_digit (b mod 16)]) bs)"

text \<open>
  \<open>_select_mutated_index\<close> of the three mutators: an index from 1 on, from the first four bytes.
\<close>

definition select_mutated_index :: "(string \<Rightarrow> nat list) \<Rightarrow> int \<Rightarrow> string \<Rightarrow> string \<Rightarrow> nat \<Rightarrow> nat" where
  "select_mutated_index sha seed name axis num_candidates =
     (let non_base_count = num_candidates - 1;
          offset = big_endian (take 4 (sha (py_int_str seed @ '':'' @ name @ '':'' @ axis @ '':mut'')))
            mod non_base_count
      in 1 + offset)"

text \<open>The choice they share: the base without mutation or without alternatives, else the index.\<close>

definition choose_candidate ::
  "(string \<Rightarrow> nat list) \<Rightarrow> int \<Rightarrow> string \<Rightarrow> string \<Rightarrow> bool \<Rightarrow> 'a list \<Rightarrow> 'a" where
  "choose_candidate sha seed name axis mutate candidates =
     (if \<not> mutate then candidates ! 0
      else if length candidates \<le> 1 then candidates ! 0
      else candidates ! select_mutated_index sha seed name axis (length candidates))"

subsection \<open>Names\<close>

text \<open>A list of candidates, from whatever was given: nothing or nothing in it means the base only.\<close>

definition candidate_list ::
  "(string \<Rightarrow> mutation_error) \<Rightarrow> string \<Rightarrow> json \<Rightarrow> mutation_error + json list" where
  "candidate_list err base candidates =
     (case candidates of
        JNull \<Rightarrow> Inr [JStr base]
      | _ \<Rightarrow> res_bind (py_empty candidates) (\<lambda>empty.
          if empty then Inr [JStr base]
          else case candidates of
                 JList cs \<Rightarrow> Inr cs
               | _ \<Rightarrow> Inl (err (''candidates must be a list, got '' @ py_type_name candidates))))"

text \<open>\<open>_validate_candidates\<close>: the candidates as texts, or the error of the first that is none.\<close>

fun validate_candidates_from ::
  "(string \<Rightarrow> mutation_error) \<Rightarrow> (string \<Rightarrow> bool) \<Rightarrow> string \<Rightarrow> string \<Rightarrow> nat \<Rightarrow> json list
    \<Rightarrow> mutation_error + string list" where
  "validate_candidates_from err ok what suffix i [] = Inr []"
| "validate_candidates_from err ok what suffix i (c # cs) =
     (case c of
        JStr s \<Rightarrow>
          if ok s then res_bind (validate_candidates_from err ok what suffix (Suc i) cs) (\<lambda>ss. Inr (s # ss))
          else Inl (err (''candidates['' @ py_int_str (int i) @ ''] must be a '' @ what @ '', got '' @ py_repr c @ suffix))
      | _ \<Rightarrow> Inl (err (''candidates['' @ py_int_str (int i) @ ''] must be a '' @ what @ '', got '' @ py_repr c @ suffix)))"

definition mutate_name ::
  "(string \<Rightarrow> nat list) \<Rightarrow> string \<Rightarrow> json \<Rightarrow> int \<Rightarrow> bool \<Rightarrow> mutation_error + string" where
  "mutate_name sha canonical_name candidates seed mutate =
     (if canonical_name = ''''
      then Inl (NameMutationError (''canonical_name must be a non-empty string, got '' @ py_repr_str canonical_name))
      else
        res_bind (candidate_list NameMutationError canonical_name candidates) (\<lambda>cs.
        res_bind (validate_candidates_from NameMutationError (\<lambda>s. s \<noteq> '''') ''non-empty string''
            ('' (canonical_name='' @ py_repr_str canonical_name @ '')'') 0 cs) (\<lambda>names.
          Inr (choose_candidate sha seed canonical_name ''name'' mutate names))))"

subsection \<open>Descriptions\<close>

definition mutate_description ::
  "(string \<Rightarrow> nat list) \<Rightarrow> string \<Rightarrow> json \<Rightarrow> int \<Rightarrow> bool \<Rightarrow> string \<Rightarrow> mutation_error + string" where
  "mutate_description sha base_description candidates seed mutate tool_name =
     res_bind (candidate_list DescriptionMutationError base_description candidates) (\<lambda>cs.
     res_bind (validate_candidates_from DescriptionMutationError (\<lambda>s. True) ''string''
         ('' (tool_name='' @ py_repr_str tool_name @ '')'') 0 cs) (\<lambda>texts.
       Inr (choose_candidate sha seed tool_name ''desc'' mutate texts)))"

subsection \<open>Schemas\<close>

definition schema_variant_categories :: "string list" where
  "schema_variant_categories = [''argument_rename'', ''schema_flat_to_nested'']"

record SchemaCandidate =
  sc_input_schema :: pydict
  sc_adapter :: ToolAdapter
  sc_category :: "string option"
  sc_variant_id :: "string option"

text \<open>\<open>ToolAdapter(exposed_to_canonical=..., defaults=...)\<close>: a dictionary of texts and a dictionary.\<close>

definition text_dict :: "json \<Rightarrow> mutation_error + (string \<times> string) list" where
  "text_dict v =
     (case v of
        JObj d \<Rightarrow> if list_all (\<lambda>(k, w). case w of JStr _ \<Rightarrow> True | _ \<Rightarrow> False) d
          then Inr (map (\<lambda>(k, w). (k, case w of JStr s \<Rightarrow> s | _ \<Rightarrow> '''')) d) else Inl InvalidModel
      | _ \<Rightarrow> Inl InvalidModel)"

definition ToolAdapter_of :: "json \<Rightarrow> json \<Rightarrow> mutation_error + ToolAdapter" where
  "ToolAdapter_of exposed_to_canonical defaults =
     res_bind (text_dict exposed_to_canonical) (\<lambda>m.
       case defaults of
         JObj d \<Rightarrow> Inr \<lparr>ta_exposed_to_canonical = m, ta_defaults = d\<rparr>
       | _ \<Rightarrow> Inl InvalidModel)"

text \<open>A category that is a list or a dictionary cannot be looked up in the set.\<close>

definition check_category :: "json \<Rightarrow> mutation_error + string option" where
  "check_category category =
     (case category of
        JNull \<Rightarrow> Inr None
      | JList _ \<Rightarrow> Inl BadAccess
      | JObj _ \<Rightarrow> Inl BadAccess
      | JStr s \<Rightarrow>
          if s \<in> set schema_variant_categories then Inr (Some s)
          else Inl (SchemaMutationError (''category must be one of '' @ py_repr_strs schema_variant_categories
                 @ '' or None, got '' @ py_repr category))
      | _ \<Rightarrow> Inl (SchemaMutationError (''category must be one of '' @ py_repr_strs schema_variant_categories
                 @ '' or None, got '' @ py_repr category)))"

text \<open>The constructor with an adapter that is absent or a dictionary; \<open>SchemaCandidate.from_dict\<close>.\<close>

definition adapter_argument :: "json \<Rightarrow> mutation_error + ToolAdapter" where
  "adapter_argument adapter =
     (case adapter of
        JNull \<Rightarrow> Inr empty_adapter
      | JObj d \<Rightarrow> ToolAdapter_of (get_default d ''exposed_to_canonical'' (JObj [])) (get_default d ''defaults'' (JObj []))
      | _ \<Rightarrow> Inl (SchemaMutationError (''adapter must be ToolAdapter, dict, or None, got '' @ py_type_name adapter)))"

definition new_schema_candidate ::
  "pydict \<Rightarrow> json \<Rightarrow> json \<Rightarrow> string option \<Rightarrow> mutation_error + SchemaCandidate" where
  "new_schema_candidate input_schema adapter category variant_id =
     res_bind (check_category category) (\<lambda>c.
     res_bind (adapter_argument adapter) (\<lambda>a.
       Inr \<lparr>sc_input_schema = input_schema, sc_adapter = a, sc_category = c, sc_variant_id = variant_id\<rparr>))"

definition SchemaCandidate_from_dict :: "json \<Rightarrow> mutation_error + SchemaCandidate" where
  "SchemaCandidate_from_dict data =
     (case data of
        JObj d \<Rightarrow>
          (case dict_get d ''input_schema'' of
             JNull \<Rightarrow> Inl (SchemaMutationError (''Schema candidate must have '' @ quoted ''input_schema'' @ '' key''))
           | JObj s \<Rightarrow> new_schema_candidate s (dict_get d ''adapter'') (dict_get d ''category'')
               (case dict_get d ''variant_id'' of JNull \<Rightarrow> None | v \<Rightarrow> Some (py_str v))
           | v \<Rightarrow> Inl (SchemaMutationError (''input_schema must be a dict, got '' @ py_type_name v)))
      | _ \<Rightarrow> Inl (SchemaMutationError (''Schema candidate must be a dict, got '' @ py_type_name data)))"

text \<open>A candidate that is given to the mutator: an object already, or a value to make one from.\<close>

datatype schema_argument = Candidate SchemaCandidate | RawCandidate json

fun normalize_candidates_from ::
  "string \<Rightarrow> nat \<Rightarrow> schema_argument list \<Rightarrow> mutation_error + SchemaCandidate list" where
  "normalize_candidates_from tool_name i [] = Inr []"
| "normalize_candidates_from tool_name i (c # cs) =
     res_bind
       (case c of
          Candidate s \<Rightarrow> Inr s
        | RawCandidate (JObj d) \<Rightarrow>
            (case SchemaCandidate_from_dict (JObj d) of
               Inl (SchemaMutationError e) \<Rightarrow> Inl (SchemaMutationError (''candidates['' @ py_int_str (int i)
                 @ ''] is invalid for tool '' @ py_repr_str tool_name @ '': '' @ e))
             | r \<Rightarrow> r)
        | RawCandidate v \<Rightarrow> Inl (SchemaMutationError (''candidates['' @ py_int_str (int i)
            @ ''] must be SchemaCandidate or dict, got '' @ py_type_name v
            @ '' (tool_name='' @ py_repr_str tool_name @ '')'')))
       (\<lambda>s. res_bind (normalize_candidates_from tool_name (Suc i) cs) (\<lambda>ss. Inr (s # ss)))"

definition mutate_schema ::
  "(string \<Rightarrow> nat list) \<Rightarrow> pydict \<Rightarrow> schema_argument list option \<Rightarrow> int \<Rightarrow> bool \<Rightarrow> string
    \<Rightarrow> mutation_error + pydict \<times> ToolAdapter" where
  "mutate_schema sha base_schema candidates seed mutate tool_name =
     (let given = (case candidates of None \<Rightarrow> [] | Some cs \<Rightarrow> cs);
          cs = (if given = [] then [Candidate \<lparr>sc_input_schema = base_schema, sc_adapter = empty_adapter,
                  sc_category = None, sc_variant_id = None\<rparr>] else given)
      in res_bind (normalize_candidates_from tool_name 0 cs) (\<lambda>normalized.
           let chosen = choose_candidate sha seed tool_name ''schema'' mutate normalized
           in Inr (sc_input_schema chosen, sc_adapter chosen)))"

subsection \<open>Configurations of profiles\<close>

definition config_error :: "string \<Rightarrow> mutation_error + 'a" where
  "config_error m = Inl (ConfigError m)"

text \<open>\<open>not x or not isinstance(x, str)\<close>, refused; the text otherwise.\<close>

definition nonempty_text :: "json \<Rightarrow> string \<Rightarrow> mutation_error + string" where
  "nonempty_text v message =
     (case v of JStr s \<Rightarrow> if s = '''' then config_error message else Inr s | _ \<Rightarrow> config_error message)"

definition coerce_tool_contract_kind :: "json \<Rightarrow> mutation_error + ToolContractKind" where
  "coerce_tool_contract_kind raw_kind =
     (case raw_kind of
        JNull \<Rightarrow> Inr FUNCTION
      | _ \<Rightarrow>
          (case List.find (\<lambda>k. ToolContractKind_value k = py_str raw_kind) [FUNCTION, FREEFORM] of
             Some k \<Rightarrow> Inr k
           | None \<Rightarrow> config_error (py_repr_str (py_str raw_kind) @ '' is not a valid ToolContractKind'')))"

definition entry_schema :: "string \<Rightarrow> ToolContractKind \<Rightarrow> pydict \<Rightarrow> mutation_error + pydict" where
  "entry_schema at_tool kind entry =
     (let input_schema = get_default entry ''input_schema'' (JObj [])
      in if kind = FUNCTION then
           (case input_schema of
              JObj s \<Rightarrow> Inr s | _ \<Rightarrow> config_error (at_tool @ ''.input_schema must be a mapping''))
         else
           res_bind (case dict_get entry ''input_format'' of
               JNull \<Rightarrow> Inr () | JObj _ \<Rightarrow> Inr ()
             | _ \<Rightarrow> config_error (at_tool @ ''.input_format must be a mapping'')) (\<lambda>_.
             case input_schema of
               JNull \<Rightarrow> Inr [] | JObj s \<Rightarrow> Inr s
             | _ \<Rightarrow> config_error (at_tool @ ''.input_schema must be a mapping when present'')))"

text \<open>The view of an entry (its description and version are texts or the model does not validate).\<close>

definition entry_view :: "string \<Rightarrow> pydict \<Rightarrow> mutation_error + ToolView" where
  "entry_view at_tool entry =
     res_bind (coerce_tool_contract_kind (dict_get entry ''kind'')) (\<lambda>kind.
     res_bind (nonempty_text (dict_get entry ''canonical'')
         (at_tool @ '' must have a string '' @ quoted ''canonical'' @ '' name'')) (\<lambda>canonical.
     res_bind (nonempty_text (dict_get entry ''exposed_name'')
         (at_tool @ '' must have a string '' @ quoted ''exposed_name'')) (\<lambda>exposed.
     res_bind (entry_schema at_tool kind entry) (\<lambda>input_schema.
       case (get_default entry ''description'' (JStr ''''), get_default entry ''version'' (JStr ''default'')) of
         (JStr description, JStr version) \<Rightarrow>
           Inr \<lparr>tv_canonical_name = canonical, tv_exposed_name = exposed, tv_description = description,
             tv_input_schema = input_schema, tv_contract_kind = kind,
             tv_input_format = (case dict_get entry ''input_format'' of JObj f \<Rightarrow> Some f | _ \<Rightarrow> None),
             tv_version = version, tv_metadata = []\<rparr>
       | _ \<Rightarrow> Inl InvalidModel))))"

definition entry_adapter :: "string \<Rightarrow> pydict \<Rightarrow> mutation_error + ToolAdapter" where
  "entry_adapter at_tool entry =
     (case get_default entry ''adapter'' (JObj []) of
        JObj d \<Rightarrow>
          (case (get_default d ''exposed_to_canonical'' (JObj []), get_default d ''defaults'' (JObj [])) of
             (JObj m, JObj ds) \<Rightarrow> ToolAdapter_of (JObj m) (JObj ds)
           | (JObj m, _) \<Rightarrow> config_error (at_tool @ ''.adapter.defaults must be a mapping'')
           | _ \<Rightarrow> config_error (at_tool @ ''.adapter.exposed_to_canonical must be a mapping''))
      | _ \<Rightarrow> Inr empty_adapter)"

fun build_entries ::
  "nat \<Rightarrow> json list \<Rightarrow> mutation_error + (ToolView \<times> ToolAdapter) list" where
  "build_entries i [] = Inr []"
| "build_entries i (entry # entries) =
     (let at_tool = ''tools['' @ py_int_str (int i) @ '']''
      in case entry of
           JObj d \<Rightarrow>
             res_bind (entry_view at_tool d) (\<lambda>view.
             res_bind (entry_adapter at_tool d) (\<lambda>adapter.
             res_bind (build_entries (Suc i) entries) (\<lambda>rest. Inr ((view, adapter) # rest))))
         | _ \<Rightarrow> config_error (at_tool @ '' must be a mapping''))"

definition validate_and_build_profile :: "pydict \<Rightarrow> mutation_error + ToolProfile" where
  "validate_and_build_profile data =
     res_bind (nonempty_text (dict_get data ''profile_id'')
         (''Config must have a string '' @ quoted ''profile_id'')) (\<lambda>profile_id.
       case dict_get data ''tools'' of
         JList raw_tools \<Rightarrow>
           res_bind (build_entries 0 raw_tools) (\<lambda>entries.
             Inr \<lparr>tp_profile_id = profile_id, tp_tools = map fst entries,
               tp_adapters = fold (\<lambda>(view, adapter). AList.update (tv_exposed_name view) adapter) entries [],
               tp_metadata = []\<rparr>)
       | _ \<Rightarrow> config_error (''Config must have a '' @ quoted ''tools'' @ '' list''))"

definition load_tool_profile_from_dict :: "json \<Rightarrow> mutation_error + ToolProfile" where
  "load_tool_profile_from_dict data =
     (case data of
        JObj d \<Rightarrow> validate_and_build_profile d
      | _ \<Rightarrow> config_error (''Config must be a mapping, got '' @ py_type_name data))"

subsection \<open>Configurations of mutations\<close>

definition mutation_config_schema_version :: int where
  "mutation_config_schema_version = 1"

definition validate_family :: "string \<times> json \<Rightarrow> mutation_error + unit" where
  "validate_family fc =
     (case fc of (family, family_config) \<Rightarrow>
        if family = '''' then config_error ''Mutation config family names must be non-empty strings''
        else case family_config of
               JObj d \<Rightarrow>
                 (case dict_get d ''tool_variants'' of
                    JObj _ \<Rightarrow> Inr ()
                  | _ \<Rightarrow> config_error (''Mutation config families.'' @ py_repr_str family
                      @ ''.tool_variants must be a mapping''))
             | _ \<Rightarrow> config_error (''Mutation config families.'' @ py_repr_str family @ '' must be a mapping''))"

fun validate_families :: "(string \<times> json) list \<Rightarrow> mutation_error + unit" where
  "validate_families [] = Inr ()"
| "validate_families (f # fs) = res_bind (validate_family f) (\<lambda>_. validate_families fs)"

definition validate_mutation_config :: "pydict \<Rightarrow> mutation_error + pydict" where
  "validate_mutation_config data =
     (let version = dict_get data ''mutation_config_version'';
          tool_variants = dict_get data ''tool_variants'';
          families = dict_get data ''families''
      in if \<not> py_eq version (JInt mutation_config_schema_version)
         then config_error (''Mutation config must declare mutation_config_version=''
           @ py_int_str mutation_config_schema_version @ ''; got '' @ py_repr version)
         else
           res_bind (nonempty_text (dict_get data ''profile_id_prefix'')
               (''Mutation config must have a non-empty string '' @ quoted ''profile_id_prefix'')) (\<lambda>_.
             if tool_variants = JNull \<and> families = JNull
             then config_error (''Mutation config must define '' @ quoted ''tool_variants'' @ '' or ''
               @ quoted ''families'')
             else
               res_bind (case tool_variants of JNull \<Rightarrow> Inr () | JObj _ \<Rightarrow> Inr ()
                 | _ \<Rightarrow> config_error (''Mutation config '' @ quoted ''tool_variants'' @ '' must be a mapping'')) (\<lambda>_.
               res_bind (case families of
                   JNull \<Rightarrow> Inr ()
                 | JObj (f # fs) \<Rightarrow> validate_families (f # fs)
                 | _ \<Rightarrow> config_error (''Mutation config '' @ quoted ''families'' @ '' must be a non-empty mapping'')) (\<lambda>_.
                 Inr data))))"

text \<open>A configuration file: what the reader gave for it.\<close>

definition load_mutation_config :: "json \<Rightarrow> mutation_error + pydict" where
  "load_mutation_config content =
     (case content of
        JObj d \<Rightarrow> validate_mutation_config d
      | _ \<Rightarrow> config_error (''Mutation config must be a mapping, got '' @ py_type_name content))"

end
