(* ===== verification/Profile_Sampler.thy ===== *)
theory Profile_Sampler
  imports Tool_Mutation "HOL-Library.Product_Lexorder"
begin

section \<open>Sampling of tool profiles\<close>

text \<open>
  \<open>pycodeagent/mutations/profile_sampler.py\<close>: from a base profile and the configuration of the
  mutations, the profile of a mode and a seed; and \<open>tools/profile_factory.py\<close>, the base profile of a
  native family of canonical tools.  A configuration never holds \<open>SchemaCandidate\<close> objects, so the
  branches of the sampler for them are not taken.  Fields carry \<open>ms_\<close>, \<open>st_\<close>, \<open>va_\<close> and \<open>ps_\<close>.
\<close>

subsection \<open>Modes\<close>

record mode_spec =
  ms_mutate_name :: bool
  ms_mutate_description :: bool
  ms_mutate_schema :: bool
  ms_schema_category :: "string option"
  ms_reorder_tools :: bool
  ms_mutation_axes :: "string list"
  ms_compat_mode :: "string option"

definition supported_modes :: "string list" where
  "supported_modes = [''base'', ''name_only'', ''description_only'', ''argument_rename'',
     ''schema_flat_to_nested'', ''tool_reorder'', ''schema_only'', ''name_description_schema'']"

definition unchanged_spec :: mode_spec where
  "unchanged_spec = \<lparr>ms_mutate_name = False, ms_mutate_description = False, ms_mutate_schema = False,
     ms_schema_category = None, ms_reorder_tools = False, ms_mutation_axes = [], ms_compat_mode = None\<rparr>"

definition invalid_mode :: "string \<Rightarrow> mutation_error + 'a" where
  "invalid_mode mode = config_error (''Invalid mode '' @ quoted mode @ ''. Must be one of: ''
     @ py_repr_strs (sort supported_modes))"

definition mode_spec_of :: "string \<Rightarrow> mutation_error + mode_spec" where
  "mode_spec_of mode =
     (if mode = ''base'' then Inr unchanged_spec
      else if mode = ''name_only'' then
        Inr (unchanged_spec\<lparr>ms_mutate_name := True, ms_mutation_axes := [''name'']\<rparr>)
      else if mode = ''description_only'' then
        Inr (unchanged_spec\<lparr>ms_mutate_description := True, ms_mutation_axes := [''description'']\<rparr>)
      else if mode = ''argument_rename'' then
        Inr (unchanged_spec\<lparr>ms_mutate_schema := True, ms_schema_category := Some ''argument_rename'',
          ms_mutation_axes := [''argument_rename'']\<rparr>)
      else if mode = ''schema_flat_to_nested'' then
        Inr (unchanged_spec\<lparr>ms_mutate_schema := True, ms_schema_category := Some ''schema_flat_to_nested'',
          ms_mutation_axes := [''schema_flat_to_nested'']\<rparr>)
      else if mode = ''tool_reorder'' then
        Inr (unchanged_spec\<lparr>ms_reorder_tools := True, ms_mutation_axes := [''tool_reorder'']\<rparr>)
      else if mode = ''schema_only'' then
        Inr (unchanged_spec\<lparr>ms_mutate_schema := True, ms_mutation_axes := [''schema''],
          ms_compat_mode := Some ''schema_only''\<rparr>)
      else if mode = ''name_description_schema'' then
        Inr (unchanged_spec\<lparr>ms_mutate_name := True, ms_mutate_description := True, ms_mutate_schema := True,
          ms_mutation_axes := [''name'', ''description'', ''schema''],
          ms_compat_mode := Some ''name_description_schema''\<rparr>)
      else invalid_mode mode)"

subsection \<open>Hashes\<close>

definition nul_joined :: "string list \<Rightarrow> string" where
  "nul_joined parts = py_join [CHR 0x00] parts"

definition stable_variant_id :: "(string \<Rightarrow> nat list) \<Rightarrow> string list \<Rightarrow> string" where
  "stable_variant_id sha parts = hex_bytes (take 4 (sha (nul_joined parts)))"

definition stable_hash_int :: "(string \<Rightarrow> nat list) \<Rightarrow> string list \<Rightarrow> nat" where
  "stable_hash_int sha parts = big_endian (take 8 (sha (nul_joined parts)))"

text \<open>\<open>json.dumps(v, sort_keys=True)\<close>, which escapes what is not ASCII.\<close>

definition json_dumps_ascii :: "json \<Rightarrow> string" where
  "json_dumps_ascii v = concat (map (\<lambda>c. let n = (of_char c :: nat) in
     if n < 128 then [c] else [CHR 0x5C, CHR ''u'', CHR ''0'', CHR ''0'', hex_digit (n div 16), hex_digit (n mod 16)])
     (json_dumps v))"

subsection \<open>Candidates of a tool\<close>

record StringCandidate =
  st_variant_id :: string
  st_value :: string

text \<open>The id and the value of a candidate, when it has the form of one.\<close>

definition string_candidate ::
  "(string \<Rightarrow> nat list) \<Rightarrow> string \<Rightarrow> string \<Rightarrow> nat \<Rightarrow> json \<Rightarrow> StringCandidate option" where
  "string_candidate sha tool_name field_name index candidate =
     (case candidate of
        JStr s \<Rightarrow> Some \<lparr>st_variant_id = tool_name @ ''_'' @ field_name @ ''_'' @ stable_variant_id sha [field_name, s],
          st_value = s\<rparr>
      | JObj d \<Rightarrow>
          (case dict_get d ''value'' of
             JStr s \<Rightarrow> Some \<lparr>st_variant_id = (case dict_get d ''id'' of
                 JNull \<Rightarrow> tool_name @ ''_'' @ field_name @ ''_''
                   @ stable_variant_id sha [field_name, py_int_str (int index), s]
               | i \<Rightarrow> py_str i), st_value = s\<rparr>
           | _ \<Rightarrow> None)
      | _ \<Rightarrow> None)"

fun string_candidates_from ::
  "(string \<Rightarrow> nat list) \<Rightarrow> string \<Rightarrow> string \<Rightarrow> string list \<Rightarrow> nat \<Rightarrow> json list \<Rightarrow> StringCandidate list" where
  "string_candidates_from sha tool_name field_name seen i [] = []"
| "string_candidates_from sha tool_name field_name seen i (c # cs) =
     (case string_candidate sha tool_name field_name i c of
        None \<Rightarrow> string_candidates_from sha tool_name field_name seen (Suc i) cs
      | Some s \<Rightarrow>
          if st_value s \<in> set seen then string_candidates_from sha tool_name field_name seen (Suc i) cs
          else s # string_candidates_from sha tool_name field_name (st_value s # seen) (Suc i) cs)"

definition normalize_string_candidates ::
  "(string \<Rightarrow> nat list) \<Rightarrow> string \<Rightarrow> json \<Rightarrow> string \<Rightarrow> string \<Rightarrow> StringCandidate list" where
  "normalize_string_candidates sha base_value candidates tool_name field_name =
     (let base = \<lparr>st_variant_id = tool_name @ ''_'' @ field_name @ ''_base'', st_value = base_value\<rparr>
      in case candidates of
           JList cs \<Rightarrow> base # string_candidates_from sha tool_name field_name [base_value] 0 cs
         | _ \<Rightarrow> [base])"

definition is_base_schema_candidate :: "pydict \<Rightarrow> json \<Rightarrow> bool" where
  "is_base_schema_candidate base_schema candidate =
     (case candidate of
        JObj d \<Rightarrow>
          py_eq (dict_get d ''input_schema'') (JObj base_schema) \<and>
          (case get_default d ''adapter'' (JObj []) of
             JNull \<Rightarrow> True
           | JObj a \<Rightarrow> py_eq (get_default a ''exposed_to_canonical'' (JObj [])) (JObj []) \<and>
               py_eq (get_default a ''defaults'' (JObj [])) (JObj [])
           | _ \<Rightarrow> False)
      | _ \<Rightarrow> False)"

text \<open>A category that is given must be one of the two; without one the mapping decides.\<close>

definition given_category :: "json \<Rightarrow> mutation_error + string" where
  "given_category category =
     (let bad = config_error (''Invalid schema variant category '' @ py_repr category
            @ ''; expected one of '' @ py_repr_strs schema_variant_categories)
      in case category of
           JStr s \<Rightarrow> if s \<in> set schema_variant_categories then Inr s else bad
         | JList _ \<Rightarrow> Inl BadAccess
         | JObj _ \<Rightarrow> Inl BadAccess
         | _ \<Rightarrow> bad)"

definition classify_legacy_schema_candidate :: "pydict \<Rightarrow> mutation_error + string" where
  "classify_legacy_schema_candidate d =
     (case dict_get d ''category'' of
        JNull \<Rightarrow>
          (let mapping = (case dict_get d ''adapter'' of
                 JObj a \<Rightarrow> (case get_default a ''exposed_to_canonical'' (JObj []) of
                   JObj m \<Rightarrow> map (\<lambda>(k, v). (k, py_str v)) m | _ \<Rightarrow> [])
               | _ \<Rightarrow> []);
               has_dotted_paths = list_ex (\<lambda>(k, v). CHR ''.'' \<in> set k \<or> CHR ''.'' \<in> set v) mapping
           in Inr (if has_dotted_paths then ''schema_flat_to_nested'' else ''argument_rename''))
      | category \<Rightarrow> given_category category)"

definition variant_category :: "pydict \<Rightarrow> mutation_error + string" where
  "variant_category d =
     (case dict_get d ''category'' of
        JNull \<Rightarrow> classify_legacy_schema_candidate d
      | category \<Rightarrow> given_category category)"

definition schema_variant ::
  "(string \<Rightarrow> nat list) \<Rightarrow> string \<Rightarrow> pydict \<Rightarrow> mutation_error + SchemaCandidate" where
  "schema_variant sha canonical_name d =
     res_bind (variant_category d) (\<lambda>category.
       SchemaCandidate_from_dict (JObj (dict_update d
         [(''category'', JStr category),
          (''variant_id'', let given = dict_get d ''variant_id'' in
             if py_truthy given then given
             else JStr (canonical_name @ ''_schema_'' @ stable_variant_id sha
               [category, json_dumps_ascii (get_default d ''input_schema'' (JObj [])),
                json_dumps_ascii (get_default d ''adapter'' (JObj []))]))])))"

fun schema_variants_from ::
  "(string \<Rightarrow> nat list) \<Rightarrow> ToolView \<Rightarrow> json list \<Rightarrow> mutation_error + SchemaCandidate list" where
  "schema_variants_from sha view [] = Inr []"
| "schema_variants_from sha view (v # vs) =
     (if is_base_schema_candidate (tv_input_schema view) v then schema_variants_from sha view vs
      else case v of
             JObj d \<Rightarrow>
               res_bind (schema_variant sha (tv_canonical_name view) d) (\<lambda>c.
               res_bind (schema_variants_from sha view vs) (\<lambda>cs. Inr (c # cs)))
           | _ \<Rightarrow> schema_variants_from sha view vs)"

definition base_schema_candidate :: "ToolView \<Rightarrow> SchemaCandidate" where
  "base_schema_candidate view =
     \<lparr>sc_input_schema = tv_input_schema view, sc_adapter = empty_adapter, sc_category = None,
      sc_variant_id = Some (tv_canonical_name view @ ''_schema_base'')\<rparr>"

definition normalize_schema_candidates ::
  "(string \<Rightarrow> nat list) \<Rightarrow> ToolView \<Rightarrow> pydict \<Rightarrow> mutation_error + SchemaCandidate list" where
  "normalize_schema_candidates sha view variants =
     (let raw_variants = (case dict_get variants ''schema_variants'' of
            JNull \<Rightarrow> get_default variants ''schema_candidates'' (JList []) | v \<Rightarrow> v)
      in case raw_variants of
           JList vs \<Rightarrow> res_bind (schema_variants_from sha view vs) (\<lambda>cs. Inr (base_schema_candidate view # cs))
         | _ \<Rightarrow> Inr [base_schema_candidate view])"

definition filter_schema_candidates :: "SchemaCandidate list \<Rightarrow> string option \<Rightarrow> SchemaCandidate list" where
  "filter_schema_candidates candidates schema_category =
     (case schema_category of
        None \<Rightarrow> candidates
      | Some category \<Rightarrow>
          candidates ! 0 # filter (\<lambda>c. sc_category c = Some category) (drop 1 candidates))"

subsection \<open>The variant of a tool\<close>

record ToolVariant =
  va_exposed_name :: string
  va_description :: string
  va_input_schema :: pydict
  va_adapter :: ToolAdapter
  va_name_variant_id :: string
  va_description_variant_id :: string
  va_schema_variant_id :: "string option"
  va_schema_variant_category :: "string option"
  va_name_mutated :: bool
  va_description_mutated :: bool
  va_schema_mutated :: bool

definition variants_of :: "ToolView \<Rightarrow> pydict \<Rightarrow> mutation_error + pydict" where
  "variants_of view config =
     (case get_default config ''tool_variants'' (JObj []) of
        JObj tool_variants \<Rightarrow>
          (let native_name = py_str (get_default (tv_metadata view) ''native_name'' (JStr (tv_canonical_name view)))
           in Inr (case dict_get tool_variants (tv_canonical_name view) of
                JObj v \<Rightarrow> v
              | _ \<Rightarrow> (case dict_get tool_variants native_name of JObj v \<Rightarrow> v | _ \<Rightarrow> [])))
      | _ \<Rightarrow> Inl BadAccess)"

text \<open>\<open>next((c for c in candidates if c.value == value), candidates[0])\<close>, and the same for schemas.\<close>

definition selected_string :: "StringCandidate list \<Rightarrow> string \<Rightarrow> StringCandidate" where
  "selected_string candidates v =
     (case List.find (\<lambda>c. st_value c = v) candidates of None \<Rightarrow> candidates ! 0 | Some c \<Rightarrow> c)"

definition same_mapping :: "ToolAdapter \<Rightarrow> ToolAdapter \<Rightarrow> bool" where
  "same_mapping a b \<longleftrightarrow>
     py_eq (JObj (map (\<lambda>(k, v). (k, JStr v)) (ta_exposed_to_canonical a)))
       (JObj (map (\<lambda>(k, v). (k, JStr v)) (ta_exposed_to_canonical b))) \<and>
     py_eq (JObj (ta_defaults a)) (JObj (ta_defaults b))"

definition selected_schema :: "SchemaCandidate list \<Rightarrow> pydict \<Rightarrow> ToolAdapter \<Rightarrow> SchemaCandidate" where
  "selected_schema candidates input_schema adapter =
     (case List.find (\<lambda>c. py_eq (JObj (sc_input_schema c)) (JObj input_schema) \<and> same_mapping (sc_adapter c) adapter)
        candidates of None \<Rightarrow> candidates ! 0 | Some c \<Rightarrow> c)"

definition select_tool_variant ::
  "(string \<Rightarrow> nat list) \<Rightarrow> int \<Rightarrow> ToolView \<Rightarrow> string \<Rightarrow> pydict \<Rightarrow> mutation_error + ToolVariant" where
  "select_tool_variant sha seed view mode config =
     (let canonical_name = tv_canonical_name view
      in res_bind (variants_of view config) (\<lambda>variants.
         res_bind (mode_spec_of mode) (\<lambda>spec.
           let names = normalize_string_candidates sha (tv_exposed_name view)
                 (get_default variants ''name_candidates'' (JList [JStr (tv_exposed_name view)])) canonical_name ''name'';
               descs = normalize_string_candidates sha (tv_description view)
                 (get_default variants ''description_candidates'' (JList [JStr (tv_description view)]))
                 canonical_name ''description''
           in res_bind (normalize_schema_candidates sha view variants) (\<lambda>all_schemas.
              let schemas = filter_schema_candidates all_schemas (ms_schema_category spec)
              in res_bind (if ms_mutate_name spec
                   then mutate_name sha canonical_name (JList (map (JStr \<circ> st_value) names)) seed True
                   else Inr (tv_exposed_name view)) (\<lambda>exposed_name.
                 res_bind (if ms_mutate_description spec
                   then mutate_description sha (tv_description view) (JList (map (JStr \<circ> st_value) descs)) seed True
                     canonical_name
                   else Inr (tv_description view)) (\<lambda>description.
                 res_bind (if ms_mutate_schema spec \<and> tv_contract_kind view = FUNCTION
                   then mutate_schema sha (tv_input_schema view) (Some (map Candidate schemas)) seed True canonical_name
                   else Inr (tv_input_schema view, empty_adapter)) (\<lambda>(input_schema, adapter).
                 let name = selected_string names exposed_name;
                     desc = selected_string descs description;
                     schema = selected_schema schemas input_schema adapter
                 in Inr \<lparr>va_exposed_name = exposed_name, va_description = description,
                      va_input_schema = input_schema, va_adapter = adapter,
                      va_name_variant_id = st_variant_id name, va_description_variant_id = st_variant_id desc,
                      va_schema_variant_id = sc_variant_id schema,
                      va_schema_variant_category = sc_category schema,
                      va_name_mutated = (exposed_name \<noteq> tv_exposed_name view),
                      va_description_mutated = (description \<noteq> tv_description view),
                      va_schema_mutated = (\<not> py_eq (JObj input_schema) (JObj (tv_input_schema view)))\<rparr>)))))))"

subsection \<open>The order of the tools\<close>

definition reorder_tools ::
  "(string \<Rightarrow> nat list) \<Rightarrow> int \<Rightarrow> ToolView list \<Rightarrow> string \<Rightarrow> ToolView list" where
  "reorder_tools sha seed tools anchor_policy =
     (let finish_last = (anchor_policy = ''finish_last'');
          anchored = (if finish_last then filter (\<lambda>t. tv_canonical_name t = ''finish'') tools else []);
          reorderable = (if finish_last then filter (\<lambda>t. tv_canonical_name t \<noteq> ''finish'') tools else tools);
          base_order = map tv_canonical_name reorderable;
          reordered = sort_key (\<lambda>t. (stable_hash_int sha [''tool_reorder'', py_int_str seed, tv_canonical_name t],
            tv_canonical_name t)) reorderable;
          offset = 1 + stable_hash_int sha [''tool_reorder_offset'', py_int_str seed] mod (length reordered - 1)
      in (if map tv_canonical_name reordered = base_order \<and> 1 < length reordered
          then drop offset reordered @ take offset reordered else reordered) @ anchored)"

text \<open>What the profile says of each place after the order is known.\<close>

definition place_tool :: "nat \<Rightarrow> ToolView \<Rightarrow> ToolView" where
  "place_tool i view =
     view\<lparr>tv_metadata := dict_update (tv_metadata view)
       [(''tool_order_index_exposed'', JInt (int i)),
        (''tool_reordered'', JBool (\<not> py_eq (JInt (int i)) (dict_get (tv_metadata view) ''tool_order_index_base'')))]\<rparr>"

subsection \<open>Sampling\<close>

definition resolved_config :: "pydict \<Rightarrow> ToolProfile \<Rightarrow> mutation_error + pydict" where
  "resolved_config config base =
     (case (dict_get config ''families'', dict_get (tp_metadata base) ''family'') of
        (JObj families, JStr family) \<Rightarrow>
          (case dict_get families family of
             JNull \<Rightarrow> Inr config
           | JObj d \<Rightarrow> Inr (dict_update (filter (\<lambda>(k, v). k \<noteq> ''families'') config) d)
           | _ \<Rightarrow> config_error (''Mutation config families.'' @ py_repr_str family @ '' must be a mapping''))
      | _ \<Rightarrow> Inr config)"

definition tool_metadata ::
  "string \<Rightarrow> int \<Rightarrow> ToolProfile \<Rightarrow> nat \<Rightarrow> ToolView \<Rightarrow> ToolVariant \<Rightarrow> pydict" where
  "tool_metadata mode seed base base_index view v =
     dict_update (tv_metadata view)
       [(''name_variant_id'', JStr (va_name_variant_id v)),
        (''description_variant_id'', JStr (va_description_variant_id v)),
        (''schema_variant_id'', opt_str (va_schema_variant_id v)),
        (''schema_variant_category'', opt_str (va_schema_variant_category v)),
        (''name_mutated'', JBool (va_name_mutated v)),
        (''description_mutated'', JBool (va_description_mutated v)),
        (''schema_mutated'', JBool (va_schema_mutated v)),
        (''tool_order_index_base'', JInt (int base_index)),
        (''tool_order_index_exposed'', JInt (int base_index)),
        (''tool_reordered'', JBool False),
        (''source_profile_id'', JStr (tp_profile_id base)),
        (''transformation_mode'', JStr mode),
        (''transformation_seed'', JInt seed),
        (''native_name'', get_default (tv_metadata view) ''native_name'' (JStr (tv_exposed_name view)))]"

definition sampled_view ::
  "string \<Rightarrow> int \<Rightarrow> ToolProfile \<Rightarrow> nat \<Rightarrow> ToolView \<Rightarrow> ToolVariant \<Rightarrow> ToolView" where
  "sampled_view mode seed base base_index view v =
     \<lparr>tv_canonical_name = tv_canonical_name view, tv_exposed_name = va_exposed_name v,
      tv_description = va_description v, tv_input_schema = va_input_schema v,
      tv_contract_kind = tv_contract_kind view, tv_input_format = tv_input_format view,
      tv_version = tv_version view, tv_metadata = tool_metadata mode seed base base_index view v\<rparr>"

fun sample_tools ::
  "(string \<Rightarrow> nat list) \<Rightarrow> int \<Rightarrow> string \<Rightarrow> pydict \<Rightarrow> ToolProfile \<Rightarrow> nat \<Rightarrow> ToolView list
    \<Rightarrow> mutation_error + (ToolView \<times> ToolVariant) list" where
  "sample_tools sha seed mode config base i [] = Inr []"
| "sample_tools sha seed mode config base i (view # views) =
     res_bind (select_tool_variant sha seed view mode config) (\<lambda>v.
     res_bind (sample_tools sha seed mode config base (Suc i) views) (\<lambda>rest.
       Inr ((sampled_view mode seed base i view v, v) # rest)))"

definition sampled_profile_id ::
  "(string \<Rightarrow> nat list) \<Rightarrow> int \<Rightarrow> string \<Rightarrow> pydict \<Rightarrow> ToolProfile \<Rightarrow> string" where
  "sampled_profile_id sha seed mode config base =
     (let h = hex_bytes (take 4 (sha (mode @ '':'' @ py_int_str seed)));
          id_prefix = py_str (get_default config ''profile_id_prefix'' (JStr ''mutation''))
      in case dict_get (tp_metadata base) ''family'' of
           JStr family \<Rightarrow>
             if family = '''' then id_prefix @ ''_'' @ mode @ ''_'' @ h
             else id_prefix @ ''_'' @ family @ ''_'' @ mode @ ''_'' @ h
         | _ \<Rightarrow> id_prefix @ ''_'' @ mode @ ''_'' @ h)"

definition profile_metadata ::
  "int \<Rightarrow> string \<Rightarrow> mode_spec \<Rightarrow> pydict \<Rightarrow> ToolProfile \<Rightarrow> (ToolView \<times> ToolVariant) list
    \<Rightarrow> mutation_error + pydict" where
  "profile_metadata seed mode spec config base sampled =
     (case map_of config ''mutation_config_version'' of
        None \<Rightarrow> Inl BadAccess
      | Some version \<Rightarrow>
          let old = tp_metadata base;
              categories = fold (\<lambda>(t, v). AList.update (tv_canonical_name t) (opt_str (va_schema_variant_category v)))
                sampled [];
              ids = fold (\<lambda>(t, v). AList.update (tv_canonical_name t) (JObj
                  [(''name_variant_id'', JStr (va_name_variant_id v)),
                   (''description_variant_id'', JStr (va_description_variant_id v)),
                   (''schema_variant_id'', opt_str (va_schema_variant_id v))])) sampled [];
              m = dict_update old
                [(''mutation_manifest_version'', JInt 1), (''mutation_config_version'', version),
                 (''mode'', JStr mode), (''seed'', JInt seed),
                 (''mutation_axes'', JList (map JStr (ms_mutation_axes spec))),
                 (''compat_mode'', opt_str (ms_compat_mode spec)),
                 (''reorder_anchor_policy'', get_default old ''reorder_anchor_policy'' (JStr ''preserve_source_order'')),
                 (''tool_order_seed'', if ms_reorder_tools spec then JInt seed else JNull),
                 (''schema_variant_categories'', JObj categories),
                 (''selected_variant_ids'', JObj ids),
                 (''source_profile_id'', JStr (tp_profile_id base))];
              m' = (case dict_get old ''family'' of
                  JStr family \<Rightarrow> dict_update m [(''family'', JStr family),
                    (''mutation_source_family'', get_default m ''mutation_source_family'' (JStr family))]
                | _ \<Rightarrow> m)
          in Inr (case dict_get old ''native_profile_kind'' of
               JStr kind \<Rightarrow> AList.update ''native_profile_kind'' (JStr kind) m' | _ \<Rightarrow> m'))"

definition sample_profile ::
  "(string \<Rightarrow> nat list) \<Rightarrow> int \<Rightarrow> pydict \<Rightarrow> ToolProfile \<Rightarrow> string \<Rightarrow> mutation_error + ToolProfile" where
  "sample_profile sha seed config base mode =
     res_bind (resolved_config config base) (\<lambda>resolved.
     res_bind (mode_spec_of mode) (\<lambda>spec.
     res_bind (sample_tools sha seed mode resolved base 0 (tp_tools base)) (\<lambda>sampled.
       let views = map fst sampled;
           ordered = (if ms_reorder_tools spec
             then reorder_tools sha seed views (py_str (get_default (tp_metadata base) ''reorder_anchor_policy''
               (JStr ''preserve_source_order'')))
             else views)
       in res_bind (profile_metadata seed mode spec resolved base sampled) (\<lambda>metadata.
            Inr \<lparr>tp_profile_id = sampled_profile_id sha seed mode resolved base,
              tp_tools = map (\<lambda>(i, t). place_tool i t) (enumerate 0 ordered),
              tp_adapters = fold (\<lambda>(t, v). AList.update (va_exposed_name v) (va_adapter v)) sampled [],
              tp_metadata = metadata\<rparr>))))"

subsection \<open>The sampler\<close>

text \<open>The base profile of a native family.\<close>

definition native_view :: "string \<Rightarrow> string \<Rightarrow> nat \<Rightarrow> CanonicalTool \<Rightarrow> ToolView" where
  "native_view family kind index tool =
     (let native_name = py_str (get_default (cn_metadata tool) ''native_tool_name'' (JStr (cn_canonical_name tool)))
      in \<lparr>tv_canonical_name = cn_canonical_name tool, tv_exposed_name = cn_canonical_name tool,
          tv_description = (if cn_description tool = '''' then ''Tool: '' @ cn_canonical_name tool
            else cn_description tool),
          tv_input_schema = cn_canonical_schema tool, tv_contract_kind = cn_contract_kind tool,
          tv_input_format = cn_input_format tool, tv_version = cn_version tool,
          tv_metadata = dict_update (cn_metadata tool)
            [(''family'', JStr family), (''native_name'', JStr native_name), (''native_profile_kind'', JStr kind),
             (''mutation_source_family'', JStr family),
             (''canonical_mapping_status'', JStr ''native_identity_not_canonicalized''),
             (''transformation_mode'', JStr ''base''), (''name_mutated'', JBool False),
             (''description_mutated'', JBool False), (''schema_mutated'', JBool False),
             (''tool_order_index_base'', JInt (int index)), (''tool_order_index_exposed'', JInt (int index)),
             (''tool_reordered'', JBool False),
             (''name_variant_id'', JStr (native_name @ ''_name_native_base'')),
             (''description_variant_id'', JStr (native_name @ ''_description_native_base'')),
             (''schema_variant_id'', JStr (native_name @ ''_schema_native_base'')),
             (''schema_variant_category'', JNull)]\<rparr>)"

definition build_native_family_profile ::
  "CanonicalTool list \<Rightarrow> string \<Rightarrow> string \<Rightarrow> string \<Rightarrow> ToolProfile" where
  "build_native_family_profile canonical_tools profile_id family native_profile_kind =
     (let tools = map (\<lambda>(i, t). native_view family native_profile_kind i t) (enumerate 0 canonical_tools);
          by_name = (\<lambda>f. JObj (fold (\<lambda>t. AList.update (tv_canonical_name t) (f t)) tools []))
      in \<lparr>tp_profile_id = profile_id, tp_tools = tools,
          tp_adapters = fold (\<lambda>t. AList.update (tv_exposed_name t) empty_adapter) tools [],
          tp_metadata =
            [(''family'', JStr family), (''native_profile_kind'', JStr native_profile_kind),
             (''mutation_source_family'', JStr family),
             (''profile_origin'', JStr ''strict_family_canonical_tools''),
             (''transformation_mode'', JStr ''base''), (''native_schema_snapshot'', JBool True),
             (''canonical_mapping_status'', JStr ''native_identity_not_canonicalized''),
             (''tool_order_preserved'', JBool True), (''mode'', JStr ''native_family_base''), (''seed'', JInt 0),
             (''mutation_manifest_version'', JInt 1), (''mutation_axes'', JList []), (''compat_mode'', JNull),
             (''reorder_anchor_policy'', JStr ''preserve_source_order''), (''tool_order_seed'', JNull),
             (''schema_variant_categories'', by_name (\<lambda>t. dict_get (tv_metadata t) ''schema_variant_category'')),
             (''selected_variant_ids'', by_name (\<lambda>t. JObj (map (\<lambda>k. (k, dict_get (tv_metadata t) k))
               [''name_variant_id'', ''description_variant_id'', ''schema_variant_id''])))]\<rparr>)"

definition build_native_claude_profile :: "CanonicalTool list \<Rightarrow> string \<Rightarrow> ToolProfile" where
  "build_native_claude_profile tools profile_id =
     build_native_family_profile tools profile_id ''claude'' ''native_claude''"

definition build_native_codex_profile :: "CanonicalTool list \<Rightarrow> string \<Rightarrow> ToolProfile" where
  "build_native_codex_profile tools profile_id =
     build_native_family_profile tools profile_id ''codex'' ''native_codex''"

text \<open>
  A sampler: its seed, what reading its configuration gives, and where its base profile comes from.
  Both are read at the first use and kept; the files are taken not to change in between.  The
  canonical tools of the two families are arguments.
\<close>

record ToolProfileSampler =
  ps_seed :: int
  ps_mutation_config :: json
  ps_base_config :: "json option"
  ps_base_profile :: "ToolProfile option"
  ps_family :: "string option"

definition get_base_profile ::
  "(string \<Rightarrow> CanonicalTool list) \<Rightarrow> ToolProfileSampler \<Rightarrow> mutation_error + ToolProfile" where
  "get_base_profile family_tools s =
     (case (ps_base_profile s, ps_base_config s) of
        (Some p, _) \<Rightarrow> Inr p
      | (None, Some content) \<Rightarrow> load_tool_profile_from_dict content
      | (None, None) \<Rightarrow>
          if ps_family s = Some ''claude'' then Inr (build_native_claude_profile (family_tools ''claude'') ''native_claude'')
          else if ps_family s = Some ''codex'' then Inr (build_native_codex_profile (family_tools ''codex'') ''native_codex'')
          else config_error (''ToolProfileSampler requires either base_profile, base_config_path, or family=''
            @ quoted ''claude'' @ ''/'' @ quoted ''codex'' @ ''.''))"

definition sample ::
  "(string \<Rightarrow> nat list) \<Rightarrow> (string \<Rightarrow> CanonicalTool list) \<Rightarrow> ToolProfileSampler \<Rightarrow> string
    \<Rightarrow> mutation_error + ToolProfile" where
  "sample sha family_tools s mode =
     (if mode \<notin> set supported_modes then invalid_mode mode
      else res_bind (get_base_profile family_tools s) (\<lambda>base.
           res_bind (load_mutation_config (ps_mutation_config s)) (\<lambda>config.
             sample_profile sha (ps_seed s) config base mode)))"

fun sample_modes ::
  "(string \<Rightarrow> nat list) \<Rightarrow> (string \<Rightarrow> CanonicalTool list) \<Rightarrow> ToolProfileSampler \<Rightarrow> string list
    \<Rightarrow> mutation_error + (string \<times> ToolProfile) list" where
  "sample_modes sha family_tools s [] = Inr []"
| "sample_modes sha family_tools s (mode # modes) =
     res_bind (sample sha family_tools s mode) (\<lambda>p.
     res_bind (sample_modes sha family_tools s modes) (\<lambda>ps. Inr ((mode, p) # ps)))"

definition sample_all_modes ::
  "(string \<Rightarrow> nat list) \<Rightarrow> (string \<Rightarrow> CanonicalTool list) \<Rightarrow> ToolProfileSampler
    \<Rightarrow> mutation_error + (string \<times> ToolProfile) list" where
  "sample_all_modes sha family_tools s = sample_modes sha family_tools s supported_modes"

text \<open>
  \<open>build_sampled_tool_profile\<close>: a configuration file of mutations is sampled, any other is read as a
  profile; without a file the default configuration is sampled.
\<close>

definition build_sampled_tool_profile ::
  "(string \<Rightarrow> nat list) \<Rightarrow> (string \<Rightarrow> CanonicalTool list) \<Rightarrow> json \<Rightarrow> string \<Rightarrow> int \<Rightarrow> json option
    \<Rightarrow> ToolProfile option \<Rightarrow> string option \<Rightarrow> mutation_error + ToolProfile" where
  "build_sampled_tool_profile sha family_tools default_config mode seed config base_profile family =
     (let sampler = (\<lambda>content. \<lparr>ps_seed = seed, ps_mutation_config = content, ps_base_config = None,
            ps_base_profile = base_profile, ps_family = family\<rparr>)
      in case config of
           None \<Rightarrow> sample sha family_tools (sampler default_config) mode
         | Some (JObj d) \<Rightarrow>
             if map_of d ''tool_variants'' \<noteq> None \<or> map_of d ''families'' \<noteq> None
             then sample sha family_tools (sampler (JObj d)) mode
             else load_tool_profile_from_dict (JObj d)
         | Some content \<Rightarrow> config_error (''Config must be a mapping, got '' @ py_type_name content))"

end
