(* ===== verification/Mutation_Properties.thy ===== *)
theory Mutation_Properties
  imports Profile_Sampler Adapter_Roundtrip "HOL-Library.Multiset"
begin

section \<open>Sampling of tool profiles: the laws\<close>

text \<open>
  A sampled profile shows the model other names, descriptions, schemas or another order, and nothing
  else: every mode changes only its own axes, whatever the hash says, and without a schema mutation
  a call through the sampled profile is the call it was.  Where alternatives are configured the
  mutation happens; where two tools are given the same new name, it goes wrong.
\<close>

subsection \<open>Choosing\<close>

lemma select_index_range:
  assumes "1 < n"
  shows "1 \<le> select_mutated_index sha seed name axis n \<and> select_mutated_index sha seed name axis n < n"
proof -
  have "1 \<le> 1 + b mod (n - 1) \<and> 1 + b mod (n - 1) < n" for b :: nat
    using assms mod_less_divisor [of "n - 1" b] by linarith
  then show ?thesis unfolding select_mutated_index_def Let_def by blast
qed

lemma choose_candidate_mem: "cs \<noteq> [] \<Longrightarrow> choose_candidate sha seed name axis b cs \<in> set cs"
  using select_index_range [of "length cs" sha seed name axis]
  by (auto simp: choose_candidate_def intro!: nth_mem)

lemma choose_candidate_moves:
  assumes "distinct cs" and "1 < length cs"
  shows "choose_candidate sha seed name axis True cs \<noteq> cs ! 0"
proof -
  let ?i = "select_mutated_index sha seed name axis (length cs)"
  have i: "1 \<le> ?i" "?i < length cs" using select_index_range [OF assms(2)] by blast+
  then have "(cs ! ?i = cs ! 0) = (?i = 0)" using assms by (intro nth_eq_iff_index_eq) auto
  with i(1) assms(2) show ?thesis by (simp add: choose_candidate_def)
qed

lemma choose_candidate_base: "length cs = 1 \<Longrightarrow> choose_candidate sha seed name axis b cs = cs ! 0"
  by (simp add: choose_candidate_def)

lemma validate_texts:
  "validate_candidates_from err ok what sfx i (map (JStr \<circ> f) xs) = Inr ys \<Longrightarrow> ys = map f xs"
  by (induction xs arbitrary: i ys) (auto simp: res_bind_Inr_iff split: if_splits)

lemma candidate_list_texts:
  "xs \<noteq> [] \<Longrightarrow> candidate_list err base (JList (map (JStr \<circ> f) xs)) = Inr (map (JStr \<circ> f) xs)"
  by (simp add: candidate_list_def)

lemma mutate_name_texts:
  assumes "xs \<noteq> []" and "mutate_name sha c (JList (map (JStr \<circ> f) xs)) seed b = Inr name"
  shows "name = choose_candidate sha seed c ''name'' b (map f xs)"
  using assms candidate_list_texts [OF assms(1)] validate_texts
  by (fastforce simp: mutate_name_def res_bind_Inr_iff split: if_splits)

lemma mutate_description_texts:
  assumes "xs \<noteq> []" and "mutate_description sha base (JList (map (JStr \<circ> f) xs)) seed b c = Inr text'"
  shows "text' = choose_candidate sha seed c ''desc'' b (map f xs)"
  using assms candidate_list_texts [OF assms(1)] validate_texts
  by (fastforce simp: mutate_description_def res_bind_Inr_iff)

lemma string_candidates_values:
  "distinct (map st_value (string_candidates_from sha t f seen i cs)) \<and>
   set (map st_value (string_candidates_from sha t f seen i cs)) \<inter> set seen = {}"
proof (induction cs arbitrary: seen i)
  case (Cons c cs)
  show ?case
  proof (cases "string_candidate sha t f i c")
    case (Some s)
    then show ?thesis using Cons [of "st_value s # seen" "Suc i"] Cons [of seen "Suc i"] by auto
  qed (use Cons in simp)
qed simp

lemma normalize_strings:
  "\<exists>cs. normalize_string_candidates sha base candidates t f = cs \<and> cs \<noteq> [] \<and> st_value (cs ! 0) = base \<and>
    distinct (map st_value cs)"
proof (cases candidates)
  case (JList cs)
  then show ?thesis
    using string_candidates_values [of sha t f "[base]" 0 cs] by (simp add: normalize_string_candidates_def)
qed (simp_all add: normalize_string_candidates_def)

lemma normalize_built:
  "normalize_candidates_from t i (map Candidate cs) = Inr cs"
  by (induction cs arbitrary: i) simp_all

lemma mutate_schema_built:
  "cs \<noteq> [] \<Longrightarrow> mutate_schema sha s (Some (map Candidate cs)) seed b t =
    Inr (sc_input_schema (choose_candidate sha seed t ''schema'' b cs), sc_adapter (choose_candidate sha seed t ''schema'' b cs))"
  by (simp add: mutate_schema_def normalize_built Let_def)

subsection \<open>The variant of a tool\<close>

text \<open>The candidates of a view under a configuration, as the sampler collects them.\<close>

definition name_candidates :: "(string \<Rightarrow> nat list) \<Rightarrow> ToolView \<Rightarrow> pydict \<Rightarrow> StringCandidate list" where
  "name_candidates sha view variants = normalize_string_candidates sha (tv_exposed_name view)
     (get_default variants ''name_candidates'' (JList [JStr (tv_exposed_name view)])) (tv_canonical_name view) ''name''"

definition description_candidates :: "(string \<Rightarrow> nat list) \<Rightarrow> ToolView \<Rightarrow> pydict \<Rightarrow> StringCandidate list" where
  "description_candidates sha view variants = normalize_string_candidates sha (tv_description view)
     (get_default variants ''description_candidates'' (JList [JStr (tv_description view)])) (tv_canonical_name view)
     ''description''"

text \<open>What a variant may be: changed on an axis of its mode, by one of the candidates, or not at all.\<close>

definition variant_ok ::
  "mode_spec \<Rightarrow> ToolView \<Rightarrow> StringCandidate list \<Rightarrow> StringCandidate list \<Rightarrow> SchemaCandidate list \<Rightarrow> ToolVariant \<Rightarrow> bool" where
  "variant_ok spec view names descs schemas v \<longleftrightarrow>
     va_exposed_name v \<in> st_value ` set names \<and>
     va_name_mutated v = (ms_mutate_name spec \<and> 1 < length names) \<and>
     va_name_mutated v = (va_exposed_name v \<noteq> tv_exposed_name view) \<and>
     va_description v \<in> st_value ` set descs \<and>
     va_description_mutated v = (ms_mutate_description spec \<and> 1 < length descs) \<and>
     va_description_mutated v = (va_description v \<noteq> tv_description view) \<and>
     (if ms_mutate_schema spec \<and> tv_contract_kind view = FUNCTION
      then \<exists>c\<in>set (if 1 < length schemas then drop 1 schemas else [base_schema_candidate view]).
        va_input_schema v = sc_input_schema c \<and> va_adapter v = sc_adapter c
      else va_input_schema v = tv_input_schema view \<and> va_adapter v = empty_adapter)"

lemma chosen_text:
  assumes "normalize_string_candidates sha base candidates t f = cs"
  shows "choose_candidate sha seed c axis True (map st_value cs) \<in> st_value ` set cs"
    and "(choose_candidate sha seed c axis True (map st_value cs) \<noteq> base) = (1 < length cs)"
proof -
  have cs: "cs \<noteq> []" "st_value (cs ! 0) = base" "distinct (map st_value cs)"
    using normalize_strings [of sha base candidates t f] assms by auto
  show "choose_candidate sha seed c axis True (map st_value cs) \<in> st_value ` set cs"
    using choose_candidate_mem [of "map st_value cs"] cs(1) by simp
  show "(choose_candidate sha seed c axis True (map st_value cs) \<noteq> base) = (1 < length cs)"
  proof (cases "1 < length cs")
    case True
    with choose_candidate_moves [OF cs(3)] cs(1,2) show ?thesis by (simp add: nth_map)
  next
    case False
    then have "length cs = 1" using cs(1) by (cases cs) simp_all
    with cs(2) show ?thesis by (simp add: choose_candidate_base)
  qed
qed

lemma normalize_schemas:
  "normalize_schema_candidates sha view variants = Inr cs \<Longrightarrow> cs \<noteq> [] \<and> cs ! 0 = base_schema_candidate view"
  by (auto simp: normalize_schema_candidates_def Let_def res_bind_Inr_iff split: json.splits)

lemma filter_schemas:
  assumes "cs \<noteq> []" and "cs ! 0 = base"
  shows "filter_schema_candidates cs cat \<noteq> []" "filter_schema_candidates cs cat ! 0 = base"
    "case cat of None \<Rightarrow> True | Some k \<Rightarrow> list_all (\<lambda>c. sc_category c = Some k) (drop 1 (filter_schema_candidates cs cat))"
  using assms by (auto simp: filter_schema_candidates_def list_all_iff split: option.split)

lemma chosen_schema:
  assumes "cs \<noteq> []" and "cs ! 0 = base"
  shows "choose_candidate sha seed t axis True cs \<in> set (if 1 < length cs then drop 1 cs else [base])"
proof (cases "1 < length cs")
  case True
  let ?i = "select_mutated_index sha seed t axis (length cs)"
  have i: "1 \<le> ?i" "?i < length cs" using select_index_range [OF True] by blast+
  then have "drop 1 cs ! (?i - 1) = cs ! ?i" "?i - 1 < length (drop 1 cs)" by auto
  then have "cs ! ?i \<in> set (drop 1 cs)" by (metis nth_mem)
  with True show ?thesis by (simp add: choose_candidate_def)
next
  case False
  then have "length cs = 1" using assms(1) by (cases cs) simp_all
  then show ?thesis using assms(2) by (simp add: choose_candidate_base)
qed

lemma select_tool_variant_ok:
  assumes "select_tool_variant sha seed view mode config = Inr v" and "mode_spec_of mode = Inr spec"
  shows "\<exists>variants schemas. variants_of view config = Inr variants \<and>
    normalize_schema_candidates sha view variants = Inr schemas \<and>
    variant_ok spec view (name_candidates sha view variants) (description_candidates sha view variants)
      (filter_schema_candidates schemas (ms_schema_category spec)) v"
proof -
  obtain variants schemas where vs: "variants_of view config = Inr variants"
    "normalize_schema_candidates sha view variants = Inr schemas"
    using assms by (auto simp: select_tool_variant_def Let_def res_bind_Inr_iff)
  define names where "names = name_candidates sha view variants"
  define descs where "descs = description_candidates sha view variants"
  define filtered where "filtered = filter_schema_candidates schemas (ms_schema_category spec)"
  obtain name desc sch ad where
    n: "(if ms_mutate_name spec then mutate_name sha (tv_canonical_name view) (JList (map (JStr \<circ> st_value) names)) seed True
      else Inr (tv_exposed_name view)) = Inr name" and
    d: "(if ms_mutate_description spec then mutate_description sha (tv_description view)
        (JList (map (JStr \<circ> st_value) descs)) seed True (tv_canonical_name view)
      else Inr (tv_description view)) = Inr desc" and
    s: "(if ms_mutate_schema spec \<and> tv_contract_kind view = FUNCTION
      then mutate_schema sha (tv_input_schema view) (Some (map Candidate filtered)) seed True (tv_canonical_name view)
      else Inr (tv_input_schema view, empty_adapter)) = Inr (sch, ad)" and
    v: "va_exposed_name v = name" "va_description v = desc" "va_input_schema v = sch" "va_adapter v = ad"
      "va_name_mutated v = (name \<noteq> tv_exposed_name view)" "va_description_mutated v = (desc \<noteq> tv_description view)"
    using assms unfolding names_def descs_def filtered_def name_candidates_def description_candidates_def
    by (auto simp: select_tool_variant_def Let_def res_bind_Inr_iff vs)
  have names: "names \<noteq> []" "st_value (names ! 0) = tv_exposed_name view"
    and descs: "descs \<noteq> []" "st_value (descs ! 0) = tv_description view"
    using normalize_strings unfolding names_def descs_def name_candidates_def description_candidates_def by blast+
  have base_mem: "tv_exposed_name view \<in> st_value ` set names" "tv_description view \<in> st_value ` set descs"
    using names descs by (metis imageI length_greater_0_conv nth_mem)+
  have "name \<in> st_value ` set names \<and> (name \<noteq> tv_exposed_name view) = (ms_mutate_name spec \<and> 1 < length names)"
  proof (cases "ms_mutate_name spec")
    case True
    then have "name = choose_candidate sha seed (tv_canonical_name view) ''name'' True (map st_value names)"
      using n mutate_name_texts [OF names(1)] by simp
    then show ?thesis using True chosen_text names_def unfolding name_candidates_def by simp
  qed (use n base_mem in auto)
  moreover have "desc \<in> st_value ` set descs \<and> (desc \<noteq> tv_description view) = (ms_mutate_description spec \<and> 1 < length descs)"
  proof (cases "ms_mutate_description spec")
    case True
    then have "desc = choose_candidate sha seed (tv_canonical_name view) ''desc'' True (map st_value descs)"
      using d mutate_description_texts [OF descs(1)] by simp
    then show ?thesis using True chosen_text descs_def unfolding description_candidates_def by simp
  qed (use d base_mem in auto)
  moreover have "if ms_mutate_schema spec \<and> tv_contract_kind view = FUNCTION
      then \<exists>c\<in>set (if 1 < length filtered then drop 1 filtered else [base_schema_candidate view]).
        sch = sc_input_schema c \<and> ad = sc_adapter c
      else sch = tv_input_schema view \<and> ad = empty_adapter"
  proof (cases "ms_mutate_schema spec \<and> tv_contract_kind view = FUNCTION")
    case True
    have f: "filtered \<noteq> []" "filtered ! 0 = base_schema_candidate view"
      using filter_schemas(1,2) normalize_schemas [OF vs(2)] unfolding filtered_def by auto
    have "sch = sc_input_schema (choose_candidate sha seed (tv_canonical_name view) ''schema'' True filtered) \<and>
        ad = sc_adapter (choose_candidate sha seed (tv_canonical_name view) ''schema'' True filtered)"
      using s True mutate_schema_built [OF f(1)] by simp
    then show ?thesis using True chosen_schema [OF f] by auto
  next
    case False
    with s have "sch = tv_input_schema view \<and> ad = empty_adapter" by (simp only: if_False) simp
    then show ?thesis unfolding if_not_P [OF False] .
  qed
  ultimately have "variant_ok spec view names descs filtered v"
    unfolding variant_ok_def v by blast
  then show ?thesis using vs unfolding names_def descs_def filtered_def by blast
qed

subsection \<open>The tools of a sampled profile\<close>

text \<open>A tool that shows a view: the same but on the axes the mode mutates.\<close>

definition keeps :: "mode_spec \<Rightarrow> ToolView \<Rightarrow> ToolView \<Rightarrow> bool" where
  "keeps spec view t \<longleftrightarrow>
     tv_canonical_name t = tv_canonical_name view \<and> tv_contract_kind t = tv_contract_kind view \<and>
     tv_input_format t = tv_input_format view \<and> tv_version t = tv_version view \<and>
     (if ms_mutate_name spec then True else tv_exposed_name t = tv_exposed_name view) \<and>
     (if ms_mutate_description spec then True else tv_description t = tv_description view) \<and>
     (if ms_mutate_schema spec \<and> tv_contract_kind view = FUNCTION then True
      else tv_input_schema t = tv_input_schema view)"

lemma keeps_metadata [simp]: "keeps spec view (t\<lparr>tv_metadata := m\<rparr>) = keeps spec view t"
  by (simp add: keeps_def)

lemma keeps_place [simp]: "keeps spec view (place_tool i t) = keeps spec view t"
  by (simp add: place_tool_def)

lemma sampled_view_keeps:
  assumes "select_tool_variant sha seed view mode config = Inr v" and "mode_spec_of mode = Inr spec"
  shows "keeps spec view (sampled_view mode seed base i view v)"
    and "if ms_mutate_schema spec then True else va_adapter v = empty_adapter"
  using select_tool_variant_ok [OF assms] by (auto simp: keeps_def sampled_view_def variant_ok_def split: if_splits)

lemma sample_tools_keeps:
  "sample_tools sha seed mode config base i views = Inr sampled \<Longrightarrow> mode_spec_of mode = Inr spec \<Longrightarrow>
    list_all2 (keeps spec) views (map fst sampled) \<and>
    list_all (\<lambda>(t, v). (if ms_mutate_schema spec then True else va_adapter v = empty_adapter)) sampled"
proof (induction views arbitrary: i sampled)
  case (Cons view views)
  then obtain v rest where v: "select_tool_variant sha seed view mode config = Inr v"
    and r: "sample_tools sha seed mode config base (Suc i) views = Inr rest"
    and s: "sampled = (sampled_view mode seed base i view v, v) # rest"
    by (auto simp: res_bind_Inr_iff)
  show ?case using sampled_view_keeps [OF v Cons.prems(2)] Cons.IH [OF r Cons.prems(2)] s by simp
qed simp

lemma empty_adapters:
  "list_all (\<lambda>(t, v). va_adapter v = empty_adapter) sampled \<Longrightarrow> list_all (\<lambda>(n, a). a = empty_adapter) d \<Longrightarrow>
    list_all (\<lambda>(n, a). a = empty_adapter) (fold (\<lambda>(t, v). AList.update (va_exposed_name v) (va_adapter v)) sampled d)"
proof (induction sampled arbitrary: d)
  case (Cons x xs)
  have "list_all (\<lambda>(n, a). a = empty_adapter) (AList.update k empty_adapter d)" for k
    using Cons.prems(2) set_update_subset [of k empty_adapter d] by (fastforce simp: list_all_iff)
  with Cons show ?case by (cases x) auto
qed simp

lemma rotated_other:
  assumes "distinct xs" and "1 < length xs" and "1 \<le> n" and "n < length xs"
  shows "\<not> drop n xs @ take n xs = xs"
proof
  assume "drop n xs @ take n xs = xs"
  then have "xs ! 0 = (drop n xs @ take n xs) ! 0" by simp
  also have "\<dots> = xs ! n" using assms(4) by (simp add: nth_append)
  finally have "xs ! 0 = xs ! n" .
  moreover have "0 < length xs" using assms(2) by linarith
  ultimately have "0 = n" using nth_eq_iff_index_eq [OF assms(1) _ assms(4)] by blast
  then show False using assms(3) by simp
qed

lemma mset_rotated: "mset (drop n xs @ take n xs) = mset xs"
  by (metis append_take_drop_id mset_append union_commute)

text \<open>The order: the tools that may move, in another order, then those that are kept last.\<close>

lemma reorder_parts:
  assumes "movable = filter (\<lambda>t. \<not> (policy = ''finish_last'' \<and> tv_canonical_name t = ''finish'')) tools"
    and "kept = filter (\<lambda>t. policy = ''finish_last'' \<and> tv_canonical_name t = ''finish'') tools"
  shows "\<exists>front. reorder_tools sha seed tools policy = front @ kept \<and> mset front = mset movable \<and>
    (distinct (map tv_canonical_name movable) \<and> 1 < length movable \<longrightarrow>
      \<not> map tv_canonical_name front = map tv_canonical_name movable)"
proof -
  define s where "s = sort_key (\<lambda>t. (stable_hash_int sha [''tool_reorder'', py_int_str seed, tv_canonical_name t],
    tv_canonical_name t)) movable"
  define n where "n = 1 + stable_hash_int sha [''tool_reorder_offset'', py_int_str seed] mod (length s - 1)"
  define front where "front = (if map tv_canonical_name s = map tv_canonical_name movable \<and> 1 < length s
    then drop n s @ take n s else s)"
  have s: "mset s = mset movable" "length s = length movable" by (simp_all add: s_def)
  have parts: "(if policy = ''finish_last'' then filter (\<lambda>t. tv_canonical_name t \<noteq> ''finish'') tools else tools) = movable"
    "(if policy = ''finish_last'' then filter (\<lambda>t. tv_canonical_name t = ''finish'') tools else []) = kept"
    using assms by simp_all
  have "reorder_tools sha seed tools policy = front @ kept"
    unfolding reorder_tools_def Let_def parts front_def n_def s_def ..
  moreover have "mset front = mset movable"
    using mset_rotated [of n s] s by (simp only: front_def split: if_split) simp
  moreover have "\<not> map tv_canonical_name front = map tv_canonical_name movable"
    if d: "distinct (map tv_canonical_name movable)" "1 < length movable"
  proof (cases "map tv_canonical_name s = map tv_canonical_name movable")
    case True
    have "length s - 1 > 0" using d(2) s(2) by simp
    then have "stable_hash_int sha [''tool_reorder_offset'', py_int_str seed] mod (length s - 1) < length s - 1"
      by (rule mod_less_divisor)
    then have "n < length s" unfolding n_def by linarith
    then have "\<not> drop n (map tv_canonical_name s) @ take n (map tv_canonical_name s) = map tv_canonical_name s"
      using True d s(2) by (intro rotated_other) (simp_all add: n_def)
    then have "\<not> map tv_canonical_name (drop n s @ take n s) = map tv_canonical_name s"
      by (simp add: drop_map take_map)
    then show ?thesis using True d(2) s(2) by (simp only: front_def) simp
  qed (simp add: front_def)
  ultimately show ?thesis by blast
qed

lemma mset_reorder: "mset (reorder_tools sha seed tools policy) = mset tools"
proof -
  obtain front where "reorder_tools sha seed tools policy = front
      @ filter (\<lambda>t. policy = ''finish_last'' \<and> tv_canonical_name t = ''finish'') tools"
    and "mset front = mset (filter (\<lambda>t. \<not> (policy = ''finish_last'' \<and> tv_canonical_name t = ''finish'')) tools)"
    using reorder_parts [OF refl refl] by blast
  then show ?thesis by (simp add: multiset_partition [symmetric] union_commute del: de_Morgan_conj)
qed

lemma place_tools_keeps:
  "list_all2 (keeps spec) views tools \<Longrightarrow> list_all2 (keeps spec) views (map (\<lambda>(i, t). place_tool i t) (enumerate n tools))"
  by (auto simp: list_all2_conv_all_nth nth_enumerate_eq)

lemma list_all2_mset:
  assumes "list_all2 P xs ys" and "mset zs = mset ys"
  shows "\<exists>us. mset us = mset xs \<and> list_all2 P us zs"
proof -
  have "list_all2 (\<lambda>y x. P x y) ys xs" using assms(1) by (simp add: list_all2_conv_all_nth)
  from list_all2_reorder_left_invariance [OF this assms(2)]
  show ?thesis by (auto simp: list_all2_conv_all_nth)
qed

lemma sample_profile_parts:
  assumes "sample_profile sha seed config base mode = Inr p"
  shows "\<exists>resolved spec sampled. mode_spec_of mode = Inr spec \<and>
    sample_tools sha seed mode resolved base 0 (tp_tools base) = Inr sampled \<and>
    tp_tools p = map (\<lambda>(i, t). place_tool i t) (enumerate 0 (if ms_reorder_tools spec
      then reorder_tools sha seed (map fst sampled) (py_str (get_default (tp_metadata base) ''reorder_anchor_policy''
        (JStr ''preserve_source_order'')))
      else map fst sampled)) \<and>
    tp_adapters p = fold (\<lambda>(t, v). AList.update (va_exposed_name v) (va_adapter v)) sampled []"
  using assms unfolding sample_profile_def res_bind_Inr_iff Let_def by fastforce

lemma sample_profile_keeps:
  assumes "sample_profile sha seed config base mode = Inr p"
  shows "\<exists>spec ts. mode_spec_of mode = Inr spec \<and> mset ts = mset (tp_tools base) \<and>
    list_all2 (keeps spec) ts (tp_tools p) \<and> (if ms_reorder_tools spec then True else ts = tp_tools base) \<and>
    (if ms_mutate_schema spec then True else list_all (\<lambda>(n, a). a = empty_adapter) (tp_adapters p))"
proof -
  obtain resolved spec sampled where m: "mode_spec_of mode = Inr spec"
    and s: "sample_tools sha seed mode resolved base 0 (tp_tools base) = Inr sampled"
    and t: "tp_tools p = map (\<lambda>(i, t). place_tool i t) (enumerate 0 (if ms_reorder_tools spec
      then reorder_tools sha seed (map fst sampled) (py_str (get_default (tp_metadata base) ''reorder_anchor_policy''
        (JStr ''preserve_source_order'')))
      else map fst sampled))"
    and a: "tp_adapters p = fold (\<lambda>(t, v). AList.update (va_exposed_name v) (va_adapter v)) sampled []"
    using sample_profile_parts [OF assms] by blast
  note k = sample_tools_keeps [OF s m]
  have ad: "if ms_mutate_schema spec then True else list_all (\<lambda>(n, a). a = empty_adapter) (tp_adapters p)"
    using k empty_adapters [of sampled "[]"] unfolding a by (cases "ms_mutate_schema spec") simp_all
  show ?thesis
  proof (cases "ms_reorder_tools spec")
    case True
    obtain ts where "mset ts = mset (tp_tools base)" and ts: "list_all2 (keeps spec) ts (reorder_tools sha seed
        (map fst sampled) (py_str (get_default (tp_metadata base) ''reorder_anchor_policy''
        (JStr ''preserve_source_order''))))"
      using list_all2_mset [OF conjunct1 [OF k] mset_reorder] by blast
    moreover have "list_all2 (keeps spec) ts (tp_tools p)" using place_tools_keeps [OF ts] True t by simp
    ultimately show ?thesis using m ad True by auto
  next
    case False
    then have "list_all2 (keeps spec) (tp_tools base) (tp_tools p)" using t place_tools_keeps [OF conjunct1 [OF k]] by simp
    then show ?thesis using m ad by auto
  qed
qed

text \<open>C33: sampling a profile changes the tools only on the axes of the mode.  Where sampling succeeds, the
  mode is one of those supported, every tool of the sampled profile shows one tool of the base profile,
  with its canonical name, kind, input format and version, and with its own name, description or
  schema where the mode does not mutate that axis; the order is the base profile's unless the mode
  reorders; and without a schema mutation no adapter rewrites an argument.\<close>

theorem sampling_changes_only_its_axes:
  "case sample_profile sha seed config base mode of
     Inl _ \<Rightarrow> True
   | Inr p \<Rightarrow>
       (case mode_spec_of mode of
          Inl _ \<Rightarrow> False
        | Inr spec \<Rightarrow>
            \<exists>ts. mset ts = mset (tp_tools base) \<and> list_all2 (keeps spec) ts (tp_tools p) \<and>
              (if ms_reorder_tools spec then True else ts = tp_tools base) \<and>
              (if ms_mutate_schema spec then True else list_all (\<lambda>(n, a). a = empty_adapter) (tp_adapters p)))"
proof (cases "sample_profile sha seed config base mode")
  case (Inr p)
  obtain spec where "mode_spec_of mode = Inr spec" and "\<exists>ts. mset ts = mset (tp_tools base) \<and>
      list_all2 (keeps spec) ts (tp_tools p) \<and> (if ms_reorder_tools spec then True else ts = tp_tools base) \<and>
      (if ms_mutate_schema spec then True else list_all (\<lambda>(n, a). a = empty_adapter) (tp_adapters p))"
    using sample_profile_keeps [OF Inr] by blast
  then show ?thesis unfolding Inr by (simp only: sum.case)
qed simp

text \<open>C34: a mutation happens exactly where the configuration offers an alternative.  The variant that is
  selected for a tool has another name if and only if the mode mutates names and the candidates hold
  one besides the base, and it is one of them; the same for the description; and where the mode mutates
  schemas, the schema and adapter of a function tool are those of a candidate of the mode's category
  whenever there is one, and the base's otherwise.\<close>

theorem mutation_where_alternatives:
  "case select_tool_variant sha seed view mode config of
     Inl _ \<Rightarrow> True
   | Inr v \<Rightarrow>
       (case (mode_spec_of mode, variants_of view config) of
          (Inr spec, Inr variants) \<Rightarrow>
            (case normalize_schema_candidates sha view variants of
               Inl _ \<Rightarrow> False
             | Inr schemas \<Rightarrow>
                 variant_ok spec view (name_candidates sha view variants) (description_candidates sha view variants)
                   (filter_schema_candidates schemas (ms_schema_category spec)) v)
        | _ \<Rightarrow> False)"
proof (cases "select_tool_variant sha seed view mode config")
  case (Inr v)
  then obtain spec where "mode_spec_of mode = Inr spec"
    by (auto simp: select_tool_variant_def Let_def res_bind_Inr_iff)
  then show ?thesis using select_tool_variant_ok [OF Inr] Inr by auto
qed simp

text \<open>Reordering is a permutation that moves something.  The reordered tools are the given ones; under
  the \<open>finish_last\<close> policy every \<open>finish\<close> tool comes after all the others; and when at least two tools
  may move and their canonical names differ, the order is not the given one, whatever the hash says.\<close>

theorem reordering_moves_tools:
  "let movable = filter (\<lambda>t. \<not> (policy = ''finish_last'' \<and> tv_canonical_name t = ''finish'')) tools;
       kept = filter (\<lambda>t. policy = ''finish_last'' \<and> tv_canonical_name t = ''finish'') tools;
       r = reorder_tools sha seed tools policy
   in mset r = mset tools \<and> (\<exists>front. r = front @ kept \<and> mset front = mset movable) \<and>
     (if distinct (map tv_canonical_name movable) \<and> 1 < length movable
      then \<not> map tv_canonical_name r = map tv_canonical_name tools else True)"
proof -
  define movable where "movable = filter (\<lambda>t. \<not> (policy = ''finish_last'' \<and> tv_canonical_name t = ''finish'')) tools"
  define kept where "kept = filter (\<lambda>t. policy = ''finish_last'' \<and> tv_canonical_name t = ''finish'') tools"
  obtain front where f: "reorder_tools sha seed tools policy = front @ kept" "mset front = mset movable"
    and moved: "distinct (map tv_canonical_name movable) \<and> 1 < length movable \<longrightarrow>
      \<not> map tv_canonical_name front = map tv_canonical_name movable"
    using reorder_parts [OF movable_def kept_def] by blast
  have "map tv_canonical_name front = map tv_canonical_name movable"
    if "map tv_canonical_name (front @ kept) = map tv_canonical_name tools"
  proof -
    have "set front \<subseteq> set movable" using f(2) by (metis order_refl set_mset_mset)
    then have "filter (\<lambda>c. \<not> (policy = ''finish_last'' \<and> c = ''finish'')) (map tv_canonical_name front) =
        map tv_canonical_name front"
      unfolding filter_id_conv by (auto simp: movable_def)
    moreover have "filter (\<lambda>c. \<not> (policy = ''finish_last'' \<and> c = ''finish'')) (map tv_canonical_name kept) = []"
      unfolding filter_empty_conv by (auto simp: kept_def)
    moreover have "filter (\<lambda>c. \<not> (policy = ''finish_last'' \<and> c = ''finish'')) (map tv_canonical_name tools) =
        map tv_canonical_name movable"
      by (simp add: movable_def filter_map comp_def)
    ultimately show ?thesis using arg_cong [OF that, of "filter (\<lambda>c. \<not> (policy = ''finish_last'' \<and> c = ''finish''))"]
      by (simp only: map_append filter_append append_Nil2)
  qed
  then show ?thesis
    using f moved mset_reorder [of sha seed tools policy]
    unfolding Let_def movable_def [symmetric] kept_def [symmetric] by auto
qed

subsection \<open>Calls through a sampled profile\<close>

lemma adapter_for_empty: "list_all (\<lambda>(n, a). a = empty_adapter) (tp_adapters p) \<Longrightarrow> adapter_for p n = empty_adapter"
  by (auto simp: adapter_for_def list_all_iff dest: map_of_SomeD split: option.split)

lemma find_view:
  assumes "distinct (map tv_exposed_name ts)" and "t \<in> set ts"
  shows "List.find (\<lambda>v. tv_exposed_name v = tv_exposed_name t) ts = Some t"
  using assms by (induction ts) (auto simp: rev_image_eqI)

lemma get_tool_view:
  assumes "distinct (map tv_exposed_name (tp_tools p))" and "t \<in> set (tp_tools p)"
    and "list_all (\<lambda>(n, a). a = empty_adapter) (tp_adapters p)"
  shows "get_tool p (tv_exposed_name t) = Some (t, empty_adapter)"
  by (simp add: get_tool_def find_view [OF assms(1,2)] adapter_for_empty [OF assms(3)])

text \<open>Two results of mapping a call: the same payload, each with its own view, or an error of both.\<close>

definition same_payload ::
  "ToolView \<Rightarrow> ToolView \<Rightarrow> spec_error + (ToolView \<times> payload) \<Rightarrow> spec_error + (ToolView \<times> payload) \<Rightarrow> bool" where
  "same_payload view t r s \<longleftrightarrow>
     (case (r, s) of
        (Inr (v, x), Inr (w, y)) \<Rightarrow> v = view \<and> w = t \<and> x = y
      | (Inl _, Inl _) \<Rightarrow> True
      | _ \<Rightarrow> False)"

lemma map_call_alike:
  assumes "get_tool p n = Some (view, a)" and "get_tool q m = Some (t, a)"
    and "tv_contract_kind t = tv_contract_kind view" and "tv_input_schema t = tv_input_schema view"
  shows "same_payload view t (map_call_payload p n args text' tool) (map_call_payload q m args text' tool)"
proof -
  have "same_payload view t (res_bind r (\<lambda>x. Inr (view, f x))) (res_bind r (\<lambda>x. Inr (t, f x)))"
    for r :: "spec_error + pydict" and f
    by (cases r) (simp_all add: same_payload_def)
  then show ?thesis
    by (simp add: assms map_call_payload_def argument_error_def Let_def)
       (simp add: same_payload_def split: option.split)
qed

text \<open>C35: without a schema mutation, a call through a sampled profile is the call through the base profile.
  When the tools of both profiles are exposed under different names and the base profile's adapters are
  empty, every base tool is shown by a tool of the sampled profile, and any payload that is sent to it
  under its new name maps to the same canonical payload, or is refused, as under the old name.\<close>

theorem calls_survive_sampling:
  assumes "sample_profile sha seed config base mode = Inr p"
    and "mode_spec_of mode = Inr spec" and "\<not> ms_mutate_schema spec"
    and "list_all (\<lambda>(n, a). a = empty_adapter) (tp_adapters base)"
    and "distinct (map tv_exposed_name (tp_tools base))" and "distinct (map tv_exposed_name (tp_tools p))"
    and "view \<in> set (tp_tools base)"
  shows "\<exists>t\<in>set (tp_tools p). keeps spec view t \<and>
    (\<forall>args text' tool. same_payload view t
      (map_call_payload base (tv_exposed_name view) args text' (tool :: CanonicalTool option))
      (map_call_payload p (tv_exposed_name t) args text' tool))"
proof -
  obtain ts where ts: "mset ts = mset (tp_tools base)" "list_all2 (keeps spec) ts (tp_tools p)"
    and a: "list_all (\<lambda>(n, a). a = empty_adapter) (tp_adapters p)"
    using sample_profile_keeps [OF assms(1)] assms(2,3) by auto
  have "view \<in> set ts" using assms(7) ts(1) by (metis set_mset_mset)
  then obtain t where t: "t \<in> set (tp_tools p)" "keeps spec view t"
    using ts(2) by (metis list_all2_conv_all_nth in_set_conv_nth)
  have "tv_contract_kind t = tv_contract_kind view" "tv_input_schema t = tv_input_schema view"
    using t(2) assms(3) by (simp_all add: keeps_def)
  with map_call_alike [OF get_tool_view [OF assms(5,7,4)] get_tool_view [OF assms(6) t(1) a]] t
  show ?thesis by blast
qed

subsection \<open>Two examples, and what goes wrong\<close>

definition zero_digest :: "string \<Rightarrow> nat list" where
  "zero_digest s = replicate 32 0"

text \<open>A profile of two tools, the first with a renamed argument when \<open>adapted\<close>; both are offered one other
  name, the second also another schema.\<close>

definition example_view :: "string \<Rightarrow> string \<Rightarrow> ToolView" where
  "example_view name key = \<lparr>tv_canonical_name = name, tv_exposed_name = name, tv_description = name,
     tv_input_schema = [(''type'', JStr ''object''), (''properties'', JObj [(key, JObj [(''type'', JStr ''string'')])])],
     tv_contract_kind = FUNCTION, tv_input_format = None, tv_version = ''v1'', tv_metadata = []\<rparr>"

definition renaming :: "string \<Rightarrow> string \<Rightarrow> ToolAdapter" where
  "renaming k c = \<lparr>ta_exposed_to_canonical = [(k, c)], ta_defaults = []\<rparr>"

definition example_profile :: "ToolAdapter \<Rightarrow> ToolProfile" where
  "example_profile a = \<lparr>tp_profile_id = ''base'', tp_tools = [example_view ''Read'' ''file'', example_view ''Write'' ''text''],
     tp_adapters = [(''Read'', a), (''Write'', empty_adapter)], tp_metadata = []\<rparr>"

definition named :: "string \<Rightarrow> json list \<Rightarrow> json" where
  "named n schemas = JObj [(''name_candidates'', JList [JStr n]), (''schema_variants'', JList schemas)]"

definition example_config :: "string \<Rightarrow> string \<Rightarrow> json list \<Rightarrow> pydict" where
  "example_config n m schemas = [(''mutation_config_version'', JInt 1),
     (''tool_variants'', JObj [(''Read'', named n []), (''Write'', named m schemas)])]"

definition renamed_schema :: json where
  "renamed_schema = JObj [(''input_schema'', JObj [(''type'', JStr ''object'')]),
     (''adapter'', JObj [(''exposed_to_canonical'', JObj [(''body'', JStr ''text'')])]), (''variant_id'', JStr ''w1'')]"

theorem calls_survive_sampling_witness:
  "\<exists>p t. sample_profile zero_digest 0 (example_config ''open'' ''save'' []) (example_profile empty_adapter) ''name_only'' = Inr p \<and>
    t \<in> set (tp_tools p) \<and> keeps (unchanged_spec\<lparr>ms_mutate_name := True, ms_mutation_axes := [''name'']\<rparr>)
      (example_view ''Read'' ''file'') t"
proof -
  obtain p where p: "sample_profile zero_digest 0 (example_config ''open'' ''save'' []) (example_profile empty_adapter)
      ''name_only'' = Inr p" and d: "distinct (map tv_exposed_name (tp_tools p))"
  proof -
    have "case sample_profile zero_digest 0 (example_config ''open'' ''save'' []) (example_profile empty_adapter)
      ''name_only'' of Inr p \<Rightarrow> distinct (map tv_exposed_name (tp_tools p)) | Inl _ \<Rightarrow> False"
      by code_simp
    then show ?thesis using that by (auto split: sum.splits)
  qed
  have "\<exists>t\<in>set (tp_tools p). keeps (unchanged_spec\<lparr>ms_mutate_name := True, ms_mutation_axes := [''name'']\<rparr>)
      (example_view ''Read'' ''file'') t"
    using calls_survive_sampling [OF p _ _ _ _ d, of "unchanged_spec\<lparr>ms_mutate_name := True, ms_mutation_axes := [''name'']\<rparr>"
      "example_view ''Read'' ''file''"]
    by (auto simp: mode_spec_of_def unchanged_spec_def example_profile_def example_view_def)
  then show ?thesis using p by blast
qed

text \<open>The adapters of the base profile are lost.  In the \<open>base\<close> mode, which promises the identity, a
  profile whose \<open>Read\<close> tool maps the argument \<open>file\<close> to \<open>file_path\<close> is sampled, for every digest, into one
  that shows the same schema and passes \<open>file\<close> on as it is.\<close>

theorem sampling_loses_adapters:
  "case sample_profile sha 0 (example_config ''open'' ''save'' []) (example_profile (renaming ''file'' ''file_path'')) ''base'' of
     Inl _ \<Rightarrow> False
   | Inr p \<Rightarrow>
       (case (map_call_arguments (example_profile (renaming ''file'' ''file_path'')) ''Read'' [(''file'', JStr ''a.txt'')]
                (None :: CanonicalTool option),
              map_call_arguments p ''Read'' [(''file'', JStr ''a.txt'')] (None :: CanonicalTool option)) of
          (Inr (v, before), Inr (w, after)) \<Rightarrow>
            before = [(''file_path'', JStr ''a.txt'')] \<and> after = [(''file'', JStr ''a.txt'')] \<and>
            tv_input_schema v = tv_input_schema w
        | _ \<Rightarrow> False)"
  by code_simp

text \<open>Two tools that are offered one name are both given it.  For every digest the sampled profile shows
  \<open>Read\<close> and \<open>Write\<close> as \<open>tool\<close>; a call to \<open>tool\<close> finds \<open>Read\<close>, with the adapter of \<open>Write\<close>, and no name
  reaches \<open>Write\<close>.\<close>

theorem sampling_may_collide:
  "case sample_profile sha seed (example_config ''tool'' ''tool'' [renamed_schema]) (example_profile empty_adapter)
     ''name_description_schema'' of
     Inl _ \<Rightarrow> False
   | Inr p \<Rightarrow>
       map tv_canonical_name (tp_tools p) = [''Read'', ''Write''] \<and>
       map_option (\<lambda>(v, a). (tv_canonical_name v, a)) (get_tool p ''tool'') = Some (''Read'', renaming ''body'' ''text'') \<and>
       (case get_tool p name of None \<Rightarrow> True | Some (v, a) \<Rightarrow> \<not> tv_canonical_name v = ''Write'')"
proof -
  have two: "choose_candidate sha seed n x True [a, b] = b" for n x and a b :: 'c
    by (simp add: choose_candidate_def select_mutated_index_def)
  note defs = example_config_def example_profile_def example_view_def named_def renamed_schema_def renaming_def
  show ?thesis
    by (simp add: defs two sample_profile_def resolved_config_def mode_spec_of_def unchanged_spec_def
      select_tool_variant_def variants_of_def get_default_def dict_get_def Let_def
      normalize_string_candidates_def string_candidate_def mutate_name_def candidate_list_def mutate_description_def
      normalize_schema_candidates_def is_base_schema_candidate_def schema_variant_def variant_category_def
      classify_legacy_schema_candidate_def SchemaCandidate_from_dict_def new_schema_candidate_def check_category_def
      adapter_argument_def ToolAdapter_of_def text_dict_def base_schema_candidate_def filter_schema_candidates_def
      mutate_schema_def sampled_view_def profile_metadata_def place_tool_def get_tool_def adapter_for_def
      empty_adapter_def dict_update_def schema_variant_categories_def)
qed

end
