(* ===== verification/Claude_Files.thy ===== *)
theory Claude_Files
  imports Patch_Runtime
begin

section \<open>The file tools of the Claude family\<close>

text \<open>
  \<open>Read\<close>, \<open>Edit\<close> and \<open>Write\<close> of \<open>tools/families/claude.py\<close>.  The tools act on the file system, with
  the time of the last change of every file in milliseconds, and on the read witnesses they keep in
  \<open>ctx.tool_state\<close>: what the model last saw of a file, by the resolved path.  A handler is given
  the time \<open>now\<close> at which it runs; what it writes has that time.  \<open>file_size\<close> is \<open>stat().st_size\<close>,
  the number of bytes, which the decoded text does not determine.  Fields carry \<open>rw_\<close> and \<open>fx_\<close>.
\<close>

subsection \<open>State\<close>

record ReadWitness =
  rw_content :: string
  rw_timestamp :: int
  rw_offset :: int
  rw_limit :: "int option"
  rw_is_partial_view :: bool

record file_state =
  fx_fs :: fs
  fx_mtime :: "path \<Rightarrow> int"
  fx_witnesses :: "(string \<times> ReadWitness) list"

text \<open>An operation of a tool: a value or an exception, and the state it leaves.\<close>

type_synonym 'a fileop = "file_state \<Rightarrow> (py_exn + 'a) \<times> file_state"

definition fo_lift :: "py_exn + 'a \<Rightarrow> 'a fileop" where
  "fo_lift r = (\<lambda>s. (r, s))"

definition fo_return :: "'a \<Rightarrow> 'a fileop" where
  "fo_return x = (\<lambda>s. (Inr x, s))"

definition fo_bind :: "'a fileop \<Rightarrow> ('a \<Rightarrow> 'b fileop) \<Rightarrow> 'b fileop" where
  "fo_bind m k = (\<lambda>s. case m s of (Inl e, t) \<Rightarrow> (Inl e, t) | (Inr x, t) \<Rightarrow> k x t)"

text \<open>\<open>try: m except Exception as exc: h(exc)\<close>.\<close>

definition fo_catch :: "'a fileop \<Rightarrow> (py_exn \<Rightarrow> 'a fileop) \<Rightarrow> 'a fileop" where
  "fo_catch m h = (\<lambda>s. case m s of (Inl e, t) \<Rightarrow> h e t | (Inr x, t) \<Rightarrow> (Inr x, t))"

definition fo_fs :: "'a fsop \<Rightarrow> 'a fileop" where
  "fo_fs m = (\<lambda>s. case m (fx_fs s) of (r, f) \<Rightarrow> (r, s\<lparr>fx_fs := f\<rparr>))"

text \<open>\<open>target.write_text(text, encoding="utf-8")\<close>, which sets the time of the file.\<close>

definition write_file :: "int \<Rightarrow> path \<Rightarrow> string \<Rightarrow> unit fileop" where
  "write_file now p text' =
     fo_bind (fo_fs (write_text p text')) (\<lambda>_ s. (Inr (), s\<lparr>fx_mtime := (fx_mtime s)(p := now)\<rparr>))"

subsection \<open>Text\<close>

text \<open>\<open>str.lower\<close> on code points below 256, and \<open>Path.suffix\<close> of a name.\<close>

definition lower_char :: "char \<Rightarrow> char" where
  "lower_char c = (let n = (of_char c :: nat)
     in if (65 \<le> n \<and> n \<le> 90) \<or> (192 \<le> n \<and> n \<le> 222 \<and> n \<noteq> 215) then char_of (n + 32) else c)"

definition py_lower :: "string \<Rightarrow> string" where
  "py_lower s = map lower_char s"

definition name_suffix :: "string \<Rightarrow> string" where
  "name_suffix name =
     (let i = length (takeWhile (\<lambda>c. c \<noteq> CHR ''.'') (rev name))
      in if CHR ''.'' \<in> set name \<and> 0 < i \<and> i + 1 < length name then drop (length name - i - 1) name else '''')"

definition path_suffix :: "path \<Rightarrow> string" where
  "path_suffix p = name_suffix (last p)"

text \<open>\<open>s.count(sub)\<close> and \<open>s.replace(old, new)\<close>, at most \<open>limit\<close> times where there is one; the text
  that is looked for is never empty where the tools call them.\<close>

function py_count :: "string \<Rightarrow> string \<Rightarrow> nat" where
  "py_count sub s =
     (if s = [] \<or> sub = [] then 0
      else if starts_with sub s then Suc (py_count sub (drop (length sub) s))
      else py_count sub (tl s))"
  by pat_completeness auto
termination by (relation "measure (length \<circ> snd)") (auto simp: neq_Nil_conv)

function py_replace :: "string \<Rightarrow> string \<Rightarrow> nat option \<Rightarrow> string \<Rightarrow> string" where
  "py_replace old new limit s =
     (if s = [] \<or> old = [] \<or> limit = Some 0 then s
      else if starts_with old s
      then new @ py_replace old new (map_option (\<lambda>n. n - 1) limit) (drop (length old) s)
      else hd s # py_replace old new limit (tl s))"
  by pat_completeness auto
termination by (relation "measure (\<lambda>(old, new, limit, s). length s)") (auto simp: neq_Nil_conv)

declare py_count.simps [simp del] py_replace.simps [simp del]

definition MAX_TEXT_OUTPUT_CHARS :: nat where
  "MAX_TEXT_OUTPUT_CHARS = 50000"

definition truncate_text :: "string \<Rightarrow> nat \<Rightarrow> string \<times> bool" where
  "truncate_text text' limit =
     (if length text' \<le> limit then (text', False)
      else (take limit text' @ [LF] @ ''... [truncated at '' @ py_int_str (int limit) @ '' chars]'', True))"

subsection \<open>Results\<close>

definition FAMILY :: string where
  "FAMILY = ''claude''"

text \<open>\<open>_to_workspace_relative\<close>; a path outside raises, and so does one that cannot be resolved.\<close>

definition to_workspace_relative :: "ToolContext \<Rightarrow> path \<Rightarrow> py_exn + string" where
  "to_workspace_relative c full =
     res_bind (path_resolve (ctx_os c) full) (\<lambda>resolved.
       to_workspace_relative_str (ctx_os c) resolved (ctx_workspace_root c))"

definition claude_facts :: "string \<Rightarrow> string \<Rightarrow> string \<Rightarrow> string \<Rightarrow> pydict \<Rightarrow> execution_facts" where
  "claude_facts operation kind stage decision extra = \<lparr>ef_operation = operation, ef_kind = kind,
     ef_stage = stage, ef_policy_decision = Some decision, ef_policy_reason = None,
     ef_policy_reason_code = None, ef_policy_domain = Some ''filesystem'', ef_dangerous = Some False,
     ef_command_family = Some operation, ef_workspace_root = None, ef_resolved_target_paths = None,
     ef_resolved_cwd = None, ef_extra = (''family'', JStr FAMILY) # extra\<rparr>"

definition claude_missing_context :: "string \<Rightarrow> string \<Rightarrow> ToolResult" where
  "claude_missing_context operation kind =
     (let message = ''ToolContext is required for workspace enforcement''
      in tool_failure message
           ((claude_facts operation kind ''context_check'' ''deny'' [(''error_type'', JStr ''missing_context'')])\<lparr>
             ef_policy_reason := Some message, ef_policy_reason_code := Some ''missing_context''\<rparr>))"

definition validation_error ::
  "ToolContext \<Rightarrow> string \<Rightarrow> string \<Rightarrow> string \<Rightarrow> string \<Rightarrow> string \<Rightarrow> string list option \<Rightarrow> ToolResult" where
  "validation_error c operation kind requested content error_type paths =
     tool_failure content
       ((claude_facts operation kind ''validate_input'' ''deny''
           [(''error_type'', JStr error_type), (''requested_path'', JStr requested)])\<lparr>
         ef_policy_reason := Some content, ef_policy_reason_code := Some error_type,
         ef_workspace_root := Some (path_str (ctx_workspace_root c)), ef_resolved_target_paths := paths\<rparr>)"

definition claude_path_error ::
  "ToolContext \<Rightarrow> string \<Rightarrow> string \<Rightarrow> string \<Rightarrow> string \<Rightarrow> string \<Rightarrow> pydict \<Rightarrow> ToolResult" where
  "claude_path_error c operation kind requested message error_type metadata =
     (let base = build_execution_metadata
            ((claude_facts operation kind ''validate_target'' (meta_str metadata ''policy_decision'' ''deny'')
                [(''error_type'', JStr error_type), (''requested_path'', JStr requested)])\<lparr>
              ef_policy_domain := Some (meta_str metadata ''policy_domain'' ''filesystem''),
              ef_policy_reason := Some (meta_str metadata ''policy_reason'' message),
              ef_policy_reason_code := Some (meta_str metadata ''policy_reason_code'' error_type),
              ef_dangerous := Some (meta_bool metadata ''dangerous''
                (error_type \<in> set [''absolute_path'', ''workspace_escape'', ''protected_path''])),
              ef_workspace_root := Some (path_str (ctx_workspace_root c))\<rparr>)
      in \<lparr>tr_ok = False, tr_content = message,
          tr_metadata = fold (\<lambda>(k, v) d. setdefault k v d) metadata base, tr_is_error = True\<rparr>)"

definition exn_text :: "py_exn \<Rightarrow> string" where
  "exn_text e = (case e of PathPolicyError m t d \<Rightarrow> m | PatchApplyError m \<Rightarrow> m | StdError name \<Rightarrow> name)"

text \<open>The handler of \<open>except Exception\<close>; finding the relative path may raise again.\<close>

definition execution_error ::
  "ToolContext \<Rightarrow> string \<Rightarrow> string \<Rightarrow> string \<Rightarrow> string \<Rightarrow> path \<Rightarrow> py_exn \<Rightarrow> ToolResult fileop" where
  "execution_error c operation kind what requested target e =
     fo_lift (res_bind (to_workspace_relative c target) (\<lambda>rel.
       Inr (tool_failure (what @ '' failed: '' @ exn_text e)
         ((claude_facts operation kind ''handler_execution'' ''allow''
             [(''error_type'', JStr ''execution''), (''requested_path'', JStr requested)])\<lparr>
           ef_workspace_root := Some (path_str (ctx_workspace_root c)),
           ef_resolved_target_paths := Some [rel]\<rparr>))))"

text \<open>A refusal once the target is known.\<close>

definition target_error ::
  "ToolContext \<Rightarrow> string \<Rightarrow> string \<Rightarrow> string \<Rightarrow> path \<Rightarrow> string \<Rightarrow> string \<Rightarrow> ToolResult fileop" where
  "target_error c operation kind requested target content error_type =
     fo_lift (res_bind (to_workspace_relative c target) (\<lambda>rel.
       Inr (validation_error c operation kind requested content error_type (Some [rel]))))"

definition write_success_result ::
  "ToolContext \<Rightarrow> string \<Rightarrow> path \<Rightarrow> string \<Rightarrow> bool \<Rightarrow> string \<Rightarrow> pydict \<Rightarrow> ToolResult fileop" where
  "write_success_result c operation target verb created content_delta_kind extra =
     fo_lift (res_bind (to_workspace_relative c target) (\<lambda>rel.
       Inr \<lparr>tr_ok = True, tr_content = verb @ '' file: '' @ rel,
         tr_metadata = build_execution_metadata
           ((claude_facts operation ''file_write'' ''result_finalize'' ''allow''
               ([(''workspace_relative_path'', JStr rel), (''resolved_path'', JStr (path_str target)),
                 (''created'', JBool created), (''content_delta_kind'', JStr content_delta_kind),
                 (''files_modified'', JList [JStr rel]), (''change_applied'', JBool True),
                 (''change_summary_present'', JBool True)] @ extra))\<lparr>
             ef_workspace_root := Some (path_str (ctx_workspace_root c)),
             ef_resolved_target_paths := Some [rel]\<rparr>),
         tr_is_error = False\<rparr>))"

subsection \<open>Read witnesses\<close>

text \<open>The key of a file is \<open>str(target.resolve())\<close>; the target was resolved once and resolves again.\<close>

definition witness_key :: "ToolContext \<Rightarrow> path \<Rightarrow> string" where
  "witness_key c target = path_str (ctx_resolve c target)"

definition record_read_witness ::
  "ToolContext \<Rightarrow> path \<Rightarrow> string \<Rightarrow> int \<Rightarrow> int option \<Rightarrow> unit fileop" where
  "record_read_witness c target content offset limit = (\<lambda>s.
     (Inr (), s\<lparr>fx_witnesses := AList.update (witness_key c target)
        \<lparr>rw_content = content, rw_timestamp = fx_mtime s target, rw_offset = offset, rw_limit = limit,
         rw_is_partial_view = (\<not> (offset = 1 \<and> limit = None))\<rparr> (fx_witnesses s)\<rparr>))"

text \<open>\<open>None\<close>: the file may be written.\<close>

definition require_unchanged_full_read :: "ToolContext \<Rightarrow> path \<Rightarrow> string option fileop" where
  "require_unchanged_full_read c target = (\<lambda>s.
     (case map_of (fx_witnesses s) (witness_key c target) of
        None \<Rightarrow> fo_return (Some ''File has not been read yet. Read it first before writing to it.'') s
      | Some w \<Rightarrow>
          if rw_is_partial_view w
          then fo_return (Some ''File has not been read yet. Read it first before writing to it.'') s
          else
            fo_bind (fo_fs (read_text target)) (\<lambda>current_content.
              fo_return (if fx_mtime s target > rw_timestamp w \<and> current_content \<noteq> rw_content w
                then Some (''File has been modified since read, either by the user or by a ''
                  @ ''linter. Read it again before attempting to write it.'')
                else None)) s))"

subsection \<open>Read\<close>

definition PDF_MAX_PAGES_PER_READ :: nat where
  "PDF_MAX_PAGES_PER_READ = 20"

text \<open>\<open>\s*(\d+)(?:-(\d+))?\s*\<close> on the whole text.\<close>

definition match_pages :: "string \<Rightarrow> (nat \<times> nat) option" where
  "match_pages pages =
     (case match_digits (py_strip pages) of
        None \<Rightarrow> None
      | Some (a, []) \<Rightarrow> Some (digits_value a, digits_value a)
      | Some (a, c # rest) \<Rightarrow>
          if c = CHR ''-'' then
            (case match_digits rest of Some (b, []) \<Rightarrow> Some (digits_value a, digits_value b) | _ \<Rightarrow> None)
          else None)"

definition validate_pages_parameter :: "string option \<Rightarrow> string option" where
  "validate_pages_parameter pages =
     (case pages of
        None \<Rightarrow> None
      | Some p \<Rightarrow>
          let q = [CHR 0x22];
              invalid = Some (''Invalid pages parameter: '' @ q @ p @ q @ ''. Use formats like '' @ q @ ''1-5'' @ q
                @ '', '' @ q @ ''3'' @ q @ '', or '' @ q @ ''10-20'' @ q @ ''. Pages are 1-indexed.'')
          in case match_pages p of
               None \<Rightarrow> invalid
             | Some (first_page, last_page) \<Rightarrow>
                 if first_page = 0 \<or> last_page < first_page then invalid
                 else if last_page - first_page + 1 > PDF_MAX_PAGES_PER_READ
                 then Some (''Page range '' @ q @ p @ q @ '' exceeds maximum of ''
                   @ py_int_str (int PDF_MAX_PAGES_PER_READ) @ '' pages per request. Please use a smaller range.'')
                 else None)"

text \<open>\<open>f"{n:4d}"\<close>.\<close>

definition pad_left :: "nat \<Rightarrow> string \<Rightarrow> string" where
  "pad_left w s = replicate (w - length s) (CHR 0x20) @ s"

definition numbered_lines :: "int \<Rightarrow> string list \<Rightarrow> string list" where
  "numbered_lines start lines =
     map (\<lambda>(i, line). pad_left 4 (py_int_str (start + int i)) @ '' | '' @ line) (enumerate 0 lines)"

definition read_content :: "int \<Rightarrow> string list \<Rightarrow> string list \<Rightarrow> string" where
  "read_content start_line lines selected_lines =
     (if selected_lines = [] then
        (if lines = [] then
           ''<system-reminder>Warning: the file exists but the contents are empty.</system-reminder>''
         else ''<system-reminder>Warning: the file exists but is shorter than ''
           @ ''the provided offset ('' @ py_int_str start_line @ ''). The file has ''
           @ py_int_str (int (length lines)) @ '' lines.</system-reminder>'')
      else py_join [LF] (numbered_lines start_line selected_lines))"

definition select_lines :: "int \<Rightarrow> int option \<Rightarrow> string list \<Rightarrow> string list" where
  "select_lines start_line limit lines =
     (let start_index = nat (if start_line = 0 then 0 else max 0 (start_line - 1))
      in case limit of None \<Rightarrow> drop start_index lines | Some l \<Rightarrow> take (nat l) (drop start_index lines))"

definition read_file ::
  "(path \<Rightarrow> int) \<Rightarrow> ToolContext \<Rightarrow> string \<Rightarrow> int \<Rightarrow> int option \<Rightarrow> string option \<Rightarrow> path \<Rightarrow> ToolResult fileop" where
  "read_file file_size c file_path start_line limit pages target =
     fo_bind (fo_fs (read_text target)) (\<lambda>text'.
       let lines = splitlines text';
           selected_lines = select_lines start_line limit lines;
           (rendered_content, truncated) =
             truncate_text (read_content start_line lines selected_lines) MAX_TEXT_OUTPUT_CHARS
       in fo_bind (record_read_witness c target text' start_line limit) (\<lambda>_.
          fo_lift (res_bind (to_workspace_relative c target) (\<lambda>rel.
            Inr \<lparr>tr_ok = True, tr_content = rendered_content,
              tr_metadata = build_execution_metadata
                ((claude_facts ''Read'' ''file_read'' ''result_finalize'' ''allow''
                    [(''requested_path'', JStr file_path), (''workspace_relative_path'', JStr rel),
                     (''resolved_path'', JStr (path_str target)), (''offset'', JInt start_line),
                     (''limit'', case limit of None \<Rightarrow> JNull | Some l \<Rightarrow> JInt l), (''pages'', opt_str pages),
                     (''returned_line_count'', JInt (int (length selected_lines))),
                     (''total_line_count'', JInt (int (length lines))),
                     (''bytes_read'', JInt (file_size target)), (''truncated'', JBool truncated)])\<lparr>
                  ef_workspace_root := Some (path_str (ctx_workspace_root c)),
                  ef_resolved_target_paths := Some [rel]\<rparr>),
              tr_is_error = False\<rparr>))))"

definition path_result ::
  "ToolContext \<Rightarrow> string \<Rightarrow> string \<Rightarrow> string \<Rightarrow> py_exn + path \<Rightarrow> (path \<Rightarrow> ToolResult fileop) \<Rightarrow> ToolResult fileop" where
  "path_result c operation kind requested r k =
     (case r of
        Inr target \<Rightarrow> k target
      | Inl (PathPolicyError message error_type metadata) \<Rightarrow>
          fo_return (claude_path_error c operation kind requested message error_type metadata)
      | Inl e \<Rightarrow> fo_lift (Inl e))"

definition claude_read_handler ::
  "(path \<Rightarrow> int) \<Rightarrow> string \<Rightarrow> int option \<Rightarrow> int option \<Rightarrow> string option \<Rightarrow> ToolContext option
    \<Rightarrow> ToolResult fileop" where
  "claude_read_handler file_size file_path offset limit pages ctx = (\<lambda>s.
     (case ctx of
        None \<Rightarrow> fo_return (claude_missing_context ''Read'' ''file_read'')
      | Some c \<Rightarrow>
          let invalid = (\<lambda>content error_type.
                fo_return (validation_error c ''Read'' ''file_read'' file_path content error_type None))
          in case validate_pages_parameter pages of
               Some pages_error \<Rightarrow> invalid pages_error ''invalid_pages''
             | None \<Rightarrow>
                 if (case offset of None \<Rightarrow> False | Some o' \<Rightarrow> o' < 0)
                 then invalid ''offset must be >= 0'' ''invalid_offset''
                 else if (case limit of None \<Rightarrow> False | Some l \<Rightarrow> l \<le> 0)
                 then invalid ''limit must be > 0'' ''invalid_limit''
                 else
                   path_result c ''Read'' ''file_read'' file_path
                     (resolve_and_validate_path (ctx_os c) (fx_fs s)
                       (default_checks\<lparr>allow_absolute := True, must_exist := True, must_be_file := True,
                          check_allowed_fn := Some (context_file_allowed c)\<rparr>) file_path (ctx_workspace_root c))
                     (\<lambda>target.
                        if pages \<noteq> None \<and> py_lower (path_suffix target) \<noteq> ''.pdf''
                        then target_error c ''Read'' ''file_read'' file_path target
                          ''pages is only supported for PDF files.'' ''invalid_pages''
                        else if py_lower (path_suffix target) = ''.pdf''
                        then target_error c ''Read'' ''file_read'' file_path target
                          ''PDF reading is not supported in the local strict Claude runtime yet.''
                          ''unsupported_file_type''
                        else
                          fo_catch (read_file file_size c file_path (case offset of None \<Rightarrow> 1 | Some o' \<Rightarrow> o')
                              limit pages target)
                            (execution_error c ''Read'' ''file_read'' ''File read'' file_path target))) s)"

subsection \<open>Edit\<close>

definition writable_target :: "ToolContext \<Rightarrow> fs \<Rightarrow> string \<Rightarrow> py_exn + path" where
  "writable_target c f file_path =
     resolve_and_validate_writable_path (ctx_os c) f
       (default_checks\<lparr>allow_absolute := True, must_be_file := True,
          check_allowed_fn := Some (context_file_allowed c)\<rparr>) file_path (ctx_workspace_root c)"

text \<open>The two ways a file is written: after its directories are made, or in place.\<close>

definition create_file :: "int \<Rightarrow> path \<Rightarrow> string \<Rightarrow> unit fileop" where
  "create_file now target content =
     fo_bind (fo_fs (mkdir_parents (path_parent target))) (\<lambda>_. write_file now target content)"

definition edit_extra :: "bool \<Rightarrow> bool \<Rightarrow> pydict" where
  "edit_extra replace_every old_empty =
     [(''replace_all'', JBool replace_every), (''old_string_empty'', JBool old_empty)]"

text \<open>The new text of an existing file, or the content and type of the refusal.\<close>

definition edited_content ::
  "ToolContext \<Rightarrow> path \<Rightarrow> string \<Rightarrow> string \<Rightarrow> bool \<Rightarrow> string \<Rightarrow> (string \<times> string + string) fileop" where
  "edited_content c target old_string new_string replace_every current_content =
     (if old_string = '''' then
        fo_return (if py_strip current_content \<noteq> ''''
          then Inl (''Cannot create new file - file already exists.'', ''already_exists'') else Inr new_string)
      else
        fo_bind (require_unchanged_full_read c target) (\<lambda>witness_error.
          let matches = py_count old_string current_content
          in fo_return (case witness_error of
               Some e \<Rightarrow> Inl (e, ''stale_read_state'')
             | None \<Rightarrow>
                 if matches = 0
                 then Inl (''String to replace not found in file.'' @ [LF] @ ''String: '' @ old_string, ''missing_match'')
                 else if matches > 1 \<and> \<not> replace_every
                 then Inl (''Found '' @ py_int_str (int matches) @ '' matches of the string to replace, but ''
                   @ ''replace_all is false. To replace all occurrences, set ''
                   @ ''replace_all to true. To replace only one occurrence, ''
                   @ ''provide more context to uniquely identify the instance.'' @ [LF]
                   @ ''String: '' @ old_string, ''non_unique_match'')
                 else Inr (py_replace old_string new_string (if replace_every then None else Some 1)
                   current_content))))"

definition edit_existing ::
  "int \<Rightarrow> ToolContext \<Rightarrow> string \<Rightarrow> path \<Rightarrow> string \<Rightarrow> string \<Rightarrow> bool \<Rightarrow> ToolResult fileop" where
  "edit_existing now c file_path target old_string new_string replace_every =
     fo_bind (fo_fs (read_text target)) (\<lambda>current_content.
     fo_bind (edited_content c target old_string new_string replace_every current_content) (\<lambda>r.
       case r of
         Inl (content, error_type) \<Rightarrow> target_error c ''Edit'' ''file_write'' file_path target content error_type
       | Inr new_content \<Rightarrow>
           fo_bind (write_file now target new_content) (\<lambda>_.
           fo_bind (record_read_witness c target new_content 1 None) (\<lambda>_.
             write_success_result c ''Edit'' target ''Edited'' False ''edit''
               (edit_extra replace_every (old_string = ''''))))))"

definition edit_missing ::
  "int \<Rightarrow> ToolContext \<Rightarrow> string \<Rightarrow> path \<Rightarrow> string \<Rightarrow> string \<Rightarrow> bool \<Rightarrow> ToolResult fileop" where
  "edit_missing now c file_path target old_string new_string replace_every =
     (if old_string \<noteq> ''''
      then target_error c ''Edit'' ''file_write'' file_path target
        (''File does not exist. Use old_string='' @ [CHR 0x22, CHR 0x22] @ '' to create a new file.'') ''not_found''
      else
        fo_bind (create_file now target new_string) (\<lambda>_.
        fo_bind (record_read_witness c target new_string 1 None) (\<lambda>_.
          write_success_result c ''Edit'' target ''Created'' True ''create'' (edit_extra replace_every True))))"

definition claude_edit_handler ::
  "int \<Rightarrow> string \<Rightarrow> string \<Rightarrow> string \<Rightarrow> bool option \<Rightarrow> ToolContext option \<Rightarrow> ToolResult fileop" where
  "claude_edit_handler now file_path old_string new_string replace_all ctx = (\<lambda>s.
     (case ctx of
        None \<Rightarrow> fo_return (claude_missing_context ''Edit'' ''file_write'')
      | Some c \<Rightarrow>
          if old_string = new_string
          then fo_return (validation_error c ''Edit'' ''file_write'' file_path
            ''No changes to make: old_string and new_string are exactly the same.'' ''no_op_edit'' None)
          else
            path_result c ''Edit'' ''file_write'' file_path (writable_target c (fx_fs s) file_path) (\<lambda>target.
              let target_exists = path_exists (fx_fs s) target; replace_every = (replace_all = Some True)
              in fo_catch
                   (if target_exists then edit_existing now c file_path target old_string new_string replace_every
                    else edit_missing now c file_path target old_string new_string replace_every)
                   (execution_error c ''Edit'' ''file_write'' ''File edit'' file_path target))) s)"

subsection \<open>Write\<close>

definition write_target ::
  "int \<Rightarrow> ToolContext \<Rightarrow> string \<Rightarrow> path \<Rightarrow> string \<Rightarrow> bool \<Rightarrow> ToolResult fileop" where
  "write_target now c file_path target content target_exists =
     fo_bind (if target_exists then require_unchanged_full_read c target
              else fo_bind (fo_fs (mkdir_parents (path_parent target))) (\<lambda>_. fo_return None)) (\<lambda>witness_error.
       case witness_error of
         Some e \<Rightarrow> target_error c ''Write'' ''file_write'' file_path target e ''stale_read_state''
       | None \<Rightarrow>
           fo_bind (write_file now target content) (\<lambda>_.
           fo_bind (record_read_witness c target content 1 None) (\<lambda>_.
             write_success_result c ''Write'' target (if target_exists then ''Wrote'' else ''Created'')
               (\<not> target_exists) (if target_exists then ''overwrite'' else ''create'') [])))"

definition claude_write_handler ::
  "int \<Rightarrow> string \<Rightarrow> string \<Rightarrow> ToolContext option \<Rightarrow> ToolResult fileop" where
  "claude_write_handler now file_path content ctx = (\<lambda>s.
     (case ctx of
        None \<Rightarrow> fo_return (claude_missing_context ''Write'' ''file_write'')
      | Some c \<Rightarrow>
          path_result c ''Write'' ''file_write'' file_path (writable_target c (fx_fs s) file_path) (\<lambda>target.
            fo_catch (write_target now c file_path target content (path_exists (fx_fs s) target))
              (execution_error c ''Write'' ''file_write'' ''File write'' file_path target))) s)"

end
