(* ===== verification/Claude_Files_Properties.thy ===== *)
theory Claude_Files_Properties
  imports Claude_Files Path_Properties Step_System
begin

section \<open>What the file tools of the Claude family do to files\<close>

text \<open>
  The three tools refine an abstract machine: a call is refused and changes no file, or it shows a
  file and notes what it saw, or it gives one writable file a new text, and the text it replaces is
  blank or has not changed since it was last seen in full.  From this: along any run of calls and of
  changes from outside, no text is overwritten that the model has not seen, provided that a
  change from outside comes at a later millisecond than what was seen before; an edit replaces the
  occurrences it counted and nothing else; and what the tools do with offsets and long files.
\<close>

subsection \<open>Paths and their texts\<close>

definition wf_path :: "path \<Rightarrow> bool" where
  "wf_path p = (case p of [] \<Rightarrow> False
     | r # ps \<Rightarrow> (r = [SLASH] \<or> r = [SLASH, SLASH]) \<and> list_all (\<lambda>q. q \<noteq> [] \<and> SLASH \<notin> set q) ps)"

lemma hd_join:
  assumes "ps \<noteq> []" and "list_all (\<lambda>q. q \<noteq> [] \<and> SLASH \<notin> set q) ps"
  shows "\<exists>c s. py_join [SLASH] ps = c # s \<and> c \<noteq> SLASH"
proof -
  obtain p qs where ps: "ps = p # qs" using assms(1) by (cases ps) simp_all
  obtain x xs where p: "p = x # xs" using assms(2) ps by (cases p) simp_all
  then have "x \<noteq> SLASH" using assms(2) ps by auto
  then show ?thesis using ps p by (cases qs) simp_all
qed

lemma py_join_inj:
  assumes "list_all (\<lambda>q. q \<noteq> [] \<and> SLASH \<notin> set q) ps" and "list_all (\<lambda>q. q \<noteq> [] \<and> SLASH \<notin> set q) qs"
    and "py_join [SLASH] ps = py_join [SLASH] qs"
  shows "ps = qs"
proof (cases "ps = [] \<or> qs = []")
  case True
  then show ?thesis
  proof
    assume "ps = []"
    then show ?thesis using hd_join [of qs] assms(2,3) by (cases "qs = []") auto
  next
    assume "qs = []"
    then show ?thesis using hd_join [of ps] assms(1,3) by (cases "ps = []") auto
  qed
next
  case False
  have ne: "ps \<noteq> []" "qs \<noteq> []" using False by blast+
  have no: "list_all (\<lambda>p. SLASH \<notin> set p) ps" "list_all (\<lambda>p. SLASH \<notin> set p) qs"
    using assms(1,2) by (simp_all add: list_all_iff)
  have "ps = py_split SLASH (py_join [SLASH] ps)" by (rule py_split_join [OF ne(1) no(1), symmetric])
  also have "\<dots> = qs" unfolding assms(3) by (rule py_split_join [OF ne(2) no(2)])
  finally show ?thesis .
qed

lemma path_str_inj:
  assumes "wf_path p" and "wf_path q" and "path_str p = path_str q"
  shows "p = q"
proof -
  obtain r ps where p: "p = r # ps" "r = [SLASH] \<or> r = [SLASH, SLASH]" "list_all (\<lambda>q. q \<noteq> [] \<and> SLASH \<notin> set q) ps"
    using assms(1) by (auto simp: wf_path_def split: list.splits)
  obtain u qs where q: "q = u # qs" "u = [SLASH] \<or> u = [SLASH, SLASH]" "list_all (\<lambda>q. q \<noteq> [] \<and> SLASH \<notin> set q) qs"
    using assms(2) by (auto simp: wf_path_def split: list.splits)
  have starts: "(case py_join [SLASH] ls of [] \<Rightarrow> True | x # xs \<Rightarrow> x \<noteq> SLASH)"
    if "list_all (\<lambda>q. q \<noteq> [] \<and> SLASH \<notin> set q) ls" for ls
    using hd_join [of ls] that by (cases "ls = []") auto
  have "r @ py_join [SLASH] ps = u @ py_join [SLASH] qs" using assms(3) p(1) q(1) by (simp add: path_str_def)
  then have "r = u \<and> py_join [SLASH] ps = py_join [SLASH] qs"
    using starts [OF p(3)] starts [OF q(3)] p(2) q(2) by (auto split: list.splits)
  then show ?thesis using p q py_join_inj by blast
qed

lemma path_join_wf:
  assumes "wf_path base"
  shows "wf_path (path_join base raw)"
proof -
  have "list_all (\<lambda>q. q \<noteq> [] \<and> SLASH \<notin> set q) (path_components raw)"
    using path_components_relative [of _ raw] unfolding list_all_iff by blast
  then show ?thesis using assms
    by (auto simp: wf_path_def path_join_def path_parts_def path_root_def path_is_absolute_def split: list.splits)
qed

text \<open>What is relied on of \<open>Path.resolve\<close>: where it does not raise, it gives paths that it does not change.\<close>

definition links_ok :: "ToolContext \<Rightarrow> bool" where
  "links_ok c \<longleftrightarrow> wf_path (ctx_resolve c (ctx_workspace_root c)) \<and>
     (\<forall>p. wf_path p \<and> os_resolve_error (ctx_os c) p = None \<longrightarrow>
        wf_path (ctx_resolve c p) \<and> path_resolve (ctx_os c) (ctx_resolve c p) = Inr (ctx_resolve c p))"

text \<open>A path a tool may use: resolved, and inside the workspace; and the path that a call names.\<close>

definition good_target :: "ToolContext \<Rightarrow> path \<Rightarrow> bool" where
  "good_target c p \<longleftrightarrow> wf_path p \<and> path_resolve (ctx_os c) p = Inr p
     \<and> os_resolve_error (ctx_os c) (ctx_workspace_root c) = None \<and> prefix (ctx_resolve c (ctx_workspace_root c)) p"

definition named :: "ToolContext \<Rightarrow> string \<Rightarrow> path" where
  "named c q = ctx_resolve c (path_join (ctx_resolve c (ctx_workspace_root c)) q)"

lemma resolved_good:
  assumes "links_ok c" and "p = named c raw" and "p = ctx_resolve c (ctx_workspace_root c) @ rel"
    and "os_resolve_error (ctx_os c) (ctx_workspace_root c) = None"
    and "os_resolve_error (ctx_os c) (path_join (ctx_resolve c (ctx_workspace_root c)) raw) = None"
  shows "good_target c p"
proof -
  have "wf_path (path_join (ctx_resolve c (ctx_workspace_root c)) raw)"
    using assms(1) path_join_wf by (simp add: links_ok_def)
  moreover have "prefix (ctx_resolve c (ctx_workspace_root c)) p" unfolding assms(3) by simp
  ultimately show ?thesis using assms(1,2,4,5) by (simp add: good_target_def links_ok_def named_def)
qed

lemma validated_good:
  assumes "links_ok c" and v: "resolve_and_validate_path (ctx_os c) f k raw (ctx_workspace_root c) = Inr p"
  shows "good_target c p" and "p = named c raw"
proof -
  note ok = resolve_and_validate_path_ok [OF v]
  obtain rel where "p = ctx_resolve c (ctx_workspace_root c) @ rel" using ok(2) by blast
  then show "good_target c p" using resolved_good [OF assms(1) _ _ ok(6,7)] ok(1) by (simp add: named_def)
  show "p = named c raw" using ok(1) by (simp add: named_def)
qed

lemma writable_good:
  assumes "links_ok c" and "writable_target c f raw = Inr p"
  shows "good_target c p" and "writable c p" and "path_exists f p \<Longrightarrow> path_is_file f p" and "p = named c raw"
proof -
  note v = assms(2) [unfolded writable_target_def]
  note ok = writable_path_ok [OF v]
  obtain rel where "p = ctx_resolve c (ctx_workspace_root c) @ rel" using ok(1) by blast
  then show "good_target c p" using resolved_good [OF assms(1) _ _ ok(5,6)] ok(2) by (simp add: named_def)
  show "writable c p" using v by (intro writable_path_is_writable) auto
  show "path_exists f p \<Longrightarrow> path_is_file f p" using ok(4) by simp
  show "p = named c raw" using ok(2) by (simp add: named_def)
qed

lemma good_key: "good_target c p \<Longrightarrow> witness_key c p = path_str p"
  by (simp add: good_target_def witness_key_def)

lemma good_relative: "good_target c p \<Longrightarrow> \<exists>rel. to_workspace_relative c p = Inr rel"
  by (auto simp: good_target_def to_workspace_relative_def to_workspace_relative_str_def path_resolve_def prefix_def)

subsection \<open>Calls and changes from outside\<close>

text \<open>What happens to the files during a session: calls of the model, and changes by anybody else.\<close>

datatype file_event =
    ReadCall string "int option" "int option" "string option"
  | EditCall string string string "bool option"
  | WriteCall string string
  | Outside path "fs_entry option"

definition is_call :: "file_event \<Rightarrow> bool" where
  "is_call e = (case e of Outside p x \<Rightarrow> False | _ \<Rightarrow> True)"

fun event_path :: "file_event \<Rightarrow> string" where
  "event_path (ReadCall q offset limit pages) = q"
| "event_path (EditCall q old new all) = q"
| "event_path (WriteCall q content) = q"
| "event_path (Outside p x) = path_str p"

fun tool_call_result ::
  "(path \<Rightarrow> int) \<Rightarrow> ToolContext \<Rightarrow> int \<Rightarrow> file_event \<Rightarrow> file_state \<Rightarrow> (py_exn + ToolResult) option \<times> file_state" where
  "tool_call_result fsize c now (ReadCall q offset limit pages) s =
     map_prod Some id (claude_read_handler fsize q offset limit pages (Some c) s)"
| "tool_call_result fsize c now (EditCall q old new all) s =
     map_prod Some id (claude_edit_handler now q old new all (Some c) s)"
| "tool_call_result fsize c now (WriteCall q content) s = map_prod Some id (claude_write_handler now q content (Some c) s)"
| "tool_call_result fsize c now (Outside p x) s = (None, s\<lparr>fx_fs := (fx_fs s)(p := x), fx_mtime := (fx_mtime s)(p := now)\<rparr>)"

subsection \<open>The abstract machine\<close>

text \<open>The files of two states; how the newlines of a file are read.\<close>

definition same_texts :: "fs \<Rightarrow> fs \<Rightarrow> bool" where
  "same_texts f g \<longleftrightarrow> (\<forall>p t. g p = Some (File t) \<longleftrightarrow> f p = Some (File t))"

text \<open>What was seen in full is what there is: the text of a file may be replaced.\<close>

definition seen_in_full :: "file_state \<Rightarrow> path \<Rightarrow> string \<Rightarrow> bool" where
  "seen_in_full s p text' \<longleftrightarrow>
     (case map_of (fx_witnesses s) (path_str p) of
        None \<Rightarrow> False
      | Some w \<Rightarrow> \<not> rw_is_partial_view w \<and>
          (fx_mtime s p \<le> rw_timestamp w \<or> universal_newlines text' = rw_content w))"

definition may_replace :: "file_state \<Rightarrow> path \<Rightarrow> bool" where
  "may_replace s p \<longleftrightarrow>
     (case fx_fs s p of
        Some (File t) \<Rightarrow> py_strip (universal_newlines t) = '''' \<or> seen_in_full s p t
      | _ \<Rightarrow> True)"

text \<open>The text a call gives a file that has the text it has.\<close>

definition new_text :: "file_event \<Rightarrow> file_state \<Rightarrow> path \<Rightarrow> string \<Rightarrow> bool" where
  "new_text e s p content =
     (case e of
        WriteCall q text' \<Rightarrow> content = text'
      | EditCall q old new all \<Rightarrow>
          if old = '''' then content = new
          else (case fx_fs s p of
                  Some (File t) \<Rightarrow>
                    content = py_replace old new (if all = Some True then None else Some 1) (universal_newlines t)
                | _ \<Rightarrow> False)
      | _ \<Rightarrow> False)"

text \<open>A step of the machine for an event, with what the call reports.  A read is a full one if it was
  asked for no limit and from the first line.\<close>

definition full_read :: "int option \<Rightarrow> int option \<Rightarrow> bool" where
  "full_read offset limit \<longleftrightarrow> (case offset of None \<Rightarrow> True | Some n \<Rightarrow> n = 1) \<and> limit = None"

inductive tool_effect :: "ToolContext \<Rightarrow> int \<Rightarrow> file_event \<Rightarrow> file_state \<Rightarrow> bool \<Rightarrow> file_state \<Rightarrow> bool" for c now e where
  refused: "same_texts (fx_fs s) (fx_fs t) \<Longrightarrow> fx_mtime t = fx_mtime s \<Longrightarrow> fx_witnesses t = fx_witnesses s
    \<Longrightarrow> tool_effect c now e s False t"
| shown: "e = ReadCall q offset limit pages \<Longrightarrow> p = named c q \<Longrightarrow> good_target c p \<Longrightarrow> fx_fs s p = Some (File text') \<Longrightarrow>
    t = s\<lparr>fx_witnesses := AList.update (path_str p)
      \<lparr>rw_content = universal_newlines text', rw_timestamp = fx_mtime s p,
       rw_offset = (case offset of None \<Rightarrow> 1 | Some n \<Rightarrow> n), rw_limit = limit,
       rw_is_partial_view = (\<not> full_read offset limit)\<rparr> (fx_witnesses s)\<rparr>
    \<Longrightarrow> tool_effect c now e s True t"
| written: "p = named c (event_path e) \<Longrightarrow> new_text e s p content \<Longrightarrow>
    good_target c p \<Longrightarrow> writable c p \<Longrightarrow> may_replace s p \<Longrightarrow>
    (\<And>q text'. fx_fs t q = Some (File text') \<longleftrightarrow>
      (if q = p then text' = content else fx_fs s q = Some (File text'))) \<Longrightarrow>
    fx_mtime t = (fx_mtime s)(p := now) \<Longrightarrow>
    fx_witnesses t = AList.update (path_str p)
      \<lparr>rw_content = content, rw_timestamp = now, rw_offset = 1, rw_limit = None, rw_is_partial_view = False\<rparr>
      (fx_witnesses s)
    \<Longrightarrow> tool_effect c now e s True t"

inductive_cases tool_effectE: "tool_effect c now e s ok t"

lemma refused_same: "tool_effect c now e s False s"
  by (rule refused) (simp_all add: same_texts_def)

subsection \<open>The operations\<close>

lemma fo_simps [simp]:
  "fo_lift r s = (r, s)" "fo_return x s = (Inr x, s)"
  "fo_fs (read_text p) s = (fst (read_text p (fx_fs s)), s)"
  by (simp_all add: fo_lift_def fo_return_def fo_fs_def prod.case_eq_if)

lemma fo_bind_simps [simp]:
  "m s = (Inl e, t) \<Longrightarrow> fo_bind m k s = (Inl e, t)"
  "m s = (Inr x, t) \<Longrightarrow> fo_bind m k s = k x t"
  "m s = (Inl e, t) \<Longrightarrow> fo_catch m h s = h e t"
  "m s = (Inr y, t) \<Longrightarrow> fo_catch m h s = (Inr y, t)"
  by (simp_all add: fo_bind_def fo_catch_def)

lemma read_existing [simp]: "fx_fs s p = Some (File t) \<Longrightarrow> fst (read_text p (fx_fs s)) = Inr (universal_newlines t)"
  by (simp add: read_text_def)

text \<open>
  A call that ends in a result of the given verdict, by a step of the machine; or in an exception that
  the machine raises for the path it names, with nothing changed.
\<close>

definition machine_raises :: "ToolContext \<Rightarrow> string \<Rightarrow> py_exn \<Rightarrow> bool" where
  "machine_raises c q x = (case x of StdError name \<Rightarrow> os_refuses (ctx_os c) (ctx_workspace_root c) q name | _ \<Rightarrow> False)"

definition refines ::
  "ToolContext \<Rightarrow> int \<Rightarrow> file_event \<Rightarrow> file_state \<Rightarrow> (py_exn + ToolResult) \<times> file_state \<Rightarrow> bool" where
  "refines c now e s out \<longleftrightarrow>
     (case out of
        (Inl x, t) \<Rightarrow> machine_raises c (event_path e) x \<and> t = s
      | (Inr r, t) \<Rightarrow> tr_is_error r = (\<not> tr_ok r) \<and> tool_effect c now e s (tr_ok r) t)"

lemma refines_refusal:
  "\<not> tr_ok r \<Longrightarrow> tr_is_error r \<Longrightarrow> refines c now e s (Inr r, s)"
  by (simp add: refines_def refused_same)

lemma failures [simp]:
  "\<not> tr_ok (tool_failure m e)" "tr_is_error (tool_failure m e)"
  "\<not> tr_ok (validation_error c op k q m t ps)" "tr_is_error (validation_error c op k q m t ps)"
  "\<not> tr_ok (claude_path_error c op k q m t d)" "tr_is_error (claude_path_error c op k q m t d)"
  "\<not> tr_ok (claude_missing_context op k)" "tr_is_error (claude_missing_context op k)"
  by (simp_all add: tool_failure_def validation_error_def claude_path_error_def claude_missing_context_def Let_def)

lemma target_refusal: "good_target c p \<Longrightarrow> refines c now e s (target_error c op k q p m t s)"
  using good_relative [of c p] by (auto simp: target_error_def intro!: refines_refusal)

lemma execution_refusal:
  assumes "good_target c p" and "same_texts (fx_fs s) (fx_fs t)" and "fx_mtime t = fx_mtime s"
    and "fx_witnesses t = fx_witnesses s"
  shows "refines c now e s (execution_error c op k w q p x t)"
  using good_relative [OF assms(1)] assms(2-) by (auto simp: execution_error_def refines_def intro: refused)

lemma path_result_refines:
  assumes "\<And>p. r = Inr p \<Longrightarrow> refines c now e s (k p s)"
    and "policy_result (os_refuses (ctx_os c) (ctx_workspace_root c) (event_path e)) r"
  shows "refines c now e s (path_result c op kind q r k s)"
proof (cases r)
  case (Inl x)
  then show ?thesis using assms(2)
    by (cases x) (auto simp: path_result_def refused_same policy_result_def refines_def machine_raises_def)
qed (simp add: path_result_def assms(1))

lemma mkdir_texts: "mkdir_parents p f = (r, g) \<Longrightarrow> same_texts f g"
  using fs_specD(1) [OF files_within_mkdir [of "\<lambda>_. False" p]] by (simp add: same_texts_def files_within_def)

text \<open>What writing a file leaves: the same but for the text and the time of the file.\<close>

definition file_replaced :: "int \<Rightarrow> path \<Rightarrow> string \<Rightarrow> file_state \<Rightarrow> file_state \<Rightarrow> bool" where
  "file_replaced now p content s t \<longleftrightarrow>
     (\<forall>q text'. fx_fs t q = Some (File text') \<longleftrightarrow>
       (if q = p then text' = content else fx_fs s q = Some (File text'))) \<and>
     fx_mtime t = (fx_mtime s)(p := now) \<and> fx_witnesses t = fx_witnesses s"

definition untouched :: "file_state \<Rightarrow> file_state \<Rightarrow> bool" where
  "untouched s t \<longleftrightarrow> same_texts (fx_fs s) (fx_fs t) \<and> fx_mtime t = fx_mtime s \<and> fx_witnesses t = fx_witnesses s"

lemma untouched_refl [simp]: "untouched s s"
  by (simp add: untouched_def same_texts_def)

lemma write_file_existing:
  assumes "fx_fs s p = Some (File t)"
  shows "\<exists>u. write_file now p content s = (Inr (), u) \<and> file_replaced now p content s u"
  using assms by (auto simp: write_file_def fo_fs_def fo_bind_def write_text_def file_replaced_def)

lemma write_file_cases:
  "write_file now p content s = (r, u) \<Longrightarrow>
    (case r of Inl e \<Rightarrow> u = s | Inr _ \<Rightarrow> file_replaced now p content s u)"
  by (auto simp: write_file_def fo_fs_def fo_bind_def write_text_def file_replaced_def split: if_splits)

lemma make_parents: "fo_fs (mkdir_parents p) s = (r, u) \<Longrightarrow> untouched s u"
  using mkdir_texts [of p "fx_fs s"]
  by (cases "mkdir_parents p (fx_fs s)") (auto simp: fo_fs_def untouched_def)

lemma replaced_after_untouched:
  "untouched s u \<Longrightarrow> file_replaced now p content u t \<Longrightarrow> file_replaced now p content s t"
  by (auto simp: untouched_def file_replaced_def same_texts_def)

text \<open>The body of a \<open>try\<close> is fine if it refines a step, or raises and has changed nothing.\<close>

definition fine :: "ToolContext \<Rightarrow> int \<Rightarrow> file_event \<Rightarrow> file_state \<Rightarrow> (py_exn + ToolResult) \<times> file_state \<Rightarrow> bool" where
  "fine c now e s out \<longleftrightarrow> (case out of (Inl x, u) \<Rightarrow> untouched s u | (Inr r, u) \<Rightarrow> refines c now e s (Inr r, u))"

lemma refines_fine: "refines c now e s out \<Longrightarrow> fine c now e s out"
  by (auto simp: fine_def refines_def split: prod.splits sum.splits)

lemma fine_catch:
  assumes "fine c now e s (m s)" and "good_target c p"
  shows "refines c now e s (fo_catch m (execution_error c op k w q p) s)"
proof (cases "m s")
  case (Pair r u)
  then show ?thesis using assms execution_refusal [OF assms(2), of s u]
    by (cases r) (auto simp: fine_def untouched_def)
qed

lemma finish_written:
  assumes "good_target c p" and "writable c p" and "may_replace s p" and "file_replaced now p content s u"
    and "p = named c (event_path e)" and "new_text e s p content"
  shows "fine c now e s (fo_bind (record_read_witness c p content 1 None)
    (\<lambda>_. write_success_result c op p verb created kind extra) u)"
proof -
  obtain rel where rel: "to_workspace_relative c p = Inr rel" using good_relative [OF assms(1)] by blast
  let ?t = "u\<lparr>fx_witnesses := AList.update (path_str p)
    \<lparr>rw_content = content, rw_timestamp = now, rw_offset = 1, rw_limit = None, rw_is_partial_view = False\<rparr>
    (fx_witnesses u)\<rparr>"
  have "record_read_witness c p content 1 None u = (Inr (), ?t)"
    using assms(4) by (simp add: record_read_witness_def good_key [OF assms(1)] file_replaced_def)
  moreover have "tool_effect c now e s True ?t"
    using assms by (intro written [of p c e s content]) (auto simp: file_replaced_def)
  ultimately show ?thesis by (simp add: write_success_result_def rel refines_def fine_def)
qed

text \<open>The witness of a target, where its file has a text.\<close>

lemma require_unchanged:
  assumes "good_target c p" and "fx_fs s p = Some (File t)"
  shows "\<exists>r. require_unchanged_full_read c p s = (Inr r, s) \<and> (r = None \<longleftrightarrow> seen_in_full s p t)"
  using assms by (auto simp: require_unchanged_full_read_def seen_in_full_def good_key fo_bind_def read_existing
      split: option.splits)

lemma write_target_fine:
  assumes "good_target c p" and "writable c p" and "path_exists (fx_fs s) p \<longrightarrow> path_is_file (fx_fs s) p"
    and e: "p = named c (event_path e)" "e = WriteCall q' content"
  shows "fine c now e s (write_target now c q p content (path_exists (fx_fs s) p) s)"
proof (cases "fx_fs s p")
  case None
  have new: "new_text e s p content" by (simp add: new_text_def e(2))
  have ne: "\<not> path_exists (fx_fs s) p" using None by (simp add: path_exists_def)
  have may: "may_replace s p" using None by (simp add: may_replace_def)
  obtain r u where mk: "fo_fs (mkdir_parents (path_parent p)) s = (r, u)" by fastforce
  show ?thesis
  proof (cases r)
    case (Inl x)
    then show ?thesis using mk ne make_parents [OF mk] by (simp add: write_target_def fine_def)
  next
    case (Inr x)
    obtain v t where w: "write_file now p content u = (v, t)" by fastforce
    show ?thesis
    proof (cases v)
      case (Inl x)
      then show ?thesis using Inr mk ne w make_parents [OF mk] write_file_cases [OF w]
        by (simp add: write_target_def fine_def)
    next
      case i: (Inr y)
      then have "file_replaced now p content s t"
        using write_file_cases [OF w] replaced_after_untouched [OF make_parents [OF mk]] by simp
      from finish_written [OF assms(1,2) may this e(1) new] show ?thesis
        using Inr mk ne w i by (simp add: write_target_def)
    qed
  qed
next
  case (Some x)
  then obtain t where t: "fx_fs s p = Some (File t)"
    using assms(3) by (cases x) (auto simp: path_exists_def path_is_file_def)
  then have ex: "path_exists (fx_fs s) p" by (simp add: path_exists_def)
  have new: "new_text e s p content" by (simp add: new_text_def e(2))
  obtain r where r: "require_unchanged_full_read c p s = (Inr r, s)" "r = None \<longleftrightarrow> seen_in_full s p t"
    using require_unchanged [OF assms(1) t] by blast
  show ?thesis
  proof (cases r)
    case (Some m)
    then show ?thesis using r ex target_refusal [OF assms(1)] by (auto simp: write_target_def intro: refines_fine)
  next
    case None
    then have may: "may_replace s p" using r t by (simp add: may_replace_def)
    obtain u where u: "write_file now p content s = (Inr (), u)" "file_replaced now p content s u"
      using write_file_existing [OF t] by blast
    from finish_written [OF assms(1,2) may u(2) e(1) new] show ?thesis
      using r None ex u by (simp add: write_target_def)
  qed
qed

lemma edit_missing_fine:
  assumes "good_target c p" and "writable c p" and "fx_fs s p = None"
    and e: "p = named c (event_path e)" "e = EditCall q' old new all"
  shows "fine c now e s (edit_missing now c q p old new every s)"
proof (cases "old = ''''")
  case True
  have may: "may_replace s p" using assms(3) by (simp add: may_replace_def)
  obtain r u where mk: "fo_fs (mkdir_parents (path_parent p)) s = (r, u)" by fastforce
  obtain v t where w: "write_file now p new u = (v, t)" by fastforce
  show ?thesis
  proof (cases r)
    case (Inl x)
    then show ?thesis using mk True make_parents [OF mk]
      by (simp add: edit_missing_def create_file_def fine_def)
  next
    case i: (Inr x)
    then have create: "create_file now p new s = (v, t)" using mk w by (simp add: create_file_def)
    show ?thesis
    proof (cases v)
      case (Inl x)
      then show ?thesis using create True w make_parents [OF mk] write_file_cases [OF w]
        by (simp add: edit_missing_def fine_def)
    next
      case (Inr y)
      then have "file_replaced now p new s t"
        using write_file_cases [OF w] replaced_after_untouched [OF make_parents [OF mk]] by simp
      from finish_written [OF assms(1,2) may this e(1)] show ?thesis
        using create Inr True by (simp add: edit_missing_def new_text_def e(2))
    qed
  qed
qed (simp add: edit_missing_def refines_fine target_refusal [OF assms(1)])

lemma edited_content_cases:
  assumes "good_target c p" and "fx_fs s p = Some (File t)"
  shows "\<exists>r. edited_content c p old new every (universal_newlines t) s = (Inr r, s) \<and>
    (case r of Inl _ \<Rightarrow> True | Inr content \<Rightarrow> may_replace s p \<and>
      (if old = '''' then content = new
       else 1 \<le> py_count old (universal_newlines t) \<and> (py_count old (universal_newlines t) = 1 \<or> every) \<and>
         content = py_replace old new (if every then None else Some 1) (universal_newlines t)))"
proof (cases "old = ''''")
  case True
  then show ?thesis using assms(2) by (simp add: edited_content_def may_replace_def)
next
  case False
  obtain r where "require_unchanged_full_read c p s = (Inr r, s)" "r = None \<longleftrightarrow> seen_in_full s p t"
    using require_unchanged [OF assms] by blast
  then show ?thesis using False assms(2)
    by (auto simp: edited_content_def may_replace_def Let_def split: option.splits)
qed

lemma edit_existing_fine:
  assumes "good_target c p" and "writable c p" and t: "fx_fs s p = Some (File t)"
    and e: "p = named c (event_path e)" "e = EditCall q' old new all"
  shows "fine c now e s (edit_existing now c q p old new (all = Some True) s)"
proof -
  obtain r where r: "edited_content c p old new (all = Some True) (universal_newlines t) s = (Inr r, s)"
    and kept: "case r of Inl _ \<Rightarrow> True | Inr content \<Rightarrow> may_replace s p \<and>
      (if old = '''' then content = new
       else 1 \<le> py_count old (universal_newlines t) \<and> (py_count old (universal_newlines t) = 1 \<or> all = Some True) \<and>
         content = py_replace old new (if all = Some True then None else Some 1) (universal_newlines t))"
    using edited_content_cases [OF assms(1) t, of old new "all = Some True"] by blast
  show ?thesis
  proof (cases r)
    case (Inl m)
    then show ?thesis using r t target_refusal [OF assms(1)]
      by (auto simp: edit_existing_def intro: refines_fine split: prod.split)
  next
    case (Inr content)
    obtain u where u: "write_file now p content s = (Inr (), u)" "file_replaced now p content s u"
      using write_file_existing [OF t] by blast
    have may: "may_replace s p" and new: "new_text e s p content"
      using kept Inr t by (simp_all add: new_text_def e(2) split: if_splits)
    from finish_written [OF assms(1,2) may u(2) e(1) new] show ?thesis
      using r Inr u t by (simp add: edit_existing_def)
  qed
qed

lemma read_file_fine:
  assumes "good_target c p" and t: "fx_fs s p = Some (File t)"
    and e: "p = named c q'" "e = ReadCall q' offset limit pages'" "start = (case offset of None \<Rightarrow> 1 | Some n \<Rightarrow> n)"
  shows "fine c now e s (read_file fsize c q start limit pages p s)"
proof -
  obtain rel where rel: "to_workspace_relative c p = Inr rel" using good_relative [OF assms(1)] by blast
  let ?u = "s\<lparr>fx_witnesses := AList.update (path_str p)
    \<lparr>rw_content = universal_newlines t, rw_timestamp = fx_mtime s p, rw_offset = start, rw_limit = limit,
     rw_is_partial_view = (\<not> (start = 1 \<and> limit = None))\<rparr> (fx_witnesses s)\<rparr>"
  have "record_read_witness c p (universal_newlines t) start limit s = (Inr (), ?u)"
    by (simp add: record_read_witness_def good_key [OF assms(1)])
  moreover have "(start = 1 \<and> limit = None) = full_read offset limit"
    by (simp add: e(3) full_read_def split: option.split)
  then have "tool_effect c now e s True ?u"
    by (intro shown [OF e(2,1) assms(1) t]) (simp add: e(3))
  ultimately show ?thesis
    by (simp add: read_file_def rel t fine_def refines_def Let_def split: prod.split)
qed

subsection \<open>The tools refine the machine\<close>

lemma writable_raises:
  "policy_result (os_refuses (ctx_os c) (ctx_workspace_root c) raw) (writable_target c f raw)"
  unfolding writable_target_def by (rule resolve_and_validate_writable_path_policy)

lemma read_body_refines:
  assumes "good_target c p" and "fx_fs s p = Some (File t)"
    and "p = named c q'" "e = ReadCall q' offset limit pages'" "start = (case offset of None \<Rightarrow> 1 | Some n \<Rightarrow> n)"
  shows "refines c now e s
    ((if pages \<noteq> None \<and> py_lower (path_suffix p) \<noteq> ''.pdf''
      then target_error c ''Read'' ''file_read'' q p m1 t1
      else if py_lower (path_suffix p) = ''.pdf'' then target_error c ''Read'' ''file_read'' q p m2 t2
      else fo_catch (read_file fsize c q start limit pages p)
        (execution_error c ''Read'' ''file_read'' ''File read'' q p)) s)"
proof -
  have "refines c now e s (fo_catch (read_file fsize c q start limit pages p)
      (execution_error c ''Read'' ''file_read'' ''File read'' q p) s)"
    by (rule fine_catch [where m = "read_file fsize c q start limit pages p"]) (rule read_file_fine assms)+
  then show ?thesis using target_refusal [OF assms(1)] by (auto split: if_splits)
qed

lemma read_refines:
  assumes "links_ok c" and e: "e = ReadCall q offset limit pages"
  shows "refines c now e s (claude_read_handler fsize q offset limit pages (Some c) s)"
proof -
  let ?k = "default_checks\<lparr>allow_absolute := True, must_exist := True, must_be_file := True,
    check_allowed_fn := Some (context_file_allowed c)\<rparr>"
  have target: "good_target c p \<and> p = named c q \<and> (\<exists>t. fx_fs s p = Some (File t))"
    if v: "resolve_and_validate_path (ctx_os c) (fx_fs s) ?k q (ctx_workspace_root c) = Inr p" for p
  proof (intro conjI validated_good [OF assms(1) v])
    have "path_is_file (fx_fs s) p" using resolve_and_validate_path_ok(3,4) [OF v] by simp
    then show "\<exists>t. fx_fs s p = Some (File t)" by (auto simp: path_is_file_def split: option.splits fs_entry.splits)
  qed
  have refused: "refines c now e s (fo_return (validation_error c op kind q m t None) s)" for op kind m t
    by (simp add: refines_refusal)
  have path: "event_path e = q" by (simp add: e)
  have found: "refines c now e s (path_result c ''Read'' ''file_read'' q
      (resolve_and_validate_path (ctx_os c) (fx_fs s) ?k q (ctx_workspace_root c))
      (\<lambda>target. if pages \<noteq> None \<and> py_lower (path_suffix target) \<noteq> ''.pdf''
         then target_error c ''Read'' ''file_read'' q target m1 t1
         else if py_lower (path_suffix target) = ''.pdf'' then target_error c ''Read'' ''file_read'' q target m2 t2
         else fo_catch (read_file fsize c q (case offset of None \<Rightarrow> 1 | Some n \<Rightarrow> n) limit pages target)
           (execution_error c ''Read'' ''file_read'' ''File read'' q target)) s)" for m1 t1 m2 t2
  proof (rule path_result_refines)
    fix p assume "resolve_and_validate_path (ctx_os c) (fx_fs s) ?k q (ctx_workspace_root c) = Inr p"
    from target [OF this] obtain t where t: "good_target c p" "fx_fs s p = Some (File t)" "p = named c q" by blast
    show "refines c now e s ((if pages \<noteq> None \<and> py_lower (path_suffix p) \<noteq> ''.pdf''
         then target_error c ''Read'' ''file_read'' q p m1 t1
         else if py_lower (path_suffix p) = ''.pdf'' then target_error c ''Read'' ''file_read'' q p m2 t2
         else fo_catch (read_file fsize c q (case offset of None \<Rightarrow> 1 | Some n \<Rightarrow> n) limit pages p)
           (execution_error c ''Read'' ''file_read'' ''File read'' q p)) s)"
      by (rule read_body_refines [OF t e refl])
  qed (simp add: path resolve_and_validate_path_policy)
  show ?thesis
    unfolding claude_read_handler_def option.case Let_def
    by (cases "validate_pages_parameter pages")
       (simp_all only: option.case refused if_distribR found if_True if_False split: if_split, simp)
qed

lemma edit_refines:
  assumes "links_ok c" and e: "e = EditCall q old new all"
  shows "refines c now e s (claude_edit_handler now q old new all (Some c) s)"
proof (cases "old = new")
  case False
  have path: "event_path e = q" by (simp add: e)
  show ?thesis unfolding claude_edit_handler_def option.case Let_def if_not_P [OF False]
  proof (rule path_result_refines)
    fix p assume v: "writable_target c (fx_fs s) q = Inr p"
    note g = writable_good [OF assms(1) v]
    have p: "p = named c (event_path e)" using g(4) path by simp
    show "refines c now e s (fo_catch
      (if path_exists (fx_fs s) p then edit_existing now c q p old new (all = Some True)
       else edit_missing now c q p old new (all = Some True))
      (execution_error c ''Edit'' ''file_write'' ''File edit'' q p) s)"
    proof (rule fine_catch [OF _ g(1)])
      show "fine c now e s ((if path_exists (fx_fs s) p then edit_existing now c q p old new (all = Some True)
          else edit_missing now c q p old new (all = Some True)) s)"
        using edit_existing_fine [OF g(1,2) _ p e] edit_missing_fine [OF g(1,2) _ p e] g(3)
        by (cases "fx_fs s p") (auto simp: path_exists_def path_is_file_def split: fs_entry.splits)
    qed
  qed (simp add: path writable_raises)
qed (simp add: claude_edit_handler_def refines_refusal)

lemma write_refines:
  assumes "links_ok c" and e: "e = WriteCall q content"
  shows "refines c now e s (claude_write_handler now q content (Some c) s)"
  unfolding claude_write_handler_def option.case
proof (rule path_result_refines)
  fix p assume v: "writable_target c (fx_fs s) q = Inr p"
  note g = writable_good [OF assms(1) v]
  have p: "p = named c (event_path e)" using g(4) by (simp add: e)
  show "refines c now e s (fo_catch (write_target now c q p content (path_exists (fx_fs s) p))
      (execution_error c ''Write'' ''file_write'' ''File write'' q p) s)"
    using write_target_fine [OF g(1,2) _ p e] g(3) by (intro fine_catch [OF _ g(1)]) blast
qed (simp add: e writable_raises)

subsection \<open>Sessions\<close>

text \<open>The session with its clock; time passes between two events.\<close>

definition file_step :: "(path \<Rightarrow> int) \<Rightarrow> ToolContext \<Rightarrow> int \<times> file_event \<Rightarrow> int \<times> file_state \<Rightarrow> int \<times> file_state" where
  "file_step fsize c = (\<lambda>(now, e) (before, s). (now, snd (tool_call_result fsize c now e s)))"

definition file_step_ok :: "int \<times> file_event \<Rightarrow> int \<times> file_state \<Rightarrow> bool" where
  "file_step_ok = (\<lambda>(now, e) (before, s). before < now \<and> (case e of Outside p x \<Rightarrow> wf_path p | _ \<Rightarrow> True))"

text \<open>Before the first call nothing was seen.\<close>

definition nothing_seen :: "int \<times> file_state \<Rightarrow> bool" where
  "nothing_seen = (\<lambda>(before, s). fx_witnesses s = [] \<and> (\<forall>p. fx_mtime s p \<le> before))"

definition witnesses_true :: "int \<times> file_state \<Rightarrow> bool" where
  "witnesses_true = (\<lambda>(before, s). (\<forall>p. fx_mtime s p \<le> before) \<and>
     (\<forall>k w. map_of (fx_witnesses s) k = Some w \<longrightarrow> rw_timestamp w \<le> before) \<and>
     (\<forall>p w t. wf_path p \<and> map_of (fx_witnesses s) (path_str p) = Some w \<and> fx_fs s p = Some (File t)
       \<longrightarrow> rw_timestamp w < fx_mtime s p \<or> universal_newlines t = universal_newlines (rw_content w)))"

lemma call_refines:
  assumes "links_ok c" and "is_call e"
  shows "\<exists>out t. tool_call_result fsize c now e s = (Some out, t) \<and>
    (case out of
       Inl x \<Rightarrow> machine_raises c (event_path e) x \<and> t = s
     | Inr r \<Rightarrow> tr_is_error r = (\<not> tr_ok r) \<and> tool_effect c now e s (tr_ok r) t)"
proof -
  have "\<exists>out t. map_prod Some id res = (Some out, t) \<and>
      (case out of
         Inl x \<Rightarrow> machine_raises c (event_path e) x \<and> t = s
       | Inr r \<Rightarrow> tr_is_error r = (\<not> tr_ok r) \<and> tool_effect c now e s (tr_ok r) t)"
    if "refines c now e s res" for res
    using that by (cases res) (auto simp: refines_def split: sum.splits)
  then show ?thesis using assms(2) read_refines [OF assms(1) refl] edit_refines [OF assms(1) refl]
      write_refines [OF assms(1) refl]
    by (cases e) (simp_all add: is_call_def)
qed

text \<open>What a call leaves: the state it was given, or that of a step of the machine with its verdict.\<close>

lemma call_effect:
  assumes "links_ok c" and "is_call e"
  shows "snd (tool_call_result fsize c now e s) = s \<or>
    (\<exists>r. fst (tool_call_result fsize c now e s) = Some (Inr r) \<and>
       tool_effect c now e s (tr_ok r) (snd (tool_call_result fsize c now e s)))"
proof -
  obtain out t where "tool_call_result fsize c now e s = (Some out, t)"
    "case out of
       Inl x \<Rightarrow> machine_raises c (event_path e) x \<and> t = s
     | Inr r \<Rightarrow> tr_is_error r = (\<not> tr_ok r) \<and> tool_effect c now e s (tr_ok r) t"
    using call_refines [OF assms] by blast
  then show ?thesis by (cases out) simp_all
qed

text \<open>A witness that is as late as the file agrees with it; the steps keep it so.\<close>

lemma effect_keeps_witnesses:
  assumes "tool_effect c now ev s ok t" and "witnesses_true (before, s)" and "before < now"
  shows "witnesses_true (now, t)"
proof -
  note inv = assms(2) [unfolded witnesses_true_def split]
  show ?thesis using assms(1)
  proof (cases rule: tool_effect.cases)
    case refused
    have late: "fx_mtime s p \<le> now" "map_of (fx_witnesses s) k = Some w \<Longrightarrow> rw_timestamp w \<le> now" for p k w
      using inv assms(3) by (meson less_imp_le order_trans)+
    show ?thesis using inv late refused(2-4) unfolding witnesses_true_def same_texts_def split by auto
  next
    case (shown q offset limit pages p text')
    have late: "fx_mtime s q \<le> now" "map_of (fx_witnesses s) k = Some w \<Longrightarrow> rw_timestamp w \<le> now" for q k w
      using inv assms(3) by (meson less_imp_le order_trans)+
    have "wf_path p" using shown(4) by (simp add: good_target_def)
    then have key: "q = p" if "wf_path q" "path_str q = path_str p" for q
      using path_str_inj that by blast
    show ?thesis using inv late shown(5,6) key unfolding witnesses_true_def split
      by (auto split: if_splits dest: key)
  next
    case (written p content)
    have late: "fx_mtime s q \<le> now" "map_of (fx_witnesses s) k = Some w \<Longrightarrow> rw_timestamp w \<le> now" for q k w
      using inv assms(3) by (meson less_imp_le order_trans)+
    have "wf_path p" using written(4) by (simp add: good_target_def)
    then have key: "q = p" if "wf_path q" "path_str q = path_str p" for q
      using path_str_inj that by blast
    show ?thesis using inv late written(7-9) key unfolding witnesses_true_def split
      by (auto split: if_splits)
  qed
qed

lemma time_keeps_witnesses:
  assumes "witnesses_true (before, s)" and "before < now"
  shows "witnesses_true (now, s)"
  using effect_keeps_witnesses [OF refused_same assms] .

lemma outside_keeps_witnesses:
  assumes "witnesses_true (before, s)" and "before < now"
  shows "witnesses_true (now, s\<lparr>fx_fs := (fx_fs s)(p := x), fx_mtime := (fx_mtime s)(p := now)\<rparr>)"
proof -
  note inv = assms(1) [unfolded witnesses_true_def split]
  have late: "fx_mtime s q \<le> now" "map_of (fx_witnesses s) k = Some w \<Longrightarrow> rw_timestamp w < now" for q k w
    using inv assms(2) by (meson less_imp_le order_trans le_less_trans)+
  show ?thesis using inv late unfolding witnesses_true_def split
    by (auto intro: less_imp_le)
qed

interpretation tool_session: step_system "file_step fsize c" "\<lambda>e s. links_ok c \<and> file_step_ok e s" witnesses_true
proof
  fix s e
  assume inv: "witnesses_true s" and ok: "links_ok c \<and> file_step_ok e s"
  obtain before st now ev where [simp]: "s = (before, st)" "e = (now, ev)" by (cases s, cases e) blast
  have time: "before < now" using ok by (simp add: file_step_ok_def)
  show "witnesses_true (file_step fsize c e s)"
  proof (cases "is_call ev")
    case True
    have "witnesses_true (now, snd (tool_call_result fsize c now ev st))"
      using call_effect [OF conjunct1 [OF ok] True, of fsize now st]
        time_keeps_witnesses [of before st now] effect_keeps_witnesses [of c now ev st _ _ before] inv time
      by (elim disjE exE conjE) simp_all
    then show ?thesis by (simp add: file_step_def)
  next
    case False
    then obtain p x where "ev = Outside p x" by (auto simp: is_call_def split: file_event.splits)
    then show ?thesis using outside_keeps_witnesses inv time by (simp add: file_step_def)
  qed
qed

lemma nothing_seen_true: "nothing_seen s \<Longrightarrow> witnesses_true s"
  by (auto simp: nothing_seen_def witnesses_true_def split: prod.splits)

text \<open>Under the invariant a text that may be replaced was seen.\<close>

lemma replaced_was_seen:
  assumes "witnesses_true (before, s)" and "may_replace s p" and "wf_path p" and "fx_fs s p = Some (File t)"
  shows "py_strip (universal_newlines t) = '''' \<or>
    (\<exists>w. map_of (fx_witnesses s) (path_str p) = Some w \<and> \<not> rw_is_partial_view w \<and>
      universal_newlines t = universal_newlines (rw_content w))"
  using assms unfolding witnesses_true_def may_replace_def seen_in_full_def split
  by (auto split: option.splits) (metis linorder_not_less universal_newlines_idem)+

text \<open>
  A call that saw the text of a file in full: it succeeded on a path that leads to the file, and was a
  \<open>Read\<close> from the first line without a limit of a file with this text, or an \<open>Edit\<close> or \<open>Write\<close> that
  left it there.
\<close>

definition saw_in_full ::
  "(path \<Rightarrow> int) \<Rightarrow> ToolContext \<Rightarrow> int \<Rightarrow> file_event \<Rightarrow> file_state \<Rightarrow> path \<Rightarrow> string \<Rightarrow> bool" where
  "saw_in_full fsize c now e s p seen \<longleftrightarrow>
     (case tool_call_result fsize c now e s of (r, t) \<Rightarrow>
        (case r of Some (Inr res) \<Rightarrow> tr_ok res | _ \<Rightarrow> False) \<and> p = named c (event_path e) \<and>
        (case e of
           ReadCall q offset limit pages \<Rightarrow> full_read offset limit \<and> fx_fs s p = Some (File seen)
         | Outside q x \<Rightarrow> False
         | _ \<Rightarrow> fx_fs t p = Some (File seen)))"

lemma new_witness:
  assumes "tool_call_result fsize c now e s = (Some (Inr r), t)" and "tool_effect c now e s (tr_ok r) t"
    and "wf_path p" and "map_of (fx_witnesses t) (path_str p) = Some w" and "\<not> rw_is_partial_view w"
  shows "map_of (fx_witnesses s) (path_str p) = Some w \<or>
    (\<exists>seen. saw_in_full fsize c now e s p seen \<and> universal_newlines seen = universal_newlines (rw_content w))"
  using assms(2)
proof (cases rule: tool_effect.cases)
  case refused
  then show ?thesis using assms(4) by simp
next
  case (shown q offset limit pages p' text')
  have "p = p'" if "path_str p = path_str p'"
    using path_str_inj [OF assms(3) _ that] shown(4) by (simp add: good_target_def)
  then show ?thesis using shown assms(1,4,5)
    by (cases "path_str p = path_str p'") (auto simp: saw_in_full_def universal_newlines_idem)
next
  case (written p' content)
  have "p = p'" if "path_str p = path_str p'"
    using path_str_inj [OF assms(3) _ that] written(4) by (simp add: good_target_def)
  moreover have "fx_fs t p' = Some (File content)" using written(7) by simp
  moreover have "(case e of WriteCall q text' \<Rightarrow> True | EditCall q old new all \<Rightarrow> True | _ \<Rightarrow> False)"
    using written(3) by (cases e) (simp_all add: new_text_def)
  ultimately show ?thesis using written assms(1,4,5)
    by (cases "path_str p = path_str p'"; cases e) (auto simp: saw_in_full_def)
qed

text \<open>Behind every witness of a full view there is a call that saw it.\<close>

lemma witness_was_seen:
  assumes "links_ok c" and "nothing_seen start"
    and "map_of (fx_witnesses (snd (run_events (file_step fsize c) es start))) (path_str p) = Some w"
    and "wf_path p" and "\<not> rw_is_partial_view w"
  shows "\<exists>pre now' e' post seen. es = pre @ (now', e') # post \<and>
    saw_in_full fsize c now' e' (snd (run_events (file_step fsize c) pre start)) p seen \<and>
    universal_newlines seen = universal_newlines (rw_content w)"
  using assms(3)
proof (induction es rule: rev_induct)
  case Nil
  then show ?case using assms(2) by (auto simp: nothing_seen_def split: prod.splits)
next
  case (snoc x es)
  obtain now e where x: "x = (now, e)" by (cases x)
  obtain before s where s: "run_events (file_step fsize c) es start = (before, s)" by fastforce
  let ?t = "snd (tool_call_result fsize c now e s)"
  have "run_events (file_step fsize c) (es @ [x]) start = (now, ?t)"
    unfolding run_events_append s x by (simp add: file_step_def)
  then have t: "map_of (fx_witnesses ?t) (path_str p) = Some w" using snoc.prems by simp
  have "map_of (fx_witnesses s) (path_str p) = Some w \<or>
    (\<exists>seen. saw_in_full fsize c now e s p seen \<and> universal_newlines seen = universal_newlines (rw_content w))"
  proof (cases "is_call e")
    case True
    from call_effect [OF assms(1) True, of fsize now s] show ?thesis
    proof (elim disjE exE conjE)
      assume "?t = s"
      then show ?thesis using t by simp
    next
      fix r
      assume r: "fst (tool_call_result fsize c now e s) = Some (Inr r)" "tool_effect c now e s (tr_ok r) ?t"
      have "tool_call_result fsize c now e s = (Some (Inr r), ?t)" using r(1) by (simp add: prod_eq_iff)
      from new_witness [OF this r(2) assms(4) t assms(5)] show ?thesis .
    qed
  next
    case False
    then obtain q y where "e = Outside q y" by (auto simp: is_call_def split: file_event.splits)
    then show ?thesis using t by simp
  qed
  then show ?case
  proof
    assume "map_of (fx_witnesses s) (path_str p) = Some w"
    then obtain pre now' e' post seen where "es = pre @ (now', e') # post"
      "saw_in_full fsize c now' e' (snd (run_events (file_step fsize c) pre start)) p seen \<and>
        universal_newlines seen = universal_newlines (rw_content w)"
      using snoc.IH s by auto
    then show ?thesis by (metis append_assoc append_Cons)
  next
    assume "\<exists>seen. saw_in_full fsize c now e s p seen \<and> universal_newlines seen = universal_newlines (rw_content w)"
    then obtain seen where seen: "saw_in_full fsize c now e s p seen"
      "universal_newlines seen = universal_newlines (rw_content w)" by blast
    have "es @ [x] = es @ (now, e) # []" by (simp add: x)
    moreover have "saw_in_full fsize c now e (snd (run_events (file_step fsize c) es start)) p seen"
      using seen(1) by (simp add: s)
    ultimately show ?thesis using seen(2) by blast
  qed
qed

text \<open>C36: the file tools refine the abstract machine.  Whatever \<open>Read\<close>, \<open>Edit\<close> and \<open>Write\<close> are called with,
  they return a result, or raise what the operating system raises for the named path (when it
  resolves the workspace or the path or asks whether the file exists) and change nothing.  A failure
  changes no file, time or witness.  A success of \<open>Read\<close> has noted the existing file of the workspace that
  the path leads to, in full exactly if it was read from the first line without a limit; a
  success of \<open>Edit\<close> or \<open>Write\<close> has given that file, which the task lets the tools write, the text
  that the call says, in the place of a blank text or one that was seen in full and is, by its time or
  its content, still the one that was seen.\<close>

theorem file_tools_refine_the_machine:
  assumes "links_ok c" and "is_call e"
  shows "\<exists>out t. tool_call_result fsize c now e s = (Some out, t) \<and>
    (case out of
       Inl x \<Rightarrow> machine_raises c (event_path e) x \<and> t = s
     | Inr r \<Rightarrow> tr_is_error r = (\<not> tr_ok r) \<and> tool_effect c now e s (tr_ok r) t)"
  using call_refines [OF assms] .

text \<open>C4: the model overwrites nothing it has not seen.  Along any run of calls and of changes by anybody
  else, each at a later time than the one before, if a call changes the text of an existing file, then
  the file is one the tools may write, and its text was blank or, up to line ends, the one that an
  earlier call of the run saw in full: a successful \<open>Read\<close> of the file from the first line without a limit
  when it had that text, or an \<open>Edit\<close> or \<open>Write\<close> that left it with that text.\<close>

theorem no_blind_overwrite:
  assumes "links_ok c" and "nothing_seen start" and "guarded (file_step fsize c) file_step_ok es start"
    and "run_events (file_step fsize c) es start = (before, s)" and "is_call e"
    and "fx_fs s p = Some (File text')" and "\<not> fx_fs (snd (tool_call_result fsize c now e s)) p = Some (File text')"
  shows "writable c p \<and> (py_strip (universal_newlines text') = '''' \<or>
    (\<exists>pre now' e' post seen. es = pre @ (now', e') # post \<and>
       saw_in_full fsize c now' e' (snd (run_events (file_step fsize c) pre start)) p seen \<and>
       universal_newlines text' = universal_newlines seen))"
proof -
  have "guarded (file_step fsize c) (\<lambda>e s. links_ok c \<and> file_step_ok e s) es start"
    using assms(3) by (induction es arbitrary: start) (simp_all add: assms(1))
  then have inv: "witnesses_true (before, s)"
    using tool_session.run_inv [OF nothing_seen_true [OF assms(2)]] assms(4) by metis
  let ?t = "snd (tool_call_result fsize c now e s)"
  obtain ok where eff: "tool_effect c now e s ok ?t"
    using call_effect [OF assms(1,5), of fsize now s] assms(6,7) by auto
  then show ?thesis
  proof (cases rule: tool_effect.cases)
    case (written q content)
    then have "q = p" using assms(6,7) by metis
    moreover have wf: "wf_path q" using written(4) by (simp add: good_target_def)
    ultimately have "py_strip (universal_newlines text') = '''' \<or>
        (\<exists>w. map_of (fx_witnesses s) (path_str p) = Some w \<and> \<not> rw_is_partial_view w \<and>
          universal_newlines text' = universal_newlines (rw_content w))"
      using replaced_was_seen [OF inv _ _ assms(6)] written(6) by blast
    then show ?thesis
    proof
      assume "\<exists>w. map_of (fx_witnesses s) (path_str p) = Some w \<and> \<not> rw_is_partial_view w \<and>
          universal_newlines text' = universal_newlines (rw_content w)"
      then obtain w where w: "map_of (fx_witnesses s) (path_str p) = Some w" "\<not> rw_is_partial_view w"
        "universal_newlines text' = universal_newlines (rw_content w)" by blast
      have "map_of (fx_witnesses (snd (run_events (file_step fsize c) es start))) (path_str p) = Some w"
        using w(1) assms(4) by simp
      from witness_was_seen [OF assms(1,2) this _ w(2)] show ?thesis
        using wf w(3) \<open>q = p\<close> written(5) by metis
    qed (use written(5) \<open>q = p\<close> in blast)
  qed (use assms(6,7) in \<open>auto simp: same_texts_def\<close>)
qed

subsection \<open>Runs of the tools\<close>

lemma write_existing:
  "fx_fs s p = Some (File t) \<Longrightarrow> write_file now p content s =
    (Inr (), s\<lparr>fx_fs := (fx_fs s)(p \<mapsto> File content), fx_mtime := (fx_mtime s)(p := now)\<rparr>)"
  by (simp add: write_file_def fo_bind_def fo_fs_def write_text_def)

text \<open>The way a file of the workspace is found, and what a full read of it leaves.\<close>

abbreviation read_checks :: "ToolContext \<Rightarrow> path_checks" where
  "read_checks c \<equiv> default_checks\<lparr>allow_absolute := True, must_exist := True, must_be_file := True,
     check_allowed_fn := Some (context_file_allowed c)\<rparr>"

lemma read_run:
  assumes "links_ok c"
    and "resolve_and_validate_path (ctx_os c) (fx_fs s) (read_checks c) q (ctx_workspace_root c) = Inr p"
    and "fx_fs s p = Some (File t)" and "\<not> py_lower (path_suffix p) = ''.pdf''"
    and "start = (case offset of None \<Rightarrow> 1 | Some n \<Rightarrow> n)" and "0 \<le> start"
    and "case limit of None \<Rightarrow> True | Some l \<Rightarrow> 0 < l"
  shows "\<exists>res. claude_read_handler fsize q offset limit None (Some c) s =
      (Inr res, s\<lparr>fx_witnesses := AList.update (path_str p)
        \<lparr>rw_content = universal_newlines t, rw_timestamp = fx_mtime s p, rw_offset = start, rw_limit = limit,
         rw_is_partial_view = (\<not> (start = 1 \<and> limit = None))\<rparr> (fx_witnesses s)\<rparr>) \<and>
      tr_ok res \<and> tr_content res = fst (truncate_text (read_content start (splitlines (universal_newlines t))
        (select_lines start limit (splitlines (universal_newlines t)))) MAX_TEXT_OUTPUT_CHARS)"
proof -
  have g: "good_target c p" by (rule validated_good [OF assms(1,2)])
  obtain rel where rel: "to_workspace_relative c p = Inr rel" using good_relative [OF g] by blast
  have args: "\<not> (case offset of None \<Rightarrow> False | Some n \<Rightarrow> n < 0)" "\<not> (case limit of None \<Rightarrow> False | Some l \<Rightarrow> l \<le> 0)"
    using assms(5-7) by (auto split: option.splits)
  have run: "claude_read_handler fsize q offset limit None (Some c) s =
      fo_catch (read_file fsize c q start limit None p)
        (execution_error c ''Read'' ''file_read'' ''File read'' q p) s"
    using args assms(2,4) unfolding assms(5)
    by (simp add: claude_read_handler_def validate_pages_parameter_def path_result_def Let_def)
  show ?thesis
    unfolding run using assms(3) rel
    by (simp add: read_file_def record_read_witness_def good_key [OF g] fo_bind_def fo_catch_def Let_def
        split: prod.split)
qed

lemma write_run:
  assumes "links_ok c" and "writable_target c (fx_fs s) q = Inr p" and "fx_fs s p = Some (File t)"
    and "seen_in_full s p t"
  shows "\<exists>res u. claude_write_handler now q content (Some c) s = (Inr res, u) \<and> tr_ok res \<and>
    fx_fs u = (fx_fs s)(p \<mapsto> File content)"
proof -
  have g: "good_target c p" by (rule writable_good(1) [OF assms(1,2)])
  obtain rel where rel: "to_workspace_relative c p = Inr rel" using good_relative [OF g] by blast
  have "require_unchanged_full_read c p s = (Inr None, s)"
    using require_unchanged [OF g assms(3)] assms(4) by auto
  then show ?thesis using assms(2,3) rel
    by (simp add: claude_write_handler_def path_result_def write_target_def path_exists_def write_existing
        record_read_witness_def write_success_result_def fo_bind_def fo_catch_def)
qed

subsection \<open>An example session\<close>

text \<open>A workspace \<open>/w\<close> on a machine without links that holds one file.\<close>

definition files_context :: ToolContext where
  "files_context = \<lparr>ctx_workspace_root = [''/'', ''w''], ctx_task = None, ctx_os = plain_os (\<lambda>p. p)\<rparr>"

definition example_file :: path where
  "example_file = [''/'', ''w'', ''a.txt'']"

definition example_state :: "string \<Rightarrow> file_state" where
  "example_state text' = \<lparr>fx_fs = (\<lambda>p. if p = example_file then Some (File text')
      else if p = [''/''] \<or> p = [''/'', ''w''] then Some Dir else None),
     fx_mtime = (\<lambda>p. 5), fx_witnesses = []\<rparr>"

lemma example_links: "links_ok files_context"
  by (simp add: links_ok_def files_context_def plain_os_def path_resolve_def wf_path_def)

lemma example_nothing_seen: "nothing_seen (5, example_state text')"
  by (simp add: nothing_seen_def example_state_def)

lemma example_path:
  "path_join [''/'', ''w''] ''a.txt'' = example_file" "\<not> path_is_absolute ''a.txt''"
  "\<not> attempts_workspace_escape ''a.txt''" "relative_to example_file [''/'', ''w''] = Some [''a.txt'']"
  "\<not> py_lower (path_suffix example_file) = ''.pdf''" "path_str example_file = ''/w/a.txt''"
  by code_simp+

lemma example_found:
  assumes "fx_fs s example_file = Some (File text')"
  shows "resolve_and_validate_path (ctx_os files_context) (fx_fs s) (read_checks files_context) ''a.txt''
      (ctx_workspace_root files_context) = Inr example_file"
    and "writable_target files_context (fx_fs s) ''a.txt'' = Inr example_file"
  using assms example_path
  by (simp_all add: writable_target_def resolve_and_validate_writable_path_def resolve_and_validate_path_def Let_def
      files_context_def default_checks_def path_exists_def path_is_file_def
      ensure_not_protected_write_path_def get_protected_write_component_def to_workspace_relative_str_def
      context_file_allowed_def PROTECTED_WRITE_PATH_PARTS_def)

lemma example_file_there: "fx_fs (example_state text') example_file = Some (File text')"
  by (simp add: example_state_def)

text \<open>The example after the file was read in full.\<close>

definition after_read :: "string \<Rightarrow> file_state" where
  "after_read text' = (example_state text')\<lparr>fx_witnesses := [(''/w/a.txt'',
     \<lparr>rw_content = universal_newlines text', rw_timestamp = 5, rw_offset = 1, rw_limit = None,
      rw_is_partial_view = False\<rparr>)]\<rparr>"

lemma example_read:
  "\<exists>res. claude_read_handler fsize ''a.txt'' None None None (Some files_context) (example_state text')
    = (Inr res, after_read text') \<and> tr_ok res"
proof -
  have "fx_witnesses (example_state text') = []" "fx_mtime (example_state text') example_file = 5"
    by (simp_all add: example_state_def)
  then show ?thesis
    using read_run [OF example_links example_found(1) [OF example_file_there] example_file_there [of text'] example_path(5),
        of 1 None None fsize]
    by (auto simp: after_read_def example_path(6))
qed

theorem file_tools_refine_the_machine_witness:
  "\<exists>out t. tool_call_result (\<lambda>p. 7) files_context 6 (WriteCall ''a.txt'' ''new'') (example_state ''old'') = (Some out, t) \<and>
    (case out of
       Inl x \<Rightarrow> machine_raises files_context (event_path (WriteCall ''a.txt'' ''new'')) x \<and> t = example_state ''old''
     | Inr r \<Rightarrow> tr_is_error r = (\<not> tr_ok r) \<and>
         tool_effect files_context 6 (WriteCall ''a.txt'' ''new'') (example_state ''old'') (tr_ok r) t)"
  by (rule file_tools_refine_the_machine [OF example_links]) (simp add: is_call_def)

theorem no_blind_overwrite_witness:
  "writable files_context example_file \<and>
    (\<exists>pre now' e' post seen. [(6, ReadCall ''a.txt'' None None None)] = pre @ (now', e') # post \<and>
       saw_in_full (\<lambda>p. 7) files_context now' e'
         (snd (run_events (file_step (\<lambda>p. 7) files_context) pre (5, example_state ''old''))) example_file seen \<and>
       universal_newlines ''old'' = universal_newlines seen)"
proof -
  have run: "run_events (file_step (\<lambda>p. 7) files_context) [(6, ReadCall ''a.txt'' None None None)]
      (5, example_state ''old'') = (6, after_read ''old'')"
    using example_read [of "\<lambda>p. 7" "''old''"] by (auto simp: file_step_def)
  have guard: "guarded (file_step (\<lambda>p. 7) files_context) file_step_ok [(6, ReadCall ''a.txt'' None None None)]
      (5, example_state ''old'')"
    by (simp add: file_step_ok_def)
  have there: "fx_fs (after_read ''old'') example_file = Some (File ''old'')"
    by (simp add: after_read_def example_state_def)
  have "seen_in_full (after_read ''old'') example_file ''old''"
    by (simp add: seen_in_full_def after_read_def example_path(6) example_state_def)
  then have changed: "\<not> fx_fs (snd (tool_call_result (\<lambda>p. 7) files_context 7 (WriteCall ''a.txt'' ''new'') (after_read ''old'')))
      example_file = Some (File ''old'')"
    using write_run [OF example_links example_found(2) [OF there] there, of 7 "''new''"] by auto
  have ne: "\<not> py_strip (universal_newlines ''old'') = ''''" by code_simp
  have "is_call (WriteCall ''a.txt'' ''new'')" by (simp add: is_call_def)
  from no_blind_overwrite [OF example_links example_nothing_seen guard run this there changed]
  show ?thesis using ne by blast
qed

text \<open>The proviso on the time is needed: a change from outside in the millisecond that was read is lost.\<close>

lemma change_in_the_same_millisecond_is_lost:
  "let t = snd (tool_call_result (\<lambda>p. 7) files_context 5 (Outside example_file (Some (File ''theirs''))) (after_read ''old''));
       (r, u) = tool_call_result (\<lambda>p. 7) files_context 6 (WriteCall ''a.txt'' ''mine'') t
   in (case r of Some (Inr res) \<Rightarrow> tr_ok res | _ \<Rightarrow> False) \<and> fx_fs u example_file = Some (File ''mine'')"
proof -
  let ?t = "snd (tool_call_result (\<lambda>p. 7) files_context 5 (Outside example_file (Some (File ''theirs''))) (after_read ''old''))"
  have there: "fx_fs ?t example_file = Some (File ''theirs'')" by simp
  have "seen_in_full ?t example_file ''theirs''"
    by (simp add: seen_in_full_def after_read_def example_path(6))
  from write_run [OF example_links example_found(2) [OF there] there this, of 6 "''mine''"]
  show ?thesis by (auto simp: Let_def split: prod.splits)
qed

end
