(* ===== verification/Claude_Edit_Properties.thy ===== *)
theory Claude_Edit_Properties
  imports Claude_Files_Properties
begin

section \<open>What an edit replaces and what a read shows\<close>

text \<open>
  An edit cuts the text at the occurrences it counts from the left and puts the new text between the
  pieces; it happens exactly when the file was seen in full and the count allows it.  A read shows
  lines under their numbers and notes the whole text.  The examples show what the tools do with the
  offset 0, with long files, with line ends and with two changes in one millisecond.
\<close>

subsection \<open>Counting and replacing\<close>

lemma starts_with_is_prefix: "starts_with p s \<longleftrightarrow> prefix p s"
  by (auto simp: starts_with_def prefix_def) (metis append_take_drop_id)

text \<open>The pieces of a text between the occurrences that are counted from the left.\<close>

function pieces :: "string \<Rightarrow> string \<Rightarrow> string list" where
  "pieces sub s =
     (if s = [] \<or> sub = [] then [s]
      else if starts_with sub s then [] # pieces sub (drop (length sub) s)
      else (hd s # hd (pieces sub (tl s))) # tl (pieces sub (tl s)))"
  by pat_completeness auto
termination by (relation "measure (length \<circ> snd)") (auto simp: neq_Nil_conv)

declare pieces.simps [simp del]

lemma pieces_nonempty [simp]: "pieces sub s \<noteq> []"
  by (subst pieces.simps) simp

lemma join_Cons: "ps \<noteq> [] \<Longrightarrow> py_join sep (p # ps) = p @ sep @ py_join sep ps"
  by (cases ps) simp_all

lemma join_hd: "ps \<noteq> [] \<Longrightarrow> py_join sep ((x # hd ps) # tl ps) = x # py_join sep ps"
  by (cases ps; cases "tl ps") simp_all

lemma pieces_join: "py_join sub (pieces sub s) = s"
proof (induction sub s rule: pieces.induct)
  case (1 sub s)
  show ?case
  proof (cases "s = [] \<or> sub = []")
    case True
    then show ?thesis by (subst pieces.simps) auto
  next
    case no: False
    show ?thesis
    proof (cases "starts_with sub s")
      case True
      then have "sub @ drop (length sub) s = s" by (metis append_take_drop_id starts_with_def)
      then show ?thesis using 1(1) no True by (subst pieces.simps) (simp add: join_Cons)
    next
      case False
      then show ?thesis using 1(2) no by (subst pieces.simps) (simp add: join_hd)
    qed
  qed
qed

lemma pieces_count: "length (pieces sub s) = Suc (py_count sub s)"
proof (induction sub s rule: pieces.induct)
  case (1 sub s)
  then show ?case by (subst pieces.simps, subst py_count.simps) auto
qed

lemma pieces_replace: "sub \<noteq> [] \<Longrightarrow> py_replace sub new None s = py_join new (pieces sub s)"
proof (induction sub s rule: pieces.induct)
  case (1 sub s)
  then show ?case by (subst pieces.simps, subst py_replace.simps) (auto simp: join_Cons join_hd)
qed

lemma replace_none: "py_replace sub new (Some 0) s = s"
  by (subst py_replace.simps) simp

lemma replace_absent: "py_count sub s = 0 \<Longrightarrow> py_replace sub new None s = s"
proof (induction sub s rule: py_count.induct)
  case (1 sub s)
  then show ?case
    by (subst py_replace.simps) (auto simp: py_count.simps [of sub s] split: if_splits)
qed

lemma replace_once: "py_count sub s \<le> 1 \<Longrightarrow> py_replace sub new (Some 1) s = py_replace sub new None s"
proof (induction sub s rule: py_count.induct)
  case (1 sub s)
  then show ?case
    by (subst (1 2) py_replace.simps)
      (auto simp: py_count.simps [of sub s] replace_none replace_absent split: if_splits)
qed

lemma pieces_free: "sub \<noteq> [] \<Longrightarrow> list_all (\<lambda>p. \<not> sublist sub p) (pieces sub s)"
proof (induction sub s rule: pieces.induct)
  case (1 sub s)
  show ?case
  proof (cases "s = [] \<or> starts_with sub s")
    case True
    then show ?thesis using 1 by (subst pieces.simps) auto
  next
    case False
    then have s: "s = hd s # tl s" by simp
    have IH: "list_all (\<lambda>p. \<not> sublist sub p) (pieces sub (tl s))" using 1 False by auto
    have "prefix (hd s # hd (pieces sub (tl s))) s"
      by (metis False s pieces_join pieces_nonempty join_hd list.collapse py_join.simps(2) join_Cons prefix_def
        Cons_eq_appendI append_Nil2 prefixI)
    then have "\<not> prefix sub (hd s # hd (pieces sub (tl s)))"
      using False by (metis prefix_order.trans starts_with_is_prefix)
    moreover have "\<not> sublist sub (hd (pieces sub (tl s)))" "list_all (\<lambda>p. \<not> sublist sub p) (tl (pieces sub (tl s)))"
      using IH by (cases "pieces sub (tl s)"; simp)+
    ultimately show ?thesis using False "1.prems" by (subst pieces.simps) (simp add: sublist_Cons_right)
  qed
qed

subsection \<open>Edits\<close>

lemma edited_content_table:
  assumes "good_target c p" and "fx_fs s p = Some (File t)" and "old \<noteq> ''''"
    and "n = py_count old (universal_newlines t)"
  shows "\<exists>r. edited_content c p old new every (universal_newlines t) s = (Inr r, s) \<and>
    (if seen_in_full s p t \<and> 1 \<le> n \<and> (n = 1 \<or> every)
     then r = Inr (py_replace old new (if every then None else Some 1) (universal_newlines t))
     else \<exists>m e. r = Inl (m, e))"
proof -
  obtain r where "require_unchanged_full_read c p s = (Inr r, s)" "r = None \<longleftrightarrow> seen_in_full s p t"
    using require_unchanged [OF assms(1,2)] by blast
  then show ?thesis using assms(3,4) by (auto simp: edited_content_def Let_def split: option.splits)
qed

lemma replace_counted:
  assumes "old \<noteq> ''''" and "py_count old s = 1 \<or> every"
  shows "py_replace old new (if every then None else Some 1) s = py_join new (pieces old s)"
  using assms replace_once [of old s new] by (auto simp: pieces_replace)

lemma edit_run:
  assumes "links_ok c" and "writable_target c (fx_fs s) q = Inr p" and "fx_fs s p = Some (File t)"
    and "\<not> old = ''''" and "\<not> old = new"
  shows "if seen_in_full s p t \<and> 1 \<le> py_count old (universal_newlines t) \<and>
      (py_count old (universal_newlines t) = 1 \<or> all = Some True)
    then \<exists>res u. claude_edit_handler now q old new all (Some c) s = (Inr res, u) \<and> tr_ok res \<and>
      fx_fs u = (fx_fs s)(p \<mapsto> File (py_replace old new (if all = Some True then None else Some 1) (universal_newlines t)))
    else \<exists>res. claude_edit_handler now q old new all (Some c) s = (Inr res, s) \<and> \<not> tr_ok res"
    (is "if ?go then _ else _")
proof -
  have g: "good_target c p" by (rule writable_good(1) [OF assms(1,2)])
  obtain rel where rel: "to_workspace_relative c p = Inr rel" using good_relative [OF g] by blast
  obtain r where r: "edited_content c p old new (all = Some True) (universal_newlines t) s = (Inr r, s)"
    and tab: "if ?go then r = Inr (py_replace old new (if all = Some True then None else Some 1) (universal_newlines t))
      else \<exists>m e. r = Inl (m, e)"
    using edited_content_table [OF g assms(3,4) refl, of new "all = Some True"] by blast
  have run: "claude_edit_handler now q old new all (Some c) s =
      fo_catch (edit_existing now c q p old new (all = Some True))
        (execution_error c ''Edit'' ''file_write'' ''File edit'' q p) s"
    using assms(2,3,5) by (simp add: claude_edit_handler_def path_result_def path_exists_def Let_def)
  have ok: "\<exists>res u. fo_catch (edit_existing now c q p old new (all = Some True)) h s = (Inr res, u) \<and> tr_ok res \<and>
      fx_fs u = (fx_fs s)(p \<mapsto> File content)" if "r = Inr content" for content h
    using that assms(3) r rel
    by (simp add: edit_existing_def write_existing record_read_witness_def write_success_result_def
        fo_bind_def fo_catch_def del: fo_bind_simps)
  have refused: "\<exists>res. fo_catch (edit_existing now c q p old new (all = Some True)) h s = (Inr res, s) \<and> \<not> tr_ok res"
    if "r = Inl (m, e)" for m e h
    using that assms(3) r rel by (simp add: edit_existing_def target_error_def fo_bind_def fo_catch_def)
  show ?thesis
  proof (cases ?go)
    case True
    show ?thesis unfolding run if_P [OF True] by (rule ok) (use tab [unfolded if_P [OF True]] in blast)
  next
    case False
    show ?thesis unfolding run if_not_P [OF False] using tab [unfolded if_not_P [OF False]] refused by blast
  qed
qed

text \<open>C37: an edit replaces what it counted and nothing else.  The text of the file is the pieces joined by
  \<open>old_string\<close>, no piece holds \<open>old_string\<close>, and there is one piece more than occurrences are counted.
  The edit succeeds exactly if the file was seen in full, something was counted, and only one unless
  all are to be replaced; the file is then the pieces joined by \<open>new_string\<close> and no other file changes.
  Otherwise nothing changes.  (The pieces are those of the text after newline translation.)\<close>

theorem edit_replaces_what_it_counted:
  assumes "links_ok c" and "writable_target c (fx_fs s) q = Inr p" and "fx_fs s p = Some (File t)"
    and "\<not> old = ''''" and "\<not> old = new"
  shows "let cur = universal_newlines t; parts = pieces old cur; n = py_count old cur;
      (r, u) = claude_edit_handler now q old new all (Some c) s
    in py_join old parts = cur \<and> length parts = n + 1 \<and> list_all (\<lambda>x. \<not> sublist old x) parts \<and>
      (if seen_in_full s p t \<and> 1 \<le> n \<and> (n = 1 \<or> all = Some True)
       then (\<exists>res. r = Inr res \<and> tr_ok res) \<and> fx_fs u = (fx_fs s)(p \<mapsto> File (py_join new parts))
       else (\<exists>res. r = Inr res \<and> \<not> tr_ok res) \<and> u = s)"
proof -
  have text': "py_join old (pieces old (universal_newlines t)) = universal_newlines t"
    "length (pieces old (universal_newlines t)) = py_count old (universal_newlines t) + 1"
    "list_all (\<lambda>x. \<not> sublist old x) (pieces old (universal_newlines t))"
    using pieces_free [OF assms(4)] by (simp_all add: pieces_join pieces_count)
  note run = edit_run [OF assms, of all now]
  show ?thesis
  proof (cases "seen_in_full s p t \<and> 1 \<le> py_count old (universal_newlines t) \<and>
      (py_count old (universal_newlines t) = 1 \<or> all = Some True)")
    case True
    then have "py_count old (universal_newlines t) = 1 \<or> all = Some True" by blast
    from replace_counted [OF assms(4) this] show ?thesis using run [unfolded if_P [OF True]] True text' by (auto simp: Let_def)
  next
    case False
    then show ?thesis using run [unfolded if_not_P [OF False]] text' by (auto simp: Let_def)
  qed
qed

subsection \<open>Reads\<close>

text \<open>What is shown: lines of the file from the index \<open>from\<close> on, under numbers that start with \<open>start\<close>.\<close>

definition shown_lines :: "int \<Rightarrow> nat \<Rightarrow> nat \<Rightarrow> string list \<Rightarrow> string" where
  "shown_lines start from n lines =
     py_join [LF] (map (\<lambda>i. let number = py_int_str (start + int i)
       in replicate (4 - length number) (CHR 0x20) @ number @ '' | '' @ lines ! (from + i)) [0..<n])"

lemma read_content_shown:
  assumes "0 \<le> start" and "case limit of None \<Rightarrow> True | Some l \<Rightarrow> 0 < l"
    and "from = nat (max 1 start) - 1"
    and "n = (case limit of None \<Rightarrow> length lines - from | Some l \<Rightarrow> min (nat l) (length lines - from))"
  shows "read_content start lines (select_lines start limit lines) =
    (if 0 < n then shown_lines start from n lines
     else if lines = [] then ''<system-reminder>Warning: the file exists but the contents are empty.</system-reminder>''
     else ''<system-reminder>Warning: the file exists but is shorter than the provided offset (''
       @ py_int_str start @ ''). The file has '' @ py_int_str (int (length lines)) @ '' lines.</system-reminder>'')"
proof -
  have index: "nat (if start = 0 then 0 else max 0 (start - 1)) = from"
    using assms(1) by (simp add: assms(3) nat_diff_distrib max_def)
  have len: "length (select_lines start limit lines) = n"
    unfolding select_lines_def Let_def index assms(4) by (simp add: min.commute split: option.split)
  have line: "select_lines start limit lines ! i = lines ! (from + i)" if "i < n" for i
    using that unfolding select_lines_def Let_def index assms(4) by (auto split: option.splits)
  have "numbered_lines start (select_lines start limit lines) =
      map (\<lambda>i. let number = py_int_str (start + int i)
        in replicate (4 - length number) (CHR 0x20) @ number @ '' | '' @ lines ! (from + i)) [0..<n]"
    by (rule nth_equalityI) (simp_all add: numbered_lines_def len nth_enumerate_eq line pad_left_def Let_def)
  moreover have "select_lines start limit lines = [] \<longleftrightarrow> n = 0" using len by auto
  ultimately show ?thesis by (simp add: read_content_def shown_lines_def)
qed

text \<open>C38: what a read shows and what it notes.  A \<open>Read\<close> of an existing file that is not a PDF, with an
  offset that is not negative and a limit, if any, that is positive, succeeds.  It shows the lines of the
  file from the offset on, at most \<open>limit\<close> of them, each after its number padded to four places and a
  bar, and where there are none a warning; with the offset 0 it shows the lines from the first one
  on, but under numbers that start with 0.  After 50000 characters the answer is cut off.  The read
  notes the whole text, whatever was shown, and counts as a full view exactly if the offset is 1 and
  there is no limit.\<close>

theorem read_shows_and_notes:
  assumes "links_ok c"
    and "resolve_and_validate_path (ctx_os c) (fx_fs s) (read_checks c) q (ctx_workspace_root c) = Inr p"
    and "fx_fs s p = Some (File t)" and "\<not> py_lower (path_suffix p) = ''.pdf''"
    and "start = (case offset of None \<Rightarrow> 1 | Some n \<Rightarrow> n)" and "0 \<le> start"
    and "case limit of None \<Rightarrow> True | Some l \<Rightarrow> 0 < l"
  shows "let lines = splitlines (universal_newlines t); from = nat (max 1 start) - 1;
      n = (case limit of None \<Rightarrow> length lines - from | Some l \<Rightarrow> min (nat l) (length lines - from));
      answer =
        (if 0 < n then shown_lines start from n lines
         else if lines = [] then ''<system-reminder>Warning: the file exists but the contents are empty.</system-reminder>''
         else ''<system-reminder>Warning: the file exists but is shorter than the provided offset (''
           @ py_int_str start @ ''). The file has '' @ py_int_str (int (length lines)) @ '' lines.</system-reminder>'')
    in \<exists>res. claude_read_handler fsize q offset limit None (Some c) s =
      (Inr res, s\<lparr>fx_witnesses := AList.update (path_str p)
        \<lparr>rw_content = universal_newlines t, rw_timestamp = fx_mtime s p, rw_offset = start, rw_limit = limit,
         rw_is_partial_view = (\<not> (start = 1 \<and> limit = None))\<rparr> (fx_witnesses s)\<rparr>) \<and>
      tr_ok res \<and>
      tr_content res = (if length answer \<le> 50000 then answer
        else take 50000 answer @ [LF] @ ''... [truncated at '' @ py_int_str 50000 @ '' chars]'')"
  using read_run [OF assms]
  unfolding Let_def read_content_shown [OF assms(6,7) refl refl] truncate_text_def MAX_TEXT_OUTPUT_CHARS_def
  by (auto split del: if_split split: if_splits)

subsection \<open>Examples\<close>

lemma after_read_facts:
  "fx_fs (after_read text') example_file = Some (File text')" "seen_in_full (after_read text') example_file text'"
  by (simp_all add: after_read_def example_state_def seen_in_full_def example_path(6))

theorem edit_replaces_what_it_counted_witness:
  "fx_fs (snd (claude_edit_handler 6 ''a.txt'' ''b'' ''X'' None (Some files_context) (after_read ''abc''))) example_file
    = Some (File ''aXc'')"
proof -
  have count: "py_count ''b'' ''abc'' = 1" by code_simp
  have join: "py_join ''X'' (pieces ''b'' ''abc'') = ''aXc''" by code_simp
  show ?thesis
    using edit_replaces_what_it_counted [OF example_links example_found(2) [OF after_read_facts(1)] after_read_facts(1) [of "''abc''"],
        of "''b''" "''X''" 6 None]
    by (simp add: after_read_facts count join Let_def split: prod.splits)
qed

text \<open>An edit of one word changes the line ends of the whole file; and since only occurrences that do not
  overlap are counted, one of two places may be edited without a word.\<close>

lemma edit_changes_line_ends:
  "fx_fs (snd (claude_edit_handler 6 ''a.txt'' ''b'' ''X'' None (Some files_context)
      (after_read (''a'' @ [CR, LF] @ ''b'')))) example_file = Some (File (''a'' @ [LF] @ ''X''))"
proof -
  let ?t = "''a'' @ [CR, LF] @ ''b''"
  have count: "py_count ''b'' (universal_newlines ?t) = 1" by code_simp
  have join: "py_replace ''b'' ''X'' (Some 1) (universal_newlines ?t) = ''a'' @ [LF] @ ''X''" by code_simp
  from edit_run [OF example_links example_found(2) [OF after_read_facts(1)] after_read_facts(1) [of ?t],
      of "''b''" "''X''" None 6]
  show ?thesis using count join after_read_facts(2) by auto
qed

lemma edit_may_be_ambiguous:
  "fx_fs (snd (claude_edit_handler 6 ''a.txt'' ''aa'' ''X'' None (Some files_context) (after_read ''aaa''))) example_file
    = Some (File ''Xa'')"
proof -
  have count: "py_count ''aa'' (universal_newlines ''aaa'') = 1" by code_simp
  have join: "py_replace ''aa'' ''X'' (Some 1) (universal_newlines ''aaa'') = ''Xa''" by code_simp
  from edit_run [OF example_links example_found(2) [OF after_read_facts(1)] after_read_facts(1) [of "''aaa''"],
      of "''aa''" "''X''" None 6]
  show ?thesis using count join after_read_facts(2) by auto
qed

theorem read_shows_and_notes_witness:
  "\<exists>res t. claude_read_handler (\<lambda>p. 7) ''a.txt'' (Some 0) (Some 1) None (Some files_context) (after_read ''one'')
    = (Inr res, t) \<and> tr_ok res \<and> tr_content res = ''   0 | one''"
proof -
  have "splitlines (universal_newlines ''one'') = [''one'']" by code_simp
  moreover have "shown_lines 0 0 1 [''one''] = ''   0 | one''" by code_simp
  ultimately show ?thesis
    using read_shows_and_notes [OF example_links example_found(1) [OF after_read_facts(1)]
        after_read_facts(1) [of "''one''"] example_path(5), of 0 "Some 0" "Some 1" "\<lambda>p. 7"]
    by (auto simp: Let_def)
qed

end
