(* ===== verification/Claude_Search.thy ===== *)
theory Claude_Search
  imports Claude_Files Tool_Spec
begin

section \<open>The search tools of the Claude family\<close>

text \<open>
  \<open>Grep\<close> and \<open>Glob\<close> of \<open>tools/families/claude.py\<close>.  The directories below a path, which \<open>os.walk\<close>
  goes through, are a tree (links to directories are leaves without entries); the regular
  expressions of \<open>re\<close>, \<open>Path.glob\<close> and the program \<open>rg\<close> are arguments, collected in \<open>search_env\<close>.
  A compiled expression is the function that counts its matches in a text.  Fields carry \<open>se_\<close>.
\<close>

subsection \<open>Directories\<close>

datatype dir_tree = DirTree "(string \<times> dir_tree) list" "string list"

text \<open>What running \<open>rg\<close> comes to: an exit code with its two outputs, an \<open>OSError\<close> or
  \<open>SubprocessError\<close>, or another exception.\<close>

datatype rg_outcome = RgExit int string string | RgOSError | RgException py_exn

record search_env =
  se_tree :: "path \<Rightarrow> dir_tree"
  se_glob :: "path \<Rightarrow> string \<Rightarrow> py_exn + path list"
  se_regex :: "string \<Rightarrow> bool \<Rightarrow> bool \<Rightarrow> py_exn + (string \<Rightarrow> nat)"
  se_rg :: "(string list \<Rightarrow> rg_outcome) option"

definition IGNORED_DIRS :: "string list" where
  "IGNORED_DIRS = [''.git'', ''__pycache__'', ''node_modules'', ''.mypy_cache'', ''.ruff_cache'']"

definition BINARY_SUFFIXES :: "string list" where
  "BINARY_SUFFIXES = [''.pyc'', ''.pyo'', ''.so'', ''.o'', ''.exe'', ''.bin'', ''.png'', ''.jpg'', ''.jpeg'',
     ''.gif'', ''.webp'', ''.zip'', ''.tar'', ''.gz'', ''.pdf'']"

text \<open>\<open>os.walk\<close> without the ignored directories, sorted: the files as paths, a directory's own first.\<close>

lemma size_subtree [termination_simp]:
  "(n, t) \<in> set ds \<Longrightarrow> size t < Suc (size_list (\<lambda>x. Suc (size (snd x))) ds)"
  by (induction ds) auto

function walk_files :: "path \<Rightarrow> dir_tree \<Rightarrow> path list" where
  "walk_files p (DirTree ds fs) =
     map (\<lambda>f. p @ [f]) (sort fs) @
     concat (map (\<lambda>(n, t). walk_files (p @ [n]) t) (sort_key fst (filter (\<lambda>(n, t). n \<notin> set IGNORED_DIRS) ds)))"
  by pat_completeness auto
termination
  by (relation "measure (size \<circ> snd)") (auto simp: size_subtree size_prod_simp comp_def)

subsection \<open>Matching\<close>

text \<open>\<open>PurePath.match\<close> of a relative path: the components of the pattern match the last ones.\<close>

definition path_match :: "string \<Rightarrow> string \<Rightarrow> py_exn + bool" where
  "path_match relative pattern =
     (let pat = path_components pattern; parts = path_components relative
      in if path_is_absolute pattern then Inr False
         else if pat = [] then Inl (StdError ''ValueError'')
         else Inr (length pat \<le> length parts \<and>
           list_all2 fnmatch (drop (length parts - length pat) parts) pat))"

text \<open>Loops over paths whose relative form may raise.\<close>

fun collect_candidates ::
  "ToolContext \<Rightarrow> string option \<Rightarrow> path list \<Rightarrow> py_exn + (path \<times> string) list" where
  "collect_candidates c path_glob [] = Inr []"
| "collect_candidates c path_glob (full_path # paths) =
     res_bind (to_workspace_relative c full_path) (\<lambda>relative.
     res_bind (if \<not> context_file_allowed c relative then Inr False
       else case path_glob of
              None \<Rightarrow> Inr True
            | Some g \<Rightarrow> if g = '''' then Inr True else path_match relative g) (\<lambda>wanted.
     res_bind (collect_candidates c path_glob paths) (\<lambda>rest.
       Inr (if wanted \<and> py_lower (path_suffix full_path) \<notin> set BINARY_SUFFIXES
         then (full_path, relative) # rest else rest))))"

definition iter_search_candidates ::
  "search_env \<Rightarrow> ToolContext \<Rightarrow> fs \<Rightarrow> path \<Rightarrow> string option \<Rightarrow> py_exn + (path \<times> string) list" where
  "iter_search_candidates env c f base path_glob =
     (if path_is_file f base then
        res_bind (to_workspace_relative c base) (\<lambda>relative.
          if \<not> context_file_allowed c relative then Inr []
          else res_bind (case path_glob of None \<Rightarrow> Inr True | Some g \<Rightarrow> path_match relative g) (\<lambda>m.
            Inr (if m then [(base, relative)] else [])))
      else collect_candidates c path_glob (walk_files base (se_tree env base)))"

subsection \<open>The two ways to search\<close>

text \<open>The fallback: what each file adds to the result; a file is read through its links.\<close>

definition file_entries ::
  "(string \<Rightarrow> nat) \<Rightarrow> string \<Rightarrow> string \<Rightarrow> string \<Rightarrow> string list" where
  "file_entries matches output_mode rel_path text' =
     (if output_mode = ''files_with_matches'' then (if matches text' > 0 then [rel_path] else [])
      else if output_mode = ''count''
      then (if matches text' > 0 then [rel_path @ '':'' @ py_int_str (int (matches text'))] else [])
      else map (\<lambda>(i, line). rel_path @ '':'' @ py_int_str (int i) @ '': '' @ line)
        (filter (\<lambda>(i, line). matches line > 0) (enumerate 1 (splitlines text'))))"

fun search_files ::
  "ToolContext \<Rightarrow> fs \<Rightarrow> (string \<Rightarrow> nat) \<Rightarrow> string \<Rightarrow> (path \<times> string) list \<Rightarrow> py_exn + string list" where
  "search_files c f matches output_mode [] = Inr []"
| "search_files c f matches output_mode ((full_path, rel_path) # candidates) =
     res_bind (fst (read_text (ctx_resolve c full_path) f)) (\<lambda>text'.
     res_bind (search_files c f matches output_mode candidates) (\<lambda>rest.
       Inr (file_entries matches output_mode rel_path text' @ rest)))"

definition search_with_python ::
  "search_env \<Rightarrow> ToolContext \<Rightarrow> fs \<Rightarrow> string \<Rightarrow> (path \<times> string) list \<Rightarrow> string \<Rightarrow> bool \<Rightarrow> bool
    \<Rightarrow> py_exn + string list" where
  "search_with_python env c f pattern candidates output_mode ignore_case multiline =
     res_bind (se_regex env pattern ignore_case multiline) (\<lambda>matches.
       search_files c f matches output_mode candidates)"

text \<open>The keyword arguments of a search.\<close>

record grep_options =
  gr_path_glob :: "string option"
  gr_output_mode :: string
  gr_before_context :: "int option"
  gr_after_context :: "int option"
  gr_shared_context :: "int option"
  gr_show_line_numbers :: bool
  gr_ignore_case :: bool
  gr_file_type :: "string option"
  gr_multiline :: bool

definition int_option :: "string \<Rightarrow> int option \<Rightarrow> string list" where
  "int_option name v = (case v of None \<Rightarrow> [] | Some i \<Rightarrow> [name, py_int_str i])"

text \<open>\<open>if v:\<close> of an optional text.\<close>

definition text_option :: "string \<Rightarrow> string option \<Rightarrow> string list" where
  "text_option name v = (case v of None \<Rightarrow> [] | Some s \<Rightarrow> if s = '''' then [] else [name, s])"

definition rg_arguments :: "grep_options \<Rightarrow> string \<Rightarrow> (path \<times> string) list \<Rightarrow> string list" where
  "rg_arguments g pattern candidates =
     [''--color'', ''never'']
     @ (if gr_output_mode g = ''files_with_matches'' then [''-l'']
        else if gr_output_mode g = ''count'' then [''-c'']
        else [''--with-filename''] @ (if gr_show_line_numbers g then [''-n''] else [])
          @ (if gr_shared_context g \<noteq> None then int_option ''-C'' (gr_shared_context g)
             else int_option ''-B'' (gr_before_context g) @ int_option ''-A'' (gr_after_context g)))
     @ (if gr_ignore_case g then [''-i''] else [])
     @ text_option ''--type'' (gr_file_type g)
     @ (if gr_multiline g then [''-U'', ''--multiline-dotall''] else [])
     @ text_option ''--glob'' (gr_path_glob g)
     @ [''--'', pattern] @ map snd candidates"

text \<open>\<open>_search_with_rg\<close>: \<open>None\<close> where it raises an error that makes the caller fall back.\<close>

definition search_with_rg ::
  "(string list \<Rightarrow> rg_outcome) \<Rightarrow> grep_options \<Rightarrow> string \<Rightarrow> (path \<times> string) list
    \<Rightarrow> py_exn + string list option" where
  "search_with_rg rg g pattern candidates =
     (case rg (rg_arguments g pattern candidates) of
        RgOSError \<Rightarrow> Inr None
      | RgException e \<Rightarrow> Inl e
      | RgExit returncode out err \<Rightarrow>
          Inr (if returncode \<in> {0, 1} then Some (filter (\<lambda>l. l \<noteq> '''') (splitlines out)) else None))"

definition run_claude_grep ::
  "search_env \<Rightarrow> ToolContext \<Rightarrow> fs \<Rightarrow> grep_options \<Rightarrow> string \<Rightarrow> path \<Rightarrow> py_exn + string list \<times> string" where
  "run_claude_grep env c f g pattern base =
     res_bind (iter_search_candidates env c f base (gr_path_glob g)) (\<lambda>candidates.
     res_bind (case se_rg env of
         Some rg \<Rightarrow> if candidates \<noteq> [] then search_with_rg rg g pattern candidates else Inr None
       | None \<Rightarrow> Inr None) (\<lambda>found.
       case found of
         Some entries \<Rightarrow> Inr (entries, ''rg'')
       | None \<Rightarrow>
           res_bind (search_with_python env c f pattern candidates (gr_output_mode g) (gr_ignore_case g) (gr_multiline g))
             (\<lambda>entries. Inr (entries, ''python''))))"

subsection \<open>Grep\<close>

definition MAX_GLOB_RESULTS :: nat where
  "MAX_GLOB_RESULTS = 100"

definition DEFAULT_GREP_HEAD_LIMIT :: int where
  "DEFAULT_GREP_HEAD_LIMIT = 250"

definition optional_int :: "json \<Rightarrow> int option \<Rightarrow> int option" where
  "optional_int v fallback =
     (case v of JInt i \<Rightarrow> Some i
      | JFloat r _ \<Rightarrow> Some (if r < 0 then - \<lfloor>- r\<rfloor> else \<lfloor>r\<rfloor>)
      | _ \<Rightarrow> fallback)"

definition slice_entries :: "string list \<Rightarrow> int \<Rightarrow> int \<Rightarrow> string list \<times> bool" where
  "slice_entries entries offset head_limit =
     (let sliced = drop (nat offset) entries
      in if head_limit = 0 then (sliced, False)
         else (take (nat head_limit) sliced, int (length sliced) > head_limit))"

definition grep_options_of :: "string option \<Rightarrow> string \<Rightarrow> pydict \<Rightarrow> grep_options" where
  "grep_options_of path_glob output_mode kwargs =
     \<lparr>gr_path_glob = path_glob, gr_output_mode = output_mode,
      gr_before_context = optional_int (dict_get kwargs ''-B'') None,
      gr_after_context = optional_int (dict_get kwargs ''-A'') None,
      gr_shared_context = (case optional_int (dict_get kwargs ''-C'') None of
        None \<Rightarrow> optional_int (dict_get kwargs ''context'') None | Some i \<Rightarrow> Some i),
      gr_show_line_numbers = (dict_get kwargs ''-n'' = JNull \<or> py_truthy (dict_get kwargs ''-n'')),
      gr_ignore_case = py_truthy (dict_get kwargs ''-i''),
      gr_file_type = (case dict_get kwargs ''type'' of JStr s \<Rightarrow> Some s | _ \<Rightarrow> None),
      gr_multiline = py_truthy (dict_get kwargs ''multiline'')\<rparr>"

definition head_limit_of :: "json \<Rightarrow> int" where
  "head_limit_of v =
     (if v = JNull then DEFAULT_GREP_HEAD_LIMIT
      else max 0 (case optional_int v (Some 0) of Some i \<Rightarrow> i | None \<Rightarrow> 0))"

definition offset_of :: "json \<Rightarrow> int" where
  "offset_of v = max 0 (case optional_int v (Some 0) of Some i \<Rightarrow> i | None \<Rightarrow> 0)"

definition search_success ::
  "ToolContext \<Rightarrow> string \<Rightarrow> path \<Rightarrow> string \<Rightarrow> pydict \<Rightarrow> py_exn + ToolResult" where
  "search_success c operation base content extra =
     res_bind (to_workspace_relative c base) (\<lambda>relative_root.
       Inr \<lparr>tr_ok = True, tr_content = content,
         tr_metadata = build_execution_metadata
           ((claude_facts operation ''file_search'' ''result_finalize'' ''allow'' extra)\<lparr>
             ef_workspace_root := Some (path_str (ctx_workspace_root c)),
             ef_resolved_target_paths := Some [relative_root]\<rparr>),
         tr_is_error = False\<rparr>)"

text \<open>The \<open>try\<close> of the two tools: a failure is reported, unless reporting raises.\<close>

definition search_or_report ::
  "ToolContext \<Rightarrow> string \<Rightarrow> string \<Rightarrow> path \<Rightarrow> py_exn + ToolResult \<Rightarrow> py_exn + ToolResult" where
  "search_or_report c operation requested base r =
     (case r of
        Inr res \<Rightarrow> Inr res
      | Inl e \<Rightarrow>
          res_bind (to_workspace_relative c base) (\<lambda>rel.
            Inr (tool_failure (operation @ '' failed: '' @ exn_text e)
              ((claude_facts operation ''file_search'' ''handler_execution'' ''allow''
                  [(''error_type'', JStr ''execution''), (''requested_path'', JStr requested)])\<lparr>
                ef_workspace_root := Some (path_str (ctx_workspace_root c)),
                ef_resolved_target_paths := Some [rel]\<rparr>))))"

definition search_root ::
  "ToolContext \<Rightarrow> fs \<Rightarrow> string \<Rightarrow> string \<Rightarrow> bool \<Rightarrow> (path \<Rightarrow> py_exn + ToolResult) \<Rightarrow> py_exn + ToolResult" where
  "search_root c f operation requested directory k =
     (case resolve_and_validate_path (ctx_os c) f
         (default_checks\<lparr>allow_absolute := True, must_exist := True, must_be_dir := directory\<rparr>)
         requested (ctx_workspace_root c) of
        Inr base \<Rightarrow> search_or_report c operation requested base (k base)
      | Inl (PathPolicyError message error_type metadata) \<Rightarrow>
          Inr (claude_path_error c operation ''file_search'' requested message error_type metadata)
      | Inl e \<Rightarrow> Inl e)"

definition claude_grep_handler ::
  "search_env \<Rightarrow> fs \<Rightarrow> string \<Rightarrow> string option \<Rightarrow> string option \<Rightarrow> string option \<Rightarrow> pydict \<Rightarrow> ToolContext option
    \<Rightarrow> py_exn + ToolResult" where
  "claude_grep_handler env f pattern given_path path_glob output_mode kwargs ctx =
     (case ctx of
        None \<Rightarrow> Inr (claude_missing_context ''Grep'' ''file_search'')
      | Some c \<Rightarrow>
          let requested_path = str_or given_path ''.''
          in if pattern = ''''
             then Inr (validation_error c ''Grep'' ''file_search'' requested_path ''pattern must not be empty''
               ''invalid_pattern'' None)
             else
               search_root c f ''Grep'' requested_path False (\<lambda>base.
                 let selected_mode = str_or output_mode ''files_with_matches'';
                     g = grep_options_of path_glob selected_mode kwargs;
                     head_limit = head_limit_of (dict_get kwargs ''head_limit'');
                     offset = offset_of (dict_get kwargs ''offset'')
                 in res_bind (run_claude_grep env c f g pattern base) (\<lambda>(entries, backend).
                      let (sliced_entries, truncated) = slice_entries entries offset head_limit;
                          facts = [(''pattern'', JStr pattern), (''requested_path'', JStr requested_path),
                            (''glob'', opt_str path_glob), (''output_mode'', JStr selected_mode),
                            (''backend'', JStr backend), (''entry_count'', JInt (int (length sliced_entries))),
                            (''truncated'', JBool truncated)]
                      in if sliced_entries = [] then search_success c ''Grep'' base ''No matches found.'' facts
                         else search_success c ''Grep'' base (py_join [LF] sliced_entries)
                           (facts @ [(''offset'', JInt offset), (''head_limit'', JInt head_limit),
                             (''ignore_case'', JBool (gr_ignore_case g)), (''type'', dict_get kwargs ''type''),
                             (''multiline'', JBool (gr_multiline g))]))))"

subsection \<open>Glob\<close>

text \<open>\<open>_has_allowed_descendant\<close>, which stops at the first file that is allowed.\<close>

fun any_allowed :: "ToolContext \<Rightarrow> path list \<Rightarrow> py_exn + bool" where
  "any_allowed c [] = Inr False"
| "any_allowed c (full_path # paths) =
     res_bind (to_workspace_relative c full_path) (\<lambda>relative.
       if context_file_allowed c relative then Inr True else any_allowed c paths)"

function walk_unsorted :: "path \<Rightarrow> dir_tree \<Rightarrow> path list" where
  "walk_unsorted p (DirTree ds fs) =
     map (\<lambda>f. p @ [f]) fs @
     concat (map (\<lambda>(n, t). walk_unsorted (p @ [n]) t) (filter (\<lambda>(n, t). n \<notin> set IGNORED_DIRS) ds))"
  by pat_completeness auto
termination
  by (relation "measure (size \<circ> snd)") (auto simp: size_subtree size_prod_simp comp_def)

definition has_allowed_descendant :: "search_env \<Rightarrow> ToolContext \<Rightarrow> path \<Rightarrow> py_exn + bool" where
  "has_allowed_descendant env c dir_path = any_allowed c (walk_unsorted dir_path (se_tree env dir_path))"

text \<open>A match that is neither a file nor a directory (a dangling link) is kept.\<close>

fun visible_matches :: "search_env \<Rightarrow> ToolContext \<Rightarrow> fs \<Rightarrow> path list \<Rightarrow> py_exn + string list" where
  "visible_matches env c f [] = Inr []"
| "visible_matches env c f (candidate # candidates) =
     res_bind (to_workspace_relative c candidate) (\<lambda>relative_path.
     res_bind (if path_is_file f (ctx_resolve c candidate) then Inr (context_file_allowed c relative_path)
       else if path_is_dir f (ctx_resolve c candidate) then has_allowed_descendant env c candidate
       else Inr True) (\<lambda>visible.
     res_bind (visible_matches env c f candidates) (\<lambda>rest.
       Inr (if visible then relative_path # rest else rest))))"

definition claude_glob_handler ::
  "search_env \<Rightarrow> fs \<Rightarrow> string \<Rightarrow> string option \<Rightarrow> ToolContext option \<Rightarrow> py_exn + ToolResult" where
  "claude_glob_handler env f pattern given_path ctx =
     (case ctx of
        None \<Rightarrow> Inr (claude_missing_context ''Glob'' ''file_search'')
      | Some c \<Rightarrow>
          let requested_path = str_or given_path ''.''
          in search_root c f ''Glob'' requested_path True (\<lambda>base.
               res_bind (se_glob env base pattern) (\<lambda>found.
               res_bind (visible_matches env c f (sort found)) (\<lambda>matches.
                 let truncated = (length matches > MAX_GLOB_RESULTS);
                     rendered_matches = take MAX_GLOB_RESULTS matches;
                     content_lines = rendered_matches @ (if truncated
                       then [''(Results are truncated. Consider using a more specific path or pattern.)''] else [])
                 in search_success c ''Glob'' base
                      (if content_lines = [] then ''No files found.'' else py_join [LF] content_lines)
                      [(''pattern'', JStr pattern), (''requested_path'', JStr requested_path),
                       (''num_files'', JInt (int (length rendered_matches))), (''truncated'', JBool truncated)]))))"

end
