(* ===== verification/Claude_Search_Properties.thy ===== *)
theory Claude_Search_Properties
  imports Claude_Search Claude_Files_Properties
begin

section \<open>What the search tools look at\<close>

text \<open>
  The files a search considers are those below the searched directory, not below an ignored one,
  that the task allows, that match the glob and that do not have a binary suffix.  A search
  depends on no other text, whether \<open>rg\<close> or Python runs it.  One file whose path resolves out of the
  workspace makes every search of a directory above it fail.
\<close>

subsection \<open>Walking a directory\<close>

inductive file_below :: "dir_tree \<Rightarrow> path \<Rightarrow> bool" where
  here: "name \<in> set fs \<Longrightarrow> file_below (DirTree ds fs) [name]"
| below: "(name, t) \<in> set ds \<Longrightarrow> name \<notin> set IGNORED_DIRS \<Longrightarrow> file_below t q
    \<Longrightarrow> file_below (DirTree ds fs) (name # q)"

inductive_simps file_below_simps: "file_below (DirTree ds fs) q"

lemma walk_files_set: "set (walk_files p t) = {p @ q | q. file_below t q}"
proof (induction p t rule: walk_files.induct)
  case (1 p ds fs)
  have sub: "set (walk_files (p @ [n]) t) = {(p @ [n]) @ q | q. file_below t q}"
    if "(n, t) \<in> set ds" "n \<notin> set IGNORED_DIRS" for n t
    using 1 [of "(n, t)" n t] that by simp
  have "set (walk_files p (DirTree ds fs)) = (\<lambda>n. p @ [n]) ` set fs \<union>
      (\<Union>(n, t)\<in>{(n, t) \<in> set ds. n \<notin> set IGNORED_DIRS}. set (walk_files (p @ [n]) t))"
    by (auto simp: case_prod_unfold)
  also have "\<dots> = (\<lambda>n. p @ [n]) ` set fs \<union>
      (\<Union>(n, t)\<in>{(n, t) \<in> set ds. n \<notin> set IGNORED_DIRS}. {(p @ [n]) @ q | q. file_below t q})"
    using sub by auto
  also have "\<dots> = {p @ q | q. file_below (DirTree ds fs) q}"
    by (auto simp: file_below_simps)
  finally show ?case .
qed

lemma walk_unsorted_set: "set (walk_unsorted p t) = set (walk_files p t)"
proof (induction p t rule: walk_files.induct)
  case (1 p ds fs)
  have sub: "set (walk_unsorted (p @ [n]) t) = set (walk_files (p @ [n]) t)"
    if "(n, t) \<in> set ds" "n \<notin> set IGNORED_DIRS" for n t
    using 1 [of "(n, t)" n t] that by simp
  then have "(\<Union>(n, t)\<in>{(n, t) \<in> set ds. n \<notin> set IGNORED_DIRS}. set (walk_unsorted (p @ [n]) t)) =
      (\<Union>(n, t)\<in>{(n, t) \<in> set ds. n \<notin> set IGNORED_DIRS}. set (walk_files (p @ [n]) t))"
    by auto
  then show ?case by (auto simp: case_prod_unfold)
qed

subsection \<open>Candidates\<close>

text \<open>The path resolves to one the task allows.\<close>

definition shown :: "ToolContext \<Rightarrow> path \<Rightarrow> bool" where
  "shown c p = (case to_workspace_relative c p of Inl e \<Rightarrow> False | Inr rel \<Rightarrow> context_file_allowed c rel)"

definition glob_wants :: "string option \<Rightarrow> string \<Rightarrow> bool" where
  "glob_wants path_glob relative = (case path_glob of None \<Rightarrow> True
     | Some g \<Rightarrow> g = '''' \<or> path_match relative g = Inr True)"

definition wanted :: "ToolContext \<Rightarrow> string option \<Rightarrow> path \<Rightarrow> bool" where
  "wanted c path_glob p =
     (case to_workspace_relative c p of
        Inl e \<Rightarrow> False
      | Inr rel \<Rightarrow> context_file_allowed c rel \<and> glob_wants path_glob rel \<and>
          py_lower (path_suffix p) \<notin> set BINARY_SUFFIXES)"

lemma collect_candidates_exact:
  "collect_candidates c path_glob ps = Inr cs \<Longrightarrow>
     map fst cs = filter (wanted c path_glob) ps \<and>
     list_all (\<lambda>(p, rel). to_workspace_relative c p = Inr rel) cs"
proof (induction ps arbitrary: cs)
  case (Cons p ps)
  obtain rel w rest where run: "to_workspace_relative c p = Inr rel"
      "(if \<not> context_file_allowed c rel then Inr False
        else case path_glob of None \<Rightarrow> Inr True | Some g \<Rightarrow> if g = '''' then Inr True else path_match rel g) = Inr w"
      "collect_candidates c path_glob ps = Inr rest"
      "cs = (if w \<and> py_lower (path_suffix p) \<notin> set BINARY_SUFFIXES then (p, rel) # rest else rest)"
    using Cons.prems by (auto simp: res_bind_Inr_iff)
  have "wanted c path_glob p \<longleftrightarrow> w \<and> py_lower (path_suffix p) \<notin> set BINARY_SUFFIXES"
    using run(1,2) by (auto simp: wanted_def glob_wants_def split: if_splits option.splits)
  then show ?case using Cons.IH [OF run(3)] run(1,4) by auto
qed simp

lemma candidates_shown:
  assumes "iter_search_candidates env c f base path_glob = Inr cs"
  shows "list_all (\<lambda>(p, rel). to_workspace_relative c p = Inr rel \<and> context_file_allowed c rel) cs"
proof (cases "path_is_file f base")
  case True
  then show ?thesis using assms
    by (auto simp: iter_search_candidates_def res_bind_Inr_iff split: if_splits)
next
  case False
  then have "collect_candidates c path_glob (walk_files base (se_tree env base)) = Inr cs"
    using assms by (simp add: iter_search_candidates_def)
  note exact = collect_candidates_exact [OF this]
  have "wanted c path_glob (fst x)" if "x \<in> set cs" for x
    using arg_cong [OF conjunct1 [OF exact], of set] that by auto
  then show ?thesis using exact by (force simp: list_all_iff wanted_def split: sum.splits)
qed

subsection \<open>Searching\<close>

text \<open>
  Two situations that agree on everything but the texts of files the task does not allow: the same
  directories, expressions and kinds of files, and a \<open>rg\<close> that, given only allowed files, does the
  same.
\<close>

definition same_kinds :: "fs \<Rightarrow> fs \<Rightarrow> bool" where
  "same_kinds f g \<longleftrightarrow> path_exists f = path_exists g \<and> path_is_file f = path_is_file g \<and> path_is_dir f = path_is_dir g"

definition all_shown :: "ToolContext \<Rightarrow> (path \<times> string) list \<Rightarrow> bool" where
  "all_shown c cs = list_all (\<lambda>(p, rel). to_workspace_relative c p = Inr rel \<and> context_file_allowed c rel) cs"

definition same_view :: "ToolContext \<Rightarrow> search_env \<times> fs \<Rightarrow> search_env \<times> fs \<Rightarrow> bool" where
  "same_view c x y \<longleftrightarrow>
     se_tree (fst x) = se_tree (fst y) \<and> se_glob (fst x) = se_glob (fst y) \<and>
     se_regex (fst x) = se_regex (fst y) \<and> same_kinds (snd x) (snd y) \<and>
     (\<forall>p. shown c p \<longrightarrow> snd x (ctx_resolve c p) = snd y (ctx_resolve c p)) \<and>
     (se_rg (fst x) = None \<longleftrightarrow> se_rg (fst y) = None) \<and>
     (\<forall>g pattern cs. all_shown c cs \<longrightarrow>
        map_option (\<lambda>rg. rg (rg_arguments g pattern cs)) (se_rg (fst x)) =
        map_option (\<lambda>rg. rg (rg_arguments g pattern cs)) (se_rg (fst y)))"

lemma read_same: "f p = f' p \<Longrightarrow> fst (read_text p f) = fst (read_text p f')"
  by (auto simp: read_text_def split: option.splits fs_entry.splits)

lemma search_files_same:
  assumes "list_all (\<lambda>(p, rel). f (ctx_resolve c p) = f' (ctx_resolve c p)) cs"
  shows "search_files c f m mode cs = search_files c f' m mode cs"
  using assms
proof (induction cs)
  case (Cons x cs)
  obtain p rel where x: "x = (p, rel)" by (cases x)
  have "search_files c f m mode cs = search_files c f' m mode cs" using Cons by simp
  moreover have "fst (read_text (ctx_resolve c p) f) = fst (read_text (ctx_resolve c p) f')"
    using Cons.prems x by (intro read_same) simp
  ultimately show ?case by (simp only: x search_files.simps)
qed (simp only: search_files.simps)

lemma iter_same:
  "se_tree env = se_tree env' \<Longrightarrow> same_kinds f f' \<Longrightarrow>
    iter_search_candidates env c f base path_glob = iter_search_candidates env' c f' base path_glob"
  by (simp add: iter_search_candidates_def same_kinds_def)

lemma view_agrees:
  assumes "same_view c (env, f) (env', f')" and "all_shown c cs"
  shows "list_all (\<lambda>(p, rel). f (ctx_resolve c p) = f' (ctx_resolve c p)) cs"
proof -
  have "f (ctx_resolve c p) = f' (ctx_resolve c p)" if "(p, rel) \<in> set cs" for p rel
  proof -
    have "shown c p" using assms(2) that by (auto simp: all_shown_def shown_def list_all_iff)
    then show ?thesis using assms(1) by (simp add: same_view_def)
  qed
  then show ?thesis by (auto simp: list_all_iff)
qed

lemma grep_same:
  assumes "same_view c (env, f) (env', f')"
  shows "run_claude_grep env c f g pattern base = run_claude_grep env' c f' g pattern base"
proof -
  have iter: "iter_search_candidates env c f base (gr_path_glob g) = iter_search_candidates env' c f' base (gr_path_glob g)"
    using assms by (intro iter_same) (auto simp: same_view_def)
  have rest: "(case se_rg env of Some rg \<Rightarrow> if cs \<noteq> [] then search_with_rg rg g pattern cs else Inr None
         | None \<Rightarrow> Inr None)
      = (case se_rg env' of Some rg \<Rightarrow> if cs \<noteq> [] then search_with_rg rg g pattern cs else Inr None
         | None \<Rightarrow> Inr None)"
    "search_with_python env c f pattern cs mode ic ml = search_with_python env' c f' pattern cs mode ic ml"
    if cs: "all_shown c cs" for cs mode ic ml
  proof -
    show "search_with_python env c f pattern cs mode ic ml = search_with_python env' c f' pattern cs mode ic ml"
      using assms view_agrees [OF assms cs]
      by (auto simp: search_with_python_def same_view_def intro!: res_bind_cong search_files_same)
    have "map_option (\<lambda>rg. rg (rg_arguments g pattern cs)) (se_rg env)
        = map_option (\<lambda>rg. rg (rg_arguments g pattern cs)) (se_rg env')"
      using assms cs by (simp add: same_view_def)
    then show "(case se_rg env of Some rg \<Rightarrow> if cs \<noteq> [] then search_with_rg rg g pattern cs else Inr None
         | None \<Rightarrow> Inr None)
      = (case se_rg env' of Some rg \<Rightarrow> if cs \<noteq> [] then search_with_rg rg g pattern cs else Inr None
         | None \<Rightarrow> Inr None)"
      by (cases "se_rg env"; cases "se_rg env'") (simp_all add: search_with_rg_def)
  qed
  show ?thesis
    unfolding run_claude_grep_def iter
  proof (rule res_bind_cong [OF refl])
    fix cs assume "iter_search_candidates env' c f' base (gr_path_glob g) = Inr cs"
    then have "all_shown c cs" using candidates_shown by (simp add: all_shown_def)
    then show "res_bind (case se_rg env of Some rg \<Rightarrow> if cs \<noteq> [] then search_with_rg rg g pattern cs else Inr None
          | None \<Rightarrow> Inr None) (\<lambda>found. case found of Some entries \<Rightarrow> Inr (entries, ''rg'')
          | None \<Rightarrow> res_bind (search_with_python env c f pattern cs (gr_output_mode g) (gr_ignore_case g) (gr_multiline g))
             (\<lambda>entries. Inr (entries, ''python'')))
      = res_bind (case se_rg env' of Some rg \<Rightarrow> if cs \<noteq> [] then search_with_rg rg g pattern cs else Inr None
          | None \<Rightarrow> Inr None) (\<lambda>found. case found of Some entries \<Rightarrow> Inr (entries, ''rg'')
          | None \<Rightarrow> res_bind (search_with_python env' c f' pattern cs (gr_output_mode g) (gr_ignore_case g) (gr_multiline g))
             (\<lambda>entries. Inr (entries, ''python'')))"
      using rest by presburger
  qed
qed

lemma visible_same:
  "se_tree env = se_tree env' \<Longrightarrow> same_kinds f f' \<Longrightarrow> visible_matches env c f ps = visible_matches env' c f' ps"
  by (induction ps) (auto simp: same_kinds_def has_allowed_descendant_def intro!: res_bind_cong)

lemma validate_same:
  assumes "same_kinds f f'"
  shows "resolve_and_validate_path r f k raw ws = resolve_and_validate_path r f' k raw ws"
proof -
  have kinds: "path_exists f = path_exists f'" "path_is_file f = path_is_file f'" "path_is_dir f = path_is_dir f'"
    using assms by (simp_all add: same_kinds_def)
  show ?thesis unfolding resolve_and_validate_path_def kinds by (rule refl)
qed

subsection \<open>Failing\<close>

text \<open>A path below the workspace whose resolution is outside makes each loop over paths raise.\<close>

lemma collect_stray:
  "p \<in> set ps \<Longrightarrow> to_workspace_relative c p = Inl e \<Longrightarrow> \<exists>e'. collect_candidates c path_glob ps = Inl e'"
proof (induction ps)
  case (Cons q ps)
  show ?case
  proof (cases "p = q")
    case False
    then obtain e' where "collect_candidates c path_glob ps = Inl e'" using Cons by auto
    then show ?thesis by (auto simp: res_bind_def split: sum.splits)
  qed (use Cons.prems in simp)
qed simp

lemma grep_stray:
  assumes "p \<in> set (walk_files base (se_tree env base))" and "to_workspace_relative c p = Inl e"
    and "\<not> path_is_file f base"
  shows "\<exists>e'. run_claude_grep env c f g pattern base = Inl e'"
proof -
  obtain e' where "collect_candidates c (gr_path_glob g) (walk_files base (se_tree env base)) = Inl e'"
    using collect_stray [OF assms(1,2)] by blast
  then show ?thesis using assms(3) by (simp add: run_claude_grep_def iter_search_candidates_def)
qed

lemma visible_stray:
  "p \<in> set ps \<Longrightarrow> to_workspace_relative c p = Inl e \<Longrightarrow> \<exists>e'. visible_matches env c f ps = Inl e'"
proof (induction ps)
  case (Cons q ps)
  show ?case
  proof (cases "p = q")
    case False
    then obtain e' where "visible_matches env c f ps = Inl e'" using Cons by auto
    then show ?thesis by (auto simp: res_bind_def split: sum.splits)
  qed (use Cons.prems in simp)
qed simp

lemma failure_reported:
  assumes "links_ok c" and v: "resolve_and_validate_path (ctx_os c) f
        (default_checks\<lparr>allow_absolute := True, must_exist := True, must_be_dir := d\<rparr>) requested
        (ctx_workspace_root c) = Inr base"
    and "k base = Inl e"
  shows "\<exists>r. search_root c f op requested d k = Inr r \<and> \<not> tr_ok r \<and>
    starts_with (op @ '' failed: '') (tr_content r)"
proof -
  obtain rel where "to_workspace_relative c base = Inr rel" using good_relative [OF validated_good(1) [OF assms(1,2)]] by blast
  then have "\<exists>r. search_or_report c op requested base (Inl e) = Inr r \<and> \<not> tr_ok r \<and>
      starts_with (op @ '' failed: '') (tr_content r)"
    by (simp add: search_or_report_def tool_failure_def Let_def starts_with_def)
  then show ?thesis unfolding search_root_def v sum.case assms(3) .
qed

lemma failed_texts: "''Grep'' @ '' failed: '' = ''Grep failed: ''" "''Glob'' @ '' failed: '' = ''Glob failed: ''"
  by simp_all

subsection \<open>The properties\<close>

lemma root_same:
  assumes "same_kinds f f'" and "\<And>base. k base = k' base"
  shows "search_root c f op requested d k = search_root c f' op requested d k'"
proof -
  have k: "k = k'" using assms(2) by blast
  show ?thesis unfolding search_root_def validate_same [OF assms(1)] k by (rule refl)
qed

lemma directory_checks:
  assumes "resolve_and_validate_path r f (k\<lparr>must_be_dir := False\<rparr>) raw ws = Inr base" and "path_is_dir f base"
    and "must_exist k"
  shows "resolve_and_validate_path r f (k\<lparr>must_be_dir := True\<rparr>) raw ws = Inr base"
  using assms unfolding resolve_and_validate_path_def
  by (auto split: if_splits option.splits simp: policy_error_def res_bind_Inr_iff)

text \<open>C39: forbidden texts stay hidden.  Whatever a Grep or a Glob answers, errors included, does
  not depend on the text of any file that the task does not allow: in two situations that differ in
  such texts only, both tools answer the same, in Python and with \<open>rg\<close>, provided that \<open>rg\<close> itself looks
  only at the files it is given.\<close>

theorem forbidden_texts_stay_hidden:
  assumes "same_view c (env, f) (env', f')"
  shows "claude_grep_handler env f pattern given_path path_glob output_mode kwargs (Some c)
      = claude_grep_handler env' f' pattern given_path path_glob output_mode kwargs (Some c) \<and>
    claude_glob_handler env f pattern given_path (Some c) = claude_glob_handler env' f' pattern given_path (Some c)"
proof
  have kinds: "same_kinds f f'" and same: "se_glob env = se_glob env'" "se_tree env = se_tree env'"
    using assms by (simp_all add: same_view_def)
  show "claude_grep_handler env f pattern given_path path_glob output_mode kwargs (Some c)
      = claude_grep_handler env' f' pattern given_path path_glob output_mode kwargs (Some c)"
    unfolding claude_grep_handler_def Let_def option.case
    by (rule if_cong [OF refl refl root_same [OF kinds]]) (simp only: grep_same [OF assms])
  show "claude_glob_handler env f pattern given_path (Some c) = claude_glob_handler env' f' pattern given_path (Some c)"
    unfolding claude_glob_handler_def Let_def option.case
    by (rule root_same [OF kinds]) (simp only: same visible_same [OF same(2) kinds])
qed

text \<open>C40: one stray link fails the search.  When a file below the searched directory, and not below
  an ignored one, resolves to a path outside the workspace or cannot be resolved, every Grep of the
  directory with a pattern fails, whatever else there is to be found and whatever its other arguments;
  and so does every Glob of the directory whose pattern finds the file.\<close>

theorem one_stray_link_fails_the_search:
  assumes "links_ok c"
    and "resolve_and_validate_path (ctx_os c) f
        (default_checks\<lparr>allow_absolute := True, must_exist := True, must_be_dir := False\<rparr>) (str_or given_path ''.'')
        (ctx_workspace_root c) = Inr base"
    and "path_is_dir f base"
    and "file_below (se_tree env base) q" and "to_workspace_relative c (base @ q) = Inl e"
  shows "(if pattern = '''' then True
      else \<exists>r. claude_grep_handler env f pattern given_path path_glob output_mode kwargs (Some c) = Inr r \<and>
        \<not> tr_ok r \<and> starts_with ''Grep failed: '' (tr_content r)) \<and>
    (case se_glob env base glob_pattern of
       Inl _ \<Rightarrow> True
     | Inr found \<Rightarrow>
         if base @ q \<in> set found
         then \<exists>r. claude_glob_handler env f glob_pattern given_path (Some c) = Inr r \<and>
           \<not> tr_ok r \<and> starts_with ''Glob failed: '' (tr_content r)
         else True)"
proof
  have nf: "\<not> path_is_file f base" using assms(3) by (auto simp: path_is_file_def path_is_dir_def split: option.splits fs_entry.splits)
  have "base @ q \<in> set (walk_files base (se_tree env base))" using assms(4) by (auto simp: walk_files_set)
  then have "\<forall>g. \<exists>e. run_claude_grep env c f g pattern base = Inl e" using grep_stray assms(5) nf by blast
  then obtain e1 where e1: "run_claude_grep env c f g pattern base = Inl (e1 g)" for g using choice by metis
  have "\<exists>r. claude_grep_handler env f pattern given_path path_glob output_mode kwargs (Some c) = Inr r \<and>
      \<not> tr_ok r \<and> starts_with ''Grep failed: '' (tr_content r)" if "pattern \<noteq> ''''"
    unfolding claude_grep_handler_def Let_def option.case if_not_P [OF that]
    by (rule failure_reported [OF assms(1,2), where op = "''Grep''", unfolded failed_texts]) (simp add: e1)
  then show "if pattern = '''' then True
      else \<exists>r. claude_grep_handler env f pattern given_path path_glob output_mode kwargs (Some c) = Inr r \<and>
        \<not> tr_ok r \<and> starts_with ''Grep failed: '' (tr_content r)" by simp
  have d: "resolve_and_validate_path (ctx_os c) f
        (default_checks\<lparr>allow_absolute := True, must_exist := True, must_be_dir := True\<rparr>) (str_or given_path ''.'')
        (ctx_workspace_root c) = Inr base"
    using directory_checks [OF assms(2,3)] by simp
  have "\<exists>r. claude_glob_handler env f glob_pattern given_path (Some c) = Inr r \<and>
      \<not> tr_ok r \<and> starts_with ''Glob failed: '' (tr_content r)"
    if found: "se_glob env base glob_pattern = Inr found" "base @ q \<in> set found" for found
  proof -
    obtain e2 where e2: "visible_matches env c f (sort found) = Inl e2"
      using visible_stray [OF _ assms(5), of "sort found"] found(2) by auto
    show ?thesis
      unfolding claude_glob_handler_def Let_def option.case
      by (rule failure_reported [OF assms(1) d, where op = "''Glob''", unfolded failed_texts]) (simp add: found(1) e2)
  qed
  then show "case se_glob env base glob_pattern of
       Inl _ \<Rightarrow> True
     | Inr found \<Rightarrow>
         if base @ q \<in> set found
         then \<exists>r. claude_glob_handler env f glob_pattern given_path (Some c) = Inr r \<and>
           \<not> tr_ok r \<and> starts_with ''Glob failed: '' (tr_content r)
         else True"
    by (simp split: sum.split)
qed

text \<open>A Grep considers exactly the files it should.  When the candidates of a directory are
  collected, they are the files that lie below it and not below an ignored directory, that the task
  allows, that match the glob and that do not have a binary suffix, in the order of the walk.\<close>

theorem grep_candidates_exact:
  assumes "iter_search_candidates env c f base path_glob = Inr cs" and "\<not> path_is_file f base"
  shows "map fst cs = filter (wanted c path_glob) (walk_files base (se_tree env base)) \<and>
    set (map fst cs) = {base @ q | q. file_below (se_tree env base) q \<and> wanted c path_glob (base @ q)}"
proof -
  have "map fst cs = filter (wanted c path_glob) (walk_files base (se_tree env base))"
    using assms collect_candidates_exact by (simp add: iter_search_candidates_def)
  then show ?thesis by (auto simp: walk_files_set)
qed

subsection \<open>Examples\<close>

definition guarded_context :: ToolContext where
  "guarded_context = \<lparr>ctx_workspace_root = [''/'', ''w''],
     ctx_task = Some \<lparr>ct_allowed_files = [], ct_forbidden_files = [''secret.txt''], ct_metadata = []\<rparr>,
     ctx_os = plain_os (\<lambda>p. p)\<rparr>"

definition guarded_files :: "string \<Rightarrow> fs" where
  "guarded_files text' = (\<lambda>p. if p = [''/'', ''w'', ''secret.txt''] then Some (File text')
     else if p = [''/'', ''w'', ''a.txt''] then Some (File ''open'')
     else if p = [''/''] \<or> p = [''/'', ''w''] then Some Dir else None)"

definition two_files :: search_env where
  "two_files = \<lparr>se_tree = (\<lambda>p. DirTree [] [''a.txt'', ''secret.txt'']),
     se_glob = (\<lambda>p g. Inr [p @ [''a.txt''], p @ [''secret.txt'']]),
     se_regex = (\<lambda>pattern ic ml. Inr (\<lambda>s. if s = [] then 0 else 1)), se_rg = None\<rparr>"

lemma guarded_secret: "\<not> shown guarded_context [''/'', ''w'', ''secret.txt'']"
  by code_simp

theorem forbidden_texts_stay_hidden_witness:
  "claude_grep_handler two_files (guarded_files ''one'') ''e'' None None (Some ''content'') [] (Some guarded_context)
      = claude_grep_handler two_files (guarded_files ''two'') ''e'' None None (Some ''content'') [] (Some guarded_context) \<and>
    claude_glob_handler two_files (guarded_files ''one'') ''e'' None (Some guarded_context)
      = claude_glob_handler two_files (guarded_files ''two'') ''e'' None (Some guarded_context)"
proof (rule forbidden_texts_stay_hidden)
  have "same_kinds (guarded_files ''one'') (guarded_files ''two'')"
    by (auto simp: same_kinds_def guarded_files_def path_exists_def path_is_file_def path_is_dir_def fun_eq_iff)
  moreover have "guarded_files ''one'' (ctx_resolve guarded_context p) = guarded_files ''two'' (ctx_resolve guarded_context p)"
    if "shown guarded_context p" for p
  proof -
    have "ctx_resolve guarded_context p = p" by (simp add: guarded_context_def plain_os_def)
    moreover have "p \<noteq> [''/'', ''w'', ''secret.txt'']" using that guarded_secret by auto
    ultimately show ?thesis by (simp add: guarded_files_def)
  qed
  ultimately show "same_view guarded_context (two_files, guarded_files ''one'') (two_files, guarded_files ''two'')"
    by (auto simp: same_view_def)
qed

text \<open>A workspace in which \<open>link\<close> points out of it.\<close>

definition linked_context :: ToolContext where
  "linked_context = \<lparr>ctx_workspace_root = [''/'', ''w''], ctx_task = None,
     ctx_os = plain_os (\<lambda>p. if p = [''/'', ''w'', ''link''] then [''/'', ''data''] else p)\<rparr>"

definition linked_files :: search_env where
  "linked_files = two_files\<lparr>se_tree := \<lambda>p. DirTree [] [''a.txt'', ''link''],
     se_glob := \<lambda>p g. Inr [p @ [''a.txt''], p @ [''link'']]\<rparr>"

lemma linked_workspace:
  "resolve_and_validate_path (ctx_os linked_context) (guarded_files ''one'')
     (default_checks\<lparr>allow_absolute := True, must_exist := True, must_be_dir := False\<rparr>) (str_or None ''.'')
     (ctx_workspace_root linked_context) = Inr [''/'', ''w'']"
  by code_simp

theorem one_stray_link_fails_the_search_witness:
  "(\<exists>r. claude_grep_handler linked_files (guarded_files ''one'') ''TODO'' None None None [] (Some linked_context) = Inr r \<and>
      \<not> tr_ok r \<and> starts_with ''Grep failed: '' (tr_content r)) \<and>
    (\<exists>r. claude_glob_handler linked_files (guarded_files ''one'') ''*'' None (Some linked_context) = Inr r \<and>
      \<not> tr_ok r \<and> starts_with ''Glob failed: '' (tr_content r))"
proof -
  have links: "links_ok linked_context"
    by (auto simp: links_ok_def linked_context_def plain_os_def path_resolve_def wf_path_def)
  have dir: "path_is_dir (guarded_files ''one'') [''/'', ''w'']" by code_simp
  have below: "file_below (se_tree linked_files [''/'', ''w'']) [''link'']"
    by (simp add: linked_files_def file_below_simps)
  have out: "to_workspace_relative linked_context ([''/'', ''w''] @ [''link'']) = Inl (StdError ''ValueError'')" by code_simp
  have found: "se_glob linked_files [''/'', ''w''] ''*'' = Inr [[''/'', ''w'', ''a.txt''], [''/'', ''w'', ''link'']]"
    by (simp add: linked_files_def)
  show ?thesis
    using one_stray_link_fails_the_search [OF links linked_workspace dir below out,
        of "''TODO''" None None "[]" "''*''"] found by simp
qed

theorem grep_candidates_exact_witness:
  "map fst [([''/'', ''w'', ''a.txt''], ''a.txt'')]
      = filter (wanted guarded_context None) (walk_files [''/'', ''w''] (se_tree two_files [''/'', ''w''])) \<and>
    set (map fst [([''/'', ''w'', ''a.txt''], ''a.txt'')])
      = {[''/'', ''w''] @ q | q. file_below (se_tree two_files [''/'', ''w'']) q \<and> wanted guarded_context None ([''/'', ''w''] @ q)}"
proof (rule grep_candidates_exact)
  show "iter_search_candidates two_files guarded_context (guarded_files ''one'') [''/'', ''w''] None
    = Inr [([''/'', ''w'', ''a.txt''], ''a.txt'')]" by code_simp
  show "\<not> path_is_file (guarded_files ''one'') [''/'', ''w'']" by code_simp
qed

end
