(* ===== verification/Spec2Isabelle.thy ===== *)
theory Spec2Isabelle
  imports Recovery_Properties Stopping_Properties Turn_State_Properties Compaction_Properties
    History_Properties Path_Properties Strict_Roundtrip Adapter_Roundtrip Token_Properties Agent_Runs
    History_Replay_Properties History_Chain_Properties Mutation_Properties
    Claude_Edit_Properties Claude_Search_Properties
begin

text \<open>
  Verification library for the agent runtime under \<open>src/pycodeagent\<close>.

  \<^bold>\<open>The program.\<close>  \<open>pycodeagent\<close> runs a coding agent.  A turn of \<open>agent/runner.py\<close> selects the
  messages of the next request under a budget (\<open>agent/compaction.py\<close>), with the request history
  kept by \<open>agent/history_manager.py\<close> and logged by \<open>agent/retained_history.py\<close>; sends them to a
  provider and interprets the response (\<open>agent/parser.py\<close>, \<open>agent/llm_client.py\<close>); hands every tool
  call to \<open>tools/runtime.py\<close>, which validates and maps its arguments with \<open>tools/spec.py\<close> and runs
  a handler, such as the patch tool (\<open>tools/patch_runtime.py\<close>, \<open>tools/patch_apply.py\<close>) behind the
  path policy (\<open>env/path_policy.py\<close>, \<open>env/task.py\<close>); records what happened in the trajectory
  (\<open>trajectory/schema.py\<close>), in the session and turn records (\<open>agent/turn_state.py\<close>) and in the
  recovery state (\<open>agent/recovery.py\<close>); and asks \<open>agent/stopping.py\<close> whether to go on.

  \<^bold>\<open>Foundations.\<close>  \<open>Runtime_Prelude\<close>: errors as the left value of a sum, Python text and
  dictionaries as association lists, the named collections.  \<open>Py_Value\<close>: the values of arguments
  and metadata with \<open>==\<close>, truth, \<open>repr\<close> and \<open>json.dumps\<close>.  \<open>Text_Lines\<close>: line splitting, newline
  translation, decimal numbers.  \<open>Py_Path\<close>: pure paths and a file system that is a map, with a
  monad of operations and contracts for them.  \<open>Step_System\<close>: locales for components driven by
  operations, with induction over runs; they are interpreted on the trajectory, the recovery
  state, the session and the request history.

  \<^bold>\<open>Components\<close>, one group of theories each.
    \<^item> \<open>Recovery_Types\<close>, \<open>Recovery\<close>: the records and enumerations of \<open>agent/recovery.py\<close> and every
      operation of \<open>RuntimeRecoveryState\<close> and of the completion and validation policy.
      \<open>Recovery_Facts\<close>, \<open>Recovery_Runs\<close> and \<open>Recovery_Properties\<close> show the invariant along all runs
      of events, which events clear a failure, the budgets, and when evidence goes stale.
    \<^item> \<open>Stopping\<close>: \<open>should_stop\<close> with the decision of each branch; \<open>Stopping_Properties\<close>: the order of
      the branches and that repeated completion attempts end the run.
    \<^item> \<open>Turn_State_Types\<close>, \<open>Turn_State\<close>: \<open>agent/turn_state.py\<close>, and \<open>Turn_State_Properties\<close>: the
      session invariant, the ledger of pending issues, phases and token estimates.
    \<^item> \<open>Compaction\<close>: every selection policy of \<open>agent/compaction.py\<close>, the plan of a request and the
      model-backed step; \<open>Compaction_Properties\<close>: pinned messages stay, budgets hold, the compacted
      prefix is the shortest, turn ranges partition the messages.
    \<^item> \<open>Retained_History\<close>, \<open>History_Manager\<close>, \<open>Context_Runner\<close>: the retained log with its JSON lines, the
      request items and the context step of the runner; their properties: no message is lost or
      duplicated over a run, the log reads back as it was written as long as no line holds a character
      at which \<open>splitlines\<close> breaks, replayed entries are the ones written, and what a second
      compaction does.
    \<^item> \<open>Request_Context\<close>, \<open>History_Replay\<close>, \<open>History_Reports\<close>, \<open>History_Reconciliation\<close>: the log of
      the context of every request, and what is rebuilt from the stored histories without the run:
      its requests (\<open>agent/history_replay.py\<close>), their verification, lineage, reconciliation, chain and
      evolution.  \<open>History_Replay_Properties\<close>: the stored entries give every request back, and what the
      verification says of a healthy run; \<open>History_Chain_Properties\<close>: the chain is the navigation of
      the bundle.
    \<^item> \<open>Trajectory_Schema\<close>, \<open>Response_Parser\<close>: messages, calls and their recording; native responses.
    \<^item> \<open>Coding_Task\<close>, \<open>Path_Policy\<close>, \<open>Path_Properties\<close>: \<open>fnmatch\<close> patterns, the write policy and the
      exactness of its lexical check.
    \<^item> \<open>Patch_Apply\<close>, \<open>Patch_Runtime\<close>: unified diffs and freeform patches, parsed and applied;
      \<open>Patch_Properties\<close>: only writable files change; \<open>Diff_Roundtrip\<close> and \<open>Strict_Roundtrip\<close>: a diff whose
      hunks have old lines turns a file without carriage returns into the new one, a printed patch
      parses back, and what goes wrong with other diffs.
    \<^item> \<open>Claude_Files\<close>: \<open>Read\<close>, \<open>Edit\<close> and \<open>Write\<close> of \<open>tools/families/claude.py\<close>, over the files, the times
      of their last change and what the model saw of them; \<open>Claude_Search\<close>: \<open>Grep\<close> and \<open>Glob\<close>.
      \<open>Claude_Files_Properties\<close>: the tools refine an abstract machine and, along any run of calls and
      changes by others, overwrite nothing that no earlier call saw in full; \<open>Claude_Edit_Properties\<close>:
      what an edit replaces and a read shows; \<open>Claude_Search_Properties\<close>: which files a search
      considers, that it depends on no text the task hides, and how one link out of the workspace
      makes it fail.
    \<^item> \<open>Tool_Spec\<close>, \<open>Tool_Runtime\<close>: schema validation, adapters, profiles, the registry, and a call up
      to its handler; \<open>Tool_Properties\<close>: validation decides a typing relation and handlers only see
      arguments of that type; \<open>Adapter_Roundtrip\<close>: mapping undoes projecting, and fills in the defaults.
    \<^item> \<open>Tool_Mutation\<close>, \<open>Profile_Sampler\<close>: the mutators of names, descriptions and schemas, the loading of
      profiles and the sampler of \<open>mutations/profile_sampler.py\<close>, with the native base profiles of
      \<open>tools/profile_factory.py\<close>; \<open>Mutation_Properties\<close>: a mode changes its own axes only, mutates where
      there is an alternative, and calls keep their meaning; where names collide they do not.
    \<^item> \<open>Training_Text\<close>, \<open>Prepared_Sample\<close>: text segments, loss masks, prepared samples and rollouts
      (\<open>rl/serializer.py\<close>, \<open>rl/loss_mask.py\<close>, \<open>rl/sample_builder.py\<close>, \<open>rl/contract.py\<close>);
      \<open>Training_Properties\<close>: what is built from a trajectory passes every check.
    \<^item> \<open>Tokenization\<close>, \<open>Packing\<close>: mask alignment, tensors, samples of the trainer, packed sequences;
      \<open>Token_Properties\<close> (with the locale \<open>covering_tokenizer\<close>, interpreted on the fake tokenizer)
      and \<open>Packing_Properties\<close>: the trained tokens are those of the trained characters, and
      unpacking gives the examples back.
    \<^item> \<open>Turn_Loop\<close>: \<open>run_agent_task\<close>, which composes the components above: the start of a turn, its
      request, the response, the dispatch of the calls, the stop decision, a failing client, and the
      loop.  \<open>Turn_Loop_Properties\<close>: what each stage keeps, and the locale \<open>agent_loop\<close> (facts about
      one turn give facts about all), interpreted on the runner; \<open>Agent_Runs\<close>: a run returns within
      its turns, a completed run was validated, every call is answered, a blocked finish never runs.

  \<^bold>\<open>Correspondence.\<close>  A definition has the name of the function or class it models, without the
  leading underscore; the fields of a record have a prefix per record, since selectors are global.
  A loop is a recursive function of its accumulators named after the function it is part of.  A
  method that changes its object returns the changed record; an exception is a left value.

  \<^bold>\<open>Parameters.\<close>  The client (its reply is a function of the turn and the request), clocks, the
  resolution of paths by the operating system and the exceptions it raises there (\<open>path_os\<close>), tool
  handlers (functions on a world the model does not look into), directories, regular expressions,
  \<open>Path.glob\<close> and \<open>rg\<close>, tokenizers, hashes (\<open>sha\<close>), the loading of an entry from its JSON line by
  pydantic, and \<open>model_dump\<close> of records that are only stored are arguments of the definitions.
  Hypotheses on them, where a property needs any, are in its statement.  Of reading and writing a file,
  only the failures that the file system as a map can show are modelled, not a full disk or a missing
  permission.

  \<^bold>\<open>Aliasing.\<close>  The runner shares the recovery state with the session and a tool call with the message
  that made it; the model keeps one copy of each and writes where the code writes.

  \<^bold>\<open>Bounds.\<close>  No definition needs fuel: every recursion is structural or has a measure; that of the
  turn loop is the number of turns left.  Python integers are \<open>int\<close>.  Characters are code points
  below 256.  Floats are rational numbers, carried with their printed form where they are printed;
  \<open>NaN\<close>, infinities and rounding are outside.

  \<^bold>\<open>Not modelled.\<close>  Provider clients, subprocesses, trace events, files of reports and data sets and
  the command line are input and output around third-party services; the vendored trainer
  \<open>src/slime-main\<close> is not part of the program.  The tools of \<open>tools/families\<close> that run commands
  (Bash and those of the Codex family) and the tables of schemas, the report of
  \<open>agent/compaction_acceptance.py\<close> over files, what \<open>agent/prompt.py\<close> and \<open>rl/contract.py\<close> have besides
  the parts named above, and the generation and evaluation of data sets are not modelled.
\<close>

end
